(* ===== verification/Prelude.thy ===== *)
theory Prelude
  imports Main "HOL-Library.List_Lexorder" "HOL-Library.Char_ord"
begin

text \<open>
  Shared vocabulary of the development: the errors the program raises as values, the
  sequencing of fallible steps, SQL-like operations on tables kept as lists of rows in
  insertion order, and the two interfaces (an append-only keyed table, a keyed table with
  guarded updates) that the store's tables provide.
\<close>

section \<open>Errors as values\<close>

text \<open>
  \<open>StoreError code\<close> is the program's fail-closed error with its stable machine code (the
  human-readable detail is dropped), \<open>IntegrityError\<close> is what SQLite raises when a
  constraint or a trigger rejects a statement, \<open>SealError code\<close> and \<open>BoundaryError code\<close>
  are \<open>ArtifactSealError\<close> and \<open>EvaluatorBoundaryError\<close>,
  \<open>PythonError\<close> any other exception, by class.
\<close>

datatype store_error =
    StoreError string
  | IntegrityError string
  | SealError string
  | BoundaryError string
  | PythonError string

type_synonym 'a result = "store_error + 'a"

named_theorems success
  \<open>rules that turn \<open>m = Inr y\<close> into the conjunction of guards that had to pass\<close>

definition bnd :: "'e + 'a \<Rightarrow> ('a \<Rightarrow> 'e + 'b) \<Rightarrow> 'e + 'b" where
  "bnd m f = (case m of Inl e \<Rightarrow> Inl e | Inr x \<Rightarrow> f x)"

lemma bnd_simps [simp]:
  "bnd (Inl e) f = Inl e"
  "bnd (Inr x) f = f x"
  by (simp_all add: bnd_def)

lemma bnd_eq_Inr [success]: "bnd m f = Inr y \<longleftrightarrow> (\<exists>x. m = Inr x \<and> f x = Inr y)"
  by (cases m) auto

lemma bnd_eq_Inl: "bnd m f = Inl e \<longleftrightarrow> m = Inl e \<or> (\<exists>x. m = Inr x \<and> f x = Inl e)"
  by (cases m) auto

lemma bnd_assoc: "bnd (bnd m f) g = bnd m (\<lambda>x. bnd (f x) g)"
  by (cases m) auto

lemma reject_eq_Inr [success]: "(if c then Inl e else m) = Inr y \<longleftrightarrow> \<not> c \<and> m = Inr y"
  by auto

lemma require_eq_Inr [success]: "(if c then m else Inl e) = Inr y \<longleftrightarrow> c \<and> m = Inr y"
  by auto

text \<open>
  Elimination of a successful run, one guard or step at a time: unlike rewriting, this never
  reorders what the run established.
\<close>

lemma bnd_InrE: "bnd m f = Inr y \<Longrightarrow> (\<And>x. m = Inr x \<Longrightarrow> f x = Inr y \<Longrightarrow> P) \<Longrightarrow> P"
  by (cases m) auto

lemma if_InrE: "(if c then a else b) = (Inr y :: 'e + 'a) \<Longrightarrow> (c \<Longrightarrow> a = Inr y \<Longrightarrow> P)
    \<Longrightarrow> (\<not> c \<Longrightarrow> b = Inr y \<Longrightarrow> P) \<Longrightarrow> P"
  by (cases c) auto

lemma option_InrE: "(case x of None \<Rightarrow> a | Some z \<Rightarrow> b z) = (Inr y :: 'e + 'a)
    \<Longrightarrow> (x = None \<Longrightarrow> a = Inr y \<Longrightarrow> P) \<Longrightarrow> (\<And>z. x = Some z \<Longrightarrow> b z = Inr y \<Longrightarrow> P) \<Longrightarrow> P"
  by (cases x) auto

lemma prod_InrE: "(case x of (s, t) \<Rightarrow> f s t) = (Inr y :: 'e + 'a)
    \<Longrightarrow> (\<And>s t. x = (s, t) \<Longrightarrow> f s t = Inr y \<Longrightarrow> P) \<Longrightarrow> P"
  by (cases x) auto

lemma Inl_InrE: "Inl e = (Inr y :: 'e + 'a) \<Longrightarrow> P"
  by simp

lemmas step_elims = Inl_InrE bnd_InrE if_InrE option_InrE prod_InrE

definition of_option :: "'e \<Rightarrow> 'a option \<Rightarrow> 'e + 'a" where
  "of_option e x = (case x of None \<Rightarrow> Inl e | Some a \<Rightarrow> Inr a)"

lemma of_option_simps [simp]:
  "of_option e None = Inl e"
  "of_option e (Some a) = Inr a"
  by (simp_all add: of_option_def)

lemma of_option_eq_Inr [success]: "of_option e x = Inr a \<longleftrightarrow> x = Some a"
  by (cases x) auto

lemma of_option_eq_Inl: "of_option e x = Inl e' \<longleftrightarrow> x = None \<and> e' = e"
  by (cases x) auto

section \<open>Tables as lists of rows\<close>

text \<open>
  A table is the list of its rows in insertion order. \<open>find\<close> is \<open>SELECT ... fetchone()\<close>,
  \<open>find_last\<close> is \<open>ORDER BY seq DESC LIMIT 1\<close>, \<open>update_where\<close> is
  \<open>UPDATE ... WHERE\<close> and \<open>row_count\<close> is the statement's \<open>rowcount\<close>.
\<close>

definition find_last :: "('r \<Rightarrow> bool) \<Rightarrow> 'r list \<Rightarrow> 'r option" where
  "find_last p rows = find p (rev rows)"

definition update_where :: "('r \<Rightarrow> bool) \<Rightarrow> ('r \<Rightarrow> 'r) \<Rightarrow> 'r list \<Rightarrow> 'r list" where
  "update_where p f rows = map (\<lambda>r. if p r then f r else r) rows"

definition row_count :: "('r \<Rightarrow> bool) \<Rightarrow> 'r list \<Rightarrow> nat" where
  "row_count p rows = length (filter p rows)"

lemma find_append: "find p (xs @ ys) = (case find p xs of None \<Rightarrow> find p ys | Some x \<Rightarrow> Some x)"
  by (induction xs) auto

lemma find_SomeD: "find p xs = Some x \<Longrightarrow> x \<in> set xs \<and> p x"
  by (induction xs) (auto split: if_splits)

lemma find_eq_None: "find p xs = None \<longleftrightarrow> (\<forall>x\<in>set xs. \<not> p x)"
  by (induction xs) auto

lemma find_cong_set: "(\<And>x. x \<in> set xs \<Longrightarrow> p x = q x) \<Longrightarrow> find p xs = find q xs"
  by (induction xs) auto

lemma find_last_SomeD: "find_last p xs = Some x \<Longrightarrow> x \<in> set xs \<and> p x"
  unfolding find_last_def by (drule find_SomeD) simp

lemma find_last_snoc [simp]:
  "find_last p (xs @ [x]) = (if p x then Some x else find_last p xs)"
  by (simp add: find_last_def)

lemma find_last_Nil [simp]: "find_last p [] = None"
  by (simp add: find_last_def)

lemma find_update_where:
  assumes "\<And>r. key (f r) = key r"
  shows "find (\<lambda>r. key r = k) (update_where p f rows) =
    map_option (\<lambda>r. if p r then f r else r) (find (\<lambda>r. key r = k) rows)"
  by (induction rows) (auto simp: update_where_def assms)

lemma map_key_update_where:
  assumes "\<And>r. key (f r) = key r"
  shows "map key (update_where p f rows) = map key rows"
  by (auto simp: update_where_def assms)

lemma length_update_where [simp]: "length (update_where p f rows) = length rows"
  by (simp add: update_where_def)

lemma set_update_where: "r \<in> set (update_where p f rows) \<longleftrightarrow>
    (\<exists>r0\<in>set rows. r = (if p r0 then f r0 else r0))"
  by (auto simp: update_where_def)

lemma find_unique_key:
  assumes "distinct (map key rows)" and "r \<in> set rows"
  shows "find (\<lambda>x. key x = key r) rows = Some r"
  using assms by (induction rows) (auto simp: image_iff)

lemma row_count_unique_key:
  assumes "distinct (map key rows)"
  shows "row_count (\<lambda>r. key r = k \<and> q r) rows =
    (case find (\<lambda>r. key r = k) rows of None \<Rightarrow> 0 | Some r \<Rightarrow> if q r then 1 else 0)"
proof -
  have "k \<notin> set (map key rows) \<Longrightarrow> filter (\<lambda>r. key r = k \<and> q r) rows = []" for rows
    by (induction rows) auto
  with assms show ?thesis
    by (induction rows) (auto simp: row_count_def)
qed

section \<open>Table interfaces\<close>

text \<open>
  What the operations of the store rely on when they read a table back: a committed insert
  makes exactly its own key visible with exactly its own row, and an insert under a key that
  is present is refused.
\<close>

locale append_table =
  fixes key :: "'r \<Rightarrow> 'k"
    and get :: "'k \<Rightarrow> 'd \<Rightarrow> 'r option"
    and put :: "'r \<Rightarrow> 'd \<Rightarrow> 'd result"
  assumes get_put: "put r d = Inr d' \<Longrightarrow> get k d' = (if k = key r then Some r else get k d)"
    and put_fresh: "put r d = Inr d' \<Longrightarrow> get (key r) d = None"
    and get_key: "get k d = Some r \<Longrightarrow> key r = k"
begin

lemma get_put_same: "put r d = Inr d' \<Longrightarrow> get (key r) d' = Some r"
  by (simp add: get_put)

lemma put_keeps: "put r d = Inr d' \<Longrightarrow> get k d = Some r0 \<Longrightarrow> get k d' = Some r0"
  using get_put [of r d d' k] put_fresh [of r d d'] by (cases "k = key r") auto

lemma put_twice_refused:
  assumes "put r d = Inr d'" and "key s = key r"
  shows "\<exists>e. put s d' = Inl e"
proof (cases "put s d'")
  case (Inr d'')
  then have "get (key s) d' = None" by (rule put_fresh)
  with assms get_put_same [OF assms(1)] show ?thesis by simp
qed simp

end

text \<open>
  A table that is also updated in place. The client's update is guarded by a condition on
  the row (the \<open>WHERE\<close> clause) and never changes the key.
\<close>

locale guarded_table = append_table key get put
  for key :: "'r \<Rightarrow> 'k" and get :: "'k \<Rightarrow> 'd \<Rightarrow> 'r option" and put :: "'r \<Rightarrow> 'd \<Rightarrow> 'd result" +
  fixes modify :: "('r \<Rightarrow> bool) \<Rightarrow> ('r \<Rightarrow> 'r) \<Rightarrow> 'd \<Rightarrow> ('d \<times> nat) result"
  assumes get_modify: "modify p f d = Inr (d', n) \<Longrightarrow> (\<And>r. key (f r) = key r) \<Longrightarrow>
      get k d' = map_option (\<lambda>r. if p r then f r else r) (get k d)"
begin

lemma get_modify_other:
  assumes "modify p f d = Inr (d', n)" and "\<And>r. key (f r) = key r"
    and "\<And>r. p r \<Longrightarrow> key r \<noteq> k"
  shows "get k d' = get k d"
proof (cases "get k d")
  case (Some r)
  then have "\<not> p r" using assms(3) get_key by blast
  with Some get_modify [OF assms(1,2)] show ?thesis by simp
qed (use get_modify [OF assms(1,2)] in simp)

lemma get_modify_hit:
  assumes "modify p f d = Inr (d', n)" and "\<And>r. key (f r) = key r"
    and "get k d = Some r" and "p r"
  shows "get k d' = Some (f r)"
  using get_modify [OF assms(1,2), of k] assms(3,4) by simp

end

section \<open>Step relations\<close>

text \<open>
  A property every step keeps holds in every state that steps reach, and a measure no step
  decreases never decreases. The step relations of the components are interpreted here.
\<close>

locale kept_by =
  fixes step :: "'s \<Rightarrow> 's \<Rightarrow> bool"
    and good :: "'s \<Rightarrow> bool"
  assumes kept: "step s t \<Longrightarrow> good s \<Longrightarrow> good t"
begin

lemma kept_star: "step\<^sup>*\<^sup>* s t \<Longrightarrow> good s \<Longrightarrow> good t"
  by (induction rule: rtranclp_induct) (auto intro: kept)

end

locale grows_along =
  fixes step :: "'s \<Rightarrow> 's \<Rightarrow> bool"
    and level :: "'s \<Rightarrow> int"
  assumes grows: "step s t \<Longrightarrow> level s \<le> level t"
begin

lemma grows_star: "step\<^sup>*\<^sup>* s t \<Longrightarrow> level s \<le> level t"
proof (induction rule: rtranclp_induct)
  case (step t u)
  then show ?case using grows [of t u] by linarith
qed simp

lemma overtaken: "step\<^sup>*\<^sup>* s t \<Longrightarrow> n < level s \<Longrightarrow> level t \<noteq> n"
  using grows_star by fastforce

end

text \<open>
  Operations on a database that the program presents to its clients through a view: each one
  is at most some steps of the abstract relation, so what the steps keep, the operations keep.
\<close>

locale refines = kept_by step good
  for step :: "'s \<Rightarrow> 's \<Rightarrow> bool" and good :: "'s \<Rightarrow> bool" +
  fixes view :: "'d \<Rightarrow> 's"
    and operation :: "'d \<Rightarrow> 'd \<Rightarrow> bool"
  assumes simulated: "operation d d' \<Longrightarrow> step\<^sup>*\<^sup>* (view d) (view d')"
begin

lemma run_simulated: "operation\<^sup>*\<^sup>* d d' \<Longrightarrow> step\<^sup>*\<^sup>* (view d) (view d')"
proof (induction rule: rtranclp_induct)
  case (step d' d'')
  then show ?case using simulated by (meson rtranclp_trans)
qed simp

lemma run_keeps: "operation\<^sup>*\<^sup>* d d' \<Longrightarrow> good (view d) \<Longrightarrow> good (view d')"
  using run_simulated kept_star by blast

end

end
