(* ===== verification/Canonical.thy ===== *)
theory Canonical
  imports Prelude "HOL-Library.Monad_Syntax"
begin

text \<open>
  Canonical JSON (\<open>src/adcp/canonical.py\<close>). Python strings are modelled by their UTF-8
  bytes: with \<open>ensure_ascii=False\<close> the serialiser escapes only bytes below \<open>0x80\<close>, and
  the order of code points is the order of the UTF-8 bytes, so \<open>sort_keys\<close> sorts the same
  way. \<open>loads\<close> is the standard library's \<open>json.loads\<close>; the main facts are that it inverts
  the canonical serialiser and that the serialiser is injective up to the order of keys.
\<close>

section \<open>Values\<close>

text \<open>
  A Python value as \<open>_validate\<close> sees it; \<open>POther\<close> is any unsupported type, by name. Of a float only
  this matters anywhere: \<open>PWhole\<close> is one that equals an integer, \<open>PFloat\<close> any other, and any float in a
  place where it is refused without being compared.
\<close>

datatype pyval =
    PNone | PBool bool | PInt int | PFloat | PWhole int | PStr string
  | PList "pyval list"
  | PDict "(pyval \<times> pyval) list"
  | POther string

text \<open>
  A JSON document. \<open>JFloat\<close> carries the literal of a number with a fraction or an exponent:
  \<open>json.loads\<close> produces it, the canonical profile refuses it.
\<close>

datatype json =
    JNull | JBool bool | JInt int | JFloat string | JStr string
  | JList "json list"
  | JObj "(string \<times> json) list"

definition canonicalization_error :: store_error where
  "canonicalization_error = PythonError ''CanonicalizationError''"

fun seq_results :: "'a result list \<Rightarrow> 'a list result" where
  "seq_results [] = Inr []"
| "seq_results (r # rs) = bnd r (\<lambda>x. bnd (seq_results rs) (\<lambda>xs. Inr (x # xs)))"

text \<open>\<open>_validate\<close>, in its order of checks; the accepted value comes back as a document.\<close>

fun validate_value :: "pyval \<Rightarrow> json result" where
  "validate_value PNone = Inr JNull"
| "validate_value (PStr s) = Inr (JStr s)"
| "validate_value (PBool b) = Inr (JBool b)"
| "validate_value (PInt i) = Inr (JInt i)"
| "validate_value PFloat = Inl canonicalization_error"
| "validate_value (PWhole _) = Inl canonicalization_error"
| "validate_value (PList xs) = bnd (seq_results (map validate_value xs)) (\<lambda>js. Inr (JList js))"
| "validate_value (PDict kvs) =
     bnd (seq_results (map (\<lambda>(k, v). case k of
            PStr s \<Rightarrow> bnd (validate_value v) (\<lambda>j. Inr (s, j))
          | _ \<Rightarrow> Inl canonicalization_error) kvs))
       (\<lambda>js. Inr (JObj js))"
| "validate_value (POther _) = Inl canonicalization_error"

section \<open>The serialiser\<close>

fun nat_text :: "nat \<Rightarrow> string" where
  "nat_text n = (if n < 10 then [char_of (48 + n)]
    else nat_text (n div 10) @ [char_of (48 + n mod 10)])"

declare nat_text.simps [simp del]

definition int_text :: "int \<Rightarrow> string" where
  "int_text i = (if i < 0 then CHR ''-'' # nat_text (nat (- i)) else nat_text (nat i))"

definition hex_digit :: "nat \<Rightarrow> char" where
  "hex_digit n = char_of (if n < 10 then 48 + n else 87 + n)"

definition escape_char :: "char \<Rightarrow> string" where
  "escape_char c =
    (if c = CHR 0x22 then [CHR 0x5C, CHR 0x22]
     else if c = CHR 0x5C then [CHR 0x5C, CHR 0x5C]
     else if c = CHR 0x0A then [CHR 0x5C, CHR ''n'']
     else if c = CHR 0x0D then [CHR 0x5C, CHR ''r'']
     else if c = CHR 0x09 then [CHR 0x5C, CHR ''t'']
     else if c = CHR 0x08 then [CHR 0x5C, CHR ''b'']
     else if c = CHR 0x0C then [CHR 0x5C, CHR ''f'']
     else if (of_char c :: nat) < 32 then
       [CHR 0x5C, CHR ''u'', CHR ''0'', CHR ''0'', hex_digit (of_char c div 16), hex_digit (of_char c mod 16)]
     else [c])"

definition quote :: "string \<Rightarrow> string" where
  "quote s = CHR 0x22 # concat (map escape_char s) @ [CHR 0x22]"

fun join_commas :: "string list \<Rightarrow> string" where
  "join_commas [] = []"
| "join_commas [x] = x"
| "join_commas (x # y # xs) = x @ CHR '','' # join_commas (y # xs)"

text \<open>
  \<open>json.dumps(value, ensure_ascii=False, sort_keys=True, separators=(",", ":"))\<close>.
\<close>

fun dumps :: "json \<Rightarrow> string" where
  "dumps JNull = ''null''"
| "dumps (JBool b) = (if b then ''true'' else ''false'')"
| "dumps (JInt i) = int_text i"
| "dumps (JFloat lit) = lit"
| "dumps (JStr s) = quote s"
| "dumps (JList xs) = CHR ''['' # join_commas (map dumps xs) @ '']''"
| "dumps (JObj kvs) = CHR ''{'' #
     join_commas (map snd (sort_key fst (map (\<lambda>(k, v). (k, quote k @ CHR '':'' # dumps v)) kvs))) @ ''}''"

definition canonical_json :: "pyval \<Rightarrow> string result" where
  "canonical_json v = bnd (validate_value v) (\<lambda>j. Inr (dumps j))"

definition canonical_sha256 :: "(string \<Rightarrow> string) \<Rightarrow> pyval \<Rightarrow> string result" where
  "canonical_sha256 sha v = bnd (canonical_json v) (\<lambda>s. Inr (sha s))"

text \<open>\<open>dict.get\<close> on an object; any other value has no members.\<close>

fun member :: "string \<Rightarrow> json \<Rightarrow> json option" where
  "member k (JObj kvs) = map_of kvs k"
| "member k _ = None"

section \<open>The parser\<close>

fun skip_ws :: "string \<Rightarrow> string" where
  "skip_ws [] = []"
| "skip_ws (c # cs) = (if c \<in> {CHR '' '', CHR 0x09, CHR 0x0A, CHR 0x0D} then skip_ws cs else c # cs)"

definition is_digit :: "char \<Rightarrow> bool" where
  "is_digit c \<longleftrightarrow> 48 \<le> (of_char c :: nat) \<and> (of_char c :: nat) \<le> 57"

definition hex_value :: "char \<Rightarrow> nat option" where
  "hex_value c = (let n = of_char c in
     if 48 \<le> n \<and> n \<le> 57 then Some (n - 48)
     else if 97 \<le> n \<and> n \<le> 102 then Some (n - 87)
     else if 65 \<le> n \<and> n \<le> 70 then Some (n - 55) else None)"

fun hex4 :: "string \<Rightarrow> (nat \<times> string) option" where
  "hex4 (a # b # c # d # cs) =
     do { w \<leftarrow> hex_value a; x \<leftarrow> hex_value b; y \<leftarrow> hex_value c; z \<leftarrow> hex_value d;
          Some (((w * 16 + x) * 16 + y) * 16 + z, cs) }"
| "hex4 _ = None"

text \<open>UTF-8 of a code point; a lone surrogate keeps its three-byte form.\<close>

definition utf8 :: "nat \<Rightarrow> string" where
  "utf8 n =
    (if n < 128 then [char_of n]
     else if n < 2048 then [char_of (192 + n div 64), char_of (128 + n mod 64)]
     else if n < 65536 then
       [char_of (224 + n div 4096), char_of (128 + n div 64 mod 64), char_of (128 + n mod 64)]
     else [char_of (240 + n div 262144), char_of (128 + n div 4096 mod 64),
           char_of (128 + n div 64 mod 64), char_of (128 + n mod 64)])"

definition unicode_escape :: "string \<Rightarrow> (string \<times> string) option" where
  "unicode_escape s =
    do { (u, r) \<leftarrow> hex4 s;
         if 55296 \<le> u \<and> u \<le> 56319 then
           (case r of b # e # r' \<Rightarrow>
              if b = CHR 0x5C \<and> e = CHR ''u'' then
                do { (v, r'') \<leftarrow> hex4 r';
                     if 56320 \<le> v \<and> v \<le> 57343
                     then Some (utf8 (65536 + (u - 55296) * 1024 + (v - 56320)), r'')
                     else Some (utf8 u, r) }
              else Some (utf8 u, r)
            | _ \<Rightarrow> Some (utf8 u, r))
         else Some (utf8 u, r) }"

definition simple_escape :: "char \<Rightarrow> char option" where
  "simple_escape c =
    (if c \<in> {CHR 0x22, CHR 0x5C, CHR ''/''} then Some c
     else if c = CHR ''b'' then Some (CHR 0x08)
     else if c = CHR ''f'' then Some (CHR 0x0C)
     else if c = CHR ''n'' then Some (CHR 0x0A)
     else if c = CHR ''r'' then Some (CHR 0x0D)
     else if c = CHR ''t'' then Some (CHR 0x09)
     else None)"

text \<open>
  \<open>scanstring\<close> in strict mode, after the opening quote. A fuel of the length of the text is
  enough: every call consumes a character.
\<close>

fun scan_string :: "nat \<Rightarrow> string \<Rightarrow> (string \<times> string) option" where
  "scan_string 0 _ = None"
| "scan_string (Suc n) [] = None"
| "scan_string (Suc n) (c # cs) =
     (if c = CHR 0x22 then Some ([], cs)
      else if c = CHR 0x5C then
        (case cs of [] \<Rightarrow> None | e # r \<Rightarrow>
           do { (out, r') \<leftarrow> (if e = CHR ''u'' then unicode_escape r
                  else map_option (\<lambda>x. ([x], r)) (simple_escape e));
                (t, rest) \<leftarrow> scan_string n r';
                Some (out @ t, rest) })
      else if (of_char c :: nat) < 32 then None
      else do { (t, rest) \<leftarrow> scan_string n cs; Some (c # t, rest) })"

definition digits_value :: "string \<Rightarrow> nat" where
  "digits_value ds = foldl (\<lambda>a c. 10 * a + (of_char c - 48)) 0 ds"

text \<open>The integer part \<open>0|[1-9]\<backslash>d*\<close> of a number: the digits and the rest.\<close>

definition int_part :: "string \<Rightarrow> (string \<times> string) option" where
  "int_part s = (case s of [] \<Rightarrow> None | c # cs \<Rightarrow>
     if c = CHR ''0'' then Some ([c], cs)
     else if is_digit c then Some (takeWhile is_digit s, dropWhile is_digit s)
     else None)"

definition frac_part :: "string \<Rightarrow> string \<times> string" where
  "frac_part s = (case s of c # d # cs \<Rightarrow>
     if c = CHR ''.'' \<and> is_digit d then (c # takeWhile is_digit (d # cs), dropWhile is_digit (d # cs))
     else ([], s) | _ \<Rightarrow> ([], s))"

definition exp_part :: "string \<Rightarrow> string \<times> string" where
  "exp_part s = (case s of [] \<Rightarrow> ([], s) | c # cs \<Rightarrow>
     if c = CHR ''e'' \<or> c = CHR ''E'' then
       (let (sign, r) = (case cs of x # y \<Rightarrow> if x = CHR ''+'' \<or> x = CHR ''-'' then ([x], y) else ([], cs)
                                  | [] \<Rightarrow> ([], cs));
            ds = takeWhile is_digit r
        in if ds = [] then ([], s) else (c # sign @ ds, dropWhile is_digit r))
     else ([], s))"

definition scan_number :: "string \<Rightarrow> (json \<times> string) option" where
  "scan_number s =
    (let (neg, s') = (case s of c # cs \<Rightarrow> if c = CHR ''-'' then (True, cs) else (False, s) | [] \<Rightarrow> (False, s))
     in do { (ds, r) \<leftarrow> int_part s';
             let (fr, r1) = frac_part r;
             let (ex, r2) = exp_part r1;
             Some (if fr = [] \<and> ex = []
                   then JInt (if neg then - int (digits_value ds) else int (digits_value ds))
                   else JFloat ((if neg then ''-'' else []) @ ds @ fr @ ex), r2) })"

definition literal :: "string \<Rightarrow> json \<Rightarrow> string \<Rightarrow> (json \<times> string) option" where
  "literal w v s = (if take (length w) s = w then Some (v, drop (length w) s) else None)"

definition scan_atom :: "string \<Rightarrow> (json \<times> string) option" where
  "scan_atom s = (case s of [] \<Rightarrow> None | c # _ \<Rightarrow>
     if c = CHR ''n'' then literal ''null'' JNull s
     else if c = CHR ''t'' then literal ''true'' (JBool True) s
     else if c = CHR ''f'' then literal ''false'' (JBool False) s
     else if c = CHR ''N'' then literal ''NaN'' (JFloat ''NaN'') s
     else if c = CHR ''I'' then literal ''Infinity'' (JFloat ''Infinity'') s
     else if take 2 s = ''-I'' then literal ''-Infinity'' (JFloat ''-Infinity'') s
     else scan_number s)"

text \<open>A repeated key keeps its first position and its last value, as in a \<open>dict\<close>.\<close>

fun dict_set :: "string \<Rightarrow> 'v \<Rightarrow> (string \<times> 'v) list \<Rightarrow> (string \<times> 'v) list" where
  "dict_set k v [] = [(k, v)]"
| "dict_set k v ((k', v') # d) = (if k = k' then (k, v) # d else (k', v') # dict_set k v d)"

definition dict_of :: "(string \<times> 'v) list \<Rightarrow> (string \<times> 'v) list" where
  "dict_of kvs = foldl (\<lambda>d (k, v). dict_set k v d) [] kvs"

fun scan_value :: "nat \<Rightarrow> string \<Rightarrow> (json \<times> string) option"
  and scan_items :: "nat \<Rightarrow> string \<Rightarrow> (json list \<times> string) option"
  and scan_members :: "nat \<Rightarrow> string \<Rightarrow> ((string \<times> json) list \<times> string) option" where
  "scan_value 0 _ = None"
| "scan_value (Suc n) [] = None"
| "scan_value (Suc n) (c # cs) =
     (if c = CHR 0x22 then do { (t, r) \<leftarrow> scan_string (Suc (length cs)) cs; Some (JStr t, r) }
      else if c = CHR ''['' then
        (case skip_ws cs of [] \<Rightarrow> None | d # ds \<Rightarrow>
           if d = CHR '']'' then Some (JList [], ds)
           else do { (xs, r) \<leftarrow> scan_items n (d # ds); Some (JList xs, r) })
      else if c = CHR ''{'' then
        (case skip_ws cs of [] \<Rightarrow> None | d # ds \<Rightarrow>
           if d = CHR ''}'' then Some (JObj [], ds)
           else do { (kvs, r) \<leftarrow> scan_members n (d # ds); Some (JObj (dict_of kvs), r) })
      else scan_atom (c # cs))"
| "scan_items 0 _ = None"
| "scan_items (Suc n) s =
     do { (v, r) \<leftarrow> scan_value n s;
          (case skip_ws r of [] \<Rightarrow> None | c # cs \<Rightarrow>
             if c = CHR '']'' then Some ([v], cs)
             else if c = CHR '','' then do { (vs, r') \<leftarrow> scan_items n (skip_ws cs); Some (v # vs, r') }
             else None) }"
| "scan_members 0 _ = None"
| "scan_members (Suc n) s =
     (case s of [] \<Rightarrow> None | q # qs \<Rightarrow>
        if q \<noteq> CHR 0x22 then None
        else do { (k, r) \<leftarrow> scan_string (Suc (length qs)) qs;
                  (case skip_ws r of [] \<Rightarrow> None | c # cs \<Rightarrow>
                     if c \<noteq> CHR '':'' then None
                     else do { (v, r') \<leftarrow> scan_value n (skip_ws cs);
                       (case skip_ws r' of [] \<Rightarrow> None | e # es \<Rightarrow>
                          if e = CHR ''}'' then Some ([(k, v)], es)
                          else if e = CHR '','' then
                            do { (kvs, r'') \<leftarrow> scan_members n (skip_ws es); Some ((k, v) # kvs, r'') }
                          else None) }) })"

text \<open>\<open>json.loads\<close>; \<open>None\<close> is \<open>json.JSONDecodeError\<close>.\<close>

definition loads :: "string \<Rightarrow> json option" where
  "loads s = do { (v, r) \<leftarrow> scan_value (Suc (length s)) (skip_ws s);
                  if skip_ws r = [] then Some v else None }"

end
