(* ===== verification/Canonical_Laws.thy ===== *)
theory Canonical_Laws
  imports Canonical
begin

text \<open>
  The laws of the canonical serialiser: \<open>loads\<close> inverts \<open>dumps\<close> up to the order of keys,
  so two documents with the same canonical text are the same value.
\<close>

section \<open>Documents of the canonical profile\<close>

fun plain :: "json \<Rightarrow> bool" where
  "plain (JFloat _) = False"
| "plain (JList xs) = list_all plain xs"
| "plain (JObj kvs) = (distinct (map fst kvs) \<and> list_all (\<lambda>(k, v). plain v) kvs)"
| "plain _ = True"

text \<open>Two documents that differ in the order of their keys are the same Python value.\<close>

fun canon :: "json \<Rightarrow> json" where
  "canon (JList xs) = JList (map canon xs)"
| "canon (JObj kvs) = JObj (sort_key fst (map (\<lambda>(k, v). (k, canon v)) kvs))"
| "canon j = j"

section \<open>Strings\<close>

lemma hex_value_hex_digit: "n < 16 \<Longrightarrow> hex_value (hex_digit n) = Some n"
  by (auto simp: hex_value_def hex_digit_def Let_def)

lemma unicode_escape_control:
  assumes "n < 32"
  shows "unicode_escape (CHR ''0'' # CHR ''0'' # hex_digit (n div 16) # hex_digit (n mod 16) # r)
    = Some ([char_of n], r)"
proof -
  have h: "hex_value (hex_digit (n div 16)) = Some (n div 16)"
    "hex_value (hex_digit (n mod 16)) = Some (n mod 16)"
    using assms by (auto intro!: hex_value_hex_digit)
  have "hex_value (CHR ''0'') = Some 0" by (simp add: hex_value_def)
  moreover have "n div 16 * 16 + n mod 16 = n" by simp
  ultimately show ?thesis
    using assms h by (simp add: unicode_escape_def utf8_def)
qed

lemma scan_string_escape:
  "scan_string (Suc n) (escape_char c @ s) =
     do { (t, rest) \<leftarrow> scan_string n s; Some (c # t, rest) }"
proof -
  consider "c \<in> {CHR 0x22, CHR 0x5C, CHR 0x0A, CHR 0x0D, CHR 0x09, CHR 0x08, CHR 0x0C}"
    | "c \<notin> {CHR 0x22, CHR 0x5C, CHR 0x0A, CHR 0x0D, CHR 0x09, CHR 0x08, CHR 0x0C}" "(of_char c :: nat) < 32"
    | "c \<notin> {CHR 0x22, CHR 0x5C}" "\<not> (of_char c :: nat) < 32" by blast
  then show ?thesis
  proof cases
    case 1
    then show ?thesis by (auto simp: escape_char_def simple_escape_def)
  next
    case 2
    then show ?thesis
      using unicode_escape_control [of "of_char c" s] by (simp add: escape_char_def)
  next
    case 3
    then have "escape_char c = [c]" by (auto simp: escape_char_def)
    with 3 show ?thesis by simp
  qed
qed

lemma scan_string_quote:
  "length s < n \<Longrightarrow> scan_string n (concat (map escape_char s) @ CHR 0x22 # r) = Some (s, r)"
proof (induction s arbitrary: n)
  case Nil
  then show ?case by (cases n) auto
next
  case (Cons c s)
  from Cons.prems obtain m where n: "n = Suc m" and m: "length s < m"
    by (cases n) auto
  show ?case
    using Cons.IH [OF m] by (simp add: n scan_string_escape)
qed

lemma escape_char_nonempty: "escape_char c \<noteq> []"
  by (simp add: escape_char_def)

lemma length_escape: "length s \<le> length (concat (map escape_char s))"
proof (induction s)
  case (Cons c s)
  obtain a as where "escape_char c = a # as"
    using escape_char_nonempty [of c] by (cases "escape_char c") auto
  with Cons show ?case by simp
qed simp

lemma scan_string_after_quote:
  "scan_string (Suc (length (concat (map escape_char s) @ CHR 0x22 # r)))
     (concat (map escape_char s) @ CHR 0x22 # r) = Some (s, r)"
  by (rule scan_string_quote) (use length_escape [of s] in simp)

section \<open>Integers\<close>

lemma digit_code [simp]: "(n::nat) < 10 \<Longrightarrow> of_char (char_of (48 + n)) = 48 + n"
  by (simp add: take_bit_nat_eq_self)

lemma is_digit_code [simp]: "(n::nat) < 10 \<Longrightarrow> is_digit (char_of (48 + n))"
  by (simp add: is_digit_def del: of_char_of)

lemma digit_zero: "(n::nat) < 10 \<Longrightarrow> char_of (48 + n) = CHR ''0'' \<Longrightarrow> n = 0"
  using digit_code [of n] by simp

lemma is_digit_distinct:
  "is_digit c \<Longrightarrow> c \<notin> {CHR ''n'', CHR ''t'', CHR ''f'', CHR ''N'', CHR ''I'', CHR ''-'',
    CHR 0x22, CHR ''['', CHR ''{''}"
  by (auto simp: is_digit_def)

lemma digits_value_snoc: "digits_value (ds @ [c]) = 10 * digits_value ds + (of_char c - 48)"
  by (simp add: digits_value_def)

lemma nat_text_props:
  "digits_value (nat_text n) = n \<and> (\<forall>c\<in>set (nat_text n). is_digit c) \<and> nat_text n \<noteq> [] \<and>
   (0 < n \<longrightarrow> hd (nat_text n) \<noteq> CHR ''0'')"
proof (induction n rule: nat_text.induct)
  case (1 n)
  show ?case
  proof (cases "n < 10")
    case True
    then have "0 < n \<longrightarrow> char_of (48 + n) \<noteq> CHR ''0''"
      using digit_zero by blast
    with True show ?thesis
      by (simp add: nat_text.simps [of n] digits_value_def del: of_char_of)
  next
    case False
    with "1.IH" show ?thesis
      by (auto simp: nat_text.simps [of n] digits_value_snoc simp del: of_char_of)
  qed
qed

lemma nat_text_0: "nat_text 0 = ''0''"
  by code_simp

definition delim :: "string \<Rightarrow> bool" where
  "delim r \<longleftrightarrow> (case r of [] \<Rightarrow> True | c # _ \<Rightarrow> c \<in> {CHR '','', CHR '']'', CHR ''}''})"

lemma delim_not_digit: "delim (c # r) \<Longrightarrow> \<not> is_digit c"
  by (auto simp: delim_def is_digit_def)

lemma takeWhile_digits:
  assumes "\<forall>c\<in>set ds. is_digit c" and "delim r"
  shows "takeWhile is_digit (ds @ r) = ds" and "dropWhile is_digit (ds @ r) = r"
proof -
  have r: "takeWhile is_digit r = []" "dropWhile is_digit r = r"
    using assms(2) by (cases r; auto dest: delim_not_digit)+
  show "takeWhile is_digit (ds @ r) = ds" and "dropWhile is_digit (ds @ r) = r"
    using assms(1) r by (simp_all add: takeWhile_append2 dropWhile_append2)
qed

lemma int_part_nat_text:
  assumes "delim r"
  shows "int_part (nat_text n @ r) = Some (nat_text n, r)"
proof (cases "n = 0")
  case True
  then show ?thesis by (simp add: nat_text_0 int_part_def)
next
  case False
  with nat_text_props [of n] obtain c cs where
    c: "nat_text n = c # cs" "c \<noteq> CHR ''0''" "is_digit c" "\<forall>x\<in>set (c # cs). is_digit x"
    by (cases "nat_text n") auto
  have "takeWhile is_digit ((c # cs) @ r) = c # cs" "dropWhile is_digit ((c # cs) @ r) = r"
    using takeWhile_digits [OF c(4) assms] by blast+
  with c show ?thesis by (simp add: int_part_def)
qed

lemma frac_exp_delim: "delim r \<Longrightarrow> frac_part r = ([], r)" "delim r \<Longrightarrow> exp_part r = ([], r)"
  by (auto simp: frac_part_def exp_part_def delim_def split: list.splits)

lemma scan_number_int_text: "delim r \<Longrightarrow> scan_number (int_text i @ r) = Some (JInt i, r)"
proof -
  assume r: "delim r"
  have hd: "nat_text n @ r = c # cs \<Longrightarrow> c \<noteq> CHR ''-''" for n c cs
    using nat_text_props [of n] by (cases "nat_text n") (auto simp: is_digit_def)
  show ?thesis
  proof (cases "i < 0")
    case True
    then show ?thesis
      using r nat_text_props [of "nat (- i)"]
      by (simp add: scan_number_def int_text_def int_part_nat_text frac_exp_delim)
  next
    case False
    have "(case nat_text (nat i) @ r of [] \<Rightarrow> (False, nat_text (nat i) @ r)
       | c # cs \<Rightarrow> if c = CHR ''-'' then (True, cs) else (False, nat_text (nat i) @ r))
       = (False, nat_text (nat i) @ r)"
      using hd by (auto split: list.split)
    with False show ?thesis
      using r nat_text_props [of "nat i"]
      by (simp add: scan_number_def int_text_def int_part_nat_text frac_exp_delim Let_def)
  qed
qed

lemma int_text_head:
  "\<exists>c cs. int_text i = c # cs \<and> (is_digit c \<or> c = CHR ''-'' \<and> (\<exists>d ds. cs = d # ds \<and> is_digit d))"
proof (cases "i < 0")
  case True
  then show ?thesis using nat_text_props [of "nat (- i)"]
    by (cases "nat_text (nat (- i))") (auto simp: int_text_def)
next
  case False
  then show ?thesis using nat_text_props [of "nat i"]
    by (cases "nat_text (nat i)") (auto simp: int_text_def)
qed

lemma scan_atom_int_text: "delim r \<Longrightarrow> scan_atom (int_text i @ r) = Some (JInt i, r)"
proof -
  assume r: "delim r"
  obtain c cs where i: "int_text i = c # cs"
    and c: "is_digit c \<or> c = CHR ''-'' \<and> (\<exists>d ds. cs = d # ds \<and> is_digit d)"
    using int_text_head [of i] by (elim exE conjE) (rule that)
  have "scan_atom (int_text i @ r) = scan_number (int_text i @ r)"
    using c
  proof
    assume d: "is_digit c"
    then have "take 2 (c # cs @ r) \<noteq> ''-I''"
      using is_digit_distinct by (auto simp: numeral_2_eq_2)
    with is_digit_distinct [OF d] show ?thesis by (simp add: i scan_atom_def)
  next
    assume "c = CHR ''-'' \<and> (\<exists>d ds. cs = d # ds \<and> is_digit d)"
    then obtain d ds where d: "c = CHR ''-''" "cs = d # ds" "is_digit d" by blast
    from is_digit_distinct [OF d(3)] have "take 2 (c # cs @ r) \<noteq> ''-I''"
      by (simp add: d numeral_2_eq_2)
    with d show ?thesis by (simp add: i scan_atom_def)
  qed
  with r show ?thesis by (simp add: scan_number_int_text)
qed

section \<open>Objects\<close>

lemma insort_key_map:
  assumes "\<And>x. fst (g x) = fst x"
  shows "insort_key fst (g x) (map g xs) = map g (insort_key fst x xs)"
  by (induction xs) (auto simp: assms)

lemma sort_key_map:
  assumes "\<And>x. fst (g x) = fst x"
  shows "sort_key fst (map g xs) = map g (sort_key fst xs)"
  by (induction xs) (auto simp: insort_key_map [OF assms])

lemma dict_set_fresh: "k \<notin> fst ` set d \<Longrightarrow> dict_set k v d = d @ [(k, v)]"
  by (induction d) auto

lemma dict_of_distinct: "distinct (map fst kvs) \<Longrightarrow> dict_of kvs = kvs"
proof -
  have "distinct (map fst kvs) \<Longrightarrow> fst ` set kvs \<inter> fst ` set d = {} \<Longrightarrow>
      foldl (\<lambda>d (k, v). dict_set k v d) d kvs = d @ kvs" for d
    by (induction kvs arbitrary: d) (auto simp: dict_set_fresh)
  from this [of "[]"] show "distinct (map fst kvs) \<Longrightarrow> dict_of kvs = kvs"
    by (simp add: dict_of_def)
qed

definition member_text :: "string \<times> json \<Rightarrow> string" where
  "member_text kv = quote (fst kv) @ CHR '':'' # dumps (snd kv)"

definition canon_member :: "string \<times> json \<Rightarrow> string \<times> json" where
  "canon_member kv = (fst kv, canon (snd kv))"

lemma dumps_JObj:
  "dumps (JObj kvs) = CHR ''{'' # join_commas (map member_text (sort_key fst kvs)) @ ''}''"
proof -
  have "(\<lambda>(k, v). (k, quote k @ CHR '':'' # dumps v)) = (\<lambda>kv. (fst kv, member_text kv))"
    by (auto simp: member_text_def fun_eq_iff)
  then show ?thesis by (simp add: sort_key_map comp_def)
qed

lemma canon_JObj: "canon (JObj kvs) = JObj (map canon_member (sort_key fst kvs))"
proof -
  have "(\<lambda>(k, v). (k, canon v)) = canon_member"
    by (auto simp: canon_member_def fun_eq_iff)
  then show ?thesis by (simp add: sort_key_map canon_member_def)
qed

section \<open>The round trip\<close>

definition opens :: "string \<Rightarrow> bool" where
  "opens s \<longleftrightarrow> (\<exists>c cs. s = c # cs \<and>
     c \<notin> {CHR '' '', CHR 0x09, CHR 0x0A, CHR 0x0D, CHR '']'', CHR ''}'', CHR '',''})"

lemma skip_ws_opens [simp]: "opens s \<Longrightarrow> skip_ws (s @ r) = s @ r"
  by (auto simp: opens_def)

lemma opens_append [simp]: "opens s \<Longrightarrow> opens (s @ r)"
  by (auto simp: opens_def)

lemma skip_ws_delim [simp]: "delim r \<Longrightarrow> skip_ws r = r"
  by (auto simp: delim_def split: list.splits)

lemma opens_int_text: "opens (int_text i)"
  using int_text_head [of i] by (auto simp: opens_def is_digit_def)

lemma opens_dumps: "plain j \<Longrightarrow> opens (dumps j)"
  by (cases j) (auto simp: opens_int_text quote_def dumps_JObj simp del: dumps.simps(7),
    auto simp: opens_def)

lemma opens_member_text: "opens (member_text kv)"
  by (simp add: member_text_def quote_def opens_def)

lemma opens_join: "xs \<noteq> [] \<Longrightarrow> \<forall>x\<in>set xs. opens x \<Longrightarrow> opens (join_commas xs)"
  by (cases xs rule: join_commas.cases) auto

definition scans :: "json \<Rightarrow> bool" where
  "scans j \<longleftrightarrow> (\<forall>n r. delim r \<longrightarrow> length (dumps j) \<le> n \<longrightarrow> scan_value n (dumps j @ r) = Some (canon j, r))"

lemma scansD: "scans j \<Longrightarrow> delim r \<Longrightarrow> length (dumps j) \<le> n \<Longrightarrow> scan_value n (dumps j @ r) = Some (canon j, r)"
  by (simp add: scans_def)

lemma delim_close [simp]: "delim (CHR '','' # r)" "delim (CHR '']'' # r)" "delim (CHR ''}'' # r)"
  by (simp_all add: delim_def)

lemma scan_items_join:
  assumes "xs \<noteq> []" and "\<forall>x\<in>set xs. scans x \<and> plain x"
    and "length (join_commas (map dumps xs)) < n"
  shows "scan_items n (join_commas (map dumps xs) @ CHR '']'' # r) = Some (map canon xs, r)"
  using assms
proof (induction xs arbitrary: n)
  case (Cons x xs)
  then obtain m where n: "n = Suc m" by (cases n) auto
  show ?case
  proof (cases xs)
    case Nil
    with Cons.prems n show ?thesis by (simp add: scansD)
  next
    case (Cons y ys)
    let ?rest = "join_commas (map dumps xs)"
    have j: "join_commas (map dumps (x # xs)) = dumps x @ CHR '','' # ?rest"
      using Cons by simp
    have len: "length (dumps x) \<le> m" "length ?rest < m"
      using Cons.prems(3) unfolding j n by simp_all
    have ih: "scan_items m (?rest @ CHR '']'' # r) = Some (map canon xs, r)"
      using Cons.IH [of m] Cons.prems len Cons by simp
    have "opens ?rest"
      using Cons.prems Cons by (intro opens_join) (auto intro: opens_dumps)
    with ih len Cons.prems(2) show ?thesis
      unfolding j n by (simp add: scansD)
  qed
qed simp

lemma scan_member:
  assumes "scans v" and "plain v" and "length (member_text (k, v)) \<le> n" and "delim r"
    and "r = e # es"
  shows "scan_members (Suc n) (member_text (k, v) @ r) =
    (if e = CHR ''}'' then Some ([(k, canon v)], es)
     else if e = CHR '','' then
       do { (kvs, r'') \<leftarrow> scan_members n (skip_ws es); Some ((k, canon v) # kvs, r'') }
     else None)"
proof -
  let ?r = "CHR '':'' # dumps v @ r"
  let ?qs = "concat (map escape_char k) @ CHR 0x22 # ?r"
  have mt: "member_text (k, v) @ r = CHR 0x22 # ?qs"
    by (simp add: member_text_def quote_def)
  have s: "scan_string (Suc (length ?qs)) ?qs = Some (k, ?r)"
    by (rule scan_string_after_quote)
  have v: "scan_value n (skip_ws (dumps v @ r)) = Some (canon v, r)"
    using assms opens_dumps [of v] by (simp add: scansD member_text_def)
  have r: "skip_ws r = e # es"
    using skip_ws_delim [OF assms(4)] unfolding assms(5) .
  show ?thesis
    unfolding mt scan_members.simps
    using s v r by simp
qed

lemma scan_members_join:
  assumes "kvs \<noteq> []" and "\<forall>kv\<in>set kvs. scans (snd kv) \<and> plain (snd kv)"
    and "length (join_commas (map member_text kvs)) < n"
  shows "scan_members n (join_commas (map member_text kvs) @ CHR ''}'' # r) = Some (map canon_member kvs, r)"
  using assms
proof (induction kvs arbitrary: n)
  case (Cons kv kvs)
  then obtain m where n: "n = Suc m" by (cases n) auto
  obtain k v where kv: "kv = (k, v)" by fastforce
  show ?case
  proof (cases kvs)
    case Nil
    with Cons.prems n kv show ?thesis
      by (simp add: scan_member [where e = "CHR ''}''" and es = r] canon_member_def del: scan_members.simps)
  next
    case (Cons y ys)
    let ?rest = "join_commas (map member_text kvs)"
    have j: "join_commas (map member_text (kv # kvs)) = member_text (k, v) @ CHR '','' # ?rest"
      using Cons kv by simp
    have len: "length (member_text (k, v)) \<le> m" "length ?rest < m"
      using Cons.prems(3) unfolding j n by simp_all
    have ih: "scan_members m (?rest @ CHR ''}'' # r) = Some (map canon_member kvs, r)"
      using Cons.IH [of m] Cons.prems len Cons by simp
    have "opens ?rest"
      using Cons by (intro opens_join) (auto intro: opens_member_text)
    moreover have "scans v" "plain v" using Cons.prems(2) kv by auto
    ultimately show ?thesis
      using ih len unfolding j n append.assoc append_Cons
      by (subst scan_member) (auto simp: kv canon_member_def)
  qed
qed simp

lemma scansI:
  "(\<And>m r. delim r \<Longrightarrow> scan_value (Suc m) (dumps j @ r) = Some (canon j, r)) \<Longrightarrow> dumps j \<noteq> [] \<Longrightarrow> scans j"
  unfolding scans_def by (metis le_zero_eq length_0_conv not0_implies_Suc)

lemma scan_atom_literals:
  "scan_atom (CHR ''n'' # CHR ''u'' # CHR ''l'' # CHR ''l'' # r) = Some (JNull, r)"
  "scan_atom (CHR ''t'' # CHR ''r'' # CHR ''u'' # CHR ''e'' # r) = Some (JBool True, r)"
  "scan_atom (CHR ''f'' # CHR ''a'' # CHR ''l'' # CHR ''s'' # CHR ''e'' # r) = Some (JBool False, r)"
  by (simp_all add: scan_atom_def literal_def)

lemma scans_plain: "plain j \<Longrightarrow> scans j"
proof (induction j)
  case (JInt i)
  from int_text_head [of i] obtain c cs where i: "int_text i = c # cs"
    and "is_digit c \<or> c = CHR ''-''" by blast
  then have c: "c \<notin> {CHR 0x22, CHR ''['', CHR ''{''}"
    using is_digit_distinct [of c] by auto
  show ?case
    unfolding scans_def
  proof (intro allI impI)
    fix n r assume "delim r" and "length (dumps (JInt i)) \<le> n"
    then obtain m where "n = Suc m" by (cases n) (auto simp: i)
    with c scan_atom_int_text [OF \<open>delim r\<close>, of i]
    show "scan_value n (dumps (JInt i) @ r) = Some (canon (JInt i), r)"
      by (simp add: i)
  qed
next
  case (JStr s)
  show ?case
    unfolding scans_def
  proof (intro allI impI)
    fix n r assume "length (dumps (JStr s)) \<le> n"
    then obtain m where "n = Suc m" by (cases n) (auto simp: quote_def)
    with scan_string_after_quote [of s r] show "scan_value n (dumps (JStr s) @ r) = Some (canon (JStr s), r)"
      by (simp add: quote_def)
  qed
next
  case (JList xs)
  have ih: "\<forall>x\<in>set xs. scans x \<and> plain x"
    using JList by (simp add: list_all_iff)
  show ?case
    unfolding scans_def
  proof (intro allI impI)
    fix n r assume len: "length (dumps (JList xs)) \<le> n"
    then obtain m where n: "n = Suc m" by (cases n) auto
    show "scan_value n (dumps (JList xs) @ r) = Some (canon (JList xs), r)"
    proof (cases "xs = []")
      case False
      have "opens (join_commas (map dumps xs))"
        using False ih by (intro opens_join) (auto intro: opens_dumps)
      moreover have "scan_items m (join_commas (map dumps xs) @ CHR '']'' # r) = Some (map canon xs, r)"
        using False ih len n by (intro scan_items_join) auto
      ultimately show ?thesis using n by (auto simp: opens_def)
    qed (use n in simp)
  qed
next
  case (JObj kvs)
  have ih: "\<forall>kv\<in>set kvs. scans (snd kv) \<and> plain (snd kv)"
    using JObj by (fastforce simp: list_all_iff)
  have dist: "distinct (map fst kvs)" using JObj.prems by simp
  let ?s = "sort_key fst kvs"
  show ?case
    unfolding scans_def
  proof (intro allI impI)
    fix n r assume len: "length (dumps (JObj kvs)) \<le> n"
    then obtain m where n: "n = Suc m" by (cases n) auto
    show "scan_value n (dumps (JObj kvs) @ r) = Some (canon (JObj kvs), r)"
    proof (cases "kvs = []")
      case False
      have ne: "?s \<noteq> []" using False by (metis length_0_conv length_sort)
      have "opens (join_commas (map member_text ?s))"
        using ne by (intro opens_join) (auto intro: opens_member_text)
      moreover have "scan_members m (join_commas (map member_text ?s) @ CHR ''}'' # r) = Some (map canon_member ?s, r)"
        using ne ih len n unfolding dumps_JObj by (intro scan_members_join) auto
      moreover have "dict_of (map canon_member ?s) = map canon_member ?s"
        using dist by (intro dict_of_distinct) (simp add: canon_member_def comp_def distinct_map)
      ultimately show ?thesis
        using n unfolding dumps_JObj canon_JObj by (auto simp: opens_def)
    qed (use n in simp)
  qed
qed (auto simp: scan_atom_literals intro!: scansI split: if_splits)

theorem loads_dumps: "plain j \<Longrightarrow> loads (dumps j) = Some (canon j)"
proof -
  assume p: "plain j"
  have "scan_value (Suc (length (dumps j))) (dumps j @ []) = Some (canon j, [])"
    using scans_plain [OF p] by (rule scansD) (simp_all add: delim_def)
  moreover have "skip_ws (dumps j) = dumps j"
    using skip_ws_opens [OF opens_dumps [OF p], of "[]"] by simp
  ultimately show ?thesis by (simp add: loads_def)
qed

corollary dumps_injective:
  "plain j \<Longrightarrow> plain k \<Longrightarrow> dumps j = dumps k \<Longrightarrow> canon j = canon k"
  using loads_dumps [of j] loads_dumps [of k] by simp

section \<open>Reading a member back\<close>

lemma map_of_canon_member: "map_of (map canon_member xs) k = map_option canon (map_of xs k)"
  by (induction xs) (auto simp: canon_member_def)

lemma member_canon: "plain j \<Longrightarrow> member k (canon j) = map_option canon (member k j)"
proof (cases j)
  case (JObj kvs)
  assume "plain j"
  then have d: "distinct (map fst kvs)" using JObj by simp
  then have "distinct (map fst (sort_key fst kvs))"
    by (simp add: distinct_map)
  then have "map_of (sort_key fst kvs) = map_of kvs"
    using d by (simp add: map_of_inject_set)
  then show ?thesis unfolding JObj canon_JObj by (simp add: map_of_canon_member)
qed auto

lemma loads_member:
  "plain j \<Longrightarrow> loads (dumps j) = Some v \<Longrightarrow> member k v = map_option canon (member k j)"
  by (auto simp: loads_dumps member_canon)

text \<open>The canonical document is a fixed point of reading and printing.\<close>

lemma sort_key_canon:
  "sort_key fst (map canon_member (sort_key fst kvs)) = map canon_member (sort_key fst kvs)"
  by (simp add: sort_key_map canon_member_def sort_key_id_if_sorted)

lemma plain_canon: "plain j \<Longrightarrow> plain (canon j)"
proof (induction j)
  case (JObj kvs)
  then have "plain (canon v)" if "(k, v) \<in> set kvs" for k v
    using that by (fastforce simp: list_all_iff)
  moreover have "distinct (map fst (map canon_member (sort_key fst kvs)))"
    using JObj by (simp add: canon_member_def comp_def distinct_map)
  ultimately show ?case
    unfolding canon_JObj by (auto simp: list_all_iff canon_member_def)
qed (auto simp: list_all_iff)

lemma dumps_canon: "plain j \<Longrightarrow> dumps (canon j) = dumps j"
proof (induction j)
  case (JList xs)
  then have m: "map (dumps \<circ> canon) xs = map dumps xs" by (auto simp: list_all_iff)
  show ?case by (simp only: canon.simps dumps.simps map_map m)
next
  case (JObj kvs)
  then have "member_text (canon_member kv) = member_text kv" if "kv \<in> set kvs" for kv
    using that by (cases kv) (fastforce simp: list_all_iff member_text_def canon_member_def)
  then have m: "map (member_text \<circ> canon_member) (sort_key fst kvs) = map member_text (sort_key fst kvs)"
    by simp
  show ?case unfolding canon_JObj dumps_JObj sort_key_canon map_map m by (rule refl)
qed auto

end
