(* ===== verification/Domain.thy ===== *)
theory Domain
  imports Canonical_Laws
begin

text \<open>
  Domain primitives (\<open>src/adcp/domain.py\<close>): the execution state machine, roles and phases,
  input validation, and the value objects the store is called with. A \<open>StrEnum\<close> is a datatype
  with a function to its value; SHA-256 is a parameter \<open>sha\<close> from bytes to the digest's text,
  because the digest comes from a native library outside the repository.
\<close>

section \<open>Enumerations\<close>

datatype exec_state =
    READY | MAKER_RUNNING | VERIFYING | EVALUATING | REWORK_READY
  | WAITING_APPROVAL | BLOCKED | DESIGN_ESCALATION | ACCEPTED | CANCELLED

datatype risk_level = LOW | NORMAL | HIGH

datatype environment = TEST | SHADOW | PRODUCTION

datatype actor_role = CONTROLLER | MAKER | EVALUATOR | HUMAN

datatype attempt_status = RUNNING | SUCCEEDED | FAILED | ABORTED | LOST

datatype seal_phase = PRE_EXECUTION | POST_EXECUTION | LEGACY_ATTESTED

datatype producer_kind = CONTROLLER_RUNNER | EXECUTION_ADAPTER | LEGACY_HUMAN_ATTESTATION

fun state_value :: "exec_state \<Rightarrow> string" where
  "state_value READY = ''READY''"
| "state_value MAKER_RUNNING = ''MAKER_RUNNING''"
| "state_value VERIFYING = ''VERIFYING''"
| "state_value EVALUATING = ''EVALUATING''"
| "state_value REWORK_READY = ''REWORK_READY''"
| "state_value WAITING_APPROVAL = ''WAITING_APPROVAL''"
| "state_value BLOCKED = ''BLOCKED''"
| "state_value DESIGN_ESCALATION = ''DESIGN_ESCALATION''"
| "state_value ACCEPTED = ''ACCEPTED''"
| "state_value CANCELLED = ''CANCELLED''"

fun risk_value :: "risk_level \<Rightarrow> string" where
  "risk_value LOW = ''LOW''"
| "risk_value NORMAL = ''NORMAL''"
| "risk_value HIGH = ''HIGH''"

fun environment_value :: "environment \<Rightarrow> string" where
  "environment_value TEST = ''TEST''"
| "environment_value SHADOW = ''SHADOW''"
| "environment_value PRODUCTION = ''PRODUCTION''"

fun role_value :: "actor_role \<Rightarrow> string" where
  "role_value CONTROLLER = ''CONTROLLER''"
| "role_value MAKER = ''MAKER''"
| "role_value EVALUATOR = ''EVALUATOR''"
| "role_value HUMAN = ''HUMAN''"

fun status_value :: "attempt_status \<Rightarrow> string" where
  "status_value RUNNING = ''RUNNING''"
| "status_value SUCCEEDED = ''SUCCEEDED''"
| "status_value FAILED = ''FAILED''"
| "status_value ABORTED = ''ABORTED''"
| "status_value LOST = ''LOST''"

lemma state_value_inj [simp]: "state_value s = state_value t \<longleftrightarrow> s = t"
  by (cases s; cases t; simp)

lemma role_value_inj [simp]: "role_value s = role_value t \<longleftrightarrow> s = t"
  by (cases s; cases t; simp)

lemma risk_value_inj [simp]: "risk_value s = risk_value t \<longleftrightarrow> s = t"
  by (cases s; cases t; simp)

lemma environment_value_inj [simp]: "environment_value s = environment_value t \<longleftrightarrow> s = t"
  by (cases s; cases t; simp)

section \<open>The execution state machine\<close>

fun max_auto_reworks :: "risk_level \<Rightarrow> int" where
  "max_auto_reworks LOW = 2"
| "max_auto_reworks NORMAL = 2"
| "max_auto_reworks HIGH = 0"

definition terminal_states :: "exec_state set" where
  "terminal_states = {ACCEPTED, CANCELLED, DESIGN_ESCALATION}"

definition blocked_resume_states :: "exec_state set" where
  "blocked_resume_states = {READY, VERIFYING, EVALUATING, REWORK_READY}"

fun transitions :: "exec_state \<Rightarrow> exec_state set" where
  "transitions READY = {MAKER_RUNNING, BLOCKED, CANCELLED}"
| "transitions MAKER_RUNNING = {VERIFYING, BLOCKED, DESIGN_ESCALATION, CANCELLED}"
| "transitions VERIFYING = {EVALUATING, REWORK_READY, DESIGN_ESCALATION, BLOCKED, CANCELLED}"
| "transitions EVALUATING =
     {ACCEPTED, REWORK_READY, DESIGN_ESCALATION, WAITING_APPROVAL, BLOCKED, CANCELLED}"
| "transitions REWORK_READY = {MAKER_RUNNING, BLOCKED, CANCELLED}"
| "transitions WAITING_APPROVAL = {EVALUATING, DESIGN_ESCALATION, CANCELLED}"
| "transitions BLOCKED = {}"
| "transitions DESIGN_ESCALATION = {}"
| "transitions ACCEPTED = {}"
| "transitions CANCELLED = {}"

text \<open>\<open>validate_transition\<close>: out of \<open>BLOCKED\<close> only the stored resume state or \<open>CANCELLED\<close>.\<close>

definition validate_transition ::
  "exec_state \<Rightarrow> exec_state \<Rightarrow> exec_state option \<Rightarrow> exec_state option \<Rightarrow> unit result" where
  "validate_transition from to stored_resume new_resume =
    (let allowed = (if from = BLOCKED then stored_resume = Some to \<or> to = CANCELLED
                    else to \<in> transitions from)
     in if \<not> allowed then Inl (StoreError ''INVALID_TRANSITION'')
        else if to = WAITING_APPROVAL then
          (if new_resume \<noteq> Some EVALUATING then Inl (StoreError ''INVALID_TRANSITION'') else Inr ())
        else if to = BLOCKED then
          (if new_resume \<notin> Some ` blocked_resume_states
           then Inl (StoreError ''INVALID_TRANSITION'') else Inr ())
        else if new_resume \<noteq> None then Inl (StoreError ''INVALID_TRANSITION'')
        else Inr ())"

text \<open>Where a transition may lead, as one relation: the promise behind the validation.\<close>

definition may_become :: "exec_state \<Rightarrow> exec_state option \<Rightarrow> exec_state \<Rightarrow> exec_state option \<Rightarrow> bool" where
  "may_become from stored to resume \<longleftrightarrow>
     (from = BLOCKED \<and> (stored = Some to \<or> to = CANCELLED) \<or> to \<in> transitions from) \<and>
     (case resume of None \<Rightarrow> to \<notin> {WAITING_APPROVAL, BLOCKED}
      | Some r \<Rightarrow> to = WAITING_APPROVAL \<and> r = EVALUATING \<or> to = BLOCKED \<and> r \<in> blocked_resume_states)"

lemma validate_transition_iff:
  "validate_transition from to stored resume = Inr () \<longleftrightarrow> may_become from stored to resume"
  by (cases "from = BLOCKED"; cases to; cases resume)
    (auto simp: validate_transition_def may_become_def blocked_resume_states_def)

lemma validate_transition_code:
  "validate_transition from to stored resume = Inl e \<Longrightarrow> e = StoreError ''INVALID_TRANSITION''"
  by (auto simp: validate_transition_def Let_def split: if_splits)

section \<open>Input validation\<close>

definition is_lower_hex :: "string \<Rightarrow> bool" where
  "is_lower_hex s \<longleftrightarrow> list_all (\<lambda>c. c \<in> set ''0123456789abcdef'') s"

definition require_sha256 :: "string \<Rightarrow> unit result" where
  "require_sha256 value =
    (if length value \<noteq> 64 \<or> \<not> is_lower_hex value then Inl (StoreError ''INVALID_INPUT'') else Inr ())"

definition require_commit :: "string \<Rightarrow> unit result" where
  "require_commit value =
    (if length value \<notin> {40, 64} \<or> \<not> is_lower_hex value then Inl (StoreError ''INVALID_INPUT'') else Inr ())"

abbreviation sha_ok :: "string \<Rightarrow> bool" where
  "sha_ok s \<equiv> length s = 64 \<and> is_lower_hex s"

abbreviation commit_ok :: "string \<Rightarrow> bool" where
  "commit_ok s \<equiv> (length s = 40 \<or> length s = 64) \<and> is_lower_hex s"

lemma require_sha256_Inr [success]: "require_sha256 s = Inr u \<longleftrightarrow> sha_ok s"
  by (auto simp: require_sha256_def)

lemma require_commit_Inr [success]: "require_commit s = Inr u \<longleftrightarrow> commit_ok s"
  by (auto simp: require_commit_def)

text \<open>
  \<open>timestamp\<close>: a \<open>datetime\<close> is its wall-clock reading with an optional UTC offset, both in
  microseconds; a stored timestamp is the instant in microseconds since the epoch. Its text
  (fixed-width ISO 8601 in UTC) orders like the instant.
\<close>

record py_datetime =
  wall :: int
  utc_offset :: "int option"

definition timestamp :: "py_datetime \<Rightarrow> int result" where
  "timestamp d = (case utc_offset d of
     None \<Rightarrow> Inl (StoreError ''INVALID_TIMESTAMP'')
   | Some off \<Rightarrow> Inr (wall d - off))"

fun pad :: "nat \<Rightarrow> int \<Rightarrow> string" where
  "pad 0 n = []"
| "pad (Suc w) n = pad w (n div 10) @ [char_of (48 + n mod 10)]"

text \<open>
  \<open>isoformat(timespec="microseconds")\<close> of an instant in UTC: the proleptic Gregorian date of
  the day number (counted from 0000-03-01 in 400-year eras) and the time of day.
\<close>

definition civil_date :: "int \<Rightarrow> int \<times> int \<times> int" where
  "civil_date day =
    (let z = day + 719468; era = z div 146097; doe = z mod 146097;
         yoe = (doe - doe div 1460 + doe div 36524 - doe div 146096) div 365;
         doy = doe - (365 * yoe + yoe div 4 - yoe div 100);
         mp = (5 * doy + 2) div 153;
         d = doy - (153 * mp + 2) div 5 + 1;
         m = (if mp < 10 then mp + 3 else mp - 9);
         y = yoe + era * 400 + (if m \<le> 2 then 1 else 0)
     in (y, m, d))"

definition iso_text :: "int \<Rightarrow> string" where
  "iso_text t =
    (let day = t div 86400000000; us = t mod 86400000000; (y, m, d) = civil_date day
     in pad 4 y @ ''-'' @ pad 2 m @ ''-'' @ pad 2 d @ ''T'' @
        pad 2 (us div 3600000000) @ '':'' @ pad 2 (us div 60000000 mod 60) @ '':'' @
        pad 2 (us div 1000000 mod 60) @ ''.'' @ pad 6 (us mod 1000000) @ ''+00:00'')"

definition operation_key :: "(string \<Rightarrow> string) \<Rightarrow> string \<Rightarrow> pyval \<Rightarrow> string result" where
  "operation_key sha kind inputs =
    bnd (canonical_json inputs) (\<lambda>text. Inr (sha (''v1|'' @ kind @ ''|'' @ text)))"

section \<open>Candidate manifest entries\<close>

record manifest_entry =
  operation :: string
  path :: string
  mode :: string
  byte_length :: "int option"
  content_sha256 :: "string option"
  base_object_id :: "string option"

fun split_on :: "char \<Rightarrow> string \<Rightarrow> string list" where
  "split_on c [] = [[]]"
| "split_on c (x # xs) =
     (if x = c then [] # split_on c xs
      else (case split_on c xs of [] \<Rightarrow> [[x]] | p # ps \<Rightarrow> (x # p) # ps))"

definition path_invalid :: "string \<Rightarrow> bool" where
  "path_invalid p \<longleftrightarrow> p = [] \<or> hd p = CHR ''/'' \<or> CHR 0x5C \<in> set p
     \<or> list_ex (\<lambda>part. part \<in> {[], ''.'', ''..''}) (split_on (CHR ''/'') p)"

text \<open>
  \<open>CandidateManifestEntry.validate\<close>; the UTF-8 round trip of the path always succeeds on a
  string given by its UTF-8 bytes.
\<close>

definition validate_manifest_entry :: "manifest_entry \<Rightarrow> unit result" where
  "validate_manifest_entry e =
    (if operation e \<notin> {''A'', ''M'', ''D''} then Inl (StoreError ''INVALID_CANDIDATE_MANIFEST'')
     else if path_invalid (path e) then Inl (StoreError ''INVALID_CANDIDATE_PATH'')
     else if mode e \<notin> {''100644'', ''100755'', ''120000''}
       then Inl (StoreError ''INVALID_CANDIDATE_MANIFEST'')
     else if operation e = ''D'' then
       (if byte_length e \<noteq> None \<or> content_sha256 e \<noteq> None \<or> base_object_id e \<in> {None, Some []}
        then Inl (StoreError ''INVALID_CANDIDATE_MANIFEST'')
        else require_commit (the (base_object_id e)))
     else (case byte_length e of
         None \<Rightarrow> Inl (StoreError ''INVALID_CANDIDATE_MANIFEST'')
       | Some n \<Rightarrow> if n < 0 then Inl (StoreError ''INVALID_CANDIDATE_MANIFEST'')
           else (case content_sha256 e of
               None \<Rightarrow> Inl (StoreError ''INVALID_CANDIDATE_MANIFEST'')
             | Some h \<Rightarrow> require_sha256 h)))"

lemma split_on_nonempty: "split_on c s \<noteq> []"
  by (induction s) (auto split: list.splits)

lemma split_on_concat: "concat (map (\<lambda>p. p @ [c]) (split_on c s)) = s @ [c]"
proof (induction s)
  case (Cons x s)
  then show ?case
    using split_on_nonempty [of c s] by (auto split: list.splits)
qed simp

text \<open>An accepted path names something below the root: no part climbs or stays.\<close>

lemma manifest_entry_path_safe:
  "validate_manifest_entry e = Inr u \<Longrightarrow>
     path e \<noteq> [] \<and> hd (path e) \<noteq> CHR ''/'' \<and>
     (\<forall>part\<in>set (split_on (CHR ''/'') (path e)). part \<notin> {[], ''.'', ''..''})"
  by (auto simp: validate_manifest_entry_def path_invalid_def list_ex_iff split: if_splits)

section \<open>Creation requests\<close>

record execution_create =
  xc_execution_id :: string
  xc_slice_id :: string
  xc_risk_level :: risk_level
  xc_environment :: environment
  xc_contract_fingerprint :: string
  xc_authority_fingerprint :: string
  xc_source_root :: string
  xc_branch :: string
  xc_base_commit :: string
  xc_current_actor_role :: actor_role

definition validate_execution_create :: "execution_create \<Rightarrow> unit result" where
  "validate_execution_create x =
    (if xc_execution_id x = [] \<or> xc_slice_id x = [] \<or> xc_branch x = []
     then Inl (StoreError ''INVALID_INPUT'')
     else bnd (require_sha256 (xc_contract_fingerprint x)) (\<lambda>_.
          bnd (require_sha256 (xc_authority_fingerprint x)) (\<lambda>_.
          require_commit (xc_base_commit x))))"

record seal_create =
  zc_seal_id :: string
  zc_execution_id :: string
  zc_result_commit :: string
  zc_verification_id :: string
  zc_attempt_id :: string
  zc_context_id :: string
  zc_context_fingerprint :: string
  zc_contract_fingerprint :: string
  zc_authority_fingerprint :: string
  zc_phase :: seal_phase
  zc_producer_kind :: producer_kind
  zc_producer_ref :: string
  zc_evidence_root :: string
  zc_manifest_version :: int
  zc_manifest_json :: string
  zc_manifest_sha256 :: string
  zc_authority_generation :: int
  zc_operation_key :: string
  zc_approval_id :: "string option"

fun json_to_py :: "json \<Rightarrow> pyval" where
  "json_to_py JNull = PNone"
| "json_to_py (JBool b) = PBool b"
| "json_to_py (JInt i) = PInt i"
| "json_to_py (JFloat _) = PFloat"
| "json_to_py (JStr s) = PStr s"
| "json_to_py (JList xs) = PList (map json_to_py xs)"
| "json_to_py (JObj kvs) = PDict (map (\<lambda>(k, v). (PStr k, json_to_py v)) kvs)"

text \<open>\<open>EvaluatorArtifactSealCreate.validate\<close>.\<close>

definition validate_seal_create :: "(string \<Rightarrow> string) \<Rightarrow> seal_create \<Rightarrow> unit result" where
  "validate_seal_create sha z =
    (if [] \<in> {zc_seal_id z, zc_execution_id z, zc_verification_id z, zc_attempt_id z,
              zc_context_id z, zc_producer_ref z, zc_evidence_root z}
     then Inl (StoreError ''INVALID_EVALUATOR_ARTIFACT_SEAL'')
     else bnd (require_commit (zc_result_commit z)) (\<lambda>_.
          bnd (require_sha256 (zc_context_fingerprint z)) (\<lambda>_.
          bnd (require_sha256 (zc_contract_fingerprint z)) (\<lambda>_.
          bnd (require_sha256 (zc_authority_fingerprint z)) (\<lambda>_.
          bnd (require_sha256 (zc_manifest_sha256 z)) (\<lambda>_.
          bnd (require_sha256 (zc_operation_key z)) (\<lambda>_.
     if zc_manifest_version z \<noteq> 1 then Inl (StoreError ''INVALID_EVALUATOR_ARTIFACT_SEAL'')
     else if zc_authority_generation z < 0 then Inl (StoreError ''INVALID_EVALUATOR_ARTIFACT_SEAL'')
     else if hd (zc_evidence_root z) \<noteq> CHR ''/'' then Inl (StoreError ''INVALID_EVALUATOR_ARTIFACT_SEAL'')
     else (case loads (zc_manifest_json z) of
         None \<Rightarrow> Inl (StoreError ''INVALID_EVALUATOR_ARTIFACT_SEAL'')
       | Some manifest \<Rightarrow>
         bnd (canonical_json (json_to_py manifest)) (\<lambda>text.
         if text \<noteq> zc_manifest_json z \<or> sha text \<noteq> zc_manifest_sha256 z
         then Inl (StoreError ''INVALID_EVALUATOR_ARTIFACT_SEAL'')
         else if zc_phase z = LEGACY_ATTESTED then
           (if zc_producer_kind z \<noteq> LEGACY_HUMAN_ATTESTATION \<or> zc_approval_id z \<in> {None, Some []}
            then Inl (StoreError ''INVALID_EVALUATOR_ARTIFACT_SEAL'') else Inr ())
         else if zc_producer_kind z \<notin> {CONTROLLER_RUNNER, EXECUTION_ADAPTER} \<or> zc_approval_id z \<noteq> None
           then Inl (StoreError ''INVALID_EVALUATOR_ARTIFACT_SEAL'') else Inr ())))))))))"

lemma seq_results_Inr: "seq_results rs = Inr xs \<longleftrightarrow> rs = map Inr xs"
  by (induction rs arbitrary: xs) (auto simp: success)

lemma validate_json_to_py: "plain j \<Longrightarrow> validate_value (json_to_py j) = Inr j"
proof (induction j)
  case (JList xs)
  then have "map (\<lambda>x. validate_value (json_to_py x)) xs = map Inr xs"
    by (auto simp: list_all_iff)
  then have "seq_results (map (\<lambda>x. validate_value (json_to_py x)) xs) = Inr xs"
    by (simp only: seq_results_Inr)
  then show ?case by (simp add: comp_def)
next
  case (JObj kvs)
  have "\<forall>(k, v)\<in>set kvs. validate_value (json_to_py v) = Inr v"
    using JObj by (fastforce simp: list_all_iff)
  then have "map (\<lambda>(k, v). bnd (validate_value (json_to_py v)) (\<lambda>j. Inr (k, j))) kvs = map Inr kvs"
    by (auto simp: split_beta)
  then have "seq_results (map (\<lambda>(k, v). bnd (validate_value (json_to_py v)) (\<lambda>j. Inr (k, j))) kvs) = Inr kvs"
    by (simp only: seq_results_Inr)
  then show ?case by (simp add: comp_def case_prod_unfold)
qed auto

lemma canonical_json_json_to_py: "plain j \<Longrightarrow> canonical_json (json_to_py j) = Inr (dumps j)"
  by (simp add: canonical_json_def validate_json_to_py)

text \<open>
  The fresh phases are produced by a machine and carry no approval, the legacy phase by a
  human attestation with one: the schema's own check.
\<close>

lemma seal_create_phase:
  "validate_seal_create sha z = Inr u \<Longrightarrow>
     (zc_phase z = LEGACY_ATTESTED \<longleftrightarrow> zc_producer_kind z = LEGACY_HUMAN_ATTESTATION) \<and>
     (zc_phase z = LEGACY_ATTESTED \<longleftrightarrow> zc_approval_id z \<noteq> None)"
  by (cases "zc_producer_kind z")
    (auto simp: validate_seal_create_def success split: if_splits option.splits)

end
