(* ===== verification/Rows.thy ===== *)
theory Rows
  imports Domain
begin

text \<open>
  The tables of the control store (\<open>src/adcp/store/migrations.py\<close>, the registered schema
  through version 10): one record per table, with the columns in the order of the DDL, and the
  database as the record of its tables. Columns fed from a Python enumeration have its datatype
  (the column's \<open>CHECK ... IN\<close>), timestamps are instants in microseconds, nullable columns are
  options. An \<open>AUTOINCREMENT\<close> sequence number is kept where the code reads it.
\<close>

datatype capsule_role = Maker | Evaluator

fun capsule_role_value :: "capsule_role \<Rightarrow> string" where
  "capsule_role_value Maker = ''MAKER''"
| "capsule_role_value Evaluator = ''EVALUATOR''"

lemma capsule_role_value_inj [simp]: "capsule_role_value a = capsule_role_value b \<longleftrightarrow> a = b"
  by (cases a; cases b; simp)

datatype event_type =
    EXECUTION_CREATED | STATE_TRANSITION | LEASE_ACQUIRED | LEASE_RELEASED
  | RESULT_COMMIT_REGISTERED | ACCEPTED_EVENT

datatype approval_status = PENDING | APPROVED | REJECTED | APPROVAL_CANCELLED

definition approval_status_text :: "approval_status \<Rightarrow> string" where
  "approval_status_text s = (case s of PENDING \<Rightarrow> ''PENDING'' | APPROVED \<Rightarrow> ''APPROVED''
     | REJECTED \<Rightarrow> ''REJECTED'' | APPROVAL_CANCELLED \<Rightarrow> ''CANCELLED'')"

datatype authority_mode = TRANSITIONAL_AUTHORITY | CONTROL_STORE_AUTHORITY

datatype authority_event_type = AUTHORITY_SWITCH | AUTHORITY_ROLLBACK

datatype writer_state = FREE | HELD

datatype writer_event_type = ACQUIRE | RELEASE | EXPIRED_TAKEOVER | FORCE_REVOKE

section \<open>Executions and their evidence (schema version 1)\<close>

record execution_row =
  ex_id :: string
  ex_create_key :: string
  ex_slice_id :: string
  ex_risk_level :: risk_level
  ex_environment :: environment
  ex_state :: exec_state
  ex_resume_state :: "exec_state option"
  ex_state_version :: int
  ex_contract_fingerprint :: string
  ex_authority_fingerprint :: string
  ex_source_root :: string
  ex_branch :: string
  ex_base_commit :: string
  ex_result_commit :: "string option"
  ex_maker_rework_count :: int
  ex_max_auto_reworks :: int
  ex_current_actor_role :: actor_role
  ex_lease_owner :: "string option"
  ex_lease_generation :: int
  ex_lease_expires_at :: "int option"
  ex_blocker_code :: "string option"
  ex_blocker_detail :: "string option"
  ex_created_at :: int
  ex_updated_at :: int
  ex_accepted_at :: "int option"

record context_row =
  cx_id :: string
  cx_execution_id :: string
  cx_role :: capsule_role
  cx_capsule_version :: int
  cx_fingerprint :: string
  cx_canonical_json :: string
  cx_created_at :: int

record attempt_row =
  at_id :: string
  at_operation_key :: string
  at_execution_id :: string
  at_role :: capsule_role
  at_attempt_no :: int
  at_model :: string
  at_reasoning_effort :: string
  at_session_mode :: string
  at_session_id :: string
  at_sandbox_mode :: string
  at_context_id :: string
  at_base_commit :: string
  at_result_commit :: "string option"
  at_status :: attempt_status
  at_exit_code :: "int option"
  at_stdout_artifact :: "string option"
  at_stdout_sha256 :: "string option"
  at_stderr_artifact :: "string option"
  at_stderr_sha256 :: "string option"
  at_result_artifact :: "string option"
  at_result_sha256 :: "string option"
  at_failure_code :: "string option"
  at_started_at :: string
  at_ended_at :: "string option"

record event_row =
  ev_seq :: nat
  ev_event_id :: string
  ev_execution_id :: string
  ev_operation_key :: string
  ev_event_type :: event_type
  ev_from_state :: "exec_state option"
  ev_to_state :: exec_state
  ev_from_version :: int
  ev_to_version :: int
  ev_actor_role :: actor_role
  ev_actor_id :: string
  ev_lease_generation :: int
  ev_reason_code :: string
  ev_reason_detail :: "string option"
  ev_metadata_json :: string
  ev_created_at :: int

record verification_row =
  vr_id :: string
  vr_operation_key :: string
  vr_execution_id :: string
  vr_result_commit :: string
  vr_contract_fingerprint :: string
  vr_authority_fingerprint :: string
  vr_verdict :: string
  vr_command_manifest :: string
  vr_command_manifest_sha256 :: string
  vr_result_json :: string
  vr_started_at :: string
  vr_ended_at :: string

record evaluation_row =
  er_id :: string
  er_operation_key :: string
  er_execution_id :: string
  er_attempt_id :: string
  er_context_id :: string
  er_result_commit :: string
  er_contract_fingerprint :: string
  er_authority_fingerprint :: string
  er_verdict :: string
  er_result_json :: string
  er_started_at :: string
  er_ended_at :: string

record approval_row =
  ap_id :: string
  ap_idempotency_key :: string
  ap_execution_id :: string
  ap_approval_type :: string
  ap_required :: int
  ap_status :: approval_status
  ap_authority_ref :: string
  ap_requested_at :: int
  ap_resolved_at :: "int option"
  ap_consumed_at :: "int option"

record manifest_row =
  em_id :: string
  em_execution_id :: string
  em_slice_id :: string
  em_contract_fingerprint :: string
  em_authority_fingerprint :: string
  em_base_commit :: string
  em_result_commit :: string
  em_maker_attempt_id :: string
  em_verification_id :: string
  em_evaluator_attempt_id :: string
  em_evaluation_id :: string
  em_approval_refs_json :: string
  em_context_fingerprints_json :: string
  em_transition_evidence_json :: string
  em_canonical_json :: string
  em_created_at :: string
  em_manifest_sha256 :: string

section \<open>Slice control and authority (versions 2 to 5)\<close>

record slice_target =
  sl_id :: string
  sl_stage :: string
  sl_status :: string
  sl_migration_class :: string
  sl_execution_eligibility :: string
  sl_defer_reason :: "string option"
  sl_logical_source_root :: string
  sl_repository_toplevel :: "string option"
  sl_branch :: "string option"
  sl_base_commit :: "string option"
  sl_implementation_result_commit :: "string option"
  sl_current_branch_head :: "string option"
  sl_active_execution_id :: "string option"
  sl_authority_fingerprint :: string

record slice_row =
  sc_fields :: slice_target
  sc_state_version :: int
  sc_created_at :: int
  sc_updated_at :: int

record slice_event_row =
  se_operation_key :: string
  se_slice_id :: string
  se_from_version :: int
  se_to_version :: int
  se_reason_code :: string
  se_metadata_json :: string
  se_created_at :: int

record authority_row =
  au_mode :: authority_mode
  au_generation :: int
  au_cutover_id :: "string option"
  au_slice_snapshot :: string
  au_rollback_snapshot :: string
  au_updated_at :: int
  au_switched_at :: "int option"

record authority_event_row =
  ae_event_id :: string
  ae_operation_key :: string
  ae_cutover_id :: string
  ae_event_type :: authority_event_type
  ae_from_mode :: authority_mode
  ae_to_mode :: authority_mode
  ae_from_generation :: int
  ae_to_generation :: int
  ae_slice_snapshot :: string
  ae_rollback_snapshot :: string
  ae_human_decision_ref :: string
  ae_created_at :: int

section \<open>The global production writer (version 6)\<close>

record writer_context =
  wc_owner_id :: "string option"
  wc_owner_execution_id :: "string option"
  wc_change_id :: "string option"
  wc_slice_id :: "string option"
  wc_writer_class :: "string option"
  wc_owner_session_role :: "string option"
  wc_track :: "string option"
  wc_repository_or_runtime :: "string option"
  wc_operation_class :: "string option"
  wc_target :: "string option"

record writer_row =
  gw_state :: writer_state
  gw_context :: writer_context
  gw_fencing_token :: int
  gw_acquired_at :: "int option"
  gw_expires_at :: "int option"
  gw_heartbeat_at :: "int option"
  gw_updated_at :: int

record writer_event_row =
  ge_event_id :: string
  ge_operation_key :: string
  ge_event_type :: writer_event_type
  ge_from_token :: int
  ge_to_token :: int
  ge_prior :: writer_context
  ge_new :: writer_context
  ge_reason :: string
  ge_control_decision_ref :: "string option"
  ge_request_json :: string
  ge_created_at :: int

section \<open>Artifact seals and typed receipts (versions 7, 8 and 10)\<close>

record seal_row =
  zr_fields :: seal_create
  zr_created_at :: int

record receipt_fields =
  rc_version :: int
  rc_change_id :: string
  rc_control_decision_ref :: string
  rc_deployment_id :: string
  rc_operation_id :: string
  rc_operation_type :: string
  rc_phase :: string
  rc_target_service :: string
  rc_target_database :: "string option"
  rc_principal_identity :: "string option"
  rc_credential_reference :: "string option"
  rc_artifact_path :: "string option"
  rc_artifact_sha256 :: "string option"
  rc_request_fingerprint :: string
  rc_before_fingerprint :: string
  rc_after_fingerprint :: "string option"
  rc_effect_status :: string
  rc_w08_token :: int
  rc_created_at :: string

record receipt_row =
  rr_receipt_id :: string
  rr_fields :: receipt_fields

section \<open>The uncommitted candidate (version 9)\<close>

record candidate_binding_row =
  cb_id :: string
  cb_execution_id :: string
  cb_serialization_format :: string
  cb_serialization_version :: int
  cb_repository_identity :: string
  cb_expected_parent :: string
  cb_manifest_json :: string
  cb_manifest_sha256 :: string
  cb_content_sha256 :: string
  cb_created_at :: int

record candidate_provenance_row =
  cp_id :: string
  cp_candidate_id :: string
  cp_execution_id :: string
  cp_maker_attempt_id :: string
  cp_source_root :: string
  cp_worktree_identity :: string
  cp_branch :: string
  cp_contract_fingerprint :: string
  cp_authority_fingerprint :: string
  cp_authority_generation :: int
  cp_content_sha256 :: string
  cp_created_at :: int

record candidate_verification_row =
  cv_id :: string
  cv_operation_key :: string
  cv_execution_id :: string
  cv_candidate_id :: string
  cv_content_sha256 :: string
  cv_contract_fingerprint :: string
  cv_authority_fingerprint :: string
  cv_authority_generation :: int
  cv_verdict :: string
  cv_command_manifest :: string
  cv_command_manifest_sha256 :: string
  cv_result_json :: string
  cv_started_at :: string
  cv_ended_at :: string

record candidate_attempt_row =
  ca_id :: string
  ca_execution_id :: string
  ca_candidate_id :: string
  ca_verification_id :: string
  ca_context_id :: string
  ca_content_sha256 :: string
  ca_lease_owner :: string
  ca_lease_generation :: int
  ca_authority_generation :: int
  ca_status :: attempt_status
  ca_started_at :: int
  ca_ended_at :: "string option"

record candidate_evaluation_row =
  ce_id :: string
  ce_operation_key :: string
  ce_execution_id :: string
  ce_attempt_id :: string
  ce_candidate_id :: string
  ce_content_sha256 :: string
  ce_contract_fingerprint :: string
  ce_authority_fingerprint :: string
  ce_authority_generation :: int
  ce_verdict :: string
  ce_result_json :: string
  ce_started_at :: string
  ce_ended_at :: string

record candidate_seal_row =
  cz_id :: string
  cz_execution_id :: string
  cz_attempt_id :: string
  cz_candidate_id :: string
  cz_content_sha256 :: string
  cz_phase :: seal_phase
  cz_evidence_root :: string
  cz_manifest_json :: string
  cz_manifest_sha256 :: string
  cz_created_at :: int

record candidate_approval_row =
  cl_approval_id :: string
  cl_execution_id :: string
  cl_candidate_id :: string
  cl_evaluation_id :: string
  cl_authority_fingerprint :: string
  cl_authority_generation :: int
  cl_created_at :: int

record candidate_intent_row =
  ci_closure_id :: string
  ci_execution_id :: string
  ci_candidate_id :: string
  ci_approval_id :: string
  ci_evaluation_id :: string
  ci_plan_json :: string
  ci_plan_sha256 :: string
  ci_created_at :: int

record candidate_closure_row =
  cc_closure_id :: string
  cc_execution_id :: string
  cc_candidate_id :: string
  cc_approval_id :: string
  cc_evaluation_id :: string
  cc_result_commit :: string
  cc_expected_parent :: string
  cc_content_sha256 :: string
  cc_created_at :: int

section \<open>The database\<close>

record db =
  executions :: "execution_row list"
  contexts :: "context_row list"
  attempts :: "attempt_row list"
  events :: "event_row list"
  verifications :: "verification_row list"
  evaluations :: "evaluation_row list"
  approvals :: "approval_row list"
  manifests :: "manifest_row list"
  slices :: "slice_row list"
  slice_events :: "slice_event_row list"
  authority :: "authority_row option"
  authority_events :: "authority_event_row list"
  writer :: "writer_row option"
  writer_events :: "writer_event_row list"
  seals :: "seal_row list"
  receipts :: "receipt_row list"
  candidate_bindings :: "candidate_binding_row list"
  candidate_provenances :: "candidate_provenance_row list"
  candidate_verifications :: "candidate_verification_row list"
  candidate_attempts :: "candidate_attempt_row list"
  candidate_evaluations :: "candidate_evaluation_row list"
  candidate_seals :: "candidate_seal_row list"
  candidate_approvals :: "candidate_approval_row list"
  candidate_intents :: "candidate_intent_row list"
  candidate_closures :: "candidate_closure_row list"

end
