(* ===== verification/Schema_Core.thy ===== *)
theory Schema_Core
  imports Rows
begin

text \<open>
  The constraints of the version 1 tables as the statements that can violate them: every
  insert and every update checks the table's \<open>CHECK\<close>s, \<open>UNIQUE\<close> keys, foreign keys and
  triggers and raises \<open>sqlite3.IntegrityError\<close>. No statement of the store deletes a row or
  updates an immutable table, so the delete and update triggers of the append-only tables are
  represented by the absence of such operations.
\<close>

text \<open>SQL \<open>length\<close> counts code points: the bytes that do not continue a UTF-8 sequence.\<close>

definition sql_length :: "string \<Rightarrow> nat" where
  "sql_length s = length (filter (\<lambda>c. \<not> (128 \<le> (of_char c :: nat) \<and> (of_char c :: nat) < 192)) s)"

lemma sql_length_hex [simp]: "is_lower_hex s \<Longrightarrow> sql_length s = length s"
proof -
  assume "is_lower_hex s"
  moreover have "\<forall>c\<in>set ''0123456789abcdef''. \<not> (128 \<le> (of_char c :: nat) \<and> (of_char c :: nat) < 192)"
    by code_simp
  ultimately have "\<forall>c\<in>set s. \<not> (128 \<le> (of_char c :: nat) \<and> (of_char c :: nat) < 192)"
    unfolding is_lower_hex_def list_all_iff by blast
  then show ?thesis by (simp add: sql_length_def)
qed

definition opt_all :: "('a \<Rightarrow> bool) \<Rightarrow> 'a option \<Rightarrow> bool" where
  "opt_all p x = (case x of None \<Rightarrow> True | Some a \<Rightarrow> p a)"

lemma opt_all_simps [simp]: "opt_all p None" "opt_all p (Some a) = p a"
  by (simp_all add: opt_all_def)

section \<open>slice_execution\<close>

definition execution_check :: "execution_row \<Rightarrow> bool" where
  "execution_check r \<longleftrightarrow>
     ex_id r \<noteq> [] \<and> sql_length (ex_create_key r) = 64 \<and> ex_slice_id r \<noteq> [] \<and>
     0 \<le> ex_state_version r \<and>
     sql_length (ex_contract_fingerprint r) = 64 \<and> sql_length (ex_authority_fingerprint r) = 64 \<and>
     ex_source_root r \<noteq> [] \<and> ex_branch r \<noteq> [] \<and>
     sql_length (ex_base_commit r) \<in> {40, 64} \<and>
     opt_all (\<lambda>c. sql_length c \<in> {40, 64}) (ex_result_commit r) \<and>
     0 \<le> ex_maker_rework_count r \<and> 0 \<le> ex_max_auto_reworks r \<and> 0 \<le> ex_lease_generation r \<and>
     opt_all (\<lambda>d. sql_length d \<le> 2000) (ex_blocker_detail r) \<and>
     ex_maker_rework_count r \<le> ex_max_auto_reworks r \<and>
     (ex_risk_level r \<in> {LOW, NORMAL} \<and> ex_max_auto_reworks r = 2 \<or>
      ex_risk_level r = HIGH \<and> ex_max_auto_reworks r = 0) \<and>
     (ex_state r = WAITING_APPROVAL \<and> ex_resume_state r = Some EVALUATING \<or>
      ex_state r = BLOCKED \<and> ex_resume_state r \<in> {Some READY, Some VERIFYING, Some EVALUATING, Some REWORK_READY} \<or>
      ex_state r \<notin> {WAITING_APPROVAL, BLOCKED} \<and> ex_resume_state r = None) \<and>
     (ex_lease_owner r = None \<longleftrightarrow> ex_lease_expires_at r = None) \<and>
     (ex_state r = ACCEPTED \<longleftrightarrow> ex_accepted_at r \<noteq> None) \<and>
     (ex_state r \<in> {BLOCKED, DESIGN_ESCALATION} \<and> ex_blocker_code r \<noteq> None \<or>
      ex_state r \<notin> {BLOCKED, DESIGN_ESCALATION} \<and> ex_blocker_code r = None \<and> ex_blocker_detail r = None)"

text \<open>The partial unique index \<open>uq_slice_execution_open\<close>.\<close>

definition is_open :: "execution_row \<Rightarrow> bool" where
  "is_open r \<longleftrightarrow> ex_state r \<in> {READY, MAKER_RUNNING, VERIFYING, EVALUATING, REWORK_READY, WAITING_APPROVAL, BLOCKED}"

definition open_keys :: "execution_row list \<Rightarrow> (string \<times> string) list" where
  "open_keys rows = map (\<lambda>r. (ex_source_root r, ex_slice_id r)) (filter is_open rows)"

definition find_execution :: "string \<Rightarrow> db \<Rightarrow> execution_row option" where
  "find_execution i d = find (\<lambda>r. ex_id r = i) (executions d)"

definition open_execution_conflict :: string where
  "open_execution_conflict = ''UNIQUE constraint failed: slice_execution.source_root, slice_execution.slice_id''"

definition insert_execution :: "execution_row \<Rightarrow> db \<Rightarrow> db result" where
  "insert_execution r d =
    (if \<not> execution_check r then Inl (IntegrityError ''CHECK slice_execution'')
     else if is_open r \<and> (ex_source_root r, ex_slice_id r) \<in> set (open_keys (executions d))
       then Inl (IntegrityError open_execution_conflict)
     else if ex_create_key r \<in> set (map ex_create_key (executions d))
       then Inl (IntegrityError ''UNIQUE slice_execution.create_idempotency_key'')
     else if ex_id r \<in> set (map ex_id (executions d))
       then Inl (IntegrityError ''UNIQUE slice_execution.execution_id'')
     else Inr (d\<lparr>executions := executions d @ [r]\<rparr>))"

definition update_executions ::
  "(execution_row \<Rightarrow> bool) \<Rightarrow> (execution_row \<Rightarrow> execution_row) \<Rightarrow> db \<Rightarrow> (db \<times> nat) result" where
  "update_executions p f d =
    (let rows = update_where p f (executions d) in
     if \<exists>r\<in>set (executions d). p r \<and> \<not> execution_check (f r)
       then Inl (IntegrityError ''CHECK slice_execution'')
     else if \<not> distinct (open_keys rows) then Inl (IntegrityError open_execution_conflict)
     else Inr (d\<lparr>executions := rows\<rparr>, row_count p (executions d)))"

section \<open>context_snapshot\<close>

definition find_context :: "string \<Rightarrow> db \<Rightarrow> context_row option" where
  "find_context i d = find (\<lambda>r. cx_id r = i) (contexts d)"

definition insert_context :: "context_row \<Rightarrow> db \<Rightarrow> db result" where
  "insert_context r d =
    (if \<not> (0 < cx_capsule_version r \<and> sql_length (cx_fingerprint r) = 64 \<and> cx_canonical_json r \<noteq> [])
       then Inl (IntegrityError ''CHECK context_snapshot'')
     else if \<exists>x\<in>set (contexts d). cx_execution_id x = cx_execution_id r \<and> cx_role x = cx_role r
         \<and> cx_fingerprint x = cx_fingerprint r
       then Inl (IntegrityError ''UNIQUE context_snapshot.execution_id, role, fingerprint'')
     else if \<exists>x\<in>set (contexts d). cx_id x = cx_id r
       then Inl (IntegrityError ''UNIQUE context_snapshot.context_snapshot_id'')
     else if find_execution (cx_execution_id r) d = None then Inl (IntegrityError ''FOREIGN KEY'')
     else Inr (d\<lparr>contexts := contexts d @ [r]\<rparr>))"

section \<open>agent_attempt\<close>

definition attempt_check :: "attempt_row \<Rightarrow> bool" where
  "attempt_check r \<longleftrightarrow>
     sql_length (at_operation_key r) = 64 \<and> 1 \<le> at_attempt_no r \<and> at_model r \<noteq> [] \<and>
     at_reasoning_effort r \<noteq> [] \<and> at_session_mode r = ''FRESH'' \<and> at_session_id r \<noteq> [] \<and>
     at_sandbox_mode r \<in> {''workspace-write'', ''read-only''} \<and>
     sql_length (at_base_commit r) \<in> {40, 64} \<and>
     opt_all (\<lambda>c. sql_length c \<in> {40, 64}) (at_result_commit r) \<and>
     opt_all (\<lambda>h. sql_length h = 64) (at_stdout_sha256 r) \<and>
     opt_all (\<lambda>h. sql_length h = 64) (at_stderr_sha256 r) \<and>
     opt_all (\<lambda>h. sql_length h = 64) (at_result_sha256 r) \<and>
     (at_role r = Maker \<and> at_sandbox_mode r = ''workspace-write'' \<or>
      at_role r = Evaluator \<and> at_sandbox_mode r = ''read-only'') \<and>
     (at_status r = RUNNING \<longleftrightarrow> at_ended_at r = None) \<and>
     (at_role r \<noteq> Evaluator \<or> at_result_commit r \<noteq> None)"

definition find_attempt :: "string \<Rightarrow> db \<Rightarrow> attempt_row option" where
  "find_attempt i d = find (\<lambda>r. at_id r = i) (attempts d)"

definition insert_attempt :: "attempt_row \<Rightarrow> db \<Rightarrow> db result" where
  "insert_attempt r d =
    (if \<not> attempt_check r then Inl (IntegrityError ''CHECK agent_attempt'')
     else if \<exists>x\<in>set (attempts d). at_operation_key x = at_operation_key r \<or> at_session_id x = at_session_id r
         \<or> at_execution_id x = at_execution_id r \<and> at_role x = at_role r \<and> at_attempt_no x = at_attempt_no r
       then Inl (IntegrityError ''UNIQUE agent_attempt'')
     else if \<exists>x\<in>set (attempts d). at_id x = at_id r
       then Inl (IntegrityError ''UNIQUE agent_attempt.attempt_id'')
     else if find_execution (at_execution_id r) d = None
         \<or> \<not> (\<exists>x\<in>set (contexts d). cx_id x = at_context_id r \<and> cx_execution_id x = at_execution_id r
                \<and> cx_role x = at_role r)
       then Inl (IntegrityError ''FOREIGN KEY'')
     else Inr (d\<lparr>attempts := attempts d @ [r]\<rparr>))"

text \<open>
  The update triggers: a running attempt may only end, an ended one never changes. The
  identity columns are in no \<open>SET\<close> list of the code.
\<close>

definition update_attempts ::
  "(attempt_row \<Rightarrow> bool) \<Rightarrow> (attempt_row \<Rightarrow> attempt_row) \<Rightarrow> db \<Rightarrow> (db \<times> nat) result" where
  "update_attempts p f d =
    (if \<exists>r\<in>set (attempts d). p r \<and> at_status r = RUNNING \<and> at_status (f r) = RUNNING
       then Inl (IntegrityError ''INVALID_AGENT_ATTEMPT_TRANSITION'')
     else if \<exists>r\<in>set (attempts d). p r \<and> at_status r \<noteq> RUNNING
       then Inl (IntegrityError ''IMMUTABLE_AGENT_ATTEMPT'')
     else if \<exists>r\<in>set (attempts d). p r \<and> \<not> attempt_check (f r)
       then Inl (IntegrityError ''CHECK agent_attempt'')
     else Inr (d\<lparr>attempts := update_where p f (attempts d)\<rparr>, row_count p (attempts d)))"

section \<open>transition_event\<close>

definition event_check :: "event_row \<Rightarrow> bool" where
  "event_check e \<longleftrightarrow>
     sql_length (ev_operation_key e) = 64 \<and> 0 \<le> ev_lease_generation e \<and>
     (ev_event_type e = EXECUTION_CREATED \<and> ev_from_state e = None \<and> ev_from_version e = -1
        \<and> ev_to_state e = READY \<and> ev_to_version e = 0 \<or>
      ev_event_type e \<noteq> EXECUTION_CREATED \<and> ev_from_state e \<noteq> None
        \<and> ev_to_version e = ev_from_version e + 1)"

definition insert_event_row :: "event_row \<Rightarrow> db \<Rightarrow> db result" where
  "insert_event_row e d =
    (if \<not> event_check e then Inl (IntegrityError ''CHECK transition_event'')
     else if \<exists>x\<in>set (events d). ev_event_id x = ev_event_id e
         \<or> ev_execution_id x = ev_execution_id e
           \<and> (ev_operation_key x = ev_operation_key e \<or> ev_to_version x = ev_to_version e)
       then Inl (IntegrityError ''UNIQUE transition_event'')
     else if find_execution (ev_execution_id e) d = None then Inl (IntegrityError ''FOREIGN KEY'')
     else Inr (d\<lparr>events := events d @ [e\<lparr>ev_seq := Suc (length (events d))\<rparr>]\<rparr>))"

section \<open>verification_result and evaluation_result\<close>

definition insert_verification :: "verification_row \<Rightarrow> db \<Rightarrow> db result" where
  "insert_verification r d =
    (if \<not> (sql_length (vr_operation_key r) = 64 \<and> sql_length (vr_result_commit r) \<in> {40, 64}
        \<and> sql_length (vr_contract_fingerprint r) = 64 \<and> sql_length (vr_authority_fingerprint r) = 64
        \<and> vr_verdict r \<in> {''PASS'', ''FAIL'', ''BLOCKED_ENVIRONMENT''}
        \<and> sql_length (vr_command_manifest_sha256 r) = 64)
       then Inl (IntegrityError ''CHECK verification_result'')
     else if \<exists>x\<in>set (verifications d). vr_operation_key x = vr_operation_key r
       then Inl (IntegrityError ''UNIQUE verification_result.operation_key'')
     else if \<exists>x\<in>set (verifications d). vr_id x = vr_id r
       then Inl (IntegrityError ''UNIQUE verification_result.verification_id'')
     else if find_execution (vr_execution_id r) d = None then Inl (IntegrityError ''FOREIGN KEY'')
     else Inr (d\<lparr>verifications := verifications d @ [r]\<rparr>))"

definition find_verification :: "string \<Rightarrow> db \<Rightarrow> verification_row option" where
  "find_verification i d = find (\<lambda>r. vr_id r = i) (verifications d)"

text \<open>
  Inserting an evaluation fires \<open>evaluation_result_require_evaluator_insert\<close> and, since
  version 7, \<open>evaluation_result_require_artifact_seal_insert\<close>.
\<close>

definition evaluator_attempt_exists :: "evaluation_row \<Rightarrow> db \<Rightarrow> bool" where
  "evaluator_attempt_exists r d \<longleftrightarrow>
     (\<exists>a\<in>set (attempts d). at_id a = er_attempt_id r \<and> at_execution_id a = er_execution_id r
        \<and> at_context_id a = er_context_id r \<and> at_role a = Evaluator)"

definition evaluation_seal_exists :: "evaluation_row \<Rightarrow> db \<Rightarrow> bool" where
  "evaluation_seal_exists r d \<longleftrightarrow>
     (\<exists>s\<in>set (map zr_fields (seals d)). zc_attempt_id s = er_attempt_id r
        \<and> zc_execution_id s = er_execution_id r \<and> zc_result_commit s = er_result_commit r
        \<and> zc_context_id s = er_context_id r \<and> zc_contract_fingerprint s = er_contract_fingerprint r
        \<and> zc_authority_fingerprint s = er_authority_fingerprint r
        \<and> zc_phase s \<in> {POST_EXECUTION, LEGACY_ATTESTED})"

definition insert_evaluation :: "evaluation_row \<Rightarrow> db \<Rightarrow> db result" where
  "insert_evaluation r d =
    (if \<not> evaluator_attempt_exists r d then Inl (IntegrityError ''EVALUATOR_ATTEMPT_REQUIRED'')
     else if \<not> evaluation_seal_exists r d then Inl (IntegrityError ''EVALUATOR_ARTIFACT_SEAL_REQUIRED'')
     else if \<not> (sql_length (er_operation_key r) = 64 \<and> sql_length (er_result_commit r) \<in> {40, 64}
        \<and> sql_length (er_contract_fingerprint r) = 64 \<and> sql_length (er_authority_fingerprint r) = 64
        \<and> er_verdict r \<in> {''PASS'', ''REWORK_REQUIRED'', ''DESIGN_REVIEW_REQUIRED'',
                          ''BLOCKED_ENVIRONMENT'', ''BLOCKED_EVIDENCE''})
       then Inl (IntegrityError ''CHECK evaluation_result'')
     else if \<exists>x\<in>set (evaluations d). er_operation_key x = er_operation_key r \<or> er_attempt_id x = er_attempt_id r
       then Inl (IntegrityError ''UNIQUE evaluation_result'')
     else if \<exists>x\<in>set (evaluations d). er_id x = er_id r
       then Inl (IntegrityError ''UNIQUE evaluation_result.evaluation_id'')
     else if find_execution (er_execution_id r) d = None then Inl (IntegrityError ''FOREIGN KEY'')
     else Inr (d\<lparr>evaluations := evaluations d @ [r]\<rparr>))"

definition find_evaluation :: "string \<Rightarrow> db \<Rightarrow> evaluation_row option" where
  "find_evaluation i d = find (\<lambda>r. er_id r = i) (evaluations d)"

section \<open>approval_request\<close>

definition approval_check :: "approval_row \<Rightarrow> bool" where
  "approval_check r \<longleftrightarrow>
     sql_length (ap_idempotency_key r) = 64 \<and> ap_approval_type r \<noteq> [] \<and> ap_required r \<in> {0, 1} \<and>
     ap_authority_ref r \<noteq> [] \<and>
     (case ap_status r of
        PENDING \<Rightarrow> ap_resolved_at r = None \<and> ap_consumed_at r = None
      | APPROVED \<Rightarrow> ap_resolved_at r \<noteq> None
      | _ \<Rightarrow> ap_resolved_at r \<noteq> None \<and> ap_consumed_at r = None)"

definition find_approval :: "string \<Rightarrow> db \<Rightarrow> approval_row option" where
  "find_approval i d = find (\<lambda>r. ap_id r = i) (approvals d)"

definition insert_approval :: "approval_row \<Rightarrow> db \<Rightarrow> db result" where
  "insert_approval r d =
    (if \<not> approval_check r then Inl (IntegrityError ''CHECK approval_request'')
     else if \<exists>x\<in>set (approvals d). ap_idempotency_key x = ap_idempotency_key r
         \<or> ap_execution_id x = ap_execution_id r \<and> ap_approval_type x = ap_approval_type r
           \<and> ap_authority_ref x = ap_authority_ref r
       then Inl (IntegrityError ''UNIQUE approval_request'')
     else if \<exists>x\<in>set (approvals d). ap_id x = ap_id r
       then Inl (IntegrityError ''UNIQUE approval_request.approval_id'')
     else if find_execution (ap_execution_id r) d = None then Inl (IntegrityError ''FOREIGN KEY'')
     else Inr (d\<lparr>approvals := approvals d @ [r]\<rparr>))"

definition update_approvals ::
  "(approval_row \<Rightarrow> bool) \<Rightarrow> (approval_row \<Rightarrow> approval_row) \<Rightarrow> db \<Rightarrow> (db \<times> nat) result" where
  "update_approvals p f d =
    (if \<exists>r\<in>set (approvals d). p r \<and> \<not> approval_check (f r)
       then Inl (IntegrityError ''CHECK approval_request'')
     else Inr (d\<lparr>approvals := update_where p f (approvals d)\<rparr>, row_count p (approvals d)))"

section \<open>evidence_manifest\<close>

definition manifest_attempts_ok :: "manifest_row \<Rightarrow> db \<Rightarrow> bool" where
  "manifest_attempts_ok r d \<longleftrightarrow>
     (\<exists>a\<in>set (attempts d). at_id a = em_maker_attempt_id r \<and> at_execution_id a = em_execution_id r
        \<and> at_role a = Maker \<and> at_status a = SUCCEEDED) \<and>
     (\<exists>a\<in>set (attempts d). at_id a = em_evaluator_attempt_id r \<and> at_execution_id a = em_execution_id r
        \<and> at_role a = Evaluator \<and> at_status a = SUCCEEDED)"

definition manifest_references_ok :: "manifest_row \<Rightarrow> db \<Rightarrow> bool" where
  "manifest_references_ok r d \<longleftrightarrow>
     find_execution (em_execution_id r) d \<noteq> None \<and>
     (\<exists>v\<in>set (verifications d). vr_id v = em_verification_id r \<and> vr_execution_id v = em_execution_id r
        \<and> vr_result_commit v = em_result_commit r \<and> vr_contract_fingerprint v = em_contract_fingerprint r
        \<and> vr_authority_fingerprint v = em_authority_fingerprint r) \<and>
     (\<exists>e\<in>set (evaluations d). er_id e = em_evaluation_id r \<and> er_execution_id e = em_execution_id r
        \<and> er_attempt_id e = em_evaluator_attempt_id r \<and> er_result_commit e = em_result_commit r
        \<and> er_contract_fingerprint e = em_contract_fingerprint r
        \<and> er_authority_fingerprint e = em_authority_fingerprint r)"

definition insert_manifest :: "manifest_row \<Rightarrow> db \<Rightarrow> db result" where
  "insert_manifest r d =
    (if \<not> manifest_attempts_ok r d then Inl (IntegrityError ''EVIDENCE_ATTEMPT_BINDING_MISMATCH'')
     else if \<not> (sql_length (em_contract_fingerprint r) = 64 \<and> sql_length (em_authority_fingerprint r) = 64
        \<and> sql_length (em_base_commit r) \<in> {40, 64} \<and> sql_length (em_result_commit r) \<in> {40, 64}
        \<and> sql_length (em_manifest_sha256 r) = 64)
       then Inl (IntegrityError ''CHECK evidence_manifest'')
     else if \<exists>x\<in>set (manifests d). em_manifest_sha256 x = em_manifest_sha256 r
         \<or> em_execution_id x = em_execution_id r
       then Inl (IntegrityError ''UNIQUE evidence_manifest'')
     else if \<exists>x\<in>set (manifests d). em_id x = em_id r
       then Inl (IntegrityError ''UNIQUE evidence_manifest.manifest_id'')
     else if \<not> manifest_references_ok r d then Inl (IntegrityError ''FOREIGN KEY'')
     else Inr (d\<lparr>manifests := manifests d @ [r]\<rparr>))"

section \<open>The tables keep the interfaces\<close>

lemma find_key: "find (\<lambda>r. key r = k) rows = Some r \<Longrightarrow> key r = k"
  by (auto dest: find_SomeD)

lemma find_snoc_key:
  assumes "key r \<notin> key ` set rows"
  shows "find (\<lambda>x. key x = k) (rows @ [r]) = (if k = key r then Some r else find (\<lambda>x. key x = k) rows)"
  using assms by (induction rows) auto

lemma find_fresh: "k \<notin> key ` set rows \<Longrightarrow> find (\<lambda>x. key x = k) rows = None"
  by (auto simp: find_eq_None)

text \<open>What a successful statement did, the form the operations use.\<close>

lemma insert_execution_Inr:
  assumes "insert_execution r d = Inr d'"
  shows "ex_id r \<notin> ex_id ` set (executions d)" and "d' = d\<lparr>executions := executions d @ [r]\<rparr>"
  using assms unfolding insert_execution_def by (simp_all split: if_split_asm)

lemma insert_context_Inr:
  assumes "insert_context r d = Inr d'"
  shows "cx_id r \<notin> cx_id ` set (contexts d)" and "d' = d\<lparr>contexts := contexts d @ [r]\<rparr>"
proof -
  show "cx_id r \<notin> cx_id ` set (contexts d)"
  proof
    assume "cx_id r \<in> cx_id ` set (contexts d)"
    then have "\<exists>x\<in>set (contexts d). cx_id x = cx_id r" by force
    with assms show False unfolding insert_context_def by (simp split: if_split_asm)
  qed
  show "d' = d\<lparr>contexts := contexts d @ [r]\<rparr>"
    using assms unfolding insert_context_def by (simp split: if_split_asm)
qed

lemma insert_attempt_Inr:
  assumes "insert_attempt r d = Inr d'"
  shows "at_id r \<notin> at_id ` set (attempts d)" and "d' = d\<lparr>attempts := attempts d @ [r]\<rparr>"
proof -
  show "at_id r \<notin> at_id ` set (attempts d)"
  proof
    assume "at_id r \<in> at_id ` set (attempts d)"
    then have "\<exists>x\<in>set (attempts d). at_id x = at_id r" by force
    with assms show False unfolding insert_attempt_def by (simp split: if_split_asm)
  qed
  show "d' = d\<lparr>attempts := attempts d @ [r]\<rparr>"
    using assms unfolding insert_attempt_def by (simp split: if_split_asm)
qed

lemma insert_approval_Inr:
  assumes "insert_approval r d = Inr d'"
  shows "ap_id r \<notin> ap_id ` set (approvals d)" and "d' = d\<lparr>approvals := approvals d @ [r]\<rparr>"
proof -
  show "ap_id r \<notin> ap_id ` set (approvals d)"
  proof
    assume "ap_id r \<in> ap_id ` set (approvals d)"
    then have "\<exists>x\<in>set (approvals d). ap_id x = ap_id r" by force
    with assms show False unfolding insert_approval_def by (simp split: if_split_asm)
  qed
  show "d' = d\<lparr>approvals := approvals d @ [r]\<rparr>"
    using assms unfolding insert_approval_def by (simp split: if_split_asm)
qed

lemma insert_verification_Inr:
  assumes "insert_verification r d = Inr d'"
  shows "vr_id r \<notin> vr_id ` set (verifications d)" and "d' = d\<lparr>verifications := verifications d @ [r]\<rparr>"
proof -
  show "vr_id r \<notin> vr_id ` set (verifications d)"
  proof
    assume "vr_id r \<in> vr_id ` set (verifications d)"
    then have "\<exists>x\<in>set (verifications d). vr_id x = vr_id r" by force
    with assms show False unfolding insert_verification_def by (simp split: if_split_asm)
  qed
  show "d' = d\<lparr>verifications := verifications d @ [r]\<rparr>"
    using assms unfolding insert_verification_def by (simp split: if_split_asm)
qed

lemma insert_evaluation_Inr:
  assumes "insert_evaluation r d = Inr d'"
  shows "er_id r \<notin> er_id ` set (evaluations d)" and "d' = d\<lparr>evaluations := evaluations d @ [r]\<rparr>"
proof -
  show "er_id r \<notin> er_id ` set (evaluations d)"
  proof
    assume "er_id r \<in> er_id ` set (evaluations d)"
    then have "\<exists>x\<in>set (evaluations d). er_id x = er_id r" by force
    with assms show False unfolding insert_evaluation_def by (simp split: if_split_asm)
  qed
  show "d' = d\<lparr>evaluations := evaluations d @ [r]\<rparr>"
    using assms unfolding insert_evaluation_def by (simp split: if_split_asm)
qed

lemma update_executions_Inr:
  "update_executions p f d = Inr (d', n) \<Longrightarrow>
     d' = d\<lparr>executions := update_where p f (executions d)\<rparr> \<and> n = row_count p (executions d)"
  unfolding update_executions_def by (simp add: Let_def split: if_split_asm)

lemma update_attempts_Inr:
  "update_attempts p f d = Inr (d', n) \<Longrightarrow>
     d' = d\<lparr>attempts := update_where p f (attempts d)\<rparr> \<and> n = row_count p (attempts d)"
  unfolding update_attempts_def by (simp add: Let_def split: if_split_asm)

lemma update_approvals_Inr:
  "update_approvals p f d = Inr (d', n) \<Longrightarrow>
     d' = d\<lparr>approvals := update_where p f (approvals d)\<rparr> \<and> n = row_count p (approvals d)"
  unfolding update_approvals_def by (simp add: Let_def split: if_split_asm)

interpretation execution_table: guarded_table ex_id find_execution insert_execution update_executions
proof unfold_locales
  fix r d d' k
  assume "insert_execution r d = Inr d'"
  note row = insert_execution_Inr [OF this]
  show "find_execution k d' = (if k = ex_id r then Some r else find_execution k d)"
    by (simp add: find_execution_def row(2) find_snoc_key [where key = ex_id, OF row(1)])
  show "find_execution (ex_id r) d = None"
    by (simp add: find_execution_def find_fresh [where key = ex_id, OF row(1)])
next
  fix p f d d' n k
  assume "update_executions p f d = Inr (d', n)" and key: "\<And>r. ex_id (f r) = ex_id r"
  then have "d' = d\<lparr>executions := update_where p f (executions d)\<rparr>" by (simp add: update_executions_Inr)
  then show "find_execution k d' = map_option (\<lambda>r. if p r then f r else r) (find_execution k d)"
    by (simp add: find_execution_def find_update_where [where key = ex_id, OF key])
next
  show "find_execution k d = Some r \<Longrightarrow> ex_id r = k" for k d r
    unfolding find_execution_def by (drule find_SomeD) simp
qed

interpretation context_table: append_table cx_id find_context insert_context
proof unfold_locales
  fix r d d' k
  assume "insert_context r d = Inr d'"
  note row = insert_context_Inr [OF this]
  show "find_context k d' = (if k = cx_id r then Some r else find_context k d)"
    by (simp add: find_context_def row(2) find_snoc_key [where key = cx_id, OF row(1)])
  show "find_context (cx_id r) d = None"
    by (simp add: find_context_def find_fresh [where key = cx_id, OF row(1)])
next
  show "find_context k d = Some r \<Longrightarrow> cx_id r = k" for k d r
    unfolding find_context_def by (drule find_SomeD) simp
qed

interpretation attempt_table: guarded_table at_id find_attempt insert_attempt update_attempts
proof unfold_locales
  fix r d d' k
  assume "insert_attempt r d = Inr d'"
  note row = insert_attempt_Inr [OF this]
  show "find_attempt k d' = (if k = at_id r then Some r else find_attempt k d)"
    by (simp add: find_attempt_def row(2) find_snoc_key [where key = at_id, OF row(1)])
  show "find_attempt (at_id r) d = None"
    by (simp add: find_attempt_def find_fresh [where key = at_id, OF row(1)])
next
  fix p f d d' n k
  assume "update_attempts p f d = Inr (d', n)" and key: "\<And>r. at_id (f r) = at_id r"
  then have "d' = d\<lparr>attempts := update_where p f (attempts d)\<rparr>" by (simp add: update_attempts_Inr)
  then show "find_attempt k d' = map_option (\<lambda>r. if p r then f r else r) (find_attempt k d)"
    by (simp add: find_attempt_def find_update_where [where key = at_id, OF key])
next
  show "find_attempt k d = Some r \<Longrightarrow> at_id r = k" for k d r
    unfolding find_attempt_def by (drule find_SomeD) simp
qed

interpretation approval_table: guarded_table ap_id find_approval insert_approval update_approvals
proof unfold_locales
  fix r d d' k
  assume "insert_approval r d = Inr d'"
  note row = insert_approval_Inr [OF this]
  show "find_approval k d' = (if k = ap_id r then Some r else find_approval k d)"
    by (simp add: find_approval_def row(2) find_snoc_key [where key = ap_id, OF row(1)])
  show "find_approval (ap_id r) d = None"
    by (simp add: find_approval_def find_fresh [where key = ap_id, OF row(1)])
next
  fix p f d d' n k
  assume "update_approvals p f d = Inr (d', n)" and key: "\<And>r. ap_id (f r) = ap_id r"
  then have "d' = d\<lparr>approvals := update_where p f (approvals d)\<rparr>" by (simp add: update_approvals_Inr)
  then show "find_approval k d' = map_option (\<lambda>r. if p r then f r else r) (find_approval k d)"
    by (simp add: find_approval_def find_update_where [where key = ap_id, OF key])
next
  show "find_approval k d = Some r \<Longrightarrow> ap_id r = k" for k d r
    unfolding find_approval_def by (drule find_SomeD) simp
qed

interpretation verification_table: append_table vr_id find_verification insert_verification
proof unfold_locales
  fix r d d' k
  assume "insert_verification r d = Inr d'"
  note row = insert_verification_Inr [OF this]
  show "find_verification k d' = (if k = vr_id r then Some r else find_verification k d)"
    by (simp add: find_verification_def row(2) find_snoc_key [where key = vr_id, OF row(1)])
  show "find_verification (vr_id r) d = None"
    by (simp add: find_verification_def find_fresh [where key = vr_id, OF row(1)])
next
  show "find_verification k d = Some r \<Longrightarrow> vr_id r = k" for k d r
    unfolding find_verification_def by (drule find_SomeD) simp
qed

interpretation evaluation_table: append_table er_id find_evaluation insert_evaluation
proof unfold_locales
  fix r d d' k
  assume "insert_evaluation r d = Inr d'"
  note row = insert_evaluation_Inr [OF this]
  show "find_evaluation k d' = (if k = er_id r then Some r else find_evaluation k d)"
    by (simp add: find_evaluation_def row(2) find_snoc_key [where key = er_id, OF row(1)])
  show "find_evaluation (er_id r) d = None"
    by (simp add: find_evaluation_def find_fresh [where key = er_id, OF row(1)])
next
  show "find_evaluation k d = Some r \<Longrightarrow> er_id r = k" for k d r
    unfolding find_evaluation_def by (drule find_SomeD) simp
qed

end
