(* ===== verification/Schema_Control.thy ===== *)
theory Schema_Control
  imports Schema_Core
begin

text \<open>
  The slice control plane and the authority singleton as the schema leaves them after version
  5: checks and triggers of \<open>slice_control_state\<close>, \<open>slice_control_event\<close>,
  \<open>control_authority_state\<close> and \<open>authority_transition_event\<close>. The event table's foreign key is
  deferred to the commit; the store inserts or updates the state row of the same slice in the
  transaction that inserts the event, so it never bites and is not represented.
\<close>

text \<open>
  \<open>json_extract(document, path)\<close> where the value it finds is a text, the only case in which
  the triggers' comparisons with text columns are meant to hold.
\<close>

fun json_path :: "string list \<Rightarrow> json \<Rightarrow> json option" where
  "json_path [] j = Some j"
| "json_path (k # ks) j = (case member k j of None \<Rightarrow> None | Some v \<Rightarrow> json_path ks v)"

definition json_extract :: "string \<Rightarrow> string list \<Rightarrow> string option" where
  "json_extract doc ks = (case loads doc of None \<Rightarrow> None
    | Some j \<Rightarrow> (case json_path ks j of Some (JStr t) \<Rightarrow> Some t | _ \<Rightarrow> None))"

definition trimmed_nonempty :: "string \<Rightarrow> bool" where
  "trimmed_nonempty s \<longleftrightarrow> list_ex (\<lambda>c. c \<noteq> CHR '' '') s"

section \<open>slice_control_state\<close>

definition slice_columns_check :: "slice_target \<Rightarrow> bool" where
  "slice_columns_check s \<longleftrightarrow>
     sl_id s \<noteq> [] \<and> sl_stage s \<noteq> [] \<and> sl_status s \<noteq> [] \<and> sha_ok (sl_authority_fingerprint s) \<and>
     sl_migration_class s \<in> {''MIGRATE_AS_READY_CURRENT_STATE'', ''DEFER_BINDING'', ''DEFER_PREREQUISITE''} \<and>
     sl_execution_eligibility s \<in> {''ELIGIBLE_BOUND'', ''ELIGIBLE_PREEXECUTION_BOUND'',
       ''INELIGIBLE_UNTIL_PREFLIGHT'', ''INELIGIBLE_UNTIL_PREREQUISITE''} \<and>
     sl_defer_reason s \<noteq> Some [] \<and> sl_logical_source_root s \<noteq> [] \<and>
     sl_repository_toplevel s \<noteq> Some [] \<and> sl_branch s \<noteq> Some [] \<and>
     opt_all commit_ok (sl_base_commit s) \<and> opt_all commit_ok (sl_implementation_result_commit s) \<and>
     opt_all commit_ok (sl_current_branch_head s)"

text \<open>
  The disposition check. A comparison with a \<open>NULL\<close> head is unknown, and an unknown check
  passes: hence \<open>None\<close> among the accepted heads of the two bound \<open>DEFER_BINDING\<close> shapes.
\<close>

definition slice_disposition_check :: "slice_target \<Rightarrow> bool" where
  "slice_disposition_check s \<longleftrightarrow>
     (let bound = sl_defer_reason s = None \<and> sl_repository_toplevel s \<noteq> None \<and> sl_branch s \<noteq> None
            \<and> sl_base_commit s \<noteq> None \<and> sl_active_execution_id s \<noteq> None;
          deferred = sl_defer_reason s \<noteq> None \<and> sl_base_commit s = None
            \<and> sl_implementation_result_commit s = None \<and> sl_current_branch_head s = None
            \<and> sl_active_execution_id s = None;
          disposition = (sl_migration_class s, sl_execution_eligibility s)
      in (disposition = (''MIGRATE_AS_READY_CURRENT_STATE'', ''ELIGIBLE_BOUND'') \<and> bound
            \<and> sl_implementation_result_commit s \<noteq> None \<and> sl_current_branch_head s \<noteq> None) \<or>
         (disposition = (''DEFER_BINDING'', ''INELIGIBLE_UNTIL_PREFLIGHT'') \<and> deferred) \<or>
         (disposition = (''DEFER_BINDING'', ''ELIGIBLE_PREEXECUTION_BOUND'') \<and> bound
            \<and> sl_implementation_result_commit s = None
            \<and> sl_current_branch_head s \<in> {None, sl_base_commit s}) \<or>
         (disposition = (''DEFER_BINDING'', ''ELIGIBLE_BOUND'') \<and> bound
            \<and> sl_implementation_result_commit s \<noteq> None
            \<and> sl_current_branch_head s \<in> {None, sl_implementation_result_commit s}) \<or>
         (disposition = (''DEFER_PREREQUISITE'', ''INELIGIBLE_UNTIL_PREREQUISITE'') \<and> deferred))"

definition slice_check :: "slice_row \<Rightarrow> bool" where
  "slice_check r \<longleftrightarrow> slice_columns_check (sc_fields r) \<and> 0 \<le> sc_state_version r
     \<and> slice_disposition_check (sc_fields r)"

abbreviation sc_id :: "slice_row \<Rightarrow> string" where
  "sc_id r \<equiv> sl_id (sc_fields r)"

definition find_slice :: "string \<Rightarrow> db \<Rightarrow> slice_row option" where
  "find_slice i d = find (\<lambda>r. sc_id r = i) (slices d)"

text \<open>\<open>slice_control_state_execution_binding_*\<close> as version 4 redefines them.\<close>

definition slice_execution_binding_ok :: "slice_target \<Rightarrow> db \<Rightarrow> bool" where
  "slice_execution_binding_ok s d \<longleftrightarrow>
     (case sl_active_execution_id s of None \<Rightarrow> True
      | Some x \<Rightarrow> (\<exists>e\<in>set (executions d). ex_id e = x \<and> ex_slice_id e = sl_id s
          \<and> Some (ex_source_root e) = sl_repository_toplevel s \<and> Some (ex_branch e) = sl_branch s
          \<and> Some (ex_base_commit e) = sl_base_commit s
          \<and> ex_result_commit e = sl_implementation_result_commit s))"

text \<open>\<open>slice_control_state_preexecution_context_*\<close>.\<close>

definition preexecution_capsule_matches :: "string \<Rightarrow> string \<Rightarrow> execution_row \<Rightarrow> bool" where
  "preexecution_capsule_matches capsule metadata e \<longleftrightarrow>
     json_extract capsule [''content'', ''contract_fingerprint''] = Some (ex_contract_fingerprint e) \<and>
     json_extract capsule [''content'', ''authority_fingerprint''] = Some (ex_authority_fingerprint e) \<and>
     json_extract capsule [''content'', ''branch''] = Some (ex_branch e) \<and>
     json_extract capsule [''content'', ''base_commit''] = Some (ex_base_commit e) \<and>
     json_extract capsule [''content'', ''current_commit''] = Some (ex_base_commit e) \<and>
     json_extract capsule [''content'', ''environment''] = Some (environment_value (ex_environment e)) \<and>
     json_extract capsule [''content'', ''risk''] = Some (risk_value (ex_risk_level e)) \<and>
     json_extract capsule [''content'', ''source_root''] \<noteq> None \<and>
     json_extract capsule [''content'', ''source_root'']
       = json_extract metadata [''metadata'', ''worktree_path'']"

definition preexecution_metadata_matches :: "string \<Rightarrow> execution_row \<Rightarrow> bool" where
  "preexecution_metadata_matches metadata e \<longleftrightarrow>
     json_extract metadata [''metadata'', ''repository_toplevel''] = Some (ex_source_root e) \<and>
     json_extract metadata [''metadata'', ''branch''] = Some (ex_branch e) \<and>
     json_extract metadata [''metadata'', ''base_commit''] = Some (ex_base_commit e) \<and>
     json_extract metadata [''metadata'', ''contract_fingerprint''] = Some (ex_contract_fingerprint e) \<and>
     json_extract metadata [''metadata'', ''authority_fingerprint''] = Some (ex_authority_fingerprint e) \<and>
     json_extract metadata [''metadata'', ''packet_ref''] \<notin> {None, Some []}"

definition preexecution_context_ok :: "slice_row \<Rightarrow> db \<Rightarrow> bool" where
  "preexecution_context_ok r d \<longleftrightarrow>
     sl_execution_eligibility (sc_fields r) \<noteq> ''ELIGIBLE_PREEXECUTION_BOUND'' \<or>
     (\<exists>e\<in>set (executions d). \<exists>v\<in>set (slice_events d). \<exists>c\<in>set (contexts d).
        se_slice_id v = sc_id r \<and> se_to_version v = sc_state_version r \<and>
        json_extract (se_metadata_json v) [''metadata'', ''context_snapshot_id''] = Some (cx_id c) \<and>
        Some (ex_id e) = sl_active_execution_id (sc_fields r) \<and>
        se_reason_code v = ''PREEXECUTION_BIND'' \<and>
        cx_execution_id c = ex_id e \<and> cx_role c = Maker \<and>
        json_extract (se_metadata_json v) [''metadata'', ''context_fingerprint''] = Some (cx_fingerprint c) \<and>
        preexecution_capsule_matches (cx_canonical_json c) (se_metadata_json v) e \<and>
        preexecution_metadata_matches (se_metadata_json v) e)"

definition insert_slice :: "slice_row \<Rightarrow> db \<Rightarrow> db result" where
  "insert_slice r d =
    (if \<not> (\<exists>v\<in>set (slice_events d). se_slice_id v = sc_id r \<and> se_from_version v = -1 \<and> se_to_version v = 0)
       then Inl (IntegrityError ''CONTROL_STATE_EVENT_REQUIRED'')
     else if \<not> slice_execution_binding_ok (sc_fields r) d
       then Inl (IntegrityError ''CONTROL_EXECUTION_BINDING_MISMATCH'')
     else if \<not> preexecution_context_ok r d
       then Inl (IntegrityError ''PREEXECUTION_CONTEXT_BINDING_MISMATCH'')
     else if \<not> slice_check r then Inl (IntegrityError ''CHECK slice_control_state'')
     else if sc_id r \<in> set (map sc_id (slices d)) then Inl (IntegrityError ''UNIQUE slice_control_state.slice_id'')
     else Inr (d\<lparr>slices := slices d @ [r]\<rparr>))"

text \<open>
  The rebinding rule of version 5: an active execution is never replaced, except when a
  pre-execution binding is taken back to the deferred shape and the log says so.
\<close>

definition release_supersedes :: "slice_row \<Rightarrow> slice_row \<Rightarrow> db \<Rightarrow> bool" where
  "release_supersedes old new d \<longleftrightarrow>
     sl_migration_class (sc_fields old) = ''DEFER_BINDING'' \<and>
     sl_execution_eligibility (sc_fields old) = ''ELIGIBLE_PREEXECUTION_BOUND'' \<and>
     sl_migration_class (sc_fields new) = ''DEFER_BINDING'' \<and>
     sl_execution_eligibility (sc_fields new) = ''INELIGIBLE_UNTIL_PREFLIGHT'' \<and>
     sl_defer_reason (sc_fields new) = Some ''PREEXECUTION_BIND_SUPERSEDED'' \<and>
     sl_repository_toplevel (sc_fields new) = None \<and> sl_branch (sc_fields new) = None \<and>
     sl_base_commit (sc_fields new) = None \<and> sl_implementation_result_commit (sc_fields new) = None \<and>
     sl_current_branch_head (sc_fields new) = None \<and> sl_active_execution_id (sc_fields new) = None \<and>
     sc_state_version new = sc_state_version old + 1 \<and>
     (\<exists>v\<in>set (slice_events d). se_slice_id v = sc_id new \<and> se_from_version v = sc_state_version old
        \<and> se_to_version v = sc_state_version new \<and> se_reason_code v = ''PREEXECUTION_RELEASE''
        \<and> json_extract (se_metadata_json v) [''metadata'', ''released_execution_id'']
            = sl_active_execution_id (sc_fields old))"

definition slice_update_ok :: "slice_row \<Rightarrow> slice_row \<Rightarrow> db \<Rightarrow> unit result" where
  "slice_update_ok old new d =
    (if sc_state_version new \<noteq> sc_state_version old + 1
        \<or> \<not> (\<exists>v\<in>set (slice_events d). se_slice_id v = sc_id new
             \<and> se_from_version v = sc_state_version old \<and> se_to_version v = sc_state_version new)
       then Inl (IntegrityError ''CONTROL_STATE_VERSION_MISMATCH'')
     else if sl_active_execution_id (sc_fields old) \<noteq> None
        \<and> sl_active_execution_id (sc_fields new) \<noteq> sl_active_execution_id (sc_fields old)
        \<and> \<not> release_supersedes old new d
       then Inl (IntegrityError ''ACTIVE_EXECUTION_REBIND_FORBIDDEN'')
     else if \<not> slice_execution_binding_ok (sc_fields new) d
       then Inl (IntegrityError ''CONTROL_EXECUTION_BINDING_MISMATCH'')
     else if \<not> preexecution_context_ok new d
       then Inl (IntegrityError ''PREEXECUTION_CONTEXT_BINDING_MISMATCH'')
     else if \<not> slice_check new then Inl (IntegrityError ''CHECK slice_control_state'')
     else Inr ())"

definition update_slices ::
  "(slice_row \<Rightarrow> bool) \<Rightarrow> (slice_row \<Rightarrow> slice_row) \<Rightarrow> db \<Rightarrow> (db \<times> nat) result" where
  "update_slices p f d =
    bnd (seq_results (map (\<lambda>r. slice_update_ok r (f r) d) (filter p (slices d)))) (\<lambda>_.
      Inr (d\<lparr>slices := update_where p f (slices d)\<rparr>, row_count p (slices d)))"

section \<open>slice_control_event\<close>

definition slice_event_check :: "slice_event_row \<Rightarrow> bool" where
  "slice_event_check v \<longleftrightarrow>
     sha_ok (se_operation_key v) \<and> -1 \<le> se_from_version v \<and> 0 \<le> se_to_version v \<and>
     se_reason_code v \<noteq> [] \<and> se_metadata_json v \<noteq> [] \<and> se_to_version v = se_from_version v + 1"

definition slice_event_monotonic :: "slice_event_row \<Rightarrow> db \<Rightarrow> bool" where
  "slice_event_monotonic v d \<longleftrightarrow>
     (se_from_version v = -1 \<longrightarrow> se_to_version v = 0
        \<and> \<not> (\<exists>r\<in>set (slices d). sc_id r = se_slice_id v)
        \<and> \<not> (\<exists>x\<in>set (slice_events d). se_slice_id x = se_slice_id v)) \<and>
     (0 \<le> se_from_version v \<longrightarrow>
        (\<exists>r\<in>set (slices d). sc_id r = se_slice_id v \<and> sc_state_version r = se_from_version v) \<and>
        (\<exists>x\<in>set (slice_events d). se_slice_id x = se_slice_id v \<and> se_to_version x = se_from_version v))"

definition insert_slice_event :: "slice_event_row \<Rightarrow> db \<Rightarrow> db result" where
  "insert_slice_event v d =
    (if \<not> slice_event_monotonic v d then Inl (IntegrityError ''CONTROL_EVENT_VERSION_MISMATCH'')
     else if \<not> slice_event_check v then Inl (IntegrityError ''CHECK slice_control_event'')
     else if \<exists>x\<in>set (slice_events d). se_operation_key x = se_operation_key v
          \<or> se_slice_id x = se_slice_id v \<and> se_to_version x = se_to_version v
       then Inl (IntegrityError ''UNIQUE slice_control_event'')
     else Inr (d\<lparr>slice_events := slice_events d @ [v]\<rparr>))"

section \<open>control_authority_state and authority_transition_event\<close>

definition authority_check :: "authority_row \<Rightarrow> bool" where
  "authority_check a \<longleftrightarrow>
     0 \<le> au_generation a \<and> au_cutover_id a \<noteq> Some [] \<and>
     sha_ok (au_slice_snapshot a) \<and> sha_ok (au_rollback_snapshot a) \<and>
     (au_mode a = TRANSITIONAL_AUTHORITY \<and> au_cutover_id a = None \<and> au_switched_at a = None \<or>
      au_mode a = CONTROL_STORE_AUTHORITY \<and> au_cutover_id a \<noteq> None \<and> au_switched_at a \<noteq> None)"

definition authority_event_covers :: "authority_row \<Rightarrow> authority_row \<Rightarrow> authority_event_row \<Rightarrow> bool" where
  "authority_event_covers old new e \<longleftrightarrow>
     ae_from_mode e = au_mode old \<and> ae_to_mode e = au_mode new \<and>
     ae_from_generation e = au_generation old \<and> ae_to_generation e = au_generation new \<and>
     ae_slice_snapshot e = au_slice_snapshot old \<and> ae_slice_snapshot e = au_slice_snapshot new \<and>
     ae_rollback_snapshot e = au_rollback_snapshot old \<and> ae_rollback_snapshot e = au_rollback_snapshot new \<and>
     ae_created_at e = au_updated_at new \<and>
     (ae_event_type e = AUTHORITY_SWITCH \<and> au_cutover_id old = None \<and> au_switched_at old = None
        \<and> au_cutover_id new = Some (ae_cutover_id e) \<and> au_switched_at new = Some (ae_created_at e) \<or>
      ae_event_type e = AUTHORITY_ROLLBACK \<and> au_cutover_id old = Some (ae_cutover_id e)
        \<and> au_switched_at old \<noteq> None \<and> au_cutover_id new = None \<and> au_switched_at new = None)"

definition authority_update_ok :: "authority_row \<Rightarrow> authority_row \<Rightarrow> db \<Rightarrow> unit result" where
  "authority_update_ok old new d =
    (if \<not> (au_mode old = TRANSITIONAL_AUTHORITY \<and> au_mode new = au_mode old
          \<and> au_cutover_id new = au_cutover_id old \<and> au_switched_at new = au_switched_at old)
        \<and> \<not> (\<exists>e\<in>set (authority_events d). authority_event_covers old new e)
       then Inl (IntegrityError ''AUTHORITY_TRANSITION_EVENT_REQUIRED'')
     else if au_generation new \<noteq> au_generation old + 1
       then Inl (IntegrityError ''AUTHORITY_GENERATION_CONFLICT'')
     else if \<not> authority_check new then Inl (IntegrityError ''CHECK control_authority_state'')
     else Inr ())"

definition update_authority ::
  "(authority_row \<Rightarrow> bool) \<Rightarrow> (authority_row \<Rightarrow> authority_row) \<Rightarrow> db \<Rightarrow> (db \<times> nat) result" where
  "update_authority p f d = (case authority d of
     None \<Rightarrow> Inr (d, 0)
   | Some a \<Rightarrow> if \<not> p a then Inr (d, 0)
       else bnd (authority_update_ok a (f a) d) (\<lambda>_. Inr (d\<lparr>authority := Some (f a)\<rparr>, 1)))"

definition authority_event_check :: "authority_event_row \<Rightarrow> bool" where
  "authority_event_check e \<longleftrightarrow>
     trimmed_nonempty (ae_event_id e) \<and> sha_ok (ae_operation_key e) \<and> trimmed_nonempty (ae_cutover_id e) \<and>
     0 \<le> ae_from_generation e \<and> ae_to_generation e = ae_from_generation e + 1 \<and>
     sha_ok (ae_slice_snapshot e) \<and> sha_ok (ae_rollback_snapshot e) \<and>
     trimmed_nonempty (ae_human_decision_ref e) \<and>
     (ae_event_type e = AUTHORITY_SWITCH \<and> ae_from_mode e = TRANSITIONAL_AUTHORITY
        \<and> ae_to_mode e = CONTROL_STORE_AUTHORITY \<or>
      ae_event_type e = AUTHORITY_ROLLBACK \<and> ae_from_mode e = CONTROL_STORE_AUTHORITY
        \<and> ae_to_mode e = TRANSITIONAL_AUTHORITY)"

text \<open>\<open>authority_transition_event_state_guard\<close>.\<close>

definition authority_event_guard :: "authority_event_row \<Rightarrow> db \<Rightarrow> bool" where
  "authority_event_guard e d \<longleftrightarrow> (case authority d of None \<Rightarrow> False
     | Some a \<Rightarrow> au_mode a = ae_from_mode e \<and> au_generation a = ae_from_generation e
         \<and> au_slice_snapshot a = ae_slice_snapshot e \<and> au_rollback_snapshot a = ae_rollback_snapshot e
         \<and> (ae_event_type e = AUTHORITY_SWITCH \<and> au_cutover_id a = None \<and> au_switched_at a = None \<or>
            ae_event_type e = AUTHORITY_ROLLBACK \<and> au_cutover_id a = Some (ae_cutover_id e)
              \<and> au_switched_at a \<noteq> None))"

text \<open>\<open>authority_transition_event_apply\<close>: the update the insert itself performs.\<close>

definition authority_event_apply :: "authority_event_row \<Rightarrow> authority_row \<Rightarrow> authority_row" where
  "authority_event_apply e a = a\<lparr>
     au_mode := ae_to_mode e, au_generation := ae_to_generation e,
     au_cutover_id := (if ae_event_type e = AUTHORITY_SWITCH then Some (ae_cutover_id e) else None),
     au_switched_at := (if ae_event_type e = AUTHORITY_SWITCH then Some (ae_created_at e) else None),
     au_updated_at := ae_created_at e\<rparr>"

definition insert_authority_event :: "authority_event_row \<Rightarrow> db \<Rightarrow> db result" where
  "insert_authority_event e d =
    (if \<not> authority_event_guard e d then Inl (IntegrityError ''AUTHORITY_TRANSITION_STATE_MISMATCH'')
     else if \<not> authority_event_check e then Inl (IntegrityError ''CHECK authority_transition_event'')
     else if \<exists>x\<in>set (authority_events d). ae_event_id x = ae_event_id e
          \<or> ae_operation_key x = ae_operation_key e \<or> ae_from_generation x = ae_from_generation e
          \<or> ae_to_generation x = ae_to_generation e
          \<or> ae_cutover_id x = ae_cutover_id e \<and> ae_event_type x = ae_event_type e
       then Inl (IntegrityError ''UNIQUE authority_transition_event'')
     else bnd (update_authority (\<lambda>_. True) (authority_event_apply e)
                (d\<lparr>authority_events := authority_events d @ [e]\<rparr>)) (\<lambda>(d', _). Inr d'))"

section \<open>What a successful statement did\<close>

lemma insert_slice_event_Inr:
  assumes "insert_slice_event v d = Inr d'"
  shows "d' = d\<lparr>slice_events := slice_events d @ [v]\<rparr>"
    and "slice_event_monotonic v d" and "slice_event_check v"
    and "\<forall>x\<in>set (slice_events d). se_operation_key x \<noteq> se_operation_key v"
  using assms unfolding insert_slice_event_def by (auto split: if_split_asm)

lemma insert_slice_Inr:
  assumes "insert_slice r d = Inr d'"
  shows "sc_id r \<notin> sc_id ` set (slices d)" and "d' = d\<lparr>slices := slices d @ [r]\<rparr>"
    and "slice_check r" and "slice_execution_binding_ok (sc_fields r) d"
  using assms unfolding insert_slice_def by (simp_all split: if_split_asm)

lemma update_slices_Inr:
  assumes "update_slices p f d = Inr (d', n)"
  shows "d' = d\<lparr>slices := update_where p f (slices d)\<rparr>" and "n = row_count p (slices d)"
    and "\<And>r. r \<in> set (slices d) \<Longrightarrow> p r \<Longrightarrow> slice_update_ok r (f r) d = Inr ()"
proof -
  obtain us where us: "map (\<lambda>r. slice_update_ok r (f r) d) (filter p (slices d)) = map Inr us"
      and rest: "d' = d\<lparr>slices := update_where p f (slices d)\<rparr>" "n = row_count p (slices d)"
    using assms unfolding update_slices_def by (auto simp: success seq_results_Inr)
  show "d' = d\<lparr>slices := update_where p f (slices d)\<rparr>" and "n = row_count p (slices d)"
    by (fact rest)+
  fix r
  assume "r \<in> set (slices d)" "p r"
  then have "slice_update_ok r (f r) d \<in> set (map (\<lambda>r. slice_update_ok r (f r) d) (filter p (slices d)))"
    by auto
  then show "slice_update_ok r (f r) d = Inr ()"
    unfolding us by auto
qed

lemma slice_update_ok_Inr:
  assumes "slice_update_ok old new d = Inr u"
  shows "sc_state_version new = sc_state_version old + 1" and "slice_check new"
    and "slice_execution_binding_ok (sc_fields new) d"
    and "sl_active_execution_id (sc_fields old) = None
      \<or> sl_active_execution_id (sc_fields new) = sl_active_execution_id (sc_fields old)
      \<or> release_supersedes old new d"
  using assms unfolding slice_update_ok_def by (auto split: if_split_asm)

interpretation slice_table: guarded_table sc_id find_slice insert_slice update_slices
proof unfold_locales
  fix r d d' k
  assume "insert_slice r d = Inr d'"
  note row = insert_slice_Inr [OF this]
  show "find_slice k d' = (if k = sc_id r then Some r else find_slice k d)"
    by (simp add: find_slice_def row(2) find_snoc_key [where key = sc_id, OF row(1)])
  show "find_slice (sc_id r) d = None"
    by (simp add: find_slice_def find_fresh [where key = sc_id, OF row(1)])
next
  fix p f d d' n k
  assume "update_slices p f d = Inr (d', n)" and key: "\<And>r. sc_id (f r) = sc_id r"
  then have "d' = d\<lparr>slices := update_where p f (slices d)\<rparr>" by (simp add: update_slices_Inr)
  then show "find_slice k d' = map_option (\<lambda>r. if p r then f r else r) (find_slice k d)"
    by (simp add: find_slice_def find_update_where [where key = sc_id, OF key])
next
  show "find_slice k d = Some r \<Longrightarrow> sc_id r = k" for k d r
    unfolding find_slice_def by (drule find_SomeD) simp
qed

text \<open>
  The two authority modes are the two shapes of the row; inserting an event applies it, so an
  event and its effect on the singleton are one step.
\<close>

lemma insert_authority_event_Inr:
  assumes "insert_authority_event e d = Inr d'"
  shows "\<exists>a. authority d = Some a \<and> authority d' = Some (authority_event_apply e a)
    \<and> authority_events d' = authority_events d @ [e]
    \<and> au_mode a = ae_from_mode e \<and> au_generation a = ae_from_generation e
    \<and> authority_event_check e \<and> authority_check (authority_event_apply e a)"
proof -
  have guard: "authority_event_guard e d" and check: "authority_event_check e"
    and upd: "\<exists>n. update_authority (\<lambda>_. True) (authority_event_apply e)
          (d\<lparr>authority_events := authority_events d @ [e]\<rparr>) = Inr (d', n)"
    using assms unfolding insert_authority_event_def by (auto simp: success split: if_split_asm)
  from guard obtain a where a: "authority d = Some a" "au_mode a = ae_from_mode e" "au_generation a = ae_from_generation e"
    by (auto simp: authority_event_guard_def split: option.splits)
  with upd have "d' = d\<lparr>authority_events := authority_events d @ [e], authority := Some (authority_event_apply e a)\<rparr>"
      and "authority_check (authority_event_apply e a)"
    by (auto simp: update_authority_def success authority_update_ok_def split: if_split_asm)
  with a check show ?thesis by simp
qed

end
