(* ===== verification/Schema_Writer.thy ===== *)
theory Schema_Writer
  imports Schema_Control
begin

text \<open>
  Checks and triggers of the global production writer (version 6), the evaluator artifact
  seals (version 7) and the typed PostgreSQL receipts (versions 8 and 10). SQLite's
  \<open>julianday\<close> of a stored instant is the parameter \<open>julian\<close>: the schema compares timestamps at
  that precision. \<open>text_julian\<close> says whether SQLite reads a caller's text as a UTC instant.
\<close>

section \<open>global_production_writer_lease\<close>

definition context_fields_none :: "writer_context \<Rightarrow> bool" where
  "context_fields_none w \<longleftrightarrow>
     wc_owner_id w = None \<and> wc_owner_execution_id w = None \<and> wc_change_id w = None \<and>
     wc_slice_id w = None \<and> wc_writer_class w = None \<and> wc_owner_session_role w = None \<and>
     wc_track w = None \<and> wc_repository_or_runtime w = None \<and> wc_operation_class w = None \<and>
     wc_target w = None"

definition context_required :: "writer_context \<Rightarrow> string option list" where
  "context_required w =
     [wc_owner_id w, wc_change_id w, wc_writer_class w, wc_owner_session_role w, wc_track w,
      wc_repository_or_runtime w, wc_operation_class w, wc_target w]"

definition context_optional :: "writer_context \<Rightarrow> string option list" where
  "context_optional w = [wc_owner_execution_id w, wc_slice_id w]"

definition context_fields_held :: "writer_context \<Rightarrow> bool" where
  "context_fields_held w \<longleftrightarrow>
     list_all (\<lambda>v. v \<notin> {None, Some []}) (context_required w) \<and>
     list_all (\<lambda>v. v \<noteq> Some []) (context_optional w)"

definition writer_check :: "(int \<Rightarrow> int) \<Rightarrow> writer_row \<Rightarrow> bool" where
  "writer_check julian r \<longleftrightarrow> 0 \<le> gw_fencing_token r \<and>
     (case gw_state r of
        FREE \<Rightarrow> context_fields_none (gw_context r) \<and> gw_acquired_at r = None
          \<and> gw_expires_at r = None \<and> gw_heartbeat_at r = None
      | HELD \<Rightarrow> context_fields_held (gw_context r) \<and>
          (case (gw_acquired_at r, gw_expires_at r, gw_heartbeat_at r) of
             (Some a, Some e, Some h) \<Rightarrow> julian a \<le> julian h \<and> julian h = julian (gw_updated_at r)
               \<and> julian (gw_updated_at r) < julian e
           | _ \<Rightarrow> False))"

definition update_writer ::
  "(int \<Rightarrow> int) \<Rightarrow> (writer_row \<Rightarrow> bool) \<Rightarrow> (writer_row \<Rightarrow> writer_row) \<Rightarrow> db \<Rightarrow> (db \<times> nat) result" where
  "update_writer julian p f d = (case writer d of
     None \<Rightarrow> Inr (d, 0)
   | Some r \<Rightarrow>
       if \<not> p r then Inr (d, 0)
       else if gw_fencing_token (f r) < gw_fencing_token r
         then Inl (IntegrityError ''GLOBAL_PRODUCTION_WRITER_FENCING_DECREMENT_FORBIDDEN'')
       else if \<not> writer_check julian (f r) then Inl (IntegrityError ''CHECK global_production_writer_lease'')
       else Inr (d\<lparr>writer := Some (f r)\<rparr>, 1))"

lemma update_writer_Inr:
  assumes "update_writer julian p f d = Inr (d', n)"
  shows "(n = 1 \<and> (\<exists>r. writer d = Some r \<and> p r \<and> d' = d\<lparr>writer := Some (f r)\<rparr> \<and> writer_check julian (f r)
            \<and> gw_fencing_token r \<le> gw_fencing_token (f r)))
    \<or> (n = 0 \<and> d' = d)"
  using assms unfolding update_writer_def by (auto split: option.splits if_split_asm)

section \<open>global_production_writer_event\<close>

definition writer_event_check :: "writer_event_row \<Rightarrow> bool" where
  "writer_event_check e \<longleftrightarrow>
     ge_event_id e \<noteq> [] \<and> sha_ok (ge_operation_key e) \<and> 0 \<le> ge_from_token e \<and> 0 \<le> ge_to_token e \<and>
     ge_reason e \<noteq> [] \<and> ge_control_decision_ref e \<noteq> Some [] \<and> ge_request_json e \<noteq> [] \<and>
     (ge_event_type e = RELEASE \<and> ge_to_token e = ge_from_token e \<or>
      ge_event_type e \<in> {ACQUIRE, EXPIRED_TAKEOVER, FORCE_REVOKE} \<and> ge_to_token e = ge_from_token e + 1) \<and>
     (ge_event_type e = ACQUIRE \<and> wc_owner_id (ge_prior e) = None \<and> wc_owner_id (ge_new e) \<noteq> None \<or>
      ge_event_type e = EXPIRED_TAKEOVER \<and> wc_owner_id (ge_prior e) \<noteq> None \<and> wc_owner_id (ge_new e) \<noteq> None \<or>
      ge_event_type e \<in> {RELEASE, FORCE_REVOKE} \<and> wc_owner_id (ge_prior e) \<noteq> None
        \<and> wc_owner_id (ge_new e) = None) \<and>
     (ge_event_type e = FORCE_REVOKE \<longrightarrow> ge_control_decision_ref e \<noteq> None)"

definition insert_writer_event_row :: "writer_event_row \<Rightarrow> db \<Rightarrow> db result" where
  "insert_writer_event_row e d =
    (if \<not> writer_event_check e then Inl (IntegrityError ''CHECK global_production_writer_event'')
     else if \<exists>x\<in>set (writer_events d). ge_event_id x = ge_event_id e \<or> ge_operation_key x = ge_operation_key e
       then Inl (IntegrityError ''UNIQUE global_production_writer_event'')
     else if writer d = None then Inl (IntegrityError ''FOREIGN KEY'')
     else Inr (d\<lparr>writer_events := writer_events d @ [e]\<rparr>))"

lemma insert_writer_event_row_Inr:
  assumes "insert_writer_event_row e d = Inr d'"
  shows "writer_event_check e \<and> d' = d\<lparr>writer_events := writer_events d @ [e]\<rparr>
    \<and> (\<forall>x\<in>set (writer_events d). ge_operation_key x \<noteq> ge_operation_key e)"
  using assms unfolding insert_writer_event_row_def by (auto split: if_split_asm)

section \<open>evaluator_artifact_seal\<close>

abbreviation zr_id :: "seal_row \<Rightarrow> string" where
  "zr_id s \<equiv> zc_seal_id (zr_fields s)"

definition seal_check :: "seal_create \<Rightarrow> bool" where
  "seal_check z \<longleftrightarrow>
     zc_seal_id z \<noteq> [] \<and> commit_ok (zc_result_commit z) \<and> sha_ok (zc_context_fingerprint z) \<and>
     sha_ok (zc_contract_fingerprint z) \<and> sha_ok (zc_authority_fingerprint z) \<and>
     zc_producer_ref z \<noteq> [] \<and> zc_evidence_root z \<noteq> [] \<and> zc_manifest_version z = 1 \<and>
     zc_manifest_json z \<noteq> [] \<and> sha_ok (zc_manifest_sha256 z) \<and> 0 \<le> zc_authority_generation z \<and>
     sha_ok (zc_operation_key z) \<and>
     (zc_phase z = LEGACY_ATTESTED \<and> zc_producer_kind z = LEGACY_HUMAN_ATTESTATION
        \<and> zc_approval_id z \<notin> {None, Some []} \<or>
      zc_phase z \<in> {PRE_EXECUTION, POST_EXECUTION}
        \<and> zc_producer_kind z \<in> {CONTROLLER_RUNNER, EXECUTION_ADAPTER} \<and> zc_approval_id z = None)"

text \<open>\<open>evaluator_artifact_seal_binding_insert\<close>.\<close>

definition seal_binding_ok :: "seal_create \<Rightarrow> db \<Rightarrow> bool" where
  "seal_binding_ok z d \<longleftrightarrow>
     (\<exists>e\<in>set (executions d). ex_id e = zc_execution_id z \<and> ex_result_commit e = Some (zc_result_commit z)
        \<and> ex_contract_fingerprint e = zc_contract_fingerprint z
        \<and> ex_authority_fingerprint e = zc_authority_fingerprint z) \<and>
     (\<exists>a\<in>set (attempts d). at_id a = zc_attempt_id z \<and> at_execution_id a = zc_execution_id z
        \<and> at_role a = Evaluator \<and> at_result_commit a = Some (zc_result_commit z)
        \<and> at_context_id a = zc_context_id z
        \<and> (zc_phase z \<in> {PRE_EXECUTION, POST_EXECUTION} \<and> at_status a = RUNNING
           \<or> zc_phase z = LEGACY_ATTESTED \<and> at_status a = SUCCEEDED)) \<and>
     (\<exists>c\<in>set (contexts d). cx_id c = zc_context_id z \<and> cx_execution_id c = zc_execution_id z
        \<and> cx_role c = Evaluator \<and> cx_fingerprint c = zc_context_fingerprint z) \<and>
     (\<exists>v\<in>set (verifications d). vr_id v = zc_verification_id z \<and> vr_execution_id v = zc_execution_id z
        \<and> vr_result_commit v = zc_result_commit z
        \<and> vr_contract_fingerprint v = zc_contract_fingerprint z
        \<and> vr_authority_fingerprint v = zc_authority_fingerprint z \<and> vr_verdict v = ''PASS'') \<and>
     (case authority d of None \<Rightarrow> False | Some a \<Rightarrow> au_generation a = zc_authority_generation z)"

text \<open>\<open>evaluator_artifact_seal_post_requires_pre\<close>.\<close>

definition seal_same_binding :: "seal_create \<Rightarrow> seal_create \<Rightarrow> bool" where
  "seal_same_binding p z \<longleftrightarrow>
     zc_attempt_id p = zc_attempt_id z \<and> zc_execution_id p = zc_execution_id z
     \<and> zc_result_commit p = zc_result_commit z \<and> zc_verification_id p = zc_verification_id z
     \<and> zc_context_id p = zc_context_id z \<and> zc_context_fingerprint p = zc_context_fingerprint z
     \<and> zc_contract_fingerprint p = zc_contract_fingerprint z
     \<and> zc_authority_fingerprint p = zc_authority_fingerprint z
     \<and> zc_evidence_root p = zc_evidence_root z \<and> zc_authority_generation p = zc_authority_generation z"

definition insert_seal :: "seal_row \<Rightarrow> db \<Rightarrow> db result" where
  "insert_seal s d =
    (let z = zr_fields s in
     if \<not> seal_binding_ok z d then Inl (IntegrityError ''EVALUATOR_ARTIFACT_SEAL_BINDING_MISMATCH'')
     else if zc_phase z = POST_EXECUTION
        \<and> \<not> (\<exists>p\<in>set (map zr_fields (seals d)). zc_phase p = PRE_EXECUTION \<and> seal_same_binding p z)
       then Inl (IntegrityError ''EVALUATOR_POST_SEAL_PRE_REQUIRED'')
     else if zc_phase z = LEGACY_ATTESTED
        \<and> (\<exists>p\<in>set (map zr_fields (seals d)). zc_attempt_id p = zc_attempt_id z \<and> zc_phase p = POST_EXECUTION)
       then Inl (IntegrityError ''EVALUATOR_LEGACY_SEAL_FRESH_POST_EXISTS'')
     else if \<not> seal_check z then Inl (IntegrityError ''CHECK evaluator_artifact_seal'')
     else if \<exists>p\<in>set (map zr_fields (seals d)). zc_seal_id p = zc_seal_id z
          \<or> zc_operation_key p = zc_operation_key z
          \<or> zc_attempt_id p = zc_attempt_id z \<and> zc_phase p = zc_phase z
       then Inl (IntegrityError ''UNIQUE evaluator_artifact_seal'')
     else Inr (d\<lparr>seals := seals d @ [s]\<rparr>))"

definition find_seal :: "string \<Rightarrow> db \<Rightarrow> seal_row option" where
  "find_seal i d = find (\<lambda>s. zr_id s = i) (seals d)"

lemma insert_seal_Inr:
  assumes "insert_seal s d = Inr d'"
  shows "zr_id s \<notin> zr_id ` set (seals d)" and "d' = d\<lparr>seals := seals d @ [s]\<rparr>"
    and "seal_binding_ok (zr_fields s) d" and "seal_check (zr_fields s)"
proof -
  show "zr_id s \<notin> zr_id ` set (seals d)"
  proof
    assume "zr_id s \<in> zr_id ` set (seals d)"
    then have "\<exists>p\<in>set (map zr_fields (seals d)). zc_seal_id p = zc_seal_id (zr_fields s)" by force
    with assms show False unfolding insert_seal_def Let_def by (auto split: if_split_asm)
  qed
qed (use assms in \<open>simp_all add: insert_seal_def Let_def split: if_split_asm\<close>)

interpretation seal_table: append_table zr_id find_seal insert_seal
proof unfold_locales
  fix r d d' k
  assume "insert_seal r d = Inr d'"
  note row = insert_seal_Inr [OF this]
  show "find_seal k d' = (if k = zr_id r then Some r else find_seal k d)"
    by (simp add: find_seal_def row(2) find_snoc_key [where key = zr_id, OF row(1)])
  show "find_seal (zr_id r) d = None"
    by (simp add: find_seal_def find_fresh [where key = zr_id, OF row(1)])
next
  show "find_seal k d = Some r \<Longrightarrow> zr_id r = k" for k d r
    unfolding find_seal_def by (drule find_SomeD) simp
qed

section \<open>typed_postgres_operation_receipt_event\<close>

text \<open>\<open>length(created_at) > 0 AND julianday(created_at) IS NOT NULL AND substr(created_at, -6) = '+00:00'\<close>.\<close>

definition utc_suffix :: "string \<Rightarrow> bool" where
  "utc_suffix s \<longleftrightarrow> 6 \<le> length s \<and> drop (length s - 6) s = ''+00:00''"

definition receipt_check :: "(string \<Rightarrow> bool) \<Rightarrow> receipt_fields \<Rightarrow> bool" where
  "receipt_check text_julian f \<longleftrightarrow>
     rc_version f = 1 \<and> rc_change_id f \<noteq> [] \<and> rc_control_decision_ref f \<noteq> [] \<and>
     rc_deployment_id f \<noteq> [] \<and> rc_operation_id f \<noteq> [] \<and>
     rc_operation_type f \<in> {''EXECUTE_AUTHORIZED_SQL_FILE'', ''TRANSITION_DATABASE_OWNER'',
       ''APPLY_ROLE_PASSWORD_FROM_PROTECTED_FILE'', ''PROVISION_CLEANER_APP_PRINCIPAL''} \<and>
     rc_phase f \<in> {''PREPARED'', ''FINAL''} \<and> rc_target_service f \<noteq> [] \<and>
     opt_all sha_ok (rc_artifact_sha256 f) \<and> sha_ok (rc_request_fingerprint f) \<and>
     sha_ok (rc_before_fingerprint f) \<and> opt_all sha_ok (rc_after_fingerprint f) \<and>
     rc_effect_status f \<in> {''PENDING'', ''APPLIED'', ''NOOP_EXACT''} \<and> 0 < rc_w08_token f \<and>
     rc_created_at f \<noteq> [] \<and> text_julian (rc_created_at f) \<and> utc_suffix (rc_created_at f) \<and>
     (rc_phase f = ''PREPARED'' \<and> rc_effect_status f = ''PENDING'' \<and> rc_after_fingerprint f = None \<or>
      rc_phase f = ''FINAL'' \<and> rc_effect_status f \<in> {''APPLIED'', ''NOOP_EXACT''}
        \<and> rc_after_fingerprint f \<noteq> None)"

text \<open>\<open>typed_postgres_operation_receipt_event_final_requires_prepared\<close>.\<close>

definition prepared_for :: "receipt_fields \<Rightarrow> receipt_fields \<Rightarrow> bool" where
  "prepared_for p f \<longleftrightarrow>
     rc_operation_id p = rc_operation_id f \<and> rc_phase p = ''PREPARED'' \<and> rc_version p = rc_version f \<and>
     rc_change_id p = rc_change_id f \<and> rc_control_decision_ref p = rc_control_decision_ref f \<and>
     rc_deployment_id p = rc_deployment_id f \<and> rc_operation_type p = rc_operation_type f \<and>
     rc_target_service p = rc_target_service f \<and> rc_target_database p = rc_target_database f \<and>
     rc_principal_identity p = rc_principal_identity f \<and>
     rc_credential_reference p = rc_credential_reference f \<and> rc_artifact_path p = rc_artifact_path f \<and>
     rc_artifact_sha256 p = rc_artifact_sha256 f \<and> rc_request_fingerprint p = rc_request_fingerprint f \<and>
     rc_before_fingerprint p = rc_before_fingerprint f \<and> rc_w08_token p = rc_w08_token f"

definition insert_receipt :: "(string \<Rightarrow> bool) \<Rightarrow> receipt_row \<Rightarrow> db \<Rightarrow> db result" where
  "insert_receipt text_julian r d =
    (let f = rr_fields r in
     if rc_phase f = ''FINAL'' \<and> \<not> (\<exists>p\<in>set (map rr_fields (receipts d)). prepared_for p f)
       then Inl (IntegrityError ''TYPED_POSTGRES_FINAL_PREPARED_BINDING_REQUIRED'')
     else if rr_receipt_id r = [] \<or> \<not> receipt_check text_julian f
       then Inl (IntegrityError ''CHECK typed_postgres_operation_receipt_event'')
     else if \<exists>x\<in>set (receipts d). rr_receipt_id x = rr_receipt_id r
          \<or> rc_operation_id (rr_fields x) = rc_operation_id f \<and> rc_phase (rr_fields x) = rc_phase f
       then Inl (IntegrityError ''UNIQUE typed_postgres_operation_receipt_event'')
     else Inr (d\<lparr>receipts := receipts d @ [r]\<rparr>))"

lemma insert_receipt_Inr:
  assumes "insert_receipt text_julian r d = Inr d'"
  shows "d' = d\<lparr>receipts := receipts d @ [r]\<rparr>" and "receipt_check text_julian (rr_fields r)"
    and "rc_phase (rr_fields r) = ''FINAL'' \<longrightarrow> (\<exists>p\<in>set (receipts d). prepared_for (rr_fields p) (rr_fields r))"
    and "\<not> (\<exists>x\<in>set (receipts d). rc_operation_id (rr_fields x) = rc_operation_id (rr_fields r)
              \<and> rc_phase (rr_fields x) = rc_phase (rr_fields r))"
  using assms unfolding insert_receipt_def Let_def by (auto split: if_split_asm)

end
