(* ===== verification/Artifact_Seal.thy ===== *)
theory Artifact_Seal
  imports Domain
begin

text \<open>
  Sealed evaluator artifacts (\<open>src/adcp/artifact_seal.py\<close>): the collection of a manifest from
  bytes read below a trusted root, its parsing and its verification. The operating system is a
  record of what the program asks it: paths are walked name by name through a tree of nodes,
  and an opened file carries what \<open>fstat\<close>, \<open>read\<close> and the final \<open>stat\<close> reported, so that a file
  changing under the reader is a value of the model.
\<close>

section \<open>Paths\<close>

text \<open>
  A \<open>PurePosixPath\<close>: the root (empty, one or exactly two slashes) and the parts below it.
\<close>

record posix_path =
  anchor :: string
  parts :: "string list"

definition path_anchor :: "string \<Rightarrow> string" where
  "path_anchor s =
    (if take 1 s \<noteq> ''/'' then []
     else if take 2 s = ''//'' \<and> take 3 s \<noteq> ''///'' then ''//'' else ''/'')"

definition path_of :: "string \<Rightarrow> posix_path" where
  "path_of s = \<lparr>anchor = path_anchor s,
     parts = filter (\<lambda>p. p \<noteq> [] \<and> p \<noteq> ''.'') (split_on (CHR ''/'') s)\<rparr>"

fun join_slashes :: "string list \<Rightarrow> string" where
  "join_slashes [] = []"
| "join_slashes [p] = p"
| "join_slashes (p # q # ps) = p @ CHR ''/'' # join_slashes (q # ps)"

definition path_text :: "posix_path \<Rightarrow> string" where
  "path_text p = (if anchor p = [] \<and> parts p = [] then ''.'' else anchor p @ join_slashes (parts p))"

definition is_absolute :: "posix_path \<Rightarrow> bool" where
  "is_absolute p \<longleftrightarrow> anchor p \<noteq> []"

text \<open>The right operand of \<open>/\<close> wins when it is absolute.\<close>

definition path_join :: "posix_path \<Rightarrow> posix_path \<Rightarrow> posix_path" where
  "path_join a b = (if is_absolute b then b else a\<lparr>parts := parts a @ parts b\<rparr>)"

text \<open>\<open>os.path.abspath\<close> of an absolute path: lexical, symbolic links are not resolved.\<close>

definition abspath :: "posix_path \<Rightarrow> posix_path" where
  "abspath p = p\<lparr>parts := foldl (\<lambda>acc c. if c = ''..'' then butlast acc else acc @ [c]) [] (parts p)\<rparr>"

section \<open>What the operating system reports\<close>

record file_status =
  st_dev :: int
  st_ino :: int
  st_mode :: int
  st_nlink :: int
  st_size :: int
  st_mtime_ns :: int
  st_ctime_ns :: int

text \<open>
  One reading of a regular file: its status when opened, the bytes read until end of file, its
  status afterwards, and the status of the name it was opened under (\<open>None\<close> when that fails).
\<close>

record observed_file =
  opened_status :: file_status
  file_bytes :: string
  read_status :: file_status
  lexical_status :: "file_status option"

text \<open>
  \<open>Directory\<close> and \<open>Regular\<close> carry whether the process may open them; \<open>Link\<close> is a symbolic
  link, \<open>Irregular\<close> a device, pipe or socket.
\<close>

datatype node =
    Directory bool "(string \<times> node) list"
  | Regular bool observed_file
  | Link
  | Irregular

text \<open>
  \<open>home_of\<close> is \<open>os.path.expanduser\<close> on a first component that starts with a tilde (\<open>None\<close> when
  it names no home). \<open>named_node\<close> is the node an absolute path names without following a link in
  its last component, \<open>resolved_node\<close> the one it names when that is followed.
\<close>

record os_world =
  home_of :: "string \<Rightarrow> string option"
  working_directory :: string
  named_node :: "string \<Rightarrow> node option"
  resolved_node :: "string \<Rightarrow> node option"

definition expanduser :: "os_world \<Rightarrow> posix_path \<Rightarrow> posix_path result" where
  "expanduser w p =
    (if anchor p = [] \<and> parts p \<noteq> [] \<and> take 1 (hd (parts p)) = ''~'' then
       (case home_of w (hd (parts p)) of
          None \<Rightarrow> Inl (PythonError ''RuntimeError'')
        | Some home \<Rightarrow> Inr (let h = path_of home in h\<lparr>parts := parts h @ tl (parts p)\<rparr>))
     else Inr p)"

definition lexical_root :: "os_world \<Rightarrow> string \<Rightarrow> posix_path result" where
  "lexical_root w root =
    bnd (expanduser w (path_of root)) (\<lambda>p.
    Inr (abspath (if is_absolute p then p else path_join (path_of (working_directory w)) p)))"

text \<open>
  \<open>relative_to\<close> fails when the root's own parts are not a prefix. The last test of the source
  also excludes empty and dot parts, which a parsed path never has.
\<close>

definition relative_to :: "posix_path \<Rightarrow> posix_path \<Rightarrow> posix_path option" where
  "relative_to p root =
    (if anchor p = anchor root \<and> take (length (parts root)) (parts p) = parts root
     then Some \<lparr>anchor = [], parts = drop (length (parts root)) (parts p)\<rparr> else None)"

definition relative_artifact_path :: "os_world \<Rightarrow> string \<Rightarrow> string \<Rightarrow> string result" where
  "relative_artifact_path w p root =
    bnd (expanduser w (path_of p)) (\<lambda>raw.
    if ''..'' \<in> set (parts raw) then Inl (SealError ''EVALUATOR_ARTIFACT_PATH_TRAVERSAL'')
    else bnd (lexical_root w root) (\<lambda>r.
    bnd (if is_absolute raw
         then of_option (SealError ''EVALUATOR_ARTIFACT_PATH_ESCAPE'') (relative_to (abspath raw) r)
         else Inr raw) (\<lambda>relative.
    if parts relative = [] \<or> is_absolute relative
    then Inl (SealError ''EVALUATOR_ARTIFACT_PATH_INVALID'')
    else if list_ex (\<lambda>q. q \<in> {[], ''.'', ''..''}) (parts relative)
    then Inl (SealError ''EVALUATOR_ARTIFACT_PATH_TRAVERSAL'')
    else Inr (path_text relative))))"

section \<open>Reading below the root\<close>

text \<open>
  Opening a directory without following links: a link or anything that is not a directory
  answers \<open>ELOOP\<close> or \<open>ENOTDIR\<close>, so the status test of \<open>_open_directory\<close> never fails after it.
  A name with a null byte never reaches the system.
\<close>

definition open_directory :: "os_world \<Rightarrow> posix_path \<Rightarrow> (string \<times> node) list result" where
  "open_directory w root =
    (if CHR 0x00 \<in> set (path_text root) then Inl (PythonError ''ValueError'') else
     case named_node w (path_text root) of
       None \<Rightarrow> Inl (SealError ''EVALUATOR_EVIDENCE_ROOT_UNAVAILABLE'')
     | Some (Directory readable entries) \<Rightarrow>
         if readable then Inr entries else Inl (SealError ''EVALUATOR_EVIDENCE_ROOT_UNAVAILABLE'')
     | Some _ \<Rightarrow> Inl (SealError ''EVALUATOR_ARTIFACT_SYMLINK_FORBIDDEN''))"

fun open_below :: "(string \<times> node) list \<Rightarrow> string list \<Rightarrow> observed_file result" where
  "open_below entries [] = Inl (SealError ''EVALUATOR_ARTIFACT_PATH_TRAVERSAL'')"
| "open_below entries [name] =
    (if CHR 0x00 \<in> set name then Inl (PythonError ''ValueError'') else
     case map_of entries name of
       None \<Rightarrow> Inl (SealError ''EVALUATOR_ARTIFACT_UNAVAILABLE'')
     | Some Link \<Rightarrow> Inl (SealError ''EVALUATOR_ARTIFACT_SYMLINK_FORBIDDEN'')
     | Some Irregular \<Rightarrow> Inl (SealError ''EVALUATOR_ARTIFACT_NOT_REGULAR'')
     | Some (Directory readable _) \<Rightarrow>
         if readable then Inl (SealError ''EVALUATOR_ARTIFACT_NOT_REGULAR'')
         else Inl (SealError ''EVALUATOR_ARTIFACT_UNAVAILABLE'')
     | Some (Regular readable file) \<Rightarrow>
         if \<not> readable then Inl (SealError ''EVALUATOR_ARTIFACT_UNAVAILABLE'')
         else if st_nlink (opened_status file) \<noteq> 1
         then Inl (SealError ''EVALUATOR_ARTIFACT_HARDLINK_FORBIDDEN'')
         else Inr file)"
| "open_below entries (name # p # ps) =
    (if CHR 0x00 \<in> set name then Inl (PythonError ''ValueError'') else
     case map_of entries name of
       None \<Rightarrow> Inl (SealError ''EVALUATOR_ARTIFACT_UNAVAILABLE'')
     | Some (Directory readable below) \<Rightarrow>
         if readable then open_below below (p # ps)
         else Inl (SealError ''EVALUATOR_ARTIFACT_UNAVAILABLE'')
     | Some _ \<Rightarrow> Inl (SealError ''EVALUATOR_ARTIFACT_SYMLINK_FORBIDDEN''))"

definition open_regular_file :: "(string \<times> node) list \<Rightarrow> string \<Rightarrow> observed_file result" where
  "open_regular_file entries relative =
    (let p = path_of relative; names = (if is_absolute p then anchor p # parts p else parts p) in
     if list_ex (\<lambda>c. c \<in> {[], ''.'', ''..''}) names
     then Inl (SealError ''EVALUATOR_ARTIFACT_PATH_TRAVERSAL'')
     else open_below entries names)"

definition read_one :: "(string \<Rightarrow> string) \<Rightarrow> (string \<times> node) list \<Rightarrow> string
    \<Rightarrow> (string \<times> string \<times> int) result" where
  "read_one sha entries relative =
    bnd (open_regular_file entries relative) (\<lambda>f.
    if lexical_status f = None then Inl (SealError ''EVALUATOR_ARTIFACT_TOCTOU_DETECTED'')
    else if opened_status f \<noteq> read_status f \<or> lexical_status f \<noteq> Some (read_status f)
    then Inl (SealError ''EVALUATOR_ARTIFACT_TOCTOU_DETECTED'')
    else if int (length (file_bytes f)) \<noteq> st_size (read_status f)
    then Inl (SealError ''EVALUATOR_ARTIFACT_TOCTOU_DETECTED'')
    else Inr (file_bytes f, sha (file_bytes f), int (length (file_bytes f))))"

section \<open>Manifests\<close>

record artifact_entry =
  ae_role :: string
  ae_path :: string
  ae_sha256 :: string
  ae_size :: int

definition entry_json :: "artifact_entry \<Rightarrow> json" where
  "entry_json e = JObj [(''role'', JStr (ae_role e)), (''relative_path'', JStr (ae_path e)),
     (''sha256'', JStr (ae_sha256 e)), (''byte_size'', JInt (ae_size e))]"

text \<open>Python orders pairs and the key \<open>(role, relative_path)\<close> lexicographically.\<close>

definition entry_order :: "artifact_entry \<Rightarrow> string list" where
  "entry_order e = [ae_role e, ae_path e]"

fun distinct_paths :: "string list \<Rightarrow> (string \<times> string) list \<Rightarrow> unit result" where
  "distinct_paths seen [] = Inr ()"
| "distinct_paths seen ((role, p) # rest) =
    (if role = [] then Inl (SealError ''EVALUATOR_ARTIFACT_ROLE_INVALID'')
     else if p \<in> set seen then Inl (SealError ''EVALUATOR_ARTIFACT_PATH_DUPLICATE'')
     else distinct_paths (p # seen) rest)"

definition validate_roles :: "(string \<times> string) list \<Rightarrow> (string \<times> string) list result" where
  "validate_roles role_paths =
    (if role_paths = [] then Inl (SealError ''EVALUATOR_ARTIFACT_MANIFEST_EMPTY'')
     else bnd (distinct_paths [] role_paths) (\<lambda>_. Inr (sort_key (\<lambda>(r, p). [r, p]) role_paths)))"

definition manifest_payload :: "artifact_entry list \<Rightarrow> json" where
  "manifest_payload entries =
    JObj [(''manifest_version'', JInt 1), (''artifacts'', JList (map entry_json entries))]"

definition collect_entry :: "(string \<Rightarrow> string) \<Rightarrow> (string \<times> node) list \<Rightarrow> string \<times> string
    \<Rightarrow> artifact_entry result" where
  "collect_entry sha tree pair =
    bnd (read_one sha tree (snd pair)) (\<lambda>(data, digest, bytes).
    Inr \<lparr>ae_role = fst pair, ae_path = snd pair, ae_sha256 = digest, ae_size = bytes\<rparr>)"

text \<open>The roles and paths come as the items of a dictionary.\<close>

definition collect_manifest :: "(string \<Rightarrow> string) \<Rightarrow> os_world \<Rightarrow> string
    \<Rightarrow> (string \<times> string) list \<Rightarrow> (string \<times> string \<times> artifact_entry list) result" where
  "collect_manifest sha w evidence_root role_paths =
    bnd (lexical_root w evidence_root) (\<lambda>root.
    bnd (seq_results (map (\<lambda>(role, p). bnd (relative_artifact_path w p (path_text root))
           (\<lambda>relative. Inr (role, relative))) role_paths)) (\<lambda>normalized.
    bnd (validate_roles normalized) (\<lambda>pairs.
    bnd (open_directory w root) (\<lambda>tree.
    bnd (seq_results (map (collect_entry sha tree) pairs)) (\<lambda>entries.
    let ordered = sort_key entry_order entries; payload = json_to_py (manifest_payload ordered) in
    bnd (canonical_json payload) (\<lambda>text.
    bnd (canonical_sha256 sha payload) (\<lambda>digest.
    Inr (text, digest, ordered))))))))"

definition manifest_invalid :: store_error where
  "manifest_invalid = SealError ''EVALUATOR_SEAL_MANIFEST_INVALID''"

fun text_value :: "json option \<Rightarrow> string option" where
  "text_value (Some (JStr s)) = Some s"
| "text_value _ = None"

text \<open>An \<open>int\<close> that is not a \<open>bool\<close>.\<close>

fun int_value :: "json option \<Rightarrow> int option" where
  "int_value (Some (JInt i)) = Some i"
| "int_value _ = None"

fun parse_entry :: "json \<Rightarrow> artifact_entry result" where
  "parse_entry (JObj kvs) =
    (if set (map fst kvs) \<noteq> {''role'', ''relative_path'', ''sha256'', ''byte_size''}
     then Inl manifest_invalid
     else of_option manifest_invalid (do {
       role \<leftarrow> text_value (map_of kvs ''role'');
       relative \<leftarrow> text_value (map_of kvs ''relative_path'');
       digest \<leftarrow> text_value (map_of kvs ''sha256'');
       bytes \<leftarrow> int_value (map_of kvs ''byte_size'');
       if role = [] \<or> relative = [] \<or> is_absolute (path_of relative)
          \<or> list_ex (\<lambda>p. p \<in> {[], ''.'', ''..''}) (parts (path_of relative))
          \<or> \<not> sha_ok digest \<or> bytes < 0
       then None
       else Some \<lparr>ae_role = role, ae_path = relative, ae_sha256 = digest, ae_size = bytes\<rparr> }))"
| "parse_entry _ = Inl manifest_invalid"

fun parse_entries :: "string list \<Rightarrow> string list \<Rightarrow> json list \<Rightarrow> artifact_entry list result" where
  "parse_entries roles paths [] = Inr []"
| "parse_entries roles paths (item # items) =
    bnd (parse_entry item) (\<lambda>e.
    if ae_role e \<in> set roles \<or> ae_path e \<in> set paths then Inl manifest_invalid
    else bnd (parse_entries (ae_role e # roles) (ae_path e # paths) items) (\<lambda>es. Inr (e # es)))"

text \<open>
  \<open>1 == True\<close> holds in Python, so a manifest version of \<open>true\<close> passes too. Each parsed entry
  equals its item as a dictionary, so the list of ordered entries equals the items exactly when
  ordering changed nothing.
\<close>

definition version_accepted :: "json option \<Rightarrow> bool" where
  "version_accepted v \<longleftrightarrow> v = Some (JInt 1) \<or> v = Some (JBool True)"

definition parse_manifest :: "(string \<Rightarrow> string) \<Rightarrow> string \<Rightarrow> string \<Rightarrow> artifact_entry list result" where
  "parse_manifest sha manifest_json manifest_sha256 =
    bnd (of_option manifest_invalid (loads manifest_json)) (\<lambda>parsed.
    bnd (canonical_json (json_to_py parsed)) (\<lambda>text.
    if text \<noteq> manifest_json \<or> sha text \<noteq> manifest_sha256
    then Inl (SealError ''EVALUATOR_SEAL_MANIFEST_HASH_MISMATCH'')
    else if \<not> version_accepted (member ''manifest_version'' parsed)
    then Inl (SealError ''EVALUATOR_SEAL_MANIFEST_VERSION_INVALID'')
    else (case member ''artifacts'' parsed of
        Some (JList (item # items)) \<Rightarrow>
          bnd (parse_entries [] [] (item # items)) (\<lambda>entries.
          if sort_key entry_order entries \<noteq> entries
          then Inl (SealError ''EVALUATOR_SEAL_MANIFEST_NOT_CANONICAL'')
          else Inr entries)
      | _ \<Rightarrow> Inl (SealError ''EVALUATOR_ARTIFACT_MANIFEST_EMPTY''))))"

record verified_manifest =
  vm_root :: posix_path
  vm_entries :: "artifact_entry list"
  vm_bytes :: "(string \<times> string) list"

definition verify_entry :: "(string \<Rightarrow> string) \<Rightarrow> (string \<times> node) list \<Rightarrow> artifact_entry
    \<Rightarrow> (string \<times> string) result" where
  "verify_entry sha tree e =
    bnd (read_one sha tree (ae_path e)) (\<lambda>(data, digest, bytes).
    if digest \<noteq> ae_sha256 e \<or> bytes \<noteq> ae_size e
    then Inl (SealError ''EVALUATOR_SEALED_ARTIFACT_MISMATCH'')
    else Inr (ae_path e, data))"

definition verify_manifest_bytes :: "(string \<Rightarrow> string) \<Rightarrow> os_world \<Rightarrow> string \<Rightarrow> string \<Rightarrow> string
    \<Rightarrow> verified_manifest result" where
  "verify_manifest_bytes sha w evidence_root manifest_json manifest_sha256 =
    bnd (lexical_root w evidence_root) (\<lambda>root.
    bnd (parse_manifest sha manifest_json manifest_sha256) (\<lambda>entries.
    bnd (open_directory w root) (\<lambda>tree.
    bnd (seq_results (map (verify_entry sha tree) entries)) (\<lambda>observed.
    Inr \<lparr>vm_root = root, vm_entries = entries, vm_bytes = observed\<rparr>))))"

definition entry_for_role :: "verified_manifest \<Rightarrow> string \<Rightarrow> artifact_entry result" where
  "entry_for_role view role =
    (case filter (\<lambda>e. ae_role e = role) (vm_entries view) of
       [e] \<Rightarrow> Inr e | _ \<Rightarrow> Inl (SealError ''EVALUATOR_SEALED_ROLE_INVALID''))"

definition entry_for_path :: "verified_manifest \<Rightarrow> string \<Rightarrow> artifact_entry result" where
  "entry_for_path view p =
    (case filter (\<lambda>e. ae_path e = p) (vm_entries view) of
       [e] \<Rightarrow> Inr e | _ \<Rightarrow> Inl (SealError ''EVALUATOR_ARTIFACT_NOT_SEALED''))"

definition bytes_for_role :: "verified_manifest \<Rightarrow> string \<Rightarrow> string result" where
  "bytes_for_role view role =
    bnd (entry_for_role view role) (\<lambda>e.
    of_option (PythonError ''KeyError'') (map_of (vm_bytes view) (ae_path e)))"

section \<open>Discovery\<close>

text \<open>
  \<open>walk\<close> lists the tree depth first in the order of \<open>scandir\<close>; the names are the relative
  path so far.
\<close>

fun walk_entries :: "string list \<Rightarrow> (string \<times> node) list \<Rightarrow> string list result"
  and walk_node :: "string list \<Rightarrow> node \<Rightarrow> string list result" where
  "walk_entries names [] = Inr []"
| "walk_entries names ((name, n) # rest) =
    bnd (walk_node (names @ [name]) n) (\<lambda>a. bnd (walk_entries names rest) (\<lambda>b. Inr (a @ b)))"
| "walk_node names (Directory readable below) =
    (if readable then walk_entries names below
     else Inl (SealError ''EVALUATOR_EVIDENCE_ROOT_UNAVAILABLE''))"
| "walk_node names (Regular _ _) = Inr [join_slashes names]"
| "walk_node names Link = Inl (SealError ''EVALUATOR_ARTIFACT_SYMLINK_FORBIDDEN'')"
| "walk_node names Irregular = Inl (SealError ''EVALUATOR_ARTIFACT_NOT_REGULAR'')"

definition discover_regular_files :: "os_world \<Rightarrow> string \<Rightarrow> string list result" where
  "discover_regular_files w evidence_root =
    bnd (lexical_root w evidence_root) (\<lambda>root.
    case resolved_node w (path_text root) of
      Some (Directory readable entries) \<Rightarrow>
        bnd (walk_node [] (Directory readable entries)) (\<lambda>found. Inr (sort found))
    | _ \<Rightarrow> Inl (SealError ''EVALUATOR_EVIDENCE_ROOT_UNAVAILABLE''))"

definition other_roles :: "(string \<times> string) list \<Rightarrow> string list \<Rightarrow> (string \<times> string) list" where
  "other_roles preferred paths =
    foldl (\<lambda>roles p. dict_set (''evidence:'' @ p) p roles) preferred
      (filter (\<lambda>p. p \<notin> snd ` set preferred) paths)"

definition post_execution_roles :: "os_world \<Rightarrow> string \<Rightarrow> string \<Rightarrow> string \<Rightarrow> string \<Rightarrow> string
    \<Rightarrow> (string \<times> string) list result" where
  "post_execution_roles w evidence_root stdout_path stderr_path result_path metadata_path =
    bnd (lexical_root w evidence_root) (\<lambda>root.
    let relative = (\<lambda>p. relative_artifact_path w p (path_text root)) in
    bnd (relative stdout_path) (\<lambda>out. bnd (relative stderr_path) (\<lambda>err.
    bnd (relative result_path) (\<lambda>res. bnd (relative metadata_path) (\<lambda>meta.
    let preferred = [(''stdout'', out), (''stderr'', err), (''result'', res), (''runner_metadata'', meta)] in
    bnd (discover_regular_files w (path_text root)) (\<lambda>paths.
    if \<not> snd ` set preferred \<subseteq> set paths
    then Inl (SealError ''EVALUATOR_RUNNER_ARTIFACT_MISSING'')
    else Inr (other_roles preferred paths)))))))"

definition legacy_attestation_roles :: "os_world \<Rightarrow> string \<Rightarrow> string \<Rightarrow> string \<Rightarrow> string
    \<Rightarrow> (string \<times> string) list result" where
  "legacy_attestation_roles w evidence_root stdout_path stderr_path result_path =
    bnd (lexical_root w evidence_root) (\<lambda>root.
    let relative = (\<lambda>p. relative_artifact_path w p (path_text root)) in
    bnd (relative stdout_path) (\<lambda>out. bnd (relative stderr_path) (\<lambda>err.
    bnd (relative result_path) (\<lambda>res.
    let preferred = [(''stdout'', out), (''stderr'', err), (''result'', res)] in
    bnd (discover_regular_files w (path_text root)) (\<lambda>paths.
    if \<not> snd ` set preferred \<subseteq> set paths
    then Inl (SealError ''EVALUATOR_LEGACY_ARTIFACT_MISSING'')
    else Inr (other_roles preferred paths))))))"

end
