(* ===== verification/Artifact_Seal_Laws.thy ===== *)
theory Artifact_Seal_Laws
  imports Artifact_Seal
begin

text \<open>
  Laws of sealed artifacts: an accepted path names something below the root and prints back to
  itself, a collected manifest parses and verifies against the same files, a verified manifest
  pins the bytes it returns, and discovery lists exactly the regular files of a tree.
\<close>

section \<open>Paths\<close>

definition clean_name :: "string \<Rightarrow> bool" where
  "clean_name p \<longleftrightarrow> p \<noteq> [] \<and> p \<noteq> ''.'' \<and> CHR ''/'' \<notin> set p"

abbreviation clean_parts :: "string list \<Rightarrow> bool" where
  "clean_parts ps \<equiv> list_all clean_name ps"

lemma split_on_parts: "p \<in> set (split_on c s) \<Longrightarrow> c \<notin> set p"
  by (induction s arbitrary: p) (auto split: if_splits list.splits)

lemma split_on_single: "c \<notin> set p \<Longrightarrow> split_on c p = [p]"
  by (induction p) auto

lemma split_on_append: "c \<notin> set p \<Longrightarrow> split_on c (p @ c # s) = p # split_on c s"
  by (induction p) auto

lemma split_on_join:
  "ps \<noteq> [] \<Longrightarrow> list_all clean_name ps \<Longrightarrow> split_on (CHR ''/'') (join_slashes ps) = ps"
  by (induction ps rule: join_slashes.induct)
    (auto simp: clean_name_def split_on_single split_on_append)

lemma filter_clean: "clean_parts ps \<Longrightarrow> filter (\<lambda>p. p \<noteq> [] \<and> p \<noteq> ''.'') ps = ps"
  by (induction ps) (auto simp: clean_name_def)

lemma path_anchor_join: "ps \<noteq> [] \<Longrightarrow> clean_parts ps \<Longrightarrow> path_anchor (join_slashes ps) = []"
  by (cases ps rule: join_slashes.cases)
    (auto simp: path_anchor_def clean_name_def neq_Nil_conv take_Cons' split: if_splits)

lemma path_of_join:
  "ps \<noteq> [] \<Longrightarrow> clean_parts ps \<Longrightarrow> path_of (join_slashes ps) = \<lparr>anchor = [], parts = ps\<rparr>"
  by (simp add: path_of_def split_on_join filter_clean path_anchor_join)

lemma clean_path_of [simp]: "clean_parts (parts (path_of s))"
  by (auto simp: path_of_def list_all_iff clean_name_def dest: split_on_parts)

lemma set_fold_dotdot:
  "set (foldl (\<lambda>acc c. if c = ''..'' then butlast acc else acc @ [c]) acc cs) \<subseteq> set acc \<union> set cs"
proof (induction cs arbitrary: acc)
  case (Cons c cs)
  show ?case
    using Cons [of "butlast acc"] Cons [of "acc @ [c]"] by (auto dest: in_set_butlastD)
qed simp

lemma clean_abspath: "clean_parts (parts p) \<Longrightarrow> clean_parts (parts (abspath p))"
  using set_fold_dotdot [of "[]" "parts p"] by (auto simp: abspath_def list_all_iff)

lemma clean_expanduser: "expanduser w (path_of s) = Inr p \<Longrightarrow> clean_parts (parts p)"
  by (cases "parts (path_of s)")
    (use clean_path_of [of s] in \<open>auto simp: expanduser_def Let_def split: if_splits option.splits\<close>)

lemma clean_lexical_root: "lexical_root w s = Inr r \<Longrightarrow> clean_parts (parts r)"
  by (auto simp: lexical_root_def success path_join_def intro!: clean_abspath
    dest!: clean_expanduser split: if_splits)

lemma fold_dotdot_id:
  "''..'' \<notin> set cs \<Longrightarrow>
     foldl (\<lambda>acc c. if c = ''..'' then butlast acc else acc @ [c]) acc cs = acc @ cs"
  by (induction cs arbitrary: acc) auto

lemma abspath_id: "''..'' \<notin> set (parts p) \<Longrightarrow> abspath p = p"
  by (simp add: abspath_def fold_dotdot_id)

text \<open>
  An accepted artifact path is a non-empty sequence of plain names, none of which climbs, and
  an absolute one lies below the root.
\<close>

lemma relative_to_parts:
  "relative_to p root = Some r \<Longrightarrow>
     anchor r = [] \<and> anchor p = anchor root \<and> parts p = parts root @ parts r"
proof -
  assume "relative_to p root = Some r"
  then have "anchor p = anchor root" "take (length (parts root)) (parts p) = parts root"
    "r = \<lparr>anchor = [], parts = drop (length (parts root)) (parts p)\<rparr>"
    by (auto simp: relative_to_def split: if_splits)
  then show ?thesis using append_take_drop_id [of "length (parts root)" "parts p"] by simp
qed

lemma relative_artifact_path_safe:
  assumes "relative_artifact_path w p root = Inr rel"
  shows "anchor (path_of rel) = []" and "parts (path_of rel) \<noteq> []"
    and "''..'' \<notin> set (parts (path_of rel))" and "join_slashes (parts (path_of rel)) = rel"
proof -
  obtain raw r relative where raw: "expanduser w (path_of p) = Inr raw" "''..'' \<notin> set (parts raw)"
    and rel: "(is_absolute raw \<longrightarrow> relative_to (abspath raw) r = Some relative)"
      "\<not> is_absolute raw \<longrightarrow> relative = raw"
    and ok: "parts relative \<noteq> []" "\<not> is_absolute relative" "''..'' \<notin> set (parts relative)"
      "rel = path_text relative"
    using assms by (auto simp: relative_artifact_path_def success list_ex_iff split: if_splits)
  have "clean_parts (parts relative)"
  proof (cases "is_absolute raw")
    case True
    then have "parts (abspath raw) = parts r @ parts relative" using rel relative_to_parts by blast
    with clean_abspath [OF clean_expanduser [OF raw(1)]] show ?thesis by simp
  next
    case False
    with rel clean_expanduser [OF raw(1)] show ?thesis by simp
  qed
  moreover have "rel = join_slashes (parts relative)"
    using ok by (simp add: path_text_def is_absolute_def)
  ultimately have "path_of rel = \<lparr>anchor = [], parts = parts relative\<rparr>" "rel = join_slashes (parts relative)"
    using ok(1) by (simp_all add: path_of_join)
  with ok show "anchor (path_of rel) = []" "parts (path_of rel) \<noteq> []"
    "''..'' \<notin> set (parts (path_of rel))" "join_slashes (parts (path_of rel)) = rel"
    by simp_all
qed

lemma relative_artifact_path_names:
  assumes "relative_artifact_path w p root = Inr rel" and "lexical_root w root = Inr r"
    and "expanduser w (path_of p) = Inr raw" and "is_absolute raw"
  shows "path_join r (path_of rel) = raw"
proof -
  obtain relative where raw: "''..'' \<notin> set (parts raw)"
    and rel: "relative_to (abspath raw) r = Some relative"
    and ok: "parts relative \<noteq> []" "\<not> is_absolute relative" "rel = path_text relative"
    using assms by (auto simp: relative_artifact_path_def success list_ex_iff split: if_splits)
  have split: "anchor raw = anchor r" "parts raw = parts r @ parts relative"
    using relative_to_parts [OF rel] abspath_id [OF raw] by simp_all
  have "clean_parts (parts relative)"
    using clean_expanduser [OF assms(3)] split by simp
  then have "path_of rel = \<lparr>anchor = [], parts = parts relative\<rparr>"
    using ok by (simp add: path_text_def is_absolute_def path_of_join)
  with split show ?thesis by (simp add: path_join_def is_absolute_def)
qed

section \<open>Collected manifests verify\<close>

lemma seq_results_map_Inr:
  "seq_results (map f xs) = Inr ys \<longleftrightarrow> list_all2 (\<lambda>x y. f x = Inr y) xs ys"
  by (auto simp: seq_results_Inr list_all2_conv_all_nth list_eq_iff_nth_eq)

lemma seq_results_total:
  "(\<And>x. x \<in> set xs \<Longrightarrow> f x = Inr (g x)) \<Longrightarrow> seq_results (map f xs) = Inr (map g xs)"
  by (simp add: seq_results_map_Inr list_all2_map2 list_all2_same)

lemma seq_results_source:
  "seq_results (map f xs) = Inr ys \<Longrightarrow> y \<in> set ys \<Longrightarrow> \<exists>x\<in>set xs. f x = Inr y"
  by (induction xs arbitrary: ys) (auto simp: success)

lemma seq_results_image:
  "seq_results (map f xs) = Inr ys \<Longrightarrow> x \<in> set xs \<Longrightarrow> \<exists>y\<in>set ys. f x = Inr y"
  by (induction xs arbitrary: ys) (auto simp: success)

definition entry_ok :: "artifact_entry \<Rightarrow> bool" where
  "entry_ok e \<longleftrightarrow> ae_role e \<noteq> [] \<and> ae_path e \<noteq> [] \<and> anchor (path_of (ae_path e)) = []
     \<and> ''..'' \<notin> set (parts (path_of (ae_path e))) \<and> sha_ok (ae_sha256 e) \<and> 0 \<le> ae_size e"

lemma no_dot_parts: "list_ex (\<lambda>p. p = [] \<or> p = ''.'' \<or> p = ''..'') (parts (path_of s)) \<longleftrightarrow>
    ''..'' \<in> set (parts (path_of s))"
  using clean_path_of [of s] by (auto simp: list_ex_iff list_all_iff clean_name_def)

lemma map_of_sort_key: "distinct (map fst kvs) \<Longrightarrow> map_of (sort_key fst kvs) = map_of kvs"
  by (subst map_of_inject_set) (simp_all add: distinct_map)

lemma parse_entry_json: "parse_entry (canon (entry_json e)) = (if entry_ok e then Inr e else Inl manifest_invalid)"
proof -
  let ?kvs = "[(''role'', JStr (ae_role e)), (''relative_path'', JStr (ae_path e)),
     (''sha256'', JStr (ae_sha256 e)), (''byte_size'', JInt (ae_size e))]"
  have c: "canon (entry_json e) = JObj (map canon_member (sort_key fst ?kvs))"
    unfolding entry_json_def by (rule canon_JObj)
  have k: "set (map fst (map canon_member (sort_key fst ?kvs)))
      = {''role'', ''relative_path'', ''sha256'', ''byte_size''}"
    by (auto simp: canon_member_def image_comp comp_def)
  have m: "map_of (sort_key fst ?kvs) = map_of ?kvs"
    by (rule map_of_sort_key) simp
  show ?thesis
    unfolding c parse_entry.simps k map_of_canon_member m
    by (auto simp: entry_ok_def no_dot_parts is_absolute_def)
qed

lemma parse_entries_json:
  "\<forall>e\<in>set es. entry_ok e \<Longrightarrow> distinct (map ae_role es) \<Longrightarrow> distinct (map ae_path es)
    \<Longrightarrow> ae_role ` set es \<inter> set roles = {} \<Longrightarrow> ae_path ` set es \<inter> set paths = {}
    \<Longrightarrow> parse_entries roles paths (map (\<lambda>e. canon (entry_json e)) es) = Inr es"
  by (induction es arbitrary: roles paths) (auto simp: parse_entry_json)

lemma plain_entry [simp]: "plain (entry_json e)"
  by (simp add: entry_json_def)

lemma plain_payload [simp]: "plain (manifest_payload es)"
  by (simp add: manifest_payload_def list_all_iff)

text \<open>The text of a manifest of well-formed entries in order parses back to them.\<close>

lemma parse_manifest_payload:
  assumes "es \<noteq> []" and "\<forall>e\<in>set es. entry_ok e" and "distinct (map ae_role es)"
    and "distinct (map ae_path es)" and "sort_key entry_order es = es"
  shows "parse_manifest sha (dumps (manifest_payload es)) (sha (dumps (manifest_payload es))) = Inr es"
proof -
  let ?p = "manifest_payload es"
  have l: "loads (dumps ?p) = Some (canon ?p)" by (rule loads_dumps) simp
  have t: "canonical_json (json_to_py (canon ?p)) = Inr (dumps ?p)"
    by (simp only: canonical_json_json_to_py plain_canon plain_payload dumps_canon)
  have v: "member ''manifest_version'' (canon ?p) = Some (JInt 1)"
    by (simp only: member_canon plain_payload) (simp add: manifest_payload_def)
  have a: "member ''artifacts'' (canon ?p) = Some (JList (map (\<lambda>e. canon (entry_json e)) es))"
    by (simp only: member_canon plain_payload) (simp add: manifest_payload_def comp_def)
  obtain e es' where es: "es = e # es'" using assms(1) by (cases es) auto
  have p: "parse_entries [] [] (map (\<lambda>e. canon (entry_json e)) es) = Inr es"
    using assms by (intro parse_entries_json) simp_all
  show ?thesis
    using p assms(5) unfolding parse_manifest_def l of_option_simps bnd_simps t v a
    by (simp add: version_accepted_def es)
qed

lemma read_one_Inr:
  "read_one sha tree p = Inr (data, digest, n) \<Longrightarrow> digest = sha data \<and> n = int (length data)"
  by (auto simp: read_one_def success split: if_splits)

lemma distinct_paths_Inr:
  "distinct_paths seen ps = Inr u \<Longrightarrow>
     distinct (map snd ps) \<and> snd ` set ps \<inter> set seen = {} \<and> [] \<notin> fst ` set ps"
  by (induction seen ps rule: distinct_paths.induct) (auto split: if_splits)

lemma validate_roles_Inr:
  assumes "validate_roles rps = Inr pairs" and "distinct (map fst rps)"
  shows "pairs \<noteq> []" and "set pairs = set rps" and "distinct (map fst pairs)"
    and "distinct (map snd pairs)" and "[] \<notin> fst ` set pairs"
proof -
  have p: "rps \<noteq> []" "pairs = sort_key (\<lambda>(r, p). [r, p]) rps" "distinct_paths [] rps = Inr ()"
    using assms(1) by (auto simp: validate_roles_def success split: if_splits)
  have d: "distinct (map snd rps)" "[] \<notin> fst ` set rps"
    using distinct_paths_Inr [OF p(3)] by auto
  show "pairs \<noteq> []" using p by (metis set_empty set_sort)
  show "set pairs = set rps" "distinct (map fst pairs)" "distinct (map snd pairs)" "[] \<notin> fst ` set pairs"
    using p(2) d assms(2) by (simp_all add: distinct_map)
qed

lemma collect_entries:
  assumes "seq_results (map (collect_entry sha tree) pairs) = Inr entries"
  shows "map (\<lambda>e. (ae_role e, ae_path e)) entries = pairs"
    and "\<forall>e\<in>set entries. \<exists>data. read_one sha tree (ae_path e) = Inr (data, ae_sha256 e, ae_size e)"
proof -
  show "map (\<lambda>e. (ae_role e, ae_path e)) entries = pairs"
    using assms by (induction pairs arbitrary: entries) (auto simp: success collect_entry_def)
  show "\<forall>e\<in>set entries. \<exists>data. read_one sha tree (ae_path e) = Inr (data, ae_sha256 e, ae_size e)"
    using seq_results_source [OF assms] by (fastforce simp: success collect_entry_def)
qed

lemma verify_collected_entry:
  assumes "read_one sha tree (ae_path e) = Inr (data, ae_sha256 e, ae_size e)"
  shows "verify_entry sha tree e = Inr (ae_path e, data)"
  using assms by (simp add: verify_entry_def)

lemma collect_manifest_steps:
  assumes "collect_manifest sha w root rps = Inr (text, digest, ordered)"
  obtains r tree normalized pairs entries
  where "lexical_root w root = Inr r" and "open_directory w r = Inr tree"
    and "seq_results (map (\<lambda>(role, p). bnd (relative_artifact_path w p (path_text r))
           (\<lambda>rel. Inr (role, rel))) rps) = Inr normalized"
    and "validate_roles normalized = Inr pairs"
    and "seq_results (map (collect_entry sha tree) pairs) = Inr entries"
    and "ordered = sort_key entry_order entries" and "text = dumps (manifest_payload ordered)"
    and "digest = sha text"
  using assms
  by (auto simp: collect_manifest_def Let_def success canonical_json_json_to_py canonical_sha256_def)

text \<open>
  Every entry of a collected manifest is well formed, roles and paths are unique, and the file
  it names was read with the recorded digest and size.
\<close>

lemma collected_entries_ok:
  assumes c: "collect_manifest sha w root rps = Inr (text, digest, ordered)"
    and sha: "\<And>s. sha_ok (sha s)" and d: "distinct (map fst rps)"
  shows "\<forall>e\<in>set ordered. entry_ok e" and "distinct (map ae_role ordered)"
    and "distinct (map ae_path ordered)" and "ordered \<noteq> []"
proof -
  obtain r tree normalized pairs entries where
    n: "seq_results (map (\<lambda>(role, p). bnd (relative_artifact_path w p (path_text r))
           (\<lambda>rel. Inr (role, rel))) rps) = Inr normalized"
    and v: "validate_roles normalized = Inr pairs"
    and e: "seq_results (map (collect_entry sha tree) pairs) = Inr entries"
    and o: "ordered = sort_key entry_order entries"
    using c by (rule collect_manifest_steps)
  have "map fst normalized = map fst rps"
    using n by (induction rps arbitrary: normalized) (auto simp: success)
  with d have dn: "distinct (map fst normalized)" by simp
  note v = validate_roles_Inr [OF v dn]
  have safe: "\<exists>p. relative_artifact_path w p (path_text r) = Inr rel" if "(role, rel) \<in> set normalized" for role rel
    using seq_results_source [OF n that] by (auto simp: success)
  note m = collect_entries [OF e]
  have roles: "map ae_role entries = map fst pairs" "map ae_path entries = map snd pairs"
    unfolding m(1) [symmetric] by (simp_all add: comp_def)
  have so: "set ordered = set entries" using o by simp
  have "entry_ok x" if x: "x \<in> set entries" for x
  proof -
    have "(ae_role x, ae_path x) \<in> set pairs" using x m(1) by force
    then have p: "(ae_role x, ae_path x) \<in> set normalized" "ae_role x \<noteq> []" using v by force+
    obtain p where "relative_artifact_path w p (path_text r) = Inr (ae_path x)"
      using safe [OF p(1)] by blast
    note s = relative_artifact_path_safe [OF this]
    obtain data where "read_one sha tree (ae_path x) = Inr (data, ae_sha256 x, ae_size x)"
      using m(2) x by blast
    then have "sha_ok (ae_sha256 x)" "0 \<le> ae_size x" using read_one_Inr sha by fastforce+
    moreover have "ae_path x \<noteq> []" using s(2) by (auto simp: path_of_def)
    ultimately show ?thesis using s p by (simp add: entry_ok_def)
  qed
  with so show "\<forall>e\<in>set ordered. entry_ok e" by simp
  have "distinct (map ae_role entries)" "distinct (map ae_path entries)"
    using v(3,4) roles by simp_all
  then show "distinct (map ae_role ordered)" "distinct (map ae_path ordered)"
    unfolding o by (simp_all add: distinct_map)
  show "ordered \<noteq> []" using v(1) m(1) o by (metis list.map_disc_iff set_empty so)
qed

lemma collected_manifest_verifies:
  assumes c: "collect_manifest sha w root rps = Inr (text, digest, entries)"
    and "\<And>s. sha_ok (sha s)" and "distinct (map fst rps)"
  shows "\<exists>view. verify_manifest_bytes sha w root text digest = Inr view \<and> vm_entries view = entries"
proof -
  obtain r tree pairs es where r: "lexical_root w root = Inr r" "open_directory w r = Inr tree"
    and e: "seq_results (map (collect_entry sha tree) pairs) = Inr es"
    and o: "entries = sort_key entry_order es" "text = dumps (manifest_payload entries)" "digest = sha text"
    using c by (rule collect_manifest_steps)
  note ok = collected_entries_ok [OF assms]
  have "parse_manifest sha text digest = Inr entries"
    unfolding o(2,3) by (rule parse_manifest_payload) (use ok o in \<open>auto simp: sort_key_id_if_sorted\<close>)
  moreover have "\<exists>data. verify_entry sha tree e = Inr (ae_path e, data)" if "e \<in> set entries" for e
    using collect_entries(2) [OF e] that o(1) verify_collected_entry by fastforce
  then obtain data where "\<And>e. e \<in> set entries \<Longrightarrow> verify_entry sha tree e = Inr (ae_path e, data e)"
    by metis
  then have "seq_results (map (verify_entry sha tree) entries) = Inr (map (\<lambda>e. (ae_path e, data e)) entries)"
    by (rule seq_results_total)
  ultimately show ?thesis using r by (simp add: verify_manifest_bytes_def)
qed

section \<open>What a verified manifest pins\<close>

lemma verify_manifest_steps:
  assumes "verify_manifest_bytes sha w root text digest = Inr view"
  obtains tree where "lexical_root w root = Inr (vm_root view)"
    and "parse_manifest sha text digest = Inr (vm_entries view)"
    and "open_directory w (vm_root view) = Inr tree"
    and "seq_results (map (verify_entry sha tree) (vm_entries view)) = Inr (vm_bytes view)"
  using assms by (auto simp: verify_manifest_bytes_def success)

lemma parse_manifest_steps:
  assumes "parse_manifest sha text digest = Inr es"
  shows "digest = sha text" and "\<exists>item items. parse_entries [] [] (item # items) = Inr es"
proof -
  obtain j where j: "canonical_json (json_to_py j) = Inr text" and d: "digest = sha text"
    and c: "(case member ''artifacts'' j of
        Some (JList (item # items)) \<Rightarrow>
          bnd (parse_entries [] [] (item # items)) (\<lambda>entries.
          if sort_key entry_order entries \<noteq> entries
          then Inl (SealError ''EVALUATOR_SEAL_MANIFEST_NOT_CANONICAL'')
          else Inr entries)
      | _ \<Rightarrow> Inl (SealError ''EVALUATOR_ARTIFACT_MANIFEST_EMPTY'')) = Inr es"
    using assms unfolding parse_manifest_def
    by (elim bnd_InrE) (auto elim!: bnd_InrE if_InrE Inl_InrE simp del: parse_entries.simps)
  show "digest = sha text" by (rule d)
  obtain item items where "member ''artifacts'' j = Some (JList (item # items))"
    using c by (cases "member ''artifacts'' j" rule: option.exhaust; simp del: parse_entries.simps
      split: json.splits list.splits)
  with c show "\<exists>item items. parse_entries [] [] (item # items) = Inr es"
    by (auto elim!: bnd_InrE if_InrE simp del: parse_entries.simps)
qed

lemma parse_entry_ok:
  assumes "parse_entry j = Inr e"
  shows "entry_ok e"
proof -
  obtain kvs where j: "j = JObj kvs" using assms by (cases j) simp_all
  have o: "\<exists>role relative digest bytes. (if role = [] \<or> relative = [] \<or> is_absolute (path_of relative)
          \<or> list_ex (\<lambda>p. p \<in> {[], ''.'', ''..''}) (parts (path_of relative))
          \<or> \<not> sha_ok digest \<or> bytes < 0 then None
       else Some \<lparr>ae_role = role, ae_path = relative, ae_sha256 = digest, ae_size = bytes\<rparr>) = Some e"
    using assms unfolding j parse_entry.simps
    by (elim if_InrE Inl_InrE) (simp only: of_option_eq_Inr bind_eq_Some_conv, elim exE conjE, (rule exI)+, assumption)
  then obtain role relative digest bytes where g: "role \<noteq> []" "relative \<noteq> []" "anchor (path_of relative) = []"
      "''..'' \<notin> set (parts (path_of relative))" "sha_ok digest" "0 \<le> bytes"
      "e = \<lparr>ae_role = role, ae_path = relative, ae_sha256 = digest, ae_size = bytes\<rparr>"
    by (auto simp: no_dot_parts is_absolute_def split: if_splits)
  show ?thesis unfolding g(7) using g by (simp add: entry_ok_def)
qed

lemma parse_entries_ok:
  "parse_entries roles paths js = Inr es \<Longrightarrow>
     (\<forall>e\<in>set es. entry_ok e) \<and> distinct (map ae_role es) \<and> distinct (map ae_path es)
     \<and> ae_role ` set es \<inter> set roles = {} \<and> ae_path ` set es \<inter> set paths = {}"
  by (induction roles paths js arbitrary: es rule: parse_entries.induct)
    (auto simp: success manifest_invalid_def dest: parse_entry_ok split: if_splits, (fastforce simp: success)+)

lemma parse_manifest_ok:
  assumes "parse_manifest sha text digest = Inr es"
  shows "\<forall>e\<in>set es. entry_ok e" and "distinct (map ae_role es)" and "distinct (map ae_path es)"
    and "es \<noteq> []"
proof -
  obtain item items where "parse_entries [] [] (item # items) = Inr es"
    using parse_manifest_steps(2) [OF assms] by blast
  then show "\<forall>e\<in>set es. entry_ok e" "distinct (map ae_role es)" "distinct (map ae_path es)" "es \<noteq> []"
    using parse_entries_ok by (blast, blast, blast, auto simp: success split: if_splits)
qed

lemma verify_keys:
  "seq_results (map (verify_entry sha tree) es) = Inr bytes \<Longrightarrow> map fst bytes = map ae_path es"
  by (induction es arbitrary: bytes) (auto simp: success verify_entry_def split: if_splits)

lemma verified_bytes:
  assumes "verify_manifest_bytes sha w root text digest = Inr view" and "e \<in> set (vm_entries view)"
  shows "\<exists>data. map_of (vm_bytes view) (ae_path e) = Some data
    \<and> sha data = ae_sha256 e \<and> int (length data) = ae_size e"
proof -
  obtain tree where p: "parse_manifest sha text digest = Inr (vm_entries view)"
    and s: "seq_results (map (verify_entry sha tree) (vm_entries view)) = Inr (vm_bytes view)"
    using assms(1) by (rule verify_manifest_steps)
  have "map fst (vm_bytes view) = map ae_path (vm_entries view)" using s by (rule verify_keys)
  then have d: "distinct (map fst (vm_bytes view))" using parse_manifest_ok(3) [OF p] by simp
  obtain y where y: "y \<in> set (vm_bytes view)" "verify_entry sha tree e = Inr y"
    using seq_results_image [OF s assms(2)] by blast
  then obtain data where "y = (ae_path e, data)" "sha data = ae_sha256 e" "int (length data) = ae_size e"
    by (auto simp: verify_entry_def success dest: read_one_Inr split: if_splits)
  with y d show ?thesis by auto
qed

text \<open>
  Tampering is detected: bytes read for the same sealed manifest at two different times are
  equal, whatever happened to the files in between, unless they collide under the digest.
\<close>

lemma verified_twice:
  assumes "verify_manifest_bytes sha w root text digest = Inr view"
    and "verify_manifest_bytes sha w' root' text digest = Inr view'"
  shows "vm_entries view' = vm_entries view"
    and "e \<in> set (vm_entries view) \<Longrightarrow> \<exists>data data'. map_of (vm_bytes view) (ae_path e) = Some data
      \<and> map_of (vm_bytes view') (ae_path e) = Some data' \<and> sha data = sha data' \<and> length data = length data'"
proof -
  show same: "vm_entries view' = vm_entries view"
    using assms by (auto elim!: verify_manifest_steps)
  assume "e \<in> set (vm_entries view)"
  with verified_bytes [OF assms(1)] verified_bytes [OF assms(2)] same
  show "\<exists>data data'. map_of (vm_bytes view) (ae_path e) = Some data
      \<and> map_of (vm_bytes view') (ae_path e) = Some data' \<and> sha data = sha data' \<and> length data = length data'"
    by (metis of_nat_eq_iff)
qed

lemma entry_for_role_unique:
  assumes "verify_manifest_bytes sha w root text digest = Inr view"
  shows "entry_for_role view role = Inr e \<longleftrightarrow> e \<in> set (vm_entries view) \<and> ae_role e = role"
proof -
  have d: "distinct (map ae_role es) \<Longrightarrow> e \<in> set es \<Longrightarrow> filter (\<lambda>x. ae_role x = ae_role e) es = [e]" for es
    by (induction es) (auto simp: filter_empty_conv rev_image_eqI)
  have "distinct (map ae_role (vm_entries view))"
    using assms by (auto elim!: verify_manifest_steps dest: parse_manifest_ok)
  moreover have "filter (\<lambda>x. ae_role x = role) es = [e] \<Longrightarrow> e \<in> set es \<and> ae_role e = role" for es
    by (drule arg_cong [where f = set]) auto
  ultimately show ?thesis
    using d [of "vm_entries view"] by (auto simp: entry_for_role_def split: list.splits)
qed

section \<open>Discovery\<close>

text \<open>\<open>regular_at\<close>: the names lead to a regular file of the tree, through directories only.\<close>

inductive regular_at :: "(string \<times> node) list \<Rightarrow> string list \<Rightarrow> bool" where
  here: "(name, Regular readable file) \<in> set es \<Longrightarrow> regular_at es [name]"
| below: "(name, Directory readable sub) \<in> set es \<Longrightarrow> regular_at sub names \<Longrightarrow> regular_at es (name # names)"

inductive_cases regular_at_cases: "regular_at es names"

lemma regular_at_Nil [simp]: "\<not> regular_at [] names"
  by (auto elim: regular_at.cases)

lemma regular_at_names: "regular_at es names \<Longrightarrow> names \<noteq> []"
  by (auto elim: regular_at.cases)

definition regular_below :: "node \<Rightarrow> string list \<Rightarrow> bool" where
  "regular_below n names \<longleftrightarrow> (case n of Directory r es \<Rightarrow> regular_at es names
     | Regular r f \<Rightarrow> names = [] | _ \<Rightarrow> False)"

lemma regular_at_Cons:
  "regular_at ((name, n) # rest) names \<longleftrightarrow>
     (names \<noteq> [] \<and> hd names = name \<and> regular_below n (tl names)) \<or> regular_at rest names"
proof
  assume "regular_at ((name, n) # rest) names"
  then show "(names \<noteq> [] \<and> hd names = name \<and> regular_below n (tl names)) \<or> regular_at rest names"
    by cases (auto simp: regular_below_def intro: regular_at.intros)
next
  assume "(names \<noteq> [] \<and> hd names = name \<and> regular_below n (tl names)) \<or> regular_at rest names"
  then show "regular_at ((name, n) # rest) names"
  proof
    assume "regular_at rest names"
    then show ?thesis by cases (auto intro: regular_at.intros)
  qed (cases names; cases n; auto simp: regular_below_def intro: regular_at.intros)
qed

lemma walk_lists:
  "walk_entries pre es = Inr found \<Longrightarrow> set found = {join_slashes (pre @ names) |names. regular_at es names}"
  "walk_node pre n = Inr found \<Longrightarrow> set found = {join_slashes (pre @ names) |names. regular_below n names}"
proof (induction pre es and pre n arbitrary: found and found rule: walk_entries_walk_node.induct)
  case (2 pre name n rest)
  then obtain a b where a: "set a = {join_slashes ((pre @ [name]) @ names) |names. regular_below n names}"
    and b: "set b = {join_slashes (pre @ names) |names. regular_at rest names}" and f: "found = a @ b"
    by (auto simp: success)
  have "{join_slashes ((pre @ [name]) @ names) |names. regular_below n names}
      = {join_slashes (pre @ names) |names. names \<noteq> [] \<and> hd names = name \<and> regular_below n (tl names)}"
    by (force simp: neq_Nil_conv)
  with a b f show ?case by (auto simp: regular_at_Cons)
qed (auto simp: regular_below_def split: if_splits)

text \<open>Discovery lists the regular files below the root, each once for every way to it, in order.\<close>

lemma discover_exact:
  assumes "discover_regular_files w root = Inr paths"
  shows "sorted paths"
    and "\<exists>r readable es. lexical_root w root = Inr r \<and> resolved_node w (path_text r) = Some (Directory readable es)
      \<and> set paths = {join_slashes names |names. regular_at es names}"
proof -
  obtain r where r: "lexical_root w root = Inr r"
    and c: "(case resolved_node w (path_text r) of
      Some (Directory readable entries) \<Rightarrow>
        bnd (walk_node [] (Directory readable entries)) (\<lambda>found. Inr (sort found))
    | _ \<Rightarrow> Inl (SealError ''EVALUATOR_EVIDENCE_ROOT_UNAVAILABLE'')) = Inr paths"
    using assms unfolding discover_regular_files_def by (elim bnd_InrE)
  obtain readable es where n: "resolved_node w (path_text r) = Some (Directory readable es)"
    using c by (cases "resolved_node w (path_text r)"; simp split: node.splits)
  obtain found where f: "walk_node [] (Directory readable es) = Inr found" "paths = sort found"
    using c unfolding n by (auto elim!: bnd_InrE simp del: walk_node.simps)
  show "sorted paths" using f by simp
  show "\<exists>r readable es. lexical_root w root = Inr r \<and> resolved_node w (path_text r) = Some (Directory readable es)
      \<and> set paths = {join_slashes names |names. regular_at es names}"
    using r n f walk_lists(2) [OF f(1)] by (auto simp: regular_below_def)
qed

end
