(* ===== verification/Python_Text.thy ===== *)
theory Python_Text
  imports Canonical_Laws
begin

text \<open>
  The parts of Python's standard library the recovery of evaluator results relies on: the
  detection of a JSON text's encoding, the double a number literal reads as and its \<open>repr\<close>, and
  the equality of JSON values. The double is computed exactly, on natural numbers.
\<close>

section \<open>Bytes as text\<close>

definition continuation :: "char \<Rightarrow> bool" where
  "continuation c \<longleftrightarrow> 128 \<le> (of_char c :: nat) \<and> (of_char c :: nat) < 192"

text \<open>
  Well-formed UTF-8 as \<open>bytes.decode('utf-8', 'surrogatepass')\<close> reads it, the handler
  \<open>json.loads\<close> names: three-byte surrogates pass.
\<close>

fun utf8_valid :: "string \<Rightarrow> bool" where
  "utf8_valid [] = True"
| "utf8_valid (a # s) =
    (let n = (of_char a :: nat) in
     if n < 128 then utf8_valid s
     else case s of [] \<Rightarrow> False | b # s1 \<Rightarrow>
       let m = (of_char b :: nat) in
       if 194 \<le> n \<and> n < 224 then continuation b \<and> utf8_valid s1
       else case s1 of [] \<Rightarrow> False | c # s2 \<Rightarrow>
         if 224 \<le> n \<and> n < 240 then
           continuation b \<and> (n = 224 \<longrightarrow> 160 \<le> m) \<and> continuation c \<and> utf8_valid s2
         else case s2 of [] \<Rightarrow> False | d # s3 \<Rightarrow>
           240 \<le> n \<and> n < 245 \<and> continuation b \<and> (n = 240 \<longrightarrow> 144 \<le> m) \<and> (n = 244 \<longrightarrow> m < 144)
           \<and> continuation c \<and> continuation d \<and> utf8_valid s3)"

text \<open>Code units of UTF-16 or UTF-32, big-endian or not, and the text they spell.\<close>

fun units :: "bool \<Rightarrow> nat \<Rightarrow> nat \<Rightarrow> string \<Rightarrow> nat list option" where
  "units big w 0 s = (if s = [] then Some [] else None)"
| "units big w (Suc fuel) s =
    (if s = [] then Some []
     else if length s < w then None
     else let bytes = map (of_char :: char \<Rightarrow> nat) (take w s);
              v = foldl (\<lambda>a b. 256 * a + b) 0 (if big then bytes else rev bytes)
          in map_option ((#) v) (units big w fuel (drop w s)))"

fun utf16_text :: "nat list \<Rightarrow> string" where
  "utf16_text [] = []"
| "utf16_text [u] = utf8 u"
| "utf16_text (u # v # us) =
    (if 55296 \<le> u \<and> u \<le> 56319 \<and> 56320 \<le> v \<and> v \<le> 57343
     then utf8 (65536 + (u - 55296) * 1024 + (v - 56320)) @ utf16_text us
     else utf8 u @ utf16_text (v # us))"

definition utf16_decode :: "bool \<Rightarrow> string \<Rightarrow> string option" where
  "utf16_decode big s = map_option utf16_text (units big 2 (length s) s)"

definition utf32_decode :: "bool \<Rightarrow> string \<Rightarrow> string option" where
  "utf32_decode big s = (case units big 4 (length s) s of None \<Rightarrow> None
     | Some us \<Rightarrow> if list_all (\<lambda>u. u < 1114112) us then Some (concat (map utf8 us)) else None)"

definition utf8_decode :: "string \<Rightarrow> string option" where
  "utf8_decode s = (if utf8_valid s then Some s else None)"

text \<open>\<open>json.detect_encoding\<close> followed by the decoding; \<open>None\<close> is \<open>UnicodeDecodeError\<close>.\<close>

definition decode_json_bytes :: "string \<Rightarrow> string option" where
  "decode_json_bytes b =
    (let nul = (\<lambda>i. b ! i = CHR 0x00) in
     if take 4 b = [CHR 0x00, CHR 0x00, CHR 0xFE, CHR 0xFF] then utf32_decode True (drop 4 b)
     else if take 4 b = [CHR 0xFF, CHR 0xFE, CHR 0x00, CHR 0x00] then utf32_decode False (drop 4 b)
     else if take 2 b = [CHR 0xFE, CHR 0xFF] then utf16_decode True (drop 2 b)
     else if take 2 b = [CHR 0xFF, CHR 0xFE] then utf16_decode False (drop 2 b)
     else if take 3 b = [CHR 0xEF, CHR 0xBB, CHR 0xBF] then utf8_decode (drop 3 b)
     else if 4 \<le> length b then
       (if nul 0 then (if nul 1 then utf32_decode True b else utf16_decode True b)
        else if nul 1 then
          (if nul 2 \<and> nul 3 then utf32_decode False b else utf16_decode False b)
        else utf8_decode b)
     else if length b = 2 then
       (if nul 0 then utf16_decode True b else if nul 1 then utf16_decode False b else utf8_decode b)
     else utf8_decode b)"

section \<open>White space\<close>

text \<open>\<open>not value.strip()\<close>: every character is white space, in ASCII or in UTF-8.\<close>

definition ascii_space :: "char \<Rightarrow> bool" where
  "ascii_space c \<longleftrightarrow> c \<in> {CHR '' '', CHR 0x09, CHR 0x0A, CHR 0x0B, CHR 0x0C, CHR 0x0D, CHR 0x1C, CHR 0x1D,
     CHR 0x1E, CHR 0x1F}"

definition utf8_space3 :: "char \<Rightarrow> char \<Rightarrow> char \<Rightarrow> bool" where
  "utf8_space3 a b c \<longleftrightarrow> (let n = (of_char c :: nat) in
     (a = CHR 0xE1 \<and> b = CHR 0x9A \<and> n = 128) \<or>
     (a = CHR 0xE2 \<and> b = CHR 0x80 \<and> (128 \<le> n \<and> n \<le> 138 \<or> n = 168 \<or> n = 169 \<or> n = 175)) \<or>
     (a = CHR 0xE2 \<and> b = CHR 0x81 \<and> n = 159) \<or>
     (a = CHR 0xE3 \<and> b = CHR 0x80 \<and> n = 128))"

fun all_space :: "string \<Rightarrow> bool" where
  "all_space [] = True"
| "all_space (a # s) =
    (if ascii_space a then all_space s
     else (case s of
         [] \<Rightarrow> False
       | b # s' \<Rightarrow> if a = CHR 0xC2 \<and> (b = CHR 0x85 \<or> b = CHR 0xA0) then all_space s'
           else (case s' of [] \<Rightarrow> False | c # s'' \<Rightarrow> utf8_space3 a b c \<and> all_space s'')))"

text \<open>\<open>str.strip\<close> on a text whose ends are ASCII.\<close>

definition strip :: "string \<Rightarrow> string" where
  "strip s = rev (dropWhile ascii_space (rev (dropWhile ascii_space s)))"

section \<open>Doubles\<close>

text \<open>
  A finite double is a sign and \<open>mantissa * 2 ^ exponent\<close>; reading a literal rounds to the
  nearest, ties to even.
\<close>

datatype double = Finite bool nat int | Infinite bool | Not_a_number

fun bit_length :: "nat \<Rightarrow> nat" where
  "bit_length n = (if n = 0 then 0 else Suc (bit_length (n div 2)))"

declare bit_length.simps [simp del]

definition round_half_even :: "nat \<Rightarrow> nat \<Rightarrow> nat" where
  "round_half_even p q =
    (let a = p div q; r = p mod q in
     if 2 * r < q then a else if q < 2 * r then Suc a else if even a then a else Suc a)"

text \<open>The numerator and denominator of \<open>p / q / 2 ^ e\<close>, and of \<open>p / q * 10 ^ e\<close>.\<close>

definition shift_down :: "int \<Rightarrow> nat \<times> nat \<Rightarrow> nat \<times> nat" where
  "shift_down e r = (if 0 \<le> e then (fst r, snd r * 2 ^ nat e) else (fst r * 2 ^ nat (- e), snd r))"

definition scale_ten :: "int \<Rightarrow> nat \<times> nat \<Rightarrow> nat \<times> nat" where
  "scale_ten e r = (if 0 \<le> e then (fst r * 10 ^ nat e, snd r) else (fst r, snd r * 10 ^ nat (- e)))"

definition round_ratio :: "bool \<Rightarrow> nat \<times> nat \<Rightarrow> double" where
  "round_ratio neg r =
    (if fst r = 0 then Finite neg 0 0
     else let e0 = int (bit_length (fst r)) - int (bit_length (snd r)) - 53;
              s = shift_down e0 r;
              e = max (-1074) (if 2 ^ 53 * snd s \<le> fst s then e0 + 1 else e0);
              m = (case shift_down e r of (p, q) \<Rightarrow> round_half_even p q);
              (m', e') = (if m = 2 ^ 53 then (2 ^ 52, e + 1) else (m, e))
          in if 971 < e' then Infinite neg else Finite neg m' e')"

text \<open>\<open>float(literal)\<close> for the literals the JSON scanner produces.\<close>

definition read_exponent :: "string \<Rightarrow> int" where
  "read_exponent s = (case s of [] \<Rightarrow> 0 | c # r \<Rightarrow>
     if c = CHR ''-'' then - int (digits_value r)
     else if c = CHR ''+'' then int (digits_value r) else int (digits_value s))"

definition read_double :: "string \<Rightarrow> double" where
  "read_double lit =
    (if lit = ''NaN'' then Not_a_number
     else if lit = ''Infinity'' then Infinite False
     else if lit = ''-Infinity'' then Infinite True
     else let neg = (take 1 lit = ''-''); s = (if neg then drop 1 lit else lit);
              whole = takeWhile is_digit s; r = dropWhile is_digit s;
              fraction = (if take 1 r = ''.'' then takeWhile is_digit (drop 1 r) else []);
              r' = (if take 1 r = ''.'' then dropWhile is_digit (drop 1 r) else r);
              e = (if r' = [] then 0 else read_exponent (drop 1 r'))
          in round_ratio neg (scale_ten (e - int (length fraction)) (digits_value (whole @ fraction), 1)))"

text \<open>
  The shortest decimal \<open>(digits, k)\<close>, standing for \<open>0.digits * 10 ^ k\<close>, that reads back as the
  double, the nearest one among those; seventeen digits always suffice.
\<close>

fun ten_power_above :: "nat \<Rightarrow> int \<Rightarrow> nat \<times> nat \<Rightarrow> int" where
  "ten_power_above 0 k r = k"
| "ten_power_above (Suc fuel) k r =
    (let (p, q) = scale_ten (- k) r; (p', q') = scale_ten (1 - k) r in
     if q \<le> p then ten_power_above fuel (k + 1) r
     else if p' < q' then ten_power_above fuel (k - 1) r
     else k)"

definition ratio_of :: "nat \<Rightarrow> int \<Rightarrow> nat \<times> nat" where
  "ratio_of m e = (if 0 \<le> e then (m * 2 ^ nat e, 1) else (m, 2 ^ nat (- e)))"

definition digits_candidate :: "nat \<Rightarrow> int \<Rightarrow> int \<Rightarrow> nat \<Rightarrow> nat option" where
  "digits_candidate m e k n =
    (case scale_ten (int n - k) (ratio_of m e) of (p, q) \<Rightarrow>
       let lo = p div q; reads = (\<lambda>c. round_ratio False (scale_ten (k - int n) (c, 1)) = Finite False m e);
           near = round_half_even p q; far = (if near = lo then Suc lo else lo)
       in if reads near then Some near else if reads far then Some far else None)"

fun shortest_digits :: "nat \<Rightarrow> nat \<Rightarrow> nat \<Rightarrow> int \<Rightarrow> int \<Rightarrow> string \<times> int" where
  "shortest_digits 0 n m e k = ([], 0)"
| "shortest_digits (Suc fuel) n m e k =
    (case digits_candidate m e k n of
       Some c \<Rightarrow> (let t = nat_text c in if length t = n then (t, k) else (take n t, k + 1))
     | None \<Rightarrow> shortest_digits fuel (Suc n) m e k)"

definition decimal_of :: "nat \<Rightarrow> int \<Rightarrow> string \<times> int" where
  "decimal_of m e = shortest_digits 17 1 m e (ten_power_above 700 0 (ratio_of m e))"

text \<open>\<open>repr\<close> of a finite double.\<close>

definition repr_finite :: "bool \<Rightarrow> nat \<Rightarrow> int \<Rightarrow> string" where
  "repr_finite neg m e =
    (if neg then ''-'' else []) @
    (if m = 0 then ''0.0''
     else case decimal_of m e of (ds, k) \<Rightarrow>
       if k \<le> -4 \<or> 16 < k then
         (let x = k - 1; x_text = nat_text (nat \<bar>x\<bar>) in
          take 1 ds @ (if length ds = 1 then [] else ''.'' @ drop 1 ds) @ ''e'' @
          (if x < 0 then ''-'' else ''+'') @ (if length x_text = 1 then ''0'' else []) @ x_text)
       else if k \<le> 0 then ''0.'' @ replicate (nat (- k)) (CHR ''0'') @ ds
       else if length ds \<le> nat k then ds @ replicate (nat k - length ds) (CHR ''0'') @ ''.0''
       else take (nat k) ds @ ''.'' @ drop (nat k) ds)"

text \<open>\<open>json.dumps(value, ..., allow_nan=False)\<close>: \<open>None\<close> is its \<open>ValueError\<close>.\<close>

fun float_text :: "string \<Rightarrow> string option" where
  "float_text lit = (case read_double lit of Finite neg m e \<Rightarrow> Some (repr_finite neg m e) | _ \<Rightarrow> None)"

fun with_floats :: "json \<Rightarrow> json option" and with_floats_list :: "json list \<Rightarrow> json list option"
  and with_floats_members :: "(string \<times> json) list \<Rightarrow> (string \<times> json) list option" where
  "with_floats (JFloat lit) = map_option JFloat (float_text lit)"
| "with_floats (JList xs) = map_option JList (with_floats_list xs)"
| "with_floats (JObj kvs) = map_option JObj (with_floats_members kvs)"
| "with_floats j = Some j"
| "with_floats_list [] = Some []"
| "with_floats_list (x # xs) =
    do { y \<leftarrow> with_floats x; ys \<leftarrow> with_floats_list xs; Some (y # ys) }"
| "with_floats_members [] = Some []"
| "with_floats_members ((k, v) # kvs) =
    do { w \<leftarrow> with_floats v; ws \<leftarrow> with_floats_members kvs; Some ((k, w) # ws) }"

definition dumps_floats :: "json \<Rightarrow> string option" where
  "dumps_floats j = map_option dumps (with_floats j)"

text \<open>Whether a document holds a literal \<open>parse_constant\<close> is called for.\<close>

fun has_constant :: "json \<Rightarrow> bool" where
  "has_constant (JFloat lit) = (lit \<in> {''NaN'', ''Infinity'', ''-Infinity''})"
| "has_constant (JList xs) = list_ex has_constant xs"
| "has_constant (JObj kvs) = list_ex (\<lambda>(k, v). has_constant v) kvs"
| "has_constant _ = False"

section \<open>Equality of JSON values\<close>

text \<open>
  Python's \<open>==\<close> on documents without NaN: \<open>True == 1 == 1.0\<close>, and dictionaries compare as maps, so
  two documents are equal when their forms with numbers for truth values and for whole doubles,
  and with sorted keys, are.
\<close>

definition float_form :: "string \<Rightarrow> json" where
  "float_form lit = (case read_double lit of
     Finite neg m e \<Rightarrow>
       (case ratio_of m e of (p, q) \<Rightarrow>
          if p mod q = 0 then JInt (if neg then - int (p div q) else int (p div q))
          else JFloat (repr_finite neg m e))
   | Infinite neg \<Rightarrow> JFloat (if neg then ''-inf'' else ''inf'')
   | Not_a_number \<Rightarrow> JFloat ''nan'')"

definition nonzero_float :: "string \<Rightarrow> bool" where
  "nonzero_float lit = (case read_double lit of Finite neg m e \<Rightarrow> m \<noteq> 0 | _ \<Rightarrow> True)"

fun equality_form :: "json \<Rightarrow> json" where
  "equality_form (JBool b) = JInt (if b then 1 else 0)"
| "equality_form (JFloat lit) = float_form lit"
| "equality_form (JList xs) = JList (map equality_form xs)"
| "equality_form (JObj kvs) = JObj (sort_key fst (map (\<lambda>(k, v). (k, equality_form v)) kvs))"
| "equality_form j = j"

definition json_eq :: "json \<Rightarrow> json \<Rightarrow> bool" where
  "json_eq a b \<longleftrightarrow> equality_form a = equality_form b"

lemma json_eq_refl [simp]: "json_eq a a"
  by (simp add: json_eq_def)

lemma json_eq_text [simp]: "json_eq a (JStr s) \<longleftrightarrow> a = JStr s"
  by (cases a) (auto simp: json_eq_def float_form_def split: double.splits prod.splits)

lemma json_eq_canon: "json_eq (canon a) a"
proof -
  have "equality_form (canon a) = equality_form a"
  proof (induction a)
    case (JObj kvs)
    let ?f = "\<lambda>kv. (fst kv, equality_form (snd kv))"
    have form: "equality_form (JObj xs) = JObj (map ?f (sort_key fst xs))" for xs
      by (simp add: sort_key_map case_prod_unfold)
    have "map (?f \<circ> canon_member) (sort_key fst kvs) = map ?f (sort_key fst kvs)"
      using JObj by (intro map_cong) (auto simp: canon_member_def intro: snds.intros)
    then show ?case unfolding canon_JObj form sort_key_canon map_map by simp
  qed auto
  then show ?thesis by (simp add: json_eq_def)
qed

end
