(* ===== verification/Store.thy ===== *)
theory Store
  imports Schema_Writer Artifact_Seal_Laws Python_Text
begin

text \<open>
  The frame of every operation of \<open>ControlStore\<close> (\<open>src/adcp/store/sqlite.py\<close>): the
  environment it runs in, the write transaction with the global writer guard of \<open>_begin\<close>, the
  reads it performs, the event log and the execution fence. An operation maps a database to a
  result and a database; a transaction body either fails, and then nothing changed, or yields
  the database it commits.
\<close>

declare One_nat_def [simp del]

section \<open>The environment\<close>

text \<open>
  \<open>clock n\<close> is the \<open>n\<close>th reading of the injected clock within a call, \<open>uuid n\<close> the \<open>n\<close>th
  fresh identifier, \<open>sha\<close> the text of a SHA-256 digest; \<open>julian\<close> and \<open>text_julian\<close> are
  SQLite's \<open>julianday\<close> of a stored instant and whether it reads a text; \<open>resolve\<close>, \<open>is_dir\<close>
  and \<open>git_toplevel\<close> are the file system's and Git's answers; \<open>world\<close> is what sealed artifacts are read from. The last two fields are the
  store's own: \<open>global_writer_guard_required\<close> and the authority bound by
  \<open>ordinary_global_writer_authority\<close>.
\<close>

record ctx =
  clock :: "nat \<Rightarrow> int"
  uuid :: "nat \<Rightarrow> string"
  sha :: "string \<Rightarrow> string"
  julian :: "int \<Rightarrow> int"
  text_julian :: "string \<Rightarrow> bool"
  resolve :: "string \<Rightarrow> string result"
  is_dir :: "string \<Rightarrow> bool"
  git_toplevel :: "string \<Rightarrow> string option"
  world :: os_world
  guard_required :: bool
  bound_authority :: "(string \<times> int) option"

text \<open>\<open>canonical_source_root\<close>.\<close>

definition canonical_source_root :: "ctx \<Rightarrow> string \<Rightarrow> string result" where
  "canonical_source_root c raw =
    bnd (resolve c raw) (\<lambda>candidate.
    if \<not> is_dir c candidate then Inl (StoreError ''INVALID_SOURCE_ROOT'')
    else (case git_toplevel c candidate of
        None \<Rightarrow> Inl (StoreError ''INVALID_SOURCE_ROOT'')
      | Some toplevel \<Rightarrow> bnd (resolve c toplevel) (\<lambda>root.
          if root \<noteq> candidate then Inl (StoreError ''INVALID_SOURCE_ROOT'') else Inr root)))"

section \<open>Reading the global writer\<close>

text \<open>\<open>_validate_global_writer_row\<close>, after \<open>get_global_production_writer_lease\<close> has the row.\<close>

definition validate_writer_row :: "ctx \<Rightarrow> writer_row \<Rightarrow> writer_row result" where
  "validate_writer_row c r =
    (let invalid = Inl (StoreError ''GLOBAL_PRODUCTION_WRITER_STATE_INVALID'') in
     if gw_fencing_token r < 0 then invalid
     else case gw_state r of
        FREE \<Rightarrow> (if \<not> context_fields_none (gw_context r) \<or> gw_acquired_at r \<noteq> None
                 \<or> gw_expires_at r \<noteq> None \<or> gw_heartbeat_at r \<noteq> None then invalid else Inr r)
      | HELD \<Rightarrow>
          (if list_ex (\<lambda>v. v \<in> {None, Some []}) (context_required (gw_context r)) then invalid
           else if list_ex (\<lambda>v. v = Some []) (context_optional (gw_context r)) then invalid
           else (case (gw_acquired_at r, gw_expires_at r, gw_heartbeat_at r) of
              (Some a, Some e, Some h) \<Rightarrow>
                (if julian c a \<le> julian c h \<and> julian c h = julian c (gw_updated_at r)
                    \<and> julian c (gw_updated_at r) < julian c e then Inr r else invalid)
            | _ \<Rightarrow> invalid)))"

definition get_writer :: "ctx \<Rightarrow> db \<Rightarrow> writer_row result" where
  "get_writer c d = bnd (of_option (StoreError ''GLOBAL_PRODUCTION_WRITER_STATE_INVALID'') (writer d))
     (validate_writer_row c)"

definition require_current_writer :: "ctx \<Rightarrow> writer_row \<Rightarrow> string \<Rightarrow> int \<Rightarrow> int \<Rightarrow> writer_row result" where
  "require_current_writer c r owner token now =
    (if gw_fencing_token r \<noteq> token then Inl (StoreError ''STALE_FENCING_TOKEN'')
     else if gw_state r \<noteq> HELD then Inl (StoreError ''GLOBAL_PRODUCTION_WRITER_NOT_HELD'')
     else if wc_owner_id (gw_context r) \<noteq> Some owner
       then Inl (StoreError ''GLOBAL_PRODUCTION_WRITER_OWNER_MISMATCH'')
     else (case gw_expires_at r of
         None \<Rightarrow> Inl (StoreError ''GLOBAL_PRODUCTION_WRITER_STATE_INVALID'')
       | Some e \<Rightarrow> if julian c e \<le> julian c now
           then Inl (StoreError ''GLOBAL_PRODUCTION_WRITER_LEASE_EXPIRED'') else Inr r))"

text \<open>A row the validation accepts is a row the schema accepts, and the other way round.\<close>

lemma validate_writer_row_iff: "validate_writer_row c r = Inr r' \<longleftrightarrow> r' = r \<and> writer_check (julian c) r"
proof (cases "gw_state r")
  case FREE
  then show ?thesis by (auto simp: validate_writer_row_def writer_check_def Let_def)
next
  case HELD
  then show ?thesis
    by (cases "gw_acquired_at r"; cases "gw_expires_at r"; cases "gw_heartbeat_at r")
      (auto simp: validate_writer_row_def writer_check_def context_fields_held_def list_ex_iff list_all_iff Let_def)
qed

lemma require_current_writer_Inr [success]:
  "require_current_writer c r owner token now = Inr r' \<longleftrightarrow>
     r' = r \<and> gw_fencing_token r = token \<and> gw_state r = HELD \<and> wc_owner_id (gw_context r) = Some owner
     \<and> (\<exists>e. gw_expires_at r = Some e \<and> julian c now < julian c e)"
  by (auto simp: require_current_writer_def split: option.splits)

section \<open>Transactions\<close>

text \<open>\<open>_begin\<close>: an ordinary write of a guarded store needs the bound authority to be current.\<close>

definition begin_guard :: "ctx \<Rightarrow> db \<Rightarrow> unit result" where
  "begin_guard c d =
    (if \<not> guard_required c then Inr ()
     else (case bound_authority c of
         None \<Rightarrow> Inl (StoreError ''GLOBAL_PRODUCTION_WRITER_REQUIRED'')
       | Some (owner, token) \<Rightarrow> bnd (get_writer c d) (\<lambda>r.
           bnd (require_current_writer c r owner token (clock c 0)) (\<lambda>_. Inr ()))))"

definition transaction_unchecked :: "(db \<Rightarrow> ('a \<times> db) result) \<Rightarrow> db \<Rightarrow> 'a result \<times> db" where
  "transaction_unchecked body d =
    (case body d of Inl e \<Rightarrow> (Inl e, d) | Inr (a, d') \<Rightarrow> (Inr a, d'))"

definition transaction :: "ctx \<Rightarrow> (db \<Rightarrow> ('a \<times> db) result) \<Rightarrow> db \<Rightarrow> 'a result \<times> db" where
  "transaction c body = transaction_unchecked (\<lambda>d. bnd (begin_guard c d) (\<lambda>_. body d))"

text \<open>What is validated before the transaction, and what is read back after its commit.\<close>

definition precheck :: "'x result \<Rightarrow> ('x \<Rightarrow> db \<Rightarrow> 'a result \<times> db) \<Rightarrow> db \<Rightarrow> 'a result \<times> db" where
  "precheck m k d = (case m of Inl e \<Rightarrow> (Inl e, d) | Inr x \<Rightarrow> k x d)"

definition reading :: "('a \<Rightarrow> db \<Rightarrow> 'b result) \<Rightarrow> 'a result \<times> db \<Rightarrow> 'b result \<times> db" where
  "reading get rd = (case fst rd of Inl e \<Rightarrow> (Inl e, snd rd) | Inr a \<Rightarrow> (get a (snd rd), snd rd))"

text \<open>The change of an operation: rolled back, or the body's own on a guarded start.\<close>

lemma transaction_unchecked_cases:
  obtains (rolled_back) e where "transaction_unchecked body d = (Inl e, d)" "body d = Inl e"
  | (committed) a d' where "transaction_unchecked body d = (Inr a, d')" "body d = Inr (a, d')"
  by (cases "body d") (auto simp: transaction_unchecked_def split: prod.splits)

lemma snd_transaction:
  "snd (transaction c body d) = d' \<Longrightarrow> d' = d \<or> (\<exists>a. begin_guard c d = Inr () \<and> body d = Inr (a, d'))"
  by (auto simp: transaction_def transaction_unchecked_def bnd_def split: sum.splits prod.splits)

lemma fst_transaction:
  "fst (transaction c body d) = Inr a \<Longrightarrow>
     begin_guard c d = Inr () \<and> body d = Inr (a, snd (transaction c body d))"
  by (auto simp: transaction_def transaction_unchecked_def bnd_def split: sum.splits prod.splits)

lemma transaction_fails: "fst (transaction c body d) = Inl e \<Longrightarrow> snd (transaction c body d) = d"
  by (auto simp: transaction_def transaction_unchecked_def split: sum.splits prod.splits)

lemma snd_reading [simp]: "snd (reading get rd) = snd rd"
  by (auto simp: reading_def split: sum.splits)

lemma fst_reading: "fst (reading get rd) = Inr b \<longleftrightarrow> (\<exists>a. fst rd = Inr a \<and> get a (snd rd) = Inr b)"
  by (auto simp: reading_def split: sum.splits)

lemma fst_precheck: "fst (precheck m k d) = Inr a \<longleftrightarrow> (\<exists>x. m = Inr x \<and> fst (k x d) = Inr a)"
  by (auto simp: precheck_def split: sum.splits)

lemma precheck_cases:
  obtains (refused) e where "m = Inl e" "precheck m k d = (Inl e, d)"
  | (passed) x where "m = Inr x" "precheck m k d = k x d"
  by (cases m) (auto simp: precheck_def)

section \<open>Reads\<close>

text \<open>An optional text of a request, as the member of its canonical document.\<close>

fun json_opt :: "string option \<Rightarrow> json" where
  "json_opt None = JNull"
| "json_opt (Some s) = JStr s"

lemma json_opt_inj [simp]: "json_opt a = json_opt b \<longleftrightarrow> a = b"
  by (cases a; cases b) auto

lemma json_opt_plain [simp]: "plain (json_opt a)" and json_opt_canon [simp]: "canon (json_opt a) = json_opt a"
  by (cases a; simp)+

definition min_lease_ttl :: int where
  "min_lease_ttl = 15"

definition max_lease_ttl :: int where
  "max_lease_ttl = 300"

definition seconds :: "int \<Rightarrow> int" where
  "seconds n = n * 1000000"


definition get_execution :: "string \<Rightarrow> db \<Rightarrow> execution_row result" where
  "get_execution i d = of_option (StoreError ''EXECUTION_NOT_FOUND'') (find_execution i d)"

definition events_of :: "string \<Rightarrow> db \<Rightarrow> event_row list" where
  "events_of i d = filter (\<lambda>e. ev_execution_id e = i) (events d)"

definition get_slice :: "string \<Rightarrow> db \<Rightarrow> slice_row result" where
  "get_slice i d = of_option (StoreError ''SLICE_CONTROL_STATE_NOT_FOUND'') (find_slice i d)"

definition slice_events_of :: "string \<Rightarrow> db \<Rightarrow> slice_event_row list" where
  "slice_events_of i d = filter (\<lambda>v. se_slice_id v = i) (slice_events d)"

definition get_authority :: "db \<Rightarrow> authority_row result" where
  "get_authority d = of_option (StoreError ''AUTHORITY_SINGLETON_MISSING'') (authority d)"

definition get_attempt :: "string \<Rightarrow> db \<Rightarrow> attempt_row result" where
  "get_attempt i d = of_option (StoreError ''AGENT_ATTEMPT_NOT_FOUND'') (find_attempt i d)"

definition get_approval :: "string \<Rightarrow> db \<Rightarrow> approval_row result" where
  "get_approval i d = of_option (StoreError ''APPROVAL_NOT_FOUND'') (find_approval i d)"

definition get_context :: "string \<Rightarrow> db \<Rightarrow> context_row result" where
  "get_context i d = of_option (StoreError ''CONTEXT_SNAPSHOT_NOT_FOUND'') (find_context i d)"

lemma get_Inr [success]:
  "get_execution i d = Inr r \<longleftrightarrow> find_execution i d = Some r"
  "get_slice i d = Inr s \<longleftrightarrow> find_slice i d = Some s"
  "get_authority d = Inr a \<longleftrightarrow> authority d = Some a"
  "get_attempt i d = Inr t \<longleftrightarrow> find_attempt i d = Some t"
  "get_approval i d = Inr p \<longleftrightarrow> find_approval i d = Some p"
  "get_context i d = Inr x \<longleftrightarrow> find_context i d = Some x"
  by (simp_all add: get_execution_def get_slice_def get_authority_def get_attempt_def get_approval_def
      get_context_def of_option_eq_Inr)

section \<open>The event log\<close>

definition existing_event :: "string \<Rightarrow> string \<Rightarrow> event_type \<Rightarrow> string \<Rightarrow> db \<Rightarrow> event_row option result" where
  "existing_event i key type payload d =
    (case find (\<lambda>e. ev_execution_id e = i \<and> ev_operation_key e = key) (events d) of
       None \<Rightarrow> Inr None
     | Some e \<Rightarrow> if ev_event_type e \<noteq> type \<or> ev_metadata_json e \<noteq> payload
         then Inl (StoreError ''IDEMPOTENCY_CONFLICT'') else Inr (Some e))"

text \<open>
  \<open>_insert_event\<close>: the caller's columns with a fresh identifier (the \<open>n\<close>th of the call).
\<close>

definition insert_event :: "ctx \<Rightarrow> nat \<Rightarrow> event_row \<Rightarrow> db \<Rightarrow> db result" where
  "insert_event c n e d = insert_event_row (e\<lparr>ev_event_id := uuid c n\<rparr>) d"

text \<open>The columns of an event that moves an execution from its current row to a state.\<close>

definition event_from ::
  "event_type \<Rightarrow> execution_row \<Rightarrow> string \<Rightarrow> exec_state \<Rightarrow> actor_role \<Rightarrow> string \<Rightarrow> int \<Rightarrow> string
     \<Rightarrow> string option \<Rightarrow> string \<Rightarrow> int \<Rightarrow> event_row" where
  "event_from type r key to role actor generation reason detail metadata now =
    \<lparr>ev_seq = 0, ev_event_id = [], ev_execution_id = ex_id r, ev_operation_key = key,
     ev_event_type = type, ev_from_state = Some (ex_state r), ev_to_state = to,
     ev_from_version = ex_state_version r, ev_to_version = ex_state_version r + 1,
     ev_actor_role = role, ev_actor_id = actor, ev_lease_generation = generation,
     ev_reason_code = reason, ev_reason_detail = detail, ev_metadata_json = metadata, ev_created_at = now\<rparr>"

lemma existing_event_None:
  "existing_event i key type payload d = Inr None \<longleftrightarrow>
     (\<forall>e\<in>set (events d). \<not> (ev_execution_id e = i \<and> ev_operation_key e = key))"
  by (auto simp: existing_event_def find_eq_None split: option.splits if_splits dest!: find_SomeD)

lemma existing_event_Some:
  "existing_event i key type payload d = Inr (Some e) \<Longrightarrow>
     e \<in> set (events d) \<and> ev_execution_id e = i \<and> ev_operation_key e = key
     \<and> ev_event_type e = type \<and> ev_metadata_json e = payload"
  by (auto simp: existing_event_def split: option.splits if_splits dest!: find_SomeD)

lemma insert_event_Inr:
  assumes "insert_event c n e d = Inr d'"
  shows "d' = d\<lparr>events := events d @ [e\<lparr>ev_event_id := uuid c n, ev_seq := Suc (length (events d))\<rparr>]\<rparr>"
    and "event_check (e\<lparr>ev_event_id := uuid c n\<rparr>)"
    and "\<forall>x\<in>set (events d). ev_execution_id x = ev_execution_id e \<longrightarrow>
        ev_operation_key x \<noteq> ev_operation_key e \<and> ev_to_version x \<noteq> ev_to_version e"
    and "find_execution (ev_execution_id e) d \<noteq> None"
  using assms unfolding insert_event_def insert_event_row_def by (auto split: if_split_asm)

section \<open>Fences and compare-and-set\<close>

definition require_fence :: "execution_row \<Rightarrow> string \<Rightarrow> int \<Rightarrow> int \<Rightarrow> unit result" where
  "require_fence r owner generation now =
    (if ex_lease_owner r \<noteq> Some owner \<or> ex_lease_generation r \<noteq> generation
        \<or> ex_lease_expires_at r = None \<or> the (ex_lease_expires_at r) \<le> now
     then Inl (StoreError ''STALE_FENCING_TOKEN'') else Inr ())"

text \<open>What holding the fence means: a named owner, its generation, and time left.\<close>

definition fence_held :: "execution_row \<Rightarrow> string \<Rightarrow> int \<Rightarrow> int \<Rightarrow> bool" where
  "fence_held r owner generation now \<longleftrightarrow> ex_lease_owner r = Some owner \<and> ex_lease_generation r = generation
     \<and> (\<exists>e. ex_lease_expires_at r = Some e \<and> now < e)"

lemma require_fence_Inr [success]: "require_fence r owner generation now = Inr u \<longleftrightarrow> fence_held r owner generation now"
  by (auto simp: require_fence_def fence_held_def)

text \<open>
  \<open>UPDATE slice_execution SET ... WHERE execution_id = ? AND state_version = ?\<close>; the checked
  form raises unless exactly one row was hit.
\<close>

definition update_at_version ::
  "string \<Rightarrow> int \<Rightarrow> (execution_row \<Rightarrow> execution_row) \<Rightarrow> db \<Rightarrow> (db \<times> nat) result" where
  "update_at_version i v f = update_executions (\<lambda>r. ex_id r = i \<and> ex_state_version r = v) f"

definition cas_execution ::
  "string \<Rightarrow> int \<Rightarrow> (execution_row \<Rightarrow> execution_row) \<Rightarrow> db \<Rightarrow> db result" where
  "cas_execution i v f d = bnd (update_at_version i v f d) (\<lambda>(d', n).
     if n \<noteq> 1 then Inl (StoreError ''STALE_STATE_VERSION'') else Inr d')"

lemma update_at_version_Inr:
  assumes "update_at_version i v f d = Inr (d', n)" and key: "\<And>r. ex_id (f r) = ex_id r"
  shows "find_execution k d' = (case find_execution k d of None \<Rightarrow> None
      | Some r \<Rightarrow> Some (if k = i \<and> ex_state_version r = v then f r else r))"
    and "d' = d\<lparr>executions := update_where (\<lambda>r. ex_id r = i \<and> ex_state_version r = v) f (executions d)\<rparr>"
    and "\<And>r. find_execution i d = Some r \<Longrightarrow> ex_state_version r = v \<Longrightarrow> execution_check (f r)"
proof -
  note upd = assms(1) [unfolded update_at_version_def]
  from execution_table.get_modify [OF upd, of k] key
  show "find_execution k d' = (case find_execution k d of None \<Rightarrow> None
      | Some r \<Rightarrow> Some (if k = i \<and> ex_state_version r = v then f r else r))"
    by (auto split: option.splits dest: execution_table.get_key)
  show "d' = d\<lparr>executions := update_where (\<lambda>r. ex_id r = i \<and> ex_state_version r = v) f (executions d)\<rparr>"
    using update_executions_Inr [OF upd] by simp
  fix r
  assume "find_execution i d = Some r" "ex_state_version r = v"
  then have "r \<in> set (executions d)" "ex_id r = i"
    unfolding find_execution_def by (auto dest: find_SomeD)
  with upd \<open>ex_state_version r = v\<close> show "execution_check (f r)"
    unfolding update_executions_def by (auto simp: Let_def split: if_split_asm)
qed

lemma cas_execution_Inr:
  assumes "cas_execution i v f d = Inr d'"
  shows "\<exists>n. update_at_version i v f d = Inr (d', n)"
  using assms unfolding cas_execution_def by (auto simp: success)

end
