(* ===== verification/Global_Writer.thy ===== *)
theory Global_Writer
  imports Store
begin

text \<open>
  The global production writer (\<open>src/adcp/store/sqlite.py\<close>): one lease over all production
  writes, with a fencing token that grows with every change of hands. The operations, the
  step relation on the lease and its log that they refine, and what follows for a holder that
  lost the lease.
\<close>

section \<open>Operations\<close>

text \<open>\<open>assert_current_global_writer\<close>; \<open>n\<close> is the clock reading it makes.\<close>

definition assert_current_writer :: "ctx \<Rightarrow> nat \<Rightarrow> string \<Rightarrow> int \<Rightarrow> db \<Rightarrow> writer_row result" where
  "assert_current_writer c n owner token d =
    (if owner = [] then Inl (StoreError ''INVALID_INPUT'')
     else if token < 0 then Inl (StoreError ''INVALID_INPUT'')
     else bnd (get_writer c d) (\<lambda>r. require_current_writer c r owner token (clock c n)))"

definition validate_writer_context :: "writer_context \<Rightarrow> unit result" where
  "validate_writer_context w =
    (if list_ex (\<lambda>v. v \<in> {None, Some []}) (context_required w)
        \<or> list_ex (\<lambda>v. v = Some []) (context_optional w)
     then Inl (StoreError ''GLOBAL_PRODUCTION_WRITER_CONTEXT_INVALID'') else Inr ())"

definition context_json :: "writer_context \<Rightarrow> json" where
  "context_json w = JObj
    [(''owner_id'', json_opt (wc_owner_id w)),
     (''owner_execution_id'', json_opt (wc_owner_execution_id w)),
     (''change_id'', json_opt (wc_change_id w)),
     (''slice_id'', json_opt (wc_slice_id w)),
     (''writer_class'', json_opt (wc_writer_class w)),
     (''owner_session_role'', json_opt (wc_owner_session_role w)),
     (''track'', json_opt (wc_track w)),
     (''repository_or_runtime'', json_opt (wc_repository_or_runtime w)),
     (''operation_class'', json_opt (wc_operation_class w)),
     (''target'', json_opt (wc_target w))]"

definition empty_context :: writer_context where
  "empty_context = \<lparr>wc_owner_id = None, wc_owner_execution_id = None, wc_change_id = None,
     wc_slice_id = None, wc_writer_class = None, wc_owner_session_role = None, wc_track = None,
     wc_repository_or_runtime = None, wc_operation_class = None, wc_target = None\<rparr>"

definition existing_writer_event ::
  "string \<Rightarrow> writer_event_type list \<Rightarrow> string \<Rightarrow> db \<Rightarrow> writer_event_row option result" where
  "existing_writer_event key types request d =
    (case find (\<lambda>e. ge_operation_key e = key) (writer_events d) of
       None \<Rightarrow> Inr None
     | Some e \<Rightarrow> if ge_event_type e \<notin> set types \<or> ge_request_json e \<noteq> request
         then Inl (StoreError ''GLOBAL_PRODUCTION_WRITER_IDEMPOTENCY_CONFLICT'') else Inr (Some e))"

definition insert_writer_event ::
  "ctx \<Rightarrow> string \<Rightarrow> writer_event_type \<Rightarrow> int \<Rightarrow> int \<Rightarrow> writer_context option \<Rightarrow> writer_context option
     \<Rightarrow> string \<Rightarrow> string option \<Rightarrow> string \<Rightarrow> int \<Rightarrow> db \<Rightarrow> db result" where
  "insert_writer_event c key type from to prior new reason decision request now d =
    insert_writer_event_row
      \<lparr>ge_event_id = uuid c 0, ge_operation_key = key, ge_event_type = type,
       ge_from_token = from, ge_to_token = to,
       ge_prior = (case prior of None \<Rightarrow> empty_context | Some w \<Rightarrow> w),
       ge_new = (case new of None \<Rightarrow> empty_context | Some w \<Rightarrow> w),
       ge_reason = reason, ge_control_decision_ref = decision, ge_request_json = request,
       ge_created_at = now\<rparr> d"

text \<open>\<open>except sqlite3.Error: raise StoreError("CONTROL_STORE_ERROR")\<close>.\<close>

fun sqlite_as_store_error :: "'a result \<Rightarrow> 'a result" where
  "sqlite_as_store_error (Inl (IntegrityError _)) = Inl (StoreError ''CONTROL_STORE_ERROR'')"
| "sqlite_as_store_error m = m"

lemma sqlite_as_store_error_Inr [success]: "sqlite_as_store_error m = Inr a \<longleftrightarrow> m = Inr a"
  by (cases m rule: sqlite_as_store_error.cases) auto

record acquire_request =
  aq_operation_key :: string
  aq_context :: writer_context
  aq_ttl_seconds :: int
  aq_control_decision_ref :: "string option"

definition acquire_request_json :: "acquire_request \<Rightarrow> json" where
  "acquire_request_json q = JObj
    [(''context'', context_json (aq_context q)), (''ttl_seconds'', JInt (aq_ttl_seconds q)),
     (''control_decision_ref'', json_opt (aq_control_decision_ref q))]"

definition acquire_validate :: "acquire_request \<Rightarrow> unit result" where
  "acquire_validate q =
    bnd (require_sha256 (aq_operation_key q)) (\<lambda>_.
    if \<not> (min_lease_ttl \<le> aq_ttl_seconds q \<and> aq_ttl_seconds q \<le> max_lease_ttl)
      then Inl (StoreError ''INVALID_LEASE_TTL'')
    else if aq_control_decision_ref q = Some [] then Inl (StoreError ''INVALID_INPUT'')
    else validate_writer_context (aq_context q))"

definition held_by :: "writer_context \<Rightarrow> int \<Rightarrow> int \<Rightarrow> int \<Rightarrow> writer_row" where
  "held_by w token now expires =
    \<lparr>gw_state = HELD, gw_context = w, gw_fencing_token = token, gw_acquired_at = Some now,
     gw_expires_at = Some expires, gw_heartbeat_at = Some now, gw_updated_at = now\<rparr>"

definition freed_at :: "int \<Rightarrow> int \<Rightarrow> writer_row" where
  "freed_at token now =
    \<lparr>gw_state = FREE, gw_context = empty_context, gw_fencing_token = token, gw_acquired_at = None,
     gw_expires_at = None, gw_heartbeat_at = None, gw_updated_at = now\<rparr>"

text \<open>The transaction of \<open>acquire_global_production_writer\<close>: the token, and whether it replayed.\<close>

definition acquire_body :: "ctx \<Rightarrow> acquire_request \<Rightarrow> db \<Rightarrow> ((int \<times> bool) \<times> db) result" where
  "acquire_body c q d =
    (let request = dumps (acquire_request_json q); now = clock c 1;
         expires = clock c 1 + seconds (aq_ttl_seconds q) in
     bnd (existing_writer_event (aq_operation_key q) [ACQUIRE, EXPIRED_TAKEOVER] request d) (\<lambda>existing.
     bnd (get_writer c d) (\<lambda>prior.
     case existing of
       Some e \<Rightarrow>
         (if gw_state prior \<noteq> HELD \<or> gw_fencing_token prior \<noteq> ge_to_token e
             \<or> gw_context prior \<noteq> aq_context q
          then Inl (StoreError ''GLOBAL_PRODUCTION_WRITER_OPERATION_REPLAY_STALE'')
          else Inr ((gw_fencing_token prior, True), d))
     | None \<Rightarrow>
         (if gw_state prior = HELD \<and> julian c now < julian c (the (gw_expires_at prior))
          then Inl (StoreError ''GLOBAL_PRODUCTION_WRITER_HELD'')
          else
            let type = (if gw_state prior = HELD then EXPIRED_TAKEOVER else ACQUIRE);
                reason = (if gw_state prior = HELD then ''GLOBAL_PRODUCTION_WRITER_EXPIRED_TAKEOVER''
                          else ''GLOBAL_PRODUCTION_WRITER_ACQUIRED'');
                prior_context = (if gw_state prior = HELD then Some (gw_context prior) else None);
                token = gw_fencing_token prior + 1 in
            bnd (update_writer (julian c) (\<lambda>r. gw_fencing_token r = gw_fencing_token prior)
                   (\<lambda>_. held_by (aq_context q) token now expires) d) (\<lambda>(d1, n).
            if n \<noteq> 1 then Inl (StoreError ''CONTROL_STORE_ERROR'')
            else bnd (insert_writer_event c (aq_operation_key q) type (gw_fencing_token prior) token
                   prior_context (Some (aq_context q)) reason (aq_control_decision_ref q) request now d1)
                 (\<lambda>d2. Inr ((token, False), d2)))))))"

definition acquire_global_writer :: "ctx \<Rightarrow> acquire_request \<Rightarrow> db \<Rightarrow> writer_row result \<times> db" where
  "acquire_global_writer c q = precheck (acquire_validate q) (\<lambda>_ d.
    reading (\<lambda>(token, replayed) d'.
        bnd (assert_current_writer c 2 (the (wc_owner_id (aq_context q))) token d') (\<lambda>r.
        if \<not> replayed \<and> gw_context r \<noteq> aq_context q then Inl (StoreError ''CONTROL_STORE_ERROR'')
        else Inr r))
      (transaction_unchecked (\<lambda>d. sqlite_as_store_error (acquire_body c q d)) d))"

text \<open>\<open>heartbeat_global_production_writer\<close>.\<close>

definition writer_current_row :: "string \<Rightarrow> int \<Rightarrow> int \<Rightarrow> writer_row \<Rightarrow> bool" where
  "writer_current_row owner token now r \<longleftrightarrow> gw_state r = HELD \<and> wc_owner_id (gw_context r) = Some owner
     \<and> gw_fencing_token r = token \<and> (case gw_expires_at r of None \<Rightarrow> False | Some e \<Rightarrow> now < e)"

definition heartbeat_writer_body :: "ctx \<Rightarrow> string \<Rightarrow> int \<Rightarrow> int \<Rightarrow> db \<Rightarrow> (unit \<times> db) result" where
  "heartbeat_writer_body c owner token ttl d =
    (let now = clock c 1 in
     bnd (get_writer c d) (\<lambda>r.
     bnd (require_current_writer c r owner token now) (\<lambda>_.
     bnd (update_writer (julian c) (writer_current_row owner token now)
           (\<lambda>r. r\<lparr>gw_expires_at := Some (now + seconds ttl), gw_heartbeat_at := Some now,
                  gw_updated_at := now\<rparr>) d) (\<lambda>(d1, n).
     if n \<noteq> 1 then Inl (StoreError ''STALE_FENCING_TOKEN'') else Inr ((), d1)))))"

definition heartbeat_global_writer :: "ctx \<Rightarrow> string \<Rightarrow> int \<Rightarrow> int \<Rightarrow> db \<Rightarrow> writer_row result \<times> db" where
  "heartbeat_global_writer c owner token ttl = precheck
    (if \<not> (min_lease_ttl \<le> ttl \<and> ttl \<le> max_lease_ttl) then Inl (StoreError ''INVALID_LEASE_TTL'') else Inr ())
    (\<lambda>_ d. reading (\<lambda>_ d'. assert_current_writer c 2 owner token d')
      (transaction_unchecked (\<lambda>d. sqlite_as_store_error (heartbeat_writer_body c owner token ttl d)) d))"

record release_request =
  rq_operation_key :: string
  rq_owner_id :: string
  rq_fencing_token :: int
  rq_reason :: string
  rq_control_decision_ref :: "string option"

definition release_request_json :: "release_request \<Rightarrow> json" where
  "release_request_json q = JObj
    [(''owner_id'', JStr (rq_owner_id q)), (''fencing_token'', JInt (rq_fencing_token q)),
     (''reason'', JStr (rq_reason q)), (''control_decision_ref'', json_opt (rq_control_decision_ref q))]"

definition release_validate :: "release_request \<Rightarrow> unit result" where
  "release_validate q =
    bnd (require_sha256 (rq_operation_key q)) (\<lambda>_.
    if rq_reason q = [] then Inl (StoreError ''INVALID_INPUT'')
    else if rq_control_decision_ref q = Some [] then Inl (StoreError ''INVALID_INPUT'')
    else if rq_fencing_token q < 0 then Inl (StoreError ''INVALID_INPUT'') else Inr ())"

definition release_writer_body :: "ctx \<Rightarrow> release_request \<Rightarrow> db \<Rightarrow> (bool \<times> db) result" where
  "release_writer_body c q d =
    (let request = dumps (release_request_json q); now = clock c 1 in
     bnd (existing_writer_event (rq_operation_key q) [RELEASE] request d) (\<lambda>existing.
     bnd (get_writer c d) (\<lambda>prior.
     case existing of
       Some e \<Rightarrow> (if gw_state prior \<noteq> FREE \<or> gw_fencing_token prior \<noteq> ge_to_token e
          then Inl (StoreError ''GLOBAL_PRODUCTION_WRITER_OPERATION_REPLAY_STALE'') else Inr (True, d))
     | None \<Rightarrow>
         bnd (require_current_writer c prior (rq_owner_id q) (rq_fencing_token q) now) (\<lambda>_.
         bnd (update_writer (julian c) (writer_current_row (rq_owner_id q) (rq_fencing_token q) now)
                (\<lambda>r. freed_at (gw_fencing_token r) now) d) (\<lambda>(d1, n).
         if n \<noteq> 1 then Inl (StoreError ''STALE_FENCING_TOKEN'')
         else bnd (insert_writer_event c (rq_operation_key q) RELEASE (rq_fencing_token q)
                (rq_fencing_token q) (Some (gw_context prior)) None (rq_reason q)
                (rq_control_decision_ref q) request now d1) (\<lambda>d2. Inr (False, d2)))))))"

definition release_global_writer :: "ctx \<Rightarrow> release_request \<Rightarrow> db \<Rightarrow> writer_row result \<times> db" where
  "release_global_writer c q = precheck (release_validate q) (\<lambda>_ d.
    reading (\<lambda>replayed d'. bnd (get_writer c d') (\<lambda>r.
        if \<not> replayed \<and> (gw_state r \<noteq> FREE \<or> gw_fencing_token r \<noteq> rq_fencing_token q)
        then Inl (StoreError ''CONTROL_STORE_ERROR'') else Inr r))
      (transaction_unchecked (\<lambda>d. sqlite_as_store_error (release_writer_body c q d)) d))"

record revoke_request =
  vq_operation_key :: string
  vq_reason :: string
  vq_control_decision_ref :: string
  vq_expected_owner_id :: string
  vq_expected_token :: int

definition revoke_request_json :: "revoke_request \<Rightarrow> json" where
  "revoke_request_json q = JObj
    [(''reason'', JStr (vq_reason q)), (''control_decision_ref'', JStr (vq_control_decision_ref q)),
     (''expected_owner_id'', JStr (vq_expected_owner_id q)),
     (''expected_fencing_token'', JInt (vq_expected_token q))]"

definition revoke_validate :: "revoke_request \<Rightarrow> unit result" where
  "revoke_validate q =
    bnd (require_sha256 (vq_operation_key q)) (\<lambda>_.
    if [] \<in> {vq_reason q, vq_control_decision_ref q, vq_expected_owner_id q}
      then Inl (StoreError ''INVALID_INPUT'')
    else if vq_expected_token q < 0 then Inl (StoreError ''INVALID_INPUT'') else Inr ())"

definition revoke_writer_body :: "ctx \<Rightarrow> revoke_request \<Rightarrow> db \<Rightarrow> (bool \<times> db) result" where
  "revoke_writer_body c q d =
    (let request = dumps (revoke_request_json q); now = clock c 1; token = vq_expected_token q + 1 in
     bnd (existing_writer_event (vq_operation_key q) [FORCE_REVOKE] request d) (\<lambda>existing.
     bnd (get_writer c d) (\<lambda>prior.
     case existing of
       Some e \<Rightarrow> (if gw_state prior \<noteq> FREE \<or> gw_fencing_token prior \<noteq> ge_to_token e
          then Inl (StoreError ''GLOBAL_PRODUCTION_WRITER_OPERATION_REPLAY_STALE'') else Inr (True, d))
     | None \<Rightarrow>
         bnd (require_current_writer c prior (vq_expected_owner_id q) (vq_expected_token q) now) (\<lambda>_.
         bnd (update_writer (julian c) (writer_current_row (vq_expected_owner_id q) (vq_expected_token q) now)
                (\<lambda>_. freed_at token now) d) (\<lambda>(d1, n).
         if n \<noteq> 1 then Inl (StoreError ''GLOBAL_PRODUCTION_WRITER_FORCE_REVOKE_MISMATCH'')
         else bnd (insert_writer_event c (vq_operation_key q) FORCE_REVOKE (vq_expected_token q) token
                (Some (gw_context prior)) None (vq_reason q) (Some (vq_control_decision_ref q))
                request now d1) (\<lambda>d2. Inr (False, d2)))))))"

definition force_revoke_global_writer :: "ctx \<Rightarrow> revoke_request \<Rightarrow> db \<Rightarrow> writer_row result \<times> db" where
  "force_revoke_global_writer c q = precheck (revoke_validate q) (\<lambda>_ d.
    reading (\<lambda>replayed d'. bnd (get_writer c d') (\<lambda>r.
        if \<not> replayed \<and> (gw_state r \<noteq> FREE \<or> gw_fencing_token r \<noteq> vq_expected_token q + 1)
        then Inl (StoreError ''CONTROL_STORE_ERROR'') else Inr r))
      (transaction_unchecked (\<lambda>d. sqlite_as_store_error (revoke_writer_body c q d)) d))"

end
