(* ===== verification/Leases.thy ===== *)
theory Leases
  imports Global_Writer
begin

text \<open>
  The lease of one execution: acquiring, renewing and releasing it, and the candidate fence
  that pins lease, version and authority at once (\<open>src/adcp/store/sqlite.py\<close>). Every mutation
  of an execution checks its fence against the current row inside the transaction.
\<close>

section \<open>acquire_lease, heartbeat, release_lease\<close>

record lease_request =
  lq_execution_id :: string
  lq_expected_version :: int
  lq_operation_key :: string
  lq_owner :: string
  lq_ttl_seconds :: int

definition lease_request_json :: "lease_request \<Rightarrow> json" where
  "lease_request_json q = JObj
    [(''execution_id'', JStr (lq_execution_id q)),
     (''expected_state_version'', JInt (lq_expected_version q)),
     (''lease_owner'', JStr (lq_owner q)), (''ttl_seconds'', JInt (lq_ttl_seconds q))]"

definition acquire_lease_validate :: "lease_request \<Rightarrow> unit result" where
  "acquire_lease_validate q =
    bnd (require_sha256 (lq_operation_key q)) (\<lambda>_.
    if lq_owner q = [] then Inl (StoreError ''INVALID_INPUT'')
    else if \<not> (min_lease_ttl \<le> lq_ttl_seconds q \<and> lq_ttl_seconds q \<le> max_lease_ttl)
      then Inl (StoreError ''INVALID_LEASE_TTL'') else Inr ())"

definition acquire_lease_body :: "ctx \<Rightarrow> lease_request \<Rightarrow> db \<Rightarrow> (unit \<times> db) result" where
  "acquire_lease_body c q d =
    (let i = lq_execution_id q; v = lq_expected_version q; now = clock c 1;
         expires = clock c 1 + seconds (lq_ttl_seconds q); payload = dumps (lease_request_json q) in
     bnd (existing_event i (lq_operation_key q) LEASE_ACQUIRED payload d) (\<lambda>existing.
     if existing \<noteq> None then Inr ((), d)
     else bnd (get_execution i d) (\<lambda>r.
       if ex_state r \<in> terminal_states then Inl (StoreError ''INVALID_TRANSITION'')
       else if ex_state_version r \<noteq> v then Inl (StoreError ''STALE_STATE_VERSION'')
       else if ex_lease_owner r \<noteq> None \<and> now < the (ex_lease_expires_at r) then Inl (StoreError ''LEASE_HELD'')
       else let generation = ex_lease_generation r + 1 in
         bnd (cas_execution i v (\<lambda>x. x\<lparr>ex_lease_owner := Some (lq_owner q), ex_lease_generation := generation,
                ex_lease_expires_at := Some expires, ex_state_version := ex_state_version x + 1,
                ex_updated_at := now\<rparr>) d) (\<lambda>d1.
         bnd (insert_event c 0 (event_from LEASE_ACQUIRED r (lq_operation_key q) (ex_state r) CONTROLLER
                (lq_owner q) generation ''LEASE_ACQUIRED'' None payload now) d1) (\<lambda>d2. Inr ((), d2))))))"

definition acquire_lease :: "ctx \<Rightarrow> lease_request \<Rightarrow> db \<Rightarrow> execution_row result \<times> db" where
  "acquire_lease c q = precheck (acquire_lease_validate q) (\<lambda>_ d.
    reading (\<lambda>_. get_execution (lq_execution_id q)) (transaction c (acquire_lease_body c q) d))"

definition heartbeat_body :: "ctx \<Rightarrow> string \<Rightarrow> int \<Rightarrow> string \<Rightarrow> int \<Rightarrow> int \<Rightarrow> db \<Rightarrow> (unit \<times> db) result" where
  "heartbeat_body c i v owner generation ttl d =
    (let now = clock c 1 in
     bnd (get_execution i d) (\<lambda>r.
     bnd (require_fence r owner generation now) (\<lambda>_.
     if ex_state_version r \<noteq> v then Inl (StoreError ''STALE_STATE_VERSION'')
     else bnd (update_executions
            (\<lambda>x. ex_id x = i \<and> ex_state_version x = v \<and> ex_lease_owner x = Some owner
               \<and> ex_lease_generation x = generation
               \<and> (case ex_lease_expires_at x of None \<Rightarrow> False | Some e \<Rightarrow> now < e))
            (\<lambda>x. x\<lparr>ex_lease_expires_at := Some (now + seconds ttl), ex_updated_at := now\<rparr>) d) (\<lambda>(d1, n).
       if n \<noteq> 1 then Inl (StoreError ''STALE_FENCING_TOKEN'') else Inr ((), d1)))))"

definition heartbeat :: "ctx \<Rightarrow> string \<Rightarrow> int \<Rightarrow> string \<Rightarrow> int \<Rightarrow> int \<Rightarrow> db \<Rightarrow> execution_row result \<times> db" where
  "heartbeat c i v owner generation ttl = precheck
    (if \<not> (min_lease_ttl \<le> ttl \<and> ttl \<le> max_lease_ttl) then Inl (StoreError ''INVALID_LEASE_TTL'') else Inr ())
    (\<lambda>_ d. reading (\<lambda>_. get_execution i) (transaction c (heartbeat_body c i v owner generation ttl) d))"

record unlease_request =
  uq_execution_id :: string
  uq_expected_version :: int
  uq_operation_key :: string
  uq_owner :: string
  uq_generation :: int

definition unlease_request_json :: "unlease_request \<Rightarrow> json" where
  "unlease_request_json q = JObj
    [(''execution_id'', JStr (uq_execution_id q)),
     (''expected_state_version'', JInt (uq_expected_version q)),
     (''lease_owner'', JStr (uq_owner q)), (''lease_generation'', JInt (uq_generation q))]"

definition release_lease_body :: "ctx \<Rightarrow> unlease_request \<Rightarrow> db \<Rightarrow> (unit \<times> db) result" where
  "release_lease_body c q d =
    (let i = uq_execution_id q; v = uq_expected_version q; now = clock c 1;
         payload = dumps (unlease_request_json q) in
     bnd (existing_event i (uq_operation_key q) LEASE_RELEASED payload d) (\<lambda>existing.
     if existing \<noteq> None then Inr ((), d)
     else bnd (get_execution i d) (\<lambda>r.
       bnd (require_fence r (uq_owner q) (uq_generation q) now) (\<lambda>_.
       if ex_state_version r \<noteq> v then Inl (StoreError ''STALE_STATE_VERSION'')
       else bnd (update_at_version i v (\<lambda>x. x\<lparr>ex_lease_owner := None, ex_lease_expires_at := None,
                   ex_state_version := ex_state_version x + 1, ex_updated_at := now\<rparr>) d) (\<lambda>(d1, _).
         bnd (insert_event c 0 (event_from LEASE_RELEASED r (uq_operation_key q) (ex_state r) CONTROLLER
                (uq_owner q) (uq_generation q) ''LEASE_RELEASED'' None payload now) d1) (\<lambda>d2. Inr ((), d2)))))))"

definition release_lease :: "ctx \<Rightarrow> unlease_request \<Rightarrow> db \<Rightarrow> execution_row result \<times> db" where
  "release_lease c q = precheck (require_sha256 (uq_operation_key q)) (\<lambda>_ d.
    reading (\<lambda>_. get_execution (uq_execution_id q)) (transaction c (release_lease_body c q) d))"

section \<open>The candidate fence\<close>

record candidate_fence =
  cf_execution_id :: string
  cf_expected_version :: int
  cf_owner :: string
  cf_generation :: int
  cf_authority_generation :: int
  cf_contract_fingerprint :: string
  cf_authority_fingerprint :: string

text \<open>\<open>_require_candidate_fence\<close>; \<open>n\<close> is the clock reading it makes.\<close>

definition require_candidate_fence ::
  "ctx \<Rightarrow> nat \<Rightarrow> string \<Rightarrow> candidate_fence \<Rightarrow> bool \<Rightarrow> db \<Rightarrow> execution_row result" where
  "require_candidate_fence c n i f check_version d =
    (if cf_execution_id f \<noteq> i then Inl (StoreError ''CANDIDATE_FENCING_TOKEN_REQUIRED'')
     else bnd (get_execution i d) (\<lambda>r.
       bnd (require_fence r (cf_owner f) (cf_generation f) (clock c n)) (\<lambda>_.
       if check_version \<and> ex_state_version r \<noteq> cf_expected_version f
         then Inl (StoreError ''STALE_STATE_VERSION'')
       else bnd (get_authority d) (\<lambda>a.
         if au_generation a \<noteq> cf_authority_generation f then Inl (StoreError ''STALE_AUTHORITY_GENERATION'')
         else if ex_contract_fingerprint r \<noteq> cf_contract_fingerprint f
             \<or> ex_authority_fingerprint r \<noteq> cf_authority_fingerprint f
           then Inl (StoreError ''CANDIDATE_AUTHORITY_BINDING_MISMATCH'')
         else Inr r))))"

lemma require_candidate_fence_Inr:
  assumes "require_candidate_fence c n i f check d = Inr r"
  shows "find_execution i d = Some r" and "cf_execution_id f = i"
    and "fence_held r (cf_owner f) (cf_generation f) (clock c n)"
    and "check \<Longrightarrow> ex_state_version r = cf_expected_version f"
    and "\<exists>a. authority d = Some a \<and> au_generation a = cf_authority_generation f"
    and "ex_contract_fingerprint r = cf_contract_fingerprint f"
    and "ex_authority_fingerprint r = cf_authority_fingerprint f"
  using assms unfolding require_candidate_fence_def
  by (auto elim!: step_elims simp: success)

text \<open>\<open>if candidate_write_fence is not None: self._require_candidate_fence(...)\<close>.\<close>

definition optional_fence ::
  "ctx \<Rightarrow> nat \<Rightarrow> string \<Rightarrow> candidate_fence option \<Rightarrow> bool \<Rightarrow> db \<Rightarrow> unit result" where
  "optional_fence c n i fence check_version d = (case fence of None \<Rightarrow> Inr ()
    | Some f \<Rightarrow> bnd (require_candidate_fence c n i f check_version d) (\<lambda>_. Inr ()))"

end
