(* ===== verification/Lifecycle.thy ===== *)
theory Lifecycle
  imports Leases
begin

text \<open>
  The life of an execution (\<open>src/adcp/store/sqlite.py\<close>): its creation, its state transitions,
  the registration of a result commit and the scheduling of an automatic rework.
\<close>

section \<open>create_execution\<close>

definition create_request_json :: "execution_create \<Rightarrow> string \<Rightarrow> json" where
  "create_request_json x root = JObj
    [(''execution_id'', JStr (xc_execution_id x)), (''slice_id'', JStr (xc_slice_id x)),
     (''risk_level'', JStr (risk_value (xc_risk_level x))),
     (''environment'', JStr (environment_value (xc_environment x))),
     (''contract_fingerprint'', JStr (xc_contract_fingerprint x)),
     (''authority_fingerprint'', JStr (xc_authority_fingerprint x)),
     (''source_root'', JStr root), (''branch'', JStr (xc_branch x)),
     (''base_commit'', JStr (xc_base_commit x)),
     (''current_actor_role'', JStr (role_value (xc_current_actor_role x)))]"

text \<open>The row of the \<open>INSERT\<close>, with the column defaults of the schema.\<close>

definition created_execution :: "execution_create \<Rightarrow> string \<Rightarrow> string \<Rightarrow> int \<Rightarrow> execution_row" where
  "created_execution x key root now =
    \<lparr>ex_id = xc_execution_id x, ex_create_key = key, ex_slice_id = xc_slice_id x,
     ex_risk_level = xc_risk_level x, ex_environment = xc_environment x, ex_state = READY,
     ex_resume_state = None, ex_state_version = 0,
     ex_contract_fingerprint = xc_contract_fingerprint x,
     ex_authority_fingerprint = xc_authority_fingerprint x, ex_source_root = root,
     ex_branch = xc_branch x, ex_base_commit = xc_base_commit x, ex_result_commit = None,
     ex_maker_rework_count = 0, ex_max_auto_reworks = max_auto_reworks (xc_risk_level x),
     ex_current_actor_role = xc_current_actor_role x, ex_lease_owner = None,
     ex_lease_generation = 0, ex_lease_expires_at = None, ex_blocker_code = None,
     ex_blocker_detail = None, ex_created_at = now, ex_updated_at = now, ex_accepted_at = None\<rparr>"

definition created_event :: "execution_create \<Rightarrow> string \<Rightarrow> string \<Rightarrow> int \<Rightarrow> event_row" where
  "created_event x key payload now =
    \<lparr>ev_seq = 0, ev_event_id = [], ev_execution_id = xc_execution_id x, ev_operation_key = key,
     ev_event_type = EXECUTION_CREATED, ev_from_state = None, ev_to_state = READY,
     ev_from_version = -1, ev_to_version = 0, ev_actor_role = xc_current_actor_role x,
     ev_actor_id = ''controller'', ev_lease_generation = 0, ev_reason_code = ''EXECUTION_CREATED'',
     ev_reason_detail = None, ev_metadata_json = payload, ev_created_at = now\<rparr>"

text \<open>\<open>except sqlite3.IntegrityError\<close> with the open-execution index in its message.\<close>

fun open_execution_error :: "'a result \<Rightarrow> 'a result" where
  "open_execution_error (Inl (IntegrityError m)) =
     (if m = open_execution_conflict then Inl (StoreError ''OPEN_EXECUTION_EXISTS'') else Inl (IntegrityError m))"
| "open_execution_error r = r"

lemma open_execution_error_Inr [success]: "open_execution_error m = Inr a \<longleftrightarrow> m = Inr a"
  by (cases m rule: open_execution_error.cases) auto

definition create_execution_body :: "ctx \<Rightarrow> execution_create \<Rightarrow> string \<Rightarrow> string \<Rightarrow> db \<Rightarrow> (string \<times> db) result" where
  "create_execution_body c x key root d =
    (let payload = dumps (create_request_json x root); now = clock c 1 in
     case find (\<lambda>r. ex_create_key r = key) (executions d) of
       Some r \<Rightarrow> bnd (existing_event (ex_id r) key EXECUTION_CREATED payload d) (\<lambda>_. Inr (ex_id r, d))
     | None \<Rightarrow> open_execution_error
         (bnd (insert_execution (created_execution x key root now) d) (\<lambda>d1.
          bnd (insert_event c 0 (created_event x key payload now) d1) (\<lambda>d2.
          Inr (xc_execution_id x, d2)))))"

definition create_execution :: "ctx \<Rightarrow> execution_create \<Rightarrow> string \<Rightarrow> db \<Rightarrow> execution_row result \<times> db" where
  "create_execution c x key = precheck
    (bnd (validate_execution_create x) (\<lambda>_. bnd (require_sha256 key) (\<lambda>_. canonical_source_root c (xc_source_root x))))
    (\<lambda>root d. reading get_execution (transaction c (create_execution_body c x key root) d))"

section \<open>transition\<close>

record transition_request =
  tq_execution_id :: string
  tq_expected_version :: int
  tq_operation_key :: string
  tq_to_state :: exec_state
  tq_actor_role :: actor_role
  tq_actor_id :: string
  tq_owner :: string
  tq_generation :: int
  tq_resume_state :: "exec_state option"
  tq_blocker_code :: "string option"
  tq_blocker_detail :: "string option"
  tq_reason_code :: string
  tq_reason_detail :: "string option"
  tq_fence :: "candidate_fence option"

definition transition_request_json :: "transition_request \<Rightarrow> json" where
  "transition_request_json q = JObj
    [(''execution_id'', JStr (tq_execution_id q)),
     (''expected_state_version'', JInt (tq_expected_version q)),
     (''to_state'', JStr (state_value (tq_to_state q))),
     (''actor_role'', JStr (role_value (tq_actor_role q))), (''actor_id'', JStr (tq_actor_id q)),
     (''lease_owner'', JStr (tq_owner q)), (''lease_generation'', JInt (tq_generation q)),
     (''resume_state'', json_opt (map_option state_value (tq_resume_state q))),
     (''blocker_code'', json_opt (tq_blocker_code q)), (''blocker_detail'', json_opt (tq_blocker_detail q)),
     (''reason_code'', JStr (tq_reason_code q)), (''reason_detail'', json_opt (tq_reason_detail q))]"

definition transition_validate :: "transition_request \<Rightarrow> unit result" where
  "transition_validate q =
    bnd (require_sha256 (tq_operation_key q)) (\<lambda>_.
    if tq_actor_role q = EVALUATOR then Inl (StoreError ''EVALUATOR_STATE_TRANSITION_FORBIDDEN'')
    else if tq_to_state q = ACCEPTED \<and> tq_actor_role q \<noteq> CONTROLLER
      then Inl (StoreError ''CONTROLLER_ACCEPTANCE_REQUIRED'')
    else Inr ())"

definition transition_event_type :: "transition_request \<Rightarrow> event_type" where
  "transition_event_type q = (if tq_to_state q = ACCEPTED then ACCEPTED_EVENT else STATE_TRANSITION)"

definition blocker_ok :: "transition_request \<Rightarrow> unit result" where
  "blocker_ok q =
    (if tq_to_state q \<in> {BLOCKED, DESIGN_ESCALATION} then
       (if tq_blocker_code q \<in> {None, Some []} then Inl (StoreError ''INVALID_TRANSITION'') else Inr ())
     else if tq_blocker_code q \<noteq> None \<or> tq_blocker_detail q \<noteq> None
       then Inl (StoreError ''INVALID_TRANSITION'') else Inr ())"

definition transition_update :: "transition_request \<Rightarrow> int \<Rightarrow> execution_row \<Rightarrow> execution_row" where
  "transition_update q now x = x\<lparr>ex_state := tq_to_state q, ex_resume_state := tq_resume_state q,
     ex_state_version := ex_state_version x + 1, ex_current_actor_role := tq_actor_role q,
     ex_blocker_code := tq_blocker_code q, ex_blocker_detail := tq_blocker_detail q,
     ex_accepted_at := (if tq_to_state q = ACCEPTED then Some now else None), ex_updated_at := now\<rparr>"

definition transition_body :: "ctx \<Rightarrow> transition_request \<Rightarrow> db \<Rightarrow> (unit \<times> db) result" where
  "transition_body c q d =
    (let i = tq_execution_id q; v = tq_expected_version q; now = clock c 1;
         payload = dumps (transition_request_json q) in
     bnd (optional_fence c 2 i (tq_fence q) True d) (\<lambda>_.
     bnd (existing_event i (tq_operation_key q) (transition_event_type q) payload d) (\<lambda>existing.
     if existing \<noteq> None then bnd (optional_fence c 3 i (tq_fence q) False d) (\<lambda>_. Inr ((), d))
     else bnd (get_execution i d) (\<lambda>r.
       bnd (require_fence r (tq_owner q) (tq_generation q) now) (\<lambda>_.
       if ex_state_version r \<noteq> v then Inl (StoreError ''STALE_STATE_VERSION'')
       else bnd (validate_transition (ex_state r) (tq_to_state q) (ex_resume_state r) (tq_resume_state q)) (\<lambda>_.
         bnd (blocker_ok q) (\<lambda>_.
         bnd (cas_execution i v (transition_update q now) d) (\<lambda>d1.
         bnd (insert_event c 0 (event_from (transition_event_type q) r (tq_operation_key q) (tq_to_state q)
                (tq_actor_role q) (tq_actor_id q) (tq_generation q) (tq_reason_code q) (tq_reason_detail q)
                payload now) d1) (\<lambda>d2.
         bnd (optional_fence c 3 i (tq_fence q) False d2) (\<lambda>_. Inr ((), d2)))))))))))"

definition transition :: "ctx \<Rightarrow> transition_request \<Rightarrow> db \<Rightarrow> execution_row result \<times> db" where
  "transition c q = precheck (transition_validate q) (\<lambda>_ d.
    reading (\<lambda>_. get_execution (tq_execution_id q)) (transaction c (transition_body c q) d))"

section \<open>register_result_commit\<close>

record result_request =
  cq_execution_id :: string
  cq_expected_version :: int
  cq_operation_key :: string
  cq_result_commit :: string
  cq_owner :: string
  cq_generation :: int
  cq_actor_role :: actor_role
  cq_actor_id :: string

definition result_request_json :: "result_request \<Rightarrow> json" where
  "result_request_json q = JObj
    [(''execution_id'', JStr (cq_execution_id q)),
     (''expected_state_version'', JInt (cq_expected_version q)),
     (''result_commit'', JStr (cq_result_commit q)),
     (''lease_owner'', JStr (cq_owner q)), (''lease_generation'', JInt (cq_generation q)),
     (''actor_role'', JStr (role_value (cq_actor_role q))), (''actor_id'', JStr (cq_actor_id q))]"

definition register_result_body :: "ctx \<Rightarrow> result_request \<Rightarrow> db \<Rightarrow> (unit \<times> db) result" where
  "register_result_body c q d =
    (let i = cq_execution_id q; v = cq_expected_version q; now = clock c 1;
         payload = dumps (result_request_json q) in
     bnd (existing_event i (cq_operation_key q) RESULT_COMMIT_REGISTERED payload d) (\<lambda>existing.
     if existing \<noteq> None then Inr ((), d)
     else bnd (get_execution i d) (\<lambda>r.
       bnd (require_fence r (cq_owner q) (cq_generation q) now) (\<lambda>_.
       if ex_state_version r \<noteq> v then Inl (StoreError ''STALE_STATE_VERSION'')
       else bnd (update_at_version i v (\<lambda>x. x\<lparr>ex_result_commit := Some (cq_result_commit q),
                   ex_state_version := ex_state_version x + 1, ex_updated_at := now\<rparr>) d) (\<lambda>(d1, _).
         bnd (insert_event c 0 (event_from RESULT_COMMIT_REGISTERED r (cq_operation_key q) (ex_state r)
                (cq_actor_role q) (cq_actor_id q) (cq_generation q) ''RESULT_COMMIT_REGISTERED'' None
                payload now) d1) (\<lambda>d2. Inr ((), d2)))))))"

definition register_result_commit :: "ctx \<Rightarrow> result_request \<Rightarrow> db \<Rightarrow> execution_row result \<times> db" where
  "register_result_commit c q = precheck
    (bnd (require_sha256 (cq_operation_key q)) (\<lambda>_. require_commit (cq_result_commit q)))
    (\<lambda>_ d. reading (\<lambda>_. get_execution (cq_execution_id q)) (transaction c (register_result_body c q) d))"

section \<open>schedule_rework\<close>

record rework_request =
  wq_execution_id :: string
  wq_expected_version :: int
  wq_operation_key :: string
  wq_owner :: string
  wq_generation :: int
  wq_actor_id :: string

definition rework_request_json :: "rework_request \<Rightarrow> json" where
  "rework_request_json q = JObj
    [(''execution_id'', JStr (wq_execution_id q)),
     (''expected_state_version'', JInt (wq_expected_version q)),
     (''lease_owner'', JStr (wq_owner q)), (''lease_generation'', JInt (wq_generation q))]"

definition schedule_rework_body :: "ctx \<Rightarrow> rework_request \<Rightarrow> db \<Rightarrow> (unit \<times> db) result" where
  "schedule_rework_body c q d =
    (let i = wq_execution_id q; v = wq_expected_version q; now = clock c 1;
         payload = dumps (rework_request_json q) in
     bnd (existing_event i (wq_operation_key q) STATE_TRANSITION payload d) (\<lambda>existing.
     if existing \<noteq> None then Inr ((), d)
     else bnd (get_execution i d) (\<lambda>r.
       bnd (require_fence r (wq_owner q) (wq_generation q) now) (\<lambda>_.
       if ex_state_version r \<noteq> v then Inl (StoreError ''STALE_STATE_VERSION'')
       else if ex_state r \<noteq> REWORK_READY then Inl (StoreError ''INVALID_TRANSITION'')
       else if ex_max_auto_reworks r \<le> ex_maker_rework_count r then Inl (StoreError ''REWORK_BUDGET_EXHAUSTED'')
       else bnd (cas_execution i v (\<lambda>x. x\<lparr>ex_state := MAKER_RUNNING, ex_state_version := ex_state_version x + 1,
                   ex_maker_rework_count := ex_maker_rework_count x + 1,
                   ex_current_actor_role := CONTROLLER, ex_updated_at := now\<rparr>) d) (\<lambda>d1.
         bnd (insert_event c 0 (event_from STATE_TRANSITION r (wq_operation_key q) MAKER_RUNNING CONTROLLER
                (wq_actor_id q) (wq_generation q) ''MAKER_REWORK_SCHEDULED'' None payload now) d1) (\<lambda>d2.
         Inr ((), d2)))))))"

definition schedule_rework :: "ctx \<Rightarrow> rework_request \<Rightarrow> db \<Rightarrow> execution_row result \<times> db" where
  "schedule_rework c q = precheck (require_sha256 (wq_operation_key q)) (\<lambda>_ d.
    reading (\<lambda>_. get_execution (wq_execution_id q)) (transaction c (schedule_rework_body c q) d))"

end
