(* ===== verification/Evidence.thy ===== *)
theory Evidence
  imports Lifecycle
begin

text \<open>
  The evidence of an execution (\<open>src/adcp/store/sqlite.py\<close>): context snapshots, verification
  results, agent attempts and approvals. Every registration is keyed: the same request again
  returns the stored row, another request under the same key is refused.
\<close>

text \<open>\<open>bool(value)\<close>, the truth value of a document.\<close>

fun truthy :: "json \<Rightarrow> bool" where
  "truthy JNull = False"
| "truthy (JBool b) = b"
| "truthy (JInt i) = (i \<noteq> 0)"
| "truthy (JFloat lit) = nonzero_float lit"
| "truthy (JStr s) = (s \<noteq> [])"
| "truthy (JList xs) = (xs \<noteq> [])"
| "truthy (JObj kvs) = (kvs \<noteq> [])"

section \<open>register_context_snapshot\<close>

record capsule =
  capsule_version :: int
  capsule_role :: capsule_role
  capsule_content :: json
  capsule_json :: string
  capsule_fingerprint :: string

datatype context_content = Plain pyval | Capsule capsule

record context_request =
  xq_snapshot_id :: string
  xq_execution_id :: string
  xq_role :: capsule_role
  xq_version :: int
  xq_content :: context_content
  xq_fence :: "candidate_fence option"

definition context_envelope :: "context_request \<Rightarrow> pyval result" where
  "context_envelope q =
    (if xq_snapshot_id q = [] then Inl (StoreError ''INVALID_INPUT'')
     else bnd (case xq_content q of
         Plain v \<Rightarrow> Inr v
       | Capsule k \<Rightarrow> if capsule_role k \<noteq> xq_role q \<or> capsule_version k \<noteq> xq_version q
           then Inl (StoreError ''CONTEXT_CAPSULE_BINDING_MISMATCH'')
           else Inr (json_to_py (capsule_content k))) (\<lambda>content.
       case content of
         PDict _ \<Rightarrow> if xq_version q \<le> 0 then Inl (StoreError ''INVALID_INPUT'')
           else Inr (PDict [(PStr ''capsule_version'', PInt (xq_version q)),
                 (PStr ''role'', PStr (capsule_role_value (xq_role q))), (PStr ''content'', content)])
       | _ \<Rightarrow> Inl (StoreError ''INVALID_INPUT'')))"

definition context_body :: "ctx \<Rightarrow> context_request \<Rightarrow> string \<Rightarrow> db \<Rightarrow> (context_row \<times> db) result" where
  "context_body c q serialized d =
    (let i = xq_execution_id q; fingerprint = sha c serialized in
     bnd (optional_fence c 2 i (xq_fence q) True d) (\<lambda>_.
     case find (\<lambda>x. cx_execution_id x = i \<and> cx_role x = xq_role q \<and> cx_fingerprint x = fingerprint) (contexts d) of
       Some x \<Rightarrow>
         (if cx_canonical_json x \<noteq> serialized \<or> cx_capsule_version x \<noteq> xq_version q
          then Inl (StoreError ''CONTEXT_FINGERPRINT_CONFLICT'')
          else bnd (optional_fence c 3 i (xq_fence q) False d) (\<lambda>_. Inr (x, d)))
     | None \<Rightarrow>
         (if find_context (xq_snapshot_id q) d \<noteq> None then Inl (StoreError ''CONTEXT_SNAPSHOT_ID_CONFLICT'')
          else let x = \<lparr>cx_id = xq_snapshot_id q, cx_execution_id = i, cx_role = xq_role q,
                 cx_capsule_version = xq_version q, cx_fingerprint = fingerprint,
                 cx_canonical_json = serialized, cx_created_at = clock c 1\<rparr> in
            bnd (insert_context x d) (\<lambda>d1.
            bnd (optional_fence c 3 i (xq_fence q) False d1) (\<lambda>_. Inr (x, d1))))))"

definition register_context_snapshot :: "ctx \<Rightarrow> context_request \<Rightarrow> db \<Rightarrow> context_row result \<times> db" where
  "register_context_snapshot c q = precheck (bnd (context_envelope q) canonical_json)
    (\<lambda>serialized d. reading (\<lambda>x. get_context (cx_id x)) (transaction c (context_body c q serialized) d))"

section \<open>register_verification_result\<close>

record verification_record =
  yr_row :: verification_row
  yr_manifest :: pyval
  yr_result :: pyval

text \<open>The row a \<open>VerificationResultRecord\<close> stands for, with its two structured fields.\<close>

definition verification_canonical :: "ctx \<Rightarrow> verification_record \<Rightarrow> unit result" where
  "verification_canonical c y =
    bnd (canonical_json (yr_manifest y)) (\<lambda>manifest.
    bnd (canonical_json (yr_result y)) (\<lambda>result.
    if manifest \<noteq> vr_command_manifest (yr_row y) \<or> sha c manifest \<noteq> vr_command_manifest_sha256 (yr_row y)
        \<or> result \<noteq> vr_result_json (yr_row y)
    then Inl (StoreError ''VERIFICATION_CANONICAL_MISMATCH'') else Inr ()))"

definition verification_body :: "verification_row \<Rightarrow> db \<Rightarrow> (verification_row \<times> db) result" where
  "verification_body r d =
    (case find (\<lambda>x. vr_operation_key x = vr_operation_key r) (verifications d) of
       Some x \<Rightarrow> if x \<noteq> r then Inl (StoreError ''IDEMPOTENCY_CONFLICT'') else Inr (x, d)
     | None \<Rightarrow> bnd (insert_verification r d) (\<lambda>d1. Inr (r, d1)))"

definition get_verification :: "string \<Rightarrow> db \<Rightarrow> verification_row result" where
  "get_verification i d = of_option (StoreError ''VERIFICATION_RESULT_NOT_FOUND'') (find_verification i d)"

definition register_verification_result :: "ctx \<Rightarrow> verification_record \<Rightarrow> db \<Rightarrow> verification_row result \<times> db" where
  "register_verification_result c y = precheck (verification_canonical c y)
    (\<lambda>_ d. reading (\<lambda>r. get_verification (vr_id r)) (transaction c (verification_body (yr_row y)) d))"

definition find_verification_verdict ::
  "string \<Rightarrow> string \<Rightarrow> string \<Rightarrow> string \<Rightarrow> string \<Rightarrow> db \<Rightarrow> verification_row option result" where
  "find_verification_verdict verdict i commit contract auth d =
    bnd (require_commit commit) (\<lambda>_. bnd (require_sha256 contract) (\<lambda>_. bnd (require_sha256 auth) (\<lambda>_.
    Inr (find_last (\<lambda>r. vr_execution_id r = i \<and> vr_result_commit r = commit
      \<and> vr_contract_fingerprint r = contract \<and> vr_authority_fingerprint r = auth
      \<and> vr_verdict r = verdict) (verifications d)))))"

definition find_verification_pass ::
  "string \<Rightarrow> string \<Rightarrow> string \<Rightarrow> string \<Rightarrow> db \<Rightarrow> verification_row option result" where
  "find_verification_pass = find_verification_verdict ''PASS''"

definition find_verification_failure ::
  "string \<Rightarrow> string \<Rightarrow> string \<Rightarrow> string \<Rightarrow> db \<Rightarrow> verification_row option result" where
  "find_verification_failure = find_verification_verdict ''FAIL''"

definition has_verification_pass :: "string \<Rightarrow> string \<Rightarrow> string \<Rightarrow> string \<Rightarrow> db \<Rightarrow> bool result" where
  "has_verification_pass i commit contract auth d =
    bnd (find_verification_pass i commit contract auth d) (\<lambda>r. Inr (r \<noteq> None))"

section \<open>register_agent_attempt\<close>

record attempt_request =
  nq_attempt_id :: string
  nq_operation_key :: string
  nq_execution_id :: string
  nq_role :: capsule_role
  nq_attempt_no :: int
  nq_model :: "string option"
  nq_reasoning_effort :: "string option"
  nq_session_id :: string
  nq_context_id :: string
  nq_base_commit :: string
  nq_result_commit :: "string option"
  nq_started_at :: string
  nq_fence :: "candidate_fence option"

definition attempt_validate :: "attempt_request \<Rightarrow> unit result" where
  "attempt_validate q =
    bnd (require_sha256 (nq_operation_key q)) (\<lambda>_.
    bnd (require_commit (nq_base_commit q)) (\<lambda>_.
    bnd (case nq_result_commit q of None \<Rightarrow> Inr () | Some x \<Rightarrow> require_commit x) (\<lambda>_.
    if nq_role q = Evaluator \<and> nq_result_commit q = None then Inl (StoreError ''EVALUATOR_RESULT_COMMIT_REQUIRED'')
    else if nq_attempt_id q = [] \<or> nq_session_id q = [] \<or> nq_attempt_no q < 1
      then Inl (StoreError ''INVALID_AGENT_ATTEMPT'') else Inr ())))"

text \<open>\<open>value or "<unspecified>"\<close>.\<close>

definition or_unspecified :: "string option \<Rightarrow> string" where
  "or_unspecified v = (case v of None \<Rightarrow> ''<unspecified>'' | Some s \<Rightarrow> if s = [] then ''<unspecified>'' else s)"

definition attempt_new :: "attempt_request \<Rightarrow> attempt_row" where
  "attempt_new q =
    \<lparr>at_id = nq_attempt_id q, at_operation_key = nq_operation_key q, at_execution_id = nq_execution_id q,
     at_role = nq_role q, at_attempt_no = nq_attempt_no q, at_model = or_unspecified (nq_model q),
     at_reasoning_effort = or_unspecified (nq_reasoning_effort q), at_session_mode = ''FRESH'',
     at_session_id = nq_session_id q,
     at_sandbox_mode = (if nq_role q = Maker then ''workspace-write'' else ''read-only''),
     at_context_id = nq_context_id q, at_base_commit = nq_base_commit q,
     at_result_commit = nq_result_commit q, at_status = RUNNING, at_exit_code = None,
     at_stdout_artifact = None, at_stdout_sha256 = None, at_stderr_artifact = None,
     at_stderr_sha256 = None, at_result_artifact = None, at_result_sha256 = None,
     at_failure_code = None, at_started_at = nq_started_at q, at_ended_at = None\<rparr>"

text \<open>The registered columns, without those that finishing an attempt fills in.\<close>

definition attempt_columns :: "attempt_row \<Rightarrow> attempt_row" where
  "attempt_columns r = r\<lparr>at_exit_code := None, at_stdout_artifact := None, at_stdout_sha256 := None,
     at_stderr_artifact := None, at_stderr_sha256 := None, at_result_artifact := None,
     at_result_sha256 := None, at_failure_code := None, at_ended_at := None\<rparr>"

definition attempt_body :: "ctx \<Rightarrow> attempt_request \<Rightarrow> db \<Rightarrow> (attempt_row \<times> db) result" where
  "attempt_body c q d =
    (let i = nq_execution_id q in
     bnd (optional_fence c 2 i (nq_fence q) True d) (\<lambda>_.
     case find (\<lambda>a. at_operation_key a = nq_operation_key q) (attempts d) of
       Some a \<Rightarrow>
         (if attempt_columns a \<noteq> attempt_new q then Inl (StoreError ''IDEMPOTENCY_CONFLICT'')
          else bnd (optional_fence c 3 i (nq_fence q) False d) (\<lambda>_. Inr (a, d)))
     | None \<Rightarrow> bnd (insert_attempt (attempt_new q) d) (\<lambda>d1.
         bnd (optional_fence c 3 i (nq_fence q) False d1) (\<lambda>_. Inr (attempt_new q, d1)))))"

definition register_agent_attempt :: "ctx \<Rightarrow> attempt_request \<Rightarrow> db \<Rightarrow> attempt_row result \<times> db" where
  "register_agent_attempt c q = precheck (attempt_validate q)
    (\<lambda>_ d. reading (\<lambda>a. get_attempt (at_id a)) (transaction c (attempt_body c q) d))"

section \<open>Approvals\<close>

text \<open>\<open>_require_single_completed_maker_for_high_rework\<close>.\<close>

definition single_completed_maker :: "string \<Rightarrow> string \<Rightarrow> db \<Rightarrow> unit result" where
  "single_completed_maker i commit d =
    (let makers = filter (\<lambda>a. at_execution_id a = i \<and> at_role a = Maker) (attempts d) in
     if length makers \<noteq> 1
        \<or> length (filter (\<lambda>a. at_status a = SUCCEEDED \<and> at_result_commit a = Some commit) makers) \<noteq> 1
     then Inl (StoreError ''HIGH_REWORK_ATTEMPT_TOPOLOGY_INVALID'') else Inr ())"

record approval_request =
  pq_approval_id :: string
  pq_idempotency_key :: string
  pq_execution_id :: string
  pq_approval_type :: string
  pq_authority_ref :: string
  pq_expected_version :: int
  pq_owner :: string
  pq_generation :: int
  pq_fence :: "candidate_fence option"

text \<open>The stop from which a HIGH execution may be reworked on human authority.\<close>

definition high_rework_stop :: "execution_row \<Rightarrow> bool" where
  "high_rework_stop r \<longleftrightarrow> ex_risk_level r = HIGH \<and> ex_max_auto_reworks r = 0 \<and> ex_maker_rework_count r = 0
     \<and> ex_state r = BLOCKED \<and> ex_resume_state r = Some VERIFYING
     \<and> ex_blocker_code r = Some ''VERIFICATION_FAILED''"

definition approval_expected :: "approval_request \<Rightarrow> execution_row \<Rightarrow> db \<Rightarrow> unit result" where
  "approval_expected q r d =
    (if pq_approval_type q = ''HIGH_REWORK'' then
       (if \<not> high_rework_stop r then Inl (StoreError ''HIGH_REWORK_APPROVAL_NOT_EXPECTED'')
        else (case ex_result_commit r of
            None \<Rightarrow> Inl (StoreError ''HIGH_REWORK_APPROVAL_NOT_EXPECTED'')
          | Some commit \<Rightarrow> single_completed_maker (pq_execution_id q) commit d))
     else if ex_state r \<noteq> WAITING_APPROVAL then Inl (StoreError ''APPROVAL_NOT_EXPECTED'') else Inr ())"

definition approval_new :: "approval_request \<Rightarrow> int \<Rightarrow> approval_row" where
  "approval_new q now =
    \<lparr>ap_id = pq_approval_id q, ap_idempotency_key = pq_idempotency_key q,
     ap_execution_id = pq_execution_id q, ap_approval_type = pq_approval_type q, ap_required = 1,
     ap_status = PENDING, ap_authority_ref = pq_authority_ref q, ap_requested_at = now,
     ap_resolved_at = None, ap_consumed_at = None\<rparr>"

definition same_approval_request :: "approval_request \<Rightarrow> approval_row \<Rightarrow> bool" where
  "same_approval_request q p \<longleftrightarrow> ap_id p = pq_approval_id q \<and> ap_idempotency_key p = pq_idempotency_key q
     \<and> ap_execution_id p = pq_execution_id q \<and> ap_approval_type p = pq_approval_type q
     \<and> ap_required p = 1 \<and> ap_authority_ref p = pq_authority_ref q"

definition request_approval_body :: "ctx \<Rightarrow> approval_request \<Rightarrow> db \<Rightarrow> (approval_row \<times> db) result" where
  "request_approval_body c q d =
    (let i = pq_execution_id q; now = clock c 1 in
     bnd (optional_fence c 2 i (pq_fence q) True d) (\<lambda>_.
     bnd (get_execution i d) (\<lambda>r.
     bnd (require_fence r (pq_owner q) (pq_generation q) now) (\<lambda>_.
     if ex_state_version r \<noteq> pq_expected_version q then Inl (StoreError ''STALE_STATE_VERSION'')
     else bnd (approval_expected q r d) (\<lambda>_.
       case find (\<lambda>p. ap_idempotency_key p = pq_idempotency_key q) (approvals d) of
         Some p \<Rightarrow> (if \<not> same_approval_request q p then Inl (StoreError ''IDEMPOTENCY_CONFLICT'')
           else bnd (optional_fence c 3 i (pq_fence q) False d) (\<lambda>_. Inr (p, d)))
       | None \<Rightarrow> bnd (insert_approval (approval_new q now) d) (\<lambda>d1.
           bnd (optional_fence c 3 i (pq_fence q) False d1) (\<lambda>_. Inr (approval_new q now, d1))))))))"

definition request_approval :: "ctx \<Rightarrow> approval_request \<Rightarrow> db \<Rightarrow> approval_row result \<times> db" where
  "request_approval c q = precheck (require_sha256 (pq_idempotency_key q))
    (\<lambda>_ d. reading (\<lambda>p. get_approval (ap_id p)) (transaction c (request_approval_body c q) d))"

text \<open>\<open>resolve_approval\<close>.\<close>

definition resolve_approval_body ::
  "ctx \<Rightarrow> string \<Rightarrow> string \<Rightarrow> string \<Rightarrow> bool \<Rightarrow> candidate_fence option \<Rightarrow> db \<Rightarrow> (unit \<times> db) result" where
  "resolve_approval_body c a i authority_ref approved fence d =
    (let now = clock c 1; status = (if approved then APPROVED else REJECTED) in
     bnd (optional_fence c 2 i fence True d) (\<lambda>_.
     bnd (get_approval a d) (\<lambda>p.
     if ap_execution_id p \<noteq> i then Inl (StoreError ''APPROVAL_EXECUTION_MISMATCH'')
     else if ap_authority_ref p \<noteq> authority_ref then Inl (StoreError ''STALE_APPROVAL'')
     else if ap_consumed_at p \<noteq> None then Inl (StoreError ''APPROVAL_ALREADY_CONSUMED'')
     else if ap_status p = status then bnd (optional_fence c 3 i fence False d) (\<lambda>_. Inr ((), d))
     else if ap_status p \<noteq> PENDING then Inl (StoreError ''APPROVAL_ALREADY_RESOLVED'')
     else bnd (update_approvals (\<lambda>x. ap_id x = a) (\<lambda>x. x\<lparr>ap_status := status, ap_resolved_at := Some now\<rparr>) d)
       (\<lambda>(d1, _). bnd (optional_fence c 3 i fence False d1) (\<lambda>_. Inr ((), d1))))))"

definition resolve_approval ::
  "ctx \<Rightarrow> string \<Rightarrow> string \<Rightarrow> string \<Rightarrow> bool \<Rightarrow> candidate_fence option \<Rightarrow> db \<Rightarrow> approval_row result \<times> db" where
  "resolve_approval c a i authority_ref approved fence d =
    reading (\<lambda>_. get_approval a) (transaction c (resolve_approval_body c a i authority_ref approved fence) d)"

end
