(* ===== verification/Authority.thy ===== *)
theory Authority
  imports Store
begin

text \<open>
  The control authority singleton (\<open>src/adcp/store/sqlite.py\<close>): reconciling its snapshot
  fingerprints, switching authority to the control store and rolling it back. Every change
  raises the authority generation; a switch and its rollback are logged and applied in one
  statement by the schema's trigger.
\<close>

section \<open>Operations\<close>

definition reconcile_authority_body :: "ctx \<Rightarrow> int \<Rightarrow> string \<Rightarrow> string \<Rightarrow> db \<Rightarrow> (bool \<times> db) result" where
  "reconcile_authority_body c expected slice rollback d =
    (let now = clock c 1 in
     bnd (get_authority d) (\<lambda>a.
     if au_mode a \<noteq> TRANSITIONAL_AUTHORITY then Inl (StoreError ''AUTHORITY_SWITCH_FORBIDDEN_BY_E1'')
     else if au_slice_snapshot a = slice \<and> au_rollback_snapshot a = rollback then Inr (True, d)
     else if au_generation a \<noteq> expected then Inl (StoreError ''STALE_AUTHORITY_GENERATION'')
     else bnd (update_authority (\<lambda>x. au_generation x = expected)
            (\<lambda>x. x\<lparr>au_generation := au_generation x + 1, au_slice_snapshot := slice,
                   au_rollback_snapshot := rollback, au_updated_at := now\<rparr>) d) (\<lambda>(d1, n).
       if n \<noteq> 1 then Inl (StoreError ''STALE_AUTHORITY_GENERATION'') else Inr (False, d1))))"

definition reconcile_transitional_authority ::
  "ctx \<Rightarrow> int \<Rightarrow> string \<Rightarrow> string \<Rightarrow> db \<Rightarrow> (authority_row \<times> bool) result \<times> db" where
  "reconcile_transitional_authority c expected slice rollback = precheck
    (bnd (require_sha256 slice) (\<lambda>_. require_sha256 rollback))
    (\<lambda>_ d. reading (\<lambda>same d'. bnd (get_authority d') (\<lambda>a. Inr (a, same)))
      (transaction c (reconcile_authority_body c expected slice rollback) d))"

record authority_request =
  oq_event_type :: authority_event_type
  oq_expected_generation :: int
  oq_slice_snapshot :: string
  oq_rollback_snapshot :: string
  oq_cutover_id :: string
  oq_human_decision_ref :: string
  oq_operation_key :: string

definition authority_validate :: "authority_request \<Rightarrow> unit result" where
  "authority_validate q =
    (if oq_expected_generation q < 0 then Inl (StoreError ''INVALID_EXPECTED_AUTHORITY_GENERATION'')
     else bnd (require_sha256 (oq_slice_snapshot q)) (\<lambda>_.
          bnd (require_sha256 (oq_rollback_snapshot q)) (\<lambda>_.
          bnd (require_sha256 (oq_operation_key q)) (\<lambda>_.
     if all_space (oq_cutover_id q) then Inl (StoreError ''CUTOVER_ID_REQUIRED'')
     else if all_space (oq_human_decision_ref q) then Inl (StoreError ''HUMAN_DECISION_REF_REQUIRED'')
     else Inr ()))))"

fun from_mode :: "authority_event_type \<Rightarrow> authority_mode" where
  "from_mode AUTHORITY_SWITCH = TRANSITIONAL_AUTHORITY"
| "from_mode AUTHORITY_ROLLBACK = CONTROL_STORE_AUTHORITY"

fun to_mode :: "authority_event_type \<Rightarrow> authority_mode" where
  "to_mode AUTHORITY_SWITCH = CONTROL_STORE_AUTHORITY"
| "to_mode AUTHORITY_ROLLBACK = TRANSITIONAL_AUTHORITY"

definition authority_event_new :: "ctx \<Rightarrow> authority_request \<Rightarrow> int \<Rightarrow> authority_event_row" where
  "authority_event_new c q now =
    \<lparr>ae_event_id = uuid c 0, ae_operation_key = oq_operation_key q, ae_cutover_id = oq_cutover_id q,
     ae_event_type = oq_event_type q, ae_from_mode = from_mode (oq_event_type q),
     ae_to_mode = to_mode (oq_event_type q), ae_from_generation = oq_expected_generation q,
     ae_to_generation = oq_expected_generation q + 1, ae_slice_snapshot = oq_slice_snapshot q,
     ae_rollback_snapshot = oq_rollback_snapshot q, ae_human_decision_ref = oq_human_decision_ref q,
     ae_created_at = now\<rparr>"

text \<open>The comparison of a replayed event with the request: all columns but its identity and time.\<close>

definition same_authority_request :: "ctx \<Rightarrow> authority_request \<Rightarrow> authority_event_row \<Rightarrow> bool" where
  "same_authority_request c q e \<longleftrightarrow>
     e\<lparr>ae_event_id := uuid c 0, ae_created_at := 0\<rparr> = authority_event_new c q 0"

text \<open>The row an event at \<open>now\<close> leaves behind.\<close>

definition authority_result_ok :: "authority_request \<Rightarrow> int \<Rightarrow> authority_row \<Rightarrow> bool" where
  "authority_result_ok q now a \<longleftrightarrow>
     au_mode a = to_mode (oq_event_type q) \<and> au_generation a = oq_expected_generation q + 1 \<and>
     au_cutover_id a = (if oq_event_type q = AUTHORITY_SWITCH then Some (oq_cutover_id q) else None) \<and>
     au_slice_snapshot a = oq_slice_snapshot q \<and> au_rollback_snapshot a = oq_rollback_snapshot q \<and>
     au_switched_at a = (if oq_event_type q = AUTHORITY_SWITCH then Some now else None) \<and>
     au_updated_at a = now"

definition authority_guard :: "authority_request \<Rightarrow> authority_row \<Rightarrow> unit result" where
  "authority_guard q a =
    (if au_mode a \<noteq> from_mode (oq_event_type q) then Inl (StoreError ''AUTHORITY_MODE_CONFLICT'')
     else if au_generation a \<noteq> oq_expected_generation q then Inl (StoreError ''STALE_AUTHORITY_GENERATION'')
     else if au_slice_snapshot a \<noteq> oq_slice_snapshot q then Inl (StoreError ''SLICE_SNAPSHOT_FINGERPRINT_MISMATCH'')
     else if au_rollback_snapshot a \<noteq> oq_rollback_snapshot q
       then Inl (StoreError ''ROLLBACK_SNAPSHOT_FINGERPRINT_MISMATCH'')
     else if oq_event_type q = AUTHORITY_SWITCH then
       (if au_cutover_id a \<noteq> None \<or> au_switched_at a \<noteq> None then Inl (StoreError ''AUTHORITY_MODE_CONFLICT'')
        else Inr ())
     else if au_cutover_id a \<noteq> Some (oq_cutover_id q) \<or> au_switched_at a = None
       then Inl (StoreError ''CUTOVER_ID_MISMATCH'')
     else Inr ())"

text \<open>\<open>except sqlite3.IntegrityError: raise StoreError("AUTHORITY_TRANSITION_REJECTED")\<close>.\<close>

fun rejected_transition :: "'a result \<Rightarrow> 'a result" where
  "rejected_transition (Inl (IntegrityError _)) = Inl (StoreError ''AUTHORITY_TRANSITION_REJECTED'')"
| "rejected_transition m = m"

lemma rejected_transition_Inr [success]: "rejected_transition m = Inr a \<longleftrightarrow> m = Inr a"
  by (cases m rule: rejected_transition.cases) auto

definition transition_authority_body ::
  "ctx \<Rightarrow> authority_request \<Rightarrow> db \<Rightarrow> ((authority_row \<times> bool) \<times> db) result" where
  "transition_authority_body c q d = rejected_transition
    (case find (\<lambda>e. ae_operation_key e = oq_operation_key q) (authority_events d) of
       Some e \<Rightarrow>
         (if \<not> same_authority_request c q e then Inl (StoreError ''IDEMPOTENCY_CONFLICT'')
          else bnd (get_authority d) (\<lambda>a.
            if \<not> authority_result_ok q (ae_created_at e) a then Inl (StoreError ''IDEMPOTENCY_CONFLICT'')
            else Inr ((a, True), d)))
     | None \<Rightarrow>
         bnd (get_authority d) (\<lambda>a.
         bnd (authority_guard q a) (\<lambda>_.
         bnd (insert_authority_event (authority_event_new c q (clock c 1)) d) (\<lambda>d1.
         bnd (get_authority d1) (\<lambda>a'.
         if \<not> authority_result_ok q (clock c 1) a' then Inl (StoreError ''AUTHORITY_TRANSITION_RESULT_MISMATCH'')
         else Inr ((a', False), d1))))))"

definition transition_authority ::
  "ctx \<Rightarrow> authority_request \<Rightarrow> db \<Rightarrow> (authority_row \<times> bool) result \<times> db" where
  "transition_authority c q = precheck (authority_validate q)
    (\<lambda>_. transaction c (transition_authority_body c q))"

definition switch_control_authority ::
  "ctx \<Rightarrow> int \<Rightarrow> string \<Rightarrow> string \<Rightarrow> string \<Rightarrow> string \<Rightarrow> string \<Rightarrow> db \<Rightarrow> (authority_row \<times> bool) result \<times> db" where
  "switch_control_authority c expected slice rollback cutover decision key = transition_authority c
    \<lparr>oq_event_type = AUTHORITY_SWITCH, oq_expected_generation = expected, oq_slice_snapshot = slice,
     oq_rollback_snapshot = rollback, oq_cutover_id = cutover, oq_human_decision_ref = decision,
     oq_operation_key = key\<rparr>"

definition rollback_control_authority ::
  "ctx \<Rightarrow> int \<Rightarrow> string \<Rightarrow> string \<Rightarrow> string \<Rightarrow> string \<Rightarrow> string \<Rightarrow> db \<Rightarrow> (authority_row \<times> bool) result \<times> db" where
  "rollback_control_authority c expected slice rollback cutover authorization key = transition_authority c
    \<lparr>oq_event_type = AUTHORITY_ROLLBACK, oq_expected_generation = expected, oq_slice_snapshot = slice,
     oq_rollback_snapshot = rollback, oq_cutover_id = cutover, oq_human_decision_ref = authorization,
     oq_operation_key = key\<rparr>"

section \<open>The abstract authority\<close>

text \<open>
  The singleton with its log: reconciliations and logged transitions. Since a logged transition
  goes from one mode to the other and a reconciliation keeps the mode, switches and rollbacks
  alternate.
\<close>

type_synonym authority_view = "authority_row option \<times> authority_event_row list"

definition authority_view :: "db \<Rightarrow> authority_view" where
  "authority_view d = (authority d, authority_events d)"

inductive authority_step :: "authority_view \<Rightarrow> authority_view \<Rightarrow> bool" where
  reconciled: "au_mode a = TRANSITIONAL_AUTHORITY \<Longrightarrow> au_mode a' = TRANSITIONAL_AUTHORITY
     \<Longrightarrow> au_generation a' = au_generation a + 1 \<Longrightarrow> authority_check a'
     \<Longrightarrow> authority_step (Some a, es) (Some a', es)"
| logged: "au_mode a = ae_from_mode e \<Longrightarrow> au_generation a = ae_from_generation e \<Longrightarrow> authority_event_check e
     \<Longrightarrow> a' = authority_event_apply e a \<Longrightarrow> authority_check a'
     \<Longrightarrow> authority_step (Some a, es) (Some a', es @ [e])"

inductive_cases authority_stepE: "authority_step s t"

fun view_generation :: "authority_view \<Rightarrow> int" where
  "view_generation (None, es) = 0"
| "view_generation (Some a, es) = au_generation a"

text \<open>
  The log explains the mode: its last event left it, events alternate in mode, and their
  generations rise.
\<close>

fun alternates :: "authority_mode \<Rightarrow> int \<Rightarrow> authority_event_row list \<Rightarrow> bool" where
  "alternates m g [] \<longleftrightarrow> True"
| "alternates m g (e # es) \<longleftrightarrow> ae_from_mode e = m \<and> ae_to_mode e \<noteq> m \<and> g \<le> ae_from_generation e
     \<and> ae_to_generation e = ae_from_generation e + 1 \<and> alternates (ae_to_mode e) (ae_to_generation e) es"

definition log_mode :: "authority_event_row list \<Rightarrow> authority_mode" where
  "log_mode es = (if es = [] then TRANSITIONAL_AUTHORITY else ae_to_mode (last es))"

definition log_generation :: "authority_event_row list \<Rightarrow> int" where
  "log_generation es = (if es = [] then 0 else ae_to_generation (last es))"

fun authority_explained :: "authority_view \<Rightarrow> bool" where
  "authority_explained (None, es) \<longleftrightarrow> False"
| "authority_explained (Some a, es) \<longleftrightarrow> authority_check a \<and> au_mode a = log_mode es
     \<and> log_generation es \<le> au_generation a \<and> alternates TRANSITIONAL_AUTHORITY 0 es"

lemma alternates_snoc: "alternates m g (es @ [e]) \<longleftrightarrow> alternates m g es
    \<and> ae_from_mode e = (if es = [] then m else ae_to_mode (last es)) \<and> ae_to_mode e \<noteq> ae_from_mode e
    \<and> (if es = [] then g else ae_to_generation (last es)) \<le> ae_from_generation e
    \<and> ae_to_generation e = ae_from_generation e + 1"
  by (induction es arbitrary: m g) auto

lemma authority_step_explained: "authority_step s t \<Longrightarrow> authority_explained s \<Longrightarrow> authority_explained t"
  by (erule authority_stepE)
    (auto simp: alternates_snoc log_mode_def log_generation_def authority_event_apply_def authority_event_check_def)

lemma authority_step_generation: "authority_step s t \<Longrightarrow> view_generation s < view_generation t"
  by (erule authority_stepE) (auto simp: authority_event_apply_def authority_event_check_def)

interpretation authority_kept: kept_by authority_step authority_explained
  by unfold_locales (rule authority_step_explained)

interpretation authority_generation: grows_along authority_step view_generation
  by unfold_locales (simp add: authority_step_generation less_imp_le)

lemma reconcile_refines:
  assumes "reconcile_authority_body c expected slice rollback d = Inr (same, d')"
  shows "authority_step\<^sup>=\<^sup>= (authority_view d) (authority_view d')"
    and "authority_events d' = authority_events d"
  using assms unfolding reconcile_authority_body_def Let_def
  by (auto elim!: step_elims intro!: authority_step.reconciled
      simp: success authority_view_def update_authority_def authority_update_ok_def split: option.splits if_split_asm)

lemma transition_authority_refines:
  assumes "transition_authority_body c q d = Inr (r, d')"
  shows "authority_step\<^sup>=\<^sup>= (authority_view d) (authority_view d')"
proof (cases "find (\<lambda>e. ae_operation_key e = oq_operation_key q) (authority_events d)")
  case (Some e)
  with assms have "d' = d"
    unfolding transition_authority_body_def by (auto simp: success split: if_split_asm)
  then show ?thesis by simp
next
  case None
  with assms obtain e where "insert_authority_event e d = Inr d'"
    unfolding transition_authority_body_def by (auto simp: success split: if_split_asm)
  from insert_authority_event_Inr [OF this] show ?thesis
    by (auto simp: authority_view_def intro!: authority_step.logged)
qed

end
