(* ===== verification/Slice_Control.thy ===== *)
theory Slice_Control
  imports Authority
begin

text \<open>
  The slice control plane (\<open>src/adcp/store/sqlite.py\<close>): validation of a slice's target state
  and its compare-and-set reconciliation, one immutable event per change.
\<close>

section \<open>_validate_slice_control_target\<close>

text \<open>The thirteen semantic fields, in the document the authority fingerprint digests.\<close>

definition slice_semantics_json :: "slice_target \<Rightarrow> (string \<times> json) list" where
  "slice_semantics_json s =
    [(''slice_id'', JStr (sl_id s)), (''stage'', JStr (sl_stage s)), (''status'', JStr (sl_status s)),
     (''migration_class'', JStr (sl_migration_class s)),
     (''execution_eligibility'', JStr (sl_execution_eligibility s)),
     (''defer_reason'', json_opt (sl_defer_reason s)),
     (''logical_source_root'', JStr (sl_logical_source_root s)),
     (''repository_toplevel'', json_opt (sl_repository_toplevel s)), (''branch'', json_opt (sl_branch s)),
     (''base_commit'', json_opt (sl_base_commit s)),
     (''implementation_result_commit'', json_opt (sl_implementation_result_commit s)),
     (''current_branch_head'', json_opt (sl_current_branch_head s)),
     (''active_execution_id'', json_opt (sl_active_execution_id s))]"

definition control_state_authority_fingerprint :: "ctx \<Rightarrow> slice_target \<Rightarrow> string" where
  "control_state_authority_fingerprint c s = sha c (dumps (JObj (slice_semantics_json s)))"

definition slice_json :: "slice_target \<Rightarrow> json" where
  "slice_json s = JObj (slice_semantics_json s @ [(''authority_fingerprint'', JStr (sl_authority_fingerprint s))])"

definition opt_commit :: "string option \<Rightarrow> unit result" where
  "opt_commit v = (case v of None \<Rightarrow> Inr () | Some x \<Rightarrow> require_commit x)"

definition slice_disposition :: "slice_target \<Rightarrow> unit result" where
  "slice_disposition s =
    (let disposition = (sl_migration_class s, sl_execution_eligibility s) in
     if disposition \<in> {(''MIGRATE_AS_READY_CURRENT_STATE'', ''ELIGIBLE_BOUND''), (''DEFER_BINDING'', ''ELIGIBLE_BOUND'')} then
       (if sl_defer_reason s \<noteq> None then Inl (StoreError ''EXECUTABLE_SLICE_DEFER_REASON_FORBIDDEN'')
        else if None \<in> {sl_repository_toplevel s, sl_branch s, sl_base_commit s,
             sl_implementation_result_commit s, sl_current_branch_head s, sl_active_execution_id s}
          then Inl (StoreError ''EXECUTABLE_SLICE_BINDING_REQUIRED'')
        else if disposition = (''DEFER_BINDING'', ''ELIGIBLE_BOUND'')
            \<and> sl_current_branch_head s \<noteq> sl_implementation_result_commit s
          then Inl (StoreError ''BOUND_RESULT_HEAD_MISMATCH'')
        else Inr ())
     else if disposition = (''DEFER_BINDING'', ''ELIGIBLE_PREEXECUTION_BOUND'') then
       (if sl_defer_reason s \<noteq> None then Inl (StoreError ''EXECUTABLE_SLICE_DEFER_REASON_FORBIDDEN'')
        else if None \<in> {sl_repository_toplevel s, sl_branch s, sl_base_commit s,
             sl_current_branch_head s, sl_active_execution_id s}
          then Inl (StoreError ''PREEXECUTION_BINDING_REQUIRED'')
        else if sl_implementation_result_commit s \<noteq> None
          then Inl (StoreError ''PREEXECUTION_RESULT_COMMIT_FORBIDDEN'')
        else if sl_current_branch_head s \<noteq> sl_base_commit s
          then Inl (StoreError ''PREEXECUTION_HEAD_MISMATCH'')
        else Inr ())
     else if disposition \<in> {(''DEFER_BINDING'', ''INELIGIBLE_UNTIL_PREFLIGHT''),
                            (''DEFER_PREREQUISITE'', ''INELIGIBLE_UNTIL_PREREQUISITE'')} then
       (if sl_defer_reason s = None then Inl (StoreError ''DEFER_REASON_REQUIRED'')
        else if {sl_base_commit s, sl_implementation_result_commit s, sl_current_branch_head s,
             sl_active_execution_id s} \<noteq> {None}
          then Inl (StoreError ''DEFERRED_EXECUTION_FORBIDDEN'')
        else Inr ())
     else Inl (StoreError ''SLICE_CONTROL_DISPOSITION_INVALID''))"

definition validate_slice_target :: "ctx \<Rightarrow> slice_target \<Rightarrow> unit result" where
  "validate_slice_target c s =
    (if [] \<in> {sl_id s, sl_stage s, sl_status s, sl_logical_source_root s}
       then Inl (StoreError ''SLICE_CONTROL_STATE_FIELD_REQUIRED'')
     else if Some [] \<in> {sl_repository_toplevel s, sl_branch s, sl_defer_reason s, sl_active_execution_id s}
       then Inl (StoreError ''SLICE_CONTROL_STATE_FIELD_INVALID'')
     else bnd (opt_commit (sl_base_commit s)) (\<lambda>_.
          bnd (opt_commit (sl_implementation_result_commit s)) (\<lambda>_.
          bnd (opt_commit (sl_current_branch_head s)) (\<lambda>_.
          bnd (require_sha256 (sl_authority_fingerprint s)) (\<lambda>_.
     if sl_authority_fingerprint s \<noteq> control_state_authority_fingerprint c s
       then Inl (StoreError ''CONTROL_AUTHORITY_FINGERPRINT_MISMATCH'')
     else slice_disposition s)))))"

section \<open>reconcile_slice_control_state\<close>

record slice_request =
  sq_target :: slice_target
  sq_expected_version :: int
  sq_operation_key :: string
  sq_reason_code :: string
  sq_metadata :: pyval
  sq_required_mode :: "authority_mode option"
  sq_expected_generation :: "int option"
  sq_insert_only :: bool

text \<open>The checks and the canonical event payload before the transaction.\<close>

definition slice_request_payload :: "ctx \<Rightarrow> slice_request \<Rightarrow> string result" where
  "slice_request_payload c q =
    bnd (validate_slice_target c (sq_target q)) (\<lambda>_.
    bnd (require_sha256 (sq_operation_key q)) (\<lambda>_.
    if sq_expected_version q < -1 then Inl (StoreError ''INVALID_EXPECTED_STATE_VERSION'')
    else if sq_reason_code q = [] then Inl (StoreError ''REASON_CODE_REQUIRED'')
    else canonical_json (PDict [(PStr ''reason_code'', PStr (sq_reason_code q)),
           (PStr ''target'', json_to_py (slice_json (sq_target q))), (PStr ''metadata'', sq_metadata q)])))"

definition slice_authority_guard :: "slice_request \<Rightarrow> db \<Rightarrow> unit result" where
  "slice_authority_guard q d = (case sq_required_mode q of None \<Rightarrow> Inr ()
    | Some m \<Rightarrow> bnd (get_authority d) (\<lambda>a.
        if au_mode a \<noteq> m then Inl (StoreError ''CONTROL_AUTHORITY_MODE_REQUIRED'')
        else if Some (au_generation a) \<noteq> sq_expected_generation q
          then Inl (StoreError ''STALE_AUTHORITY_GENERATION'') else Inr ()))"

definition slice_conflict :: "slice_request \<Rightarrow> store_error" where
  "slice_conflict q = StoreError (if sq_insert_only q then ''SLICE_REGISTRATION_IDEMPOTENCY_CONFLICT''
    else ''IDEMPOTENCY_CONFLICT'')"

definition slice_event_new :: "slice_request \<Rightarrow> string \<Rightarrow> int \<Rightarrow> int \<Rightarrow> slice_event_row" where
  "slice_event_new q payload from now =
    \<lparr>se_operation_key = sq_operation_key q, se_slice_id = sl_id (sq_target q), se_from_version = from,
     se_to_version = from + 1, se_reason_code = sq_reason_code q, se_metadata_json = payload,
     se_created_at = now\<rparr>"

definition reconcile_slice_body :: "ctx \<Rightarrow> slice_request \<Rightarrow> string \<Rightarrow> db \<Rightarrow> (bool \<times> db) result" where
  "reconcile_slice_body c q payload d =
    (let s = sq_target q; now = clock c 1; v = sq_expected_version q in
     bnd (slice_authority_guard q d) (\<lambda>_.
     case find (\<lambda>e. se_operation_key e = sq_operation_key q) (slice_events d) of
       Some e \<Rightarrow>
         (if se_slice_id e \<noteq> sl_id s \<or> se_metadata_json e \<noteq> payload then Inl (slice_conflict q)
          else bnd (get_slice (sl_id s) d) (\<lambda>r.
            if sc_fields r \<noteq> s then Inl (slice_conflict q) else Inr (True, d)))
     | None \<Rightarrow>
         (case find_slice (sl_id s) d of
            None \<Rightarrow>
              (if v \<noteq> -1 then Inl (StoreError ''STALE_CONTROL_STATE_VERSION'')
               else bnd (insert_slice_event (slice_event_new q payload (-1) now) d) (\<lambda>d1.
                 bnd (insert_slice \<lparr>sc_fields = s, sc_state_version = 0, sc_created_at = now,
                        sc_updated_at = now\<rparr> d1) (\<lambda>d2. Inr (False, d2))))
          | Some r \<Rightarrow>
              (if sc_fields r = s then
                 (if sq_insert_only q then Inl (StoreError ''SLICE_ALREADY_REGISTERED_CONFLICT'') else Inr (True, d))
               else if sq_insert_only q then Inl (StoreError ''SLICE_ALREADY_REGISTERED_CONFLICT'')
               else if sc_state_version r \<noteq> v then Inl (StoreError ''STALE_CONTROL_STATE_VERSION'')
               else if sl_active_execution_id (sc_fields r) \<noteq> None
                   \<and> sl_active_execution_id s \<noteq> sl_active_execution_id (sc_fields r)
                 then Inl (StoreError ''ACTIVE_EXECUTION_REBIND_FORBIDDEN'')
               else bnd (insert_slice_event (slice_event_new q payload v now) d) (\<lambda>d1.
                 bnd (update_slices (\<lambda>x. sc_id x = sl_id s \<and> sc_state_version x = v)
                        (\<lambda>x. x\<lparr>sc_fields := s\<lparr>sl_id := sc_id x\<rparr>, sc_state_version := sc_state_version x + 1,
                               sc_updated_at := now\<rparr>) d1) (\<lambda>(d2, n).
                 if n \<noteq> 1 then Inl (StoreError ''STALE_CONTROL_STATE_VERSION'') else Inr (False, d2)))))))"

definition reconcile_slice_control_state ::
  "ctx \<Rightarrow> slice_request \<Rightarrow> db \<Rightarrow> (slice_row \<times> bool) result \<times> db" where
  "reconcile_slice_control_state c q = precheck (slice_request_payload c q) (\<lambda>payload d.
    reading (\<lambda>same d'. bnd (get_slice (sl_id (sq_target q)) d') (\<lambda>r. Inr (r, same)))
      (transaction c (reconcile_slice_body c q payload) d))"

end
