(* ===== verification/Deferred.thy ===== *)
theory Deferred
  imports Evidence Slice_Control
begin

text \<open>
  Deferred slices (\<open>src/adcp/store/sqlite.py\<close>): binding a deferred slice to a fresh execution
  and its Maker capsule before any work, releasing an untouched binding, and finalising a
  result commit in the execution and its slice at once. Each is one transaction over both
  state machines and both logs. Optional fault injectors are absent.
\<close>

section \<open>_validate_preexecution_capsule\<close>

definition preexecution_fields :: "string list" where
  "preexecution_fields = [''slice'', ''current_task'', ''contract_fingerprint'', ''authority_fingerprint'',
     ''source_root'', ''branch'', ''base_commit'', ''current_commit'', ''acceptance_criteria'',
     ''constraints'', ''risk'', ''environment'', ''allowed_actions'', ''forbidden_actions'',
     ''relevant_authority_refs'', ''relevant_authority_excerpts'']"

text \<open>\<open>slice.get("slice_id")\<close> of a dictionary, any other value itself.\<close>

definition slice_identity :: "json option \<Rightarrow> json option" where
  "slice_identity v = (case v of Some (JObj kvs) \<Rightarrow> map_of kvs ''slice_id'' | _ \<Rightarrow> v)"

definition validate_preexecution_capsule :: "execution_create \<Rightarrow> capsule \<Rightarrow> string \<Rightarrow> unit result" where
  "validate_preexecution_capsule x k worktree =
    (let content = capsule_content k;
         is = (\<lambda>field v. member field content = Some (JStr v)) in
     if capsule_role k \<noteq> Maker then Inl (StoreError ''CAPSULE_BINDING_MISMATCH'')
     else if \<not> list_all (\<lambda>f. member f content \<noteq> None) preexecution_fields
       then Inl (StoreError ''CAPSULE_BINDING_MISMATCH'')
     else if slice_identity (member ''slice'' content) \<noteq> Some (JStr (xc_slice_id x))
       then Inl (StoreError ''CAPSULE_BINDING_MISMATCH'')
     else if \<not> is ''contract_fingerprint'' (xc_contract_fingerprint x)
       then Inl (StoreError ''CONTRACT_FINGERPRINT_MISMATCH'')
     else if \<not> is ''authority_fingerprint'' (xc_authority_fingerprint x)
       then Inl (StoreError ''AUTHORITY_FINGERPRINT_MISMATCH'')
     else if \<not> (is ''source_root'' worktree \<and> is ''branch'' (xc_branch x) \<and> is ''base_commit'' (xc_base_commit x)
         \<and> is ''current_commit'' (xc_base_commit x) \<and> is ''risk'' (risk_value (xc_risk_level x))
         \<and> is ''environment'' (environment_value (xc_environment x)))
       then Inl (StoreError ''CAPSULE_BINDING_MISMATCH'')
     else Inr ())"

section \<open>bind_deferred_execution\<close>

record bind_request =
  bq_spec :: execution_create
  bq_expected_version :: int
  bq_operation_key :: string
  bq_context_id :: string
  bq_capsule :: capsule
  bq_packet_ref :: string
  bq_worktree_path :: string
  bq_branch_created :: bool
  bq_worktree_created :: bool
  bq_actor_id :: string

definition bind_validate :: "ctx \<Rightarrow> bind_request \<Rightarrow> string result" where
  "bind_validate c q =
    (let x = bq_spec q in
     bnd (validate_execution_create x) (\<lambda>_.
     bnd (require_sha256 (bq_operation_key q)) (\<lambda>_.
     if xc_current_actor_role x \<noteq> CONTROLLER then Inl (StoreError ''INVALID_INPUT'')
     else if bq_expected_version q < 0 then Inl (StoreError ''INVALID_EXPECTED_STATE_VERSION'')
     else if bq_context_id q = [] \<or> all_space (bq_packet_ref q) \<or> bq_worktree_path q = []
       then Inl (StoreError ''CAPSULE_BINDING_MISMATCH'')
     else bnd (canonical_source_root c (xc_source_root x)) (\<lambda>root.
       bnd (validate_preexecution_capsule x (bq_capsule q) (bq_worktree_path q)) (\<lambda>_. Inr root)))))"

definition binding_metadata :: "bind_request \<Rightarrow> string \<Rightarrow> json" where
  "binding_metadata q root = (let x = bq_spec q in JObj
    [(''execution_id'', JStr (xc_execution_id x)), (''slice_id'', JStr (xc_slice_id x)),
     (''repository_toplevel'', JStr root), (''worktree_path'', JStr (bq_worktree_path q)),
     (''branch'', JStr (xc_branch x)), (''base_commit'', JStr (xc_base_commit x)),
     (''contract_fingerprint'', JStr (xc_contract_fingerprint x)),
     (''authority_fingerprint'', JStr (xc_authority_fingerprint x)),
     (''risk_level'', JStr (risk_value (xc_risk_level x))),
     (''environment'', JStr (environment_value (xc_environment x))),
     (''packet_ref'', JStr (bq_packet_ref q)), (''context_snapshot_id'', JStr (bq_context_id q)),
     (''context_fingerprint'', JStr (capsule_fingerprint (bq_capsule q))),
     (''branch_created'', JBool (bq_branch_created q)), (''worktree_created'', JBool (bq_worktree_created q))])"

definition with_fingerprint :: "ctx \<Rightarrow> slice_target \<Rightarrow> slice_target" where
  "with_fingerprint c s = s\<lparr>sl_authority_fingerprint := control_state_authority_fingerprint c s\<rparr>"

definition bound_target :: "ctx \<Rightarrow> bind_request \<Rightarrow> string \<Rightarrow> slice_target \<Rightarrow> slice_target" where
  "bound_target c q root s = with_fingerprint c (s\<lparr>
     sl_execution_eligibility := ''ELIGIBLE_PREEXECUTION_BOUND'', sl_defer_reason := None,
     sl_repository_toplevel := Some root, sl_branch := Some (xc_branch (bq_spec q)),
     sl_base_commit := Some (xc_base_commit (bq_spec q)), sl_implementation_result_commit := None,
     sl_current_branch_head := Some (xc_base_commit (bq_spec q)),
     sl_active_execution_id := Some (xc_execution_id (bq_spec q))\<rparr>)"

definition slice_change_json :: "string \<Rightarrow> slice_target \<Rightarrow> json \<Rightarrow> json" where
  "slice_change_json reason target metadata = JObj
    [(''reason_code'', JStr reason), (''target'', slice_json target), (''metadata'', metadata)]"

text \<open>The current slice row and the bound target it may move to.\<close>

definition bind_current :: "ctx \<Rightarrow> bind_request \<Rightarrow> string \<Rightarrow> db \<Rightarrow> (slice_row \<times> slice_target) result" where
  "bind_current c q root d =
    (case find_slice (xc_slice_id (bq_spec q)) d of
       None \<Rightarrow> Inl (StoreError ''SLICE_NOT_DEFERRED_BINDING'')
     | Some r \<Rightarrow>
         (if sl_migration_class (sc_fields r) \<noteq> ''DEFER_BINDING'' then Inl (StoreError ''SLICE_NOT_DEFERRED_BINDING'')
          else if sl_repository_toplevel (sc_fields r) \<notin> {None, Some root}
              \<or> sl_branch (sc_fields r) \<notin> {None, Some (xc_branch (bq_spec q))}
            then Inl (StoreError ''PREEXECUTION_BIND_CONFLICT'')
          else let target = bound_target c q root (sc_fields r) in
            bnd (validate_slice_target c target) (\<lambda>_. Inr (r, target))))"

text \<open>An earlier binding under this key: everything it left behind must be this request's.\<close>

definition bind_replay :: "bind_request \<Rightarrow> string \<Rightarrow> string \<Rightarrow> slice_row \<Rightarrow> slice_event_row \<Rightarrow> db \<Rightarrow> unit result" where
  "bind_replay q root slice_payload r e d =
    (let x = bq_spec q; conflict = Inl (StoreError ''PREEXECUTION_BIND_CONFLICT'') in
     if se_slice_id e \<noteq> xc_slice_id x \<or> se_reason_code e \<noteq> ''PREEXECUTION_BIND''
         \<or> se_metadata_json e \<noteq> slice_payload then conflict
     else bnd (get_execution (xc_execution_id x) d) (\<lambda>ex.
       if ex_create_key ex \<noteq> bq_operation_key q then conflict
       else bnd (existing_event (xc_execution_id x) (bq_operation_key q) EXECUTION_CREATED
              (dumps (create_request_json x root)) d) (\<lambda>_.
         bnd (get_context (bq_context_id q) d) (\<lambda>k.
         if cx_execution_id k \<noteq> xc_execution_id x \<or> cx_role k \<noteq> Maker
             \<or> cx_fingerprint k \<noteq> capsule_fingerprint (bq_capsule q)
             \<or> cx_canonical_json k \<noteq> capsule_json (bq_capsule q) then conflict
         else if sl_active_execution_id (sc_fields r) \<noteq> Some (xc_execution_id x)
             \<or> sl_repository_toplevel (sc_fields r) \<noteq> Some root
             \<or> sl_branch (sc_fields r) \<noteq> Some (xc_branch x)
             \<or> sl_base_commit (sc_fields r) \<noteq> Some (xc_base_commit x) then conflict
         else Inr ()))))"

definition bind_guard :: "ctx \<Rightarrow> bind_request \<Rightarrow> string \<Rightarrow> slice_row \<Rightarrow> db \<Rightarrow> unit result" where
  "bind_guard c q root r d =
    (let x = bq_spec q; now = clock c 1 in
     if sl_active_execution_id (sc_fields r) \<noteq> None
         \<or> sl_execution_eligibility (sc_fields r) = ''ELIGIBLE_PREEXECUTION_BOUND''
       then Inl (StoreError ''PREEXECUTION_BIND_CONFLICT'')
     else if sl_execution_eligibility (sc_fields r) \<noteq> ''INELIGIBLE_UNTIL_PREFLIGHT''
       then Inl (StoreError ''SLICE_NOT_DEFERRED_BINDING'')
     else if sc_state_version r \<noteq> bq_expected_version q then Inl (StoreError ''STALE_CONTROL_STATE_VERSION'')
     else if \<exists>ex\<in>set (executions d). ex_slice_id ex = xc_slice_id x
         \<and> (ex_lease_owner ex \<noteq> None \<and> (case ex_lease_expires_at ex of None \<Rightarrow> False | Some e \<Rightarrow> now < e)
            \<or> (\<exists>a\<in>set (attempts d). at_execution_id a = ex_id ex \<and> at_status a = RUNNING))
       then Inl (StoreError ''ACTIVE_ATTEMPT_OR_LEASE_CONFLICT'')
     else if \<exists>ex\<in>set (executions d). ex_source_root ex = root \<and> ex_slice_id ex = xc_slice_id x \<and> is_open ex
       then Inl (StoreError ''OPEN_EXECUTION_EXISTS'')
     else if find_execution (xc_execution_id x) d \<noteq> None then Inl (StoreError ''PREEXECUTION_BIND_CONFLICT'')
     else Inr ())"

text \<open>\<open>except sqlite3.IntegrityError\<close>: the open index and the capsule trigger have their own codes.\<close>

fun bind_errors :: "'a result \<Rightarrow> 'a result" where
  "bind_errors (Inl (IntegrityError m)) =
     (if m = open_execution_conflict then Inl (StoreError ''OPEN_EXECUTION_EXISTS'')
      else if m = ''PREEXECUTION_CONTEXT_BINDING_MISMATCH'' then Inl (StoreError ''CAPSULE_BINDING_MISMATCH'')
      else Inl (IntegrityError m))"
| "bind_errors r = r"

lemma bind_errors_Inr [success]: "bind_errors m = Inr a \<longleftrightarrow> m = Inr a"
  by (cases m rule: bind_errors.cases) auto

definition set_slice_fields :: "slice_target \<Rightarrow> int \<Rightarrow> slice_row \<Rightarrow> slice_row" where
  "set_slice_fields target now r = r\<lparr>sc_fields := target\<lparr>sl_id := sc_id r\<rparr>,
     sc_state_version := sc_state_version r + 1, sc_updated_at := now\<rparr>"

definition cas_slice :: "string \<Rightarrow> int \<Rightarrow> slice_target \<Rightarrow> int \<Rightarrow> db \<Rightarrow> db result" where
  "cas_slice i v target now d =
    bnd (update_slices (\<lambda>r. sc_id r = i \<and> sc_state_version r = v) (set_slice_fields target now) d) (\<lambda>(d1, n).
    if n \<noteq> 1 then Inl (StoreError ''STALE_CONTROL_STATE_VERSION'') else Inr d1)"

definition bind_writes :: "ctx \<Rightarrow> bind_request \<Rightarrow> string \<Rightarrow> slice_target \<Rightarrow> string \<Rightarrow> db \<Rightarrow> db result" where
  "bind_writes c q root target slice_payload d =
    (let x = bq_spec q; now = clock c 1; key = bq_operation_key q; v = bq_expected_version q;
         payload = dumps (create_request_json x root) in
     bnd (insert_execution (created_execution x key root now) d) (\<lambda>d1.
     bnd (insert_event c 0 ((created_event x key payload now)\<lparr>ev_actor_role := CONTROLLER,
            ev_actor_id := bq_actor_id q\<rparr>) d1) (\<lambda>d2.
     bnd (insert_context \<lparr>cx_id = bq_context_id q, cx_execution_id = xc_execution_id x, cx_role = Maker,
            cx_capsule_version = capsule_version (bq_capsule q),
            cx_fingerprint = capsule_fingerprint (bq_capsule q),
            cx_canonical_json = capsule_json (bq_capsule q), cx_created_at = now\<rparr> d2) (\<lambda>d3.
     bnd (insert_slice_event \<lparr>se_operation_key = key, se_slice_id = xc_slice_id x, se_from_version = v,
            se_to_version = v + 1, se_reason_code = ''PREEXECUTION_BIND'', se_metadata_json = slice_payload,
            se_created_at = now\<rparr> d3) (\<lambda>d4.
     cas_slice (xc_slice_id x) v target now d4)))))"

definition bind_body :: "ctx \<Rightarrow> bind_request \<Rightarrow> string \<Rightarrow> db \<Rightarrow> (bool \<times> db) result" where
  "bind_body c q root d = bind_errors
    (bnd (bind_current c q root d) (\<lambda>(r, target).
     let slice_payload = dumps (slice_change_json ''PREEXECUTION_BIND'' target (binding_metadata q root)) in
     case find (\<lambda>e. se_operation_key e = bq_operation_key q) (slice_events d) of
       Some e \<Rightarrow> bnd (bind_replay q root slice_payload r e d) (\<lambda>_. Inr (True, d))
     | None \<Rightarrow> bnd (bind_guard c q root r d) (\<lambda>_.
         bnd (bind_writes c q root target slice_payload d) (\<lambda>d'. Inr (False, d')))))"

definition bind_deferred_execution ::
  "ctx \<Rightarrow> bind_request \<Rightarrow> db \<Rightarrow> (execution_row \<times> slice_row \<times> context_row \<times> bool) result \<times> db" where
  "bind_deferred_execution c q = precheck (bind_validate c q) (\<lambda>root d.
    reading (\<lambda>replayed d'. bnd (get_execution (xc_execution_id (bq_spec q)) d') (\<lambda>ex.
        bnd (get_slice (xc_slice_id (bq_spec q)) d') (\<lambda>s. bnd (get_context (bq_context_id q) d') (\<lambda>k.
        Inr (ex, s, k, replayed)))))
      (transaction c (bind_body c q root) d))"

section \<open>finalize_deferred_result_commit\<close>

record finalize_request =
  fq_execution_id :: string
  fq_expected_version :: int
  fq_expected_slice_version :: int
  fq_operation_key :: string
  fq_result_commit :: string
  fq_expected_head :: string
  fq_owner :: string
  fq_generation :: int
  fq_actor_role :: actor_role
  fq_actor_id :: string

definition finalize_json :: "finalize_request \<Rightarrow> json" where
  "finalize_json q = JObj
    [(''execution_id'', JStr (fq_execution_id q)), (''expected_state_version'', JInt (fq_expected_version q)),
     (''expected_slice_state_version'', JInt (fq_expected_slice_version q)),
     (''expected_current_branch_head'', JStr (fq_expected_head q)),
     (''result_commit'', JStr (fq_result_commit q)), (''lease_owner'', JStr (fq_owner q)),
     (''lease_generation'', JInt (fq_generation q)),
     (''actor_role'', JStr (role_value (fq_actor_role q))), (''actor_id'', JStr (fq_actor_id q))]"

definition finalize_validate :: "finalize_request \<Rightarrow> unit result" where
  "finalize_validate q =
    bnd (require_sha256 (fq_operation_key q)) (\<lambda>_.
    bnd (require_commit (fq_result_commit q)) (\<lambda>_.
    bnd (require_commit (fq_expected_head q)) (\<lambda>_.
    if fq_actor_role q \<noteq> CONTROLLER then Inl (StoreError ''CONTROLLER_RESULT_FINALIZATION_REQUIRED'')
    else Inr ())))"

text \<open>\<open>SELECT * FROM slice_control_state WHERE active_execution_id = ?\<close>.\<close>

definition slice_running :: "string \<Rightarrow> db \<Rightarrow> slice_row option" where
  "slice_running i d = find (\<lambda>r. sl_active_execution_id (sc_fields r) = Some i) (slices d)"

text \<open>Equality of dictionaries: the same keys with the same values, in any order.\<close>

fun same_dict :: "json \<Rightarrow> json \<Rightarrow> bool" where
  "same_dict (JObj a) (JObj b) \<longleftrightarrow> set a = set b"
| "same_dict _ _ \<longleftrightarrow> False"

definition finalize_replay :: "finalize_request \<Rightarrow> slice_event_row \<Rightarrow> db \<Rightarrow> unit result" where
  "finalize_replay q e d =
    (let conflict = Inl (StoreError ''IDEMPOTENCY_CONFLICT'') in
     case loads (se_metadata_json e) of
       None \<Rightarrow> conflict
     | Some j \<Rightarrow>
         (if se_reason_code e \<noteq> ''RESULT_COMMIT_BOUND''
             \<or> \<not> (case member ''metadata'' j of None \<Rightarrow> False | Some m \<Rightarrow> same_dict m (finalize_json q)) then conflict
          else bnd (get_execution (fq_execution_id q) d) (\<lambda>r.
            case slice_running (fq_execution_id q) d of
              None \<Rightarrow> conflict
            | Some s \<Rightarrow>
                (if ex_result_commit r \<noteq> Some (fq_result_commit q)
                    \<or> sl_implementation_result_commit (sc_fields s) \<noteq> Some (fq_result_commit q)
                    \<or> sl_current_branch_head (sc_fields s) \<noteq> Some (fq_result_commit q)
                    \<or> sl_execution_eligibility (sc_fields s) \<noteq> ''ELIGIBLE_BOUND''
                 then conflict else Inr ()))))"

definition finalize_guard :: "ctx \<Rightarrow> finalize_request \<Rightarrow> db \<Rightarrow> (execution_row \<times> slice_row) result" where
  "finalize_guard c q d =
    (let i = fq_execution_id q in
     bnd (get_execution i d) (\<lambda>r.
     bnd (require_fence r (fq_owner q) (fq_generation q) (clock c 1)) (\<lambda>_.
     if ex_state_version r \<noteq> fq_expected_version q then Inl (StoreError ''STALE_STATE_VERSION'')
     else if ex_state r \<noteq> MAKER_RUNNING then Inl (StoreError ''MAKER_COMPLETION_STATE_INVALID'')
     else (case slice_running i d of
         None \<Rightarrow> Inl (StoreError ''SLICE_NOT_DEFERRED_BINDING'')
       | Some s \<Rightarrow>
           (if sl_migration_class (sc_fields s) \<noteq> ''DEFER_BINDING''
               \<or> sl_execution_eligibility (sc_fields s) \<notin> {''ELIGIBLE_PREEXECUTION_BOUND'', ''ELIGIBLE_BOUND''}
              then Inl (StoreError ''SLICE_NOT_DEFERRED_BINDING'')
            else if sc_state_version s \<noteq> fq_expected_slice_version q
              then Inl (StoreError ''STALE_CONTROL_STATE_VERSION'')
            else if sl_repository_toplevel (sc_fields s) \<noteq> Some (ex_source_root r)
                \<or> sl_branch (sc_fields s) \<noteq> Some (ex_branch r)
                \<or> sl_base_commit (sc_fields s) \<noteq> Some (ex_base_commit r)
                \<or> sl_current_branch_head (sc_fields s) \<noteq> Some (fq_expected_head q)
                \<or> sl_implementation_result_commit (sc_fields s) \<noteq> ex_result_commit r
              then Inl (StoreError ''PREEXECUTION_BIND_CONFLICT'')
            else Inr (r, s))))))"

definition finalized_target :: "ctx \<Rightarrow> finalize_request \<Rightarrow> slice_target \<Rightarrow> slice_target" where
  "finalized_target c q s = with_fingerprint c (s\<lparr>sl_execution_eligibility := ''ELIGIBLE_BOUND'',
     sl_defer_reason := None, sl_implementation_result_commit := Some (fq_result_commit q),
     sl_current_branch_head := Some (fq_result_commit q)\<rparr>)"

definition finalize_writes :: "ctx \<Rightarrow> finalize_request \<Rightarrow> execution_row \<Rightarrow> slice_row \<Rightarrow> db \<Rightarrow> db result" where
  "finalize_writes c q r s d =
    (let i = fq_execution_id q; v = fq_expected_version q; w = fq_expected_slice_version q; now = clock c 1;
         target = finalized_target c q (sc_fields s) in
     bnd (validate_slice_target c target) (\<lambda>_.
     bnd (cas_execution i v (\<lambda>x. x\<lparr>ex_result_commit := Some (fq_result_commit q),
            ex_state_version := ex_state_version x + 1, ex_updated_at := now\<rparr>) d) (\<lambda>d1.
     bnd (insert_event c 0 (event_from RESULT_COMMIT_REGISTERED r (fq_operation_key q) (ex_state r)
            (fq_actor_role q) (fq_actor_id q) (fq_generation q) ''RESULT_COMMIT_REGISTERED'' None
            (dumps (finalize_json q)) now) d1) (\<lambda>d2.
     bnd (insert_slice_event \<lparr>se_operation_key = fq_operation_key q, se_slice_id = sc_id s,
            se_from_version = w, se_to_version = w + 1, se_reason_code = ''RESULT_COMMIT_BOUND'',
            se_metadata_json = dumps (slice_change_json ''RESULT_COMMIT_BOUND'' target (finalize_json q)),
            se_created_at = now\<rparr> d2) (\<lambda>d3.
     cas_slice (sc_id s) w target now d3)))))"

definition finalize_body :: "ctx \<Rightarrow> finalize_request \<Rightarrow> db \<Rightarrow> ((string \<times> bool) \<times> db) result" where
  "finalize_body c q d =
    bnd (existing_event (fq_execution_id q) (fq_operation_key q) RESULT_COMMIT_REGISTERED
           (dumps (finalize_json q)) d) (\<lambda>execution_event.
    case find (\<lambda>e. se_operation_key e = fq_operation_key q) (slice_events d) of
      Some e \<Rightarrow>
        (if execution_event = None then Inl (StoreError ''IDEMPOTENCY_CONFLICT'')
         else bnd (finalize_replay q e d) (\<lambda>_.
           bnd (of_option (StoreError ''IDEMPOTENCY_CONFLICT'') (slice_running (fq_execution_id q) d)) (\<lambda>s.
           Inr ((sc_id s, True), d))))
    | None \<Rightarrow>
        (if execution_event \<noteq> None then Inl (StoreError ''IDEMPOTENCY_CONFLICT'')
         else bnd (finalize_guard c q d) (\<lambda>(r, s).
           bnd (finalize_writes c q r s d) (\<lambda>d'. Inr ((sc_id s, False), d')))))"

definition finalize_deferred_result_commit ::
  "ctx \<Rightarrow> finalize_request \<Rightarrow> db \<Rightarrow> (execution_row \<times> slice_row \<times> bool) result \<times> db" where
  "finalize_deferred_result_commit c q = precheck (finalize_validate q) (\<lambda>_ d.
    reading (\<lambda>(sid, replayed) d'. bnd (get_execution (fq_execution_id q) d') (\<lambda>r.
        bnd (get_slice sid d') (\<lambda>s. Inr (r, s, replayed))))
      (transaction c (finalize_body c q) d))"

section \<open>get_deferred_binding\<close>

definition binding_required :: "string list" where
  "binding_required = [''execution_id'', ''slice_id'', ''repository_toplevel'', ''worktree_path'', ''branch'',
     ''base_commit'', ''contract_fingerprint'', ''authority_fingerprint'', ''risk_level'', ''environment'',
     ''packet_ref'', ''context_snapshot_id'', ''context_fingerprint'', ''branch_created'', ''worktree_created'']"

definition get_deferred_binding :: "string \<Rightarrow> db \<Rightarrow> json result" where
  "get_deferred_binding i d =
    (case find (\<lambda>e. se_reason_code e = ''PREEXECUTION_BIND''
            \<and> json_extract (se_metadata_json e) [''metadata'', ''execution_id''] = Some i) (slice_events d) of
       None \<Rightarrow> Inl (StoreError ''PREEXECUTION_BINDING_NOT_FOUND'')
     | Some e \<Rightarrow>
         (case Option.bind (loads (se_metadata_json e)) (member ''metadata'') of
            None \<Rightarrow> Inl (StoreError ''PREEXECUTION_BINDING_CORRUPT'')
          | Some m \<Rightarrow>
              (if \<not> list_all (\<lambda>k. member k m \<noteq> None) binding_required
               then Inl (StoreError ''PREEXECUTION_BINDING_CORRUPT'')
               else if member ''execution_id'' m \<noteq> Some (JStr i)
               then Inl (StoreError ''PREEXECUTION_BINDING_CORRUPT'')
               else Inr m)))"

section \<open>release_deferred_preexecution_binding\<close>

record release_binding_request =
  gq_execution_id :: string
  gq_slice_id :: string
  gq_expected_version :: int
  gq_expected_slice_version :: int
  gq_operation_key :: string
  gq_reason :: string
  gq_authority_ref :: string
  gq_actor_id :: string

definition release_binding_validate :: "release_binding_request \<Rightarrow> unit result" where
  "release_binding_validate q =
    bnd (require_sha256 (gq_operation_key q)) (\<lambda>_.
    if [] \<in> {gq_execution_id q, gq_slice_id q, gq_reason q, gq_authority_ref q}
      then Inl (StoreError ''INVALID_INPUT'')
    else if gq_reason q \<notin> {''BASE_STALE'', ''CONTRACT_STALE'', ''AUTHORITY_STALE'', ''BRANCH_STALE'',
        ''ENVIRONMENT_STALE'', ''PREMAKER_PREREQUISITE_CHANGED''}
      then Inl (StoreError ''PREBOUND_RELEASE_REASON_INVALID'')
    else if gq_expected_version q < 0 \<or> gq_expected_slice_version q < 0
      then Inl (StoreError ''INVALID_EXPECTED_STATE_VERSION'')
    else Inr ())"

definition superseded :: "slice_target \<Rightarrow> bool" where
  "superseded s \<longleftrightarrow> sl_migration_class s = ''DEFER_BINDING''
     \<and> sl_execution_eligibility s = ''INELIGIBLE_UNTIL_PREFLIGHT''
     \<and> sl_defer_reason s = Some ''PREEXECUTION_BIND_SUPERSEDED''
     \<and> sl_repository_toplevel s = None \<and> sl_branch s = None \<and> sl_base_commit s = None
     \<and> sl_implementation_result_commit s = None \<and> sl_current_branch_head s = None
     \<and> sl_active_execution_id s = None"

definition release_replay_ok ::
  "release_binding_request \<Rightarrow> slice_event_row \<Rightarrow> json \<Rightarrow> json \<Rightarrow> event_row option \<Rightarrow> execution_row \<Rightarrow> slice_row \<Rightarrow> bool" where
  "release_replay_ok q e payload metadata t r s \<longleftrightarrow>
     se_slice_id e = gq_slice_id q \<and> se_reason_code e = ''PREEXECUTION_RELEASE'' \<and>
     member ''reason_code'' payload = Some (JStr ''PREEXECUTION_RELEASE'') \<and>
     member ''released_execution_id'' metadata = Some (JStr (gq_execution_id q)) \<and>
     member ''release_reason'' metadata = Some (JStr (gq_reason q)) \<and>
     member ''authority_ref'' metadata = Some (JStr (gq_authority_ref q)) \<and>
     se_from_version e = gq_expected_slice_version q \<and> se_to_version e = gq_expected_slice_version q + 1 \<and>
     (case t of None \<Rightarrow> False | Some v \<Rightarrow> ev_reason_code v = ''PREEXECUTION_BIND_RELEASED''
        \<and> ev_from_version v = gq_expected_version q \<and> ev_to_version v = gq_expected_version q + 1) \<and>
     ex_state r = CANCELLED \<and> ex_state_version r = gq_expected_version q + 1 \<and>
     sc_state_version s = gq_expected_slice_version q + 1 \<and> superseded (sc_fields s)"

definition release_replay :: "release_binding_request \<Rightarrow> slice_event_row \<Rightarrow> db \<Rightarrow> json result" where
  "release_replay q e d =
    (let conflict = Inl (StoreError ''PREBOUND_RELEASE_IDEMPOTENCY_CONFLICT'') in
     case loads (se_metadata_json e) of
       None \<Rightarrow> conflict
     | Some payload \<Rightarrow> (case member ''metadata'' payload of
           None \<Rightarrow> conflict
         | Some metadata \<Rightarrow>
             bnd (get_execution (gq_execution_id q) d) (\<lambda>r.
             bnd (get_slice (gq_slice_id q) d) (\<lambda>s.
             if \<not> release_replay_ok q e payload metadata
                   (find (\<lambda>v. ev_execution_id v = gq_execution_id q \<and> ev_operation_key v = gq_operation_key q)
                      (events d)) r s
             then conflict else Inr metadata))))"

text \<open>The prebound execution is untouched: \<open>READY\<close>, no lease, no attempt, no result.\<close>

definition release_guard :: "release_binding_request \<Rightarrow> db \<Rightarrow> (execution_row \<times> slice_row) result" where
  "release_guard q d =
    (let i = gq_execution_id q in
     if \<exists>e\<in>set (slice_events d). se_reason_code e = ''PREEXECUTION_RELEASE''
         \<and> json_extract (se_metadata_json e) [''metadata'', ''released_execution_id''] = Some i
       then Inl (StoreError ''PREBOUND_RELEASE_IDEMPOTENCY_CONFLICT'')
     else bnd (get_execution i d) (\<lambda>r. bnd (get_slice (gq_slice_id q) d) (\<lambda>s.
       let f = sc_fields s in
       if ex_slice_id r \<noteq> gq_slice_id q then Inl (StoreError ''PREBOUND_RELEASE_EXECUTION_MISMATCH'')
       else if ex_state_version r \<noteq> gq_expected_version q then Inl (StoreError ''STALE_EXECUTION_STATE_VERSION'')
       else if sc_state_version s \<noteq> gq_expected_slice_version q
         then Inl (StoreError ''STALE_CONTROL_STATE_VERSION'')
       else if sl_active_execution_id f \<noteq> Some i then Inl (StoreError ''PREBOUND_RELEASE_EXECUTION_MISMATCH'')
       else if ex_result_commit r \<noteq> None \<or> sl_implementation_result_commit f \<noteq> None
         then Inl (StoreError ''PREBOUND_RELEASE_RESULT_EXISTS'')
       else if ex_lease_owner r \<noteq> None then Inl (StoreError ''PREBOUND_RELEASE_LEASE_CONFLICT'')
       else if row_count (\<lambda>a. at_execution_id a = i) (attempts d) \<noteq> 0
         then Inl (StoreError ''PREBOUND_RELEASE_ATTEMPT_EXISTS'')
       else if sl_migration_class f \<noteq> ''DEFER_BINDING''
           \<or> sl_execution_eligibility f \<noteq> ''ELIGIBLE_PREEXECUTION_BOUND''
           \<or> sl_repository_toplevel f = None \<or> sl_branch f = None \<or> sl_base_commit f = None
           \<or> sl_current_branch_head f \<noteq> sl_base_commit f \<or> ex_state r \<noteq> READY
         then Inl (StoreError ''PREBOUND_RELEASE_STATE_INVALID'')
       else bnd (validate_transition READY CANCELLED None None) (\<lambda>_. Inr (r, s)))))"

text \<open>The binding's metadata and capsule agree with the rows they were made from.\<close>

definition binding_coherent ::
  "release_binding_request \<Rightarrow> json \<Rightarrow> context_row \<Rightarrow> json \<Rightarrow> execution_row \<Rightarrow> slice_target \<Rightarrow> bool" where
  "binding_coherent q b k content r f \<longleftrightarrow>
     member ''slice_id'' b = Some (JStr (gq_slice_id q)) \<and>
     member ''repository_toplevel'' b = Some (JStr (ex_source_root r)) \<and>
     Some (ex_source_root r) = sl_repository_toplevel f \<and>
     member ''branch'' b = Some (JStr (ex_branch r)) \<and> Some (ex_branch r) = sl_branch f \<and>
     member ''base_commit'' b = Some (JStr (ex_base_commit r)) \<and> Some (ex_base_commit r) = sl_base_commit f \<and>
     member ''contract_fingerprint'' b = Some (JStr (ex_contract_fingerprint r)) \<and>
     member ''authority_fingerprint'' b = Some (JStr (ex_authority_fingerprint r)) \<and>
     member ''risk_level'' b = Some (JStr (risk_value (ex_risk_level r))) \<and>
     member ''environment'' b = Some (JStr (environment_value (ex_environment r))) \<and>
     (case member ''packet_ref'' b of Some (JStr p) \<Rightarrow> \<not> all_space p | _ \<Rightarrow> False) \<and>
     member ''context_fingerprint'' b = Some (JStr (cx_fingerprint k)) \<and>
     cx_execution_id k = gq_execution_id q \<and> cx_role k = Maker \<and>
     member ''contract_fingerprint'' content = Some (JStr (ex_contract_fingerprint r)) \<and>
     member ''authority_fingerprint'' content = Some (JStr (ex_authority_fingerprint r)) \<and>
     member ''source_root'' content = member ''worktree_path'' b \<and>
     member ''branch'' content = Some (JStr (ex_branch r)) \<and>
     member ''base_commit'' content = Some (JStr (ex_base_commit r)) \<and>
     member ''current_commit'' content = Some (JStr (ex_base_commit r)) \<and>
     member ''risk'' content = Some (JStr (risk_value (ex_risk_level r))) \<and>
     member ''environment'' content = Some (JStr (environment_value (ex_environment r))) \<and>
     slice_identity (member ''slice'' content) = Some (JStr (gq_slice_id q))"

definition release_binding :: "release_binding_request \<Rightarrow> execution_row \<Rightarrow> slice_row \<Rightarrow> db \<Rightarrow> json result" where
  "release_binding q r s d =
    bnd (get_deferred_binding (gq_execution_id q) d) (\<lambda>b.
    let mismatch = Inl (StoreError ''PREBOUND_RELEASE_BINDING_MISMATCH'') in
    case member ''context_snapshot_id'' b of
      Some (JStr cid) \<Rightarrow> (case find_context cid d of
          None \<Rightarrow> mismatch
        | Some k \<Rightarrow> (case Option.bind (loads (cx_canonical_json k)) (member ''content'') of
              None \<Rightarrow> mismatch
            | Some content \<Rightarrow>
                if binding_coherent q b k content r (sc_fields s) then Inr b else mismatch))
    | _ \<Rightarrow> mismatch)"

definition released_target :: "ctx \<Rightarrow> slice_target \<Rightarrow> slice_target" where
  "released_target c s = with_fingerprint c (s\<lparr>
     sl_execution_eligibility := ''INELIGIBLE_UNTIL_PREFLIGHT'',
     sl_defer_reason := Some ''PREEXECUTION_BIND_SUPERSEDED'', sl_repository_toplevel := None,
     sl_branch := None, sl_base_commit := None, sl_implementation_result_commit := None,
     sl_current_branch_head := None, sl_active_execution_id := None\<rparr>)"

definition release_metadata :: "release_binding_request \<Rightarrow> json \<Rightarrow> json" where
  "release_metadata q b = (let old = (\<lambda>k. the (member k b)) in JObj
    [(''released_execution_id'', JStr (gq_execution_id q)),
     (''old_repository_toplevel'', old ''repository_toplevel''), (''old_worktree_path'', old ''worktree_path''),
     (''old_branch'', old ''branch''), (''old_base_commit'', old ''base_commit''),
     (''old_contract_fingerprint'', old ''contract_fingerprint''),
     (''old_authority_fingerprint'', old ''authority_fingerprint''),
     (''old_context_snapshot_id'', old ''context_snapshot_id''),
     (''old_context_fingerprint'', old ''context_fingerprint''),
     (''branch_created'', JBool (truthy (old ''branch_created''))),
     (''worktree_created'', JBool (truthy (old ''worktree_created''))),
     (''release_reason'', JStr (gq_reason q)), (''authority_ref'', JStr (gq_authority_ref q))])"

definition release_execution_json :: "release_binding_request \<Rightarrow> json" where
  "release_execution_json q = JObj
    [(''execution_id'', JStr (gq_execution_id q)), (''slice_id'', JStr (gq_slice_id q)),
     (''expected_execution_state_version'', JInt (gq_expected_version q)),
     (''expected_slice_state_version'', JInt (gq_expected_slice_version q)),
     (''release_reason'', JStr (gq_reason q)), (''authority_ref'', JStr (gq_authority_ref q))]"

definition release_writes ::
  "ctx \<Rightarrow> release_binding_request \<Rightarrow> execution_row \<Rightarrow> slice_row \<Rightarrow> json \<Rightarrow> db \<Rightarrow> db result" where
  "release_writes c q r s b d =
    (let i = gq_execution_id q; v = gq_expected_version q; w = gq_expected_slice_version q; now = clock c 1;
         target = released_target c (sc_fields s) in
     bnd (validate_slice_target c target) (\<lambda>_.
     bnd (bnd (update_at_version i v (\<lambda>x. x\<lparr>ex_state := CANCELLED, ex_state_version := ex_state_version x + 1,
            ex_current_actor_role := CONTROLLER, ex_updated_at := now\<rparr>) d) (\<lambda>(d1, n).
          if n \<noteq> 1 then Inl (StoreError ''STALE_EXECUTION_STATE_VERSION'') else Inr d1)) (\<lambda>d1.
     bnd (insert_event c 0 (event_from STATE_TRANSITION r (gq_operation_key q) CANCELLED CONTROLLER
            (gq_actor_id q) (ex_lease_generation r) ''PREEXECUTION_BIND_RELEASED'' (Some (gq_reason q))
            (dumps (release_execution_json q)) now) d1) (\<lambda>d2.
     bnd (insert_slice_event \<lparr>se_operation_key = gq_operation_key q, se_slice_id = gq_slice_id q,
            se_from_version = w, se_to_version = w + 1, se_reason_code = ''PREEXECUTION_RELEASE'',
            se_metadata_json = dumps (slice_change_json ''PREEXECUTION_RELEASE'' target (release_metadata q b)),
            se_created_at = now\<rparr> d2) (\<lambda>d3.
     cas_slice (gq_slice_id q) w target now d3)))))"

definition release_body :: "ctx \<Rightarrow> release_binding_request \<Rightarrow> db \<Rightarrow> ((json \<times> bool) \<times> db) result" where
  "release_body c q d =
    (case find (\<lambda>e. se_operation_key e = gq_operation_key q) (slice_events d) of
       Some e \<Rightarrow> bnd (release_replay q e d) (\<lambda>metadata. Inr ((metadata, True), d))
     | None \<Rightarrow> bnd (release_guard q d) (\<lambda>(r, s). bnd (release_binding q r s d) (\<lambda>b.
         bnd (release_writes c q r s b d) (\<lambda>d'. Inr ((release_metadata q b, False), d')))))"

definition release_deferred_preexecution_binding ::
  "ctx \<Rightarrow> release_binding_request \<Rightarrow> db \<Rightarrow> (execution_row \<times> slice_row \<times> json \<times> bool) result \<times> db" where
  "release_deferred_preexecution_binding c q = precheck (release_binding_validate q) (\<lambda>_ d.
    reading (\<lambda>(metadata, replayed) d'. bnd (get_execution (gq_execution_id q) d') (\<lambda>r.
        bnd (get_slice (gq_slice_id q) d') (\<lambda>s. Inr (r, s, metadata, replayed))))
      (transaction c (release_body c q) d))"

end
