(* ===== verification/High_Rework.thy ===== *)
theory High_Rework
  imports Evidence
begin

text \<open>
  The one human-authorised rework of a HIGH-risk execution (\<open>src/adcp/store/sqlite.py\<close>): the
  disposition that resumes a failed verification and makes it ready for rework, in two logged
  steps of one transaction, and the scheduling that consumes the approval.
\<close>

section \<open>authorize_high_rework\<close>

record high_rework_request =
  hq_execution_id :: string
  hq_expected_version :: int
  hq_resume_key :: string
  hq_ready_key :: string
  hq_approval_id :: string
  hq_authority_ref :: string
  hq_verification_id :: string
  hq_result_commit :: string
  hq_contract_fingerprint :: string
  hq_authority_fingerprint :: string
  hq_owner :: string
  hq_generation :: int
  hq_actor_id :: string

definition high_rework_validate :: "high_rework_request \<Rightarrow> unit result" where
  "high_rework_validate q =
    bnd (require_sha256 (hq_resume_key q)) (\<lambda>_.
    bnd (require_sha256 (hq_ready_key q)) (\<lambda>_.
    bnd (require_commit (hq_result_commit q)) (\<lambda>_.
    bnd (require_sha256 (hq_contract_fingerprint q)) (\<lambda>_.
    bnd (require_sha256 (hq_authority_fingerprint q)) (\<lambda>_.
    if [] \<in> {hq_approval_id q, hq_authority_ref q, hq_verification_id q}
    then Inl (StoreError ''INVALID_INPUT'') else Inr ())))))"

definition high_rework_json :: "high_rework_request \<Rightarrow> string \<Rightarrow> json" where
  "high_rework_json q phase = JObj
    [(''execution_id'', JStr (hq_execution_id q)),
     (''authorized_from_state_version'', JInt (hq_expected_version q)),
     (''approval_id'', JStr (hq_approval_id q)), (''authority_ref'', JStr (hq_authority_ref q)),
     (''verification_id'', JStr (hq_verification_id q)), (''result_commit'', JStr (hq_result_commit q)),
     (''contract_fingerprint'', JStr (hq_contract_fingerprint q)),
     (''authority_fingerprint'', JStr (hq_authority_fingerprint q)),
     (''lease_owner'', JStr (hq_owner q)), (''lease_generation'', JInt (hq_generation q)),
     (''step'', JStr phase)]"

text \<open>An approved, unconsumed HIGH approval of this execution and authority.\<close>

definition high_rework_approval :: "string \<Rightarrow> string \<Rightarrow> string \<Rightarrow> db \<Rightarrow> approval_row result" where
  "high_rework_approval i a authority_ref d =
    bnd (get_approval a d) (\<lambda>p.
    if ap_execution_id p \<noteq> i then Inl (StoreError ''APPROVAL_EXECUTION_MISMATCH'')
    else if ap_approval_type p \<noteq> ''HIGH_REWORK'' then Inl (StoreError ''HIGH_REWORK_APPROVAL_TYPE_MISMATCH'')
    else if ap_authority_ref p \<noteq> authority_ref then Inl (StoreError ''STALE_APPROVAL'')
    else if ap_consumed_at p \<noteq> None then Inl (StoreError ''APPROVAL_ALREADY_CONSUMED'')
    else if ap_status p \<noteq> APPROVED then Inl (StoreError ''HIGH_REWORK_APPROVAL_REQUIRED'')
    else Inr p)"

definition high_rework_verification :: "high_rework_request \<Rightarrow> db \<Rightarrow> unit result" where
  "high_rework_verification q d =
    bnd (get_verification (hq_verification_id q) d) (\<lambda>v.
    if vr_execution_id v \<noteq> hq_execution_id q \<or> vr_result_commit v \<noteq> hq_result_commit q
        \<or> vr_contract_fingerprint v \<noteq> hq_contract_fingerprint q
        \<or> vr_authority_fingerprint v \<noteq> hq_authority_fingerprint q \<or> vr_verdict v \<noteq> ''FAIL''
    then Inl (StoreError ''HIGH_REWORK_VERIFICATION_BINDING_MISMATCH'') else Inr ())"

text \<open>The guards of the transaction, up to the first update.\<close>

definition high_rework_guard :: "ctx \<Rightarrow> high_rework_request \<Rightarrow> db \<Rightarrow> execution_row result" where
  "high_rework_guard c q d =
    (let i = hq_execution_id q in
     bnd (get_execution i d) (\<lambda>r.
     bnd (require_fence r (hq_owner q) (hq_generation q) (clock c 1)) (\<lambda>_.
     if ex_state_version r \<noteq> hq_expected_version q then Inl (StoreError ''STALE_STATE_VERSION'')
     else if \<not> high_rework_stop r then Inl (StoreError ''HIGH_REWORK_STATE_INVALID'')
     else if ex_result_commit r \<noteq> Some (hq_result_commit q)
         \<or> ex_contract_fingerprint r \<noteq> hq_contract_fingerprint q
         \<or> ex_authority_fingerprint r \<noteq> hq_authority_fingerprint q
       then Inl (StoreError ''HIGH_REWORK_EXECUTION_BINDING_MISMATCH'')
     else bnd (single_completed_maker i (hq_result_commit q) d) (\<lambda>_.
       bnd (high_rework_verification q d) (\<lambda>_.
       bnd (high_rework_approval i (hq_approval_id q) (hq_authority_ref q) d) (\<lambda>_. Inr r))))))"

definition authorize_high_rework_body :: "ctx \<Rightarrow> high_rework_request \<Rightarrow> db \<Rightarrow> (unit \<times> db) result" where
  "authorize_high_rework_body c q d =
    (let i = hq_execution_id q; v = hq_expected_version q; now = clock c 1 in
     bnd (high_rework_guard c q d) (\<lambda>r.
     bnd (validate_transition BLOCKED VERIFYING (Some VERIFYING) None) (\<lambda>_.
     bnd (cas_execution i v (\<lambda>x. x\<lparr>ex_state := VERIFYING, ex_resume_state := None,
            ex_state_version := ex_state_version x + 1, ex_current_actor_role := CONTROLLER,
            ex_blocker_code := None, ex_blocker_detail := None, ex_updated_at := now\<rparr>) d) (\<lambda>d1.
     bnd (insert_event c 0 (event_from STATE_TRANSITION r (hq_resume_key q) VERIFYING CONTROLLER
            (hq_actor_id q) (hq_generation q) ''HUMAN_HIGH_REWORK_RESUME'' None
            (dumps (high_rework_json q ''resume_verifying'')) now) d1) (\<lambda>d2.
     bnd (validate_transition VERIFYING REWORK_READY None None) (\<lambda>_.
     bnd (cas_execution i (v + 1) (\<lambda>x. x\<lparr>ex_state := REWORK_READY,
            ex_state_version := ex_state_version x + 1, ex_current_actor_role := CONTROLLER,
            ex_updated_at := now\<rparr>) d2) (\<lambda>d3.
     bnd (insert_event c 1 (event_from STATE_TRANSITION (r\<lparr>ex_state := VERIFYING, ex_state_version := v + 1\<rparr>)
            (hq_ready_key q) REWORK_READY CONTROLLER (hq_actor_id q) (hq_generation q)
            ''HUMAN_AUTHORIZED_HIGH_REWORK'' None (dumps (high_rework_json q ''rework_ready'')) now) d3) (\<lambda>d4.
     Inr ((), d4)))))))))"

definition authorize_high_rework :: "ctx \<Rightarrow> high_rework_request \<Rightarrow> db \<Rightarrow> execution_row result \<times> db" where
  "authorize_high_rework c q = precheck (high_rework_validate q) (\<lambda>_ d.
    reading (\<lambda>_. get_execution (hq_execution_id q)) (transaction c (authorize_high_rework_body c q) d))"

section \<open>schedule_human_authorized_rework\<close>

record human_rework_request =
  jq_execution_id :: string
  jq_expected_version :: int
  jq_operation_key :: string
  jq_approval_id :: string
  jq_authority_ref :: string
  jq_owner :: string
  jq_generation :: int
  jq_actor_id :: string

definition human_rework_json :: "human_rework_request \<Rightarrow> nat \<Rightarrow> json" where
  "human_rework_json q seq = JObj
    [(''execution_id'', JStr (jq_execution_id q)),
     (''expected_state_version'', JInt (jq_expected_version q)),
     (''approval_id'', JStr (jq_approval_id q)), (''authority_ref'', JStr (jq_authority_ref q)),
     (''authorization_event_seq'', JInt (int seq)),
     (''lease_owner'', JStr (jq_owner q)), (''lease_generation'', JInt (jq_generation q))]"

text \<open>The latest authorisation in the log, which must be the step to the current version.\<close>

definition latest_authorization :: "string \<Rightarrow> db \<Rightarrow> event_row option" where
  "latest_authorization i d = find_last
    (\<lambda>e. ev_execution_id e = i \<and> ev_reason_code e = ''HUMAN_AUTHORIZED_HIGH_REWORK'') (events d)"

definition authorization_valid :: "human_rework_request \<Rightarrow> execution_row \<Rightarrow> event_row \<Rightarrow> unit result" where
  "authorization_valid q r e =
    (case loads (ev_metadata_json e) of
       None \<Rightarrow> Inl (StoreError ''HIGH_REWORK_AUTHORIZATION_INVALID'')
     | Some (JObj m) \<Rightarrow>
         (if map_of m ''approval_id'' \<noteq> Some (JStr (jq_approval_id q))
             \<or> map_of m ''authority_ref'' \<noteq> Some (JStr (jq_authority_ref q))
             \<or> map_of m ''result_commit'' \<noteq> map_option JStr (ex_result_commit r)
             \<or> map_of m ''contract_fingerprint'' \<noteq> Some (JStr (ex_contract_fingerprint r))
             \<or> map_of m ''authority_fingerprint'' \<noteq> Some (JStr (ex_authority_fingerprint r))
          then Inl (StoreError ''HIGH_REWORK_AUTHORIZATION_STALE'') else Inr ())
     | Some _ \<Rightarrow> Inl (PythonError ''AttributeError''))"

definition human_rework_guard :: "ctx \<Rightarrow> human_rework_request \<Rightarrow> db \<Rightarrow> (execution_row \<times> event_row) result" where
  "human_rework_guard c q d =
    (let i = jq_execution_id q; v = jq_expected_version q in
     bnd (get_execution i d) (\<lambda>r.
     bnd (require_fence r (jq_owner q) (jq_generation q) (clock c 1)) (\<lambda>_.
     if ex_state_version r \<noteq> v then Inl (StoreError ''STALE_STATE_VERSION'')
     else if ex_risk_level r \<noteq> HIGH \<or> ex_max_auto_reworks r \<noteq> 0 \<or> ex_state r \<noteq> REWORK_READY
         \<or> ex_maker_rework_count r \<noteq> 0
       then Inl (StoreError ''HIGH_REWORK_SCHEDULING_STATE_INVALID'')
     else (case ex_result_commit r of
         None \<Rightarrow> Inl (StoreError ''HIGH_REWORK_EXECUTION_BINDING_MISMATCH'')
       | Some commit \<Rightarrow>
           bnd (single_completed_maker i commit d) (\<lambda>_.
           bnd (get_approval (jq_approval_id q) d) (\<lambda>p.
           if ap_execution_id p \<noteq> i then Inl (StoreError ''APPROVAL_EXECUTION_MISMATCH'')
           else if ap_approval_type p \<noteq> ''HIGH_REWORK'' then Inl (StoreError ''HIGH_REWORK_APPROVAL_TYPE_MISMATCH'')
           else if ap_authority_ref p \<noteq> jq_authority_ref q then Inl (StoreError ''STALE_APPROVAL'')
           else if ap_status p \<noteq> APPROVED then Inl (StoreError ''HIGH_REWORK_APPROVAL_REQUIRED'')
           else if ap_consumed_at p \<noteq> None then Inl (StoreError ''APPROVAL_ALREADY_CONSUMED'')
           else (case latest_authorization i d of
               None \<Rightarrow> Inl (StoreError ''HIGH_REWORK_AUTHORIZATION_REQUIRED'')
             | Some e \<Rightarrow>
                 (if ev_to_version e \<noteq> v then Inl (StoreError ''HIGH_REWORK_AUTHORIZATION_REQUIRED'')
                  else bnd (authorization_valid q r e) (\<lambda>_. Inr (r, e))))))))))"

definition human_rework_body :: "ctx \<Rightarrow> human_rework_request \<Rightarrow> db \<Rightarrow> (unit \<times> db) result" where
  "human_rework_body c q d =
    (let i = jq_execution_id q; v = jq_expected_version q; now = clock c 1 in
     bnd (human_rework_guard c q d) (\<lambda>(r, e).
     bnd (update_approvals (\<lambda>p. ap_id p = jq_approval_id q \<and> ap_status p = APPROVED \<and> ap_consumed_at p = None)
            (\<lambda>p. p\<lparr>ap_consumed_at := Some now\<rparr>) d) (\<lambda>(d1, n).
     if n \<noteq> 1 then Inl (StoreError ''APPROVAL_ALREADY_CONSUMED'')
     else bnd (cas_execution i v (\<lambda>x. x\<lparr>ex_state := MAKER_RUNNING, ex_state_version := ex_state_version x + 1,
                 ex_current_actor_role := CONTROLLER, ex_updated_at := now\<rparr>) d1) (\<lambda>d2.
       bnd (insert_event c 0 (event_from STATE_TRANSITION r (jq_operation_key q) MAKER_RUNNING CONTROLLER
              (jq_actor_id q) (jq_generation q) ''HUMAN_AUTHORIZED_MAKER_REWORK_SCHEDULED'' None
              (dumps (human_rework_json q (ev_seq e))) now) d2) (\<lambda>d3. Inr ((), d3))))))"

definition schedule_human_authorized_rework ::
  "ctx \<Rightarrow> human_rework_request \<Rightarrow> db \<Rightarrow> execution_row result \<times> db" where
  "schedule_human_authorized_rework c q = precheck (require_sha256 (jq_operation_key q)) (\<lambda>_ d.
    reading (\<lambda>_. get_execution (jq_execution_id q)) (transaction c (human_rework_body c q) d))"

end
