(* ===== verification/Acceptance.thy ===== *)
theory Acceptance
  imports High_Rework
begin

text \<open>
  Acceptance of an execution (\<open>accept_execution\<close>, \<open>src/adcp/store/sqlite.py\<close>): the evidence
  manifest is compared with the rows it names, required approvals are consumed, and the
  execution becomes \<open>ACCEPTED\<close>, all in one transaction.
\<close>

section \<open>The manifest as a Python dictionary\<close>

record evidence_manifest =
  mf_fields :: "(string \<times> json) list"
  mf_canonical_json :: string
  mf_sha256 :: string

text \<open>\<open>d.get(key, default)\<close>, and \<open>.get\<close> on a value that may not be a dictionary.\<close>

definition dict_get :: "(string \<times> json) list \<Rightarrow> string \<Rightarrow> json \<Rightarrow> json" where
  "dict_get kvs k fallback = (case map_of kvs k of None \<Rightarrow> fallback | Some v \<Rightarrow> v)"

fun value_get :: "json \<Rightarrow> string \<Rightarrow> json result" where
  "value_get (JObj kvs) k = Inr (dict_get kvs k JNull)"
| "value_get _ k = Inl (PythonError ''AttributeError'')"

text \<open>Iterating a value: the elements of a list that are dictionaries; only a container iterates.\<close>

fun dict_items :: "json \<Rightarrow> (string \<times> json) list list result" where
  "dict_items (JList xs) = Inr (concat (map (\<lambda>x. case x of JObj kvs \<Rightarrow> [kvs] | _ \<Rightarrow> []) xs))"
| "dict_items (JStr _) = Inr []"
| "dict_items (JObj _) = Inr []"
| "dict_items _ = Inl (PythonError ''TypeError'')"

fun hashable :: "json \<Rightarrow> bool" where
  "hashable (JList _) = False"
| "hashable (JObj _) = False"
| "hashable _ = True"

text \<open>A value bound to a \<open>TEXT NOT NULL\<close> column.\<close>

fun bind_text :: "json \<Rightarrow> string result" where
  "bind_text (JStr s) = Inr s"
| "bind_text (JInt i) = Inr (int_text i)"
| "bind_text (JBool b) = Inr (if b then ''1'' else ''0'')"
| "bind_text JNull = Inl (IntegrityError ''NOT NULL'')"
| "bind_text _ = Inl (PythonError ''sqlite3.InterfaceError'')"

definition dict_index :: "(string \<times> json) list \<Rightarrow> string \<Rightarrow> json result" where
  "dict_index kvs k = of_option (PythonError ''KeyError'') (map_of kvs k)"

section \<open>accept_execution\<close>

record accept_request =
  kq_execution_id :: string
  kq_expected_version :: int
  kq_operation_key :: string
  kq_manifest :: evidence_manifest
  kq_owner :: string
  kq_generation :: int
  kq_approval_id :: "string option"
  kq_approval_authority_ref :: "string option"
  kq_actor_id :: string

record evidence_ids =
  id_maker :: string
  id_verification :: string
  id_evaluator :: string
  id_evaluation :: string

definition evidence_id :: "(string \<times> json) list \<Rightarrow> string \<Rightarrow> string \<Rightarrow> json result" where
  "evidence_id flds section key = value_get (dict_get flds section (JObj [])) key"

definition evidence_ids_of :: "(string \<times> json) list \<Rightarrow> evidence_ids result" where
  "evidence_ids_of flds =
    bnd (evidence_id flds ''maker_attempt_evidence'' ''attempt_id'') (\<lambda>maker.
    bnd (evidence_id flds ''verification_evidence'' ''verification_id'') (\<lambda>verification.
    bnd (evidence_id flds ''evaluator_attempt_evidence'' ''attempt_id'') (\<lambda>evaluator.
    bnd (evidence_id flds ''evaluation_evidence'' ''evaluation_id'') (\<lambda>evaluation.
    case (maker, verification, evaluator, evaluation) of
      (JStr m, JStr v, JStr e, JStr x) \<Rightarrow>
        (if [] \<in> {m, v, e, x} then Inl (StoreError ''EVIDENCE_MANIFEST_INVALID'')
         else Inr \<lparr>id_maker = m, id_verification = v, id_evaluator = e, id_evaluation = x\<rparr>)
    | _ \<Rightarrow> Inl (StoreError ''EVIDENCE_MANIFEST_INVALID'')))))"

definition accept_validate :: "ctx \<Rightarrow> accept_request \<Rightarrow> evidence_ids result" where
  "accept_validate c q =
    bnd (require_sha256 (kq_operation_key q)) (\<lambda>_.
    bnd (canonical_json (json_to_py (JObj (mf_fields (kq_manifest q))))) (\<lambda>text.
    if text \<noteq> mf_canonical_json (kq_manifest q) \<or> sha c text \<noteq> mf_sha256 (kq_manifest q)
    then Inl (StoreError ''EVIDENCE_MANIFEST_CANONICAL_MISMATCH'')
    else evidence_ids_of (mf_fields (kq_manifest q))))"

definition accept_request_json :: "accept_request \<Rightarrow> json" where
  "accept_request_json q = JObj
    [(''execution_id'', JStr (kq_execution_id q)),
     (''expected_state_version'', JInt (kq_expected_version q)),
     (''manifest_sha256'', JStr (mf_sha256 (kq_manifest q))),
     (''approval_id'', json_opt (kq_approval_id q)),
     (''approval_authority_ref'', json_opt (kq_approval_authority_ref q)),
     (''lease_owner'', JStr (kq_owner q)), (''lease_generation'', JInt (kq_generation q))]"

definition manifest_binds :: "(string \<times> json) list \<Rightarrow> execution_row \<Rightarrow> bool" where
  "manifest_binds flds r \<longleftrightarrow>
     dict_get flds ''execution_id'' JNull = JStr (ex_id r) \<and>
     dict_get flds ''slice_id'' JNull = JStr (ex_slice_id r) \<and>
     dict_get flds ''contract_fingerprint'' JNull = JStr (ex_contract_fingerprint r) \<and>
     dict_get flds ''authority_fingerprint'' JNull = JStr (ex_authority_fingerprint r) \<and>
     dict_get flds ''base_commit'' JNull = JStr (ex_base_commit r) \<and>
     dict_get flds ''result_commit'' JNull = json_opt (ex_result_commit r)"

definition get_evaluation :: "string \<Rightarrow> db \<Rightarrow> evaluation_row result" where
  "get_evaluation i d = of_option (StoreError ''EVALUATION_RESULT_NOT_FOUND'') (find_evaluation i d)"

text \<open>The four rows the manifest names, each of this execution, commit and authority, each a success.\<close>

definition evidence_exact ::
  "execution_row \<Rightarrow> attempt_row \<Rightarrow> attempt_row \<Rightarrow> verification_row \<Rightarrow> evaluation_row \<Rightarrow> bool" where
  "evidence_exact r maker evaluator v e \<longleftrightarrow>
     at_execution_id maker = ex_id r \<and> at_role maker = Maker \<and> at_status maker = SUCCEEDED \<and>
     at_result_commit maker = ex_result_commit r \<and>
     at_execution_id evaluator = ex_id r \<and> at_role evaluator = Evaluator \<and>
     at_status evaluator = SUCCEEDED \<and> at_result_commit evaluator = ex_result_commit r \<and>
     vr_execution_id v = ex_id r \<and> Some (vr_result_commit v) = ex_result_commit r \<and>
     vr_contract_fingerprint v = ex_contract_fingerprint r \<and>
     vr_authority_fingerprint v = ex_authority_fingerprint r \<and> vr_verdict v = ''PASS'' \<and>
     er_execution_id e = ex_id r \<and> er_attempt_id e = at_id evaluator \<and>
     Some (er_result_commit e) = ex_result_commit r \<and>
     er_contract_fingerprint e = ex_contract_fingerprint r \<and>
     er_authority_fingerprint e = ex_authority_fingerprint r \<and> er_verdict e = ''PASS''"

definition manifest_claims_success :: "(string \<times> json) list \<Rightarrow> bool" where
  "manifest_claims_success flds \<longleftrightarrow>
     evidence_id flds ''maker_attempt_evidence'' ''status'' = Inr (JStr ''SUCCEEDED'') \<and>
     evidence_id flds ''verification_evidence'' ''verdict'' = Inr (JStr ''PASS'') \<and>
     evidence_id flds ''evaluator_attempt_evidence'' ''status'' = Inr (JStr ''SUCCEEDED'') \<and>
     evidence_id flds ''evaluation_evidence'' ''verdict'' = Inr (JStr ''PASS'')"

definition accept_evidence ::
  "(string \<times> json) list \<Rightarrow> evidence_ids \<Rightarrow> execution_row \<Rightarrow> db \<Rightarrow> (attempt_row \<times> attempt_row) result" where
  "accept_evidence flds ids r d =
    bnd (get_attempt (id_maker ids) d) (\<lambda>maker.
    bnd (get_attempt (id_evaluator ids) d) (\<lambda>evaluator.
    bnd (get_verification (id_verification ids) d) (\<lambda>v.
    bnd (get_evaluation (id_evaluation ids) d) (\<lambda>e.
    if \<not> evidence_exact r maker evaluator v e \<or> \<not> manifest_claims_success flds
    then Inl (StoreError ''ACCEPTANCE_BINDING_MISMATCH'') else Inr (maker, evaluator)))))"

definition context_triple :: "attempt_row \<Rightarrow> db \<Rightarrow> (json \<times> json \<times> json) result" where
  "context_triple a d = bnd (get_context (at_context_id a) d) (\<lambda>x.
     Inr (JStr (capsule_role_value (at_role a)), JStr (at_context_id a), JStr (cx_fingerprint x)))"

definition item_triple :: "(string \<times> json) list \<Rightarrow> (json \<times> json \<times> json) result" where
  "item_triple kvs =
    (let triple = (dict_get kvs ''role'' JNull, dict_get kvs ''context_snapshot_id'' JNull,
                   dict_get kvs ''fingerprint'' JNull) in
     if hashable (fst triple) \<and> hashable (fst (snd triple)) \<and> hashable (snd (snd triple))
     then Inr triple else Inl (PythonError ''TypeError''))"

definition accept_contexts :: "(string \<times> json) list \<Rightarrow> attempt_row \<Rightarrow> attempt_row \<Rightarrow> db \<Rightarrow> unit result" where
  "accept_contexts flds maker evaluator d =
    bnd (context_triple maker d) (\<lambda>m. bnd (context_triple evaluator d) (\<lambda>e.
    bnd (dict_items (dict_get flds ''context_fingerprints'' (JList []))) (\<lambda>items.
    bnd (seq_results (map item_triple items)) (\<lambda>manifested.
    if set manifested \<noteq> {m, e} then Inl (StoreError ''ACCEPTANCE_CONTEXT_MISMATCH'') else Inr ()))))"

fun event_type_value :: "event_type \<Rightarrow> string" where
  "event_type_value EXECUTION_CREATED = ''EXECUTION_CREATED''"
| "event_type_value STATE_TRANSITION = ''STATE_TRANSITION''"
| "event_type_value LEASE_ACQUIRED = ''LEASE_ACQUIRED''"
| "event_type_value LEASE_RELEASED = ''LEASE_RELEASED''"
| "event_type_value RESULT_COMMIT_REGISTERED = ''RESULT_COMMIT_REGISTERED''"
| "event_type_value ACCEPTED_EVENT = ''ACCEPTED''"

definition event_evidence :: "event_row \<Rightarrow> json" where
  "event_evidence e = JObj
    [(''event_id'', JStr (ev_event_id e)), (''event_type'', JStr (event_type_value (ev_event_type e))),
     (''to_state'', JStr (state_value (ev_to_state e))), (''to_state_version'', JInt (ev_to_version e))]"

definition accept_transitions :: "(string \<times> json) list \<Rightarrow> string \<Rightarrow> db \<Rightarrow> unit result" where
  "accept_transitions flds i d =
    bnd (canonical_json (json_to_py (dict_get flds ''transition_evidence'' (JList [])))) (\<lambda>text.
    if text \<noteq> dumps (JList (map event_evidence (events_of i d)))
    then Inl (StoreError ''ACCEPTANCE_TRANSITION_EVIDENCE_MISMATCH'') else Inr ())"

text \<open>The digest an approval of this acceptance must carry: it binds the state it was asked in.\<close>

definition approval_digest :: "ctx \<Rightarrow> accept_request \<Rightarrow> evidence_ids \<Rightarrow> execution_row \<Rightarrow> string" where
  "approval_digest c q ids r = sha c (dumps (JObj
    [(''execution_id'', JStr (kq_execution_id q)),
     (''state_version'', JInt (kq_expected_version q - 1)),
     (''result_commit'', json_opt (ex_result_commit r)),
     (''evaluation_id'', JStr (id_evaluation ids)),
     (''contract_fingerprint'', JStr (ex_contract_fingerprint r)),
     (''authority_fingerprint'', JStr (ex_authority_fingerprint r))]))"

definition names_approval :: "string \<Rightarrow> string \<Rightarrow> (string \<times> json) list \<Rightarrow> bool" where
  "names_approval a ref kvs \<longleftrightarrow> dict_get kvs ''approval_id'' JNull = JStr a
     \<and> dict_get kvs ''authority_ref'' JNull = JStr ref \<and> dict_get kvs ''status'' JNull = JStr ''APPROVED''"

definition accept_approval ::
  "ctx \<Rightarrow> accept_request \<Rightarrow> (string \<times> json) list \<Rightarrow> evidence_ids \<Rightarrow> execution_row \<Rightarrow> db \<Rightarrow> db result" where
  "accept_approval c q flds ids r d =
    (let i = kq_execution_id q; now = clock c 1 in
     if row_count (\<lambda>p. ap_execution_id p = i \<and> ap_required p = 1) (approvals d) \<noteq> 0 then
       (case (kq_approval_id q, kq_approval_authority_ref q) of
          (Some a, Some ref) \<Rightarrow>
            bnd (get_approval a d) (\<lambda>p.
            if ap_execution_id p \<noteq> i \<or> ap_authority_ref p \<noteq> ref \<or> ref \<noteq> approval_digest c q ids r
                \<or> ap_status p \<noteq> APPROVED \<or> ap_consumed_at p \<noteq> None
              then Inl (StoreError ''APPROVAL_BINDING_MISMATCH'')
            else bnd (dict_items (dict_get flds ''approval_refs'' (JList []))) (\<lambda>items.
              if \<not> list_ex (names_approval a ref) items then Inl (StoreError ''APPROVAL_BINDING_MISMATCH'')
              else bnd (update_approvals (\<lambda>x. ap_id x = a \<and> ap_consumed_at x = None)
                     (\<lambda>x. x\<lparr>ap_consumed_at := Some now\<rparr>) d) (\<lambda>(d1, n).
                if n \<noteq> 1 then Inl (StoreError ''APPROVAL_ALREADY_CONSUMED'') else Inr d1)))
        | _ \<Rightarrow> Inl (StoreError ''APPROVAL_REQUIRED''))
     else if kq_approval_id q \<noteq> None then Inl (StoreError ''UNEXPECTED_APPROVAL'')
     else if truthy (dict_get flds ''approval_refs'' (JList [])) then Inl (StoreError ''UNEXPECTED_APPROVAL'')
     else Inr d)"

definition manifest_row_of ::
  "accept_request \<Rightarrow> (string \<times> json) list \<Rightarrow> evidence_ids \<Rightarrow> execution_row \<Rightarrow> manifest_row result" where
  "manifest_row_of q flds ids r =
    bnd (dict_index flds ''manifest_id'') (\<lambda>mid. bnd (dict_index flds ''created_at'') (\<lambda>created.
    bnd (canonical_json (json_to_py (dict_get flds ''approval_refs'' (JList [])))) (\<lambda>refs.
    bnd (canonical_json (json_to_py (dict_get flds ''context_fingerprints'' (JList [])))) (\<lambda>contexts.
    bnd (canonical_json (json_to_py (dict_get flds ''transition_evidence'' (JList [])))) (\<lambda>transitions.
    bnd (bind_text mid) (\<lambda>mid_text. bnd (bind_text created) (\<lambda>created_text.
    Inr \<lparr>em_id = mid_text, em_execution_id = ex_id r, em_slice_id = ex_slice_id r,
      em_contract_fingerprint = ex_contract_fingerprint r,
      em_authority_fingerprint = ex_authority_fingerprint r, em_base_commit = ex_base_commit r,
      em_result_commit = the (ex_result_commit r), em_maker_attempt_id = id_maker ids,
      em_verification_id = id_verification ids, em_evaluator_attempt_id = id_evaluator ids,
      em_evaluation_id = id_evaluation ids, em_approval_refs_json = refs,
      em_context_fingerprints_json = contexts, em_transition_evidence_json = transitions,
      em_canonical_json = mf_canonical_json (kq_manifest q), em_created_at = created_text,
      em_manifest_sha256 = mf_sha256 (kq_manifest q)\<rparr>)))))))"

text \<open>The guards up to the approval: what a state must show to be accepted.\<close>

definition accept_guard :: "ctx \<Rightarrow> accept_request \<Rightarrow> evidence_ids \<Rightarrow> db \<Rightarrow> execution_row result" where
  "accept_guard c q ids d =
    (let flds = mf_fields (kq_manifest q); i = kq_execution_id q in
     bnd (get_execution i d) (\<lambda>r.
     bnd (require_fence r (kq_owner q) (kq_generation q) (clock c 1)) (\<lambda>_.
     if ex_state_version r \<noteq> kq_expected_version q then Inl (StoreError ''STALE_STATE_VERSION'')
     else if ex_state r \<noteq> EVALUATING then Inl (StoreError ''ACCEPTANCE_STATE_INVALID'')
     else if \<not> manifest_binds flds r \<or> ex_result_commit r = None
       then Inl (StoreError ''ACCEPTANCE_BINDING_MISMATCH'')
     else bnd (accept_evidence flds ids r d) (\<lambda>(maker, evaluator).
       bnd (accept_contexts flds maker evaluator d) (\<lambda>_.
       bnd (accept_transitions flds i d) (\<lambda>_. Inr r))))))"

definition accept_body :: "ctx \<Rightarrow> accept_request \<Rightarrow> evidence_ids \<Rightarrow> db \<Rightarrow> (unit \<times> db) result" where
  "accept_body c q ids d =
    (let i = kq_execution_id q; now = clock c 1; payload = dumps (accept_request_json q) in
     bnd (existing_event i (kq_operation_key q) ACCEPTED_EVENT payload d) (\<lambda>existing.
     if existing \<noteq> None then Inr ((), d)
     else bnd (accept_guard c q ids d) (\<lambda>r.
       bnd (accept_approval c q (mf_fields (kq_manifest q)) ids r d) (\<lambda>d1.
       bnd (manifest_row_of q (mf_fields (kq_manifest q)) ids r) (\<lambda>m.
       bnd (insert_manifest m d1) (\<lambda>d2.
       bnd (update_executions (\<lambda>x. ex_id x = i \<and> ex_state_version x = kq_expected_version q
              \<and> ex_lease_owner x = Some (kq_owner q) \<and> ex_lease_generation x = kq_generation q
              \<and> (case ex_lease_expires_at x of None \<Rightarrow> False | Some e \<Rightarrow> now < e))
              (\<lambda>x. x\<lparr>ex_state := ACCEPTED, ex_resume_state := None, ex_state_version := ex_state_version x + 1,
                 ex_current_actor_role := CONTROLLER, ex_accepted_at := Some now, ex_updated_at := now\<rparr>) d2)
         (\<lambda>(d3, n).
         if n \<noteq> 1 then Inl (StoreError ''STALE_FENCING_TOKEN'')
         else bnd (insert_event c 0 (event_from ACCEPTED_EVENT r (kq_operation_key q) ACCEPTED CONTROLLER
                (kq_actor_id q) (kq_generation q) ''EVIDENCE_ACCEPTED'' None payload now) d3)
           (\<lambda>d4. Inr ((), d4)))))))))"

definition accept_execution :: "ctx \<Rightarrow> accept_request \<Rightarrow> db \<Rightarrow> execution_row result \<times> db" where
  "accept_execution c q = precheck (accept_validate c q) (\<lambda>ids d.
    reading (\<lambda>_. get_execution (kq_execution_id q)) (transaction c (accept_body c q ids) d))"

end
