(* ===== verification/Execution_Laws.thy ===== *)
theory Execution_Laws
  imports Deferred Acceptance
begin

text \<open>
  What the store promises of executions, as an abstract machine: a map of executions with one
  log, moved by creation, by logged moves and by lease renewals. The invariants are proved of
  the machine; the operations are shown to refine it in \<open>Execution_Refinement\<close>.
\<close>

section \<open>The abstract machine\<close>

type_synonym exec_view = "(string \<Rightarrow> execution_row option) \<times> event_row list"

definition exec_view :: "db \<Rightarrow> exec_view" where
  "exec_view d = (\<lambda>i. find_execution i d, events d)"

text \<open>The columns no operation changes.\<close>

definition same_identity :: "execution_row \<Rightarrow> execution_row \<Rightarrow> bool" where
  "same_identity r r' \<longleftrightarrow>
     ex_id r' = ex_id r \<and> ex_create_key r' = ex_create_key r \<and> ex_slice_id r' = ex_slice_id r \<and>
     ex_risk_level r' = ex_risk_level r \<and> ex_environment r' = ex_environment r \<and>
     ex_contract_fingerprint r' = ex_contract_fingerprint r \<and>
     ex_authority_fingerprint r' = ex_authority_fingerprint r \<and>
     ex_source_root r' = ex_source_root r \<and> ex_branch r' = ex_branch r \<and>
     ex_base_commit r' = ex_base_commit r \<and> ex_max_auto_reworks r' = ex_max_auto_reworks r \<and>
     ex_created_at r' = ex_created_at r"

text \<open>
  What the log accounts for: state, resume state, result commit and the number of automatic reworks.
\<close>

record standing =
  sd_state :: exec_state
  sd_resume :: "exec_state option"
  sd_commit :: "string option"
  sd_reworks :: int

definition standing :: "execution_row \<Rightarrow> standing" where
  "standing r = \<lparr>sd_state = ex_state r, sd_resume = ex_resume_state r, sd_commit = ex_result_commit r,
     sd_reworks = ex_maker_rework_count r\<rparr>"

text \<open>
  What an event names in its request: the resume state that is stored, the commit that is
  registered, a rework that is scheduled automatically.
\<close>

definition resume_named :: "event_row \<Rightarrow> exec_state option \<Rightarrow> bool" where
  "resume_named e s \<longleftrightarrow> s = None \<or> (\<exists>q. ev_metadata_json e = dumps (transition_request_json q)
     \<and> tq_to_state q = ev_to_state e \<and> tq_resume_state q = s)"

definition commit_named :: "event_row \<Rightarrow> string \<Rightarrow> bool" where
  "commit_named e commit \<longleftrightarrow>
     (\<exists>q. ev_metadata_json e = dumps (result_request_json q) \<and> cq_result_commit q = commit) \<or>
     (\<exists>q. ev_metadata_json e = dumps (finalize_json q) \<and> fq_result_commit q = commit)"

definition reschedules :: "event_row \<Rightarrow> bool" where
  "reschedules e \<longleftrightarrow> ev_event_type e = STATE_TRANSITION \<and> ev_reason_code e = ''MAKER_REWORK_SCHEDULED''
     \<and> (\<exists>q. ev_metadata_json e = dumps (rework_request_json q))"

text \<open>
  A move of the transition table: what \<open>validate_transition\<close> allows, out of a block to the stored
  resume state or to \<open>CANCELLED\<close> only.
\<close>

definition table_move :: "standing \<Rightarrow> event_row \<Rightarrow> standing \<Rightarrow> bool" where
  "table_move s e t \<longleftrightarrow> may_become (sd_state s) (sd_resume s) (sd_state t) (sd_resume t)
     \<and> resume_named e (sd_resume t) \<and> sd_commit t = sd_commit s
     \<and> (if reschedules e
        then sd_state s = REWORK_READY \<and> sd_state t = MAKER_RUNNING \<and> sd_reworks t = sd_reworks s + 1
        else sd_reworks t = sd_reworks s)"

text \<open>
  The closure of a candidate (\<open>_record_candidate_commit_closure\<close>): the one move that is not of the
  transition table. It gives an execution that waits for approval and has no result commit yet the
  commit of the recorded closure, which its event names, and sends it back to verification.
\<close>

definition closure_note :: "candidate_closure_row \<Rightarrow> json" where
  "closure_note k = JObj
    [(''candidate_id'', JStr (cc_candidate_id k)), (''evaluation_id'', JStr (cc_evaluation_id k)),
     (''approval_id'', JStr (cc_approval_id k)), (''result_commit'', JStr (cc_result_commit k)),
     (''closure_id'', JStr (cc_closure_id k))]"

definition closure_move :: "candidate_closure_row \<Rightarrow> standing \<Rightarrow> event_row \<Rightarrow> standing \<Rightarrow> bool" where
  "closure_move k s e t \<longleftrightarrow> sd_state s = WAITING_APPROVAL \<and> sd_commit s = None
     \<and> t = s\<lparr>sd_state := VERIFYING, sd_resume := None, sd_commit := Some (cc_result_commit k)\<rparr>
     \<and> ev_event_type e = STATE_TRANSITION \<and> ev_reason_code e = ''PRECOMMIT_COMMIT_CLOSED''
     \<and> ev_execution_id e = cc_execution_id k \<and> ev_metadata_json e = dumps (closure_note k)"

text \<open>
  What one event makes of a standing, given the closures on record: the events of a lease leave it,
  the registration of a result changes the commit only, every other one is a move of the table or
  the closure of a candidate.
\<close>

definition edge :: "candidate_closure_row set \<Rightarrow> standing \<Rightarrow> event_row \<Rightarrow> standing \<Rightarrow> bool" where
  "edge K s e t \<longleftrightarrow> ev_to_state e = sd_state t \<and>
     (case ev_event_type e of
        EXECUTION_CREATED \<Rightarrow> False
      | LEASE_ACQUIRED \<Rightarrow> t = s \<and> sd_state s \<notin> terminal_states
      | LEASE_RELEASED \<Rightarrow> t = s
      | RESULT_COMMIT_REGISTERED \<Rightarrow> (\<exists>commit. commit_named e commit \<and> t = s\<lparr>sd_commit := Some commit\<rparr>)
      | STATE_TRANSITION \<Rightarrow> sd_state t \<noteq> ACCEPTED \<and> (table_move s e t \<or> (\<exists>k\<in>K. closure_move k s e t))
      | ACCEPTED_EVENT \<Rightarrow> sd_state t = ACCEPTED \<and> table_move s e t)"

text \<open>
  Who may move it: an acquisition starts the next lease generation of a live execution; the
  release of an untouched binding needs no lease; everything else is done under the current
  lease and leaves its generation.
\<close>

definition lease_move :: "execution_row \<Rightarrow> execution_row \<Rightarrow> event_row \<Rightarrow> bool" where
  "lease_move r r' e \<longleftrightarrow>
     (if ev_event_type e = LEASE_ACQUIRED
      then ex_lease_generation r' = ex_lease_generation r + 1 \<and> ev_lease_generation e = ex_lease_generation r'
        \<and> ex_state r' = ex_state r \<and> ex_state r \<notin> terminal_states
      else ex_lease_generation r' = ex_lease_generation r \<and> ev_lease_generation e = ex_lease_generation r
        \<and> (ex_lease_owner r \<noteq> None \<or> ex_state r = READY \<and> ex_state r' = CANCELLED))"

definition moved :: "candidate_closure_row set \<Rightarrow> execution_row \<Rightarrow> execution_row \<Rightarrow> event_row \<Rightarrow> bool" where
  "moved K r r' e \<longleftrightarrow>
     same_identity r r' \<and> ex_state_version r' = ex_state_version r + 1 \<and> execution_check r' \<and>
     ev_execution_id e = ex_id r \<and> ev_event_type e \<noteq> EXECUTION_CREATED \<and>
     ev_from_state e = Some (ex_state r) \<and> ev_to_state e = ex_state r' \<and>
     ev_from_version e = ex_state_version r \<and> ev_to_version e = ex_state_version r' \<and>
     edge K (standing r) e (standing r') \<and> lease_move r r' e"

definition fresh :: "execution_row \<Rightarrow> event_row \<Rightarrow> bool" where
  "fresh r e \<longleftrightarrow>
     ex_state r = READY \<and> ex_resume_state r = None \<and> ex_state_version r = 0 \<and> ex_lease_generation r = 0 \<and>
     ex_maker_rework_count r = 0 \<and> ex_result_commit r = None \<and> execution_check r \<and>
     ev_execution_id e = ex_id r \<and> ev_event_type e = EXECUTION_CREATED \<and> ev_to_state e = READY \<and>
     ev_to_version e = 0 \<and> ev_lease_generation e = 0"

inductive exec_step :: "candidate_closure_row set \<Rightarrow> exec_view \<Rightarrow> exec_view \<Rightarrow> bool" for K where
  created: "m (ex_id r) = None \<Longrightarrow> fresh r e \<Longrightarrow> exec_step K (m, es) (m(ex_id r \<mapsto> r), es @ [e])"
| moves: "m (ex_id r) = Some r \<Longrightarrow> moved K r r' e \<Longrightarrow> exec_step K (m, es) (m(ex_id r \<mapsto> r'), es @ [e])"
| renewed: "m (ex_id r) = Some r \<Longrightarrow> r' = r\<lparr>ex_lease_expires_at := Some x, ex_updated_at := t\<rparr>
     \<Longrightarrow> execution_check r' \<Longrightarrow> exec_step K (m, es) (m(ex_id r \<mapsto> r'), es)"

inductive_cases exec_stepE: "exec_step K s t"

text \<open>A longer record of closures allows no less.\<close>

lemma edge_mono: "K \<subseteq> L \<Longrightarrow> edge K s e t \<Longrightarrow> edge L s e t"
  by (auto simp: edge_def split: event_type.splits)

lemma moved_mono: "K \<subseteq> L \<Longrightarrow> moved K r r' e \<Longrightarrow> moved L r r' e"
  by (simp add: moved_def edge_mono)

lemma exec_step_mono:
  assumes "K \<subseteq> L" and "exec_step K s t"
  shows "exec_step L s t"
  using assms(2) by (cases rule: exec_step.cases) (auto intro: exec_step.intros moved_mono [OF assms(1)])

lemma exec_steps_mono: "K \<subseteq> L \<Longrightarrow> (exec_step K)\<^sup>*\<^sup>* s t \<Longrightarrow> (exec_step L)\<^sup>*\<^sup>* s t"
  by (erule rtranclp_mono [THEN predicate2D, rotated]) (auto intro: exec_step_mono)

section \<open>The log explains the execution\<close>

definition log_of :: "string \<Rightarrow> event_row list \<Rightarrow> event_row list" where
  "log_of i es = filter (\<lambda>e. ev_execution_id e = i) es"

lemma log_of_snoc [simp]:
  "log_of i (es @ [e]) = (if ev_execution_id e = i then log_of i es @ [e] else log_of i es)"
  by (simp add: log_of_def)

text \<open>
  A chain of events from one standing to another, at versions that count them and under lease
  generations that rise on acquisitions only.
\<close>

fun linked :: "candidate_closure_row set \<Rightarrow> standing \<Rightarrow> int \<Rightarrow> int \<Rightarrow> event_row list \<Rightarrow> standing \<Rightarrow> bool" where
  "linked K s v g [] t \<longleftrightarrow> t = s"
| "linked K s v g (e # es) t \<longleftrightarrow> ev_from_state e = Some (sd_state s) \<and> ev_from_version e = v \<and> ev_to_version e = v + 1
     \<and> ev_lease_generation e = (if ev_event_type e = LEASE_ACQUIRED then g + 1 else g)
     \<and> (\<exists>u. edge K s e u \<and> linked K u (v + 1) (ev_lease_generation e) es t)"

definition end_generation :: "int \<Rightarrow> event_row list \<Rightarrow> int" where
  "end_generation g es = (if es = [] then g else ev_lease_generation (last es))"

lemma linked_snoc: "linked K s v g (es @ [e]) t \<longleftrightarrow> (\<exists>u. linked K s v g es u
    \<and> ev_from_state e = Some (sd_state u) \<and> ev_from_version e = v + int (length es)
    \<and> ev_to_version e = v + int (length es) + 1 \<and> edge K u e t
    \<and> ev_lease_generation e = (if ev_event_type e = LEASE_ACQUIRED then end_generation g es + 1
        else end_generation g es))"
proof (induction es arbitrary: s v g)
  case (Cons a es)
  show ?case by (auto simp: Cons.IH end_generation_def algebra_simps)
qed (auto simp: end_generation_def)

text \<open>Along a chain, the automatic reworks are counted.\<close>

lemma edge_reworks: "edge K s e t \<Longrightarrow> sd_reworks t = sd_reworks s + (if reschedules e then 1 else 0)"
  by (auto simp: edge_def table_move_def closure_move_def reschedules_def split: event_type.splits if_splits)

lemma linked_reworks: "linked K s v g es t \<Longrightarrow> sd_reworks t = sd_reworks s + int (length (filter reschedules es))"
  by (induction es arbitrary: s v g) (auto dest: edge_reworks)

text \<open>
  The log of an execution starts with its creation, links the fresh standing at version 0 to its
  present standing and version step by step, and ends with its present lease generation.
\<close>

definition fresh_standing :: standing where
  "fresh_standing = \<lparr>sd_state = READY, sd_resume = None, sd_commit = None, sd_reworks = 0\<rparr>"

definition explains :: "candidate_closure_row set \<Rightarrow> event_row list \<Rightarrow> execution_row \<Rightarrow> bool" where
  "explains K l r \<longleftrightarrow> (\<exists>e rest. l = e # rest \<and> ev_event_type e = EXECUTION_CREATED \<and> ev_to_state e = READY
     \<and> ev_to_version e = 0 \<and> linked K fresh_standing 0 0 rest (standing r)
     \<and> ex_state_version r = int (length rest) \<and> ex_lease_generation r = end_generation 0 rest)"

text \<open>The log counts the automatic reworks of the row.\<close>

lemma explains_reworks:
  assumes "explains K l r"
  shows "ex_maker_rework_count r = int (length (filter reschedules l))"
proof -
  from assms obtain e rest where "l = e # rest" "ev_event_type e = EXECUTION_CREATED"
      "linked K fresh_standing 0 0 rest (standing r)"
    by (auto simp: explains_def)
  with linked_reworks [of K fresh_standing 0 0 rest "standing r"] show ?thesis
    by (simp add: reschedules_def fresh_standing_def standing_def)
qed

fun exec_ok :: "candidate_closure_row set \<Rightarrow> exec_view \<Rightarrow> bool" where
  "exec_ok K (m, es) \<longleftrightarrow> (\<forall>i. case m i of None \<Rightarrow> log_of i es = []
     | Some r \<Rightarrow> ex_id r = i \<and> execution_check r \<and> explains K (log_of i es) r)"

lemma exec_okD:
  assumes "exec_ok K (m, es)"
  shows "m i = None \<Longrightarrow> log_of i es = []"
    and "m i = Some r \<Longrightarrow> ex_id r = i" and "m i = Some r \<Longrightarrow> execution_check r"
    and "m i = Some r \<Longrightarrow> explains K (log_of i es) r"
  using assms by (auto split: option.splits dest: spec [of _ i])

lemma explains_fresh: "fresh r e \<Longrightarrow> explains K [e] r"
  by (auto simp: explains_def fresh_def standing_def fresh_standing_def end_generation_def)

lemma explains_moved:
  assumes "explains K l r" and "moved K r r' e"
  shows "explains K (l @ [e]) r'"
proof -
  obtain e0 rest where l: "l = e0 # rest" "ev_event_type e0 = EXECUTION_CREATED" "ev_to_state e0 = READY"
      "ev_to_version e0 = 0" "linked K fresh_standing 0 0 rest (standing r)"
      "ex_state_version r = int (length rest)" "ex_lease_generation r = end_generation 0 rest"
    using assms(1) by (auto simp: explains_def)
  have "linked K fresh_standing 0 0 (rest @ [e]) (standing r')"
    unfolding linked_snoc using l assms(2)
    by (intro exI [of _ "standing r"]) (auto simp: moved_def lease_move_def standing_def)
  moreover have "ex_lease_generation r' = ev_lease_generation e" "ex_state_version r' = ex_state_version r + 1"
    using assms(2) by (auto simp: moved_def lease_move_def split: if_split_asm)
  ultimately show ?thesis
    using l unfolding explains_def
    by (intro exI [of _ e0] exI [of _ "rest @ [e]"]) (simp add: end_generation_def)
qed

text \<open>The invariant after one execution is written and its log is extended by \<open>added\<close>.\<close>

lemma exec_ok_put:
  assumes "exec_ok K (m, es)" and "ex_id r = i" and "execution_check r"
    and "\<forall>e\<in>set added. ev_execution_id e = i" and "explains K (log_of i es @ added) r"
  shows "exec_ok K (m(i \<mapsto> r), es @ added)"
proof -
  have other: "log_of j (es @ added) = log_of j es" if "j \<noteq> i" for j
    using assms(4) that by (auto simp: log_of_def filter_empty_conv)
  have self: "log_of i (es @ added) = log_of i es @ added"
    using assms(4) by (simp add: log_of_def filter_id_conv)
  have "case (m(i \<mapsto> r)) j of None \<Rightarrow> log_of j (es @ added) = []
      | Some r \<Rightarrow> ex_id r = j \<and> execution_check r \<and> explains K (log_of j (es @ added)) r" for j
  proof (cases "j = i")
    case True
    then show ?thesis using assms self by simp
  next
    case False
    then show ?thesis
      using exec_okD [OF assms(1), of j] other [OF False] by (simp split: option.split)
  qed
  then show ?thesis by simp
qed

lemma exec_step_ok:
  assumes "exec_step K s t" and "exec_ok K s"
  shows "exec_ok K t"
  using assms(1)
proof (cases rule: exec_step.cases)
  case (created m r e es)
  note ok = assms(2) [unfolded created(1)]
  have "log_of (ex_id r) es = []" by (rule exec_okD(1) [OF ok created(3)])
  moreover have "ev_execution_id e = ex_id r" "execution_check r"
    using created(4) by (simp_all add: fresh_def)
  ultimately show ?thesis
    unfolding created(2) using ok explains_fresh [OF created(4)] by (intro exec_ok_put) simp_all
next
  case (moves m r r' e es)
  note ok = assms(2) [unfolded moves(1)]
  have "ev_execution_id e = ex_id r" "execution_check r'" "ex_id r' = ex_id r"
    using moves(4) by (simp_all add: moved_def same_identity_def)
  then show ?thesis
    unfolding moves(2) using ok explains_moved [OF exec_okD(4) [OF ok moves(3)] moves(4)]
    by (intro exec_ok_put) simp_all
next
  case (renewed m r r' x t es)
  note ok = assms(2) [unfolded renewed(1)]
  have "explains K (log_of (ex_id r) es) r'"
    using exec_okD(4) [OF ok renewed(3)] unfolding renewed(4) explains_def by (simp add: standing_def)
  then have "exec_ok K (m(ex_id r \<mapsto> r'), es @ [])"
    using ok renewed(4,5) by (intro exec_ok_put) simp_all
  then show ?thesis unfolding renewed(2) by simp
qed

interpretation exec_kept: kept_by "exec_step K" "exec_ok K" for K
  by unfold_locales (rule exec_step_ok)

section \<open>One execution along the steps\<close>

text \<open>What a step does to one execution: nothing, a renewal or a move.\<close>

lemma exec_step_row:
  assumes "exec_step K (m, es) (m', es')" and "m i = Some r" and "ex_id r = i"
  shows "\<exists>r'. m' i = Some r' \<and> same_identity r r' \<and>
    (r' = r \<or> (\<exists>x t. r' = r\<lparr>ex_lease_expires_at := Some x, ex_updated_at := t\<rparr>) \<or> (\<exists>e. moved K r r' e \<and> es' = es @ [e]))"
  using assms(1)
proof (cases rule: exec_step.cases)
  case (created r0 e)
  then have "ex_id r0 \<noteq> i" using assms(2) by auto
  with created assms(2) show ?thesis by (simp add: same_identity_def)
next
  case (moves r0 r1 e)
  show ?thesis
  proof (cases "ex_id r0 = i")
    case True
    with moves assms(2) have "r0 = r" by simp
    with moves True show ?thesis by (auto simp: moved_def)
  qed (use moves assms(2) in \<open>simp add: same_identity_def\<close>)
next
  case (renewed r0 r1 x t)
  show ?thesis
  proof (cases "ex_id r0 = i")
    case True
    with renewed(3) assms(2) have "r0 = r" by simp
    with renewed True show ?thesis by (auto simp: same_identity_def)
  qed (use renewed assms(2) in \<open>simp add: same_identity_def\<close>)
qed

lemma same_identity_refl: "same_identity r r"
  by (simp add: same_identity_def)

lemma same_identity_trans: "same_identity r s \<Longrightarrow> same_identity s t \<Longrightarrow> same_identity r t"
  by (simp add: same_identity_def)

text \<open>
  A relation on rows that holds of no change, of a renewal and of a move, and composes, holds
  between the row before and the row after any number of steps.
\<close>

lemma row_along:
  assumes "(exec_step K)\<^sup>*\<^sup>* (m, es) (m', es')" and "m i = Some r" and "ex_id r = i"
    and "P r r"
    and moves: "\<And>a b e. P r a \<Longrightarrow> moved K a b e \<Longrightarrow> P r b"
    and renew: "\<And>a x t. P r a \<Longrightarrow> P r (a\<lparr>ex_lease_expires_at := Some x, ex_updated_at := t\<rparr>)"
  shows "\<exists>r'. m' i = Some r' \<and> ex_id r' = i \<and> P r r'"
  using assms(1)
proof (induction "(m', es')" arbitrary: m' es' rule: rtranclp_induct)
  case base
  then show ?case using assms by auto
next
  case (step y)
  obtain m1 es1 where y: "y = (m1, es1)" by (cases y)
  with step obtain r1 where r1: "m1 i = Some r1" "ex_id r1 = i" "P r r1" by blast
  from exec_step_row [OF step(2) [unfolded y] r1(1,2)] r1 moves renew show ?case
    by (auto simp: same_identity_def)
qed

lemma identity_along:
  assumes "(exec_step K)\<^sup>*\<^sup>* (m, es) (m', es')" and "m i = Some r" and "ex_id r = i"
  shows "\<exists>r'. m' i = Some r' \<and> ex_id r' = i \<and> same_identity r r'"
  by (rule row_along [OF assms, where P = same_identity])
    (auto simp: same_identity_def moved_def)

lemma generation_along:
  assumes "(exec_step K)\<^sup>*\<^sup>* (m, es) (m', es')" and "m i = Some r" and "ex_id r = i"
  shows "\<exists>r'. m' i = Some r' \<and> ex_id r' = i \<and> ex_lease_generation r \<le> ex_lease_generation r'
    \<and> ex_state_version r \<le> ex_state_version r' \<and> ex_maker_rework_count r \<le> ex_maker_rework_count r'"
  by (rule row_along [OF assms, where P = "\<lambda>r r'. ex_lease_generation r \<le> ex_lease_generation r'
        \<and> ex_state_version r \<le> ex_state_version r' \<and> ex_maker_rework_count r \<le> ex_maker_rework_count r'"])
    (auto simp: moved_def lease_move_def standing_def dest!: edge_reworks split: if_split_asm)

lemma edge_terminal: "edge K s e t \<Longrightarrow> sd_state s \<in> terminal_states \<Longrightarrow> sd_state t = sd_state s"
  by (auto simp: edge_def table_move_def closure_move_def may_become_def terminal_states_def split: event_type.splits)

lemma terminal_along:
  assumes "(exec_step K)\<^sup>*\<^sup>* (m, es) (m', es')" and "m i = Some r" and "ex_id r = i"
    and "ex_state r \<in> terminal_states"
  shows "\<exists>r'. m' i = Some r' \<and> ex_id r' = i \<and> ex_state r' = ex_state r"
proof (rule row_along [OF assms(1-3), where P = "\<lambda>r r'. ex_state r' = ex_state r"])
  fix a b e
  assume "ex_state a = ex_state r" "moved K a b e"
  then show "ex_state b = ex_state r"
    using assms(4) edge_terminal [of K "standing a" e "standing b"] by (simp add: moved_def standing_def)
qed auto

lemma log_grows:
  assumes "(exec_step K)\<^sup>*\<^sup>* (m, es) (m', es')"
  shows "\<exists>rest. es' = es @ rest"
  using assms
proof (induction "(m', es')" arbitrary: m' es' rule: rtranclp_induct)
  case (step y)
  obtain m1 es1 where y: "y = (m1, es1)" by (cases y)
  with step obtain rest where "es1 = es @ rest" by blast
  moreover have "\<exists>more. es' = es1 @ more"
    using step(2) [unfolded y] by (cases rule: exec_step.cases) auto
  ultimately show ?case by auto
qed auto

end
