(* ===== verification/Slice_Laws.thy ===== *)
theory Slice_Laws
  imports Deferred
begin

text \<open>
  What the store promises of the slice control state, as an abstract machine: slices are
  registered once and then changed one version at a time, each change logged, and an active
  execution is only ever given up by a logged release.
\<close>

section \<open>The abstract machine\<close>

type_synonym slice_view = "slice_row list \<times> slice_event_row list"

definition slice_view :: "db \<Rightarrow> slice_view" where
  "slice_view d = (slices d, slice_events d)"

text \<open>The event of a change from one version to the next.\<close>

definition steps_slice :: "slice_event_row \<Rightarrow> string \<Rightarrow> int \<Rightarrow> bool" where
  "steps_slice e i v \<longleftrightarrow> se_slice_id e = i \<and> se_from_version e = v \<and> se_to_version e = v + 1"

text \<open>The rebinding rule: an active execution stays, or the event releases it.\<close>

definition keeps_binding :: "slice_row \<Rightarrow> slice_row \<Rightarrow> slice_event_row \<Rightarrow> bool" where
  "keeps_binding r r' e \<longleftrightarrow>
     sl_active_execution_id (sc_fields r) = None \<or>
     sl_active_execution_id (sc_fields r') = sl_active_execution_id (sc_fields r) \<or>
     superseded (sc_fields r') \<and> se_reason_code e = ''PREEXECUTION_RELEASE''"

inductive slice_step :: "slice_view \<Rightarrow> slice_view \<Rightarrow> bool" where
  registered: "sc_id r \<notin> sc_id ` set rows \<Longrightarrow> sc_state_version r = 0 \<Longrightarrow> slice_check r
     \<Longrightarrow> steps_slice e (sc_id r) (-1) \<Longrightarrow> slice_step (rows, es) (rows @ [r], es @ [e])"
| changed: "r \<in> set rows \<Longrightarrow> sc_id r' = sc_id r \<Longrightarrow> sc_state_version r' = sc_state_version r + 1
     \<Longrightarrow> slice_check r' \<Longrightarrow> steps_slice e (sc_id r) (sc_state_version r) \<Longrightarrow> keeps_binding r r' e
     \<Longrightarrow> slice_step (rows, es) (map (\<lambda>x. if x = r then r' else x) rows, es @ [e])"

text \<open>The log of a slice counts its versions from the registration to the present one.\<close>

definition slice_log :: "string \<Rightarrow> slice_event_row list \<Rightarrow> slice_event_row list" where
  "slice_log i es = filter (\<lambda>e. se_slice_id e = i) es"

lemma slice_log_snoc [simp]:
  "slice_log i (es @ [e]) = (if se_slice_id e = i then slice_log i es @ [e] else slice_log i es)"
  by (simp add: slice_log_def)

fun counts :: "int \<Rightarrow> slice_event_row list \<Rightarrow> bool" where
  "counts v [] \<longleftrightarrow> True"
| "counts v (e # es) \<longleftrightarrow> se_from_version e = v \<and> se_to_version e = v + 1 \<and> counts (v + 1) es"

lemma counts_snoc: "counts v (es @ [e]) \<longleftrightarrow> counts v es
    \<and> se_from_version e = v + int (length es) \<and> se_to_version e = v + int (length es) + 1"
proof (induction es arbitrary: v)
  case (Cons x es)
  show ?case unfolding append_Cons counts.simps Cons.IH by (simp add: add.assoc conj_ac)
qed simp

fun slice_ok :: "slice_view \<Rightarrow> bool" where
  "slice_ok (rows, es) \<longleftrightarrow> distinct (map sc_id rows) \<and> se_slice_id ` set es \<subseteq> sc_id ` set rows \<and>
     (\<forall>r\<in>set rows. slice_check r \<and> counts (-1) (slice_log (sc_id r) es)
        \<and> int (length (slice_log (sc_id r) es)) = sc_state_version r + 1)"

lemma slice_log_empty: "i \<notin> se_slice_id ` set es \<Longrightarrow> slice_log i es = []"
  by (auto simp: slice_log_def filter_empty_conv)

lemma map_key_replace:
  assumes "sc_id r' = sc_id r"
  shows "map sc_id (map (\<lambda>x. if x = r then r' else x) rows) = map sc_id rows"
  using assms by auto

lemma slice_step_ok:
  assumes "slice_step s t" and "slice_ok s"
  shows "slice_ok t"
  using assms(1)
proof (cases rule: slice_step.cases)
  case (registered r rows e es)
  note ok = assms(2) [unfolded registered(1) slice_ok.simps]
  have "slice_log (sc_id r) es = []"
    using ok registered(3) by (intro slice_log_empty) auto
  then show ?thesis
    unfolding registered(2) using ok registered(3-6) by (auto simp: steps_slice_def)
next
  case (changed r rows r' e es)
  note ok = assms(2) [unfolded changed(1) slice_ok.simps]
  let ?rows = "map (\<lambda>x. if x = r then r' else x) rows"
  have ids: "sc_id ` set ?rows = sc_id ` set rows" 
    using arg_cong [OF map_key_replace [OF changed(4), of rows], of set] by (simp only: set_map)
  have "slice_check x \<and> counts (-1) (slice_log (sc_id x) (es @ [e]))
      \<and> int (length (slice_log (sc_id x) (es @ [e]))) = sc_state_version x + 1" if "x \<in> set ?rows" for x
  proof (cases "x = r'")
    case True
    then show ?thesis using ok changed(3-7) by (simp add: steps_slice_def counts_snoc)
  next
    case False
    with that have x: "x \<in> set rows" "x \<noteq> r" by auto
    with ok changed(3) have "sc_id x \<noteq> sc_id r" by (metis distinct_map inj_onD)
    with x ok changed(7) show ?thesis by (simp add: steps_slice_def)
  qed
  moreover have "distinct (map sc_id ?rows)"
    unfolding map_key_replace [OF changed(4)] using ok by simp
  ultimately show ?thesis
    unfolding changed(2) slice_ok.simps ids using ok changed(3,7) by (auto simp: steps_slice_def)
qed

interpretation slice_kept: kept_by slice_step slice_ok
  by unfold_locales (rule slice_step_ok)

text \<open>
  A slice keeps its place and its versions only rise; its active execution is the one it had, or
  the log since then records a release.
\<close>

definition binding_later :: "slice_row \<Rightarrow> slice_row \<Rightarrow> slice_event_row list \<Rightarrow> bool" where
  "binding_later r r' since \<longleftrightarrow> sc_id r' = sc_id r \<and> sc_state_version r \<le> sc_state_version r' \<and>
     (sl_active_execution_id (sc_fields r) = None
      \<or> sl_active_execution_id (sc_fields r') = sl_active_execution_id (sc_fields r)
      \<or> (\<exists>e\<in>set since. se_slice_id e = sc_id r \<and> se_reason_code e = ''PREEXECUTION_RELEASE''))"

lemma binding_along:
  assumes "slice_step\<^sup>*\<^sup>* (rows, es) t" and "r \<in> set rows"
  shows "\<exists>r'\<in>set (fst t). \<exists>since. snd t = es @ since \<and> binding_later r r' since"
  using assms(1)
proof (induction rule: rtranclp_induct)
  case base
  then show ?case using assms(2) by (auto simp: binding_later_def)
next
  case (step s t)
  then obtain r1 since where r1: "r1 \<in> set (fst s)" "snd s = es @ since" "binding_later r r1 since" by blast
  from step(2) show ?case
  proof (cases rule: slice_step.cases)
    case (registered r0 rows0 e es0)
    with r1 show ?thesis
      by (intro bexI [of _ r1] exI [of _ "since @ [e]"]) (auto simp: binding_later_def)
  next
    case (changed r0 rows0 r' e es0)
    show ?thesis
    proof (cases "r1 = r0")
      case True
      have "binding_later r r' (since @ [e])"
        using r1(3) changed(4,5,7,8) True by (auto simp: binding_later_def keeps_binding_def steps_slice_def)
      with changed(1-3) r1(2) True show ?thesis
        by (intro bexI [of _ r'] exI [of _ "since @ [e]"]) force+
    next
      case False
      with changed(1,2) r1 show ?thesis
        by (intro bexI [of _ r1] exI [of _ "since @ [e]"]) (auto simp: binding_later_def)
    qed
  qed
qed

section \<open>The operations refine it\<close>

text \<open>The translations of errors pass a success through.\<close>

lemma open_execution_error_InrE: "open_execution_error m = Inr a \<Longrightarrow> (m = Inr a \<Longrightarrow> P) \<Longrightarrow> P"
  by (simp add: success)

lemma bind_errors_InrE: "bind_errors m = Inr a \<Longrightarrow> (m = Inr a \<Longrightarrow> P) \<Longrightarrow> P"
  by (simp add: success)

lemmas body_elims = step_elims open_execution_error_InrE bind_errors_InrE

text \<open>An event and then the row it announces: the order of every write to a slice.\<close>

lemma registered_refines:
  assumes "insert_slice_event e d = Inr d1" and "insert_slice r d1 = Inr d2"
    and "steps_slice e (sc_id r) (-1)" and "sc_state_version r = 0"
  shows "slice_step (slice_view d) (slice_view d2)"
  using insert_slice_event_Inr(1) [OF assms(1)] insert_slice_Inr [OF assms(2)] assms(3,4)
  by (simp add: slice_view_def slice_step.registered)

lemma update_where_single:
  assumes "row_count p rows = 1" and "r \<in> set rows" and "p r"
  shows "update_where p f rows = map (\<lambda>x. if x = r then f r else x) rows"
proof -
  have "length (filter p rows) = Suc 0" using assms(1) by (simp add: row_count_def One_nat_def)
  then obtain x where "filter p rows = [x]" by (auto simp: length_Suc_conv)
  then have "set (filter p rows) = {x}" by simp
  then have "\<forall>y\<in>set rows. p y \<longrightarrow> y = x" by auto
  with assms(2,3) show ?thesis by (auto simp: update_where_def)
qed

lemma slice_event_unique:
  assumes "insert_slice_event e d = Inr d'" and "x \<in> set (slice_events d)" and "se_slice_id x = se_slice_id e"
  shows "se_to_version x \<noteq> se_to_version e"
  using assms unfolding insert_slice_event_def by (auto split: if_split_asm)

lemma changed_refines:
  assumes "r \<in> set (slices d)" and "sc_id r = i" and "sc_state_version r = v"
    and "insert_slice_event e d = Inr d1" and "steps_slice e i v"
    and upd: "update_slices (\<lambda>x. sc_id x = i \<and> sc_state_version x = v) f d1 = Inr (d2, 1)"
    and key: "\<And>x. sc_id (f x) = sc_id x"
  shows "slice_step (slice_view d) (slice_view d2)"
proof -
  note ev = insert_slice_event_Inr(1) [OF assms(4)] and rows = update_slices_Inr [OF upd]
  have "slice_update_ok r (f r) d1 = Inr ()" by (rule rows(3)) (use assms(1-3) ev in auto)
  note ok = slice_update_ok_Inr [OF this]
  have "update_where (\<lambda>x. sc_id x = i \<and> sc_state_version x = v) f (slices d)
      = map (\<lambda>x. if x = r then f r else x) (slices d)"
    by (rule update_where_single) (use assms(1-3) rows(2) ev in auto)
  then have d2: "slice_view d2 = (map (\<lambda>x. if x = r then f r else x) (slices d), slice_events d @ [e])"
    using rows(1) ev by (simp add: slice_view_def)
  have "v = e" if "v \<in> set (slice_events d1)" "se_slice_id v = i" "se_to_version v = sc_state_version r + 1" for v
    using that ev slice_event_unique [OF assms(4)] assms(3,5) by (auto simp: steps_slice_def)
  then have "keeps_binding r (f r) e"
    using ok(1,4) key assms(2) by (auto simp: keeps_binding_def release_supersedes_def superseded_def)
  then show ?thesis
    unfolding d2 unfolding slice_view_def
    using assms(1-3,5) key ok(1,2) by (intro slice_step.changed) simp_all
qed

lemma changed_by_cas:
  assumes "r \<in> set (slices d)" and "sc_id r = i" and "sc_state_version r = v"
    and "insert_slice_event e d = Inr d1" and "steps_slice e i v" and "cas_slice i v target now d1 = Inr d2"
  shows "slice_step (slice_view d) (slice_view d2)"
proof -
  from assms(6) have "update_slices (\<lambda>r. sc_id r = i \<and> sc_state_version r = v)
      (set_slice_fields target now) d1 = Inr (d2, 1)"
    unfolding cas_slice_def by (elim step_elims) (simp_all add: success)
  from changed_refines [OF assms(1-5) this] show ?thesis by (simp add: set_slice_fields_def)
qed

lemma find_slice_set: "find_slice i d = Some r \<Longrightarrow> r \<in> set (slices d) \<and> sc_id r = i"
  unfolding find_slice_def by (rule find_SomeD)

lemma reconcile_slice_refines:
  assumes "reconcile_slice_body c q payload d = Inr (u, d')"
  shows "slice_step\<^sup>=\<^sup>= (slice_view d) (slice_view d')"
  using assms unfolding reconcile_slice_body_def Let_def
  apply (elim step_elims; clarsimp)
   apply (erule (1) registered_refines; simp add: steps_slice_def slice_event_new_def)
  apply (drule find_slice_set, elim conjE)
  apply (erule (3) changed_refines)
    apply (simp add: steps_slice_def slice_event_new_def)
   apply assumption
  apply simp
  done

lemma bind_refines_slices:
  assumes "bind_body c q root d = Inr (u, d')"
  shows "slice_step\<^sup>=\<^sup>= (slice_view d) (slice_view d')"
proof (cases "d' = d")
  case False
  let ?x = "bq_spec q"
  obtain r target payload d1 d2 d3 d4 row e k v where
    cur: "bind_current c q root d = Inr (r, target)" and guard: "bind_guard c q root r d = Inr v"
    and w: "insert_execution row d = Inr d1" "insert_event c 0 e d1 = Inr d2" "insert_context k d2 = Inr d3"
    and s: "insert_slice_event \<lparr>se_operation_key = bq_operation_key q, se_slice_id = xc_slice_id ?x,
            se_from_version = bq_expected_version q, se_to_version = bq_expected_version q + 1,
            se_reason_code = ''PREEXECUTION_BIND'', se_metadata_json = payload,
            se_created_at = clock c 1\<rparr> d3 = Inr d4"
      "cas_slice (xc_slice_id ?x) (bq_expected_version q) target (clock c 1) d4 = Inr d'"
    using assms False unfolding bind_body_def bind_writes_def Let_def
    by (elim body_elims; clarsimp)
  have "find_slice (xc_slice_id ?x) d = Some r" and v: "sc_state_version r = bq_expected_version q"
    using cur guard unfolding bind_current_def bind_guard_def Let_def by (elim step_elims; clarsimp)+
  from find_slice_set [OF this(1)] have r: "r \<in> set (slices d)" "sc_id r = xc_slice_id ?x" by auto
  have "slices d3 = slices d" "slice_events d3 = slice_events d"
    using insert_execution_Inr(2) [OF w(1)] insert_event_Inr(1) [OF w(2)] insert_context_Inr(2) [OF w(3)]
    by simp_all
  with changed_by_cas [of r d3, OF _ r(2) v s(1) _ s(2)] r(1) show ?thesis
    by (simp add: steps_slice_def slice_view_def)
qed simp

lemma update_executions_slices: "update_executions p f d = Inr (d', n) \<Longrightarrow> slices d' = slices d \<and> slice_events d' = slice_events d"
  by (drule update_executions_Inr) simp

lemma finalize_refines_slices:
  assumes "finalize_body c q d = Inr (u, d')"
  shows "slice_step\<^sup>=\<^sup>= (slice_view d) (slice_view d')"
proof (cases "d' = d")
  case False
  obtain r s payload target d1 d2 d3 e f where
    guard: "finalize_guard c q d = Inr (r, s)"
    and w: "cas_execution (fq_execution_id q) (fq_expected_version q) f d = Inr d1" "insert_event c 0 e d1 = Inr d2"
    and s: "insert_slice_event \<lparr>se_operation_key = fq_operation_key q, se_slice_id = sc_id s,
            se_from_version = fq_expected_slice_version q, se_to_version = fq_expected_slice_version q + 1,
            se_reason_code = ''RESULT_COMMIT_BOUND'', se_metadata_json = payload,
            se_created_at = clock c 1\<rparr> d2 = Inr d3"
      "cas_slice (sc_id s) (fq_expected_slice_version q) target (clock c 1) d3 = Inr d'"
    using assms False unfolding finalize_body_def finalize_writes_def Let_def
    by (elim step_elims; clarsimp)
  have "slice_running (fq_execution_id q) d = Some s" and v: "sc_state_version s = fq_expected_slice_version q"
    using guard unfolding finalize_guard_def Let_def by (elim step_elims; clarsimp)+
  then have r: "s \<in> set (slices d)" unfolding slice_running_def by (auto dest: find_SomeD)
  obtain n where "update_executions (\<lambda>r. ex_id r = fq_execution_id q \<and> ex_state_version r = fq_expected_version q) f d = Inr (d1, n)"
    using cas_execution_Inr [OF w(1)] unfolding update_at_version_def by blast
  from update_executions_slices [OF this] have "slices d2 = slices d" "slice_events d2 = slice_events d"
    using insert_event_Inr(1) [OF w(2)] by simp_all
  with changed_by_cas [of s d2, OF _ refl v s(1) _ s(2)] r show ?thesis
    by (simp add: steps_slice_def slice_view_def)
qed simp

lemma release_refines_slices:
  assumes "release_body c q d = Inr (u, d')"
  shows "slice_step\<^sup>=\<^sup>= (slice_view d) (slice_view d')"
proof (cases "d' = d")
  case False
  obtain r s payload target d1 d2 d3 n e f where
    guard: "release_guard q d = Inr (r, s)"
    and w: "update_at_version (gq_execution_id q) (gq_expected_version q) f d = Inr (d1, n)" "insert_event c 0 e d1 = Inr d2"
    and s: "insert_slice_event \<lparr>se_operation_key = gq_operation_key q, se_slice_id = gq_slice_id q,
            se_from_version = gq_expected_slice_version q, se_to_version = gq_expected_slice_version q + 1,
            se_reason_code = ''PREEXECUTION_RELEASE'', se_metadata_json = payload,
            se_created_at = clock c 1\<rparr> d2 = Inr d3"
      "cas_slice (gq_slice_id q) (gq_expected_slice_version q) target (clock c 1) d3 = Inr d'"
    using assms False unfolding release_body_def release_writes_def Let_def
    by (elim step_elims; clarsimp)
  have "find_slice (gq_slice_id q) d = Some s" and v: "sc_state_version s = gq_expected_slice_version q"
    using guard unfolding release_guard_def Let_def by (elim step_elims; clarsimp simp: success)+
  from find_slice_set [OF this(1)] have r: "s \<in> set (slices d)" "sc_id s = gq_slice_id q" by auto
  from update_executions_slices [OF w(1) [unfolded update_at_version_def]]
  have "slices d2 = slices d" "slice_events d2 = slice_events d"
    using insert_event_Inr(1) [OF w(2)] by simp_all
  with changed_by_cas [of s d2, OF _ r(2) v s(1) _ s(2)] r show ?thesis
    by (simp add: steps_slice_def slice_view_def)
qed simp

end
