(* ===== verification/Global_Writer_Laws.thy ===== *)
theory Global_Writer_Laws
  imports Global_Writer
begin

text \<open>
  The lease of the global production writer as an abstract step relation on the lease row and
  its log, the refinement of the four operations to it, and the invariant that the log
  explains the row: the last event says who holds the lease and under which token.
\<close>

section \<open>The abstract lease\<close>

type_synonym writer_view = "writer_row option \<times> writer_event_row list"

definition writer_view :: "db \<Rightarrow> writer_view" where
  "writer_view d = (writer d, writer_events d)"

type_synonym lease = "writer_state \<times> writer_context \<times> int"

definition lease_of :: "writer_row \<Rightarrow> lease" where
  "lease_of w = (gw_state w, gw_context w, gw_fencing_token w)"

text \<open>The lease after an event, and whether an event may follow a lease.\<close>

definition after_event :: "writer_event_row \<Rightarrow> lease" where
  "after_event e = ((if ge_event_type e \<in> {ACQUIRE, EXPIRED_TAKEOVER} then HELD else FREE), ge_new e, ge_to_token e)"

fun follows :: "lease \<Rightarrow> writer_event_row \<Rightarrow> bool" where
  "follows (st, w, t) e \<longleftrightarrow> ge_from_token e = t \<and> ge_prior e = w \<and> (ge_event_type e = ACQUIRE \<longleftrightarrow> st = FREE)
     \<and> ge_to_token e = (if ge_event_type e = RELEASE then t else t + 1)
     \<and> (ge_event_type e \<in> {RELEASE, FORCE_REVOKE} \<longrightarrow> ge_new e = empty_context)"

inductive writer_step :: "(int \<Rightarrow> int) \<Rightarrow> writer_view \<Rightarrow> writer_view \<Rightarrow> bool" for j where
  renewed: "gw_state w = HELD \<Longrightarrow> lease_of w' = lease_of w \<Longrightarrow> writer_check j w'
     \<Longrightarrow> writer_step j (Some w, es) (Some w', es)"
| changed: "follows (lease_of w) e \<Longrightarrow> after_event e = lease_of w' \<Longrightarrow> writer_check j w'
     \<Longrightarrow> (gw_state w = HELD \<and> ge_event_type e = EXPIRED_TAKEOVER \<Longrightarrow>
           \<exists>x now. gw_expires_at w = Some x \<and> j x \<le> j now \<and> gw_acquired_at w' = Some now)
     \<Longrightarrow> writer_step j (Some w, es) (Some w', es @ [e])"

inductive_cases writer_stepE: "writer_step j s t"

text \<open>The log from the migration's initial row: free, token 0.\<close>

definition log_lease :: "writer_event_row list \<Rightarrow> lease" where
  "log_lease es = (if es = [] then (FREE, empty_context, 0) else after_event (last es))"

fun chained :: "lease \<Rightarrow> writer_event_row list \<Rightarrow> bool" where
  "chained l [] \<longleftrightarrow> True"
| "chained l (e # es) \<longleftrightarrow> follows l e \<and> chained (after_event e) es"

lemma chained_snoc: "chained l (es @ [e]) \<longleftrightarrow>
    chained l es \<and> follows (if es = [] then l else after_event (last es)) e"
  by (induction es arbitrary: l) auto

fun writer_explained :: "(int \<Rightarrow> int) \<Rightarrow> writer_view \<Rightarrow> bool" where
  "writer_explained j (None, es) \<longleftrightarrow> False"
| "writer_explained j (Some w, es) \<longleftrightarrow> writer_check j w \<and> lease_of w = log_lease es
     \<and> chained (FREE, empty_context, 0) es"

fun view_token :: "writer_view \<Rightarrow> int" where
  "view_token (None, es) = 0"
| "view_token (Some w, es) = gw_fencing_token w"

lemma writer_step_explained: "writer_step j s t \<Longrightarrow> writer_explained j s \<Longrightarrow> writer_explained j t"
  by (erule writer_stepE) (auto simp: log_lease_def chained_snoc)

lemma writer_step_token: "writer_step j s t \<Longrightarrow> view_token s \<le> view_token t"
  by (erule writer_stepE) (auto simp: lease_of_def after_event_def split: if_split_asm)

interpretation writer_kept: kept_by "writer_step j" "writer_explained j"
  by unfold_locales (rule writer_step_explained)

interpretation writer_token: grows_along "writer_step j" view_token
  by unfold_locales (rule writer_step_token)

section \<open>The operations refine it\<close>

lemma context_none_iff: "context_fields_none w \<longleftrightarrow> w = empty_context"
  by (cases w) (auto simp: context_fields_none_def empty_context_def)

lemma get_writer_Inr [success]:
  "get_writer c d = Inr r \<longleftrightarrow> writer d = Some r \<and> writer_check (julian c) r"
  by (auto simp: get_writer_def success validate_writer_row_iff)

lemma writer_check_free: "writer_check j r \<Longrightarrow> gw_state r = FREE \<Longrightarrow> gw_context r = empty_context"
  by (auto simp: writer_check_def context_none_iff)

lemma writer_check_held: "writer_check j r \<Longrightarrow> gw_state r = HELD \<Longrightarrow> \<exists>e. gw_expires_at r = Some e"
  by (auto simp: writer_check_def split: option.splits)

lemma existing_writer_event_None:
  "existing_writer_event key types request d = Inr None \<longleftrightarrow>
     (\<forall>e\<in>set (writer_events d). ge_operation_key e \<noteq> key)"
  by (auto simp: existing_writer_event_def find_eq_None split: option.splits if_splits dest!: find_SomeD)

lemma insert_writer_event_Inr:
  assumes "insert_writer_event c key type f t prior new reason decision request now d = Inr d'"
  shows "\<exists>e. d' = d\<lparr>writer_events := writer_events d @ [e]\<rparr> \<and> ge_event_type e = type
    \<and> ge_from_token e = f \<and> ge_to_token e = t
    \<and> ge_prior e = (case prior of None \<Rightarrow> empty_context | Some w \<Rightarrow> w)
    \<and> ge_new e = (case new of None \<Rightarrow> empty_context | Some w \<Rightarrow> w) \<and> writer_event_check e
    \<and> ge_operation_key e = key \<and> ge_request_json e = request \<and> ge_control_decision_ref e = decision"
  using insert_writer_event_row_Inr [OF assms [unfolded insert_writer_event_def]]
  by (elim conjE) (rule exI, rule conjI, assumption, simp)

lemma update_writer_once:
  assumes "update_writer j p f d = Inr (d', 1)"
  shows "\<exists>r. writer d = Some r \<and> p r \<and> d' = d\<lparr>writer := Some (f r)\<rparr> \<and> writer_check j (f r)"
  using update_writer_Inr [OF assms] by auto

lemmas writer_body_simps = Let_def success existing_writer_event_None

text \<open>What an acquisition that is no replay did.\<close>

lemma acquire_body_new:
  assumes "acquire_body c q d = Inr ((token, False), d')"
  shows "\<exists>w e. writer d = Some w \<and> writer_check (julian c) w \<and> token = gw_fencing_token w + 1
    \<and> (gw_state w = FREE \<or> (\<exists>x. gw_expires_at w = Some x \<and> julian c x \<le> julian c (clock c 1)))
    \<and> d' = d\<lparr>writer := Some (held_by (aq_context q) token (clock c 1) (clock c 1 + seconds (aq_ttl_seconds q))),
             writer_events := writer_events d @ [e]\<rparr>
    \<and> writer_check (julian c) (held_by (aq_context q) token (clock c 1) (clock c 1 + seconds (aq_ttl_seconds q)))
    \<and> ge_event_type e = (if gw_state w = HELD then EXPIRED_TAKEOVER else ACQUIRE)
    \<and> ge_from_token e = gw_fencing_token w \<and> ge_to_token e = token \<and> ge_prior e = gw_context w
    \<and> ge_new e = aq_context q \<and> ge_control_decision_ref e = aq_control_decision_ref q"
proof -
  define w where "w = the (writer d)"
  let ?now = "clock c 1"
  let ?row = "held_by (aq_context q) (gw_fencing_token w + 1) ?now (?now + seconds (aq_ttl_seconds q))"
  have w: "writer d = Some w" "writer_check (julian c) w"
    and free: "gw_state w = HELD \<Longrightarrow> \<not> julian c ?now < julian c (the (gw_expires_at w))"
    and token: "token = gw_fencing_token w + 1"
    and steps: "\<exists>d1. update_writer (julian c) (\<lambda>r. gw_fencing_token r = gw_fencing_token w) (\<lambda>_. ?row) d
          = Inr (d1, 1) \<and> (\<exists>reason. insert_writer_event c (aq_operation_key q)
            (if gw_state w = HELD then EXPIRED_TAKEOVER else ACQUIRE) (gw_fencing_token w) token
            (if gw_state w = HELD then Some (gw_context w) else None) (Some (aq_context q)) reason
            (aq_control_decision_ref q) (dumps (acquire_request_json q)) ?now d1 = Inr d')"
    using assms unfolding acquire_body_def w_def
    by (auto simp: writer_body_simps split: option.splits if_split_asm)
  from steps obtain d1 reason where
    upd: "update_writer (julian c) (\<lambda>r. gw_fencing_token r = gw_fencing_token w) (\<lambda>_. ?row) d = Inr (d1, 1)"
    and ins: "insert_writer_event c (aq_operation_key q)
            (if gw_state w = HELD then EXPIRED_TAKEOVER else ACQUIRE) (gw_fencing_token w) token
            (if gw_state w = HELD then Some (gw_context w) else None) (Some (aq_context q)) reason
            (aq_control_decision_ref q) (dumps (acquire_request_json q)) ?now d1 = Inr d'" by blast
  from update_writer_once [OF upd] have d1: "d1 = d\<lparr>writer := Some ?row\<rparr>" and chk: "writer_check (julian c) ?row"
    by auto
  from insert_writer_event_Inr [OF ins] obtain e where
    e: "d' = d1\<lparr>writer_events := writer_events d1 @ [e]\<rparr>"
      "ge_event_type e = (if gw_state w = HELD then EXPIRED_TAKEOVER else ACQUIRE)"
      "ge_from_token e = gw_fencing_token w" "ge_to_token e = token"
      "ge_prior e = (case if gw_state w = HELD then Some (gw_context w) else None of None \<Rightarrow> empty_context | Some w \<Rightarrow> w)"
      "ge_new e = aq_context q" "ge_control_decision_ref e = aq_control_decision_ref q" by auto
  have prior: "ge_prior e = gw_context w"
    using e(5) writer_check_free [OF w(2)] by (cases "gw_state w") auto
  have expired: "gw_state w = FREE \<or> (\<exists>x. gw_expires_at w = Some x \<and> julian c x \<le> julian c ?now)"
    using free writer_check_held [OF w(2)] by (cases "gw_state w") auto
  show ?thesis
    using w token expired d1 chk e(1-4,6,7) prior by (intro exI [of _ w] exI [of _ e]) simp
qed

lemma acquire_body_replay:
  assumes "acquire_body c q d = Inr ((token, True), d')"
  shows "d' = d" and "\<exists>w. writer d = Some w \<and> gw_state w = HELD \<and> gw_context w = aq_context q \<and> gw_fencing_token w = token"
  using assms unfolding acquire_body_def
  by (auto simp: writer_body_simps split: option.splits if_split_asm)

lemma acquire_refines:
  assumes "acquire_body c q d = Inr (r, d')"
  shows "(writer_step (julian c))\<^sup>=\<^sup>= (writer_view d) (writer_view d')"
proof (cases r)
  case (Pair token replayed)
  show ?thesis
  proof (cases replayed)
    case True
    with assms Pair have "d' = d" by (auto intro: acquire_body_replay(1))
    then show ?thesis by simp
  next
    case False
    with assms Pair have "acquire_body c q d = Inr ((token, False), d')" by simp
    from acquire_body_new [OF this] obtain w e where
      w: "writer d = Some w" "writer_check (julian c) w" "token = gw_fencing_token w + 1"
        "gw_state w = FREE \<or> (\<exists>x. gw_expires_at w = Some x \<and> julian c x \<le> julian c (clock c 1))"
      and d': "d' = d\<lparr>writer := Some (held_by (aq_context q) token (clock c 1) (clock c 1 + seconds (aq_ttl_seconds q))),
             writer_events := writer_events d @ [e]\<rparr>"
        "writer_check (julian c) (held_by (aq_context q) token (clock c 1) (clock c 1 + seconds (aq_ttl_seconds q)))"
      and e: "ge_event_type e = (if gw_state w = HELD then EXPIRED_TAKEOVER else ACQUIRE)"
        "ge_from_token e = gw_fencing_token w" "ge_to_token e = token" "ge_prior e = gw_context w"
        "ge_new e = aq_context q" by blast
    let ?row = "held_by (aq_context q) token (clock c 1) (clock c 1 + seconds (aq_ttl_seconds q))"
    have "writer_step (julian c) (Some w, writer_events d) (Some ?row, writer_events d @ [e])"
    proof (rule writer_step.changed [OF _ _ d'(2)])
      show "follows (lease_of w) e"
        using e w(3) by (cases "gw_state w") (auto simp: lease_of_def)
      show "after_event e = lease_of (held_by (aq_context q) token (clock c 1) (clock c 1 + seconds (aq_ttl_seconds q)))"
        using e w(3) by (auto simp: after_event_def lease_of_def held_by_def)
    qed (use w(4) in \<open>auto simp: held_by_def\<close>)
    then show ?thesis using w(1) d'(1) by (simp add: writer_view_def)
  qed
qed

lemma heartbeat_writer_new:
  assumes "heartbeat_writer_body c owner token ttl d = Inr (u, d')"
  shows "\<exists>w w'. writer d = Some w \<and> gw_state w = HELD \<and> gw_fencing_token w = token
    \<and> wc_owner_id (gw_context w) = Some owner \<and> lease_of w' = lease_of w \<and> writer_check (julian c) w'
    \<and> d' = d\<lparr>writer := Some w'\<rparr>"
proof -
  obtain w where w: "writer d = Some w" "gw_state w = HELD" "gw_fencing_token w = token"
      "wc_owner_id (gw_context w) = Some owner"
    and upd: "update_writer (julian c) (writer_current_row owner token (clock c 1))
           (\<lambda>r. r\<lparr>gw_expires_at := Some (clock c 1 + seconds ttl), gw_heartbeat_at := Some (clock c 1),
                  gw_updated_at := clock c 1\<rparr>) d = Inr (d', 1)"
    using assms unfolding heartbeat_writer_body_def by (auto simp: writer_body_simps split: if_split_asm)
  from update_writer_once [OF upd] w show ?thesis
    by (intro exI [of _ w] exI [of _ "the (writer d')"]) (auto simp: lease_of_def)
qed

lemma heartbeat_writer_refines:
  assumes "heartbeat_writer_body c owner token ttl d = Inr (u, d')"
  shows "(writer_step (julian c))\<^sup>=\<^sup>= (writer_view d) (writer_view d')"
  using heartbeat_writer_new [OF assms] writer_step.renewed by (fastforce simp: writer_view_def)

lemma release_writer_new:
  assumes "release_writer_body c q d = Inr (False, d')"
  shows "\<exists>w e. writer d = Some w \<and> writer_check (julian c) w \<and> gw_state w = HELD \<and> gw_fencing_token w = rq_fencing_token q
    \<and> wc_owner_id (gw_context w) = Some (rq_owner_id q)
    \<and> d' = d\<lparr>writer := Some (freed_at (rq_fencing_token q) (clock c 1)), writer_events := writer_events d @ [e]\<rparr>
    \<and> writer_check (julian c) (freed_at (rq_fencing_token q) (clock c 1))
    \<and> ge_event_type e = RELEASE \<and> ge_from_token e = rq_fencing_token q \<and> ge_to_token e = (rq_fencing_token q)
    \<and> ge_prior e = gw_context w \<and> ge_new e = empty_context"
  using assms unfolding release_writer_body_def Let_def
  apply (elim step_elims)
   apply (simp_all add: success)
  apply (elim exE conjE)
  apply (drule update_writer_once)
  apply (drule insert_writer_event_Inr)
  apply (elim exE conjE)
  subgoal for _ v _ _ _ _ _ r e
    by (rule exI [of _ e]) (intro conjI; simp)
  done

lemma revoke_writer_new:
  assumes "revoke_writer_body c q d = Inr (False, d')"
  shows "\<exists>w e. writer d = Some w \<and> writer_check (julian c) w \<and> gw_state w = HELD \<and> gw_fencing_token w = vq_expected_token q
    \<and> wc_owner_id (gw_context w) = Some (vq_expected_owner_id q)
    \<and> d' = d\<lparr>writer := Some (freed_at (vq_expected_token q + 1) (clock c 1)), writer_events := writer_events d @ [e]\<rparr>
    \<and> writer_check (julian c) (freed_at (vq_expected_token q + 1) (clock c 1))
    \<and> ge_event_type e = FORCE_REVOKE \<and> ge_from_token e = vq_expected_token q \<and> ge_to_token e = (vq_expected_token q + 1)
    \<and> ge_prior e = gw_context w \<and> ge_new e = empty_context \<and> ge_control_decision_ref e = Some (vq_control_decision_ref q)"
  using assms unfolding revoke_writer_body_def Let_def
  apply (elim step_elims)
   apply (simp_all add: success)
  apply (elim exE conjE)
  apply (drule update_writer_once)
  apply (drule insert_writer_event_Inr)
  apply (elim exE conjE)
  subgoal for _ v _ _ _ _ _ r e
    by (rule exI [of _ e]) (intro conjI; simp)
  done

lemma freed_refines:
  assumes "writer d = Some w" "gw_state w = HELD" "gw_fencing_token w = t"
    and "d' = d\<lparr>writer := Some (freed_at t' now), writer_events := writer_events d @ [e]\<rparr>"
    and "writer_check j (freed_at t' now)"
    and "ge_event_type e \<in> {RELEASE, FORCE_REVOKE}" "ge_from_token e = t" "ge_to_token e = t'"
    and "ge_prior e = gw_context w" "ge_new e = empty_context"
    and "t' = (if ge_event_type e = RELEASE then t else t + 1)"
  shows "writer_step j (writer_view d) (writer_view d')"
proof -
  have "writer_step j (Some w, writer_events d) (Some (freed_at t' now), writer_events d @ [e])"
    by (rule writer_step.changed) (use assms in \<open>auto simp: lease_of_def after_event_def freed_at_def\<close>)
  with assms(1,4) show ?thesis by (simp add: writer_view_def)
qed

lemma release_refines:
  assumes "release_writer_body c q d = Inr (r, d')"
  shows "(writer_step (julian c))\<^sup>=\<^sup>= (writer_view d) (writer_view d')"
proof (cases r)
  case True
  then have "d' = d"
    using assms unfolding release_writer_body_def Let_def by (auto elim!: step_elims)
  then show ?thesis by simp
next
  case False
  with assms have "release_writer_body c q d = Inr (False, d')" by simp
  from release_writer_new [OF this] show ?thesis
    by (elim exE conjE) (rule sup2I1, rule freed_refines; simp)
qed

lemma revoke_refines:
  assumes "revoke_writer_body c q d = Inr (r, d')"
  shows "(writer_step (julian c))\<^sup>=\<^sup>= (writer_view d) (writer_view d')"
proof (cases r)
  case True
  then have "d' = d"
    using assms unfolding revoke_writer_body_def Let_def by (auto elim!: step_elims)
  then show ?thesis by simp
next
  case False
  with assms have "revoke_writer_body c q d = Inr (False, d')" by simp
  from revoke_writer_new [OF this] show ?thesis
    by (elim exE conjE) (rule sup2I1, rule freed_refines; simp)
qed

end
