(* ===== verification/Receipts.thy ===== *)
theory Receipts
  imports Global_Writer_Laws
begin

text \<open>
  Typed PostgreSQL operation receipts (\<open>src/adcp/store/sqlite.py\<close>): an append-only log in
  which an operation is prepared and then finalised, each receipt bound to the live W08
  writer, its change and the decision it acquired the lease under.
\<close>

section \<open>Reading the receipts\<close>

definition receipts_of :: "string \<Rightarrow> db \<Rightarrow> receipt_row list result" where
  "receipts_of op d = (if op = [] then Inl (StoreError ''INVALID_INPUT'')
    else Inr (filter (\<lambda>r. rc_operation_id (rr_fields r) = op) (receipts d)))"

definition get_receipt :: "string \<Rightarrow> string \<Rightarrow> db \<Rightarrow> receipt_row option result" where
  "get_receipt op phase d =
    (if op = [] then Inl (StoreError ''INVALID_INPUT'')
     else if phase \<notin> {''PREPARED'', ''FINAL''} then Inl (StoreError ''INVALID_INPUT'')
     else Inr (find (\<lambda>r. rc_operation_id (rr_fields r) = op \<and> rc_phase (rr_fields r) = phase) (receipts d)))"

datatype receipt_state = ABSENT | PREPARED_ONLY receipt_row | FINAL_STATE receipt_row receipt_row

definition receipt_state_of :: "string \<Rightarrow> string \<Rightarrow> db \<Rightarrow> receipt_state result" where
  "receipt_state_of op fingerprint d =
    bnd (require_sha256 fingerprint) (\<lambda>_.
    bnd (receipts_of op d) (\<lambda>rows.
    if rows = [] then Inr ABSENT
    else if list_ex (\<lambda>r. rc_request_fingerprint (rr_fields r) \<noteq> fingerprint) rows
      then Inl (StoreError ''TYPED_POSTGRES_OPERATION_REQUEST_CONFLICT'')
    else (case find (\<lambda>r. rc_phase (rr_fields r) = ''PREPARED'') rows of
        None \<Rightarrow> Inl (StoreError ''TYPED_POSTGRES_RECEIPT_STATE_INVALID'')
      | Some p \<Rightarrow> (case find (\<lambda>r. rc_phase (rr_fields r) = ''FINAL'') rows of
            None \<Rightarrow> Inr (PREPARED_ONLY p) | Some f \<Rightarrow> Inr (FINAL_STATE p f)))))"

section \<open>append_typed_postgres_operation_receipt_event\<close>

definition receipt_shape :: "receipt_fields \<Rightarrow> unit result" where
  "receipt_shape f =
    (let bad = Inl (StoreError ''INVALID_INPUT'') in
     if rc_version f \<noteq> 1 then bad
     else if [] \<in> {rc_change_id f, rc_control_decision_ref f, rc_deployment_id f, rc_operation_id f,
         rc_operation_type f, rc_target_service f, rc_created_at f} then bad
     else if rc_phase f \<notin> {''PREPARED'', ''FINAL''} then bad
     else if rc_effect_status f \<notin> {''PENDING'', ''APPLIED'', ''NOOP_EXACT''} then bad
     else if rc_phase f = ''PREPARED'' \<and> (rc_effect_status f \<noteq> ''PENDING'' \<or> rc_after_fingerprint f \<noteq> None) then bad
     else if rc_phase f = ''FINAL'' \<and> (rc_effect_status f \<notin> {''APPLIED'', ''NOOP_EXACT''} \<or> rc_after_fingerprint f = None)
       then bad
     else bnd (require_sha256 (rc_request_fingerprint f)) (\<lambda>_.
          bnd (require_sha256 (rc_before_fingerprint f)) (\<lambda>_.
          bnd (case rc_after_fingerprint f of None \<Rightarrow> Inr () | Some h \<Rightarrow> require_sha256 h) (\<lambda>_.
          bnd (case rc_artifact_sha256 f of None \<Rightarrow> Inr () | Some h \<Rightarrow> require_sha256 h) (\<lambda>_.
     if Some [] \<in> {rc_target_database f, rc_principal_identity f, rc_credential_reference f, rc_artifact_path f}
       then bad
     else if rc_w08_token f \<le> 0 then bad else Inr ())))))"

text \<open>The acquisition the bound authority stands on: the last event that handed it the token.\<close>

definition acquisition_of :: "string \<Rightarrow> int \<Rightarrow> db \<Rightarrow> writer_event_row option" where
  "acquisition_of owner token d = find_last
    (\<lambda>e. ge_event_type e \<in> {ACQUIRE, EXPIRED_TAKEOVER} \<and> wc_owner_id (ge_new e) = Some owner
       \<and> ge_to_token e = token) (writer_events d)"

definition receipt_authority :: "ctx \<Rightarrow> receipt_fields \<Rightarrow> db \<Rightarrow> unit result" where
  "receipt_authority c f d =
    (case bound_authority c of
       None \<Rightarrow> Inl (StoreError ''TYPED_POSTGRES_W08_RECEIPT_AUTHORITY_REQUIRED'')
     | Some (owner, token) \<Rightarrow>
         (if token \<noteq> rc_w08_token f then Inl (StoreError ''TYPED_POSTGRES_W08_RECEIPT_FENCING_MISMATCH'')
          else bnd (assert_current_writer c 1 owner token d) (\<lambda>w.
            if wc_writer_class (gw_context w) \<noteq> Some ''W08_CONTROLLED_PRODUCTION_DEPLOYMENT''
              then Inl (StoreError ''TYPED_POSTGRES_W08_RECEIPT_WRITER_CLASS_INVALID'')
            else if wc_change_id (gw_context w) \<noteq> Some (rc_change_id f)
                \<or> wc_slice_id (gw_context w) \<noteq> Some (rc_deployment_id f)
              then Inl (StoreError ''TYPED_POSTGRES_W08_RECEIPT_CONTEXT_MISMATCH'')
            else (case acquisition_of owner token d of
                None \<Rightarrow> Inl (StoreError ''TYPED_POSTGRES_CONTROL_DECISION_BINDING_MISMATCH'')
              | Some e \<Rightarrow> if ge_control_decision_ref e \<noteq> Some (rc_control_decision_ref f)
                  then Inl (StoreError ''TYPED_POSTGRES_CONTROL_DECISION_BINDING_MISMATCH'') else Inr ()))))"

fun receipt_conflict :: "'a result \<Rightarrow> 'a result" where
  "receipt_conflict (Inl (IntegrityError _)) = Inl (StoreError ''TYPED_POSTGRES_RECEIPT_CONFLICT'')"
| "receipt_conflict m = m"

lemma receipt_conflict_Inr [success]: "receipt_conflict m = Inr a \<longleftrightarrow> m = Inr a"
  by (cases m rule: receipt_conflict.cases) auto

definition receipt_body :: "ctx \<Rightarrow> receipt_fields \<Rightarrow> db \<Rightarrow> (unit \<times> db) result" where
  "receipt_body c f d = receipt_conflict
    (bnd (insert_receipt (text_julian c) \<lparr>rr_receipt_id = uuid c 0, rr_fields = f\<rparr> d) (\<lambda>d1. Inr ((), d1)))"

text \<open>The durability acknowledgement: the row read back after the commit is the row written.\<close>

definition receipt_ack :: "ctx \<Rightarrow> receipt_fields \<Rightarrow> db \<Rightarrow> receipt_row result" where
  "receipt_ack c f d =
    bnd (get_receipt (rc_operation_id f) (rc_phase f) d) (\<lambda>found.
    case found of
      None \<Rightarrow> Inl (StoreError ''TYPED_POSTGRES_RECEIPT_DURABILITY_ACK_FAILED'')
    | Some r \<Rightarrow> if rr_receipt_id r \<noteq> uuid c 0 \<or> rr_fields r \<noteq> f
        then Inl (StoreError ''TYPED_POSTGRES_RECEIPT_DURABILITY_ACK_FAILED'') else Inr r)"

definition append_receipt :: "ctx \<Rightarrow> receipt_fields \<Rightarrow> db \<Rightarrow> receipt_row result \<times> db" where
  "append_receipt c f d = precheck (bnd (receipt_shape f) (\<lambda>_. receipt_authority c f d))
    (\<lambda>_ d. reading (\<lambda>_. receipt_ack c f) (transaction c (receipt_body c f) d)) d"

section \<open>The receipt log\<close>

text \<open>
  The abstract log: per operation at most one receipt of each phase, and a \<open>FINAL\<close> only after
  the \<open>PREPARED\<close> of the same request, artifact, state and token.
\<close>

definition receipt_log_ok :: "receipt_row list \<Rightarrow> bool" where
  "receipt_log_ok rs \<longleftrightarrow>
     distinct (map (\<lambda>r. (rc_operation_id (rr_fields r), rc_phase (rr_fields r))) rs) \<and>
     (\<forall>r\<in>set rs. rc_phase (rr_fields r) \<in> {''PREPARED'', ''FINAL''}) \<and>
     (\<forall>n<length rs. rc_phase (rr_fields (rs ! n)) = ''FINAL''
        \<longrightarrow> (\<exists>m<n. prepared_for (rr_fields (rs ! m)) (rr_fields (rs ! n))))"

lemma receipt_log_snoc:
  assumes "receipt_log_ok rs"
    and "\<not> (\<exists>x\<in>set rs. rc_operation_id (rr_fields x) = rc_operation_id (rr_fields r)
            \<and> rc_phase (rr_fields x) = rc_phase (rr_fields r))"
    and "rc_phase (rr_fields r) \<in> {''PREPARED'', ''FINAL''}"
    and "rc_phase (rr_fields r) = ''FINAL'' \<longrightarrow> (\<exists>p\<in>set rs. prepared_for (rr_fields p) (rr_fields r))"
  shows "receipt_log_ok (rs @ [r])"
proof -
  have "distinct (map (\<lambda>r. (rc_operation_id (rr_fields r), rc_phase (rr_fields r))) (rs @ [r]))"
    using assms(1,2) by (auto simp: receipt_log_ok_def)
  moreover have "\<forall>x\<in>set (rs @ [r]). rc_phase (rr_fields x) \<in> {''PREPARED'', ''FINAL''}"
    using assms(1,3) by (simp add: receipt_log_ok_def)
  moreover have "\<exists>m<n. prepared_for (rr_fields ((rs @ [r]) ! m)) (rr_fields ((rs @ [r]) ! n))"
    if n: "n < length (rs @ [r])" "rc_phase (rr_fields ((rs @ [r]) ! n)) = ''FINAL''" for n
  proof (cases "n < length rs")
    case True
    with n assms(1) obtain m where "m < n" "prepared_for (rr_fields (rs ! m)) (rr_fields (rs ! n))"
      by (auto simp: receipt_log_ok_def nth_append)
    with True show ?thesis by (auto intro!: exI [of _ m] simp: nth_append)
  next
    case False
    with n(1) have "n = length rs" by simp
    with n(2) have "rc_phase (rr_fields r) = ''FINAL''" by simp
    then obtain m where "m < length rs" "prepared_for (rr_fields (rs ! m)) (rr_fields r)"
      using assms(4) by (metis in_set_conv_nth)
    with \<open>n = length rs\<close> show ?thesis by (auto intro!: exI [of _ m] simp: nth_append)
  qed
  ultimately show ?thesis unfolding receipt_log_ok_def by blast
qed

lemma receipt_body_ok:
  assumes "receipt_body c f d = Inr (u, d')" and "receipt_log_ok (receipts d)"
  shows "receipt_log_ok (receipts d')"
proof -
  let ?r = "\<lparr>rr_receipt_id = uuid c 0, rr_fields = f\<rparr>"
  have ins: "insert_receipt (text_julian c) ?r d = Inr d'"
    using assms(1) unfolding receipt_body_def by (auto simp: success)
  have "rc_phase f \<in> {''PREPARED'', ''FINAL''}"
    using insert_receipt_Inr(2) [OF ins] unfolding receipt_check_def by simp
  with receipt_log_snoc [OF assms(2), of ?r] insert_receipt_Inr [OF ins] show ?thesis by simp
qed

text \<open>A receipt that was written is found where the acknowledgement looks for it.\<close>

lemma receipt_acknowledged:
  assumes "receipt_body c f d = Inr (u, d')" and "receipt_shape f = Inr v"
  shows "receipt_ack c f d' = Inr \<lparr>rr_receipt_id = uuid c 0, rr_fields = f\<rparr>"
proof -
  let ?r = "\<lparr>rr_receipt_id = uuid c 0, rr_fields = f\<rparr>"
  have ins: "insert_receipt (text_julian c) ?r d = Inr d'"
    using assms(1) unfolding receipt_body_def by (auto simp: success)
  have "find (\<lambda>r. rc_operation_id (rr_fields r) = rc_operation_id f \<and> rc_phase (rr_fields r) = rc_phase f)
      (receipts d') = Some ?r"
    using insert_receipt_Inr(1,4) [OF ins] by (auto simp: find_append find_eq_None split: option.splits dest!: find_SomeD)
  moreover have "rc_operation_id f \<noteq> []" "rc_phase f = ''PREPARED'' \<or> rc_phase f = ''FINAL''"
    using insert_receipt_Inr(2) [OF ins] unfolding receipt_check_def by auto
  ultimately show ?thesis
    unfolding receipt_ack_def get_receipt_def by auto
qed

end
