(* ===== verification/Frames.thy ===== *)
theory Frames
  imports Execution_Laws Slice_Laws Receipts
begin

text \<open>
  What an operation leaves alone. The store keeps four state machines side by side: the
  executions, the global writer, the control authority and the recovery receipts. A statement
  on one table keeps every view that does not read it, and so does a sequence of them.
\<close>

definition keeps :: "('d \<Rightarrow> 'v) \<Rightarrow> 'd \<Rightarrow> 'd \<Rightarrow> bool" where
  "keeps view d d' \<longleftrightarrow> view d' = view d"

lemma keeps_refl: "keeps view d d"
  by (simp add: keeps_def)

lemma keeps_trans: "keeps view d d' \<Longrightarrow> keeps view d' d'' \<Longrightarrow> keeps view d d''"
  by (simp add: keeps_def)

definition control_view :: "db \<Rightarrow> writer_view \<times> authority_view \<times> receipt_row list" where
  "control_view d = (writer_view d, authority_view d, receipts d)"

lemmas view_defs = slice_view_def keeps_def control_view_def exec_view_def writer_view_def authority_view_def find_execution_def

lemma insert_manifest_Inr: "insert_manifest m d = Inr d' \<Longrightarrow> d' = d\<lparr>manifests := manifests d @ [m]\<rparr>"
  unfolding insert_manifest_def by (simp split: if_split_asm)

lemma insert_event_row_Inr: "insert_event_row e d = Inr d' \<Longrightarrow>
    d' = d\<lparr>events := events d @ [e\<lparr>ev_seq := Suc (length (events d))\<rparr>]\<rparr>"
  unfolding insert_event_row_def by (simp split: if_split_asm)

lemmas written = insert_execution_Inr(2) update_executions_Inr insert_event_row_Inr insert_context_Inr(2)
  insert_attempt_Inr(2) insert_verification_Inr(2) insert_approval_Inr(2) update_approvals_Inr
  insert_manifest_Inr insert_slice_Inr(2) insert_slice_event_Inr(1) update_slices_Inr(1)

lemma cas_slice_Inr: "cas_slice i v target now d = Inr d' \<Longrightarrow>
    \<exists>n. update_slices (\<lambda>r. sc_id r = i \<and> sc_state_version r = v) (set_slice_fields target now) d = Inr (d', n)"
  unfolding cas_slice_def by (elim step_elims) (simp_all add: success)

text \<open>
  The tables of executions, slices and their evidence, taken out: what statements on them keep.
  The control state is a part of it.
\<close>

definition sans_core :: "db \<Rightarrow> db" where
  "sans_core d = d\<lparr>executions := [], contexts := [], attempts := [], events := [], verifications := [],
     approvals := [], manifests := [], slices := [], slice_events := []\<rparr>"

lemma core_control: "keeps sans_core d d' \<Longrightarrow> keeps control_view d d'"
  unfolding keeps_def sans_core_def by (cases d; cases d') (simp add: view_defs)

lemma core_frame:
  "insert_execution r d = Inr d1 \<Longrightarrow> keeps sans_core d0 d \<Longrightarrow> keeps sans_core d0 d1"
  "update_executions p f d = Inr (d1, n) \<Longrightarrow> keeps sans_core d0 d \<Longrightarrow> keeps sans_core d0 d1"
  "insert_event_row e d = Inr d1 \<Longrightarrow> keeps sans_core d0 d \<Longrightarrow> keeps sans_core d0 d1"
  "insert_context x d = Inr d1 \<Longrightarrow> keeps sans_core d0 d \<Longrightarrow> keeps sans_core d0 d1"
  "insert_attempt a d = Inr d1 \<Longrightarrow> keeps sans_core d0 d \<Longrightarrow> keeps sans_core d0 d1"
  "insert_verification v d = Inr d1 \<Longrightarrow> keeps sans_core d0 d \<Longrightarrow> keeps sans_core d0 d1"
  "insert_approval ap d = Inr d1 \<Longrightarrow> keeps sans_core d0 d \<Longrightarrow> keeps sans_core d0 d1"
  "update_approvals pa fa d = Inr (d1, n) \<Longrightarrow> keeps sans_core d0 d \<Longrightarrow> keeps sans_core d0 d1"
  "insert_manifest m d = Inr d1 \<Longrightarrow> keeps sans_core d0 d \<Longrightarrow> keeps sans_core d0 d1"
  "insert_slice s d = Inr d1 \<Longrightarrow> keeps sans_core d0 d \<Longrightarrow> keeps sans_core d0 d1"
  "insert_slice_event se d = Inr d1 \<Longrightarrow> keeps sans_core d0 d \<Longrightarrow> keeps sans_core d0 d1"
  "update_slices ps fs d = Inr (d1, n) \<Longrightarrow> keeps sans_core d0 d \<Longrightarrow> keeps sans_core d0 d1"
  by (drule written, simp add: keeps_def sans_core_def; fail)+

lemma core_frame_compound:
  "insert_event c k e d = Inr d1 \<Longrightarrow> keeps sans_core d0 d \<Longrightarrow> keeps sans_core d0 d1"
  "update_at_version i v f d = Inr (d1, n) \<Longrightarrow> keeps sans_core d0 d \<Longrightarrow> keeps sans_core d0 d1"
  "cas_execution i v f d = Inr d1 \<Longrightarrow> keeps sans_core d0 d \<Longrightarrow> keeps sans_core d0 d1"
  "cas_slice j w target now d = Inr d1 \<Longrightarrow> keeps sans_core d0 d \<Longrightarrow> keeps sans_core d0 d1"
  unfolding insert_event_def update_at_version_def
  by (blast intro: core_frame dest: cas_execution_Inr [unfolded update_at_version_def] cas_slice_Inr)+

lemmas core_frames = keeps_refl core_frame core_frame_compound

text \<open>Statements on any other table keep the executions and their log.\<close>

lemma execution_frame:
  "insert_context x d = Inr d1 \<Longrightarrow> keeps exec_view d0 d \<Longrightarrow> keeps exec_view d0 d1"
  "insert_attempt a d = Inr d1 \<Longrightarrow> keeps exec_view d0 d \<Longrightarrow> keeps exec_view d0 d1"
  "insert_verification v d = Inr d1 \<Longrightarrow> keeps exec_view d0 d \<Longrightarrow> keeps exec_view d0 d1"
  "insert_approval ap d = Inr d1 \<Longrightarrow> keeps exec_view d0 d \<Longrightarrow> keeps exec_view d0 d1"
  "update_approvals pa fa d = Inr (d1, n) \<Longrightarrow> keeps exec_view d0 d \<Longrightarrow> keeps exec_view d0 d1"
  "insert_manifest m d = Inr d1 \<Longrightarrow> keeps exec_view d0 d \<Longrightarrow> keeps exec_view d0 d1"
  "insert_slice s d = Inr d1 \<Longrightarrow> keeps exec_view d0 d \<Longrightarrow> keeps exec_view d0 d1"
  "insert_slice_event se d = Inr d1 \<Longrightarrow> keeps exec_view d0 d \<Longrightarrow> keeps exec_view d0 d1"
  "update_slices ps fs d = Inr (d1, n) \<Longrightarrow> keeps exec_view d0 d \<Longrightarrow> keeps exec_view d0 d1"
  by (drule written, simp add: view_defs; fail)+

lemma execution_frame_compound:
  "cas_slice j w target now d = Inr d1 \<Longrightarrow> keeps exec_view d0 d \<Longrightarrow> keeps exec_view d0 d1"
  by (blast intro: execution_frame dest: cas_slice_Inr)

lemmas execution_frames = keeps_refl execution_frame execution_frame_compound

text \<open>Statements on executions and evidence keep the slices.\<close>

lemma slice_frame:
  "insert_execution r d = Inr d1 \<Longrightarrow> keeps slice_view d0 d \<Longrightarrow> keeps slice_view d0 d1"
  "update_executions p f d = Inr (d1, n) \<Longrightarrow> keeps slice_view d0 d \<Longrightarrow> keeps slice_view d0 d1"
  "insert_event_row e d = Inr d1 \<Longrightarrow> keeps slice_view d0 d \<Longrightarrow> keeps slice_view d0 d1"
  "insert_context x d = Inr d1 \<Longrightarrow> keeps slice_view d0 d \<Longrightarrow> keeps slice_view d0 d1"
  "insert_attempt a d = Inr d1 \<Longrightarrow> keeps slice_view d0 d \<Longrightarrow> keeps slice_view d0 d1"
  "insert_verification v d = Inr d1 \<Longrightarrow> keeps slice_view d0 d \<Longrightarrow> keeps slice_view d0 d1"
  "insert_approval ap d = Inr d1 \<Longrightarrow> keeps slice_view d0 d \<Longrightarrow> keeps slice_view d0 d1"
  "update_approvals pa fa d = Inr (d1, n) \<Longrightarrow> keeps slice_view d0 d \<Longrightarrow> keeps slice_view d0 d1"
  "insert_manifest m d = Inr d1 \<Longrightarrow> keeps slice_view d0 d \<Longrightarrow> keeps slice_view d0 d1"
  by (drule written, simp add: view_defs; fail)+

lemma slice_frame_compound:
  "insert_event c k e d = Inr d1 \<Longrightarrow> keeps slice_view d0 d \<Longrightarrow> keeps slice_view d0 d1"
  "update_at_version i v f d = Inr (d1, n) \<Longrightarrow> keeps slice_view d0 d \<Longrightarrow> keeps slice_view d0 d1"
  "cas_execution i v f d = Inr d1 \<Longrightarrow> keeps slice_view d0 d \<Longrightarrow> keeps slice_view d0 d1"
  unfolding insert_event_def update_at_version_def
  by (blast intro: slice_frame dest: cas_execution_Inr [unfolded update_at_version_def])+

lemmas slice_frames = keeps_refl slice_frame slice_frame_compound

section \<open>The operations\<close>

text \<open>No operation on executions, slices or evidence touches the control state.\<close>

lemma keeps_core:
  "acquire_lease_body c q1 d = Inr (u1, d1) \<Longrightarrow> keeps sans_core d d1"
  "heartbeat_body c i2 v2 owner2 generation2 ttl2 d = Inr (u2, d1) \<Longrightarrow> keeps sans_core d d1"
  "release_lease_body c q3 d = Inr (u3, d1) \<Longrightarrow> keeps sans_core d d1"
  "create_execution_body c x4 key4 root4 d = Inr (u4, d1) \<Longrightarrow> keeps sans_core d d1"
  "transition_body c q5 d = Inr (u5, d1) \<Longrightarrow> keeps sans_core d d1"
  "register_result_body c q6 d = Inr (u6, d1) \<Longrightarrow> keeps sans_core d d1"
  "schedule_rework_body c q7 d = Inr (u7, d1) \<Longrightarrow> keeps sans_core d d1"
  "authorize_high_rework_body c q8 d = Inr (u8, d1) \<Longrightarrow> keeps sans_core d d1"
  "human_rework_body c q9 d = Inr (u9, d1) \<Longrightarrow> keeps sans_core d d1"
  "accept_body c q10 ids10 d = Inr (u10, d1) \<Longrightarrow> keeps sans_core d d1"
  "context_body c q11 s11 d = Inr (u11, d1) \<Longrightarrow> keeps sans_core d d1"
  "verification_body r12 d = Inr (u12, d1) \<Longrightarrow> keeps sans_core d d1"
  "attempt_body c q13 d = Inr (u13, d1) \<Longrightarrow> keeps sans_core d d1"
  "request_approval_body c q14 d = Inr (u14, d1) \<Longrightarrow> keeps sans_core d d1"
  "resolve_approval_body c a15 i15 authority_ref15 approved15 fence15 d = Inr (u15, d1) \<Longrightarrow> keeps sans_core d d1"
  "reconcile_slice_body c q16 s16 d = Inr (u16, d1) \<Longrightarrow> keeps sans_core d d1"
  "bind_body c q17 root17 d = Inr (u17, d1) \<Longrightarrow> keeps sans_core d d1"
  "finalize_body c q18 d = Inr (u18, d1) \<Longrightarrow> keeps sans_core d d1"
  "release_body c q19 d = Inr (u19, d1) \<Longrightarrow> keeps sans_core d d1"
  unfolding acquire_lease_body_def heartbeat_body_def release_lease_body_def
    create_execution_body_def transition_body_def register_result_body_def
    schedule_rework_body_def authorize_high_rework_body_def human_rework_body_def
    accept_body_def accept_approval_def context_body_def verification_body_def attempt_body_def
    request_approval_body_def resolve_approval_body_def reconcile_slice_body_def bind_body_def
    bind_writes_def finalize_body_def finalize_writes_def release_body_def release_writes_def
    Let_def
  by (elim body_elims; clarsimp?; (rule keeps_refl | erule core_frames)+; fail)+

lemmas keeps_control = keeps_core [THEN core_control]

text \<open>Registering evidence, approvals and slices leaves every execution as it is.\<close>

lemma keeps_executions:
  "context_body c q20 s20 d = Inr (u20, d1) \<Longrightarrow> keeps exec_view d d1"
  "verification_body r21 d = Inr (u21, d1) \<Longrightarrow> keeps exec_view d d1"
  "attempt_body c q22 d = Inr (u22, d1) \<Longrightarrow> keeps exec_view d d1"
  "request_approval_body c q23 d = Inr (u23, d1) \<Longrightarrow> keeps exec_view d d1"
  "resolve_approval_body c a24 i24 authority_ref24 approved24 fence24 d = Inr (u24, d1) \<Longrightarrow> keeps exec_view d d1"
  "reconcile_slice_body c q25 s25 d = Inr (u25, d1) \<Longrightarrow> keeps exec_view d d1"
  unfolding context_body_def verification_body_def attempt_body_def request_approval_body_def
    resolve_approval_body_def reconcile_slice_body_def Let_def
  by (elim body_elims; clarsimp?; (rule keeps_refl | erule execution_frames)+; fail)+

text \<open>Only the slice operations and the deferred ones change a slice.\<close>

lemma keeps_slices:
  "acquire_lease_body c q1 d = Inr (u1, d1) \<Longrightarrow> keeps slice_view d d1"
  "heartbeat_body c i2 v2 owner2 generation2 ttl2 d = Inr (u2, d1) \<Longrightarrow> keeps slice_view d d1"
  "release_lease_body c q3 d = Inr (u3, d1) \<Longrightarrow> keeps slice_view d d1"
  "create_execution_body c x4 key4 root4 d = Inr (u4, d1) \<Longrightarrow> keeps slice_view d d1"
  "transition_body c q5 d = Inr (u5, d1) \<Longrightarrow> keeps slice_view d d1"
  "register_result_body c q6 d = Inr (u6, d1) \<Longrightarrow> keeps slice_view d d1"
  "schedule_rework_body c q7 d = Inr (u7, d1) \<Longrightarrow> keeps slice_view d d1"
  "authorize_high_rework_body c q8 d = Inr (u8, d1) \<Longrightarrow> keeps slice_view d d1"
  "human_rework_body c q9 d = Inr (u9, d1) \<Longrightarrow> keeps slice_view d d1"
  "accept_body c q10 ids10 d = Inr (u10, d1) \<Longrightarrow> keeps slice_view d d1"
  "context_body c q11 s11 d = Inr (u11, d1) \<Longrightarrow> keeps slice_view d d1"
  "verification_body r12 d = Inr (u12, d1) \<Longrightarrow> keeps slice_view d d1"
  "attempt_body c q13 d = Inr (u13, d1) \<Longrightarrow> keeps slice_view d d1"
  "request_approval_body c q14 d = Inr (u14, d1) \<Longrightarrow> keeps slice_view d d1"
  "resolve_approval_body c a15 i15 authority_ref15 approved15 fence15 d = Inr (u15, d1) \<Longrightarrow> keeps slice_view d d1"
  unfolding acquire_lease_body_def heartbeat_body_def release_lease_body_def
    create_execution_body_def transition_body_def register_result_body_def
    schedule_rework_body_def authorize_high_rework_body_def human_rework_body_def
    accept_body_def accept_approval_def context_body_def verification_body_def attempt_body_def
    request_approval_body_def resolve_approval_body_def Let_def
  by (elim body_elims; clarsimp?; (rule keeps_refl | erule slice_frames)+; fail)+

end
