(* ===== verification/Execution_Refinement.thy ===== *)
theory Execution_Refinement
  imports Frames
begin

text \<open>
  Every operation of the store is, on the view of executions and their log, no step or some
  steps of the abstract machine of \<open>Execution_Laws\<close>.
\<close>

section \<open>Statements as steps\<close>

lemma edge_event [simp]: "edge K s (e\<lparr>ev_event_id := a, ev_seq := n\<rparr>) t = edge K s e t"
  by (simp add: edge_def table_move_def closure_move_def resume_named_def commit_named_def reschedules_def split: event_type.split)

lemma moved_event [simp]: "moved K r r' (e\<lparr>ev_event_id := a, ev_seq := n\<rparr>) = moved K r r' e"
  by (simp add: moved_def lease_move_def)

lemma fresh_event [simp]: "fresh r (e\<lparr>ev_event_id := a, ev_seq := n\<rparr>) = fresh r e"
  by (simp add: fresh_def)

lemma keeps_exec_view: "keeps exec_view d d0 \<Longrightarrow> find_execution i d0 = find_execution i d \<and> events d0 = events d"
  unfolding keeps_def exec_view_def by (auto dest: fun_cong)

text \<open>An update of one row by a key-preserving function, and what it makes of the view.\<close>

lemma update_executions_view:
  assumes "find_execution i d = Some r" and "keeps exec_view d d0"
    and "update_executions p f d0 = Inr (d1, n)"
    and "p r" and "\<And>x. p x \<Longrightarrow> ex_id x = i" and key: "\<And>x. ex_id (f x) = ex_id x"
  shows "exec_view d1 = ((fst (exec_view d))(i \<mapsto> f r), snd (exec_view d))" and "execution_check (f r)"
proof -
  have same: "find_execution k d0 = find_execution k d" "events d0 = events d" for k
    using keeps_exec_view [OF assms(2)] by auto
  have i: "ex_id r = i" using assms(1) by (rule execution_table.get_key)
  have "find_execution k d1 = ((fst (exec_view d))(i \<mapsto> f r)) k" for k
  proof (cases "k = i")
    case True
    then show ?thesis
      using execution_table.get_modify [OF assms(3) key, of k] assms(1,4) same by simp
  next
    case False
    then show ?thesis
      using execution_table.get_modify_other [OF assms(3) key, of k] assms(5) same
      by (simp add: exec_view_def)
  qed
  then show "exec_view d1 = ((fst (exec_view d))(i \<mapsto> f r), snd (exec_view d))"
    using update_executions_Inr [OF assms(3)] same by (auto simp: exec_view_def)
  have "r \<in> set (executions d0)"
    using assms(1) same unfolding find_execution_def by (metis find_SomeD)
  with assms(3,4) show "execution_check (f r)"
    unfolding update_executions_def by (auto simp: Let_def split: if_split_asm)
qed

lemma insert_event_view:
  assumes "insert_event c k e d = Inr d'"
  shows "\<exists>a n. exec_view d' = (fst (exec_view d), snd (exec_view d) @ [e\<lparr>ev_event_id := a, ev_seq := n\<rparr>])"
  using insert_event_Inr(1) [OF assms] by (auto simp: exec_view_def find_execution_def)

text \<open>The pattern of the code: one guarded update, one event.\<close>

lemma logged_update:
  assumes row: "find_execution i d = Some r" and "keeps exec_view d d0"
    and "update_executions p f d0 = Inr (d1, n)" and "insert_event c k e d1 = Inr d2"
    and "p r" and "\<And>x. p x \<Longrightarrow> ex_id x = i" and "\<And>x. ex_id (f x) = ex_id x"
    and move: "ex_id r = i \<Longrightarrow> execution_check (f r) \<Longrightarrow> moved K r (f r) e"
  shows "exec_step K (exec_view d) (exec_view d2)" and "find_execution i d2 = Some (f r)"
proof -
  obtain m es where v: "exec_view d = (m, es)" by (cases "exec_view d")
  note upd = update_executions_view [OF assms(1,2,3,5,6,7)]
  from insert_event_view [OF assms(4)] upd(1) v obtain a j where
    d2: "exec_view d2 = (m(i \<mapsto> f r), es @ [e\<lparr>ev_event_id := a, ev_seq := j\<rparr>])" by auto
  have i: "ex_id r = i" using row by (rule execution_table.get_key)
  have "m (ex_id r) = Some r" using row v i by (auto simp: exec_view_def)
  then have "exec_step K (m, es) (m(ex_id r \<mapsto> f r), es @ [e\<lparr>ev_event_id := a, ev_seq := j\<rparr>])"
    using move [OF i upd(2)] by (intro exec_step.moves) simp_all
  then show "exec_step K (exec_view d) (exec_view d2)" unfolding v d2 i .
  show "find_execution i d2 = Some (f r)"
    using arg_cong [OF d2, of "\<lambda>w. fst w i"] by (simp add: exec_view_def)
qed

lemma logged_at_version:
  assumes "find_execution i d = Some r" and "ex_state_version r = v" and "keeps exec_view d d0"
    and "update_at_version i v f d0 = Inr (d1, n)" and "insert_event c k e d1 = Inr d2"
    and "\<And>x. ex_id (f x) = ex_id x" and "ex_id r = i \<Longrightarrow> execution_check (f r) \<Longrightarrow> moved K r (f r) e"
  shows "exec_step K (exec_view d) (exec_view d2)" and "find_execution i d2 = Some (f r)"
  using logged_update [OF assms(1,3) assms(4) [unfolded update_at_version_def] assms(5) _ _ assms(6,7)]
    execution_table.get_key [OF assms(1)] assms(2) by auto

lemma logged_cas:
  assumes "find_execution i d = Some r" and "ex_state_version r = v" and "keeps exec_view d d0"
    and "cas_execution i v f d0 = Inr d1" and "insert_event c k e d1 = Inr d2"
    and "\<And>x. ex_id (f x) = ex_id x" and "ex_id r = i \<Longrightarrow> execution_check (f r) \<Longrightarrow> moved K r (f r) e"
  shows "exec_step K (exec_view d) (exec_view d2)" and "find_execution i d2 = Some (f r)"
  using cas_execution_Inr [OF assms(4)] logged_at_version [OF assms(1-3) _ assms(5-7)] by blast+

text \<open>A creation: one row, one event.\<close>

lemma logged_insert:
  assumes "insert_execution r d = Inr d1" and "insert_event c k e d1 = Inr d2" and "execution_check r \<Longrightarrow> fresh r e"
  shows "exec_step K (exec_view d) (exec_view d2)"
proof -
  obtain m es where v: "exec_view d = (m, es)" by (cases "exec_view d")
  have "find_execution x d1 = (m(ex_id r \<mapsto> r)) x" for x
    using execution_table.get_put [OF assms(1)] v by (auto simp: exec_view_def)
  then have d1: "exec_view d1 = (m(ex_id r \<mapsto> r), es)"
    using insert_execution_Inr(2) [OF assms(1)] v by (auto simp: exec_view_def)
  from insert_event_view [OF assms(2)] d1 obtain a j where
    d2: "exec_view d2 = (m(ex_id r \<mapsto> r), es @ [e\<lparr>ev_event_id := a, ev_seq := j\<rparr>])" by auto
  have "execution_check r" using assms(1) unfolding insert_execution_def by (simp split: if_split_asm)
  moreover have "m (ex_id r) = None"
    using execution_table.put_fresh [OF assms(1)] v by (auto simp: exec_view_def)
  ultimately show ?thesis
    unfolding v d2 using assms(3) by (intro exec_step.created) simp_all
qed

lemma kept_no_step: "keeps exec_view d d' \<Longrightarrow> (exec_step K)\<^sup>*\<^sup>* (exec_view d) (exec_view d')"
  by (simp add: keeps_def)

lemmas run_cas = logged_cas(1) [OF _ _ keeps_refl, THEN r_into_rtranclp [where r = "exec_step K" for K]]
lemmas run_at_version = logged_at_version(1) [OF _ _ keeps_refl, THEN r_into_rtranclp [where r = "exec_step K" for K]]
lemmas run_insert = logged_insert [THEN r_into_rtranclp [where r = "exec_step K" for K]]
text \<open>The events that leave the state, and the moves of the table.\<close>

lemma edge_quiet:
  "ev_event_type e = LEASE_ACQUIRED \<Longrightarrow> edge K s e t \<longleftrightarrow> ev_to_state e = sd_state t \<and> t = s \<and> sd_state s \<notin> terminal_states"
  "ev_event_type e = LEASE_RELEASED \<Longrightarrow> edge K s e t \<longleftrightarrow> ev_to_state e = sd_state t \<and> t = s"
  "ev_event_type e = RESULT_COMMIT_REGISTERED \<Longrightarrow> edge K s e t \<longleftrightarrow> ev_to_state e = sd_state t
     \<and> (\<exists>commit. commit_named e commit \<and> t = s\<lparr>sd_commit := Some commit\<rparr>)"
  by (simp_all add: edge_def)

lemma edge_table:
  assumes "ev_to_state e = sd_state t"
    and "ev_event_type e = (if sd_state t = ACCEPTED then ACCEPTED_EVENT else STATE_TRANSITION)"
    and "may_become (sd_state s) (sd_resume s) (sd_state t) (sd_resume t)" and "resume_named e (sd_resume t)"
    and "sd_commit t = sd_commit s"
    and "reschedules e \<Longrightarrow> sd_state s = REWORK_READY \<and> sd_state t = MAKER_RUNNING \<and> sd_reworks t = sd_reworks s + 1"
    and "\<not> reschedules e \<Longrightarrow> sd_reworks t = sd_reworks s"
  shows "edge K s e t"
  using assms by (auto simp: edge_def table_move_def split: if_split_asm)

lemmas move_simps = moved_def same_identity_def edge_quiet standing_def lease_move_def event_from_def fence_held_def

section \<open>What the requests name\<close>

text \<open>Only a transition chooses its reason; its request is never that of an automatic rework.\<close>

lemma transition_no_rework: "dumps (transition_request_json q) \<noteq> dumps (rework_request_json w)"
proof
  let ?a = "transition_request_json q" and ?b = "rework_request_json w"
  assume "dumps ?a = dumps ?b"
  moreover have plain: "plain ?a" "plain ?b" by (simp_all add: transition_request_json_def rework_request_json_def)
  ultimately have "map_option canon (member ''to_state'' ?a) = map_option canon (member ''to_state'' ?b)"
    using member_canon [of ?a "''to_state''"] member_canon [of ?b "''to_state''"] dumps_injective [of ?a ?b] by simp
  then show False by (simp add: transition_request_json_def rework_request_json_def)
qed

lemma commit_named_result:
  "ev_metadata_json e = dumps (result_request_json q) \<Longrightarrow> commit_named e (cq_result_commit q)"
  unfolding commit_named_def by blast

lemma commit_named_finalized:
  "ev_metadata_json e = dumps (finalize_json q) \<Longrightarrow> commit_named e (fq_result_commit q)"
  unfolding commit_named_def by blast

lemma resume_named_None [simp]: "resume_named e None"
  by (simp add: resume_named_def)

text \<open>Outside a wait and a block the schema keeps no resume state.\<close>

lemma settled_resume: "execution_check r \<Longrightarrow> ex_state r \<notin> {WAITING_APPROVAL, BLOCKED} \<Longrightarrow> ex_resume_state r = None"
  by (auto simp: execution_check_def)

lemma no_rework_reason [simp]: "ev_reason_code e \<noteq> ''MAKER_REWORK_SCHEDULED'' \<Longrightarrow> \<not> reschedules e"
  by (simp add: reschedules_def)

section \<open>Leases\<close>

lemma acquire_lease_refines:
  assumes "acquire_lease_body c q d = Inr (u, d')"
  shows "(exec_step K)\<^sup>*\<^sup>* (exec_view d) (exec_view d')"
  using assms unfolding acquire_lease_body_def Let_def
  apply (elim step_elims; clarsimp simp: success)
  by (erule (3) run_cas) (simp_all add: move_simps)

lemma heartbeat_refines:
  assumes "heartbeat_body c i v owner generation ttl d = Inr (u, d')"
  shows "(exec_step K)\<^sup>*\<^sup>* (exec_view d) (exec_view d')"
proof -
  obtain r n where r: "find_execution i d = Some r" "fence_held r owner generation (clock c 1)" "ex_state_version r = v"
    and upd: "update_executions
            (\<lambda>x. ex_id x = i \<and> ex_state_version x = v \<and> ex_lease_owner x = Some owner
               \<and> ex_lease_generation x = generation
               \<and> (case ex_lease_expires_at x of None \<Rightarrow> False | Some e \<Rightarrow> clock c 1 < e))
            (\<lambda>x. x\<lparr>ex_lease_expires_at := Some (clock c 1 + seconds ttl), ex_updated_at := clock c 1\<rparr>) d = Inr (d', n)"
    using assms unfolding heartbeat_body_def Let_def by (elim step_elims; clarsimp simp: success)
  obtain m es where v: "exec_view d = (m, es)" by (cases "exec_view d")
  have i: "ex_id r = i" using r(1) by (rule execution_table.get_key)
  note new = update_executions_view [OF r(1) keeps_refl upd]
  have "exec_step K (m, es) (m(ex_id r \<mapsto> r\<lparr>ex_lease_expires_at := Some (clock c 1 + seconds ttl), ex_updated_at := clock c 1\<rparr>), es)"
    by (rule exec_step.renewed [OF _ refl]) (use r v i new in \<open>auto simp: exec_view_def fence_held_def\<close>)
  moreover have "exec_view d' = (m(i \<mapsto> r\<lparr>ex_lease_expires_at := Some (clock c 1 + seconds ttl), ex_updated_at := clock c 1\<rparr>), es)"
    using new(1) r i v by (auto simp: fence_held_def)
  ultimately show ?thesis using v i by auto
qed

lemma release_lease_refines:
  assumes "release_lease_body c q d = Inr (u, d')"
  shows "(exec_step K)\<^sup>*\<^sup>* (exec_view d) (exec_view d')"
  using assms unfolding release_lease_body_def Let_def
  apply (elim step_elims; clarsimp simp: success)
  by (erule (3) run_at_version) (auto simp: move_simps)

section \<open>The life cycle\<close>

lemma create_execution_refines:
  assumes "create_execution_body c x key root d = Inr (u, d')"
  shows "(exec_step K)\<^sup>*\<^sup>* (exec_view d) (exec_view d')"
  using assms unfolding create_execution_body_def Let_def
  apply (elim body_elims; clarsimp)
  by (erule (1) run_insert) (simp add: fresh_def created_execution_def created_event_def)

lemma transition_moved:
  assumes "may_become (ex_state r) (ex_resume_state r) (tq_to_state q) (tq_resume_state q)"
    and "fence_held r (tq_owner q) (tq_generation q) now'" and "execution_check (transition_update q now r)"
  shows "moved K r (transition_update q now r) (event_from (transition_event_type q) r (tq_operation_key q)
    (tq_to_state q) (tq_actor_role q) (tq_actor_id q) (tq_generation q) (tq_reason_code q) (tq_reason_detail q)
    (dumps (transition_request_json q)) now)"
  using assms
  by (auto simp: move_simps transition_update_def transition_event_type_def reschedules_def
      resume_named_def transition_no_rework intro!: edge_table)

lemma transition_refines:
  assumes "transition_body c q d = Inr (u, d')"
  shows "(exec_step K)\<^sup>*\<^sup>* (exec_view d) (exec_view d')"
  using assms unfolding transition_body_def Let_def
  apply (elim step_elims; clarsimp simp: success validate_transition_iff)
  apply (erule (3) run_cas)
   apply (simp add: transition_update_def)
  apply (rule transition_moved)
    apply assumption+
  done

lemma register_result_refines:
  assumes "register_result_body c q d = Inr (u, d')"
  shows "(exec_step K)\<^sup>*\<^sup>* (exec_view d) (exec_view d')"
  using assms unfolding register_result_body_def Let_def
  apply (elim step_elims; clarsimp simp: success)
  by (erule (3) run_at_version) (auto simp: move_simps intro!: commit_named_result)

lemma schedule_rework_refines:
  assumes "schedule_rework_body c q d = Inr (u, d')"
  shows "(exec_step K)\<^sup>*\<^sup>* (exec_view d) (exec_view d')"
  using assms unfolding schedule_rework_body_def Let_def
  apply (elim step_elims; clarsimp simp: success)
  by (erule (3) run_cas) (auto simp: move_simps reschedules_def may_become_def execution_check_def intro!: edge_table)

section \<open>The human-authorised rework\<close>

lemma cas_slice_exec_view: "cas_slice i w t now d = Inr d' \<Longrightarrow> exec_view d' = exec_view d"
  using execution_frame_compound [OF _ keeps_refl] by (simp add: keeps_def)

lemma authorize_high_rework_refines:
  assumes "authorize_high_rework_body c q d = Inr (u, d')"
  shows "(exec_step K)\<^sup>*\<^sup>* (exec_view d) (exec_view d')"
proof -
  let ?i = "hq_execution_id q" and ?v = "hq_expected_version q"
  let ?f = "\<lambda>x. x\<lparr>ex_state := VERIFYING, ex_resume_state := None,
            ex_state_version := ex_state_version x + 1, ex_current_actor_role := CONTROLLER,
            ex_blocker_code := None, ex_blocker_detail := None, ex_updated_at := clock c 1\<rparr>"
  let ?g = "\<lambda>x. x\<lparr>ex_state := REWORK_READY,
              ex_state_version := ex_state_version x + 1, ex_current_actor_role := CONTROLLER,
              ex_updated_at := clock c 1\<rparr>"
  obtain r d1 d2 d3 e1 e2 where
    guard: "high_rework_guard c q d = Inr r"
    and one: "cas_execution ?i ?v ?f d = Inr d1"
      "insert_event c 0 (event_from STATE_TRANSITION r (hq_resume_key q) VERIFYING CONTROLLER
            (hq_actor_id q) (hq_generation q) ''HUMAN_HIGH_REWORK_RESUME'' None e1 (clock c 1)) d1 = Inr d2"
    and two: "cas_execution ?i (?v + 1) ?g d2 = Inr d3"
      "insert_event c 1 (event_from STATE_TRANSITION (r\<lparr>ex_state := VERIFYING, ex_state_version := ?v + 1\<rparr>)
            (hq_ready_key q) REWORK_READY CONTROLLER (hq_actor_id q) (hq_generation q)
            ''HUMAN_AUTHORIZED_HIGH_REWORK'' None e2 (clock c 1)) d3 = Inr d'"
    using assms unfolding authorize_high_rework_body_def Let_def by (elim step_elims; clarsimp)
  from guard have r: "find_execution ?i d = Some r" "ex_state_version r = ?v" "ex_lease_owner r \<noteq> None"
      "ex_lease_generation r = hq_generation q" "ex_state r = BLOCKED" "ex_resume_state r = Some VERIFYING"
    unfolding high_rework_guard_def Let_def
    by (elim step_elims; clarsimp simp: success fence_held_def high_rework_stop_def)+
  note first = logged_cas [OF r(1,2) keeps_refl one]
  have s1: "exec_step K (exec_view d) (exec_view d2)"
    by (rule first(1)) (use r in \<open>auto simp: move_simps may_become_def intro!: edge_table\<close>)
  have r1: "find_execution ?i d2 = Some (?f r)"
    by (rule first(2)) (use r in \<open>auto simp: move_simps may_become_def intro!: edge_table\<close>)
  have s2: "exec_step K (exec_view d2) (exec_view d')"
    by (rule logged_cas(1) [OF r1 _ keeps_refl two]) (use r in \<open>auto simp: move_simps may_become_def intro!: edge_table\<close>)
  from s1 s2 show ?thesis by simp
qed

lemma human_rework_refines:
  assumes "human_rework_body c q d = Inr (u, d')"
  shows "(exec_step K)\<^sup>*\<^sup>* (exec_view d) (exec_view d')"
proof -
  obtain r e d1 d2 n where guard: "human_rework_guard c q d = Inr (r, e)"
    and approval: "update_approvals (\<lambda>p. ap_id p = jq_approval_id q \<and> ap_status p = APPROVED \<and> ap_consumed_at p = None)
            (\<lambda>p. p\<lparr>ap_consumed_at := Some (clock c 1)\<rparr>) d = Inr (d1, n)"
    and upd: "cas_execution (jq_execution_id q) (jq_expected_version q)
        (\<lambda>x. x\<lparr>ex_state := MAKER_RUNNING, ex_state_version := ex_state_version x + 1,
                 ex_current_actor_role := CONTROLLER, ex_updated_at := clock c 1\<rparr>) d1 = Inr d2"
      "insert_event c 0 (event_from STATE_TRANSITION r (jq_operation_key q) MAKER_RUNNING CONTROLLER
              (jq_actor_id q) (jq_generation q) ''HUMAN_AUTHORIZED_MAKER_REWORK_SCHEDULED'' None
              (dumps (human_rework_json q (ev_seq e))) (clock c 1)) d2 = Inr d'"
    using assms unfolding human_rework_body_def Let_def by (elim step_elims; clarsimp)
  from guard have r: "find_execution (jq_execution_id q) d = Some r" "ex_state_version r = jq_expected_version q"
      "fence_held r (jq_owner q) (jq_generation q) (clock c 1)" "ex_state r = REWORK_READY"
    unfolding human_rework_guard_def Let_def by (elim step_elims; clarsimp simp: success)+
  show ?thesis
    by (rule r_into_rtranclp, rule logged_cas(1) [OF r(1,2) execution_frame(5) [OF approval keeps_refl] upd])
      (use r in \<open>auto simp: move_simps may_become_def execution_check_def intro!: edge_table\<close>)
qed

section \<open>Acceptance\<close>

lemma accept_guard_row:
  assumes "accept_guard c q ids d = Inr r"
  shows "find_execution (kq_execution_id q) d = Some r" "ex_state_version r = kq_expected_version q"
    "fence_held r (kq_owner q) (kq_generation q) (clock c 1)" "ex_state r = EVALUATING"
  using assms unfolding accept_guard_def Let_def by (elim step_elims; clarsimp simp: success)+

lemma accept_approval_keeps:
  assumes "accept_approval c q flds ids r d = Inr d1" and "keeps exec_view d0 d"
  shows "keeps exec_view d0 d1"
  using assms unfolding accept_approval_def Let_def
  apply (elim step_elims; clarsimp?)
  by (erule execution_frames) assumption

lemma accept_refines:
  assumes "accept_body c q ids d = Inr (u, d')"
  shows "(exec_step K)\<^sup>*\<^sup>* (exec_view d) (exec_view d')"
proof (cases "d' = d")
  case False
  obtain r d1 m d2 d3 n where guard: "accept_guard c q ids d = Inr r"
    and approval: "accept_approval c q (mf_fields (kq_manifest q)) ids r d = Inr d1"
    and manifest: "insert_manifest m d1 = Inr d2"
    and upd: "update_executions (\<lambda>x. ex_id x = kq_execution_id q \<and> ex_state_version x = kq_expected_version q
              \<and> ex_lease_owner x = Some (kq_owner q) \<and> ex_lease_generation x = kq_generation q
              \<and> (case ex_lease_expires_at x of None \<Rightarrow> False | Some e \<Rightarrow> clock c 1 < e))
              (\<lambda>x. x\<lparr>ex_state := ACCEPTED, ex_resume_state := None, ex_state_version := ex_state_version x + 1,
                 ex_current_actor_role := CONTROLLER, ex_accepted_at := Some (clock c 1), ex_updated_at := clock c 1\<rparr>) d2
          = Inr (d3, n)"
      "insert_event c 0 (event_from ACCEPTED_EVENT r (kq_operation_key q) ACCEPTED CONTROLLER
                (kq_actor_id q) (kq_generation q) ''EVIDENCE_ACCEPTED'' None (dumps (accept_request_json q)) (clock c 1)) d3
          = Inr d'"
    using assms False unfolding accept_body_def Let_def by (elim step_elims; clarsimp)
  note r = accept_guard_row [OF guard]
  have "keeps exec_view d d2"
    by (rule execution_frame(6) [OF manifest accept_approval_keeps [OF approval keeps_refl]])
  from r execution_table.get_key [OF r(1)] show ?thesis
    by (intro r_into_rtranclp, intro logged_update(1) [OF r(1) \<open>keeps exec_view d d2\<close> upd])
      (auto simp: move_simps may_become_def intro!: edge_table)
qed simp

section \<open>Deferred slices\<close>

lemma bind_refines:
  assumes "bind_body c q root d = Inr (u, d')"
  shows "(exec_step K)\<^sup>*\<^sup>* (exec_view d) (exec_view d')"
  using assms unfolding bind_body_def bind_writes_def Let_def
  apply (elim body_elims; clarsimp)
  apply (drule cas_slice_exec_view)
  apply (drule execution_frame(1,8) [OF _ keeps_refl])+
  apply (simp add: keeps_def)
  apply (erule (1) run_insert)
  apply (simp add: fresh_def created_execution_def created_event_def)
  done

lemma finalize_refines:
  assumes "finalize_body c q d = Inr (u, d')"
  shows "(exec_step K)\<^sup>*\<^sup>* (exec_view d) (exec_view d')"
  using assms unfolding finalize_body_def finalize_guard_def finalize_writes_def Let_def
  apply (elim body_elims; clarsimp simp: success)
  apply (drule cas_slice_exec_view)
  apply (drule execution_frame(8) [OF _ keeps_refl])
  apply (simp add: keeps_def)
  apply (erule (3) run_cas)
   apply (auto simp: move_simps intro!: commit_named_finalized)
  done

lemma release_binding_refines:
  assumes "release_body c q d = Inr (u, d')"
  shows "(exec_step K)\<^sup>*\<^sup>* (exec_view d) (exec_view d')"
  using assms unfolding release_body_def release_guard_def release_writes_def Let_def
  apply (elim body_elims; clarsimp simp: success validate_transition_iff)
  apply (drule cas_slice_exec_view)
  apply (drule execution_frame(8) [OF _ keeps_refl])
  apply (simp add: keeps_def)
  apply (erule (3) run_at_version)
   apply simp
  apply (frule settled_resume, simp)
  apply (auto simp: move_simps may_become_def intro!: edge_table)
  done

end
