(* ===== verification/Candidate_Schema.thy ===== *)
theory Candidate_Schema
  imports Store
begin

text \<open>
  Checks, keys and triggers of the uncommitted candidate (version 9,
  \<open>src/adcp/store/migrations.py\<close>). Every table is append-only except the evaluator attempts,
  whose status changes once. The column \<open>review_target_type\<close> has a single legal value, which
  every statement writes, and is left out.
\<close>

text \<open>A table given by its rows: a successful insertion appends a row with a fresh key.\<close>

lemma append_tableI:
  assumes get: "\<And>k d. get k d = find (\<lambda>r. key r = k) (rows d)"
    and put: "\<And>r d d'. put r d = Inr d' \<Longrightarrow> key r \<notin> key ` set (rows d) \<and> rows d' = rows d @ [r]"
  shows "append_table key get put"
proof unfold_locales
  fix r d d' k
  assume "put r d = Inr d'"
  from put [OF this] have fresh: "key r \<notin> key ` set (rows d)" and rows: "rows d' = rows d @ [r]" by auto
  show "get k d' = (if k = key r then Some r else get k d)"
    by (simp add: get rows find_snoc_key [where key = key, OF fresh])
  show "get (key r) d = None"
    by (simp add: get find_fresh [where key = key, OF fresh])
next
  show "get k d = Some r \<Longrightarrow> key r = k" for k d r
    unfolding get by (drule find_SomeD) simp
qed

lemma guarded_tableI:
  assumes get: "\<And>k d. get k d = find (\<lambda>r. key r = k) (rows d)"
    and put: "\<And>r d d'. put r d = Inr d' \<Longrightarrow> key r \<notin> key ` set (rows d) \<and> rows d' = rows d @ [r]"
    and modify: "\<And>p f d d' n. modify p f d = Inr (d', n) \<Longrightarrow> rows d' = update_where p f (rows d)"
  shows "guarded_table key get put modify"
proof -
  have "guarded_table_axioms key get modify"
  proof
    fix p f d d' n k
    assume m: "modify p f d = Inr (d', n)" and key: "\<And>r. key (f r) = key r"
    show "get k d' = map_option (\<lambda>r. if p r then f r else r) (get k d)"
      by (simp add: get modify [OF m] find_update_where [where key = key, OF key])
  qed
  with append_tableI [where rows = rows, OF get put] show ?thesis
    by (simp add: guarded_table_def)
qed

section \<open>candidate_content_binding\<close>

definition binding_check :: "candidate_binding_row \<Rightarrow> bool" where
  "binding_check r \<longleftrightarrow> cb_id r \<noteq> [] \<and> cb_serialization_format r = ''ADCP_INTEGRATED_CANDIDATE_V1''
     \<and> cb_serialization_version r = 1 \<and> cb_repository_identity r \<noteq> []
     \<and> sql_length (cb_expected_parent r) \<in> {40, 64} \<and> 2 < sql_length (cb_manifest_json r)
     \<and> sql_length (cb_manifest_sha256 r) = 64 \<and> sql_length (cb_content_sha256 r) = 64"

definition insert_binding :: "candidate_binding_row \<Rightarrow> db \<Rightarrow> db result" where
  "insert_binding r d =
    (if \<not> binding_check r then Inl (IntegrityError ''CHECK candidate_content_binding'')
     else if cb_id r \<in> cb_id ` set (candidate_bindings d)
       then Inl (IntegrityError ''UNIQUE candidate_content_binding.candidate_id'')
     else if \<exists>x\<in>set (candidate_bindings d). cb_execution_id x = cb_execution_id r
          \<and> cb_manifest_sha256 x = cb_manifest_sha256 r
       then Inl (IntegrityError ''UNIQUE candidate_content_binding'')
     else if find_execution (cb_execution_id r) d = None then Inl (IntegrityError ''FOREIGN KEY'')
     else Inr (d\<lparr>candidate_bindings := candidate_bindings d @ [r]\<rparr>))"

definition find_binding :: "string \<Rightarrow> db \<Rightarrow> candidate_binding_row option" where
  "find_binding i d = find (\<lambda>r. cb_id r = i) (candidate_bindings d)"

text \<open>The composite foreign key of the records that repeat a candidate's identity.\<close>

definition binding_exists :: "string \<Rightarrow> string \<Rightarrow> string \<Rightarrow> db \<Rightarrow> bool" where
  "binding_exists candidate execution content d \<longleftrightarrow>
     (\<exists>b\<in>set (candidate_bindings d). cb_id b = candidate \<and> cb_execution_id b = execution
        \<and> cb_content_sha256 b = content)"

section \<open>candidate_provenance\<close>

definition insert_provenance :: "candidate_provenance_row \<Rightarrow> db \<Rightarrow> db result" where
  "insert_provenance r d =
    (if \<not> (\<exists>a\<in>set (attempts d). at_id a = cp_maker_attempt_id r \<and> at_execution_id a = cp_execution_id r
           \<and> at_role a = Maker)
       then Inl (IntegrityError ''CANDIDATE_MAKER_ATTEMPT_MISMATCH'')
     else if sql_length (cp_contract_fingerprint r) \<noteq> 64 \<or> sql_length (cp_authority_fingerprint r) \<noteq> 64
          \<or> cp_authority_generation r < 0 \<or> sql_length (cp_content_sha256 r) \<noteq> 64
       then Inl (IntegrityError ''CHECK candidate_provenance'')
     else if cp_id r \<in> cp_id ` set (candidate_provenances d)
          \<or> cp_maker_attempt_id r \<in> cp_maker_attempt_id ` set (candidate_provenances d)
       then Inl (IntegrityError ''UNIQUE candidate_provenance'')
     else if \<not> binding_exists (cp_candidate_id r) (cp_execution_id r) (cp_content_sha256 r) d
       then Inl (IntegrityError ''FOREIGN KEY'')
     else Inr (d\<lparr>candidate_provenances := candidate_provenances d @ [r]\<rparr>))"

section \<open>candidate_verification_result\<close>

definition insert_candidate_verification :: "candidate_verification_row \<Rightarrow> db \<Rightarrow> db result" where
  "insert_candidate_verification r d =
    (if \<not> binding_exists (cv_candidate_id r) (cv_execution_id r) (cv_content_sha256 r) d
       then Inl (IntegrityError ''CANDIDATE_BINDING_MISMATCH'')
     else if sql_length (cv_operation_key r) \<noteq> 64 \<or> sql_length (cv_content_sha256 r) \<noteq> 64
          \<or> sql_length (cv_contract_fingerprint r) \<noteq> 64 \<or> sql_length (cv_authority_fingerprint r) \<noteq> 64
          \<or> cv_authority_generation r < 0
          \<or> cv_verdict r \<notin> {''PASS'', ''FAIL'', ''BLOCKED_ENVIRONMENT''}
          \<or> sql_length (cv_command_manifest_sha256 r) \<noteq> 64
       then Inl (IntegrityError ''CHECK candidate_verification_result'')
     else if cv_id r \<in> cv_id ` set (candidate_verifications d)
          \<or> cv_operation_key r \<in> cv_operation_key ` set (candidate_verifications d)
       then Inl (IntegrityError ''UNIQUE candidate_verification_result'')
     else if find_execution (cv_execution_id r) d = None then Inl (IntegrityError ''FOREIGN KEY'')
     else Inr (d\<lparr>candidate_verifications := candidate_verifications d @ [r]\<rparr>))"

definition find_candidate_verification :: "string \<Rightarrow> db \<Rightarrow> candidate_verification_row option" where
  "find_candidate_verification i d = find (\<lambda>r. cv_id r = i) (candidate_verifications d)"

section \<open>candidate_evaluator_attempt\<close>

definition insert_candidate_attempt :: "candidate_attempt_row \<Rightarrow> db \<Rightarrow> db result" where
  "insert_candidate_attempt r d =
    (if sql_length (ca_content_sha256 r) \<noteq> 64 \<or> (ca_status r = RUNNING) \<noteq> (ca_ended_at r = None)
       then Inl (IntegrityError ''CHECK candidate_evaluator_attempt'')
     else if ca_id r \<in> ca_id ` set (candidate_attempts d)
          \<or> ca_verification_id r \<in> ca_verification_id ` set (candidate_attempts d)
       then Inl (IntegrityError ''UNIQUE candidate_evaluator_attempt'')
     else if find_execution (ca_execution_id r) d = None
          \<or> find_candidate_verification (ca_verification_id r) d = None
          \<or> find_context (ca_context_id r) d = None
          \<or> \<not> binding_exists (ca_candidate_id r) (ca_execution_id r) (ca_content_sha256 r) d
       then Inl (IntegrityError ''FOREIGN KEY'')
     else Inr (d\<lparr>candidate_attempts := candidate_attempts d @ [r]\<rparr>))"

definition find_candidate_attempt :: "string \<Rightarrow> db \<Rightarrow> candidate_attempt_row option" where
  "find_candidate_attempt i d = find (\<lambda>r. ca_id r = i) (candidate_attempts d)"

text \<open>\<open>candidate_evaluator_terminal_once\<close>; no statement sets an identity column.\<close>

definition update_candidate_attempts ::
  "(candidate_attempt_row \<Rightarrow> bool) \<Rightarrow> (candidate_attempt_row \<Rightarrow> candidate_attempt_row) \<Rightarrow> db
     \<Rightarrow> (db \<times> nat) result" where
  "update_candidate_attempts p f d =
    (if \<exists>r\<in>set (candidate_attempts d). p r \<and> (ca_status r \<noteq> RUNNING \<or> ca_status (f r) = RUNNING)
       then Inl (IntegrityError ''CANDIDATE_EVALUATOR_TERMINAL_IMMUTABLE'')
     else if \<exists>r\<in>set (candidate_attempts d). p r \<and> (ca_status (f r) = RUNNING) \<noteq> (ca_ended_at (f r) = None)
       then Inl (IntegrityError ''CHECK candidate_evaluator_attempt'')
     else Inr (d\<lparr>candidate_attempts := update_where p f (candidate_attempts d)\<rparr>,
               row_count p (candidate_attempts d)))"

text \<open>The exact attempt an evaluation or a seal must belong to.\<close>

definition candidate_attempt_exists :: "string \<Rightarrow> string \<Rightarrow> string \<Rightarrow> string \<Rightarrow> db \<Rightarrow> bool" where
  "candidate_attempt_exists i execution candidate content d \<longleftrightarrow>
     (\<exists>a\<in>set (candidate_attempts d). ca_id a = i \<and> ca_execution_id a = execution
        \<and> ca_candidate_id a = candidate \<and> ca_content_sha256 a = content)"

definition candidate_seal_exists :: "string \<Rightarrow> seal_phase \<Rightarrow> string \<Rightarrow> string \<Rightarrow> db \<Rightarrow> bool" where
  "candidate_seal_exists attempt p candidate content d \<longleftrightarrow>
     (\<exists>s\<in>set (candidate_seals d). cz_attempt_id s = attempt \<and> cz_phase s = p
        \<and> cz_candidate_id s = candidate \<and> cz_content_sha256 s = content)"

section \<open>candidate_evaluator_artifact_seal\<close>

definition insert_candidate_seal :: "candidate_seal_row \<Rightarrow> db \<Rightarrow> db result" where
  "insert_candidate_seal r d =
    (if \<not> candidate_attempt_exists (cz_attempt_id r) (cz_execution_id r) (cz_candidate_id r)
            (cz_content_sha256 r) d
       then Inl (IntegrityError ''CANDIDATE_EVALUATOR_TARGET_MISMATCH'')
     else if cz_phase r = POST_EXECUTION
          \<and> \<not> candidate_seal_exists (cz_attempt_id r) PRE_EXECUTION (cz_candidate_id r) (cz_content_sha256 r) d
       then Inl (IntegrityError ''CANDIDATE_PRE_SEAL_REQUIRED'')
     else if cz_phase r \<notin> {PRE_EXECUTION, POST_EXECUTION} \<or> sql_length (cz_content_sha256 r) \<noteq> 64
          \<or> sql_length (cz_manifest_sha256 r) \<noteq> 64
       then Inl (IntegrityError ''CHECK candidate_evaluator_artifact_seal'')
     else if cz_id r \<in> cz_id ` set (candidate_seals d)
          \<or> (\<exists>s\<in>set (candidate_seals d). cz_attempt_id s = cz_attempt_id r \<and> cz_phase s = cz_phase r)
       then Inl (IntegrityError ''UNIQUE candidate_evaluator_artifact_seal'')
     else Inr (d\<lparr>candidate_seals := candidate_seals d @ [r]\<rparr>))"

definition find_candidate_seal :: "string \<Rightarrow> db \<Rightarrow> candidate_seal_row option" where
  "find_candidate_seal i d = find (\<lambda>r. cz_id r = i) (candidate_seals d)"

section \<open>candidate_evaluation_result\<close>

definition insert_candidate_evaluation :: "candidate_evaluation_row \<Rightarrow> db \<Rightarrow> db result" where
  "insert_candidate_evaluation r d =
    (if \<not> candidate_attempt_exists (ce_attempt_id r) (ce_execution_id r) (ce_candidate_id r)
            (ce_content_sha256 r) d
       then Inl (IntegrityError ''CANDIDATE_EVALUATOR_TARGET_MISMATCH'')
     else if \<not> candidate_seal_exists (ce_attempt_id r) POST_EXECUTION (ce_candidate_id r) (ce_content_sha256 r) d
       then Inl (IntegrityError ''CANDIDATE_POST_SEAL_REQUIRED'')
     else if sql_length (ce_operation_key r) \<noteq> 64 \<or> sql_length (ce_content_sha256 r) \<noteq> 64
          \<or> sql_length (ce_contract_fingerprint r) \<noteq> 64 \<or> sql_length (ce_authority_fingerprint r) \<noteq> 64
          \<or> ce_authority_generation r < 0
          \<or> ce_verdict r \<notin> {''PASS'', ''REWORK_REQUIRED'', ''DESIGN_REVIEW_REQUIRED'',
               ''BLOCKED_ENVIRONMENT'', ''BLOCKED_EVIDENCE''}
       then Inl (IntegrityError ''CHECK candidate_evaluation_result'')
     else if ce_id r \<in> ce_id ` set (candidate_evaluations d)
          \<or> ce_operation_key r \<in> ce_operation_key ` set (candidate_evaluations d)
          \<or> ce_attempt_id r \<in> ce_attempt_id ` set (candidate_evaluations d)
       then Inl (IntegrityError ''UNIQUE candidate_evaluation_result'')
     else Inr (d\<lparr>candidate_evaluations := candidate_evaluations d @ [r]\<rparr>))"

definition find_candidate_evaluation :: "string \<Rightarrow> db \<Rightarrow> candidate_evaluation_row option" where
  "find_candidate_evaluation i d = find (\<lambda>r. ce_id r = i) (candidate_evaluations d)"

section \<open>approval_candidate_binding\<close>

definition insert_candidate_approval :: "candidate_approval_row \<Rightarrow> db \<Rightarrow> db result" where
  "insert_candidate_approval r d =
    (if sql_length (cl_authority_fingerprint r) \<noteq> 64 \<or> cl_authority_generation r < 0
       then Inl (IntegrityError ''CHECK approval_candidate_binding'')
     else if cl_approval_id r \<in> cl_approval_id ` set (candidate_approvals d)
          \<or> cl_evaluation_id r \<in> cl_evaluation_id ` set (candidate_approvals d)
       then Inl (IntegrityError ''UNIQUE approval_candidate_binding'')
     else if find_approval (cl_approval_id r) d = None \<or> find_execution (cl_execution_id r) d = None
          \<or> find_binding (cl_candidate_id r) d = None
          \<or> find_candidate_evaluation (cl_evaluation_id r) d = None
       then Inl (IntegrityError ''FOREIGN KEY'')
     else Inr (d\<lparr>candidate_approvals := candidate_approvals d @ [r]\<rparr>))"

definition find_candidate_approval :: "string \<Rightarrow> db \<Rightarrow> candidate_approval_row option" where
  "find_candidate_approval i d = find (\<lambda>r. cl_approval_id r = i) (candidate_approvals d)"

section \<open>candidate_commit_intent and candidate_commit_closure\<close>

definition insert_intent :: "candidate_intent_row \<Rightarrow> db \<Rightarrow> db result" where
  "insert_intent r d =
    (if sql_length (ci_plan_sha256 r) \<noteq> 64 then Inl (IntegrityError ''CHECK candidate_commit_intent'')
     else if ci_closure_id r \<in> ci_closure_id ` set (candidate_intents d)
          \<or> ci_execution_id r \<in> ci_execution_id ` set (candidate_intents d)
          \<or> ci_candidate_id r \<in> ci_candidate_id ` set (candidate_intents d)
          \<or> ci_approval_id r \<in> ci_approval_id ` set (candidate_intents d)
          \<or> ci_evaluation_id r \<in> ci_evaluation_id ` set (candidate_intents d)
       then Inl (IntegrityError ''UNIQUE candidate_commit_intent'')
     else if find_execution (ci_execution_id r) d = None \<or> find_binding (ci_candidate_id r) d = None
          \<or> find_candidate_approval (ci_approval_id r) d = None
          \<or> find_candidate_evaluation (ci_evaluation_id r) d = None
       then Inl (IntegrityError ''FOREIGN KEY'')
     else Inr (d\<lparr>candidate_intents := candidate_intents d @ [r]\<rparr>))"

definition find_intent :: "string \<Rightarrow> db \<Rightarrow> candidate_intent_row option" where
  "find_intent i d = find (\<lambda>r. ci_closure_id r = i) (candidate_intents d)"

text \<open>\<open>candidate_closure_exact_binding\<close>: the approval is bound to this passing evaluation.\<close>

definition closure_bound :: "candidate_closure_row \<Rightarrow> db \<Rightarrow> bool" where
  "closure_bound r d \<longleftrightarrow>
     (\<exists>a\<in>set (candidate_approvals d). cl_approval_id a = cc_approval_id r
        \<and> cl_execution_id a = cc_execution_id r \<and> cl_candidate_id a = cc_candidate_id r
        \<and> cl_evaluation_id a = cc_evaluation_id r
        \<and> (\<exists>e\<in>set (candidate_evaluations d). ce_id e = cl_evaluation_id a \<and> ce_verdict e = ''PASS''))"

definition insert_closure :: "candidate_closure_row \<Rightarrow> db \<Rightarrow> db result" where
  "insert_closure r d =
    (if \<not> closure_bound r d then Inl (IntegrityError ''CANDIDATE_APPROVAL_BINDING_MISMATCH'')
     else if sql_length (cc_result_commit r) \<notin> {40, 64} \<or> sql_length (cc_expected_parent r) \<notin> {40, 64}
          \<or> sql_length (cc_content_sha256 r) \<noteq> 64
       then Inl (IntegrityError ''CHECK candidate_commit_closure'')
     else if cc_closure_id r \<in> cc_closure_id ` set (candidate_closures d)
          \<or> cc_execution_id r \<in> cc_execution_id ` set (candidate_closures d)
          \<or> cc_candidate_id r \<in> cc_candidate_id ` set (candidate_closures d)
          \<or> cc_approval_id r \<in> cc_approval_id ` set (candidate_closures d)
          \<or> cc_evaluation_id r \<in> cc_evaluation_id ` set (candidate_closures d)
          \<or> cc_result_commit r \<in> cc_result_commit ` set (candidate_closures d)
       then Inl (IntegrityError ''UNIQUE candidate_commit_closure'')
     else if find_intent (cc_closure_id r) d = None \<or> find_execution (cc_execution_id r) d = None
          \<or> find_binding (cc_candidate_id r) d = None
       then Inl (IntegrityError ''FOREIGN KEY'')
     else Inr (d\<lparr>candidate_closures := candidate_closures d @ [r]\<rparr>))"

definition find_closure :: "string \<Rightarrow> db \<Rightarrow> candidate_closure_row option" where
  "find_closure i d = find (\<lambda>r. cc_closure_id r = i) (candidate_closures d)"

section \<open>What an accepted statement writes\<close>

lemma insert_candidate_Inr:
  "insert_binding r1 d = Inr d' \<Longrightarrow> d' = d\<lparr>candidate_bindings := candidate_bindings d @ [r1]\<rparr>"
  "insert_provenance r2 d = Inr d' \<Longrightarrow> d' = d\<lparr>candidate_provenances := candidate_provenances d @ [r2]\<rparr>"
  "insert_candidate_verification r3 d = Inr d' \<Longrightarrow> d' = d\<lparr>candidate_verifications := candidate_verifications d @ [r3]\<rparr>"
  "insert_candidate_attempt r4 d = Inr d' \<Longrightarrow> d' = d\<lparr>candidate_attempts := candidate_attempts d @ [r4]\<rparr>"
  "insert_candidate_seal r5 d = Inr d' \<Longrightarrow> d' = d\<lparr>candidate_seals := candidate_seals d @ [r5]\<rparr>"
  "insert_candidate_evaluation r6 d = Inr d' \<Longrightarrow> d' = d\<lparr>candidate_evaluations := candidate_evaluations d @ [r6]\<rparr>"
  "insert_candidate_approval r7 d = Inr d' \<Longrightarrow> d' = d\<lparr>candidate_approvals := candidate_approvals d @ [r7]\<rparr>"
  "insert_intent r8 d = Inr d' \<Longrightarrow> d' = d\<lparr>candidate_intents := candidate_intents d @ [r8]\<rparr>"
  "insert_closure r9 d = Inr d' \<Longrightarrow> d' = d\<lparr>candidate_closures := candidate_closures d @ [r9]\<rparr>"
  unfolding insert_binding_def insert_provenance_def insert_candidate_verification_def
    insert_candidate_attempt_def insert_candidate_seal_def insert_candidate_evaluation_def
    insert_candidate_approval_def insert_intent_def insert_closure_def
  by (simp_all split: if_split_asm)

lemma update_candidate_attempts_Inr:
  "update_candidate_attempts p f d = Inr (d', n) \<Longrightarrow>
     d' = d\<lparr>candidate_attempts := update_where p f (candidate_attempts d)\<rparr>
     \<and> n = row_count p (candidate_attempts d)"
  unfolding update_candidate_attempts_def by (simp split: if_split_asm)

interpretation binding_table: append_table cb_id find_binding insert_binding
  by (rule append_tableI [where rows = candidate_bindings])
    (auto simp: find_binding_def insert_binding_def split: if_split_asm)

interpretation candidate_verification_table:
  append_table cv_id find_candidate_verification insert_candidate_verification
  by (rule append_tableI [where rows = candidate_verifications])
    (auto simp: find_candidate_verification_def insert_candidate_verification_def split: if_split_asm)

interpretation candidate_seal_table: append_table cz_id find_candidate_seal insert_candidate_seal
  by (rule append_tableI [where rows = candidate_seals])
    (auto simp: find_candidate_seal_def insert_candidate_seal_def split: if_split_asm)

interpretation candidate_evaluation_table:
  append_table ce_id find_candidate_evaluation insert_candidate_evaluation
  by (rule append_tableI [where rows = candidate_evaluations])
    (auto simp: find_candidate_evaluation_def insert_candidate_evaluation_def split: if_split_asm)

interpretation candidate_approval_table:
  append_table cl_approval_id find_candidate_approval insert_candidate_approval
  by (rule append_tableI [where rows = candidate_approvals])
    (auto simp: find_candidate_approval_def insert_candidate_approval_def split: if_split_asm)

interpretation intent_table: append_table ci_closure_id find_intent insert_intent
  by (rule append_tableI [where rows = candidate_intents])
    (auto simp: find_intent_def insert_intent_def split: if_split_asm)

interpretation closure_table: append_table cc_closure_id find_closure insert_closure
  by (rule append_tableI [where rows = candidate_closures])
    (auto simp: find_closure_def insert_closure_def split: if_split_asm)

interpretation candidate_attempt_table: guarded_table ca_id find_candidate_attempt insert_candidate_attempt
  update_candidate_attempts
  by (rule guarded_tableI [where rows = candidate_attempts])
    (auto simp: find_candidate_attempt_def insert_candidate_attempt_def update_candidate_attempts_def
      split: if_split_asm)

end
