(* ===== verification/Evaluation.thy ===== *)
theory Evaluation
  imports Acceptance
begin

text \<open>
  Evaluation results (\<open>src/adcp/evaluator.py\<close>): the record a verdict is registered as, the
  recovery of a result from sealed bytes, with the narrow compatibility for results that carry
  seconds as floats, and the binding of every claim of a result to the durable rows and to the
  sealed artifacts.
\<close>

definition evaluation_verdicts :: "string set" where
  "evaluation_verdicts = {''PASS'', ''REWORK_REQUIRED'', ''DESIGN_REVIEW_REQUIRED'',
     ''BLOCKED_ENVIRONMENT'', ''BLOCKED_EVIDENCE''}"

definition legacy_schema :: string where
  "legacy_schema = ''R4_EVAL01_DURABLE_EVIDENCE_V1''"

text \<open>\<open>value not in EVALUATION_VERDICTS\<close>; an unhashable value cannot be looked up.\<close>

fun known_verdict :: "json \<Rightarrow> bool result" where
  "known_verdict (JStr s) = Inr (s \<in> evaluation_verdicts)"
| "known_verdict j = (if hashable j then Inr False else Inl (PythonError ''TypeError''))"

section \<open>Building a record\<close>

fun timing_ok :: "json \<Rightarrow> bool" where
  "timing_ok (JList xs) = list_all timing_ok xs"
| "timing_ok (JObj kvs) = list_all (\<lambda>(k, v). k \<noteq> ''elapsed_seconds''
     \<and> (k = ''elapsed_ms'' \<longrightarrow> (case v of JInt n \<Rightarrow> 0 \<le> n | _ \<Rightarrow> False)) \<and> timing_ok v) kvs"
| "timing_ok _ = True"

definition validate_evaluation_timing :: "json \<Rightarrow> unit result" where
  "validate_evaluation_timing j = (if timing_ok j then Inr ()
     else Inl (BoundaryError ''EVALUATION_TIMING_REPRESENTATION_INVALID''))"

record evaluation_record =
  vl_row :: evaluation_row
  vl_result :: "(string \<times> json) list"
  vl_payload_json :: string

definition semantic_payload :: "evaluation_row \<Rightarrow> pyval \<Rightarrow> pyval" where
  "semantic_payload r result = PDict
     [(PStr ''evaluation_id'', PStr (er_id r)), (PStr ''operation_key'', PStr (er_operation_key r)),
      (PStr ''execution_id'', PStr (er_execution_id r)),
      (PStr ''evaluator_attempt_id'', PStr (er_attempt_id r)),
      (PStr ''context_snapshot_id'', PStr (er_context_id r)),
      (PStr ''result_commit'', PStr (er_result_commit r)),
      (PStr ''contract_fingerprint'', PStr (er_contract_fingerprint r)),
      (PStr ''authority_fingerprint'', PStr (er_authority_fingerprint r)),
      (PStr ''verdict'', PStr (er_verdict r)), (PStr ''result'', result),
      (PStr ''started_at'', PStr (er_started_at r)), (PStr ''ended_at'', PStr (er_ended_at r))]"

definition evaluation_result_identity :: "(string \<Rightarrow> string) \<Rightarrow> string \<Rightarrow> (string \<times> string) result" where
  "evaluation_result_identity h attempt =
    (if attempt = [] then Inl (PythonError ''ValueError:EVALUATOR_ATTEMPT_ID_REQUIRED'')
     else bnd (operation_key h ''evaluation-result'' (PDict [(PStr ''evaluator_attempt_id'', PStr attempt)]))
       (\<lambda>key. Inr (''evaluation-'' @ attempt, key)))"

text \<open>
  The keyword arguments come as a row whose \<open>er_result_json\<close> is still empty, and the result as
  a value. A string reads back from its serialisation as itself, so only the result is taken
  from the materialised document.
\<close>

definition build_evaluation_result :: "evaluation_row \<Rightarrow> pyval \<Rightarrow> evaluation_record result" where
  "build_evaluation_result r result =
    (if [] \<in> {er_id r, er_execution_id r, er_attempt_id r, er_context_id r, er_started_at r, er_ended_at r}
     then Inl (PythonError ''ValueError:EVALUATION_RESULT_INVALID'')
     else bnd (require_sha256 (er_operation_key r)) (\<lambda>_.
          bnd (require_commit (er_result_commit r)) (\<lambda>_.
          bnd (require_sha256 (er_contract_fingerprint r)) (\<lambda>_.
          bnd (require_sha256 (er_authority_fingerprint r)) (\<lambda>_.
     if er_verdict r \<notin> evaluation_verdicts then Inl (PythonError ''ValueError:EVALUATION_VERDICT_INVALID'')
     else (case result of
         PDict _ \<Rightarrow>
           bnd (canonical_json (semantic_payload r result)) (\<lambda>serialized.
           bnd (of_option (PythonError ''JSONDecodeError'') (loads serialized)) (\<lambda>materialized.
           case member ''result'' materialized of
             Some (JObj kvs) \<Rightarrow>
               bnd (validate_evaluation_timing (JObj kvs)) (\<lambda>_.
               bnd (canonical_json (json_to_py (JObj kvs))) (\<lambda>text.
               Inr \<lparr>vl_row = r\<lparr>er_result_json := text\<rparr>, vl_result = kvs, vl_payload_json = serialized\<rparr>))
           | _ \<Rightarrow> Inl (PythonError ''KeyError'')))
       | _ \<Rightarrow> Inl (PythonError ''ValueError:EVALUATION_RESULT_MAPPING_REQUIRED'')))))))"

section \<open>Recovering a durable result\<close>

text \<open>
  Seconds given as a float become whole milliseconds, exactly or not at all: \<open>str(value)\<close> is the
  shortest decimal that reads as the double, and the product is exact in decimal arithmetic.
\<close>

fun legacy_milliseconds :: "json \<Rightarrow> int result" where
  "legacy_milliseconds (JFloat lit) =
    (case read_double lit of
       Finite neg m e \<Rightarrow>
         if m = 0 then Inr 0
         else if neg then Inl (BoundaryError ''EVALUATION_LEGACY_TIMING_INVALID'')
         else (case decimal_of m e of (ds, k) \<Rightarrow>
           case scale_ten (k - int (length ds) + 3) (digits_value ds, 1) of (p, q) \<Rightarrow>
             if p mod q \<noteq> 0 then Inl (BoundaryError ''EVALUATION_LEGACY_TIMING_AMBIGUOUS'')
             else Inr (int (p div q)))
     | _ \<Rightarrow> Inl (BoundaryError ''EVALUATION_LEGACY_TIMING_INVALID''))"
| "legacy_milliseconds _ = Inl (BoundaryError ''EVALUATION_LEGACY_TIMING_INVALID'')"

fun reject_floats :: "json \<Rightarrow> unit result"
  and reject_floats_list :: "json list \<Rightarrow> unit result"
  and reject_floats_members :: "(string \<times> json) list \<Rightarrow> unit result" where
  "reject_floats (JFloat _) = Inl (BoundaryError ''EVALUATION_LEGACY_FLOAT_OUTSIDE_TIMING'')"
| "reject_floats (JList xs) = reject_floats_list xs"
| "reject_floats (JObj kvs) = reject_floats_members kvs"
| "reject_floats _ = Inr ()"
| "reject_floats_list [] = Inr ()"
| "reject_floats_list (x # xs) = bnd (reject_floats x) (\<lambda>_. reject_floats_list xs)"
| "reject_floats_members [] = Inr ()"
| "reject_floats_members ((k, v) # kvs) =
    (if k = ''elapsed_seconds'' then Inl (BoundaryError ''EVALUATION_LEGACY_TIMING_PATH_UNSUPPORTED'')
     else bnd (reject_floats v) (\<lambda>_. reject_floats_members kvs))"

text \<open>\<open>pop\<close> of a key, and setting a key that is absent: it goes to the end.\<close>

definition without_key :: "string \<Rightarrow> (string \<times> 'v) list \<Rightarrow> (string \<times> 'v) list" where
  "without_key k kvs = filter (\<lambda>kv. fst kv \<noteq> k) kvs"

fun normalize_legacy_item :: "json \<Rightarrow> json result" where
  "normalize_legacy_item (JObj kvs) =
    (case map_of kvs ''elapsed_seconds'' of
       None \<Rightarrow> Inl (BoundaryError ''EVALUATION_LEGACY_TIMING_SURFACE_INVALID'')
     | Some elapsed \<Rightarrow>
         if map_of kvs ''elapsed_ms'' \<noteq> None
         then Inl (BoundaryError ''EVALUATION_LEGACY_TIMING_AMBIGUOUS'')
         else bnd (legacy_milliseconds elapsed) (\<lambda>ms.
           let item = JObj (without_key ''elapsed_seconds'' kvs @ [(''elapsed_ms'', JInt ms)])
           in bnd (reject_floats item) (\<lambda>_. Inr item)))"
| "normalize_legacy_item _ = Inl (BoundaryError ''EVALUATION_LEGACY_TIMING_SURFACE_INVALID'')"

definition normalize_legacy_results ::
  "(string \<times> json) list \<Rightarrow> string \<Rightarrow> (string \<times> json) list result" where
  "normalize_legacy_results kvs field =
    (case map_of kvs field of
       Some (JList regressions) \<Rightarrow>
         bnd (reject_floats (JObj (without_key field kvs))) (\<lambda>_.
         bnd (seq_results (map normalize_legacy_item regressions)) (\<lambda>items.
         Inr (without_key field kvs @ [(field, JList items)])))
     | _ \<Rightarrow> Inl (BoundaryError ''EVALUATION_LEGACY_TIMING_SURFACE_INVALID''))"

definition decode_durable_result :: "string \<Rightarrow> (string \<times> json) list result" where
  "decode_durable_result raw =
    (let invalid = BoundaryError ''EVALUATOR_RESULT_ARTIFACT_INVALID'' in
     bnd (of_option invalid (Option.bind (decode_json_bytes raw) loads)) (\<lambda>parsed.
     if has_constant parsed then Inl invalid
     else case parsed of
       JObj kvs \<Rightarrow>
         if canonical_json (json_to_py parsed) = Inr raw then
           bnd (validate_evaluation_timing parsed) (\<lambda>_.
           bnd (case map_of kvs ''verdict'' of None \<Rightarrow> Inr True | Some v \<Rightarrow> known_verdict v) (\<lambda>known.
           if \<not> known then Inl (BoundaryError ''EVALUATOR_RESULT_ARTIFACT_VERDICT_INVALID'') else Inr kvs))
         else if \<not> json_eq (dict_get kvs ''schema'' JNull) (JStr legacy_schema)
         then Inl (BoundaryError ''EVALUATOR_RESULT_ARTIFACT_NOT_CANONICAL'')
         else bnd (of_option invalid (dumps_floats parsed)) (\<lambda>historical.
           if historical \<noteq> raw then Inl (BoundaryError ''EVALUATOR_RESULT_ARTIFACT_NOT_CANONICAL'')
           else bnd (normalize_legacy_results kvs ''independent_regression_results'') (\<lambda>normalized.
             bnd (validate_evaluation_timing (JObj normalized)) (\<lambda>_.
             bnd (known_verdict (dict_get normalized ''verdict'' JNull)) (\<lambda>known.
             if \<not> known then Inl (BoundaryError ''EVALUATOR_RESULT_ARTIFACT_VERDICT_INVALID'')
             else bnd (canonical_json (json_to_py (JObj normalized))) (\<lambda>_. Inr normalized)))))
     | _ \<Rightarrow> Inl invalid))"

text \<open>The two readers of a result by path; \<open>read\<close> is \<open>Path.read_bytes\<close>, \<open>None\<close> its \<open>OSError\<close>.\<close>

definition bound_artifact_bytes :: "(string \<Rightarrow> string) \<Rightarrow> (string \<Rightarrow> string option) \<Rightarrow> string \<Rightarrow> string
    \<Rightarrow> string result" where
  "bound_artifact_bytes h read p expected =
    bnd (require_sha256 expected) (\<lambda>_.
    bnd (of_option (BoundaryError ''EVALUATOR_RESULT_ARTIFACT_UNAVAILABLE'') (read p)) (\<lambda>raw.
    if h raw \<noteq> expected then Inl (BoundaryError ''EVALUATOR_RESULT_ARTIFACT_HASH_MISMATCH'') else Inr raw))"

definition load_canonical_evaluation_artifact :: "(string \<Rightarrow> string) \<Rightarrow> (string \<Rightarrow> string option)
    \<Rightarrow> string \<Rightarrow> string \<Rightarrow> (string \<times> json) list result" where
  "load_canonical_evaluation_artifact h read p expected =
    bnd (bound_artifact_bytes h read p expected) (\<lambda>raw.
    bnd (of_option (BoundaryError ''EVALUATOR_RESULT_ARTIFACT_INVALID'')
      (Option.bind (decode_json_bytes raw) loads)) (\<lambda>parsed.
    case parsed of
      JObj kvs \<Rightarrow>
        bnd (canonical_json (json_to_py parsed)) (\<lambda>text.
        if text \<noteq> raw then Inl (BoundaryError ''EVALUATOR_RESULT_ARTIFACT_NOT_CANONICAL'')
        else bnd (validate_evaluation_timing parsed) (\<lambda>_.
          bnd (known_verdict (dict_get kvs ''verdict'' JNull)) (\<lambda>known.
          if \<not> known then Inl (BoundaryError ''EVALUATOR_RESULT_ARTIFACT_VERDICT_INVALID'') else Inr kvs)))
    | _ \<Rightarrow> Inl (BoundaryError ''EVALUATOR_RESULT_ARTIFACT_INVALID'')))"

definition decode_durable_result_file :: "(string \<Rightarrow> string) \<Rightarrow> (string \<Rightarrow> string option)
    \<Rightarrow> string \<Rightarrow> string \<Rightarrow> (string \<times> json) list result" where
  "decode_durable_result_file h read p expected =
    bnd (bound_artifact_bytes h read p expected) decode_durable_result"

section \<open>Binding the claims of a result\<close>

record artifact_bundle =
  bu_result_artifact :: string
  bu_result_sha256 :: string
  bu_stdout_artifact :: string
  bu_stdout_sha256 :: string
  bu_stderr_artifact :: string
  bu_stderr_sha256 :: string

text \<open>\<open>_required_equal\<close> for a sequence of claims, each with its code.\<close>

fun required_equal :: "(json \<times> json \<times> string) list \<Rightarrow> unit result" where
  "required_equal [] = Inr ()"
| "required_equal ((actual, expected, code) # rest) =
    (if json_eq actual expected then required_equal rest else Inl (BoundaryError code))"

text \<open>\<open>except ArtifactSealError as error: raise EvaluatorBoundaryError(error.code)\<close>.\<close>

definition as_boundary :: "'a result \<Rightarrow> 'a result" where
  "as_boundary m = (case m of Inl (SealError code) \<Rightarrow> Inl (BoundaryError code) | _ \<Rightarrow> m)"

definition load_context_envelope :: "(string \<Rightarrow> string) \<Rightarrow> context_row \<Rightarrow> json result" where
  "load_context_envelope h x =
    (let mismatch = BoundaryError ''EVALUATOR_CONTEXT_BINDING_MISMATCH'' in
     bnd (of_option mismatch (loads (cx_canonical_json x))) (\<lambda>envelope.
     bnd (canonical_json (json_to_py envelope)) (\<lambda>text.
     if text \<noteq> cx_canonical_json x \<or> h text \<noteq> cx_fingerprint x then Inl mismatch else Inr envelope)))"

fun dict_members :: "json \<Rightarrow> (string \<times> json) list option" where
  "dict_members (JObj kvs) = Some kvs"
| "dict_members _ = None"

definition has_key :: "(string \<times> json) list \<Rightarrow> string \<Rightarrow> bool" where
  "has_key kvs k \<longleftrightarrow> k \<in> fst ` set kvs"

definition provenance_fields :: "string list" where
  "provenance_fields = [''schema'', ''execution_id'', ''result_head'', ''verification_id'',
     ''evaluator_attempt_id'', ''evaluator_context_snapshot_id'', ''evaluator_context_fingerprint'',
     ''contract_fingerprint'', ''authority_fingerprint'', ''artifacts'']"

definition strict_binding :: "(string \<times> json) list option \<Rightarrow> (string \<times> json) list \<Rightarrow> bool" where
  "strict_binding frozen result \<longleftrightarrow>
     (case frozen of None \<Rightarrow> False
      | Some f \<Rightarrow> list_ex (has_key f) [''execution_id'', ''change_id'', ''result_commit''])
     \<or> list_ex (has_key result) provenance_fields"

text \<open>The claims about the execution, the attempt and the context, in the order of the code.\<close>

definition row_claims :: "execution_row \<Rightarrow> attempt_row \<Rightarrow> context_row \<Rightarrow> attempt_status list
    \<Rightarrow> (json \<times> json \<times> string) list" where
  "row_claims x a k allowed =
    [(JBool (at_status a \<in> set allowed), JBool True, ''EVALUATOR_ATTEMPT_STATUS_BINDING_MISMATCH''),
     (JStr (capsule_role_value (at_role a)), JStr ''EVALUATOR'', ''EVALUATOR_ATTEMPT_BINDING_MISMATCH''),
     (JStr (at_execution_id a), JStr (ex_id x), ''EVALUATOR_ATTEMPT_BINDING_MISMATCH''),
     (json_opt (at_result_commit a), json_opt (ex_result_commit x), ''EVALUATOR_RESULT_HEAD_BINDING_MISMATCH''),
     (JStr (cx_execution_id k), JStr (ex_id x), ''EVALUATOR_CONTEXT_BINDING_MISMATCH''),
     (JStr (capsule_role_value (cx_role k)), JStr ''EVALUATOR'', ''EVALUATOR_CONTEXT_BINDING_MISMATCH''),
     (JStr (cx_id k), JStr (at_context_id a), ''EVALUATOR_CONTEXT_BINDING_MISMATCH'')]"

definition result_claims :: "execution_row \<Rightarrow> (string \<times> json) list \<Rightarrow> (json \<times> json \<times> string) list" where
  "result_claims x r =
    (let get = (\<lambda>k. dict_get r k JNull) in
     [(get ''execution_id'', JStr (ex_id x), ''EVALUATOR_EXECUTION_BINDING_MISMATCH''),
      (get ''change_id'', JStr (ex_slice_id x), ''EVALUATOR_CHANGE_BINDING_MISMATCH''),
      (get ''result_head'', json_opt (ex_result_commit x), ''EVALUATOR_RESULT_HEAD_BINDING_MISMATCH'')] @
     (if has_key r ''result_parent''
      then [(get ''result_parent'', JStr (ex_base_commit x), ''EVALUATOR_RESULT_PARENT_BINDING_MISMATCH'')]
      else []))"

definition context_claims :: "execution_row \<Rightarrow> attempt_row \<Rightarrow> context_row \<Rightarrow> (string \<times> json) list
    \<Rightarrow> (string \<times> json) list \<Rightarrow> (json \<times> json \<times> string) list" where
  "context_claims x a k git r =
    (let get = (\<lambda>f. dict_get r f JNull); claim = (\<lambda>f. dict_get git f JNull) in
     [(claim ''head'', json_opt (ex_result_commit x), ''EVALUATOR_RESULT_HEAD_BINDING_MISMATCH''),
      (claim ''parent'', JStr (ex_base_commit x), ''EVALUATOR_RESULT_PARENT_BINDING_MISMATCH''),
      (get ''evaluator_attempt_id'', JStr (at_id a), ''EVALUATOR_ATTEMPT_BINDING_MISMATCH''),
      (get ''evaluator_attempt_no'', JInt (at_attempt_no a), ''EVALUATOR_ATTEMPT_BINDING_MISMATCH''),
      (get ''evaluator_context_snapshot_id'', JStr (cx_id k), ''EVALUATOR_CONTEXT_BINDING_MISMATCH''),
      (get ''evaluator_context_fingerprint'', JStr (cx_fingerprint k), ''EVALUATOR_CONTEXT_BINDING_MISMATCH''),
      (get ''evaluator_capsule_fingerprint'', JStr (cx_fingerprint k), ''EVALUATOR_CONTEXT_BINDING_MISMATCH''),
      (get ''contract_fingerprint'', JStr (ex_contract_fingerprint x), ''EVALUATOR_CONTRACT_BINDING_MISMATCH''),
      (get ''authority_fingerprint'', JStr (ex_authority_fingerprint x), ''EVALUATOR_AUTHORITY_BINDING_MISMATCH'')])"

definition verification_claims :: "execution_row \<Rightarrow> verification_row \<Rightarrow> (string \<times> json) list
    \<Rightarrow> (json \<times> json \<times> string) list" where
  "verification_claims x v r =
    (let code = ''EVALUATOR_VERIFICATION_BINDING_MISMATCH'' in
     [(JStr (vr_execution_id v), JStr (ex_id x), code),
      (JStr (vr_result_commit v), json_opt (ex_result_commit x), code),
      (JStr (vr_contract_fingerprint v), JStr (ex_contract_fingerprint x), code),
      (JStr (vr_authority_fingerprint v), JStr (ex_authority_fingerprint x), code),
      (JStr (vr_verdict v), JStr ''PASS'', code),
      (dict_get r ''verification_verdict'' JNull, JStr ''PASS'', code)])"

definition frozen_claims :: "execution_row \<Rightarrow> verification_row \<Rightarrow> (string \<times> json) list
    \<Rightarrow> (string \<times> json) list \<Rightarrow> (string \<times> json) list \<Rightarrow> (json \<times> json \<times> string) list" where
  "frozen_claims x v deterministic frozen content =
    (let seen = (\<lambda>f. dict_get deterministic f JNull); get = (\<lambda>f. dict_get frozen f JNull);
         code = ''EVALUATOR_VERIFICATION_BINDING_MISMATCH'';
         code' = ''EVALUATOR_FROZEN_CONTRACT_BINDING_MISMATCH'' in
     [(seen ''verification_id'', JStr (vr_id v), code),
      (seen ''result_commit'', json_opt (ex_result_commit x), code),
      (seen ''contract_fingerprint'', JStr (ex_contract_fingerprint x), code),
      (seen ''authority_fingerprint'', JStr (ex_authority_fingerprint x), code),
      (seen ''verdict'', JStr ''PASS'', code),
      (get ''execution_id'', JStr (ex_id x), code'),
      (get ''change_id'', JStr (ex_slice_id x), code'),
      (get ''result_commit'', json_opt (ex_result_commit x), code'),
      (get ''verification_id'', JStr (vr_id v), code'),
      (get ''contract_fingerprint'', JStr (ex_contract_fingerprint x), code'),
      (get ''authority_fingerprint'', JStr (ex_authority_fingerprint x), code'),
      (dict_get content ''result_commit'' JNull, json_opt (ex_result_commit x),
       ''EVALUATOR_CONTEXT_BINDING_MISMATCH'')])"

definition root_text :: "verified_manifest \<Rightarrow> string" where
  "root_text view = path_text (vm_root view)"

fun bundle_claims :: "os_world \<Rightarrow> verified_manifest \<Rightarrow> (string \<times> string \<times> artifact_entry) list \<Rightarrow> unit result" where
  "bundle_claims w view [] = Inr ()"
| "bundle_claims w view ((path_claim, hash_claim, e) # rest) =
    bnd (as_boundary (relative_artifact_path w path_claim (root_text view))) (\<lambda>relative.
    if relative \<noteq> ae_path e \<or> hash_claim \<noteq> ae_sha256 e
    then Inl (BoundaryError ''EVALUATOR_CALLER_ARTIFACT_CLAIM_MISMATCH'')
    else bundle_claims w view rest)"

definition sealed_named :: "verified_manifest \<Rightarrow> string \<Rightarrow> artifact_entry result" where
  "sealed_named view relative = as_boundary (entry_for_path view relative)"

definition sealed_entry_for_claim :: "os_world \<Rightarrow> verified_manifest \<Rightarrow> json \<Rightarrow> artifact_entry result" where
  "sealed_entry_for_claim w view claim =
    (case claim of
       JStr p \<Rightarrow> if p = [] then Inl (BoundaryError ''EVALUATOR_ARTIFACT_BINDING_MISSING'')
         else as_boundary (bnd (relative_artifact_path w p (root_text view)) (entry_for_path view))
     | _ \<Rightarrow> Inl (BoundaryError ''EVALUATOR_ARTIFACT_BINDING_MISSING''))"

definition evidence_directory :: "os_world \<Rightarrow> verified_manifest \<Rightarrow> (string \<times> json) list \<Rightarrow> unit result" where
  "evidence_directory w view artifacts =
    (case dict_get artifacts ''evidence_dir'' (JStr []) of
       JStr s \<Rightarrow> bnd (expanduser w (path_of s)) (\<lambda>p.
         if \<not> is_absolute p \<or> abspath p \<noteq> vm_root view
         then Inl (BoundaryError ''EVALUATOR_ARTIFACT_PATH_BINDING_MISMATCH'') else Inr ())
     | _ \<Rightarrow> Inl (PythonError ''TypeError''))"

text \<open>
  The results of the commands as sealed: a text that is not JSON is refused before a constant
  in it is.
\<close>

definition command_results :: "string \<Rightarrow> json result" where
  "command_results raw =
    bnd (of_option (BoundaryError ''EVALUATOR_REFERENCED_ARTIFACT_INVALID'')
      (Option.bind (decode_json_bytes raw) loads)) (\<lambda>parsed.
    if has_constant parsed then Inl (BoundaryError ''EVALUATOR_RESULT_ARTIFACT_INVALID'')
    else (case parsed of
      JObj kvs \<Rightarrow>
        (case normalize_legacy_results kvs ''results'' of
           Inr normalized \<Rightarrow> Inr (dict_get normalized ''results'' JNull)
         | Inl (BoundaryError _) \<Rightarrow>
             bnd (reject_floats (JObj kvs)) (\<lambda>_. Inr (dict_get kvs ''results'' JNull))
         | Inl e \<Rightarrow> Inl e)
    | _ \<Rightarrow> Inl (BoundaryError ''EVALUATOR_COMMAND_RESULTS_BINDING_MISMATCH'')))"

fun regression_claims :: "os_world \<Rightarrow> verified_manifest \<Rightarrow> json list \<Rightarrow> unit result" where
  "regression_claims w view [] = Inr ()"
| "regression_claims w view (JObj item # rest) =
    bnd (sealed_entry_for_claim w view (dict_get item ''stdout_path'' JNull)) (\<lambda>out.
    bnd (required_equal [(dict_get item ''stdout_sha256'' JNull, JStr (ae_sha256 out),
      ''EVALUATOR_ARTIFACT_HASH_MISMATCH'')]) (\<lambda>_.
    bnd (sealed_entry_for_claim w view (dict_get item ''stderr_path'' JNull)) (\<lambda>err.
    bnd (required_equal [(dict_get item ''stderr_sha256'' JNull, JStr (ae_sha256 err),
      ''EVALUATOR_ARTIFACT_HASH_MISMATCH'')]) (\<lambda>_.
    regression_claims w view rest))))"
| "regression_claims w view (_ # rest) = Inl (BoundaryError ''EVALUATOR_COMMAND_RESULTS_BINDING_MISMATCH'')"

text \<open>The artifacts a result names, against the sealed ones.\<close>

definition artifact_claims :: "os_world \<Rightarrow> verified_manifest \<Rightarrow> artifact_entry \<Rightarrow> artifact_entry
    \<Rightarrow> (string \<times> json) list \<Rightarrow> unit result" where
  "artifact_claims w view out err r =
    bnd (of_option (BoundaryError ''EVALUATOR_ARTIFACT_BINDING_MISSING'')
      (dict_members (dict_get r ''artifacts'' JNull))) (\<lambda>artifacts.
    let claim = (\<lambda>f. dict_get artifacts f JNull);
        hash = (\<lambda>f e. [(claim f, JStr (ae_sha256 e), ''EVALUATOR_ARTIFACT_HASH_MISMATCH'')]) in
    bnd (evidence_directory w view artifacts) (\<lambda>_.
    bnd (sealed_entry_for_claim w view (claim ''script_path'')) (\<lambda>script.
    bnd (required_equal
      [(claim ''script_sha256_pre'', JStr (ae_sha256 script), ''EVALUATOR_SCRIPT_HASH_BINDING_MISMATCH''),
       (claim ''script_sha256_post'', JStr (ae_sha256 script), ''EVALUATOR_SCRIPT_HASH_BINDING_MISMATCH'')]) (\<lambda>_.
    bnd (sealed_named view ''evaluator-command-manifest.json'') (\<lambda>manifest.
    bnd (required_equal (hash ''command_manifest_sha256'' manifest)) (\<lambda>_.
    bnd (sealed_named view ''evaluator-command-results.json'') (\<lambda>command.
    bnd (required_equal (hash ''command_results_sha256'' command)) (\<lambda>_.
    bnd (of_option (PythonError ''KeyError'') (map_of (vm_bytes view) (ae_path command))) (\<lambda>raw.
    bnd (command_results raw) (\<lambda>results.
    bnd (required_equal [(results, dict_get r ''independent_regression_results'' JNull,
      ''EVALUATOR_COMMAND_RESULTS_BINDING_MISMATCH'')]) (\<lambda>_.
    bnd (sealed_named view ''evaluator-reference-attacks.json'') (\<lambda>reference.
    bnd (required_equal (hash ''reference_attacks_sha256'' reference)) (\<lambda>_.
    bnd (required_equal
      [(claim ''successful_probe_stdout_sha256'', JStr (ae_sha256 out), ''EVALUATOR_PROBE_HASH_BINDING_MISMATCH''),
       (claim ''successful_probe_stderr_sha256'', JStr (ae_sha256 err), ''EVALUATOR_PROBE_HASH_BINDING_MISMATCH'')]) (\<lambda>_.
    case dict_get r ''independent_regression_results'' JNull of
      JList regressions \<Rightarrow> regression_claims w view regressions
    | _ \<Rightarrow> Inl (BoundaryError ''EVALUATOR_COMMAND_RESULTS_BINDING_MISMATCH'')))))))))))))))"

definition validate_completion_binding ::
  "(string \<Rightarrow> string) \<Rightarrow> os_world \<Rightarrow> execution_row \<Rightarrow> attempt_row \<Rightarrow> verification_row option \<Rightarrow> context_row
     \<Rightarrow> artifact_bundle option \<Rightarrow> verified_manifest option \<Rightarrow> (string \<times> json) list \<Rightarrow> attempt_status list
     \<Rightarrow> unit result" where
  "validate_completion_binding h w x a verification k bundle sealed r allowed =
    bnd (load_context_envelope h k) (\<lambda>envelope.
    bnd (value_get envelope ''content'') (\<lambda>content.
    let frozen = Option.bind (dict_members content) (\<lambda>c. dict_members (dict_get c ''frozen_contract'' JNull)) in
    if \<not> strict_binding frozen r then Inr ()
    else if \<not> json_eq (dict_get r ''schema'' JNull) (JStr legacy_schema)
    then Inl (BoundaryError ''EVALUATOR_EVIDENCE_SCHEMA_BINDING_MISMATCH'')
    else case (frozen, dict_members content) of
      (Some f, Some c) \<Rightarrow>
        bnd (of_option (BoundaryError ''EVALUATOR_ARTIFACT_SEAL_REQUIRED'') sealed) (\<lambda>view.
        bnd (required_equal (row_claims x a k allowed)) (\<lambda>_.
        bnd (required_equal (result_claims x r)) (\<lambda>_.
        bnd (of_option (BoundaryError ''EVALUATOR_RESULT_HEAD_BINDING_MISMATCH'')
          (dict_members (dict_get r ''git'' JNull))) (\<lambda>git.
        bnd (required_equal (context_claims x a k git r)) (\<lambda>_.
        bnd (of_option (BoundaryError ''EVALUATOR_VERIFICATION_BINDING_MISMATCH'') verification) (\<lambda>v.
        if \<not> json_eq (dict_get r ''verification_id'' JNull) (JStr (vr_id v))
        then Inl (BoundaryError ''EVALUATOR_VERIFICATION_BINDING_MISMATCH'')
        else bnd (required_equal (verification_claims x v r)) (\<lambda>_.
        bnd (of_option (BoundaryError ''EVALUATOR_VERIFICATION_BINDING_MISMATCH'')
          (dict_members (dict_get c ''deterministic_verification_result'' JNull))) (\<lambda>deterministic.
        bnd (required_equal (frozen_claims x v deterministic f c)) (\<lambda>_.
        bnd (as_boundary (entry_for_role view ''result'')) (\<lambda>res.
        bnd (as_boundary (entry_for_role view ''stdout'')) (\<lambda>out.
        bnd (as_boundary (entry_for_role view ''stderr'')) (\<lambda>err.
        bnd (case bundle of None \<Rightarrow> Inr ()
          | Some b \<Rightarrow> bundle_claims w view
              [(bu_result_artifact b, bu_result_sha256 b, res), (bu_stdout_artifact b, bu_stdout_sha256 b, out),
               (bu_stderr_artifact b, bu_stderr_sha256 b, err)]) (\<lambda>_.
        artifact_claims w view out err r)))))))))))))
    | _ \<Rightarrow> Inl (BoundaryError ''EVALUATOR_FROZEN_CONTRACT_MISSING'')))"

end
