(* ===== verification/Evaluator_Seals.thy ===== *)
theory Evaluator_Seals
  imports Evaluation
begin

text \<open>
  Evaluator artifact seals, the completion of agent attempts and the registration of
  evaluations (\<open>src/adcp/store/sqlite.py\<close>). A seal is persisted only for bytes the store has
  read itself, an evaluator attempt succeeds only under a seal of its finished execution, and a
  verdict is registered only when it equals the sealed result.
\<close>

text \<open>\<open>except ArtifactSealError as error: raise StoreError(error.code)\<close>, and for the other one.\<close>

definition seal_as_store :: "'a result \<Rightarrow> 'a result" where
  "seal_as_store m = (case m of Inl (SealError code) \<Rightarrow> Inl (StoreError code) | _ \<Rightarrow> m)"

definition boundary_as_store :: "'a result \<Rightarrow> 'a result" where
  "boundary_as_store m = (case m of Inl (BoundaryError code) \<Rightarrow> Inl (StoreError code) | _ \<Rightarrow> m)"

lemma seal_as_store_Inr [success]: "seal_as_store m = Inr a \<longleftrightarrow> m = Inr a"
  by (cases m) (auto simp: seal_as_store_def split: store_error.splits)

lemma boundary_as_store_Inr [success]: "boundary_as_store m = Inr a \<longleftrightarrow> m = Inr a"
  by (cases m) (auto simp: boundary_as_store_def split: store_error.splits)

lemma as_boundary_Inr [success]: "as_boundary m = Inr a \<longleftrightarrow> m = Inr a"
  by (cases m) (auto simp: as_boundary_def split: store_error.splits)

section \<open>Reads\<close>

definition get_seal :: "string \<Rightarrow> db \<Rightarrow> seal_row result" where
  "get_seal i d = of_option (StoreError ''EVALUATOR_ARTIFACT_SEAL_NOT_FOUND'') (find_seal i d)"

definition find_phase_seal :: "string \<Rightarrow> seal_phase \<Rightarrow> db \<Rightarrow> seal_row option" where
  "find_phase_seal a p d =
    find (\<lambda>s. zc_attempt_id (zr_fields s) = a \<and> zc_phase (zr_fields s) = p) (seals d)"

definition find_authoritative_seal :: "string \<Rightarrow> db \<Rightarrow> seal_row option" where
  "find_authoritative_seal a d =
    (case find_phase_seal a POST_EXECUTION d of
       Some s \<Rightarrow> Some s | None \<Rightarrow> find_phase_seal a LEGACY_ATTESTED d)"

text \<open>What a seal says of the attempt, its context and its verification.\<close>

definition seal_evidence_bound :: "seal_create \<Rightarrow> attempt_row \<Rightarrow> context_row \<Rightarrow> verification_row option \<Rightarrow> bool" where
  "seal_evidence_bound z a k v \<longleftrightarrow>
     at_execution_id a = zc_execution_id z \<and> at_role a = Evaluator
     \<and> at_result_commit a = Some (zc_result_commit z) \<and> at_context_id a = zc_context_id z
     \<and> cx_execution_id k = zc_execution_id z \<and> cx_role k = Evaluator
     \<and> cx_fingerprint k = zc_context_fingerprint z
     \<and> (case v of None \<Rightarrow> False | Some r \<Rightarrow> vr_execution_id r = zc_execution_id z
          \<and> vr_result_commit r = zc_result_commit z
          \<and> vr_contract_fingerprint r = zc_contract_fingerprint z
          \<and> vr_authority_fingerprint r = zc_authority_fingerprint z \<and> vr_verdict r = ''PASS'')"

definition seal_execution_bound :: "seal_create \<Rightarrow> execution_row \<Rightarrow> bool" where
  "seal_execution_bound z x \<longleftrightarrow> ex_result_commit x = Some (zc_result_commit z)
     \<and> ex_contract_fingerprint x = zc_contract_fingerprint z
     \<and> ex_authority_fingerprint x = zc_authority_fingerprint z"

definition read_sealed :: "ctx \<Rightarrow> seal_create \<Rightarrow> verified_manifest result" where
  "read_sealed c z = seal_as_store (verify_manifest_bytes (sha c) (world c) (zc_evidence_root z)
     (zc_manifest_json z) (zc_manifest_sha256 z))"

definition verify_seal ::
  "ctx \<Rightarrow> string \<Rightarrow> string option \<Rightarrow> bool \<Rightarrow> db \<Rightarrow> (seal_row \<times> verified_manifest) result" where
  "verify_seal c i expected_attempt require_generation d =
    bnd (get_seal i d) (\<lambda>s.
    let z = zr_fields s in
    if expected_attempt \<noteq> None \<and> expected_attempt \<noteq> Some (zc_attempt_id z)
    then Inl (StoreError ''EVALUATOR_ARTIFACT_SEAL_ATTEMPT_MISMATCH'')
    else bnd (get_execution (zc_execution_id z) d) (\<lambda>x.
    bnd (get_attempt (zc_attempt_id z) d) (\<lambda>a.
    bnd (get_context (zc_context_id z) d) (\<lambda>k.
    if \<not> seal_execution_bound z x \<or> \<not> seal_evidence_bound z a k (find_verification (zc_verification_id z) d)
    then Inl (StoreError ''EVALUATOR_ARTIFACT_SEAL_BINDING_MISMATCH'')
    else bnd (if require_generation
         then bnd (get_authority d) (\<lambda>au. if au_generation au \<noteq> zc_authority_generation z
                then Inl (StoreError ''STALE_AUTHORITY_GENERATION'') else Inr ())
         else Inr ()) (\<lambda>_.
    bnd (read_sealed c z) (\<lambda>view. Inr (s, view)))))))"

section \<open>create_evaluator_artifact_seal\<close>

record seal_request =
  sq_fields :: seal_create
  sq_owner :: string
  sq_generation :: int
  sq_required_state :: exec_state

fun required_roles :: "seal_phase \<Rightarrow> string set" where
  "required_roles PRE_EXECUTION = {''context_snapshot'', ''prompt'', ''output_schema''}"
| "required_roles POST_EXECUTION = {''stdout'', ''stderr'', ''result'', ''runner_metadata''}"
| "required_roles LEGACY_ATTESTED = {''stdout'', ''stderr'', ''result''}"

definition seal_precheck :: "ctx \<Rightarrow> seal_create \<Rightarrow> unit result" where
  "seal_precheck c z =
    bnd (validate_seal_create (sha c) z) (\<lambda>_.
    bnd (read_sealed c z) (\<lambda>view.
    if \<not> required_roles (zc_phase z) \<subseteq> ae_role ` set (vm_entries view)
    then Inl (StoreError ''EVALUATOR_ARTIFACT_SEAL_REQUIRED_ROLE_MISSING'') else Inr ()))"

definition seal_phase_ok :: "seal_create \<Rightarrow> attempt_row \<Rightarrow> db \<Rightarrow> unit result" where
  "seal_phase_ok z a d =
    (if zc_phase z = LEGACY_ATTESTED then
       (if at_status a \<noteq> SUCCEEDED then Inl (StoreError ''EVALUATOR_LEGACY_ATTESTATION_ATTEMPT_INVALID'')
        else if find_phase_seal (zc_attempt_id z) POST_EXECUTION d \<noteq> None
        then Inl (StoreError ''EVALUATOR_LEGACY_SEAL_FRESH_POST_EXISTS'') else Inr ())
     else if at_status a \<noteq> RUNNING then Inl (StoreError ''EVALUATOR_FRESH_SEAL_ATTEMPT_INVALID'')
     else if zc_phase z = POST_EXECUTION then
       (case find_phase_seal (zc_attempt_id z) PRE_EXECUTION d of
          None \<Rightarrow> Inl (StoreError ''EVALUATOR_POST_SEAL_PRE_REQUIRED'')
        | Some s \<Rightarrow> if \<not> seal_same_binding (zr_fields s) z
            then Inl (StoreError ''EVALUATOR_POST_SEAL_PRE_BINDING_MISMATCH'') else Inr ())
     else Inr ())"

definition create_seal_body :: "ctx \<Rightarrow> seal_request \<Rightarrow> db \<Rightarrow> (seal_row \<times> db) result" where
  "create_seal_body c q d =
    (let z = sq_fields q in
     bnd (get_execution (zc_execution_id z) d) (\<lambda>x.
     bnd (require_fence x (sq_owner q) (sq_generation q) (clock c 1)) (\<lambda>_.
     if ex_state x \<noteq> sq_required_state q then Inl (StoreError ''EVALUATOR_ARTIFACT_SEAL_STATE_INVALID'')
     else bnd (get_authority d) (\<lambda>au.
     if au_generation au \<noteq> zc_authority_generation z then Inl (StoreError ''STALE_AUTHORITY_GENERATION'')
     else if \<not> seal_execution_bound z x
     then Inl (StoreError ''EVALUATOR_ARTIFACT_SEAL_EXECUTION_BINDING_MISMATCH'')
     else bnd (get_attempt (zc_attempt_id z) d) (\<lambda>a.
     bnd (get_context (zc_context_id z) d) (\<lambda>k.
     if \<not> seal_evidence_bound z a k (find_verification (zc_verification_id z) d)
     then Inl (StoreError ''EVALUATOR_ARTIFACT_SEAL_BINDING_MISMATCH'')
     else case find (\<lambda>s. zc_operation_key (zr_fields s) = zc_operation_key z) (seals d) of
       Some s \<Rightarrow> if zr_fields s \<noteq> z then Inl (StoreError ''EVALUATOR_ARTIFACT_SEAL_IDEMPOTENCY_CONFLICT'')
         else Inr (s, d)
     | None \<Rightarrow>
         bnd (seal_phase_ok z a d) (\<lambda>_.
         if find_phase_seal (zc_attempt_id z) (zc_phase z) d \<noteq> None
         then Inl (StoreError ''EVALUATOR_ARTIFACT_SEAL_CONFLICT'')
         else let s = \<lparr>zr_fields = z, zr_created_at = clock c 2\<rparr> in
           bnd (insert_seal s d) (\<lambda>d1. Inr (s, d1)))))))))"

definition create_evaluator_artifact_seal :: "ctx \<Rightarrow> seal_request \<Rightarrow> db \<Rightarrow> seal_row result \<times> db" where
  "create_evaluator_artifact_seal c q = precheck (seal_precheck c (sq_fields q))
    (\<lambda>_ d. reading (\<lambda>s. get_seal (zr_id s)) (transaction c (create_seal_body c q) d))"

section \<open>finish_agent_attempt\<close>

record finish_request =
  qf_attempt_id :: string
  qf_status :: string
  qf_ended_at :: string
  qf_result_commit :: "string option"
  qf_exit_code :: "int option"
  qf_stdout_artifact :: "string option"
  qf_stdout_sha256 :: "string option"
  qf_stderr_artifact :: "string option"
  qf_stderr_sha256 :: "string option"
  qf_result_artifact :: "string option"
  qf_result_sha256 :: "string option"
  qf_seal_id :: "string option"
  qf_failure_code :: "string option"
  qf_owner :: "string option"
  qf_generation :: "int option"
  qf_required_state :: "exec_state option"

definition terminal_status :: "string \<Rightarrow> attempt_status option" where
  "terminal_status s =
    (if s = ''SUCCEEDED'' then Some SUCCEEDED else if s = ''FAILED'' then Some FAILED
     else if s = ''ABORTED'' then Some ABORTED else if s = ''LOST'' then Some LOST else None)"

definition optional_sha256 :: "string option \<Rightarrow> unit result" where
  "optional_sha256 v = (case v of None \<Rightarrow> Inr () | Some h \<Rightarrow> require_sha256 h)"

definition finish_validate :: "finish_request \<Rightarrow> attempt_status result" where
  "finish_validate q =
    bnd (of_option (StoreError ''INVALID_AGENT_ATTEMPT_STATUS'') (terminal_status (qf_status q))) (\<lambda>status.
    bnd (case qf_result_commit q of None \<Rightarrow> Inr () | Some x \<Rightarrow> require_commit x) (\<lambda>_.
    bnd (optional_sha256 (qf_stdout_sha256 q)) (\<lambda>_.
    bnd (optional_sha256 (qf_stderr_sha256 q)) (\<lambda>_.
    bnd (optional_sha256 (qf_result_sha256 q)) (\<lambda>_. Inr status)))))"

text \<open>
  The fence a completing caller may present: an owner and a generation together, and a state.
\<close>

definition completion_fence :: "ctx \<Rightarrow> string \<Rightarrow> string option \<Rightarrow> int option \<Rightarrow> exec_state option
    \<Rightarrow> string \<Rightarrow> db \<Rightarrow> unit result" where
  "completion_fence c i owner generation state code d =
    (if owner = None \<and> generation = None \<and> state = None then Inr ()
     else case (owner, generation) of
       (Some ow, Some g) \<Rightarrow>
         bnd (get_execution i d) (\<lambda>x.
         bnd (require_fence x ow g (clock c 1)) (\<lambda>_.
         if state \<noteq> None \<and> state \<noteq> Some (ex_state x) then Inl (StoreError code) else Inr ()))
     | _ \<Rightarrow> Inl (StoreError ''INCOMPLETE_FENCING_TOKEN''))"

definition authoritative_path :: "verified_manifest \<Rightarrow> artifact_entry \<Rightarrow> string" where
  "authoritative_path view e = path_text (path_join (vm_root view) (path_of (ae_path e)))"

definition claim_path :: "ctx \<Rightarrow> verified_manifest \<Rightarrow> string option \<Rightarrow> string \<Rightarrow> unit result" where
  "claim_path c view claim expected =
    (case claim of None \<Rightarrow> Inr ()
     | Some p \<Rightarrow>
         bnd (seal_as_store (relative_artifact_path (world c) p (root_text view))) (\<lambda>claimed.
         bnd (seal_as_store (relative_artifact_path (world c) expected (root_text view))) (\<lambda>wanted.
         if claimed \<noteq> wanted then Inl (StoreError ''EVALUATOR_CALLER_ARTIFACT_CLAIM_MISMATCH'')
         else Inr ())))"

definition claim_value :: "string option \<Rightarrow> string \<Rightarrow> unit result" where
  "claim_value claim expected = (if claim \<noteq> None \<and> claim \<noteq> Some expected
     then Inl (StoreError ''EVALUATOR_CALLER_ARTIFACT_CLAIM_MISMATCH'') else Inr ())"

text \<open>
  The values a successful evaluator attempt ends with: read from the seal, against which the
  caller's are only claims.
\<close>

definition sealed_completion :: "ctx \<Rightarrow> finish_request \<Rightarrow> db \<Rightarrow> finish_request result" where
  "sealed_completion c q d =
    (case qf_seal_id q of
       None \<Rightarrow> Inl (StoreError ''EVALUATOR_POST_EXECUTION_SEAL_REQUIRED'')
     | Some i \<Rightarrow>
         bnd (verify_seal c i (Some (qf_attempt_id q)) True d) (\<lambda>(s, view).
         if zc_phase (zr_fields s) \<noteq> POST_EXECUTION
         then Inl (StoreError ''EVALUATOR_POST_EXECUTION_SEAL_REQUIRED'')
         else bnd (entry_for_role view ''result'') (\<lambda>res.
         bnd (entry_for_role view ''stdout'') (\<lambda>out.
         bnd (entry_for_role view ''stderr'') (\<lambda>err.
         let commit = zc_result_commit (zr_fields s) in
         bnd (claim_value (qf_result_commit q) commit) (\<lambda>_.
         bnd (claim_path c view (qf_stdout_artifact q) (authoritative_path view out)) (\<lambda>_.
         bnd (claim_value (qf_stdout_sha256 q) (ae_sha256 out)) (\<lambda>_.
         bnd (claim_path c view (qf_stderr_artifact q) (authoritative_path view err)) (\<lambda>_.
         bnd (claim_value (qf_stderr_sha256 q) (ae_sha256 err)) (\<lambda>_.
         bnd (claim_path c view (qf_result_artifact q) (authoritative_path view res)) (\<lambda>_.
         bnd (claim_value (qf_result_sha256 q) (ae_sha256 res)) (\<lambda>_.
         Inr (q\<lparr>qf_result_commit := Some commit,
           qf_stdout_artifact := Some (authoritative_path view out), qf_stdout_sha256 := Some (ae_sha256 out),
           qf_stderr_artifact := Some (authoritative_path view err), qf_stderr_sha256 := Some (ae_sha256 err),
           qf_result_artifact := Some (authoritative_path view res),
           qf_result_sha256 := Some (ae_sha256 res)\<rparr>)))))))))))))"

definition finish_row :: "finish_request \<Rightarrow> attempt_status \<Rightarrow> attempt_row \<Rightarrow> attempt_row" where
  "finish_row q status r = r\<lparr>at_result_commit := qf_result_commit q, at_status := status,
     at_exit_code := qf_exit_code q, at_stdout_artifact := qf_stdout_artifact q,
     at_stdout_sha256 := qf_stdout_sha256 q, at_stderr_artifact := qf_stderr_artifact q,
     at_stderr_sha256 := qf_stderr_sha256 q, at_result_artifact := qf_result_artifact q,
     at_result_sha256 := qf_result_sha256 q, at_failure_code := qf_failure_code q,
     at_ended_at := Some (qf_ended_at q)\<rparr>"

definition finish_body :: "ctx \<Rightarrow> finish_request \<Rightarrow> attempt_status \<Rightarrow> db \<Rightarrow> (attempt_row \<times> db) result" where
  "finish_body c q status d =
    bnd (get_attempt (qf_attempt_id q) d) (\<lambda>r.
    bnd (completion_fence c (at_execution_id r) (qf_owner q) (qf_generation q) (qf_required_state q)
      ''AGENT_ATTEMPT_COMPLETION_STATE_INVALID'' d) (\<lambda>_.
    bnd (if at_role r = Evaluator \<and> status = SUCCEEDED then seal_as_store (sealed_completion c q d)
         else Inr q) (\<lambda>q'.
    if at_status r \<noteq> RUNNING then
      (if finish_row q' status r \<noteq> r then Inl (StoreError ''AGENT_ATTEMPT_ALREADY_FINISHED'') else Inr (r, d))
    else bnd (update_attempts (\<lambda>a. at_id a = qf_attempt_id q \<and> at_status a = RUNNING) (finish_row q' status) d)
      (\<lambda>(d1, n). if n \<noteq> 1 then Inl (StoreError ''AGENT_ATTEMPT_ALREADY_FINISHED'') else Inr (r, d1)))))"

definition finish_agent_attempt :: "ctx \<Rightarrow> finish_request \<Rightarrow> db \<Rightarrow> attempt_row result \<times> db" where
  "finish_agent_attempt c q = precheck (finish_validate q)
    (\<lambda>status d. reading (\<lambda>_. get_attempt (qf_attempt_id q)) (transaction c (finish_body c q status) d))"

section \<open>register_evaluation_result\<close>

text \<open>The handler of the decoding: the three exception classes, each with its code.\<close>

definition recovered :: "'a result \<Rightarrow> 'a result" where
  "recovered m = (case m of
      Inl (BoundaryError code) \<Rightarrow> Inl (StoreError code)
    | Inl (SealError code) \<Rightarrow> Inl (StoreError code)
    | Inl (PythonError class_name) \<Rightarrow>
        if class_name = ''CanonicalizationError'' then Inl (StoreError ''CANONICAL_JSON_INVALID'') else m
    | _ \<Rightarrow> m)"

lemma recovered_Inr [success]: "recovered m = Inr a \<longleftrightarrow> m = Inr a"
  by (cases m) (auto simp: recovered_def split: store_error.splits)

definition attempt_bundle :: "attempt_row \<Rightarrow> artifact_bundle option" where
  "attempt_bundle a =
    (case (at_result_artifact a, at_result_sha256 a, at_stdout_artifact a, at_stdout_sha256 a,
           at_stderr_artifact a, at_stderr_sha256 a) of
       (Some r, Some rh, Some out, Some outh, Some err, Some errh) \<Rightarrow>
         if [] \<in> {r, rh, out, outh, err, errh} then None
         else Some \<lparr>bu_result_artifact = r, bu_result_sha256 = rh, bu_stdout_artifact = out,
                bu_stdout_sha256 = outh, bu_stderr_artifact = err, bu_stderr_sha256 = errh\<rparr>
     | _ \<Rightarrow> None)"

definition validate_evaluation_completion :: "ctx \<Rightarrow> evaluation_record \<Rightarrow> string option
    \<Rightarrow> artifact_bundle option \<Rightarrow> attempt_status list \<Rightarrow> db \<Rightarrow> unit result" where
  "validate_evaluation_completion c v seal_id bundle allowed d =
    (let r = vl_row v in
     bnd (get_execution (er_execution_id r) d) (\<lambda>x.
     bnd (get_attempt (er_attempt_id r) d) (\<lambda>a.
     bnd (get_context (er_context_id r) d) (\<lambda>k.
     bnd (case seal_id of Some i \<Rightarrow> get_seal i d
        | None \<Rightarrow> of_option (StoreError ''EVALUATOR_ARTIFACT_SEAL_REQUIRED'')
            (find_authoritative_seal (er_attempt_id r) d)) (\<lambda>found.
     bnd (verify_seal c (zr_id found) (Some (er_attempt_id r)) True d) (\<lambda>(s, view).
     let z = zr_fields s in
     if zc_phase z \<notin> {POST_EXECUTION, LEGACY_ATTESTED}
     then Inl (StoreError ''EVALUATOR_AUTHORITATIVE_SEAL_PHASE_INVALID'')
     else if zc_execution_id z \<noteq> er_execution_id r \<or> zc_result_commit z \<noteq> er_result_commit r
        \<or> zc_context_id z \<noteq> er_context_id r \<or> zc_contract_fingerprint z \<noteq> er_contract_fingerprint r
        \<or> zc_authority_fingerprint z \<noteq> er_authority_fingerprint r
     then Inl (StoreError ''EVALUATOR_ARTIFACT_SEAL_BINDING_MISMATCH'')
     else bnd (recovered (bnd (bytes_for_role view ''result'') decode_durable_result)) (\<lambda>durable.
     bnd (canonical_json (json_to_py (JObj durable))) (\<lambda>text.
     if text \<noteq> er_result_json r then Inl (StoreError ''EVALUATOR_DURABLE_RESULT_MISMATCH'')
     else boundary_as_store (validate_completion_binding (sha c) (world c) x a
       (find_verification (zc_verification_id z) d) k
       (case bundle of Some b \<Rightarrow> Some b | None \<Rightarrow> attempt_bundle a) (Some view) (vl_result v) allowed)))))))))"

text \<open>
  A record, or the keyword arguments it is built from, of which a call may also give only some.
\<close>

datatype keyword_arguments = No_keywords | Some_keywords | All_keywords evaluation_row pyval

record evaluation_request =
  vq_record :: "evaluation_record option"
  vq_keywords :: keyword_arguments
  vq_owner :: "string option"
  vq_generation :: "int option"
  vq_required_state :: "exec_state option"

definition evaluation_record_of :: "evaluation_request \<Rightarrow> evaluation_record result" where
  "evaluation_record_of q =
    (case vq_record q of
       Some v \<Rightarrow> if vq_keywords q = No_keywords then Inr v
         else Inl (StoreError ''EVALUATION_RESULT_ARGUMENT_CONFLICT'')
     | None \<Rightarrow>
         (case vq_keywords q of
            All_keywords r result \<Rightarrow>
              (case build_evaluation_result r result of
                 Inl (PythonError e) \<Rightarrow>
                   if e = ''ValueError:EVALUATION_VERDICT_INVALID''
                   then Inl (StoreError ''INVALID_EVALUATION_VERDICT'') else Inl (PythonError e)
               | m \<Rightarrow> m)
          | _ \<Rightarrow> Inl (StoreError ''EVALUATION_RESULT_INVALID'')))"

definition evaluation_precheck :: "ctx \<Rightarrow> evaluation_request \<Rightarrow> db \<Rightarrow> evaluation_record result" where
  "evaluation_precheck c q d =
    bnd (evaluation_record_of q) (\<lambda>v.
    let result = json_to_py (JObj (vl_result v)) in
    bnd (canonical_json (semantic_payload (vl_row v) result)) (\<lambda>payload.
    bnd (canonical_json result) (\<lambda>text.
    if payload \<noteq> vl_payload_json v \<or> text \<noteq> er_result_json (vl_row v)
    then Inl (StoreError ''EVALUATION_CANONICAL_MISMATCH'')
    else bnd (validate_evaluation_completion c v None None [SUCCEEDED] d) (\<lambda>_. Inr v))))"

definition evaluation_body :: "ctx \<Rightarrow> evaluation_request \<Rightarrow> evaluation_row \<Rightarrow> db
    \<Rightarrow> (evaluation_row \<times> db) result" where
  "evaluation_body c q r d =
    bnd (completion_fence c (er_execution_id r) (vq_owner q) (vq_generation q) (vq_required_state q)
      ''EVALUATOR_COMPLETION_STATE_INVALID'' d) (\<lambda>_.
    case find (\<lambda>x. er_operation_key x = er_operation_key r) (evaluations d) of
      Some x \<Rightarrow> if x \<noteq> r then Inl (StoreError ''IDEMPOTENCY_CONFLICT'') else Inr (x, d)
    | None \<Rightarrow>
        bnd (get_execution (er_execution_id r) d) (\<lambda>x.
        if ex_result_commit x \<noteq> Some (er_result_commit r)
           \<or> ex_contract_fingerprint x \<noteq> er_contract_fingerprint r
           \<or> ex_authority_fingerprint x \<noteq> er_authority_fingerprint r
        then Inl (StoreError ''EVALUATION_EXECUTION_BINDING_MISMATCH'')
        else bnd (get_attempt (er_attempt_id r) d) (\<lambda>a.
        if at_execution_id a \<noteq> er_execution_id r \<or> at_role a \<noteq> Evaluator
           \<or> at_context_id a \<noteq> er_context_id r \<or> at_result_commit a \<noteq> Some (er_result_commit r)
           \<or> at_status a \<noteq> SUCCEEDED
        then Inl (StoreError ''EVALUATOR_ATTEMPT_BINDING_MISMATCH'')
        else bnd (insert_evaluation r d) (\<lambda>d1. Inr (r, d1)))))"

definition register_evaluation_result :: "ctx \<Rightarrow> evaluation_request \<Rightarrow> db \<Rightarrow> evaluation_row result \<times> db" where
  "register_evaluation_result c q d0 = precheck (evaluation_precheck c q d0)
    (\<lambda>v d. reading (\<lambda>r. get_evaluation (er_id r)) (transaction c (evaluation_body c q (vl_row v)) d)) d0"

definition find_evaluation_pass :: "string \<Rightarrow> string \<Rightarrow> string \<Rightarrow> string \<Rightarrow> db \<Rightarrow> evaluation_row option" where
  "find_evaluation_pass i commit contract auth d =
    find_last (\<lambda>r. er_execution_id r = i \<and> er_result_commit r = commit
      \<and> er_contract_fingerprint r = contract \<and> er_authority_fingerprint r = auth \<and> er_verdict r = ''PASS''
      \<and> (\<exists>a\<in>set (attempts d). at_id a = er_attempt_id r \<and> at_role a = Evaluator \<and> at_status a = SUCCEEDED))
      (evaluations d)"

end
