(* ===== verification/Verifier.thy ===== *)
theory Verifier
  imports Acceptance
begin

text \<open>
  Verification payloads (\<open>src/adcp/verifier.py\<close>), context capsules (\<open>src/adcp/capsule.py\<close>)
  and evidence manifests (\<open>src/adcp/evidence.py\<close>): pure builders of canonical documents. The
  fields of a command come from JSON, so each is a document until it is validated.
\<close>

definition value_error :: "string \<Rightarrow> store_error" where
  "value_error code = PythonError (''ValueError:'' @ code)"

definition type_error :: store_error where
  "type_error = PythonError ''TypeError''"

definition json_decode_error :: store_error where
  "json_decode_error = PythonError ''JSONDecodeError''"

section \<open>Verification commands\<close>

record verification_command =
  vn_name :: json
  vn_argv :: json
  vn_cwd :: json
  vn_env_names :: json
  vn_timeout_seconds :: json
  vn_required :: json
  vn_exit_code :: json
  vn_stdout_artifact :: json
  vn_stdout_sha256 :: json
  vn_stderr_artifact :: json
  vn_stderr_sha256 :: json

definition command_keys :: "string list" where
  "command_keys = [''name'', ''argv'', ''cwd'', ''env_names'', ''timeout_seconds'', ''required'', ''exit_code'']"

definition optional_command_keys :: "string list" where
  "optional_command_keys = [''stdout_artifact'', ''stdout_sha256'', ''stderr_artifact'', ''stderr_sha256'']"

text \<open>\<open>fullmatch\<close> of \<open>[A-Za-z_][A-Za-z0-9_]*\<close>; the pattern's own anchors add nothing to it.\<close>

definition name_start :: "char \<Rightarrow> bool" where
  "name_start c \<longleftrightarrow> (let n = (of_char c :: nat) in 65 \<le> n \<and> n \<le> 90 \<or> 97 \<le> n \<and> n \<le> 122 \<or> n = 95)"

definition env_name :: "string \<Rightarrow> bool" where
  "env_name s \<longleftrightarrow> (case s of [] \<Rightarrow> False
     | c # cs \<Rightarrow> name_start c \<and> list_all (\<lambda>x. name_start x \<or> is_digit x) cs)"

fun all_texts :: "json list \<Rightarrow> string list option" where
  "all_texts [] = Some []"
| "all_texts (JStr s # xs) = map_option ((#) s) (all_texts xs)"
| "all_texts (_ # xs) = None"

fun text_list :: "json \<Rightarrow> string list option" where
  "text_list (JList xs) = all_texts xs"
| "text_list _ = None"

text \<open>
  \<open>require_sha256\<close> and \<open>require_commit\<close> of a value that need not be a string: they take the
  length and ask of each element whether it occurs in the hexadecimal digits, so a list or an
  object of that many short strings passes too.
\<close>

definition occurs_in_hex :: "string \<Rightarrow> bool" where
  "occurs_in_hex s = (let hex = ''0123456789abcdef'' in
     list_ex (\<lambda>i. take (length s) (drop i hex) = s) [0..<17])"

fun require_hex_items :: "json list \<Rightarrow> unit result" where
  "require_hex_items [] = Inr ()"
| "require_hex_items (JStr s # xs) =
    (if occurs_in_hex s then require_hex_items xs else Inl (StoreError ''INVALID_INPUT''))"
| "require_hex_items (_ # xs) = Inl type_error"

fun require_hex_value :: "nat set \<Rightarrow> json \<Rightarrow> unit result" where
  "require_hex_value lengths (JStr s) =
    (if length s \<notin> lengths \<or> \<not> is_lower_hex s then Inl (StoreError ''INVALID_INPUT'') else Inr ())"
| "require_hex_value lengths (JList xs) =
    (if length xs \<notin> lengths then Inl (StoreError ''INVALID_INPUT'') else require_hex_items xs)"
| "require_hex_value lengths (JObj kvs) =
    (if length kvs \<notin> lengths then Inl (StoreError ''INVALID_INPUT'')
     else require_hex_items (map (\<lambda>kv. JStr (fst kv)) kvs))"
| "require_hex_value lengths _ = Inl type_error"

definition require_optional_sha256 :: "json \<Rightarrow> unit result" where
  "require_optional_sha256 v = (if v = JNull then Inr () else require_hex_value {64} v)"

fun is_int :: "json \<Rightarrow> bool" where
  "is_int (JInt _) = True"
| "is_int _ = False"

fun is_bool :: "json \<Rightarrow> bool" where
  "is_bool (JBool _) = True"
| "is_bool _ = False"

definition validate_command :: "verification_command \<Rightarrow> unit result" where
  "validate_command c =
    (if \<not> truthy (vn_name c) \<or> \<not> truthy (vn_cwd c) then Inl (value_error ''VERIFICATION_COMMAND_INVALID'')
     else if text_list (vn_argv c) \<in> {None, Some []} then Inl (value_error ''VERIFICATION_ARGV_INVALID'')
     else (case text_list (vn_env_names c) of
        None \<Rightarrow> Inl (value_error ''VERIFICATION_ENV_NAMES_INVALID'')
      | Some names \<Rightarrow>
          if \<not> list_all env_name names \<or> \<not> distinct names
          then Inl (value_error ''VERIFICATION_ENV_NAMES_INVALID'')
          else if \<not> (case vn_timeout_seconds c of JInt n \<Rightarrow> 0 < n | _ \<Rightarrow> False)
          then Inl (value_error ''VERIFICATION_TIMEOUT_INVALID'')
          else if \<not> is_bool (vn_required c) then Inl (value_error ''VERIFICATION_REQUIRED_INVALID'')
          else if \<not> is_int (vn_exit_code c) then Inl (value_error ''VERIFICATION_EXIT_CODE_INVALID'')
          else bnd (require_optional_sha256 (vn_stdout_sha256 c)) (\<lambda>_.
               require_optional_sha256 (vn_stderr_sha256 c))))"

text \<open>\<open>cls(**value)\<close>: the required keywords, possibly the optional ones, and no other.\<close>

fun command_from_value :: "json \<Rightarrow> verification_command result" where
  "command_from_value (JObj kvs) =
    (if \<not> set command_keys \<subseteq> fst ` set kvs
        \<or> \<not> fst ` set kvs \<subseteq> set command_keys \<union> set optional_command_keys
     then Inl type_error
     else let get = (\<lambda>k. dict_get kvs k JNull);
              c = \<lparr>vn_name = get ''name'', vn_argv = get ''argv'', vn_cwd = get ''cwd'',
                   vn_env_names = get ''env_names'', vn_timeout_seconds = get ''timeout_seconds'',
                   vn_required = get ''required'', vn_exit_code = get ''exit_code'',
                   vn_stdout_artifact = get ''stdout_artifact'', vn_stdout_sha256 = get ''stdout_sha256'',
                   vn_stderr_artifact = get ''stderr_artifact'', vn_stderr_sha256 = get ''stderr_sha256''\<rparr>
          in bnd (validate_command c) (\<lambda>_. Inr c))"
| "command_from_value _ = Inl type_error"

definition materialize_command :: "verification_command \<Rightarrow> json" where
  "materialize_command c = JObj
    [(''name'', vn_name c), (''argv'', vn_argv c), (''cwd'', vn_cwd c),
     (''env_names'', JList (map JStr (sort (case text_list (vn_env_names c) of None \<Rightarrow> [] | Some ns \<Rightarrow> ns)))),
     (''timeout_seconds'', vn_timeout_seconds c), (''required'', vn_required c),
     (''exit_code'', vn_exit_code c), (''stdout_artifact'', vn_stdout_artifact c),
     (''stdout_sha256'', vn_stdout_sha256 c), (''stderr_artifact'', vn_stderr_artifact c),
     (''stderr_sha256'', vn_stderr_sha256 c)]"

definition command_manifest :: "verification_command list \<Rightarrow> json" where
  "command_manifest cs =
    JObj [(''manifest_version'', JInt 1), (''commands'', JList (map materialize_command cs))]"

definition build_command_manifest :: "json list \<Rightarrow> json result" where
  "build_command_manifest values =
    bnd (seq_results (map command_from_value values)) (\<lambda>cs. Inr (command_manifest cs))"

definition verification_verdicts :: "string set" where
  "verification_verdicts = {''PASS'', ''FAIL'', ''BLOCKED_ENVIRONMENT''}"

text \<open>
  \<open>build_verification_result\<close>; the row's manifest, digest and result columns are filled in.
\<close>

definition build_verification_result ::
  "(string \<Rightarrow> string) \<Rightarrow> verification_row \<Rightarrow> json list \<Rightarrow> pyval \<Rightarrow> verification_record result" where
  "build_verification_result h r commands result =
    (if [] \<in> {vr_id r, vr_execution_id r, vr_started_at r, vr_ended_at r}
     then Inl (value_error ''VERIFICATION_RESULT_INVALID'')
     else bnd (require_sha256 (vr_operation_key r)) (\<lambda>_.
          bnd (require_commit (vr_result_commit r)) (\<lambda>_.
          bnd (require_sha256 (vr_contract_fingerprint r)) (\<lambda>_.
          bnd (require_sha256 (vr_authority_fingerprint r)) (\<lambda>_.
     if vr_verdict r \<notin> verification_verdicts then Inl (value_error ''VERIFICATION_VERDICT_INVALID'')
     else bnd (build_command_manifest commands) (\<lambda>manifest.
          bnd (canonical_json (json_to_py manifest)) (\<lambda>manifest_json.
          bnd (canonical_json result) (\<lambda>result_json.
          bnd (of_option json_decode_error (loads manifest_json)) (\<lambda>manifest'.
          bnd (of_option json_decode_error (loads result_json)) (\<lambda>result'.
          Inr \<lparr>yr_row = r\<lparr>vr_command_manifest := manifest_json,
                 vr_command_manifest_sha256 := h manifest_json, vr_result_json := result_json\<rparr>,
               yr_manifest = json_to_py manifest', yr_result = json_to_py result'\<rparr>))))))))))"

text \<open>
  Iterating the commands of a manifest: the keys of an object and the characters of a string
  are no mappings, so any of them is refused.
\<close>

fun manifest_commands :: "json \<Rightarrow> verification_command list result" where
  "manifest_commands (JList xs) = seq_results (map command_from_value xs)"
| "manifest_commands (JStr s) = (if s = [] then Inr [] else Inl type_error)"
| "manifest_commands (JObj kvs) = (if kvs = [] then Inr [] else Inl type_error)"
| "manifest_commands _ = Inl type_error"

definition required_command :: "verification_command \<Rightarrow> bool" where
  "required_command c \<longleftrightarrow> vn_required c = JBool True"

definition failed_command :: "verification_command \<Rightarrow> bool" where
  "failed_command c \<longleftrightarrow> vn_exit_code c \<noteq> JInt 0"

definition validate_candidate_verification_payload ::
  "(string \<Rightarrow> string) \<Rightarrow> string \<Rightarrow> string \<Rightarrow> string \<Rightarrow> string \<Rightarrow> verification_command list result" where
  "validate_candidate_verification_payload h manifest_json manifest_sha256 result_json verdict =
    bnd (of_option json_decode_error (loads manifest_json)) (\<lambda>manifest.
    bnd (of_option json_decode_error (loads result_json)) (\<lambda>result.
    bnd (canonical_json (json_to_py manifest)) (\<lambda>text.
    if text \<noteq> manifest_json \<or> h text \<noteq> manifest_sha256
    then Inl (value_error ''CANDIDATE_VERIFICATION_MANIFEST_MISMATCH'')
    else (case manifest of
      JObj kvs \<Rightarrow>
        if \<not> json_eq (dict_get kvs ''manifest_version'' JNull) (JInt 1)
        then Inl (value_error ''CANDIDATE_VERIFICATION_MANIFEST_INVALID'')
        else bnd (manifest_commands (dict_get kvs ''commands'' (JList []))) (\<lambda>cs.
          if \<not> list_ex required_command cs then Inl (value_error ''CANDIDATE_REQUIRED_COMMANDS_EMPTY'')
          else if \<not> json_eq (command_manifest cs) manifest
          then Inl (value_error ''CANDIDATE_VERIFICATION_MANIFEST_INVALID'')
          else if verdict \<notin> verification_verdicts then Inl (value_error ''VERIFICATION_VERDICT_INVALID'')
          else if verdict = ''PASS'' \<and> list_ex (\<lambda>c. required_command c \<and> failed_command c) cs
          then Inl (value_error ''CANDIDATE_VERIFICATION_FALSE_PASS'')
          else (case result of
            JObj rs \<Rightarrow>
              if rs = [] then Inl (value_error ''CANDIDATE_VERIFICATION_RESULT_INVALID'')
              else bnd (canonical_json (json_to_py result)) (\<lambda>result_text.
                if result_text \<noteq> result_json then Inl (value_error ''CANDIDATE_VERIFICATION_RESULT_INVALID'')
                else Inr cs)
          | _ \<Rightarrow> Inl (value_error ''CANDIDATE_VERIFICATION_RESULT_INVALID'')))
    | _ \<Rightarrow> Inl (value_error ''CANDIDATE_VERIFICATION_MANIFEST_INVALID'')))))"

section \<open>Context capsules\<close>

text \<open>\<open>_materialize\<close>: a canonical, detached copy.\<close>

definition materialize :: "pyval \<Rightarrow> json result" where
  "materialize v = bnd (canonical_json v) (\<lambda>text. of_option json_decode_error (loads text))"

definition maker_fields :: "string list" where
  "maker_fields = [''slice'', ''current_task'', ''contract_fingerprint'', ''authority_fingerprint'',
     ''source_root'', ''branch'', ''base_commit'', ''current_commit'', ''acceptance_criteria'',
     ''constraints'', ''risk'', ''environment'', ''allowed_actions'', ''forbidden_actions'',
     ''relevant_authority_refs'', ''relevant_authority_excerpts'']"

definition evaluator_fields :: "string list" where
  "evaluator_fields = [''frozen_contract'', ''acceptance_criteria'', ''base_commit'', ''result_commit'',
     ''changed_file_manifest'', ''diff'', ''deterministic_verification_result'',
     ''relevant_authority_refs'', ''relevant_authority_excerpts'']"

definition feedback_field :: string where
  "feedback_field = ''previous_structured_rework_feedback''"

definition payload_content :: "string list \<Rightarrow> (string \<times> pyval) list \<Rightarrow> (pyval \<times> pyval) list" where
  "payload_content names given =
    map (\<lambda>k. (PStr k, case map_of given k of None \<Rightarrow> PNone | Some v \<Rightarrow> v)) names"

text \<open>The keyword arguments of the two payload classes and their \<open>to_content\<close>.\<close>

definition maker_content :: "(string \<times> pyval) list \<Rightarrow> json result" where
  "maker_content given =
    (if \<not> set maker_fields \<subseteq> fst ` set given \<or> \<not> fst ` set given \<subseteq> insert feedback_field (set maker_fields)
     then Inl type_error
     else let content = payload_content maker_fields given in
       case map_of given feedback_field of
         None \<Rightarrow> materialize (PDict content)
       | Some PNone \<Rightarrow> materialize (PDict content)
       | Some (PDict f) \<Rightarrow> materialize (PDict (content @ [(PStr feedback_field, PDict f)]))
       | Some (PList f) \<Rightarrow> materialize (PDict (content @ [(PStr feedback_field, PList f)]))
       | Some _ \<Rightarrow> Inl (value_error ''STRUCTURED_REWORK_FEEDBACK_REQUIRED''))"

definition evaluator_content :: "(string \<times> pyval) list \<Rightarrow> json result" where
  "evaluator_content given =
    (if fst ` set given \<noteq> set evaluator_fields then Inl type_error
     else materialize (PDict (payload_content evaluator_fields given)))"

definition capsule_envelope :: "int \<Rightarrow> capsule_role \<Rightarrow> json \<Rightarrow> json" where
  "capsule_envelope version role content = JObj [(''capsule_version'', JInt version),
     (''role'', JStr (capsule_role_value role)), (''content'', content)]"

definition build_context_capsule ::
  "(string \<Rightarrow> string) \<Rightarrow> capsule_role \<Rightarrow> json \<Rightarrow> int \<Rightarrow> capsule result" where
  "build_context_capsule h role content version =
    (if version \<le> 0 then Inl (value_error ''CAPSULE_VERSION_INVALID'')
     else (case content of
       JObj _ \<Rightarrow>
         bnd (materialize (json_to_py content)) (\<lambda>materialized.
         bnd (canonical_json (json_to_py (capsule_envelope version role materialized))) (\<lambda>serialized.
         Inr \<lparr>capsule_version = version, capsule_role = role, capsule_content = materialized,
              capsule_json = serialized, capsule_fingerprint = h serialized\<rparr>))
     | _ \<Rightarrow> Inl (value_error ''CAPSULE_CONTENT_OBJECT_REQUIRED'')))"

definition build_maker_capsule ::
  "(string \<Rightarrow> string) \<Rightarrow> (string \<times> pyval) list \<Rightarrow> int \<Rightarrow> capsule result" where
  "build_maker_capsule h given version =
    bnd (maker_content given) (\<lambda>content. build_context_capsule h Maker content version)"

definition build_evaluator_capsule ::
  "(string \<Rightarrow> string) \<Rightarrow> (string \<times> pyval) list \<Rightarrow> int \<Rightarrow> capsule result" where
  "build_evaluator_capsule h given version =
    bnd (evaluator_content given) (\<lambda>content. build_context_capsule h Evaluator content version)"

section \<open>Evidence manifests\<close>

text \<open>\<open>sorted(..., key=canonical_json)\<close> of materialised values: their texts decide.\<close>

definition sorted_canonical :: "pyval list \<Rightarrow> json list result" where
  "sorted_canonical values =
    bnd (seq_results (map materialize values)) (\<lambda>items. Inr (sort_key dumps items))"

definition materialize_item :: "pyval \<Rightarrow> json result" where
  "materialize_item v = (case v of PDict _ \<Rightarrow> materialize v | _ \<Rightarrow> Inl type_error)"

fun item_text :: "string \<Rightarrow> json \<Rightarrow> string" where
  "item_text k j = (case member k j of Some (JStr s) \<Rightarrow> s | _ \<Rightarrow> [])"

fun item_int :: "string \<Rightarrow> json \<Rightarrow> int" where
  "item_int k j = (case member k j of Some (JInt i) \<Rightarrow> i | _ \<Rightarrow> 0)"

definition context_item :: "pyval \<Rightarrow> json result" where
  "context_item v = bnd (materialize_item v) (\<lambda>item.
    if text_value (member ''role'' item) = None \<or> text_value (member ''context_snapshot_id'' item) = None
    then Inl (value_error ''CONTEXT_FINGERPRINT_EVIDENCE_INVALID'') else Inr item)"

definition normalize_context :: "pyval list \<Rightarrow> json list result" where
  "normalize_context values =
    bnd (seq_results (map context_item values)) (\<lambda>items.
    Inr (sort_key (\<lambda>i. [item_text ''role'' i, item_text ''context_snapshot_id'' i, dumps i]) items))"

definition transition_item :: "pyval \<Rightarrow> json result" where
  "transition_item v = bnd (materialize_item v) (\<lambda>item.
    if int_value (member ''to_state_version'' item) = None
    then Inl (value_error ''TRANSITION_EVIDENCE_INVALID'') else Inr item)"

text \<open>Sorting by the text and then, stably, by the version is sorting by the pair.\<close>

definition normalize_transitions :: "pyval list \<Rightarrow> json list result" where
  "normalize_transitions values =
    bnd (seq_results (map transition_item values)) (\<lambda>items.
    Inr (sort_key (item_int ''to_state_version'') (sort_key dumps items)))"

definition sequence_of :: "string \<Rightarrow> (string \<times> pyval) list \<Rightarrow> pyval list result" where
  "sequence_of k given = (case map_of given k of None \<Rightarrow> Inr [] | Some (PList xs) \<Rightarrow> Inr xs
     | Some _ \<Rightarrow> Inl type_error)"

definition canonical_evidence_payload :: "(string \<times> pyval) list \<Rightarrow> json result" where
  "canonical_evidence_payload given =
    (let payload = filter (\<lambda>kv. fst kv \<notin> {''manifest_sha256'', ''canonical_json''}) given;
         put = (\<lambda>k items. dict_set k (PList (map json_to_py items))) in
     bnd (bnd (sequence_of ''approval_refs'' payload) sorted_canonical) (\<lambda>approval_items.
     bnd (bnd (sequence_of ''context_fingerprints'' payload) normalize_context) (\<lambda>context_items.
     bnd (bnd (sequence_of ''transition_evidence'' payload) normalize_transitions) (\<lambda>transition_items.
     materialize (PDict (map (\<lambda>(k, v). (PStr k, v))
       (put ''transition_evidence'' transition_items (put ''context_fingerprints'' context_items
         (put ''approval_refs'' approval_items payload)))))))))"

record evidence_arguments =
  va_manifest_id :: string
  va_execution_id :: string
  va_slice_id :: string
  va_contract_fingerprint :: string
  va_authority_fingerprint :: string
  va_base_commit :: string
  va_result_commit :: string
  va_maker_attempt :: pyval
  va_verification :: pyval
  va_evaluator_attempt :: pyval
  va_evaluation :: pyval
  va_approval_refs :: "pyval list"
  va_contexts :: "pyval list"
  va_transitions :: "pyval list"
  va_created_at :: string

definition evidence_fields :: "evidence_arguments \<Rightarrow> (string \<times> pyval) list" where
  "evidence_fields a =
    [(''manifest_id'', PStr (va_manifest_id a)), (''execution_id'', PStr (va_execution_id a)),
     (''slice_id'', PStr (va_slice_id a)), (''contract_fingerprint'', PStr (va_contract_fingerprint a)),
     (''authority_fingerprint'', PStr (va_authority_fingerprint a)),
     (''base_commit'', PStr (va_base_commit a)), (''result_commit'', PStr (va_result_commit a)),
     (''maker_attempt_evidence'', va_maker_attempt a), (''verification_evidence'', va_verification a),
     (''evaluator_attempt_evidence'', va_evaluator_attempt a), (''evaluation_evidence'', va_evaluation a),
     (''approval_refs'', PList (va_approval_refs a)), (''context_fingerprints'', PList (va_contexts a)),
     (''transition_evidence'', PList (va_transitions a)), (''created_at'', PStr (va_created_at a))]"

definition build_evidence_manifest :: "(string \<Rightarrow> string) \<Rightarrow> evidence_arguments \<Rightarrow> evidence_manifest result" where
  "build_evidence_manifest h a =
    (if [] \<in> {va_manifest_id a, va_execution_id a, va_slice_id a, va_created_at a}
     then Inl (value_error ''EVIDENCE_MANIFEST_INVALID'')
     else bnd (require_sha256 (va_contract_fingerprint a)) (\<lambda>_.
          bnd (require_sha256 (va_authority_fingerprint a)) (\<lambda>_.
          bnd (require_commit (va_base_commit a)) (\<lambda>_.
          bnd (require_commit (va_result_commit a)) (\<lambda>_.
          bnd (canonical_evidence_payload (evidence_fields a)) (\<lambda>payload.
          bnd (canonical_json (json_to_py payload)) (\<lambda>serialized.
          case payload of
            JObj kvs \<Rightarrow> Inr \<lparr>mf_fields = kvs, mf_canonical_json = serialized, mf_sha256 = h serialized\<rparr>
          | _ \<Rightarrow> Inl type_error)))))))"

end
