(* ===== verification/Candidate.thy ===== *)
theory Candidate
  imports Candidate_Schema Evaluator_Seals Verifier
begin

text \<open>
  The uncommitted candidate (\<open>src/adcp/store/sqlite.py\<close>, lines 271-755): binding of the Maker's
  content, its verification and evaluation under sealed artifacts, the binding of a human
  approval, and the closure that turns the candidate into a commit. Every write is bracketed by
  two checks of the caller's candidate fence. The Git effects of the two callbacks are outside
  the store; \<open>prepare\<close> and \<open>apply\<close> stand for what they return.
\<close>

text \<open>\<open>_candidate_transaction\<close>: the fence before the body and, without the version, after it.\<close>

definition fenced_body ::
  "ctx \<Rightarrow> string \<Rightarrow> candidate_fence \<Rightarrow> (execution_row \<Rightarrow> db \<Rightarrow> ('a \<times> db) result) \<Rightarrow> db \<Rightarrow> ('a \<times> db) result" where
  "fenced_body c i f body d =
    bnd (require_candidate_fence c 2 i f True d) (\<lambda>x.
    bnd (body x d) (\<lambda>(a, d1).
    bnd (require_candidate_fence c 3 i f False d1) (\<lambda>_. Inr (a, d1))))"

definition get_binding :: "string \<Rightarrow> db \<Rightarrow> candidate_binding_row result" where
  "get_binding i d = of_option (StoreError ''CANDIDATE_BINDING_NOT_FOUND'') (find_binding i d)"

text \<open>
  The binding of the latest provenance; instants order as their stored texts, and among equal
  ones the later row wins.
\<close>

definition find_current_binding :: "string \<Rightarrow> db \<Rightarrow> candidate_binding_row option" where
  "find_current_binding i d =
    (let mine = (\<lambda>p. case find_binding (cp_candidate_id p) d of
           None \<Rightarrow> False | Some b \<Rightarrow> cb_execution_id b = i);
         later = (\<lambda>best p. case best of None \<Rightarrow> Some p
           | Some q \<Rightarrow> if cp_created_at q \<le> cp_created_at p then Some p else Some q)
     in case foldl later None (filter mine (candidate_provenances d)) of
          None \<Rightarrow> None | Some p \<Rightarrow> find_binding (cp_candidate_id p) d)"

definition parsed_text :: "string \<Rightarrow> json result" where
  "parsed_text s = of_option json_decode_error (loads s)"

definition canonical_digest :: "ctx \<Rightarrow> json \<Rightarrow> string result" where
  "canonical_digest c j = canonical_sha256 (sha c) (json_to_py j)"

section \<open>bind_precommit_candidate\<close>

record bind_candidate_request =
  bc_binding :: candidate_binding_row
  bc_maker_attempt_id :: string
  bc_source_root :: string
  bc_worktree_identity :: string
  bc_branch :: string
  bc_contract_fingerprint :: string
  bc_authority_fingerprint :: string
  bc_authority_generation :: int
  bc_fence :: candidate_fence

definition bind_candidate_validate :: "ctx \<Rightarrow> bind_candidate_request \<Rightarrow> unit result" where
  "bind_candidate_validate c q =
    (let b = bc_binding q in
     bnd (require_sha256 (cb_content_sha256 b)) (\<lambda>_.
     bnd (require_sha256 (cb_manifest_sha256 b)) (\<lambda>_.
     bnd (parsed_text (cb_manifest_json b)) (\<lambda>manifest.
     bnd (canonical_digest c manifest) (\<lambda>digest.
     if digest \<noteq> cb_manifest_sha256 b then Inl (StoreError ''CANDIDATE_MANIFEST_HASH_MISMATCH'')
     else if bc_authority_generation q \<noteq> cf_authority_generation (bc_fence q)
     then Inl (StoreError ''STALE_AUTHORITY_GENERATION'') else Inr ())))))"

definition same_dimensions :: "candidate_binding_row \<Rightarrow> candidate_binding_row \<Rightarrow> bool" where
  "same_dimensions a b \<longleftrightarrow> cb_serialization_format a = cb_serialization_format b
     \<and> cb_serialization_version a = cb_serialization_version b
     \<and> cb_repository_identity a = cb_repository_identity b \<and> cb_expected_parent a = cb_expected_parent b
     \<and> cb_manifest_json a = cb_manifest_json b \<and> cb_manifest_sha256 a = cb_manifest_sha256 b"

definition provenance_new :: "bind_candidate_request \<Rightarrow> string \<Rightarrow> int \<Rightarrow> candidate_provenance_row" where
  "provenance_new q candidate now =
    \<lparr>cp_id = ''provenance-'' @ bc_maker_attempt_id q, cp_candidate_id = candidate,
     cp_execution_id = cb_execution_id (bc_binding q), cp_maker_attempt_id = bc_maker_attempt_id q,
     cp_source_root = bc_source_root q, cp_worktree_identity = bc_worktree_identity q,
     cp_branch = bc_branch q, cp_contract_fingerprint = bc_contract_fingerprint q,
     cp_authority_fingerprint = bc_authority_fingerprint q,
     cp_authority_generation = bc_authority_generation q,
     cp_content_sha256 = cb_content_sha256 (bc_binding q), cp_created_at = now\<rparr>"

definition bind_candidate_body :: "ctx \<Rightarrow> bind_candidate_request \<Rightarrow> db \<Rightarrow> (string \<times> db) result" where
  "bind_candidate_body c q =
    (let b = bc_binding q; i = cb_execution_id b; now = clock c 1; maker = bc_maker_attempt_id q in
     fenced_body c i (bc_fence q) (\<lambda>_ d.
     bnd (get_execution i d) (\<lambda>x.
     bnd (get_attempt maker d) (\<lambda>a.
     if ex_state x \<noteq> MAKER_RUNNING \<or> ex_result_commit x \<noteq> None
     then Inl (StoreError ''MAKER_COMPLETION_STATE_INVALID'')
     else if at_execution_id a \<noteq> i \<or> at_role a \<noteq> Maker \<or> at_status a \<noteq> RUNNING
     then Inl (StoreError ''CANDIDATE_MAKER_ATTEMPT_MISMATCH'')
     else bnd (case find (\<lambda>r. cb_execution_id r = i \<and> cb_manifest_sha256 r = cb_manifest_sha256 b)
                 (candidate_bindings d) of
           None \<Rightarrow> bnd (insert_binding (b\<lparr>cb_created_at := now\<rparr>) d) (\<lambda>d1. Inr (cb_id b, d1))
         | Some r \<Rightarrow> if \<not> same_dimensions r b then Inl (StoreError ''CANDIDATE_DIGEST_SUBSTITUTION'')
             else Inr (cb_id r, d)) (\<lambda>(candidate, d1).
       bnd (insert_provenance (provenance_new q candidate now) d1) (\<lambda>d2.
       bnd (update_attempts (\<lambda>r. at_id r = maker \<and> at_status r = RUNNING)
             (\<lambda>r. r\<lparr>at_status := SUCCEEDED, at_exit_code := Some 0, at_ended_at := Some (iso_text now)\<rparr>) d2)
         (\<lambda>(d3, n). Inr (candidate, d3))))))))"

definition bind_precommit_candidate ::
  "ctx \<Rightarrow> bind_candidate_request \<Rightarrow> db \<Rightarrow> candidate_binding_row result \<times> db" where
  "bind_precommit_candidate c q = precheck (bind_candidate_validate c q)
    (\<lambda>_ d. reading get_binding (transaction c (bind_candidate_body c q) d))"

section \<open>register_candidate_verification\<close>

definition candidate_verification_validate ::
  "ctx \<Rightarrow> candidate_verification_row \<Rightarrow> candidate_fence \<Rightarrow> db \<Rightarrow> unit result" where
  "candidate_verification_validate c r f d =
    (if cv_verdict r \<notin> {''PASS'', ''FAIL'', ''BLOCKED_ENVIRONMENT''}
     then Inl (StoreError ''INVALID_VERIFICATION_VERDICT'')
     else bnd (require_sha256 (cv_operation_key r)) (\<lambda>_.
          bnd (require_sha256 (cv_content_sha256 r)) (\<lambda>_.
          bnd (require_sha256 (cv_contract_fingerprint r)) (\<lambda>_.
          bnd (require_sha256 (cv_authority_fingerprint r)) (\<lambda>_.
          bnd (require_sha256 (cv_command_manifest_sha256 r)) (\<lambda>_.
          bnd (validate_candidate_verification_payload (sha c) (cv_command_manifest r)
                (cv_command_manifest_sha256 r) (cv_result_json r) (cv_verdict r)) (\<lambda>_.
     if cv_authority_generation r \<noteq> cf_authority_generation f
     then Inl (StoreError ''STALE_AUTHORITY_GENERATION'')
     else bnd (get_binding (cv_candidate_id r) d) (\<lambda>b.
          bnd (get_execution (cv_execution_id r) d) (\<lambda>x.
     if cb_execution_id b \<noteq> cv_execution_id r \<or> cb_content_sha256 b \<noteq> cv_content_sha256 r
        \<or> ex_result_commit x \<noteq> None \<or> ex_contract_fingerprint x \<noteq> cv_contract_fingerprint r
        \<or> ex_authority_fingerprint x \<noteq> cv_authority_fingerprint r
     then Inl (StoreError ''CANDIDATE_BINDING_MISMATCH'') else Inr ())))))))))"

definition candidate_verification_body ::
  "ctx \<Rightarrow> candidate_verification_row \<Rightarrow> candidate_fence \<Rightarrow> db \<Rightarrow> (unit \<times> db) result" where
  "candidate_verification_body c r f =
    fenced_body c (cv_execution_id r) f (\<lambda>x d.
    if ex_state x \<noteq> VERIFYING \<or> ex_result_commit x \<noteq> None
    then Inl (StoreError ''CANDIDATE_LIFECYCLE_STATE_MISMATCH'')
    else bnd (insert_candidate_verification r d) (\<lambda>d1. Inr ((), d1)))"

definition register_candidate_verification ::
  "ctx \<Rightarrow> candidate_verification_row \<Rightarrow> candidate_fence \<Rightarrow> db
     \<Rightarrow> candidate_verification_row option result \<times> db" where
  "register_candidate_verification c r f d0 = precheck (candidate_verification_validate c r f d0)
    (\<lambda>_ d. reading (\<lambda>_ d1. Inr (find_candidate_verification (cv_id r) d1))
       (transaction c (candidate_verification_body c r f) d)) d0"

section \<open>begin_candidate_evaluator_attempt\<close>

record candidate_attempt_request =
  qe_attempt_id :: string
  qe_execution_id :: string
  qe_candidate_id :: string
  qe_verification_id :: string
  qe_context_id :: string
  qe_fence :: candidate_fence

definition candidate_attempt_validate ::
  "candidate_attempt_request \<Rightarrow> db \<Rightarrow> (candidate_binding_row \<times> candidate_verification_row) result" where
  "candidate_attempt_validate q d =
    bnd (get_binding (qe_candidate_id q) d) (\<lambda>b.
    bnd (get_execution (qe_execution_id q) d) (\<lambda>x.
    case find_candidate_verification (qe_verification_id q) d of
      None \<Rightarrow> Inl (StoreError ''CANDIDATE_EVALUATOR_ENTRY_FORBIDDEN'')
    | Some v \<Rightarrow>
        if ex_state x \<noteq> EVALUATING \<or> ex_result_commit x \<noteq> None \<or> cv_verdict v \<noteq> ''PASS''
           \<or> cv_candidate_id v \<noteq> qe_candidate_id q \<or> cb_execution_id b \<noteq> qe_execution_id q
           \<or> (\<exists>a\<in>set (attempts d). at_execution_id a = qe_execution_id q \<and> at_role a = Maker \<and> at_status a = RUNNING)
        then Inl (StoreError ''CANDIDATE_EVALUATOR_ENTRY_FORBIDDEN'') else Inr (b, v)))"

definition candidate_attempt_new ::
  "candidate_attempt_request \<Rightarrow> candidate_binding_row \<Rightarrow> int \<Rightarrow> candidate_attempt_row" where
  "candidate_attempt_new q b now =
    \<lparr>ca_id = qe_attempt_id q, ca_execution_id = qe_execution_id q, ca_candidate_id = qe_candidate_id q,
     ca_verification_id = qe_verification_id q, ca_context_id = qe_context_id q,
     ca_content_sha256 = cb_content_sha256 b, ca_lease_owner = cf_owner (qe_fence q),
     ca_lease_generation = cf_generation (qe_fence q),
     ca_authority_generation = cf_authority_generation (qe_fence q), ca_status = RUNNING,
     ca_started_at = now, ca_ended_at = None\<rparr>"

definition candidate_attempt_body ::
  "ctx \<Rightarrow> candidate_attempt_request \<Rightarrow> candidate_binding_row \<Rightarrow> candidate_verification_row \<Rightarrow> db
     \<Rightarrow> (unit \<times> db) result" where
  "candidate_attempt_body c q b v =
    (let f = qe_fence q in
     fenced_body c (qe_execution_id q) f (\<lambda>x d.
     if ex_state x \<noteq> EVALUATING \<or> ex_result_commit x \<noteq> None
     then Inl (StoreError ''CANDIDATE_LIFECYCLE_STATE_MISMATCH'')
     else if cv_authority_generation v \<noteq> cf_authority_generation f
        \<or> cv_contract_fingerprint v \<noteq> cf_contract_fingerprint f
        \<or> cv_authority_fingerprint v \<noteq> cf_authority_fingerprint f
     then Inl (StoreError ''CANDIDATE_VERIFICATION_STALE'')
     else bnd (insert_candidate_attempt (candidate_attempt_new q b (clock c 1)) d) (\<lambda>d1. Inr ((), d1))))"

definition begin_candidate_evaluator_attempt ::
  "ctx \<Rightarrow> candidate_attempt_request \<Rightarrow> db \<Rightarrow> candidate_attempt_row option result \<times> db" where
  "begin_candidate_evaluator_attempt c q d0 = precheck (candidate_attempt_validate q d0)
    (\<lambda>(b, v) d. reading (\<lambda>_ d1. Inr (find_candidate_attempt (qe_attempt_id q) d1))
       (transaction c (candidate_attempt_body c q b v) d)) d0"

section \<open>The sealed artifacts of a candidate's evaluation\<close>

definition candidate_phase_seal :: "string \<Rightarrow> seal_phase \<Rightarrow> db \<Rightarrow> candidate_seal_row option" where
  "candidate_phase_seal a p d = find_last (\<lambda>s. cz_attempt_id s = a \<and> cz_phase s = p) (candidate_seals d)"

definition candidate_view :: "ctx \<Rightarrow> candidate_seal_row \<Rightarrow> verified_manifest result" where
  "candidate_view c s = verify_manifest_bytes (sha c) (world c) (cz_evidence_root s) (cz_manifest_json s)
     (cz_manifest_sha256 s)"

text \<open>What the runner's metadata must say of the attempt.\<close>

definition runtime_claims :: "candidate_attempt_row \<Rightarrow> (string \<times> json) list" where
  "runtime_claims a =
    [(''review_target_type'', JStr ''UNCOMMITTED_CANDIDATE''), (''evaluator_attempt_id'', JStr (ca_id a)),
     (''candidate_id'', JStr (ca_candidate_id a)), (''candidate_content_sha256'', JStr (ca_content_sha256 a)),
     (''authority_generation'', JInt (ca_authority_generation a)), (''exit_code'', JInt 0),
     (''timed_out'', JBool False)]"

fun runtime_bound :: "candidate_attempt_row \<Rightarrow> json \<Rightarrow> bool" where
  "runtime_bound a (JObj metadata) \<longleftrightarrow>
     list_all (\<lambda>(k, v). json_eq (dict_get metadata k JNull) v) (runtime_claims a)
     \<and> (case dict_get metadata ''command'' JNull of JList xs \<Rightarrow> xs \<noteq> [] | _ \<Rightarrow> False)
     \<and> truthy (dict_get metadata ''producer_ref'' JNull)"
| "runtime_bound a _ \<longleftrightarrow> False"

definition post_seal_result :: "verified_manifest \<Rightarrow> string \<Rightarrow> string \<Rightarrow> db \<Rightarrow> unit result" where
  "post_seal_result view a result_json d =
    (let mismatch = Inl (StoreError ''CANDIDATE_EVALUATION_RESULT_ARTIFACT_MISMATCH'') in
     bnd (parsed_text result_json) (\<lambda>result.
     bnd (canonical_json (json_to_py result)) (\<lambda>text.
     if text \<noteq> result_json then mismatch
     else bnd (bytes_for_role view ''result'') (\<lambda>bytes.
     if bytes \<noteq> result_json then mismatch
     else bnd (of_option type_error (find_candidate_attempt a d)) (\<lambda>attempt.
          bnd (bytes_for_role view ''runner_metadata'') (\<lambda>raw.
          bnd (of_option (PythonError ''ValueError'') (decode_json_bytes raw)) (\<lambda>metadata_text.
          bnd (parsed_text metadata_text) (\<lambda>metadata.
          if \<not> runtime_bound attempt metadata
          then Inl (StoreError ''CANDIDATE_EVALUATOR_RUNTIME_BINDING_MISMATCH'') else Inr ()))))))))"

definition verify_candidate_seals :: "ctx \<Rightarrow> string \<Rightarrow> string option \<Rightarrow> bool \<Rightarrow> db \<Rightarrow> unit result" where
  "verify_candidate_seals c a result_json require_post d =
    (let required = StoreError ''CANDIDATE_EVALUATOR_SEAL_REQUIRED'' in
     bnd (of_option required (candidate_phase_seal a PRE_EXECUTION d)) (\<lambda>pre.
     bnd (candidate_view c pre) (\<lambda>_.
     if \<not> require_post then Inr ()
     else bnd (of_option required (candidate_phase_seal a POST_EXECUTION d)) (\<lambda>post.
          bnd (candidate_view c post) (\<lambda>view.
          case result_json of None \<Rightarrow> Inr () | Some r \<Rightarrow> post_seal_result view a r d)))))"

section \<open>register_candidate_evaluation\<close>

definition candidate_evaluation_validate :: "candidate_evaluation_row \<Rightarrow> db \<Rightarrow> unit result" where
  "candidate_evaluation_validate r d =
    (if ce_verdict r \<notin> evaluation_verdicts then Inl (StoreError ''INVALID_EVALUATION_VERDICT'')
     else bnd (require_sha256 (ce_operation_key r)) (\<lambda>_.
          bnd (require_sha256 (ce_content_sha256 r)) (\<lambda>_.
          bnd (require_sha256 (ce_contract_fingerprint r)) (\<lambda>_.
          bnd (require_sha256 (ce_authority_fingerprint r)) (\<lambda>_.
          bnd (get_execution (ce_execution_id r) d) (\<lambda>x.
          case find_candidate_attempt (ce_attempt_id r) d of
            None \<Rightarrow> Inl (StoreError ''CANDIDATE_EVALUATOR_TARGET_MISMATCH'')
          | Some a \<Rightarrow>
              if ex_state x \<noteq> EVALUATING \<or> ca_status a \<noteq> RUNNING \<or> ca_candidate_id a \<noteq> ce_candidate_id r
                 \<or> ca_content_sha256 a \<noteq> ce_content_sha256 r
              then Inl (StoreError ''CANDIDATE_EVALUATOR_TARGET_MISMATCH'') else Inr ()))))))"

definition candidate_evaluation_body ::
  "ctx \<Rightarrow> candidate_evaluation_row \<Rightarrow> candidate_fence \<Rightarrow> db \<Rightarrow> (unit \<times> db) result" where
  "candidate_evaluation_body c r f =
    fenced_body c (ce_execution_id r) f (\<lambda>x d.
    if ex_state x \<noteq> EVALUATING \<or> ex_result_commit x \<noteq> None
    then Inl (StoreError ''CANDIDATE_LIFECYCLE_STATE_MISMATCH'')
    else bnd (of_option type_error (find_candidate_attempt (ce_attempt_id r) d)) (\<lambda>a.
    if ca_status a \<noteq> RUNNING \<or> ca_execution_id a \<noteq> ce_execution_id r \<or> ca_lease_owner a \<noteq> cf_owner f
       \<or> ca_lease_generation a \<noteq> cf_generation f \<or> ca_authority_generation a \<noteq> ce_authority_generation r
       \<or> ce_authority_generation r \<noteq> cf_authority_generation f
       \<or> ce_contract_fingerprint r \<noteq> cf_contract_fingerprint f
       \<or> ce_authority_fingerprint r \<noteq> cf_authority_fingerprint f
    then Inl (StoreError ''CANDIDATE_EVALUATOR_TARGET_MISMATCH'')
    else bnd (parsed_text (ce_result_json r)) (\<lambda>result.
         bnd (value_get result ''verdict'') (\<lambda>verdict.
         bnd (value_get result ''candidate_id'') (\<lambda>candidate.
    if \<not> json_eq verdict (JStr (ce_verdict r)) \<or> \<not> json_eq candidate (JStr (ce_candidate_id r))
    then Inl (StoreError ''CANDIDATE_EVALUATION_RESULT_BINDING_MISMATCH'')
    else bnd (verify_candidate_seals c (ce_attempt_id r) (Some (ce_result_json r)) True d) (\<lambda>_.
         bnd (insert_candidate_evaluation r d) (\<lambda>d1.
         bnd (update_candidate_attempts (\<lambda>t. ca_id t = ce_attempt_id r \<and> ca_status t = RUNNING)
               (\<lambda>t. t\<lparr>ca_status := SUCCEEDED, ca_ended_at := Some (ce_ended_at r)\<rparr>) d1) (\<lambda>(d2, n).
         Inr ((), d2)))))))))"

definition register_candidate_evaluation ::
  "ctx \<Rightarrow> candidate_evaluation_row \<Rightarrow> candidate_fence \<Rightarrow> db
     \<Rightarrow> candidate_evaluation_row option result \<times> db" where
  "register_candidate_evaluation c r f d0 = precheck (candidate_evaluation_validate r d0)
    (\<lambda>_ d. reading (\<lambda>_ d1. Inr (find_candidate_evaluation (ce_id r) d1))
       (transaction c (candidate_evaluation_body c r f) d)) d0"

section \<open>create_candidate_evaluator_artifact_seal\<close>

record candidate_seal_request =
  qs_seal_id :: string
  qs_attempt_id :: string
  qs_phase :: string
  qs_manifest_json :: string
  qs_manifest_sha256 :: string
  qs_evidence_root :: string
  qs_fence :: candidate_fence

definition fresh_phase :: "string \<Rightarrow> seal_phase option" where
  "fresh_phase s = (if s = ''PRE_EXECUTION'' then Some PRE_EXECUTION
     else if s = ''POST_EXECUTION'' then Some POST_EXECUTION else None)"

definition candidate_seal_validate ::
  "ctx \<Rightarrow> candidate_seal_request \<Rightarrow> db \<Rightarrow> (seal_phase \<times> candidate_attempt_row) result" where
  "candidate_seal_validate c q d =
    bnd (require_sha256 (qs_manifest_sha256 q)) (\<lambda>_.
    bnd (of_option (StoreError ''INVALID_EVALUATOR_ARTIFACT_SEAL'') (fresh_phase (qs_phase q))) (\<lambda>p.
    bnd (of_option (StoreError ''CANDIDATE_EVALUATOR_ATTEMPT_NOT_FOUND'')
      (find_candidate_attempt (qs_attempt_id q) d)) (\<lambda>a.
    bnd (parsed_text (qs_manifest_json q)) (\<lambda>manifest.
    bnd (canonical_json (json_to_py manifest)) (\<lambda>text.
    if sha c text \<noteq> qs_manifest_sha256 q \<or> text \<noteq> qs_manifest_json q
    then Inl (StoreError ''EVALUATOR_ARTIFACT_MANIFEST_HASH_MISMATCH'') else Inr (p, a))))))"

definition candidate_seal_new ::
  "candidate_seal_request \<Rightarrow> seal_phase \<Rightarrow> candidate_attempt_row \<Rightarrow> int \<Rightarrow> candidate_seal_row" where
  "candidate_seal_new q p a now =
    \<lparr>cz_id = qs_seal_id q, cz_execution_id = ca_execution_id a, cz_attempt_id = qs_attempt_id q,
     cz_candidate_id = ca_candidate_id a, cz_content_sha256 = ca_content_sha256 a, cz_phase = p,
     cz_evidence_root = qs_evidence_root q, cz_manifest_json = qs_manifest_json q,
     cz_manifest_sha256 = qs_manifest_sha256 q, cz_created_at = now\<rparr>"

definition candidate_seal_body ::
  "ctx \<Rightarrow> candidate_seal_request \<Rightarrow> seal_phase \<Rightarrow> string \<Rightarrow> db \<Rightarrow> (unit \<times> db) result" where
  "candidate_seal_body c q p execution =
    (let f = qs_fence q in
     fenced_body c execution f (\<lambda>_ d.
     bnd (of_option type_error (find_candidate_attempt (qs_attempt_id q) d)) (\<lambda>a.
     if ca_status a \<noteq> RUNNING \<or> ca_lease_owner a \<noteq> cf_owner f \<or> ca_lease_generation a \<noteq> cf_generation f
        \<or> ca_authority_generation a \<noteq> cf_authority_generation f
     then Inl (StoreError ''CANDIDATE_EVALUATOR_TARGET_MISMATCH'')
     else bnd (verify_manifest_bytes (sha c) (world c) (qs_evidence_root q) (qs_manifest_json q)
                (qs_manifest_sha256 q)) (\<lambda>view.
     if \<not> required_roles p \<subseteq> ae_role ` set (vm_entries view)
     then Inl (StoreError ''CANDIDATE_EVALUATOR_REQUIRED_ARTIFACT_MISSING'')
     else bnd (if p = PRE_EXECUTION then
                 bnd (get_context (ca_context_id a) d) (\<lambda>x.
                 bnd (bytes_for_role view ''context_snapshot'') (\<lambda>bytes.
                 if bytes \<noteq> cx_canonical_json x then Inl (StoreError ''CANDIDATE_EVALUATOR_CONTEXT_MISMATCH'')
                 else Inr ()))
               else verify_candidate_seals c (qs_attempt_id q) None False d) (\<lambda>_.
          bnd (insert_candidate_seal (candidate_seal_new q p a (clock c 1)) d) (\<lambda>d1. Inr ((), d1)))))))"

definition create_candidate_evaluator_artifact_seal ::
  "ctx \<Rightarrow> candidate_seal_request \<Rightarrow> db \<Rightarrow> candidate_seal_row option result \<times> db" where
  "create_candidate_evaluator_artifact_seal c q d0 = precheck (candidate_seal_validate c q d0)
    (\<lambda>(p, a) d. reading (\<lambda>_ d1. Inr (find_candidate_seal (qs_seal_id q) d1))
       (transaction c (candidate_seal_body c q p (ca_execution_id a)) d)) d0"

section \<open>bind_candidate_approval\<close>

record candidate_approval_request =
  qa_approval_id :: string
  qa_evaluation_id :: string
  qa_candidate_id :: string
  qa_authority_generation :: int
  qa_fence :: candidate_fence

definition candidate_approval_validate ::
  "candidate_approval_request \<Rightarrow> db \<Rightarrow> (candidate_evaluation_row \<times> approval_row) result" where
  "candidate_approval_validate q d =
    bnd (get_approval (qa_approval_id q) d) (\<lambda>p.
    case find_candidate_evaluation (qa_evaluation_id q) d of
      None \<Rightarrow> Inl (StoreError ''CANDIDATE_APPROVAL_BINDING_MISMATCH'')
    | Some e \<Rightarrow>
        if ce_verdict e \<noteq> ''PASS'' \<or> ap_execution_id p \<noteq> ce_execution_id e \<or> ce_candidate_id e \<noteq> qa_candidate_id q
        then Inl (StoreError ''CANDIDATE_APPROVAL_BINDING_MISMATCH'') else Inr (e, p))"

definition candidate_approval_body ::
  "ctx \<Rightarrow> candidate_approval_request \<Rightarrow> candidate_evaluation_row \<Rightarrow> approval_row \<Rightarrow> db \<Rightarrow> (unit \<times> db) result" where
  "candidate_approval_body c q e p =
    (let f = qa_fence q in
     fenced_body c (ce_execution_id e) f (\<lambda>_ d.
     if qa_authority_generation q \<noteq> cf_authority_generation f
        \<or> ce_authority_generation e \<noteq> qa_authority_generation q
        \<or> ce_authority_fingerprint e \<noteq> cf_authority_fingerprint f
        \<or> ap_approval_type p \<noteq> ''DEVELOPMENT_ACCEPTANCE''
     then Inl (StoreError ''CANDIDATE_APPROVAL_BINDING_MISMATCH'')
     else bnd (verify_candidate_seals c (ce_attempt_id e) (Some (ce_result_json e)) True d) (\<lambda>_.
          bnd (insert_candidate_approval
            \<lparr>cl_approval_id = qa_approval_id q, cl_execution_id = ce_execution_id e,
             cl_candidate_id = qa_candidate_id q, cl_evaluation_id = qa_evaluation_id q,
             cl_authority_fingerprint = ce_authority_fingerprint e,
             cl_authority_generation = qa_authority_generation q, cl_created_at = clock c 1\<rparr> d) (\<lambda>d1.
          Inr ((), d1)))))"

definition bind_candidate_approval ::
  "ctx \<Rightarrow> candidate_approval_request \<Rightarrow> db \<Rightarrow> candidate_approval_row option result \<times> db" where
  "bind_candidate_approval c q d0 = precheck (candidate_approval_validate q d0)
    (\<lambda>(e, p) d. reading (\<lambda>_ d1. Inr (find_candidate_approval (qa_approval_id q) d1))
       (transaction c (candidate_approval_body c q e p) d)) d0"

section \<open>The commit closure\<close>

record closure_request =
  qc_closure_id :: string
  qc_execution_id :: string
  qc_candidate_id :: string
  qc_approval_id :: string
  qc_evaluation_id :: string
  qc_fence :: candidate_fence

text \<open>\<open>_candidate_closure_authority\<close>, on the execution its fence check returns.\<close>

definition closure_authority_ok ::
  "closure_request \<Rightarrow> bool \<Rightarrow> candidate_binding_row \<Rightarrow> approval_row \<Rightarrow> candidate_approval_row
     \<Rightarrow> candidate_evaluation_row \<Rightarrow> bool" where
  "closure_authority_ok q allow_consumed b p l e \<longleftrightarrow>
     (let i = qc_execution_id q; f = qc_fence q in
      cb_execution_id b = i \<and> ap_execution_id p = i \<and> ap_status p = APPROVED
      \<and> ap_approval_type p = ''DEVELOPMENT_ACCEPTANCE'' \<and> (ap_consumed_at p = None \<or> allow_consumed)
      \<and> cl_candidate_id l = qc_candidate_id q \<and> cl_evaluation_id l = qc_evaluation_id q
      \<and> cl_execution_id l = i \<and> ce_execution_id e = i \<and> ce_candidate_id e = qc_candidate_id q
      \<and> ce_verdict e = ''PASS'' \<and> cl_authority_generation l = cf_authority_generation f
      \<and> cl_authority_fingerprint l = cf_authority_fingerprint f
      \<and> ce_authority_generation e = cf_authority_generation f
      \<and> ce_contract_fingerprint e = cf_contract_fingerprint f
      \<and> ce_authority_fingerprint e = cf_authority_fingerprint f
      \<and> ce_content_sha256 e = cb_content_sha256 b)"

definition closure_authority ::
  "ctx \<Rightarrow> closure_request \<Rightarrow> bool \<Rightarrow> db \<Rightarrow> (execution_row \<times> candidate_binding_row) result" where
  "closure_authority c q allow_consumed d =
    (let mismatch = StoreError ''CANDIDATE_APPROVAL_BINDING_MISMATCH'' in
     bnd (require_candidate_fence c 4 (qc_execution_id q) (qc_fence q) True d) (\<lambda>x.
     bnd (get_binding (qc_candidate_id q) d) (\<lambda>b.
     bnd (get_approval (qc_approval_id q) d) (\<lambda>p.
     bnd (of_option mismatch (find_candidate_approval (qc_approval_id q) d)) (\<lambda>l.
     bnd (of_option mismatch (find_candidate_evaluation (qc_evaluation_id q) d)) (\<lambda>e.
     if \<not> closure_authority_ok q allow_consumed b p l e then Inl mismatch
     else if \<not> allow_consumed \<and> (ex_state x \<noteq> WAITING_APPROVAL \<or> ex_result_commit x \<noteq> None)
     then Inl (StoreError ''CANDIDATE_COMMIT_CLOSURE_STATE_INVALID'')
     else bnd (verify_candidate_seals c (ce_attempt_id e) (Some (ce_result_json e)) True d) (\<lambda>_.
          Inr (x, b))))))))"

definition same_closure :: "closure_request \<Rightarrow> candidate_intent_row \<Rightarrow> bool" where
  "same_closure q r \<longleftrightarrow> ci_closure_id r = qc_closure_id q \<and> ci_execution_id r = qc_execution_id q
     \<and> ci_candidate_id r = qc_candidate_id q \<and> ci_evaluation_id r = qc_evaluation_id q
     \<and> ci_approval_id r = qc_approval_id q"

definition plan_names :: "closure_request \<Rightarrow> (string \<times> json) list \<Rightarrow> bool" where
  "plan_names q plan \<longleftrightarrow> list_all (\<lambda>(k, v). json_eq (dict_get plan k JNull) (JStr v))
     [(''closure_id'', qc_closure_id q), (''execution_id'', qc_execution_id q),
      (''candidate_id'', qc_candidate_id q), (''evaluation_id'', qc_evaluation_id q),
      (''approval_id'', qc_approval_id q)]"

definition plan_binds :: "candidate_binding_row \<Rightarrow> (string \<times> json) list \<Rightarrow> bool" where
  "plan_binds b plan \<longleftrightarrow> list_all (\<lambda>(k, v). json_eq (dict_get plan k JNull) (JStr v))
     [(''expected_parent'', cb_expected_parent b), (''manifest_sha256'', cb_manifest_sha256 b),
      (''candidate_content_sha256'', cb_content_sha256 b)]"

definition require_commit_member :: "(string \<times> json) list \<Rightarrow> string \<Rightarrow> unit result" where
  "require_commit_member plan k = bnd (dict_index plan k) (require_hex_value {40, 64})"

definition prepare_body ::
  "ctx \<Rightarrow> closure_request \<Rightarrow> (string \<times> json) list result \<Rightarrow> db \<Rightarrow> (candidate_intent_row \<times> db) result" where
  "prepare_body c q prepare =
    (let i = qc_execution_id q; f = qc_fence q; candidate = qc_candidate_id q in
     fenced_body c i f (\<lambda>_ d.
     let closed = find (\<lambda>r. cc_candidate_id r = candidate) (candidate_closures d) in
     bnd (closure_authority c q (closed \<noteq> None) d) (\<lambda>(x, b).
     case find (\<lambda>r. ci_candidate_id r = candidate) (candidate_intents d) of
       Some r \<Rightarrow>
         (if \<not> same_closure q r then Inl (StoreError ''CANDIDATE_COMMIT_INTENT_CONFLICT'')
          else bnd (parsed_text (ci_plan_json r)) (\<lambda>plan.
               bnd (canonical_digest c plan) (\<lambda>digest.
               if digest \<noteq> ci_plan_sha256 r then Inl (StoreError ''CANDIDATE_COMMIT_INTENT_CORRUPT'')
               else Inr (r, d))))
     | None \<Rightarrow>
         bnd prepare (\<lambda>plan.
         if \<not> plan_names q plan \<or> \<not> plan_binds b plan
         then Inl (StoreError ''CANDIDATE_COMMIT_INTENT_CONFLICT'')
         else bnd (require_commit_member plan ''expected_tree'') (\<lambda>_.
              bnd (require_commit_member plan ''result_commit'') (\<lambda>_.
              bnd (require_candidate_fence c 5 i f True d) (\<lambda>_.
              bnd (canonical_json (json_to_py (JObj plan))) (\<lambda>text.
              let r = \<lparr>ci_closure_id = qc_closure_id q, ci_execution_id = i, ci_candidate_id = candidate,
                       ci_approval_id = qc_approval_id q, ci_evaluation_id = qc_evaluation_id q,
                       ci_plan_json = text, ci_plan_sha256 = sha c text, ci_created_at = clock c 1\<rparr>
              in bnd (insert_intent r d) (\<lambda>d1. Inr (r, d1))))))))))"

text \<open>A replay returns the row it found, a first call reads the inserted one back.\<close>

definition prepare_candidate_commit ::
  "ctx \<Rightarrow> closure_request \<Rightarrow> (string \<times> json) list result \<Rightarrow> db \<Rightarrow> candidate_intent_row option result \<times> db" where
  "prepare_candidate_commit c q prepare d = reading (\<lambda>r d1. Inr (find_intent (ci_closure_id r) d1))
     (transaction c (prepare_body c q prepare) d)"

definition record_closure_body ::
  "ctx \<Rightarrow> closure_request \<Rightarrow> execution_row \<Rightarrow> candidate_binding_row \<Rightarrow> string \<Rightarrow> db \<Rightarrow> db result" where
  "record_closure_body c q x b commit d =
    (let now = clock c 1; i = ex_id x; v = ex_state_version x; f = qc_fence q in
     bnd (insert_closure
       \<lparr>cc_closure_id = qc_closure_id q, cc_execution_id = i, cc_candidate_id = cb_id b,
        cc_approval_id = qc_approval_id q, cc_evaluation_id = qc_evaluation_id q, cc_result_commit = commit,
        cc_expected_parent = cb_expected_parent b, cc_content_sha256 = cb_content_sha256 b,
        cc_created_at = now\<rparr> d) (\<lambda>d1.
     bnd (update_approvals (\<lambda>p. ap_id p = qc_approval_id q \<and> ap_consumed_at p = None \<and> ap_status p = APPROVED)
           (\<lambda>p. p\<lparr>ap_consumed_at := Some now\<rparr>) d1) (\<lambda>(d2, n).
     if n \<noteq> 1 then Inl (StoreError ''APPROVAL_ALREADY_CONSUMED'')
     else bnd (update_executions (\<lambda>r. ex_id r = i \<and> ex_result_commit r = None \<and> ex_state r = WAITING_APPROVAL
              \<and> ex_state_version r = v)
            (\<lambda>r. r\<lparr>ex_result_commit := Some commit, ex_state := VERIFYING, ex_resume_state := None,
               ex_state_version := ex_state_version r + 1, ex_current_actor_role := CONTROLLER,
               ex_updated_at := now\<rparr>) d2) (\<lambda>(d3, m).
     if m \<noteq> 1 then Inl (StoreError ''STALE_STATE_VERSION'')
     else bnd (canonical_json (json_to_py (JObj
              [(''candidate_id'', JStr (cb_id b)), (''evaluation_id'', JStr (qc_evaluation_id q)),
               (''approval_id'', JStr (qc_approval_id q)), (''result_commit'', JStr commit),
               (''closure_id'', JStr (qc_closure_id q))]))) (\<lambda>payload.
          bnd (canonical_digest c (JObj [(''closure_id'', JStr (qc_closure_id q))])) (\<lambda>key.
          insert_event c 0 ((event_from STATE_TRANSITION x key VERIFYING CONTROLLER (cf_owner f)
            (cf_generation f) ''PRECOMMIT_COMMIT_CLOSED'' None payload now)
              \<lparr>ev_from_state := Some WAITING_APPROVAL\<rparr>) d3))))))"

text \<open>
  \<open>apply\<close> is asked with the plan inside the transaction; what it returns must be the planned
  commit.
\<close>

definition close_body ::
  "ctx \<Rightarrow> closure_request \<Rightarrow> (json \<Rightarrow> string result) \<Rightarrow> db \<Rightarrow> (unit \<times> db) result" where
  "close_body c q apply_plan =
    (let i = qc_execution_id q; f = qc_fence q in
     fenced_body c i f (\<lambda>_ d.
     bnd (of_option (StoreError ''CANDIDATE_COMMIT_INTENT_CONFLICT'') (find_intent (qc_closure_id q) d)) (\<lambda>intent.
     if \<not> same_closure q intent then Inl (StoreError ''CANDIDATE_COMMIT_INTENT_CONFLICT'')
     else bnd (parsed_text (ci_plan_json intent)) (\<lambda>plan.
          bnd (canonical_digest c plan) (\<lambda>digest.
     if digest \<noteq> ci_plan_sha256 intent then Inl (StoreError ''CANDIDATE_COMMIT_INTENT_CORRUPT'')
     else let existing = find_closure (qc_closure_id q) d in
          bnd (closure_authority c q (existing \<noteq> None) d) (\<lambda>(x, b).
          bnd (of_option type_error (dict_members plan)) (\<lambda>members.
          bnd (case existing of None \<Rightarrow> Inr ()
             | Some r \<Rightarrow> bnd (dict_index members ''result_commit'') (\<lambda>planned.
                 bnd (get_approval (qc_approval_id q) d) (\<lambda>p.
                 if ex_result_commit x \<noteq> Some (cc_result_commit r)
                    \<or> \<not> json_eq planned (JStr (cc_result_commit r)) \<or> ap_consumed_at p = None
                 then Inl (StoreError ''CANDIDATE_COMMIT_CLOSURE_CONFLICT'') else Inr ()))) (\<lambda>_.
          bnd (apply_plan plan) (\<lambda>commit.
          bnd (dict_index members ''result_commit'') (\<lambda>planned.
          if \<not> json_eq planned (JStr commit) then Inl (StoreError ''CANDIDATE_COMMIT_INTENT_CONFLICT'')
          else bnd (require_candidate_fence c 5 i f True d) (\<lambda>_.
               if existing \<noteq> None then Inr ((), d)
               else bnd (record_closure_body c q x b commit d) (\<lambda>d1. Inr ((), d1)))))))))))))"

definition close_candidate_to_commit ::
  "ctx \<Rightarrow> closure_request \<Rightarrow> (json \<Rightarrow> string result) \<Rightarrow> db \<Rightarrow> candidate_closure_row option result \<times> db" where
  "close_candidate_to_commit c q apply_plan d =
    reading (\<lambda>_ d1. Inr (find_closure (qc_closure_id q) d1)) (transaction c (close_body c q apply_plan) d)"

end
