(* ===== verification/Candidate_Frames.thy ===== *)
theory Candidate_Frames
  imports Execution_Refinement Candidate
begin

text \<open>
  What the operations on seals, evaluations and candidates leave alone, and what the closure of a
  candidate does to its execution: they write only the evidence tables, and the closure is the
  step \<open>closure_move\<close> of the execution machine, by the closure it records.
\<close>

section \<open>Statements on the evidence tables\<close>

definition sans_evidence :: "db \<Rightarrow> db" where
  "sans_evidence d = d\<lparr>attempts := [], evaluations := [], seals := [], candidate_bindings := [],
     candidate_provenances := [], candidate_verifications := [], candidate_attempts := [],
     candidate_evaluations := [], candidate_seals := [], candidate_approvals := [],
     candidate_intents := [], candidate_closures := []\<rparr>"

lemma sans_evidence_views:
  assumes "keeps sans_evidence d d'"
  shows "exec_view d' = exec_view d" and "slice_view d' = slice_view d"
    and "control_view d' = control_view d" and "approvals d' = approvals d"
  using assms unfolding keeps_def sans_evidence_def by (cases d; cases d'; simp add: view_defs)+

lemmas evidence_written = insert_candidate_Inr insert_seal_Inr(2) insert_evaluation_Inr(2)
  update_attempts_Inr update_candidate_attempts_Inr

lemma evidence_frame:
  "insert_binding r1 d = Inr d1 \<Longrightarrow> keeps sans_evidence d0 d \<Longrightarrow> keeps sans_evidence d0 d1"
  "insert_provenance r2 d = Inr d1 \<Longrightarrow> keeps sans_evidence d0 d \<Longrightarrow> keeps sans_evidence d0 d1"
  "insert_candidate_verification r3 d = Inr d1 \<Longrightarrow> keeps sans_evidence d0 d \<Longrightarrow> keeps sans_evidence d0 d1"
  "insert_candidate_attempt r4 d = Inr d1 \<Longrightarrow> keeps sans_evidence d0 d \<Longrightarrow> keeps sans_evidence d0 d1"
  "insert_candidate_seal r5 d = Inr d1 \<Longrightarrow> keeps sans_evidence d0 d \<Longrightarrow> keeps sans_evidence d0 d1"
  "insert_candidate_evaluation r6 d = Inr d1 \<Longrightarrow> keeps sans_evidence d0 d \<Longrightarrow> keeps sans_evidence d0 d1"
  "insert_candidate_approval r7 d = Inr d1 \<Longrightarrow> keeps sans_evidence d0 d \<Longrightarrow> keeps sans_evidence d0 d1"
  "insert_intent r8 d = Inr d1 \<Longrightarrow> keeps sans_evidence d0 d \<Longrightarrow> keeps sans_evidence d0 d1"
  "insert_closure r9 d = Inr d1 \<Longrightarrow> keeps sans_evidence d0 d \<Longrightarrow> keeps sans_evidence d0 d1"
  "insert_seal z d = Inr d1 \<Longrightarrow> keeps sans_evidence d0 d \<Longrightarrow> keeps sans_evidence d0 d1"
  "insert_evaluation v d = Inr d1 \<Longrightarrow> keeps sans_evidence d0 d \<Longrightarrow> keeps sans_evidence d0 d1"
  "update_attempts pa fa d = Inr (d1, n) \<Longrightarrow> keeps sans_evidence d0 d \<Longrightarrow> keeps sans_evidence d0 d1"
  "update_candidate_attempts pc fc d = Inr (d1, n) \<Longrightarrow> keeps sans_evidence d0 d \<Longrightarrow> keeps sans_evidence d0 d1"
  by (drule evidence_written, simp add: keeps_def sans_evidence_def; fail)+

lemmas evidence_frames = keeps_refl evidence_frame

lemma fenced_body_InrE [elim_format]:
  assumes "fenced_body c i f body d = Inr (a, d')"
  shows "\<exists>x. require_candidate_fence c 2 i f True d = Inr x \<and> body x d = Inr (a, d')"
  using assms unfolding fenced_body_def by (elim step_elims) auto

section \<open>The operations\<close>

lemma keeps_evidence_seals:
  "create_seal_body c q1 d = Inr (u1, d1) \<Longrightarrow> keeps sans_evidence d d1"
  "finish_body c q2 s2 d = Inr (u2, d1) \<Longrightarrow> keeps sans_evidence d d1"
  "evaluation_body c q3 r3 d = Inr (u3, d1) \<Longrightarrow> keeps sans_evidence d d1"
  unfolding create_seal_body_def finish_body_def evaluation_body_def Let_def
  by (elim body_elims; clarsimp?; (rule keeps_refl | erule evidence_frames)+; fail)+

lemma keeps_evidence_candidate:
  "bind_candidate_body c q1 d = Inr (u1, d1) \<Longrightarrow> keeps sans_evidence d d1"
  "candidate_verification_body c q2 f2 d = Inr (u2, d1) \<Longrightarrow> keeps sans_evidence d d1"
  "candidate_attempt_body c q3 b3 v3 d = Inr (u3, d1) \<Longrightarrow> keeps sans_evidence d d1"
  "candidate_evaluation_body c q4 f4 d = Inr (u4, d1) \<Longrightarrow> keeps sans_evidence d d1"
  "candidate_seal_body c q5 p5 i5 d = Inr (u5, d1) \<Longrightarrow> keeps sans_evidence d d1"
  "candidate_approval_body c q6 e6 p6 d = Inr (u6, d1) \<Longrightarrow> keeps sans_evidence d d1"
  "prepare_body c q7 plan7 d = Inr (u7, d1) \<Longrightarrow> keeps sans_evidence d d1"
  unfolding bind_candidate_body_def candidate_verification_body_def candidate_attempt_body_def
    candidate_evaluation_body_def candidate_seal_body_def candidate_approval_body_def prepare_body_def Let_def
  by (elim fenced_body_InrE exE conjE body_elims; clarsimp?; (rule keeps_refl | erule evidence_frames)+; fail)+

lemmas keeps_evidence = keeps_evidence_seals keeps_evidence_candidate

section \<open>The closure\<close>

text \<open>What the closure read before it wrote: a bound approval of a passing evaluation.\<close>

lemma closure_authority_cases:
  assumes "closure_authority c q allowed d = Inr (x, b)"
  obtains p l e where "require_candidate_fence c 4 (qc_execution_id q) (qc_fence q) True d = Inr x"
    and "find_binding (qc_candidate_id q) d = Some b" and "find_approval (qc_approval_id q) d = Some p"
    and "find_candidate_approval (qc_approval_id q) d = Some l"
    and "find_candidate_evaluation (qc_evaluation_id q) d = Some e"
    and "closure_authority_ok q allowed b p l e"
    and "allowed \<or> ex_state x = WAITING_APPROVAL \<and> ex_result_commit x = None"
    and "verify_candidate_seals c (ce_attempt_id e) (Some (ce_result_json e)) True d = Inr ()"
  using assms unfolding closure_authority_def Let_def get_binding_def
  by (elim step_elims) (simp add: success)

lemmas closure_fence = require_candidate_fence_Inr [where n = 4]

lemma dict_members_Some: "dict_members j = Some kvs \<longleftrightarrow> j = JObj kvs"
  by (cases j) auto

lemma close_body_Inr:
  assumes "close_body c q apply_plan d = Inr (u, d')"
  obtains (replayed) "d' = d" "find_closure (qc_closure_id q) d \<noteq> None"
  | (closed) x b commit intent plan where "find_closure (qc_closure_id q) d = None"
      "closure_authority c q False d = Inr (x, b)" "find_intent (qc_closure_id q) d = Some intent"
      "same_closure q intent" "loads (ci_plan_json intent) = Some plan"
      "canonical_digest c plan = Inr (ci_plan_sha256 intent)" "apply_plan plan = Inr commit"
      "member ''result_commit'' plan = Some (JStr commit)" "record_closure_body c q x b commit d = Inr d'"
  using assms unfolding close_body_def Let_def
  by (elim fenced_body_InrE exE conjE step_elims;
      clarsimp simp: parsed_text_def of_option_eq_Inr dict_members_Some dict_index_def split: option.splits)

text \<open>The writes of the closure, one after the other.\<close>

definition closed_row :: "string \<Rightarrow> int \<Rightarrow> execution_row \<Rightarrow> execution_row" where
  "closed_row commit now r = r\<lparr>ex_result_commit := Some commit, ex_state := VERIFYING, ex_resume_state := None,
     ex_state_version := ex_state_version r + 1, ex_current_actor_role := CONTROLLER, ex_updated_at := now\<rparr>"

definition closure_row :: "ctx \<Rightarrow> closure_request \<Rightarrow> execution_row \<Rightarrow> candidate_binding_row \<Rightarrow> string
    \<Rightarrow> candidate_closure_row" where
  "closure_row c q x b commit =
    \<lparr>cc_closure_id = qc_closure_id q, cc_execution_id = ex_id x, cc_candidate_id = cb_id b,
     cc_approval_id = qc_approval_id q, cc_evaluation_id = qc_evaluation_id q, cc_result_commit = commit,
     cc_expected_parent = cb_expected_parent b, cc_content_sha256 = cb_content_sha256 b,
     cc_created_at = clock c 1\<rparr>"

lemma record_closure_cases:
  assumes "record_closure_body c q x b commit d = Inr d'"
  obtains d1 d2 d3 n payload key where
    "insert_closure (closure_row c q x b commit) d = Inr d1"
    and "update_approvals (\<lambda>p. ap_id p = qc_approval_id q \<and> ap_consumed_at p = None \<and> ap_status p = APPROVED)
           (\<lambda>p. p\<lparr>ap_consumed_at := Some (clock c 1)\<rparr>) d1 = Inr (d2, 1)"
    and "update_executions (\<lambda>r. ex_id r = ex_id x \<and> ex_result_commit r = None \<and> ex_state r = WAITING_APPROVAL
              \<and> ex_state_version r = ex_state_version x) (closed_row commit (clock c 1)) d2 = Inr (d3, n)"
    and "insert_event c 0 ((event_from STATE_TRANSITION x key VERIFYING CONTROLLER (cf_owner (qc_fence q))
            (cf_generation (qc_fence q)) ''PRECOMMIT_COMMIT_CLOSED'' None payload (clock c 1))
              \<lparr>ev_from_state := Some WAITING_APPROVAL\<rparr>) d3 = Inr d'"
    and "payload = dumps (JObj [(''candidate_id'', JStr (cb_id b)), (''evaluation_id'', JStr (qc_evaluation_id q)),
           (''approval_id'', JStr (qc_approval_id q)), (''result_commit'', JStr commit),
           (''closure_id'', JStr (qc_closure_id q))])"
  using assms unfolding record_closure_body_def closure_row_def closed_row_def [abs_def] Let_def
  by (elim step_elims) (simp add: canonical_json_json_to_py del: dumps.simps json_to_py.simps)

lemma closure_keeps:
  assumes "insert_closure k d = Inr d1" and "update_approvals pa fa d1 = Inr (d2, n)"
  shows "keeps exec_view d d2"
  using execution_frame(5) [OF assms(2)] sans_evidence_views(1) [OF evidence_frame(9) [OF assms(1) keeps_refl]]
  by (simp add: keeps_def)

lemma closure_tables: "candidate_closures d' = candidate_closures d1"
  if "update_approvals pa fa d1 = Inr (d2, n)" and "update_executions pe fe d2 = Inr (d3, k)" and "insert_event c j e d3 = Inr d'"
  using update_approvals_Inr [OF that(1)] update_executions_Inr [OF that(2)] insert_event_Inr(1) [OF that(3)] by auto

lemma closure_moves:
  assumes "ex_state x = WAITING_APPROVAL" and "ex_result_commit x = None" and "k \<in> K"
    and "cc_execution_id k = ex_id x" and "cc_result_commit k = commit"
  shows "edge K (standing x) ((event_from STATE_TRANSITION x key VERIFYING CONTROLLER owner generation
      ''PRECOMMIT_COMMIT_CLOSED'' None (dumps (closure_note k)) now)\<lparr>ev_from_state := Some WAITING_APPROVAL\<rparr>)
    (standing (closed_row commit now x))"
  using assms by (auto simp: edge_def closure_move_def standing_def event_from_def closed_row_def simp del: dumps.simps intro!: bexI [of _ k])

lemma close_refines:
  assumes "close_body c q apply_plan d = Inr (u, d')"
  shows "(exec_step (set (candidate_closures d')))\<^sup>*\<^sup>* (exec_view d) (exec_view d')"
  using assms
proof (cases rule: close_body_Inr)
  case (closed x b commit intent plan)
  let ?K = "set (candidate_closures d')" and ?k = "closure_row c q x b commit"
  from closed(2) obtain x: "find_execution (qc_execution_id q) d = Some x"
      "fence_held x (cf_owner (qc_fence q)) (cf_generation (qc_fence q)) (clock c 4)"
      "ex_state x = WAITING_APPROVAL" "ex_result_commit x = None"
    by (elim closure_authority_cases) (auto dest: closure_fence(1,3))
  from closed(9) show ?thesis
  proof (cases rule: record_closure_cases)
    case (1 d1 d2 d3 n payload key)
    have i: "ex_id x = qc_execution_id q" using x(1) by (rule execution_table.get_key)
    have "?k \<in> ?K"
      using closure_tables [OF 1(2,3,4)] insert_candidate_Inr(9) [OF 1(1)] by simp
    moreover have "payload = dumps (closure_note ?k)"
      unfolding 1(5) by (simp add: closure_note_def closure_row_def del: dumps.simps)
    ultimately have move: "edge ?K (standing x) ((event_from STATE_TRANSITION x key VERIFYING CONTROLLER (cf_owner (qc_fence q))
        (cf_generation (qc_fence q)) ''PRECOMMIT_COMMIT_CLOSED'' None payload (clock c 1))\<lparr>ev_from_state := Some WAITING_APPROVAL\<rparr>)
        (standing (closed_row commit (clock c 1) x))"
      using closure_moves [OF x(3,4), of ?k ?K commit] by (simp add: closure_row_def)
    show ?thesis
      by (rule r_into_rtranclp, rule logged_update(1) [OF x(1) closure_keeps [OF 1(1,2)] 1(3,4)])
        (use x i move in \<open>simp_all add: moved_def same_identity_def lease_move_def event_from_def fence_held_def closed_row_def\<close>)
  qed
qed simp

lemma close_frame:
  assumes "close_body c q apply_plan d = Inr (u, d')"
  shows "slice_view d' = slice_view d" and "control_view d' = control_view d"
proof -
  have "slice_view d' = slice_view d \<and> control_view d' = control_view d"
    using assms
  proof (cases rule: close_body_Inr)
    case (closed x b commit intent plan)
    from closed(9) show ?thesis
    proof (cases rule: record_closure_cases)
      case (1 d1 d2 d3 n payload key)
      note ev = evidence_frame(9) [OF 1(1) keeps_refl]
      have "keeps control_view d1 d'"
        by (rule core_control [OF core_frame_compound(1) [OF 1(4) core_frame(2) [OF 1(3) core_frame(8) [OF 1(2) keeps_refl]]]])
      then show ?thesis
        using sans_evidence_views [OF ev] slice_frame(8) [OF 1(2)] slice_frame(2) [OF 1(3)]
          slice_frame_compound(1) [OF 1(4)]
        by (simp add: keeps_def)
    qed
  qed simp
  then show "slice_view d' = slice_view d" and "control_view d' = control_view d" by auto
qed

end
