(* ===== verification/Store_System.thy ===== *)
theory Store_System
  imports Candidate_Frames
begin

text \<open>
  The store as one system: every operation as a call, a run as a sequence of calls each in its
  own environment, and the invariants of the four state machines and of the receipt log over
  every run. A run stands for any interleaving of the clients' calls, since SQLite serialises
  the write transactions.
\<close>

section \<open>Calls\<close>

datatype call =
    CreateExecution execution_create string
  | AcquireLease lease_request
  | Heartbeat string int string int int
  | ReleaseLease unlease_request
  | Transition transition_request
  | RegisterResultCommit result_request
  | ScheduleRework rework_request
  | RegisterContext context_request
  | RegisterVerification verification_record
  | RegisterAttempt attempt_request
  | RequestApproval approval_request
  | ResolveApproval string string string bool "candidate_fence option"
  | AuthorizeHighRework high_rework_request
  | ScheduleHumanRework human_rework_request
  | AcceptExecution accept_request
  | ReconcileSlice slice_request
  | BindDeferred bind_request
  | FinalizeDeferred finalize_request
  | ReleaseBinding release_binding_request
  | ReconcileAuthority int string string
  | TransitionAuthority authority_request
  | AcquireWriter acquire_request
  | HeartbeatWriter string int int
  | ReleaseWriter release_request
  | RevokeWriter revoke_request
  | AppendReceipt receipt_fields
  | CreateSeal seal_request
  | FinishAttempt finish_request
  | RegisterEvaluation evaluation_request
  | BindCandidate bind_candidate_request
  | RegisterCandidateVerification candidate_verification_row candidate_fence
  | BeginCandidateAttempt candidate_attempt_request
  | RegisterCandidateEvaluation candidate_evaluation_row candidate_fence
  | CreateCandidateSeal candidate_seal_request
  | BindCandidateApproval candidate_approval_request
  | PrepareCommit closure_request "(string \<times> json) list result"
  | CloseCommit closure_request "json \<Rightarrow> string result"

text \<open>The database a call leaves; its answer is the operation's own.\<close>

fun perform :: "ctx \<Rightarrow> call \<Rightarrow> db \<Rightarrow> db" where
  "perform c (CreateExecution x key) d = snd (create_execution c x key d)"
| "perform c (AcquireLease q) d = snd (acquire_lease c q d)"
| "perform c (Heartbeat i v owner generation ttl) d = snd (heartbeat c i v owner generation ttl d)"
| "perform c (ReleaseLease q) d = snd (release_lease c q d)"
| "perform c (Transition q) d = snd (transition c q d)"
| "perform c (RegisterResultCommit q) d = snd (register_result_commit c q d)"
| "perform c (ScheduleRework q) d = snd (schedule_rework c q d)"
| "perform c (RegisterContext q) d = snd (register_context_snapshot c q d)"
| "perform c (RegisterVerification q) d = snd (register_verification_result c q d)"
| "perform c (RegisterAttempt q) d = snd (register_agent_attempt c q d)"
| "perform c (RequestApproval q) d = snd (request_approval c q d)"
| "perform c (ResolveApproval a i ref approved fence) d = snd (resolve_approval c a i ref approved fence d)"
| "perform c (AuthorizeHighRework q) d = snd (authorize_high_rework c q d)"
| "perform c (ScheduleHumanRework q) d = snd (schedule_human_authorized_rework c q d)"
| "perform c (AcceptExecution q) d = snd (accept_execution c q d)"
| "perform c (ReconcileSlice q) d = snd (reconcile_slice_control_state c q d)"
| "perform c (BindDeferred q) d = snd (bind_deferred_execution c q d)"
| "perform c (FinalizeDeferred q) d = snd (finalize_deferred_result_commit c q d)"
| "perform c (ReleaseBinding q) d = snd (release_deferred_preexecution_binding c q d)"
| "perform c (ReconcileAuthority v slice rollback) d = snd (reconcile_transitional_authority c v slice rollback d)"
| "perform c (TransitionAuthority q) d = snd (transition_authority c q d)"
| "perform c (AcquireWriter q) d = snd (acquire_global_writer c q d)"
| "perform c (HeartbeatWriter owner token ttl) d = snd (heartbeat_global_writer c owner token ttl d)"
| "perform c (ReleaseWriter q) d = snd (release_global_writer c q d)"
| "perform c (RevokeWriter q) d = snd (force_revoke_global_writer c q d)"
| "perform c (AppendReceipt f) d = snd (append_receipt c f d)"
| "perform c (CreateSeal q) d = snd (create_evaluator_artifact_seal c q d)"
| "perform c (FinishAttempt q) d = snd (finish_agent_attempt c q d)"
| "perform c (RegisterEvaluation q) d = snd (register_evaluation_result c q d)"
| "perform c (BindCandidate q) d = snd (bind_precommit_candidate c q d)"
| "perform c (RegisterCandidateVerification r f) d = snd (register_candidate_verification c r f d)"
| "perform c (BeginCandidateAttempt q) d = snd (begin_candidate_evaluator_attempt c q d)"
| "perform c (RegisterCandidateEvaluation r f) d = snd (register_candidate_evaluation c r f d)"
| "perform c (CreateCandidateSeal q) d = snd (create_candidate_evaluator_artifact_seal c q d)"
| "perform c (BindCandidateApproval q) d = snd (bind_candidate_approval c q d)"
| "perform c (PrepareCommit q plan) d = snd (prepare_candidate_commit c q plan d)"
| "perform c (CloseCommit q applied) d = snd (close_candidate_to_commit c q applied d)"

text \<open>What a call that changed the database did: its transaction's body committed.\<close>

fun commits :: "ctx \<Rightarrow> call \<Rightarrow> db \<Rightarrow> db \<Rightarrow> bool" where
  "commits c (CreateExecution x key) d d' \<longleftrightarrow> (\<exists>root u. create_execution_body c x key root d = Inr (u, d'))"
| "commits c (AcquireLease q) d d' \<longleftrightarrow> (\<exists>u. acquire_lease_body c q d = Inr (u, d'))"
| "commits c (Heartbeat i v owner generation ttl) d d' \<longleftrightarrow>
     (\<exists>u. heartbeat_body c i v owner generation ttl d = Inr (u, d'))"
| "commits c (ReleaseLease q) d d' \<longleftrightarrow> (\<exists>u. release_lease_body c q d = Inr (u, d'))"
| "commits c (Transition q) d d' \<longleftrightarrow> (\<exists>u. transition_body c q d = Inr (u, d'))"
| "commits c (RegisterResultCommit q) d d' \<longleftrightarrow> (\<exists>u. register_result_body c q d = Inr (u, d'))"
| "commits c (ScheduleRework q) d d' \<longleftrightarrow> (\<exists>u. schedule_rework_body c q d = Inr (u, d'))"
| "commits c (RegisterContext q) d d' \<longleftrightarrow> (\<exists>s u. context_body c q s d = Inr (u, d'))"
| "commits c (RegisterVerification q) d d' \<longleftrightarrow> (\<exists>u. verification_body (yr_row q) d = Inr (u, d'))"
| "commits c (RegisterAttempt q) d d' \<longleftrightarrow> (\<exists>u. attempt_body c q d = Inr (u, d'))"
| "commits c (RequestApproval q) d d' \<longleftrightarrow> (\<exists>u. request_approval_body c q d = Inr (u, d'))"
| "commits c (ResolveApproval a i ref approved fence) d d' \<longleftrightarrow>
     (\<exists>u. resolve_approval_body c a i ref approved fence d = Inr (u, d'))"
| "commits c (AuthorizeHighRework q) d d' \<longleftrightarrow> (\<exists>u. authorize_high_rework_body c q d = Inr (u, d'))"
| "commits c (ScheduleHumanRework q) d d' \<longleftrightarrow> (\<exists>u. human_rework_body c q d = Inr (u, d'))"
| "commits c (AcceptExecution q) d d' \<longleftrightarrow> (\<exists>ids u. accept_body c q ids d = Inr (u, d'))"
| "commits c (ReconcileSlice q) d d' \<longleftrightarrow> (\<exists>payload u. reconcile_slice_body c q payload d = Inr (u, d'))"
| "commits c (BindDeferred q) d d' \<longleftrightarrow> (\<exists>root u. bind_body c q root d = Inr (u, d'))"
| "commits c (FinalizeDeferred q) d d' \<longleftrightarrow> (\<exists>u. finalize_body c q d = Inr (u, d'))"
| "commits c (ReleaseBinding q) d d' \<longleftrightarrow> (\<exists>u. release_body c q d = Inr (u, d'))"
| "commits c (ReconcileAuthority v slice rollback) d d' \<longleftrightarrow>
     (\<exists>u. reconcile_authority_body c v slice rollback d = Inr (u, d'))"
| "commits c (TransitionAuthority q) d d' \<longleftrightarrow> (\<exists>u. transition_authority_body c q d = Inr (u, d'))"
| "commits c (AcquireWriter q) d d' \<longleftrightarrow> (\<exists>u. acquire_body c q d = Inr (u, d'))"
| "commits c (HeartbeatWriter owner token ttl) d d' \<longleftrightarrow> (\<exists>u. heartbeat_writer_body c owner token ttl d = Inr (u, d'))"
| "commits c (ReleaseWriter q) d d' \<longleftrightarrow> (\<exists>u. release_writer_body c q d = Inr (u, d'))"
| "commits c (RevokeWriter q) d d' \<longleftrightarrow> (\<exists>u. revoke_writer_body c q d = Inr (u, d'))"
| "commits c (AppendReceipt f) d d' \<longleftrightarrow> (\<exists>u. receipt_body c f d = Inr (u, d'))"
| "commits c (CreateSeal q) d d' \<longleftrightarrow> (\<exists>u. create_seal_body c q d = Inr (u, d'))"
| "commits c (FinishAttempt q) d d' \<longleftrightarrow> (\<exists>s u. finish_body c q s d = Inr (u, d'))"
| "commits c (RegisterEvaluation q) d d' \<longleftrightarrow> (\<exists>r u. evaluation_body c q r d = Inr (u, d'))"
| "commits c (BindCandidate q) d d' \<longleftrightarrow> (\<exists>u. bind_candidate_body c q d = Inr (u, d'))"
| "commits c (RegisterCandidateVerification r f) d d' \<longleftrightarrow> (\<exists>u. candidate_verification_body c r f d = Inr (u, d'))"
| "commits c (BeginCandidateAttempt q) d d' \<longleftrightarrow> (\<exists>b v u. candidate_attempt_body c q b v d = Inr (u, d'))"
| "commits c (RegisterCandidateEvaluation r f) d d' \<longleftrightarrow> (\<exists>u. candidate_evaluation_body c r f d = Inr (u, d'))"
| "commits c (CreateCandidateSeal q) d d' \<longleftrightarrow> (\<exists>p i u. candidate_seal_body c q p i d = Inr (u, d'))"
| "commits c (BindCandidateApproval q) d d' \<longleftrightarrow> (\<exists>e p u. candidate_approval_body c q e p d = Inr (u, d'))"
| "commits c (PrepareCommit q plan) d d' \<longleftrightarrow> (\<exists>u. prepare_body c q plan d = Inr (u, d'))"
| "commits c (CloseCommit q applied) d d' \<longleftrightarrow> (\<exists>u. close_body c q applied d = Inr (u, d'))"

text \<open>The calls that manage the global writer itself are not guarded by it.\<close>

fun ordinary :: "call \<Rightarrow> bool" where
  "ordinary (AcquireWriter _) = False"
| "ordinary (HeartbeatWriter _ _ _) = False"
| "ordinary (ReleaseWriter _) = False"
| "ordinary (RevokeWriter _) = False"
| "ordinary _ = True"

lemma snd_precheck: "snd (precheck m k d) = d' \<Longrightarrow> d' = d \<or> (\<exists>x. m = Inr x \<and> snd (k x d) = d')"
  by (cases m) (auto simp: precheck_def)

lemma changed_precheck: "snd (precheck m k d) \<noteq> d \<Longrightarrow> \<exists>x. m = Inr x \<and> snd (precheck m k d) = snd (k x d) \<and> snd (k x d) \<noteq> d"
  by (cases m) (auto simp: precheck_def)

lemma changed_transaction: "snd (transaction c body d) \<noteq> d \<Longrightarrow>
    begin_guard c d = Inr () \<and> (\<exists>a. body d = Inr (a, snd (transaction c body d)))"
  using snd_transaction [OF refl, of c body d] by auto

lemma changed_unchecked: "snd (transaction_unchecked body d) \<noteq> d \<Longrightarrow>
    \<exists>a. body d = Inr (a, snd (transaction_unchecked body d))"
  by (auto simp: transaction_unchecked_def split: sum.splits prod.splits)

lemmas operation_defs = create_execution_def acquire_lease_def heartbeat_def release_lease_def transition_def
  register_result_commit_def schedule_rework_def register_context_snapshot_def register_verification_result_def
  register_agent_attempt_def request_approval_def resolve_approval_def authorize_high_rework_def
  schedule_human_authorized_rework_def accept_execution_def reconcile_slice_control_state_def
  bind_deferred_execution_def finalize_deferred_result_commit_def release_deferred_preexecution_binding_def
  reconcile_transitional_authority_def transition_authority_def acquire_global_writer_def
  heartbeat_global_writer_def release_global_writer_def force_revoke_global_writer_def append_receipt_def
  create_evaluator_artifact_seal_def finish_agent_attempt_def register_evaluation_result_def
  bind_precommit_candidate_def register_candidate_verification_def begin_candidate_evaluator_attempt_def
  register_candidate_evaluation_def create_candidate_evaluator_artifact_seal_def bind_candidate_approval_def
  prepare_candidate_commit_def close_candidate_to_commit_def

text \<open>
  All or nothing: a call leaves the database alone or its body committed, and an ordinary call
  committed only past the writer guard.
\<close>

lemma perform_cases:
  assumes "perform c k d \<noteq> d"
  shows "commits c k d (perform c k d)" and "ordinary k \<Longrightarrow> begin_guard c d = Inr ()"
proof -
  have "commits c k d (perform c k d) \<and> (ordinary k \<longrightarrow> begin_guard c d = Inr ())"
    using assms
    by (cases k; simp add: operation_defs)
      (auto dest!: changed_precheck changed_transaction changed_unchecked simp: success, blast+)
  then show "commits c k d (perform c k d)" and "ordinary k \<Longrightarrow> begin_guard c d = Inr ()" by auto
qed

section \<open>The frames of the control operations\<close>

text \<open>The database without the writer and its log, and without the authority and its log.\<close>

definition sans_writer :: "db \<Rightarrow> db" where
  "sans_writer d = d\<lparr>writer := None, writer_events := []\<rparr>"

definition sans_authority :: "db \<Rightarrow> db" where
  "sans_authority d = d\<lparr>authority := None, authority_events := []\<rparr>"

definition sans_receipts :: "db \<Rightarrow> db" where
  "sans_receipts d = d\<lparr>receipts := []\<rparr>"

lemma sans_views:
  "keeps sans_writer d d' \<Longrightarrow> exec_view d' = exec_view d \<and> slice_view d' = slice_view d
     \<and> authority_view d' = authority_view d \<and> receipts d' = receipts d"
  "keeps sans_authority d d' \<Longrightarrow> exec_view d' = exec_view d \<and> slice_view d' = slice_view d
     \<and> writer_view d' = writer_view d \<and> receipts d' = receipts d"
  "keeps sans_receipts d d' \<Longrightarrow> exec_view d' = exec_view d \<and> slice_view d' = slice_view d
     \<and> authority_view d' = authority_view d \<and> writer_view d' = writer_view d"
  unfolding keeps_def sans_writer_def sans_authority_def sans_receipts_def
  by (cases d; cases d'; simp add: view_defs)+

lemma sans_frame:
  "update_writer j pw fw d = Inr (d1, n1) \<Longrightarrow> keeps sans_writer d0 d \<Longrightarrow> keeps sans_writer d0 d1"
  "insert_writer_event_row we d = Inr d1 \<Longrightarrow> keeps sans_writer d0 d \<Longrightarrow> keeps sans_writer d0 d1"
  "update_authority pa fa d = Inr (d1, n2) \<Longrightarrow> keeps sans_authority d0 d \<Longrightarrow> keeps sans_authority d0 d1"
  "insert_authority_event ae d = Inr d1 \<Longrightarrow> keeps sans_authority d0 d \<Longrightarrow> keeps sans_authority d0 d1"
  "insert_receipt tj rr d = Inr d1 \<Longrightarrow> keeps sans_receipts d0 d \<Longrightarrow> keeps sans_receipts d0 d1"
  unfolding keeps_def sans_writer_def sans_authority_def sans_receipts_def
    update_authority_def insert_authority_event_def
  by (auto dest: update_writer_Inr insert_writer_event_row_Inr insert_receipt_Inr(1)
      split: option.splits if_split_asm simp: success)

lemma sans_frame_compound:
  "insert_writer_event c key type f t prior new reason decision request now d = Inr d1
     \<Longrightarrow> keeps sans_writer d0 d \<Longrightarrow> keeps sans_writer d0 d1"
  unfolding insert_writer_event_def by (rule sans_frame(2))

lemma rejected_transition_InrE: "rejected_transition m = Inr a \<Longrightarrow> (m = Inr a \<Longrightarrow> P) \<Longrightarrow> P"
  by (simp add: success)

lemma receipt_conflict_InrE: "receipt_conflict m = Inr a \<Longrightarrow> (m = Inr a \<Longrightarrow> P) \<Longrightarrow> P"
  by (simp add: success)

lemma keeps_sans:
  "acquire_body c q1 d = Inr (u1, d1) \<Longrightarrow> keeps sans_writer d d1"
  "heartbeat_writer_body c owner token ttl d = Inr (u2, d1) \<Longrightarrow> keeps sans_writer d d1"
  "release_writer_body c q3 d = Inr (u3, d1) \<Longrightarrow> keeps sans_writer d d1"
  "revoke_writer_body c q4 d = Inr (u4, d1) \<Longrightarrow> keeps sans_writer d d1"
  "reconcile_authority_body c v slice rollback d = Inr (u5, d1) \<Longrightarrow> keeps sans_authority d d1"
  "transition_authority_body c q6 d = Inr (u6, d1) \<Longrightarrow> keeps sans_authority d d1"
  "receipt_body c f7 d = Inr (u7, d1) \<Longrightarrow> keeps sans_receipts d d1"
  unfolding acquire_body_def heartbeat_writer_body_def release_writer_body_def revoke_writer_body_def
    reconcile_authority_body_def transition_authority_body_def receipt_body_def Let_def
  by (elim body_elims rejected_transition_InrE receipt_conflict_InrE; clarsimp?;
      (rule keeps_refl | erule sans_frame sans_frame_compound)+; fail)+

section \<open>What a committed call does to each view\<close>

lemmas control_others = keeps_sans(1-4) [THEN sans_views(1)] keeps_sans(5,6) [THEN sans_views(2)]
  keeps_sans(7) [THEN sans_views(3)]

lemmas control_kept = keeps_control [unfolded keeps_def control_view_def prod.inject]

lemmas evidence_others = keeps_evidence [THEN sans_evidence_views(1)] keeps_evidence [THEN sans_evidence_views(2)]
  keeps_evidence [THEN sans_evidence_views(3), unfolded control_view_def prod.inject]

lemmas closure_others = close_frame(1) close_frame(2) [unfolded control_view_def prod.inject]

lemmas exec_refines = create_execution_refines acquire_lease_refines heartbeat_refines release_lease_refines
  transition_refines register_result_refines schedule_rework_refines authorize_high_rework_refines
  human_rework_refines accept_refines bind_refines finalize_refines release_binding_refines

lemma commits_exec:
  assumes "commits c k d d'"
  shows "(exec_step (set (candidate_closures d')))\<^sup>*\<^sup>* (exec_view d) (exec_view d')"
  using assms
  by (cases k; simp)
    (auto dest: exec_refines [where K = "set (candidate_closures d')"] close_refines
      keeps_executions [THEN kept_no_step [where K = "set (candidate_closures d')"]] control_others evidence_others)

lemma commits_slice: "commits c k d d' \<Longrightarrow> slice_step\<^sup>=\<^sup>= (slice_view d) (slice_view d')"
  by (cases k; simp)
    (auto dest: reconcile_slice_refines bind_refines_slices finalize_refines_slices release_refines_slices
      keeps_slices [unfolded keeps_def] control_others evidence_others closure_others)

lemma commits_writer: "commits c k d d' \<Longrightarrow> (writer_step (julian c))\<^sup>=\<^sup>= (writer_view d) (writer_view d')"
  by (cases k; simp)
    (auto dest: acquire_refines heartbeat_writer_refines release_refines revoke_refines control_kept control_others
      evidence_others closure_others)

lemma commits_authority: "commits c k d d' \<Longrightarrow> authority_step\<^sup>=\<^sup>= (authority_view d) (authority_view d')"
  by (cases k; simp)
    (auto dest: reconcile_refines(1) transition_authority_refines control_kept control_others
      evidence_others closure_others)

lemma commits_receipts: "commits c k d d' \<Longrightarrow> receipt_log_ok (receipts d) \<Longrightarrow> receipt_log_ok (receipts d')"
  by (cases k; simp) (auto dest: receipt_body_ok control_kept control_others
      evidence_others closure_others)

end
