(* ===== verification/Approval_Laws.thy ===== *)
theory Approval_Laws
  imports Store_System
begin

text \<open>
  What the store promises of approvals, as an abstract machine: an approval is requested
  pending, resolved once and, when approved, consumed once. What was resolved or consumed never
  changes again.
\<close>

section \<open>The abstract machine\<close>

type_synonym approval_view = "string \<Rightarrow> approval_row option"

definition approval_view :: "db \<Rightarrow> approval_view" where
  "approval_view d = (\<lambda>i. find_approval i d)"

inductive approval_step :: "approval_view \<Rightarrow> approval_view \<Rightarrow> bool" where
  requested: "m (ap_id p) = None \<Longrightarrow> ap_status p = PENDING \<Longrightarrow> ap_consumed_at p = None
     \<Longrightarrow> approval_step m (m(ap_id p \<mapsto> p))"
| resolved: "m i = Some p \<Longrightarrow> ap_status p = PENDING \<Longrightarrow> s \<in> {APPROVED, REJECTED}
     \<Longrightarrow> approval_step m (m(i \<mapsto> p\<lparr>ap_status := s, ap_resolved_at := Some t\<rparr>))"
| consumed: "m i = Some p \<Longrightarrow> ap_status p = APPROVED \<Longrightarrow> ap_consumed_at p = None
     \<Longrightarrow> approval_step m (m(i \<mapsto> p\<lparr>ap_consumed_at := Some t\<rparr>))"

text \<open>How an approval may have moved on: its identity stays, and so does what it has reached.\<close>

definition approval_later :: "approval_row \<Rightarrow> approval_row \<Rightarrow> bool" where
  "approval_later p p' \<longleftrightarrow>
     ap_id p' = ap_id p \<and> ap_execution_id p' = ap_execution_id p \<and> ap_approval_type p' = ap_approval_type p
     \<and> ap_authority_ref p' = ap_authority_ref p \<and> ap_required p' = ap_required p
     \<and> ap_requested_at p' = ap_requested_at p
     \<and> (ap_status p \<noteq> PENDING \<longrightarrow> ap_status p' = ap_status p \<and> ap_resolved_at p' = ap_resolved_at p)
     \<and> (ap_consumed_at p \<noteq> None \<longrightarrow> ap_consumed_at p' = ap_consumed_at p)
     \<and> (ap_consumed_at p' \<noteq> None \<longrightarrow> ap_consumed_at p \<noteq> None \<or> ap_status p' = APPROVED)"

lemma approval_step_later:
  assumes "approval_step m m'" and "m i = Some p"
  shows "\<exists>p'. m' i = Some p' \<and> approval_later p p'"
  using assms by (cases rule: approval_step.cases) (auto simp: approval_later_def)

lemma approval_along:
  assumes "approval_step\<^sup>*\<^sup>* m m'" and "m i = Some p"
  shows "\<exists>p'. m' i = Some p' \<and> approval_later p p'"
  using assms
proof (induction rule: rtranclp_induct)
  case (step m1 m2)
  then obtain p1 where p1: "m1 i = Some p1" "approval_later p p1" by blast
  from approval_step_later [OF step(2) p1(1)] obtain p2 where "m2 i = Some p2" "approval_later p1 p2" by blast
  with p1(2) show ?case unfolding approval_later_def by auto
qed (auto simp: approval_later_def)

section \<open>The operations refine it\<close>

lemma approval_frame:
  "insert_execution r d = Inr d1 \<Longrightarrow> keeps approvals d0 d \<Longrightarrow> keeps approvals d0 d1"
  "update_executions p f d = Inr (d1, n) \<Longrightarrow> keeps approvals d0 d \<Longrightarrow> keeps approvals d0 d1"
  "insert_event_row e d = Inr d1 \<Longrightarrow> keeps approvals d0 d \<Longrightarrow> keeps approvals d0 d1"
  "insert_context x d = Inr d1 \<Longrightarrow> keeps approvals d0 d \<Longrightarrow> keeps approvals d0 d1"
  "insert_attempt a d = Inr d1 \<Longrightarrow> keeps approvals d0 d \<Longrightarrow> keeps approvals d0 d1"
  "insert_verification v d = Inr d1 \<Longrightarrow> keeps approvals d0 d \<Longrightarrow> keeps approvals d0 d1"
  "insert_manifest m d = Inr d1 \<Longrightarrow> keeps approvals d0 d \<Longrightarrow> keeps approvals d0 d1"
  "insert_slice s d = Inr d1 \<Longrightarrow> keeps approvals d0 d \<Longrightarrow> keeps approvals d0 d1"
  "insert_slice_event se d = Inr d1 \<Longrightarrow> keeps approvals d0 d \<Longrightarrow> keeps approvals d0 d1"
  "update_slices ps fs d = Inr (d1, n) \<Longrightarrow> keeps approvals d0 d \<Longrightarrow> keeps approvals d0 d1"
  by (drule written, simp add: keeps_def; fail)+

lemma approval_frame_compound:
  "insert_event c k e d = Inr d1 \<Longrightarrow> keeps approvals d0 d \<Longrightarrow> keeps approvals d0 d1"
  "update_at_version i v f d = Inr (d1, n) \<Longrightarrow> keeps approvals d0 d \<Longrightarrow> keeps approvals d0 d1"
  "cas_execution i v f d = Inr d1 \<Longrightarrow> keeps approvals d0 d \<Longrightarrow> keeps approvals d0 d1"
  "cas_slice j w target now d = Inr d1 \<Longrightarrow> keeps approvals d0 d \<Longrightarrow> keeps approvals d0 d1"
  unfolding insert_event_def update_at_version_def
  by (blast intro: approval_frame dest: cas_execution_Inr [unfolded update_at_version_def] cas_slice_Inr)+

lemmas approval_frames = keeps_refl approval_frame approval_frame_compound

lemma keeps_approvals:
  "acquire_lease_body c q1 d = Inr (u1, d1) \<Longrightarrow> keeps approvals d d1"
  "heartbeat_body c i2 v2 owner2 generation2 ttl2 d = Inr (u2, d1) \<Longrightarrow> keeps approvals d d1"
  "release_lease_body c q3 d = Inr (u3, d1) \<Longrightarrow> keeps approvals d d1"
  "create_execution_body c x4 key4 root4 d = Inr (u4, d1) \<Longrightarrow> keeps approvals d d1"
  "transition_body c q5 d = Inr (u5, d1) \<Longrightarrow> keeps approvals d d1"
  "register_result_body c q6 d = Inr (u6, d1) \<Longrightarrow> keeps approvals d d1"
  "schedule_rework_body c q7 d = Inr (u7, d1) \<Longrightarrow> keeps approvals d d1"
  "authorize_high_rework_body c q8 d = Inr (u8, d1) \<Longrightarrow> keeps approvals d d1"
  "context_body c q11 s11 d = Inr (u11, d1) \<Longrightarrow> keeps approvals d d1"
  "verification_body r12 d = Inr (u12, d1) \<Longrightarrow> keeps approvals d d1"
  "attempt_body c q13 d = Inr (u13, d1) \<Longrightarrow> keeps approvals d d1"
  "reconcile_slice_body c q16 s16 d = Inr (u16, d1) \<Longrightarrow> keeps approvals d d1"
  "bind_body c q17 root17 d = Inr (u17, d1) \<Longrightarrow> keeps approvals d d1"
  "finalize_body c q18 d = Inr (u18, d1) \<Longrightarrow> keeps approvals d d1"
  "release_body c q19 d = Inr (u19, d1) \<Longrightarrow> keeps approvals d d1"
  unfolding acquire_lease_body_def heartbeat_body_def release_lease_body_def
    create_execution_body_def transition_body_def register_result_body_def
    schedule_rework_body_def authorize_high_rework_body_def context_body_def verification_body_def
    attempt_body_def reconcile_slice_body_def bind_body_def
    bind_writes_def finalize_body_def finalize_writes_def release_body_def release_writes_def Let_def
  by (elim body_elims; clarsimp?; (rule keeps_refl | erule approval_frames)+; fail)+

lemma control_keeps_approvals:
  "keeps sans_writer d d' \<Longrightarrow> approvals d' = approvals d"
  "keeps sans_authority d d' \<Longrightarrow> approvals d' = approvals d"
  "keeps sans_receipts d d' \<Longrightarrow> approvals d' = approvals d"
  unfolding keeps_def sans_writer_def sans_authority_def sans_receipts_def
  by (cases d; cases d'; simp)+

lemma same_approvals: "approvals d' = approvals d \<Longrightarrow> approval_view d' = approval_view d"
  by (simp add: approval_view_def find_approval_def)

lemma insert_approval_view:
  "insert_approval p d = Inr d' \<Longrightarrow> approval_view d (ap_id p) = None \<and> approval_view d' = (approval_view d)(ap_id p \<mapsto> p)"
  using approval_table.get_put approval_table.put_fresh by (fastforce simp: approval_view_def)

lemma update_approvals_view:
  assumes "update_approvals q f d = Inr (d', n)" and "find_approval i d = Some p" and "q p"
    and "\<And>x. q x \<Longrightarrow> ap_id x = i" and key: "\<And>x. ap_id (f x) = ap_id x"
  shows "approval_view d' = (approval_view d)(i \<mapsto> f p)"
proof
  fix k
  show "approval_view d' k = ((approval_view d)(i \<mapsto> f p)) k"
  proof (cases "k = i")
    case True
    then show ?thesis
      using approval_table.get_modify_hit [OF assms(1) key assms(2,3)] by (simp add: approval_view_def)
  next
    case False
    then show ?thesis
      using approval_table.get_modify_other [OF assms(1) key, of k] assms(4) by (auto simp: approval_view_def)
  qed
qed

lemma request_approval_refines:
  assumes "request_approval_body c q d = Inr (u, d')"
  shows "approval_step\<^sup>=\<^sup>= (approval_view d) (approval_view d')"
  using assms unfolding request_approval_body_def Let_def
  apply (elim step_elims; clarsimp)
  apply (drule insert_approval_view)
  using approval_step.requested [of "approval_view d" "approval_new q (clock c 1)"]
  by (simp add: approval_new_def)

lemma resolve_approval_refines:
  assumes "resolve_approval_body c a i authority_ref approved fence d = Inr (u, d')"
  shows "approval_step\<^sup>=\<^sup>= (approval_view d) (approval_view d')"
proof (cases "d' = d")
  case False
  obtain p n where p: "find_approval a d = Some p" "ap_status p = PENDING"
    and upd: "update_approvals (\<lambda>x. ap_id x = a)
        (\<lambda>x. x\<lparr>ap_status := if approved then APPROVED else REJECTED, ap_resolved_at := Some (clock c 1)\<rparr>) d = Inr (d', n)"
    using assms False unfolding resolve_approval_body_def Let_def
    by (elim step_elims; clarsimp simp: success)
  from update_approvals_view [OF upd p(1)] approval_table.get_key [OF p(1)]
  have "approval_view d' = (approval_view d)(a \<mapsto> p\<lparr>ap_status := if approved then APPROVED else REJECTED, ap_resolved_at := Some (clock c 1)\<rparr>)"
    by simp
  moreover have "approval_step (approval_view d)
      ((approval_view d)(a \<mapsto> p\<lparr>ap_status := if approved then APPROVED else REJECTED, ap_resolved_at := Some (clock c 1)\<rparr>))"
    using p by (intro approval_step.resolved) (simp_all add: approval_view_def)
  ultimately show ?thesis by simp
qed simp

text \<open>Consuming: both places update the one approved row that has not been consumed.\<close>

lemma consume_refines:
  assumes "update_approvals q (\<lambda>x. x\<lparr>ap_consumed_at := Some t\<rparr>) d = Inr (d', n)"
    and "find_approval a d = Some p" and "q p" and "\<And>x. q x \<Longrightarrow> ap_id x = a"
    and "ap_status p = APPROVED" and "ap_consumed_at p = None"
  shows "approval_step (approval_view d) (approval_view d')"
  using update_approvals_view [OF assms(1-4)] assms(2,5,6) approval_step.consumed [of "approval_view d" a p t]
  by (simp add: approval_view_def)

lemma human_rework_refines_approvals:
  assumes "human_rework_body c q d = Inr (u, d')"
  shows "approval_step\<^sup>=\<^sup>= (approval_view d) (approval_view d')"
proof -
  obtain r e d1 d2 n ev f where guard: "human_rework_guard c q d = Inr (r, e)"
    and upd: "update_approvals (\<lambda>p. ap_id p = jq_approval_id q \<and> ap_status p = APPROVED \<and> ap_consumed_at p = None)
            (\<lambda>p. p\<lparr>ap_consumed_at := Some (clock c 1)\<rparr>) d = Inr (d1, n)"
    and w: "cas_execution (jq_execution_id q) (jq_expected_version q) f d1 = Inr d2" "insert_event c 0 ev d2 = Inr d'"
    using assms unfolding human_rework_body_def Let_def by (elim step_elims; clarsimp)
  obtain p where p: "find_approval (jq_approval_id q) d = Some p" "ap_status p = APPROVED" "ap_consumed_at p = None"
    using guard unfolding human_rework_guard_def Let_def by (elim step_elims; clarsimp simp: success)
  have "approvals d' = approvals d1"
    using approval_frame_compound(1) [OF w(2) approval_frame_compound(3) [OF w(1) keeps_refl]] by (simp add: keeps_def)
  from same_approvals [OF this] consume_refines [OF upd p(1)] p approval_table.get_key [OF p(1)] show ?thesis by simp
qed

lemma accept_approval_refines:
  assumes "accept_approval c q flds ids r d = Inr d'"
  shows "approval_step\<^sup>=\<^sup>= (approval_view d) (approval_view d')"
  using assms unfolding accept_approval_def Let_def
  apply (elim step_elims; clarsimp simp: success)
  apply (erule (1) consume_refines)
     apply (auto dest: approval_table.get_key)
  done

lemma accept_refines_approvals:
  assumes "accept_body c q ids d = Inr (u, d')"
  shows "approval_step\<^sup>=\<^sup>= (approval_view d) (approval_view d')"
proof (cases "d' = d")
  case False
  obtain r d1 m d2 d3 n ev p f where approval: "accept_approval c q (mf_fields (kq_manifest q)) ids r d = Inr d1"
    and w: "insert_manifest m d1 = Inr d2" "update_executions p f d2 = Inr (d3, n)" "insert_event c 0 ev d3 = Inr d'"
    using assms False unfolding accept_body_def Let_def by (elim step_elims; clarsimp)
  have "approvals d' = approvals d1"
    using approval_frame_compound(1) [OF w(3) approval_frame(2) [OF w(2) approval_frame(7) [OF w(1) keeps_refl]]]
    by (simp add: keeps_def)
  from same_approvals [OF this] accept_approval_refines [OF approval] show ?thesis by simp
qed simp

text \<open>The closure of a candidate consumes the approval it was bound to.\<close>

lemma close_refines_approvals:
  assumes "close_body c q apply_plan d = Inr (u, d')"
  shows "approval_step\<^sup>=\<^sup>= (approval_view d) (approval_view d')"
  using assms
proof (cases rule: close_body_Inr)
  case (closed x b commit intent plan)
  from closed(2) obtain p where p: "find_approval (qc_approval_id q) d = Some p"
      "ap_status p = APPROVED" "ap_consumed_at p = None"
    by (elim closure_authority_cases) (auto simp: closure_authority_ok_def Let_def)
  from closed(9) show ?thesis
  proof (cases rule: record_closure_cases)
    case (1 d1 d2 d3 n payload key)
    have first: "approvals d1 = approvals d"
      by (rule sans_evidence_views(4) [OF evidence_frame(9) [OF 1(1) keeps_refl]])
    have last: "approvals d' = approvals d2"
      using approval_frame_compound(1) [OF 1(4) approval_frame(2) [OF 1(3) keeps_refl]] by (simp add: keeps_def)
    have "find_approval (qc_approval_id q) d1 = Some p" using p(1) first by (simp add: find_approval_def)
    from consume_refines [OF 1(2) this] p approval_table.get_key [OF p(1)]
    have "approval_step (approval_view d1) (approval_view d2)" by simp
    then show ?thesis using same_approvals [OF first] same_approvals [OF last] by simp
  qed
qed simp

lemma commits_approvals: "commits c k d d' \<Longrightarrow> approval_step\<^sup>=\<^sup>= (approval_view d) (approval_view d')"
  by (cases k; simp)
    (auto dest: request_approval_refines resolve_approval_refines human_rework_refines_approvals
      accept_refines_approvals keeps_approvals [unfolded keeps_def, THEN same_approvals]
      keeps_sans(1-4) [THEN control_keeps_approvals(1), THEN same_approvals]
      keeps_sans(5,6) [THEN control_keeps_approvals(2), THEN same_approvals]
      keeps_sans(7) [THEN control_keeps_approvals(3), THEN same_approvals]
      close_refines_approvals keeps_evidence [THEN sans_evidence_views(4), THEN same_approvals])

end
