(* ===== verification/Runs.thy ===== *)
theory Runs
  imports Approval_Laws
begin

text \<open>
  Runs of the store from the state the migrations leave, and what holds along every run: the
  interpretations of \<open>refines\<close> carry the invariants and the monotone measures of the abstract
  machines to sequences of calls.
\<close>

section \<open>Runs\<close>

text \<open>
  A run is a list of calls, each in its own environment; SQLite's \<open>julianday\<close> is the same
  function in all of them.
\<close>

definition run :: "(int \<Rightarrow> int) \<Rightarrow> (ctx \<times> call) list \<Rightarrow> db \<Rightarrow> db" where
  "run j calls d = fold (\<lambda>(c, k). perform (c\<lparr>julian := j\<rparr>) k) calls d"

lemma run_Nil [simp]: "run j [] d = d"
  by (simp add: run_def)

lemma run_Cons [simp]: "run j ((c, k) # calls) d = run j calls (perform (c\<lparr>julian := j\<rparr>) k d)"
  by (simp add: run_def)

lemma run_append: "run j (xs @ ys) d = run j ys (run j xs d)"
  by (simp add: run_def)

definition performed :: "(int \<Rightarrow> int) \<Rightarrow> db \<Rightarrow> db \<Rightarrow> bool" where
  "performed j d d' \<longleftrightarrow> (\<exists>c k. julian c = j \<and> d' = perform c k d)"

lemma run_performed: "(performed j)\<^sup>*\<^sup>* d (run j calls d)"
proof (induction calls arbitrary: d)
  case (Cons ck calls)
  obtain c k where ck: "ck = (c, k)" by (cases ck)
  have "performed j d (perform (c\<lparr>julian := j\<rparr>) k d)"
    unfolding performed_def by (intro exI [of _ "c\<lparr>julian := j\<rparr>"] exI [of _ k]) simp
  then have "(performed j)\<^sup>*\<^sup>* d (run j calls (perform (c\<lparr>julian := j\<rparr>) k d))"
    by (rule converse_rtranclp_into_rtranclp) (rule Cons.IH)
  then show ?case unfolding ck run_Cons .
qed simp

text \<open>What the migrations leave: the two singletons and nothing else.\<close>

definition initial_authority :: authority_row where
  "initial_authority = \<lparr>au_mode = TRANSITIONAL_AUTHORITY, au_generation = 0, au_cutover_id = None,
     au_slice_snapshot = ''4037d3d9c28b4d9e20010370539058384d6dba0566c89901895f0d6ff702d518'',
     au_rollback_snapshot = ''45ef2ee50e7393592e766ecf0b16d51a59f130c571d213c70e033e6119b565f9'',
     au_updated_at = 0, au_switched_at = None\<rparr>"

definition initial_db :: db where
  "initial_db = \<lparr>executions = [], contexts = [], attempts = [], events = [], verifications = [],
     evaluations = [], approvals = [], manifests = [], slices = [], slice_events = [],
     authority = Some initial_authority, authority_events = [], writer = Some (freed_at 0 0),
     writer_events = [], seals = [], receipts = [], candidate_bindings = [], candidate_provenances = [],
     candidate_verifications = [], candidate_attempts = [], candidate_evaluations = [],
     candidate_seals = [], candidate_approvals = [], candidate_intents = [], candidate_closures = []\<rparr>"

section \<open>The machines of the system\<close>

lemma performed_cases: "performed j d d' \<Longrightarrow> d' = d \<or> (\<exists>c k. julian c = j \<and> commits c k d d')"
  unfolding performed_def using perform_cases(1) by metis

interpretation execution_system: refines "exec_step UNIV" "exec_ok UNIV" exec_view "performed j" for j
  by unfold_locales (auto dest!: performed_cases commits_exec exec_steps_mono [OF subset_UNIV])

interpretation slice_system: refines slice_step slice_ok slice_view "performed j" for j
  by unfold_locales (auto dest!: performed_cases commits_slice)

interpretation writer_system: refines "writer_step j" "writer_explained j" writer_view "performed j" for j
  by unfold_locales (auto dest!: performed_cases commits_writer)

interpretation authority_system: refines authority_step authority_explained authority_view "performed j" for j
  by unfold_locales (auto dest!: performed_cases commits_authority)

text \<open>Of approvals the machine keeps no invariant beyond the steps themselves.\<close>

interpretation approval_system: refines approval_step "\<lambda>_. True" approval_view "performed j" for j
  by unfold_locales (auto dest!: performed_cases commits_approvals)

interpretation receipt_system: kept_by "performed j" "\<lambda>d. receipt_log_ok (receipts d)" for j
  by unfold_locales (auto dest!: performed_cases commits_receipts)

lemmas run_exec = execution_system.run_simulated [OF run_performed]
lemmas run_slices = slice_system.run_simulated [OF run_performed]
lemmas run_writer = writer_system.run_simulated [OF run_performed]
lemmas run_authority = authority_system.run_simulated [OF run_performed]
lemmas run_approvals = approval_system.run_simulated [OF run_performed]

lemma initial_ok:
  "exec_ok K (exec_view initial_db)" "slice_ok (slice_view initial_db)" "writer_explained j (writer_view initial_db)"
  "authority_explained (authority_view initial_db)" "receipt_log_ok (receipts initial_db)"
proof -
  show "exec_ok K (exec_view initial_db)"
    by (simp add: exec_view_def find_execution_def initial_db_def log_of_def)
  show "slice_ok (slice_view initial_db)" by (simp add: slice_view_def initial_db_def)
  show "writer_explained j (writer_view initial_db)"
    by (simp add: writer_view_def initial_db_def freed_at_def writer_check_def context_none_iff log_lease_def lease_of_def)
  have "is_lower_hex (au_slice_snapshot initial_authority)" "is_lower_hex (au_rollback_snapshot initial_authority)"
    by code_simp+
  then show "authority_explained (authority_view initial_db)"
    by (simp add: authority_view_def initial_db_def initial_authority_def authority_check_def log_mode_def log_generation_def)
  show "receipt_log_ok (receipts initial_db)" by (simp add: initial_db_def receipt_log_ok_def)
qed

section \<open>Along a run\<close>

lemma run_row:
  assumes "find_execution i d = Some r"
  shows "fst (exec_view d) i = Some r" and "ex_id r = i"
  using assms by (auto simp: exec_view_def dest: execution_table.get_key)

text \<open>Every log only grows.\<close>

definition extends :: "'a list \<Rightarrow> 'a list \<Rightarrow> bool" where
  "extends xs ys \<longleftrightarrow> take (length xs) ys = xs"

lemma extends_iff: "extends xs ys \<longleftrightarrow> (\<exists>zs. ys = xs @ zs)"
  unfolding extends_def by (metis append_eq_conv_conj append_take_drop_id)

lemma extends_append: "extends xs (xs @ zs)"
  by (auto simp: extends_iff)

lemma extends_trans: "extends xs ys \<Longrightarrow> extends ys zs \<Longrightarrow> extends xs zs"
  by (auto simp: extends_iff)

lemma extends_star:
  assumes "\<And>s t. step s t \<Longrightarrow> extends (log s) (log t)" and "step\<^sup>*\<^sup>* s t"
  shows "extends (log s) (log t)"
  using assms(2)
proof (induction rule: rtranclp_induct)
  case (step y z)
  with assms(1) show ?case by (blast intro: extends_trans)
qed (simp add: extends_def)

lemma step_extends:
  "exec_step K v v' \<Longrightarrow> extends (snd v) (snd v')"
  "slice_step s s' \<Longrightarrow> extends (snd s) (snd s')"
  "writer_step j w w' \<Longrightarrow> extends (snd w) (snd w')"
  "authority_step a a' \<Longrightarrow> extends (snd a) (snd a')"
  by (auto elim!: exec_step.cases slice_step.cases writer_step.cases authority_step.cases
      simp: extends_append extends_def)

lemma performed_receipts: "performed j d d' \<Longrightarrow> extends (receipts d) (receipts d')"
proof -
  assume "performed j d d'"
  then consider "d' = d" | c k where "commits c k d d'" by (auto dest: performed_cases)
  then show ?thesis
  proof cases
    case 2
    have "receipt_body c f d = Inr (u, d') \<Longrightarrow> extends (receipts d) (receipts d')" for f u
      unfolding receipt_body_def by (auto simp: success extends_append dest!: insert_receipt_Inr(1))
    with 2 show ?thesis
      by (cases k; simp) (auto dest: control_kept control_others evidence_others closure_others simp: extends_def)
  qed (simp add: extends_def)
qed

end
