(* ===== verification/Fencing.thy ===== *)
theory Fencing
  imports Runs
begin

text \<open>
  Fencing over runs: a call made under a lease generation or a writer token that has been
  overtaken changes nothing, whenever it arrives.
\<close>

section \<open>The leases a call is made under\<close>

definition fence_leases :: "candidate_fence option \<Rightarrow> (string \<times> int) list" where
  "fence_leases fence = (case fence of None \<Rightarrow> [] | Some f \<Rightarrow> [(cf_execution_id f, cf_generation f)])"

text \<open>
  Every execution and lease generation that a call presents: as its own arguments, in a candidate
  write fence it may carry, or in the optional fence of a completion. The completion of an attempt
  names its execution through the attempt's row, that of an evaluation through its record.
\<close>

fun leases_of_call :: "db \<Rightarrow> call \<Rightarrow> (string \<times> int) list" where
  "leases_of_call d (Heartbeat i v owner generation ttl) = [(i, generation)]"
| "leases_of_call d (ReleaseLease q) = [(uq_execution_id q, uq_generation q)]"
| "leases_of_call d (Transition q) = (tq_execution_id q, tq_generation q) # fence_leases (tq_fence q)"
| "leases_of_call d (RegisterResultCommit q) = [(cq_execution_id q, cq_generation q)]"
| "leases_of_call d (ScheduleRework q) = [(wq_execution_id q, wq_generation q)]"
| "leases_of_call d (RegisterContext q) = fence_leases (xq_fence q)"
| "leases_of_call d (RegisterAttempt q) = fence_leases (nq_fence q)"
| "leases_of_call d (RequestApproval q) = (pq_execution_id q, pq_generation q) # fence_leases (pq_fence q)"
| "leases_of_call d (ResolveApproval a i ref approved fence) = fence_leases fence"
| "leases_of_call d (AuthorizeHighRework q) = [(hq_execution_id q, hq_generation q)]"
| "leases_of_call d (ScheduleHumanRework q) = [(jq_execution_id q, jq_generation q)]"
| "leases_of_call d (AcceptExecution q) = [(kq_execution_id q, kq_generation q)]"
| "leases_of_call d (FinalizeDeferred q) = [(fq_execution_id q, fq_generation q)]"
| "leases_of_call d (CreateSeal q) = [(zc_execution_id (sq_fields q), sq_generation q)]"
| "leases_of_call d (FinishAttempt q) = (case (find_attempt (qf_attempt_id q) d, qf_generation q) of
     (Some a, Some g) \<Rightarrow> [(at_execution_id a, g)] | _ \<Rightarrow> [])"
| "leases_of_call d (RegisterEvaluation q) = (case (evaluation_record_of q, vq_generation q) of
     (Inr v, Some g) \<Rightarrow> [(er_execution_id (vl_row v), g)] | _ \<Rightarrow> [])"
| "leases_of_call d (BindCandidate q) = fence_leases (Some (bc_fence q))"
| "leases_of_call d (RegisterCandidateVerification r f) = fence_leases (Some f)"
| "leases_of_call d (BeginCandidateAttempt q) = fence_leases (Some (qe_fence q))"
| "leases_of_call d (RegisterCandidateEvaluation r f) = fence_leases (Some f)"
| "leases_of_call d (CreateCandidateSeal q) = fence_leases (Some (qs_fence q))"
| "leases_of_call d (BindCandidateApproval q) = fence_leases (Some (qa_fence q))"
| "leases_of_call d (PrepareCommit q plan) = fence_leases (Some (qc_fence q))"
| "leases_of_call d (CloseCommit q applied) = fence_leases (Some (qc_fence q))"
| "leases_of_call d _ = []"

text \<open>Where a fenced body changes anything, the row it read carries the caller's generation.\<close>

lemma fenced_bodies:
  "heartbeat_body c i1 v1 owner1 g1 ttl1 d = Inr (u1, d')
     \<Longrightarrow> d' = d \<or> (\<exists>r. find_execution i1 d = Some r \<and> ex_lease_generation r = g1)"
  "release_lease_body c q2 d = Inr (u2, d')
     \<Longrightarrow> d' = d \<or> (\<exists>r. find_execution (uq_execution_id q2) d = Some r \<and> ex_lease_generation r = uq_generation q2)"
  "transition_body c q3 d = Inr (u3, d')
     \<Longrightarrow> d' = d \<or> (\<exists>r. find_execution (tq_execution_id q3) d = Some r \<and> ex_lease_generation r = tq_generation q3)"
  "register_result_body c q4 d = Inr (u4, d')
     \<Longrightarrow> d' = d \<or> (\<exists>r. find_execution (cq_execution_id q4) d = Some r \<and> ex_lease_generation r = cq_generation q4)"
  "schedule_rework_body c q5 d = Inr (u5, d')
     \<Longrightarrow> d' = d \<or> (\<exists>r. find_execution (wq_execution_id q5) d = Some r \<and> ex_lease_generation r = wq_generation q5)"
  "request_approval_body c q6 d = Inr (u6, d')
     \<Longrightarrow> d' = d \<or> (\<exists>r. find_execution (pq_execution_id q6) d = Some r \<and> ex_lease_generation r = pq_generation q6)"
  "authorize_high_rework_body c q7 d = Inr (u7, d')
     \<Longrightarrow> d' = d \<or> (\<exists>r. find_execution (hq_execution_id q7) d = Some r \<and> ex_lease_generation r = hq_generation q7)"
  "human_rework_body c q8 d = Inr (u8, d')
     \<Longrightarrow> d' = d \<or> (\<exists>r. find_execution (jq_execution_id q8) d = Some r \<and> ex_lease_generation r = jq_generation q8)"
  "accept_body c q9 ids9 d = Inr (u9, d')
     \<Longrightarrow> d' = d \<or> (\<exists>r. find_execution (kq_execution_id q9) d = Some r \<and> ex_lease_generation r = kq_generation q9)"
  "finalize_body c q10 d = Inr (u10, d')
     \<Longrightarrow> d' = d \<or> (\<exists>r. find_execution (fq_execution_id q10) d = Some r \<and> ex_lease_generation r = fq_generation q10)"
  unfolding heartbeat_body_def release_lease_body_def transition_body_def register_result_body_def
    schedule_rework_body_def request_approval_body_def authorize_high_rework_body_def high_rework_guard_def
    human_rework_body_def human_rework_guard_def accept_body_def accept_guard_def finalize_body_def
    finalize_guard_def Let_def
  by (elim body_elims; clarsimp simp: success fence_held_def; fail)+

lemma fenced_body_generation:
  assumes "fenced_body c i f body d = Inr (u, d')"
  shows "\<exists>r. find_execution (cf_execution_id f) d = Some r \<and> ex_lease_generation r = cf_generation f"
  using assms by (elim fenced_body_InrE exE conjE)
    (frule require_candidate_fence_Inr(1), frule require_candidate_fence_Inr(2),
      drule require_candidate_fence_Inr(3), simp add: fence_held_def)

lemma fenced_candidate_bodies:
  "bind_candidate_body c q1 d = Inr (u1, d') \<Longrightarrow> \<exists>r. find_execution (cf_execution_id (bc_fence q1)) d = Some r
     \<and> ex_lease_generation r = cf_generation (bc_fence q1)"
  "candidate_verification_body c r2 f2 d = Inr (u2, d') \<Longrightarrow> \<exists>r. find_execution (cf_execution_id f2) d = Some r
     \<and> ex_lease_generation r = cf_generation f2"
  "candidate_attempt_body c q3 b3 v3 d = Inr (u3, d') \<Longrightarrow> \<exists>r. find_execution (cf_execution_id (qe_fence q3)) d = Some r
     \<and> ex_lease_generation r = cf_generation (qe_fence q3)"
  "candidate_evaluation_body c r4 f4 d = Inr (u4, d') \<Longrightarrow> \<exists>r. find_execution (cf_execution_id f4) d = Some r
     \<and> ex_lease_generation r = cf_generation f4"
  "candidate_seal_body c q5 p5 i5 d = Inr (u5, d') \<Longrightarrow> \<exists>r. find_execution (cf_execution_id (qs_fence q5)) d = Some r
     \<and> ex_lease_generation r = cf_generation (qs_fence q5)"
  "candidate_approval_body c q6 e6 p6 d = Inr (u6, d') \<Longrightarrow> \<exists>r. find_execution (cf_execution_id (qa_fence q6)) d = Some r
     \<and> ex_lease_generation r = cf_generation (qa_fence q6)"
  "prepare_body c q7 plan7 d = Inr (u7, d') \<Longrightarrow> \<exists>r. find_execution (cf_execution_id (qc_fence q7)) d = Some r
     \<and> ex_lease_generation r = cf_generation (qc_fence q7)"
  "close_body c q8 applied8 d = Inr (u8, d') \<Longrightarrow> \<exists>r. find_execution (cf_execution_id (qc_fence q8)) d = Some r
     \<and> ex_lease_generation r = cf_generation (qc_fence q8)"
  unfolding bind_candidate_body_def candidate_verification_body_def candidate_attempt_body_def
    candidate_evaluation_body_def candidate_seal_body_def candidate_approval_body_def prepare_body_def
    close_body_def Let_def
  by (erule fenced_body_generation)+

lemma fenced_seal_body: "create_seal_body c q d = Inr (u, d') \<Longrightarrow>
    \<exists>r. find_execution (zc_execution_id (sq_fields q)) d = Some r \<and> ex_lease_generation r = sq_generation q"
  unfolding create_seal_body_def Let_def by (elim bnd_InrE) (simp add: success fence_held_def)

text \<open>An optional fence and the fence of a completion are checked whenever they are given.\<close>

lemma optional_fence_generation:
  assumes "optional_fence c n i fence check d = Inr u" and "(j, g) \<in> set (fence_leases fence)"
  shows "\<exists>r. find_execution j d = Some r \<and> ex_lease_generation r = g"
proof -
  from assms obtain f r where f: "fence = Some f" "require_candidate_fence c n i f check d = Inr r"
    by (auto simp: optional_fence_def fence_leases_def split: option.splits elim!: bnd_InrE)
  with assms(2) require_candidate_fence_Inr(1-3) [OF f(2)] show ?thesis
    by (auto simp: fence_leases_def fence_held_def)
qed

lemma optional_fenced_bodies:
  "transition_body c q1 d = Inr (u1, d') \<Longrightarrow> optional_fence c 2 (tq_execution_id q1) (tq_fence q1) True d = Inr ()"
  "request_approval_body c q2 d = Inr (u2, d') \<Longrightarrow> optional_fence c 2 (pq_execution_id q2) (pq_fence q2) True d = Inr ()"
  "context_body c q3 s3 d = Inr (u3, d') \<Longrightarrow> optional_fence c 2 (xq_execution_id q3) (xq_fence q3) True d = Inr ()"
  "attempt_body c q4 d = Inr (u4, d') \<Longrightarrow> optional_fence c 2 (nq_execution_id q4) (nq_fence q4) True d = Inr ()"
  "resolve_approval_body c a5 i5 ref5 approved5 fence5 d = Inr (u5, d') \<Longrightarrow> optional_fence c 2 i5 fence5 True d = Inr ()"
  unfolding transition_body_def request_approval_body_def context_body_def attempt_body_def resolve_approval_body_def Let_def
  by (elim bnd_InrE; simp)+

lemmas optional_fenced = optional_fenced_bodies [THEN optional_fence_generation]

lemma completion_fence_generation:
  assumes "completion_fence c i owner (Some g) state code d = Inr u"
  shows "\<exists>r. find_execution i d = Some r \<and> ex_lease_generation r = g"
  using assms by (auto simp: completion_fence_def success fence_held_def split: option.splits elim!: bnd_InrE)

lemma fenced_completions:
  "finish_body c q1 s1 d = Inr (u1, d') \<Longrightarrow> qf_generation q1 = Some g \<Longrightarrow> find_attempt (qf_attempt_id q1) d = Some a
     \<Longrightarrow> \<exists>r. find_execution (at_execution_id a) d = Some r \<and> ex_lease_generation r = g"
  "evaluation_body c q2 r2 d = Inr (u2, d') \<Longrightarrow> vq_generation q2 = Some g
     \<Longrightarrow> \<exists>r. find_execution (er_execution_id r2) d = Some r \<and> ex_lease_generation r = g"
  unfolding finish_body_def evaluation_body_def
  by (elim bnd_InrE; auto simp: success dest: completion_fence_generation)+

lemma evaluation_changed:
  assumes "perform c (RegisterEvaluation q) d \<noteq> d"
  shows "\<exists>v u. evaluation_record_of q = Inr v \<and> evaluation_body c q (vl_row v) d = Inr (u, perform c (RegisterEvaluation q) d)"
  using assms by (auto simp: register_evaluation_result_def evaluation_precheck_def success Let_def
      dest!: changed_precheck changed_transaction)

lemma fenced_call:
  assumes "perform c k d \<noteq> d" and "(i, g) \<in> set (leases_of_call d k)"
  shows "\<exists>r. find_execution i d = Some r \<and> ex_lease_generation r = g"
proof (cases "\<exists>q. k = RegisterEvaluation q")
  case True
  then obtain q where k: "k = RegisterEvaluation q" ..
  from evaluation_changed [OF assms(1) [unfolded k]] assms(2) k show ?thesis
    by (auto split: option.splits dest!: fenced_completions(2) [OF _ sym])
next
  case False
  from perform_cases(1) [OF assms(1)] assms False show ?thesis
    by (cases k; simp add: fence_leases_def [of "Some _"] split: option.splits)
      (auto dest: fenced_bodies fenced_candidate_bodies fenced_seal_body fenced_completions(1) [OF _ sym sym] optional_fenced)
qed

text \<open>Along a run the generation of a lease and the token of the writer never fall.\<close>

lemma row_of_run:
  assumes "\<And>m es m' es'. (exec_step UNIV)\<^sup>*\<^sup>* (m, es) (m', es') \<Longrightarrow> m i = Some r \<Longrightarrow> ex_id r = i
      \<Longrightarrow> \<exists>r'. m' i = Some r' \<and> ex_id r' = i \<and> P r'"
    and "find_execution i d = Some r"
  shows "\<exists>r'. find_execution i (run j calls d) = Some r' \<and> P r'"
proof -
  obtain m es m' es' where v: "exec_view d = (m, es)" "exec_view (run j calls d) = (m', es')" by (meson prod.exhaust)
  from assms(1) [of m es m' es'] run_exec [where d = d and j = j and calls = calls] run_row [OF assms(2)] v
  obtain r' where "m' i = Some r'" "P r'" by auto
  with v(2) show ?thesis by (auto simp: exec_view_def)
qed

lemma run_generation:
  assumes "find_execution i d = Some r"
  shows "\<exists>r'. find_execution i (run j calls d) = Some r' \<and> ex_lease_generation r \<le> ex_lease_generation r'"
  using row_of_run [OF _ assms, where P = "\<lambda>r'. ex_lease_generation r \<le> ex_lease_generation r'"] generation_along by meson

lemma run_version:
  assumes "find_execution i d = Some r"
  shows "\<exists>r'. find_execution i (run j calls d) = Some r' \<and> ex_state_version r \<le> ex_state_version r'"
  using row_of_run [OF _ assms, where P = "\<lambda>r'. ex_state_version r \<le> ex_state_version r'"] generation_along by meson

lemma run_reworks:
  assumes "find_execution i d = Some r"
  shows "\<exists>r'. find_execution i (run j calls d) = Some r' \<and> ex_maker_rework_count r \<le> ex_maker_rework_count r'"
  using row_of_run [OF _ assms, where P = "\<lambda>r'. ex_maker_rework_count r \<le> ex_maker_rework_count r'"] generation_along by meson

lemma run_token: "view_token (writer_view d) \<le> view_token (writer_view (run j calls d))"
  by (rule writer_token.grows_star [OF run_writer])

lemma guard_token:
  assumes "begin_guard c d = Inr ()" and "guard_required c" and "bound_authority c = Some (owner, t)"
  shows "view_token (writer_view d) = t"
  using assms unfolding begin_guard_def by (auto simp: success writer_view_def)

end
