(* ===== verification/Atomicity.thy ===== *)
theory Atomicity
  imports Fencing
begin

text \<open>
  A call that reports an error has left no trace. The transactions roll back by construction;
  what has to be shown is that the reads an operation makes after its commit cannot fail, since
  the row it reads back is the one it wrote or one that never disappears. The operations on the
  global writer are different: they check the lease again after the commit, with a later clock.
\<close>

section \<open>The answer of a call\<close>

fun failed :: "ctx \<Rightarrow> call \<Rightarrow> db \<Rightarrow> bool" where
  "failed c (CreateExecution x key) d = isl (fst (create_execution c x key d))"
| "failed c (AcquireLease q) d = isl (fst (acquire_lease c q d))"
| "failed c (Heartbeat i v owner generation ttl) d = isl (fst (heartbeat c i v owner generation ttl d))"
| "failed c (ReleaseLease q) d = isl (fst (release_lease c q d))"
| "failed c (Transition q) d = isl (fst (transition c q d))"
| "failed c (RegisterResultCommit q) d = isl (fst (register_result_commit c q d))"
| "failed c (ScheduleRework q) d = isl (fst (schedule_rework c q d))"
| "failed c (RegisterContext q) d = isl (fst (register_context_snapshot c q d))"
| "failed c (RegisterVerification q) d = isl (fst (register_verification_result c q d))"
| "failed c (RegisterAttempt q) d = isl (fst (register_agent_attempt c q d))"
| "failed c (RequestApproval q) d = isl (fst (request_approval c q d))"
| "failed c (ResolveApproval a i ref approved fence) d = isl (fst (resolve_approval c a i ref approved fence d))"
| "failed c (AuthorizeHighRework q) d = isl (fst (authorize_high_rework c q d))"
| "failed c (ScheduleHumanRework q) d = isl (fst (schedule_human_authorized_rework c q d))"
| "failed c (AcceptExecution q) d = isl (fst (accept_execution c q d))"
| "failed c (ReconcileSlice q) d = isl (fst (reconcile_slice_control_state c q d))"
| "failed c (BindDeferred q) d = isl (fst (bind_deferred_execution c q d))"
| "failed c (FinalizeDeferred q) d = isl (fst (finalize_deferred_result_commit c q d))"
| "failed c (ReleaseBinding q) d = isl (fst (release_deferred_preexecution_binding c q d))"
| "failed c (ReconcileAuthority v slice rollback) d = isl (fst (reconcile_transitional_authority c v slice rollback d))"
| "failed c (TransitionAuthority q) d = isl (fst (transition_authority c q d))"
| "failed c (AcquireWriter q) d = isl (fst (acquire_global_writer c q d))"
| "failed c (HeartbeatWriter owner token ttl) d = isl (fst (heartbeat_global_writer c owner token ttl d))"
| "failed c (ReleaseWriter q) d = isl (fst (release_global_writer c q d))"
| "failed c (RevokeWriter q) d = isl (fst (force_revoke_global_writer c q d))"
| "failed c (AppendReceipt f) d = isl (fst (append_receipt c f d))"
| "failed c (CreateSeal q) d = isl (fst (create_evaluator_artifact_seal c q d))"
| "failed c (FinishAttempt q) d = isl (fst (finish_agent_attempt c q d))"
| "failed c (RegisterEvaluation q) d = isl (fst (register_evaluation_result c q d))"
| "failed c (BindCandidate q) d = isl (fst (bind_precommit_candidate c q d))"
| "failed c (RegisterCandidateVerification r f) d = isl (fst (register_candidate_verification c r f d))"
| "failed c (BeginCandidateAttempt q) d = isl (fst (begin_candidate_evaluator_attempt c q d))"
| "failed c (RegisterCandidateEvaluation r f) d = isl (fst (register_candidate_evaluation c r f d))"
| "failed c (CreateCandidateSeal q) d = isl (fst (create_candidate_evaluator_artifact_seal c q d))"
| "failed c (BindCandidateApproval q) d = isl (fst (bind_candidate_approval c q d))"
| "failed c (PrepareCommit q plan) d = isl (fst (prepare_candidate_commit c q plan d))"
| "failed c (CloseCommit q applied) d = isl (fst (close_candidate_to_commit c q applied d))"

text \<open>The shape of the operations: a transaction and a read back that succeeds after a change.\<close>

lemma read_back:
  assumes "isl (fst (precheck m (\<lambda>x d. reading (g x) (transaction c (b x) d)) d))"
    and "\<And>x a d'. m = Inr x \<Longrightarrow> b x d = Inr (a, d') \<Longrightarrow> d' \<noteq> d \<Longrightarrow> \<not> isl (g x a d')"
  shows "snd (precheck m (\<lambda>x d. reading (g x) (transaction c (b x) d)) d) = d"
proof (cases m)
  case (Inr x)
  show ?thesis
  proof (cases "fst (transaction c (b x) d)")
    case (Inl e)
    with Inr transaction_fails [OF Inl] show ?thesis by (simp add: precheck_def)
  next
    case fst: (Inr a)
    from fst_transaction [OF this] have "b x d = Inr (a, snd (transaction c (b x) d))" by simp
    from assms(2) [OF Inr this] assms(1) Inr fst show ?thesis
      by (auto simp: precheck_def reading_def)
  qed
qed (simp add: precheck_def)

section \<open>What is there to read back\<close>

lemma isl_get [simp]:
  "isl (get_execution i d) \<longleftrightarrow> find_execution i d = None"
  "isl (get_slice i d) \<longleftrightarrow> find_slice i d = None"
  "isl (get_authority d) \<longleftrightarrow> authority d = None"
  "isl (get_attempt i d) \<longleftrightarrow> find_attempt i d = None"
  "isl (get_approval i d) \<longleftrightarrow> find_approval i d = None"
  "isl (get_context i d) \<longleftrightarrow> find_context i d = None"
  "isl (get_verification i d) \<longleftrightarrow> find_verification i d = None"
  "isl (get_seal i d) \<longleftrightarrow> find_seal i d = None"
  "isl (get_evaluation i d) \<longleftrightarrow> find_evaluation i d = None"
  "isl (get_binding i d) \<longleftrightarrow> find_binding i d = None"
  by (simp_all add: get_execution_def get_slice_def get_authority_def get_attempt_def get_approval_def
      get_context_def get_verification_def get_seal_def get_evaluation_def get_binding_def of_option_def split: option.split)

lemma execution_stays:
  assumes "(exec_step K)\<^sup>*\<^sup>* (exec_view d) (exec_view d')" and "find_execution i d \<noteq> None"
  shows "find_execution i d' \<noteq> None"
proof -
  obtain m es m' es' where v: "exec_view d = (m, es)" "exec_view d' = (m', es')" by (meson prod.exhaust)
  from assms(2) obtain r where "find_execution i d = Some r" by auto
  with identity_along [of K m es m' es' i r] assms(1) run_row [OF this] v show ?thesis
    by (auto simp: exec_view_def)
qed

lemma slice_stays:
  assumes "slice_step\<^sup>=\<^sup>= (slice_view d) (slice_view d')" and "find_slice i d \<noteq> None"
  shows "find_slice i d' \<noteq> None"
proof -
  from assms(2) obtain r where r: "r \<in> set (slices d)" "sc_id r = i"
    by (auto simp: find_slice_def dest: find_SomeD)
  from assms(1) have "slice_step\<^sup>*\<^sup>* (slices d, slice_events d) (slice_view d')"
    by (auto simp: slice_view_def)
  from binding_along [OF this r(1)] r(2) have "\<exists>r'\<in>set (slices d'). sc_id r' = i"
    by (auto simp: slice_view_def binding_later_def)
  then show ?thesis by (auto simp: find_slice_def find_eq_None)
qed

lemma approval_stays:
  assumes "approval_step\<^sup>=\<^sup>= (approval_view d) (approval_view d')" and "find_approval i d \<noteq> None"
  shows "find_approval i d' \<noteq> None"
proof -
  from assms(2) obtain p where "approval_view d i = Some p" by (auto simp: approval_view_def)
  moreover have "approval_step\<^sup>*\<^sup>* (approval_view d) (approval_view d')" using assms(1) by auto
  ultimately show ?thesis using approval_along by (fastforce simp: approval_view_def)
qed

text \<open>The execution a body works on is there before, so it is there afterwards.\<close>

lemma execution_present:
  "heartbeat_body c i1 v1 owner1 g1 ttl1 d = Inr (u1, d') \<Longrightarrow> d' \<noteq> d \<Longrightarrow> find_execution i1 d' \<noteq> None"
  "release_lease_body c q2 d = Inr (u2, d') \<Longrightarrow> d' \<noteq> d \<Longrightarrow> find_execution (uq_execution_id q2) d' \<noteq> None"
  "transition_body c q3 d = Inr (u3, d') \<Longrightarrow> d' \<noteq> d \<Longrightarrow> find_execution (tq_execution_id q3) d' \<noteq> None"
  "register_result_body c q4 d = Inr (u4, d') \<Longrightarrow> d' \<noteq> d \<Longrightarrow> find_execution (cq_execution_id q4) d' \<noteq> None"
  "schedule_rework_body c q5 d = Inr (u5, d') \<Longrightarrow> d' \<noteq> d \<Longrightarrow> find_execution (wq_execution_id q5) d' \<noteq> None"
  "authorize_high_rework_body c q7 d = Inr (u7, d') \<Longrightarrow> d' \<noteq> d \<Longrightarrow> find_execution (hq_execution_id q7) d' \<noteq> None"
  "human_rework_body c q8 d = Inr (u8, d') \<Longrightarrow> d' \<noteq> d \<Longrightarrow> find_execution (jq_execution_id q8) d' \<noteq> None"
  "accept_body c q9 ids9 d = Inr (u9, d') \<Longrightarrow> d' \<noteq> d \<Longrightarrow> find_execution (kq_execution_id q9) d' \<noteq> None"
  "finalize_body c q10 d = Inr (u10, d') \<Longrightarrow> d' \<noteq> d \<Longrightarrow> find_execution (fq_execution_id q10) d' \<noteq> None"
  by (frule fenced_bodies exec_refines, rule execution_stays, erule exec_refines, force)+

lemma lease_present:
  "acquire_lease_body c q d = Inr (u, d') \<Longrightarrow> d' \<noteq> d \<Longrightarrow> find_execution (lq_execution_id q) d' \<noteq> None"
  apply (frule acquire_lease_refines)
  apply (erule execution_stays)
  unfolding acquire_lease_body_def Let_def
  apply (elim step_elims; clarsimp simp: success)
  done

text \<open>Rows that a body inserted are found under the key it answers with.\<close>

lemma insert_event_finds: "insert_event c n e d = Inr d' \<Longrightarrow> find_execution i d' = find_execution i d"
  by (drule insert_event_Inr(1)) (simp add: find_execution_def)

lemma created_present:
  "create_execution_body c x key root d = Inr (u, d') \<Longrightarrow> d' \<noteq> d \<Longrightarrow> find_execution u d' \<noteq> None"
  unfolding create_execution_body_def Let_def
  by (elim body_elims; clarsimp)
    (simp add: insert_event_finds execution_table.get_put created_execution_def)

lemma evidence_present:
  "context_body c q1 s1 d = Inr (u1, d') \<Longrightarrow> d' \<noteq> d \<Longrightarrow> find_context (cx_id u1) d' \<noteq> None"
  "verification_body y2 d = Inr (u2, d') \<Longrightarrow> d' \<noteq> d \<Longrightarrow> find_verification (vr_id u2) d' \<noteq> None"
  "attempt_body c q3 d = Inr (u3, d') \<Longrightarrow> d' \<noteq> d \<Longrightarrow> find_attempt (at_id u3) d' \<noteq> None"
  "request_approval_body c q4 d = Inr (u4, d') \<Longrightarrow> d' \<noteq> d \<Longrightarrow> find_approval (ap_id u4) d' \<noteq> None"
  unfolding context_body_def verification_body_def attempt_body_def request_approval_body_def Let_def
  by (elim step_elims; clarsimp;
      (drule context_table.get_put_same verification_table.get_put_same attempt_table.get_put_same
        approval_table.get_put_same)?; simp; fail)+

lemma resolved_present:
  "resolve_approval_body c a i ref approved fence d = Inr (u, d') \<Longrightarrow> d' \<noteq> d \<Longrightarrow> find_approval a d' \<noteq> None"
  apply (frule resolve_approval_refines)
  apply (erule approval_stays)
  unfolding resolve_approval_body_def Let_def
  apply (elim step_elims; clarsimp simp: success)
  done

lemma slice_present:
  "reconcile_slice_body c q payload d = Inr (u, d') \<Longrightarrow> d' \<noteq> d \<Longrightarrow> find_slice (sl_id (sq_target q)) d' \<noteq> None"
proof (cases "find_slice (sl_id (sq_target q)) d")
  case None
  assume "reconcile_slice_body c q payload d = Inr (u, d')" "d' \<noteq> d"
  with None show ?thesis
    unfolding reconcile_slice_body_def Let_def
    by (elim step_elims; clarsimp simp: success) (drule slice_table.get_put_same, simp)
next
  case (Some r)
  assume "reconcile_slice_body c q payload d = Inr (u, d')"
  from slice_stays [OF reconcile_slice_refines [OF this]] Some show ?thesis by simp
qed

lemma authority_present:
  "reconcile_authority_body c v slice rollback d = Inr (u, d') \<Longrightarrow> authority d' \<noteq> None"
  unfolding reconcile_authority_body_def Let_def update_authority_def
  by (elim step_elims; clarsimp simp: success split: option.splits if_split_asm)

text \<open>The deferred operations answer with several rows.\<close>

lemma bind_present:
  assumes "bind_body c q root d = Inr (u, d')" and "d' \<noteq> d"
  shows "find_execution (xc_execution_id (bq_spec q)) d' \<noteq> None"
    and "find_slice (xc_slice_id (bq_spec q)) d' \<noteq> None" and "find_context (bq_context_id q) d' \<noteq> None"
proof -
  let ?x = "bq_spec q" and ?now = "clock c 1"
  obtain r target d1 d2 d3 d4 e k se where
    cur: "bind_current c q root d = Inr (r, target)"
    and w: "insert_execution (created_execution ?x (bq_operation_key q) root ?now) d = Inr d1"
      "insert_event c 0 e d1 = Inr d2" "insert_context k d2 = Inr d3" "cx_id k = bq_context_id q"
    and s: "insert_slice_event se d3 = Inr d4"
      "cas_slice (xc_slice_id ?x) (bq_expected_version q) target ?now d4 = Inr d'"
    using assms unfolding bind_body_def bind_writes_def Let_def
    by (elim body_elims; clarsimp)
  obtain n where upd: "update_slices (\<lambda>x. sc_id x = xc_slice_id ?x \<and> sc_state_version x = bq_expected_version q)
      (set_slice_fields target ?now) d4 = Inr (d', n)"
    using cas_slice_Inr [OF s(2)] by blast
  have same: "executions d' = executions d3" "contexts d' = contexts d3" "executions d3 = executions d2"
    using update_slices_Inr(1) [OF upd] insert_slice_event_Inr(1) [OF s(1)] insert_context_Inr(2) [OF w(3)] by simp_all
  show "find_execution (xc_execution_id ?x) d' \<noteq> None"
    using execution_table.get_put_same [OF w(1)] insert_event_finds [OF w(2)] same
    by (simp add: find_execution_def created_execution_def)
  show "find_context (bq_context_id q) d' \<noteq> None"
    using context_table.get_put_same [OF w(3)] w(4) same by (simp add: find_context_def)
  have "find_slice (xc_slice_id ?x) d \<noteq> None"
    using cur unfolding bind_current_def by (elim step_elims) simp_all
  then show "find_slice (xc_slice_id ?x) d' \<noteq> None"
    by (rule slice_stays [OF bind_refines_slices [OF assms(1)]])
qed

lemma finalized_present:
  "finalize_body c q d = Inr ((sid, replayed), d') \<Longrightarrow> find_slice sid d' \<noteq> None"
proof -
  assume body: "finalize_body c q d = Inr ((sid, replayed), d')"
  then have "\<exists>s. slice_running (fq_execution_id q) d = Some s \<and> sid = sc_id s"
    unfolding finalize_body_def finalize_guard_def Let_def
    by (elim step_elims; clarsimp simp: success)
  then obtain s where "s \<in> set (slices d)" "sc_id s = sid"
    unfolding slice_running_def by (auto dest: find_SomeD)
  then have "find_slice sid d \<noteq> None" by (auto simp: find_slice_def find_eq_None)
  then show ?thesis by (rule slice_stays [OF finalize_refines_slices [OF body]])
qed

lemma released_present:
  assumes "release_body c q d = Inr (u, d')" and "d' \<noteq> d"
  shows "find_execution (gq_execution_id q) d' \<noteq> None" and "find_slice (gq_slice_id q) d' \<noteq> None"
proof -
  obtain r s where "release_guard q d = Inr (r, s)"
    using assms unfolding release_body_def by (elim step_elims; clarsimp)
  then have "find_execution (gq_execution_id q) d \<noteq> None" "find_slice (gq_slice_id q) d \<noteq> None"
    unfolding release_guard_def Let_def by (elim step_elims; clarsimp simp: success)+
  then show "find_execution (gq_execution_id q) d' \<noteq> None" "find_slice (gq_slice_id q) d' \<noteq> None"
    using execution_stays [OF release_binding_refines [OF assms(1)]]
      slice_stays [OF release_refines_slices [OF assms(1)]] by blast+
qed

lemma receipt_present:
  "receipt_body c f d = Inr (u, d') \<Longrightarrow> receipt_shape f = Inr v \<Longrightarrow> \<not> isl (receipt_ack c f d')"
  by (simp add: receipt_acknowledged)

text \<open>Sealed and candidate evidence: inserted rows, and rows that were there and stay.\<close>

lemma finish_row_survives:
  assumes "update_attempts p (finish_row q s) d = Inr (d', n)"
  shows "find_attempt i d' = None \<longleftrightarrow> find_attempt i d = None"
  using attempt_table.get_modify [OF assms] by (simp add: finish_row_def split: option.split)

lemma evaluator_present:
  "create_seal_body c q1 d = Inr (u1, d') \<Longrightarrow> d' \<noteq> d \<Longrightarrow> find_seal (zr_id u1) d' \<noteq> None"
  "finish_body c q2 s2 d = Inr (u2, d') \<Longrightarrow> d' \<noteq> d \<Longrightarrow> find_attempt (qf_attempt_id q2) d' \<noteq> None"
  "evaluation_body c q3 r3 d = Inr (u3, d') \<Longrightarrow> d' \<noteq> d \<Longrightarrow> find_evaluation (er_id u3) d' \<noteq> None"
proof -
  show "create_seal_body c q1 d = Inr (u1, d') \<Longrightarrow> d' \<noteq> d \<Longrightarrow> find_seal (zr_id u1) d' \<noteq> None"
    unfolding create_seal_body_def Let_def
    by (elim step_elims; clarsimp; (drule seal_table.get_put_same)?; simp)
  show "evaluation_body c q3 r3 d = Inr (u3, d') \<Longrightarrow> d' \<noteq> d \<Longrightarrow> find_evaluation (er_id u3) d' \<noteq> None"
    unfolding evaluation_body_def Let_def
    by (elim step_elims; clarsimp; (drule evaluation_table.get_put_same)?; simp)
  show "finish_body c q2 s2 d = Inr (u2, d') \<Longrightarrow> d' \<noteq> d \<Longrightarrow> find_attempt (qf_attempt_id q2) d' \<noteq> None"
    unfolding finish_body_def Let_def
    by (elim step_elims; clarsimp simp: success; (drule finish_row_survives [where i = "qf_attempt_id q2"])?; auto)
qed

lemma bound_candidate_present:
  assumes "bind_candidate_body c q d = Inr (u, d')"
  shows "find_binding u d' \<noteq> None"
proof -
  obtain d1 d2 n p pa fa where
    b: "find_binding u d1 \<noteq> None" and w: "insert_provenance p d1 = Inr d2" "update_attempts pa fa d2 = Inr (d', n)"
    using assms unfolding bind_candidate_body_def Let_def
    by (elim fenced_body_InrE exE conjE step_elims; clarsimp)
      (force dest: binding_table.get_put_same find_SomeD simp: find_binding_def find_eq_None)+
  have "candidate_bindings d' = candidate_bindings d1"
    using update_attempts_Inr [OF w(2)] insert_candidate_Inr(2) [OF w(1)] by simp
  with b show ?thesis by (simp add: find_binding_def)
qed

section \<open>No trace\<close>

lemmas present = execution_present lease_present created_present evidence_present resolved_present

lemma not_isl_bnd: "\<not> isl m \<Longrightarrow> (\<And>x. m = Inr x \<Longrightarrow> \<not> isl (f x)) \<Longrightarrow> \<not> isl (bnd m f)"
  by (cases m) auto

lemma single_read_back:
  "isl (fst (create_execution c x1 key1 d)) \<Longrightarrow> snd (create_execution c x1 key1 d) = d"
  "isl (fst (acquire_lease c q2 d)) \<Longrightarrow> snd (acquire_lease c q2 d) = d"
  "isl (fst (heartbeat c i3 v3 owner3 g3 ttl3 d)) \<Longrightarrow> snd (heartbeat c i3 v3 owner3 g3 ttl3 d) = d"
  "isl (fst (release_lease c q4 d)) \<Longrightarrow> snd (release_lease c q4 d) = d"
  "isl (fst (transition c q5 d)) \<Longrightarrow> snd (transition c q5 d) = d"
  "isl (fst (register_result_commit c q6 d)) \<Longrightarrow> snd (register_result_commit c q6 d) = d"
  "isl (fst (schedule_rework c q7 d)) \<Longrightarrow> snd (schedule_rework c q7 d) = d"
  "isl (fst (register_context_snapshot c q8 d)) \<Longrightarrow> snd (register_context_snapshot c q8 d) = d"
  "isl (fst (register_verification_result c q9 d)) \<Longrightarrow> snd (register_verification_result c q9 d) = d"
  "isl (fst (register_agent_attempt c q10 d)) \<Longrightarrow> snd (register_agent_attempt c q10 d) = d"
  "isl (fst (request_approval c q11 d)) \<Longrightarrow> snd (request_approval c q11 d) = d"
  "isl (fst (authorize_high_rework c q12 d)) \<Longrightarrow> snd (authorize_high_rework c q12 d) = d"
  "isl (fst (schedule_human_authorized_rework c q13 d)) \<Longrightarrow> snd (schedule_human_authorized_rework c q13 d) = d"
  "isl (fst (accept_execution c q14 d)) \<Longrightarrow> snd (accept_execution c q14 d) = d"
  unfolding operation_defs
  by (erule read_back, drule (1) present, simp; fail)+

lemma resolve_read_back:
  assumes "isl (fst (resolve_approval c a i ref approved fence d))"
  shows "snd (resolve_approval c a i ref approved fence d) = d"
  using read_back [of "Inr ()" "\<lambda>_ _. get_approval a" c "\<lambda>_. resolve_approval_body c a i ref approved fence" d]
    resolved_present [of c a i ref approved fence d] assms
  by (simp add: resolve_approval_def precheck_def)

lemma slice_read_back:
  assumes "isl (fst (reconcile_slice_control_state c q d))"
  shows "snd (reconcile_slice_control_state c q d) = d"
  using assms unfolding reconcile_slice_control_state_def
  by (rule read_back) (drule (1) slice_present, rule not_isl_bnd; simp)

lemma authority_read_back:
  assumes "isl (fst (reconcile_transitional_authority c v slice rollback d))"
  shows "snd (reconcile_transitional_authority c v slice rollback d) = d"
  using assms unfolding reconcile_transitional_authority_def
  by (rule read_back) (drule authority_present, rule not_isl_bnd; simp)

lemma bind_read_back:
  assumes "isl (fst (bind_deferred_execution c q d))"
  shows "snd (bind_deferred_execution c q d) = d"
  using assms unfolding bind_deferred_execution_def
  by (rule read_back) (frule (1) bind_present(1), frule (1) bind_present(2), drule (1) bind_present(3),
    intro not_isl_bnd; simp)

lemma finalize_read_back:
  assumes "isl (fst (finalize_deferred_result_commit c q d))"
  shows "snd (finalize_deferred_result_commit c q d) = d"
  using assms unfolding finalize_deferred_result_commit_def
proof (rule read_back)
  fix u a d'
  assume body: "finalize_body c q d = Inr (a, d')" and "d' \<noteq> d"
  obtain sid replayed where a: "a = (sid, replayed)" by (cases a)
  from execution_present(9) [OF body] \<open>d' \<noteq> d\<close> finalized_present [OF body [unfolded a]]
  show "\<not> isl ((case a of (sid, replayed) \<Rightarrow> \<lambda>d'. bnd (get_execution (fq_execution_id q) d') (\<lambda>r.
      bnd (get_slice sid d') (\<lambda>s. Inr (r, s, replayed)))) d')"
    unfolding a prod.case by (intro not_isl_bnd; simp)
qed

lemma release_read_back:
  assumes "isl (fst (release_deferred_preexecution_binding c q d))"
  shows "snd (release_deferred_preexecution_binding c q d) = d"
  using assms unfolding release_deferred_preexecution_binding_def
  by (rule read_back) (frule (1) released_present(1), drule (1) released_present(2),
    simp only: split_beta, intro not_isl_bnd; simp)

lemma receipt_read_back:
  assumes "isl (fst (append_receipt c f d))"
  shows "snd (append_receipt c f d) = d"
  using assms unfolding append_receipt_def
  by (rule read_back) (auto simp: success dest: receipt_present)

lemma evaluator_read_back:
  "isl (fst (create_evaluator_artifact_seal c q1 d)) \<Longrightarrow> snd (create_evaluator_artifact_seal c q1 d) = d"
  "isl (fst (finish_agent_attempt c q2 d)) \<Longrightarrow> snd (finish_agent_attempt c q2 d) = d"
  "isl (fst (register_evaluation_result c q3 d)) \<Longrightarrow> snd (register_evaluation_result c q3 d) = d"
  "isl (fst (bind_precommit_candidate c q4 d)) \<Longrightarrow> snd (bind_precommit_candidate c q4 d) = d"
  unfolding create_evaluator_artifact_seal_def finish_agent_attempt_def register_evaluation_result_def
    bind_precommit_candidate_def
  by (erule read_back; simp add: evaluator_present bound_candidate_present; fail)+

text \<open>A read that answers with an option cannot fail.\<close>

lemma reading_found: "isl (fst (reading (\<lambda>a d1. Inr (g a d1)) (transaction c b d))) \<Longrightarrow> snd (transaction c b d) = d"
  using transaction_fails [of c b d] by (auto simp: reading_def isl_def split: sum.splits)

lemma candidate_read_back:
  "isl (fst (register_candidate_verification c r1 f1 d)) \<Longrightarrow> snd (register_candidate_verification c r1 f1 d) = d"
  "isl (fst (begin_candidate_evaluator_attempt c q2 d)) \<Longrightarrow> snd (begin_candidate_evaluator_attempt c q2 d) = d"
  "isl (fst (register_candidate_evaluation c r3 f3 d)) \<Longrightarrow> snd (register_candidate_evaluation c r3 f3 d) = d"
  "isl (fst (create_candidate_evaluator_artifact_seal c q4 d)) \<Longrightarrow> snd (create_candidate_evaluator_artifact_seal c q4 d) = d"
  "isl (fst (bind_candidate_approval c q5 d)) \<Longrightarrow> snd (bind_candidate_approval c q5 d) = d"
  "isl (fst (prepare_candidate_commit c q6 plan6 d)) \<Longrightarrow> snd (prepare_candidate_commit c q6 plan6 d) = d"
  "isl (fst (close_candidate_to_commit c q7 applied7 d)) \<Longrightarrow> snd (close_candidate_to_commit c q7 applied7 d) = d"
  unfolding register_candidate_verification_def begin_candidate_evaluator_attempt_def
    register_candidate_evaluation_def create_candidate_evaluator_artifact_seal_def bind_candidate_approval_def
    prepare_candidate_commit_def close_candidate_to_commit_def precheck_def
  by (auto split: sum.splits dest: reading_found; fail)+

lemma transition_authority_trace:
  "isl (fst (transition_authority c q d)) \<Longrightarrow> snd (transition_authority c q d) = d"
  unfolding transition_authority_def
  by (rule precheck_cases [of "authority_validate q" "\<lambda>_. transaction c (transition_authority_body c q)" d])
    (auto simp: isl_def dest: transaction_fails)

lemma failed_without_trace: "ordinary k \<Longrightarrow> failed c k d \<Longrightarrow> perform c k d = d"
  by (cases k) (simp_all add: single_read_back resolve_read_back slice_read_back authority_read_back
    bind_read_back finalize_read_back release_read_back receipt_read_back transition_authority_trace
    evaluator_read_back candidate_read_back)

end
