(* ===== verification/Scenario.thy ===== *)
theory Scenario
  imports Fencing
begin

text \<open>
  A concrete environment and a short concrete life of one execution, at which the properties of
  the development are instantiated.
\<close>

definition demo_key :: "nat \<Rightarrow> string" where
  "demo_key n = replicate 62 (CHR ''0'') @ [''0123456789abcdef'' ! (n div 16), ''0123456789abcdef'' ! (n mod 16)]"

definition demo_commit :: string where
  "demo_commit = replicate 40 (CHR ''c'')"

text \<open>The \<open>n\<close>th call happens \<open>n\<close> seconds after the epoch and draws its own identifiers.\<close>

definition demo_world :: os_world where
  "demo_world = \<lparr>home_of = (\<lambda>_. None), working_directory = ''/'', named_node = (\<lambda>_. None), resolved_node = (\<lambda>_. None)\<rparr>"

definition demo_ctx :: "nat \<Rightarrow> ctx" where
  "demo_ctx n = \<lparr>clock = (\<lambda>_. seconds (int n)), uuid = (\<lambda>k. ''event-'' @ replicate n (CHR ''n'') @ replicate k (CHR ''k'')),
     sha = (\<lambda>_. demo_key 7), julian = id, text_julian = (\<lambda>_. True), resolve = (\<lambda>p. Inr p),
     is_dir = (\<lambda>_. True), git_toplevel = (\<lambda>p. Some p), world = demo_world, guard_required = False, bound_authority = None\<rparr>"

definition demo_create :: execution_create where
  "demo_create = \<lparr>xc_execution_id = ''x1'', xc_slice_id = ''s1'', xc_risk_level = NORMAL,
     xc_environment = TEST, xc_contract_fingerprint = demo_key 1, xc_authority_fingerprint = demo_key 2,
     xc_source_root = ''/repo'', xc_branch = ''main'', xc_base_commit = demo_commit,
     xc_current_actor_role = CONTROLLER\<rparr>"

definition demo_lease :: lease_request where
  "demo_lease = \<lparr>lq_execution_id = ''x1'', lq_expected_version = 0, lq_operation_key = demo_key 4,
     lq_owner = ''controller-1'', lq_ttl_seconds = 300\<rparr>"

text \<open>A transition of the demo execution under its lease.\<close>

definition demo_transition :: "nat \<Rightarrow> int \<Rightarrow> exec_state \<Rightarrow> transition_request" where
  "demo_transition n v to = \<lparr>tq_execution_id = ''x1'', tq_expected_version = v,
     tq_operation_key = demo_key n, tq_to_state = to, tq_actor_role = CONTROLLER,
     tq_actor_id = ''controller-1'', tq_owner = ''controller-1'', tq_generation = 1,
     tq_resume_state = None, tq_blocker_code = None, tq_blocker_detail = None,
     tq_reason_code = ''STEP'', tq_reason_detail = None, tq_fence = None\<rparr>"

text \<open>The demo execution under the lease of its first generation, in a state and version.\<close>

definition demo_row :: "exec_state \<Rightarrow> int \<Rightarrow> execution_row" where
  "demo_row st v = (created_execution demo_create (demo_key 3) ''/repo'' (seconds 1))\<lparr>
     ex_state := st, ex_state_version := v, ex_lease_owner := Some ''controller-1'',
     ex_lease_generation := 1, ex_lease_expires_at := Some (seconds 302), ex_updated_at := seconds 2\<rparr>"

definition demo_db :: "exec_state \<Rightarrow> int \<Rightarrow> db" where
  "demo_db st v = initial_db\<lparr>executions := [demo_row st v]\<rparr>"

definition demo_approval :: approval_row where
  "demo_approval = \<lparr>ap_id = ''a1'', ap_idempotency_key = demo_key 20, ap_execution_id = ''x1'',
     ap_approval_type = ''HIGH_REWORK'', ap_required = 1, ap_status = PENDING, ap_authority_ref = ''ref'',
     ap_requested_at = seconds 3, ap_resolved_at = None, ap_consumed_at = None\<rparr>"

text \<open>A deferred slice, unbound and bound to the demo execution.\<close>

definition demo_deferred :: slice_target where
  "demo_deferred = \<lparr>sl_id = ''s1'', sl_stage = ''E2'', sl_status = ''READY'',
     sl_migration_class = ''DEFER_BINDING'', sl_execution_eligibility = ''INELIGIBLE_UNTIL_PREFLIGHT'',
     sl_defer_reason = Some ''PREFLIGHT'', sl_logical_source_root = ''/repo'', sl_repository_toplevel = None,
     sl_branch = None, sl_base_commit = None, sl_implementation_result_commit = None,
     sl_current_branch_head = None, sl_active_execution_id = None, sl_authority_fingerprint = demo_key 7\<rparr>"

definition demo_bound :: slice_target where
  "demo_bound = demo_deferred\<lparr>sl_execution_eligibility := ''ELIGIBLE_PREEXECUTION_BOUND'',
     sl_defer_reason := None, sl_repository_toplevel := Some ''/repo'', sl_branch := Some ''main'',
     sl_base_commit := Some demo_commit, sl_current_branch_head := Some demo_commit,
     sl_active_execution_id := Some ''x1''\<rparr>"

definition demo_slice :: slice_row where
  "demo_slice = \<lparr>sc_fields = demo_bound, sc_state_version = 1, sc_created_at = seconds 0, sc_updated_at = seconds 1\<rparr>"

section \<open>The facts an evaluation of the demo needs\<close>

lemma demo_key_ok [simp]: "n < 256 \<Longrightarrow> length (demo_key n) = 64 \<and> is_lower_hex (demo_key n)"
proof -
  assume n: "n < 256"
  have hex: "k < 16 \<Longrightarrow> ''0123456789abcdef'' ! k \<in> set ''0123456789abcdef''" for k
    by (rule nth_mem) simp
  have "''0123456789abcdef'' ! (n div 16) \<in> set ''0123456789abcdef''"
      "''0123456789abcdef'' ! (n mod 16) \<in> set ''0123456789abcdef''"
    by (rule hex, use n in simp)+
  moreover have "CHR ''0'' \<in> set ''0123456789abcdef''" by code_simp
  moreover have "set (demo_key n) \<subseteq> {CHR ''0'', ''0123456789abcdef'' ! (n div 16), ''0123456789abcdef'' ! (n mod 16)}"
    unfolding demo_key_def by auto
  ultimately have "\<forall>c\<in>set (demo_key n). c \<in> set ''0123456789abcdef''" by blast
  then show ?thesis by (simp only: is_lower_hex_def list_all_iff) (simp add: demo_key_def)
qed

lemma demo_key_inject: "m < 256 \<Longrightarrow> n < 256 \<Longrightarrow> demo_key m = demo_key n \<longleftrightarrow> m = n"
proof -
  have digits: "\<forall>a<16. \<forall>b<16. ''0123456789abcdef'' ! a = ''0123456789abcdef'' ! b \<longrightarrow> a = (b::nat)" by code_simp
  assume "m < 256" "n < 256"
  then have b: "m div 16 < 16" "m mod 16 < 16" "n div 16 < 16" "n mod 16 < 16" by simp_all
  show ?thesis
  proof
    assume "demo_key m = demo_key n"
    then have "m div 16 = n div 16" "m mod 16 = n mod 16"
      unfolding demo_key_def using digits b by auto
    then show "m = n" by (metis div_mult_mod_eq)
  qed simp
qed

lemma demo_key_sql [simp]: "n < 256 \<Longrightarrow> sql_length (demo_key n) = 64"
  by (simp del: One_nat_def)

lemma demo_commit_ok [simp]: "length demo_commit = 40" "is_lower_hex demo_commit" "sql_length demo_commit = 40"
  by code_simp+

lemma demo_found [simp]: "find_execution ''x1'' (demo_db st v) = Some (demo_row st v)"
  by (simp add: find_execution_def demo_db_def demo_row_def created_execution_def demo_create_def)

lemma demo_check: "0 \<le> v \<Longrightarrow> st \<notin> {WAITING_APPROVAL, BLOCKED, ACCEPTED, DESIGN_ESCALATION}
    \<Longrightarrow> execution_check (demo_row st v)"
  by (auto simp: demo_row_def created_execution_def demo_create_def execution_check_def)

lemma demo_row_simps [simp]:
  "ex_id (demo_row st v) = ''x1''" "ex_state (demo_row st v) = st" "ex_state_version (demo_row st v) = v"
  "ex_lease_owner (demo_row st v) = Some ''controller-1''" "ex_lease_generation (demo_row st v) = 1"
  "ex_lease_expires_at (demo_row st v) = Some (seconds 302)" "ex_resume_state (demo_row st v) = None"
  "ex_risk_level (demo_row st v) = NORMAL"
  by (simp_all add: demo_row_def created_execution_def demo_create_def)

lemma demo_unguarded [simp]: "begin_guard (demo_ctx n) d = Inr ()"
  by (simp add: begin_guard_def demo_ctx_def)

lemma demo_clock [simp]: "clock (demo_ctx n) k = seconds (int n)" "julian (demo_ctx n) = id"
  by (simp_all add: demo_ctx_def)

lemma demo_transition_simps [simp]:
  "tq_execution_id (demo_transition n v st) = ''x1''" "tq_expected_version (demo_transition n v st) = v"
  "tq_operation_key (demo_transition n v st) = demo_key n" "tq_to_state (demo_transition n v st) = st"
  "tq_actor_role (demo_transition n v st) = CONTROLLER" "tq_actor_id (demo_transition n v st) = ''controller-1''"
  "tq_owner (demo_transition n v st) = ''controller-1''" "tq_generation (demo_transition n v st) = 1"
  "tq_resume_state (demo_transition n v st) = None" "tq_blocker_code (demo_transition n v st) = None"
  "tq_blocker_detail (demo_transition n v st) = None" "tq_reason_code (demo_transition n v st) = ''STEP''"
  "tq_reason_detail (demo_transition n v st) = None" "tq_fence (demo_transition n v st) = None"
  by (simp_all add: demo_transition_def)

lemma demo_db_simps [simp]:
  "executions (demo_db st v) = [demo_row st v]" "events (demo_db st v) = []" "approvals (demo_db st v) = []"
  "attempts (demo_db st v) = []" "contexts (demo_db st v) = []" "slices (demo_db st v) = []"
  "slice_events (demo_db st v) = []" "authority (demo_db st v) = Some initial_authority"
  by (simp_all add: demo_db_def initial_db_def)

text \<open>Statements on a database with one execution and an empty log.\<close>

lemma single_cas:
  assumes "executions d = [r]" and "ex_id r = i" and "ex_state_version r = v" and "execution_check (f r)"
  shows "cas_execution i v f d = Inr (d\<lparr>executions := [f r]\<rparr>)"
  using assms
  by (simp add: cas_execution_def update_at_version_def update_executions_def update_where_def row_count_def
      open_keys_def Let_def One_nat_def)

lemma single_event:
  assumes "find_execution (ev_execution_id e) d \<noteq> None" and "events d = []" and "event_check e"
  shows "\<exists>x. insert_event c n e d = Inr (d\<lparr>events := [x]\<rparr>)"
  using assms by (auto simp: insert_event_def insert_event_row_def find_execution_def event_check_def)

end
