(* ===== verification/Operation_Properties.thy ===== *)
theory Operation_Properties
  imports Atomicity Scenario
begin

text \<open>
  The properties of single operations: what a success has checked and done, and what is refused.
  Each is instantiated at the demo scenario.
\<close>

section \<open>Reading an operation off its answer\<close>

lemma succeeded:
  "precheck m (\<lambda>x d. reading (g x) (transaction c (b x) d)) d = (Inr y, d')
     \<Longrightarrow> \<exists>x a. m = Inr x \<and> begin_guard c d = Inr () \<and> b x d = Inr (a, d') \<and> g x a d' = Inr y"
proof (cases m)
  case (Inr x)
  assume "precheck m (\<lambda>x d. reading (g x) (transaction c (b x) d)) d = (Inr y, d')"
  with Inr have op: "reading (g x) (transaction c (b x) d) = (Inr y, d')" by (simp add: precheck_def)
  then obtain a where "fst (transaction c (b x) d) = Inr a" "g x a d' = Inr y" "snd (transaction c (b x) d) = d'"
    by (auto simp: reading_def split: sum.splits)
  with fst_transaction [of c "b x" d a] Inr show ?thesis by auto
qed (simp add: precheck_def)

lemma succeed:
  "m = Inr x \<Longrightarrow> begin_guard c d = Inr () \<Longrightarrow> b x d = Inr (a, d') \<Longrightarrow> g x a d' = Inr y
     \<Longrightarrow> precheck m (\<lambda>x d. reading (g x) (transaction c (b x) d)) d = (Inr y, d')"
  by (simp add: precheck_def transaction_def transaction_unchecked_def reading_def)

text \<open>An update at a version and an event: what is left of the other rows.\<close>

lemma logged_cas_effect:
  assumes "find_execution i d = Some r" and "ex_state_version r = v"
    and "cas_execution i v f d = Inr d1" and "insert_event c k e d1 = Inr d2"
    and key: "\<And>x. ex_id (f x) = ex_id x"
  shows "find_execution l d2 = (if l = i then Some (f r) else find_execution l d)"
    and "\<exists>a n. events d2 = events d @ [e\<lparr>ev_event_id := a, ev_seq := n\<rparr>]"
    and "execution_check (f r)"
proof -
  obtain n where upd: "update_at_version i v f d = Inr (d1, n)" using cas_execution_Inr [OF assms(3)] by blast
  show "find_execution l d2 = (if l = i then Some (f r) else find_execution l d)"
    using update_at_version_Inr(1) [OF upd key, of l] insert_event_finds [OF assms(4), of l] assms(1,2)
    by (auto split: option.split)
  show "\<exists>a n. events d2 = events d @ [e\<lparr>ev_event_id := a, ev_seq := n\<rparr>]"
    using insert_event_Inr(1) [OF assms(4)] update_at_version_Inr(2) [OF upd key] by auto
  show "execution_check (f r)" by (rule update_at_version_Inr(3) [OF upd key assms(1,2)])
qed

section \<open>Transitions\<close>

lemma transition_writes:
  assumes "transition c q d = (Inr r', d')" and "d' \<noteq> d"
  shows "\<exists>r e. find_execution (tq_execution_id q) d = Some r
    \<and> fence_held r (tq_owner q) (tq_generation q) (clock c 1) \<and> ex_state_version r = tq_expected_version q
    \<and> may_become (ex_state r) (ex_resume_state r) (tq_to_state q) (tq_resume_state q)
    \<and> r' = transition_update q (clock c 1) r \<and> execution_check r'
    \<and> (\<forall>i. find_execution i d' = (if i = tq_execution_id q then Some r' else find_execution i d))
    \<and> events d' = events d @ [e] \<and> moved {} r r' e
    \<and> ev_operation_key e = tq_operation_key q \<and> ev_metadata_json e = dumps (transition_request_json q)
    \<and> ev_event_type e = transition_event_type q
    \<and> (\<forall>x\<in>set (events d). \<not> (ev_execution_id x = tq_execution_id q \<and> ev_operation_key x = tq_operation_key q))"
proof -
  from succeeded [OF assms(1) [unfolded transition_def]] obtain a where
    body: "transition_body c q d = Inr (a, d')" and r': "find_execution (tq_execution_id q) d' = Some r'"
    by (auto simp: success)
  let ?now = "clock c 1" and ?i = "tq_execution_id q"
  let ?e = "\<lambda>r. event_from (transition_event_type q) r (tq_operation_key q) (tq_to_state q) (tq_actor_role q)
      (tq_actor_id q) (tq_generation q) (tq_reason_code q) (tq_reason_detail q) (dumps (transition_request_json q)) ?now"
  obtain r d1 where r: "find_execution ?i d = Some r" "ex_state_version r = tq_expected_version q"
      "fence_held r (tq_owner q) (tq_generation q) ?now"
      "may_become (ex_state r) (ex_resume_state r) (tq_to_state q) (tq_resume_state q)"
    and new: "existing_event ?i (tq_operation_key q) (transition_event_type q) (dumps (transition_request_json q)) d = Inr None"
    and w: "cas_execution ?i (tq_expected_version q) (transition_update q ?now) d = Inr d1"
      "insert_event c 0 (?e r) d1 = Inr d'"
    using body assms(2) unfolding transition_body_def Let_def
    by (elim step_elims; clarsimp simp: success validate_transition_iff)
  note eff = logged_cas_effect [OF r(1,2) w]
  have key: "ex_id (transition_update q ?now x) = ex_id x" for x by (simp add: transition_update_def)
  from eff(1) [OF key, of ?i] r' have upd: "r' = transition_update q ?now r" by simp
  from eff(2) [OF key] obtain x n where e: "events d' = events d @ [(?e r)\<lparr>ev_event_id := x, ev_seq := n\<rparr>]" by blast
  define ev where "ev = (?e r)\<lparr>ev_event_id := x, ev_seq := n\<rparr>"
  have "moved {} r r' (?e r)"
    unfolding upd by (rule transition_moved [OF r(4,3) eff(3) [OF key]])
  then have "moved {} r r' ev" "ev_operation_key ev = tq_operation_key q"
      "ev_metadata_json ev = dumps (transition_request_json q)" "ev_event_type ev = transition_event_type q"
    unfolding ev_def by (simp only: moved_event, simp_all add: event_from_def)
  with r upd e [folded ev_def] eff(1,3) [OF key] new [unfolded existing_event_None] show ?thesis
    by (intro exI [of _ r] exI [of _ ev]) simp
qed

text \<open>The demo transition, evaluated.\<close>

lemma demo_verifying:
  "\<exists>r' d'. transition (demo_ctx 3) (demo_transition 5 1 VERIFYING) (demo_db MAKER_RUNNING 1) = (Inr r', d')
     \<and> d' \<noteq> demo_db MAKER_RUNNING 1"
proof -
  let ?q = "demo_transition 5 1 VERIFYING" and ?r = "demo_row MAKER_RUNNING 1"
  let ?d1 = "(demo_db MAKER_RUNNING 1)\<lparr>executions := [transition_update ?q (seconds 3) ?r]\<rparr>"
  have "\<exists>e. insert_event (demo_ctx 3) 0 (event_from STATE_TRANSITION ?r (demo_key 5) VERIFYING CONTROLLER
      ''controller-1'' 1 ''STEP'' None (dumps (transition_request_json ?q)) (seconds 3)) ?d1
      = Inr (?d1\<lparr>events := [e]\<rparr>)"
    by (rule single_event) (simp_all add: transition_update_def event_check_def event_from_def find_execution_def)
  then obtain e where e: "insert_event (demo_ctx 3) 0 (event_from STATE_TRANSITION ?r (demo_key 5) VERIFYING CONTROLLER
      ''controller-1'' 1 ''STEP'' None (dumps (transition_request_json ?q)) (seconds 3)) ?d1
      = Inr (?d1\<lparr>events := [e]\<rparr>)" ..
  have "execution_check (transition_update ?q (seconds 3) ?r)"
    using demo_check [of 1 MAKER_RUNNING] by (auto simp: execution_check_def transition_update_def)
  then have "transition_body (demo_ctx 3) ?q (demo_db MAKER_RUNNING 1) = Inr ((), ?d1\<lparr>events := [e]\<rparr>)"
    using e unfolding transition_body_def Let_def
    by (simp add: optional_fence_def existing_event_def get_execution_def require_fence_def validate_transition_def
        blocker_ok_def single_cas transition_event_type_def seconds_def)
  then have "transition (demo_ctx 3) ?q (demo_db MAKER_RUNNING 1)
      = (Inr (transition_update ?q (seconds 3) ?r), ?d1\<lparr>events := [e]\<rparr>)"
    unfolding transition_def
    by (intro succeed) (simp_all add: transition_validate_def require_sha256_def get_execution_def find_execution_def
        transition_update_def)
  then show ?thesis by (intro exI conjI) (auto dest: arg_cong [where f = events])
qed

text \<open>
  C20. A transition that takes effect was made under a live lease of the caller, at the version
  it expected, along an edge of the state machine; it writes exactly the requested state, logs
  exactly one event with the canonical request, and touches no other execution.
\<close>

theorem transition_effect:
  assumes "transition c q d = (Inr r', d')" and "d' \<noteq> d"
  shows "\<exists>r e. find_execution (tq_execution_id q) d = Some r
    \<and> fence_held r (tq_owner q) (tq_generation q) (clock c 1) \<and> ex_state_version r = tq_expected_version q
    \<and> may_become (ex_state r) (ex_resume_state r) (tq_to_state q) (tq_resume_state q)
    \<and> r' = transition_update q (clock c 1) r \<and> execution_check r'
    \<and> (\<forall>i. find_execution i d' = (if i = tq_execution_id q then Some r' else find_execution i d))
    \<and> events d' = events d @ [e] \<and> moved {} r r' e
    \<and> ev_operation_key e = tq_operation_key q \<and> ev_metadata_json e = dumps (transition_request_json q)"
  using transition_writes [OF assms] by blast

theorem transition_effect_witness:
  "\<exists>r' d' r e. transition (demo_ctx 3) (demo_transition 5 1 VERIFYING) (demo_db MAKER_RUNNING 1) = (Inr r', d')
    \<and> ex_state r' = VERIFYING \<and> ex_state_version r' = 2 \<and> events d' = [e] \<and> moved {} r r' e"
proof -
  from demo_verifying obtain r' d' where
    t: "transition (demo_ctx 3) (demo_transition 5 1 VERIFYING) (demo_db MAKER_RUNNING 1) = (Inr r', d')"
    and "d' \<noteq> demo_db MAKER_RUNNING 1" by blast
  from transition_effect [OF this] show ?thesis
    using t by (auto simp: transition_update_def)
qed

text \<open>The event of a transition is found under its key in every later state.\<close>

lemma find_appended:
  "(\<forall>x\<in>set xs. \<not> p x) \<Longrightarrow> p e \<Longrightarrow> find p (xs @ e # ys) = Some e"
  by (induction xs) auto

lemma transition_stays_logged:
  assumes "transition c q d = (Inr r', d')" and "d' \<noteq> d"
  shows "\<exists>e. find (\<lambda>e. ev_execution_id e = tq_execution_id q \<and> ev_operation_key e = tq_operation_key q)
      (events (run j calls d')) = Some e
    \<and> ev_event_type e = transition_event_type q \<and> ev_metadata_json e = dumps (transition_request_json q)"
proof -
  from transition_writes [OF assms] obtain r e where
    e: "events d' = events d @ [e]" "ev_operation_key e = tq_operation_key q"
      "ev_metadata_json e = dumps (transition_request_json q)" "ev_event_type e = transition_event_type q"
      "moved {} r r' e" "find_execution (tq_execution_id q) d = Some r"
    and new: "\<forall>x\<in>set (events d). \<not> (ev_execution_id x = tq_execution_id q \<and> ev_operation_key x = tq_operation_key q)"
    by blast
  have "extends (events d') (events (run j calls d'))"
    using extends_star [where log = snd, OF step_extends(1) run_exec [where d = d' and j = j and calls = calls]]
    by (simp add: exec_view_def)
  with e(1) obtain later where "events (run j calls d') = events d @ e # later" by (auto simp: extends_iff)
  moreover have "ev_execution_id e = tq_execution_id q"
    using e(5) execution_table.get_key [OF e(6)] by (simp add: moved_def)
  ultimately show ?thesis using find_appended [OF new] e by auto
qed

text \<open>Canonical requests of the same shape are equal when their texts are.\<close>

lemma same_text_same_members:
  "plain a \<Longrightarrow> plain b \<Longrightarrow> dumps a = dumps b \<Longrightarrow> map_option canon (member k a) = map_option canon (member k b)"
  using member_canon [of a k] member_canon [of b k] dumps_injective [of a b] by simp

lemma loads_object:
  assumes "plain (JObj kvs)"
  obtains m where "loads (dumps (JObj kvs)) = Some (JObj m)" and "\<And>k. map_of m k = map_option canon (map_of kvs k)"
proof
  show "loads (dumps (JObj kvs)) = Some (JObj (map canon_member (sort_key fst kvs)))"
    using loads_dumps [OF assms] unfolding canon_JObj .
  show "map_of (map canon_member (sort_key fst kvs)) k = map_option canon (map_of kvs k)" for k
    using member_canon [OF assms, of k] unfolding canon_JObj member.simps .
qed

lemma map_state_value_inject [simp]: "map_option state_value a = map_option state_value b \<longleftrightarrow> a = b"
  by (cases a; cases b) auto

lemma plain_transition_request: "plain (transition_request_json q)"
  by (simp add: transition_request_json_def)

lemma transition_request_inject:
  assumes "dumps (transition_request_json q) = dumps (transition_request_json q')"
    and "tq_operation_key q = tq_operation_key q'" and "tq_fence q = tq_fence q'"
  shows "q = q'"
proof -
  note same = same_text_same_members [OF plain_transition_request plain_transition_request assms(1)]
  from same [of "''execution_id''"] same [of "''expected_state_version''"] same [of "''to_state''"]
    same [of "''actor_role''"] same [of "''actor_id''"] same [of "''lease_owner''"] same [of "''lease_generation''"]
    same [of "''resume_state''"] same [of "''blocker_code''"] same [of "''blocker_detail''"]
    same [of "''reason_code''"] same [of "''reason_detail''"] assms(2,3)
  show ?thesis by (intro transition_request.equality) (simp_all add: transition_request_json_def)
qed

text \<open>A fence that names a version the execution has left refuses, whatever else it holds.\<close>

lemma outdated_fence:
  assumes "find_execution i d = Some r" and "cf_execution_id f = i" and "cf_expected_version f < ex_state_version r"
  shows "\<exists>e. optional_fence c n i (Some f) True d = Inl e
    \<and> (fence_held r (cf_owner f) (cf_generation f) (clock c n) \<longrightarrow> e = StoreError ''STALE_STATE_VERSION'')"
proof -
  have held: "require_fence r (cf_owner f) (cf_generation f) (clock c n) = Inr () \<longleftrightarrow> fence_held r (cf_owner f) (cf_generation f) (clock c n)"
    by (simp add: success)
  show ?thesis
    using assms held
    by (cases "require_fence r (cf_owner f) (cf_generation f) (clock c n)")
      (auto simp: optional_fence_def require_candidate_fence_def get_execution_def simp del: success)
qed

lemma transition_fence_version:
  assumes "transition c q d = (Inr r', d')" and "d' \<noteq> d" and "tq_fence q = Some f"
  shows "cf_execution_id f = tq_execution_id q" and "cf_expected_version f < ex_state_version r'"
proof -
  from transition_writes [OF assms(1,2)] obtain r where
    r: "find_execution (tq_execution_id q) d = Some r" "r' = transition_update q (clock c 1) r" by blast
  from succeeded [OF assms(1) [unfolded transition_def]] obtain a where "transition_body c q d = Inr (a, d')" by auto
  from optional_fenced_bodies(1) [OF this] assms(3) obtain r0 where
    fence: "require_candidate_fence c 2 (tq_execution_id q) f True d = Inr r0"
    by (auto simp: optional_fence_def elim!: bnd_InrE)
  from require_candidate_fence_Inr(1,2,4) [OF fence] r
  show "cf_execution_id f = tq_execution_id q" and "cf_expected_version f < ex_state_version r'"
    by (simp_all add: transition_update_def)
qed

text \<open>
  C25. What a transition that has taken effect does when it is repeated, in any later state and
  whatever happened in between, once the writer guard lets the repetition begin: it changes nothing.
  Without a candidate write fence it succeeds, so the call is idempotent. With one it is refused,
  for the fence names the version before the transition; as long as the lease of the fence is held the
  refusal is \<open>STALE_STATE_VERSION\<close>.
\<close>

theorem transition_replay:
  assumes "transition c q d = (Inr r', d')" and "d' \<noteq> d" and "begin_guard c' (run j calls d') = Inr ()"
  shows "\<exists>r''. find_execution (tq_execution_id q) (run j calls d') = Some r'' \<and>
    (case tq_fence q of
       None \<Rightarrow> transition c' q (run j calls d') = (Inr r'', run j calls d')
     | Some f \<Rightarrow> \<exists>e. transition c' q (run j calls d') = (Inl e, run j calls d')
         \<and> (fence_held r'' (cf_owner f) (cf_generation f) (clock c' 2) \<longrightarrow> e = StoreError ''STALE_STATE_VERSION''))"
proof -
  let ?d = "run j calls d'" and ?i = "tq_execution_id q"
  from transition_writes [OF assms(1,2)] have "find_execution ?i d' = Some r'" by auto
  from run_version [OF this] obtain r'' where
    r'': "find_execution ?i ?d = Some r''" "ex_state_version r' \<le> ex_state_version r''" by blast
  have valid: "transition_validate q = Inr ()"
    using succeeded [OF assms(1) [unfolded transition_def]] by auto
  show ?thesis
  proof (cases "tq_fence q")
    case None
    from transition_stays_logged [OF assms(1,2), of j calls] obtain e where
      "find (\<lambda>e. ev_execution_id e = ?i \<and> ev_operation_key e = tq_operation_key q) (events ?d) = Some e"
      "ev_event_type e = transition_event_type q" "ev_metadata_json e = dumps (transition_request_json q)" by blast
    then have "transition_body c' q ?d = Inr ((), ?d)"
      by (simp add: transition_body_def Let_def existing_event_def optional_fence_def None)
    then have "transition c' q ?d = (Inr r'', ?d)"
      unfolding transition_def using valid assms(3) r'' by (intro succeed) (simp_all add: get_execution_def)
    with r'' None show ?thesis by simp
  next
    case (Some f)
    from transition_fence_version [OF assms(1,2) Some] r'' outdated_fence [OF r''(1), of f c' 2] obtain e where
      e: "optional_fence c' 2 ?i (Some f) True ?d = Inl e"
        "fence_held r'' (cf_owner f) (cf_generation f) (clock c' 2) \<longrightarrow> e = StoreError ''STALE_STATE_VERSION''" by auto
    then have "transition_body c' q ?d = Inl e" by (simp add: transition_body_def Let_def Some)
    then have "transition c' q ?d = (Inl e, ?d)"
      using valid assms(3) by (simp add: transition_def precheck_def transaction_def transaction_unchecked_def reading_def)
    with r'' e Some show ?thesis by auto
  qed
qed

theorem transition_replay_witness:
  "\<exists>r' d' r''. transition (demo_ctx 3) (demo_transition 5 1 VERIFYING) (demo_db MAKER_RUNNING 1) = (Inr r', d')
    \<and> transition (demo_ctx 8) (demo_transition 5 1 VERIFYING)
        (run id [(demo_ctx 4, Transition (demo_transition 6 2 EVALUATING))] d')
      = (Inr r'', run id [(demo_ctx 4, Transition (demo_transition 6 2 EVALUATING))] d')"
proof -
  from demo_verifying obtain r' d' where
    t: "transition (demo_ctx 3) (demo_transition 5 1 VERIFYING) (demo_db MAKER_RUNNING 1) = (Inr r', d')"
      "d' \<noteq> demo_db MAKER_RUNNING 1" by blast
  from transition_replay [OF this, of "demo_ctx 8" id "[(demo_ctx 4, Transition (demo_transition 6 2 EVALUATING))]"] t(1)
  show ?thesis by (auto simp: demo_ctx_def begin_guard_def demo_transition_def)
qed

text \<open>
  An operation key belongs to one request: any other transition request of the same
  execution under a key that has taken effect is refused as a conflict, in every later state.
\<close>

lemma transition_key_conflict:
  assumes "transition c q d = (Inr r', d')" and "d' \<noteq> d" and "tq_fence q = None" and "\<not> guard_required c'"
    and "transition_validate q' = Inr ()" and "tq_fence q' = None"
    and "tq_execution_id q' = tq_execution_id q" and "tq_operation_key q' = tq_operation_key q" and "q' \<noteq> q"
  shows "transition c' q' (run j calls d') = (Inl (StoreError ''IDEMPOTENCY_CONFLICT''), run j calls d')"
proof -
  let ?d = "run j calls d'"
  from transition_stays_logged [OF assms(1,2), of j calls] obtain e where
    "find (\<lambda>e. ev_execution_id e = tq_execution_id q \<and> ev_operation_key e = tq_operation_key q) (events ?d) = Some e"
    "ev_metadata_json e = dumps (transition_request_json q)" by blast
  moreover have "dumps (transition_request_json q) \<noteq> dumps (transition_request_json q')"
    using transition_request_inject [of q q'] assms by auto
  ultimately have "transition_body c' q' ?d = Inl (StoreError ''IDEMPOTENCY_CONFLICT'')"
    by (simp add: transition_body_def Let_def existing_event_def optional_fence_def assms(6-8))
  then show ?thesis
    using assms(4,5) by (simp add: transition_def precheck_def transaction_def transaction_unchecked_def
        begin_guard_def reading_def)
qed

end
