(* ===== verification/Lease_Properties.thy ===== *)
theory Lease_Properties
  imports Operation_Properties
begin

text \<open>
  The properties of execution leases and of the two ways to rework: what excludes a second
  holder, what an acquisition does, the automatic budget and the human-authorised exception.
\<close>

section \<open>Leases\<close>

lemma changed_commits: "perform c k d \<noteq> d \<Longrightarrow> commits c k d (perform c k d)"
  by (rule perform_cases(1))

text \<open>
  A live lease excludes every other acquisition: while an execution's lease has an owner and
  has not expired on the caller's clock, acquiring it changes nothing.
\<close>

lemma live_lease_excludes:
  assumes "find_execution (lq_execution_id q) d = Some r" and "ex_lease_owner r \<noteq> None"
    and "ex_lease_expires_at r = Some t" and "clock c 1 < t"
  shows "perform c (AcquireLease q) d = d"
proof (rule ccontr)
  assume changed: "perform c (AcquireLease q) d \<noteq> d"
  then obtain u where "acquire_lease_body c q d = Inr (u, perform c (AcquireLease q) d)"
    using changed_commits by fastforce
  with changed assms show False
    unfolding acquire_lease_body_def Let_def by (elim step_elims; clarsimp simp: success)
qed

lemma acquire_lease_writes:
  assumes "acquire_lease c q d = (Inr r', d')" and "d' \<noteq> d"
  shows "\<exists>r. find_execution (lq_execution_id q) d = Some r \<and> ex_state r \<notin> terminal_states
    \<and> ex_state_version r = lq_expected_version q
    \<and> (ex_lease_owner r = None \<or> the (ex_lease_expires_at r) \<le> clock c 1)
    \<and> r' = r\<lparr>ex_lease_owner := Some (lq_owner q), ex_lease_generation := ex_lease_generation r + 1,
            ex_lease_expires_at := Some (clock c 1 + seconds (lq_ttl_seconds q)),
            ex_state_version := ex_state_version r + 1, ex_updated_at := clock c 1\<rparr>
    \<and> 15 \<le> lq_ttl_seconds q \<and> lq_ttl_seconds q \<le> 300"
proof -
  from succeeded [OF assms(1) [unfolded acquire_lease_def]] obtain a where
    valid: "acquire_lease_validate q = Inr ()"
    and body: "acquire_lease_body c q d = Inr (a, d')" and r': "find_execution (lq_execution_id q) d' = Some r'"
    by (auto simp: success)
  obtain r d1 e where r: "find_execution (lq_execution_id q) d = Some r" "ex_state_version r = lq_expected_version q"
      "ex_state r \<notin> terminal_states" "ex_lease_owner r = None \<or> \<not> clock c 1 < the (ex_lease_expires_at r)"
    and w: "cas_execution (lq_execution_id q) (lq_expected_version q) (\<lambda>x. x\<lparr>ex_lease_owner := Some (lq_owner q),
          ex_lease_generation := ex_lease_generation r + 1,
          ex_lease_expires_at := Some (clock c 1 + seconds (lq_ttl_seconds q)),
          ex_state_version := ex_state_version x + 1, ex_updated_at := clock c 1\<rparr>) d = Inr d1"
      "insert_event c 0 e d1 = Inr d'"
    using body assms(2) unfolding acquire_lease_body_def Let_def by (elim step_elims; clarsimp simp: success)
  from logged_cas_effect(1) [OF r(1,2) w] r' r valid show ?thesis
    unfolding acquire_lease_validate_def
    by (intro exI [of _ r]) (auto simp: success min_lease_ttl_def max_lease_ttl_def)
qed

text \<open>
  C26. An acquisition that takes effect found a live execution at the expected version whose lease
  was free or expired, and hands the caller the next generation: from then on exactly the caller
  passes the fence, until the expiry.
\<close>

theorem acquire_lease_effect:
  assumes "acquire_lease c q d = (Inr r', d')" and "d' \<noteq> d"
  shows "\<exists>r. find_execution (lq_execution_id q) d = Some r \<and> ex_state r \<notin> terminal_states
    \<and> (ex_lease_owner r = None \<or> the (ex_lease_expires_at r) \<le> clock c 1)
    \<and> ex_lease_generation r' = ex_lease_generation r + 1
    \<and> (\<forall>owner g now. fence_held r' owner g now \<longleftrightarrow> owner = lq_owner q \<and> g = ex_lease_generation r + 1
        \<and> now < clock c 1 + seconds (lq_ttl_seconds q))"
  using acquire_lease_writes [OF assms] by (auto simp: fence_held_def)

lemma demo_relet:
  "\<exists>r' d'. acquire_lease (demo_ctx 400) demo_lease (demo_db VERIFYING 0) = (Inr r', d') \<and> d' \<noteq> demo_db VERIFYING 0"
proof -
  let ?r = "demo_row VERIFYING 0"
  let ?f = "\<lambda>x. x\<lparr>ex_lease_owner := Some ''controller-1'', ex_lease_generation := 2,
          ex_lease_expires_at := Some (seconds 400 + seconds 300),
          ex_state_version := ex_state_version x + 1, ex_updated_at := seconds 400\<rparr>"
  let ?d1 = "(demo_db VERIFYING 0)\<lparr>executions := [?f ?r]\<rparr>"
  have "\<exists>e. insert_event (demo_ctx 400) 0 (event_from LEASE_ACQUIRED ?r (demo_key 4) VERIFYING CONTROLLER
      ''controller-1'' 2 ''LEASE_ACQUIRED'' None (dumps (lease_request_json demo_lease)) (seconds 400)) ?d1
      = Inr (?d1\<lparr>events := [e]\<rparr>)"
    by (rule single_event) (simp_all add: event_check_def event_from_def find_execution_def)
  then obtain e where e: "insert_event (demo_ctx 400) 0 (event_from LEASE_ACQUIRED ?r (demo_key 4) VERIFYING CONTROLLER
      ''controller-1'' 2 ''LEASE_ACQUIRED'' None (dumps (lease_request_json demo_lease)) (seconds 400)) ?d1
      = Inr (?d1\<lparr>events := [e]\<rparr>)" ..
  have cas: "cas_execution ''x1'' 0 ?f (demo_db VERIFYING 0) = Inr ?d1"
    by (rule single_cas) (use demo_check [of 0 VERIFYING] in \<open>auto simp: execution_check_def\<close>)
  have q: "lq_execution_id demo_lease = ''x1''" "lq_expected_version demo_lease = 0" "lq_operation_key demo_lease = demo_key 4"
      "lq_owner demo_lease = ''controller-1''" "lq_ttl_seconds demo_lease = 300"
    by (simp_all add: demo_lease_def)
  have "acquire_lease_body (demo_ctx 400) demo_lease (demo_db VERIFYING 0) = Inr ((), ?d1\<lparr>events := [e]\<rparr>)"
    using e cas unfolding acquire_lease_body_def Let_def
    by (simp add: q existing_event_def get_execution_def terminal_states_def seconds_def)
  then have "acquire_lease (demo_ctx 400) demo_lease (demo_db VERIFYING 0) = (Inr (?f ?r), ?d1\<lparr>events := [e]\<rparr>)"
    unfolding acquire_lease_def
    by (intro succeed) (simp_all add: q acquire_lease_validate_def require_sha256_def min_lease_ttl_def max_lease_ttl_def
        get_execution_def find_execution_def)
  then show ?thesis by (intro exI conjI) (auto dest: arg_cong [where f = events])
qed

theorem acquire_lease_effect_witness:
  "\<exists>r' d'. acquire_lease (demo_ctx 400) demo_lease (demo_db VERIFYING 0) = (Inr r', d') \<and> ex_lease_generation r' = 2
    \<and> fence_held r' ''controller-1'' 2 (seconds 699) \<and> \<not> fence_held r' ''controller-1'' 1 (seconds 500)"
proof -
  from demo_relet obtain r' d' where
    t: "acquire_lease (demo_ctx 400) demo_lease (demo_db VERIFYING 0) = (Inr r', d')" and "d' \<noteq> demo_db VERIFYING 0" by blast
  from acquire_lease_effect [OF this] show ?thesis
    using t by (auto simp: demo_lease_def seconds_def)
qed

section \<open>Automatic reworks\<close>

lemma schedule_rework_counts:
  assumes "perform c (ScheduleRework q) d \<noteq> d"
  shows "\<exists>r r'. find_execution (wq_execution_id q) d = Some r
    \<and> find_execution (wq_execution_id q) (perform c (ScheduleRework q) d) = Some r'
    \<and> ex_maker_rework_count r' = ex_maker_rework_count r + 1"
proof -
  let ?i = "wq_execution_id q" and ?v = "wq_expected_version q" and ?d' = "perform c (ScheduleRework q) d"
  let ?f = "\<lambda>x. x\<lparr>ex_state := MAKER_RUNNING, ex_state_version := ex_state_version x + 1,
      ex_maker_rework_count := ex_maker_rework_count x + 1,
      ex_current_actor_role := CONTROLLER, ex_updated_at := clock c 1\<rparr>"
  obtain u where body: "schedule_rework_body c q d = Inr (u, ?d')"
    using changed_commits [OF assms] by auto
  then obtain r d1 e where r: "find_execution ?i d = Some r" "ex_state_version r = ?v"
    and w: "cas_execution ?i ?v ?f d = Inr d1" "insert_event c 0 e d1 = Inr ?d'"
    using assms unfolding schedule_rework_body_def Let_def by (elim step_elims; clarsimp simp: success)
  from logged_cas_effect(1) [OF r w, of ?i] have "find_execution ?i ?d' = Some (?f r)" by simp
  with r(1) show ?thesis by (intro exI [of _ r] exI [of _ "?f r"]) simp
qed

text \<open>How often a run of calls schedules an automatic rework of an execution: the calls that took effect.\<close>

definition schedules :: "string \<Rightarrow> ctx \<Rightarrow> call \<Rightarrow> db \<Rightarrow> bool" where
  "schedules i c k d \<longleftrightarrow> (case k of ScheduleRework q \<Rightarrow> wq_execution_id q = i \<and> perform c k d \<noteq> d | _ \<Rightarrow> False)"

fun schedulings :: "string \<Rightarrow> (int \<Rightarrow> int) \<Rightarrow> (ctx \<times> call) list \<Rightarrow> db \<Rightarrow> nat" where
  "schedulings i j [] d = 0"
| "schedulings i j ((c, k) # calls) d = (if schedules i (c\<lparr>julian := j\<rparr>) k d then 1 else 0)
     + schedulings i j calls (perform (c\<lparr>julian := j\<rparr>) k d)"

lemma schedulings_snoc: "schedulings i j (calls @ [(c, k)]) d = schedulings i j calls d
    + (if schedules i (c\<lparr>julian := j\<rparr>) k (run j calls d) then 1 else 0)"
  by (induction i j calls d rule: schedulings.induct) simp_all

definition rework_count :: "string \<Rightarrow> db \<Rightarrow> int" where
  "rework_count i d = (case find_execution i d of None \<Rightarrow> 0 | Some r \<Rightarrow> ex_maker_rework_count r)"

lemma reachable_row:
  assumes "find_execution i (run j calls initial_db) = Some r"
  shows "execution_check r" and "explains UNIV (events_of i (run j calls initial_db)) r"
proof -
  let ?d = "run j calls initial_db"
  have "exec_ok UNIV (exec_view ?d)"
    by (rule execution_system.run_keeps [OF run_performed initial_ok(1)])
  from exec_okD(3,4) [OF this [unfolded exec_view_def], of i r] assms
  show "execution_check r" and "explains UNIV (events_of i ?d) r"
    by (simp_all add: events_of_def log_of_def)
qed

lemma rework_limit:
  assumes "execution_check r"
  shows "ex_maker_rework_count r \<le> (if ex_risk_level r = HIGH then 0 else 2)"
proof -
  from assms have "ex_maker_rework_count r \<le> ex_max_auto_reworks r"
    and "ex_risk_level r \<in> {LOW, NORMAL} \<and> ex_max_auto_reworks r = 2 \<or> ex_risk_level r = HIGH \<and> ex_max_auto_reworks r = 0"
    unfolding execution_check_def by simp_all
  then show ?thesis by auto
qed

lemma rework_count_step:
  fixes j calls
  defines "d \<equiv> run j calls initial_db"
  shows "rework_count i d + (if schedules i (c\<lparr>julian := j\<rparr>) k d then 1 else 0)
    \<le> rework_count i (perform (c\<lparr>julian := j\<rparr>) k d)"
proof (cases "schedules i (c\<lparr>julian := j\<rparr>) k d")
  case True
  then obtain q where "k = ScheduleRework q" "wq_execution_id q = i" "perform (c\<lparr>julian := j\<rparr>) (ScheduleRework q) d \<noteq> d"
    by (auto simp: schedules_def split: call.splits)
  with schedule_rework_counts [of "c\<lparr>julian := j\<rparr>" q d] True show ?thesis
    by (auto simp: rework_count_def simp del: perform.simps)
next
  case False
  have next_run: "perform (c\<lparr>julian := j\<rparr>) k d = run j [(c, k)] d" by simp
  show ?thesis
  proof (cases "find_execution i d")
    case None
    have "0 \<le> rework_count i (run j (calls @ [(c, k)]) initial_db)"
      using reachable_row(1) [of i j "calls @ [(c, k)]"]
      by (auto simp: rework_count_def execution_check_def split: option.split)
    with None False show ?thesis by (simp add: rework_count_def run_append d_def)
  next
    case (Some r)
    from run_reworks [OF Some, of j "[(c, k)]"] Some False show ?thesis
      unfolding next_run by (auto simp: rework_count_def)
  qed
qed

text \<open>
  C27. The operation \<open>schedule_rework\<close> takes effect at most twice for an execution of LOW or NORMAL
  risk and never for one of HIGH risk: in every reachable state the calls of it that changed the
  store are no more than the rework count of the execution, which is exactly the number of
  \<open>MAKER_REWORK_SCHEDULED\<close> events with a rework request in its log and stays within the limit of
  its risk. (A plain transition from \<open>REWORK_READY\<close> to \<open>MAKER_RUNNING\<close> is not counted by the code.)
\<close>

theorem automatic_rework_bounded:
  "case find_execution i (run j calls initial_db) of
     None \<Rightarrow> schedulings i j calls initial_db = 0
   | Some r \<Rightarrow> int (schedulings i j calls initial_db) \<le> ex_maker_rework_count r
       \<and> ex_maker_rework_count r = int (length (filter reschedules (events_of i (run j calls initial_db))))
       \<and> ex_maker_rework_count r \<le> (if ex_risk_level r = HIGH then 0 else 2)"
proof -
  have counted: "int (schedulings i j calls initial_db) \<le> rework_count i (run j calls initial_db)"
  proof (induction calls rule: rev_induct)
    case (snoc ck calls)
    obtain c k where ck: "ck = (c, k)" by (cases ck)
    from snoc rework_count_step [of i j calls c k] show ?case
      unfolding ck schedulings_snoc by (simp add: run_append split: if_splits)
  qed (simp add: rework_count_def initial_db_def find_execution_def)
  show ?thesis
  proof (cases "find_execution i (run j calls initial_db)")
    case (Some r)
    from rework_limit [OF reachable_row(1) [OF Some]] explains_reworks [OF reachable_row(2) [OF Some]] counted Some show ?thesis
      by (simp add: rework_count_def)
  qed (use counted in \<open>simp add: rework_count_def\<close>)
qed

end
