(* ===== verification/Rework_Properties.thy ===== *)
theory Rework_Properties
  imports Lease_Properties
begin

text \<open>
  The human-authorised rework of a HIGH-risk execution: what it demands, and that an approval is
  good for one rework only.
\<close>

section \<open>What it demands and does\<close>

lemma human_rework_guard_row:
  assumes "human_rework_guard c q d = Inr (r, e)"
  shows "find_execution (jq_execution_id q) d = Some r" "ex_state_version r = jq_expected_version q"
    "fence_held r (jq_owner q) (jq_generation q) (clock c 1)" "ex_state r = REWORK_READY" "ex_risk_level r = HIGH"
    "\<exists>commit. ex_result_commit r = Some commit \<and> single_completed_maker (jq_execution_id q) commit d = Inr ()"
    "\<exists>p. find_approval (jq_approval_id q) d = Some p \<and> ap_execution_id p = jq_execution_id q
      \<and> ap_approval_type p = ''HIGH_REWORK'' \<and> ap_authority_ref p = jq_authority_ref q
      \<and> ap_status p = APPROVED \<and> ap_consumed_at p = None"
    "latest_authorization (jq_execution_id q) d = Some e" "ev_to_version e = jq_expected_version q"
    "authorization_valid q r e = Inr ()"
  using assms unfolding human_rework_guard_def Let_def
  by (elim step_elims; clarsimp simp: success)+

lemma human_rework_writes:
  assumes "human_rework_body c q d = Inr (u, d')"
  shows "\<exists>r p e. human_rework_guard c q d = Inr (r, e) \<and> find_approval (jq_approval_id q) d = Some p
    \<and> find_approval (jq_approval_id q) d' = Some (p\<lparr>ap_consumed_at := Some (clock c 1)\<rparr>)
    \<and> find_execution (jq_execution_id q) d' = Some (r\<lparr>ex_state := MAKER_RUNNING,
        ex_state_version := ex_state_version r + 1, ex_current_actor_role := CONTROLLER, ex_updated_at := clock c 1\<rparr>)"
proof -
  let ?i = "jq_execution_id q"
  obtain r e d1 d2 n ev where guard: "human_rework_guard c q d = Inr (r, e)"
    and upd: "update_approvals (\<lambda>p. ap_id p = jq_approval_id q \<and> ap_status p = APPROVED \<and> ap_consumed_at p = None)
            (\<lambda>p. p\<lparr>ap_consumed_at := Some (clock c 1)\<rparr>) d = Inr (d1, n)"
    and w: "cas_execution ?i (jq_expected_version q) (\<lambda>x. x\<lparr>ex_state := MAKER_RUNNING,
          ex_state_version := ex_state_version x + 1, ex_current_actor_role := CONTROLLER,
          ex_updated_at := clock c 1\<rparr>) d1 = Inr d2" "insert_event c 0 ev d2 = Inr d'"
    using assms unfolding human_rework_body_def Let_def by (elim step_elims; clarsimp)
  note row = human_rework_guard_row [OF guard]
  from row(7) obtain p where p: "find_approval (jq_approval_id q) d = Some p" "ap_status p = APPROVED" "ap_consumed_at p = None"
    by auto
  have "find_approval (jq_approval_id q) d1 = Some (p\<lparr>ap_consumed_at := Some (clock c 1)\<rparr>)"
    by (rule approval_table.get_modify_hit [OF upd _ p(1)]) (use p approval_table.get_key [OF p(1)] in auto)
  moreover have "approvals d' = approvals d1"
    using approval_frame_compound(1) [OF w(2) approval_frame_compound(3) [OF w(1) keeps_refl]] by (simp add: keeps_def)
  moreover have "find_execution ?i d1 = Some r"
    using row(1) update_approvals_Inr [OF upd] by (simp add: find_execution_def)
  ultimately show ?thesis
    using guard p logged_cas_effect(1) [OF _ row(2) w, of ?i] by (simp add: find_approval_def)
qed

text \<open>
  C28. The operation \<open>schedule_human_authorized_rework\<close> sends an execution back to its Maker only on
  human authority: a call of it that succeeds found a HIGH-risk execution ready for rework under the
  caller's lease, with a single completed Maker attempt for its result, an approved and unconsumed
  \<open>HIGH_REWORK\<close> approval under the cited authority, and the logged authorisation of exactly its
  current version; it consumes that approval. (It is not the only way from \<open>REWORK_READY\<close> to
  \<open>MAKER_RUNNING\<close>: a plain transition takes that edge of the table without any approval.)
\<close>

theorem human_rework_effect:
  assumes "schedule_human_authorized_rework c q d = (Inr r', d')"
  shows "\<exists>r p e. find_execution (jq_execution_id q) d = Some r \<and> ex_risk_level r = HIGH \<and> ex_state r = REWORK_READY
    \<and> fence_held r (jq_owner q) (jq_generation q) (clock c 1)
    \<and> (\<exists>commit. ex_result_commit r = Some commit \<and> single_completed_maker (jq_execution_id q) commit d = Inr ())
    \<and> find_approval (jq_approval_id q) d = Some p \<and> ap_execution_id p = jq_execution_id q
    \<and> ap_approval_type p = ''HIGH_REWORK'' \<and> ap_authority_ref p = jq_authority_ref q
    \<and> ap_status p = APPROVED \<and> ap_consumed_at p = None
    \<and> find_approval (jq_approval_id q) d' = Some (p\<lparr>ap_consumed_at := Some (clock c 1)\<rparr>)
    \<and> e \<in> set (events d) \<and> ev_reason_code e = ''HUMAN_AUTHORIZED_HIGH_REWORK''
    \<and> ev_to_version e = ex_state_version r \<and> authorization_valid q r e = Inr ()
    \<and> ex_state r' = MAKER_RUNNING \<and> ex_state_version r' = ex_state_version r + 1"
proof -
  from succeeded [OF assms [unfolded schedule_human_authorized_rework_def]] obtain a where
    body: "human_rework_body c q d = Inr (a, d')" and r': "find_execution (jq_execution_id q) d' = Some r'"
    by (auto simp: success)
  from human_rework_writes [OF body] obtain r p e where guard: "human_rework_guard c q d = Inr (r, e)"
    and p: "find_approval (jq_approval_id q) d = Some p"
      "find_approval (jq_approval_id q) d' = Some (p\<lparr>ap_consumed_at := Some (clock c 1)\<rparr>)"
    and new: "find_execution (jq_execution_id q) d' = Some (r\<lparr>ex_state := MAKER_RUNNING,
        ex_state_version := ex_state_version r + 1, ex_current_actor_role := CONTROLLER, ex_updated_at := clock c 1\<rparr>)"
    by blast
  note row = human_rework_guard_row [OF guard]
  have "e \<in> set (events d)" "ev_reason_code e = ''HUMAN_AUTHORIZED_HIGH_REWORK''"
    using row(8) unfolding latest_authorization_def by (auto dest: find_last_SomeD)
  with row p new r' show ?thesis by (intro exI [of _ r] exI [of _ p] exI [of _ e]) auto
qed

text \<open>
  C29. One approval, one rework: once an approval has been consumed by a human-authorised rework,
  every later scheduling under it, of any execution, changes nothing.
\<close>

theorem human_rework_once:
  assumes "schedule_human_authorized_rework c q d = (Inr r', d')" and "jq_approval_id q' = jq_approval_id q"
  shows "perform c' (ScheduleHumanRework q') (run j calls d') = run j calls d'"
proof (rule ccontr)
  let ?d = "run j calls d'"
  assume changed: "perform c' (ScheduleHumanRework q') ?d \<noteq> ?d"
  from succeeded [OF assms(1) [unfolded schedule_human_authorized_rework_def]] obtain a where
    "human_rework_body c q d = Inr (a, d')" by auto
  from human_rework_writes [OF this] obtain p where
    "approval_view d' (jq_approval_id q) = Some (p\<lparr>ap_consumed_at := Some (clock c 1)\<rparr>)"
    by (auto simp: approval_view_def)
  from approval_along [OF run_approvals this, of j calls] obtain p' where
    p': "find_approval (jq_approval_id q) ?d = Some p'" "ap_consumed_at p' \<noteq> None"
    by (auto simp: approval_view_def approval_later_def)
  obtain u where "human_rework_body c' q' ?d = Inr (u, perform c' (ScheduleHumanRework q') ?d)"
    using changed_commits [OF changed] by auto
  from human_rework_writes [OF this] obtain r e where "human_rework_guard c' q' ?d = Inr (r, e)" by blast
  from human_rework_guard_row(7) [OF this] assms(2) p' show False by auto
qed

section \<open>The demo rework\<close>

definition demo_high_row :: execution_row where
  "demo_high_row = (demo_row REWORK_READY 5)\<lparr>ex_risk_level := HIGH, ex_max_auto_reworks := 0,
     ex_result_commit := Some demo_commit\<rparr>"

definition demo_maker :: attempt_row where
  "demo_maker = \<lparr>at_id = ''m1'', at_operation_key = demo_key 30, at_execution_id = ''x1'', at_role = Maker,
     at_attempt_no = 1, at_model = ''m'', at_reasoning_effort = ''high'', at_session_mode = ''FRESH'',
     at_session_id = ''session-1'', at_sandbox_mode = ''workspace-write'', at_context_id = ''k1'',
     at_base_commit = demo_commit, at_result_commit = Some demo_commit, at_status = SUCCEEDED,
     at_exit_code = Some 0, at_stdout_artifact = None, at_stdout_sha256 = None, at_stderr_artifact = None,
     at_stderr_sha256 = None, at_result_artifact = None, at_result_sha256 = None, at_failure_code = None,
     at_started_at = ''t3'', at_ended_at = Some ''t4''\<rparr>"

definition demo_disposition :: high_rework_request where
  "demo_disposition = \<lparr>hq_execution_id = ''x1'', hq_expected_version = 3, hq_resume_key = demo_key 31,
     hq_ready_key = demo_key 32, hq_approval_id = ''a1'', hq_authority_ref = ''ref'', hq_verification_id = ''v1'',
     hq_result_commit = demo_commit, hq_contract_fingerprint = demo_key 1, hq_authority_fingerprint = demo_key 2,
     hq_owner = ''controller-1'', hq_generation = 1, hq_actor_id = ''controller-1''\<rparr>"

text \<open>The log ends with the authorisation of version 5 by the approved disposition.\<close>

definition demo_authorization :: event_row where
  "demo_authorization = (event_from STATE_TRANSITION ((demo_row VERIFYING 4)) (demo_key 32) REWORK_READY CONTROLLER
     ''controller-1'' 1 ''HUMAN_AUTHORIZED_HIGH_REWORK'' None
     (dumps (high_rework_json demo_disposition ''rework_ready'')) (seconds 5))\<lparr>ev_seq := 1\<rparr>"

definition demo_high_db :: db where
  "demo_high_db = (demo_db REWORK_READY 5)\<lparr>executions := [demo_high_row], attempts := [demo_maker],
     approvals := [demo_approval\<lparr>ap_status := APPROVED, ap_resolved_at := Some (seconds 4)\<rparr>],
     events := [demo_authorization]\<rparr>"

definition demo_rework :: human_rework_request where
  "demo_rework = \<lparr>jq_execution_id = ''x1'', jq_expected_version = 5, jq_operation_key = demo_key 33,
     jq_approval_id = ''a1'', jq_authority_ref = ''ref'', jq_owner = ''controller-1'', jq_generation = 1,
     jq_actor_id = ''controller-1''\<rparr>"

lemma demo_high_found: "find_execution ''x1'' demo_high_db = Some demo_high_row"
  by (simp add: find_execution_def demo_high_db_def demo_high_row_def)

lemma demo_authorization_valid: "authorization_valid demo_rework demo_high_row demo_authorization = Inr ()"
proof -
  have "plain (high_rework_json demo_disposition ''rework_ready'')"
    by (simp add: high_rework_json_def)
  from loads_object [OF this [unfolded high_rework_json_def]] obtain m where
    m: "loads (dumps (high_rework_json demo_disposition ''rework_ready'')) = Some (JObj m)"
      "\<And>k. map_of m k = map_option canon (member k (high_rework_json demo_disposition ''rework_ready''))"
    unfolding high_rework_json_def by auto
  have "ev_metadata_json demo_authorization = dumps (high_rework_json demo_disposition ''rework_ready'')"
    by (simp add: demo_authorization_def event_from_def)
  with m show ?thesis
    by (simp add: authorization_valid_def high_rework_json_def demo_disposition_def demo_rework_def demo_high_row_def
        demo_row_def created_execution_def demo_create_def)
qed

lemma demo_reworked: "\<exists>r' d'. schedule_human_authorized_rework (demo_ctx 6) demo_rework demo_high_db = (Inr r', d')"
proof -
  let ?a = "demo_approval\<lparr>ap_status := APPROVED, ap_resolved_at := Some (seconds 4)\<rparr>"
  let ?d1 = "demo_high_db\<lparr>approvals := [?a\<lparr>ap_consumed_at := Some (seconds 6)\<rparr>]\<rparr>"
  let ?f = "\<lambda>x. x\<lparr>ex_state := MAKER_RUNNING, ex_state_version := ex_state_version x + 1,
      ex_current_actor_role := CONTROLLER, ex_updated_at := seconds 6\<rparr>"
  let ?d2 = "?d1\<lparr>executions := [?f demo_high_row]\<rparr>"
  have q: "jq_execution_id demo_rework = ''x1''" "jq_expected_version demo_rework = 5" "jq_approval_id demo_rework = ''a1''"
      "jq_authority_ref demo_rework = ''ref''" "jq_owner demo_rework = ''controller-1''" "jq_generation demo_rework = 1"
      "jq_operation_key demo_rework = demo_key 33" "jq_actor_id demo_rework = ''controller-1''"
    by (simp_all add: demo_rework_def)
  have row: "ex_state_version demo_high_row = 5" "ex_risk_level demo_high_row = HIGH" "ex_max_auto_reworks demo_high_row = 0"
      "ex_maker_rework_count demo_high_row = 0" "ex_state demo_high_row = REWORK_READY"
      "ex_result_commit demo_high_row = Some demo_commit" "ex_lease_owner demo_high_row = Some ''controller-1''"
      "ex_lease_generation demo_high_row = 1" "ex_lease_expires_at demo_high_row = Some (seconds 302)" "ex_id demo_high_row = ''x1''"
    by (simp_all add: demo_high_row_def) (simp_all add: demo_row_def created_execution_def)
  have event: "ev_to_version demo_authorization = 5" "ev_execution_id demo_authorization = ''x1''"
      "ev_reason_code demo_authorization = ''HUMAN_AUTHORIZED_HIGH_REWORK''" "ev_operation_key demo_authorization = demo_key 32"
      "ev_seq demo_authorization = 1" "ev_event_id demo_authorization = []"
    by (simp_all add: demo_authorization_def event_from_def)
  have "single_completed_maker ''x1'' demo_commit demo_high_db = Inr ()"
    by (simp add: single_completed_maker_def demo_high_db_def demo_maker_def)
  moreover have "get_approval ''a1'' demo_high_db = Inr ?a"
    by (simp add: get_approval_def find_approval_def demo_high_db_def demo_approval_def)
  moreover have "latest_authorization ''x1'' demo_high_db = Some demo_authorization"
    using event by (simp add: latest_authorization_def demo_high_db_def find_last_def)
  ultimately have guard: "human_rework_guard (demo_ctx 6) demo_rework demo_high_db = Inr (demo_high_row, demo_authorization)"
    using demo_authorization_valid demo_high_found
    unfolding human_rework_guard_def Let_def q
    by (simp add: get_execution_def row event require_fence_def seconds_def) (simp add: demo_approval_def q)
  have upd: "update_approvals (\<lambda>p. ap_id p = ''a1'' \<and> ap_status p = APPROVED \<and> ap_consumed_at p = None)
      (\<lambda>p. p\<lparr>ap_consumed_at := Some (seconds 6)\<rparr>) demo_high_db = Inr (?d1, 1)"
    by (simp add: update_approvals_def demo_high_db_def demo_approval_def approval_check_def update_where_def row_count_def One_nat_def)
  have check: "execution_check (?f demo_high_row)"
    using demo_check [of 6 MAKER_RUNNING] by (simp add: execution_check_def demo_high_row_def demo_row_def created_execution_def)
  have cas: "cas_execution ''x1'' 5 ?f ?d1 = Inr ?d2"
    using single_cas [of ?d1 demo_high_row "''x1''" 5 ?f] check row by (simp add: demo_high_db_def)
  define e where "e = event_from STATE_TRANSITION demo_high_row (demo_key 33) MAKER_RUNNING CONTROLLER ''controller-1'' 1
      ''HUMAN_AUTHORIZED_MAKER_REWORK_SCHEDULED'' None (dumps (human_rework_json demo_rework 1)) (seconds 6)"
  have e: "ev_execution_id e = ''x1''" "ev_operation_key e = demo_key 33" "ev_to_version e = 6" "event_check (e\<lparr>ev_event_id := x\<rparr>)" for x
    by (simp_all add: e_def event_from_def row event_check_def)
  have "uuid (demo_ctx 6) 0 \<noteq> []" by (simp add: demo_ctx_def)
  then have "\<exists>x. insert_event (demo_ctx 6) 0 e ?d2 = Inr x"
    using e row event by (simp add: insert_event_def insert_event_row_def demo_high_db_def find_execution_def demo_key_inject)
  then obtain d' where ins: "insert_event (demo_ctx 6) 0 e ?d2 = Inr d'" ..
  have "human_rework_body (demo_ctx 6) demo_rework demo_high_db = Inr ((), d')"
    unfolding human_rework_body_def Let_def q guard demo_clock bnd_simps prod.case
    using upd cas ins by (simp add: e_def event)
  moreover have "get_execution ''x1'' d' = Inr (?f demo_high_row)"
    using insert_event_finds [OF ins, of "''x1''"] row by (simp add: get_execution_def find_execution_def)
  moreover have "require_sha256 (jq_operation_key demo_rework) = Inr ()"
    by (simp add: q require_sha256_def)
  moreover have "begin_guard (demo_ctx 6) demo_high_db = Inr ()"
    by (simp add: begin_guard_def demo_ctx_def)
  ultimately have "schedule_human_authorized_rework (demo_ctx 6) demo_rework demo_high_db = (Inr (?f demo_high_row), d')"
    unfolding schedule_human_authorized_rework_def q by (rule succeed [rotated 2])
  then show ?thesis by blast
qed

theorem human_rework_effect_witness:
  "\<exists>r' d'. schedule_human_authorized_rework (demo_ctx 6) demo_rework demo_high_db = (Inr r', d')
    \<and> ex_state r' = MAKER_RUNNING \<and> ex_state_version r' = 6
    \<and> map_option ap_consumed_at (find_approval ''a1'' d') = Some (Some (seconds 6))"
proof -
  from demo_reworked obtain r' d' where
    t: "schedule_human_authorized_rework (demo_ctx 6) demo_rework demo_high_db = (Inr r', d')" by blast
  from human_rework_effect [OF t] obtain r p where
    "find_execution ''x1'' demo_high_db = Some r" "ex_state r' = MAKER_RUNNING" "ex_state_version r' = ex_state_version r + 1"
    "find_approval ''a1'' d' = Some (p\<lparr>ap_consumed_at := Some (seconds 6)\<rparr>)"
    by (auto simp: demo_rework_def)
  with t demo_high_found show ?thesis by (auto simp: demo_high_row_def)
qed

theorem human_rework_once_witness:
  "\<exists>r' d'. schedule_human_authorized_rework (demo_ctx 6) demo_rework demo_high_db = (Inr r', d')
    \<and> perform (demo_ctx 9) (ScheduleHumanRework (demo_rework\<lparr>jq_expected_version := 6\<rparr>)) (run id [] d') = run id [] d'"
proof -
  from demo_reworked obtain r' d' where
    t: "schedule_human_authorized_rework (demo_ctx 6) demo_rework demo_high_db = (Inr r', d')" by blast
  moreover have "perform (demo_ctx 9) (ScheduleHumanRework (demo_rework\<lparr>jq_expected_version := 6\<rparr>)) (run id [] d') = run id [] d'"
    by (rule human_rework_once [OF t]) simp
  ultimately show ?thesis by blast
qed

end
