(* ===== verification/Artifact_Properties.thy ===== *)
theory Artifact_Properties
  imports Operation_Properties
begin

text \<open>
  The properties of sealed artifacts: which paths are accepted, that a collected manifest
  verifies, that a verified one pins its bytes, and that the roles given to an evidence tree
  leave no regular file out. They are instantiated at a small tree.
\<close>

section \<open>A small evidence tree\<close>

definition demo_status :: "int \<Rightarrow> int \<Rightarrow> file_status" where
  "demo_status i n = \<lparr>st_dev = 1, st_ino = i, st_mode = 33188, st_nlink = 1, st_size = n, st_mtime_ns = 5, st_ctime_ns = 5\<rparr>"

definition demo_file :: "int \<Rightarrow> string \<Rightarrow> node" where
  "demo_file i s = (let st = demo_status i (int (length s)) in
     Regular True \<lparr>opened_status = st, file_bytes = s, read_status = st, lexical_status = Some st\<rparr>)"

definition demo_tree :: "(string \<times> node) list" where
  "demo_tree = [(''out.txt'', demo_file 1 ''ok''), (''err.txt'', demo_file 2 []), (''result.json'', demo_file 3 ''{}''), (''note.txt'', demo_file 5 ''n''),
     (''logs'', Directory True [(''a.log'', demo_file 4 ''line'')])]"

definition demo_evidence_world :: os_world where
  "demo_evidence_world = \<lparr>home_of = (\<lambda>_. None), working_directory = ''/'',
     named_node = (\<lambda>p. if p = ''/e'' then Some (Directory True demo_tree) else None),
     resolved_node = (\<lambda>p. if p = ''/e'' then Some (Directory True demo_tree) else None)\<rparr>"

definition demo_sha :: "string \<Rightarrow> string" where
  "demo_sha s = demo_key (length s mod 256)"

definition demo_roles :: "(string \<times> string) list" where
  "demo_roles = [(''stdout'', ''/e/out.txt''), (''log'', ''logs/a.log'')]"

definition demo_entries :: "artifact_entry list" where
  "demo_entries = [\<lparr>ae_role = ''log'', ae_path = ''logs/a.log'', ae_sha256 = demo_key 4, ae_size = 4\<rparr>,
     \<lparr>ae_role = ''stdout'', ae_path = ''out.txt'', ae_sha256 = demo_key 2, ae_size = 2\<rparr>]"

definition demo_manifest :: string where
  "demo_manifest = dumps (manifest_payload demo_entries)"

lemma demo_sha_ok: "sha_ok (demo_sha s)"
  by (simp add: demo_sha_def)

lemma demo_collected:
  "collect_manifest demo_sha demo_evidence_world ''/e'' demo_roles
     = Inr (demo_manifest, demo_sha demo_manifest, demo_entries)"
  by code_simp

section \<open>Artifact paths\<close>

text \<open>
  An accepted artifact path is confined: it is the text of a relative, non-empty path without
  a component that climbs, and when the caller's path was absolute, joining it to the lexical
  root gives exactly the file the caller named.
\<close>

lemma artifact_path_confined:
  assumes "relative_artifact_path w p root = Inr rel"
  shows "anchor (path_of rel) = [] \<and> parts (path_of rel) \<noteq> [] \<and> ''..'' \<notin> set (parts (path_of rel))
    \<and> path_text (path_of rel) = rel
    \<and> (\<exists>raw r. expanduser w (path_of p) = Inr raw \<and> lexical_root w root = Inr r
        \<and> (if is_absolute raw then path_join r (path_of rel) = raw else path_of rel = raw))"
proof -
  note safe = relative_artifact_path_safe [OF assms]
  obtain raw r where raw: "expanduser w (path_of p) = Inr raw" "lexical_root w root = Inr r"
    and rel: "\<not> is_absolute raw \<Longrightarrow> rel = path_text raw \<and> parts raw \<noteq> []"
    using assms by (auto simp: relative_artifact_path_def success split: if_splits)
  have "path_of rel = raw" if "\<not> is_absolute raw"
    using rel [OF that] that clean_expanduser [OF raw(1)]
    by (simp add: path_text_def is_absolute_def path_of_join)
  moreover have "path_text (path_of rel) = rel" using safe by (simp add: path_text_def)
  ultimately show ?thesis
    using safe raw relative_artifact_path_names [OF assms raw(2,1)] by auto
qed

lemma artifact_path_confined_instance:
  "relative_artifact_path demo_evidence_world ''/e/./logs//a.log'' ''/e'' = Inr ''logs/a.log''
   \<and> parts (path_of ''logs/a.log'') = [''logs'', ''a.log'']
   \<and> path_text (path_of ''logs/a.log'') = ''logs/a.log''"
proof -
  have "relative_artifact_path demo_evidence_world ''/e/./logs//a.log'' ''/e'' = Inr ''logs/a.log''" by code_simp
  moreover from artifact_path_confined [OF this] have "path_text (path_of ''logs/a.log'') = ''logs/a.log''" by simp
  moreover have "parts (path_of ''logs/a.log'') = [''logs'', ''a.log'']" by code_simp
  ultimately show ?thesis by simp
qed

section \<open>Manifests\<close>

text \<open>
  C30. What is sealed verifies: a manifest collected from a tree under distinct roles, with any
  digest function whose values are 64 hexadecimal digits, parses back to the collected entries
  and verifies against the unchanged tree.
\<close>

theorem collected_manifest_round_trip:
  assumes "collect_manifest h w root roles = Inr (text, digest, entries)"
    and "\<And>s. sha_ok (h s)" and "distinct (map fst roles)"
  shows "parse_manifest h text digest = Inr entries
    \<and> (\<exists>view. verify_manifest_bytes h w root text digest = Inr view \<and> vm_entries view = entries)"
proof -
  from collected_manifest_verifies [OF assms] obtain view where
    v: "verify_manifest_bytes h w root text digest = Inr view" "vm_entries view = entries" by blast
  then have "parse_manifest h text digest = Inr entries" by (auto elim!: verify_manifest_steps)
  with v show ?thesis by blast
qed

theorem collected_manifest_round_trip_witness:
  "parse_manifest demo_sha demo_manifest (demo_sha demo_manifest) = Inr demo_entries
   \<and> (\<exists>view. verify_manifest_bytes demo_sha demo_evidence_world ''/e'' demo_manifest (demo_sha demo_manifest) = Inr view
        \<and> vm_entries view = demo_entries)"
  by (rule collected_manifest_round_trip [OF demo_collected demo_sha_ok]) (simp add: demo_roles_def)

text \<open>
  C31. A seal pins bytes: however the file system changed between two successful verifications of
  one manifest, the bytes read for a role the second time have the same length and the same
  digest as the first time, the ones the manifest states, so different bytes are a collision of
  the digest function.
\<close>

theorem sealed_bytes_pinned:
  assumes "verify_manifest_bytes h w root text digest = Inr view"
    and "verify_manifest_bytes h w' root' text digest = Inr view'"
    and "bytes_for_role view role = Inr data"
  shows "\<exists>data' e. bytes_for_role view' role = Inr data' \<and> entry_for_role view' role = Inr e
    \<and> h data' = ae_sha256 e \<and> h data = ae_sha256 e
    \<and> int (length data') = ae_size e \<and> int (length data) = ae_size e"
proof -
  from assms(3) obtain e where e: "entry_for_role view role = Inr e" "map_of (vm_bytes view) (ae_path e) = Some data"
    by (auto simp: bytes_for_role_def success)
  then have mem: "e \<in> set (vm_entries view)" by (simp add: entry_for_role_unique [OF assms(1)])
  have same: "vm_entries view' = vm_entries view" by (rule verified_twice(1) [OF assms(1,2)])
  then have e': "entry_for_role view' role = Inr e" using e(1) by (simp add: entry_for_role_def)
  from mem same have "e \<in> set (vm_entries view')" by simp
  from verified_bytes [OF assms(2) this] verified_bytes [OF assms(1) mem] e e' show ?thesis
    by (auto simp: bytes_for_role_def)
qed

definition demo_view :: verified_manifest where
  "demo_view = \<lparr>vm_root = path_of ''/e'', vm_entries = demo_entries,
     vm_bytes = [(''logs/a.log'', ''line''), (''out.txt'', ''ok'')]\<rparr>"

lemma demo_verified:
  "verify_manifest_bytes demo_sha demo_evidence_world ''/e'' demo_manifest (demo_sha demo_manifest) = Inr demo_view"
  by code_simp

theorem sealed_bytes_pinned_witness:
  "\<exists>data'. bytes_for_role demo_view ''log'' = Inr data' \<and> demo_sha data' = demo_key 4 \<and> length data' = 4"
proof -
  have "bytes_for_role demo_view ''log'' = Inr ''line''" by code_simp
  from sealed_bytes_pinned [OF demo_verified demo_verified this] this show ?thesis
    by (auto simp: demo_sha_def)
qed

section \<open>The roles of an evidence tree\<close>

lemma fst_dict_set: "fst ` set (dict_set k v d) = insert k (fst ` set d)"
  by (induction k v d rule: dict_set.induct) (simp_all add: insert_commute)

lemma set_dict_set: "(\<And>v'. (k, v') \<in> set d \<Longrightarrow> v' = v) \<Longrightarrow> set (dict_set k v d) = insert (k, v) (set d)"
  by (induction k v d rule: dict_set.induct) (auto; fastforce)+

lemma distinct_dict_set: "distinct (map fst d) \<Longrightarrow> distinct (map fst (dict_set k v d))"
proof (induction d)
  case (Cons kv d)
  obtain k' v' where "kv = (k', v')" by (cases kv)
  moreover have "k' \<notin> fst ` set (dict_set k v d)" if "k \<noteq> k'" "k' \<notin> fst ` set d"
    using that by (simp add: fst_dict_set)
  ultimately show ?case using Cons by auto
qed simp

text \<open>Every remaining file gets the role of its own path, beside the preferred ones.\<close>

lemma other_roles_cover:
  assumes "distinct (map fst preferred)" and "\<forall>k\<in>fst ` set preferred. take 9 k \<noteq> ''evidence:''"
  shows "distinct (map fst (other_roles preferred paths))"
    and "snd ` set (other_roles preferred paths) = snd ` set preferred \<union> set paths"
proof -
  let ?ps = "filter (\<lambda>p. p \<notin> snd ` set preferred) paths"
  let ?go = "foldl (\<lambda>roles p. dict_set (''evidence:'' @ p) p roles)"
  have "distinct (map fst (?go preferred ps))
      \<and> snd ` set (?go preferred ps) = snd ` set preferred \<union> set ps
      \<and> (\<forall>(k, v)\<in>set (?go preferred ps). (k, v) \<in> set preferred \<or> k = ''evidence:'' @ v)" for ps
  proof (induction ps rule: rev_induct)
    case (snoc p ps)
    let ?d = "?go preferred ps"
    have step: "?go preferred (ps @ [p]) = dict_set (''evidence:'' @ p) p ?d" by simp
    have "set (dict_set (''evidence:'' @ p) p ?d) = insert (''evidence:'' @ p, p) (set ?d)"
      by (rule set_dict_set) (use snoc assms(2) in fastforce)
    then show ?case unfolding step using snoc distinct_dict_set by auto
  qed (auto simp: assms(1))
  from this [of ?ps] show "distinct (map fst (other_roles preferred paths))"
      and "snd ` set (other_roles preferred paths) = snd ` set preferred \<union> set paths"
    unfolding other_roles_def by auto
qed

text \<open>
  Nothing below the evidence root stays unsealed: the roles chosen after an execution are
  distinct, contain the four artifacts of the runner under their own roles, and name exactly the
  regular files that can be reached from the root through directories.
\<close>

lemma evidence_tree_covered:
  assumes "post_execution_roles w root out err res meta = Inr roles"
  shows "distinct (map fst roles) \<and> {''stdout'', ''stderr'', ''result'', ''runner_metadata''} \<subseteq> fst ` set roles
    \<and> (\<exists>r r' readable tree. lexical_root w root = Inr r \<and> lexical_root w (path_text r) = Inr r'
        \<and> resolved_node w (path_text r') = Some (Directory readable tree)
        \<and> snd ` set roles = {join_slashes names |names. regular_at tree names})"
proof -
  obtain r a b c m paths where r: "lexical_root w root = Inr r"
    and paths: "discover_regular_files w (path_text r) = Inr paths"
    and sub: "snd ` set [(''stdout'', a), (''stderr'', b), (''result'', c), (''runner_metadata'', m)] \<subseteq> set paths"
    and roles: "roles = other_roles [(''stdout'', a), (''stderr'', b), (''result'', c), (''runner_metadata'', m)] paths"
    using assms unfolding post_execution_roles_def Let_def by (elim step_elims) auto
  let ?pre = "[(''stdout'', a), (''stderr'', b), (''result'', c), (''runner_metadata'', m)]"
  note cover = other_roles_cover [of ?pre paths, folded roles]
  have "fst ` set ?pre \<subseteq> fst ` set (foldl (\<lambda>roles p. dict_set (''evidence:'' @ p) p roles) ?pre ps)" for ps
    by (induction ps rule: rev_induct) (auto simp: fst_dict_set)
  then have names: "{''stdout'', ''stderr'', ''result'', ''runner_metadata''} \<subseteq> fst ` set roles"
    unfolding roles other_roles_def by auto
  from discover_exact(2) [OF paths] obtain r' readable tree where
    t: "lexical_root w (path_text r) = Inr r'" "resolved_node w (path_text r') = Some (Directory readable tree)"
      "set paths = {join_slashes names |names. regular_at tree names}" by blast
  have "snd ` set roles = set paths" using cover(2) sub by auto
  with cover(1) names r t show ?thesis by auto
qed

end
