(* ===== verification/Acceptance_Properties.thy ===== *)
theory Acceptance_Properties
  imports Artifact_Properties
begin

text \<open>
  Acceptance: what an execution that became \<open>ACCEPTED\<close> has shown, and what its acceptance did,
  instantiated at a small complete body of evidence.
\<close>

section \<open>The effect\<close>

definition accepted_row :: "int \<Rightarrow> execution_row \<Rightarrow> execution_row" where
  "accepted_row now x = x\<lparr>ex_state := ACCEPTED, ex_resume_state := None, ex_state_version := ex_state_version x + 1,
     ex_current_actor_role := CONTROLLER, ex_accepted_at := Some now, ex_updated_at := now\<rparr>"

text \<open>The evidence an acceptance rests on, row by row.\<close>

definition shows_evidence :: "(string \<times> json) list \<Rightarrow> execution_row \<Rightarrow> db \<Rightarrow> bool" where
  "shows_evidence flds r d \<longleftrightarrow> (\<exists>maker evaluator v e.
     find_attempt (at_id maker) d = Some maker \<and> find_attempt (at_id evaluator) d = Some evaluator
   \<and> find_verification (vr_id v) d = Some v \<and> find_evaluation (er_id e) d = Some e
   \<and> evidence_exact r maker evaluator v e \<and> manifest_claims_success flds
   \<and> evidence_id flds ''maker_attempt_evidence'' ''attempt_id'' = Inr (JStr (at_id maker))
   \<and> evidence_id flds ''verification_evidence'' ''verification_id'' = Inr (JStr (vr_id v))
   \<and> evidence_id flds ''evaluator_attempt_evidence'' ''attempt_id'' = Inr (JStr (at_id evaluator))
   \<and> evidence_id flds ''evaluation_evidence'' ''evaluation_id'' = Inr (JStr (er_id e)))"

lemma evidence_ids_named:
  assumes "evidence_ids_of flds = Inr ids"
  shows "evidence_id flds ''maker_attempt_evidence'' ''attempt_id'' = Inr (JStr (id_maker ids))
   \<and> evidence_id flds ''verification_evidence'' ''verification_id'' = Inr (JStr (id_verification ids))
   \<and> evidence_id flds ''evaluator_attempt_evidence'' ''attempt_id'' = Inr (JStr (id_evaluator ids))
   \<and> evidence_id flds ''evaluation_evidence'' ''evaluation_id'' = Inr (JStr (id_evaluation ids))"
  using assms unfolding evidence_ids_of_def
  by (elim step_elims) (auto split: json.split_asm if_split_asm)

lemma accept_evidence_shown:
  assumes "accept_evidence flds ids r d = Inr ms" and "evidence_ids_of flds = Inr ids"
  shows "shows_evidence flds r d"
proof -
  from assms(1) obtain maker evaluator v e where rows: "find_attempt (id_maker ids) d = Some maker"
      "find_attempt (id_evaluator ids) d = Some evaluator" "find_verification (id_verification ids) d = Some v"
      "find_evaluation (id_evaluation ids) d = Some e" "evidence_exact r maker evaluator v e" "manifest_claims_success flds"
    unfolding accept_evidence_def get_attempt_def get_verification_def get_evaluation_def
    by (elim step_elims) (auto simp: success)
  with attempt_table.get_key [OF rows(1)] attempt_table.get_key [OF rows(2)] verification_table.get_key [OF rows(3)]
    evaluation_table.get_key [OF rows(4)] evidence_ids_named [OF assms(2)]
  show ?thesis unfolding shows_evidence_def
    by (intro exI [of _ maker] exI [of _ evaluator] exI [of _ v] exI [of _ e]) simp
qed

lemma accept_guard_shown:
  assumes "accept_guard c q ids d = Inr r" and "evidence_ids_of (mf_fields (kq_manifest q)) = Inr ids"
  shows "shows_evidence (mf_fields (kq_manifest q)) r d" and "manifest_binds (mf_fields (kq_manifest q)) r"
proof -
  from assms(1) obtain ms where "accept_evidence (mf_fields (kq_manifest q)) ids r d = Inr ms"
      and m: "manifest_binds (mf_fields (kq_manifest q)) r"
    unfolding accept_guard_def Let_def by (elim step_elims) auto
  from accept_evidence_shown [OF this(1) assms(2)] m
  show "shows_evidence (mf_fields (kq_manifest q)) r d" "manifest_binds (mf_fields (kq_manifest q)) r" by auto
qed

text \<open>The approval, where one is required.\<close>

lemma accept_approval_effect:
  assumes "accept_approval c q flds ids r d = Inr d1"
  shows "if row_count (\<lambda>p. ap_execution_id p = kq_execution_id q \<and> ap_required p = 1) (approvals d) = 0
    then d1 = d \<and> kq_approval_id q = None
    else \<exists>a p. kq_approval_id q = Some a \<and> find_approval a d = Some p \<and> ap_execution_id p = kq_execution_id q
      \<and> ap_status p = APPROVED \<and> ap_consumed_at p = None \<and> ap_authority_ref p = approval_digest c q ids r
      \<and> find_approval a d1 = Some (p\<lparr>ap_consumed_at := Some (clock c 1)\<rparr>)"
proof (cases "row_count (\<lambda>p. ap_execution_id p = kq_execution_id q \<and> ap_required p = 1) (approvals d) = 0")
  case True
  with assms show ?thesis unfolding accept_approval_def Let_def by (elim step_elims) auto
next
  case False
  with assms obtain a ref p n where a: "kq_approval_id q = Some a" "find_approval a d = Some p"
      "ap_execution_id p = kq_execution_id q" "ap_authority_ref p = ref" "ref = approval_digest c q ids r"
      "ap_status p = APPROVED" "ap_consumed_at p = None"
    and upd: "update_approvals (\<lambda>x. ap_id x = a \<and> ap_consumed_at x = None)
        (\<lambda>x. x\<lparr>ap_consumed_at := Some (clock c 1)\<rparr>) d = Inr (d1, n)"
    unfolding accept_approval_def Let_def get_approval_def
    by (elim step_elims; clarsimp simp: success split: option.splits)
  from approval_table.get_modify_hit [OF upd _ a(2)] approval_table.get_key [OF a(2)] a(7)
  have "find_approval a d1 = Some (p\<lparr>ap_consumed_at := Some (clock c 1)\<rparr>)" by simp
  with a False show ?thesis by auto
qed

section \<open>A body of evidence\<close>

definition demo_accept_row :: execution_row where
  "demo_accept_row = (demo_row EVALUATING 4)\<lparr>ex_result_commit := Some demo_commit\<rparr>"

definition demo_attempt :: "string \<Rightarrow> capsule_role \<Rightarrow> string \<Rightarrow> attempt_row" where
  "demo_attempt i role context = \<lparr>at_id = i, at_operation_key = demo_key 31, at_execution_id = ''x1'', at_role = role,
     at_attempt_no = 1, at_model = ''m'', at_reasoning_effort = ''high'', at_session_mode = ''new'', at_session_id = ''s'',
     at_sandbox_mode = ''ro'', at_context_id = context, at_base_commit = demo_commit, at_result_commit = Some demo_commit,
     at_status = SUCCEEDED, at_exit_code = Some 0, at_stdout_artifact = None, at_stdout_sha256 = None,
     at_stderr_artifact = None, at_stderr_sha256 = None, at_result_artifact = None, at_result_sha256 = None,
     at_failure_code = None, at_started_at = ''then'', at_ended_at = Some ''later''\<rparr>"

definition demo_context :: "string \<Rightarrow> capsule_role \<Rightarrow> context_row" where
  "demo_context i role = \<lparr>cx_id = i, cx_execution_id = ''x1'', cx_role = role, cx_capsule_version = 1,
     cx_fingerprint = demo_key 40, cx_canonical_json = ''{}'', cx_created_at = seconds 2\<rparr>"

definition demo_verification :: verification_row where
  "demo_verification = \<lparr>vr_id = ''v1'', vr_operation_key = demo_key 33, vr_execution_id = ''x1'', vr_result_commit = demo_commit,
     vr_contract_fingerprint = demo_key 1, vr_authority_fingerprint = demo_key 2, vr_verdict = ''PASS'',
     vr_command_manifest = ''{}'', vr_command_manifest_sha256 = demo_key 7, vr_result_json = ''{}'',
     vr_started_at = ''then'', vr_ended_at = ''later''\<rparr>"

definition demo_evaluation :: evaluation_row where
  "demo_evaluation = \<lparr>er_id = ''e1'', er_operation_key = demo_key 34, er_execution_id = ''x1'', er_attempt_id = ''t2'',
     er_context_id = ''c2'', er_result_commit = demo_commit, er_contract_fingerprint = demo_key 1,
     er_authority_fingerprint = demo_key 2, er_verdict = ''PASS'', er_result_json = ''{}'',
     er_started_at = ''then'', er_ended_at = ''later''\<rparr>"

definition demo_accept_approval :: approval_row where
  "demo_accept_approval = demo_approval\<lparr>ap_approval_type := ''DEVELOPMENT_ACCEPTANCE'', ap_status := APPROVED,
     ap_authority_ref := demo_key 7, ap_resolved_at := Some (seconds 5)\<rparr>"

definition demo_accept_db :: db where
  "demo_accept_db = initial_db\<lparr>executions := [demo_accept_row],
     attempts := [demo_attempt ''t1'' Maker ''c1'', demo_attempt ''t2'' Evaluator ''c2''],
     contexts := [demo_context ''c1'' Maker, demo_context ''c2'' Evaluator],
     verifications := [demo_verification], evaluations := [demo_evaluation], approvals := [demo_accept_approval]\<rparr>"

definition demo_manifest_fields :: "(string \<times> json) list" where
  "demo_manifest_fields =
    [(''manifest_id'', JStr ''m1''), (''execution_id'', JStr ''x1''), (''slice_id'', JStr ''s1''),
     (''contract_fingerprint'', JStr (demo_key 1)), (''authority_fingerprint'', JStr (demo_key 2)),
     (''base_commit'', JStr demo_commit), (''result_commit'', JStr demo_commit),
     (''maker_attempt_evidence'', JObj [(''attempt_id'', JStr ''t1''), (''status'', JStr ''SUCCEEDED'')]),
     (''verification_evidence'', JObj [(''verification_id'', JStr ''v1''), (''verdict'', JStr ''PASS'')]),
     (''evaluator_attempt_evidence'', JObj [(''attempt_id'', JStr ''t2''), (''status'', JStr ''SUCCEEDED'')]),
     (''evaluation_evidence'', JObj [(''evaluation_id'', JStr ''e1''), (''verdict'', JStr ''PASS'')]),
     (''approval_refs'', JList [JObj [(''approval_id'', JStr ''a1''), (''authority_ref'', JStr (demo_key 7)),
        (''status'', JStr ''APPROVED'')]]),
     (''context_fingerprints'', JList
        [JObj [(''role'', JStr ''MAKER''), (''context_snapshot_id'', JStr ''c1''), (''fingerprint'', JStr (demo_key 40))],
         JObj [(''role'', JStr ''EVALUATOR''), (''context_snapshot_id'', JStr ''c2''), (''fingerprint'', JStr (demo_key 40))]]),
     (''transition_evidence'', JList []), (''created_at'', JStr ''later'')]"

definition demo_accept :: accept_request where
  "demo_accept = \<lparr>kq_execution_id = ''x1'', kq_expected_version = 4, kq_operation_key = demo_key 35,
     kq_manifest = \<lparr>mf_fields = demo_manifest_fields, mf_canonical_json = dumps (JObj demo_manifest_fields),
       mf_sha256 = demo_key 7\<rparr>,
     kq_owner = ''controller-1'', kq_generation = 1, kq_approval_id = Some ''a1'',
     kq_approval_authority_ref = Some (demo_key 7), kq_actor_id = ''controller-1''\<rparr>"

lemma demo_accept_valid: "case accept_validate (demo_ctx 9) demo_accept of Inr ids \<Rightarrow> id_maker ids = ''t1'' \<and> id_verification ids = ''v1''
    \<and> id_evaluator ids = ''t2'' \<and> id_evaluation ids = ''e1'' | _ \<Rightarrow> False"
  by code_simp

lemma demo_accepted: "case accept_body (demo_ctx 9) demo_accept
   \<lparr>id_maker = ''t1'', id_verification = ''v1'', id_evaluator = ''t2'', id_evaluation = ''e1''\<rparr> demo_accept_db of
     Inr (_, d') \<Rightarrow> manifests d' \<noteq> [] | _ \<Rightarrow> False"
  by code_simp
section \<open>Acceptance\<close>

lemma accept_writes:
  assumes "accept_body c q ids d = Inr (u, d')" and "d' \<noteq> d"
  obtains r d1 m where "accept_guard c q ids d = Inr r"
    and "accept_approval c q (mf_fields (kq_manifest q)) ids r d = Inr d1"
    and "manifest_row_of q (mf_fields (kq_manifest q)) ids r = Inr m" and "manifests d' = manifests d @ [m]"
    and "approvals d' = approvals d1"
    and "\<And>l. find_execution l d' = (if l = kq_execution_id q then Some (accepted_row (clock c 1) r) else find_execution l d)"
proof -
  let ?p = "\<lambda>x. ex_id x = kq_execution_id q \<and> ex_state_version x = kq_expected_version q
              \<and> ex_lease_owner x = Some (kq_owner q) \<and> ex_lease_generation x = kq_generation q
              \<and> (case ex_lease_expires_at x of None \<Rightarrow> False | Some e \<Rightarrow> clock c 1 < e)"
  obtain r d1 m d2 d3 n ev where guard: "accept_guard c q ids d = Inr r"
    and approval: "accept_approval c q (mf_fields (kq_manifest q)) ids r d = Inr d1"
    and row: "manifest_row_of q (mf_fields (kq_manifest q)) ids r = Inr m"
    and manifest: "insert_manifest m d1 = Inr d2"
    and upd: "update_executions ?p (accepted_row (clock c 1)) d2 = Inr (d3, n)"
    and event: "insert_event c 0 ev d3 = Inr d'"
    using assms unfolding accept_body_def Let_def accepted_row_def [abs_def] by (elim step_elims; clarsimp)
  note r = accept_guard_row [OF guard]
  have view: "exec_view d2 = exec_view d"
    using execution_frame(6) [OF manifest accept_approval_keeps [OF approval keeps_refl]] by (simp add: keeps_def)
  have same: "find_execution l d2 = find_execution l d" for l
    using view by (metis (no_types) exec_view_def fst_conv)
  have hit: "?p r" using r execution_table.get_key [OF r(1)] by (auto simp: fence_held_def)
  have "find_execution l d3 = (if l = kq_execution_id q then Some (accepted_row (clock c 1) r) else find_execution l d)" for l
  proof (cases "find_execution l d")
    case (Some x)
    then have "ex_id x = l" by (rule execution_table.get_key)
    with Some execution_table.get_modify [OF upd, of l] same [of l] r(1) hit show ?thesis
      by (cases "l = kq_execution_id q") (auto simp: accepted_row_def)
  qed (use execution_table.get_modify [OF upd, of l] same [of l] r(1) in \<open>auto simp: accepted_row_def\<close>)
  moreover have "find_execution l d' = find_execution l d3" for l by (rule insert_event_finds [OF event])
  moreover have "manifests d' = manifests d @ [m]" "approvals d' = approvals d1"
    using insert_event_Inr(1) [OF event] update_executions_Inr [OF upd] insert_manifest_Inr [OF manifest]
      approval unfolding accept_approval_def Let_def
    by - (elim step_elims; clarsimp dest!: update_approvals_Inr)+
  ultimately show thesis using that guard approval row by simp
qed

text \<open>
  C21. An execution is accepted only on evidence. An acceptance that takes effect was made under
  the live lease of the caller on an execution in \<open>EVALUATING\<close> with a result commit; the manifest's
  text and digest are those of its fields, which name this execution and commit and a maker
  attempt, a passing verification, an evaluator attempt and a passing evaluation that exist, all
  of this execution, commit and authority. Where an approval is required, it is approved, unused
  and bound to this very decision, and it is used up. The manifest is stored, the execution
  becomes \<open>ACCEPTED\<close>, and no other execution changes.
\<close>

theorem accept_effect:
  assumes "accept_execution c q d = (Inr r', d')" and "d' \<noteq> d"
  shows "\<exists>r m ids flds. flds = mf_fields (kq_manifest q)
    \<and> canonical_json (json_to_py (JObj flds)) = Inr (mf_canonical_json (kq_manifest q))
    \<and> sha c (mf_canonical_json (kq_manifest q)) = mf_sha256 (kq_manifest q)
    \<and> find_execution (kq_execution_id q) d = Some r \<and> ex_state r = EVALUATING
    \<and> fence_held r (kq_owner q) (kq_generation q) (clock c 1) \<and> ex_state_version r = kq_expected_version q
    \<and> manifest_binds flds r \<and> shows_evidence flds r d
    \<and> manifests d' = manifests d @ [m] \<and> em_manifest_sha256 m = mf_sha256 (kq_manifest q)
    \<and> (if row_count (\<lambda>p. ap_execution_id p = kq_execution_id q \<and> ap_required p = 1) (approvals d) = 0
       then approvals d' = approvals d
       else \<exists>a p. kq_approval_id q = Some a \<and> find_approval a d = Some p \<and> ap_execution_id p = kq_execution_id q
         \<and> ap_status p = APPROVED \<and> ap_consumed_at p = None \<and> ap_authority_ref p = approval_digest c q ids r
         \<and> find_approval a d' = Some (p\<lparr>ap_consumed_at := Some (clock c 1)\<rparr>))
    \<and> r' = accepted_row (clock c 1) r
    \<and> (\<forall>l. find_execution l d' = (if l = kq_execution_id q then Some r' else find_execution l d))"
proof -
  from succeeded [OF assms(1) [unfolded accept_execution_def]] obtain ids u where
    v: "accept_validate c q = Inr ids" and body: "accept_body c q ids d = Inr (u, d')"
    and r': "find_execution (kq_execution_id q) d' = Some r'" by (auto simp: success)
  from v have m: "canonical_json (json_to_py (JObj (mf_fields (kq_manifest q)))) = Inr (mf_canonical_json (kq_manifest q))"
      "sha c (mf_canonical_json (kq_manifest q)) = mf_sha256 (kq_manifest q)"
      "evidence_ids_of (mf_fields (kq_manifest q)) = Inr ids"
    unfolding accept_validate_def by (elim step_elims; clarsimp)+
  from body assms(2) obtain r d1 m where w: "accept_guard c q ids d = Inr r"
    "accept_approval c q (mf_fields (kq_manifest q)) ids r d = Inr d1"
    "manifest_row_of q (mf_fields (kq_manifest q)) ids r = Inr m" "manifests d' = manifests d @ [m]"
    "approvals d' = approvals d1"
    "\<And>l. find_execution l d' = (if l = kq_execution_id q then Some (accepted_row (clock c 1) r) else find_execution l d)"
    by (rule accept_writes) blast
  have "em_manifest_sha256 m = mf_sha256 (kq_manifest q)"
    using w(3) unfolding manifest_row_of_def by (elim step_elims) auto
  moreover have "find_approval a d' = find_approval a d1" for a using w(5) by (simp add: find_approval_def)
  ultimately show ?thesis
    using m w accept_guard_row [OF w(1)] accept_guard_shown [OF w(1) m(3)] accept_approval_effect [OF w(2)] r'
    by (intro exI [of _ r] exI [of _ m] exI [of _ ids] exI [of _ "mf_fields (kq_manifest q)"]) (simp split: if_split_asm)
qed

theorem accept_effect_witness:
  "\<exists>r' d'. accept_execution (demo_ctx 9) demo_accept demo_accept_db = (Inr r', d') \<and> ex_state r' = ACCEPTED
    \<and> shows_evidence demo_manifest_fields demo_accept_row demo_accept_db
    \<and> map_option ap_consumed_at (find_approval ''a1'' d') = Some (Some (seconds 9))"
proof -
  let ?ids = "\<lparr>id_maker = ''t1'', id_verification = ''v1'', id_evaluator = ''t2'', id_evaluation = ''e1''\<rparr>"
  have valid: "accept_validate (demo_ctx 9) demo_accept = Inr ?ids"
    using demo_accept_valid by (auto split: sum.splits)
  from demo_accepted obtain d' where body: "accept_body (demo_ctx 9) demo_accept ?ids demo_accept_db = Inr ((), d')"
    and new: "manifests d' \<noteq> []" by (auto split: sum.splits prod.splits)
  have changed: "d' \<noteq> demo_accept_db" using new by (auto simp: demo_accept_db_def initial_db_def)
  have row: "find_execution ''x1'' demo_accept_db = Some demo_accept_row"
    by (simp add: demo_accept_db_def find_execution_def demo_accept_row_def)
  have id: "kq_execution_id demo_accept = ''x1''" by (simp add: demo_accept_def)
  obtain r' where "find_execution ''x1'' d' = Some r'"
    using body changed by (rule accept_writes) (simp add: id)
  then have op: "accept_execution (demo_ctx 9) demo_accept demo_accept_db = (Inr r', d')"
    unfolding accept_execution_def using valid body by (intro succeed) (simp_all add: get_execution_def id)
  have "row_count (\<lambda>p. ap_execution_id p = ''x1'' \<and> ap_required p = 1) (approvals demo_accept_db) \<noteq> 0"
    by (simp add: demo_accept_db_def demo_accept_approval_def demo_approval_def row_count_def)
  moreover have "find_approval ''a1'' demo_accept_db = Some demo_accept_approval"
    by (simp add: demo_accept_db_def demo_accept_approval_def demo_approval_def find_approval_def)
  ultimately show ?thesis
    using accept_effect [OF op changed] op row by (auto simp: id demo_accept_def accepted_row_def)
qed

end
