(* ===== verification/Candidate_Scenario.thy ===== *)
theory Candidate_Scenario
  imports Artifact_Properties
begin

text \<open>
  The closure of a candidate statement by statement, and a concrete candidate: a sealed evidence
  tree, its bindings, evaluation, approval and intent, at which the properties of candidates are
  instantiated.
\<close>

section \<open>The closure\<close>

lemma succeeded_plain:
  "reading g (transaction c b d) = (Inr y, d') \<Longrightarrow> \<exists>a. begin_guard c d = Inr () \<and> b d = Inr (a, d') \<and> g a d' = Inr y"
  using succeeded [of "Inr ()" "\<lambda>_. g" c "\<lambda>_. b" d y d'] by (simp add: precheck_def)

lemma insert_closure_find:
  "insert_closure k d = Inr d1 \<Longrightarrow> find_closure (cc_closure_id k) d1 = Some k"
  by (rule closure_table.get_put_same)

lemma event_keeps_tables:
  "insert_event c n e d = Inr d' \<Longrightarrow> candidate_closures d' = candidate_closures d \<and> approvals d' = approvals d"
  by (drule insert_event_Inr(1)) simp

text \<open>The writes of a closure: its row, the approval and the execution.\<close>

lemma closure_writes:
  assumes "record_closure_body c q x b commit d = Inr d'"
    and x: "find_execution (ex_id x) d = Some x" "ex_state x = WAITING_APPROVAL" "ex_result_commit x = None"
    and p: "find_approval (qc_approval_id q) d = Some p" "ap_status p = APPROVED" "ap_consumed_at p = None"
  shows "candidate_closures d' = candidate_closures d @ [closure_row c q x b commit]"
    and "find_approval (qc_approval_id q) d' = Some (p\<lparr>ap_consumed_at := Some (clock c 1)\<rparr>)"
    and "find_execution i d' = (if i = ex_id x then Some (closed_row commit (clock c 1) x) else find_execution i d)"
proof -
  obtain d1 d2 d3 n payload key where
    w: "insert_closure (closure_row c q x b commit) d = Inr d1"
      "update_approvals (\<lambda>p. ap_id p = qc_approval_id q \<and> ap_consumed_at p = None \<and> ap_status p = APPROVED)
         (\<lambda>p. p\<lparr>ap_consumed_at := Some (clock c 1)\<rparr>) d1 = Inr (d2, 1)"
      "update_executions (\<lambda>r. ex_id r = ex_id x \<and> ex_result_commit r = None \<and> ex_state r = WAITING_APPROVAL
              \<and> ex_state_version r = ex_state_version x) (closed_row commit (clock c 1)) d2 = Inr (d3, n)"
      "insert_event c 0 ((event_from STATE_TRANSITION x key VERIFYING CONTROLLER (cf_owner (qc_fence q))
            (cf_generation (qc_fence q)) ''PRECOMMIT_COMMIT_CLOSED'' None payload (clock c 1))
              \<lparr>ev_from_state := Some WAITING_APPROVAL\<rparr>) d3 = Inr d'"
    using assms(1) by (rule record_closure_cases)
  note d1 = insert_candidate_Inr(9) [OF w(1)]
  note d2 = update_approvals_Inr [OF w(2)]
  note d3 = update_executions_Inr [OF w(3)]
  note d4 = event_keeps_tables [OF w(4)]
  show "candidate_closures d' = candidate_closures d @ [closure_row c q x b commit]"
    using d1 d2 d3 d4 by simp
  have "find_approval (qc_approval_id q) d1 = Some p" using p(1) d1 by (simp add: find_approval_def)
  from approval_table.get_modify_hit [OF w(2) _ this] p approval_table.get_key [OF p(1)]
  have "find_approval (qc_approval_id q) d2 = Some (p\<lparr>ap_consumed_at := Some (clock c 1)\<rparr>)" by simp
  then show "find_approval (qc_approval_id q) d' = Some (p\<lparr>ap_consumed_at := Some (clock c 1)\<rparr>)"
    using d3 d4 by (simp add: find_approval_def)
  have same: "find_execution i d2 = find_execution i d" for i
    using keeps_exec_view [OF closure_keeps [OF w(1,2)]] by simp
  have "find_execution i d3 = (if i = ex_id x then Some (closed_row commit (clock c 1) x) else find_execution i d)"
  proof (cases "find_execution i d2")
    case (Some r)
    have r: "find_execution i d = Some r" "ex_id r = i" using Some same execution_table.get_key by auto
    with execution_table.get_modify [OF w(3), of i] Some x show ?thesis
      by (cases "i = ex_id x") (simp_all add: closed_row_def)
  qed (use execution_table.get_modify [OF w(3), of i] same [of i] x in \<open>auto simp: closed_row_def\<close>)
  then show "find_execution i d' = (if i = ex_id x then Some (closed_row commit (clock c 1) x) else find_execution i d)"
    by (simp add: insert_event_finds [OF w(4)])
qed

text \<open>The demo candidate at its closure: evaluated, sealed, approved, the commit prepared.\<close>

definition demo_metadata :: json where
  "demo_metadata = JObj [(''review_target_type'', JStr ''UNCOMMITTED_CANDIDATE''),
     (''evaluator_attempt_id'', JStr ''t1''), (''candidate_id'', JStr ''k1''),
     (''candidate_content_sha256'', JStr (demo_key 9)), (''authority_generation'', JInt 0),
     (''exit_code'', JInt 0), (''timed_out'', JBool False), (''command'', JList [JStr ''review'']),
     (''producer_ref'', JStr ''runner'')]"

definition demo_result :: json where
  "demo_result = JObj [(''verdict'', JStr ''PASS''), (''candidate_id'', JStr ''k1'')]"

definition demo_candidate_tree :: "(string \<times> node) list" where
  "demo_candidate_tree = [(''context.json'', demo_file 1 ''{}''), (''prompt.txt'', demo_file 2 ''p''),
     (''schema.json'', demo_file 3 ''{}''), (''out.txt'', demo_file 4 ''ok''), (''err.txt'', demo_file 5 []),
     (''result.json'', demo_file 6 (dumps demo_result)), (''runner.json'', demo_file 7 (dumps demo_metadata))]"

definition demo_candidate_world :: os_world where
  "demo_candidate_world = demo_evidence_world\<lparr>
     named_node := (\<lambda>p. if p = ''/e'' then Some (Directory True demo_candidate_tree) else None),
     resolved_node := (\<lambda>p. if p = ''/e'' then Some (Directory True demo_candidate_tree) else None)\<rparr>"

definition demo_candidate_ctx :: "nat \<Rightarrow> ctx" where
  "demo_candidate_ctx n = (demo_ctx n)\<lparr>world := demo_candidate_world\<rparr>"

definition demo_entry :: "string \<Rightarrow> string \<Rightarrow> string \<Rightarrow> artifact_entry" where
  "demo_entry role p data = \<lparr>ae_role = role, ae_path = p, ae_sha256 = demo_key 7, ae_size = int (length data)\<rparr>"

fun demo_seal_entries :: "seal_phase \<Rightarrow> artifact_entry list" where
  "demo_seal_entries PRE_EXECUTION = [demo_entry ''context_snapshot'' ''context.json'' ''{}'',
     demo_entry ''output_schema'' ''schema.json'' ''{}'', demo_entry ''prompt'' ''prompt.txt'' ''p'']"
| "demo_seal_entries _ = [demo_entry ''result'' ''result.json'' (dumps demo_result),
     demo_entry ''runner_metadata'' ''runner.json'' (dumps demo_metadata), demo_entry ''stderr'' ''err.txt'' [],
     demo_entry ''stdout'' ''out.txt'' ''ok'']"

definition demo_candidate_seal :: "string \<Rightarrow> seal_phase \<Rightarrow> candidate_seal_row" where
  "demo_candidate_seal i p = \<lparr>cz_id = i, cz_execution_id = ''x1'', cz_attempt_id = ''t1'', cz_candidate_id = ''k1'',
     cz_content_sha256 = demo_key 9, cz_phase = p, cz_evidence_root = ''/e'',
     cz_manifest_json = dumps (manifest_payload (demo_seal_entries p)), cz_manifest_sha256 = demo_key 7,
     cz_created_at = seconds 4\<rparr>"

definition demo_binding :: candidate_binding_row where
  "demo_binding = \<lparr>cb_id = ''k1'', cb_execution_id = ''x1'', cb_serialization_format = ''git'', cb_serialization_version = 1,
     cb_repository_identity = ''repo'', cb_expected_parent = demo_commit, cb_manifest_json = ''{}'',
     cb_manifest_sha256 = demo_key 7, cb_content_sha256 = demo_key 9, cb_created_at = seconds 3\<rparr>"

definition demo_candidate_attempt :: candidate_attempt_row where
  "demo_candidate_attempt = \<lparr>ca_id = ''t1'', ca_execution_id = ''x1'', ca_candidate_id = ''k1'', ca_verification_id = ''v1'',
     ca_context_id = ''c1'', ca_content_sha256 = demo_key 9, ca_lease_owner = ''controller-1'', ca_lease_generation = 1,
     ca_authority_generation = 0, ca_status = SUCCEEDED, ca_started_at = seconds 3, ca_ended_at = Some ''later''\<rparr>"

definition demo_candidate_evaluation :: candidate_evaluation_row where
  "demo_candidate_evaluation = \<lparr>ce_id = ''e1'', ce_operation_key = demo_key 30, ce_execution_id = ''x1'', ce_attempt_id = ''t1'',
     ce_candidate_id = ''k1'', ce_content_sha256 = demo_key 9, ce_contract_fingerprint = demo_key 1,
     ce_authority_fingerprint = demo_key 2, ce_authority_generation = 0, ce_verdict = ''PASS'',
     ce_result_json = dumps demo_result, ce_started_at = ''then'', ce_ended_at = ''later''\<rparr>"

definition demo_acceptance :: approval_row where
  "demo_acceptance = demo_approval\<lparr>ap_approval_type := ''DEVELOPMENT_ACCEPTANCE'', ap_status := APPROVED,
     ap_resolved_at := Some (seconds 5)\<rparr>"

definition demo_result_commit :: string where
  "demo_result_commit = replicate 40 (CHR ''d'')"

definition demo_plan :: json where
  "demo_plan = JObj [(''expected_tree'', JStr demo_commit), (''result_commit'', JStr demo_result_commit)]"

definition demo_intent :: candidate_intent_row where
  "demo_intent = \<lparr>ci_closure_id = ''z1'', ci_execution_id = ''x1'', ci_candidate_id = ''k1'', ci_approval_id = ''a1'',
     ci_evaluation_id = ''e1'', ci_plan_json = dumps demo_plan, ci_plan_sha256 = demo_key 7,
     ci_created_at = seconds 6\<rparr>"

definition demo_closing_row :: execution_row where
  "demo_closing_row = (demo_row WAITING_APPROVAL 4)\<lparr>ex_resume_state := Some EVALUATING\<rparr>"

definition demo_closing_db :: "candidate_seal_row list \<Rightarrow> db" where
  "demo_closing_db zs = initial_db\<lparr>executions := [demo_closing_row],
     approvals := [demo_acceptance], candidate_bindings := [demo_binding], candidate_attempts := [demo_candidate_attempt],
     candidate_evaluations := [demo_candidate_evaluation], candidate_seals := zs,
     candidate_approvals := [\<lparr>cl_approval_id = ''a1'', cl_execution_id = ''x1'', cl_candidate_id = ''k1'',
       cl_evaluation_id = ''e1'', cl_authority_fingerprint = demo_key 2, cl_authority_generation = 0, cl_created_at = seconds 5\<rparr>],
     candidate_intents := [demo_intent]\<rparr>"

definition demo_seals :: "candidate_seal_row list" where
  "demo_seals = [demo_candidate_seal ''s1'' PRE_EXECUTION, demo_candidate_seal ''s2'' POST_EXECUTION]"

definition demo_closure :: closure_request where
  "demo_closure = \<lparr>qc_closure_id = ''z1'', qc_execution_id = ''x1'', qc_candidate_id = ''k1'', qc_approval_id = ''a1'',
     qc_evaluation_id = ''e1'', qc_fence = \<lparr>cf_execution_id = ''x1'', cf_expected_version = 4, cf_owner = ''controller-1'',
       cf_generation = 1, cf_authority_generation = 0, cf_contract_fingerprint = demo_key 1,
       cf_authority_fingerprint = demo_key 2\<rparr>\<rparr>"

definition demo_apply :: "json \<Rightarrow> string result" where
  "demo_apply plan = Inr demo_result_commit"

text \<open>The demo seals verify, and the bytes they pin are those of the tree.\<close>

lemma demo_seal_parses:
  "p = PRE_EXECUTION \<or> p = POST_EXECUTION \<Longrightarrow> parse_manifest (\<lambda>_. demo_key 7) (dumps (manifest_payload (demo_seal_entries p)))
     (demo_key 7) = Inr (demo_seal_entries p)"
proof (rule parse_manifest_payload [where sha = "\<lambda>_. demo_key 7"])
  assume "p = PRE_EXECUTION \<or> p = POST_EXECUTION"
  then show "sort_key entry_order (demo_seal_entries p) = demo_seal_entries p" by (elim disjE; hypsubst; code_simp)
  show "\<forall>e\<in>set (demo_seal_entries p). entry_ok e"
    by (cases p) (simp_all add: demo_entry_def entry_ok_def, (code_simp)+)
qed (cases p; simp add: demo_entry_def)+

lemma demo_seal_bytes:
  "seq_results (map (verify_entry (\<lambda>_. demo_key 7) demo_candidate_tree) (demo_seal_entries PRE_EXECUTION))
     = Inr [(''context.json'', ''{}''), (''schema.json'', ''{}''), (''prompt.txt'', ''p'')]"
  "seq_results (map (verify_entry (\<lambda>_. demo_key 7) demo_candidate_tree) (demo_seal_entries POST_EXECUTION))
     = Inr [(''result.json'', dumps demo_result), (''runner.json'', dumps demo_metadata), (''err.txt'', []), (''out.txt'', ''ok'')]"
  by code_simp+

lemma demo_opened: "lexical_root demo_candidate_world ''/e'' = Inr (path_of ''/e'')"
  "open_directory demo_candidate_world (path_of ''/e'') = Inr demo_candidate_tree"
proof -
  have "path_text (path_of ''/e'') = ''/e''" by code_simp
  then show "open_directory demo_candidate_world (path_of ''/e'') = Inr demo_candidate_tree"
    by (simp add: open_directory_def demo_candidate_world_def)
qed code_simp

lemma demo_seals_verify:
  assumes "candidate_seals d = demo_seals"
    and "find_candidate_attempt ''t1'' d = Some (demo_candidate_attempt\<lparr>ca_status := st, ca_ended_at := e\<rparr>)"
  shows "verify_candidate_seals (demo_candidate_ctx n) ''t1'' (Some (dumps demo_result)) True d = Inr ()"
proof -
  have ctx: "sha (demo_candidate_ctx n) = (\<lambda>_. demo_key 7)" "world (demo_candidate_ctx n) = demo_candidate_world"
    by (simp_all add: demo_candidate_ctx_def demo_ctx_def)
  have view: "candidate_view (demo_candidate_ctx n) (demo_candidate_seal ''s1'' PRE_EXECUTION)
      = Inr \<lparr>vm_root = path_of ''/e'', vm_entries = demo_seal_entries PRE_EXECUTION,
          vm_bytes = [(''context.json'', ''{}''), (''schema.json'', ''{}''), (''prompt.txt'', ''p'')]\<rparr>"
    "candidate_view (demo_candidate_ctx n) (demo_candidate_seal ''s2'' POST_EXECUTION)
      = Inr \<lparr>vm_root = path_of ''/e'', vm_entries = demo_seal_entries POST_EXECUTION,
          vm_bytes = [(''result.json'', dumps demo_result), (''runner.json'', dumps demo_metadata), (''err.txt'', []), (''out.txt'', ''ok'')]\<rparr>"
    unfolding candidate_view_def verify_manifest_bytes_def ctx
    by (simp_all add: demo_candidate_seal_def demo_seal_parses demo_opened demo_seal_bytes del: demo_seal_entries.simps)
  have phase: "candidate_phase_seal ''t1'' PRE_EXECUTION d = Some (demo_candidate_seal ''s1'' PRE_EXECUTION)"
    "candidate_phase_seal ''t1'' POST_EXECUTION d = Some (demo_candidate_seal ''s2'' POST_EXECUTION)"
    by (simp_all add: candidate_phase_seal_def assms(1) demo_seals_def demo_candidate_seal_def find_last_def)
  have plain: "plain demo_result" "plain demo_metadata" by code_simp+
  have bound: "runtime_bound (demo_candidate_attempt\<lparr>ca_status := st, ca_ended_at := e\<rparr>) (canon demo_metadata)" by code_simp
  have decoded: "decode_json_bytes (dumps demo_metadata) = Some (dumps demo_metadata)" by code_simp
  show ?thesis
    unfolding verify_candidate_seals_def phase of_option_simps bnd_simps view Let_def post_seal_result_def parsed_text_def
    using plain bound decoded
    by (simp add: loads_dumps canonical_json_json_to_py plain_canon dumps_canon bytes_for_role_def entry_for_role_def
        demo_entry_def assms(2))
qed

lemma demo_closure_fence:
  "require_candidate_fence (demo_candidate_ctx 7) n ''x1'' (qc_fence demo_closure) check (demo_closing_db zs) = Inr demo_closing_row"
  by (simp add: require_candidate_fence_def demo_closure_def get_execution_def find_execution_def demo_closing_db_def
      demo_closing_row_def require_fence_def get_authority_def initial_db_def demo_candidate_ctx_def demo_row_def created_execution_def demo_create_def seconds_def initial_authority_def)

lemma demo_closing_finds:
  "find_binding ''k1'' (demo_closing_db zs) = Some demo_binding"
  "find_approval ''a1'' (demo_closing_db zs) = Some demo_acceptance"
  "find_candidate_approval ''a1'' (demo_closing_db zs) = Some \<lparr>cl_approval_id = ''a1'', cl_execution_id = ''x1'',
     cl_candidate_id = ''k1'', cl_evaluation_id = ''e1'', cl_authority_fingerprint = demo_key 2,
     cl_authority_generation = 0, cl_created_at = seconds 5\<rparr>"
  "find_candidate_evaluation ''e1'' (demo_closing_db zs) = Some demo_candidate_evaluation"
  "find_intent ''z1'' (demo_closing_db zs) = Some demo_intent"
  "find_closure ''z1'' (demo_closing_db zs) = None"
  by (simp_all add: find_binding_def find_approval_def find_candidate_approval_def find_candidate_evaluation_def
      find_intent_def find_closure_def demo_closing_db_def demo_binding_def demo_acceptance_def demo_approval_def
      demo_candidate_evaluation_def demo_intent_def initial_db_def)

lemma demo_closure_ids: "qc_closure_id demo_closure = ''z1''" "qc_execution_id demo_closure = ''x1''"
  "qc_candidate_id demo_closure = ''k1''" "qc_approval_id demo_closure = ''a1''" "qc_evaluation_id demo_closure = ''e1''"
  by (simp_all add: demo_closure_def)

lemma demo_closure_authority:
  "closure_authority (demo_candidate_ctx 7) demo_closure False (demo_closing_db demo_seals) = Inr (demo_closing_row, demo_binding)"
proof -
  have e: "ce_attempt_id demo_candidate_evaluation = ''t1''" "ce_result_json demo_candidate_evaluation = dumps demo_result"
    by (simp_all add: demo_candidate_evaluation_def)
  have x: "ex_state demo_closing_row = WAITING_APPROVAL" "ex_result_commit demo_closing_row = None"
    by (simp_all add: demo_closing_row_def demo_row_def created_execution_def)
  have ok: "closure_authority_ok demo_closure False demo_binding demo_acceptance \<lparr>cl_approval_id = ''a1'', cl_execution_id = ''x1'',
     cl_candidate_id = ''k1'', cl_evaluation_id = ''e1'', cl_authority_fingerprint = demo_key 2,
     cl_authority_generation = 0, cl_created_at = seconds 5\<rparr> demo_candidate_evaluation"
    by (simp add: closure_authority_ok_def demo_binding_def demo_acceptance_def demo_approval_def
        demo_candidate_evaluation_def demo_closure_def)
  have seals: "verify_candidate_seals (demo_candidate_ctx 7) ''t1'' (Some (dumps demo_result)) True (demo_closing_db demo_seals) = Inr ()"
    by (rule demo_seals_verify [where st = SUCCEEDED and e = "Some ''later''"])
      (simp_all add: demo_closing_db_def find_candidate_attempt_def demo_candidate_attempt_def)
  show ?thesis
    by (simp add: closure_authority_def Let_def get_binding_def get_approval_def demo_closure_ids demo_closing_finds
        demo_closure_fence seals e x ok)
qed

lemma demo_closure_recorded:
  "\<not> isl (bnd (record_closure_body (demo_candidate_ctx 7) demo_closure demo_closing_row demo_binding demo_result_commit (demo_closing_db zs))
      (require_candidate_fence (demo_candidate_ctx 7) 3 ''x1'' (qc_fence demo_closure) False))"
  by code_simp

lemma not_isl_iff: "\<not> isl m \<longleftrightarrow> (\<exists>x. m = Inr x)"
  by (cases m) auto

lemma demo_closed:
  "\<exists>k d'. close_candidate_to_commit (demo_candidate_ctx 7) demo_closure demo_apply (demo_closing_db demo_seals) = (Inr k, d')
     \<and> d' \<noteq> demo_closing_db demo_seals"
proof -
  let ?c = "demo_candidate_ctx 7" and ?d = "demo_closing_db demo_seals"
  obtain d' x where rec: "record_closure_body ?c demo_closure demo_closing_row demo_binding demo_result_commit ?d = Inr d'"
    and fence: "require_candidate_fence ?c 3 ''x1'' (qc_fence demo_closure) False d' = Inr x"
    using demo_closure_recorded [of demo_seals] by (auto simp: not_isl_iff success)
  have row: "find_execution (ex_id demo_closing_row) ?d = Some demo_closing_row" "ex_state demo_closing_row = WAITING_APPROVAL"
      "ex_result_commit demo_closing_row = None" "ap_status demo_acceptance = APPROVED" "ap_consumed_at demo_acceptance = None"
    by (simp_all add: demo_closing_row_def demo_closing_db_def find_execution_def demo_row_def created_execution_def
        demo_acceptance_def demo_approval_def)
  note w = closure_writes [OF rec row(1-3) _ row(4,5), unfolded demo_closure_ids, OF demo_closing_finds(2)]
  have i: "same_closure demo_closure demo_intent" "ci_plan_json demo_intent = dumps demo_plan" "ci_plan_sha256 demo_intent = demo_key 7"
    by (simp_all add: same_closure_def demo_closure_def demo_intent_def)
  have plan: "loads (dumps demo_plan) = Some (canon demo_plan)" "plain demo_plan"
    by (rule loads_dumps, code_simp+)
  have digest: "canonical_digest ?c (canon demo_plan) = Inr (demo_key 7)"
    using plan(2) by (simp add: canonical_digest_def canonical_sha256_def canonical_json_json_to_py plain_canon demo_candidate_ctx_def demo_ctx_def)
  have member: "dict_members (canon demo_plan) = Some [(''expected_tree'', JStr demo_commit), (''result_commit'', JStr demo_result_commit)]"
    by code_simp
  have "close_body ?c demo_closure demo_apply ?d = Inr ((), d')"
    unfolding close_body_def fenced_body_def Let_def demo_closure_ids
    by (simp add: demo_closure_fence demo_closing_finds i parsed_text_def plan digest demo_closure_authority member
        demo_apply_def dict_index_def rec fence)
  moreover have "begin_guard ?c ?d = Inr ()" by (simp add: begin_guard_def demo_candidate_ctx_def demo_ctx_def)
  ultimately have "close_candidate_to_commit ?c demo_closure demo_apply ?d = (Inr (find_closure ''z1'' d'), d')"
    by (simp add: close_candidate_to_commit_def transaction_def transaction_unchecked_def reading_def demo_closure_ids)
  moreover have "d' \<noteq> ?d" using w(1) by auto
  ultimately show ?thesis by blast
qed

end
