(* ===== verification/Candidate_Properties.thy ===== *)
theory Candidate_Properties
  imports Candidate_Scenario
begin

text \<open>
  The properties of the uncommitted candidate: what its verification, its evaluation and its
  closure to a commit have checked and done.
\<close>

section \<open>Verification\<close>

lemma manifest_commands_required:
  "manifest_commands j = Inr cs \<Longrightarrow> list_ex required_command cs \<Longrightarrow>
     \<exists>xs. j = JList xs \<and> list_all2 (\<lambda>x k. command_from_value x = Inr k) xs cs"
  by (cases j rule: manifest_commands.cases) (auto simp: seq_results_map_Inr split: if_split_asm)

lemma validated_payload:
  assumes "validate_candidate_verification_payload h manifest digest result verdict = Inr cs"
  obtains kvs xs rs where "loads manifest = Some (JObj kvs)" and "canonical_json (json_to_py (JObj kvs)) = Inr manifest"
    and "h manifest = digest" and "dict_get kvs ''commands'' (JList []) = JList xs"
    and "list_all2 (\<lambda>x k. command_from_value x = Inr k) xs cs" and "list_ex required_command cs"
    and "verdict = ''PASS'' \<Longrightarrow> \<forall>k\<in>set cs. required_command k \<longrightarrow> vn_exit_code k = JInt 0"
    and "loads result = Some (JObj rs)" and "rs \<noteq> []" and "canonical_json (json_to_py (JObj rs)) = Inr result"
proof -
  from assms obtain M R where l: "loads manifest = Some M" "loads result = Some R"
    and t: "canonical_json (json_to_py M) = Inr manifest" "h manifest = digest"
    and body: "(case M of
      JObj kvs \<Rightarrow>
        if \<not> json_eq (dict_get kvs ''manifest_version'' JNull) (JInt 1)
        then Inl (value_error ''CANDIDATE_VERIFICATION_MANIFEST_INVALID'')
        else bnd (manifest_commands (dict_get kvs ''commands'' (JList []))) (\<lambda>cs.
          if \<not> list_ex required_command cs then Inl (value_error ''CANDIDATE_REQUIRED_COMMANDS_EMPTY'')
          else if \<not> json_eq (command_manifest cs) M
          then Inl (value_error ''CANDIDATE_VERIFICATION_MANIFEST_INVALID'')
          else if verdict \<notin> verification_verdicts then Inl (value_error ''VERIFICATION_VERDICT_INVALID'')
          else if verdict = ''PASS'' \<and> list_ex (\<lambda>c. required_command c \<and> failed_command c) cs
          then Inl (value_error ''CANDIDATE_VERIFICATION_FALSE_PASS'')
          else (case R of
            JObj rs \<Rightarrow>
              if rs = [] then Inl (value_error ''CANDIDATE_VERIFICATION_RESULT_INVALID'')
              else bnd (canonical_json (json_to_py R)) (\<lambda>result_text.
                if result_text \<noteq> result then Inl (value_error ''CANDIDATE_VERIFICATION_RESULT_INVALID'')
                else Inr cs)
          | _ \<Rightarrow> Inl (value_error ''CANDIDATE_VERIFICATION_RESULT_INVALID'')))
    | _ \<Rightarrow> Inl (value_error ''CANDIDATE_VERIFICATION_MANIFEST_INVALID'')) = Inr cs"
    unfolding validate_candidate_verification_payload_def
    by (elim step_elims) (simp add: of_option_eq_Inr)
  from body obtain kvs where M: "M = JObj kvs" by (cases M) simp_all
  from body [unfolded M json.case] have k: "manifest_commands (dict_get kvs ''commands'' (JList [])) = Inr cs"
      "list_ex required_command cs" "\<not> (verdict = ''PASS'' \<and> list_ex (\<lambda>c. required_command c \<and> failed_command c) cs)"
    and tail: "(case R of
            JObj rs \<Rightarrow>
              if rs = [] then Inl (value_error ''CANDIDATE_VERIFICATION_RESULT_INVALID'')
              else bnd (canonical_json (json_to_py R)) (\<lambda>result_text.
                if result_text \<noteq> result then Inl (value_error ''CANDIDATE_VERIFICATION_RESULT_INVALID'')
                else Inr cs)
          | _ \<Rightarrow> Inl (value_error ''CANDIDATE_VERIFICATION_RESULT_INVALID'')) = Inr cs"
    by (elim step_elims; cases R; simp split: if_split_asm; elim step_elims; simp)+
  from tail obtain rs where R: "R = JObj rs" by (cases R) simp_all
  from tail [unfolded R json.case] have r: "rs \<noteq> []" "canonical_json (json_to_py (JObj rs)) = Inr result"
    by (elim step_elims; simp)+
  from k(3) have "verdict = ''PASS'' \<Longrightarrow> \<forall>k\<in>set cs. required_command k \<longrightarrow> vn_exit_code k = JInt 0"
    by (auto simp: list_ex_iff failed_command_def)
  with that l t M R k r manifest_commands_required [OF k(1,2)] show thesis by auto
qed

lemma verification_body_effect:
  assumes "candidate_verification_body c r f d = Inr (u, d')"
  shows "\<exists>x. require_candidate_fence c 2 (cv_execution_id r) f True d = Inr x \<and> ex_state x = VERIFYING
    \<and> ex_result_commit x = None \<and> insert_candidate_verification r d = Inr d'"
  using assms unfolding candidate_verification_body_def
  by (elim fenced_body_InrE exE conjE) (elim step_elims; auto)

text \<open>
  C24. A candidate cannot be registered as verified over a failed command. When a registration
  with the verdict \<open>PASS\<close> takes effect, the manifest it carries is a canonical document with the
  digest it states, it reads as a list of well-formed commands at least one of which is required,
  and every required command of it ended with exit code 0; the candidate and its content are the
  bound ones, and the caller held the fence of an execution in \<open>VERIFYING\<close> without a commit.
\<close>

theorem candidate_pass_is_earned:
  assumes "register_candidate_verification c r f d = (Inr res, d')" and "d' \<noteq> d" and "cv_verdict r = ''PASS''"
  shows "\<exists>kvs xs cs b x. loads (cv_command_manifest r) = Some (JObj kvs)
    \<and> canonical_json (json_to_py (JObj kvs)) = Inr (cv_command_manifest r)
    \<and> sha c (cv_command_manifest r) = cv_command_manifest_sha256 r
    \<and> dict_get kvs ''commands'' (JList []) = JList xs \<and> list_all2 (\<lambda>j k. command_from_value j = Inr k) xs cs
    \<and> (\<exists>k\<in>set cs. required_command k) \<and> (\<forall>k\<in>set cs. required_command k \<longrightarrow> vn_exit_code k = JInt 0)
    \<and> find_binding (cv_candidate_id r) d = Some b \<and> cb_execution_id b = cv_execution_id r
    \<and> cb_content_sha256 b = cv_content_sha256 r
    \<and> require_candidate_fence c 2 (cv_execution_id r) f True d = Inr x \<and> ex_state x = VERIFYING
    \<and> ex_result_commit x = None \<and> candidate_verifications d' = candidate_verifications d @ [r]"
proof -
  from succeeded [OF assms(1) [unfolded register_candidate_verification_def]] obtain u where
    v: "candidate_verification_validate c r f d = Inr ()" and body: "candidate_verification_body c r f d = Inr (u, d')"
    by auto
  from v obtain cs b where p: "validate_candidate_verification_payload (sha c) (cv_command_manifest r)
        (cv_command_manifest_sha256 r) (cv_result_json r) (cv_verdict r) = Inr cs"
    and b: "find_binding (cv_candidate_id r) d = Some b" "cb_execution_id b = cv_execution_id r"
      "cb_content_sha256 b = cv_content_sha256 r"
    unfolding candidate_verification_validate_def get_binding_def
    by (elim step_elims) (auto simp: success)
  from p obtain kvs xs rs where "loads (cv_command_manifest r) = Some (JObj kvs)"
      "canonical_json (json_to_py (JObj kvs)) = Inr (cv_command_manifest r)"
      "sha c (cv_command_manifest r) = cv_command_manifest_sha256 r"
      "dict_get kvs ''commands'' (JList []) = JList xs" "list_all2 (\<lambda>j k. command_from_value j = Inr k) xs cs"
      "list_ex required_command cs" "\<forall>k\<in>set cs. required_command k \<longrightarrow> vn_exit_code k = JInt 0"
    using assms(3) by (elim validated_payload) auto
  moreover obtain x where "require_candidate_fence c 2 (cv_execution_id r) f True d = Inr x" "ex_state x = VERIFYING"
      "ex_result_commit x = None" "candidate_verifications d' = candidate_verifications d @ [r]"
    using verification_body_effect [OF body] insert_candidate_Inr(3) by fastforce
  ultimately show ?thesis
    using b by (intro exI [of _ kvs] exI [of _ xs] exI [of _ cs] exI [of _ b] exI [of _ x]) (auto simp: list_ex_iff)
qed

definition demo_check_command :: verification_command where
  "demo_check_command = \<lparr>vn_name = JStr ''t'', vn_argv = JList [JStr ''t''], vn_cwd = JStr ''.'', vn_env_names = JList [],
     vn_timeout_seconds = JInt 9, vn_required = JBool True, vn_exit_code = JInt 0, vn_stdout_artifact = JNull,
     vn_stdout_sha256 = JNull, vn_stderr_artifact = JNull, vn_stderr_sha256 = JNull\<rparr>"

definition demo_candidate_verification :: candidate_verification_row where
  "demo_candidate_verification = \<lparr>cv_id = ''v1'', cv_operation_key = demo_key 41, cv_execution_id = ''x1'',
     cv_candidate_id = ''k1'', cv_content_sha256 = demo_key 9, cv_contract_fingerprint = demo_key 1,
     cv_authority_fingerprint = demo_key 2, cv_authority_generation = 0, cv_verdict = ''PASS'',
     cv_command_manifest = dumps (command_manifest [demo_check_command]), cv_command_manifest_sha256 = demo_key 7,
     cv_result_json = ''{\"ok\":true}'', cv_started_at = ''then'', cv_ended_at = ''later''\<rparr>"

lemma demo_verified_candidate:
  "case register_candidate_verification (demo_ctx 7) demo_candidate_verification (qc_fence demo_closure)
      ((demo_db VERIFYING 4)\<lparr>candidate_bindings := [demo_binding]\<rparr>) of
     (Inr _, d') \<Rightarrow> candidate_verifications d' \<noteq> [] | _ \<Rightarrow> False"
  by code_simp

theorem candidate_pass_is_earned_witness:
  "\<exists>res d' kvs cs. register_candidate_verification (demo_ctx 7) demo_candidate_verification (qc_fence demo_closure)
        ((demo_db VERIFYING 4)\<lparr>candidate_bindings := [demo_binding]\<rparr>) = (Inr res, d')
    \<and> candidate_verifications d' = [demo_candidate_verification]
    \<and> loads (cv_command_manifest demo_candidate_verification) = Some (JObj kvs)
    \<and> (\<exists>k\<in>set cs. required_command k) \<and> (\<forall>k\<in>set cs. required_command k \<longrightarrow> vn_exit_code k = JInt 0)"
proof -
  let ?d = "(demo_db VERIFYING 4)\<lparr>candidate_bindings := [demo_binding]\<rparr>"
  have none: "candidate_verifications ?d = []" by (simp add: demo_db_def initial_db_def)
  obtain res d' where op: "register_candidate_verification (demo_ctx 7) demo_candidate_verification (qc_fence demo_closure) ?d = (Inr res, d')"
    and new: "candidate_verifications d' \<noteq> []"
    using demo_verified_candidate by (auto split: prod.splits sum.splits)
  moreover have "d' \<noteq> ?d" using new none by auto
  moreover have "cv_verdict demo_candidate_verification = ''PASS''" by (simp add: demo_candidate_verification_def)
  ultimately obtain kvs cs where "loads (cv_command_manifest demo_candidate_verification) = Some (JObj kvs)"
      "\<exists>k\<in>set cs. required_command k" "\<forall>k\<in>set cs. required_command k \<longrightarrow> vn_exit_code k = JInt 0"
      "candidate_verifications d' = [] @ [demo_candidate_verification]"
    using candidate_pass_is_earned [OF op] unfolding none by blast
  with op show ?thesis by (intro exI [of _ res] exI [of _ d'] exI [of _ kvs] exI [of _ cs]) simp
qed

section \<open>Evaluation\<close>

lemma verify_candidate_seals_post:
  assumes "verify_candidate_seals c a (Some result) True d = Inr ()"
  obtains pre post view t raw j where "candidate_phase_seal a PRE_EXECUTION d = Some pre"
    and "\<not> isl (candidate_view c pre)" and "candidate_phase_seal a POST_EXECUTION d = Some post"
    and "candidate_view c post = Inr view" and "bytes_for_role view ''result'' = Inr result"
    and "find_candidate_attempt a d = Some t" and "bytes_for_role view ''runner_metadata'' = Inr raw"
    and "bnd (of_option (PythonError ''ValueError'') (decode_json_bytes raw)) parsed_text = Inr j"
    and "runtime_bound t j"
  using assms unfolding verify_candidate_seals_def post_seal_result_def Let_def
  by (elim step_elims) (simp_all add: of_option_eq_Inr)

definition demo_evaluating_db :: "candidate_seal_row list \<Rightarrow> db" where
  "demo_evaluating_db zs = initial_db\<lparr>executions := [demo_row EVALUATING 4], candidate_bindings := [demo_binding],
     candidate_attempts := [demo_candidate_attempt\<lparr>ca_status := RUNNING, ca_ended_at := None\<rparr>], candidate_seals := zs\<rparr>"

lemma demo_evaluating_fence:
  "require_candidate_fence (demo_candidate_ctx 7) n ''x1'' (qc_fence demo_closure) check (demo_evaluating_db zs) = Inr (demo_row EVALUATING 4)"
  by (simp add: require_candidate_fence_def demo_closure_def get_execution_def find_execution_def demo_evaluating_db_def
      require_fence_def get_authority_def initial_db_def demo_candidate_ctx_def demo_row_def created_execution_def
      demo_create_def seconds_def initial_authority_def)

lemma demo_evaluation_written:
  "\<not> isl (bnd (insert_candidate_evaluation demo_candidate_evaluation (demo_evaluating_db demo_seals)) (\<lambda>d1.
      bnd (update_candidate_attempts (\<lambda>t. ca_id t = ''t1'' \<and> ca_status t = RUNNING)
         (\<lambda>t. t\<lparr>ca_status := SUCCEEDED, ca_ended_at := Some ''later''\<rparr>) d1) (\<lambda>(d2, n).
      require_candidate_fence (demo_candidate_ctx 7) 3 ''x1'' (qc_fence demo_closure) False d2)))"
  by code_simp

lemma demo_evaluated:
  "\<exists>res d'. register_candidate_evaluation (demo_candidate_ctx 7) demo_candidate_evaluation (qc_fence demo_closure)
      (demo_evaluating_db demo_seals) = (Inr res, d') \<and> d' \<noteq> demo_evaluating_db demo_seals"
proof -
  let ?c = "demo_candidate_ctx 7" and ?d = "demo_evaluating_db demo_seals" and ?r = demo_candidate_evaluation
  let ?t = "demo_candidate_attempt\<lparr>ca_status := RUNNING, ca_ended_at := None\<rparr>"
  from demo_evaluation_written obtain d1 d' n x where
    w: "insert_candidate_evaluation ?r ?d = Inr d1"
      "update_candidate_attempts (\<lambda>t. ca_id t = ''t1'' \<and> ca_status t = RUNNING)
         (\<lambda>t. t\<lparr>ca_status := SUCCEEDED, ca_ended_at := Some ''later''\<rparr>) d1 = Inr (d', n)"
      "require_candidate_fence ?c 3 ''x1'' (qc_fence demo_closure) False d' = Inr x"
    by (auto simp: not_isl_iff success)
  have t: "find_candidate_attempt ''t1'' ?d = Some ?t"
    by (simp add: demo_evaluating_db_def find_candidate_attempt_def demo_candidate_attempt_def)
  have seals: "verify_candidate_seals ?c ''t1'' (Some (dumps demo_result)) True ?d = Inr ()"
    by (rule demo_seals_verify [OF _ t]) (simp add: demo_evaluating_db_def)
  have row: "ce_execution_id ?r = ''x1''" "ce_attempt_id ?r = ''t1''" "ce_result_json ?r = dumps demo_result"
      "ce_ended_at ?r = ''later''" "ce_verdict ?r = ''PASS''" "ce_candidate_id ?r = ''k1''"
    by (simp_all add: demo_candidate_evaluation_def)
  have result: "loads (dumps demo_result) = Some (canon demo_result)"
    by (rule loads_dumps) code_simp
  have members: "value_get (canon demo_result) ''verdict'' = Inr (JStr ''PASS'')"
      "value_get (canon demo_result) ''candidate_id'' = Inr (JStr ''k1'')" by code_simp+
  have "candidate_evaluation_body ?c ?r (qc_fence demo_closure) ?d = Inr ((), d')"
    unfolding candidate_evaluation_body_def fenced_body_def row using w seals t
    by (simp add: demo_evaluating_fence parsed_text_def result members)
      (simp add: demo_candidate_attempt_def demo_candidate_evaluation_def demo_closure_def demo_row_def
        created_execution_def demo_create_def)
  moreover have "candidate_evaluation_validate ?r ?d = Inr ()"
    unfolding candidate_evaluation_validate_def row using t
    by (simp add: get_execution_def find_execution_def)
      (simp add: demo_candidate_attempt_def demo_candidate_evaluation_def demo_evaluating_db_def evaluation_verdicts_def
        require_sha256_def)
  moreover have "begin_guard ?c ?d = Inr ()" by (simp add: begin_guard_def demo_candidate_ctx_def demo_ctx_def)
  ultimately have "register_candidate_evaluation ?c ?r (qc_fence demo_closure) ?d = (Inr (find_candidate_evaluation ''e1'' d'), d')"
    unfolding register_candidate_evaluation_def by (intro succeed) (simp_all add: demo_candidate_evaluation_def)
  moreover have "candidate_evaluations d' = candidate_evaluations ?d @ [?r]"
    using insert_candidate_Inr(6) [OF w(1)] update_candidate_attempts_Inr [OF w(2)] by simp
  then have "d' \<noteq> ?d" by auto
  ultimately show ?thesis by blast
qed

text \<open>
  C23. A candidate's verdict is the sealed one. A registration of an evaluation that takes effect
  was made under the fence of an execution in \<open>EVALUATING\<close> for the running attempt on exactly this
  candidate and content, and its result is byte for byte the one sealed after the run, names the
  verdict and the candidate, and comes with runner metadata of this attempt that exited with 0.
  The evaluation is added, the attempt ends as a success, and nothing of the execution changes.
\<close>

theorem candidate_verdict_is_sealed:
  assumes "register_candidate_evaluation c r f d = (Inr res, d')" and "d' \<noteq> d"
  shows "\<exists>x t post view raw j metadata. require_candidate_fence c 2 (ce_execution_id r) f True d = Inr x
    \<and> ex_state x = EVALUATING \<and> ex_result_commit x = None
    \<and> find_candidate_attempt (ce_attempt_id r) d = Some t \<and> ca_status t = RUNNING
    \<and> ca_execution_id t = ce_execution_id r \<and> ca_candidate_id t = ce_candidate_id r \<and> ca_content_sha256 t = ce_content_sha256 r
    \<and> candidate_phase_seal (ce_attempt_id r) POST_EXECUTION d = Some post \<and> candidate_view c post = Inr view
    \<and> bytes_for_role view ''result'' = Inr (ce_result_json r)
    \<and> bytes_for_role view ''runner_metadata'' = Inr raw
    \<and> bnd (of_option (PythonError ''ValueError'') (decode_json_bytes raw)) parsed_text = Inr metadata \<and> runtime_bound t metadata
    \<and> loads (ce_result_json r) = Some j
    \<and> bnd (value_get j ''verdict'') (\<lambda>v. Inr (json_eq v (JStr (ce_verdict r)))) = Inr True
    \<and> bnd (value_get j ''candidate_id'') (\<lambda>v. Inr (json_eq v (JStr (ce_candidate_id r)))) = Inr True
    \<and> candidate_evaluations d' = candidate_evaluations d @ [r]
    \<and> find_candidate_attempt (ce_attempt_id r) d' = Some (t\<lparr>ca_status := SUCCEEDED, ca_ended_at := Some (ce_ended_at r)\<rparr>)
    \<and> exec_view d' = exec_view d"
proof -
  from succeeded [OF assms(1) [unfolded register_candidate_evaluation_def]] obtain u where
    v: "candidate_evaluation_validate r d = Inr ()" and body: "candidate_evaluation_body c r f d = Inr (u, d')"
    by auto
  from v obtain t where t: "find_candidate_attempt (ce_attempt_id r) d = Some t"
      "ca_candidate_id t = ce_candidate_id r" "ca_content_sha256 t = ce_content_sha256 r"
    unfolding candidate_evaluation_validate_def by (elim step_elims) (auto split: option.splits if_split_asm)
  from body obtain x j verdict candidate d1 n where
    x: "require_candidate_fence c 2 (ce_execution_id r) f True d = Inr x" "ex_state x = EVALUATING" "ex_result_commit x = None"
    and run: "ca_status t = RUNNING" "ca_execution_id t = ce_execution_id r"
    and j: "loads (ce_result_json r) = Some j" "value_get j ''verdict'' = Inr verdict" "value_get j ''candidate_id'' = Inr candidate"
      "json_eq verdict (JStr (ce_verdict r))" "json_eq candidate (JStr (ce_candidate_id r))"
    and seals: "verify_candidate_seals c (ce_attempt_id r) (Some (ce_result_json r)) True d = Inr ()"
    and w: "insert_candidate_evaluation r d = Inr d1"
      "update_candidate_attempts (\<lambda>t. ca_id t = ce_attempt_id r \<and> ca_status t = RUNNING)
         (\<lambda>t. t\<lparr>ca_status := SUCCEEDED, ca_ended_at := Some (ce_ended_at r)\<rparr>) d1 = Inr (d', n)"
    unfolding candidate_evaluation_body_def using t(1)
    by (elim fenced_body_InrE exE conjE) (elim step_elims; clarsimp simp: parsed_text_def of_option_eq_Inr)
  from seals obtain post view t' raw metadata where s: "candidate_phase_seal (ce_attempt_id r) POST_EXECUTION d = Some post"
      "candidate_view c post = Inr view" "bytes_for_role view ''result'' = Inr (ce_result_json r)"
      "bytes_for_role view ''runner_metadata'' = Inr raw"
      "bnd (of_option (PythonError ''ValueError'') (decode_json_bytes raw)) parsed_text = Inr metadata" "runtime_bound t metadata"
    using t(1) by (elim verify_candidate_seals_post) auto
  have "find_candidate_attempt (ce_attempt_id r) d1 = Some t"
    using t(1) insert_candidate_Inr(6) [OF w(1)] by (simp add: find_candidate_attempt_def)
  from candidate_attempt_table.get_modify_hit [OF w(2) _ this] run candidate_attempt_table.get_key [OF t(1)]
  have t': "find_candidate_attempt (ce_attempt_id r) d' = Some (t\<lparr>ca_status := SUCCEEDED, ca_ended_at := Some (ce_ended_at r)\<rparr>)"
    by simp
  have "candidate_evaluations d' = candidate_evaluations d @ [r]"
    using insert_candidate_Inr(6) [OF w(1)] update_candidate_attempts_Inr [OF w(2)] by simp
  moreover have "exec_view d' = exec_view d" by (rule sans_evidence_views(1) [OF keeps_evidence_candidate(4) [OF body]])
  ultimately show ?thesis
    using x t run s j t'
    by (intro exI [of _ x] exI [of _ t] exI [of _ post] exI [of _ view] exI [of _ raw] exI [of _ j] exI [of _ metadata]) simp
qed

theorem candidate_verdict_is_sealed_witness:
  "\<exists>res d' post view. register_candidate_evaluation (demo_candidate_ctx 7) demo_candidate_evaluation (qc_fence demo_closure)
      (demo_evaluating_db demo_seals) = (Inr res, d')
    \<and> candidate_phase_seal ''t1'' POST_EXECUTION (demo_evaluating_db demo_seals) = Some post
    \<and> candidate_view (demo_candidate_ctx 7) post = Inr view \<and> bytes_for_role view ''result'' = Inr (dumps demo_result)"
proof -
  from demo_evaluated obtain res d' where
    op: "register_candidate_evaluation (demo_candidate_ctx 7) demo_candidate_evaluation (qc_fence demo_closure)
      (demo_evaluating_db demo_seals) = (Inr res, d')" and "d' \<noteq> demo_evaluating_db demo_seals" by blast
  from candidate_verdict_is_sealed [OF this] op show ?thesis
    by (auto simp: demo_candidate_evaluation_def)
qed

section \<open>The closure\<close>

text \<open>
  C22. A candidate becomes a commit only with every authority in place: a closure that takes effect
  found the execution waiting for approval without a result under the live fence of the caller,
  an approved and unconsumed development approval bound to a passing evaluation of exactly this
  candidate and content, sealed artifacts that still verify, and an intact intent whose planned
  commit is the one \<open>apply\<close> answered. It records that commit, consumes the approval, returns the
  execution to verification and touches no other execution.
\<close>

theorem close_effect:
  assumes "close_candidate_to_commit c q applied d = (Inr k, d')" and "d' \<noteq> d"
  shows "\<exists>x b p l e intent plan commit.
      find_execution (qc_execution_id q) d = Some x \<and> ex_state x = WAITING_APPROVAL \<and> ex_result_commit x = None
    \<and> fence_held x (cf_owner (qc_fence q)) (cf_generation (qc_fence q)) (clock c 4)
    \<and> ex_state_version x = cf_expected_version (qc_fence q)
    \<and> find_binding (qc_candidate_id q) d = Some b \<and> find_candidate_approval (qc_approval_id q) d = Some l
    \<and> find_candidate_evaluation (qc_evaluation_id q) d = Some e
    \<and> find_approval (qc_approval_id q) d = Some p \<and> closure_authority_ok q False b p l e
    \<and> verify_candidate_seals c (ce_attempt_id e) (Some (ce_result_json e)) True d = Inr ()
    \<and> find_intent (qc_closure_id q) d = Some intent \<and> same_closure q intent
    \<and> loads (ci_plan_json intent) = Some plan \<and> canonical_digest c plan = Inr (ci_plan_sha256 intent)
    \<and> applied plan = Inr commit \<and> member ''result_commit'' plan = Some (JStr commit)
    \<and> k = Some (closure_row c q x b commit)
    \<and> candidate_closures d' = candidate_closures d @ [closure_row c q x b commit]
    \<and> find_approval (qc_approval_id q) d' = Some (p\<lparr>ap_consumed_at := Some (clock c 1)\<rparr>)
    \<and> (\<forall>i. find_execution i d' = (if i = qc_execution_id q then Some (closed_row commit (clock c 1) x)
          else find_execution i d))"
proof -
  from succeeded_plain [OF assms(1) [unfolded close_candidate_to_commit_def]] obtain u where
    body: "close_body c q applied d = Inr (u, d')" and k: "find_closure (qc_closure_id q) d' = k" by auto
  from body obtain x b commit intent plan where
    new: "find_closure (qc_closure_id q) d = None" and auth: "closure_authority c q False d = Inr (x, b)"
    and i: "find_intent (qc_closure_id q) d = Some intent" "same_closure q intent"
      "loads (ci_plan_json intent) = Some plan" "canonical_digest c plan = Inr (ci_plan_sha256 intent)"
      "applied plan = Inr commit" "member ''result_commit'' plan = Some (JStr commit)"
    and rec: "record_closure_body c q x b commit d = Inr d'"
    using assms(2) by (elim close_body_Inr) auto
  from auth obtain p l e where a: "require_candidate_fence c 4 (qc_execution_id q) (qc_fence q) True d = Inr x"
      "find_binding (qc_candidate_id q) d = Some b" "find_approval (qc_approval_id q) d = Some p"
      "find_candidate_approval (qc_approval_id q) d = Some l"
      "find_candidate_evaluation (qc_evaluation_id q) d = Some e" "closure_authority_ok q False b p l e"
      "ex_state x = WAITING_APPROVAL \<and> ex_result_commit x = None"
      "verify_candidate_seals c (ce_attempt_id e) (Some (ce_result_json e)) True d = Inr ()"
    by (elim closure_authority_cases) auto
  note f = closure_fence [OF a(1)]
  have id: "ex_id x = qc_execution_id q" using f(1) by (rule execution_table.get_key)
  have p: "ap_status p = APPROVED" "ap_consumed_at p = None"
    using a(6) by (simp_all add: closure_authority_ok_def Let_def)
  have x: "find_execution (ex_id x) d = Some x" "ex_state x = WAITING_APPROVAL" "ex_result_commit x = None"
    using f(1) a(7) id by simp_all
  note w = closure_writes [OF rec x a(3) p]
  have "k = Some (closure_row c q x b commit)"
    using k w(1) new by (auto simp: find_closure_def find_append closure_row_def)
  with f a i w id show ?thesis
    by (intro exI [of _ x] exI [of _ b] exI [of _ p] exI [of _ l] exI [of _ e] exI [of _ intent]
        exI [of _ plan] exI [of _ commit]) simp
qed

theorem close_effect_witness:
  "\<exists>k d' x. close_candidate_to_commit (demo_candidate_ctx 7) demo_closure demo_apply (demo_closing_db demo_seals) = (Inr k, d')
    \<and> find_execution ''x1'' (demo_closing_db demo_seals) = Some x \<and> ex_state x = WAITING_APPROVAL
    \<and> find_execution ''x1'' d' = Some (closed_row demo_result_commit (seconds 7) x)"
proof -
  from demo_closed obtain k d' where
    op: "close_candidate_to_commit (demo_candidate_ctx 7) demo_closure demo_apply (demo_closing_db demo_seals) = (Inr k, d')"
    and "d' \<noteq> demo_closing_db demo_seals" by blast
  from close_effect [OF this] show ?thesis
    using op by (auto simp: demo_closure_ids demo_apply_def demo_candidate_ctx_def)
qed

end
