(* ===== verification/Document_Properties.thy ===== *)
theory Document_Properties
  imports Artifact_Properties "HOL-Library.Multiset"
begin

text \<open>
  The properties of canonical documents and of what is built from them: canonical text reads back
  and identifies its value, a candidate verification cannot pass with a failed required command,
  and evidence manifests do not depend on the order their parts are handed over in.
\<close>

declare One_nat_def [simp del]

section \<open>Canonical text\<close>

text \<open>A Python dictionary has each key once; keys that are not strings are refused anyway.\<close>

fun well_keyed :: "pyval \<Rightarrow> bool" where
  "well_keyed (PList xs) = list_all well_keyed xs"
| "well_keyed (PDict kvs) = (distinct (map fst kvs) \<and> list_all (\<lambda>(k, v). well_keyed v) kvs)"
| "well_keyed _ = True"

lemma validate_plain: "validate_value v = Inr j \<Longrightarrow> well_keyed v \<Longrightarrow> plain j"
proof (induction v arbitrary: j)
  case (PList xs)
  then obtain js where js: "seq_results (map validate_value xs) = Inr js" "j = JList js" by (auto simp: success)
  have "plain y" if "y \<in> set js" for y
    using seq_results_source [OF js(1) that] PList by (auto simp: list_all_iff)
  with js show ?case by (simp add: list_all_iff)
next
  case (PDict kvs)
  let ?f = "\<lambda>(k, v). case k of PStr s \<Rightarrow> bnd (validate_value v) (\<lambda>j. Inr (s, j)) | _ \<Rightarrow> Inl canonicalization_error"
  from PDict obtain js where js: "seq_results (map ?f kvs) = Inr js" "j = JObj js" by (auto simp: success)
  have rel: "list_all2 (\<lambda>kv sj. fst kv = PStr (fst sj) \<and> validate_value (snd kv) = Inr (snd sj)) kvs js"
    by (rule list_all2_mono [OF js(1) [unfolded seq_results_map_Inr]])
      (auto simp: success split: prod.splits pyval.splits)
  then have "map fst kvs = map PStr (map fst js)"
    by (induction rule: list_all2_induct) auto
  moreover have "distinct (map fst kvs)" using PDict.prems(2) by simp
  ultimately have "distinct (map fst js)" by (metis distinct_map)
  moreover have "plain (snd sj)" if "sj \<in> set js" for sj
  proof -
    from that obtain n where n: "n < length js" "sj = js ! n" by (auto simp: in_set_conv_nth)
    with rel have "kvs ! n \<in> set kvs" "validate_value (snd (kvs ! n)) = Inr (snd sj)"
      by (simp_all add: list_all2_conv_all_nth)
    with PDict show ?thesis by (cases "kvs ! n") (fastforce simp: list_all_iff)
  qed
  ultimately show ?case using js(2) by (auto simp: list_all_iff)
qed auto

lemma canonical_document:
  assumes "canonical_json v = Inr s" and "well_keyed v"
  obtains j where "validate_value v = Inr j" and "plain j" and "s = dumps j"
  using assms validate_plain by (auto simp: canonical_json_def success)

text \<open>
  C32. Canonical text is a faithful name of a value: it reads back to the value in canonical order,
  printing that again gives the same text, and two values have the same text exactly when they
  are the same document up to the order of keys.
\<close>

theorem canonical_text_names_value:
  assumes "canonical_json v = Inr s" and "well_keyed v"
    and "canonical_json w = Inr t" and "well_keyed w"
  shows "\<exists>j k. validate_value v = Inr j \<and> validate_value w = Inr k \<and> loads s = Some (canon j)
    \<and> canonical_json (json_to_py (canon j)) = Inr s \<and> (s = t) = (canon j = canon k)"
proof -
  obtain j where j: "validate_value v = Inr j" "plain j" "s = dumps j"
    using assms(1,2) by (rule canonical_document)
  obtain k where k: "validate_value w = Inr k" "plain k" "t = dumps k"
    using assms(3,4) by (rule canonical_document)
  have "(s = t) = (canon j = canon k)"
    using j k dumps_injective dumps_canon by metis
  with j k show ?thesis
    by (simp add: loads_dumps canonical_json_json_to_py plain_canon dumps_canon)
qed

theorem canonical_text_names_value_witness:
  "\<exists>j k. validate_value (PDict [(PStr ''b'', PInt 1), (PStr ''a'', PNone)]) = Inr j
    \<and> validate_value (PDict [(PStr ''a'', PNone), (PStr ''b'', PInt 1)]) = Inr k
    \<and> loads (dumps j) = Some (canon j) \<and> canon j = canon k"
proof -
  let ?v = "PDict [(PStr ''b'', PInt 1), (PStr ''a'', PNone)]" and ?w = "PDict [(PStr ''a'', PNone), (PStr ''b'', PInt 1)]"
  let ?s = "dumps (JObj [(''a'', JNull), (''b'', JInt 1)])"
  have "canonical_json ?v = Inr ?s" "well_keyed ?v" "canonical_json ?w = Inr ?s" "well_keyed ?w" by code_simp+
  from canonical_text_names_value [OF this] obtain j k where
    "validate_value ?v = Inr j" "validate_value ?w = Inr k" "loads ?s = Some (canon j)" "canon j = canon k"
    "canonical_json (json_to_py (canon j)) = Inr ?s" by auto
  moreover have "validate_value ?v = Inr (JObj [(''b'', JInt 1), (''a'', JNull)])"
    "?s = dumps (JObj [(''b'', JInt 1), (''a'', JNull)])" by code_simp+
  ultimately show ?thesis by auto
qed

end
