(* ===== verification/Closure_Laws.thy ===== *)
theory Closure_Laws
  imports Runs
begin

text \<open>
  What the store promises of closures, as an abstract machine over the approvals, the candidate
  evaluations, the bound approvals and the closures: evaluations and bindings are only ever
  added, and a closure is added together with the consumption of the approval it rests on.
\<close>

section \<open>The abstract machine\<close>

type_synonym closure_view =
  "approval_view \<times> candidate_evaluation_row list \<times> candidate_approval_row list \<times> candidate_closure_row list"

definition closure_view :: "db \<Rightarrow> closure_view" where
  "closure_view d = (approval_view d, candidate_evaluations d, candidate_approvals d, candidate_closures d)"

text \<open>The bound approval and the passing evaluation that a closure rests on.\<close>

definition rests_on :: "candidate_closure_row \<Rightarrow> candidate_approval_row \<Rightarrow> candidate_evaluation_row \<Rightarrow> bool" where
  "rests_on k l e \<longleftrightarrow> cl_approval_id l = cc_approval_id k \<and> cl_execution_id l = cc_execution_id k
     \<and> cl_candidate_id l = cc_candidate_id k \<and> cl_evaluation_id l = cc_evaluation_id k
     \<and> ce_id e = cc_evaluation_id k \<and> ce_verdict e = ''PASS'' \<and> ce_execution_id e = cc_execution_id k
     \<and> ce_candidate_id e = cc_candidate_id k \<and> ce_content_sha256 e = cc_content_sha256 k"

definition unused :: "candidate_closure_row \<Rightarrow> candidate_closure_row list \<Rightarrow> bool" where
  "unused k ks \<longleftrightarrow> (\<forall>x\<in>set ks. cc_closure_id x \<noteq> cc_closure_id k \<and> cc_execution_id x \<noteq> cc_execution_id k
     \<and> cc_candidate_id x \<noteq> cc_candidate_id k \<and> cc_approval_id x \<noteq> cc_approval_id k
     \<and> cc_evaluation_id x \<noteq> cc_evaluation_id k \<and> cc_result_commit x \<noteq> cc_result_commit k)"

inductive closure_step :: "closure_view \<Rightarrow> closure_view \<Rightarrow> bool" where
  grown: "approval_step\<^sup>=\<^sup>= m m' \<Longrightarrow> extends es es' \<Longrightarrow> extends ls ls' \<Longrightarrow> closure_step (m, es, ls, ks) (m', es', ls', ks)"
| closed: "unused k ks \<Longrightarrow> l \<in> set ls \<Longrightarrow> e \<in> set es \<Longrightarrow> rests_on k l e
     \<Longrightarrow> m (cc_approval_id k) = Some p \<Longrightarrow> ap_execution_id p = cc_execution_id k
     \<Longrightarrow> ap_approval_type p = ''DEVELOPMENT_ACCEPTANCE'' \<Longrightarrow> ap_status p = APPROVED \<Longrightarrow> ap_consumed_at p = None
     \<Longrightarrow> closure_step (m, es, ls, ks)
           (m(cc_approval_id k \<mapsto> p\<lparr>ap_consumed_at := Some (cc_created_at k)\<rparr>), es, ls, ks @ [k])"

inductive_cases closure_stepE: "closure_step (m, es, ls, ks) v"

text \<open>A closure that is sound rests on all of this, and has used its approval up.\<close>

fun sound_closure :: "closure_view \<Rightarrow> candidate_closure_row \<Rightarrow> bool" where
  "sound_closure (m, es, ls, ks) k \<longleftrightarrow> (\<exists>l\<in>set ls. \<exists>e\<in>set es. rests_on k l e)
     \<and> (\<exists>p. m (cc_approval_id k) = Some p \<and> ap_execution_id p = cc_execution_id k
          \<and> ap_approval_type p = ''DEVELOPMENT_ACCEPTANCE'' \<and> ap_status p = APPROVED
          \<and> ap_consumed_at p = Some (cc_created_at k))"

fun closures_sound :: "closure_view \<Rightarrow> bool" where
  "closures_sound (m, es, ls, ks) \<longleftrightarrow> (\<forall>k\<in>set ks. sound_closure (m, es, ls, ks) k)
     \<and> distinct (map cc_closure_id ks) \<and> distinct (map cc_execution_id ks) \<and> distinct (map cc_candidate_id ks)
     \<and> distinct (map cc_approval_id ks) \<and> distinct (map cc_evaluation_id ks) \<and> distinct (map cc_result_commit ks)"

lemma sound_closure_stays:
  assumes "sound_closure (m, es, ls, ks) k" and "approval_step\<^sup>=\<^sup>= m m'"
    and "extends es es'" and "extends ls ls'"
  shows "sound_closure (m', es', ls', ks') k"
proof -
  from assms(1) obtain p where p: "m (cc_approval_id k) = Some p" "ap_status p = APPROVED"
      "ap_consumed_at p = Some (cc_created_at k)" "ap_execution_id p = cc_execution_id k"
      "ap_approval_type p = ''DEVELOPMENT_ACCEPTANCE''" by auto
  from assms(2) p(1) have "\<exists>p'. m' (cc_approval_id k) = Some p' \<and> approval_later p p'"
    using approval_along [of m m'] by (metis (full_types) r_into_rtranclp rtranclp.rtrancl_refl sup2CI sup2E)
  with p have "\<exists>p. m' (cc_approval_id k) = Some p \<and> ap_execution_id p = cc_execution_id k
      \<and> ap_approval_type p = ''DEVELOPMENT_ACCEPTANCE'' \<and> ap_status p = APPROVED
      \<and> ap_consumed_at p = Some (cc_created_at k)"
    unfolding approval_later_def by auto
  moreover from assms(1,3,4) have "\<exists>l\<in>set ls'. \<exists>e\<in>set es'. rests_on k l e"
    unfolding extends_iff sound_closure.simps by (elim exE conjE bexE) (rule bexI, rule bexI, assumption, simp_all)
  ultimately show ?thesis by simp
qed

lemma closures_sound_step:
  assumes "closure_step v v'" and "closures_sound v"
  shows "closures_sound v'"
  using assms
proof (cases rule: closure_step.cases)
  case (grown m m' es es' ls ls' ks)
  with assms(2) sound_closure_stays show ?thesis by (simp del: sound_closure.simps) blast
next
  case (closed k ks l ls e es m p)
  let ?m = "m(cc_approval_id k \<mapsto> p\<lparr>ap_consumed_at := Some (cc_created_at k)\<rparr>)"
  have "approval_step m ?m" using closed by (intro approval_step.consumed) auto
  then have "\<forall>x\<in>set ks. sound_closure (?m, es, ls, ks @ [k]) x"
    using assms(2) closed(1) sound_closure_stays [of m es ls ks _ ?m es ls "ks @ [k]"]
    by (auto simp: extends_def simp del: sound_closure.simps)
  moreover have "sound_closure (?m, es, ls, ks @ [k]) k" using closed by auto
  ultimately show ?thesis
    using assms(2) closed(1,2,3) by (auto simp: unused_def simp del: sound_closure.simps)
qed

interpretation closure_machine: kept_by closure_step closures_sound
  by unfold_locales (rule closures_sound_step)

section \<open>The operations refine it\<close>

text \<open>The three candidate tables that the machine reads.\<close>

definition candidate_tables ::
  "db \<Rightarrow> candidate_evaluation_row list \<times> candidate_approval_row list \<times> candidate_closure_row list" where
  "candidate_tables d = (candidate_evaluations d, candidate_approvals d, candidate_closures d)"

lemma keeps_candidate_tables:
  "keeps sans_core d d' \<Longrightarrow> candidate_tables d' = candidate_tables d"
  "keeps sans_writer d d' \<Longrightarrow> candidate_tables d' = candidate_tables d"
  "keeps sans_authority d d' \<Longrightarrow> candidate_tables d' = candidate_tables d"
  "keeps sans_receipts d d' \<Longrightarrow> candidate_tables d' = candidate_tables d"
  unfolding keeps_def sans_core_def sans_writer_def sans_authority_def sans_receipts_def
  by (cases d; cases d'; simp add: candidate_tables_def)+

text \<open>Evidence is only added.\<close>

definition tables_grow :: "db \<Rightarrow> db \<Rightarrow> bool" where
  "tables_grow d d' \<longleftrightarrow> extends (candidate_evaluations d) (candidate_evaluations d')
     \<and> extends (candidate_approvals d) (candidate_approvals d') \<and> candidate_closures d' = candidate_closures d"

lemma tables_grow_refl: "tables_grow d d"
  by (simp add: tables_grow_def extends_def)

lemma tables_growing:
  "insert_binding r1 d = Inr d1 \<Longrightarrow> tables_grow d0 d \<Longrightarrow> tables_grow d0 d1"
  "insert_provenance r2 d = Inr d1 \<Longrightarrow> tables_grow d0 d \<Longrightarrow> tables_grow d0 d1"
  "insert_candidate_verification r3 d = Inr d1 \<Longrightarrow> tables_grow d0 d \<Longrightarrow> tables_grow d0 d1"
  "insert_candidate_attempt r4 d = Inr d1 \<Longrightarrow> tables_grow d0 d \<Longrightarrow> tables_grow d0 d1"
  "insert_candidate_seal r5 d = Inr d1 \<Longrightarrow> tables_grow d0 d \<Longrightarrow> tables_grow d0 d1"
  "insert_candidate_evaluation r6 d = Inr d1 \<Longrightarrow> tables_grow d0 d \<Longrightarrow> tables_grow d0 d1"
  "insert_candidate_approval r7 d = Inr d1 \<Longrightarrow> tables_grow d0 d \<Longrightarrow> tables_grow d0 d1"
  "insert_intent r8 d = Inr d1 \<Longrightarrow> tables_grow d0 d \<Longrightarrow> tables_grow d0 d1"
  "insert_seal z d = Inr d1 \<Longrightarrow> tables_grow d0 d \<Longrightarrow> tables_grow d0 d1"
  "insert_evaluation v d = Inr d1 \<Longrightarrow> tables_grow d0 d \<Longrightarrow> tables_grow d0 d1"
  "update_attempts pa fa d = Inr (d1, n) \<Longrightarrow> tables_grow d0 d \<Longrightarrow> tables_grow d0 d1"
  "update_candidate_attempts pc fc d = Inr (d1, n) \<Longrightarrow> tables_grow d0 d \<Longrightarrow> tables_grow d0 d1"
  by (drule evidence_written, auto simp: tables_grow_def extends_iff; fail)+

lemma tables_grow_evidence:
  "create_seal_body c q1 d = Inr (u1, d1) \<Longrightarrow> tables_grow d d1"
  "finish_body c q2 s2 d = Inr (u2, d1) \<Longrightarrow> tables_grow d d1"
  "evaluation_body c q3 r3 d = Inr (u3, d1) \<Longrightarrow> tables_grow d d1"
  "bind_candidate_body c q4 d = Inr (u4, d1) \<Longrightarrow> tables_grow d d1"
  "candidate_verification_body c q5 f5 d = Inr (u5, d1) \<Longrightarrow> tables_grow d d1"
  "candidate_attempt_body c q6 b6 v6 d = Inr (u6, d1) \<Longrightarrow> tables_grow d d1"
  "candidate_evaluation_body c q7 f7 d = Inr (u7, d1) \<Longrightarrow> tables_grow d d1"
  "candidate_seal_body c q8 p8 i8 d = Inr (u8, d1) \<Longrightarrow> tables_grow d d1"
  "candidate_approval_body c q9 e9 p9 d = Inr (u9, d1) \<Longrightarrow> tables_grow d d1"
  "prepare_body c q10 plan10 d = Inr (u10, d1) \<Longrightarrow> tables_grow d d1"
  unfolding create_seal_body_def finish_body_def evaluation_body_def bind_candidate_body_def
    candidate_verification_body_def candidate_attempt_body_def candidate_evaluation_body_def
    candidate_seal_body_def candidate_approval_body_def prepare_body_def Let_def
  by (elim fenced_body_InrE exE conjE body_elims; clarsimp?; (rule tables_grow_refl | erule tables_growing)+; fail)+

lemma tables_kept: "candidate_tables d' = candidate_tables d \<Longrightarrow> tables_grow d d'"
  by (simp add: candidate_tables_def tables_grow_def extends_def)

lemma commits_grow: "commits c k d d' \<Longrightarrow> \<forall>q applied. k \<noteq> CloseCommit q applied \<Longrightarrow> tables_grow d d'"
  by (cases k; simp)
    (auto dest: tables_grow_evidence keeps_core [THEN keeps_candidate_tables(1), THEN tables_kept]
      keeps_sans(1-4) [THEN keeps_candidate_tables(2), THEN tables_kept]
      keeps_sans(5,6) [THEN keeps_candidate_tables(3), THEN tables_kept]
      keeps_sans(7) [THEN keeps_candidate_tables(4), THEN tables_kept])

text \<open>The closure is the other step.\<close>

lemma unused_closure: "insert_closure k d = Inr d' \<Longrightarrow> unused k (candidate_closures d)"
  unfolding insert_closure_def unused_def by (simp split: if_split_asm) (metis image_eqI)

lemma close_body_step:
  assumes "close_body c q apply_plan d = Inr (u, d')"
  shows "closure_step\<^sup>=\<^sup>= (closure_view d) (closure_view d')"
  using assms
proof (cases rule: close_body_Inr)
  case (closed x b commit intent plan)
  from closed(2) obtain p l e where a: "require_candidate_fence c 4 (qc_execution_id q) (qc_fence q) True d = Inr x"
      "find_binding (qc_candidate_id q) d = Some b" "find_approval (qc_approval_id q) d = Some p"
      "find_candidate_approval (qc_approval_id q) d = Some l"
      "find_candidate_evaluation (qc_evaluation_id q) d = Some e" "closure_authority_ok q False b p l e"
    by (elim closure_authority_cases) auto
  let ?k = "closure_row c q x b commit"
  have ids: "ex_id x = qc_execution_id q" "cb_id b = qc_candidate_id q" "cl_approval_id l = qc_approval_id q"
      "ce_id e = qc_evaluation_id q" "l \<in> set (candidate_approvals d)" "e \<in> set (candidate_evaluations d)"
    using closure_fence(1) [OF a(1)] a(2,4,5)
    by (auto simp: find_execution_def find_binding_def find_candidate_approval_def find_candidate_evaluation_def
        dest: find_SomeD)
  from closed(9) show ?thesis
  proof (cases rule: record_closure_cases)
    case (1 d1 d2 d3 n payload key)
    note d1 = insert_candidate_Inr(9) [OF 1(1)]
    have p: "ap_status p = APPROVED" "ap_consumed_at p = None" "ap_execution_id p = qc_execution_id q"
        "ap_approval_type p = ''DEVELOPMENT_ACCEPTANCE''" "ap_id p = qc_approval_id q"
      using a(6) approval_table.get_key [OF a(3)] by (simp_all add: closure_authority_ok_def Let_def)
    have "find_approval (qc_approval_id q) d1 = Some p" using a(3) d1 by (simp add: find_approval_def)
    from update_approvals_view [OF 1(2) this] p
    have "approval_view d2 = (approval_view d1)(qc_approval_id q \<mapsto> p\<lparr>ap_consumed_at := Some (clock c 1)\<rparr>)" by simp
    moreover have "approval_view d1 = approval_view d" using d1 by (simp add: approval_view_def find_approval_def)
    moreover have "candidate_tables d' = candidate_tables d1"
      by (rule keeps_candidate_tables(1)) (rule core_frame_compound(1) [OF 1(4) core_frame(2) [OF 1(3) core_frame(8) [OF 1(2) keeps_refl]]])
    moreover have "approvals d' = approvals d2"
      using approval_frame_compound(1) [OF 1(4) approval_frame(2) [OF 1(3) keeps_refl]] by (simp add: keeps_def)
    ultimately have view: "closure_view d' = ((approval_view d)(cc_approval_id ?k \<mapsto> p\<lparr>ap_consumed_at := Some (cc_created_at ?k)\<rparr>),
        candidate_evaluations d, candidate_approvals d, candidate_closures d @ [?k])"
      using d1 same_approvals [of d' d2] by (simp add: closure_view_def candidate_tables_def closure_row_def)
    have "rests_on ?k l e"
      using a(6) ids by (simp add: closure_authority_ok_def Let_def rests_on_def closure_row_def)
    then have "closure_step (closure_view d) (closure_view d')"
      unfolding view unfolding closure_view_def using unused_closure [OF 1(1)] ids p a(3)
      by (intro closure_step.closed) (auto simp: closure_row_def approval_view_def)
    then show ?thesis by simp
  qed
qed simp

lemma commits_closures:
  assumes "commits c k d d'"
  shows "closure_step\<^sup>=\<^sup>= (closure_view d) (closure_view d')"
proof (cases "\<forall>q applied. k \<noteq> CloseCommit q applied")
  case True
  with commits_grow [OF assms] closure_step.grown [OF commits_approvals [OF assms]] show ?thesis
    by (simp add: closure_view_def tables_grow_def)
qed (use assms in \<open>auto dest: close_body_step\<close>)

section \<open>The execution machine and the closures on record\<close>

text \<open>
  Along a run the executions move by steps that only the closures on record at its end can
  close: each closing event of an execution has its row.
\<close>

lemma closures_grow: "commits c k d d' \<Longrightarrow> set (candidate_closures d) \<subseteq> set (candidate_closures d')"
  using commits_closures [of c k d d'] by (auto simp: closure_view_def elim: closure_step.cases)

lemma recorded_steps:
  assumes "(performed j)\<^sup>*\<^sup>* d d'"
  shows "(exec_step (set (candidate_closures d')))\<^sup>*\<^sup>* (exec_view d) (exec_view d')"
  using assms
proof (induction rule: rtranclp_induct)
  case (step d1 d2)
  show ?case
  proof (cases "d2 = d1")
    case False
    then obtain c k where c: "commits c k d1 d2" using performed_cases [OF step(2)] by auto
    from exec_steps_mono [OF closures_grow [OF c] step(3)] commits_exec [OF c] show ?thesis by simp
  qed (use step in simp)
qed simp

lemmas run_recorded = recorded_steps [OF run_performed]

interpretation closure_system: refines closure_step closures_sound closure_view "performed j" for j
  by unfold_locales (auto dest!: performed_cases commits_closures)

end
