(* ===== verification/Controller_Machine.thy ===== *)
theory Controller_Machine
  imports Runs
begin

text \<open>
  The setting of the controller (\<open>src/adcp/controller.py\<close>): it works on the store one access at a
  time, so what other clients commit between two accesses is part of every step, and it asks Git
  and the file system, whose answers may change from one question to the next. An action maps a
  machine (the store's database, what the controller remembers, and the trace of what was done)
  to an answer or an error and a machine.
\<close>

section \<open>Errors and the machine\<close>

text \<open>\<open>ControllerError code\<close>, any exception of the layers below, and \<open>RunnerError code\<close>.\<close>

datatype controller_error =
    ControllerError string
  | Raised store_error
  | RunFailure string

type_synonym authorization = "int \<times> int \<times> string \<times> string"

text \<open>
  A Git command as \<open>_run_git\<close> and \<open>_candidate_git\<close> start it, the latter with its standard input
  and additional environment; it ends with an exit code and an output, or at its timeout.
\<close>

datatype git_command =
    Run_git "string list"
  | Candidate_git "string list" "string option" "(string \<times> string) list"

datatype git_answer = Exit int string | Timed_out

text \<open>
  What was done to the world: a call of another client, a call of the controller, a Git command
  in a repository. Reads of the store and of the file system leave no trace.
\<close>

datatype deed =
    Elsewhere ctx call
  | Ours ctx call
  | Git string git_command

record machine =
  mc_db :: db
  mc_tick :: nat
  mc_authorizations :: "string \<Rightarrow> authorization option"
  mc_trace :: "deed list"

text \<open>What an agent process is started with and what it leaves (\<open>runner.py\<close>): the process is the host's.\<close>

record invocation =
  iv_workspace :: string
  iv_prompt :: string
  iv_output_schema :: pyval
  iv_artifact_directory :: string
  iv_sandbox :: string
  iv_binary :: string
  iv_model :: "string option"
  iv_reasoning_effort :: "string option"
  iv_timeout_seconds :: int
  iv_ignore_user_config :: bool

record artifact_set =
  as_stdout :: "string \<times> string"
  as_stderr :: "string \<times> string"
  as_result :: "string \<times> string"
  as_metadata :: "string \<times> string"

record run_result =
  rr_structured :: "(string \<times> json) list"
  rr_exit_code :: int
  rr_timed_out :: bool
  rr_artifacts :: artifact_set

datatype run_outcome =
    Ran run_result
  | Run_failed string "artifact_set option"

text \<open>
  The host at each tick: the environment the store would see, the calls other clients commit just
  before, and what Git (exit code and output), \<open>lstat\<close> and \<open>resolve\<close> answer. \<open>None\<close> of
  \<open>ho_strict\<close> is a \<open>FileNotFoundError\<close>. \<open>ho_writes\<close> is whether a file or directory could be written,
  \<open>ho_detail\<close> the human-readable detail of the error at hand, which the model does not compute. The
  identity and the roots are the controller's own.
\<close>

datatype file_answer =
    Missing
  | Link_to string
  | Regular bool string
  | Other_file

record host =
  ho_controller_id :: string
  ho_source_root :: string
  ho_worktree_root :: string
  ho_julian :: "int \<Rightarrow> int"
  ho_sha :: "string \<Rightarrow> string"
  ho_ctx :: "nat \<Rightarrow> ctx"
  ho_others :: "nat \<Rightarrow> (ctx \<times> call) list"
  ho_git :: "nat \<Rightarrow> string \<Rightarrow> git_command \<Rightarrow> git_answer"
  ho_exists :: "nat \<Rightarrow> string \<Rightarrow> bool"
  ho_is_file :: "nat \<Rightarrow> string \<Rightarrow> bool"
  ho_file :: "nat \<Rightarrow> string \<Rightarrow> file_answer"
  ho_writes :: "nat \<Rightarrow> string \<Rightarrow> bool"
  ho_detail :: "nat \<Rightarrow> string"
  ho_run :: "nat \<Rightarrow> invocation \<Rightarrow> run_outcome"
  ho_strict :: "nat \<Rightarrow> string \<Rightarrow> string option"
  ho_lenient :: "nat \<Rightarrow> string \<Rightarrow> string"

type_synonym 'a act = "machine \<Rightarrow> (controller_error + 'a) \<times> machine"

definition ctx_at :: "host \<Rightarrow> nat \<Rightarrow> ctx" where
  "ctx_at h n = (ho_ctx h n)\<lparr>sha := ho_sha h, julian := ho_julian h\<rparr>"

section \<open>Actions\<close>

definition reply :: "'a \<Rightarrow> 'a act" where
  "reply x s = (Inr x, s)"

definition abort :: "controller_error \<Rightarrow> 'a act" where
  "abort e s = (Inl e, s)"

definition refuse :: "string \<Rightarrow> 'a act" where
  "refuse code = abort (ControllerError code)"

definition andthen :: "'a act \<Rightarrow> ('a \<Rightarrow> 'b act) \<Rightarrow> 'b act" where
  "andthen m f s = (case m s of (Inl e, t) \<Rightarrow> (Inl e, t) | (Inr x, t) \<Rightarrow> f x t)"

text \<open>\<open>try ... except\<close>: what the handler does not catch it raises again.\<close>

definition rescue :: "'a act \<Rightarrow> (controller_error \<Rightarrow> 'a act) \<Rightarrow> 'a act" where
  "rescue m handler s = (case m s of (Inl e, t) \<Rightarrow> handler e t | (Inr x, t) \<Rightarrow> (Inr x, t))"

definition lift :: "'a result \<Rightarrow> 'a act" where
  "lift r = (case r of Inl e \<Rightarrow> abort (Raised e) | Inr x \<Rightarrow> reply x)"

fun each :: "('x \<Rightarrow> unit act) \<Rightarrow> 'x list \<Rightarrow> unit act" where
  "each f [] = reply ()"
| "each f (x # xs) = andthen (f x) (\<lambda>_. each f xs)"

fun collect :: "('x \<Rightarrow> 'y act) \<Rightarrow> 'x list \<Rightarrow> 'y list act" where
  "collect f [] = reply []"
| "collect f (x # xs) = andthen (f x) (\<lambda>y. andthen (collect f xs) (\<lambda>ys. reply (y # ys)))"

text \<open>What the others committed since the last access.\<close>

definition settle :: "host \<Rightarrow> machine \<Rightarrow> machine" where
  "settle h s = s\<lparr>mc_db := run (ho_julian h) (ho_others h (mc_tick s)) (mc_db s),
     mc_trace := mc_trace s @ map (\<lambda>(c, k). Elsewhere c k) (ho_others h (mc_tick s))\<rparr>"

text \<open>A read of the store, with the environment it happens in.\<close>

definition look :: "host \<Rightarrow> (ctx \<Rightarrow> db \<Rightarrow> 'a result) \<Rightarrow> 'a act" where
  "look h f s = (let t = settle h s in
     (map_sum Raised id (f (ctx_at h (mc_tick s)) (mc_db t)), t\<lparr>mc_tick := Suc (mc_tick s)\<rparr>))"

text \<open>A call of the store; the answer is the operation's, the change is the call's.\<close>

definition ask :: "host \<Rightarrow> call \<Rightarrow> (ctx \<Rightarrow> db \<Rightarrow> 'a result) \<Rightarrow> 'a act" where
  "ask h k answer s = (let t = settle h s; c = ctx_at h (mc_tick s) in
     (map_sum Raised id (answer c (mc_db t)),
      t\<lparr>mc_db := perform c k (mc_db t), mc_tick := Suc (mc_tick s), mc_trace := mc_trace t @ [Ours c k]\<rparr>))"

text \<open>\<open>timestamp(store._now())\<close>, \<open>uuid4().hex\<close>, and a question to the file system.\<close>

definition now :: "host \<Rightarrow> int act" where
  "now h = look h (\<lambda>c _. Inr (clock c 1))"

definition fresh :: "host \<Rightarrow> string act" where
  "fresh h = look h (\<lambda>c _. Inr (uuid c 0))"

definition stat :: "host \<Rightarrow> string \<Rightarrow> file_answer act" where
  "stat h p s = (Inr (ho_file h (mc_tick s) p), s\<lparr>mc_tick := Suc (mc_tick s)\<rparr>)"

definition resolve_lenient :: "host \<Rightarrow> string \<Rightarrow> string act" where
  "resolve_lenient h p s = (Inr (ho_lenient h (mc_tick s) p), s\<lparr>mc_tick := Suc (mc_tick s)\<rparr>)"

definition resolve_strict :: "host \<Rightarrow> string \<Rightarrow> string act" where
  "resolve_strict h p s = ((case ho_strict h (mc_tick s) p of
      None \<Rightarrow> Inl (Raised (PythonError ''FileNotFoundError'')) | Some q \<Rightarrow> Inr q),
    s\<lparr>mc_tick := Suc (mc_tick s)\<rparr>)"

definition exists :: "host \<Rightarrow> string \<Rightarrow> bool act" where
  "exists h p s = (Inr (ho_exists h (mc_tick s) p), s\<lparr>mc_tick := Suc (mc_tick s)\<rparr>)"

definition exists_file :: "host \<Rightarrow> string \<Rightarrow> bool act" where
  "exists_file h p s = (Inr (ho_is_file h (mc_tick s) p), s\<lparr>mc_tick := Suc (mc_tick s)\<rparr>)"

definition write_file :: "host \<Rightarrow> string \<Rightarrow> unit act" where
  "write_file h p s = ((if ho_writes h (mc_tick s) p then Inr () else Inl (Raised (PythonError ''OSError''))),
     s\<lparr>mc_tick := Suc (mc_tick s)\<rparr>)"

definition error_detail :: "host \<Rightarrow> string act" where
  "error_detail h s = (Inr (ho_detail h (mc_tick s)), s\<lparr>mc_tick := Suc (mc_tick s)\<rparr>)"

definition run_agent :: "host \<Rightarrow> invocation \<Rightarrow> run_outcome act" where
  "run_agent h v s = (Inr (ho_run h (mc_tick s) v), s\<lparr>mc_tick := Suc (mc_tick s)\<rparr>)"

text \<open>
  A Git command with \<open>check=False\<close>, and with the check of \<open>_run_git\<close> and of \<open>_candidate_git\<close>. The
  output is bytes; \<open>decode\<close> reads it as strict UTF-8 and \<open>strip\<close> drops surrounding white space
  (ASCII only: Git's answers that are stripped are names of objects, references and paths).
\<close>

definition git :: "host \<Rightarrow> string \<Rightarrow> git_command \<Rightarrow> (int \<times> string) act" where
  "git h repo command s = ((case ho_git h (mc_tick s) repo command of
       Timed_out \<Rightarrow> Inl (Raised (PythonError ''TimeoutExpired'')) | Exit code out \<Rightarrow> Inr (code, out)),
     s\<lparr>mc_tick := Suc (mc_tick s), mc_trace := mc_trace s @ [Git repo command]\<rparr>)"

definition run_git :: "host \<Rightarrow> string \<Rightarrow> string list \<Rightarrow> string act" where
  "run_git h repo arguments = andthen (git h repo (Run_git arguments)) (\<lambda>(code, out).
     if code \<noteq> 0 then refuse ''GIT_COMMAND_FAILED'' else reply out)"

definition candidate_git ::
  "host \<Rightarrow> string \<Rightarrow> string list \<Rightarrow> string option \<Rightarrow> (string \<times> string) list \<Rightarrow> string act" where
  "candidate_git h repo arguments input env = andthen (git h repo (Candidate_git arguments input env))
     (\<lambda>(code, out). if code \<noteq> 0 then refuse ''CANDIDATE_GIT_FAILED'' else reply out)"

fun surrogate_free :: "string \<Rightarrow> bool" where
  "surrogate_free (a # b # s) =
     (\<not> (a = CHR 0xED \<and> 160 \<le> (of_char b :: nat)) \<and> surrogate_free (b # s))"
| "surrogate_free _ = True"

definition decode :: "string \<Rightarrow> string act" where
  "decode out = (if utf8_valid out \<and> surrogate_free out then reply out
     else abort (Raised (PythonError ''UnicodeDecodeError'')))"

definition git_line :: "host \<Rightarrow> string \<Rightarrow> string list \<Rightarrow> string act" where
  "git_line h repo arguments = andthen (run_git h repo arguments) (\<lambda>out.
     andthen (decode out) (\<lambda>text. reply (strip text)))"

definition candidate_line :: "host \<Rightarrow> string \<Rightarrow> string list \<Rightarrow> string option \<Rightarrow> string act" where
  "candidate_line h repo arguments input = andthen (candidate_git h repo arguments input []) (\<lambda>out.
     andthen (decode out) (\<lambda>text. reply (strip text)))"

section \<open>What an action may do\<close>

text \<open>
  The deeds of an action account for the database it leaves: running the calls of the new part of
  the trace gives it. \<open>allowed\<close> bounds what the controller itself did.
\<close>

fun deed_call :: "deed \<Rightarrow> (ctx \<times> call) option" where
  "deed_call (Elsewhere c k) = Some (c, k)"
| "deed_call (Ours c k) = Some (c, k)"
| "deed_call (Git _ _) = None"

definition calls_of :: "deed list \<Rightarrow> (ctx \<times> call) list" where
  "calls_of deeds = List.map_filter deed_call deeds"

fun own :: "(call \<Rightarrow> bool) \<Rightarrow> (git_command \<Rightarrow> bool) \<Rightarrow> deed \<Rightarrow> bool" where
  "own calls commands (Elsewhere c k) = True"
| "own calls commands (Ours c k) = calls k"
| "own calls commands (Git repo command) = commands command"

definition obeys ::
  "(int \<Rightarrow> int) \<Rightarrow> (call \<Rightarrow> bool) \<Rightarrow> (git_command \<Rightarrow> bool) \<Rightarrow> machine \<Rightarrow> machine \<Rightarrow> bool" where
  "obeys j calls commands s t \<longleftrightarrow> (\<exists>deeds. mc_trace t = mc_trace s @ deeds
     \<and> list_all (own calls commands) deeds \<and> mc_db t = run j (calls_of deeds) (mc_db s))"

definition confined ::
  "host \<Rightarrow> (call \<Rightarrow> bool) \<Rightarrow> (git_command \<Rightarrow> bool) \<Rightarrow> 'a act \<Rightarrow> bool" where
  "confined h calls commands m \<longleftrightarrow> (\<forall>s. obeys (ho_julian h) calls commands s (snd (m s)))"

named_theorems confines \<open>introduction rules for \<open>confined\<close>\<close>

lemma calls_of_simps [simp]:
  "calls_of [] = []"
  "calls_of (x # xs) = (case deed_call x of None \<Rightarrow> calls_of xs | Some ck \<Rightarrow> ck # calls_of xs)"
  by (simp_all add: calls_of_def map_filter_simps split: option.split)

lemma calls_of_append [simp]: "calls_of (xs @ ys) = calls_of xs @ calls_of ys"
  by (induction xs) (auto split: option.split)

lemma calls_of_others [simp]: "calls_of (map (\<lambda>(c, k). Elsewhere c k) cks) = cks"
  by (induction cks) auto

lemma obeys_refl: "obeys j K G s s"
  unfolding obeys_def by (intro exI [of _ "[]"]) simp

lemma obeys_trans: "obeys j K G s t \<Longrightarrow> obeys j K G t u \<Longrightarrow> obeys j K G s u"
  unfolding obeys_def by (elim exE conjE, rule exI [of _ "_ @ _"]) (simp add: run_append)

text \<open>A relation between machines that every primitive respects, every action respects.\<close>

locale preorder_of_actions =
  fixes R :: "machine \<Rightarrow> machine \<Rightarrow> bool"
  assumes R_refl: "R s s" and R_trans: "R s t \<Longrightarrow> R t u \<Longrightarrow> R s u"
begin

lemma through_andthen: "R s (snd (m s)) \<Longrightarrow> (\<And>x t. R t (snd (f x t))) \<Longrightarrow> R s (snd (andthen m f s))"
  unfolding andthen_def by (auto split: prod.split sum.split intro: R_trans)

lemma through_rescue: "R s (snd (m s)) \<Longrightarrow> (\<And>e t. R t (snd (f e t))) \<Longrightarrow> R s (snd (rescue m f s))"
  unfolding rescue_def by (auto split: prod.split sum.split intro: R_trans)

lemma through_still: "R s (snd (reply x s))" "R s (snd (abort e s))" "R s (snd (refuse code s))" "R s (snd (lift r s))"
  by (simp_all add: reply_def abort_def refuse_def lift_def R_refl split: sum.split)

end

interpretation obedience: preorder_of_actions "obeys j K G" for j K G
  by unfold_locales (rule obeys_refl, erule (1) obeys_trans)

lemma confined_reply [confines]: "confined h K G (reply x)"
  and confined_abort [confines]: "confined h K G (abort e)"
  and confined_refuse [confines]: "confined h K G (refuse code)"
  and confined_lift [confines]: "confined h K G (lift r)"
  unfolding confined_def by (simp_all add: obedience.through_still)

lemma confined_andthen [confines]:
  "confined h K G m \<Longrightarrow> (\<And>x. confined h K G (f x)) \<Longrightarrow> confined h K G (andthen m f)"
  unfolding confined_def by (blast intro: obedience.through_andthen)

lemma confined_rescue [confines]:
  "confined h K G m \<Longrightarrow> (\<And>e. confined h K G (f e)) \<Longrightarrow> confined h K G (rescue m f)"
  unfolding confined_def by (blast intro: obedience.through_rescue)

lemma confined_each [confines]: "(\<And>x. confined h K G (f x)) \<Longrightarrow> confined h K G (each f xs)"
  by (induction xs) (auto intro!: confines)

lemma confined_collect [confines]: "(\<And>x. confined h K G (f x)) \<Longrightarrow> confined h K G (collect f xs)"
  by (induction xs) (auto intro!: confines)

lemma obeys_settle: "obeys (ho_julian h) K G s (settle h s)"
  unfolding obeys_def settle_def
  by (intro exI [of _ "map (\<lambda>(c, k). Elsewhere c k) (ho_others h (mc_tick s))"])
    (auto simp: list_all_iff)

lemma obeys_tick: "obeys j K G s t \<Longrightarrow> obeys j K G s (t\<lparr>mc_tick := n\<rparr>)"
  by (simp add: obeys_def)

lemma confined_look [confines]: "confined h K G (look h f)"
  unfolding confined_def look_def by (simp add: Let_def obeys_tick obeys_settle)

lemma run_one: "run j [(c\<lparr>julian := j\<rparr>, k)] d = perform (c\<lparr>julian := j\<rparr>) k d"
  by simp

lemma confined_ask [confines]: "K k \<Longrightarrow> confined h K G (ask h k answer)"
  unfolding confined_def ask_def Let_def snd_conv
proof (intro allI)
  fix s
  assume "K k"
  let ?t = "settle h s" and ?c = "ctx_at h (mc_tick s)"
  have "obeys (ho_julian h) K G ?t
      (?t\<lparr>mc_db := perform ?c k (mc_db ?t), mc_tick := Suc (mc_tick s), mc_trace := mc_trace ?t @ [Ours ?c k]\<rparr>)"
    unfolding obeys_def using \<open>K k\<close> by (intro exI [of _ "[Ours ?c k]"]) (simp add: ctx_at_def)
  then show "obeys (ho_julian h) K G s
      (?t\<lparr>mc_db := perform ?c k (mc_db ?t), mc_tick := Suc (mc_tick s), mc_trace := mc_trace ?t @ [Ours ?c k]\<rparr>)"
    by (rule obeys_trans [OF obeys_settle])
qed

lemma confined_now [confines]: "confined h K G (now h)" and confined_fresh [confines]: "confined h K G (fresh h)"
  unfolding now_def fresh_def by (rule confines)+

lemma confined_question [confines]:
  "confined h K G (stat h p)" "confined h K G (exists h p)" "confined h K G (exists_file h p)"
  "confined h K G (write_file h p)" "confined h K G (error_detail h)" "confined h K G (run_agent h v)"
  "confined h K G (resolve_lenient h p)" "confined h K G (resolve_strict h p)"
  unfolding confined_def stat_def exists_def exists_file_def write_file_def
    error_detail_def run_agent_def resolve_lenient_def resolve_strict_def
  by (simp_all add: obeys_tick obeys_refl)

lemma confined_git [confines]: "G command \<Longrightarrow> confined h K G (git h repo command)"
  unfolding confined_def obeys_def git_def by auto

lemma confined_decode [confines]: "confined h K G (decode out)"
  unfolding decode_def by (simp add: confined_reply confined_abort)

lemma confined_if [confines]:
  "(b \<Longrightarrow> confined h K G m) \<Longrightarrow> (\<not> b \<Longrightarrow> confined h K G m') \<Longrightarrow> confined h K G (if b then m else m')"
  by simp

lemma confined_option [confines]:
  "confined h K G m \<Longrightarrow> (\<And>y. confined h K G (f y)) \<Longrightarrow>
     confined h K G (case x of None \<Rightarrow> m | Some y \<Rightarrow> f y)"
  by (cases x) auto

lemma confined_prod [confines]: "(\<And>a b. confined h K G (f a b)) \<Longrightarrow> confined h K G (case p of (a, b) \<Rightarrow> f a b)"
  by (cases p) auto

lemma confined_mono:
  assumes "confined h K G m" and "\<And>k. K k \<Longrightarrow> K' k" and "\<And>a. G a \<Longrightarrow> G' a"
  shows "confined h K' G' m"
proof -
  have "own K G x \<Longrightarrow> own K' G' x" for x using assms(2,3) by (cases x) auto
  with assms(1) show ?thesis unfolding confined_def obeys_def list_all_iff by blast
qed

lemma confined_run_git [confines]: "G (Run_git arguments) \<Longrightarrow> confined h K G (run_git h repo arguments)"
  and confined_git_line [confines]: "G (Run_git arguments) \<Longrightarrow> confined h K G (git_line h repo arguments)"
  and confined_candidate_git [confines]: "G (Candidate_git arguments input env)
    \<Longrightarrow> confined h K G (candidate_git h repo arguments input env)"
  and confined_candidate_line [confines]: "G (Candidate_git arguments input [])
    \<Longrightarrow> confined h K G (candidate_line h repo arguments input)"
  unfolding run_git_def git_line_def candidate_git_def candidate_line_def by (auto intro!: confines)

text \<open>A confined action is a run of the store's calls, so what runs keep it keeps.\<close>

lemma confined_run: "confined h K G m \<Longrightarrow> \<exists>calls. mc_db (snd (m s)) = run (ho_julian h) calls (mc_db s)"
  unfolding confined_def obeys_def by blast

end
