(* ===== verification/Worktrees.thy ===== *)
theory Worktrees
  imports Controller_Machine
begin

text \<open>
  \<open>WorktreeOrchestrator\<close> (\<open>src/adcp/controller.py\<close>): the isolated worktrees a Maker works in.
  Git and the file system answer as they like; what is stated is which commands the orchestrator
  runs on which answers, above all that it removes nothing it has not created.
\<close>

section \<open>Paths and names\<close>

definition inside :: "string \<Rightarrow> string \<Rightarrow> bool" where
  "inside p parent \<longleftrightarrow> relative_to (path_of p) (path_of parent) \<noteq> None"

definition join_path :: "string \<Rightarrow> string \<Rightarrow> string" where
  "join_path p name = path_text (path_join (path_of p) (path_of name))"

text \<open>\<open>re.sub(r"[^A-Za-z0-9._-]+", "-", execution_id).strip("-.") or "execution"\<close>.\<close>

definition slug_char :: "char \<Rightarrow> bool" where
  "slug_char c \<longleftrightarrow> (let n = (of_char c :: nat) in
     48 \<le> n \<and> n \<le> 57 \<or> 65 \<le> n \<and> n \<le> 90 \<or> 97 \<le> n \<and> n \<le> 122 \<or> c \<in> {CHR ''.'', CHR ''_'', CHR ''-''})"

fun dashed :: "bool \<Rightarrow> string \<Rightarrow> string" where
  "dashed open_run [] = []"
| "dashed open_run (c # s) =
    (if slug_char c then c # dashed False s
     else if open_run then dashed True s else CHR ''-'' # dashed True s)"

definition slug :: "string \<Rightarrow> string" where
  "slug i = (let edge = (\<lambda>c. c \<in> {CHR ''-'', CHR ''.''});
       s = rev (dropWhile edge (rev (dropWhile edge (dashed False i))))
     in if s = [] then ''execution'' else s)"

record worktree =
  wt_execution_id :: string
  wt_path :: string
  wt_branch :: string
  wt_base_commit :: string
  wt_branch_created :: bool
  wt_worktree_created :: bool

section \<open>create\<close>

definition worktree_target :: "host \<Rightarrow> string \<Rightarrow> string \<Rightarrow> string act" where
  "worktree_target h name code =
    andthen (resolve_lenient h (join_path (ho_worktree_root h) name)) (\<lambda>target.
    if \<not> inside target (ho_worktree_root h) \<or> inside target (ho_source_root h)
    then refuse code else reply target)"

definition commit_exists :: "host \<Rightarrow> string \<Rightarrow> bool act" where
  "commit_exists h commit = andthen
     (git h (ho_source_root h) (Run_git [''cat-file'', ''-e'', commit @ ''^{commit}''])) (\<lambda>(code, _). reply (code = 0))"

definition create_worktree :: "host \<Rightarrow> string \<Rightarrow> string \<Rightarrow> worktree act" where
  "create_worktree h i base =
    andthen (commit_exists h base) (\<lambda>known.
    if \<not> known then refuse ''BASE_COMMIT_NOT_FOUND''
    else andthen (fresh h) (\<lambda>hex.
      let nonce = take 12 hex; branch = ''adcp/'' @ slug i @ ''-'' @ nonce in
      andthen (worktree_target h (slug i @ ''-'' @ nonce) ''INVALID_WORKTREE_TARGET'') (\<lambda>target.
      andthen (run_git h (ho_source_root h) [''worktree'', ''add'', ''-b'', branch, target, base]) (\<lambda>_.
      andthen (resolve_strict h target) (\<lambda>resolved.
      reply \<lparr>wt_execution_id = i, wt_path = resolved, wt_branch = branch, wt_base_commit = base,
        wt_branch_created = True, wt_worktree_created = True\<rparr>)))))"

section \<open>Bound worktrees\<close>

definition expected_bound_path :: "host \<Rightarrow> string \<Rightarrow> string act" where
  "expected_bound_path h i =
    worktree_target h (slug i @ ''-prebound-'' @ take 12 (ho_sha h i)) ''BOUND_WORKTREE_CONFLICT''"

definition branch_ref :: "host \<Rightarrow> string \<Rightarrow> string act" where
  "branch_ref h branch =
    (if branch = [] then refuse ''BOUND_WORKTREE_CONFLICT''
     else andthen (git h (ho_source_root h) (Run_git [''check-ref-format'', ''--branch'', branch])) (\<lambda>(code, _).
       if code \<noteq> 0 then refuse ''BOUND_WORKTREE_CONFLICT'' else reply (''refs/heads/'' @ branch)))"

definition common_dir :: "host \<Rightarrow> string \<Rightarrow> string act" where
  "common_dir h repo =
    andthen (git_line h repo [''rev-parse'', ''--path-format=absolute'', ''--git-common-dir'']) (resolve_strict h)"

text \<open>
  \<open>git worktree list --porcelain\<close>: blocks of \<open>key value\<close> lines, separated by empty ones
  (\<open>splitlines\<close> at line feeds; Git quotes the other separators in paths).
\<close>

fun partition_space :: "string \<Rightarrow> string \<times> string" where
  "partition_space [] = ([], [])"
| "partition_space (c # s) = (if c = CHR '' '' then ([], s) else (let (k, v) = partition_space s in (c # k, v)))"

fun worktree_blocks :: "(string \<times> string) list \<Rightarrow> string list \<Rightarrow> (string \<times> string) list list" where
  "worktree_blocks current [] = (if current = [] then [] else [current])"
| "worktree_blocks current (line # lines) =
    (if line = [] then (if current = [] then [] else [current]) @ worktree_blocks [] lines
     else (let (k, v) = partition_space line in worktree_blocks (dict_set k v current) lines))"

definition registered_worktrees :: "host \<Rightarrow> (string \<times> string) list list act" where
  "registered_worktrees h =
    andthen (run_git h (ho_source_root h) [''worktree'', ''list'', ''--porcelain'']) (\<lambda>out.
    reply (worktree_blocks [] (split_on (CHR 0x0A) out)))"

definition bound_location :: "host \<Rightarrow> worktree \<Rightarrow> string act" where
  "bound_location h w =
    andthen (expected_bound_path h (wt_execution_id w)) (\<lambda>expected.
    andthen (resolve_lenient h (wt_path w)) (\<lambda>found.
    if found \<noteq> expected then refuse ''BOUND_WORKTREE_CONFLICT''
    else andthen (rescue (resolve_strict h (wt_path w)) (\<lambda>_. refuse ''BOUND_WORKTREE_CONFLICT'')) (\<lambda>observed.
      andthen (andthen (git_line h observed [''rev-parse'', ''--show-toplevel'']) (resolve_strict h)) (\<lambda>toplevel.
      if toplevel \<noteq> observed then refuse ''BOUND_WORKTREE_CONFLICT''
      else andthen (common_dir h toplevel) (\<lambda>mine. andthen (common_dir h (ho_source_root h)) (\<lambda>theirs.
        if mine \<noteq> theirs then refuse ''BOUND_WORKTREE_CONFLICT'' else reply toplevel))))))"

definition validate_bound :: "host \<Rightarrow> worktree \<Rightarrow> string option \<Rightarrow> worktree act" where
  "validate_bound h w expected_head =
    andthen (bound_location h w) (\<lambda>repo.
    andthen (git h repo (Run_git [''symbolic-ref'', ''--short'', ''-q'', ''HEAD''])) (\<lambda>(code, out).
    if code \<noteq> 0 then refuse ''BOUND_WORKTREE_CONFLICT''
    else andthen (decode out) (\<lambda>branch.
      if strip branch \<noteq> wt_branch w then refuse ''BOUND_WORKTREE_CONFLICT''
      else andthen (git_line h repo [''rev-parse'', ''HEAD'']) (\<lambda>head.
        let required = (case expected_head of None \<Rightarrow> wt_base_commit w
          | Some e \<Rightarrow> if e = [] then wt_base_commit w else e) in
        if head \<noteq> required then refuse ''BOUND_BRANCH_HEAD_MISMATCH''
        else andthen (run_git h repo [''status'', ''--porcelain'', ''--untracked-files=no'']) (\<lambda>dirty.
          if dirty \<noteq> [] then refuse ''BOUND_WORKTREE_DIRTY'' else reply w)))))"

text \<open>
  \<open>compensate_bound\<close>: what this attempt created is removed again, the branch only at the commit
  it was created at. A \<open>ControllerError\<close> or a missing file means that it could not be.
\<close>

definition drop_branch :: "host \<Rightarrow> worktree \<Rightarrow> bool act" where
  "drop_branch h w =
    andthen (branch_ref h (wt_branch w)) (\<lambda>ref.
    andthen (git_line h (ho_source_root h) [''rev-parse'', ''--verify'', ref @ ''^{commit}'']) (\<lambda>head.
    if head \<noteq> wt_base_commit w then reply False
    else andthen (git h (ho_source_root h) (Run_git [''update-ref'', ''-d'', ref, wt_base_commit w])) (\<lambda>(code, _).
      reply (code = 0))))"

definition compensate_bound :: "host \<Rightarrow> worktree \<Rightarrow> bool act" where
  "compensate_bound h w = rescue
    (andthen (validate_bound h w None) (\<lambda>_.
     andthen (if wt_worktree_created w
        then andthen (run_git h (ho_source_root h) [''worktree'', ''remove'', wt_path w]) (\<lambda>_. reply ()) else reply ()) (\<lambda>_.
     if wt_branch_created w then drop_branch h w else reply True)))
    (\<lambda>e. case e of ControllerError _ \<Rightarrow> reply False
       | Raised (PythonError name) \<Rightarrow> if name = ''FileNotFoundError'' then reply False else abort e
       | _ \<Rightarrow> abort e)"

definition worktree_of :: "host \<Rightarrow> (string \<times> string) list \<Rightarrow> string act" where
  "worktree_of h entry = (case map_of entry ''worktree'' of
     None \<Rightarrow> abort (Raised (PythonError ''KeyError'')) | Some p \<Rightarrow> resolve_lenient h p)"

fun any_registered_at :: "host \<Rightarrow> string \<Rightarrow> (string \<times> string) list list \<Rightarrow> bool act" where
  "any_registered_at h target [] = reply False"
| "any_registered_at h target (entry # entries) =
    andthen (resolve_lenient h (case map_of entry ''worktree'' of None \<Rightarrow> [] | Some p \<Rightarrow> p)) (\<lambda>p.
    if p = target then reply True else any_registered_at h target entries)"

text \<open>The branch at the base commit: as it is, or created when the caller allows it.\<close>

definition provision_branch :: "host \<Rightarrow> string \<Rightarrow> string \<Rightarrow> string \<Rightarrow> bool \<Rightarrow> bool act" where
  "provision_branch h branch ref base allowed =
    andthen (git h (ho_source_root h) (Run_git [''rev-parse'', ''--verify'', ref @ ''^{commit}''])) (\<lambda>(code, out).
    if code \<noteq> 0 then
      (if \<not> allowed then refuse ''BOUND_BRANCH_NOT_FOUND''
       else andthen (run_git h (ho_source_root h) [''branch'', branch, base]) (\<lambda>_. reply True))
    else andthen (decode out) (\<lambda>head.
      if strip head \<noteq> base then refuse ''BOUND_BRANCH_HEAD_MISMATCH'' else reply False))"

definition add_worktree :: "host \<Rightarrow> string \<Rightarrow> string \<Rightarrow> string \<Rightarrow> string \<Rightarrow> bool \<Rightarrow> unit act" where
  "add_worktree h target branch ref base created = rescue
    (andthen (run_git h (ho_source_root h) [''worktree'', ''add'', target, branch]) (\<lambda>_. reply ()))
    (\<lambda>e. if created
       then andthen (git h (ho_source_root h) (Run_git [''update-ref'', ''-d'', ref, base])) (\<lambda>_. abort e)
       else abort e)"

definition base_reachable :: "host \<Rightarrow> string \<Rightarrow> unit act" where
  "base_reachable h base =
    andthen (commit_exists h base) (\<lambda>known.
    if \<not> known then refuse ''BASE_COMMIT_NOT_FOUND''
    else andthen (run_git h (ho_source_root h) [''for-each-ref'', ''--contains='' @ base, ''--format=%(refname)'',
        ''refs/heads'', ''refs/remotes'']) (\<lambda>refs.
      if refs = [] then refuse ''BASE_COMMIT_NOT_FOUND'' else reply ()))"

definition target_taken :: "host \<Rightarrow> string \<Rightarrow> (string \<times> string) list list \<Rightarrow> bool act" where
  "target_taken h target entries = andthen (any_registered_at h target entries) (\<lambda>found.
     if found then reply True else exists h target)"

definition provision_bound :: "host \<Rightarrow> string \<Rightarrow> string \<Rightarrow> string \<Rightarrow> string \<Rightarrow> string \<Rightarrow> bool \<Rightarrow> worktree act" where
  "provision_bound h i branch ref base target allowed =
    andthen (provision_branch h branch ref base allowed) (\<lambda>created.
    andthen (add_worktree h target branch ref base created) (\<lambda>_.
    andthen (resolve_strict h target) (\<lambda>resolved.
    let w = \<lparr>wt_execution_id = i, wt_path = resolved, wt_branch = branch, wt_base_commit = base,
      wt_branch_created = created, wt_worktree_created = True\<rparr> in
    rescue (validate_bound h w None) (\<lambda>e.
      andthen (compensate_bound h w) (\<lambda>undone.
      if undone then abort e else refuse ''GIT_PROVISIONED_DB_BIND_FAILED_REVIEW_REQUIRED'')))))"

definition prepare_bound :: "host \<Rightarrow> string \<Rightarrow> string \<Rightarrow> string \<Rightarrow> bool \<Rightarrow> worktree act" where
  "prepare_bound h i branch base allowed =
    andthen (branch_ref h branch) (\<lambda>ref.
    andthen (base_reachable h base) (\<lambda>_.
    andthen (expected_bound_path h i) (\<lambda>target.
    andthen (registered_worktrees h) (\<lambda>entries.
    case filter (\<lambda>e. map_of e ''branch'' = Some ref) entries of
      [entry] \<Rightarrow> andthen (worktree_of h entry) (\<lambda>registered.
        if registered \<noteq> target then refuse ''BOUND_WORKTREE_CONFLICT''
        else validate_bound h \<lparr>wt_execution_id = i, wt_path = target, wt_branch = branch, wt_base_commit = base,
          wt_branch_created = False, wt_worktree_created = False\<rparr> None)
    | _ # _ # _ \<Rightarrow> refuse ''BOUND_WORKTREE_CONFLICT''
    | [] \<Rightarrow> andthen (target_taken h target entries) (\<lambda>taken.
        if taken then refuse ''BOUND_WORKTREE_CONFLICT''
        else provision_bound h i branch ref base target allowed)))))"

definition reuse_bound :: "host \<Rightarrow> string \<Rightarrow> string \<Rightarrow> string \<Rightarrow> string \<Rightarrow> bool \<Rightarrow> bool \<Rightarrow> worktree act" where
  "reuse_bound h i p branch expected_head branch_created worktree_created =
    andthen (resolve_lenient h p) (\<lambda>resolved.
    validate_bound h \<lparr>wt_execution_id = i, wt_path = resolved, wt_branch = branch, wt_base_commit = expected_head,
      wt_branch_created = branch_created, wt_worktree_created = worktree_created\<rparr> (Some expected_head))"

section \<open>Release\<close>

definition validate_release_candidate :: "host \<Rightarrow> worktree \<Rightarrow> worktree act" where
  "validate_release_candidate h w =
    andthen (validate_bound h w None) (\<lambda>_.
    andthen (run_git h (wt_path w) [''status'', ''--porcelain'']) (\<lambda>dirty.
    if dirty \<noteq> [] then refuse ''BOUND_WORKTREE_DIRTY'' else reply w))"

definition cleanup_released :: "host \<Rightarrow> worktree \<Rightarrow> bool act" where
  "cleanup_released h w =
    andthen (branch_ref h (wt_branch w)) (\<lambda>ref.
    andthen (registered_worktrees h) (\<lambda>entries.
    andthen (resolve_lenient h (wt_path w)) (\<lambda>p.
    andthen (any_registered_at h p entries) (\<lambda>registered.
    andthen (if \<not> wt_worktree_created w then reply ()
       else andthen (exists h p) (\<lambda>present.
         if present then andthen (validate_release_candidate h w) (\<lambda>_.
           andthen (run_git h (ho_source_root h) [''worktree'', ''remove'', p]) (\<lambda>_. reply ()))
         else if registered then refuse ''BOUND_WORKTREE_CONFLICT'' else reply ())) (\<lambda>_.
    if \<not> wt_branch_created w then reply True
    else andthen (git h (ho_source_root h) (Run_git [''show-ref'', ''--verify'', ref])) (\<lambda>(code, _).
      reply (code \<noteq> 0)))))))"

section \<open>The boundary of the Maker\<close>

record git_fingerprint =
  gf_branch :: string
  gf_head :: string
  gf_porcelain :: string
  gf_index_sha256 :: string
  gf_sources :: "(string \<times> string) list"

record candidate_fingerprint =
  ck_git :: git_fingerprint
  ck_refs_sha256 :: string

text \<open>The Git of \<open>evaluator.py\<close> raises \<open>CalledProcessError\<close>.\<close>

definition evaluator_git :: "host \<Rightarrow> string \<Rightarrow> string list \<Rightarrow> string act" where
  "evaluator_git h repo arguments = andthen (git h repo (Run_git arguments)) (\<lambda>(code, out).
     if code \<noteq> 0 then abort (Raised (PythonError ''CalledProcessError'')) else reply out)"

definition evaluator_git_text :: "host \<Rightarrow> string \<Rightarrow> string list \<Rightarrow> string act" where
  "evaluator_git_text h repo arguments = andthen (evaluator_git h repo arguments) decode"

definition source_hash :: "host \<Rightarrow> string \<Rightarrow> string \<Rightarrow> (string \<times> string) act" where
  "source_hash h repo p =
    andthen (resolve_strict h (if is_absolute (path_of p) then p else join_path repo p)) (\<lambda>resolved.
    case relative_to (path_of resolved) (path_of repo) of
      None \<Rightarrow> abort (Raised (BoundaryError ''SOURCE_OUTSIDE_REPOSITORY''))
    | Some relative \<Rightarrow> andthen (stat h resolved) (\<lambda>f. case f of
        Regular _ content \<Rightarrow> reply (path_text relative, ho_sha h content)
      | _ \<Rightarrow> abort (Raised (PythonError ''OSError''))))"

definition capture_git_fingerprint :: "host \<Rightarrow> string \<Rightarrow> string list \<Rightarrow> git_fingerprint act" where
  "capture_git_fingerprint h repository sources =
    andthen (evaluator_git_text h repository [''rev-parse'', ''--show-toplevel'']) (\<lambda>toplevel.
    andthen (resolve_strict h (strip toplevel)) (\<lambda>repo.
    andthen (evaluator_git_text h repo [''branch'', ''--show-current'']) (\<lambda>branch.
    andthen (evaluator_git_text h repo [''rev-parse'', ''HEAD'']) (\<lambda>head.
    andthen (evaluator_git_text h repo [''status'', ''--porcelain=v2'']) (\<lambda>porcelain.
    andthen (evaluator_git h repo [''ls-files'', ''--stage'', ''-z'']) (\<lambda>entries.
    andthen (collect (source_hash h repo) sources) (\<lambda>hashes.
    reply \<lparr>gf_branch = strip branch, gf_head = strip head, gf_porcelain = porcelain,
      gf_index_sha256 = ho_sha h entries, gf_sources = sort_key (\<lambda>(p, x). [p, x]) hashes\<rparr>)))))))"

fun tracked_files :: "host \<Rightarrow> string \<Rightarrow> string list \<Rightarrow> string list act" where
  "tracked_files h root [] = reply []"
| "tracked_files h root (raw # raws) =
    (if raw = [] then tracked_files h root raws
     else andthen (exists_file h (join_path root raw)) (\<lambda>is_file.
       andthen (tracked_files h root raws) (\<lambda>ps. reply (if is_file then join_path root raw # ps else ps))))"

definition fingerprint :: "host \<Rightarrow> worktree \<Rightarrow> candidate_fingerprint act" where
  "fingerprint h w =
    andthen (resolve_strict h (wt_path w)) (\<lambda>resolved.
    if resolved \<noteq> wt_path w then refuse ''WORKTREE_IDENTITY_CHANGED''
    else andthen (run_git h (wt_path w) [''ls-files'', ''-z'']) (\<lambda>tracked.
      andthen (tracked_files h (wt_path w) (split_on (CHR 0x00) tracked)) (\<lambda>sources.
      andthen (capture_git_fingerprint h (wt_path w) sources) (\<lambda>g.
      andthen (run_git h (wt_path w) [''for-each-ref'', ''--format=%(refname)%00%(objectname)'', ''refs/heads'']) (\<lambda>refs.
      reply \<lparr>ck_git = g, ck_refs_sha256 = ho_sha h refs\<rparr>)))))"

definition maker_boundary_kept :: "candidate_fingerprint \<Rightarrow> candidate_fingerprint \<Rightarrow> bool" where
  "maker_boundary_kept before after \<longleftrightarrow>
     gf_branch (ck_git before) = gf_branch (ck_git after) \<and> gf_head (ck_git before) = gf_head (ck_git after)
     \<and> gf_index_sha256 (ck_git before) = gf_index_sha256 (ck_git after)
     \<and> ck_refs_sha256 before = ck_refs_sha256 after"

definition create_candidate_commit ::
  "host \<Rightarrow> worktree \<Rightarrow> candidate_fingerprint \<Rightarrow> string \<Rightarrow> string act" where
  "create_candidate_commit h w before message =
    andthen (fingerprint h w) (\<lambda>after.
    if \<not> maker_boundary_kept before after then refuse ''MAKER_GIT_POLICY_VIOLATION''
    else andthen (run_git h (wt_path w) [''add'', ''-A'']) (\<lambda>_.
      andthen (git h (wt_path w) (Run_git [''diff'', ''--cached'', ''--quiet''])) (\<lambda>(code, _).
      if code = 0 then refuse ''EMPTY_CANDIDATE''
      else andthen (run_git h (wt_path w) [''-c'', ''user.name=ADCP Controller'', ''-c'',
          ''user.email=adcp-controller@local.invalid'', ''commit'', ''-m'', message]) (\<lambda>_.
        andthen (git_line h (wt_path w) [''rev-parse'', ''HEAD'']) (\<lambda>result.
        andthen (git_line h (wt_path w) [''rev-parse'', ''HEAD^'']) (\<lambda>parent.
        if parent \<noteq> gf_head (ck_git before) then refuse ''CANDIDATE_PARENT_MISMATCH'' else reply result))))))"

end
