(* ===== verification/Controller.thy ===== *)
theory Controller
  imports Worktrees
begin

text \<open>
  The controller's operations on executions and slices (\<open>src/adcp/controller.py\<close>): each reads the
  store, checks what it read, derives the operation key from it and calls the store, whose own
  checks decide. Every access sees what other clients have committed by then.
\<close>

section \<open>Keys and rows\<close>

definition pdict :: "(string \<times> pyval) list \<Rightarrow> pyval" where
  "pdict kvs = PDict (map (\<lambda>(k, v). (PStr k, v)) kvs)"

fun py_opt :: "string option \<Rightarrow> pyval" where
  "py_opt None = PNone"
| "py_opt (Some s) = PStr s"

definition key_for :: "host \<Rightarrow> string \<Rightarrow> (string \<times> pyval) list \<Rightarrow> string act" where
  "key_for h kind kvs = lift (operation_key (ho_sha h) kind (pdict kvs))"

definition digest_of :: "host \<Rightarrow> (string \<times> pyval) list \<Rightarrow> string act" where
  "digest_of h kvs = lift (canonical_sha256 (ho_sha h) (pdict kvs))"

definition read_execution :: "host \<Rightarrow> string \<Rightarrow> execution_row act" where
  "read_execution h i = look h (\<lambda>_. get_execution i)"

text \<open>\<open>ORDER BY attempt_no DESC LIMIT 1\<close>; attempt numbers are unique per execution and role.\<close>

definition latest_attempt :: "string \<Rightarrow> capsule_role \<Rightarrow> db \<Rightarrow> attempt_row option" where
  "latest_attempt i role d =
    foldl (\<lambda>best a. case best of None \<Rightarrow> Some a
        | Some b \<Rightarrow> if at_attempt_no b < at_attempt_no a then Some a else Some b) None
      (filter (\<lambda>a. at_execution_id a = i \<and> at_role a = role) (attempts d))"

definition attempt_count :: "string \<Rightarrow> capsule_role \<Rightarrow> db \<Rightarrow> int" where
  "attempt_count i role d = int (length (filter (\<lambda>a. at_execution_id a = i \<and> at_role a = role) (attempts d)))"

text \<open>The slice under control of an execution, and whether it is a deferred one.\<close>

definition controlled_slice :: "string \<Rightarrow> db \<Rightarrow> slice_row option" where
  "controlled_slice i d = find (\<lambda>s. sl_active_execution_id (sc_fields s) = Some i) (slices d)"

definition deferred_slice :: "slice_row option \<Rightarrow> slice_row option" where
  "deferred_slice s = (case s of None \<Rightarrow> None
     | Some r \<Rightarrow> if sl_migration_class (sc_fields r) = ''DEFER_BINDING'' then Some r else None)"

section \<open>acquire, inspect, _transition\<close>

definition remember :: "string \<Rightarrow> authorization \<Rightarrow> unit act" where
  "remember i a s = (Inr (), s\<lparr>mc_authorizations := (mc_authorizations s)(i := Some a)\<rparr>)"

definition acquire_execution :: "host \<Rightarrow> string \<Rightarrow> execution_row act" where
  "acquire_execution h i =
    andthen (read_execution h i) (\<lambda>r.
    andthen (key_for h ''controller-lease'' [(''execution_id'', PStr i), (''version'', PInt (ex_state_version r))]) (\<lambda>key.
    let q = \<lparr>lq_execution_id = i, lq_expected_version = ex_state_version r, lq_operation_key = key,
      lq_owner = ho_controller_id h, lq_ttl_seconds = 60\<rparr> in
    andthen (ask h (AcquireLease q) (\<lambda>c d. fst (acquire_lease c q d))) (\<lambda>leased.
    andthen (look h (\<lambda>_. get_authority)) (\<lambda>a.
    andthen (remember i (ex_lease_generation leased, au_generation a, ex_contract_fingerprint leased,
      ex_authority_fingerprint leased)) (\<lambda>_.
    reply leased)))))"

record inspection =
  in_row :: execution_row
  in_maker :: "attempt_row option"
  in_evaluator :: "attempt_row option"

text \<open>\<open>inspect\<close>: the fields it prints are columns of these rows.\<close>

definition inspect :: "host \<Rightarrow> string \<Rightarrow> inspection act" where
  "inspect h i =
    andthen (read_execution h i) (\<lambda>r.
    andthen (look h (\<lambda>_ d. Inr (latest_attempt i Maker d))) (\<lambda>m.
    andthen (look h (\<lambda>_ d. Inr (latest_attempt i Evaluator d))) (\<lambda>e.
    reply \<lparr>in_row = r, in_maker = m, in_evaluator = e\<rparr>)))"

record transition_options =
  to_resume :: "exec_state option"
  to_blocker :: "string option"
  to_detail :: "string option"
  to_fence :: "candidate_fence option"

definition no_options :: transition_options where
  "no_options = \<lparr>to_resume = None, to_blocker = None, to_detail = None, to_fence = None\<rparr>"

definition transition_of ::
  "host \<Rightarrow> execution_row \<Rightarrow> string \<Rightarrow> exec_state \<Rightarrow> string \<Rightarrow> transition_options \<Rightarrow> transition_request" where
  "transition_of h r key to reason opts =
    \<lparr>tq_execution_id = ex_id r, tq_expected_version = ex_state_version r, tq_operation_key = key,
     tq_to_state = to, tq_actor_role = CONTROLLER, tq_actor_id = ho_controller_id h,
     tq_owner = ho_controller_id h, tq_generation = ex_lease_generation r,
     tq_resume_state = to_resume opts, tq_blocker_code = to_blocker opts,
     tq_blocker_detail = to_detail opts, tq_reason_code = reason, tq_reason_detail = None,
     tq_fence = to_fence opts\<rparr>"

definition move :: "host \<Rightarrow> string \<Rightarrow> exec_state \<Rightarrow> string \<Rightarrow> transition_options \<Rightarrow> execution_row act" where
  "move h i to reason opts =
    andthen (read_execution h i) (\<lambda>r.
    andthen (key_for h ''controller-transition''
      [(''execution_id'', PStr i), (''from_version'', PInt (ex_state_version r)),
       (''to_state'', PStr (state_value to)), (''reason'', PStr reason)]) (\<lambda>key.
    let q = (transition_of h r key to reason opts)\<lparr>tq_execution_id := i\<rparr> in
    ask h (Transition q) (\<lambda>c d. fst (transition c q d))))"

definition cancel :: "host \<Rightarrow> string \<Rightarrow> execution_row act" where
  "cancel h i = move h i CANCELLED ''OPERATOR_CANCELLED'' no_options"

section \<open>register_slice\<close>

record slice_registration =
  rg_slice_id :: string
  rg_stage :: string
  rg_status :: string
  rg_migration_class :: string
  rg_eligibility :: string
  rg_defer_reason :: string
  rg_logical_source_root :: string
  rg_registration_ref :: string
  rg_generation :: int
  rg_bound :: "string option list"

text \<open>The order of the checks; \<open>rg_bound\<close> are the six fields that only a bound slice has.\<close>

definition registration_fields_ok :: "slice_registration \<Rightarrow> unit act" where
  "registration_fields_ok g =
    (if list_ex all_space [rg_slice_id g, rg_stage g, rg_status g] then refuse ''SLICE_CONTROL_STATE_FIELD_REQUIRED''
     else if all_space (rg_registration_ref g) then refuse ''REGISTRATION_REF_REQUIRED''
     else if all_space (rg_defer_reason g) then refuse ''DEFER_REASON_REQUIRED''
     else if all_space (rg_logical_source_root g) then refuse ''SOURCE_ROOT_MISMATCH''
     else if rg_eligibility g \<in> {''ELIGIBLE_PREEXECUTION_BOUND'', ''ELIGIBLE_BOUND''}
        \<or> list_ex (\<lambda>v. v \<noteq> None) (rg_bound g)
     then refuse ''SLICE_REGISTRATION_EXECUTABLE_STATE_FORBIDDEN''
     else if (rg_migration_class g, rg_eligibility g) \<notin> {(''DEFER_BINDING'', ''INELIGIBLE_UNTIL_PREFLIGHT''),
        (''DEFER_PREREQUISITE'', ''INELIGIBLE_UNTIL_PREREQUISITE'')}
     then refuse ''SLICE_REGISTRATION_DISPOSITION_FORBIDDEN'' else reply ())"

definition registration_root_ok :: "host \<Rightarrow> slice_registration \<Rightarrow> unit act" where
  "registration_root_ok h g =
    andthen (rescue (look h (\<lambda>c _. canonical_source_root c (rg_logical_source_root g)))
      (\<lambda>e. case e of Raised (StoreError _) \<Rightarrow> refuse ''SOURCE_ROOT_MISMATCH'' | _ \<Rightarrow> abort e)) (\<lambda>root.
    if root \<noteq> ho_source_root h then refuse ''SOURCE_ROOT_MISMATCH'' else reply ())"

definition registration_authority_ok :: "host \<Rightarrow> slice_registration \<Rightarrow> unit act" where
  "registration_authority_ok h g =
    andthen (look h (\<lambda>_. get_authority)) (\<lambda>a.
    if au_mode a \<noteq> CONTROL_STORE_AUTHORITY then refuse ''CONTROL_AUTHORITY_MODE_REQUIRED''
    else if au_generation a \<noteq> rg_generation g then refuse ''STALE_AUTHORITY_GENERATION'' else reply ())"

definition registered_target :: "host \<Rightarrow> slice_registration \<Rightarrow> slice_target" where
  "registered_target h g =
    (let s = \<lparr>sl_id = rg_slice_id g, sl_stage = rg_stage g, sl_status = rg_status g,
       sl_migration_class = rg_migration_class g, sl_execution_eligibility = rg_eligibility g,
       sl_defer_reason = Some (rg_defer_reason g), sl_logical_source_root = ho_source_root h,
       sl_repository_toplevel = None, sl_branch = None, sl_base_commit = None,
       sl_implementation_result_commit = None, sl_current_branch_head = None,
       sl_active_execution_id = None, sl_authority_fingerprint = []\<rparr>
     in s\<lparr>sl_authority_fingerprint := ho_sha h (dumps (JObj (slice_semantics_json s)))\<rparr>)"

definition register_slice :: "host \<Rightarrow> slice_registration \<Rightarrow> (slice_row \<times> bool) act" where
  "register_slice h g =
    andthen (registration_fields_ok g) (\<lambda>_.
    andthen (registration_root_ok h g) (\<lambda>_.
    andthen (registration_authority_ok h g) (\<lambda>_.
    let target = registered_target h g in
    andthen (key_for h ''controller-register-slice'' [(''target'', json_to_py (slice_json target)),
      (''registration_ref'', PStr (rg_registration_ref g)),
      (''expected_authority_generation'', PInt (rg_generation g))]) (\<lambda>key.
    let q = \<lparr>sq_target = target, sq_expected_version = -1, sq_operation_key = key,
      sq_reason_code = ''SLICE_REGISTERED'', sq_metadata = pdict [(''registration_ref'', PStr (rg_registration_ref g))],
      sq_required_mode = Some CONTROL_STORE_AUTHORITY, sq_expected_generation = Some (rg_generation g),
      sq_insert_only = True\<rparr> in
    rescue (ask h (ReconcileSlice q) (\<lambda>c d. fst (reconcile_slice_control_state c q d)))
      (\<lambda>e. case e of
         Raised (StoreError code) \<Rightarrow>
           if code \<in> {''CONTROL_AUTHORITY_MODE_REQUIRED'', ''STALE_AUTHORITY_GENERATION'',
              ''SLICE_ALREADY_REGISTERED_CONFLICT'', ''SLICE_REGISTRATION_IDEMPOTENCY_CONFLICT''}
           then refuse code else abort e
       | _ \<Rightarrow> abort e)))))"

section \<open>create_execution\<close>

definition source_root_ok :: "host \<Rightarrow> execution_create \<Rightarrow> unit act" where
  "source_root_ok h x =
    andthen (look h (\<lambda>c _. canonical_source_root c (xc_source_root x))) (\<lambda>root.
    if root \<noteq> ho_source_root h then refuse ''SOURCE_ROOT_MISMATCH'' else reply ())"

definition controller_create :: "host \<Rightarrow> execution_create \<Rightarrow> execution_row act" where
  "controller_create h x =
    andthen (source_root_ok h x) (\<lambda>_.
    andthen (look h (\<lambda>_ d. Inr (find_slice (xc_slice_id x) d))) (\<lambda>s.
    if s \<noteq> None then refuse ''SLICE_EXECUTION_INELIGIBLE''
    else andthen (key_for h ''controller-create'' [(''execution_id'', PStr (xc_execution_id x))]) (\<lambda>key.
      ask h (CreateExecution x key) (\<lambda>c d. fst (create_execution c x key d)))))"

section \<open>bind_deferred_execution\<close>

fun is_sublist :: "string \<Rightarrow> string \<Rightarrow> bool" where
  "is_sublist x [] = (x = [])"
| "is_sublist x (a # s) = (take (length x) (a # s) = x \<or> is_sublist x s)"

text \<open>The identity of an execution a Maker capsule has to state.\<close>

record capsule_material =
  cm_slice_id :: string
  cm_contract_fingerprint :: string
  cm_authority_fingerprint :: string
  cm_branch :: string
  cm_base_commit :: string
  cm_risk_level :: risk_level
  cm_environment :: environment

definition material_of :: "execution_row \<Rightarrow> capsule_material" where
  "material_of r = \<lparr>cm_slice_id = ex_slice_id r, cm_contract_fingerprint = ex_contract_fingerprint r,
     cm_authority_fingerprint = ex_authority_fingerprint r, cm_branch = ex_branch r,
     cm_base_commit = ex_base_commit r, cm_risk_level = ex_risk_level r, cm_environment = ex_environment r\<rparr>"

definition material_of_spec :: "execution_create \<Rightarrow> capsule_material" where
  "material_of_spec x = \<lparr>cm_slice_id = xc_slice_id x, cm_contract_fingerprint = xc_contract_fingerprint x,
     cm_authority_fingerprint = xc_authority_fingerprint x, cm_branch = xc_branch x,
     cm_base_commit = xc_base_commit x, cm_risk_level = xc_risk_level x, cm_environment = xc_environment x\<rparr>"

text \<open>The expected fields in the order of the source, with the code of a mismatch.\<close>

definition capsule_expectations :: "capsule_material \<Rightarrow> string \<Rightarrow> string \<Rightarrow> (string \<times> string \<times> string) list" where
  "capsule_expectations m location commit =
    (let mismatch = ''CAPSULE_BINDING_MISMATCH'' in
     [(''contract_fingerprint'', cm_contract_fingerprint m, ''CONTRACT_FINGERPRINT_MISMATCH''),
      (''authority_fingerprint'', cm_authority_fingerprint m, ''AUTHORITY_FINGERPRINT_MISMATCH''),
      (''source_root'', location, mismatch), (''branch'', cm_branch m, mismatch),
      (''base_commit'', cm_base_commit m, mismatch), (''current_commit'', commit, mismatch),
      (''risk'', risk_value (cm_risk_level m), mismatch),
      (''environment'', environment_value (cm_environment m), mismatch)])"

definition validate_prebound_capsule ::
  "host \<Rightarrow> capsule_material \<Rightarrow> capsule \<Rightarrow> string \<Rightarrow> string \<Rightarrow> unit act" where
  "validate_prebound_capsule h m k location commit =
    (let content = capsule_content k in
     if capsule_role k \<noteq> Maker \<or> \<not> list_all (\<lambda>f. member f content \<noteq> None) maker_fields
        \<or> (case member ''slice'' content of
             Some (JObj kvs) \<Rightarrow> map_of kvs ''slice_id'' \<noteq> Some (JStr (cm_slice_id m))
           | v \<Rightarrow> v \<noteq> Some (JStr (cm_slice_id m)))
     then refuse ''CAPSULE_BINDING_MISMATCH''
     else case find (\<lambda>(f, v, _). member f content \<noteq> Some (JStr v)) (capsule_expectations m location commit) of
        Some (_, _, code) \<Rightarrow> refuse code
      | None \<Rightarrow> if is_sublist (ho_source_root h) (capsule_json k) then refuse ''SOURCE_ROOT_EXPOSED_TO_MAKER''
          else reply ())"

text \<open>A member of the stored binding that the code compares with or uses as a text or a truth value.\<close>

fun text_member :: "string \<Rightarrow> json \<Rightarrow> string" where
  "text_member k j = (case member k j of Some (JStr s) \<Rightarrow> s | _ \<Rightarrow> [])"

fun flag_member :: "string \<Rightarrow> json \<Rightarrow> bool" where
  "flag_member k j = (case member k j of Some v \<Rightarrow> truthy v | None \<Rightarrow> False)"

definition binding_matches :: "(string \<times> string) list \<Rightarrow> json \<Rightarrow> bool" where
  "binding_matches expected b \<longleftrightarrow> list_all (\<lambda>(k, v). member k b = Some (JStr v)) expected"

definition reuse_binding :: "host \<Rightarrow> string \<Rightarrow> json \<Rightarrow> string \<Rightarrow> string \<Rightarrow> worktree act" where
  "reuse_binding h i b branch head =
    (case member ''worktree_path'' b of
       Some (JStr p) \<Rightarrow> reuse_bound h i p branch head (flag_member ''branch_created'' b) (flag_member ''worktree_created'' b)
     | _ \<Rightarrow> abort (Raised (PythonError ''TypeError'')))"

definition rebind_candidate :: "host \<Rightarrow> execution_create \<Rightarrow> json \<Rightarrow> worktree act" where
  "rebind_candidate h x b =
    andthen (read_execution h (xc_execution_id x)) (\<lambda>r.
    andthen (look h (\<lambda>_ d. case member ''slice_id'' b of Some (JStr s) \<Rightarrow> get_slice s d
        | _ \<Rightarrow> Inl (StoreError ''SLICE_CONTROL_STATE_NOT_FOUND''))) (\<lambda>s.
    if \<not> binding_matches [(''slice_id'', xc_slice_id x), (''repository_toplevel'', ho_source_root h),
          (''branch'', xc_branch x), (''base_commit'', xc_base_commit x),
          (''contract_fingerprint'', xc_contract_fingerprint x),
          (''authority_fingerprint'', xc_authority_fingerprint x),
          (''risk_level'', risk_value (xc_risk_level x)),
          (''environment'', environment_value (xc_environment x))] b
       \<or> ex_slice_id r \<noteq> xc_slice_id x \<or> sl_active_execution_id (sc_fields s) \<noteq> Some (xc_execution_id x)
    then refuse ''PREEXECUTION_BIND_CONFLICT''
    else (case sl_current_branch_head (sc_fields s) of
        Some head \<Rightarrow> reuse_binding h (xc_execution_id x) b (xc_branch x) head
      | None \<Rightarrow> reuse_binding h (xc_execution_id x) b (xc_branch x) [])))"

definition bind_prepared :: "host \<Rightarrow> execution_create \<Rightarrow> int \<Rightarrow> capsule \<Rightarrow> string \<Rightarrow> worktree
    \<Rightarrow> (execution_row \<times> slice_row \<times> context_row \<times> bool) act" where
  "bind_prepared h x v k packet w =
    andthen (validate_prebound_capsule h (material_of_spec x) k (wt_path w) (xc_base_commit x)) (\<lambda>_.
    andthen (key_for h ''controller-bind-deferred''
      [(''execution_id'', PStr (xc_execution_id x)), (''slice_id'', PStr (xc_slice_id x)),
       (''expected_state_version'', PInt v), (''risk_level'', PStr (risk_value (xc_risk_level x))),
       (''environment'', PStr (environment_value (xc_environment x))),
       (''contract_fingerprint'', PStr (xc_contract_fingerprint x)),
       (''authority_fingerprint'', PStr (xc_authority_fingerprint x)),
       (''source_root'', PStr (ho_source_root h)), (''worktree_path'', PStr (wt_path w)),
       (''branch'', PStr (xc_branch x)), (''base_commit'', PStr (xc_base_commit x)),
       (''packet_ref'', PStr packet), (''context_fingerprint'', PStr (capsule_fingerprint k))]) (\<lambda>key.
    let q = \<lparr>bq_spec = x, bq_expected_version = v, bq_operation_key = key,
      bq_context_id = ''context-maker-prebind-'' @ key, bq_capsule = k, bq_packet_ref = packet,
      bq_worktree_path = wt_path w, bq_branch_created = wt_branch_created w,
      bq_worktree_created = wt_worktree_created w, bq_actor_id = ho_controller_id h\<rparr> in
    ask h (BindDeferred q) (\<lambda>c d. fst (bind_deferred_execution c q d))))"

definition known_binding :: "host \<Rightarrow> string \<Rightarrow> json option act" where
  "known_binding h i = rescue (andthen (look h (\<lambda>_. get_deferred_binding i)) (\<lambda>b. reply (Some b)))
     (\<lambda>e. if e = Raised (StoreError ''PREEXECUTION_BINDING_NOT_FOUND'') then reply None else abort e)"

definition controller_bind_deferred :: "host \<Rightarrow> execution_create \<Rightarrow> int \<Rightarrow> capsule \<Rightarrow> string \<Rightarrow> bool
    \<Rightarrow> (execution_row \<times> slice_row \<times> context_row \<times> bool) act" where
  "controller_bind_deferred h x v k packet provision =
    andthen (source_root_ok h x) (\<lambda>_.
    andthen (known_binding h (xc_execution_id x)) (\<lambda>persisted.
    andthen (case persisted of
        None \<Rightarrow> prepare_bound h (xc_execution_id x) (xc_branch x) (xc_base_commit x) provision
      | Some b \<Rightarrow> rebind_candidate h x b) (\<lambda>w.
    let created = (persisted = None \<and> (wt_branch_created w \<or> wt_worktree_created w)) in
    rescue (bind_prepared h x v k packet w) (\<lambda>e.
      if \<not> created then abort e
      else andthen (compensate_bound h w) (\<lambda>undone.
        if undone then abort e else refuse ''GIT_PROVISIONED_DB_BIND_FAILED_REVIEW_REQUIRED'')))))"

section \<open>release_prebound_execution\<close>

definition release_reasons :: "string set" where
  "release_reasons = {''BASE_STALE'', ''CONTRACT_STALE'', ''AUTHORITY_STALE'', ''BRANCH_STALE'',
     ''ENVIRONMENT_STALE'', ''PREMAKER_PREREQUISITE_CHANGED''}"

record release_report =
  re_result :: string
  re_execution :: execution_row
  re_slice :: slice_row
  re_metadata :: json
  re_cleanup_complete :: bool
  re_cleanup_error :: "string option"
  re_replayed :: bool

text \<open>The worktree a binding describes, and the operation key that pins all of it.\<close>

definition bound_worktree :: "host \<Rightarrow> string \<Rightarrow> json \<Rightarrow> worktree act" where
  "bound_worktree h i b =
    (case (member ''worktree_path'' b, member ''branch'' b, member ''base_commit'' b) of
       (Some (JStr p), Some (JStr branch), Some (JStr base)) \<Rightarrow>
         andthen (resolve_lenient h p) (\<lambda>resolved.
         reply \<lparr>wt_execution_id = i, wt_path = resolved, wt_branch = branch, wt_base_commit = base,
           wt_branch_created = flag_member ''branch_created'' b,
           wt_worktree_created = flag_member ''worktree_created'' b\<rparr>)
     | _ \<Rightarrow> abort (Raised (PythonError ''TypeError'')))"

definition release_key :: "host \<Rightarrow> string \<Rightarrow> string \<Rightarrow> int \<Rightarrow> int \<Rightarrow> string \<Rightarrow> string \<Rightarrow> json \<Rightarrow> string act" where
  "release_key h i slice v w reason auth b =
    (let old = (\<lambda>k. case member k b of None \<Rightarrow> PNone | Some x \<Rightarrow> json_to_py x) in
     key_for h ''release-deferred-preexecution-binding''
      [(''execution_id'', PStr i), (''slice_id'', PStr slice), (''expected_execution_state_version'', PInt v),
       (''expected_slice_state_version'', PInt w), (''release_reason'', PStr reason),
       (''authority_ref'', PStr auth), (''old_repository_toplevel'', old ''repository_toplevel''),
       (''old_worktree_path'', old ''worktree_path''), (''old_branch'', old ''branch''),
       (''old_base_commit'', old ''base_commit''), (''old_contract_fingerprint'', old ''contract_fingerprint''),
       (''old_authority_fingerprint'', old ''authority_fingerprint''),
       (''old_context_snapshot_id'', old ''context_snapshot_id''),
       (''old_context_fingerprint'', old ''context_fingerprint''),
       (''branch_created'', PBool (flag_member ''branch_created'' b)),
       (''worktree_created'', PBool (flag_member ''worktree_created'' b))])"

text \<open>The clean-up after the commit: its errors are reported, never raised.\<close>

definition cleanup_report :: "host \<Rightarrow> worktree \<Rightarrow> (bool \<times> string option) act" where
  "cleanup_report h w = rescue (andthen (cleanup_released h w) (\<lambda>clean. reply (clean, None)))
     (\<lambda>e. case e of
        ControllerError code \<Rightarrow> reply (False, Some code)
      | Raised (PythonError name) \<Rightarrow>
          if name = ''FileNotFoundError'' then reply (False, Some name) else abort e
      | _ \<Rightarrow> abort e)"

definition release_prebound_execution ::
  "host \<Rightarrow> string \<Rightarrow> string \<Rightarrow> int \<Rightarrow> int \<Rightarrow> string \<Rightarrow> string \<Rightarrow> release_report act" where
  "release_prebound_execution h i slice v w reason auth =
    (if reason \<notin> release_reasons then refuse ''PREBOUND_RELEASE_REASON_INVALID''
     else if all_space auth then refuse ''PREBOUND_RELEASE_AUTHORITY_REQUIRED''
     else andthen (look h (\<lambda>_. get_deferred_binding i)) (\<lambda>b.
       if member ''slice_id'' b \<noteq> Some (JStr slice)
       then abort (Raised (StoreError ''PREBOUND_RELEASE_EXECUTION_MISMATCH''))
       else andthen (bound_worktree h i b) (\<lambda>tree.
       andthen (release_key h i slice v w reason auth b) (\<lambda>key.
       let q = \<lparr>gq_execution_id = i, gq_slice_id = slice, gq_expected_version = v, gq_expected_slice_version = w,
         gq_operation_key = key, gq_reason = reason, gq_authority_ref = auth,
         gq_actor_id = ho_controller_id h\<rparr> in
       andthen (ask h (ReleaseBinding q) (\<lambda>c d. fst (release_deferred_preexecution_binding c q d)))
         (\<lambda>(r, s, metadata, replayed).
       andthen (cleanup_report h tree) (\<lambda>(clean, error).
       reply \<lparr>re_result = (if clean then ''PREEXECUTION_RELEASED''
           else ''PREEXECUTION_RELEASED_GIT_CLEANUP_REVIEW_REQUIRED''),
         re_execution = r, re_slice = s, re_metadata = metadata, re_cleanup_complete = clean,
         re_cleanup_error = error, re_replayed = replayed\<rparr>))))))"

end
