(* ===== verification/Controller_Work.thy ===== *)
theory Controller_Work
  imports Controller
begin

text \<open>
  The controller's part in the work of the Maker (\<open>src/adcp/controller.py\<close>): the human disposition
  of a failed HIGH execution, scheduling and completing a Maker attempt, and the recording of its
  verification.
\<close>

section \<open>HIGH rework\<close>

record approval_binding =
  ab_approval_id :: string
  ab_authority_ref :: string

definition known_commit :: "execution_row \<Rightarrow> string act" where
  "known_commit r = (case ex_result_commit r of
     None \<Rightarrow> abort (Raised (PythonError ''TypeError'')) | Some commit \<Rightarrow> reply commit)"

definition maker_topology_ok :: "string \<Rightarrow> string \<Rightarrow> db \<Rightarrow> bool" where
  "maker_topology_ok i commit d = (\<not> isl (single_completed_maker i commit d))"

definition high_rework_ref :: "host \<Rightarrow> execution_row \<Rightarrow> verification_row \<Rightarrow> string act" where
  "high_rework_ref h r v = digest_of h
     [(''approval_type'', PStr ''HIGH_REWORK''), (''execution_id'', PStr (ex_id r)),
      (''risk_level'', PStr (risk_value (ex_risk_level r))), (''state'', PStr (state_value (ex_state r))),
      (''state_version'', PInt (ex_state_version r)), (''maker_rework_count'', PInt (ex_maker_rework_count r)),
      (''max_auto_reworks'', PInt (ex_max_auto_reworks r)), (''result_commit'', py_opt (ex_result_commit r)),
      (''contract_fingerprint'', PStr (ex_contract_fingerprint r)),
      (''authority_fingerprint'', PStr (ex_authority_fingerprint r)),
      (''verification_id'', PStr (vr_id v)), (''verification_verdict'', PStr (vr_verdict v)),
      (''verification_manifest_sha256'', PStr (vr_command_manifest_sha256 v)),
      (''verification_result_sha256'', PStr (ho_sha h (vr_result_json v)))]"

definition high_rework_binding :: "host \<Rightarrow> string \<Rightarrow> (execution_row \<times> verification_row \<times> string) act" where
  "high_rework_binding h i =
    andthen (read_execution h i) (\<lambda>r.
    case ex_result_commit r of
      None \<Rightarrow> refuse ''HIGH_REWORK_STATE_INVALID''
    | Some commit \<Rightarrow>
      if ex_risk_level r \<noteq> HIGH \<or> ex_max_auto_reworks r \<noteq> 0 \<or> ex_state r \<noteq> BLOCKED
         \<or> ex_resume_state r \<noteq> Some VERIFYING \<or> ex_blocker_code r \<noteq> Some ''VERIFICATION_FAILED''
      then refuse ''HIGH_REWORK_STATE_INVALID''
      else andthen (look h (\<lambda>_ d. Inr (maker_topology_ok i commit d))) (\<lambda>single.
        if \<not> single then refuse ''HIGH_REWORK_ATTEMPT_TOPOLOGY_INVALID''
        else andthen (look h (\<lambda>_. find_verification_failure i commit (ex_contract_fingerprint r)
            (ex_authority_fingerprint r))) (\<lambda>found.
          case found of
            None \<Rightarrow> refuse ''HIGH_REWORK_VERIFICATION_FAILURE_REQUIRED''
          | Some v \<Rightarrow> andthen (high_rework_ref h r v) (\<lambda>ref. reply (r, v, ref)))))"

definition request_high_rework_approval :: "host \<Rightarrow> string \<Rightarrow> approval_binding act" where
  "request_high_rework_approval h i =
    andthen (high_rework_binding h i) (\<lambda>(r, v, ref).
    andthen (fresh h) (\<lambda>hex. let a = ''approval-'' @ hex in
    andthen (key_for h ''high-rework-approval-request''
      [(''approval_id'', PStr a), (''execution_id'', PStr i), (''state_version'', PInt (ex_state_version r)),
       (''verification_id'', PStr (vr_id v)), (''authority_ref'', PStr ref)]) (\<lambda>key.
    let q = \<lparr>pq_approval_id = a, pq_idempotency_key = key, pq_execution_id = i,
      pq_approval_type = ''HIGH_REWORK'', pq_authority_ref = ref, pq_expected_version = ex_state_version r,
      pq_owner = ho_controller_id h, pq_generation = ex_lease_generation r, pq_fence = None\<rparr> in
    andthen (ask h (RequestApproval q) (\<lambda>c d. fst (request_approval c q d))) (\<lambda>p.
    reply \<lparr>ab_approval_id = ap_id p, ab_authority_ref = ap_authority_ref p\<rparr>))))"

text \<open>The checks of a stored approval; the two callers differ in the order of the last two.\<close>

definition high_approval_named :: "string \<Rightarrow> string \<Rightarrow> approval_row \<Rightarrow> unit act" where
  "high_approval_named i ref p =
    (if ap_execution_id p \<noteq> i then refuse ''HIGH_REWORK_APPROVAL_EXECUTION_MISMATCH''
     else if ap_approval_type p \<noteq> ''HIGH_REWORK'' then refuse ''HIGH_REWORK_APPROVAL_TYPE_MISMATCH''
     else if ap_authority_ref p \<noteq> ref then refuse ''HIGH_REWORK_APPROVAL_STALE'' else reply ())"

definition controller_authorize_high_rework :: "host \<Rightarrow> string \<Rightarrow> approval_binding \<Rightarrow> execution_row act" where
  "controller_authorize_high_rework h i a =
    andthen (high_rework_binding h i) (\<lambda>(r, v, ref).
    if ab_authority_ref a \<noteq> ref then refuse ''HIGH_REWORK_APPROVAL_STALE''
    else andthen (look h (\<lambda>_. get_approval (ab_approval_id a))) (\<lambda>p.
      andthen (high_approval_named i ref p) (\<lambda>_.
      if ap_consumed_at p \<noteq> None then refuse ''HIGH_REWORK_APPROVAL_CONSUMED''
      else if ap_status p \<noteq> APPROVED then refuse ''HIGH_REWORK_APPROVAL_REQUIRED''
      else let semantic = [(''execution_id'', PStr i), (''state_version'', PInt (ex_state_version r)),
          (''approval_id'', PStr (ab_approval_id a)), (''authority_ref'', PStr ref),
          (''verification_id'', PStr (vr_id v)), (''result_commit'', py_opt (ex_result_commit r))] in
        andthen (key_for h ''human-high-rework-resume'' semantic) (\<lambda>resume.
        andthen (key_for h ''human-high-rework-ready'' semantic) (\<lambda>ready.
        andthen (known_commit r) (\<lambda>commit.
        let q = \<lparr>hq_execution_id = i, hq_expected_version = ex_state_version r, hq_resume_key = resume,
          hq_ready_key = ready, hq_approval_id = ab_approval_id a, hq_authority_ref = ref,
          hq_verification_id = vr_id v, hq_result_commit = commit,
          hq_contract_fingerprint = ex_contract_fingerprint r,
          hq_authority_fingerprint = ex_authority_fingerprint r, hq_owner = ho_controller_id h,
          hq_generation = ex_lease_generation r, hq_actor_id = ho_controller_id h\<rparr> in
        ask h (AuthorizeHighRework q) (\<lambda>c d. fst (authorize_high_rework c q d))))))))"

definition authorization_binds :: "approval_binding \<Rightarrow> execution_row \<Rightarrow> event_row \<Rightarrow> unit act" where
  "authorization_binds a r e =
    (case loads (ev_metadata_json e) of
       None \<Rightarrow> refuse ''HIGH_REWORK_AUTHORIZATION_INVALID''
     | Some (JObj kvs) \<Rightarrow>
         let found = (\<lambda>k. dict_get kvs k JNull) in
         if found ''approval_id'' \<noteq> JStr (ab_approval_id a) \<or> found ''authority_ref'' \<noteq> JStr (ab_authority_ref a)
            \<or> found ''result_commit'' \<noteq> json_opt (ex_result_commit r)
            \<or> found ''contract_fingerprint'' \<noteq> JStr (ex_contract_fingerprint r)
            \<or> found ''authority_fingerprint'' \<noteq> JStr (ex_authority_fingerprint r)
         then refuse ''HIGH_REWORK_AUTHORIZATION_STALE'' else reply ()
     | Some _ \<Rightarrow> abort (Raised (PythonError ''AttributeError'')))"

definition validate_high_rework_schedule :: "host \<Rightarrow> execution_row \<Rightarrow> approval_binding \<Rightarrow> unit act" where
  "validate_high_rework_schedule h r a =
    (case ex_result_commit r of
       None \<Rightarrow> refuse ''HIGH_REWORK_SCHEDULING_STATE_INVALID''
     | Some commit \<Rightarrow>
       if ex_risk_level r \<noteq> HIGH \<or> ex_max_auto_reworks r \<noteq> 0 \<or> ex_maker_rework_count r \<noteq> 0
          \<or> ex_state r \<noteq> REWORK_READY
       then refuse ''HIGH_REWORK_SCHEDULING_STATE_INVALID''
       else andthen (look h (\<lambda>_ d. Inr (maker_topology_ok (ex_id r) commit d))) (\<lambda>single.
         if \<not> single then refuse ''HIGH_REWORK_ATTEMPT_TOPOLOGY_INVALID''
         else andthen (look h (\<lambda>_. get_approval (ab_approval_id a))) (\<lambda>p.
           andthen (high_approval_named (ex_id r) (ab_authority_ref a) p) (\<lambda>_.
           if ap_status p \<noteq> APPROVED then refuse ''HIGH_REWORK_APPROVAL_REQUIRED''
           else if ap_consumed_at p \<noteq> None then refuse ''HIGH_REWORK_APPROVAL_CONSUMED''
           else andthen (look h (\<lambda>_ d. Inr (latest_authorization (ex_id r) d))) (\<lambda>found.
             case found of
               None \<Rightarrow> refuse ''HIGH_REWORK_AUTHORIZATION_REQUIRED''
             | Some e \<Rightarrow> if ev_to_version e \<noteq> ex_state_version r
                 then refuse ''HIGH_REWORK_AUTHORIZATION_REQUIRED'' else authorization_binds a r e)))))"

section \<open>Scheduling the Maker\<close>

record maker_run =
  mr_attempt_id :: string
  mr_candidate :: worktree
  mr_before :: candidate_fingerprint
  mr_capsule :: capsule

fun replace_members :: "(string \<times> json) list \<Rightarrow> (string \<times> json) list \<Rightarrow> (string \<times> json) list" where
  "replace_members [] kvs = kvs"
| "replace_members ((k, v) # updates) kvs =
     replace_members updates (if map_of kvs k = None then kvs else dict_set k v kvs)"

text \<open>A slice that was bound before the Maker started: its worktree is reused.\<close>

definition binding_coherent_with :: "execution_row \<Rightarrow> slice_row \<Rightarrow> json \<Rightarrow> string \<Rightarrow> bool" where
  "binding_coherent_with r s b commit \<longleftrightarrow>
     binding_matches [(''slice_id'', ex_slice_id r), (''repository_toplevel'', ex_source_root r),
       (''branch'', ex_branch r), (''base_commit'', ex_base_commit r),
       (''contract_fingerprint'', ex_contract_fingerprint r),
       (''authority_fingerprint'', ex_authority_fingerprint r),
       (''risk_level'', risk_value (ex_risk_level r)), (''environment'', environment_value (ex_environment r))] b
     \<and> sl_branch (sc_fields s) = Some (ex_branch r) \<and> sl_base_commit (sc_fields s) = Some (ex_base_commit r)
     \<and> sl_current_branch_head (sc_fields s) = Some commit
     \<and> sl_implementation_result_commit (sc_fields s) = ex_result_commit r"

definition commit_or_base :: "execution_row \<Rightarrow> string" where
  "commit_or_base r = (case ex_result_commit r of None \<Rightarrow> ex_base_commit r
     | Some x \<Rightarrow> if x = [] then ex_base_commit r else x)"

definition prebound_context_ok :: "host \<Rightarrow> string \<Rightarrow> json \<Rightarrow> capsule \<Rightarrow> unit act" where
  "prebound_context_ok h i b k =
    andthen (look h (\<lambda>_. get_context (text_member ''context_snapshot_id'' b))) (\<lambda>x.
    if cx_execution_id x \<noteq> i \<or> cx_role x \<noteq> Maker \<or> cx_fingerprint x \<noteq> capsule_fingerprint k
       \<or> cx_canonical_json x \<noteq> capsule_json k
       \<or> member ''context_fingerprint'' b \<noteq> Some (JStr (capsule_fingerprint k))
    then refuse ''CAPSULE_BINDING_MISMATCH'' else reply ())"

definition prebound_candidate :: "host \<Rightarrow> string \<Rightarrow> execution_row \<Rightarrow> slice_row \<Rightarrow> capsule \<Rightarrow> worktree act" where
  "prebound_candidate h i r s k =
    (let commit = commit_or_base r in
     andthen (look h (\<lambda>_. get_deferred_binding i)) (\<lambda>b.
     if \<not> binding_coherent_with r s b commit then refuse ''PREEXECUTION_BIND_CONFLICT''
     else andthen (reuse_binding h i b (ex_branch r) commit) (\<lambda>w.
       andthen (validate_prebound_capsule h (material_of r) k (wt_path w) commit) (\<lambda>_.
       andthen (if sl_execution_eligibility (sc_fields s) = ''ELIGIBLE_PREEXECUTION_BOUND''
          then prebound_context_ok h i b k else reply ()) (\<lambda>_. reply w)))))"

definition fresh_candidate :: "host \<Rightarrow> string \<Rightarrow> execution_row \<Rightarrow> capsule \<Rightarrow> (worktree \<times> capsule) act" where
  "fresh_candidate h i r k =
    andthen (create_worktree h i (commit_or_base r)) (\<lambda>w.
    let content = (case capsule_content k of JObj kvs \<Rightarrow> kvs | _ \<Rightarrow> []) in
    andthen (lift (build_context_capsule (ho_sha h) Maker
       (JObj (replace_members [(''source_root'', JStr (wt_path w)), (''branch'', JStr (wt_branch w)),
         (''base_commit'', JStr (wt_base_commit w)), (''current_commit'', JStr (wt_base_commit w))] content))
       (capsule_version k))) (\<lambda>k'. reply (w, k')))"

definition maker_workplace :: "host \<Rightarrow> string \<Rightarrow> execution_row \<Rightarrow> capsule \<Rightarrow> (worktree \<times> capsule) act" where
  "maker_workplace h i r k =
    andthen (look h (\<lambda>_ d. Inr (deferred_slice (controlled_slice i d)))) (\<lambda>controlled.
    andthen (case controlled of
        Some s \<Rightarrow> andthen (prebound_candidate h i r s k) (\<lambda>w. reply (w, k))
      | None \<Rightarrow> fresh_candidate h i r k) (\<lambda>(w, k').
    if is_sublist (ho_source_root h) (capsule_json k') then refuse ''SOURCE_ROOT_EXPOSED_TO_MAKER''
    else reply (w, k')))"

text \<open>The transition into \<open>MAKER_RUNNING\<close>: the first, an automatic rework or an authorised one.\<close>

definition schedule_maker ::
  "host \<Rightarrow> string \<Rightarrow> execution_row \<Rightarrow> approval_binding option \<Rightarrow> execution_row act" where
  "schedule_maker h i r approval =
    (if ex_state r = READY then move h i MAKER_RUNNING ''MAKER_SCHEDULED'' no_options
     else case approval of
       None \<Rightarrow>
         andthen (key_for h ''schedule-rework'' [(''execution_id'', PStr i), (''version'', PInt (ex_state_version r))]) (\<lambda>key.
         let q = \<lparr>wq_execution_id = i, wq_expected_version = ex_state_version r, wq_operation_key = key,
           wq_owner = ho_controller_id h, wq_generation = ex_lease_generation r, wq_actor_id = ho_controller_id h\<rparr> in
         ask h (ScheduleRework q) (\<lambda>c d. fst (schedule_rework c q d)))
     | Some a \<Rightarrow>
         andthen (key_for h ''schedule-human-authorized-high-rework''
           [(''execution_id'', PStr i), (''version'', PInt (ex_state_version r)),
            (''approval_id'', PStr (ab_approval_id a)), (''authority_ref'', PStr (ab_authority_ref a))]) (\<lambda>key.
         let q = \<lparr>jq_execution_id = i, jq_expected_version = ex_state_version r, jq_operation_key = key,
           jq_approval_id = ab_approval_id a, jq_authority_ref = ab_authority_ref a,
           jq_owner = ho_controller_id h, jq_generation = ex_lease_generation r, jq_actor_id = ho_controller_id h\<rparr> in
         ask h (ScheduleHumanRework q) (\<lambda>c d. fst (schedule_human_authorized_rework c q d))))"

definition register_capsule ::
  "host \<Rightarrow> string \<Rightarrow> string \<Rightarrow> capsule \<Rightarrow> candidate_fence option \<Rightarrow> context_row act" where
  "register_capsule h prefix i k fence =
    andthen (fresh h) (\<lambda>hex.
    let q = \<lparr>xq_snapshot_id = prefix @ hex, xq_execution_id = i, xq_role = capsule_role k,
      xq_version = capsule_version k, xq_content = Capsule k, xq_fence = fence\<rparr> in
    ask h (RegisterContext q) (\<lambda>c d. fst (register_context_snapshot c q d)))"

text \<open>A fresh attempt of a role in a registered context; its identifier comes back.\<close>

definition register_attempt_for ::
  "host \<Rightarrow> string \<Rightarrow> string \<Rightarrow> string \<Rightarrow> capsule_role \<Rightarrow> string \<Rightarrow> string option \<Rightarrow> string option
     \<Rightarrow> string \<Rightarrow> string option \<Rightarrow> string act" where
  "register_attempt_for h prefix kind i role context_id model effort base commit =
    andthen (look h (\<lambda>_ d. Inr (attempt_count i role d + 1))) (\<lambda>no.
    andthen (fresh h) (\<lambda>hex. let a = prefix @ hex in
    andthen (key_for h kind [(''attempt_id'', PStr a)]) (\<lambda>key.
    andthen (fresh h) (\<lambda>session.
    andthen (now h) (\<lambda>t.
    let q = \<lparr>nq_attempt_id = a, nq_operation_key = key, nq_execution_id = i, nq_role = role,
      nq_attempt_no = no, nq_model = model, nq_reasoning_effort = effort, nq_session_id = ''session-'' @ session,
      nq_context_id = context_id, nq_base_commit = base, nq_result_commit = commit,
      nq_started_at = iso_text t, nq_fence = None\<rparr> in
    andthen (ask h (RegisterAttempt q) (\<lambda>c d. fst (register_agent_attempt c q d))) (\<lambda>_. reply a))))))"

definition maker_schedulable :: "host \<Rightarrow> execution_row \<Rightarrow> approval_binding option \<Rightarrow> unit act" where
  "maker_schedulable h r approval =
    (if ex_state r \<notin> {READY, REWORK_READY} then refuse ''MAKER_NOT_SCHEDULABLE''
     else if ex_state r = REWORK_READY \<and> ex_risk_level r = HIGH \<and> ex_max_auto_reworks r = 0 then
       (case approval of None \<Rightarrow> refuse ''HUMAN_HIGH_REWORK_APPROVAL_REQUIRED''
        | Some a \<Rightarrow> validate_high_rework_schedule h r a)
     else if approval \<noteq> None then refuse ''HIGH_REWORK_SCHEDULING_STATE_INVALID'' else reply ())"

definition begin_maker :: "host \<Rightarrow> string \<Rightarrow> capsule \<Rightarrow> string option \<Rightarrow> string option
    \<Rightarrow> approval_binding option \<Rightarrow> maker_run act" where
  "begin_maker h i k model effort approval =
    (if capsule_role k \<noteq> Maker then refuse ''MAKER_CONTEXT_REQUIRED''
     else andthen (read_execution h i) (\<lambda>r.
       andthen (maker_schedulable h r approval) (\<lambda>_.
       andthen (maker_workplace h i r k) (\<lambda>(w, k').
       andthen (schedule_maker h i r approval) (\<lambda>_.
       andthen (register_capsule h ''context-maker-'' i k' None) (\<lambda>x.
       andthen (register_attempt_for h ''maker-'' ''maker-attempt'' i Maker (cx_id x) model effort
         (wt_base_commit w) None) (\<lambda>a.
       andthen (fingerprint h w) (\<lambda>before.
       reply \<lparr>mr_attempt_id = a, mr_candidate = w, mr_before = before, mr_capsule = k'\<rparr>))))))))"

section \<open>Completing the Maker\<close>

definition finish_of :: "string \<Rightarrow> string \<Rightarrow> string \<Rightarrow> artifact_set option \<Rightarrow> finish_request" where
  "finish_of a status ended artifacts =
    \<lparr>qf_attempt_id = a, qf_status = status, qf_ended_at = ended, qf_result_commit = None, qf_exit_code = None,
     qf_stdout_artifact = map_option (fst \<circ> as_stdout) artifacts,
     qf_stdout_sha256 = map_option (snd \<circ> as_stdout) artifacts,
     qf_stderr_artifact = map_option (fst \<circ> as_stderr) artifacts,
     qf_stderr_sha256 = map_option (snd \<circ> as_stderr) artifacts,
     qf_result_artifact = map_option (fst \<circ> as_result) artifacts,
     qf_result_sha256 = map_option (snd \<circ> as_result) artifacts,
     qf_seal_id = None, qf_failure_code = None, qf_owner = None, qf_generation = None, qf_required_state = None\<rparr>"

definition finish_attempt :: "host \<Rightarrow> finish_request \<Rightarrow> attempt_row act" where
  "finish_attempt h q = ask h (FinishAttempt q) (\<lambda>c d. fst (finish_agent_attempt c q d))"

definition fail_maker :: "host \<Rightarrow> string \<Rightarrow> string \<Rightarrow> artifact_set option \<Rightarrow> unit act" where
  "fail_maker h a code artifacts =
    andthen (now h) (\<lambda>t.
    andthen (finish_attempt h ((finish_of a ''FAILED'' (iso_text t) artifacts)\<lparr>qf_failure_code := Some code\<rparr>)) (\<lambda>_.
    reply ()))"

definition maker_resume_state :: "host \<Rightarrow> execution_row \<Rightarrow> string \<Rightarrow> exec_state act" where
  "maker_resume_state h r a =
    andthen (look h (\<lambda>_. get_attempt a)) (\<lambda>t.
    reply (if ex_maker_rework_count r \<noteq> 0 \<or> 1 < at_attempt_no t then REWORK_READY else READY))"

definition register_commit_of :: "host \<Rightarrow> string \<Rightarrow> execution_row \<Rightarrow> string \<Rightarrow> execution_row act" where
  "register_commit_of h i r commit =
    andthen (key_for h ''candidate-result'' [(''execution_id'', PStr i), (''commit'', PStr commit)]) (\<lambda>key.
    let q = \<lparr>cq_execution_id = i, cq_expected_version = ex_state_version r, cq_operation_key = key,
      cq_result_commit = commit, cq_owner = ho_controller_id h, cq_generation = ex_lease_generation r,
      cq_actor_role = CONTROLLER, cq_actor_id = ho_controller_id h\<rparr> in
    ask h (RegisterResultCommit q) (\<lambda>c d. fst (register_result_commit c q d)))"

definition finalize_commit_of ::
  "host \<Rightarrow> string \<Rightarrow> execution_row \<Rightarrow> slice_row \<Rightarrow> string \<Rightarrow> string \<Rightarrow> (execution_row \<times> slice_row \<times> bool) act" where
  "finalize_commit_of h i r s commit head =
    andthen (key_for h ''candidate-result'' [(''execution_id'', PStr i), (''commit'', PStr commit)]) (\<lambda>key.
    let q = \<lparr>fq_execution_id = i, fq_expected_version = ex_state_version r,
      fq_expected_slice_version = sc_state_version s, fq_operation_key = key, fq_result_commit = commit,
      fq_expected_head = head, fq_owner = ho_controller_id h, fq_generation = ex_lease_generation r,
      fq_actor_role = CONTROLLER, fq_actor_id = ho_controller_id h\<rparr> in
    ask h (FinalizeDeferred q) (\<lambda>c d. fst (finalize_deferred_result_commit c q d)))"

definition bind_result_commit :: "host \<Rightarrow> maker_run \<Rightarrow> string \<Rightarrow> unit act" where
  "bind_result_commit h m commit =
    (let i = wt_execution_id (mr_candidate m) in
     andthen (read_execution h i) (\<lambda>r.
     andthen (look h (\<lambda>_ d. Inr (deferred_slice (controlled_slice i d)))) (\<lambda>controlled.
     case controlled of
       Some s \<Rightarrow>
         andthen (validate_bound h (mr_candidate m) (Some commit)) (\<lambda>_.
         andthen (finalize_commit_of h i r s commit (gf_head (ck_git (mr_before m)))) (\<lambda>_. reply ()))
     | None \<Rightarrow> andthen (register_commit_of h i r commit) (\<lambda>_. reply ()))))"

definition maker_commit_failed ::
  "host \<Rightarrow> maker_run \<Rightarrow> execution_row \<Rightarrow> artifact_set option \<Rightarrow> controller_error \<Rightarrow> string act" where
  "maker_commit_failed h m r artifacts e =
    (case e of
       ControllerError code \<Rightarrow>
         andthen (fail_maker h (mr_attempt_id m) code artifacts) (\<lambda>_.
         andthen (maker_resume_state h r (mr_attempt_id m)) (\<lambda>resume.
         andthen (error_detail h) (\<lambda>detail.
         andthen (move h (wt_execution_id (mr_candidate m)) BLOCKED
           (if code = ''MAKER_GIT_POLICY_VIOLATION'' then code else ''MAKER_FAILED'')
           \<lparr>to_resume = Some resume, to_blocker = Some code, to_detail = Some detail, to_fence = None\<rparr>) (\<lambda>_.
         abort e))))
     | _ \<Rightarrow> abort e)"

definition complete_maker :: "host \<Rightarrow> maker_run \<Rightarrow> string \<Rightarrow> run_result option \<Rightarrow> string act" where
  "complete_maker h m message result =
    (let i = wt_execution_id (mr_candidate m); artifacts = map_option rr_artifacts result in
     andthen (read_execution h i) (\<lambda>r.
     if ex_state r \<noteq> MAKER_RUNNING then refuse ''MAKER_COMPLETION_STATE_INVALID''
     else andthen (rescue (create_candidate_commit h (mr_candidate m) (mr_before m) message)
         (maker_commit_failed h m r artifacts)) (\<lambda>commit.
       andthen (now h) (\<lambda>t.
       andthen (finish_attempt h ((finish_of (mr_attempt_id m) ''SUCCEEDED'' (iso_text t) artifacts)
         \<lparr>qf_result_commit := Some commit, qf_exit_code := Some 0\<rparr>)) (\<lambda>_.
       andthen (bind_result_commit h m commit) (\<lambda>_.
       andthen (move h i VERIFYING ''MAKER_SUCCEEDED'' no_options) (\<lambda>_. reply commit)))))))"

definition validate_artifact_directory :: "host \<Rightarrow> string \<Rightarrow> worktree \<Rightarrow> string act" where
  "validate_artifact_directory h directory w =
    andthen (resolve_lenient h directory) (\<lambda>target.
    if inside target (wt_path w) \<or> inside target (ho_source_root h) then refuse ''ARTIFACT_ROOT_INSIDE_SOURCE''
    else reply target)"

record maker_settings =
  ms_binary :: string
  ms_directory :: string
  ms_output_schema :: pyval
  ms_message :: string
  ms_model :: "string option"
  ms_effort :: "string option"
  ms_timeout :: int

definition maker_invocation :: "maker_run \<Rightarrow> maker_settings \<Rightarrow> string \<Rightarrow> invocation" where
  "maker_invocation m z directory =
    \<lparr>iv_workspace = wt_path (mr_candidate m), iv_prompt = capsule_json (mr_capsule m),
     iv_output_schema = ms_output_schema z, iv_artifact_directory = directory,
     iv_sandbox = ''workspace-write'', iv_binary = ms_binary z, iv_model = ms_model z,
     iv_reasoning_effort = ms_effort z, iv_timeout_seconds = ms_timeout z, iv_ignore_user_config = False\<rparr>"

definition run_maker :: "host \<Rightarrow> string \<Rightarrow> capsule \<Rightarrow> maker_settings \<Rightarrow> string act" where
  "run_maker h i k z =
    andthen (begin_maker h i k (ms_model z) (ms_effort z) None) (\<lambda>m.
    andthen (validate_artifact_directory h (ms_directory z) (mr_candidate m)) (\<lambda>directory.
    andthen (run_agent h (maker_invocation m z directory)) (\<lambda>outcome.
    case outcome of
      Ran result \<Rightarrow> complete_maker h m (ms_message z) (Some result)
    | Run_failed code artifacts \<Rightarrow>
        andthen (fail_maker h (mr_attempt_id m) code artifacts) (\<lambda>_.
        andthen (read_execution h i) (\<lambda>r.
        andthen (maker_resume_state h r (mr_attempt_id m)) (\<lambda>resume.
        andthen (move h i BLOCKED ''MAKER_RUNTIME_FAILURE''
          \<lparr>to_resume = Some resume, to_blocker = Some code, to_detail = None, to_fence = None\<rparr>) (\<lambda>_.
        abort (RunFailure code))))))))"

section \<open>record_verification\<close>

text \<open>Where a verdict of a verification leads.\<close>

definition after_verification :: "host \<Rightarrow> string \<Rightarrow> string \<Rightarrow> execution_row act" where
  "after_verification h i verdict =
    (if verdict = ''PASS'' then move h i EVALUATING ''VERIFICATION_PASSED'' no_options
     else move h i BLOCKED ''VERIFICATION_BLOCKED''
       \<lparr>to_resume = Some VERIFYING,
        to_blocker = Some (if verdict = ''BLOCKED_ENVIRONMENT'' then ''BLOCKED_ENVIRONMENT'' else ''VERIFICATION_FAILED''),
        to_detail = None, to_fence = None\<rparr>)"

definition record_verification :: "host \<Rightarrow> verification_record \<Rightarrow> verification_row act" where
  "record_verification h y =
    (let v = yr_row y; i = vr_execution_id v in
     andthen (read_execution h i) (\<lambda>r.
     if ex_state r \<noteq> VERIFYING then refuse ''VERIFICATION_STATE_INVALID''
     else if Some (vr_result_commit v) \<noteq> ex_result_commit r \<or> vr_contract_fingerprint v \<noteq> ex_contract_fingerprint r
        \<or> vr_authority_fingerprint v \<noteq> ex_authority_fingerprint r
     then refuse ''VERIFICATION_BINDING_MISMATCH''
     else andthen (ask h (RegisterVerification y) (\<lambda>c d. fst (register_verification_result c y d))) (\<lambda>stored.
       andthen (after_verification h i (vr_verdict stored)) (\<lambda>_. reply stored))))"

end
