(* ===== verification/Controller_Evaluation.thy ===== *)
theory Controller_Evaluation
  imports Controller_Work
begin

text \<open>
  The controller's part in an evaluation (\<open>src/adcp/controller.py\<close>): starting an evaluator on a
  verified commit, sealing what it reads and what it leaves, completing it, resolving the approval
  and accepting the execution on a manifest of the stored evidence.
\<close>

section \<open>begin_evaluator\<close>

definition verification_claimed :: "verification_row \<Rightarrow> execution_row \<Rightarrow> json \<Rightarrow> bool" where
  "verification_claimed v r content =
    (case member ''deterministic_verification_result'' content of
       Some (JObj kvs) \<Rightarrow>
         let found = (\<lambda>k. dict_get kvs k JNull) in
         found ''verification_id'' = JStr (vr_id v) \<and> found ''result_commit'' = json_opt (ex_result_commit r)
         \<and> found ''contract_fingerprint'' = JStr (ex_contract_fingerprint r)
         \<and> found ''authority_fingerprint'' = JStr (ex_authority_fingerprint r)
         \<and> found ''verdict'' = JStr ''PASS''
     | _ \<Rightarrow> False)"

definition evaluator_context_ok :: "verification_row \<Rightarrow> execution_row \<Rightarrow> json \<Rightarrow> bool" where
  "evaluator_context_ok v r content \<longleftrightarrow> member ''base_commit'' content = Some (JStr (ex_base_commit r))
     \<and> member ''result_commit'' content = Some (json_opt (ex_result_commit r)) \<and> verification_claimed v r content"

fun json_keys :: "json \<Rightarrow> string set" where
  "json_keys (JObj kvs) = fst ` set kvs"
| "json_keys _ = {}"

text \<open>\<open>has_verification_pass\<close> and \<open>find_verification_pass\<close>; both read, the second may find less.\<close>

definition verified_pass :: "host \<Rightarrow> execution_row \<Rightarrow> verification_row option act" where
  "verified_pass h r = andthen (known_commit r) (\<lambda>commit.
     look h (\<lambda>_. find_verification_pass (ex_id r) commit (ex_contract_fingerprint r) (ex_authority_fingerprint r)))"

definition begin_evaluator :: "host \<Rightarrow> string \<Rightarrow> capsule \<Rightarrow> string option \<Rightarrow> string option \<Rightarrow> string act" where
  "begin_evaluator h i k model effort =
    (if capsule_role k \<noteq> Evaluator then refuse ''EVALUATOR_CONTEXT_REQUIRED''
     else if json_keys (capsule_content k) \<noteq> set evaluator_fields then refuse ''EVALUATOR_CONTEXT_BOUNDARY_INVALID''
     else andthen (read_execution h i) (\<lambda>r.
       if ex_state r \<noteq> EVALUATING then refuse ''EVALUATOR_STATE_INVALID''
       else andthen (verified_pass h r) (\<lambda>has_pass.
         if has_pass = None then refuse ''VERIFICATION_PASS_REQUIRED''
         else andthen (verified_pass h r) (\<lambda>found. case found of
           None \<Rightarrow> abort (Raised (PythonError ''TypeError''))
         | Some v \<Rightarrow>
           if \<not> evaluator_context_ok v r (capsule_content k) then refuse ''EVALUATOR_CONTEXT_BINDING_MISMATCH''
           else andthen (register_capsule h ''context-evaluator-'' i k None) (\<lambda>x.
             register_attempt_for h ''evaluator-'' ''evaluator-attempt'' i Evaluator (cx_id x) model effort
               (ex_base_commit r) (ex_result_commit r))))))"

section \<open>Evaluator artifact seals\<close>

fun phase_text :: "seal_phase \<Rightarrow> string" where
  "phase_text PRE_EXECUTION = ''PRE_EXECUTION''"
| "phase_text POST_EXECUTION = ''POST_EXECUTION''"
| "phase_text LEGACY_ATTESTED = ''LEGACY_ATTESTED''"

fun phase_slug :: "seal_phase \<Rightarrow> string" where
  "phase_slug PRE_EXECUTION = ''pre-execution''"
| "phase_slug POST_EXECUTION = ''post-execution''"
| "phase_slug LEGACY_ATTESTED = ''legacy-attested''"

text \<open>\<open>Path(p).absolute()\<close>.\<close>

definition absolute_text :: "os_world \<Rightarrow> string \<Rightarrow> string" where
  "absolute_text w p = (if is_absolute (path_of p) then path_text (path_of p)
     else path_text (path_join (path_of (working_directory w)) (path_of p)))"

record seal_material =
  sm_phase :: seal_phase
  sm_root :: string
  sm_manifest_json :: string
  sm_manifest_sha256 :: string
  sm_producer_kind :: producer_kind
  sm_producer_ref :: string
  sm_approval_id :: "string option"

text \<open>\<open>except StoreError as error: raise ControllerError(error.code)\<close>.\<close>

definition as_controller :: "'a act \<Rightarrow> 'a act" where
  "as_controller m = rescue m (\<lambda>e. case e of Raised (StoreError code) \<Rightarrow> refuse code | _ \<Rightarrow> abort e)"

text \<open>The same for the errors of the artifact seal.\<close>

definition seal_as_controller :: "'a act \<Rightarrow> 'a act" where
  "seal_as_controller m = rescue m (\<lambda>e. case e of Raised (SealError code) \<Rightarrow> refuse code | _ \<Rightarrow> abort e)"

definition persist_seal :: "host \<Rightarrow> string \<Rightarrow> seal_material \<Rightarrow> seal_row act" where
  "persist_seal h a z =
    andthen (look h (\<lambda>_. get_attempt a)) (\<lambda>t.
    andthen (read_execution h (at_execution_id t)) (\<lambda>r.
    andthen (look h (\<lambda>_. get_context (at_context_id t))) (\<lambda>x.
    andthen (known_commit r) (\<lambda>commit.
    andthen (verified_pass h r) (\<lambda>found. case found of
      None \<Rightarrow> refuse ''VERIFICATION_PASS_REQUIRED''
    | Some v \<Rightarrow>
      andthen (look h (\<lambda>_. get_authority)) (\<lambda>auth.
      andthen (look h (\<lambda>c _. Inr (absolute_text (world c) (sm_root z)))) (\<lambda>root.
      andthen (key_for h ''evaluator-artifact-seal'' [(''attempt_id'', PStr a), (''phase'', PStr (phase_text (sm_phase z)))]) (\<lambda>key.
      let q = \<lparr>sq_fields = \<lparr>zc_seal_id = ''seal-'' @ phase_slug (sm_phase z) @ ''-'' @ a, zc_execution_id = ex_id r,
          zc_result_commit = commit, zc_verification_id = vr_id v, zc_attempt_id = a, zc_context_id = cx_id x,
          zc_context_fingerprint = cx_fingerprint x, zc_contract_fingerprint = ex_contract_fingerprint r,
          zc_authority_fingerprint = ex_authority_fingerprint r, zc_phase = sm_phase z,
          zc_producer_kind = sm_producer_kind z, zc_producer_ref = sm_producer_ref z, zc_evidence_root = root,
          zc_manifest_version = 1, zc_manifest_json = sm_manifest_json z,
          zc_manifest_sha256 = sm_manifest_sha256 z, zc_authority_generation = au_generation auth,
          zc_operation_key = key, zc_approval_id = sm_approval_id z\<rparr>,
        sq_owner = ho_controller_id h, sq_generation = ex_lease_generation r, sq_required_state = EVALUATING\<rparr> in
      as_controller (ask h (CreateSeal q) (\<lambda>c d. fst (create_evaluator_artifact_seal c q d)))))))))))"

definition runner_seal :: "host \<Rightarrow> string \<Rightarrow> seal_phase \<Rightarrow> string \<Rightarrow> string \<times> string \<times> artifact_entry list \<Rightarrow> seal_row act" where
  "runner_seal h a phase root = (\<lambda>(manifest, digest, _). persist_seal h a
     \<lparr>sm_phase = phase, sm_root = root, sm_manifest_json = manifest, sm_manifest_sha256 = digest,
      sm_producer_kind = CONTROLLER_RUNNER, sm_producer_ref = ho_controller_id h, sm_approval_id = None\<rparr>)"

definition evaluator_result_schema :: pyval where
  "evaluator_result_schema =
    (let texts = (\<lambda>xs. PList (map PStr xs)); typed = (\<lambda>t. pdict [(''type'', PStr t)]) in
     pdict [(''type'', PStr ''object''),
      (''properties'', pdict
        [(''verdict'', pdict [(''type'', PStr ''string''), (''enum'', texts [''PASS'', ''REWORK_REQUIRED'',
            ''DESIGN_REVIEW_REQUIRED'', ''BLOCKED_ENVIRONMENT'', ''BLOCKED_EVIDENCE''])]),
         (''attempts'', pdict [(''type'', PStr ''array''), (''items'', pdict
            [(''type'', PStr ''object''),
             (''properties'', pdict
               [(''kind'', pdict [(''type'', PStr ''string''),
                   (''enum'', texts [''SOURCE'', ''GIT_CONTROL'', ''OUTSIDE_SENTINEL''])]),
                (''attempted'', typed ''boolean''), (''succeeded'', typed ''boolean''),
                (''detail'', typed ''string'')]),
             (''required'', texts [''kind'', ''attempted'', ''succeeded'', ''detail'']),
             (''additionalProperties'', PBool False)])]),
         (''summary'', typed ''string'')]),
      (''required'', texts [''verdict'', ''attempts'', ''summary'']), (''additionalProperties'', PBool False)])"

text \<open>
  What the evaluator is about to read is written out and sealed. A file that cannot be written is
  \<open>EVALUATOR_PRE_SEAL_FILESYSTEM_FAILURE\<close>.
\<close>

definition pre_seal_files :: "host \<Rightarrow> string \<Rightarrow> invocation \<Rightarrow> string \<Rightarrow> (string \<times> string \<times> artifact_entry list) act" where
  "pre_seal_files h a v root =
    (let pre = join_path root ''.adcp-pre''; file = join_path pre in
     andthen (write_file h pre) (\<lambda>_.
     andthen (look h (\<lambda>_. get_attempt a)) (\<lambda>t.
     andthen (look h (\<lambda>_. get_context (at_context_id t))) (\<lambda>_.
     andthen (write_file h (file ''context-snapshot.json'')) (\<lambda>_.
     andthen (write_file h (file ''prompt.txt'')) (\<lambda>_.
     andthen (lift (canonical_json (iv_output_schema v))) (\<lambda>_.
     andthen (write_file h (file ''output-schema.json'')) (\<lambda>_.
     look h (\<lambda>c _. collect_manifest (ho_sha h) (world c) root
       [(''context_snapshot'', file ''context-snapshot.json''), (''prompt'', file ''prompt.txt''),
        (''output_schema'', file ''output-schema.json'')])))))))))"

definition create_pre_execution_seal :: "host \<Rightarrow> string \<Rightarrow> invocation \<Rightarrow> string \<Rightarrow> seal_row act" where
  "create_pre_execution_seal h a v root =
    andthen (rescue (pre_seal_files h a v root) (\<lambda>e. case e of
        Raised (SealError code) \<Rightarrow> refuse code
      | Raised (PythonError name) \<Rightarrow>
          if name \<in> {''OSError'', ''FileNotFoundError''} then refuse ''EVALUATOR_PRE_SEAL_FILESYSTEM_FAILURE'' else abort e
      | _ \<Rightarrow> abort e)) (runner_seal h a PRE_EXECUTION root)"

definition create_post_execution_seal :: "host \<Rightarrow> string \<Rightarrow> run_result \<Rightarrow> string \<Rightarrow> seal_row act" where
  "create_post_execution_seal h a result root =
    (let z = rr_artifacts result in
     andthen (seal_as_controller
       (andthen (look h (\<lambda>c _. post_execution_roles (world c) root (fst (as_stdout z)) (fst (as_stderr z))
           (fst (as_result z)) (fst (as_metadata z)))) (\<lambda>roles.
        look h (\<lambda>c _. collect_manifest (ho_sha h) (world c) root roles))))
     (runner_seal h a POST_EXECUTION root))"

text \<open>The directory of \<open>Path(value).expanduser().absolute()\<close>.\<close>

definition parent_directory :: "os_world \<Rightarrow> string \<Rightarrow> string result" where
  "parent_directory w p = bnd (expanduser w (path_of p)) (\<lambda>q.
     let full = path_of (absolute_text w (path_text q)) in Inr (path_text (full\<lparr>parts := butlast (parts full)\<rparr>)))"

definition legacy_root :: "host \<Rightarrow> string list \<Rightarrow> string act" where
  "legacy_root h files =
    andthen (look h (\<lambda>c _. seq_results (map (parent_directory (world c)) files))) (\<lambda>roots.
    case remdups roots of [root] \<Rightarrow> reply root | _ \<Rightarrow> refuse ''EVALUATOR_LEGACY_EVIDENCE_ROOT_AMBIGUOUS'')"

definition attest_legacy_evaluator_artifacts :: "host \<Rightarrow> string \<Rightarrow> string \<Rightarrow> string \<Rightarrow> seal_row act" where
  "attest_legacy_evaluator_artifacts h a approval producer =
    (if approval = [] \<or> producer = [] then refuse ''LEGACY_ATTESTATION_APPROVAL_REQUIRED''
     else andthen (look h (\<lambda>_. get_attempt a)) (\<lambda>t.
       if at_role t \<noteq> Evaluator \<or> at_status t \<noteq> SUCCEEDED then refuse ''EVALUATOR_LEGACY_ATTESTATION_ATTEMPT_INVALID''
       else case (at_stdout_artifact t, at_stderr_artifact t, at_result_artifact t) of
         (Some out, Some err, Some res) \<Rightarrow>
           if [] \<in> {out, err, res} then refuse ''EVALUATOR_LEGACY_ARTIFACT_MISSING''
           else andthen (legacy_root h [out, err, res]) (\<lambda>root.
             andthen (seal_as_controller
               (andthen (look h (\<lambda>c _. legacy_attestation_roles (world c) root out err res)) (\<lambda>roles.
                look h (\<lambda>c _. collect_manifest (ho_sha h) (world c) root roles)))) (\<lambda>(manifest, digest, _).
             persist_seal h a \<lparr>sm_phase = LEGACY_ATTESTED, sm_root = root, sm_manifest_json = manifest,
               sm_manifest_sha256 = digest, sm_producer_kind = LEGACY_HUMAN_ATTESTATION,
               sm_producer_ref = producer, sm_approval_id = Some approval\<rparr>))
       | _ \<Rightarrow> refuse ''EVALUATOR_LEGACY_ARTIFACT_MISSING''))"

section \<open>complete_evaluator\<close>

definition bundle_of :: "artifact_set \<Rightarrow> artifact_bundle" where
  "bundle_of z = \<lparr>bu_result_artifact = fst (as_result z), bu_result_sha256 = snd (as_result z),
     bu_stdout_artifact = fst (as_stdout z), bu_stdout_sha256 = snd (as_stdout z),
     bu_stderr_artifact = fst (as_stderr z), bu_stderr_sha256 = snd (as_stderr z)\<rparr>"

definition evaluation_record_for ::
  "host \<Rightarrow> execution_row \<Rightarrow> attempt_row \<Rightarrow> string \<Rightarrow> pyval \<Rightarrow> string \<Rightarrow> evaluation_record act" where
  "evaluation_record_for h r t verdict result ended =
    andthen (lift (evaluation_result_identity (ho_sha h) (at_id t))) (\<lambda>(evaluation_id, key).
    andthen (known_commit r) (\<lambda>commit.
    lift (build_evaluation_result
      \<lparr>er_id = evaluation_id, er_operation_key = key, er_execution_id = ex_id r, er_attempt_id = at_id t,
       er_context_id = at_context_id t, er_result_commit = commit,
       er_contract_fingerprint = ex_contract_fingerprint r,
       er_authority_fingerprint = ex_authority_fingerprint r, er_verdict = verdict, er_result_json = [],
       er_started_at = at_started_at t, er_ended_at = ended\<rparr> result)))"

definition runner_agrees :: "run_result option \<Rightarrow> evaluation_record \<Rightarrow> unit act" where
  "runner_agrees result v = (case result of None \<Rightarrow> reply ()
     | Some z \<Rightarrow>
         if rr_exit_code z \<noteq> 0 \<or> rr_timed_out z then refuse ''EVALUATOR_RUNNER_RESULT_MISMATCH''
         else andthen (lift (canonical_json (json_to_py (JObj (rr_structured z))))) (\<lambda>text.
           if text \<noteq> er_result_json (vl_row v) then refuse ''EVALUATOR_RUNNER_RESULT_MISMATCH'' else reply ()))"

text \<open>The seal and the record, checked against the stored evidence before anything is written.\<close>

definition sealed_record_ok ::
  "host \<Rightarrow> string \<Rightarrow> string \<Rightarrow> evaluation_record \<Rightarrow> artifact_bundle option \<Rightarrow> unit act" where
  "sealed_record_ok h a seal v bundle = as_controller
    (andthen (look h (\<lambda>c. verify_seal c seal (Some a) True)) (\<lambda>(s, _).
     if zc_phase (zr_fields s) \<noteq> POST_EXECUTION
     then abort (Raised (StoreError ''EVALUATOR_POST_EXECUTION_SEAL_REQUIRED''))
     else look h (\<lambda>c. validate_evaluation_completion c v (Some seal) bundle [RUNNING, SUCCEEDED])))"

definition register_evaluation_of :: "host \<Rightarrow> execution_row \<Rightarrow> evaluation_record \<Rightarrow> evaluation_row act" where
  "register_evaluation_of h r v =
    (let q = \<lparr>vq_record = Some v, vq_keywords = No_keywords, vq_owner = Some (ho_controller_id h),
       vq_generation = Some (ex_lease_generation r), vq_required_state = Some EVALUATING\<rparr> in
     ask h (RegisterEvaluation q) (\<lambda>c d. fst (register_evaluation_result c q d)))"

definition approval_ref :: "host \<Rightarrow> execution_row \<Rightarrow> int \<Rightarrow> evaluation_row \<Rightarrow> string act" where
  "approval_ref h r version e = digest_of h
    [(''execution_id'', PStr (ex_id r)), (''state_version'', PInt version),
     (''result_commit'', py_opt (ex_result_commit r)), (''evaluation_id'', PStr (er_id e)),
     (''contract_fingerprint'', PStr (ex_contract_fingerprint r)),
     (''authority_fingerprint'', PStr (ex_authority_fingerprint r))]"

definition request_acceptance ::
  "host \<Rightarrow> string \<Rightarrow> string \<Rightarrow> string \<Rightarrow> execution_row \<Rightarrow> approval_row act" where
  "request_acceptance h a ref i waiting =
    andthen (key_for h ''approval-request'' [(''approval_id'', PStr a)]) (\<lambda>key.
    let q = \<lparr>pq_approval_id = a, pq_idempotency_key = key, pq_execution_id = i,
      pq_approval_type = ''DEVELOPMENT_ACCEPTANCE'', pq_authority_ref = ref,
      pq_expected_version = ex_state_version waiting, pq_owner = ho_controller_id h,
      pq_generation = ex_lease_generation waiting, pq_fence = None\<rparr> in
    ask h (RequestApproval q) (\<lambda>c d. fst (request_approval c q d)))"

definition wait_for_approval :: "host \<Rightarrow> string \<Rightarrow> execution_row \<Rightarrow> evaluation_row \<Rightarrow> approval_binding act" where
  "wait_for_approval h i r e =
    andthen (move h i WAITING_APPROVAL ''HUMAN_APPROVAL_REQUIRED'' (no_options\<lparr>to_resume := Some EVALUATING\<rparr>)) (\<lambda>waiting.
    andthen (approval_ref h r (ex_state_version waiting) e) (\<lambda>ref.
    andthen (fresh h) (\<lambda>hex. let a = ''approval-'' @ hex in
    andthen (request_acceptance h a ref i waiting) (\<lambda>_.
    reply \<lparr>ab_approval_id = a, ab_authority_ref = ref\<rparr>))))"

text \<open>Where a verdict other than \<open>PASS\<close> leads.\<close>

definition after_evaluation :: "host \<Rightarrow> string \<Rightarrow> execution_row \<Rightarrow> string \<Rightarrow> unit act" where
  "after_evaluation h i r verdict =
    (let blocked = (\<lambda>code. no_options\<lparr>to_blocker := Some code\<rparr>); done_with = (\<lambda>m. andthen m (\<lambda>_. reply ())) in
     if verdict = ''REWORK_REQUIRED'' then
       (if ex_max_auto_reworks r \<le> ex_maker_rework_count r
        then done_with (move h i DESIGN_ESCALATION ''REWORK_BUDGET_EXHAUSTED'' (blocked ''REWORK_BUDGET_EXHAUSTED''))
        else done_with (move h i REWORK_READY ''REWORK_REQUIRED'' no_options))
     else if verdict = ''DESIGN_REVIEW_REQUIRED''
     then done_with (move h i DESIGN_ESCALATION ''DESIGN_REVIEW_REQUIRED'' (blocked ''DESIGN_REVIEW_REQUIRED''))
     else if verdict \<in> {''BLOCKED_ENVIRONMENT'', ''BLOCKED_EVIDENCE''}
     then done_with (move h i BLOCKED verdict ((blocked verdict)\<lparr>to_resume := Some EVALUATING\<rparr>))
     else reply ())"

definition finish_evaluator ::
  "host \<Rightarrow> execution_row \<Rightarrow> string \<Rightarrow> string \<Rightarrow> string \<Rightarrow> artifact_set option \<Rightarrow> attempt_row act" where
  "finish_evaluator h r a seal ended artifacts = finish_attempt h
    ((finish_of a ''SUCCEEDED'' ended artifacts)\<lparr>qf_result_commit := ex_result_commit r, qf_exit_code := Some 0,
      qf_seal_id := Some seal, qf_owner := Some (ho_controller_id h),
      qf_generation := Some (ex_lease_generation r), qf_required_state := Some EVALUATING\<rparr>)"

record completion =
  co_verdict :: string
  co_result :: pyval
  co_seal_id :: "string option"
  co_approval_required :: bool
  co_run :: "run_result option"

definition completion_record :: "host \<Rightarrow> attempt_row \<Rightarrow> execution_row \<Rightarrow> completion \<Rightarrow> (string \<times> evaluation_record) act" where
  "completion_record h t r z =
    andthen (case at_ended_at t of
        Some e \<Rightarrow> if e = [] then andthen (now h) (\<lambda>n. reply (iso_text n)) else reply e
      | None \<Rightarrow> andthen (now h) (\<lambda>n. reply (iso_text n))) (\<lambda>ended.
    andthen (evaluation_record_for h r t (co_verdict z) (co_result z) ended) (\<lambda>v. reply (ended, v)))"

definition complete_evaluator :: "host \<Rightarrow> string \<Rightarrow> completion \<Rightarrow> approval_binding option act" where
  "complete_evaluator h a z =
    andthen (look h (\<lambda>_. get_attempt a)) (\<lambda>t.
    let i = at_execution_id t; artifacts = map_option rr_artifacts (co_run z) in
    andthen (read_execution h i) (\<lambda>r.
    if ex_state r \<noteq> EVALUATING then refuse ''EVALUATOR_COMPLETION_STATE_INVALID''
    else if at_role t \<noteq> Evaluator \<or> at_status t \<notin> {RUNNING, SUCCEEDED} \<or> at_result_commit t \<noteq> ex_result_commit r
    then refuse ''EVALUATOR_COMPLETION_ATTEMPT_INVALID''
    else andthen (completion_record h t r z) (\<lambda>(ended, v).
      case co_seal_id z of
        None \<Rightarrow> refuse ''EVALUATOR_POST_EXECUTION_SEAL_REQUIRED''
      | Some seal \<Rightarrow>
        andthen (runner_agrees (co_run z) v) (\<lambda>_.
        andthen (sealed_record_ok h a seal v (map_option bundle_of artifacts)) (\<lambda>_.
        andthen (look h (\<lambda>c _. require_fence r (ho_controller_id h) (ex_lease_generation r) (clock c 1))) (\<lambda>_.
        andthen (finish_evaluator h r a seal ended artifacts) (\<lambda>_.
        andthen (register_evaluation_of h r v) (\<lambda>e.
        if co_verdict z = ''PASS'' then
          (if \<not> co_approval_required z then reply None
           else andthen (wait_for_approval h i r e) (\<lambda>b. reply (Some b)))
        else andthen (after_evaluation h i r (co_verdict z)) (\<lambda>_. reply None)))))))))"

definition fail_evaluator :: "host \<Rightarrow> string \<Rightarrow> string \<Rightarrow> artifact_set option \<Rightarrow> unit act" where
  "fail_evaluator h a code artifacts =
    andthen (look h (\<lambda>_. get_attempt a)) (\<lambda>t.
    andthen (now h) (\<lambda>n.
    andthen (finish_attempt h ((finish_of a ''FAILED'' (iso_text n) artifacts)
      \<lparr>qf_failure_code := Some code, qf_result_commit := at_result_commit t\<rparr>)) (\<lambda>_.
    andthen (move h (at_execution_id t) BLOCKED ''EVALUATOR_INFRASTRUCTURE_FAILURE''
      \<lparr>to_resume = Some EVALUATING, to_blocker = Some code, to_detail = None, to_fence = None\<rparr>) (\<lambda>_.
    reply ()))))"

section \<open>run_evaluator\<close>

record evaluator_settings =
  es_binary :: string
  es_directory :: string
  es_model :: "string option"
  es_effort :: "string option"
  es_timeout :: int
  es_approval_required :: bool

definition evaluator_invocation :: "worktree \<Rightarrow> capsule \<Rightarrow> evaluator_settings \<Rightarrow> string \<Rightarrow> invocation" where
  "evaluator_invocation w k z directory =
    \<lparr>iv_workspace = wt_path w, iv_prompt = capsule_json k, iv_output_schema = evaluator_result_schema,
     iv_artifact_directory = directory, iv_sandbox = ''read-only'', iv_binary = es_binary z,
     iv_model = es_model z, iv_reasoning_effort = es_effort z, iv_timeout_seconds = es_timeout z,
     iv_ignore_user_config = True\<rparr>"

text \<open>The sealed run; a runner that fails carries its artifacts to the handler.\<close>

definition sealed_run :: "host \<Rightarrow> string \<Rightarrow> invocation \<Rightarrow> string \<Rightarrow> (run_result \<times> seal_row) act" where
  "sealed_run h a v root =
    andthen (create_pre_execution_seal h a v root) (\<lambda>_.
    andthen (run_agent h v) (\<lambda>outcome. case outcome of
      Ran result \<Rightarrow> andthen (create_post_execution_seal h a result root) (\<lambda>post. reply (result, post))
    | Run_failed code artifacts \<Rightarrow> andthen (fail_evaluator h a code artifacts) (\<lambda>_. abort (RunFailure code))))"

definition starts_with :: "string \<Rightarrow> string \<Rightarrow> bool" where
  "starts_with prefix s \<longleftrightarrow> take (length prefix) s = prefix"

definition sealed_run_failed :: "host \<Rightarrow> string \<Rightarrow> controller_error \<Rightarrow> 'a act" where
  "sealed_run_failed h a e =
    (case e of
       ControllerError code \<Rightarrow>
         andthen (look h (\<lambda>_. get_attempt a)) (\<lambda>t.
         andthen (if at_status t = RUNNING
            then fail_evaluator h a (if starts_with ''EVALUATOR_'' code then ''BLOCKED_EVIDENCE'' else code) None
            else reply ()) (\<lambda>_. abort e))
     | _ \<Rightarrow> abort e)"

definition evaluator_directory :: "host \<Rightarrow> string \<Rightarrow> string \<Rightarrow> string act" where
  "evaluator_directory h a base =
    (let root = join_path base a in
     andthen (rescue (write_file h root) (\<lambda>_.
       andthen (fail_evaluator h a ''EVALUATOR_EVIDENCE_ROOT_CREATE_FAILED'' None) (\<lambda>_.
       refuse ''EVALUATOR_EVIDENCE_ROOT_CREATE_FAILED''))) (\<lambda>_. reply root))"

definition run_evaluator :: "host \<Rightarrow> string \<Rightarrow> worktree \<Rightarrow> capsule \<Rightarrow> evaluator_settings \<Rightarrow> approval_binding option act" where
  "run_evaluator h i w k z =
    andthen (read_execution h i) (\<lambda>r.
    if wt_execution_id w \<noteq> i then refuse ''WORKTREE_EXECUTION_MISMATCH''
    else andthen (validate_artifact_directory h (es_directory z) w) (\<lambda>base.
      andthen (git_line h (wt_path w) [''rev-parse'', ''HEAD'']) (\<lambda>head.
      if Some head \<noteq> ex_result_commit r then refuse ''EVALUATOR_RESULT_COMMIT_MISMATCH''
      else andthen (begin_evaluator h i k (es_model z) (es_effort z)) (\<lambda>a.
        andthen (evaluator_directory h a base) (\<lambda>root.
        andthen (rescue (sealed_run h a (evaluator_invocation w k z root) root) (sealed_run_failed h a)) (\<lambda>(result, post).
        case map_of (rr_structured result) ''verdict'' of
          None \<Rightarrow> abort (Raised (PythonError ''KeyError''))
        | Some verdict \<Rightarrow> complete_evaluator h a
            \<lparr>co_verdict = (case verdict of JStr s \<Rightarrow> s | _ \<Rightarrow> []), co_result = json_to_py (JObj (rr_structured result)),
             co_seal_id = Some (zr_id post), co_approval_required = es_approval_required z,
             co_run = Some result\<rparr>))))))"

section \<open>Approval and acceptance\<close>

definition controller_resolve_approval :: "host \<Rightarrow> string \<Rightarrow> approval_binding \<Rightarrow> bool \<Rightarrow> approval_row act" where
  "controller_resolve_approval h i b approved =
    andthen (read_execution h i) (\<lambda>r.
    andthen (ask h (ResolveApproval (ab_approval_id b) i (ab_authority_ref b) approved None)
      (\<lambda>c d. fst (resolve_approval c (ab_approval_id b) i (ab_authority_ref b) approved None d))) (\<lambda>p.
    andthen (if ex_state r \<noteq> WAITING_APPROVAL then reply ()
       else if approved then andthen (move h i EVALUATING ''APPROVAL_RECORDED'' no_options) (\<lambda>_. reply ())
       else andthen (move h i DESIGN_ESCALATION ''APPROVAL_REJECTED''
           (no_options\<lparr>to_blocker := Some ''APPROVAL_REJECTED''\<rparr>)) (\<lambda>_. reply ())) (\<lambda>_.
    reply p)))"

definition successful_maker :: "string \<Rightarrow> string \<Rightarrow> db \<Rightarrow> attempt_row option" where
  "successful_maker i commit d =
    foldl (\<lambda>best a. case best of None \<Rightarrow> Some a
        | Some b \<Rightarrow> if at_attempt_no b < at_attempt_no a then Some a else Some b) None
      (filter (\<lambda>a. at_execution_id a = i \<and> at_role a = Maker \<and> at_status a = SUCCEEDED
         \<and> at_result_commit a = Some commit) (attempts d))"

definition context_evidence :: "host \<Rightarrow> string \<Rightarrow> pyval act" where
  "context_evidence h x = andthen (look h (\<lambda>_. get_context x)) (\<lambda>k.
     reply (pdict [(''role'', PStr (capsule_role_value (cx_role k))), (''context_snapshot_id'', PStr x),
       (''fingerprint'', PStr (cx_fingerprint k))]))"

definition approval_evidence :: "host \<Rightarrow> approval_binding option \<Rightarrow> pyval list act" where
  "approval_evidence h approval = (case approval of None \<Rightarrow> reply []
     | Some b \<Rightarrow> andthen (look h (\<lambda>_. get_approval (ab_approval_id b))) (\<lambda>p.
         reply [pdict [(''approval_id'', PStr (ab_approval_id b)), (''authority_ref'', PStr (ab_authority_ref b)),
           (''status'', PStr (approval_status_text (ap_status p)))]]))"

text \<open>The stored rows an acceptance rests on.\<close>

record acceptance_evidence =
  av_verification :: verification_row
  av_evaluation :: evaluation_row
  av_evaluator :: attempt_row
  av_maker :: attempt_row

definition gather_evidence :: "host \<Rightarrow> execution_row \<Rightarrow> string \<Rightarrow> acceptance_evidence act" where
  "gather_evidence h r commit =
    andthen (look h (\<lambda>_. find_verification_pass (ex_id r) commit (ex_contract_fingerprint r)
      (ex_authority_fingerprint r))) (\<lambda>verification.
    andthen (look h (\<lambda>_ d. Inr (find_evaluation_pass (ex_id r) commit (ex_contract_fingerprint r)
      (ex_authority_fingerprint r) d))) (\<lambda>evaluation.
    case (verification, evaluation) of
      (Some v, Some e) \<Rightarrow>
        andthen (look h (\<lambda>_. get_attempt (er_attempt_id e))) (\<lambda>evaluator.
        andthen (look h (\<lambda>_ d. Inr (successful_maker (ex_id r) commit d))) (\<lambda>found. case found of
          None \<Rightarrow> refuse ''MAKER_EVIDENCE_REQUIRED''
        | Some m \<Rightarrow> reply \<lparr>av_verification = v, av_evaluation = e, av_evaluator = evaluator, av_maker = m\<rparr>))
    | _ \<Rightarrow> refuse ''ACCEPTANCE_EVIDENCE_REQUIRED''))"

definition manifest_arguments ::
  "execution_row \<Rightarrow> string \<Rightarrow> acceptance_evidence \<Rightarrow> pyval list \<Rightarrow> pyval list \<Rightarrow> pyval list \<Rightarrow> string \<Rightarrow> string
     \<Rightarrow> evidence_arguments" where
  "manifest_arguments r commit v refs ctxs evs created manifest_id =
    \<lparr>va_manifest_id = manifest_id, va_execution_id = ex_id r, va_slice_id = ex_slice_id r,
     va_contract_fingerprint = ex_contract_fingerprint r, va_authority_fingerprint = ex_authority_fingerprint r,
     va_base_commit = ex_base_commit r, va_result_commit = commit,
     va_maker_attempt = pdict [(''attempt_id'', PStr (at_id (av_maker v))),
       (''status'', PStr (status_value (at_status (av_maker v))))],
     va_verification = pdict [(''verification_id'', PStr (vr_id (av_verification v))),
       (''verdict'', PStr (vr_verdict (av_verification v)))],
     va_evaluator_attempt = pdict [(''attempt_id'', PStr (at_id (av_evaluator v))),
       (''status'', PStr (status_value (at_status (av_evaluator v))))],
     va_evaluation = pdict [(''evaluation_id'', PStr (er_id (av_evaluation v))),
       (''verdict'', PStr (er_verdict (av_evaluation v)))],
     va_approval_refs = refs, va_contexts = ctxs, va_transitions = evs, va_created_at = created\<rparr>"

definition controller_accept :: "host \<Rightarrow> string \<Rightarrow> approval_binding option \<Rightarrow> execution_row act" where
  "controller_accept h i approval =
    andthen (read_execution h i) (\<lambda>r.
    if ex_state r = ACCEPTED then reply r
    else if ex_state r \<noteq> EVALUATING then refuse ''ACCEPTANCE_STATE_INVALID''
    else andthen (known_commit r) (\<lambda>commit.
      andthen (gather_evidence h r commit) (\<lambda>v.
      andthen (collect (context_evidence h) [at_context_id (av_maker v), at_context_id (av_evaluator v)]) (\<lambda>ctxs.
      andthen (look h (\<lambda>_ d. Inr (events_of i d))) (\<lambda>evs.
      andthen (approval_evidence h approval) (\<lambda>refs.
      andthen (now h) (\<lambda>t.
      andthen (fresh h) (\<lambda>hex.
      andthen (lift (build_evidence_manifest (ho_sha h) (manifest_arguments r commit v refs ctxs
        (map (\<lambda>e. json_to_py (event_evidence e)) evs) (iso_text t) (''manifest-'' @ hex)))) (\<lambda>manifest.
      andthen (key_for h ''accept-execution'' [(''execution_id'', PStr i), (''result_commit'', PStr commit)]) (\<lambda>key.
      let q = \<lparr>kq_execution_id = i, kq_expected_version = ex_state_version r, kq_operation_key = key,
        kq_manifest = manifest, kq_owner = ho_controller_id h, kq_generation = ex_lease_generation r,
        kq_approval_id = map_option ab_approval_id approval,
        kq_approval_authority_ref = map_option ab_authority_ref approval, kq_actor_id = ho_controller_id h\<rparr> in
      ask h (AcceptExecution q) (\<lambda>c d. fst (accept_execution c q d))))))))))))"

text \<open>
  \<open>advance\<close>: at most \<open>limit\<close> rounds, each of which needs an approved and unused approval (the
  latest requested).
\<close>

definition open_approval :: "string \<Rightarrow> db \<Rightarrow> approval_row option" where
  "open_approval i d =
    foldl (\<lambda>best p. case best of None \<Rightarrow> Some p
        | Some b \<Rightarrow> if ap_requested_at b < ap_requested_at p then Some p else Some b) None
      (filter (\<lambda>p. ap_execution_id p = i \<and> ap_status p = APPROVED \<and> ap_consumed_at p = None) (approvals d))"

fun advance_rounds :: "host \<Rightarrow> string \<Rightarrow> nat \<Rightarrow> execution_row \<Rightarrow> execution_row act" where
  "advance_rounds h i 0 r = reply r"
| "advance_rounds h i (Suc n) r =
    (if ex_state r \<notin> {WAITING_APPROVAL, EVALUATING} then reply r
     else andthen (look h (\<lambda>_ d. Inr (open_approval i d))) (\<lambda>found. case found of
       None \<Rightarrow> reply r
     | Some p \<Rightarrow>
         andthen (if ex_state r = WAITING_APPROVAL
            then andthen (move h i EVALUATING ''APPROVAL_RECORDED'' no_options) (\<lambda>_. reply ()) else reply ()) (\<lambda>_.
         andthen (controller_accept h i (Some \<lparr>ab_approval_id = ap_id p, ab_authority_ref = ap_authority_ref p\<rparr>))
           (advance_rounds h i n))))"

definition advance :: "host \<Rightarrow> string \<Rightarrow> int \<Rightarrow> execution_row act" where
  "advance h i limit =
    (if \<not> (1 \<le> limit \<and> limit \<le> 100) then refuse ''INVALID_ADVANCE_LIMIT''
     else andthen (read_execution h i) (advance_rounds h i (nat limit)))"

end
