(* ===== verification/Controller_Candidate.thy ===== *)
theory Controller_Candidate
  imports Controller_Evaluation
begin

text \<open>
  The controller's part in the life of an uncommitted candidate (\<open>src/adcp/controller.py\<close>): the
  exact serialisation of a worktree's delta, the verification of a commit against it, the two Git
  callbacks of the closure, and the operations that move a candidate through the store under one
  write fence.
\<close>

section \<open>Files and paths of a candidate\<close>

text \<open>\<open>_candidate_path\<close>: a path Git reports, checked as a manifest entry would check it.\<close>

definition candidate_path :: "string \<Rightarrow> string act" where
  "candidate_path raw =
    (if \<not> (utf8_valid raw \<and> surrogate_free raw) then refuse ''INVALID_CANDIDATE_PATH''
     else case validate_manifest_entry \<lparr>operation = ''A'', path = raw, mode = ''100644'', byte_length = Some 0,
         content_sha256 = Some (replicate 64 (CHR ''0'')), base_object_id = None\<rparr> of
       Inl (StoreError code) \<Rightarrow> refuse code
     | Inl e \<Rightarrow> abort (Raised e)
     | Inr _ \<Rightarrow> if starts_with ''.git/'' raw \<or> raw = ''.git'' then refuse ''INVALID_CANDIDATE_PATH'' else reply raw)"

definition is_link :: "file_answer \<Rightarrow> bool" where
  "is_link f = (case f of Link_to _ \<Rightarrow> True | _ \<Rightarrow> False)"

fun no_links :: "host \<Rightarrow> string \<Rightarrow> string list \<Rightarrow> unit act" where
  "no_links h target [] = reply ()"
| "no_links h target (name # names) =
    (let below = join_path target name in
     andthen (stat h below) (\<lambda>f. if is_link f then refuse ''CANDIDATE_PATH_ESCAPE'' else no_links h below names))"

definition candidate_file :: "host \<Rightarrow> string \<Rightarrow> string \<Rightarrow> string act" where
  "candidate_file h repo p =
    andthen (candidate_path p) (\<lambda>_.
    andthen (no_links h repo (butlast (parts (path_of p)))) (\<lambda>_. reply (join_path repo p)))"

definition present :: "host \<Rightarrow> string \<Rightarrow> bool act" where
  "present h p = andthen (exists h p) (\<lambda>there.
     if there then reply True else andthen (stat h p) (\<lambda>f. reply (is_link f)))"

text \<open>\<open>_worktree_bytes\<close>: mode and content; the content of a link is its target.\<close>

definition worktree_bytes :: "host \<Rightarrow> string \<Rightarrow> (string \<times> string) act" where
  "worktree_bytes h p = andthen (stat h p) (\<lambda>f. case f of
      Link_to target \<Rightarrow> reply (''120000'', target)
    | Regular executable content \<Rightarrow> reply (if executable then ''100755'' else ''100644'', content)
    | Other_file \<Rightarrow> refuse ''INVALID_CANDIDATE_FILE_TYPE''
    | Missing \<Rightarrow> refuse ''CANDIDATE_MATERIALIZATION_FAILED'')"

section \<open>The serialisation\<close>

text \<open>\<open>struct.pack(">Q", n)\<close>, and a length-prefixed section of the aggregate.\<close>

definition be64 :: "nat \<Rightarrow> string" where
  "be64 n = map (\<lambda>k. char_of (n div 256 ^ k mod 256)) [7, 6, 5, 4, 3, 2, 1, 0]"

definition framed :: "string \<Rightarrow> string \<Rightarrow> string" where
  "framed tag s = tag @ [CHR 0x00] @ be64 (length s) @ s"

definition aggregate :: "string \<Rightarrow> (string \<times> string) list \<Rightarrow> string" where
  "aggregate base contents = ''ADCP_INTEGRATED_CANDIDATE_V1'' @ [CHR 0x00] @ framed ''BASE_HEAD'' base
     @ concat (map (\<lambda>(p, content). framed ''PATH'' p @ framed ''CONTENT'' content) contents)"

fun json_int_opt :: "int option \<Rightarrow> json" where
  "json_int_opt None = JNull"
| "json_int_opt (Some i) = JInt i"

definition manifest_entry_json :: "manifest_entry \<Rightarrow> json" where
  "manifest_entry_json e = JObj [(''operation'', JStr (operation e)), (''path'', JStr (path e)),
     (''mode'', JStr (mode e)), (''byte_length'', json_int_opt (byte_length e)),
     (''content_sha256'', json_opt (content_sha256 e)), (''base_object_id'', json_opt (base_object_id e))]"

definition before_tab :: "string \<Rightarrow> string" where
  "before_tab s = takeWhile (\<lambda>c. c \<noteq> CHR 0x09) s"

text \<open>\<open>bytes.split()\<close>: the words between ASCII white space.\<close>

fun words :: "string \<Rightarrow> string list" where
  "words [] = []"
| "words (c # s) =
    (if ascii_space c then words s
     else case words s of
       [] \<Rightarrow> [[c]]
     | w # ws \<Rightarrow> (if s = [] \<or> ascii_space (hd s) then [c] # w # ws else (c # w) # ws))"

definition base_blob :: "host \<Rightarrow> worktree \<Rightarrow> string \<Rightarrow> (string \<times> string) option act" where
  "base_blob h w p =
    andthen (candidate_git h (wt_path w) [''ls-tree'', ''-z'', wt_base_commit w, ''--'', p] None []) (\<lambda>base.
    if base = [] then reply None
    else case split_on (CHR '' '') (before_tab base) of
      [m, kind, oid] \<Rightarrow> if kind = ''blob'' then reply (Some (m, oid)) else refuse ''INVALID_CANDIDATE_FILE_TYPE''
    | _ \<Rightarrow> refuse ''INVALID_CANDIDATE_FILE_TYPE'')"

definition checked_entry :: "manifest_entry \<Rightarrow> unit act" where
  "checked_entry e = (case validate_manifest_entry e of
     Inl (StoreError code) \<Rightarrow> refuse code | Inl err \<Rightarrow> abort (Raised err) | Inr _ \<Rightarrow> reply ())"

text \<open>One changed path: its entry and the bytes it adds to the aggregate.\<close>

definition materialize_path :: "host \<Rightarrow> worktree \<Rightarrow> string \<Rightarrow> (manifest_entry \<times> string) act" where
  "materialize_path h w raw =
    andthen (candidate_path raw) (\<lambda>p.
    andthen (base_blob h w p) (\<lambda>base.
    andthen (candidate_file h (wt_path w) p) (\<lambda>file.
    andthen (present h file) (\<lambda>there.
    andthen (if there then andthen (worktree_bytes h file) (\<lambda>(m, content).
         reply (\<lparr>operation = (if base = None then ''A'' else ''M''), path = p, mode = m,
           byte_length = Some (int (length content)), content_sha256 = Some (ho_sha h content),
           base_object_id = None\<rparr>, content))
       else case base of None \<Rightarrow> refuse ''CANDIDATE_MATERIALIZATION_FAILED''
         | Some (m, oid) \<Rightarrow> reply (\<lparr>operation = ''D'', path = p, mode = m, byte_length = None,
             content_sha256 = None, base_object_id = Some oid\<rparr>, [])) (\<lambda>(e, content).
    andthen (checked_entry e) (\<lambda>_. reply (e, content)))))))"

definition changed_paths :: "host \<Rightarrow> worktree \<Rightarrow> string list act" where
  "changed_paths h w =
    andthen (candidate_git h (wt_path w) [''diff'', ''--name-only'', ''-z'', wt_base_commit w, ''--''] None []) (\<lambda>tracked.
    andthen (candidate_git h (wt_path w) [''ls-files'', ''--others'', ''--exclude-standard'', ''-z''] None []) (\<lambda>others.
    reply (sort (remdups (filter (\<lambda>p. p \<noteq> []) (split_on (CHR 0x00) tracked @ split_on (CHR 0x00) others))))))"

definition candidate_manifest :: "string \<Rightarrow> string \<Rightarrow> manifest_entry list \<Rightarrow> string \<Rightarrow> json" where
  "candidate_manifest repository parent entries digest = JObj
    [(''serialization_format'', JStr ''ADCP_INTEGRATED_CANDIDATE_V1''), (''serialization_version'', JInt 1),
     (''repository_identity'', JStr repository), (''expected_parent'', JStr parent),
     (''entries'', JList (map manifest_entry_json entries)), (''candidate_content_sha256'', JStr digest)]"

definition content_binding :: "host \<Rightarrow> worktree \<Rightarrow> string \<Rightarrow> (manifest_entry \<times> string) list \<Rightarrow> candidate_binding_row" where
  "content_binding h w repository items =
    (let digest = ho_sha h (aggregate (wt_base_commit w) (map (\<lambda>(e, content). (path e, content)) items));
         text = dumps (candidate_manifest repository (wt_base_commit w) (map fst items) digest) in
     \<lparr>cb_id = ''candidate-'' @ wt_execution_id w @ ''-'' @ ho_sha h text, cb_execution_id = wt_execution_id w,
      cb_serialization_format = ''ADCP_INTEGRATED_CANDIDATE_V1'', cb_serialization_version = 1,
      cb_repository_identity = repository, cb_expected_parent = wt_base_commit w, cb_manifest_json = text,
      cb_manifest_sha256 = ho_sha h text, cb_content_sha256 = digest, cb_created_at = 0\<rparr>)"

definition on_branch :: "host \<Rightarrow> worktree \<Rightarrow> unit act" where
  "on_branch h w =
    andthen (candidate_line h (wt_path w) [''rev-parse'', ''HEAD''] None) (\<lambda>head.
    if head \<noteq> wt_base_commit w then refuse ''CANDIDATE_CHANGED_AFTER_HANDOFF''
    else andthen (git h (wt_path w) (Candidate_git [''symbolic-ref'', ''--short'', ''-q'', ''HEAD''] None [])) (\<lambda>(code, out).
      if code \<noteq> 0 then refuse ''CANDIDATE_CHANGED_AFTER_HANDOFF''
      else andthen (decode out) (\<lambda>branch.
        if strip branch \<noteq> wt_branch w then refuse ''CANDIDATE_CHANGED_AFTER_HANDOFF'' else reply ())))"

definition materialize_uncommitted_candidate :: "host \<Rightarrow> worktree \<Rightarrow> candidate_binding_row act" where
  "materialize_uncommitted_candidate h w =
    andthen (on_branch h w) (\<lambda>_.
    andthen (changed_paths h w) (\<lambda>changed.
    if changed = [] then refuse ''EMPTY_CANDIDATE''
    else andthen (collect (materialize_path h w) changed) (\<lambda>items.
      andthen (resolve_strict h (ho_source_root h)) (\<lambda>repository.
      reply (content_binding h w repository items)))))"

section \<open>verify_committed_candidate\<close>

definition handoff_changed :: "'a act" where
  "handoff_changed = refuse ''CANDIDATE_CHANGED_AFTER_HANDOFF''"

text \<open>\<open>CandidateManifestEntry(**entry)\<close>: the six keys, with values of the declared types.\<close>

fun opt_int_of :: "json \<Rightarrow> int option option" where
  "opt_int_of JNull = Some None"
| "opt_int_of (JInt i) = Some (Some i)"
| "opt_int_of _ = None"

fun opt_text_of :: "json \<Rightarrow> string option option" where
  "opt_text_of JNull = Some None"
| "opt_text_of (JStr s) = Some (Some s)"
| "opt_text_of _ = None"

fun entry_of_json :: "json \<Rightarrow> manifest_entry option" where
  "entry_of_json (JObj kvs) =
    (let found = (\<lambda>k. dict_get kvs k JNull) in
     case (found ''operation'', found ''path'', found ''mode'', opt_int_of (found ''byte_length''),
           opt_text_of (found ''content_sha256''), opt_text_of (found ''base_object_id'')) of
       (JStr op, JStr p, JStr m, Some n, Some x, Some oid) \<Rightarrow>
         if fst ` set kvs \<subseteq> {''operation'', ''path'', ''mode'', ''byte_length'', ''content_sha256'', ''base_object_id''}
         then Some \<lparr>operation = op, path = p, mode = m, byte_length = n, content_sha256 = x, base_object_id = oid\<rparr>
         else None
     | _ \<Rightarrow> None)"
| "entry_of_json _ = None"

definition manifest_entries :: "host \<Rightarrow> candidate_binding_row \<Rightarrow> manifest_entry list act" where
  "manifest_entries h b =
    andthen (lift (parsed_text (cb_manifest_json b))) (\<lambda>manifest.
    andthen (lift (canonical_json (json_to_py manifest))) (\<lambda>text.
    if text \<noteq> cb_manifest_json b \<or> ho_sha h text \<noteq> cb_manifest_sha256 b then handoff_changed
    else case member ''entries'' manifest of
      Some (JList js) \<Rightarrow> (case those (map entry_of_json js) of
          Some entries \<Rightarrow> reply entries | None \<Rightarrow> abort (Raised (PythonError ''TypeError'')))
    | _ \<Rightarrow> abort (Raised (PythonError ''TypeError''))))"

definition tree_entry :: "host \<Rightarrow> string \<Rightarrow> string \<Rightarrow> string \<Rightarrow> (bool \<times> string list) act" where
  "tree_entry h repo commit p =
    andthen (candidate_git h repo [''ls-tree'', ''-z'', commit, ''--'', p] None []) (\<lambda>out.
    reply (out \<noteq> [], words (before_tab out)))"

text \<open>One entry against the two trees; its bytes come back.\<close>

definition committed_content :: "host \<Rightarrow> string \<Rightarrow> manifest_entry \<Rightarrow> string list \<Rightarrow> string act" where
  "committed_content h repo e new = (case new of
      [m, kind, oid] \<Rightarrow>
        if m \<noteq> mode e \<or> kind \<noteq> ''blob'' then handoff_changed
        else andthen (candidate_git h repo [''cat-file'', ''blob'', oid] None []) (\<lambda>content.
          if Some (int (length content)) \<noteq> byte_length e \<or> Some (ho_sha h content) \<noteq> content_sha256 e
          then handoff_changed else reply content)
    | _ \<Rightarrow> handoff_changed)"

definition committed_entry :: "host \<Rightarrow> string \<Rightarrow> string \<Rightarrow> string \<Rightarrow> manifest_entry \<Rightarrow> (string \<times> string) act" where
  "committed_entry h repo parent commit e =
    andthen (lift (validate_manifest_entry e)) (\<lambda>_.
    andthen (candidate_path (path e)) (\<lambda>p.
    andthen (tree_entry h repo parent p) (\<lambda>(before, old).
    andthen (tree_entry h repo commit p) (\<lambda>(after, new).
    if operation e = ''A'' \<and> before \<or> operation e \<in> {''M'', ''D''} \<and> \<not> before then handoff_changed
    else if operation e = ''D'' then
      (if after \<or> old \<noteq> [mode e, ''blob'', the (base_object_id e)] then handoff_changed else reply (p, []))
    else andthen (committed_content h repo e new) (\<lambda>content. reply (p, content))))))"

text \<open>The parent of the commit and the bytes it gives each path of the manifest.\<close>

definition committed_contents ::
  "host \<Rightarrow> string \<Rightarrow> string \<Rightarrow> candidate_binding_row \<Rightarrow> (string \<times> (string \<times> string) list) act" where
  "committed_contents h repo commit b =
    andthen (andthen (candidate_git h repo [''rev-list'', ''--parents'', ''-n'', ''1'', commit] None []) decode) (\<lambda>line.
    case words line of
      [_, parent] \<Rightarrow>
        if parent \<noteq> cb_expected_parent b then handoff_changed
        else andthen (manifest_entries h b) (\<lambda>entries.
          if map path entries \<noteq> sort (remdups (map path entries)) then handoff_changed
          else andthen (candidate_git h repo [''diff-tree'', ''--no-renames'', ''--no-commit-id'', ''--name-only'',
              ''-r'', ''-z'', commit] None []) (\<lambda>out.
            andthen (decode out) (\<lambda>raw.
            if set (filter (\<lambda>p. p \<noteq> []) (split_on (CHR 0x00) raw)) \<noteq> set (map path entries) then handoff_changed
            else andthen (collect (committed_entry h repo parent commit) entries) (\<lambda>contents.
              reply (parent, contents)))))
    | _ \<Rightarrow> handoff_changed)"

definition verify_committed_candidate :: "host \<Rightarrow> string \<Rightarrow> string \<Rightarrow> candidate_binding_row \<Rightarrow> unit act" where
  "verify_committed_candidate h repo commit b =
    andthen (committed_contents h repo commit b) (\<lambda>(parent, contents).
    if ho_sha h (aggregate parent contents) \<noteq> cb_content_sha256 b then handoff_changed else reply ())"

end
