(* ===== verification/Controller_Closure.thy ===== *)
theory Controller_Closure
  imports Controller_Candidate
begin

text \<open>
  The operations of the controller on a candidate under its write fence, up to the closure
  (\<open>src/adcp/controller.py\<close>). The two callbacks of the store run inside its transaction: they see
  no other client and write nothing to the store, and they run only when the store asks.
\<close>

section \<open>The fence of a caller\<close>

definition recall :: "string \<Rightarrow> authorization option act" where
  "recall i s = (Inr (mc_authorizations s i), s)"

definition check_fence :: "host \<Rightarrow> string \<Rightarrow> candidate_fence \<Rightarrow> unit act" where
  "check_fence h i f = andthen (look h (\<lambda>c. require_candidate_fence c 1 i f True)) (\<lambda>_. reply ())"

definition current_fence :: "host \<Rightarrow> string \<Rightarrow> candidate_fence act" where
  "current_fence h i =
    andthen (recall i) (\<lambda>known. case known of
      None \<Rightarrow> refuse ''CANDIDATE_CALLER_ACQUISITION_REQUIRED''
    | Some (generation, auth_generation, contract, auth) \<Rightarrow>
        andthen (read_execution h i) (\<lambda>r.
        let f = \<lparr>cf_execution_id = i, cf_expected_version = ex_state_version r, cf_owner = ho_controller_id h,
          cf_generation = generation, cf_authority_generation = auth_generation,
          cf_contract_fingerprint = contract, cf_authority_fingerprint = auth\<rparr> in
        andthen (check_fence h i f) (\<lambda>_. reply f)))"

definition move_candidate ::
  "host \<Rightarrow> string \<Rightarrow> exec_state \<Rightarrow> string \<Rightarrow> candidate_fence option \<Rightarrow> transition_options \<Rightarrow> execution_row act" where
  "move_candidate h i to reason fence opts =
    andthen (case fence of Some f \<Rightarrow> reply f | None \<Rightarrow> current_fence h i) (\<lambda>f.
    move h i to reason (opts\<lparr>to_fence := Some f\<rparr>))"

definition materialize_bound :: "host \<Rightarrow> worktree \<Rightarrow> candidate_binding_row \<Rightarrow> unit act" where
  "materialize_bound h w stored =
    andthen (materialize_uncommitted_candidate h w) (\<lambda>observed.
    if same_dimensions stored observed \<and> cb_content_sha256 stored = cb_content_sha256 observed
    then reply () else handoff_changed)"

section \<open>Handing off and verifying a candidate\<close>

definition complete_maker_precommit :: "host \<Rightarrow> maker_run \<Rightarrow> run_result option \<Rightarrow> candidate_binding_row act" where
  "complete_maker_precommit h m result =
    (let w = mr_candidate m; i = wt_execution_id w in
     andthen (current_fence h i) (\<lambda>f.
     if (case result of None \<Rightarrow> False | Some z \<Rightarrow> rr_exit_code z \<noteq> 0 \<or> rr_timed_out z)
     then refuse ''MAKER_RUNTIME_FAILURE''
     else andthen (read_execution h i) (\<lambda>r.
       if ex_state r \<noteq> MAKER_RUNNING \<or> ex_result_commit r \<noteq> None then refuse ''MAKER_COMPLETION_STATE_INVALID''
       else andthen (fingerprint h w) (\<lambda>after.
         if \<not> maker_boundary_kept (mr_before m) after then refuse ''MAKER_GIT_POLICY_VIOLATION''
         else andthen (materialize_uncommitted_candidate h w) (\<lambda>b.
           andthen (look h (\<lambda>_. get_authority)) (\<lambda>auth.
           andthen (resolve_strict h (wt_path w)) (\<lambda>location.
           let q = \<lparr>bc_binding = b, bc_maker_attempt_id = mr_attempt_id m, bc_source_root = ho_source_root h,
             bc_worktree_identity = location, bc_branch = wt_branch w,
             bc_contract_fingerprint = ex_contract_fingerprint r,
             bc_authority_fingerprint = ex_authority_fingerprint r,
             bc_authority_generation = au_generation auth, bc_fence = f\<rparr> in
           andthen (ask h (BindCandidate q) (\<lambda>c d. fst (bind_precommit_candidate c q d))) (\<lambda>stored.
           andthen (move_candidate h i VERIFYING ''MAKER_PRECOMMIT_SUCCEEDED'' (Some f) no_options) (\<lambda>_.
           reply (b\<lparr>cb_id := cb_id stored\<rparr>))))))))))"

definition command_artifact_ok ::
  "host \<Rightarrow> worktree \<Rightarrow> string \<Rightarrow> json \<Rightarrow> json \<Rightarrow> unit act" where
  "command_artifact_ok h w channel raw expected =
    (if raw = JNull \<or> expected = JNull then refuse ''CANDIDATE_COMMAND_ARTIFACT_REQUIRED''
     else case raw of
       JStr p \<Rightarrow>
         if \<not> is_absolute (path_of p) then refuse ''CANDIDATE_COMMAND_ARTIFACT_REQUIRED''
         else let q = path_of p in
           andthen (validate_artifact_directory h (path_text (q\<lparr>parts := butlast (parts q)\<rparr>)) w) (\<lambda>root.
           andthen (look h (\<lambda>c _. collect_manifest (ho_sha h) (world c) root
             [(channel, if parts q = [] then [] else last (parts q))])) (\<lambda>(_, _, entries).
           case entries of
             e # _ \<Rightarrow> if \<not> json_eq (JStr (ae_sha256 e)) expected then refuse ''CANDIDATE_COMMAND_ARTIFACT_MISMATCH''
               else reply ()
           | [] \<Rightarrow> abort (Raised (PythonError ''IndexError''))))
     | _ \<Rightarrow> abort (Raised (PythonError ''TypeError'')))"

definition verify_candidate_commands :: "host \<Rightarrow> worktree \<Rightarrow> candidate_verification_row \<Rightarrow> unit act" where
  "verify_candidate_commands h w v =
    andthen (lift (validate_candidate_verification_payload (ho_sha h) (cv_command_manifest v)
      (cv_command_manifest_sha256 v) (cv_result_json v) (cv_verdict v))) (\<lambda>commands.
    each (\<lambda>k.
      andthen (command_artifact_ok h w ''stdout'' (vn_stdout_artifact k) (vn_stdout_sha256 k)) (\<lambda>_.
      command_artifact_ok h w ''stderr'' (vn_stderr_artifact k) (vn_stderr_sha256 k))) commands)"

definition record_candidate_verification ::
  "host \<Rightarrow> worktree \<Rightarrow> candidate_verification_row \<Rightarrow> candidate_verification_row act" where
  "record_candidate_verification h w v =
    (let i = cv_execution_id v in
     andthen (current_fence h i) (\<lambda>f.
     andthen (verify_candidate_commands h w v) (\<lambda>_.
     andthen (read_execution h i) (\<lambda>r.
     if ex_state r \<noteq> VERIFYING \<or> ex_result_commit r \<noteq> None then refuse ''VERIFICATION_STATE_INVALID''
     else andthen (look h (\<lambda>_. get_binding (cv_candidate_id v))) (\<lambda>b.
       andthen (materialize_bound h w b) (\<lambda>_.
       andthen (look h (\<lambda>_. get_authority)) (\<lambda>auth.
       if cv_content_sha256 v \<noteq> cb_content_sha256 b \<or> cv_contract_fingerprint v \<noteq> ex_contract_fingerprint r
          \<or> cv_authority_fingerprint v \<noteq> ex_authority_fingerprint r
          \<or> cv_authority_generation v \<noteq> au_generation auth
       then refuse ''VERIFICATION_BINDING_MISMATCH''
       else andthen (ask h (RegisterCandidateVerification v f)
           (\<lambda>c d. fst (register_candidate_verification c v f d))) (\<lambda>found. case found of
         None \<Rightarrow> abort (Raised (PythonError ''TypeError''))
       | Some stored \<Rightarrow>
         andthen (if cv_verdict stored = ''PASS''
            then move_candidate h i EVALUATING ''CANDIDATE_VERIFICATION_PASSED'' (Some f) no_options
            else move_candidate h i BLOCKED ''CANDIDATE_VERIFICATION_BLOCKED'' (Some f)
              \<lparr>to_resume = Some VERIFYING,
               to_blocker = Some (if cv_verdict stored = ''BLOCKED_ENVIRONMENT'' then ''BLOCKED_ENVIRONMENT''
                 else ''VERIFICATION_FAILED''),
               to_detail = None, to_fence = None\<rparr>) (\<lambda>_. reply stored)))))))))"

section \<open>Evaluating a candidate\<close>

definition latest_candidate_pass :: "string \<Rightarrow> string \<Rightarrow> db \<Rightarrow> candidate_verification_row option" where
  "latest_candidate_pass i candidate d = find_last (\<lambda>v. cv_execution_id v = i \<and> cv_candidate_id v = candidate
     \<and> cv_verdict v = ''PASS'') (candidate_verifications d)"

definition candidate_context_ok ::
  "execution_row \<Rightarrow> candidate_binding_row \<Rightarrow> candidate_verification_row \<Rightarrow> int \<Rightarrow> json \<Rightarrow> bool" where
  "candidate_context_ok r b v generation content \<longleftrightarrow>
     list_all (\<lambda>(k, x). json_eq (case member k content of None \<Rightarrow> JNull | Some y \<Rightarrow> y) x)
       [(''review_target_type'', JStr ''UNCOMMITTED_CANDIDATE''), (''candidate_id'', JStr (cb_id b)),
        (''candidate_content_sha256'', JStr (cb_content_sha256 b)), (''manifest_sha256'', JStr (cb_manifest_sha256 b)),
        (''expected_parent'', JStr (cb_expected_parent b)),
        (''repository_identity'', JStr (cb_repository_identity b)),
        (''contract_fingerprint'', JStr (ex_contract_fingerprint r)),
        (''authority_fingerprint'', JStr (ex_authority_fingerprint r)),
        (''authority_generation'', JInt generation), (''verification_id'', JStr (cv_id v)),
        (''command_manifest_sha256'', JStr (cv_command_manifest_sha256 v))]
     \<and> flag_member ''frozen_contract'' content \<and> flag_member ''acceptance_criteria'' content"

definition begin_precommit_evaluator :: "host \<Rightarrow> string \<Rightarrow> worktree \<Rightarrow> capsule \<Rightarrow> string act" where
  "begin_precommit_evaluator h i w k =
    andthen (current_fence h i) (\<lambda>f.
    if capsule_role k \<noteq> Evaluator then refuse ''EVALUATOR_CONTEXT_REQUIRED''
    else andthen (read_execution h i) (\<lambda>r.
      if ex_state r \<noteq> EVALUATING \<or> ex_result_commit r \<noteq> None then refuse ''EVALUATOR_STATE_INVALID''
      else andthen (look h (\<lambda>_ d. Inr (find_current_binding i d))) (\<lambda>found. case found of
        None \<Rightarrow> refuse ''CANDIDATE_BINDING_REQUIRED''
      | Some b \<Rightarrow>
        andthen (materialize_bound h w b) (\<lambda>_.
        andthen (look h (\<lambda>_ d. Inr (latest_candidate_pass i (cb_id b) d))) (\<lambda>passed. case passed of
          None \<Rightarrow> refuse ''VERIFICATION_PASS_REQUIRED''
        | Some v \<Rightarrow>
          andthen (current_fence h i) (\<lambda>g.
          if \<not> candidate_context_ok r b v (cf_authority_generation g) (capsule_content k)
          then refuse ''CANDIDATE_EVALUATOR_CONTEXT_MISMATCH''
          else andthen (register_capsule h ''context-evaluator-candidate-'' i k (Some f)) (\<lambda>x.
            andthen (fresh h) (\<lambda>hex.
            let q = \<lparr>qe_attempt_id = ''candidate-evaluator-'' @ hex, qe_execution_id = i, qe_candidate_id = cb_id b,
              qe_verification_id = cv_id v, qe_context_id = cx_id x, qe_fence = f\<rparr> in
            andthen (ask h (BeginCandidateAttempt q) (\<lambda>c d. fst (begin_candidate_evaluator_attempt c q d))) (\<lambda>_.
            reply (qe_attempt_id q))))))))))"

text \<open>The approval of a passed candidate, asked for and bound under the fence of the new version.\<close>

definition request_candidate_approval :: "host \<Rightarrow> candidate_evaluation_row \<Rightarrow> approval_binding act" where
  "request_candidate_approval h e =
    (let i = ce_execution_id e in
     andthen (read_execution h i) (\<lambda>current.
     andthen (fresh h) (\<lambda>hex. let a = ''approval-candidate-'' @ hex;
       ref = ''candidate:'' @ ce_candidate_id e @ '':evaluation:'' @ ce_id e @ '':generation:''
         @ int_text (ce_authority_generation e) in
     andthen (key_for h ''candidate-approval'' [(''evaluation_id'', PStr (ce_id e))]) (\<lambda>key.
     andthen (current_fence h i) (\<lambda>f1. andthen (current_fence h i) (\<lambda>f2.
     let q = \<lparr>pq_approval_id = a, pq_idempotency_key = key, pq_execution_id = i,
       pq_approval_type = ''DEVELOPMENT_ACCEPTANCE'', pq_authority_ref = ref,
       pq_expected_version = ex_state_version current, pq_owner = ho_controller_id h,
       pq_generation = cf_generation f1, pq_fence = Some f2\<rparr> in
     andthen (ask h (RequestApproval q) (\<lambda>c d. fst (request_approval c q d))) (\<lambda>p.
     andthen (current_fence h i) (\<lambda>f3.
     let b = \<lparr>qa_approval_id = a, qa_evaluation_id = ce_id e, qa_candidate_id = ce_candidate_id e,
       qa_authority_generation = ce_authority_generation e, qa_fence = f3\<rparr> in
     andthen (ask h (BindCandidateApproval b) (\<lambda>c d. fst (bind_candidate_approval c b d))) (\<lambda>_.
     reply \<lparr>ab_approval_id = ap_id p, ab_authority_ref = ap_authority_ref p\<rparr>)))))))))"

definition complete_precommit_evaluator ::
  "host \<Rightarrow> worktree \<Rightarrow> candidate_evaluation_row \<Rightarrow> bool \<Rightarrow> approval_binding option act" where
  "complete_precommit_evaluator h w e approval_required =
    (let i = ce_execution_id e in
     andthen (current_fence h i) (\<lambda>f.
     andthen (look h (\<lambda>_. get_binding (ce_candidate_id e))) (\<lambda>b.
     andthen (materialize_bound h w b) (\<lambda>_.
     andthen (look h (\<lambda>_. get_authority)) (\<lambda>auth.
     andthen (read_execution h i) (\<lambda>r.
     if ce_content_sha256 e \<noteq> cb_content_sha256 b \<or> ce_contract_fingerprint e \<noteq> ex_contract_fingerprint r
        \<or> ce_authority_fingerprint e \<noteq> ex_authority_fingerprint r \<or> ce_authority_generation e \<noteq> au_generation auth
     then refuse ''CANDIDATE_EVALUATOR_TARGET_MISMATCH''
     else andthen (ask h (RegisterCandidateEvaluation e f) (\<lambda>c d. fst (register_candidate_evaluation c e f d))) (\<lambda>found.
       case found of
         None \<Rightarrow> abort (Raised (PythonError ''TypeError''))
       | Some stored \<Rightarrow>
         if ce_verdict stored = ''PASS'' \<and> approval_required then
           andthen (move_candidate h i WAITING_APPROVAL ''CANDIDATE_EVALUATION_PASSED'' (Some f)
             (no_options\<lparr>to_resume := Some EVALUATING\<rparr>)) (\<lambda>_.
           andthen (request_candidate_approval h e) (\<lambda>a. reply (Some a)))
         else if ce_verdict stored = ''PASS'' then reply None
         else andthen (if ce_verdict stored = ''REWORK_REQUIRED''
            then move_candidate h i REWORK_READY ''CANDIDATE_EVALUATION_FAILED'' (Some f) no_options
            else move_candidate h i BLOCKED ''CANDIDATE_EVALUATION_FAILED'' (Some f)
              (no_options\<lparr>to_resume := Some EVALUATING, to_blocker := Some ''EVALUATION_BLOCKED''\<rparr>)) (\<lambda>_.
           reply None))))))))"

definition seal_precommit_evaluator_artifacts ::
  "host \<Rightarrow> worktree \<Rightarrow> string \<Rightarrow> seal_phase \<Rightarrow> string \<Rightarrow> string \<Rightarrow> string \<Rightarrow> candidate_seal_row option act" where
  "seal_precommit_evaluator_artifacts h w a phase manifest digest directory =
    andthen (current_fence h (wt_execution_id w)) (\<lambda>f.
    if phase \<notin> {PRE_EXECUTION, POST_EXECUTION} then refuse ''INVALID_EVALUATOR_ARTIFACT_SEAL''
    else andthen (look h (\<lambda>_ d. Inr (find_candidate_attempt a d))) (\<lambda>found. case found of
      None \<Rightarrow> refuse ''CANDIDATE_EVALUATOR_ATTEMPT_NOT_FOUND''
    | Some t \<Rightarrow>
      andthen (validate_artifact_directory h directory w) (\<lambda>root.
      andthen (look h (\<lambda>_. get_binding (ca_candidate_id t))) (\<lambda>b.
      andthen (materialize_bound h w b) (\<lambda>_.
      andthen (fresh h) (\<lambda>hex.
      let q = \<lparr>qs_seal_id = ''candidate-seal-'' @ hex, qs_attempt_id = a, qs_phase = phase_text phase,
        qs_manifest_json = manifest, qs_manifest_sha256 = digest, qs_evidence_root = root, qs_fence = f\<rparr> in
      ask h (CreateCandidateSeal q) (\<lambda>c d. fst (create_candidate_evaluator_artifact_seal c q d))))))))"

definition resolve_precommit_approval :: "host \<Rightarrow> string \<Rightarrow> approval_binding \<Rightarrow> bool \<Rightarrow> approval_row act" where
  "resolve_precommit_approval h i b approved =
    andthen (look h (\<lambda>_ d. Inr (case find_candidate_approval (ab_approval_id b) d of
        None \<Rightarrow> False | Some l \<Rightarrow> cl_execution_id l = i))) (\<lambda>linked.
    andthen (if linked then andthen (read_execution h i) (\<lambda>r. reply (ex_state r = WAITING_APPROVAL)) else reply False) (\<lambda>waiting.
    if \<not> waiting then refuse ''CANDIDATE_APPROVAL_BINDING_MISMATCH''
    else andthen (current_fence h i) (\<lambda>f.
      andthen (ask h (ResolveApproval (ab_approval_id b) i (ab_authority_ref b) approved (Some f))
        (\<lambda>c d. fst (resolve_approval c (ab_approval_id b) i (ab_authority_ref b) approved (Some f) d))) (\<lambda>p.
      if approved then reply p
      else andthen (move_candidate h i DESIGN_ESCALATION ''APPROVAL_REJECTED'' None
        (no_options\<lparr>to_blocker := Some ''APPROVAL_REJECTED''\<rparr>)) (\<lambda>_. reply p)))))"

section \<open>The closure\<close>

text \<open>
  A callback of the store: it runs on the database of the transaction, with no other client in
  between, and only if the store gets to the point of asking, which a first try with an answer of
  its own finds out. A callback that fails rolls the transaction back and its error goes on.
\<close>

definition probe :: store_error where
  "probe = PythonError ''callback''"

definition alone :: "host \<Rightarrow> host" where
  "alone h = h\<lparr>ho_others := (\<lambda>_. [])\<rparr>"

definition with_callback ::
  "host \<Rightarrow> (db \<Rightarrow> 'p act) \<Rightarrow> ('p result \<Rightarrow> call) \<Rightarrow> (ctx \<Rightarrow> 'p result \<Rightarrow> db \<Rightarrow> 'a result) \<Rightarrow> 'a act" where
  "with_callback h callback call answer s =
    (let t = settle h s; c = ctx_at h (mc_tick s);
         commit = (\<lambda>p u. (map_sum Raised id (answer c p (mc_db u)),
           u\<lparr>mc_db := perform c (call p) (mc_db u), mc_trace := mc_trace u @ [Ours c (call p)]\<rparr>));
         u0 = t\<lparr>mc_tick := Suc (mc_tick s)\<rparr>
     in if answer c (Inl probe) (mc_db t) \<noteq> Inl probe then commit (Inl probe) u0
        else case callback (mc_db t) u0 of
          (Inl e, u) \<Rightarrow> (Inl e, u)
        | (Inr p, u) \<Rightarrow> commit (Inr p) u)"

definition hex_pair :: "char \<Rightarrow> string" where
  "hex_pair c = [hex_digit (of_char c div 16), hex_digit (of_char c mod 16)]"

definition to_hex :: "string \<Rightarrow> string" where
  "to_hex s = concat (map hex_pair s)"

text \<open>\<open>bytes.fromhex\<close>: white space may separate the pairs.\<close>

fun from_hex :: "string \<Rightarrow> string option" where
  "from_hex [] = Some []"
| "from_hex [a] = (if ascii_space a then Some [] else None)"
| "from_hex (a # b # s) =
    (if ascii_space a then from_hex (b # s)
     else case (hex_value a, hex_value b) of
       (Some x, Some y) \<Rightarrow> map_option ((#) (char_of (16 * x + y))) (from_hex s)
     | _ \<Rightarrow> None)"

text \<open>The worktree still holds the entry's bytes.\<close>

definition entry_intact :: "host \<Rightarrow> worktree \<Rightarrow> manifest_entry \<Rightarrow> string act" where
  "entry_intact h w e =
    andthen (candidate_file h (wt_path w) (path e)) (\<lambda>file.
    andthen (worktree_bytes h file) (\<lambda>(m, content).
    if m \<noteq> mode e \<or> Some (int (length content)) \<noteq> byte_length e \<or> Some (ho_sha h content) \<noteq> content_sha256 e
    then handoff_changed else reply content))"

definition stored_entries :: "candidate_binding_row \<Rightarrow> manifest_entry list act" where
  "stored_entries b =
    andthen (lift (parsed_text (cb_manifest_json b))) (\<lambda>manifest.
    case member ''entries'' manifest of
      Some (JList js) \<Rightarrow> (case those (map entry_of_json js) of
          Some entries \<Rightarrow> reply entries | None \<Rightarrow> abort (Raised (PythonError ''TypeError'')))
    | _ \<Rightarrow> abort (Raised (PythonError ''KeyError'')))"

definition stage_entry :: "host \<Rightarrow> worktree \<Rightarrow> candidate_fence \<Rightarrow> (string \<times> string) list \<Rightarrow> manifest_entry \<Rightarrow> unit act" where
  "stage_entry h w f env e =
    andthen (check_fence h (wt_execution_id w) f) (\<lambda>_.
    if operation e = ''D'' then
      andthen (candidate_git h (wt_path w) [''update-index'', ''--force-remove'', ''--'', path e] None env) (\<lambda>_. reply ())
    else andthen (entry_intact h w e) (\<lambda>content.
      andthen (candidate_line h (wt_path w) [''hash-object'', ''-w'', ''--stdin''] (Some content)) (\<lambda>oid.
      andthen (candidate_git h (wt_path w) [''update-index'', ''-z'', ''--index-info'']
        (Some (mode e @ '' '' @ oid @ [CHR 0x09] @ path e @ [CHR 0x00])) env) (\<lambda>_. reply ()))))"

text \<open>The tree of the candidate, built in an index of its own in a temporary directory.\<close>

definition staged_tree :: "host \<Rightarrow> worktree \<Rightarrow> candidate_fence \<Rightarrow> candidate_binding_row \<Rightarrow> string act" where
  "staged_tree h w f b =
    andthen (fresh h) (\<lambda>temporary.
    let env = [(''GIT_INDEX_FILE'', join_path temporary ''index'')] in
    andthen (candidate_git h (wt_path w) [''read-tree'', cb_expected_parent b] None env) (\<lambda>_.
    andthen (stored_entries b) (\<lambda>entries.
    andthen (each (stage_entry h w f env) entries) (\<lambda>_.
    andthen (check_fence h (wt_execution_id w) f) (\<lambda>_.
    andthen (candidate_git h (wt_path w) [''write-tree''] None env) (\<lambda>out.
    andthen (decode out) (\<lambda>tree. reply (strip tree))))))))"

definition commit_object :: "string \<Rightarrow> candidate_binding_row \<Rightarrow> closure_request \<Rightarrow> string \<Rightarrow> int \<Rightarrow> string" where
  "commit_object tree b q message t =
    (let nl = [CHR 0x0A]; identity = ''ADCP Controller <adcp-controller@local.invalid> '' @ int_text (t div 1000000) @ '' +0000'' in
     ''tree '' @ tree @ nl @ ''parent '' @ cb_expected_parent b @ nl @ ''author '' @ identity @ nl
     @ ''committer '' @ identity @ nl @ nl @ strip message @ nl @ nl @ ''ADCP-Candidate: '' @ cb_id b @ nl
     @ ''ADCP-Closure: '' @ qc_closure_id q @ nl @ ''ADCP-Approval: '' @ qc_approval_id q @ nl
     @ ''ADCP-Evaluation: '' @ qc_evaluation_id q @ nl)"

definition prepare_git_plan ::
  "host \<Rightarrow> worktree \<Rightarrow> candidate_binding_row \<Rightarrow> closure_request \<Rightarrow> string \<Rightarrow> (string \<times> json) list act" where
  "prepare_git_plan h w b q message =
    (let f = qc_fence q; i = wt_execution_id w; repo = wt_path w in
     andthen (check_fence h i f) (\<lambda>_.
     andthen (materialize_bound h w b) (\<lambda>_.
     if all_space message \<or> CHR 0x00 \<in> set message then refuse ''CANDIDATE_COMMIT_MESSAGE_INVALID''
     else andthen (candidate_git h repo [''diff'', ''--cached'', ''--name-only'', ''-z''] None []) (\<lambda>index.
       if index \<noteq> [] then refuse ''CANDIDATE_INDEX_NOT_EMPTY''
       else andthen (candidate_line h repo [''rev-parse'', cb_expected_parent b @ ''^{tree}''] None) (\<lambda>base_tree.
         andthen (staged_tree h w f b) (\<lambda>tree.
         andthen (materialize_bound h w b) (\<lambda>_.
         andthen (now h) (\<lambda>t. let object = commit_object tree b q message t in
         andthen (candidate_line h repo [''hash-object'', ''-t'', ''commit'', ''--stdin''] (Some object)) (\<lambda>commit.
         andthen (resolve_strict h repo) (\<lambda>location.
         reply [(''closure_id'', JStr (qc_closure_id q)), (''execution_id'', JStr i),
           (''candidate_id'', JStr (cb_id b)), (''approval_id'', JStr (qc_approval_id q)),
           (''evaluation_id'', JStr (qc_evaluation_id q)),
           (''repository_identity'', JStr (cb_repository_identity b)), (''worktree_identity'', JStr location),
           (''branch'', JStr (wt_branch w)), (''expected_parent'', JStr (cb_expected_parent b)),
           (''base_tree'', JStr base_tree), (''expected_tree'', JStr tree), (''result_commit'', JStr commit),
           (''commit_object_hex'', JStr (to_hex object)), (''manifest_sha256'', JStr (cb_manifest_sha256 b)),
           (''candidate_content_sha256'', JStr (cb_content_sha256 b))]))))))))))"

definition plan_text :: "(string \<times> json) list \<Rightarrow> string \<Rightarrow> string act" where
  "plan_text plan k = (case map_of plan k of
      Some (JStr s) \<Rightarrow> reply s
    | Some _ \<Rightarrow> abort (Raised (PythonError ''TypeError''))
    | None \<Rightarrow> abort (Raised (PythonError ''KeyError'')))"

definition plan_identity_ok :: "host \<Rightarrow> worktree \<Rightarrow> string \<Rightarrow> candidate_binding_row \<Rightarrow> (string \<times> json) list \<Rightarrow> bool" where
  "plan_identity_ok h w location b plan \<longleftrightarrow>
     list_all (\<lambda>(k, v). json_eq (dict_get plan k JNull) (JStr v))
       [(''execution_id'', wt_execution_id w), (''candidate_id'', cb_id b),
        (''repository_identity'', ho_source_root h), (''worktree_identity'', location),
        (''branch'', wt_branch w), (''expected_parent'', cb_expected_parent b),
        (''manifest_sha256'', cb_manifest_sha256 b), (''candidate_content_sha256'', cb_content_sha256 b)]"

definition planned_object :: "(string \<times> json) list \<Rightarrow> string act" where
  "planned_object plan = andthen (plan_text plan ''commit_object_hex'') (\<lambda>hex. case from_hex hex of
      None \<Rightarrow> abort (Raised (PythonError ''ValueError'')) | Some object \<Rightarrow> reply object)"

text \<open>
  The branch still at the parent: the planned object is hashed, written, verified against the
  candidate and only then does the reference move, from the parent.
\<close>

definition move_branch ::
  "host \<Rightarrow> worktree \<Rightarrow> candidate_fence \<Rightarrow> candidate_binding_row \<Rightarrow> (string \<times> json) list \<Rightarrow> string \<Rightarrow> string
     \<Rightarrow> string \<Rightarrow> unit act" where
  "move_branch h w f b plan index_tree parent commit =
    (let repo = wt_path w; fence = check_fence h (wt_execution_id w) f; conflict = refuse ''CANDIDATE_COMMIT_INTENT_CONFLICT'' in
     andthen (materialize_bound h w b) (\<lambda>_.
     andthen (plan_text plan ''base_tree'') (\<lambda>base_tree.
     if index_tree \<noteq> base_tree then refuse ''CANDIDATE_INDEX_CHANGED_AFTER_APPROVAL''
     else andthen (planned_object plan) (\<lambda>object.
       andthen (candidate_line h repo [''hash-object'', ''-t'', ''commit'', ''--stdin''] (Some object)) (\<lambda>calculated.
       if calculated \<noteq> commit then conflict
       else andthen fence (\<lambda>_.
         andthen (candidate_line h repo [''hash-object'', ''-t'', ''commit'', ''-w'', ''--stdin''] (Some object)) (\<lambda>written.
         if written \<noteq> commit then conflict
         else andthen (verify_committed_candidate h repo commit b) (\<lambda>_.
           andthen fence (\<lambda>_.
           andthen (candidate_git h repo [''update-ref'', ''refs/heads/'' @ wt_branch w, commit, parent] None []) (\<lambda>_.
           fence))))))))))"

definition entry_kept :: "host \<Rightarrow> worktree \<Rightarrow> manifest_entry \<Rightarrow> unit act" where
  "entry_kept h w e =
    (if operation e = ''D'' then
       andthen (candidate_file h (wt_path w) (path e)) (\<lambda>file.
       andthen (present h file) (\<lambda>there. if there then handoff_changed else reply ()))
     else andthen (entry_intact h w e) (\<lambda>_. reply ()))"

text \<open>The commit and the worktree against the plan, also on a retry after a crash.\<close>

definition committed_as_planned ::
  "host \<Rightarrow> worktree \<Rightarrow> candidate_binding_row \<Rightarrow> (string \<times> json) list \<Rightarrow> string \<Rightarrow> string \<Rightarrow> unit act" where
  "committed_as_planned h w b plan expected_tree commit =
    (let repo = wt_path w in
     andthen (verify_committed_candidate h repo commit b) (\<lambda>_.
     andthen (candidate_line h repo [''rev-parse'', commit @ ''^{tree}''] None) (\<lambda>tree.
     if tree \<noteq> expected_tree then handoff_changed
     else andthen (candidate_git h repo [''cat-file'', ''commit'', commit] None []) (\<lambda>raw.
       andthen (planned_object plan) (\<lambda>object.
       if raw \<noteq> object then refuse ''CANDIDATE_COMMIT_INTENT_CONFLICT''
       else andthen (stored_entries b) (\<lambda>entries.
         andthen (each (entry_kept h w) entries) (\<lambda>_.
         andthen (candidate_git h repo [''diff'', ''--no-ext-diff'', ''--no-textconv'', ''--name-only'', commit, ''--''] None []) (\<lambda>dirty.
         if dirty \<noteq> [] then handoff_changed
         else andthen (candidate_git h repo [''ls-files'', ''--others'', ''--exclude-standard'', ''-z''] None []) (\<lambda>out.
           andthen (decode out) (\<lambda>others.
           if \<not> set (filter (\<lambda>p. p \<noteq> []) (split_on (CHR 0x00) others))
                 \<subseteq> set (map path (filter (\<lambda>e. operation e = ''A'') entries))
           then handoff_changed else reply ()))))))))))"

definition apply_git_plan ::
  "host \<Rightarrow> worktree \<Rightarrow> candidate_fence \<Rightarrow> candidate_binding_row \<Rightarrow> (string \<times> json) list \<Rightarrow> string act" where
  "apply_git_plan h w f b plan =
    (let repo = wt_path w; fence = check_fence h (wt_execution_id w) f in
     andthen fence (\<lambda>_.
     andthen (resolve_strict h repo) (\<lambda>location.
     if \<not> plan_identity_ok h w location b plan then refuse ''CANDIDATE_COMMIT_INTENT_CONFLICT''
     else andthen (candidate_line h repo [''symbolic-ref'', ''--short'', ''HEAD''] None) (\<lambda>branch.
       if branch \<noteq> wt_branch w then refuse ''CANDIDATE_COMMIT_INTENT_CONFLICT''
       else andthen (plan_text plan ''result_commit'') (\<lambda>commit.
         andthen (plan_text plan ''expected_parent'') (\<lambda>parent.
         andthen (candidate_line h repo [''rev-parse'', ''HEAD''] None) (\<lambda>head.
         if head \<notin> {parent, commit} then handoff_changed
         else andthen (candidate_line h repo [''write-tree''] None) (\<lambda>index_tree.
           andthen (plan_text plan ''base_tree'') (\<lambda>base_tree.
           andthen (plan_text plan ''expected_tree'') (\<lambda>expected_tree.
           if index_tree \<notin> {base_tree, expected_tree} then refuse ''CANDIDATE_INDEX_CHANGED_AFTER_APPROVAL''
           else andthen (if head = parent then move_branch h w f b plan index_tree parent commit else reply ()) (\<lambda>_.
             andthen (committed_as_planned h w b plan expected_tree commit) (\<lambda>_.
             andthen (if index_tree = expected_tree then reply ()
               else andthen fence (\<lambda>_. andthen (candidate_git h repo [''read-tree'', expected_tree] None []) (\<lambda>_. reply ()))) (\<lambda>_.
             andthen fence (\<lambda>_. reply commit))))))))))))))"

definition latest_provenance :: "string \<Rightarrow> db \<Rightarrow> candidate_provenance_row option" where
  "latest_provenance candidate d = find_last (\<lambda>p. cp_candidate_id p = candidate) (candidate_provenances d)"

text \<open>The plan of the stored intent, as the store hands it to the second callback.\<close>

definition stored_plan :: "closure_request \<Rightarrow> db \<Rightarrow> (string \<times> json) list" where
  "stored_plan q d = (case find_intent (qc_closure_id q) d of
      None \<Rightarrow> []
    | Some r \<Rightarrow> (case loads (ci_plan_json r) of Some (JObj kvs) \<Rightarrow> kvs | _ \<Rightarrow> []))"

definition close_precommit_candidate ::
  "host \<Rightarrow> worktree \<Rightarrow> string \<Rightarrow> string \<Rightarrow> string \<Rightarrow> string \<Rightarrow> string act" where
  "close_precommit_candidate h w candidate evaluation approval message =
    (let i = wt_execution_id w in
     andthen (look h (\<lambda>_. get_binding candidate)) (\<lambda>b.
     andthen (look h (\<lambda>_ d. Inr (latest_provenance candidate d))) (\<lambda>provenance.
     andthen (resolve_strict h (wt_path w)) (\<lambda>location.
     if (case provenance of None \<Rightarrow> True | Some p \<Rightarrow> cp_worktree_identity p \<noteq> location \<or> cp_branch p \<noteq> wt_branch w)
        \<or> cb_execution_id b \<noteq> i \<or> wt_base_commit w \<noteq> cb_expected_parent b
     then refuse ''CANDIDATE_PROVENANCE_MISMATCH''
     else andthen (digest_of h [(''candidate_id'', PStr candidate), (''approval_id'', PStr approval),
         (''evaluation_id'', PStr evaluation), (''manifest_sha256'', PStr (cb_manifest_sha256 b))]) (\<lambda>digest.
       andthen (current_fence h i) (\<lambda>f.
       let q = \<lparr>qc_closure_id = ''closure-'' @ digest, qc_execution_id = i, qc_candidate_id = candidate,
         qc_approval_id = approval, qc_evaluation_id = evaluation, qc_fence = f\<rparr> in
       andthen (with_callback h (\<lambda>_. prepare_git_plan (alone h) w b q message) (PrepareCommit q)
         (\<lambda>c plan d. fst (prepare_candidate_commit c q plan d))) (\<lambda>_.
       andthen (check_fence h i f) (\<lambda>_.
       andthen (with_callback h (\<lambda>d. apply_git_plan (alone h) w f b (stored_plan q d)) (\<lambda>r. CloseCommit q (\<lambda>_. r))
         (\<lambda>c r d. fst (close_candidate_to_commit c q (\<lambda>_. r) d))) (\<lambda>closed.
       case closed of None \<Rightarrow> abort (Raised (PythonError ''TypeError'')) | Some r \<Rightarrow> reply (cc_result_commit r))))))))))"

end
