(* ===== verification/Recovery.thy ===== *)
theory Recovery
  imports Controller_Closure
begin

text \<open>
  Crash recovery (\<open>src/adcp/recovery.py\<close>): \<open>resume_once\<close> takes the state the store is in, takes
  over the lease when it is not the controller's own, and moves the execution one boundary on, on
  nothing but stored evidence. The projection of an accepted execution is an argument.
\<close>

section \<open>Decisions\<close>

datatype recovery_action =
    SCHEDULE_MAKER | WAIT_MAKER | MAKER_LOST | AWAIT_VERIFICATION | SCHEDULE_EVALUATOR | AWAIT_EVALUATOR
  | WAIT_APPROVAL | ACCEPTED_ACTION | PROJECTED | TERMINAL

record decision =
  de_action :: recovery_action
  de_state :: exec_state
  de_detail :: "string option"

definition decide :: "recovery_action \<Rightarrow> exec_state \<Rightarrow> string option \<Rightarrow> decision act" where
  "decide a st detail = reply \<lparr>de_action = a, de_state = st, de_detail = detail\<rparr>"

definition then_decide :: "'a act \<Rightarrow> recovery_action \<Rightarrow> exec_state \<Rightarrow> string option \<Rightarrow> decision act" where
  "then_decide m a st detail = andthen m (\<lambda>_. decide a st detail)"

definition blocked_by :: "exec_state \<Rightarrow> string \<Rightarrow> transition_options" where
  "blocked_by resume code = \<lparr>to_resume = Some resume, to_blocker = Some code, to_detail = None, to_fence = None\<rparr>"

section \<open>The lease\<close>

definition own_lease_live :: "host \<Rightarrow> execution_row \<Rightarrow> int \<Rightarrow> bool" where
  "own_lease_live h r t \<longleftrightarrow> ex_lease_owner r = Some (ho_controller_id h)
     \<and> (case ex_lease_expires_at r of None \<Rightarrow> False | Some e \<Rightarrow> t < e)"

definition ensure_fence :: "host \<Rightarrow> string \<Rightarrow> (execution_row \<times> bool) act" where
  "ensure_fence h i =
    andthen (read_execution h i) (\<lambda>r.
    andthen (now h) (\<lambda>t.
    if own_lease_live h r t then reply (r, False)
    else andthen (key_for h ''recovery-lease''
        [(''execution_id'', PStr i), (''version'', PInt (ex_state_version r)),
         (''owner'', PStr (ho_controller_id h)), (''prior_generation'', PInt (ex_lease_generation r))]) (\<lambda>key.
      let q = \<lparr>lq_execution_id = i, lq_expected_version = ex_state_version r, lq_operation_key = key,
        lq_owner = ho_controller_id h, lq_ttl_seconds = 60\<rparr> in
      andthen (ask h (AcquireLease q) (\<lambda>c d. fst (acquire_lease c q d))) (\<lambda>leased.
      reply (leased, ex_lease_owner r \<noteq> None)))))"

section \<open>The Maker\<close>

definition recovery_resume_state :: "host \<Rightarrow> execution_row \<Rightarrow> exec_state act" where
  "recovery_resume_state h r =
    andthen (look h (\<lambda>_ d. Inr (latest_attempt (ex_id r) Maker d))) (\<lambda>found.
    reply (if ex_maker_rework_count r \<noteq> 0 \<or> (case found of None \<Rightarrow> False | Some t \<Rightarrow> 1 < at_attempt_no t)
      then REWORK_READY else READY))"

definition block_maker_evidence :: "host \<Rightarrow> execution_row \<Rightarrow> string \<Rightarrow> decision act" where
  "block_maker_evidence h r detail =
    andthen (recovery_resume_state h r) (\<lambda>resume.
    then_decide (move h (ex_id r) BLOCKED ''RECOVERY_MAKER_EVIDENCE_INVALID''
      ((blocked_by resume ''BLOCKED_EVIDENCE'')\<lparr>to_detail := Some detail\<rparr>)) TERMINAL BLOCKED (Some detail))"

text \<open>\<open>_candidate_commit_is_valid\<close>: the commit exists and its parent is the attempt's base.\<close>

definition candidate_commit_is_valid :: "host \<Rightarrow> attempt_row \<Rightarrow> string \<Rightarrow> bool act" where
  "candidate_commit_is_valid h t commit =
    andthen (git h (ho_source_root h) (Run_git [''cat-file'', ''-e'', commit @ ''^{commit}''])) (\<lambda>(code, _).
    if code \<noteq> 0 then reply False
    else andthen (git h (ho_source_root h) (Run_git [''rev-parse'', commit @ ''^''])) (\<lambda>(code', out).
      reply (code' = 0 \<and> strip out = at_base_commit t)))"

definition requires_finalization :: "host \<Rightarrow> execution_row \<Rightarrow> bool act" where
  "requires_finalization h r =
    look h (\<lambda>_ d. Inr (case deferred_slice (controlled_slice (ex_id r) d) of None \<Rightarrow> False
      | Some s \<Rightarrow> sl_execution_eligibility (sc_fields s) = ''ELIGIBLE_PREEXECUTION_BOUND''))"

definition slice_awaits_result :: "execution_row \<Rightarrow> attempt_row \<Rightarrow> slice_row \<Rightarrow> bool" where
  "slice_awaits_result r t s \<longleftrightarrow>
     (let f = sc_fields s in
      sl_execution_eligibility f = ''ELIGIBLE_PREEXECUTION_BOUND'' \<and> sl_active_execution_id f = Some (ex_id r)
      \<and> sl_repository_toplevel f = Some (ex_source_root r) \<and> sl_branch f = Some (ex_branch r)
      \<and> sl_base_commit f = Some (ex_base_commit r) \<and> sl_current_branch_head f = Some (ex_base_commit r)
      \<and> sl_implementation_result_commit f = None \<and> at_base_commit t = ex_base_commit r)"

definition binding_of_row :: "execution_row \<Rightarrow> (string \<times> string) list" where
  "binding_of_row r =
    [(''execution_id'', ex_id r), (''slice_id'', ex_slice_id r), (''repository_toplevel'', ex_source_root r),
     (''branch'', ex_branch r), (''base_commit'', ex_base_commit r),
     (''contract_fingerprint'', ex_contract_fingerprint r), (''authority_fingerprint'', ex_authority_fingerprint r),
     (''risk_level'', risk_value (ex_risk_level r)), (''environment'', environment_value (ex_environment r))]"

text \<open>
  The worktree of a bound slice, or the code of what is wrong with it: the errors of the binding
  and of the worktree become a decision, others go on.
\<close>

definition bound_worktree_error :: "host \<Rightarrow> execution_row \<Rightarrow> string \<Rightarrow> string option act" where
  "bound_worktree_error h r commit =
    andthen (rescue (andthen (look h (\<lambda>_. get_deferred_binding (ex_id r))) (\<lambda>b. reply (Inr b)))
      (\<lambda>e. case e of Raised (StoreError code) \<Rightarrow> reply (Inl code) | _ \<Rightarrow> abort e)) (\<lambda>found. case found of
      Inl code \<Rightarrow> reply (Some code)
    | Inr b \<Rightarrow>
        if \<not> binding_matches (binding_of_row r) b then reply (Some ''PREEXECUTION_BIND_CONFLICT'')
        else rescue (andthen (reuse_binding h (ex_id r) b (ex_branch r) commit) (\<lambda>_. reply None))
          (\<lambda>e. case e of ControllerError code \<Rightarrow> reply (Some code) | _ \<Rightarrow> abort e))"

definition finalize_deferred_maker_result ::
  "host \<Rightarrow> execution_row \<Rightarrow> attempt_row \<Rightarrow> slice_row \<Rightarrow> string \<Rightarrow> decision option act" where
  "finalize_deferred_maker_result h r t s commit =
    (let blocked = (\<lambda>code. andthen (block_maker_evidence h r code) (\<lambda>x. reply (Some x))) in
     if \<not> slice_awaits_result r t s then blocked ''PREEXECUTION_BIND_CONFLICT''
     else andthen (bound_worktree_error h r commit) (\<lambda>wrong. case wrong of
       Some code \<Rightarrow> blocked code
     | None \<Rightarrow> andthen (finalize_commit_of h (ex_id r) r s commit
         (case sl_current_branch_head (sc_fields s) of Some head \<Rightarrow> head | None \<Rightarrow> [])) (\<lambda>_. reply None)))"

text \<open>A finished Maker: its commit is bound to the execution, unless it already is.\<close>

definition bind_recovered_result ::
  "host \<Rightarrow> execution_row \<Rightarrow> attempt_row \<Rightarrow> string \<Rightarrow> decision option act" where
  "bind_recovered_result h r t commit =
    (if ex_result_commit r = None then
       andthen (read_execution h (ex_id r)) (\<lambda>current.
       andthen (look h (\<lambda>_ d. Inr (deferred_slice (controlled_slice (ex_id r) d)))) (\<lambda>controlled. case controlled of
         Some s \<Rightarrow> finalize_deferred_maker_result h current t s commit
       | None \<Rightarrow> andthen (register_commit_of h (ex_id r) current commit) (\<lambda>_. reply None)))
     else andthen (requires_finalization h r) (\<lambda>partial.
       if partial then andthen (block_maker_evidence h r ''PREBIND_RESULT_PARTIAL_BINDING'') (\<lambda>x. reply (Some x))
       else reply None))"

definition resume_finished_maker :: "host \<Rightarrow> execution_row \<Rightarrow> attempt_row \<Rightarrow> string \<Rightarrow> decision act" where
  "resume_finished_maker h r t commit =
    andthen (candidate_commit_is_valid h t commit) (\<lambda>valid.
    if \<not> valid then block_maker_evidence h r ''CANDIDATE_COMMIT_INVALID''
    else andthen (bind_recovered_result h r t commit) (\<lambda>stop. case stop of
      Some x \<Rightarrow> reply x
    | None \<Rightarrow> then_decide (move h (ex_id r) VERIFYING ''MAKER_SUCCEEDED'' no_options) AWAIT_VERIFICATION VERIFYING None))"

definition lose_maker :: "host \<Rightarrow> execution_row \<Rightarrow> attempt_row \<Rightarrow> decision act" where
  "lose_maker h r t =
    andthen (now h) (\<lambda>n.
    andthen (finish_attempt h ((finish_of (at_id t) ''LOST'' (iso_text n) None)
      \<lparr>qf_failure_code := Some ''LOST_CONTROLLER_LEASE''\<rparr>)) (\<lambda>_.
    andthen (recovery_resume_state h r) (\<lambda>resume.
    then_decide (move h (ex_id r) BLOCKED ''LOST_MAKER_ATTEMPT'' (blocked_by resume ''BLOCKED_ENVIRONMENT''))
      MAKER_LOST BLOCKED (Some ''LOST_CONTROLLER_LEASE''))))"

definition commit_of_either :: "execution_row \<Rightarrow> attempt_row \<Rightarrow> string option" where
  "commit_of_either r t = (case ex_result_commit r of Some x \<Rightarrow> if x = [] then at_result_commit t else Some x
     | None \<Rightarrow> at_result_commit t)"

definition resume_maker :: "host \<Rightarrow> execution_row \<Rightarrow> bool \<Rightarrow> decision act" where
  "resume_maker h r lease_recovered =
    andthen (look h (\<lambda>_ d. Inr (latest_attempt (ex_id r) Maker d))) (\<lambda>found. case found of
      None \<Rightarrow> then_decide (move h (ex_id r) BLOCKED ''RECOVERY_MAKER_EVIDENCE_MISSING'' (blocked_by READY ''BLOCKED_EVIDENCE''))
        TERMINAL BLOCKED (Some ''BLOCKED_EVIDENCE'')
    | Some t \<Rightarrow>
        if ex_result_commit r \<noteq> None \<and> at_result_commit t \<noteq> None \<and> ex_result_commit r \<noteq> at_result_commit t
        then block_maker_evidence h r ''RESULT_COMMIT_BINDING_MISMATCH''
        else case (if at_status t = SUCCEEDED then commit_of_either r t else None) of
          Some commit \<Rightarrow> resume_finished_maker h r t commit
        | None \<Rightarrow>
            if ex_result_commit r \<noteq> None then block_maker_evidence h r ''MAKER_RESULT_BINDING_INVALID''
            else if at_status t = RUNNING \<and> lease_recovered then lose_maker h r t
            else if at_status t = RUNNING then decide WAIT_MAKER MAKER_RUNNING None
            else andthen (recovery_resume_state h r) (\<lambda>resume.
              then_decide (move h (ex_id r) BLOCKED ''RECOVERY_MAKER_NOT_SUCCESSFUL'' (blocked_by resume ''BLOCKED_EVIDENCE''))
                TERMINAL BLOCKED (Some ''BLOCKED_EVIDENCE'')))"

section \<open>Verification\<close>

definition bound_verification :: "execution_row \<Rightarrow> db \<Rightarrow> verification_row option" where
  "bound_verification r d = (case ex_result_commit r of None \<Rightarrow> None | Some commit \<Rightarrow>
     find_last (\<lambda>v. vr_execution_id v = ex_id r \<and> vr_result_commit v = commit
       \<and> vr_contract_fingerprint v = ex_contract_fingerprint r
       \<and> vr_authority_fingerprint v = ex_authority_fingerprint r) (verifications d))"

definition bound_evaluation :: "execution_row \<Rightarrow> db \<Rightarrow> evaluation_row option" where
  "bound_evaluation r d = (case ex_result_commit r of None \<Rightarrow> None | Some commit \<Rightarrow>
     find_last (\<lambda>e. er_execution_id e = ex_id r \<and> er_result_commit e = commit
       \<and> er_contract_fingerprint e = ex_contract_fingerprint r
       \<and> er_authority_fingerprint e = ex_authority_fingerprint r) (evaluations d))"

definition resume_verification :: "host \<Rightarrow> execution_row \<Rightarrow> decision act" where
  "resume_verification h r =
    andthen (look h (\<lambda>_ d. Inr (bound_verification r d))) (\<lambda>found. case found of
      None \<Rightarrow> decide AWAIT_VERIFICATION VERIFYING None
    | Some v \<Rightarrow> andthen (after_verification h (ex_id r) (vr_verdict v)) (\<lambda>_.
        if vr_verdict v = ''PASS'' then decide SCHEDULE_EVALUATOR EVALUATING None
        else decide TERMINAL BLOCKED None))"

section \<open>Approvals\<close>

text \<open>The one approval of the acceptance; more than one is ambiguous.\<close>

definition development_approval :: "host \<Rightarrow> string \<Rightarrow> approval_row option act" where
  "development_approval h i =
    andthen (look h (\<lambda>_ d. Inr (filter (\<lambda>p. ap_execution_id p = i
      \<and> ap_approval_type p = ''DEVELOPMENT_ACCEPTANCE'') (approvals d)))) (\<lambda>ps. case ps of
      [] \<Rightarrow> reply None
    | [p] \<Rightarrow> reply (Some p)
    | _ \<Rightarrow> refuse ''RECOVERY_STALE_APPROVAL'')"

definition validate_approval_binding ::
  "host \<Rightarrow> approval_row \<Rightarrow> execution_row \<Rightarrow> evaluation_row \<Rightarrow> int \<Rightarrow> unit act" where
  "validate_approval_binding h p r e version =
    andthen (approval_ref h r version e) (\<lambda>ref.
    if ap_authority_ref p \<noteq> ref then refuse ''RECOVERY_STALE_APPROVAL''
    else if ap_consumed_at p \<noteq> None then refuse ''RECOVERY_APPROVAL_ALREADY_CONSUMED'' else reply ())"

definition ensure_approval :: "host \<Rightarrow> execution_row \<Rightarrow> evaluation_row \<Rightarrow> approval_row act" where
  "ensure_approval h r e =
    andthen (development_approval h (ex_id r)) (\<lambda>existing. case existing of
      Some p \<Rightarrow> andthen (validate_approval_binding h p r e (ex_state_version r)) (\<lambda>_. reply p)
    | None \<Rightarrow> andthen (approval_ref h r (ex_state_version r) e) (\<lambda>ref.
        request_acceptance h (''approval-recovery-'' @ er_id e) ref (ex_id r) r))"

definition accept_on :: "host \<Rightarrow> string \<Rightarrow> approval_row option \<Rightarrow> decision act" where
  "accept_on h i p =
    andthen (controller_accept h i (map_option (\<lambda>p. \<lparr>ab_approval_id = ap_id p, ab_authority_ref = ap_authority_ref p\<rparr>) p))
      (\<lambda>accepted. decide ACCEPTED_ACTION (ex_state accepted) None)"

definition resume_approval :: "host \<Rightarrow> execution_row \<Rightarrow> bool \<Rightarrow> decision act" where
  "resume_approval h r approval_required =
    andthen (development_approval h (ex_id r)) (\<lambda>found.
    andthen (look h (\<lambda>_ d. Inr (bound_evaluation r d))) (\<lambda>evaluation.
    andthen (case (found, evaluation) of
        (None, Some e) \<Rightarrow> if \<not> approval_required \<or> er_verdict e \<noteq> ''PASS''
            then refuse ''RECOVERY_APPROVAL_BINDING_MISSING'' else ensure_approval h r e
      | (None, None) \<Rightarrow> refuse ''RECOVERY_APPROVAL_BINDING_MISSING''
      | (Some p, None) \<Rightarrow> refuse ''RECOVERY_STALE_APPROVAL''
      | (Some p, Some e) \<Rightarrow> andthen (validate_approval_binding h p r e (ex_state_version r)) (\<lambda>_. reply p)) (\<lambda>p.
    case ap_status p of
      PENDING \<Rightarrow> decide WAIT_APPROVAL WAITING_APPROVAL None
    | APPROVED \<Rightarrow> andthen (move h (ex_id r) EVALUATING ''APPROVAL_RECORDED'' no_options) (\<lambda>_. accept_on h (ex_id r) (Some p))
    | REJECTED \<Rightarrow> then_decide (move h (ex_id r) DESIGN_ESCALATION ''APPROVAL_REJECTED''
          (no_options\<lparr>to_blocker := Some ''APPROVAL_REJECTED''\<rparr>)) TERMINAL DESIGN_ESCALATION None
    | APPROVAL_CANCELLED \<Rightarrow> refuse ''RECOVERY_APPROVAL_ALREADY_CONSUMED'')))"

section \<open>Evaluation\<close>

text \<open>A stored evaluation counts only while its seal still verifies.\<close>

definition stored_seal_verifies :: "host \<Rightarrow> evaluation_row \<Rightarrow> bool act" where
  "stored_seal_verifies h e =
    andthen (look h (\<lambda>_. get_attempt (er_attempt_id e))) (\<lambda>t.
    andthen (look h (\<lambda>_ d. Inr (find_authoritative_seal (at_id t) d))) (\<lambda>seal. case seal of
      None \<Rightarrow> reply False
    | Some s \<Rightarrow> rescue (andthen (look h (\<lambda>c. verify_seal c (zr_id s) (Some (at_id t)) True)) (\<lambda>_. reply True))
        (\<lambda>x. case x of Raised (StoreError _) \<Rightarrow> reply False | _ \<Rightarrow> abort x)))"

text \<open>The errors \<open>_recoverable_evaluation_record\<close> takes for an unusable record.\<close>

definition unusable :: "controller_error \<Rightarrow> bool" where
  "unusable e = (case e of
      Raised (BoundaryError _) \<Rightarrow> True
    | Raised (StoreError _) \<Rightarrow> True
    | Raised (PythonError name) \<Rightarrow> name \<in> {''TypeError'', ''ValueError'', ''CanonicalizationError'', ''JSONDecodeError'',
        ''UnicodeDecodeError''} \<or> starts_with ''ValueError:'' name
    | _ \<Rightarrow> False)"

definition rebuilt_record :: "host \<Rightarrow> execution_row \<Rightarrow> attempt_row \<Rightarrow> evaluation_record option act" where
  "rebuilt_record h r t =
    andthen (look h (\<lambda>_ d. Inr (find_authoritative_seal (at_id t) d))) (\<lambda>seal. case seal of
      None \<Rightarrow> reply None
    | Some s \<Rightarrow>
        andthen (look h (\<lambda>c. verify_seal c (zr_id s) (Some (at_id t)) True)) (\<lambda>(_, view).
        andthen (look h (\<lambda>_. get_context (at_context_id t))) (\<lambda>x.
        if cx_execution_id x \<noteq> ex_id r \<or> cx_role x \<noteq> Evaluator then reply None
        else andthen (lift (bnd (bytes_for_role view ''result'') decode_durable_result)) (\<lambda>result.
          andthen (case map_of result ''verdict'' of Some (JStr v) \<Rightarrow> reply v
            | Some _ \<Rightarrow> abort (Raised (PythonError ''TypeError'')) | None \<Rightarrow> abort (Raised (PythonError ''KeyError''))) (\<lambda>verdict.
          andthen (case at_ended_at t of Some e \<Rightarrow> reply e | None \<Rightarrow> abort (Raised (PythonError ''TypeError''))) (\<lambda>ended.
          andthen (evaluation_record_for h r t verdict (json_to_py (JObj result)) ended) (\<lambda>v.
          andthen (look h (\<lambda>c. validate_evaluation_completion c v (Some (zr_id s)) None [SUCCEEDED])) (\<lambda>_.
          reply (Some v)))))))))"

definition recoverable_record :: "host \<Rightarrow> execution_row \<Rightarrow> attempt_row \<Rightarrow> evaluation_record option act" where
  "recoverable_record h r t =
    (if at_execution_id t \<noteq> ex_id r \<or> at_role t \<noteq> Evaluator \<or> at_status t \<noteq> SUCCEEDED
        \<or> at_result_commit t \<noteq> ex_result_commit r \<or> at_exit_code t \<noteq> Some 0 \<or> at_failure_code t \<noteq> None
        \<or> at_ended_at t = None
     then reply None
     else rescue (rebuilt_record h r t) (\<lambda>e. if unusable e then reply None else abort e))"

text \<open>
  The evaluator attempt of an execution without an evaluation: completed from its seal, declared
  lost without one, left as it ended. The answer is the attempt as it is now and a blocker.
\<close>

definition seal_completes :: "host \<Rightarrow> execution_row \<Rightarrow> attempt_row \<Rightarrow> seal_row \<Rightarrow> (attempt_row \<times> string option) act" where
  "seal_completes h r t s = rescue
    (andthen (look h (\<lambda>c. verify_seal c (zr_id s) (Some (at_id t)) True)) (\<lambda>_.
     andthen (now h) (\<lambda>n.
     andthen (finish_evaluator h r (at_id t) (zr_id s) (iso_text n) None) (\<lambda>_.
     andthen (look h (\<lambda>_. get_attempt (at_id t))) (\<lambda>t'. reply (t', None))))))
    (\<lambda>e. case e of Raised (StoreError _) \<Rightarrow> reply (t, Some ''BLOCKED_EVIDENCE'') | _ \<Rightarrow> abort e)"

definition settle_evaluator ::
  "host \<Rightarrow> execution_row \<Rightarrow> attempt_row \<Rightarrow> seal_row option \<Rightarrow> (attempt_row \<times> string option) act" where
  "settle_evaluator h r t seal =
    (if at_status t = RUNNING then
       (case seal of
          Some s \<Rightarrow> seal_completes h r t s
        | None \<Rightarrow>
            andthen (now h) (\<lambda>n.
            andthen (finish_attempt h ((finish_of (at_id t) ''LOST'' (iso_text n) None)
              \<lparr>qf_result_commit := at_result_commit t, qf_failure_code := Some ''EVALUATOR_POST_SEAL_MISSING''\<rparr>)) (\<lambda>_.
            reply (t, Some ''BLOCKED_EVIDENCE''))))
     else reply (t, if at_status t \<in> {FAILED, ABORTED, LOST} then Some ''BLOCKED_ENVIRONMENT'' else None))"

definition evaluation_from_attempt ::
  "host \<Rightarrow> execution_row \<Rightarrow> attempt_row \<Rightarrow> string option \<Rightarrow> (evaluation_row option \<times> string option) act" where
  "evaluation_from_attempt h r t blocker =
    (if at_status t = SUCCEEDED \<and> blocker = None then
       andthen (recoverable_record h r t) (\<lambda>found. case found of
         Some v \<Rightarrow> andthen (register_evaluation_of h r v) (\<lambda>e. reply (Some e, None))
       | None \<Rightarrow> reply (None, Some ''BLOCKED_EVIDENCE''))
     else reply (None, blocker))"

text \<open>An evaluation of the attempt, or the decision it stops at.\<close>

definition recover_evaluation :: "host \<Rightarrow> execution_row \<Rightarrow> bool \<Rightarrow> (decision + evaluation_row) act" where
  "recover_evaluation h r lease_recovered =
    andthen (look h (\<lambda>_ d. Inr (latest_attempt (ex_id r) Evaluator d))) (\<lambda>found. case found of
      None \<Rightarrow> andthen (decide SCHEDULE_EVALUATOR EVALUATING None) (\<lambda>x. reply (Inl x))
    | Some t \<Rightarrow>
        andthen (look h (\<lambda>_ d. Inr (find_authoritative_seal (at_id t) d))) (\<lambda>seal.
        if at_status t = RUNNING \<and> \<not> lease_recovered
        then andthen (decide AWAIT_EVALUATOR EVALUATING None) (\<lambda>x. reply (Inl x))
        else andthen (settle_evaluator h r t seal) (\<lambda>(t', blocker).
          andthen (evaluation_from_attempt h r t' blocker) (\<lambda>(evaluation, blocker'). case evaluation of
            Some e \<Rightarrow> reply (Inr e)
          | None \<Rightarrow> andthen (then_decide (move h (ex_id r) BLOCKED ''RECOVERY_EVALUATOR_INCOMPLETE''
                \<lparr>to_resume = Some EVALUATING, to_blocker = blocker', to_detail = None, to_fence = None\<rparr>)
              TERMINAL BLOCKED blocker') (\<lambda>x. reply (Inl x))))))"

definition resume_pass :: "host \<Rightarrow> execution_row \<Rightarrow> evaluation_row \<Rightarrow> bool \<Rightarrow> decision act" where
  "resume_pass h r e approval_required =
    andthen (development_approval h (ex_id r)) (\<lambda>found.
    if (case found of None \<Rightarrow> False | Some p \<Rightarrow> ap_consumed_at p \<noteq> None)
    then refuse ''RECOVERY_APPROVAL_ALREADY_CONSUMED''
    else if (case found of None \<Rightarrow> False | Some p \<Rightarrow> ap_status p = APPROVED) then
      andthen (case found of None \<Rightarrow> reply ()
        | Some p \<Rightarrow> validate_approval_binding h p r e (ex_state_version r - 1)) (\<lambda>_. accept_on h (ex_id r) found)
    else if approval_required then
      andthen (case found of None \<Rightarrow> reply ()
        | Some p \<Rightarrow> validate_approval_binding h p r e (ex_state_version r + 1)) (\<lambda>_.
      andthen (move h (ex_id r) WAITING_APPROVAL ''HUMAN_APPROVAL_REQUIRED''
        (no_options\<lparr>to_resume := Some EVALUATING\<rparr>)) (\<lambda>waiting.
      then_decide (ensure_approval h waiting e) WAIT_APPROVAL WAITING_APPROVAL None))
    else accept_on h (ex_id r) None)"

definition after_recovered_evaluation :: "host \<Rightarrow> execution_row \<Rightarrow> string \<Rightarrow> unit act" where
  "after_recovered_evaluation h r verdict =
    (if verdict \<in> {''REWORK_REQUIRED'', ''DESIGN_REVIEW_REQUIRED''} then after_evaluation h (ex_id r) r verdict
     else andthen (move h (ex_id r) BLOCKED verdict (blocked_by EVALUATING verdict)) (\<lambda>_. reply ()))"

definition resume_verdict :: "host \<Rightarrow> execution_row \<Rightarrow> evaluation_row \<Rightarrow> bool \<Rightarrow> decision act" where
  "resume_verdict h r e approval_required =
    (let verdict = er_verdict e in
     if verdict = ''PASS'' then resume_pass h r e approval_required
     else andthen (after_recovered_evaluation h r verdict) (\<lambda>_.
       andthen (read_execution h (ex_id r)) (\<lambda>current. decide TERMINAL (ex_state current) (Some verdict))))"

definition resume_evaluation :: "host \<Rightarrow> execution_row \<Rightarrow> bool \<Rightarrow> bool \<Rightarrow> decision act" where
  "resume_evaluation h r approval_required lease_recovered =
    andthen (look h (\<lambda>_ d. Inr (bound_evaluation r d))) (\<lambda>found. case found of
      Some e \<Rightarrow> andthen (stored_seal_verifies h e) (\<lambda>ok.
        if ok then resume_verdict h r e approval_required
        else then_decide (move h (ex_id r) BLOCKED ''RECOVERY_EVALUATOR_SEAL_INVALID'' (blocked_by EVALUATING ''BLOCKED_EVIDENCE''))
          TERMINAL BLOCKED (Some ''BLOCKED_EVIDENCE''))
    | None \<Rightarrow> andthen (recover_evaluation h r lease_recovered) (\<lambda>x. case x of
        Inl stop \<Rightarrow> reply stop
      | Inr e \<Rightarrow> resume_verdict h r e approval_required))"

section \<open>resume_once\<close>

definition resume_leased :: "host \<Rightarrow> execution_row \<Rightarrow> bool \<Rightarrow> bool \<Rightarrow> decision act" where
  "resume_leased h r lease_recovered approval_required =
    (case ex_state r of
       READY \<Rightarrow> decide SCHEDULE_MAKER READY None
     | REWORK_READY \<Rightarrow> decide SCHEDULE_MAKER REWORK_READY None
     | MAKER_RUNNING \<Rightarrow> resume_maker h r lease_recovered
     | VERIFYING \<Rightarrow> resume_verification h r
     | EVALUATING \<Rightarrow> resume_evaluation h r approval_required lease_recovered
     | WAITING_APPROVAL \<Rightarrow> resume_approval h r approval_required
     | _ \<Rightarrow> refuse ''RECOVERY_STATE_UNSUPPORTED'')"

definition resume_once :: "host \<Rightarrow> (string \<Rightarrow> unit act) option \<Rightarrow> string \<Rightarrow> bool \<Rightarrow> decision act" where
  "resume_once h projection i approval_required =
    andthen (read_execution h i) (\<lambda>r.
    if ex_state r = ACCEPTED then
      (case projection of None \<Rightarrow> decide ACCEPTED_ACTION ACCEPTED None
       | Some project \<Rightarrow> then_decide (project i) PROJECTED ACCEPTED None)
    else if ex_state r \<in> {CANCELLED, DESIGN_ESCALATION, BLOCKED} then decide TERMINAL (ex_state r) None
    else andthen (ensure_fence h i) (\<lambda>(leased, recovered). resume_leased h leased recovered approval_required))"

end
