(* ===== verification/Controller_Laws.thy ===== *)
theory Controller_Laws
  imports Recovery
begin

text \<open>
  What the controller and the recovery can do to the world: which Git commands they run, which
  calls of the store they make and under whose name. The laws are proved once for every policy
  that allows the reading commands (\<open>reader\<close>) and the calls of a recovery (\<open>recoverer\<close>), and then
  read off for the policies of the worktree compensation, of the recovery and of the whole
  controller.
\<close>

section \<open>Git commands\<close>

text \<open>The commands that change nothing in a repository.\<close>

inductive reads :: "git_command \<Rightarrow> bool" where
  "reads (Run_git (''cat-file'' # arguments))"
| "reads (Run_git (''rev-parse'' # arguments))"
| "reads (Run_git [''symbolic-ref'', ''--short'', ''-q'', ''HEAD''])"
| "reads (Run_git (''status'' # arguments))"
| "reads (Run_git (''for-each-ref'' # arguments))"
| "reads (Run_git (''check-ref-format'' # arguments))"
| "reads (Run_git (''show-ref'' # arguments))"
| "reads (Run_git (''ls-files'' # arguments))"
| "reads (Run_git [''diff'', ''--cached'', ''--quiet''])"
| "reads (Run_git [''worktree'', ''list'', ''--porcelain''])"
| "reads (Run_git [''branch'', ''--show-current''])"
| "reads (Candidate_git (''cat-file'' # arguments) input env)"
| "reads (Candidate_git (''rev-parse'' # arguments) input env)"
| "reads (Candidate_git (''rev-list'' # arguments) input env)"
| "reads (Candidate_git (''diff-tree'' # arguments) input env)"
| "reads (Candidate_git (''ls-tree'' # arguments) input env)"
| "reads (Candidate_git (''ls-files'' # arguments) input env)"
| "reads (Candidate_git (''diff'' # arguments) input env)"
| "reads (Candidate_git [''symbolic-ref'', ''--short'', ''-q'', ''HEAD''] input env)"
| "reads (Candidate_git [''symbolic-ref'', ''--short'', ''HEAD''] input env)"
| "reads (Candidate_git [''hash-object'', ''-t'', ''commit'', ''--stdin''] input env)"

text \<open>
  The commands the controller writes with: a new branch or worktree, the removal of a worktree
  that Git itself refuses when it is dirty, a reference moved or deleted only from the value it
  must still have, a commit, new objects, and an index, which is the candidate's own only for the
  tree of a plan.
\<close>

inductive gentle :: "git_command \<Rightarrow> bool" where
  gentle_reads: "reads a \<Longrightarrow> gentle a"
| "gentle (Run_git [''worktree'', ''add'', ''-b'', branch, target, base])"
| "gentle (Run_git [''worktree'', ''add'', target, branch])"
| "gentle (Run_git [''worktree'', ''remove'', target])"
| "gentle (Run_git [''branch'', branch, base])"
| "gentle (Run_git [''update-ref'', ''-d'', ref, old])"
| "gentle (Run_git [''add'', ''-A''])"
| "gentle (Run_git [''-c'', name, ''-c'', email, ''commit'', ''-m'', message])"
| "gentle (Candidate_git [''update-ref'', ''refs/heads/'' @ branch, commit, parent] None [])"
| "gentle (Candidate_git [''hash-object'', ''-w'', ''--stdin''] input [])"
| "gentle (Candidate_git [''hash-object'', ''-t'', ''commit'', ''-w'', ''--stdin''] input [])"
| "gentle (Candidate_git [''read-tree'', tree] None env)"
| "gentle (Candidate_git (''update-index'' # arguments) input [(''GIT_INDEX_FILE'', file)])"
| "gentle (Candidate_git [''write-tree''] None env)"

section \<open>Calls\<close>

text \<open>
  A call the controller makes under its own name: as the owner of the lease, as the actor that is
  logged and as the owner of the fence, wherever the call has one. Calls on the authority, on the
  global writer and on receipts are never its own.
\<close>

fun fence_of :: "string \<Rightarrow> candidate_fence option \<Rightarrow> bool" where
  "fence_of me None = True"
| "fence_of me (Some f) = (cf_owner f = me)"

fun signed :: "string \<Rightarrow> call \<Rightarrow> bool" where
  "signed me (CreateExecution x key) = True"
| "signed me (AcquireLease q) = (lq_owner q = me)"
| "signed me (Transition q) = (tq_owner q = me \<and> tq_actor_id q = me \<and> tq_actor_role q = CONTROLLER \<and> fence_of me (tq_fence q))"
| "signed me (RegisterResultCommit q) = (cq_owner q = me \<and> cq_actor_id q = me \<and> cq_actor_role q = CONTROLLER)"
| "signed me (ScheduleRework q) = (wq_owner q = me \<and> wq_actor_id q = me)"
| "signed me (RegisterContext q) = fence_of me (xq_fence q)"
| "signed me (RegisterVerification y) = True"
| "signed me (RegisterAttempt q) = fence_of me (nq_fence q)"
| "signed me (RequestApproval q) = (pq_owner q = me \<and> fence_of me (pq_fence q))"
| "signed me (ResolveApproval a i ref approved fence) = fence_of me fence"
| "signed me (AuthorizeHighRework q) = (hq_owner q = me \<and> hq_actor_id q = me)"
| "signed me (ScheduleHumanRework q) = (jq_owner q = me \<and> jq_actor_id q = me)"
| "signed me (AcceptExecution q) = (kq_owner q = me \<and> kq_actor_id q = me)"
| "signed me (ReconcileSlice q) = (sq_insert_only q \<and> sq_required_mode q = Some CONTROL_STORE_AUTHORITY)"
| "signed me (BindDeferred q) = (bq_actor_id q = me)"
| "signed me (FinalizeDeferred q) = (fq_owner q = me \<and> fq_actor_id q = me \<and> fq_actor_role q = CONTROLLER)"
| "signed me (ReleaseBinding q) = (gq_actor_id q = me)"
| "signed me (CreateSeal q) = (sq_owner q = me)"
| "signed me (FinishAttempt q) = (qf_owner q \<in> {None, Some me})"
| "signed me (RegisterEvaluation q) = (vq_owner q = Some me)"
| "signed me (BindCandidate q) = (cf_owner (bc_fence q) = me)"
| "signed me (RegisterCandidateVerification v f) = (cf_owner f = me)"
| "signed me (BeginCandidateAttempt q) = (cf_owner (qe_fence q) = me)"
| "signed me (RegisterCandidateEvaluation e f) = (cf_owner f = me)"
| "signed me (CreateCandidateSeal q) = (cf_owner (qs_fence q) = me)"
| "signed me (BindCandidateApproval q) = (cf_owner (qa_fence q) = me)"
| "signed me (PrepareCommit q plan) = (cf_owner (qc_fence q) = me)"
| "signed me (CloseCommit q answer) = (cf_owner (qc_fence q) = me)"
| "signed me _ = False"

text \<open>
  What a recovery may call: it takes the lease, moves the execution to a state that follows from
  stored evidence, and finishes what that evidence shows to be finished. An attempt it completes
  as a success only on a seal.
\<close>

fun recovers :: "call \<Rightarrow> bool" where
  "recovers (AcquireLease q) = True"
| "recovers (Transition q) = (tq_to_state q \<in> {BLOCKED, VERIFYING, EVALUATING, WAITING_APPROVAL, REWORK_READY, DESIGN_ESCALATION})"
| "recovers (RegisterResultCommit q) = True"
| "recovers (FinalizeDeferred q) = True"
| "recovers (FinishAttempt q) = (qf_status q = ''LOST'' \<or> qf_status q = ''SUCCEEDED'' \<and> qf_seal_id q \<noteq> None)"
| "recovers (RegisterEvaluation q) = True"
| "recovers (RequestApproval q) = (pq_approval_type q = ''DEVELOPMENT_ACCEPTANCE'')"
| "recovers (AcceptExecution q) = True"
| "recovers _ = False"

section \<open>Reading\<close>

text \<open>Case distinctions of the code, for the introduction rules.\<close>

lemma confined_cases [confines]:
  "(\<And>a. confined h K G (f a)) \<Longrightarrow> (\<And>b. confined h K G (g b)) \<Longrightarrow> confined h K G (case x of Inl a \<Rightarrow> f a | Inr b \<Rightarrow> g b)"
  "confined h K G m \<Longrightarrow> (\<And>y ys. confined h K G (f2 y ys)) \<Longrightarrow> confined h K G (case l of [] \<Rightarrow> m | y # ys \<Rightarrow> f2 y ys)"
  by (auto split: sum.split list.split)

text \<open>What an action answers, for continuations that rely on it.\<close>

definition gives :: "'a act \<Rightarrow> ('a \<Rightarrow> bool) \<Rightarrow> bool" where
  "gives m P \<longleftrightarrow> (\<forall>s x t. m s = (Inr x, t) \<longrightarrow> P x)"

lemma confined_gives:
  assumes m: "confined h K G m" and "gives m P" and f: "\<And>x. P x \<Longrightarrow> confined h K G (f x)"
  shows "confined h K G (andthen m f)"
  unfolding confined_def
proof
  fix s
  from m have here: "obeys (ho_julian h) K G s (snd (m s))" by (simp add: confined_def)
  show "obeys (ho_julian h) K G s (snd (andthen m f s))"
  proof (cases "m s")
    case (Pair x t)
    show ?thesis
    proof (cases x)
      case (Inr y)
      with Pair assms(2) have "P y" by (auto simp: gives_def)
      then have "obeys (ho_julian h) K G t (snd (f y t))" using f by (auto simp: confined_def)
      with here Pair Inr show ?thesis by (auto simp: andthen_def intro: obeys_trans)
    qed (use here Pair in \<open>simp add: andthen_def\<close>)
  qed
qed

lemma gives_andthen: "(\<And>x. gives (f x) P) \<Longrightarrow> gives (andthen m f) P"
  unfolding gives_def andthen_def by (auto split: prod.splits sum.splits)

lemma gives_reply: "P x \<Longrightarrow> gives (reply x) P" and gives_refuse: "gives (refuse code) P"
  by (simp_all add: gives_def reply_def refuse_def abort_def)

lemma current_fence_own: "gives (current_fence h i) (\<lambda>f. cf_owner f = ho_controller_id h)"
  unfolding current_fence_def
  by (auto intro!: gives_andthen gives_reply gives_refuse split: option.split prod.split simp: Let_def)

section \<open>Actions that only read\<close>

locale reader =
  fixes h :: host and K :: "call \<Rightarrow> bool" and G :: "git_command \<Rightarrow> bool"
  assumes reads_allowed: "reads a \<Longrightarrow> G a"
begin

text \<open>Worktrees.\<close>

lemma reading_paths [confines]:
  "confined h K G (worktree_target h name code)"
  "confined h K G (commit_exists h base)"
  "confined h K G (branch_ref h branch)"
  "confined h K G (common_dir h repo)"
  "confined h K G (registered_worktrees h)"
  "confined h K G (worktree_of h entry)"
  "confined h K G (base_reachable h base)"
  unfolding worktree_target_def commit_exists_def branch_ref_def common_dir_def registered_worktrees_def worktree_of_def base_reachable_def
  by (auto intro!: confines reads_allowed reads.intros simp: Let_def)

lemma reading_expected [confines]: "confined h K G (expected_bound_path h i)"
  unfolding expected_bound_path_def by (rule confines)

lemma reading_registered [confines]: "confined h K G (any_registered_at h target entries)"
  by (induction h target entries rule: any_registered_at.induct) (auto intro!: confines)

lemma reading_location [confines]:
  "confined h K G (bound_location h w)"
  "confined h K G (target_taken h target entries)"
  unfolding bound_location_def target_taken_def
  by (auto intro!: confines reads_allowed reads.intros simp: Let_def)

lemma reading_bound [confines]:
  "confined h K G (validate_bound h w e)"
  unfolding validate_bound_def
  by (auto intro!: confines reads_allowed reads.intros simp: Let_def)

lemma reading_reuse [confines]:
  "confined h K G (reuse_bound h i p branch e bc wc)"
  "confined h K G (validate_release_candidate h w)"
  unfolding reuse_bound_def validate_release_candidate_def
  by (auto intro!: confines reads_allowed reads.intros simp: Let_def)

lemma reading_evaluator_git:
  "reads (Run_git arguments) \<Longrightarrow> confined h K G (evaluator_git h repo arguments)"
  "reads (Run_git arguments) \<Longrightarrow> confined h K G (evaluator_git_text h repo arguments)"
  unfolding evaluator_git_text_def evaluator_git_def by (auto intro!: confines reads_allowed)

lemma reading_source [confines]: "confined h K G (source_hash h repo p)"
  unfolding source_hash_def by (auto intro!: confines split: file_answer.split)

lemma reading_capture [confines]: "confined h K G (capture_git_fingerprint h repo sources)"
  unfolding capture_git_fingerprint_def by (intro confines reading_evaluator_git reads.intros)

lemma reading_tracked [confines]: "confined h K G (tracked_files h root raws)"
  by (induction h root raws rule: tracked_files.induct) (auto intro!: confines)

lemma reading_fingerprint [confines]:
  "confined h K G (fingerprint h w)"
  unfolding fingerprint_def
  by (auto intro!: confines reads_allowed reads.intros simp: Let_def)

text \<open>Executions and slices.\<close>

lemma reading_rows [confines]:
  "confined h K G (key_for h kind kvs)"
  "confined h K G (digest_of h kvs)"
  "confined h K G (read_execution h i)"
  "confined h K G (registration_fields_ok g)"
  "confined h K G (registration_authority_ok h g)"
  "confined h K G (source_root_ok h x)"
  unfolding key_for_def digest_of_def read_execution_def registration_fields_ok_def registration_authority_ok_def source_root_ok_def
  by (auto intro!: confines reads_allowed reads.intros simp: Let_def)

lemma reading_slices [confines]:
  "confined h K G (inspect h i)"
  "confined h K G (registration_root_ok h g)"
  "confined h K G (known_binding h i)"
  unfolding inspect_def registration_root_ok_def known_binding_def
  by (auto intro!: confines reads_allowed reads.intros simp: Let_def split: controller_error.split store_error.split)

lemma reading_capsule [confines]:
  "confined h K G (validate_prebound_capsule h m k location commit)"
  "confined h K G (release_key h i slice v w reason auth b)"
  unfolding validate_prebound_capsule_def release_key_def Let_def
  by (intro confines reads_allowed reads.intros)+

lemma reading_binding [confines]:
  "confined h K G (reuse_binding h i b branch head)"
  "confined h K G (bound_worktree h i b)"
  unfolding reuse_binding_def bound_worktree_def
  by (auto intro!: confines reads_allowed reads.intros simp: Let_def split: option.split json.split)

lemma reading_rebind [confines]:
  "confined h K G (rebind_candidate h x b)"
  unfolding rebind_candidate_def Let_def
  by (intro confines reads_allowed reads.intros)+

text \<open>The Maker.\<close>

lemma reading_high [confines]:
  "confined h K G (known_commit r)"
  "confined h K G (high_rework_ref h r v)"
  "confined h K G (high_approval_named i ref p)"
  unfolding known_commit_def high_rework_ref_def high_approval_named_def Let_def
  by (intro confines reads_allowed reads.intros)+

lemma reading_authorization [confines]:
  "confined h K G (authorization_binds a r e)"
  unfolding authorization_binds_def
  by (auto intro!: confines reads_allowed reads.intros simp: Let_def split: option.split json.split)

lemma reading_high_binding [confines]:
  "confined h K G (high_rework_binding h i)"
  "confined h K G (validate_high_rework_schedule h r a)"
  unfolding high_rework_binding_def validate_high_rework_schedule_def Let_def
  by (intro confines reads_allowed reads.intros)+

lemma reading_maker [confines]:
  "confined h K G (prebound_context_ok h i b k)"
  "confined h K G (prebound_candidate h i r s k)"
  "confined h K G (maker_schedulable h r approval)"
  "confined h K G (maker_resume_state h r a)"
  "confined h K G (validate_artifact_directory h directory w)"
  unfolding prebound_context_ok_def prebound_candidate_def maker_schedulable_def maker_resume_state_def validate_artifact_directory_def Let_def
  by (intro confines reads_allowed reads.intros)+

text \<open>Evaluation.\<close>

lemma reading_wrapped [confines]:
  "confined h K G m \<Longrightarrow> confined h K G (as_controller m)"
  "confined h K G m \<Longrightarrow> confined h K G (seal_as_controller m)"
  unfolding as_controller_def seal_as_controller_def
  by (auto intro!: confines split: controller_error.split store_error.split)

lemma reading_evidence [confines]:
  "confined h K G (verified_pass h r)"
  "confined h K G (evaluation_record_for h r t verdict result ended)"
  "confined h K G (runner_agrees z0 v)"
  "confined h K G (sealed_record_ok h a seal v bundle)"
  "confined h K G (approval_ref h r version e)"
  "confined h K G (legacy_root h files)"
  "confined h K G (completion_record h t r z)"
  unfolding verified_pass_def evaluation_record_for_def runner_agrees_def sealed_record_ok_def approval_ref_def legacy_root_def completion_record_def Let_def
  by (auto intro!: confines reads_allowed reads.intros split: option.split list.split prod.split)

lemma reading_acceptance [confines]:
  "confined h K G (context_evidence h x)"
  "confined h K G (approval_evidence h approval)"
  "confined h K G (gather_evidence h r commit)"
  "confined h K G (pre_seal_files h a v root)"
  unfolding context_evidence_def approval_evidence_def gather_evidence_def pre_seal_files_def Let_def
  by (intro confines reads_allowed reads.intros)+

text \<open>Candidates.\<close>

lemma reading_links [confines]: "confined h K G (no_links h target names)"
  by (induction h target names rule: no_links.induct) (auto intro!: confines simp: Let_def)

lemma reading_candidate_path [confines]:
  "confined h K G (candidate_path raw)"
  "confined h K G (checked_entry e)"
  unfolding candidate_path_def checked_entry_def Let_def
  by (auto intro!: confines reads_allowed reads.intros split: sum.split store_error.split)

lemma reading_candidate_file [confines]:
  "confined h K G (candidate_file h repo p)"
  "confined h K G (present h p)"
  unfolding candidate_file_def present_def Let_def
  by (intro confines reads_allowed reads.intros)+

lemma reading_bytes [confines]:
  "confined h K G (worktree_bytes h p)"
  unfolding worktree_bytes_def Let_def
  by (auto intro!: confines reads_allowed reads.intros split: file_answer.split)

lemma reading_blob [confines]:
  "confined h K G (base_blob h w p)"
  unfolding base_blob_def Let_def
  by (intro confines reads_allowed reads.intros)+

lemma reading_materialize_path [confines]:
  "confined h K G (materialize_path h w raw)"
  "confined h K G (changed_paths h w)"
  "confined h K G (on_branch h w)"
  unfolding materialize_path_def changed_paths_def on_branch_def Let_def
  by (intro confines reads_allowed reads.intros)+

lemma reading_materialize [confines]:
  "confined h K G (materialize_uncommitted_candidate h w)"
  unfolding materialize_uncommitted_candidate_def Let_def
  by (intro confines reads_allowed reads.intros)+

lemma reading_parse [confines]:
  "confined h K G (handoff_changed)"
  "confined h K G (manifest_entries h b)"
  unfolding handoff_changed_def manifest_entries_def Let_def
  by (auto intro!: confines reads_allowed reads.intros split: json.split option.split)

lemma reading_tree [confines]:
  "confined h K G (tree_entry h repo commit p)"
  "confined h K G (committed_content h repo e new)"
  unfolding tree_entry_def committed_content_def Let_def
  by (intro confines reads_allowed reads.intros)+

lemma reading_committed [confines]:
  "confined h K G (committed_entry h repo parent commit e)"
  "confined h K G (committed_contents h repo commit b)"
  "confined h K G (verify_committed_candidate h repo commit b)"
  unfolding committed_entry_def committed_contents_def verify_committed_candidate_def Let_def
  by (intro confines reads_allowed reads.intros)+

text \<open>Fences and plans.\<close>

lemma reading_recall [confines]: "confined h K G (recall i)"
  by (simp add: confined_def recall_def obeys_refl)

lemma reading_fence [confines]:
  "confined h K G (check_fence h i f)"
  unfolding check_fence_def Let_def
  by (intro confines reads_allowed reads.intros)+

lemma reading_current_fence [confines]:
  "confined h K G (current_fence h i)"
  "confined h K G (materialize_bound h w b)"
  unfolding current_fence_def materialize_bound_def Let_def
  by (intro confines reads_allowed reads.intros)+

lemma reading_command [confines]:
  "confined h K G (command_artifact_ok h w channel raw expected)"
  unfolding command_artifact_ok_def
  by (auto intro!: confines reads_allowed reads.intros simp: Let_def split: json.split list.split)

lemma reading_commands [confines]:
  "confined h K G (verify_candidate_commands h w v)"
  unfolding verify_candidate_commands_def Let_def
  by (intro confines reads_allowed reads.intros)+

lemma reading_plan [confines]:
  "confined h K G (stored_entries b)"
  "confined h K G (plan_text plan k)"
  unfolding stored_entries_def plan_text_def Let_def
  by (auto intro!: confines reads_allowed reads.intros split: option.split json.split)

lemma reading_planned [confines]:
  "confined h K G (planned_object plan)"
  "confined h K G (entry_intact h w e)"
  "confined h K G (entry_kept h w e)"
  unfolding planned_object_def entry_intact_def entry_kept_def Let_def
  by (intro confines reads_allowed reads.intros)+

lemma reading_committed_plan [confines]:
  "confined h K G (committed_as_planned h w b plan expected_tree commit)"
  unfolding committed_as_planned_def Let_def
  by (intro confines reads_allowed reads.intros)+

text \<open>Recovery.\<close>

lemma reading_decisions [confines]:
  "confined h K G (decide a st detail)"
  unfolding decide_def Let_def
  by (intro confines reads_allowed reads.intros)+

lemma reading_then_decide [confines]: "confined h K G m \<Longrightarrow> confined h K G (then_decide m a st detail)"
  unfolding then_decide_def by (intro confines)

lemma reading_stored [confines]:
  "confined h K G (recovery_resume_state h r)"
  "confined h K G (candidate_commit_is_valid h t commit)"
  "confined h K G (requires_finalization h r)"
  "confined h K G (development_approval h i)"
  "confined h K G (validate_approval_binding h p r e version)"
  unfolding recovery_resume_state_def candidate_commit_is_valid_def requires_finalization_def development_approval_def validate_approval_binding_def Let_def
  by (intro confines reads_allowed reads.intros)+

lemma reading_bound_error [confines]:
  "confined h K G (bound_worktree_error h r commit)"
  "confined h K G (stored_seal_verifies h e)"
  unfolding bound_worktree_error_def stored_seal_verifies_def
  by (auto intro!: confines reads_allowed reads.intros simp: Let_def split: controller_error.split store_error.split option.split)

lemma reading_record [confines]:
  "confined h K G (rebuilt_record h r t)"
  "confined h K G (recoverable_record h r t)"
  unfolding rebuilt_record_def recoverable_record_def Let_def
  by (auto intro!: confines reads_allowed reads.intros split: option.split json.split prod.split)

end

section \<open>Calls of a recovery\<close>

lemmas recovery_options = no_options_def blocked_by_def finish_of_def

text \<open>The calls that the operations of the controller and the recovery share.\<close>

lemma confined_move:
  assumes "\<And>q. tq_to_state q = to \<Longrightarrow> signed (ho_controller_id h) (Transition q) \<Longrightarrow> K (Transition q)"
    and "fence_of (ho_controller_id h) (to_fence opts)"
  shows "confined h K G (move h i to reason opts)"
  unfolding move_def Let_def key_for_def read_execution_def
  by (intro confines assms(1)) (use assms(2) in \<open>simp_all add: transition_of_def\<close>)

locale recoverer = reader +
  assumes recovery_allowed: "signed (ho_controller_id h) k \<Longrightarrow> recovers k \<Longrightarrow> K k"
begin

lemma recovering_move [confines]:
  assumes "to \<in> {BLOCKED, VERIFYING, EVALUATING, WAITING_APPROVAL, REWORK_READY, DESIGN_ESCALATION}"
    and "fence_of (ho_controller_id h) (to_fence opts)"
  shows "confined h K G (move h i to reason opts)"
  by (rule confined_move [OF recovery_allowed assms(2)]) (use assms(1) in auto)

lemma recovering_finish [confines]:
  "qf_owner q \<in> {None, Some (ho_controller_id h)} \<Longrightarrow> qf_status q = ''LOST'' \<or> qf_status q = ''SUCCEEDED'' \<and> qf_seal_id q \<noteq> None
    \<Longrightarrow> confined h K G (finish_attempt h q)"
  unfolding finish_attempt_def by (intro confines recovery_allowed) auto

lemma recovering_requests [confines]:
  "confined h K G (ensure_fence h i)"
  "confined h K G (register_commit_of h i r commit)"
  "confined h K G (finalize_commit_of h i r s commit head)"
  "confined h K G (register_evaluation_of h r v)"
  "confined h K G (request_acceptance h a ref i waiting)"
  unfolding ensure_fence_def register_commit_of_def finalize_commit_of_def register_evaluation_of_def request_acceptance_def Let_def
  by (intro confines recovery_allowed | simp add: recovery_options)+

lemma recovering_finish_evaluator [confines]:
  "confined h K G (finish_evaluator h r a seal ended artifacts)"
  unfolding finish_evaluator_def Let_def
  by (intro confines recovery_allowed | simp add: recovery_options)+

lemma recovering_accept [confines]:
  "confined h K G (controller_accept h i approval)"
  unfolding controller_accept_def Let_def
  by (intro confines recovery_allowed | simp add: recovery_options)+

lemma recovering_after [confines]:
  "confined h K G (after_verification h i verdict)"
  "confined h K G (after_evaluation h i r verdict)"
  "confined h K G (block_maker_evidence h r detail)"
  "confined h K G (lose_maker h r t)"
  "confined h K G (ensure_approval h r e)"
  "confined h K G (accept_on h i p)"
  unfolding after_verification_def after_evaluation_def block_maker_evidence_def lose_maker_def ensure_approval_def accept_on_def Let_def
  by (intro confines recovery_allowed | simp add: recovery_options)+

lemma recovering_maker_result [confines]:
  "confined h K G (finalize_deferred_maker_result h r t s commit)"
  unfolding finalize_deferred_maker_result_def Let_def
  by (intro confines recovery_allowed | simp add: recovery_options)+

lemma recovering_bind [confines]:
  "confined h K G (bind_recovered_result h r t commit)"
  unfolding bind_recovered_result_def Let_def
  by (intro confines recovery_allowed | simp add: recovery_options)+

lemma recovering_finished [confines]:
  "confined h K G (resume_finished_maker h r t commit)"
  unfolding resume_finished_maker_def Let_def
  by (intro confines recovery_allowed | simp add: recovery_options)+

lemma recovering_maker [confines]:
  "confined h K G (resume_maker h r taken)"
  unfolding resume_maker_def Let_def
  by (intro confines recovery_allowed | simp add: recovery_options)+

lemma recovering_verification [confines]:
  "confined h K G (resume_verification h r)"
  unfolding resume_verification_def Let_def
  by (intro confines recovery_allowed | simp add: recovery_options)+

lemma recovering_approval [confines]:
  "confined h K G (resume_approval h r required)"
  unfolding resume_approval_def Let_def
  by (auto intro!: confines recovery_allowed simp: Let_def recovery_options split: option.split approval_status.split)

lemma recovering_seal [confines]:
  "confined h K G (seal_completes h r t s)"
  unfolding seal_completes_def Let_def
  by (auto intro!: confines recovery_allowed simp: Let_def split: controller_error.split store_error.split)

lemma recovering_settle [confines]:
  "confined h K G (settle_evaluator h r t seal)"
  unfolding settle_evaluator_def Let_def
  by (intro confines recovery_allowed | simp add: recovery_options)+

lemma recovering_attempt [confines]:
  "confined h K G (evaluation_from_attempt h r t blocker)"
  unfolding evaluation_from_attempt_def Let_def
  by (intro confines recovery_allowed | simp add: recovery_options)+

lemma recovering_evaluation [confines]:
  "confined h K G (recover_evaluation h r taken)"
  unfolding recover_evaluation_def Let_def
  by (intro confines recovery_allowed | simp add: recovery_options)+

lemma recovering_pass [confines]:
  "confined h K G (resume_pass h r e required)"
  "confined h K G (after_recovered_evaluation h r verdict)"
  unfolding resume_pass_def after_recovered_evaluation_def Let_def
  by (intro confines recovery_allowed | simp add: recovery_options)+

lemma recovering_verdict [confines]:
  "confined h K G (resume_verdict h r e required)"
  unfolding resume_verdict_def Let_def
  by (intro confines recovery_allowed | simp add: recovery_options)+

lemma recovering_resume_evaluation [confines]:
  "confined h K G (resume_evaluation h r required taken)"
  unfolding resume_evaluation_def Let_def
  by (intro confines recovery_allowed | simp add: recovery_options)+

lemma recovering_leased [confines]:
  "confined h K G (resume_leased h r taken required)"
  unfolding resume_leased_def Let_def
  by (auto intro!: confines recovery_allowed simp: Let_def split: exec_state.split)

lemma recovering_once:
  assumes "\<And>project i. projection = Some project \<Longrightarrow> confined h K G (project i)"
  shows "confined h K G (resume_once h projection i required)"
  unfolding resume_once_def by (auto intro!: confines simp: assms split: option.split)

end

section \<open>The policies\<close>

text \<open>A recovery reads Git and makes the calls of a recovery; the controller as a whole is gentle.\<close>

interpretation recovering: recoverer h "\<lambda>k. signed (ho_controller_id h) k \<and> recovers k" reads for h
  by unfold_locales simp_all

interpretation acting: recoverer h "signed (ho_controller_id h)" gentle for h
  by unfold_locales (simp_all add: gentle_reads)

text \<open>
  Undoing a worktree: besides reading, only the worktree at one of the given places and the branch
  are removed, each only if the record says it was created, and the branch only while it still is
  at the base commit.
\<close>

definition undoes :: "worktree \<Rightarrow> string set \<Rightarrow> git_command \<Rightarrow> bool" where
  "undoes w places a \<longleftrightarrow> reads a
     \<or> wt_worktree_created w \<and> (\<exists>p\<in>places. a = Run_git [''worktree'', ''remove'', p])
     \<or> wt_branch_created w \<and> a = Run_git [''update-ref'', ''-d'', ''refs/heads/'' @ wt_branch w, wt_base_commit w]"

interpretation undoing: reader h K "undoes w places" for h K w places
  by unfold_locales (simp add: undoes_def)

lemma branch_ref_names: "gives (branch_ref h branch) (\<lambda>ref. ref = ''refs/heads/'' @ branch)"
  unfolding branch_ref_def
  by (auto intro!: gives_andthen gives_reply gives_refuse split: prod.split)

lemma resolved_places: "gives (resolve_lenient h p) (\<lambda>q. \<exists>n. q = ho_lenient h n p)"
  by (auto simp: gives_def resolve_lenient_def)

lemma undoing_branch: "wt_branch_created w \<Longrightarrow> confined h K (undoes w places) (drop_branch h w)"
  unfolding drop_branch_def
  by (rule confined_gives [OF undoing.reading_paths(3) branch_ref_names])
    (auto intro!: confines reads.intros simp: undoes_def)

lemma undoing_compensation: "wt_path w \<in> places \<Longrightarrow> confined h K (undoes w places) (compensate_bound h w)"
  unfolding compensate_bound_def
  by (auto intro!: confines undoing_branch split: controller_error.split store_error.split simp: undoes_def)

lemma undoing_cleanup: "confined h K (undoes w {ho_lenient h n (wt_path w) | n. True}) (cleanup_released h w)"
  unfolding cleanup_released_def
  by (auto intro!: confines confined_gives [OF undoing.reading_paths(3) branch_ref_names]
    confined_gives [OF confined_question(7) resolved_places] reads.intros simp: undoes_def)

end
