(* ===== verification/Controller_Session.thy ===== *)
theory Controller_Session
  imports Controller_Laws
begin

text \<open>
  Sessions of a controller: the public operations of the controller and of the recovery as
  commands, and what every sequence of them does to the store and to Git.
\<close>

section \<open>Every operation is signed and gentle\<close>

lemmas acts = gentle.intros(2-) reads.intros [THEN gentle_reads]

lemma acting_move [confines]:
  "fence_of (ho_controller_id h) (to_fence opts) \<Longrightarrow> confined h (signed (ho_controller_id h)) gentle (move h i to reason opts)"
  by (rule confined_move)

lemma acting_finish [confines]:
  "qf_owner q \<in> {None, Some (ho_controller_id h)} \<Longrightarrow> confined h (signed (ho_controller_id h)) gentle (finish_attempt h q)"
  unfolding finish_attempt_def by (intro confines) auto

lemma confined_remember [confines]: "confined h K G (remember i a)"
  unfolding confined_def remember_def obeys_def by (simp add: exI [of _ "[]"])

text \<open>Worktrees.\<close>

lemma acting_worktrees [confines]:
  "confined h (signed (ho_controller_id h)) gentle (create_worktree h i base)"
  "confined h (signed (ho_controller_id h)) gentle (provision_branch h branch ref base allowed)"
  "confined h (signed (ho_controller_id h)) gentle (add_worktree h target branch ref base created)"
  unfolding create_worktree_def provision_branch_def add_worktree_def Let_def
  by (intro confines acts | simp add: recovery_options)+

lemma acting_compensate [confines]:
  "confined h (signed (ho_controller_id h)) gentle (drop_branch h w)"
  unfolding drop_branch_def Let_def
  by (intro confines acts | simp add: recovery_options)+

lemma acting_undo [confines]:
  "confined h (signed (ho_controller_id h)) gentle (compensate_bound h w)"
  "confined h (signed (ho_controller_id h)) gentle (cleanup_released h w)"
  unfolding compensate_bound_def cleanup_released_def Let_def
  by (auto intro!: confines acts simp: Let_def recovery_options split: controller_error.split store_error.split)

lemma acting_provision [confines]:
  "confined h (signed (ho_controller_id h)) gentle (provision_bound h i branch ref base target allowed)"
  unfolding provision_bound_def Let_def
  by (intro confines acts | simp add: recovery_options)+

lemma acting_prepare [confines]:
  "confined h (signed (ho_controller_id h)) gentle (prepare_bound h i branch base allowed)"
  "confined h (signed (ho_controller_id h)) gentle (create_candidate_commit h w before message)"
  unfolding prepare_bound_def create_candidate_commit_def Let_def
  by (intro confines acts | simp add: recovery_options)+

text \<open>Executions and slices.\<close>

lemma acting_executions [confines]:
  "confined h (signed (ho_controller_id h)) gentle (acquire_execution h i)"
  "confined h (signed (ho_controller_id h)) gentle (cancel h i)"
  "confined h (signed (ho_controller_id h)) gentle (controller_create h x)"
  "confined h (signed (ho_controller_id h)) gentle (bind_prepared h x v k packet w)"
  unfolding acquire_execution_def cancel_def controller_create_def bind_prepared_def Let_def
  by (intro confines acts | simp add: recovery_options)+

lemma acting_register [confines]:
  "confined h (signed (ho_controller_id h)) gentle (register_slice h g)"
  unfolding register_slice_def Let_def
  by (auto intro!: confines acts simp: Let_def recovery_options registered_target_def split: controller_error.split store_error.split)

lemma acting_bind [confines]:
  "confined h (signed (ho_controller_id h)) gentle (controller_bind_deferred h x v k packet provision)"
  unfolding controller_bind_deferred_def Let_def
  by (intro confines acts | simp add: recovery_options)+

lemma acting_cleanup [confines]:
  "confined h (signed (ho_controller_id h)) gentle (cleanup_report h w)"
  unfolding cleanup_report_def Let_def
  by (auto intro!: confines acts simp: Let_def recovery_options split: controller_error.split store_error.split)

lemma acting_release [confines]:
  "confined h (signed (ho_controller_id h)) gentle (release_prebound_execution h i slice v w reason auth)"
  unfolding release_prebound_execution_def Let_def
  by (intro confines acts | simp add: recovery_options)+

text \<open>The Maker.\<close>

lemma acting_high [confines]:
  "confined h (signed (ho_controller_id h)) gentle (request_high_rework_approval h i)"
  "confined h (signed (ho_controller_id h)) gentle (controller_authorize_high_rework h i a)"
  "confined h (signed (ho_controller_id h)) gentle (schedule_maker h i r approval)"
  "confined h (signed (ho_controller_id h)) gentle (fresh_candidate h i r k)"
  "confined h (signed (ho_controller_id h)) gentle (register_capsule h prefix i k None)"
  "confined h (signed (ho_controller_id h)) gentle (register_attempt_for h prefix kind i role context_id model effort base commit)"
  "confined h (signed (ho_controller_id h)) gentle (fail_maker h attempt code artifacts)"
  unfolding request_high_rework_approval_def controller_authorize_high_rework_def schedule_maker_def fresh_candidate_def register_capsule_def register_attempt_for_def fail_maker_def Let_def
  by (intro confines acts | simp add: recovery_options)+

lemma acting_workplace [confines]:
  "confined h (signed (ho_controller_id h)) gentle (maker_workplace h i r k)"
  "confined h (signed (ho_controller_id h)) gentle (begin_maker h i k model effort approval)"
  "confined h (signed (ho_controller_id h)) gentle (bind_result_commit h m commit)"
  unfolding maker_workplace_def begin_maker_def bind_result_commit_def Let_def
  by (intro confines acts | simp add: recovery_options)+

lemma acting_commit_failed [confines]:
  "confined h (signed (ho_controller_id h)) gentle (maker_commit_failed h m r artifacts e)"
  unfolding maker_commit_failed_def Let_def
  by (auto intro!: confines acts simp: Let_def recovery_options split: controller_error.split)

lemma acting_complete_maker [confines]:
  "confined h (signed (ho_controller_id h)) gentle (complete_maker h m message result)"
  "confined h (signed (ho_controller_id h)) gentle (record_verification h y)"
  unfolding complete_maker_def record_verification_def Let_def
  by (intro confines acts | simp add: recovery_options)+

lemma acting_run_maker [confines]:
  "confined h (signed (ho_controller_id h)) gentle (run_maker h i k z)"
  unfolding run_maker_def Let_def
  by (auto intro!: confines acts simp: Let_def recovery_options split: run_outcome.split)

text \<open>Evaluation.\<close>

lemma acting_begin_evaluator [confines]:
  "confined h (signed (ho_controller_id h)) gentle (begin_evaluator h i k model effort)"
  "confined h (signed (ho_controller_id h)) gentle (persist_seal h a sm)"
  "confined h (signed (ho_controller_id h)) gentle (wait_for_approval h i r e)"
  "confined h (signed (ho_controller_id h)) gentle (fail_evaluator h a code artifacts)"
  unfolding begin_evaluator_def persist_seal_def wait_for_approval_def fail_evaluator_def Let_def
  by (intro confines acts | simp add: recovery_options)+

lemma acting_seals [confines]:
  "confined h (signed (ho_controller_id h)) gentle (runner_seal h a phase root manifest)"
  unfolding runner_seal_def Let_def
  by (intro confines acts | simp add: recovery_options)+

lemma acting_pre_seal [confines]:
  "confined h (signed (ho_controller_id h)) gentle (create_pre_execution_seal h a v root)"
  unfolding create_pre_execution_seal_def Let_def
  by (auto intro!: confines acts simp: Let_def recovery_options split: controller_error.split store_error.split)

lemma acting_post_seal [confines]:
  "confined h (signed (ho_controller_id h)) gentle (create_post_execution_seal h a result root)"
  "confined h (signed (ho_controller_id h)) gentle (attest_legacy_evaluator_artifacts h a approval producer)"
  unfolding create_post_execution_seal_def attest_legacy_evaluator_artifacts_def Let_def
  by (intro confines acts | simp add: recovery_options)+

lemma acting_complete_evaluator [confines]:
  "confined h (signed (ho_controller_id h)) gentle (complete_evaluator h a z)"
  "confined h (signed (ho_controller_id h)) gentle (evaluator_directory h a base)"
  unfolding complete_evaluator_def evaluator_directory_def Let_def
  by (intro confines acts | simp add: recovery_options)+

lemma acting_sealed_run [confines]:
  "confined h (signed (ho_controller_id h)) gentle (sealed_run h a v root)"
  "confined h (signed (ho_controller_id h)) gentle (sealed_run_failed h a e)"
  unfolding sealed_run_def sealed_run_failed_def Let_def
  by (auto intro!: confines acts simp: Let_def recovery_options split: run_outcome.split controller_error.split)

lemma acting_run_evaluator [confines]:
  "confined h (signed (ho_controller_id h)) gentle (run_evaluator h i w k z)"
  "confined h (signed (ho_controller_id h)) gentle (controller_resolve_approval h i b approved)"
  unfolding run_evaluator_def controller_resolve_approval_def Let_def
  by (intro confines acts | simp add: recovery_options)+

lemma acting_rounds [confines]: "confined h (signed (ho_controller_id h)) gentle (advance_rounds h i n r)"
  by (induction h i n r rule: advance_rounds.induct) (auto intro!: confines simp: no_options_def)

lemma acting_advance [confines]:
  "confined h (signed (ho_controller_id h)) gentle (advance h i limit)"
  unfolding advance_def Let_def
  by (intro confines acts | simp add: recovery_options)+

section \<open>Candidates\<close>

text \<open>An operation on a candidate works under the fence it has just read, which names the controller.\<close>

lemma confined_fence:
  "(\<And>f. cf_owner f = ho_controller_id h \<Longrightarrow> confined h (signed (ho_controller_id h)) gentle (g f))
     \<Longrightarrow> confined h (signed (ho_controller_id h)) gentle (andthen (current_fence h i) g)"
  by (rule confined_gives [OF acting.reading_current_fence(1) current_fence_own])

lemma acting_move_candidate [confines]:
  "cf_owner f = ho_controller_id h \<Longrightarrow> confined h (signed (ho_controller_id h)) gentle (move_candidate h i to reason (Some f) opts)"
  "confined h (signed (ho_controller_id h)) gentle (move_candidate h i to reason None opts)"
proof -
  show "confined h (signed (ho_controller_id h)) gentle (move_candidate h i to reason (Some f) opts)"
    if "cf_owner f = ho_controller_id h"
    using that unfolding move_candidate_def by (auto simp: andthen_def reply_def confined_def [of _ _ _ "\<lambda>s. _ s"]
      intro!: acting_move [unfolded confined_def, rule_format])
  show "confined h (signed (ho_controller_id h)) gentle (move_candidate h i to reason None opts)"
    unfolding move_candidate_def by (simp, rule confined_fence, rule acting_move) simp
qed

lemma acting_register_capsule [confines]:
  "cf_owner f = ho_controller_id h \<Longrightarrow> confined h (signed (ho_controller_id h)) gentle (register_capsule h prefix i k (Some f))"
  unfolding register_capsule_def Let_def by (intro confines | simp)+

lemma acting_handoff [confines]:
  "confined h (signed (ho_controller_id h)) gentle (complete_maker_precommit h m result)"
  "confined h (signed (ho_controller_id h)) gentle (record_candidate_verification h w v)"
  unfolding complete_maker_precommit_def record_candidate_verification_def Let_def
  by (rule confined_fence confines acts | simp add: recovery_options)+

lemma acting_precommit_evaluator [confines]:
  "confined h (signed (ho_controller_id h)) gentle (begin_precommit_evaluator h i w k)"
  "confined h (signed (ho_controller_id h)) gentle (request_candidate_approval h e)"
  unfolding begin_precommit_evaluator_def request_candidate_approval_def Let_def
  by (rule confined_fence confines acts | simp add: recovery_options)+

lemma acting_precommit_completion [confines]:
  "confined h (signed (ho_controller_id h)) gentle (complete_precommit_evaluator h w e required)"
  "confined h (signed (ho_controller_id h)) gentle (seal_precommit_evaluator_artifacts h w a phase manifest digest directory)"
  "confined h (signed (ho_controller_id h)) gentle (resolve_precommit_approval h i b approved)"
  unfolding complete_precommit_evaluator_def seal_precommit_evaluator_artifacts_def resolve_precommit_approval_def Let_def
  by (rule confined_fence confines acts | simp add: recovery_options)+

text \<open>The two callbacks of the closure.\<close>

lemma confined_with_callback:
  assumes "\<And>d. confined (alone h) K G (callback d)" and "\<And>p. K (call p)"
  shows "confined h K G (with_callback h callback call answer)"
proof -
  have commit: "obeys j K G u (u\<lparr>mc_db := perform (ctx_at h n) (call p) (mc_db u), mc_trace := mc_trace u @ [Ours (ctx_at h n) (call p)]\<rparr>)"
    if "j = ho_julian h" for u n p j
    unfolding obeys_def using assms(2) that by (intro exI [of _ "[Ours (ctx_at h n) (call p)]"]) (simp add: ctx_at_def)
  show ?thesis
    unfolding confined_def
  proof
    fix s
    let ?u = "settle h s\<lparr>mc_tick := Suc (mc_tick s)\<rparr>"
    have before: "obeys (ho_julian h) K G s ?u" by (rule obeys_tick [OF obeys_settle])
    have here: "obeys (ho_julian h) K G ?u (snd (callback (mc_db (settle h s)) ?u))"
      using assms(1) by (auto simp: confined_def alone_def)
    have probed: "obeys (ho_julian h) K G s (?u\<lparr>mc_db := perform (ctx_at h n) (call p) (mc_db ?u),
        mc_trace := mc_trace ?u @ [Ours (ctx_at h n) (call p)]\<rparr>)" for n p
      by (rule obeys_trans [OF before commit]) simp
    show "obeys (ho_julian h) K G s (snd (with_callback h callback call answer s))"
    proof (cases "callback (mc_db (settle h s)) ?u")
      case (Pair x v)
      with here have "obeys (ho_julian h) K G s v" using obeys_trans [OF before] by simp
      with Pair show ?thesis
        unfolding with_callback_def Let_def
        using probed by (auto split: sum.split intro: obeys_trans [OF _ commit])
    qed
  qed
qed

lemma acting_stage [confines]: "confined h (signed (ho_controller_id h)) gentle (stage_entry h w f [(''GIT_INDEX_FILE'', file)] e)"
  unfolding stage_entry_def by (intro confines acts)

lemma acting_plan [confines]:
  "confined h (signed (ho_controller_id h)) gentle (staged_tree h w f b)"
  "confined h (signed (ho_controller_id h)) gentle (move_branch h w f b plan index_tree parent commit)"
  unfolding staged_tree_def move_branch_def Let_def
  by (intro confines acts | simp add: recovery_options)+

lemma acting_callbacks [confines]:
  "confined h (signed (ho_controller_id h)) gentle (prepare_git_plan h w b q message)"
  "confined h (signed (ho_controller_id h)) gentle (apply_git_plan h w f b plan)"
  unfolding prepare_git_plan_def apply_git_plan_def Let_def
  by (intro confines acts | simp add: recovery_options)+

lemma alone_id [simp]: "ho_controller_id (alone h) = ho_controller_id h"
  by (simp add: alone_def)

lemma acting_close [confines]: "confined h (signed (ho_controller_id h)) gentle (close_precommit_candidate h w candidate evaluation approval message)"
  unfolding close_precommit_candidate_def Let_def
  by (rule confined_fence confined_with_callback confines
    acting_callbacks [where h = "alone h" for h, unfolded alone_id] | simp)+

section \<open>Commands\<close>

text \<open>The operations a caller of the controller or of the recovery has, with their arguments.\<close>

datatype command =
    Acquire string
  | Inspect string
  | Register_slice slice_registration
  | Create execution_create
  | Bind_deferred execution_create int capsule string bool
  | Release_prebound string string int int string string
  | Cancel string
  | Request_high_rework string
  | Authorize_high_rework string approval_binding
  | Begin_maker string capsule "string option" "string option" "approval_binding option"
  | Complete_maker maker_run string "run_result option"
  | Run_maker string capsule maker_settings
  | Record_verification verification_record
  | Begin_evaluator string capsule "string option" "string option"
  | Attest_legacy string string string
  | Complete_evaluator string completion
  | Run_evaluator string worktree capsule evaluator_settings
  | Fail_evaluator string string "artifact_set option"
  | Resolve_approval string approval_binding bool
  | Accept string "approval_binding option"
  | Advance string int
  | Complete_precommit maker_run "run_result option"
  | Record_candidate_verification worktree candidate_verification_row
  | Begin_precommit_evaluator string worktree capsule
  | Complete_precommit_evaluator worktree candidate_evaluation_row bool
  | Seal_precommit worktree string seal_phase string string string
  | Resolve_precommit string approval_binding bool
  | Close_precommit worktree string string string string
  | Resume string bool

definition silently :: "'a act \<Rightarrow> unit act" where
  "silently m = andthen m (\<lambda>_. reply ())"

fun obey :: "host \<Rightarrow> command \<Rightarrow> unit act" where
  "obey h (Acquire i) = silently (acquire_execution h i)"
| "obey h (Inspect i) = silently (inspect h i)"
| "obey h (Register_slice g) = silently (register_slice h g)"
| "obey h (Create x) = silently (controller_create h x)"
| "obey h (Bind_deferred x v k packet provision) = silently (controller_bind_deferred h x v k packet provision)"
| "obey h (Release_prebound i slice v w reason auth) = silently (release_prebound_execution h i slice v w reason auth)"
| "obey h (Cancel i) = silently (cancel h i)"
| "obey h (Request_high_rework i) = silently (request_high_rework_approval h i)"
| "obey h (Authorize_high_rework i a) = silently (controller_authorize_high_rework h i a)"
| "obey h (Begin_maker i k model effort approval) = silently (begin_maker h i k model effort approval)"
| "obey h (Complete_maker m message result) = silently (complete_maker h m message result)"
| "obey h (Run_maker i k z) = silently (run_maker h i k z)"
| "obey h (Record_verification y) = silently (record_verification h y)"
| "obey h (Begin_evaluator i k model effort) = silently (begin_evaluator h i k model effort)"
| "obey h (Attest_legacy a approval producer) = silently (attest_legacy_evaluator_artifacts h a approval producer)"
| "obey h (Complete_evaluator a z) = silently (complete_evaluator h a z)"
| "obey h (Run_evaluator i w k z) = silently (run_evaluator h i w k z)"
| "obey h (Fail_evaluator a code artifacts) = fail_evaluator h a code artifacts"
| "obey h (Resolve_approval i b approved) = silently (controller_resolve_approval h i b approved)"
| "obey h (Accept i approval) = silently (controller_accept h i approval)"
| "obey h (Advance i limit) = silently (advance h i limit)"
| "obey h (Complete_precommit m result) = silently (complete_maker_precommit h m result)"
| "obey h (Record_candidate_verification w v) = silently (record_candidate_verification h w v)"
| "obey h (Begin_precommit_evaluator i w k) = silently (begin_precommit_evaluator h i w k)"
| "obey h (Complete_precommit_evaluator w e required) = silently (complete_precommit_evaluator h w e required)"
| "obey h (Seal_precommit w a phase manifest digest directory) =
     silently (seal_precommit_evaluator_artifacts h w a phase manifest digest directory)"
| "obey h (Resolve_precommit i b approved) = silently (resolve_precommit_approval h i b approved)"
| "obey h (Close_precommit w candidate evaluation approval message) =
     silently (close_precommit_candidate h w candidate evaluation approval message)"
| "obey h (Resume i required) = silently (resume_once h None i required)"

text \<open>A command that ends in an error ends alone: the next one starts on the machine it left.\<close>

definition session :: "host \<Rightarrow> command list \<Rightarrow> machine \<Rightarrow> machine" where
  "session h commands s = fold (\<lambda>k s. snd (obey h k s)) commands s"

lemma acting_silently [confines]: "confined h K G m \<Longrightarrow> confined h K G (silently m)"
  unfolding silently_def by (intro confines)

lemma acting_resume [confines]: "confined h (signed (ho_controller_id h)) gentle (resume_once h None i required)"
  by (rule acting.recovering_once) simp

lemma acting_obey: "confined h (signed (ho_controller_id h)) gentle (obey h k)"
  by (cases k) (simp_all add: confines)

lemma session_obeys: "obeys (ho_julian h) (signed (ho_controller_id h)) gentle s (session h commands s)"
proof (induction commands arbitrary: s)
  case (Cons k commands)
  have "obeys (ho_julian h) (signed (ho_controller_id h)) gentle s (snd (obey h k s))"
    using acting_obey by (simp add: confined_def)
  then show ?case using Cons.IH by (auto simp: session_def intro: obeys_trans)
qed (simp add: session_def obeys_refl)

end
