(* ===== verification/Session_Properties.thy ===== *)
theory Session_Properties
  imports Controller_Session Scenario
begin

text \<open>
  Properties of the controller and of the recovery as actions: they act on the store through its
  calls only, under their own name, a recovery makes only the moves of a recovery, and Git is
  written to gently and undone only as far as it was done.
\<close>

section \<open>A concrete host\<close>

text \<open>
  A host on which the demo life of an execution happens: tick \<open>n\<close> is second \<open>n\<close>, nobody else is
  around, Git succeeds silently and paths resolve to themselves.
\<close>

definition demo_host :: host where
  "demo_host = \<lparr>ho_controller_id = ''controller-1'', ho_source_root = ''/repo'', ho_worktree_root = ''/trees'',
     ho_julian = id, ho_sha = (\<lambda>_. demo_key 7), ho_ctx = demo_ctx, ho_others = (\<lambda>_. []),
     ho_git = (\<lambda>_ _ _. Exit 0 []), ho_exists = (\<lambda>_ _. True), ho_is_file = (\<lambda>_ _. True),
     ho_file = (\<lambda>_ _. Missing), ho_writes = (\<lambda>_ _. True), ho_detail = (\<lambda>_. []),
     ho_run = (\<lambda>_ _. Run_failed ''CODEX_FAILED'' None), ho_strict = (\<lambda>_ p. Some p), ho_lenient = (\<lambda>_ p. p)\<rparr>"

definition demo_machine :: "db \<Rightarrow> machine" where
  "demo_machine d = \<lparr>mc_db = d, mc_tick = 5, mc_authorizations = (\<lambda>_. None), mc_trace = []\<rparr>"

section \<open>The controller and the store\<close>

text \<open>
  C16. Whatever sequence of operations is asked of the controller and of the recovery, and whatever
  other clients, Git, the file system and the agents do meanwhile, the database they leave is that
  of a run of store calls: those of the others and the controller's own, in the order of the
  trace. The controller's own calls carry its own name as owner, actor and holder of the fence and
  never touch the authority, the global writer or the receipts. Its Git commands read, add, remove a clean
  worktree, commit, or move or delete a reference from the value it must still have.
\<close>

theorem session_refines_store:
  "\<exists>deeds. mc_trace (session h commands s) = mc_trace s @ deeds
     \<and> mc_db (session h commands s) = run (ho_julian h) (calls_of deeds) (mc_db s)
     \<and> list_all (own (signed (ho_controller_id h)) gentle) deeds"
  using session_obeys [of h s commands] unfolding obeys_def by blast

text \<open>
  C18. A recovery changes nothing but what stored evidence settles: its own calls take the lease,
  move the execution on to a state that is not one of work, bind a result commit, finish an
  attempt as lost or, on a seal, as succeeded, register an evaluation, ask for an approval or
  accept. It starts no work, resolves no approval, seals nothing, and runs only Git commands that
  read. The projection it calls at the end, when one is given, is assumed to leave the modelled machine
  as it is: it writes to its target only.
\<close>

theorem recovery_confined:
  assumes "\<And>project j t. projection = Some project \<Longrightarrow> snd (project j t) = t"
  shows "obeys (ho_julian h) (\<lambda>k. signed (ho_controller_id h) k \<and> recovers k) reads s
    (snd (resume_once h projection i required s))"
proof -
  have "confined h (\<lambda>k. signed (ho_controller_id h) k \<and> recovers k) reads (resume_once h projection i required)"
    by (rule recovering.recovering_once) (simp add: confined_def obeys_refl assms)
  then show ?thesis by (simp add: confined_def)
qed

theorem recovery_confined_witness:
  "obeys id (\<lambda>k. signed ''controller-1'' k \<and> recovers k) reads (demo_machine (demo_db VERIFYING 1))
     (snd (resume_once demo_host (Some (\<lambda>_. reply ())) ''x1'' True (demo_machine (demo_db VERIFYING 1))))"
proof -
  have names: "ho_julian demo_host = id" "ho_controller_id demo_host = ''controller-1''"
    by (simp_all add: demo_host_def)
  have "obeys (ho_julian demo_host) (\<lambda>k. signed (ho_controller_id demo_host) k \<and> recovers k) reads
      (demo_machine (demo_db VERIFYING 1))
      (snd (resume_once demo_host (Some (\<lambda>_. reply ())) ''x1'' True (demo_machine (demo_db VERIFYING 1))))"
    by (rule recovery_confined) (auto simp: reply_def)
  then show ?thesis unfolding names .
qed

text \<open>
  C19. What the orchestrator undoes it has done: the compensation of a binding and the clean-up of
  a released one call the store not at all and, besides reading, run no Git command but the removal of a worktree that was
  created, at its own place, and the deletion of a branch that was created, from the base commit.
\<close>

theorem undone_only_as_created:
  "obeys (ho_julian h) (\<lambda>_. False) (undoes w {wt_path w}) s (snd (compensate_bound h w s))
   \<and> obeys (ho_julian h) (\<lambda>_. False) (undoes w {ho_lenient h n (wt_path w) | n. True}) s (snd (cleanup_released h w s))"
  using undoing_compensation [of w "{wt_path w}" h "\<lambda>_. False"] undoing_cleanup [of h "\<lambda>_. False" w]
  by (simp_all add: confined_def)

end
