(* ===== verification/Commit_Properties.thy ===== *)
theory Commit_Properties
  imports Session_Properties
begin

text \<open>
  What the commit of a closed candidate carries: the serialisation of a candidate determines its
  paths and bytes, and a commit is only handed to the closure once Git's answers about it
  serialise to the digest of the candidate.
\<close>

section \<open>The serialisation determines the candidate\<close>

lemma digits_determine:
  assumes "\<And>k. k < m \<Longrightarrow> n div 256 ^ k mod 256 = (n' div 256 ^ k mod 256 :: nat)"
  shows "n mod 256 ^ m = n' mod 256 ^ m"
  using assms
proof (induction m)
  case (Suc m)
  have "n mod 256 ^ m = n' mod 256 ^ m" using Suc by simp
  moreover have "n div 256 ^ m mod 256 = n' div 256 ^ m mod 256" using Suc.prems by simp
  moreover have "256 ^ Suc m = 256 ^ m * (256 :: nat)" by simp
  ultimately show ?case by (simp only: mod_mult2_eq)
qed simp

lemma be64_determines:
  assumes "be64 n = be64 n'" and "n < 2 ^ 64" and "n' < 2 ^ 64"
  shows "n = n'"
proof -
  have "n div 256 ^ k mod 256 = n' div 256 ^ k mod 256" if "k < 8" for k
  proof -
    have "\<forall>k\<in>set [7, 6, 5, 4, 3, 2, 1, 0]. (char_of (n div 256 ^ k mod 256) :: char) = char_of (n' div 256 ^ k mod 256)"
      using assms(1) unfolding be64_def map_eq_conv .
    moreover have "k \<in> set [7, 6, 5, 4, 3, 2, 1, 0]" using that by auto
    ultimately have "(char_of (n div 256 ^ k mod 256) :: char) = char_of (n' div 256 ^ k mod 256)" by blast
    then have "(of_char (char_of (n div 256 ^ k mod 256) :: char) :: nat) = of_char (char_of (n' div 256 ^ k mod 256) :: char)"
      by simp
    then show ?thesis by (simp only: of_char_of) simp
  qed
  from digits_determine [of 8, OF this] assms(2,3) show ?thesis by simp
qed

definition short_text :: "string \<Rightarrow> bool" where
  "short_text s \<longleftrightarrow> length s < 2 ^ 64"

lemma framed_determines:
  assumes "framed tag s @ x = framed tag s' @ y" and "short_text s" and "short_text s'"
  shows "s = s' \<and> x = y"
proof -
  from assms(1) have eq: "be64 (length s) @ s @ x = be64 (length s') @ s' @ y" by (simp add: framed_def)
  have len: "length (be64 n) = 8" for n by (simp add: be64_def)
  from eq have "be64 (length s) = be64 (length s')" and rest: "s @ x = s' @ y"
    by (simp_all add: len append_eq_append_conv)
  from be64_determines [OF this(1)] assms(2,3) have "length s = length s'" by (simp add: short_text_def)
  with rest show ?thesis by simp
qed

definition short_contents :: "(string \<times> string) list \<Rightarrow> bool" where
  "short_contents xs \<longleftrightarrow> list_all (\<lambda>(p, x). short_text p \<and> short_text x) xs"

lemma sections_determine:
  assumes "concat (map (\<lambda>(p, x). framed ''PATH'' p @ framed ''CONTENT'' x) xs)
      = concat (map (\<lambda>(p, x). framed ''PATH'' p @ framed ''CONTENT'' x) ys)"
    and "short_contents xs" and "short_contents ys"
  shows "xs = ys"
  using assms
proof (induction xs arbitrary: ys)
  case Nil
  then show ?case by (cases ys) (auto simp: framed_def)
next
  case (Cons a xs)
  obtain p x where a: "a = (p, x)" by (cases a)
  from Cons.prems(1) obtain b ys' where ys: "ys = b # ys'" by (cases ys) (auto simp: a framed_def)
  obtain q y where b: "b = (q, y)" by (cases b)
  have short: "short_text p" "short_text x" "short_text q" "short_text y" "short_contents xs" "short_contents ys'"
    using Cons.prems(2,3) by (auto simp: a b ys short_contents_def)
  from Cons.prems(1) have "framed ''PATH'' p @ (framed ''CONTENT'' x @ concat (map (\<lambda>(p, x). framed ''PATH'' p @ framed ''CONTENT'' x) xs))
      = framed ''PATH'' q @ (framed ''CONTENT'' y @ concat (map (\<lambda>(p, x). framed ''PATH'' p @ framed ''CONTENT'' x) ys'))"
    by (simp add: a b ys)
  from framed_determines [OF this short(1,3)] have p: "p = q"
    and "framed ''CONTENT'' x @ concat (map (\<lambda>(p, x). framed ''PATH'' p @ framed ''CONTENT'' x) xs)
      = framed ''CONTENT'' y @ concat (map (\<lambda>(p, x). framed ''PATH'' p @ framed ''CONTENT'' x) ys')"
    by simp_all
  from framed_determines [OF this(2) short(2,4)] have "x = y"
    and "concat (map (\<lambda>(p, x). framed ''PATH'' p @ framed ''CONTENT'' x) xs)
      = concat (map (\<lambda>(p, x). framed ''PATH'' p @ framed ''CONTENT'' x) ys')" by simp_all
  with Cons.IH [OF this(2) short(5,6)] p show ?case by (simp add: a b ys)
qed

lemma aggregate_determines:
  assumes "aggregate base xs = aggregate base' ys" and "short_text base" "short_text base'"
    and "short_contents xs" "short_contents ys"
  shows "base = base' \<and> xs = ys"
proof -
  from assms(1) have "framed ''BASE_HEAD'' base @ concat (map (\<lambda>(p, x). framed ''PATH'' p @ framed ''CONTENT'' x) xs)
      = framed ''BASE_HEAD'' base' @ concat (map (\<lambda>(p, x). framed ''PATH'' p @ framed ''CONTENT'' x) ys)"
    by (simp add: aggregate_def)
  from framed_determines [OF this assms(2,3)] sections_determine [OF _ assms(4,5)] show ?thesis by simp
qed

section \<open>The commit of a closure\<close>

lemma andthen_Inr: "andthen m f s = (Inr y, t) \<longleftrightarrow> (\<exists>x u. m s = (Inr x, u) \<and> f x u = (Inr y, t))"
  by (auto simp: andthen_def split: prod.split sum.split)

lemma still_Inr [simp]:
  "reply x s = (Inr y, t) \<longleftrightarrow> y = x \<and> t = s" "\<not> refuse code s = (Inr y, t)" "\<not> abort e s = (Inr y, t)"
  "\<not> handoff_changed s = (Inr y, t)"
  by (auto simp: reply_def refuse_def abort_def handoff_changed_def)

lemma if_Inr: "(if b then m else n) s = (Inr y, t) \<longleftrightarrow> (if b then m s = (Inr y, t) else n s = (Inr y, t))"
  by simp

lemmas returned = andthen_Inr if_Inr

lemma materialized:
  assumes "materialize_uncommitted_candidate h w s = (Inr b, s')"
  shows "\<exists>repository items. b = content_binding h w repository items"
  using assms unfolding materialize_uncommitted_candidate_def by (auto simp: returned split: if_splits)

lemma verified_contents:
  assumes "verify_committed_candidate h repo commit b s = (Inr (), s')"
  shows "\<exists>parent contents u. committed_contents h repo commit b s = (Inr (parent, contents), u)
    \<and> ho_sha h (aggregate parent contents) = cb_content_sha256 b"
  using assms unfolding verify_committed_candidate_def by (auto simp: returned split: if_splits prod.splits)

lemma planned_text: "plan_text plan k s = (Inr x, t) \<Longrightarrow> map_of plan k = Some (JStr x) \<and> t = s"
  unfolding plan_text_def by (auto split: option.splits json.splits)

lemma applied_verified:
  assumes "apply_git_plan h w f b plan s = (Inr commit, s')"
  shows "map_of plan ''result_commit'' = Some (JStr commit)
    \<and> (\<exists>u u'. verify_committed_candidate h (wt_path w) commit b u = (Inr (), u'))"
  using assms unfolding apply_git_plan_def committed_as_planned_def Let_def
  by (auto simp: returned split: if_splits dest!: planned_text)

text \<open>The manifest of a candidate reads back to its entries, for the verification and for the closure.\<close>

lemma entry_round_trip: "entry_of_json (canon (manifest_entry_json e)) = Some e"
proof -
  have "opt_int_of (canon (json_int_opt n)) = Some n" "opt_text_of (canon (json_opt x)) = Some x" for n x
    by (cases n; simp) (cases x; simp)
  then show ?thesis
    by (simp add: manifest_entry_json_def sort_key_def insort_key_def dict_get_def)
qed

lemma plain_manifest_entry: "plain (manifest_entry_json e)"
proof -
  have "plain (json_int_opt n)" "plain (json_opt x)" for n x
    by (cases n; simp) (cases x; simp)
  then show ?thesis by (simp add: manifest_entry_json_def)
qed

lemma plain_manifest: "plain (candidate_manifest repository parent entries digest)"
  by (auto simp: candidate_manifest_def plain_manifest_entry list_all_iff)

lemma manifest_member: "member ''entries'' (canon (candidate_manifest repository parent entries digest))
    = Some (JList (map (canon \<circ> manifest_entry_json) entries))"
  by (simp add: candidate_manifest_def sort_key_def insort_key_def)

lemma those_entries: "those (map entry_of_json (map (canon \<circ> manifest_entry_json) entries)) = Some entries"
  by (induction entries) (simp_all add: entry_round_trip)

lemma manifest_round_trip:
  "manifest_entries h (content_binding h w repository items) s = (Inr (map fst items), s)"
  "stored_entries (content_binding h w repository items) s = (Inr (map fst items), s)"
proof -
  define digest where "digest = ho_sha h (aggregate (wt_base_commit w) (map (\<lambda>(e, content). (path e, content)) items))"
  define m where "m = candidate_manifest repository (wt_base_commit w) (map fst items) digest"
  have b: "cb_manifest_json (content_binding h w repository items) = dumps m"
    "cb_manifest_sha256 (content_binding h w repository items) = ho_sha h (dumps m)"
    by (simp_all add: content_binding_def m_def digest_def Let_def)
  have m: "plain m" by (simp add: m_def plain_manifest)
  have parsed: "parsed_text (dumps m) = Inr (canon m)" by (simp add: parsed_text_def loads_dumps [OF m] of_option_def)
  have printed: "canonical_json (json_to_py (canon m)) = Inr (dumps m)"
    by (simp add: canonical_json_json_to_py plain_canon m dumps_canon)
  note member = manifest_member [of repository "wt_base_commit w" "map fst items" digest, folded m_def]
  note evaluate = b parsed printed member those_entries andthen_def lift_def reply_def
  show "manifest_entries h (content_binding h w repository items) s = (Inr (map fst items), s)"
    by (simp only: manifest_entries_def evaluate sum.case prod.case json.case option.case if_True if_False refl simp_thms)
  show "stored_entries (content_binding h w repository items) s = (Inr (map fst items), s)"
    by (simp only: stored_entries_def evaluate sum.case prod.case json.case option.case)
qed

definition contents_of :: "(manifest_entry \<times> string) list \<Rightarrow> (string \<times> string) list" where
  "contents_of items = map (\<lambda>(e, x). (path e, x)) items"

definition collision :: "(string \<Rightarrow> string) \<Rightarrow> string \<Rightarrow> string \<Rightarrow> bool" where
  "collision f x y \<longleftrightarrow> x \<noteq> y \<and> f x = f y"

section \<open>A closure that goes through\<close>

text \<open>
  A host on which a candidate that deletes one file is left in \<open>/t\<close> and its commit has been made in
  \<open>/v\<close>: the answers depend on the repository and the command only.
\<close>

definition demo_oid :: string where "demo_oid = replicate 40 (CHR ''a'')"
definition demo_closed :: string where "demo_closed = replicate 40 (CHR ''d'')"

definition demo_git :: "string \<Rightarrow> git_command \<Rightarrow> git_answer" where
  "demo_git repo a = (case a of
     Candidate_git args _ _ \<Rightarrow>
       let command = hd args; blob = ''100644 blob '' @ demo_oid @ [CHR 0x09] @ ''a'' in
       if command = ''rev-parse'' then Exit 0 (if args ! 1 \<noteq> ''HEAD'' then ''t'' else if repo = ''/t'' then demo_commit else demo_closed)
       else if command = ''symbolic-ref'' then Exit 0 ''main''
       else if command = ''diff'' \<and> repo = ''/t'' \<or> command = ''diff-tree'' then Exit 0 (''a'' @ [CHR 0x00])
       else if command = ''ls-tree'' then Exit 0 (if args ! 2 = demo_commit then blob else [])
       else if command = ''rev-list'' then Exit 0 (demo_closed @ '' '' @ demo_commit)
       else if command = ''write-tree'' then Exit 0 ''t''
       else if command \<in> {''diff'', ''ls-files'', ''cat-file''} then Exit 0 []
       else Exit 1 []
   | Run_git _ \<Rightarrow> Exit 1 [])"

definition git_host :: host where
  "git_host = demo_host\<lparr>ho_ctx := (\<lambda>_. demo_ctx 5), ho_git := (\<lambda>_. demo_git), ho_exists := (\<lambda>_ _. False)\<rparr>"

definition demo_tree :: "string \<Rightarrow> worktree" where
  "demo_tree p = \<lparr>wt_execution_id = ''x1'', wt_path = p, wt_branch = ''main'', wt_base_commit = demo_commit,
     wt_branch_created = True, wt_worktree_created = True\<rparr>"

definition demo_deletion :: "(manifest_entry \<times> string) list" where
  "demo_deletion = [(\<lparr>operation = ''D'', path = ''a'', mode = ''100644'', byte_length = None, content_sha256 = None,
     base_object_id = Some demo_oid\<rparr>, [])]"

definition demo_left :: candidate_binding_row where
  "demo_left = content_binding git_host (demo_tree ''/t'') ''/repo'' demo_deletion"

definition demo_fence :: candidate_fence where
  "demo_fence = \<lparr>cf_execution_id = ''x1'', cf_expected_version = 4, cf_owner = ''controller-1'',
     cf_generation = 1, cf_authority_generation = 0, cf_contract_fingerprint = demo_key 1,
     cf_authority_fingerprint = demo_key 2\<rparr>"

definition closing_plan :: "(string \<times> json) list" where
  "closing_plan = [(''execution_id'', JStr ''x1''), (''candidate_id'', JStr (cb_id demo_left)),
     (''repository_identity'', JStr ''/repo''), (''worktree_identity'', JStr ''/v''), (''branch'', JStr ''main''),
     (''expected_parent'', JStr demo_commit), (''manifest_sha256'', JStr (demo_key 7)),
     (''candidate_content_sha256'', JStr (demo_key 7)), (''result_commit'', JStr demo_closed),
     (''base_tree'', JStr ''t''), (''expected_tree'', JStr ''t''), (''commit_object_hex'', JStr [])]"

text \<open>What an action answers on this host, from any machine on the demo database.\<close>

definition answers :: "'a act \<Rightarrow> 'a \<Rightarrow> bool" where
  "answers m x \<longleftrightarrow> (\<forall>s. mc_db s = demo_db WAITING_APPROVAL 4
     \<longrightarrow> (\<exists>t. m s = (Inr x, t) \<and> mc_db t = demo_db WAITING_APPROVAL 4))"

lemma answers_andthen: "answers m x \<Longrightarrow> answers (f x) y \<Longrightarrow> answers (andthen m f) y"
  unfolding answers_def andthen_def by fastforce

lemma answers_reply: "answers (reply x) x" and answers_lift: "answers (lift (Inr x)) x"
  by (simp_all add: answers_def reply_def lift_def)

lemma answers_still:
  "answers (stat git_host p) Missing" "answers (exists git_host p) False"
  "answers (resolve_strict git_host p) p" "answers (resolve_lenient git_host p) p"
  by (simp_all add: answers_def stat_def exists_def resolve_strict_def resolve_lenient_def git_host_def demo_host_def)

lemma answers_git: "demo_git repo a = Exit code out \<Longrightarrow> answers (git git_host repo a) (code, out)"
  by (simp add: answers_def git_def git_host_def)

lemma answers_candidate: "demo_git repo (Candidate_git args input env) = Exit 0 out
    \<Longrightarrow> answers (candidate_git git_host repo args input env) out"
  unfolding candidate_git_def by (rule answers_andthen [OF answers_git], assumption) (simp add: answers_reply)

lemma answers_decode: "utf8_valid out \<and> surrogate_free out \<Longrightarrow> answers (decode out) out"
  by (simp add: decode_def answers_reply)

lemma answers_line: "demo_git repo (Candidate_git args input []) = Exit 0 out \<Longrightarrow> utf8_valid out \<and> surrogate_free out
    \<Longrightarrow> strip out = y \<Longrightarrow> answers (candidate_line git_host repo args input) y"
  unfolding candidate_line_def
  by (rule answers_andthen [OF answers_candidate], assumption) (auto intro: answers_andthen [OF answers_decode] answers_reply)

lemma answers_fence: "answers (check_fence git_host ''x1'' demo_fence) ()"
proof -
  have "get_execution ''x1'' (demo_db WAITING_APPROVAL 4) = Inr (demo_row WAITING_APPROVAL 4)"
    "get_authority (demo_db WAITING_APPROVAL 4) = Inr initial_authority"
    by (simp add: get_execution_def) (simp add: get_authority_def demo_db_def initial_db_def)
  moreover have "clock (ctx_at git_host n) 1 = seconds 5" for n by (simp add: ctx_at_def git_host_def)
  moreover have "ex_contract_fingerprint (demo_row WAITING_APPROVAL 4) = demo_key 1"
    "ex_authority_fingerprint (demo_row WAITING_APPROVAL 4) = demo_key 2" "au_generation initial_authority = 0"
    by (simp_all add: demo_row_def created_execution_def demo_create_def initial_authority_def)
  ultimately have "require_candidate_fence (ctx_at git_host n) 1 ''x1'' demo_fence True (demo_db WAITING_APPROVAL 4)
      = Inr (demo_row WAITING_APPROVAL 4)" for n
    by (simp add: require_candidate_fence_def demo_fence_def require_fence_def seconds_def)
  then show ?thesis
    unfolding check_fence_def
    by (auto simp: answers_def andthen_def look_def settle_def Let_def reply_def) (simp add: git_host_def demo_host_def)
qed

lemma answers_if: "b \<Longrightarrow> answers m x \<Longrightarrow> answers (if b then m else n) x" "\<not> b \<Longrightarrow> answers n x \<Longrightarrow> answers (if b then m else n) x"
  by simp_all

lemma answers_with: "y = x \<Longrightarrow> answers (reply y) x"
  by (simp add: answers_reply)

lemma tree_path: "wt_path (demo_tree p) = p" "wt_base_commit (demo_tree p) = demo_commit"
    "wt_execution_id (demo_tree p) = ''x1''" "wt_branch (demo_tree p) = ''main''"
  by (simp_all add: demo_tree_def)

lemmas demo_tree_simps = worktree.simps demo_tree_def

definition demo_blob :: string where
  "demo_blob = ''100644 blob '' @ demo_oid @ [CHR 0x09] @ ''a''"

lemma git_answers:
  "demo_git ''/t'' (Candidate_git [''rev-parse'', ''HEAD''] i e) = Exit 0 demo_commit"
  "demo_git r (Candidate_git [''symbolic-ref'', ''--short'', ''-q'', ''HEAD''] i e) = Exit 0 ''main''"
  "demo_git ''/t'' (Candidate_git [''diff'', ''--name-only'', ''-z'', demo_commit, ''--''] i e) = Exit 0 (''a'' @ [CHR 0x00])"
  "demo_git r (Candidate_git [''ls-files'', ''--others'', ''--exclude-standard'', ''-z''] i e) = Exit 0 []"
  "demo_git r (Candidate_git [''ls-tree'', ''-z'', demo_commit, ''--'', q] i e) = Exit 0 demo_blob"
  by (simp_all add: demo_git_def demo_blob_def)

lemma text_facts:
  "strip demo_commit = demo_commit" "strip ''main'' = ''main''" "strip demo_closed = demo_closed" "strip ''t'' = ''t''"
  "utf8_valid demo_commit \<and> surrogate_free demo_commit" "utf8_valid ''main'' \<and> surrogate_free ''main''"
  "utf8_valid demo_closed \<and> surrogate_free demo_closed" "utf8_valid ''t'' \<and> surrogate_free ''t''"
  by code_simp+

lemma answers_case: "answers (f a b) x \<Longrightarrow> answers (case (a, b) of (a, b) \<Rightarrow> f a b) x"
  by simp

lemmas evaluations = answers_andthen answers_line answers_candidate answers_decode answers_git answers_case
  answers_still answers_fence git_answers text_facts

lemma answers_on_branch: "answers (on_branch git_host (demo_tree ''/t'')) ()"
  unfolding on_branch_def demo_tree_simps
  by (rule evaluations answers_if(2) answers_reply | simp)+

lemma answers_changed: "answers (changed_paths git_host (demo_tree ''/t'')) [''a'']"
  unfolding changed_paths_def demo_tree_simps
  by (rule evaluations answers_with | code_simp)+

lemma answers_path: "answers (candidate_path ''a'') ''a''"
proof -
  have "validate_manifest_entry \<lparr>operation = ''A'', path = ''a'', mode = ''100644'', byte_length = Some 0,
      content_sha256 = Some (replicate 64 (CHR ''0'')), base_object_id = None\<rparr> = Inr ()" by code_simp
  moreover have "utf8_valid ''a'' \<and> surrogate_free ''a''" by code_simp
  ultimately show ?thesis by (simp add: candidate_path_def starts_with_def answers_reply)
qed

lemma answers_file: "answers (candidate_file git_host ''/t'' ''a'') ''/t/a''"
proof -
  have "butlast (parts (path_of ''a'')) = []" by code_simp
  moreover have "join_path ''/t'' ''a'' = ''/t/a''" by code_simp
  ultimately show ?thesis
    unfolding candidate_file_def by (auto intro!: answers_andthen answers_path answers_with)
qed

lemma answers_absent: "answers (present git_host p) False"
  unfolding present_def by (rule evaluations answers_if(2) answers_with | simp add: is_link_def)+

lemma answers_blob: "answers (base_blob git_host (demo_tree ''/t'') ''a'') (Some (''100644'', demo_oid))"
proof -
  have "split_on (CHR '' '') (before_tab demo_blob) = [''100644'', ''blob'', demo_oid]" by code_simp
  moreover have "demo_blob \<noteq> []" by (simp add: demo_blob_def)
  ultimately have "answers (if demo_blob = [] then reply None
      else case split_on (CHR '' '') (before_tab demo_blob) of
        [m, kind, oid] \<Rightarrow> if kind = ''blob'' then reply (Some (m, oid)) else refuse ''INVALID_CANDIDATE_FILE_TYPE''
      | _ \<Rightarrow> refuse ''INVALID_CANDIDATE_FILE_TYPE'') (Some (''100644'', demo_oid))"
    by (simp add: answers_reply)
  then show ?thesis
    unfolding base_blob_def demo_tree_simps by (rule answers_andthen [OF answers_candidate [OF git_answers(5)]])
qed

lemma answers_materialize: "answers (materialize_uncommitted_candidate git_host (demo_tree ''/t'')) demo_left"
proof -
  have "validate_manifest_entry \<lparr>operation = ''D'', path = ''a'', mode = ''100644'', byte_length = None, content_sha256 = None,
     base_object_id = Some demo_oid\<rparr> = Inr ()" by code_simp
  then have entry: "checked_entry \<lparr>operation = ''D'', path = ''a'', mode = ''100644'', byte_length = None, content_sha256 = None,
     base_object_id = Some demo_oid\<rparr> = reply ()" by (simp add: checked_entry_def)
  have joined: "answers (candidate_file git_host (wt_path (demo_tree ''/t'')) ''a'') ''/t/a''"
    by (simp add: tree_path answers_file)
  have "answers (materialize_path git_host (demo_tree ''/t'') ''a'') (hd demo_deletion)"
    unfolding materialize_path_def
    by (rule answers_andthen [OF answers_path] answers_andthen [OF answers_blob]
        answers_andthen [OF joined] answers_andthen [OF answers_absent])+
      (simp add: answers_andthen [OF answers_reply] demo_deletion_def,
       rule answers_andthen [OF answers_reply], simp add: entry, rule answers_andthen [OF answers_reply], rule answers_reply)
  then have items: "answers (collect (materialize_path git_host (demo_tree ''/t'')) [''a'']) demo_deletion"
    by (auto intro!: answers_andthen answers_with simp: demo_deletion_def)
  have root: "ho_source_root git_host = ''/repo''" by (simp add: git_host_def demo_host_def)
  show ?thesis
    unfolding materialize_uncommitted_candidate_def demo_left_def root
    by (rule answers_andthen [OF answers_on_branch], rule answers_andthen [OF answers_changed], rule answers_if(2), simp,
      rule answers_andthen [OF items], rule answers_andthen [OF answers_still(3)], rule answers_reply)
qed

section \<open>The closure of the deletion\<close>

lemma closed_answers:
  "demo_git ''/v'' (Candidate_git [''symbolic-ref'', ''--short'', ''HEAD''] i e) = Exit 0 ''main''"
  "demo_git ''/v'' (Candidate_git [''rev-parse'', ''HEAD''] i e) = Exit 0 demo_closed"
  "demo_git r (Candidate_git [''write-tree''] i e) = Exit 0 ''t''"
  "demo_git r (Candidate_git [''rev-list'', ''--parents'', ''-n'', ''1'', c] i e) = Exit 0 (demo_closed @ '' '' @ demo_commit)"
  "demo_git r (Candidate_git [''diff-tree'', ''--no-renames'', ''--no-commit-id'', ''--name-only'', ''-r'', ''-z'', c] i e)
     = Exit 0 (''a'' @ [CHR 0x00])"
  "demo_git r (Candidate_git [''ls-tree'', ''-z'', demo_closed, ''--'', q] i e) = Exit 0 []"
  "demo_git r (Candidate_git [''rev-parse'', demo_closed @ ''^{tree}''] i e) = Exit 0 ''t''"
  "demo_git r (Candidate_git [''cat-file'', ''commit'', c] i e) = Exit 0 []"
  "demo_git ''/v'' (Candidate_git [''diff'', ''--no-ext-diff'', ''--no-textconv'', ''--name-only'', c, ''--''] i e) = Exit 0 []"
proof -
  have "demo_closed \<noteq> demo_commit" "demo_closed @ ''^{tree}'' \<noteq> ''HEAD''" by code_simp+
  then show "demo_git r (Candidate_git [''ls-tree'', ''-z'', demo_closed, ''--'', q] i e) = Exit 0 []"
    "demo_git r (Candidate_git [''rev-parse'', demo_closed @ ''^{tree}''] i e) = Exit 0 ''t''"
    by (simp_all add: demo_git_def)
qed (simp_all add: demo_git_def)

lemma answers_committed: "answers (committed_contents git_host ''/v'' demo_closed demo_left) (demo_commit, [(''a'', [])])"
proof -
  have line: "words (demo_closed @ '' '' @ demo_commit) = [demo_closed, demo_commit]"
    "utf8_valid (demo_closed @ '' '' @ demo_commit) \<and> surrogate_free (demo_closed @ '' '' @ demo_commit)"
    "utf8_valid (''a'' @ [CHR 0x00]) \<and> surrogate_free (''a'' @ [CHR 0x00])"
    "set (filter (\<lambda>p. p \<noteq> []) (split_on (CHR 0x00) (''a'' @ [CHR 0x00]))) = {''a''}"
    "words (before_tab demo_blob) = [''100644'', ''blob'', demo_oid]" "words (before_tab []) = []" by code_simp+
  have entries: "answers (manifest_entries git_host demo_left) (map fst demo_deletion)"
    unfolding demo_left_def by (simp add: answers_def manifest_round_trip)
  have parent: "cb_expected_parent demo_left = demo_commit"
    by (simp add: demo_left_def content_binding_def Let_def tree_path)
  have valid: "validate_manifest_entry (fst (hd demo_deletion)) = Inr ()" by code_simp
  have old: "answers (tree_entry git_host ''/v'' demo_commit ''a'') (True, [''100644'', ''blob'', demo_oid])"
    unfolding tree_entry_def
    by (rule answers_andthen [OF answers_candidate [OF git_answers(5)]]) (simp add: line answers_with demo_blob_def [symmetric], simp add: answers_reply demo_blob_def)
  have new: "answers (tree_entry git_host ''/v'' demo_closed ''a'') (False, [])"
    unfolding tree_entry_def
    by (rule answers_andthen [OF answers_candidate [OF closed_answers(6)]]) (simp add: line answers_reply)
  have entry: "answers (committed_entry git_host ''/v'' demo_commit demo_closed (fst (hd demo_deletion))) (''a'', [])"
    unfolding committed_entry_def valid
    by (rule answers_andthen [OF answers_lift], rule answers_andthen [where x = "''a''"],
      simp add: demo_deletion_def answers_path, rule answers_andthen [OF old], subst prod.case,
      rule answers_andthen [OF new], simp add: demo_deletion_def answers_reply)
  have contents: "answers (collect (committed_entry git_host ''/v'' demo_commit demo_closed) (map fst demo_deletion)) [(''a'', [])]"
    using entry by (auto intro!: answers_andthen answers_with simp: demo_deletion_def)
  have names: "map path (map fst demo_deletion) = [''a'']" by (simp add: demo_deletion_def)
  show ?thesis
    unfolding committed_contents_def
    apply (rule answers_andthen [where x = "demo_closed @ '' '' @ demo_commit"])
     apply (rule answers_andthen [OF answers_candidate [OF closed_answers(4)]])
     apply (rule answers_decode [OF line(2)])
    apply (simp only: line list.case parent simp_thms if_False)
    apply (rule answers_andthen [OF entries])
    apply (simp only: names)
    apply (rule answers_if(2), simp)
    apply (rule answers_andthen [OF answers_candidate [OF closed_answers(5)]])
    apply (rule answers_andthen [OF answers_decode [OF line(3)]])
    apply (rule answers_if(2), simp only: line(4), simp)
    apply (rule answers_andthen [OF contents answers_reply])
    done
qed

lemma answers_applied: "answers (apply_git_plan git_host (demo_tree ''/v'') demo_fence demo_left closing_plan) demo_closed"
proof -
  have fields: "cb_expected_parent demo_left = demo_commit"
    "cb_manifest_sha256 demo_left = demo_key 7" "cb_content_sha256 demo_left = demo_key 7"
    by (simp_all add: demo_left_def content_binding_def Let_def tree_path git_host_def demo_host_def)
  have sha: "ho_sha git_host s = demo_key 7" "ho_source_root git_host = ''/repo''" for s
    by (simp_all add: git_host_def demo_host_def)
  have plan: "answers (plan_text closing_plan ''result_commit'') demo_closed"
    "answers (plan_text closing_plan ''expected_parent'') demo_commit"
    "answers (plan_text closing_plan ''base_tree'') ''t''" "answers (plan_text closing_plan ''expected_tree'') ''t''"
    "answers (planned_object closing_plan) []"
    by (simp_all add: plan_text_def closing_plan_def planned_object_def answers_reply answers_andthen [OF answers_reply])
  have identity: "plan_identity_ok git_host (demo_tree ''/v'') ''/v'' demo_left closing_plan"
    by (simp add: plan_identity_ok_def closing_plan_def dict_get_def fields sha tree_path)
  have verified: "answers (verify_committed_candidate git_host ''/v'' demo_closed demo_left) ()"
    unfolding verify_committed_candidate_def
    by (rule answers_andthen [OF answers_committed]) (simp add: fields sha answers_reply)
  have stored: "answers (stored_entries demo_left) (map fst demo_deletion)"
    unfolding demo_left_def by (simp add: answers_def manifest_round_trip)
  have kept: "answers (each (entry_kept git_host (demo_tree ''/v'')) (map fst demo_deletion)) ()"
  proof -
    have "answers (candidate_file git_host ''/v'' ''a'') (join_path ''/v'' ''a'')"
    proof -
      have "butlast (parts (path_of ''a'')) = []" by code_simp
      then show ?thesis
        unfolding candidate_file_def by (auto intro!: answers_andthen answers_path answers_with)
    qed
    then have "answers (entry_kept git_host (demo_tree ''/v'') (fst (hd demo_deletion))) ()"
      unfolding entry_kept_def tree_path
      by (simp add: demo_deletion_def)
        (rule answers_andthen, assumption, rule answers_andthen [OF answers_absent], simp add: answers_reply)
    then show ?thesis by (simp add: demo_deletion_def answers_andthen answers_reply)
  qed
  have others: "set (filter (\<lambda>p. p \<noteq> []) (split_on (CHR 0x00) [])) = {}" "utf8_valid [] \<and> surrogate_free []" by code_simp+
  have planned: "answers (committed_as_planned git_host (demo_tree ''/v'') demo_left closing_plan ''t'' demo_closed) ()"
    unfolding committed_as_planned_def Let_def tree_path
    apply (rule answers_andthen [OF verified])
    apply (rule answers_andthen [OF answers_line [OF closed_answers(7) text_facts(8,4)]])
    apply (rule answers_if(2), simp)
    apply (rule answers_andthen [OF answers_candidate [OF closed_answers(8)]])
    apply (rule answers_andthen [OF plan(5)])
    apply (rule answers_if(2), simp)
    apply (rule answers_andthen [OF stored])
    apply (rule answers_andthen [OF kept])
    apply (rule answers_andthen [OF answers_candidate [OF closed_answers(9)]])
    apply (rule answers_if(2), simp)
    apply (rule answers_andthen [OF answers_candidate [OF git_answers(4)]])
    apply (rule answers_andthen [OF answers_decode [OF others(2)]])
    apply (rule answers_if(2), simp only: others(1), simp)
    apply (rule answers_reply)
    done
  have moved: "demo_closed \<noteq> demo_commit" by code_simp
  show ?thesis
    unfolding apply_git_plan_def Let_def tree_path
    apply (rule answers_andthen [OF answers_fence])
    apply (rule answers_andthen [OF answers_still(3)])
    apply (rule answers_if(2), simp add: identity)
    apply (rule answers_andthen [OF answers_line [OF closed_answers(1) text_facts(6,2)]])
    apply (rule answers_if(2), simp)
    apply (rule answers_andthen [OF plan(1)])
    apply (rule answers_andthen [OF plan(2)])
    apply (rule answers_andthen [OF answers_line [OF closed_answers(2) text_facts(7,3)]])
    apply (rule answers_if(2), simp)
    apply (rule answers_andthen [OF answers_line [OF closed_answers(3) text_facts(8,4)]])
    apply (rule answers_andthen [OF plan(3)])
    apply (rule answers_andthen [OF plan(4)])
    apply (rule answers_if(2), simp)
    apply (rule answers_andthen [where x = "()"], rule answers_if(2) [OF moved answers_reply])
    apply (rule answers_andthen [OF planned])
    apply (rule answers_andthen [where x = "()"], rule answers_if(1) [OF refl answers_reply])
    apply (rule answers_andthen [OF answers_fence answers_reply])
    done
qed

section \<open>What the commit carries\<close>

text \<open>
  C17. The commit the closure answers carries the candidate: if a worktree was materialised with the
  digest of the binding the closure is for, then what Git answers about the commit is the parent
  the worktree had and, path by path, the bytes that were read from it, unless the two
  serialisations are a collision of SHA-256. Texts have less than \<open>2 ^ 64\<close> bytes, which the
  serialisation's length fields assume.
\<close>

theorem closed_commit_carries_candidate:
  assumes "materialize_uncommitted_candidate h w s = (Inr b, s')"
    and "apply_git_plan h v f b' plan t = (Inr commit, t')"
    and "cb_content_sha256 b' = cb_content_sha256 b"
  shows "\<exists>repository items parent contents u u'. b = content_binding h w repository items
    \<and> map_of plan ''result_commit'' = Some (JStr commit)
    \<and> committed_contents h (wt_path v) commit b' u = (Inr (parent, contents), u')
    \<and> (short_text parent \<and> short_text (wt_base_commit w) \<and> short_contents contents \<and> short_contents (contents_of items)
       \<longrightarrow> parent = wt_base_commit w \<and> contents = contents_of items
         \<or> collision (ho_sha h) (aggregate parent contents) (aggregate (wt_base_commit w) (contents_of items)))"
proof -
  from materialized [OF assms(1)] obtain repository items where b: "b = content_binding h w repository items" by blast
  from applied_verified [OF assms(2)] obtain u u' where plan: "map_of plan ''result_commit'' = Some (JStr commit)"
    and "verify_committed_candidate h (wt_path v) commit b' u = (Inr (), u')" by blast
  from verified_contents [OF this(2)] obtain parent contents v' where
    c: "committed_contents h (wt_path v) commit b' u = (Inr (parent, contents), v')"
    and "ho_sha h (aggregate parent contents) = cb_content_sha256 b'" by blast
  with assms(3) have "ho_sha h (aggregate parent contents) = ho_sha h (aggregate (wt_base_commit w) (contents_of items))"
    by (simp add: b content_binding_def Let_def contents_of_def)
  with aggregate_determines [of parent contents "wt_base_commit w" "contents_of items"] b plan c
  show ?thesis unfolding collision_def by metis
qed

theorem closed_commit_carries_candidate_witness:
  "\<exists>repository items parent contents u u'. demo_left = content_binding git_host (demo_tree ''/t'') repository items
    \<and> map_of closing_plan ''result_commit'' = Some (JStr demo_closed)
    \<and> committed_contents git_host ''/v'' demo_closed demo_left u = (Inr (parent, contents), u')
    \<and> (short_text parent \<and> short_text demo_commit \<and> short_contents contents \<and> short_contents (contents_of items)
       \<longrightarrow> parent = demo_commit \<and> contents = contents_of items
         \<or> collision (ho_sha git_host) (aggregate parent contents) (aggregate demo_commit (contents_of items)))"
proof -
  define m where "m = demo_machine (demo_db WAITING_APPROVAL 4)"
  have m: "mc_db m = demo_db WAITING_APPROVAL 4" by (simp add: m_def demo_machine_def)
  from answers_materialize m obtain s where
    s: "materialize_uncommitted_candidate git_host (demo_tree ''/t'') m = (Inr demo_left, s)"
    unfolding answers_def by blast
  from answers_applied m obtain t where
    t: "apply_git_plan git_host (demo_tree ''/v'') demo_fence demo_left closing_plan m = (Inr demo_closed, t)"
    unfolding answers_def by blast
  from closed_commit_carries_candidate [OF s t refl] show ?thesis unfolding tree_path .
qed
end
