(* ===== verification/Thin_Schema.thy ===== *)
theory Thin_Schema
  imports Store
begin

text \<open>
  The schema contract of the thin client
  (\<open>packages/adcp-global-writer-client/src/adcp_global_writer_client/schema_contract.py\<close>, and the
  first part of its \<open>store.py\<close>): which generated contract it accepts, and which database it then
  serves. The generated module and what SQLite reports of a database are parameters.
  \<open>GlobalWriterClientError\<close> is the package's own \<open>StoreError\<close>, as its \<open>errors.py\<close> names it.
\<close>

section \<open>The generated contract\<close>

record schema_profile =
  sp_schema_version :: int
  sp_profile_identity :: string
  sp_migration_history :: "(int \<times> string \<times> string) list"
  sp_expected_tables :: "string list"
  sp_expected_indexes :: "string list"
  sp_expected_triggers :: "string list"
  sp_expected_object_fingerprints :: "(string \<times> string \<times> string) list"

text \<open>The constants of \<open>_schema_contract.py\<close>; a \<open>SchemaProfile\<close> holds the seven members of a raw profile.\<close>

record generated_contract =
  gc_format_version :: int
  gc_supported_versions :: "int list"
  gc_contract_identity :: string
  gc_profiles :: "schema_profile list"

record verified_contract =
  vc_format_version :: int
  vc_supported_versions :: "int list"
  vc_contract_identity :: string
  vc_profiles :: "schema_profile list"

text \<open>\<open>_build_identity.py\<close>.\<close>

definition expected_format_version :: int where
  "expected_format_version = 2"

definition expected_supported_versions :: "int list" where
  "expected_supported_versions = [6, 7, 8, 9, 10]"

definition expected_contract_identity :: string where
  "expected_contract_identity = ''sha256:288a69e75d8bd4399bbac1973a8632d54a79c0052debec79636a184b715db2a5''"

definition exact_supported_versions :: "int list" where
  "exact_supported_versions = [6, 7, 8, 9, 10]"

definition legacy_contract_identity :: string where
  "legacy_contract_identity = ''sha256:966387cc5ea17df6e6bdb89993c32f0c72d59fdaf33ebfaaba1b5e31e81a1e56''"

definition contract_invalid :: store_error where
  "contract_invalid = StoreError ''GLOBAL_WRITER_CLIENT_SCHEMA_CONTRACT_INVALID''"

section \<open>Payloads and identities\<close>

definition history_json :: "(int \<times> string \<times> string) list \<Rightarrow> json" where
  "history_json xs = JList (map (\<lambda>(v, name, checksum). JList [JInt v, JStr name, JStr checksum]) xs)"

definition texts_json :: "string list \<Rightarrow> json" where
  "texts_json xs = JList (map JStr (sort xs))"

definition profile_payload :: "schema_profile \<Rightarrow> (string \<times> json) list" where
  "profile_payload p =
    [(''schema_version'', JInt (sp_schema_version p)),
     (''migration_history'', history_json (sp_migration_history p)),
     (''expected_tables'', texts_json (sp_expected_tables p)),
     (''expected_indexes'', texts_json (sp_expected_indexes p)),
     (''expected_triggers'', texts_json (sp_expected_triggers p)),
     (''expected_object_fingerprints'', JList (map (\<lambda>(kind, name, digest). JList [JStr kind, JStr name, JStr digest])
        (sp_expected_object_fingerprints p)))]"

definition profile_contract_payload :: "schema_profile \<Rightarrow> json" where
  "profile_contract_payload p = JObj ((''profile_identity'', JStr (sp_profile_identity p)) # profile_payload p)"

text \<open>
  \<open>_canonical_identity\<close>: its \<open>json.dumps\<close> also escapes what is not ASCII, which the names and
  digests of a contract never contain.
\<close>

definition canonical_identity :: "(string \<Rightarrow> string) \<Rightarrow> json \<Rightarrow> string" where
  "canonical_identity hash payload = ''sha256:'' @ hash (dumps payload)"

section \<open>Validation of a contract\<close>

definition sorted_texts :: "string list \<Rightarrow> bool" where
  "sorted_texts xs \<longleftrightarrow> [] \<notin> set xs \<and> distinct xs \<and> sorted xs"

definition migration_history_ok :: "(int \<times> string \<times> string) list \<Rightarrow> int \<Rightarrow> bool" where
  "migration_history_ok xs version \<longleftrightarrow> xs \<noteq> []
     \<and> list_all (\<lambda>(_, name, checksum). name \<noteq> [] \<and> length checksum = 64) xs
     \<and> map fst xs = [1..version]"

fun fingerprint_le :: "string \<times> string \<times> string \<Rightarrow> string \<times> string \<times> string \<Rightarrow> bool" where
  "fingerprint_le (a, b, c) (a', b', c') \<longleftrightarrow> a < a' \<or> a = a' \<and> (b < b' \<or> b = b' \<and> c \<le> c')"

definition fingerprints_ok :: "(string \<times> string \<times> string) list \<Rightarrow> bool" where
  "fingerprints_ok xs \<longleftrightarrow>
     list_all (\<lambda>(kind, name, digest). kind \<in> {''table'', ''index'', ''trigger''} \<and> name \<noteq> [] \<and> length digest = 64) xs
     \<and> distinct (map (\<lambda>(kind, name, _). (kind, name)) xs) \<and> sorted_wrt fingerprint_le xs"

definition inventory_keys :: "schema_profile \<Rightarrow> (string \<times> string) set" where
  "inventory_keys p = set (map (Pair ''table'') (sp_expected_tables p))
     \<union> set (map (Pair ''index'') (sp_expected_indexes p)) \<union> set (map (Pair ''trigger'') (sp_expected_triggers p))"

definition profile_ok :: "(string \<Rightarrow> string) \<Rightarrow> schema_profile \<Rightarrow> bool" where
  "profile_ok hash p \<longleftrightarrow> 0 < sp_schema_version p
     \<and> migration_history_ok (sp_migration_history p) (sp_schema_version p)
     \<and> sorted_texts (sp_expected_tables p) \<and> sorted_texts (sp_expected_indexes p)
     \<and> sorted_texts (sp_expected_triggers p)
     \<and> fingerprints_ok (sp_expected_object_fingerprints p)
     \<and> set (map (\<lambda>(kind, name, _). (kind, name)) (sp_expected_object_fingerprints p)) = inventory_keys p
     \<and> canonical_identity hash (JObj (profile_payload p)) = sp_profile_identity p"

definition contract_payload :: "int \<Rightarrow> int list \<Rightarrow> schema_profile list \<Rightarrow> json" where
  "contract_payload format versions profiles = JObj
    [(''contract_format_version'', JInt format), (''supported_dcs_schema_versions'', JList (map JInt versions)),
     (''profiles'', JList (map profile_contract_payload profiles))]"

definition verify_client_schema_contract ::
  "(string \<Rightarrow> string) \<Rightarrow> generated_contract \<Rightarrow> verified_contract result" where
  "verify_client_schema_contract hash g =
    (let computed = canonical_identity hash (contract_payload (gc_format_version g) (gc_supported_versions g) (gc_profiles g)) in
     if gc_format_version g \<noteq> 2 \<or> expected_format_version \<noteq> 2 \<or> gc_format_version g \<noteq> expected_format_version
     then Inl contract_invalid
     else if gc_supported_versions g \<noteq> exact_supported_versions \<or> expected_supported_versions \<noteq> exact_supported_versions
        \<or> gc_supported_versions g \<noteq> expected_supported_versions
     then Inl contract_invalid
     else if length (gc_profiles g) \<noteq> length exact_supported_versions then Inl contract_invalid
     else if \<not> list_all (profile_ok hash) (gc_profiles g) then Inl contract_invalid
     else if map sp_schema_version (gc_profiles g) \<noteq> gc_supported_versions g then Inl contract_invalid
     else if gc_contract_identity g \<noteq> expected_contract_identity \<or> computed \<noteq> expected_contract_identity
     then Inl contract_invalid
     else Inr \<lparr>vc_format_version = gc_format_version g, vc_supported_versions = gc_supported_versions g,
        vc_contract_identity = computed, vc_profiles = gc_profiles g\<rparr>)"

text \<open>\<open>verify_schema_contract\<close>: the frozen view of versions 6 and 7.\<close>

definition verify_schema_contract ::
  "(string \<Rightarrow> string) \<Rightarrow> generated_contract \<Rightarrow> verified_contract result" where
  "verify_schema_contract hash g = bnd (verify_client_schema_contract hash g) (\<lambda>full.
    let profiles = take 2 (vc_profiles full);
        identity = canonical_identity hash (contract_payload (vc_format_version full) [6, 7] profiles) in
    if map sp_schema_version profiles \<noteq> [6, 7] then Inl contract_invalid
    else if identity \<noteq> legacy_contract_identity then Inl contract_invalid
    else Inr \<lparr>vc_format_version = vc_format_version full, vc_supported_versions = [6, 7],
       vc_contract_identity = identity, vc_profiles = profiles\<rparr>)"

definition profile_for_version :: "verified_contract \<Rightarrow> int \<Rightarrow> schema_profile result" where
  "profile_for_version c version =
    of_option contract_invalid (find (\<lambda>p. sp_schema_version p = version) (vc_profiles c))"

section \<open>The schema of a database\<close>

text \<open>
  What SQLite answers when the client looks at a database: the rows of \<open>schema_migration\<close> (\<open>None\<close>
  when the query fails), the objects that are SQLite's own neither by name nor by kind, the integrity check and
  whether the foreign keys are violated.
\<close>

record observed_schema =
  ob_migrations :: "(int \<times> string \<times> string) list option"
  ob_objects :: "(string \<times> string \<times> string option) list option"
  ob_integrity :: "string list option"
  ob_foreign_keys_broken :: "bool option"

definition schema_not_ready :: store_error where
  "schema_not_ready = StoreError ''GLOBAL_WRITER_CLIENT_SCHEMA_NOT_READY''"

definition schema_invalid :: store_error where
  "schema_invalid = StoreError ''GLOBAL_WRITER_CLIENT_SCHEMA_INVALID''"

text \<open>Both replacements of line ends at once: each CR LF, and each CR left, is a LF.\<close>

fun unix_lines :: "string \<Rightarrow> string" where
  "unix_lines [] = []"
| "unix_lines [c] = [if c = CHR 0x0D then CHR 0x0A else c]"
| "unix_lines (c # e # cs) =
    (if c = CHR 0x0D \<and> e = CHR 0x0A then CHR 0x0A # unix_lines cs
     else (if c = CHR 0x0D then CHR 0x0A else c) # unix_lines (e # cs))"

definition schema_object_fingerprint :: "(string \<Rightarrow> string) \<Rightarrow> string \<Rightarrow> string" where
  "schema_object_fingerprint hash sql =
    hash (strip (unix_lines sql) @ [CHR 0x0A])"

definition select_schema_profile ::
  "(int \<times> string \<times> string) list \<Rightarrow> verified_contract \<Rightarrow> schema_profile result" where
  "select_schema_profile rows c =
    (if rows = [] then Inl schema_not_ready
     else case find (\<lambda>p. rows = sp_migration_history p) (vc_profiles c) of
        Some p \<Rightarrow> Inr p
      | None \<Rightarrow> (case vc_profiles c of
          [] \<Rightarrow> Inl (PythonError ''IndexError'')
        | oldest # _ \<Rightarrow>
            if length rows < length (sp_migration_history oldest)
               \<and> rows = take (length rows) (sp_migration_history oldest)
            then Inl schema_not_ready else Inl schema_invalid))"

text \<open>Equality of two \<open>dict\<close>s given as their insertions.\<close>

definition same_dict :: "('k \<times> 'v) list \<Rightarrow> ('k \<times> 'v) list \<Rightarrow> bool" where
  "same_dict xs ys \<longleftrightarrow> (\<forall>k\<in>set (map fst xs) \<union> set (map fst ys). map_of (rev xs) k = map_of (rev ys) k)"

definition objects_match :: "(string \<Rightarrow> string) \<Rightarrow> schema_profile \<Rightarrow> (string \<times> string \<times> string option) list \<Rightarrow> bool" where
  "objects_match hash p objects \<longleftrightarrow>
    (let named = (\<lambda>kind. set (map (\<lambda>(_, name, _). name) (filter (\<lambda>(k, _, _). k = kind) objects))) in
     named ''table'' = set (sp_expected_tables p) \<and> named ''index'' = set (sp_expected_indexes p)
     \<and> named ''trigger'' = set (sp_expected_triggers p) \<and> named ''view'' = {}
     \<and> list_all (\<lambda>(_, _, sql). sql \<noteq> None) objects
     \<and> same_dict (map (\<lambda>(kind, name, sql). ((kind, name), schema_object_fingerprint hash (the sql))) objects)
          (map (\<lambda>(kind, name, digest). ((kind, name), digest)) (sp_expected_object_fingerprints p)))"

definition validate_schema_connection ::
  "(string \<Rightarrow> string) \<Rightarrow> verified_contract \<Rightarrow> observed_schema \<Rightarrow> schema_profile result" where
  "validate_schema_connection hash c seen =
    bnd (of_option schema_not_ready (ob_migrations seen)) (\<lambda>rows.
    bnd (select_schema_profile rows c) (\<lambda>p.
    bnd (of_option schema_invalid (ob_objects seen)) (\<lambda>objects.
    if \<not> objects_match hash p objects then Inl schema_invalid
    else if ob_integrity seen \<noteq> Some [''ok''] then Inl schema_invalid
    else if ob_foreign_keys_broken seen \<noteq> Some False then Inl schema_invalid
    else Inr p)))"

end
