(* ===== verification/Thin_Client.thy ===== *)
theory Thin_Client
  imports Thin_Schema Global_Writer_Laws
begin

text \<open>
  The thin client of the global writer lease (\<open>packages/adcp-global-writer-client\<close>, \<open>store.py\<close>
  and \<open>client.py\<close>): the same protocol on the same two tables as the control store's own, for
  programs that have only the client installed. Arguments are Python values of any type, which
  the client checks itself; every read validates the schema of the database first.
\<close>

section \<open>The environment\<close>

text \<open>
  The environment of the store's operations, with the generated contract, whether the path is a
  file and what the \<open>n\<close>th validation of a call sees of the schema.
\<close>

record thin_env =
  te_ctx :: ctx
  te_generated :: generated_contract
  te_is_file :: bool
  te_schema :: "nat \<Rightarrow> observed_schema"

definition validate_schema :: "thin_env \<Rightarrow> nat \<Rightarrow> schema_profile result" where
  "validate_schema E n =
    bnd (verify_client_schema_contract (sha (te_ctx E)) (te_generated E)) (\<lambda>c.
    validate_schema_connection (sha (te_ctx E)) c (te_schema E n))"

text \<open>\<open>_schema_ready\<close> and \<open>_connect_existing_supported_profile\<close>: read-only first, then on the connection.\<close>

definition schema_ready :: "thin_env \<Rightarrow> unit result" where
  "schema_ready E =
    bnd (verify_client_schema_contract (sha (te_ctx E)) (te_generated E)) (\<lambda>c.
    if \<not> te_is_file E then Inl schema_not_ready
    else bnd (validate_schema_connection (sha (te_ctx E)) c (te_schema E 0)) (\<lambda>_. Inr ()))"

definition connect_existing_supported_profile :: "thin_env \<Rightarrow> unit result" where
  "connect_existing_supported_profile E =
    bnd (schema_ready E) (\<lambda>_. bnd (validate_schema E 1) (\<lambda>_. Inr ()))"

record client_build_identity =
  bi_package_name :: string
  bi_version :: string
  bi_build_id :: string
  bi_source_commit :: string
  bi_artifact_identity :: string
  bi_format_version :: int
  bi_supported_versions :: "int list"
  bi_contract_identity :: string

definition build_identity :: "thin_env \<Rightarrow> client_build_identity result" where
  "build_identity E =
    bnd (verify_client_schema_contract (sha (te_ctx E)) (te_generated E)) (\<lambda>c. Inr
      \<lparr>bi_package_name = ''adcp-global-writer-client'', bi_version = ''0.5.0'',
       bi_build_id = ''adcp-global-writer-client@0.5.0+source-tree'', bi_source_commit = ''UNBUILT_SOURCE_TREE'',
       bi_artifact_identity = ''source-tree:unbuilt'', bi_format_version = vc_format_version c,
       bi_supported_versions = vc_supported_versions c, bi_contract_identity = vc_contract_identity c\<rparr>)"

section \<open>Checks of arguments\<close>

definition thin_error :: "string \<Rightarrow> 'a result" where
  "thin_error code = Inl (StoreError code)"

fun nonempty_text :: "pyval \<Rightarrow> bool" where
  "nonempty_text (PStr s) = (s \<noteq> [])"
| "nonempty_text _ = False"

definition optional_text :: "pyval \<Rightarrow> bool" where
  "optional_text v \<longleftrightarrow> v = PNone \<or> nonempty_text v"

text \<open>\<open>isinstance(v, int) and not isinstance(v, bool)\<close>, and in a range.\<close>

fun whole_number :: "pyval \<Rightarrow> int option" where
  "whole_number (PInt n) = Some n"
| "whole_number _ = None"

definition lease_ttl :: "pyval \<Rightarrow> int result" where
  "lease_ttl v = (case whole_number v of
     Some n \<Rightarrow> if min_lease_ttl \<le> n \<and> n \<le> max_lease_ttl then Inr n else thin_error ''INVALID_LEASE_TTL''
   | None \<Rightarrow> thin_error ''INVALID_LEASE_TTL'')"

definition token_of :: "pyval \<Rightarrow> int result" where
  "token_of v = (case whole_number v of
     Some n \<Rightarrow> if 0 \<le> n then Inr n else thin_error ''INVALID_INPUT'' | None \<Rightarrow> thin_error ''INVALID_INPUT'')"

fun thin_sha256 :: "pyval \<Rightarrow> string result" where
  "thin_sha256 (PStr s) = (if length s \<noteq> 64 \<or> \<not> is_lower_hex s then thin_error ''INVALID_INPUT'' else Inr s)"
| "thin_sha256 _ = thin_error ''INVALID_INPUT''"

definition text_of :: "pyval \<Rightarrow> string option" where
  "text_of v = (case v of PStr s \<Rightarrow> Some s | _ \<Rightarrow> None)"

text \<open>Python's \<open>==\<close> of a column with an argument; a Boolean is the number 0 or 1, a float may equal an integer.\<close>

definition same_text :: "string option \<Rightarrow> pyval \<Rightarrow> bool" where
  "same_text column v = (case column of None \<Rightarrow> v = PNone | Some s \<Rightarrow> v = PStr s)"

fun same_number :: "int \<Rightarrow> pyval \<Rightarrow> bool" where
  "same_number n (PInt m) = (n = m)"
| "same_number n (PBool b) = (n = (if b then 1 else 0))"
| "same_number n (PWhole m) = (n = m)"
| "same_number _ _ = False"

definition thin_canonical :: "pyval \<Rightarrow> string result" where
  "thin_canonical v = (case canonical_json v of Inl _ \<Rightarrow> thin_error ''CANONICAL_JSON_INVALID'' | Inr s \<Rightarrow> Inr s)"

definition context_names :: "string list" where
  "context_names = [''owner_id'', ''owner_execution_id'', ''change_id'', ''slice_id'', ''writer_class'',
     ''owner_session_role'', ''track'', ''repository_or_runtime'', ''operation_class'', ''target'']"

definition required_names :: "string list" where
  "required_names = [''owner_id'', ''change_id'', ''writer_class'', ''owner_session_role'', ''track'',
     ''repository_or_runtime'', ''operation_class'', ''target'']"

definition optional_names :: "string list" where
  "optional_names = [''owner_execution_id'', ''slice_id'']"

definition row_context :: "(string \<Rightarrow> pyval) \<Rightarrow> writer_context" where
  "row_context v = \<lparr>wc_owner_id = text_of (v ''owner_id''), wc_owner_execution_id = text_of (v ''owner_execution_id''),
     wc_change_id = text_of (v ''change_id''), wc_slice_id = text_of (v ''slice_id''),
     wc_writer_class = text_of (v ''writer_class''), wc_owner_session_role = text_of (v ''owner_session_role''),
     wc_track = text_of (v ''track''), wc_repository_or_runtime = text_of (v ''repository_or_runtime''),
     wc_operation_class = text_of (v ''operation_class''), wc_target = text_of (v ''target'')\<rparr>"

definition validate_client_context :: "(string \<times> pyval) list \<Rightarrow> writer_context result" where
  "validate_client_context context =
    (let v = (\<lambda>name. the (map_of context name)) in
     if set (map fst context) \<noteq> set context_names then thin_error ''GLOBAL_PRODUCTION_WRITER_CONTEXT_INVALID''
     else if list_ex (\<lambda>name. \<not> nonempty_text (v name)) required_names
       then thin_error ''GLOBAL_PRODUCTION_WRITER_CONTEXT_INVALID''
     else if list_ex (\<lambda>name. \<not> optional_text (v name)) optional_names
       then thin_error ''GLOBAL_PRODUCTION_WRITER_CONTEXT_INVALID''
     else Inr (row_context v))"

section \<open>The row\<close>

definition state_invalid :: "'a result" where
  "state_invalid = thin_error ''GLOBAL_PRODUCTION_WRITER_STATE_INVALID''"

text \<open>\<open>_global_writer_timestamp\<close> of a column that may be null.\<close>

definition column_time :: "thin_env \<Rightarrow> int option \<Rightarrow> int result" where
  "column_time E column = (case column of None \<Rightarrow> state_invalid | Some t \<Rightarrow> Inr (julian (te_ctx E) t))"

definition thin_validate_row :: "thin_env \<Rightarrow> writer_row \<Rightarrow> writer_row result" where
  "thin_validate_row E r =
    (if gw_fencing_token r < 0 then state_invalid
     else bnd (column_time E (Some (gw_updated_at r))) (\<lambda>updated.
       case gw_state r of
         FREE \<Rightarrow> if \<not> context_fields_none (gw_context r) \<or> gw_acquired_at r \<noteq> None \<or> gw_expires_at r \<noteq> None
             \<or> gw_heartbeat_at r \<noteq> None then state_invalid else Inr r
       | HELD \<Rightarrow>
           if list_ex (\<lambda>v. v \<in> {None, Some []}) (context_required (gw_context r)) then state_invalid
           else if list_ex (\<lambda>v. v = Some []) (context_optional (gw_context r)) then state_invalid
           else bnd (column_time E (gw_acquired_at r)) (\<lambda>acquired.
             bnd (column_time E (gw_expires_at r)) (\<lambda>expires.
             bnd (column_time E (gw_heartbeat_at r)) (\<lambda>heartbeat.
             if \<not> (acquired \<le> heartbeat \<and> heartbeat = updated \<and> updated < expires) then state_invalid
             else Inr r)))))"

text \<open>\<open>get\<close>; \<open>n\<close> is the validation of the schema it makes.\<close>

definition thin_get :: "thin_env \<Rightarrow> nat \<Rightarrow> db \<Rightarrow> writer_row result" where
  "thin_get E n d = bnd (validate_schema E n) (\<lambda>_.
     case writer d of None \<Rightarrow> state_invalid | Some r \<Rightarrow> thin_validate_row E r)"

definition thin_events :: "thin_env \<Rightarrow> db \<Rightarrow> writer_event_row list result" where
  "thin_events E d = bnd (validate_schema E 0) (\<lambda>_. Inr (writer_events d))"

definition thin_require_current :: "thin_env \<Rightarrow> writer_row \<Rightarrow> pyval \<Rightarrow> pyval \<Rightarrow> int \<Rightarrow> writer_row result" where
  "thin_require_current E r owner token now =
    (if \<not> same_number (gw_fencing_token r) token then thin_error ''STALE_FENCING_TOKEN''
     else if gw_state r \<noteq> HELD then thin_error ''GLOBAL_PRODUCTION_WRITER_NOT_HELD''
     else if \<not> same_text (wc_owner_id (gw_context r)) owner then thin_error ''GLOBAL_PRODUCTION_WRITER_OWNER_MISMATCH''
     else bnd (column_time E (gw_expires_at r)) (\<lambda>expires.
       if expires \<le> julian (te_ctx E) now then thin_error ''GLOBAL_PRODUCTION_WRITER_LEASE_EXPIRED'' else Inr r))"

text \<open>\<open>assert_current\<close>, with the \<open>m\<close>th validation and the \<open>n\<close>th clock reading of the call.\<close>

definition thin_assert_current :: "thin_env \<Rightarrow> nat \<Rightarrow> nat \<Rightarrow> pyval \<Rightarrow> pyval \<Rightarrow> db \<Rightarrow> writer_row result" where
  "thin_assert_current E m n owner token d =
    (if \<not> nonempty_text owner then thin_error ''INVALID_INPUT''
     else bnd (token_of token) (\<lambda>_. bnd (thin_get E m d) (\<lambda>r.
       thin_require_current E r owner token (clock (te_ctx E) n))))"

definition thin_existing_event ::
  "string \<Rightarrow> writer_event_type set \<Rightarrow> string \<Rightarrow> db \<Rightarrow> writer_event_row option result" where
  "thin_existing_event key allowed request d =
    (case find (\<lambda>e. ge_operation_key e = key) (writer_events d) of
       None \<Rightarrow> Inr None
     | Some e \<Rightarrow> if ge_event_type e \<notin> allowed \<or> ge_request_json e \<noteq> request
         then thin_error ''GLOBAL_PRODUCTION_WRITER_IDEMPOTENCY_CONFLICT'' else Inr (Some e))"

definition thin_insert_event ::
  "thin_env \<Rightarrow> string \<Rightarrow> writer_event_type \<Rightarrow> int \<Rightarrow> int \<Rightarrow> writer_context option \<Rightarrow> writer_context option
     \<Rightarrow> string \<Rightarrow> string option \<Rightarrow> string \<Rightarrow> int \<Rightarrow> db \<Rightarrow> db result" where
  "thin_insert_event E key type from to prior new reason decision request now d =
    insert_writer_event_row
      \<lparr>ge_event_id = uuid (te_ctx E) 0, ge_operation_key = key, ge_event_type = type,
       ge_from_token = from, ge_to_token = to,
       ge_prior = (case prior of None \<Rightarrow> empty_context | Some w \<Rightarrow> w),
       ge_new = (case new of None \<Rightarrow> empty_context | Some w \<Rightarrow> w),
       ge_reason = reason, ge_control_decision_ref = decision, ge_request_json = request,
       ge_created_at = now\<rparr> d"

section \<open>Operations\<close>

record thin_acquire_args =
  ta_operation_key :: pyval
  ta_context :: "string \<Rightarrow> pyval"
  ta_ttl_seconds :: pyval
  ta_control_decision_ref :: pyval

text \<open>What the checks before the transaction yield: key, context, time to live and the request text.\<close>

definition thin_acquire_checked :: "thin_acquire_args \<Rightarrow> (string \<times> writer_context \<times> int \<times> string) result" where
  "thin_acquire_checked a =
    bnd (thin_sha256 (ta_operation_key a)) (\<lambda>key.
    bnd (lease_ttl (ta_ttl_seconds a)) (\<lambda>ttl.
    if \<not> optional_text (ta_control_decision_ref a) then thin_error ''INVALID_INPUT''
    else let context = map (\<lambda>name. (name, ta_context a name)) context_names in
      bnd (validate_client_context context) (\<lambda>w.
      bnd (thin_canonical (PDict [(PStr ''context'', PDict (map (\<lambda>(name, v). (PStr name, v)) context)),
          (PStr ''ttl_seconds'', ta_ttl_seconds a), (PStr ''control_decision_ref'', ta_control_decision_ref a)])) (\<lambda>request.
      Inr (key, w, ttl, request)))))"

definition thin_acquire_body ::
  "thin_env \<Rightarrow> string \<Rightarrow> writer_context \<Rightarrow> int \<Rightarrow> string option \<Rightarrow> string \<Rightarrow> db \<Rightarrow> ((int \<times> bool) \<times> db) result" where
  "thin_acquire_body E key w ttl decision request d =
    (let now = clock (te_ctx E) 1; expires = now + seconds ttl in
     bnd (thin_existing_event key {ACQUIRE, EXPIRED_TAKEOVER} request d) (\<lambda>existing.
     case existing of
       Some e \<Rightarrow> bnd (thin_get E 0 d) (\<lambda>current.
         if gw_state current \<noteq> HELD \<or> gw_fencing_token current \<noteq> ge_to_token e \<or> gw_context current \<noteq> w
         then thin_error ''GLOBAL_PRODUCTION_WRITER_OPERATION_REPLAY_STALE''
         else Inr ((gw_fencing_token current, True), d))
     | None \<Rightarrow> bnd (thin_get E 0 d) (\<lambda>prior.
         let prior_context = (if gw_state prior = HELD then Some (gw_context prior) else None);
             token = gw_fencing_token prior + 1 in
         bnd (if gw_state prior = HELD
              then bnd (column_time E (gw_expires_at prior)) (\<lambda>expiry.
                if julian (te_ctx E) now < expiry then thin_error ''GLOBAL_PRODUCTION_WRITER_HELD''
                else Inr (EXPIRED_TAKEOVER, ''GLOBAL_PRODUCTION_WRITER_EXPIRED_TAKEOVER''))
              else Inr (ACQUIRE, ''GLOBAL_PRODUCTION_WRITER_ACQUIRED'')) (\<lambda>(type, reason).
         bnd (update_writer (julian (te_ctx E)) (\<lambda>r. gw_fencing_token r = gw_fencing_token prior)
                (\<lambda>_. held_by w token now expires) d) (\<lambda>(d1, n).
         if n \<noteq> 1 then thin_error ''CONTROL_STORE_ERROR''
         else bnd (thin_insert_event E key type (gw_fencing_token prior) token prior_context (Some w) reason
                decision request now d1) (\<lambda>d2. Inr ((token, False), d2)))))))"

definition thin_acquire :: "thin_env \<Rightarrow> thin_acquire_args \<Rightarrow> db \<Rightarrow> writer_row result \<times> db" where
  "thin_acquire E a = precheck (thin_acquire_checked a) (\<lambda>(key, w, ttl, request) d.
    reading (\<lambda>(token, replayed) d'.
        bnd (thin_assert_current E 1 2 (ta_context a ''owner_id'') (PInt token) d') (\<lambda>r.
        if \<not> replayed \<and> gw_context r \<noteq> w then thin_error ''CONTROL_STORE_ERROR'' else Inr r))
      (transaction_unchecked (\<lambda>d. sqlite_as_store_error
        (thin_acquire_body E key w ttl (text_of (ta_control_decision_ref a)) request d)) d))"

text \<open>The rows an update of a current lease hits, with the arguments as SQLite binds them.\<close>

definition thin_current_row :: "pyval \<Rightarrow> pyval \<Rightarrow> int \<Rightarrow> writer_row \<Rightarrow> bool" where
  "thin_current_row owner token now r \<longleftrightarrow> gw_state r = HELD
     \<and> wc_owner_id (gw_context r) \<noteq> None \<and> same_text (wc_owner_id (gw_context r)) owner
     \<and> same_number (gw_fencing_token r) token
     \<and> (case gw_expires_at r of None \<Rightarrow> False | Some e \<Rightarrow> now < e)"

definition thin_heartbeat_body :: "thin_env \<Rightarrow> pyval \<Rightarrow> pyval \<Rightarrow> int \<Rightarrow> db \<Rightarrow> (unit \<times> db) result" where
  "thin_heartbeat_body E owner token ttl d =
    (let now = clock (te_ctx E) 1 in
     bnd (thin_get E 0 d) (\<lambda>r.
     bnd (thin_require_current E r owner token now) (\<lambda>_.
     bnd (update_writer (julian (te_ctx E)) (thin_current_row owner token now)
           (\<lambda>r. r\<lparr>gw_expires_at := Some (now + seconds ttl), gw_heartbeat_at := Some now, gw_updated_at := now\<rparr>) d)
       (\<lambda>(d1, n). if n \<noteq> 1 then thin_error ''STALE_FENCING_TOKEN'' else Inr ((), d1)))))"

text \<open>The owner and the token are only compared, not checked, until the lease is read back.\<close>

definition thin_heartbeat :: "thin_env \<Rightarrow> pyval \<Rightarrow> pyval \<Rightarrow> pyval \<Rightarrow> db \<Rightarrow> writer_row result \<times> db" where
  "thin_heartbeat E owner token ttl = precheck (lease_ttl ttl) (\<lambda>n d.
    reading (\<lambda>_ d'. thin_assert_current E 1 2 owner token d')
      (transaction_unchecked (\<lambda>d. sqlite_as_store_error (thin_heartbeat_body E owner token n d)) d))"

record thin_release_args =
  tl_operation_key :: pyval
  tl_owner_id :: pyval
  tl_fencing_token :: pyval
  tl_reason :: pyval
  tl_control_decision_ref :: pyval

definition thin_release_checked :: "thin_release_args \<Rightarrow> (string \<times> int \<times> string) result" where
  "thin_release_checked a =
    bnd (thin_sha256 (tl_operation_key a)) (\<lambda>key.
    if \<not> nonempty_text (tl_reason a) then thin_error ''INVALID_INPUT''
    else if \<not> optional_text (tl_control_decision_ref a) then thin_error ''INVALID_INPUT''
    else bnd (token_of (tl_fencing_token a)) (\<lambda>token.
      bnd (thin_canonical (PDict [(PStr ''owner_id'', tl_owner_id a), (PStr ''fencing_token'', tl_fencing_token a),
          (PStr ''reason'', tl_reason a), (PStr ''control_decision_ref'', tl_control_decision_ref a)])) (\<lambda>request.
      Inr (key, token, request))))"

definition thin_release_body :: "thin_env \<Rightarrow> thin_release_args \<Rightarrow> string \<Rightarrow> int \<Rightarrow> string \<Rightarrow> db \<Rightarrow> (bool \<times> db) result" where
  "thin_release_body E a key token request d =
    (let now = clock (te_ctx E) 1 in
     bnd (thin_existing_event key {RELEASE} request d) (\<lambda>existing.
     case existing of
       Some e \<Rightarrow> bnd (thin_get E 0 d) (\<lambda>current.
         if gw_state current \<noteq> FREE \<or> gw_fencing_token current \<noteq> ge_to_token e
         then thin_error ''GLOBAL_PRODUCTION_WRITER_OPERATION_REPLAY_STALE'' else Inr (True, d))
     | None \<Rightarrow> bnd (thin_get E 0 d) (\<lambda>prior.
         bnd (thin_require_current E prior (tl_owner_id a) (tl_fencing_token a) now) (\<lambda>_.
         bnd (update_writer (julian (te_ctx E)) (thin_current_row (tl_owner_id a) (tl_fencing_token a) now)
                (\<lambda>r. freed_at (gw_fencing_token r) now) d) (\<lambda>(d1, n).
         if n \<noteq> 1 then thin_error ''STALE_FENCING_TOKEN''
         else bnd (thin_insert_event E key RELEASE token token (Some (gw_context prior)) None
                (the (text_of (tl_reason a))) (text_of (tl_control_decision_ref a)) request now d1)
              (\<lambda>d2. Inr (False, d2)))))))"

definition thin_release :: "thin_env \<Rightarrow> thin_release_args \<Rightarrow> db \<Rightarrow> writer_row result \<times> db" where
  "thin_release E a = precheck (thin_release_checked a) (\<lambda>(key, token, request) d.
    reading (\<lambda>replayed d'. if replayed then thin_get E 0 d' else bnd (thin_get E 1 d') (\<lambda>r.
        if gw_state r \<noteq> FREE \<or> gw_fencing_token r \<noteq> token then thin_error ''CONTROL_STORE_ERROR'' else Inr r))
      (transaction_unchecked (\<lambda>d. sqlite_as_store_error (thin_release_body E a key token request d)) d))"

record thin_revoke_args =
  tv_operation_key :: pyval
  tv_reason :: pyval
  tv_control_decision_ref :: pyval
  tv_expected_owner_id :: pyval
  tv_expected_token :: pyval

definition thin_revoke_checked :: "thin_revoke_args \<Rightarrow> (string \<times> int \<times> string) result" where
  "thin_revoke_checked a =
    bnd (thin_sha256 (tv_operation_key a)) (\<lambda>key.
    if \<not> nonempty_text (tv_reason a) \<or> \<not> nonempty_text (tv_control_decision_ref a)
       \<or> \<not> nonempty_text (tv_expected_owner_id a) then thin_error ''INVALID_INPUT''
    else bnd (token_of (tv_expected_token a)) (\<lambda>token.
      bnd (thin_canonical (PDict [(PStr ''reason'', tv_reason a), (PStr ''control_decision_ref'', tv_control_decision_ref a),
          (PStr ''expected_owner_id'', tv_expected_owner_id a), (PStr ''expected_fencing_token'', tv_expected_token a)]))
        (\<lambda>request. Inr (key, token, request))))"

definition thin_revoke_body :: "thin_env \<Rightarrow> thin_revoke_args \<Rightarrow> string \<Rightarrow> int \<Rightarrow> string \<Rightarrow> db \<Rightarrow> (bool \<times> db) result" where
  "thin_revoke_body E a key expected request d =
    (let now = clock (te_ctx E) 1; token = expected + 1 in
     bnd (thin_existing_event key {FORCE_REVOKE} request d) (\<lambda>existing.
     case existing of
       Some e \<Rightarrow> bnd (thin_get E 0 d) (\<lambda>current.
         if gw_state current \<noteq> FREE \<or> gw_fencing_token current \<noteq> ge_to_token e
         then thin_error ''GLOBAL_PRODUCTION_WRITER_OPERATION_REPLAY_STALE'' else Inr (True, d))
     | None \<Rightarrow> bnd (thin_get E 0 d) (\<lambda>prior.
         bnd (thin_require_current E prior (tv_expected_owner_id a) (tv_expected_token a) now) (\<lambda>_.
         bnd (update_writer (julian (te_ctx E)) (thin_current_row (tv_expected_owner_id a) (tv_expected_token a) now)
                (\<lambda>_. freed_at token now) d) (\<lambda>(d1, n).
         if n \<noteq> 1 then thin_error ''GLOBAL_PRODUCTION_WRITER_FORCE_REVOKE_MISMATCH''
         else bnd (thin_insert_event E key FORCE_REVOKE expected token (Some (gw_context prior)) None
                (the (text_of (tv_reason a))) (text_of (tv_control_decision_ref a)) request now d1)
              (\<lambda>d2. Inr (False, d2)))))))"

definition thin_revoke :: "thin_env \<Rightarrow> thin_revoke_args \<Rightarrow> db \<Rightarrow> writer_row result \<times> db" where
  "thin_revoke E a = precheck (thin_revoke_checked a) (\<lambda>(key, expected, request) d.
    reading (\<lambda>replayed d'. if replayed then thin_get E 0 d' else bnd (thin_get E 1 d') (\<lambda>r.
        if gw_state r \<noteq> FREE \<or> gw_fencing_token r \<noteq> expected + 1 then thin_error ''CONTROL_STORE_ERROR'' else Inr r))
      (transaction_unchecked (\<lambda>d. sqlite_as_store_error (thin_revoke_body E a key expected request d)) d))"

section \<open>The clients\<close>

text \<open>
  \<open>client.py\<close>: the ordinary client has no member to revoke a lease, the control client has; a call
  goes to the store of the connection as it is.
\<close>

datatype thin_client = Lease_client | Control_client

datatype thin_call =
    Get_lease
  | Assert_current pyval pyval
  | Acquire_lease thin_acquire_args
  | Heartbeat_lease pyval pyval pyval
  | Release_lease thin_release_args
  | Force_revoke thin_revoke_args

fun client_call :: "thin_client \<Rightarrow> thin_env \<Rightarrow> thin_call \<Rightarrow> db \<Rightarrow> writer_row result \<times> db" where
  "client_call who E Get_lease d = (thin_get E 0 d, d)"
| "client_call who E (Assert_current owner token) d = (thin_assert_current E 0 0 owner token d, d)"
| "client_call who E (Acquire_lease a) d = thin_acquire E a d"
| "client_call who E (Heartbeat_lease owner token ttl) d = thin_heartbeat E owner token ttl d"
| "client_call who E (Release_lease a) d = thin_release E a d"
| "client_call who E (Force_revoke a) d =
     (if who = Control_client then thin_revoke E a d else (Inl (PythonError ''AttributeError''), d))"

end
