(* ===== verification/Thin_Properties.thy ===== *)
theory Thin_Properties
  imports Thin_Client Store_System Scenario
begin

text \<open>
  The thin client and the control store speak one protocol: on a database whose schema the client
  supports, a call of the client with well-typed arguments is the store's call, result for result;
  whatever the arguments and the schema, a call of the client changes the database as some call
  of the store would, or not at all.
\<close>

section \<open>Arguments\<close>

fun py_opt :: "string option \<Rightarrow> pyval" where
  "py_opt None = PNone"
| "py_opt (Some s) = PStr s"

definition context_value :: "writer_context \<Rightarrow> string \<Rightarrow> pyval" where
  "context_value w name = py_opt (the (map_of
    [(''owner_id'', wc_owner_id w), (''owner_execution_id'', wc_owner_execution_id w), (''change_id'', wc_change_id w),
     (''slice_id'', wc_slice_id w), (''writer_class'', wc_writer_class w), (''owner_session_role'', wc_owner_session_role w),
     (''track'', wc_track w), (''repository_or_runtime'', wc_repository_or_runtime w),
     (''operation_class'', wc_operation_class w), (''target'', wc_target w)] name))"

text \<open>The arguments a caller of the client gives for a request to the store.\<close>

definition acquire_args :: "acquire_request \<Rightarrow> thin_acquire_args" where
  "acquire_args q = \<lparr>ta_operation_key = PStr (aq_operation_key q), ta_context = context_value (aq_context q),
     ta_ttl_seconds = PInt (aq_ttl_seconds q), ta_control_decision_ref = py_opt (aq_control_decision_ref q)\<rparr>"

definition release_args :: "release_request \<Rightarrow> thin_release_args" where
  "release_args q = \<lparr>tl_operation_key = PStr (rq_operation_key q), tl_owner_id = PStr (rq_owner_id q),
     tl_fencing_token = PInt (rq_fencing_token q), tl_reason = PStr (rq_reason q),
     tl_control_decision_ref = py_opt (rq_control_decision_ref q)\<rparr>"

definition revoke_args :: "revoke_request \<Rightarrow> thin_revoke_args" where
  "revoke_args q = \<lparr>tv_operation_key = PStr (vq_operation_key q), tv_reason = PStr (vq_reason q),
     tv_control_decision_ref = PStr (vq_control_decision_ref q), tv_expected_owner_id = PStr (vq_expected_owner_id q),
     tv_expected_token = PInt (vq_expected_token q)\<rparr>"

lemma text_of_py_opt [simp]: "text_of (py_opt x) = x" "text_of (PStr s) = Some s"
  by (cases x; simp add: text_of_def) (simp add: text_of_def)

lemma nonempty_py_opt [simp]: "nonempty_text (py_opt x) \<longleftrightarrow> x \<notin> {None, Some []}"
    "optional_text (py_opt x) \<longleftrightarrow> x \<noteq> Some []" "optional_text (PStr s) \<longleftrightarrow> s \<noteq> []"
  by ((cases x; simp add: optional_text_def) | simp add: optional_text_def)+

lemma nonempty_textD: "nonempty_text v \<Longrightarrow> v = PStr (the (text_of v)) \<and> the (text_of v) \<noteq> []"
  by (cases v) (auto simp: text_of_def)

lemma optional_textD: "optional_text v \<Longrightarrow> v = py_opt (text_of v) \<and> text_of v \<noteq> Some []"
  using nonempty_textD [of v] by (cases v) (auto simp: optional_text_def text_of_def)

lemma py_opt_json: "validate_value (py_opt x) = Inr (json_opt x)"
  by (cases x) simp_all

lemma thin_sha256_text: "thin_sha256 (PStr s) = bnd (require_sha256 s) (\<lambda>_. Inr s)"
  by (simp add: require_sha256_def thin_error_def)

lemma thin_sha256_Inr: "thin_sha256 v = Inr s \<longleftrightarrow> v = PStr s \<and> sha_ok s"
  by (cases v) (auto simp: thin_error_def)

lemma whole_number_Some: "whole_number v = Some n \<longleftrightarrow> v = PInt n"
  by (cases v) auto

lemma lease_ttl_Inr: "lease_ttl v = Inr n \<longleftrightarrow> v = PInt n \<and> min_lease_ttl \<le> n \<and> n \<le> max_lease_ttl"
  by (auto simp: lease_ttl_def thin_error_def whole_number_Some split: option.splits)

lemma token_of_Inr: "token_of v = Inr n \<longleftrightarrow> v = PInt n \<and> 0 \<le> n"
  by (auto simp: token_of_def thin_error_def whole_number_Some split: option.splits)

lemma row_context_value: "row_context (context_value w) = w"
  by (simp add: row_context_def context_value_def)

lemma named_value: "map_of (map (\<lambda>name. (name, v name)) names) name = (if name \<in> set names then Some (v name) else None)"
  by (induction names) auto

lemma validate_client_context_eq:
  "validate_client_context (map (\<lambda>name. (name, v name)) context_names) =
    (if list_ex (\<lambda>name. \<not> nonempty_text (v name)) required_names \<or> list_ex (\<lambda>name. \<not> optional_text (v name)) optional_names
     then thin_error ''GLOBAL_PRODUCTION_WRITER_CONTEXT_INVALID'' else Inr (row_context v))"
  unfolding validate_client_context_def Let_def named_value
  by (simp add: context_names_def required_names_def optional_names_def row_context_def)

section \<open>Reading\<close>

lemma thin_validate_row_eq: "thin_validate_row E r = validate_writer_row (te_ctx E) r"
proof (cases "gw_state r")
  case FREE
  then show ?thesis
    by (simp add: thin_validate_row_def validate_writer_row_def column_time_def state_invalid_def thin_error_def Let_def)
next
  case HELD
  then show ?thesis
    by (cases "gw_acquired_at r"; cases "gw_expires_at r"; cases "gw_heartbeat_at r")
      (auto simp: thin_validate_row_def validate_writer_row_def column_time_def state_invalid_def thin_error_def Let_def)
qed

text \<open>A client whose \<open>n\<close>th look at the schema finds one it supports.\<close>

definition sees_supported :: "thin_env \<Rightarrow> nat \<Rightarrow> bool" where
  "sees_supported E n \<longleftrightarrow> (\<exists>p. validate_schema E n = Inr p)"

lemma thin_get_eq: "sees_supported E n \<Longrightarrow> thin_get E n d = get_writer (te_ctx E) d"
  by (auto simp: sees_supported_def thin_get_def get_writer_def thin_validate_row_eq of_option_def state_invalid_def
      thin_error_def split: option.split)

lemma thin_get_fails: "\<not> sees_supported E n \<Longrightarrow> \<exists>e. thin_get E n d = Inl e"
  unfolding sees_supported_def by (cases "validate_schema E n") (auto simp: thin_get_def)

lemma thin_get_sees: "thin_get E n d = Inr r \<Longrightarrow> sees_supported E n"
  using thin_get_fails [of E n d] by fastforce

lemma thin_require_current_eq:
  "thin_require_current E r (PStr owner) (PInt token) now = require_current_writer (te_ctx E) r owner token now"
  by (cases "wc_owner_id (gw_context r)"; cases "gw_expires_at r")
    (auto simp: thin_require_current_def require_current_writer_def same_text_def column_time_def state_invalid_def
      thin_error_def)

lemma thin_assert_current_eq: "sees_supported E m \<Longrightarrow>
    thin_assert_current E m n (PStr owner) (PInt token) d = assert_current_writer (te_ctx E) n owner token d"
  by (simp add: thin_assert_current_def assert_current_writer_def token_of_def thin_get_eq thin_require_current_eq thin_error_def)

lemma thin_current_row_eq: "thin_current_row (PStr owner) (PInt token) now = writer_current_row owner token now"
  by (intro ext) (auto simp: thin_current_row_def writer_current_row_def same_text_def split: option.splits)

lemma thin_existing_event_eq: "thin_existing_event key (set types) request d = existing_writer_event key types request d"
  by (simp add: thin_existing_event_def existing_writer_event_def thin_error_def split: option.split)

lemma thin_insert_event_eq: "thin_insert_event E = insert_writer_event (te_ctx E)"
  by (intro ext) (simp add: thin_insert_event_def insert_writer_event_def)

section \<open>Operations\<close>

lemma acquire_checked_eq:
  "thin_acquire_checked (acquire_args q) = bnd (acquire_validate q) (\<lambda>_.
     Inr (aq_operation_key q, aq_context q, aq_ttl_seconds q, dumps (acquire_request_json q)))"
proof -
  let ?w = "aq_context q" and ?named = "map (\<lambda>name. (name, context_value (aq_context q) name)) context_names"
  have checked: "validate_client_context ?named = bnd (validate_writer_context ?w) (\<lambda>_. Inr ?w)"
    unfolding validate_client_context_eq row_context_value
    by (simp add: required_names_def optional_names_def context_value_def validate_writer_context_def
        context_required_def context_optional_def thin_error_def)
  have request: "thin_canonical (PDict [(PStr ''context'', PDict (map (\<lambda>(name, v). (PStr name, v)) ?named)),
      (PStr ''ttl_seconds'', PInt (aq_ttl_seconds q)), (PStr ''control_decision_ref'', py_opt (aq_control_decision_ref q))])
      = Inr (dumps (acquire_request_json q))"
    by (simp add: thin_canonical_def canonical_json_def context_names_def context_value_def py_opt_json
        acquire_request_json_def context_json_def)
  show ?thesis
    unfolding thin_acquire_checked_def acquire_validate_def acquire_args_def thin_acquire_args.simps Let_def
      thin_sha256_text checked request
    by (simp add: lease_ttl_def thin_error_def bnd_assoc)
qed

lemma acquire_body_eq:
  assumes "sees_supported E 0"
  shows "thin_acquire_body E (aq_operation_key q) (aq_context q) (aq_ttl_seconds q) (aq_control_decision_ref q)
      (dumps (acquire_request_json q)) d = acquire_body (te_ctx E) q d"
proof -
  have types: "{ACQUIRE, EXPIRED_TAKEOVER} = set [ACQUIRE, EXPIRED_TAKEOVER]" by simp
  have expiry: "gw_state r = HELD \<Longrightarrow> gw_expires_at r \<noteq> None" if "get_writer (te_ctx E) d = Inr r" for r
    using that by (auto simp: get_writer_def success validate_writer_row_iff writer_check_def split: option.splits)
  show ?thesis
  proof (cases "existing_writer_event (aq_operation_key q) [ACQUIRE, EXPIRED_TAKEOVER] (dumps (acquire_request_json q)) d")
    case Inl
    then show ?thesis unfolding thin_acquire_body_def acquire_body_def types thin_existing_event_eq by simp
  next
    case found: (Inr existing)
    show ?thesis
    proof (cases "get_writer (te_ctx E) d")
      case Inl
      with found show ?thesis
        unfolding thin_acquire_body_def acquire_body_def types thin_existing_event_eq thin_get_eq [OF assms]
        by (cases existing) simp_all
    next
      case (Inr r)
      with found expiry [OF Inr] show ?thesis
        unfolding thin_acquire_body_def acquire_body_def types thin_existing_event_eq thin_get_eq [OF assms]
          thin_insert_event_eq thin_error_def
        by (cases existing; cases "gw_state r"; cases "gw_expires_at r")
          (simp_all add: thin_error_def column_time_def Let_def)
    qed
  qed
qed

lemma heartbeat_body_eq:
  "sees_supported E 0 \<Longrightarrow> thin_heartbeat_body E (PStr owner) (PInt token) ttl d = heartbeat_writer_body (te_ctx E) owner token ttl d"
  unfolding thin_heartbeat_body_def heartbeat_writer_body_def thin_current_row_eq thin_require_current_eq
  by (simp only: thin_get_eq thin_error_def)

lemma release_checked_eq:
  "thin_release_checked (release_args q) = bnd (release_validate q) (\<lambda>_.
     Inr (rq_operation_key q, rq_fencing_token q, dumps (release_request_json q)))"
proof -
  have request: "thin_canonical (PDict [(PStr ''owner_id'', PStr (rq_owner_id q)), (PStr ''fencing_token'', PInt (rq_fencing_token q)),
      (PStr ''reason'', PStr (rq_reason q)), (PStr ''control_decision_ref'', py_opt (rq_control_decision_ref q))])
      = Inr (dumps (release_request_json q))"
    by (simp add: thin_canonical_def canonical_json_def py_opt_json release_request_json_def)
  show ?thesis
    unfolding thin_release_checked_def release_validate_def release_args_def thin_release_args.simps thin_sha256_text request
    by (auto simp: bnd_def token_of_def thin_error_def split: sum.split)
qed

lemma release_body_eq:
  "sees_supported E 0 \<Longrightarrow> thin_release_body E (release_args q) (rq_operation_key q) (rq_fencing_token q)
     (dumps (release_request_json q)) d = release_writer_body (te_ctx E) q d"
  unfolding thin_release_body_def release_writer_body_def release_args_def thin_release_args.simps thin_current_row_eq
    thin_require_current_eq thin_insert_event_eq thin_existing_event_eq [where types = "[RELEASE]", simplified]
  by (simp only: thin_get_eq thin_error_def text_of_py_opt option.sel Let_def)
    (auto simp: bnd_def split: sum.split option.split)

lemma revoke_checked_eq:
  "thin_revoke_checked (revoke_args q) = bnd (revoke_validate q) (\<lambda>_.
     Inr (vq_operation_key q, vq_expected_token q, dumps (revoke_request_json q)))"
proof -
  have request: "thin_canonical (PDict [(PStr ''reason'', PStr (vq_reason q)), (PStr ''control_decision_ref'', PStr (vq_control_decision_ref q)),
      (PStr ''expected_owner_id'', PStr (vq_expected_owner_id q)), (PStr ''expected_fencing_token'', PInt (vq_expected_token q))])
      = Inr (dumps (revoke_request_json q))"
    by (simp add: thin_canonical_def canonical_json_def revoke_request_json_def)
  show ?thesis
    unfolding thin_revoke_checked_def revoke_validate_def revoke_args_def thin_revoke_args.simps thin_sha256_text request
    by (auto simp: bnd_def token_of_def thin_error_def split: sum.split)
qed

lemma revoke_body_eq:
  "sees_supported E 0 \<Longrightarrow> thin_revoke_body E (revoke_args q) (vq_operation_key q) (vq_expected_token q)
     (dumps (revoke_request_json q)) d = revoke_writer_body (te_ctx E) q d"
  unfolding thin_revoke_body_def revoke_writer_body_def revoke_args_def thin_revoke_args.simps thin_current_row_eq
    thin_require_current_eq thin_insert_event_eq thin_existing_event_eq [where types = "[FORCE_REVOKE]", simplified]
  by (simp only: thin_get_eq thin_error_def text_of_py_opt option.sel Let_def)
    (auto simp: bnd_def split: sum.split option.split)

section \<open>Calls\<close>

lemma precheck_bnd: "precheck (bnd m (\<lambda>_. Inr x)) k = precheck m (\<lambda>_. k x)"
  by (intro ext) (cases m; simp add: precheck_def)

lemma reading_cong: "(\<And>x. fst rd = Inr x \<Longrightarrow> f x (snd rd) = g x (snd rd)) \<Longrightarrow> reading f rd = reading g rd"
  by (auto simp: reading_def split: sum.split)

lemma precheck_cong: "(\<And>x. m = Inr x \<Longrightarrow> f x d = g x d) \<Longrightarrow> precheck m f d = precheck m g d"
  by (auto simp: precheck_def split: sum.split)

lemma thin_acquire_eq:
  assumes "\<And>n. sees_supported E n"
  shows "thin_acquire E (acquire_args q) d = acquire_global_writer (te_ctx E) q d"
proof -
  have owner: "acquire_validate q = Inr u \<Longrightarrow> context_value (aq_context q) ''owner_id'' = PStr (the (wc_owner_id (aq_context q)))" for u
    by (cases "wc_owner_id (aq_context q)")
      (auto simp: acquire_validate_def success validate_writer_context_def context_required_def context_value_def)
  have kept: "text_of (ta_control_decision_ref (acquire_args q)) = aq_control_decision_ref q"
    "ta_context (acquire_args q) = context_value (aq_context q)"
    by (simp_all add: acquire_args_def)
  show ?thesis
    unfolding thin_acquire_def acquire_global_writer_def acquire_checked_eq precheck_bnd kept thin_error_def
    by (rule precheck_cong) (simp add: acquire_body_eq [OF assms] owner thin_assert_current_eq [OF assms])
qed

lemma thin_heartbeat_eq:
  assumes "\<And>n. sees_supported E n"
  shows "thin_heartbeat E (PStr owner) (PInt token) (PInt ttl) d = heartbeat_global_writer (te_ctx E) owner token ttl d"
proof -
  have "thin_assert_current E 1 2 (PStr owner) (PInt token) = assert_current_writer (te_ctx E) 2 owner token"
    by (intro ext) (rule thin_assert_current_eq [OF assms])
  then show ?thesis
    unfolding thin_heartbeat_def heartbeat_global_writer_def
    by (simp add: lease_ttl_def heartbeat_body_eq [OF assms] thin_error_def precheck_def)
qed

lemma thin_release_eq:
  assumes "\<And>n. sees_supported E n"
  shows "thin_release E (release_args q) d = release_global_writer (te_ctx E) q d"
  unfolding thin_release_def release_global_writer_def release_checked_eq precheck_bnd
  by (rule precheck_cong) (auto simp: release_body_eq [OF assms] thin_get_eq [OF assms] thin_error_def bnd_def
      intro!: reading_cong split: sum.split)

lemma thin_revoke_eq:
  assumes "\<And>n. sees_supported E n"
  shows "thin_revoke E (revoke_args q) d = force_revoke_global_writer (te_ctx E) q d"
  unfolding thin_revoke_def force_revoke_global_writer_def revoke_checked_eq precheck_bnd
  by (rule precheck_cong) (auto simp: revoke_body_eq [OF assms] thin_get_eq [OF assms] thin_error_def bnd_def
      intro!: reading_cong split: sum.split)

section \<open>Any arguments\<close>

text \<open>What a call changes, its transaction changed: the body ran to its end, on a schema it supports.\<close>

definition settled :: "('a \<times> db) result \<Rightarrow> db \<Rightarrow> db" where
  "settled m d = (case m of Inl _ \<Rightarrow> d | Inr (_, d') \<Rightarrow> d')"

lemma snd_unchecked: "snd (transaction_unchecked (\<lambda>d. sqlite_as_store_error (body d)) d) = settled (body d) d"
  by (cases "body d" rule: sqlite_as_store_error.cases)
    (auto simp: transaction_unchecked_def settled_def split: prod.split sum.split)

lemma settled_Inr: "settled m d \<noteq> d \<Longrightarrow> \<exists>x d'. m = Inr (x, d') \<and> d' \<noteq> d"
  by (auto simp: settled_def split: sum.splits)

lemma snd_precheck_Inr: "m = Inr x \<Longrightarrow> snd (precheck m k d) = snd (k x d)"
    "snd (precheck m k d) \<noteq> d \<Longrightarrow> \<exists>x. m = Inr x"
  by (auto simp: precheck_def split: sum.split_asm)

lemma acquire_checked_args:
  assumes "thin_acquire_checked a = Inr (key, w, ttl, request)"
  shows "thin_acquire_checked (acquire_args \<lparr>aq_operation_key = key, aq_context = w, aq_ttl_seconds = ttl,
      aq_control_decision_ref = text_of (ta_control_decision_ref a)\<rparr>) = thin_acquire_checked a"
proof -
  from assms have key: "ta_operation_key a = PStr key" and ttl: "ta_ttl_seconds a = PInt ttl"
    and decision: "optional_text (ta_control_decision_ref a)"
    and valid: "list_all (\<lambda>name. nonempty_text (ta_context a name)) required_names"
      "list_all (\<lambda>name. optional_text (ta_context a name)) optional_names"
    and w: "w = row_context (ta_context a)"
    unfolding thin_acquire_checked_def Let_def validate_client_context_eq thin_error_def
    by (auto simp: success thin_sha256_Inr lease_ttl_Inr list_ex_iff list_all_iff)
  have "ta_context a name = py_opt (text_of (ta_context a name))" if "name \<in> set context_names" for name
  proof -
    from that have "name \<in> set required_names \<union> set optional_names"
      by (auto simp: context_names_def required_names_def optional_names_def)
    with valid have "optional_text (ta_context a name)" by (auto simp: list_all_iff optional_text_def)
    then show ?thesis using optional_textD by blast
  qed
  then have same: "map (\<lambda>name. (name, context_value w name)) context_names = map (\<lambda>name. (name, ta_context a name)) context_names"
    by (auto simp: context_names_def context_value_def w row_context_def)
  from optional_textD [OF decision] have "py_opt (text_of (ta_control_decision_ref a)) = ta_control_decision_ref a" by simp
  then show ?thesis
    unfolding thin_acquire_checked_def acquire_args_def thin_acquire_args.simps acquire_request.simps
    by (simp only: key ttl same)
qed

lemma thin_acquire_stored:
  assumes "snd (thin_acquire E a d) \<noteq> d"
  shows "\<exists>q. snd (thin_acquire E a d) = snd (acquire_global_writer (te_ctx E) q d)"
proof -
  from assms [unfolded thin_acquire_def] obtain x where "thin_acquire_checked a = Inr x" using snd_precheck_Inr(2) by blast
  moreover obtain key w ttl request where "x = (key, w, ttl, request)" by (cases x)
  ultimately have checked: "thin_acquire_checked a = Inr (key, w, ttl, request)" by simp
  define q where "q = \<lparr>aq_operation_key = key, aq_context = w, aq_ttl_seconds = ttl,
      aq_control_decision_ref = text_of (ta_control_decision_ref a)\<rparr>"
  have "thin_acquire_checked (acquire_args q) = Inr (key, w, ttl, request)"
    unfolding q_def acquire_checked_args [OF checked] by (rule checked)
  then have valid: "acquire_validate q = Inr ()" and request: "request = dumps (acquire_request_json q)"
    unfolding acquire_checked_eq bnd_eq_Inr by auto
  have thin: "snd (thin_acquire E a d) = settled (thin_acquire_body E (aq_operation_key q) (aq_context q) (aq_ttl_seconds q)
      (aq_control_decision_ref q) (dumps (acquire_request_json q)) d) d"
    unfolding thin_acquire_def snd_precheck_Inr(1) [OF checked] by (simp add: snd_unchecked q_def request)
  have "snd (acquire_global_writer (te_ctx E) q d) = settled (acquire_body (te_ctx E) q d) d"
    unfolding acquire_global_writer_def snd_precheck_Inr(1) [OF valid] by (simp add: snd_unchecked)
  moreover from settled_Inr [OF assms [unfolded thin]] obtain r where "thin_get E 0 d = Inr r"
    unfolding thin_acquire_body_def Let_def by (auto simp: success split: option.splits)
  then have "sees_supported E 0" by (rule thin_get_sees)
  ultimately show ?thesis using thin acquire_body_eq by metis
qed

lemma same_number_PInt: "same_number n v \<Longrightarrow> \<exists>m. \<forall>k. same_number k v = same_number k (PInt m)"
  by (cases v) auto

text \<open>A lease required of any values is held by a text and a number.\<close>

lemma current_arguments:
  assumes "get_writer c d = Inr r" and "thin_require_current E r owner token now = Inr r'"
  shows "\<exists>s m. owner = PStr s \<and> (\<forall>k. same_number k token = same_number k (PInt m))"
proof -
  from assms(2) have "same_number (gw_fencing_token r) token" "gw_state r = HELD"
    "same_text (wc_owner_id (gw_context r)) owner"
    unfolding thin_require_current_def thin_error_def by (auto simp: success)
  moreover from assms(1) this(2) have "wc_owner_id (gw_context r) \<noteq> None"
    by (auto simp: get_writer_def success validate_writer_row_iff writer_check_def context_fields_held_def
        context_required_def split: option.splits)
  ultimately show ?thesis using same_number_PInt by (auto simp: same_text_def)
qed

lemma same_number_cong:
  assumes "\<forall>k. same_number k token = same_number k (PInt m)"
  shows "thin_require_current E r owner token now = thin_require_current E r owner (PInt m) now"
    and "thin_current_row owner token now = thin_current_row owner (PInt m) now"
  using assms by (simp_all add: thin_require_current_def thin_current_row_def fun_eq_iff)

lemma thin_heartbeat_stored:
  assumes "snd (thin_heartbeat E owner token ttl d) \<noteq> d"
  shows "\<exists>s m n. snd (thin_heartbeat E owner token ttl d) = snd (heartbeat_global_writer (te_ctx E) s m n d)"
proof -
  from assms obtain n where n: "lease_ttl ttl = Inr n" unfolding thin_heartbeat_def using snd_precheck_Inr(2) by blast
  have thin: "snd (thin_heartbeat E owner token ttl d) = settled (thin_heartbeat_body E owner token n d) d"
    unfolding thin_heartbeat_def snd_precheck_Inr(1) [OF n] by (simp add: snd_unchecked)
  from settled_Inr [OF assms [unfolded thin]] obtain r r' where r: "thin_get E 0 d = Inr r"
    "thin_require_current E r owner token (clock (te_ctx E) 1) = Inr r'"
    unfolding thin_heartbeat_body_def Let_def by (auto simp: success)
  from r(1) have sees: "sees_supported E 0" by (rule thin_get_sees)
  with r current_arguments obtain s m where owner: "owner = PStr s" and m: "\<forall>k. same_number k token = same_number k (PInt m)"
    by (metis thin_get_eq)
  have "thin_heartbeat_body E owner token n d = heartbeat_writer_body (te_ctx E) s m n d"
    unfolding heartbeat_body_eq [OF sees, symmetric] owner by (simp add: thin_heartbeat_body_def same_number_cong [OF m])
  moreover have "snd (heartbeat_global_writer (te_ctx E) s m n d) = settled (heartbeat_writer_body (te_ctx E) s m n d) d"
    using n by (simp add: heartbeat_global_writer_def lease_ttl_Inr precheck_def snd_unchecked)
  ultimately show ?thesis using thin by metis
qed

lemma thin_release_stored:
  assumes "snd (thin_release E a d) \<noteq> d"
  shows "\<exists>q. snd (thin_release E a d) = snd (release_global_writer (te_ctx E) q d)"
proof -
  from assms [unfolded thin_release_def] obtain x where "thin_release_checked a = Inr x" using snd_precheck_Inr(2) by blast
  moreover obtain key token request where "x = (key, token, request)" by (cases x)
  ultimately have checked: "thin_release_checked a = Inr (key, token, request)" by simp
  have thin: "snd (thin_release E a d) = settled (thin_release_body E a key token request d) d"
    unfolding thin_release_def snd_precheck_Inr(1) [OF checked] by (simp add: snd_unchecked)
  from settled_Inr [OF assms [unfolded thin]] obtain r r' where r: "thin_get E 0 d = Inr r"
    "thin_require_current E r (tl_owner_id a) (tl_fencing_token a) (clock (te_ctx E) 1) = Inr r'"
    unfolding thin_release_body_def Let_def thin_error_def by (auto simp: success split: option.splits)
  from r(1) have sees: "sees_supported E 0" by (rule thin_get_sees)
  with r current_arguments obtain s where owner: "tl_owner_id a = PStr s" by (metis thin_get_eq)
  from checked have fields: "tl_operation_key a = PStr key" "tl_fencing_token a = PInt token"
    and texts: "nonempty_text (tl_reason a)" "optional_text (tl_control_decision_ref a)"
    unfolding thin_release_checked_def thin_error_def by (auto simp: success thin_sha256_Inr token_of_Inr)
  note fields = fields nonempty_textD [OF texts(1), THEN conjunct1] optional_textD [OF texts(2), THEN conjunct1]
  define q where "q = \<lparr>rq_operation_key = key, rq_owner_id = s, rq_fencing_token = token,
      rq_reason = the (text_of (tl_reason a)), rq_control_decision_ref = text_of (tl_control_decision_ref a)\<rparr>"
  have a: "a = release_args q" unfolding q_def release_args_def release_request.simps fields(3,4) [symmetric] owner [symmetric] fields(1,2) [symmetric] by simp
  from checked have valid: "release_validate q = Inr ()" and request: "request = dumps (release_request_json q)"
    unfolding a release_checked_eq bnd_eq_Inr by auto
  have "snd (release_global_writer (te_ctx E) q d) = settled (release_writer_body (te_ctx E) q d) d"
    unfolding release_global_writer_def snd_precheck_Inr(1) [OF valid] by (simp add: snd_unchecked)
  moreover have "rq_operation_key q = key" "rq_fencing_token q = token" by (simp_all add: q_def)
  with release_body_eq [OF sees, of q d] have "thin_release_body E a key token request d = release_writer_body (te_ctx E) q d"
    by (simp only: a [symmetric] request [symmetric])
  ultimately show ?thesis using thin by metis
qed

lemma thin_revoke_stored:
  assumes "snd (thin_revoke E a d) \<noteq> d"
  shows "\<exists>q. snd (thin_revoke E a d) = snd (force_revoke_global_writer (te_ctx E) q d)"
proof -
  from assms [unfolded thin_revoke_def] obtain x where "thin_revoke_checked a = Inr x" using snd_precheck_Inr(2) by blast
  moreover obtain key token request where "x = (key, token, request)" by (cases x)
  ultimately have checked: "thin_revoke_checked a = Inr (key, token, request)" by simp
  have thin: "snd (thin_revoke E a d) = settled (thin_revoke_body E a key token request d) d"
    unfolding thin_revoke_def snd_precheck_Inr(1) [OF checked] by (simp add: snd_unchecked)
  from settled_Inr [OF assms [unfolded thin]] obtain r where r: "thin_get E 0 d = Inr r"
    unfolding thin_revoke_body_def Let_def thin_error_def by (auto simp: success split: option.splits)
  from r have sees: "sees_supported E 0" by (rule thin_get_sees)
  from checked have fields: "tv_operation_key a = PStr key" "tv_expected_token a = PInt token"
    and texts: "nonempty_text (tv_reason a)" "nonempty_text (tv_control_decision_ref a)" "nonempty_text (tv_expected_owner_id a)"
    unfolding thin_revoke_checked_def thin_error_def by (auto simp: success thin_sha256_Inr token_of_Inr)
  note fields = fields texts [THEN nonempty_textD, THEN conjunct1]
  define q where "q = \<lparr>vq_operation_key = key, vq_reason = the (text_of (tv_reason a)),
      vq_control_decision_ref = the (text_of (tv_control_decision_ref a)),
      vq_expected_owner_id = the (text_of (tv_expected_owner_id a)), vq_expected_token = token\<rparr>"
  have a: "a = revoke_args q" unfolding q_def revoke_args_def revoke_request.simps fields [symmetric] by simp
  from checked have valid: "revoke_validate q = Inr ()" and request: "request = dumps (revoke_request_json q)"
    unfolding a revoke_checked_eq bnd_eq_Inr by auto
  have "snd (force_revoke_global_writer (te_ctx E) q d) = settled (revoke_writer_body (te_ctx E) q d) d"
    unfolding force_revoke_global_writer_def snd_precheck_Inr(1) [OF valid] by (simp add: snd_unchecked)
  moreover have "vq_operation_key q = key" "vq_expected_token q = token" by (simp_all add: q_def)
  with revoke_body_eq [OF sees, of q d] have "thin_revoke_body E a key token request d = revoke_writer_body (te_ctx E) q d"
    by (simp only: a [symmetric] request [symmetric])
  ultimately show ?thesis using thin by metis
qed

text \<open>What a client may have the store do.\<close>

fun client_may :: "thin_client \<Rightarrow> call \<Rightarrow> bool" where
  "client_may who (AcquireWriter q) = True"
| "client_may who (HeartbeatWriter owner token ttl) = True"
| "client_may who (ReleaseWriter q) = True"
| "client_may who (RevokeWriter q) = (who = Control_client)"
| "client_may who _ = False"

text \<open>
  C34. Whatever a program passes to the thin client and whatever schema the client finds, a call
  leaves the database as it was or as one call of the store leaves it: an acquisition, a
  heartbeat or a release, and a revocation only from the control client.
\<close>

theorem thin_client_call_refines:
  "snd (client_call who E k d) \<in> insert d {perform (te_ctx E) k' d | k'. client_may who k'}"
proof (cases "snd (client_call who E k d) = d")
  case changed: False
  have "\<exists>k'. client_may who k' \<and> snd (client_call who E k d) = perform (te_ctx E) k' d"
  proof (cases k)
    case (Acquire_lease a)
    with changed thin_acquire_stored [of E a d] show ?thesis by simp (metis client_may.simps(1) perform.simps)
  next
    case (Heartbeat_lease owner token ttl)
    with changed thin_heartbeat_stored [of E owner token ttl d] show ?thesis by simp (metis client_may.simps(2) perform.simps)
  next
    case (Release_lease a)
    with changed thin_release_stored [of E a d] show ?thesis by simp (metis client_may.simps(3) perform.simps)
  next
    case (Force_revoke a)
    with changed thin_revoke_stored [of E a d] show ?thesis
      by (auto split: if_splits) (metis client_may.simps(4) perform.simps)
  qed (use changed in auto)
  then show ?thesis by auto
qed simp

section \<open>A supported database\<close>

text \<open>Five profiles of one table each, on a digest that is always the expected one.\<close>

definition demo_digest :: string where
  "demo_digest = drop 7 expected_contract_identity"

definition demo_profile :: "int \<Rightarrow> schema_profile" where
  "demo_profile v = \<lparr>sp_schema_version = v, sp_profile_identity = expected_contract_identity,
     sp_migration_history = map (\<lambda>n. (n, ''m'', demo_digest)) [1..v], sp_expected_tables = [''t''],
     sp_expected_indexes = [], sp_expected_triggers = [],
     sp_expected_object_fingerprints = [(''table'', ''t'', demo_digest)]\<rparr>"

definition demo_observed :: observed_schema where
  "demo_observed = \<lparr>ob_migrations = Some (sp_migration_history (demo_profile 10)),
     ob_objects = Some [(''table'', ''t'', Some ''CREATE TABLE t(x)'')], ob_integrity = Some [''ok''],
     ob_foreign_keys_broken = Some False\<rparr>"

definition demo_thin :: thin_env where
  "demo_thin = \<lparr>te_ctx = (demo_ctx 5)\<lparr>sha := (\<lambda>_. demo_digest)\<rparr>,
     te_generated = \<lparr>gc_format_version = 2, gc_supported_versions = [6, 7, 8, 9, 10],
       gc_contract_identity = expected_contract_identity, gc_profiles = map demo_profile [6, 7, 8, 9, 10]\<rparr>,
     te_is_file = True, te_schema = (\<lambda>_. demo_observed)\<rparr>"

lemma demo_identity: "canonical_identity (\<lambda>_. demo_digest) payload = expected_contract_identity"
  by (simp add: canonical_identity_def demo_digest_def expected_contract_identity_def)

lemma demo_profile_ok:
  assumes "1 \<le> v"
  shows "profile_ok (\<lambda>_. demo_digest) (demo_profile v)"
proof -
  have "length demo_digest = 64" by code_simp
  moreover have "[1..v] \<noteq> []" using assms by (simp add: upto_rec1)
  ultimately show ?thesis
    unfolding profile_ok_def demo_identity using assms
    by (simp add: demo_profile_def migration_history_ok_def sorted_texts_def fingerprints_ok_def inventory_keys_def
        list_all_iff comp_def)
qed

definition demo_contract :: verified_contract where
  "demo_contract = \<lparr>vc_format_version = 2, vc_supported_versions = [6, 7, 8, 9, 10],
     vc_contract_identity = expected_contract_identity, vc_profiles = map demo_profile [6, 7, 8, 9, 10]\<rparr>"

lemma demo_verified_contract: "verify_client_schema_contract (\<lambda>_. demo_digest) (te_generated demo_thin)
    = Inr demo_contract"
proof -
  have versions: "sp_schema_version (demo_profile v) = v" for v by (simp add: demo_profile_def)
  show ?thesis
    unfolding verify_client_schema_contract_def demo_identity
    by (simp add: demo_thin_def demo_profile_ok versions expected_format_version_def exact_supported_versions_def
        expected_supported_versions_def demo_contract_def Let_def)
qed

lemma demo_sees_supported: "sees_supported demo_thin n"
proof -
  have history: "sp_migration_history (demo_profile v) = sp_migration_history (demo_profile w) \<Longrightarrow> 0 \<le> v \<Longrightarrow> 0 \<le> w \<Longrightarrow> v = w" for v w
    by (drule arg_cong [where f = length]) (simp add: demo_profile_def)
  have selected: "select_schema_profile (sp_migration_history (demo_profile 10))
      demo_contract
      = Inr (demo_profile 10)"
  proof -
    have "sp_migration_history (demo_profile 10) \<noteq> []" by (simp add: demo_profile_def upto_rec1)
    moreover have "sp_migration_history (demo_profile 10) \<noteq> sp_migration_history (demo_profile v)"
      if "v \<in> {6, 7, 8, 9}" for v using history [of 10 v] that by auto
    ultimately show ?thesis by (simp add: select_schema_profile_def demo_contract_def)
  qed
  have "objects_match (\<lambda>_. demo_digest) (demo_profile 10) [(''table'', ''t'', Some ''CREATE TABLE t(x)'')]"
    by (simp add: objects_match_def demo_profile_def schema_object_fingerprint_def same_dict_def)
  moreover have seen: "sha (te_ctx demo_thin) = (\<lambda>_. demo_digest)" "te_schema demo_thin n = demo_observed"
    by (simp_all add: demo_thin_def)
  ultimately show ?thesis
    unfolding sees_supported_def validate_schema_def validate_schema_connection_def seen demo_verified_contract bnd_simps
    by (simp add: selected demo_observed_def of_option_def)
qed

text \<open>
  C33. On a database whose schema the thin client supports whenever it looks, its operations with
  well-typed arguments are the store's: the same answer, the same error code and the same database.
\<close>

theorem thin_client_is_store_protocol:
  assumes "\<And>n. sees_supported E n"
  shows "thin_get E m d = get_writer (te_ctx E) d
    \<and> thin_assert_current E m n (PStr owner) (PInt token) d = assert_current_writer (te_ctx E) n owner token d
    \<and> thin_acquire E (acquire_args q) d = acquire_global_writer (te_ctx E) q d
    \<and> thin_heartbeat E (PStr owner) (PInt token) (PInt ttl) d = heartbeat_global_writer (te_ctx E) owner token ttl d
    \<and> thin_release E (release_args p) d = release_global_writer (te_ctx E) p d
    \<and> thin_revoke E (revoke_args v) d = force_revoke_global_writer (te_ctx E) v d"
  using thin_get_eq [OF assms] thin_assert_current_eq [OF assms] thin_acquire_eq [OF assms] thin_heartbeat_eq [OF assms]
    thin_release_eq [OF assms] thin_revoke_eq [OF assms]
  by simp

theorem thin_client_is_store_protocol_witness:
  "thin_heartbeat demo_thin (PStr ''w'') (PInt 1) (PInt 60) initial_db
     = heartbeat_global_writer (te_ctx demo_thin) ''w'' 1 60 initial_db
   \<and> thin_get demo_thin 0 initial_db = get_writer (te_ctx demo_thin) initial_db"
  using thin_client_is_store_protocol [OF demo_sees_supported] by blast

end
