(* ===== verification/Projection.thy ===== *)
theory Projection
  imports Store
begin

text \<open>
  The shadow projection (\<open>src/adcp/projection.py\<close>): one document built from the durable rows of
  an execution, its identity, the targets it is written to, the log of the attempts to write it
  (table \<open>projection_record\<close>) and the repair of a target that has drifted.
\<close>

section \<open>Errors, documents and reports\<close>

datatype projection_failure =
    Projection_error string
  | Target_unavailable
  | Transport_error string
  | Store_failure store_error

type_synonym 'a projected = "projection_failure + 'a"

datatype projection_drift =
    NO_DRIFT | PROJECTION_MISSING_OR_STALE | PROJECTION_CONTENT_MISMATCH | PROJECTION_TARGET_UNAVAILABLE

record projection_envelope =
  pe_payload :: "(string \<times> json) list"
  pe_payload_hash :: string
  pe_identity :: string

definition envelope_dict :: "projection_envelope \<Rightarrow> (string \<times> json) list" where
  "envelope_dict e = pe_payload e @ [(''projection_payload_hash'', JStr (pe_payload_hash e))]"

record drift_report =
  dr_classification :: projection_drift
  dr_expected_hash :: string
  dr_observed_hash :: "json option"
  dr_blocks_cutover :: bool

text \<open>A failure of the store or of the standard library, inside the projection.\<close>

definition from_store :: "'a result \<Rightarrow> 'a projected" where
  "from_store m = (case m of Inl e \<Rightarrow> Inl (Store_failure e) | Inr x \<Rightarrow> Inr x)"

section \<open>The document of an execution\<close>

definition json_time_opt :: "int option \<Rightarrow> json" where
  "json_time_opt t = (case t of None \<Rightarrow> JNull | Some n \<Rightarrow> JStr (iso_text n))"

text \<open>\<open>_latest_bound_row\<close>: the last row of an append-only table bound to the result as it is.\<close>

definition latest_bound_verification :: "execution_row \<Rightarrow> db \<Rightarrow> verification_row option" where
  "latest_bound_verification r d = (case ex_result_commit r of None \<Rightarrow> None | Some commit \<Rightarrow>
     find_last (\<lambda>v. vr_execution_id v = ex_id r \<and> vr_result_commit v = commit
       \<and> vr_contract_fingerprint v = ex_contract_fingerprint r
       \<and> vr_authority_fingerprint v = ex_authority_fingerprint r) (verifications d))"

definition latest_bound_evaluation :: "execution_row \<Rightarrow> db \<Rightarrow> evaluation_row option" where
  "latest_bound_evaluation r d = (case ex_result_commit r of None \<Rightarrow> None | Some commit \<Rightarrow>
     find_last (\<lambda>v. er_execution_id v = ex_id r \<and> er_result_commit v = commit
       \<and> er_contract_fingerprint v = ex_contract_fingerprint r
       \<and> er_authority_fingerprint v = ex_authority_fingerprint r) (evaluations d))"

text \<open>The attempts of one role in the order of their numbers.\<close>

definition attempts_of :: "string \<Rightarrow> capsule_role \<Rightarrow> db \<Rightarrow> attempt_row list" where
  "attempts_of i role d = sort_key at_attempt_no (filter (\<lambda>a. at_execution_id a = i \<and> at_role a = role) (attempts d))"

definition attempt_summary :: "string \<Rightarrow> db \<Rightarrow> json" where
  "attempt_summary i d = JObj (concat (map (\<lambda>role. case rev (attempts_of i role d) of
       [] \<Rightarrow> []
     | a # _ \<Rightarrow> [(capsule_role_value role, JObj
         [(''count'', JInt (int (length (attempts_of i role d)))), (''latest_attempt_no'', JInt (at_attempt_no a)),
          (''latest_status'', JStr (status_value (at_status a))), (''latest_failure_code'', json_opt (at_failure_code a))])])
     [Maker, Evaluator]))"

text \<open>\<open>ORDER BY requested_at DESC LIMIT 1\<close>; among equals, which SQL leaves open, the first.\<close>

definition latest_approval :: "string \<Rightarrow> db \<Rightarrow> approval_row option" where
  "latest_approval i d = (let mine = filter (\<lambda>p. ap_execution_id p = i) (approvals d) in
     find (\<lambda>p. list_all (\<lambda>q. ap_requested_at q \<le> ap_requested_at p) mine) mine)"

definition manifest_of :: "string \<Rightarrow> db \<Rightarrow> manifest_row option" where
  "manifest_of i d = find (\<lambda>m. em_execution_id m = i) (manifests d)"

definition or_else :: "string option \<Rightarrow> string \<Rightarrow> string" where
  "or_else x y = (case x of None \<Rightarrow> y | Some s \<Rightarrow> if s = [] then y else s)"

definition evidence_times :: "execution_row \<Rightarrow> db \<Rightarrow> string list" where
  "evidence_times r d = [iso_text (ex_updated_at r)]
     @ map (\<lambda>a. or_else (at_ended_at a) (at_started_at a)) (filter (\<lambda>a. at_execution_id a = ex_id r) (attempts d))
     @ (case latest_bound_verification r d of None \<Rightarrow> [] | Some v \<Rightarrow> [vr_ended_at v])
     @ (case latest_bound_evaluation r d of None \<Rightarrow> [] | Some v \<Rightarrow> [er_ended_at v])
     @ (case latest_approval (ex_id r) d of None \<Rightarrow> [] | Some p \<Rightarrow>
          [iso_text (case ap_consumed_at p of Some t \<Rightarrow> t | None \<Rightarrow>
             (case ap_resolved_at p of Some t \<Rightarrow> t | None \<Rightarrow> ap_requested_at p))])
     @ (case manifest_of (ex_id r) d of None \<Rightarrow> [] | Some m \<Rightarrow> [em_created_at m])"

definition blocker_json :: "execution_row \<Rightarrow> json" where
  "blocker_json r = (case ex_blocker_code r of None \<Rightarrow> JNull | Some code \<Rightarrow> JObj
     [(''code'', JStr code), (''detail'', json_opt (ex_blocker_detail r)),
      (''resume_state'', json_opt (map_option state_value (ex_resume_state r)))])"

definition verification_status :: "verification_row option \<Rightarrow> json" where
  "verification_status v = (case v of None \<Rightarrow> JNull | Some r \<Rightarrow> JObj
     [(''verification_id'', JStr (vr_id r)), (''verdict'', JStr (vr_verdict r)), (''result_commit'', JStr (vr_result_commit r))])"

definition evaluator_verdict :: "evaluation_row option \<Rightarrow> json" where
  "evaluator_verdict v = (case v of None \<Rightarrow> JNull | Some r \<Rightarrow> JObj
     [(''evaluation_id'', JStr (er_id r)), (''verdict'', JStr (er_verdict r)), (''result_commit'', JStr (er_result_commit r))])"

definition approval_summary :: "approval_row option \<Rightarrow> json" where
  "approval_summary p = (case p of None \<Rightarrow> JNull | Some r \<Rightarrow> JObj
     [(''status'', JStr (approval_status_text (ap_status r))), (''requested_at'', JStr (iso_text (ap_requested_at r))),
      (''resolved_at'', json_time_opt (ap_resolved_at r)), (''consumed_at'', json_time_opt (ap_consumed_at r))])"

definition projection_payload :: "execution_row \<Rightarrow> db \<Rightarrow> (string \<times> json) list" where
  "projection_payload r d =
    [(''projection_schema_version'', JInt 1), (''control_execution_id'', JStr (ex_id r)),
     (''projection_version'', JInt (ex_state_version r)),
     (''execution_state'', JStr (state_value (ex_state r))), (''state_version'', JInt (ex_state_version r)),
     (''source_root'', JStr (ex_source_root r)), (''base_commit'', JStr (ex_base_commit r)),
     (''result_commit'', json_opt (ex_result_commit r)), (''risk'', JStr (risk_value (ex_risk_level r))),
     (''blocker_or_escalation'', blocker_json r), (''attempt_summary'', attempt_summary (ex_id r) d),
     (''verification_status'', verification_status (latest_bound_verification r d)),
     (''evaluator_verdict'', evaluator_verdict (latest_bound_evaluation r d)),
     (''approval_status'', approval_summary (latest_approval (ex_id r) d)),
     (''evidence_manifest_hash'', json_opt (map_option em_manifest_sha256 (manifest_of (ex_id r) d))),
     (''projected_at'', JStr (Max (set (evidence_times r d))))]"

definition json_sha256 :: "(string \<Rightarrow> string) \<Rightarrow> json \<Rightarrow> string projected" where
  "json_sha256 hash j = from_store (canonical_sha256 hash (json_to_py j))"

definition identity_json :: "string \<Rightarrow> string \<Rightarrow> json" where
  "identity_json i hash = JObj [(''control_execution_id'', JStr i), (''projection_payload_hash'', JStr hash)]"

definition build_projection :: "ctx \<Rightarrow> string \<Rightarrow> db \<Rightarrow> projection_envelope projected" where
  "build_projection c i d =
    bnd (from_store (get_execution i d)) (\<lambda>r.
    bnd (json_sha256 (sha c) (JObj (projection_payload r d))) (\<lambda>hash.
    bnd (json_sha256 (sha c) (identity_json i hash)) (\<lambda>identity.
    Inr \<lparr>pe_payload = projection_payload r d, pe_payload_hash = hash, pe_identity = identity\<rparr>)))"

section \<open>Targets\<close>

text \<open>\<open>ProjectionTarget\<close>: what a transport offers, over its own state.\<close>

record 'w target =
  tg_type :: string
  tg_ref :: string
  tg_read :: "string \<Rightarrow> 'w \<Rightarrow> (string \<times> json) list option projected \<times> 'w"
  tg_write :: "string \<Rightarrow> string \<Rightarrow> (string \<times> json) list \<Rightarrow> 'w \<Rightarrow> unit projected \<times> 'w"

text \<open>\<open>json.loads(canonical_json(dict))\<close>.\<close>

definition reparsed :: "(string \<times> json) list \<Rightarrow> (string \<times> json) list projected" where
  "reparsed kvs = bnd (from_store (canonical_json (json_to_py (JObj kvs)))) (\<lambda>s. case loads s of
     Some (JObj xs) \<Rightarrow> Inr xs | _ \<Rightarrow> Inl (Transport_error ''JSONDecodeError''))"

definition without_hash :: "(string \<times> json) list \<Rightarrow> (string \<times> json) list" where
  "without_hash kvs = filter (\<lambda>(k, _). k \<noteq> ''projection_payload_hash'') kvs"

text \<open>The check every target makes: the document has its hash and the identity is the document's.\<close>

definition checked_document ::
  "(string \<Rightarrow> string) \<Rightarrow> string \<Rightarrow> string \<Rightarrow> (string \<times> json) list \<Rightarrow> (string \<times> json) list projected" where
  "checked_document hash i identity payload =
    bnd (reparsed payload) (\<lambda>kvs. case map_of kvs ''projection_payload_hash'' of
      Some (JStr supplied) \<Rightarrow>
        bnd (json_sha256 hash (JObj (without_hash kvs))) (\<lambda>computed.
        if computed \<noteq> supplied then Inl (Projection_error ''PROJECTION_IDENTITY_MISMATCH'')
        else bnd (json_sha256 hash (identity_json i supplied)) (\<lambda>expected.
          if expected \<noteq> identity then Inl (Projection_error ''PROJECTION_IDENTITY_MISMATCH'')
          else Inr (without_hash kvs @ [(''projection_payload_hash'', JStr supplied)])))
    | _ \<Rightarrow> Inl (Projection_error ''PROJECTION_IDENTITY_MISMATCH''))"

text \<open>\<open>InMemoryProjectionTarget\<close>, with its injected failures.\<close>

record memory =
  my_values :: "(string \<times> string \<times> (string \<times> json) list) list"
  my_available :: bool
  my_fail_writes :: int
  my_lose_response_once :: bool
  my_write_count :: int

definition memory_read :: "string \<Rightarrow> memory \<Rightarrow> (string \<times> json) list option projected \<times> memory" where
  "memory_read i w =
    (if \<not> my_available w then Inl Target_unavailable
     else (case map_of (my_values w) i of None \<Rightarrow> Inr None
       | Some (_, payload) \<Rightarrow> bnd (reparsed payload) (\<lambda>kvs. Inr (Some kvs))), w)"

definition memory_write ::
  "(string \<Rightarrow> string) \<Rightarrow> string \<Rightarrow> string \<Rightarrow> (string \<times> json) list \<Rightarrow> memory \<Rightarrow> unit projected \<times> memory" where
  "memory_write hash i identity payload w =
    (if \<not> my_available w then (Inl Target_unavailable, w)
     else let w1 = w\<lparr>my_write_count := my_write_count w + 1\<rparr> in
       if 0 < my_fail_writes w1 then (Inl Target_unavailable, w1\<lparr>my_fail_writes := my_fail_writes w1 - 1\<rparr>)
       else case checked_document hash i identity payload of
         Inl e \<Rightarrow> (Inl e, w1)
       | Inr materialized \<Rightarrow>
           let same = (case map_of (my_values w1) i of None \<Rightarrow> False | Some (known, stored) \<Rightarrow>
                 known = identity \<and> canonical_json (json_to_py (JObj stored)) = canonical_json (json_to_py (JObj materialized)));
               w2 = (if same then w1 else w1\<lparr>my_values := dict_set i (identity, materialized) (my_values w1)\<rparr>) in
           if my_lose_response_once w2 then (Inl Target_unavailable, w2\<lparr>my_lose_response_once := False\<rparr>)
           else (Inr (), w2))"

definition memory_target :: "(string \<Rightarrow> string) \<Rightarrow> string \<Rightarrow> memory target" where
  "memory_target hash ref = \<lparr>tg_type = ''MEMORY'', tg_ref = ref, tg_read = memory_read, tg_write = memory_write hash\<rparr>"

section \<open>Comparison\<close>

text \<open>\<open>isinstance(v, int) and v \<noteq> n\<close>; a Boolean is an \<open>int\<close>.\<close>

definition other_version :: "json option \<Rightarrow> int \<Rightarrow> bool" where
  "other_version v n = (case v of Some (JInt m) \<Rightarrow> m \<noteq> n | Some (JBool b) \<Rightarrow> (if b then 1 else 0) \<noteq> n | _ \<Rightarrow> False)"

definition internally_valid :: "(string \<Rightarrow> string) \<Rightarrow> (string \<times> json) list \<Rightarrow> bool projected" where
  "internally_valid hash observed = (case map_of observed ''projection_payload_hash'' of
      Some (JStr supplied) \<Rightarrow> bnd (json_sha256 hash (JObj (without_hash observed))) (\<lambda>computed. Inr (computed = supplied))
    | _ \<Rightarrow> Inr False)"

definition classify_observed ::
  "(string \<Rightarrow> string) \<Rightarrow> projection_envelope \<Rightarrow> int \<Rightarrow> (string \<times> json) list \<Rightarrow> drift_report projected" where
  "classify_observed hash e version observed =
    bnd (internally_valid hash observed) (\<lambda>valid.
    bnd (if valid then
           bnd (from_store (canonical_json (json_to_py (JObj observed)))) (\<lambda>s.
           bnd (from_store (canonical_json (json_to_py (JObj (envelope_dict e))))) (\<lambda>t. Inr (s = t)))
         else Inr False) (\<lambda>same.
    Inr \<lparr>dr_classification = (if same then NO_DRIFT
            else if other_version (map_of observed ''projection_version'') version then PROJECTION_MISSING_OR_STALE
            else PROJECTION_CONTENT_MISMATCH),
         dr_expected_hash = pe_payload_hash e, dr_observed_hash = map_of observed ''projection_payload_hash'',
         dr_blocks_cutover = (\<not> same)\<rparr>))"

definition missing_report :: "projection_drift \<Rightarrow> projection_envelope \<Rightarrow> drift_report" where
  "missing_report drift e = \<lparr>dr_classification = drift, dr_expected_hash = pe_payload_hash e,
     dr_observed_hash = None, dr_blocks_cutover = True\<rparr>"

definition envelope_version :: "projection_envelope \<Rightarrow> int" where
  "envelope_version e = (case map_of (pe_payload e) ''projection_version'' of Some (JInt n) \<Rightarrow> n | _ \<Rightarrow> 0)"

definition compare_projection ::
  "(string \<Rightarrow> string) \<Rightarrow> 'w target \<Rightarrow> string \<Rightarrow> projection_envelope \<Rightarrow> 'w \<Rightarrow> drift_report projected \<times> 'w" where
  "compare_projection hash g i e w = (case tg_read g i w of
      (Inl Target_unavailable, w') \<Rightarrow> (Inr (missing_report PROJECTION_TARGET_UNAVAILABLE e), w')
    | (Inl f, w') \<Rightarrow> (Inl f, w')
    | (Inr None, w') \<Rightarrow> (Inr (missing_report PROJECTION_MISSING_OR_STALE e), w')
    | (Inr (Some observed), w') \<Rightarrow> (classify_observed hash e (envelope_version e) observed, w'))"

section \<open>The log of attempts\<close>

datatype projection_status = Pending_projection | Succeeded_projection | Failed_projection

record projection_row =
  pr_projection_id :: string
  pr_execution_id :: string
  pr_manifest_id :: string
  pr_target_type :: string
  pr_target_ref :: string
  pr_version :: int
  pr_status :: projection_status
  pr_idempotency_key :: string
  pr_attempt_count :: int
  pr_last_error :: "string option"
  pr_created_at :: int
  pr_last_attempt_at :: "int option"
  pr_next_attempt_at :: "int option"
  pr_projected_at :: "int option"

definition projection_check :: "projection_row \<Rightarrow> bool" where
  "projection_check r \<longleftrightarrow> pr_target_type r \<noteq> [] \<and> pr_target_ref r \<noteq> [] \<and> 0 < pr_version r
     \<and> sql_length (pr_idempotency_key r) = 64 \<and> 0 \<le> pr_attempt_count r
     \<and> (pr_status r = Succeeded_projection \<longleftrightarrow> pr_projected_at r \<noteq> None)"

text \<open>The store's tables and this one, and the target's state.\<close>

record 'w projection_state =
  ps_db :: db
  ps_records :: "projection_row list"
  ps_target :: 'w

definition insert_projection :: "projection_row \<Rightarrow> 'w projection_state \<Rightarrow> 'w projection_state result" where
  "insert_projection r s =
    (if \<not> projection_check r then Inl (IntegrityError ''CHECK projection_record'')
     else if \<exists>x\<in>set (ps_records s). pr_projection_id x = pr_projection_id r \<or> pr_idempotency_key x = pr_idempotency_key r
        \<or> pr_execution_id x = pr_execution_id r \<and> pr_target_type x = pr_target_type r
          \<and> pr_target_ref x = pr_target_ref r \<and> pr_version x = pr_version r
       then Inl (IntegrityError ''UNIQUE projection_record'')
     else if find_execution (pr_execution_id r) (ps_db s) = None
        \<or> \<not> list_ex (\<lambda>m. em_id m = pr_manifest_id r) (manifests (ps_db s)) then Inl (IntegrityError ''FOREIGN KEY'')
     else Inr (s\<lparr>ps_records := ps_records s @ [r]\<rparr>))"

definition update_projection ::
  "string \<Rightarrow> (projection_row \<Rightarrow> projection_row) \<Rightarrow> 'w projection_state \<Rightarrow> 'w projection_state result" where
  "update_projection key f s =
    (let hit = (\<lambda>r. pr_idempotency_key r = key) in
     if \<exists>r\<in>set (ps_records s). hit r \<and> \<not> projection_check (f r) then Inl (IntegrityError ''CHECK projection_record'')
     else Inr (s\<lparr>ps_records := update_where hit f (ps_records s)\<rparr>))"

section \<open>The service\<close>

text \<open>
  The environment of a projection: the store's at each of its transactions, the target, and what
  others do to the database, the log and the target between its steps.
\<close>

record 'w projection_env =
  en_ctx :: "nat \<Rightarrow> ctx"
  en_target :: "'w target"
  en_meanwhile :: "nat \<Rightarrow> 'w projection_state \<Rightarrow> 'w projection_state"

type_synonym ('w, 'a) projecting = "'w projection_state \<Rightarrow> 'a projected \<times> 'w projection_state"

definition write_transaction ::
  "ctx \<Rightarrow> ('w projection_state \<Rightarrow> 'w projection_state projected) \<Rightarrow> ('w, unit) projecting" where
  "write_transaction c body s = (case bnd (from_store (begin_guard c (ps_db s))) (\<lambda>_. body s) of
     Inl e \<Rightarrow> (Inl e, s) | Inr s' \<Rightarrow> (Inr (), s'))"

definition projection_key :: "(string \<Rightarrow> string) \<Rightarrow> 'w target \<Rightarrow> string \<Rightarrow> string projected" where
  "projection_key hash g identity = json_sha256 hash (JObj [(''projection_identity'', JStr identity),
     (''target_type'', JStr (tg_type g)), (''target_ref'', JStr (tg_ref g))])"

definition manifest_id_of :: "string \<Rightarrow> db \<Rightarrow> string projected" where
  "manifest_id_of i d = (case manifest_of i d of
     None \<Rightarrow> Inl (Projection_error ''EVIDENCE_MANIFEST_REQUIRED'') | Some m \<Rightarrow> Inr (em_id m))"

definition pending_body ::
  "'w target \<Rightarrow> string \<Rightarrow> projection_envelope \<Rightarrow> string \<Rightarrow> int \<Rightarrow> 'w projection_state \<Rightarrow> 'w projection_state projected" where
  "pending_body g i e key now s =
    bnd (case find (\<lambda>r. pr_idempotency_key r = key) (ps_records s) of
        None \<Rightarrow> bnd (manifest_id_of i (ps_db s)) (\<lambda>manifest. from_store (insert_projection
          \<lparr>pr_projection_id = ''projection-'' @ key, pr_execution_id = i, pr_manifest_id = manifest,
           pr_target_type = tg_type g, pr_target_ref = tg_ref g, pr_version = envelope_version e,
           pr_status = Pending_projection, pr_idempotency_key = key, pr_attempt_count = 0, pr_last_error = None,
           pr_created_at = now, pr_last_attempt_at = None, pr_next_attempt_at = None, pr_projected_at = None\<rparr> s))
      | Some r \<Rightarrow>
          if pr_projection_id r = ''projection-'' @ key \<and> pr_execution_id r = i \<and> pr_target_type r = tg_type g
             \<and> pr_target_ref r = tg_ref g \<and> pr_version r = envelope_version e then Inr s
          else Inl (Projection_error ''PROJECTION_IDEMPOTENCY_CONFLICT'')) (\<lambda>s1.
    from_store (update_projection key (\<lambda>r. r\<lparr>pr_status := Pending_projection,
      pr_attempt_count := pr_attempt_count r + 1, pr_last_attempt_at := Some now, pr_last_error := None,
      pr_projected_at := None\<rparr>) s1))"

text \<open>The code a failure of the target is logged and raised with.\<close>

fun failure_code :: "projection_failure \<Rightarrow> string" where
  "failure_code (Projection_error code) = code"
| "failure_code Target_unavailable = ''PROJECTION_TARGET_UNAVAILABLE''"
| "failure_code _ = ''PROJECTION_TRANSPORT_FAILURE''"

fun raised_failure :: "projection_failure \<Rightarrow> projection_failure" where
  "raised_failure (Transport_error _) = Projection_error ''PROJECTION_TRANSPORT_FAILURE''"
| "raised_failure (Store_failure _) = Projection_error ''PROJECTION_TRANSPORT_FAILURE''"
| "raised_failure f = f"

definition failed_body :: "string \<Rightarrow> string \<Rightarrow> 'w projection_state \<Rightarrow> 'w projection_state projected" where
  "failed_body key code s = from_store (update_projection key
     (\<lambda>r. r\<lparr>pr_status := Failed_projection, pr_last_error := Some code\<rparr>) s)"

definition succeeded_body :: "string \<Rightarrow> int \<Rightarrow> 'w projection_state \<Rightarrow> 'w projection_state projected" where
  "succeeded_body key now s = from_store (update_projection key
     (\<lambda>r. r\<lparr>pr_status := Succeeded_projection, pr_projected_at := Some now, pr_last_error := None\<rparr>) s)"

text \<open>\<open>ProjectionService.project\<close>: the intent is committed before the target is written, the outcome after.\<close>

definition write_target :: "'w projection_env \<Rightarrow> string \<Rightarrow> projection_envelope \<Rightarrow> ('w, unit) projecting" where
  "write_target E i e s = (case tg_write (en_target E) i (pe_identity e) (envelope_dict e) (ps_target s) of
     (answer, w) \<Rightarrow> (answer, s\<lparr>ps_target := w\<rparr>))"

definition settle_projection ::
  "'w projection_env \<Rightarrow> string \<Rightarrow> projection_envelope \<Rightarrow> string \<Rightarrow> ('w, projection_envelope) projecting" where
  "settle_projection E i e key s = (case write_target E i e (en_meanwhile E 1 s) of
      (Inl f, s1) \<Rightarrow> (case write_transaction (en_ctx E 1) (failed_body key (failure_code f)) (en_meanwhile E 2 s1) of
          (Inl f', s2) \<Rightarrow> (Inl f', s2) | (Inr _, s2) \<Rightarrow> (Inl (raised_failure f), s2))
    | (Inr _, s1) \<Rightarrow> (case write_transaction (en_ctx E 1) (succeeded_body key (clock (en_ctx E 1) 1)) (en_meanwhile E 2 s1) of
          (Inl f', s2) \<Rightarrow> (Inl f', s2) | (Inr _, s2) \<Rightarrow> (Inr e, s2)))"

definition project_execution :: "'w projection_env \<Rightarrow> string \<Rightarrow> ('w, projection_envelope) projecting" where
  "project_execution E i s = (case build_projection (en_ctx E 0) i (ps_db s) of
      Inl f \<Rightarrow> (Inl f, s)
    | Inr e \<Rightarrow> (case projection_key (sha (en_ctx E 0)) (en_target E) (pe_identity e) of
        Inl f \<Rightarrow> (Inl f, s)
      | Inr key \<Rightarrow> (case write_transaction (en_ctx E 0) (pending_body (en_target E) i e key (clock (en_ctx E 0) 1))
            (en_meanwhile E 0 s) of
          (Inl f, s1) \<Rightarrow> (Inl f, s1) | (Inr _, s1) \<Rightarrow> settle_projection E i e key s1)))"

definition compare_now :: "'w projection_env \<Rightarrow> string \<Rightarrow> ('w, drift_report) projecting" where
  "compare_now E i s = (case build_projection (en_ctx E 0) i (ps_db s) of
      Inl f \<Rightarrow> (Inl f, s)
    | Inr e \<Rightarrow> (case compare_projection (sha (en_ctx E 0)) (en_target E) i e (ps_target s) of
        (answer, w) \<Rightarrow> (answer, s\<lparr>ps_target := w\<rparr>)))"

text \<open>\<open>ProjectionService.reconcile\<close>.\<close>

definition reconcile_projection :: "'w projection_env \<Rightarrow> string \<Rightarrow> ('w, drift_report) projecting" where
  "reconcile_projection E i s = (case compare_now E i s of
      (Inl f, s1) \<Rightarrow> (Inl f, s1)
    | (Inr report, s1) \<Rightarrow>
        if dr_classification report = NO_DRIFT then (Inr report, s1)
        else (case project_execution E i s1 of
            (Inl f, s2) \<Rightarrow> (Inl f, s2) | (Inr _, s2) \<Rightarrow> compare_now E i (en_meanwhile E 3 s2)))"

end
