(* ===== verification/Notion.thy ===== *)
theory Notion
  imports Projection Evidence
begin

text \<open>
  The Notion transport of the shadow projection (\<open>src/adcp/notion_projection.py\<close>): requests and what
  it makes of their answers, the paginated query for the rows of one execution, reading, checked
  writing and the injected drift. The HTTP service is a parameter.
\<close>

section \<open>The service and the target\<close>

text \<open>
  What \<open>urlopen\<close> gives for a method, a path and a body: an answer with its status and bytes, an
  \<open>HTTPError\<close> with its code, or any other exception.
\<close>

datatype http_reply = Http_reply int string | Http_failure int | Http_broken

text \<open>
  \<open>NotionProjectionTarget\<close>; \<open>nt_shown\<close> is \<open>str\<close> on numbers with a fraction, lists and objects, which the
  documents of the service do not have where the code applies it.
\<close>

record 'w notion =
  nt_http :: "string \<Rightarrow> string \<Rightarrow> string option \<Rightarrow> 'w \<Rightarrow> http_reply \<times> 'w"
  nt_shown :: "json \<Rightarrow> string"
  nt_data_source_id :: string
  nt_test_run_id :: string
  nt_world :: 'w
  nt_last_write_status :: "int option"
  nt_last_page_id :: json
  nt_request_evidence :: "(string \<times> string \<times> int) list"

type_synonym ('w, 'a) asking = "'w notion \<Rightarrow> 'a projected \<times> 'w notion"

definition notion_target ::
  "(string \<Rightarrow> string \<Rightarrow> string option \<Rightarrow> 'w \<Rightarrow> http_reply \<times> 'w) \<Rightarrow> (json \<Rightarrow> string) \<Rightarrow> string \<Rightarrow> string \<Rightarrow> string \<Rightarrow> 'w
     \<Rightarrow> 'w notion projected" where
  "notion_target http shown token source run w =
    (if token = [] then Inl Target_unavailable
     else if source = [] \<or> run = [] then Inl (Projection_error ''INVALID_NOTION_TARGET_CONFIGURATION'')
     else Inr \<lparr>nt_http = http, nt_shown = shown, nt_data_source_id = source, nt_test_run_id = run, nt_world = w,
       nt_last_write_status = None, nt_last_page_id = JNull, nt_request_evidence = []\<rparr>)"

definition notion_target_ref :: "'w notion \<Rightarrow> string" where
  "notion_target_ref n = ''notion-data-source://'' @ nt_data_source_id n @ ''/run/'' @ nt_test_run_id n"

section \<open>Values as Python reads them\<close>

definition attribute_error :: projection_failure where
  "attribute_error = Transport_error ''AttributeError''"

definition type_error :: projection_failure where
  "type_error = Transport_error ''TypeError''"

text \<open>\<open>value.get(key, fallback)\<close>: only an object has the method.\<close>

fun get_or :: "string \<Rightarrow> json \<Rightarrow> json \<Rightarrow> json projected" where
  "get_or k fallback (JObj kvs) = Inr (case map_of kvs k of None \<Rightarrow> fallback | Some v \<Rightarrow> v)"
| "get_or k fallback _ = Inl attribute_error"

text \<open>What a \<open>for\<close> loop or \<open>extend\<close> takes from a value.\<close>

function code_points :: "string \<Rightarrow> string list" where
  "code_points [] = []"
| "code_points (c # s) = (c # takeWhile continuation s) # code_points (dropWhile continuation s)"
  by pat_completeness auto
termination by (relation "measure length") (auto simp: length_dropWhile_le le_imp_less_Suc)

fun iterated :: "json \<Rightarrow> json list projected" where
  "iterated (JList xs) = Inr xs"
| "iterated (JObj kvs) = Inr (map (JStr \<circ> fst) kvs)"
| "iterated (JStr s) = Inr (map JStr (code_points s))"
| "iterated _ = Inl type_error"

definition str_of :: "(json \<Rightarrow> string) \<Rightarrow> json \<Rightarrow> string" where
  "str_of shown v = (case v of JStr s \<Rightarrow> s | JNull \<Rightarrow> ''None'' | JBool b \<Rightarrow> (if b then ''True'' else ''False'')
     | JInt n \<Rightarrow> int_text n | _ \<Rightarrow> shown v)"

text \<open>A dictionary key must be hashable.\<close>

definition hashable :: "json \<Rightarrow> bool" where
  "hashable v = (case v of JList _ \<Rightarrow> False | JObj _ \<Rightarrow> False | _ \<Rightarrow> True)"

text \<open>\<open>_plain_text\<close> and \<open>_select_name\<close>.\<close>

definition fragment_text :: "(json \<Rightarrow> string) \<Rightarrow> json \<Rightarrow> string projected" where
  "fragment_text shown item =
    bnd (get_or ''text'' (JObj []) item) (\<lambda>inner.
    bnd (get_or ''content'' (JStr []) inner) (\<lambda>content.
    bnd (get_or ''plain_text'' content item) (\<lambda>v. Inr (str_of shown v))))"

fun fragment_texts :: "(json \<Rightarrow> string) \<Rightarrow> json list \<Rightarrow> string projected" where
  "fragment_texts shown [] = Inr []"
| "fragment_texts shown (x # xs) = bnd (fragment_text shown x) (\<lambda>s. bnd (fragment_texts shown xs) (\<lambda>t. Inr (s @ t)))"

definition plain_text :: "(json \<Rightarrow> string) \<Rightarrow> json \<Rightarrow> string projected" where
  "plain_text shown prop =
    bnd (get_or ''type'' JNull prop) (\<lambda>kind.
    if \<not> hashable kind then Inl type_error
    else bnd (case kind of JStr k \<Rightarrow> if k = ''rich_text'' \<or> k = ''title'' then get_or k (JList []) prop else Inr (JList [])
                | _ \<Rightarrow> Inr (JList [])) (\<lambda>fragments.
    bnd (iterated fragments) (fragment_texts shown)))"

definition text_property :: "(json \<Rightarrow> string) \<Rightarrow> string \<Rightarrow> json \<Rightarrow> string projected" where
  "text_property shown name properties = bnd (get_or name (JObj []) properties) (plain_text shown)"

definition select_name :: "json \<Rightarrow> json projected" where
  "select_name prop = bnd (get_or ''select'' JNull prop) (\<lambda>selected.
    case selected of JObj _ \<Rightarrow> get_or ''name'' JNull selected | _ \<Rightarrow> Inr JNull)"

text \<open>\<open>_rich_text\<close> and \<open>_title\<close>: fragments of at most 2000 characters.\<close>

definition text_fragment :: "string \<Rightarrow> json" where
  "text_fragment s = JObj [(''type'', JStr ''text''), (''text'', JObj [(''content'', JStr s)])]"

function chunks :: "nat \<Rightarrow> string list \<Rightarrow> string list list" where
  "chunks n xs = (if n = 0 \<or> xs = [] then [] else take n xs # chunks n (drop n xs))"
  by pat_completeness auto
termination by (relation "measure (length \<circ> snd)") auto

declare chunks.simps [simp del]

definition rich_text :: "string \<Rightarrow> json" where
  "rich_text s = JObj [(''rich_text'', JList (map (text_fragment \<circ> concat) (chunks 2000 (code_points s))))]"

definition title :: "string \<Rightarrow> json" where
  "title s = JObj [(''title'', JList [text_fragment (concat (take 2000 (code_points s)))])]"

section \<open>Requests\<close>

definition json_body :: "json \<Rightarrow> string projected" where
  "json_body j = from_store (canonical_json (json_to_py j))"

definition parsed_reply :: "string \<Rightarrow> json option" where
  "parsed_reply bytes = Option.bind (decode_json_bytes bytes) loads"

definition witnessed :: "string \<Rightarrow> string \<Rightarrow> int \<Rightarrow> 'w notion \<Rightarrow> 'w notion" where
  "witnessed meth endpoint status n = n\<lparr>nt_request_evidence := nt_request_evidence n @ [(meth, endpoint, status)]\<rparr>"

definition request :: "string \<Rightarrow> string \<Rightarrow> json option \<Rightarrow> string \<Rightarrow> ('w, int \<times> json) asking" where
  "request meth where_to body endpoint n =
    (case (case body of None \<Rightarrow> Inr None | Some j \<Rightarrow> bnd (json_body j) (\<lambda>s. Inr (Some s))) of
       Inl e \<Rightarrow> (Inl e, n)
     | Inr data \<Rightarrow>
       let (reply, w) = nt_http n meth where_to data (nt_world n); n1 = n\<lparr>nt_world := w\<rparr> in
       (case reply of
          Http_failure code \<Rightarrow> (Inl Target_unavailable, witnessed meth endpoint code n1)
        | Http_broken \<Rightarrow> (Inl Target_unavailable, n1)
        | Http_reply status bytes \<Rightarrow> (case parsed_reply bytes of
             Some (JObj kvs) \<Rightarrow> (Inr (status, JObj kvs), witnessed meth endpoint status n1)
           | _ \<Rightarrow> (Inl Target_unavailable, n1))))"

definition asking_bnd :: "('w, 'a) asking \<Rightarrow> ('a \<Rightarrow> ('w, 'b) asking) \<Rightarrow> ('w, 'b) asking" where
  "asking_bnd m f n = (case m n of (Inl e, n1) \<Rightarrow> (Inl e, n1) | (Inr x, n1) \<Rightarrow> f x n1)"

definition answering :: "'a projected \<Rightarrow> ('w, 'a) asking" where
  "answering r n = (r, n)"

definition query_path :: "'w notion \<Rightarrow> string" where
  "query_path n = ''/data_sources/'' @ nt_data_source_id n @ ''/query''"

definition expected_schema :: "(string \<times> string) list" where
  "expected_schema = [(''Canonical Payload'', ''rich_text''), (''Control Execution ID'', ''rich_text''),
     (''Evidence Manifest Hash'', ''rich_text''), (''Execution State'', ''rich_text''),
     (''Isolated Shadow Only'', ''checkbox''), (''Name'', ''title''), (''Projected At'', ''date''),
     (''Projection Identity'', ''rich_text''), (''Projection Payload Hash'', ''rich_text''),
     (''Projection Version'', ''number''), (''Result Commit'', ''rich_text''), (''State Version'', ''number''),
     (''Test Run ID'', ''rich_text''), (''Validation State'', ''select'')]"

fun observed_kinds :: "(string \<times> json) list \<Rightarrow> (string \<times> json) list projected" where
  "observed_kinds [] = Inr []"
| "observed_kinds ((name, v) # kvs) =
     bnd (get_or ''type'' JNull v) (\<lambda>kind. bnd (observed_kinds kvs) (\<lambda>rest. Inr ((name, kind) # rest)))"

definition observed_schema_of :: "json \<Rightarrow> (string \<times> json) list projected" where
  "observed_schema_of properties = (case properties of JObj kvs \<Rightarrow> observed_kinds kvs | _ \<Rightarrow> Inl attribute_error)"

definition preflight :: "('w, unit) asking" where
  "preflight n =
    asking_bnd (request ''GET'' (''/data_sources/'' @ nt_data_source_id n) None ''data-source-read'') (\<lambda>(status, metadata).
    asking_bnd (answering (bnd (get_or ''id'' JNull metadata) (\<lambda>identifier.
      if identifier \<noteq> JStr (nt_data_source_id n) then Inl (Projection_error ''NOTION_TARGET_ID_MISMATCH'')
      else bnd (get_or ''properties'' (JObj []) metadata) (\<lambda>properties.
      bnd (observed_schema_of properties) (\<lambda>observed.
      if list_ex (\<lambda>(name, kind). map_of observed name \<noteq> Some (JStr kind)) expected_schema
      then Inl (Projection_error ''NOTION_TARGET_SCHEMA_MISMATCH'') else Inr ()))))) (\<lambda>_.
    asking_bnd (request ''POST'' (query_path n) (Some (JObj [(''page_size'', JInt 1)])) ''data-source-query'') (\<lambda>_.
    answering (if status \<noteq> 200 then Inl Target_unavailable else Inr ())))) n"

section \<open>The rows of one execution\<close>

definition equals_filter :: "string \<Rightarrow> string \<Rightarrow> json \<Rightarrow> json" where
  "equals_filter name kind v = JObj [(''property'', JStr name), (kind, JObj [(''equals'', v)])]"

definition query_body :: "'w notion \<Rightarrow> string \<Rightarrow> string option \<Rightarrow> json" where
  "query_body n i cursor = JObj
    ([(''filter'', JObj [(''and'', JList [equals_filter ''Test Run ID'' ''rich_text'' (JStr (nt_test_run_id n)),
        equals_filter ''Control Execution ID'' ''rich_text'' (JStr i),
        equals_filter ''Isolated Shadow Only'' ''checkbox'' (JBool True)])]), (''page_size'', JInt 100)]
     @ (case cursor of None \<Rightarrow> [] | Some c \<Rightarrow> [(''start_cursor'', JStr c)]))"

text \<open>One page: its rows, and the cursor of the next one if the answer announces it.\<close>

definition query_page :: "string \<Rightarrow> string option \<Rightarrow> ('w, json list \<times> string option) asking" where
  "query_page i cursor n =
    asking_bnd (request ''POST'' (query_path n) (Some (query_body n i cursor)) ''data-source-query'') (\<lambda>(_, response).
    answering
      (bnd (get_or ''results'' (JList []) response) (\<lambda>results.
       bnd (iterated results) (\<lambda>found.
       bnd (get_or ''has_more'' JNull response) (\<lambda>more.
       if \<not> truthy more then Inr (found, None)
       else bnd (get_or ''next_cursor'' JNull response) (\<lambda>next_cursor. case next_cursor of
           JStr c \<Rightarrow> if c = [] then Inl Target_unavailable else Inr (found, Some c)
         | _ \<Rightarrow> Inl Target_unavailable)))))) n"

text \<open>The \<open>while True\<close> loop of \<open>_query_owned_rows\<close>; \<open>None\<close> when it never ends.\<close>

partial_function (option) query_pages ::
  "string \<Rightarrow> json list \<Rightarrow> string option \<Rightarrow> 'w notion \<Rightarrow> (json list projected \<times> 'w notion) option" where
  "query_pages i found cursor n = (case query_page i cursor n of
     (Inl e, n1) \<Rightarrow> Some (Inl e, n1)
   | (Inr (page, None), n1) \<Rightarrow> Some (Inr (found @ page), n1)
   | (Inr (page, Some c), n1) \<Rightarrow> query_pages i (found @ page) (Some c) n1)"

definition query_owned_rows :: "string \<Rightarrow> 'w notion \<Rightarrow> (json list projected \<times> 'w notion) option" where
  "query_owned_rows i = query_pages i [] None"

definition with_owned_rows ::
  "string \<Rightarrow> (json list \<Rightarrow> ('w, 'a) asking) \<Rightarrow> 'w notion \<Rightarrow> ('a projected \<times> 'w notion) option" where
  "with_owned_rows i f n = map_option (\<lambda>(r, n1). case r of Inl e \<Rightarrow> (Inl e, n1) | Inr found \<Rightarrow> f found n1) (query_owned_rows i n)"

section \<open>Reading\<close>

definition duplicate_rows :: projection_failure where
  "duplicate_rows = Projection_error ''PROJECTION_DUPLICATE_DIVERGENT_ROWS''"

definition with_last_page :: "json projected \<Rightarrow> ('w, 'a) asking \<Rightarrow> ('w, 'a) asking" where
  "with_last_page identifier f n = (case identifier of Inl e \<Rightarrow> (Inl e, n) | Inr v \<Rightarrow> f (n\<lparr>nt_last_page_id := v\<rparr>))"

definition row_document :: "(json \<Rightarrow> string) \<Rightarrow> json \<Rightarrow> (string \<times> json) list projected" where
  "row_document shown row =
    bnd (get_or ''properties'' (JObj []) row) (\<lambda>properties.
    bnd (text_property shown ''Canonical Payload'' properties) (\<lambda>raw. case loads raw of
      Some (JObj kvs) \<Rightarrow> bnd (text_property shown ''Projection Payload Hash'' properties) (\<lambda>digest.
        Inr (dict_set ''projection_payload_hash'' (JStr digest) kvs))
    | _ \<Rightarrow> Inl (Projection_error ''PROJECTION_CONTENT_MISMATCH'')))"

definition notion_read :: "string \<Rightarrow> 'w notion \<Rightarrow> ((string \<times> json) list option projected \<times> 'w notion) option" where
  "notion_read i = with_owned_rows i (\<lambda>found n. case found of
      [] \<Rightarrow> (Inr None, n\<lparr>nt_last_page_id := JNull\<rparr>)
    | [row] \<Rightarrow> with_last_page (get_or ''id'' JNull row)
        (answering (bnd (row_document (nt_shown n) row) (\<lambda>kvs. Inr (Some kvs)))) n
    | _ \<Rightarrow> (Inl duplicate_rows, n))"

definition logical_row_count :: "string \<Rightarrow> 'w notion \<Rightarrow> (int projected \<times> 'w notion) option" where
  "logical_row_count i = with_owned_rows i (\<lambda>found. answering (Inr (int (length found))))"

definition snapshot_of :: "(json \<Rightarrow> string) \<Rightarrow> json \<Rightarrow> (string \<times> json) list projected" where
  "snapshot_of shown row =
    bnd (get_or ''properties'' (JObj []) row) (\<lambda>properties.
    bnd (get_or ''id'' JNull row) (\<lambda>identifier.
    bnd (text_property shown ''Test Run ID'' properties) (\<lambda>run.
    bnd (text_property shown ''Control Execution ID'' properties) (\<lambda>execution.
    bnd (text_property shown ''Projection Identity'' properties) (\<lambda>identity.
    bnd (text_property shown ''Projection Payload Hash'' properties) (\<lambda>digest.
    bnd (get_or ''Isolated Shadow Only'' (JObj []) properties) (\<lambda>box.
    bnd (get_or ''checkbox'' JNull box) (\<lambda>isolated.
    Inr [(''page_id'', identifier), (''test_run_id'', JStr run), (''control_execution_id'', JStr execution),
      (''projection_identity'', JStr identity), (''projection_payload_hash'', JStr digest),
      (''isolated_shadow_only'', isolated)]))))))))"

definition row_snapshot :: "string \<Rightarrow> 'w notion \<Rightarrow> ((string \<times> json) list option projected \<times> 'w notion) option" where
  "row_snapshot i = with_owned_rows i (\<lambda>found n. case found of
      [] \<Rightarrow> (Inr None, n)
    | [row] \<Rightarrow> (bnd (snapshot_of (nt_shown n) row) (\<lambda>kvs. Inr (Some kvs)), n)
    | _ \<Rightarrow> (Inl duplicate_rows, n))"

section \<open>Writing\<close>

definition key_of :: "string \<Rightarrow> (string \<times> json) list \<Rightarrow> json projected" where
  "key_of k kvs = (case map_of kvs k of None \<Rightarrow> Inl (Transport_error ''KeyError'') | Some v \<Rightarrow> Inr v)"

text \<open>\<open>str(payload.get(k) or "")\<close>.\<close>

definition text_or_empty :: "(json \<Rightarrow> string) \<Rightarrow> string \<Rightarrow> (string \<times> json) list \<Rightarrow> string" where
  "text_or_empty shown k kvs = (case map_of kvs k of None \<Rightarrow> [] | Some v \<Rightarrow> if truthy v then str_of shown v else [])"

definition projection_properties ::
  "'w notion \<Rightarrow> string \<Rightarrow> string \<Rightarrow> (string \<times> json) list \<Rightarrow> string \<Rightarrow> json projected" where
  "projection_properties n i identity kvs validation =
    bnd (key_of ''projection_payload_hash'' kvs) (\<lambda>digest.
    bnd (key_of ''projection_version'' kvs) (\<lambda>version.
    bnd (key_of ''state_version'' kvs) (\<lambda>state_version.
    bnd (key_of ''execution_state'' kvs) (\<lambda>state.
    bnd (json_body (JObj kvs)) (\<lambda>document.
    bnd (key_of ''projected_at'' kvs) (\<lambda>projected_at.
    Inr (JObj
      [(''Name'', title (''WCP-06C5B '' @ [CHR 0xC2, CHR 0xB7] @ '' '' @ nt_test_run_id n)),
       (''Test Run ID'', rich_text (nt_test_run_id n)), (''Control Execution ID'', rich_text i),
       (''Projection Identity'', rich_text identity), (''Projection Version'', JObj [(''number'', version)]),
       (''State Version'', JObj [(''number'', state_version)]),
       (''Execution State'', rich_text (str_of (nt_shown n) state)),
       (''Result Commit'', rich_text (text_or_empty (nt_shown n) ''result_commit'' kvs)),
       (''Evidence Manifest Hash'', rich_text (text_or_empty (nt_shown n) ''evidence_manifest_hash'' kvs)),
       (''Canonical Payload'', rich_text document),
       (''Projection Payload Hash'', rich_text (str_of (nt_shown n) digest)),
       (''Projected At'', JObj [(''date'', JObj [(''start'', projected_at)])]),
       (''Validation State'', JObj [(''select'', JObj [(''name'', JStr validation)])]),
       (''Isolated Shadow Only'', JObj [(''checkbox'', JBool True)])])))))))"

definition validation_state :: "json list \<Rightarrow> string projected" where
  "validation_state found = (case found of [] \<Rightarrow> Inr ''WRITTEN'' | row # _ \<Rightarrow>
     bnd (get_or ''properties'' (JObj []) row) (\<lambda>properties.
     bnd (get_or ''Validation State'' (JObj []) properties) (\<lambda>prop.
     bnd (select_name prop) (\<lambda>name. Inr (if name = JStr ''DRIFT_INJECTED'' then ''RECONCILED'' else ''WRITTEN'')))))"

definition page_identifier :: "json \<Rightarrow> string projected" where
  "page_identifier row = bnd (get_or ''id'' JNull row) (\<lambda>identifier. case identifier of
     JStr s \<Rightarrow> if s = [] then Inl (Projection_error ''NOTION_PAGE_ID_MISSING'') else Inr s
   | _ \<Rightarrow> Inl (Projection_error ''NOTION_PAGE_ID_MISSING''))"

definition wrote :: "int \<Rightarrow> json projected \<Rightarrow> ('w, unit) asking" where
  "wrote status identifier n =
    with_last_page identifier (answering (Inr ())) (n\<lparr>nt_last_write_status := Some status\<rparr>)"

text \<open>Once the rows are known: a page is created when there was none, the only one is updated.\<close>

definition write_page ::
  "string \<Rightarrow> string \<Rightarrow> (string \<times> json) list \<Rightarrow> json list \<Rightarrow> ('w, unit) asking" where
  "write_page i identity kvs found n =
    (if 1 < length found then (Inl duplicate_rows, n)
     else asking_bnd (answering (bnd (validation_state found) (projection_properties n i identity kvs))) (\<lambda>properties.
       asking_bnd (case found of
           row # _ \<Rightarrow> asking_bnd (answering (page_identifier row)) (\<lambda>page.
             request ''PATCH'' (''/pages/'' @ page) (Some (JObj [(''properties'', properties)])) ''page-update'')
         | [] \<Rightarrow> request ''POST'' ''/pages'' (Some (JObj
             [(''parent'', JObj [(''type'', JStr ''data_source_id''), (''data_source_id'', JStr (nt_data_source_id n))]),
              (''properties'', properties)])) ''page-create'') (\<lambda>(status, response).
       wrote status (get_or ''id'' JNull response))) n)"

definition notion_write ::
  "(string \<Rightarrow> string) \<Rightarrow> string \<Rightarrow> string \<Rightarrow> (string \<times> json) list \<Rightarrow> 'w notion \<Rightarrow> (unit projected \<times> 'w notion) option" where
  "notion_write hash i identity payload n = (case checked_document hash i identity payload of
     Inl e \<Rightarrow> Some (Inl e, n)
   | Inr kvs \<Rightarrow> with_owned_rows i (write_page i identity kvs) n)"

section \<open>Controlled drift\<close>

definition drifted_document :: "(string \<Rightarrow> string) \<Rightarrow> (string \<times> json) list \<Rightarrow> ((string \<times> json) list \<times> string) projected" where
  "drifted_document hash payload =
    bnd (reparsed payload) (\<lambda>kvs.
    let drifted = dict_set ''risk'' (JStr ''C5B_SYNTHETIC_DRIFT'') (without_hash kvs) in
    bnd (json_sha256 hash (JObj drifted)) (\<lambda>digest.
    Inr (drifted @ [(''projection_payload_hash'', JStr digest)], digest)))"

definition apply_controlled_drift ::
  "(string \<Rightarrow> string) \<Rightarrow> string \<Rightarrow> (string \<times> json) list \<Rightarrow> 'w notion \<Rightarrow> (int projected \<times> 'w notion) option" where
  "apply_controlled_drift hash i payload = with_owned_rows i (\<lambda>found. case found of
      [row] \<Rightarrow>
        asking_bnd (answering (get_or ''id'' JNull row)) (\<lambda>page.
        asking_bnd (answering (drifted_document hash payload)) (\<lambda>(drifted, digest).
        asking_bnd (answering (json_body (JObj drifted))) (\<lambda>document n.
        asking_bnd (request ''PATCH'' (''/pages/'' @ str_of (nt_shown n) page) (Some (JObj [(''properties'', JObj
            [(''Canonical Payload'', rich_text document), (''Projection Payload Hash'', rich_text digest),
             (''Validation State'', JObj [(''select'', JObj [(''name'', JStr ''DRIFT_INJECTED'')])])])]))
          ''page-controlled-drift'') (\<lambda>(status, _).
        (\<lambda>n. (Inr status, n\<lparr>nt_last_write_status := Some status, nt_last_page_id := page\<rparr>))) n)))
    | _ \<Rightarrow> answering (Inl (Projection_error ''PROJECTION_OWNED_ROW_REQUIRED'')))"

end
