(* ===== verification/Projection_Properties.thy ===== *)
theory Projection_Properties
  imports Projection Document_Properties Lease_Properties
begin

text \<open>
  A target agrees with the store after a reconciliation, and what can keep a reconciliation from
  it: the interface of a target, its interpretation by the in-memory one, and the log of attempts.
\<close>

section \<open>Documents and their text\<close>

definition canon_members :: "(string \<times> json) list \<Rightarrow> (string \<times> json) list" where
  "canon_members kvs = map canon_member (sort_key fst kvs)"

lemma canon_members: "canon (JObj kvs) = JObj (canon_members kvs)"
  by (simp add: canon_members_def canon_JObj del: canon.simps)

lemma reparsed_plain: "plain (JObj kvs) \<Longrightarrow> reparsed kvs = Inr (canon_members kvs)"
  by (simp only: reparsed_def canonical_json_json_to_py from_store_def sum.case bnd_simps loads_dumps canon_members
      option.case json.case)

lemma canonical_plain: "plain j \<Longrightarrow> from_store (canonical_json (json_to_py j)) = Inr (dumps j)"
  by (simp add: canonical_json_json_to_py from_store_def)

lemma json_sha256_plain: "plain j \<Longrightarrow> json_sha256 hash j = Inr (hash (dumps j))"
  by (simp add: json_sha256_def canonical_sha256_def canonical_json_json_to_py from_store_def)

lemma dumps_members: "plain (JObj kvs) \<Longrightarrow> dumps (JObj (canon_members kvs)) = dumps (JObj kvs)"
  unfolding canon_members [symmetric] by (rule dumps_canon)

lemma plain_members: "plain (JObj kvs) \<Longrightarrow> plain (JObj (canon_members kvs))"
  unfolding canon_members [symmetric] by (rule plain_canon)

lemma filter_members: "filter (\<lambda>(k, _). k \<noteq> key) (canon_members kvs) = canon_members (filter (\<lambda>(k, _). k \<noteq> key) kvs)"
  by (simp add: canon_members_def filter_map filter_sort comp_def canon_member_def case_prod_unfold)

lemma map_of_members: "plain (JObj kvs) \<Longrightarrow> map_of (canon_members kvs) k = map_option canon (map_of kvs k)"
  using member_canon [of "JObj kvs" k] unfolding canon_members by simp

lemma canon_member_idem:
  assumes "plain (snd x)"
  shows "canon_member (canon_member x) = canon_member x"
proof -
  have "canon (canon (snd x)) = canon (snd x)"
    by (rule dumps_injective [OF plain_canon [OF assms] assms dumps_canon [OF assms]])
  then show ?thesis by (simp add: canon_member_def split: prod.split)
qed

text \<open>Sorting a part first does not change the members in order.\<close>

lemma canon_members_append:
  assumes "plain (JObj (kvs @ [kv]))" and "canon_member kv = kv"
  shows "canon_members (canon_members kvs @ [kv]) = canon_members (kvs @ [kv])"
proof -
  have key: "fst (canon_member x) = fst x" for x by (simp add: canon_member_def split: prod.split)
  have idem: "canon_member (canon_member x) = canon_member x" if "x \<in> set (kvs @ [kv])" for x
    using assms(1) that by (intro canon_member_idem) (auto simp: list_all_iff)
  have "mset (sort_key fst kvs @ [kv]) = mset (kvs @ [kv])" by simp
  moreover have "distinct (map fst (kvs @ [kv]))" using assms(1) by simp
  ultimately have sorted: "sort_key fst (sort_key fst kvs @ [kv]) = sort_key fst (kvs @ [kv])"
    by (intro sort_key_inj_key_eq) (auto simp: distinct_map)
  have "canon_members (canon_members kvs @ [kv]) = map canon_member (sort_key fst (map canon_member (sort_key fst kvs @ [kv])))"
    using assms(2) by (simp only: canon_members_def map_append list.map)
  also have "\<dots> = map canon_member (map canon_member (sort_key fst (kvs @ [kv])))"
    by (simp only: sort_key_map [OF key] sorted)
  also have "\<dots> = canon_members (kvs @ [kv])"
    using idem by (simp add: canon_members_def del: map_append)
  finally show ?thesis .
qed

section \<open>The document of an execution\<close>

lemma plain_summaries:
  "plain (json_time_opt t)" "plain (blocker_json r)" "plain (verification_status v)" "plain (evaluator_verdict u)"
  "plain (approval_summary p)" "plain (attempt_summary i d)"
  by (simp_all add: json_time_opt_def blocker_json_def verification_status_def evaluator_verdict_def
      approval_summary_def attempt_summary_def split: option.split list.split)

lemma plain_payload_document: "plain (JObj (projection_payload r d))"
  by (simp add: projection_payload_def plain_summaries)

text \<open>An envelope as \<open>build_projection\<close> makes it.\<close>

definition honest_envelope :: "(string \<Rightarrow> string) \<Rightarrow> string \<Rightarrow> projection_envelope \<Rightarrow> bool" where
  "honest_envelope hash i e \<longleftrightarrow> plain (JObj (envelope_dict e))
     \<and> pe_payload_hash e = hash (dumps (JObj (pe_payload e)))
     \<and> pe_identity e = hash (dumps (identity_json i (pe_payload_hash e)))"

lemma built_projection:
  "build_projection c i d = (case find_execution i d of
     None \<Rightarrow> Inl (Store_failure (StoreError ''EXECUTION_NOT_FOUND''))
   | Some r \<Rightarrow> let h = sha c (dumps (JObj (projection_payload r d))) in
       Inr \<lparr>pe_payload = projection_payload r d, pe_payload_hash = h, pe_identity = sha c (dumps (identity_json i h))\<rparr>)"
proof -
  have "plain (identity_json i h)" for h by (simp add: identity_json_def)
  then show ?thesis
    by (cases "find_execution i d")
      (simp_all add: build_projection_def get_execution_def of_option_def from_store_def json_sha256_plain
        plain_payload_document Let_def del: plain.simps dumps.simps)
qed

lemma built_honest:
  assumes "build_projection c i d = Inr e"
  shows "honest_envelope (sha c) i e"
proof -
  from assms obtain r where e: "pe_payload e = projection_payload r d" "pe_payload_hash e = sha c (dumps (JObj (pe_payload e)))"
    "pe_identity e = sha c (dumps (identity_json i (pe_payload_hash e)))"
    unfolding built_projection by (auto simp: Let_def split: option.splits)
  moreover have "''projection_payload_hash'' \<notin> fst ` set (projection_payload r d)" by (simp add: projection_payload_def)
  ultimately show ?thesis
    using plain_payload_document [of r d] by (auto simp: honest_envelope_def envelope_dict_def)
qed

lemma envelope_facts:
  assumes "honest_envelope hash i e"
  shows "without_hash (envelope_dict e) = pe_payload e" and "plain (JObj (pe_payload e))"
    and "map_of (envelope_dict e) ''projection_payload_hash'' = Some (JStr (pe_payload_hash e))"
proof -
  from assms have plain: "plain (JObj (envelope_dict e))" by (simp add: honest_envelope_def)
  then have fresh: "''projection_payload_hash'' \<notin> fst ` set (pe_payload e)" by (auto simp: envelope_dict_def)
  then have "filter (\<lambda>(k, _). k \<noteq> ''projection_payload_hash'') (pe_payload e) = pe_payload e"
    by (force intro: filter_True)
  then show "without_hash (envelope_dict e) = pe_payload e" by (simp add: without_hash_def envelope_dict_def)
  show "plain (JObj (pe_payload e))" using plain by (simp add: envelope_dict_def)
  show "map_of (envelope_dict e) ''projection_payload_hash'' = Some (JStr (pe_payload_hash e))"
    using fresh by (simp add: envelope_dict_def map_add_def dom_map_of_conv_image_fst [symmetric] domIff split: option.split)
qed

text \<open>What a target keeps of an honest envelope, and what it reads back.\<close>

definition kept_document :: "projection_envelope \<Rightarrow> (string \<times> json) list" where
  "kept_document e = canon_members (pe_payload e) @ [(''projection_payload_hash'', JStr (pe_payload_hash e))]"

definition read_document :: "projection_envelope \<Rightarrow> (string \<times> json) list" where
  "read_document e = canon_members (envelope_dict e)"

lemma document_checked:
  assumes "honest_envelope hash i e"
  shows "checked_document hash i (pe_identity e) (envelope_dict e) = Inr (kept_document e)"
proof -
  note facts = envelope_facts [OF assms]
  from assms have plain: "plain (JObj (envelope_dict e))" by (simp add: honest_envelope_def)
  have supplied: "map_of (canon_members (envelope_dict e)) ''projection_payload_hash'' = Some (JStr (pe_payload_hash e))"
    by (simp add: map_of_members [OF plain] facts(3))
  have payload: "without_hash (canon_members (envelope_dict e)) = canon_members (pe_payload e)"
    by (simp add: without_hash_def filter_members) (simp add: facts(1) [unfolded without_hash_def])
  have identity: "plain (identity_json i (pe_payload_hash e))" by (simp add: identity_json_def)
  have "hash (dumps (JObj (pe_payload e))) = pe_payload_hash e"
    "hash (dumps (identity_json i (pe_payload_hash e))) = pe_identity e"
    using assms by (simp_all add: honest_envelope_def del: plain.simps dumps.simps)
  then show ?thesis
    unfolding checked_document_def reparsed_plain [OF plain] bnd_simps supplied option.case json.case payload
      json_sha256_plain [OF plain_members [OF facts(2)]] dumps_members [OF facts(2)] json_sha256_plain [OF identity]
    by (simp add: kept_document_def)
qed

lemma document_reparsed:
  assumes "honest_envelope hash i e"
  shows "reparsed (kept_document e) = Inr (read_document e)"
    and "dumps (JObj (kept_document e)) = dumps (JObj (envelope_dict e))" and "plain (JObj (kept_document e))"
proof -
  from assms have plain: "plain (JObj (envelope_dict e))" by (simp add: honest_envelope_def)
  have same: "canon_members (kept_document e) = read_document e"
    unfolding kept_document_def read_document_def envelope_dict_def
    by (rule canon_members_append) (use plain in \<open>simp_all add: envelope_dict_def canon_member_def\<close>)
  have "plain (JObj (canon_members (pe_payload e)))" by (rule plain_members [OF envelope_facts(2) [OF assms]])
  moreover have "fst ` set (canon_members (pe_payload e)) = fst ` set (pe_payload e)"
    by (force simp: canon_members_def canon_member_def)
  ultimately show kept: "plain (JObj (kept_document e))" using plain by (simp add: kept_document_def envelope_dict_def)
  from reparsed_plain [OF this] same show "reparsed (kept_document e) = Inr (read_document e)" by simp
  have "dumps (JObj (kept_document e)) = dumps (JObj (canon_members (kept_document e)))"
    by (rule dumps_members [OF kept, symmetric])
  then show "dumps (JObj (kept_document e)) = dumps (JObj (envelope_dict e))"
    unfolding same read_document_def dumps_members [OF plain] .
qed

text \<open>A target that reads back the document agrees with the store.\<close>

lemma read_agrees:
  assumes "honest_envelope hash i e"
  shows "\<exists>report. classify_observed hash e version (read_document e) = Inr report
    \<and> dr_classification report = NO_DRIFT \<and> \<not> dr_blocks_cutover report"
proof -
  note facts = envelope_facts [OF assms]
  from assms have plain: "plain (JObj (envelope_dict e))" by (simp add: honest_envelope_def)
  have "map_of (read_document e) ''projection_payload_hash'' = Some (JStr (pe_payload_hash e))"
    by (simp add: read_document_def map_of_members [OF plain] facts(3))
  moreover have "without_hash (read_document e) = canon_members (pe_payload e)"
    unfolding read_document_def without_hash_def filter_members by (simp add: facts(1) [unfolded without_hash_def])
  ultimately have "internally_valid hash (read_document e) = Inr True"
    using assms by (simp add: internally_valid_def json_sha256_plain plain_members facts(2) dumps_members honest_envelope_def
        del: plain.simps dumps.simps)
  then show ?thesis
    unfolding classify_observed_def
    by (simp only: bnd_simps if_True canonical_plain [OF plain] canonical_plain [OF plain_members [OF plain]]
        read_document_def dumps_members [OF plain] simp_thms) simp
qed

lemma plain_classified:
  assumes "honest_envelope hash i e" and "plain (JObj observed)"
  shows "\<exists>report. classify_observed hash e version observed = Inr report
    \<and> (dr_classification report = NO_DRIFT \<longleftrightarrow> \<not> dr_blocks_cutover report)"
proof -
  from assms(1) have plain: "plain (JObj (envelope_dict e))" by (simp add: honest_envelope_def)
  have "plain (JObj (without_hash observed))"
    using assms(2) by (auto simp: without_hash_def list_all_iff distinct_map_filter)
  then have "\<exists>b. internally_valid hash observed = Inr b"
    by (auto simp: internally_valid_def json_sha256_plain simp del: plain.simps split: option.split json.split
        intro: exI [of _ False])
  then obtain b where "internally_valid hash observed = Inr b" by blast
  then show ?thesis
    unfolding classify_observed_def
    by (simp only: bnd_simps canonical_plain [OF plain] canonical_plain [OF assms(2)]) (cases b; simp)
qed

section \<open>The interface of a target\<close>

text \<open>
  What the service relies on: a target that is ready reads without a change, reads nothing but
  documents, and after it took a document reads that one.
\<close>

locale projection_channel =
  fixes hash :: "string \<Rightarrow> string" and g :: "'w target" and ready :: "'w \<Rightarrow> bool"
  assumes read_only: "snd (tg_read g i w) = w"
    and readable: "ready w \<Longrightarrow> \<exists>x. fst (tg_read g i w) = Inr x \<and> (\<forall>kvs. x = Some kvs \<longrightarrow> plain (JObj kvs))"
    and delivered: "ready w \<Longrightarrow> honest_envelope hash i e \<Longrightarrow>
      \<exists>w'. tg_write g i (pe_identity e) (envelope_dict e) w = (Inr (), w') \<and> fst (tg_read g i w') = Inr (Some (read_document e))"

text \<open>
  A projection that nothing stands in the way of: the execution has its manifest, the store may be
  written, and the log holds this very document under the execution's version or nothing.
\<close>

definition undisturbed :: "'w projection_env \<Rightarrow> bool" where
  "undisturbed E \<longleftrightarrow> (\<forall>n s. en_meanwhile E n s = s) \<and> (\<forall>x. sql_length (sha (en_ctx E 0) x) = 64)
     \<and> tg_type (en_target E) \<noteq> [] \<and> tg_ref (en_target E) \<noteq> []"

definition writable :: "'w projection_env \<Rightarrow> db \<Rightarrow> bool" where
  "writable E d \<longleftrightarrow> begin_guard (en_ctx E 0) d = Inr () \<and> begin_guard (en_ctx E 1) d = Inr ()"

definition logged_under :: "'w target \<Rightarrow> string \<Rightarrow> int \<Rightarrow> string \<Rightarrow> projection_row list \<Rightarrow> bool" where
  "logged_under g i version key rows \<longleftrightarrow> (\<forall>x\<in>set rows. projection_check x
     \<and> pr_projection_id x = ''projection-'' @ pr_idempotency_key x
     \<and> (pr_idempotency_key x = key \<longleftrightarrow> pr_execution_id x = i \<and> pr_target_type x = tg_type g \<and> pr_target_ref x = tg_ref g
          \<and> pr_version x = version))"

definition projectable :: "'w projection_env \<Rightarrow> string \<Rightarrow> 'w projection_state \<Rightarrow> bool" where
  "projectable E i s \<longleftrightarrow> undisturbed E \<and> writable E (ps_db s) \<and> manifest_of i (ps_db s) \<noteq> None
     \<and> (case find_execution i (ps_db s) of None \<Rightarrow> False | Some r \<Rightarrow> 0 < ex_state_version r
         \<and> (case build_projection (en_ctx E 0) i (ps_db s) of Inl _ \<Rightarrow> False | Inr e \<Rightarrow>
              (case projection_key (sha (en_ctx E 0)) (en_target E) (pe_identity e) of Inl _ \<Rightarrow> False | Inr key \<Rightarrow>
                 logged_under (en_target E) i (ex_state_version r) key (ps_records s))))"

lemma projection_key_eq: "projection_key hash g identity = Inr (hash (dumps (JObj [(''projection_identity'', JStr identity),
     (''target_type'', JStr (tg_type g)), (''target_ref'', JStr (tg_ref g))])))"
  unfolding projection_key_def by (rule json_sha256_plain) simp

lemma built_version:
  "build_projection c i d = Inr e \<Longrightarrow> find_execution i d = Some r \<Longrightarrow> envelope_version e = ex_state_version r"
  unfolding built_projection by (auto simp: envelope_version_def projection_payload_def Let_def)

lemma check_pending: "projection_check x \<Longrightarrow> projection_check (x\<lparr>pr_status := Pending_projection,
    pr_attempt_count := pr_attempt_count x + 1, pr_last_attempt_at := Some now, pr_last_error := None, pr_projected_at := None\<rparr>)"
  by (simp add: projection_check_def)

lemma update_recorded:
  assumes "\<forall>x\<in>set (ps_records s). projection_check x" and "\<And>x. projection_check x \<Longrightarrow> projection_check (f x)"
  shows "\<exists>rows. update_projection key f s = Inr (s\<lparr>ps_records := rows\<rparr>) \<and> list_all projection_check rows"
  using assms by (intro exI [of _ "update_where (\<lambda>r. pr_idempotency_key r = key) f (ps_records s)"])
    (auto simp: update_projection_def list_all_iff set_update_where)

text \<open>The intent is recorded.\<close>

lemma pending_recorded:
  assumes "projectable E i s" and "build_projection (en_ctx E 0) i (ps_db s) = Inr e"
    and "projection_key (sha (en_ctx E 0)) (en_target E) (pe_identity e) = Inr key"
  shows "\<exists>rows. pending_body (en_target E) i e key now s = Inr (s\<lparr>ps_records := rows\<rparr>) \<and> list_all projection_check rows"
proof -
  let ?g = "en_target E" and ?f = "\<lambda>r. r\<lparr>pr_status := Pending_projection, pr_attempt_count := pr_attempt_count r + 1,
    pr_last_attempt_at := Some now, pr_last_error := None, pr_projected_at := None\<rparr>"
  from assms obtain r m where r: "find_execution i (ps_db s) = Some r" "0 < ex_state_version r"
    and m: "manifest_of i (ps_db s) = Some m" and log: "logged_under ?g i (ex_state_version r) key (ps_records s)"
    and calm: "undisturbed E"
    unfolding projectable_def by (auto split: option.splits sum.splits)
  have version: "envelope_version e = ex_state_version r" by (rule built_version [OF assms(2) r(1)])
  from assms(3) calm have key: "sql_length key = 64" by (auto simp: projection_key_eq undisturbed_def)
  have stored: "list_ex (\<lambda>x. em_id x = em_id m) (manifests (ps_db s))"
    using m by (auto simp: manifest_of_def list_ex_iff dest: find_SomeD)
  show ?thesis
  proof (cases "find (\<lambda>x. pr_idempotency_key x = key) (ps_records s)")
    case None
    let ?new = "\<lparr>pr_projection_id = ''projection-'' @ key, pr_execution_id = i, pr_manifest_id = em_id m,
           pr_target_type = tg_type ?g, pr_target_ref = tg_ref ?g, pr_version = envelope_version e,
           pr_status = Pending_projection, pr_idempotency_key = key, pr_attempt_count = 0, pr_last_error = None,
           pr_created_at = now, pr_last_attempt_at = None, pr_next_attempt_at = None, pr_projected_at = None\<rparr>"
    have new: "projection_check ?new"
      using calm r(2) key by (simp add: projection_check_def version undisturbed_def)
    have fresh: "\<not> (pr_projection_id x = ''projection-'' @ key \<or> pr_idempotency_key x = key
        \<or> pr_execution_id x = i \<and> pr_target_type x = tg_type ?g \<and> pr_target_ref x = tg_ref ?g \<and> pr_version x = envelope_version e)"
      if "x \<in> set (ps_records s)" for x
      using None log that by (auto simp: find_eq_None logged_under_def version)
    from fresh new r(1) stored have "insert_projection ?new s = Inr (s\<lparr>ps_records := ps_records s @ [?new]\<rparr>)"
      by (auto simp: insert_projection_def)
    then have "pending_body ?g i e key now s = from_store (update_projection key ?f (s\<lparr>ps_records := ps_records s @ [?new]\<rparr>))"
      by (simp add: pending_body_def None manifest_id_of_def m from_store_def)
    moreover have "\<forall>x\<in>set (ps_records (s\<lparr>ps_records := ps_records s @ [?new]\<rparr>)). projection_check x"
      using new log by (auto simp: logged_under_def)
    note update_recorded [OF this, of ?f key, OF check_pending]
    ultimately show ?thesis by (auto simp: from_store_def)
  next
    case (Some x)
    then have "x \<in> set (ps_records s)" "pr_idempotency_key x = key" by (auto dest: find_SomeD)
    with log have exact: "pr_projection_id x = ''projection-'' @ key" "pr_execution_id x = i" "pr_target_type x = tg_type ?g"
      "pr_target_ref x = tg_ref ?g" "pr_version x = envelope_version e"
      by (auto simp: logged_under_def version)
    have all: "\<forall>x\<in>set (ps_records s). projection_check x" using log by (auto simp: logged_under_def)
    have "pending_body ?g i e key now s = from_store (update_projection key ?f s)"
      by (simp add: pending_body_def Some exact)
    with update_recorded [OF all, of ?f key, OF check_pending] show ?thesis by (auto simp: from_store_def)
  qed
qed

definition agreed :: "drift_report \<Rightarrow> bool" where
  "agreed report \<longleftrightarrow> dr_classification report = NO_DRIFT \<and> \<not> dr_blocks_cutover report"

context projection_channel
begin

lemma compared:
  assumes "honest_envelope hash i e" and "ready w"
  shows "\<exists>report. compare_projection hash g i e w = (Inr report, w)
    \<and> (dr_classification report = NO_DRIFT \<longrightarrow> agreed report)"
proof -
  from readable [OF assms(2), of i] obtain x where x: "fst (tg_read g i w) = Inr x" "\<forall>kvs. x = Some kvs \<longrightarrow> plain (JObj kvs)"
    by blast
  then have read: "tg_read g i w = (Inr x, w)" using read_only [of i w] by (cases "tg_read g i w") simp
  show ?thesis
  proof (cases x)
    case None
    then show ?thesis by (simp add: compare_projection_def read missing_report_def)
  next
    case (Some kvs)
    with x plain_classified [OF assms(1), of kvs "envelope_version e"] show ?thesis
      by (auto simp: compare_projection_def read agreed_def)
  qed
qed

lemma compared_agrees:
  assumes "honest_envelope hash i e" and "fst (tg_read g i w) = Inr (Some (read_document e))"
  shows "\<exists>report. compare_projection hash g i e w = (Inr report, w) \<and> agreed report"
proof -
  have "tg_read g i w = (Inr (Some (read_document e)), w)"
    using assms(2) read_only [of i w] by (cases "tg_read g i w") simp
  with read_agrees [OF assms(1), of "envelope_version e"] show ?thesis by (auto simp: compare_projection_def agreed_def)
qed

lemma projects:
  assumes "en_target E = g" and "sha (en_ctx E 0) = hash" and "projectable E i s" and "ready (ps_target s)"
    and "build_projection (en_ctx E 0) i (ps_db s) = Inr e"
  shows "\<exists>s'. project_execution E i s = (Inr e, s') \<and> ps_db s' = ps_db s
    \<and> fst (tg_read g i (ps_target s')) = Inr (Some (read_document e))"
proof -
  have honest: "honest_envelope hash i e" using built_honest [OF assms(5)] assms(2) by simp
  from assms(3) have calm: "undisturbed E" and free: "writable E (ps_db s)" by (auto simp: projectable_def)
  obtain key where key: "projection_key (sha (en_ctx E 0)) (en_target E) (pe_identity e) = Inr key"
    unfolding projection_key_eq by blast
  from pending_recorded [OF assms(3,5) key] obtain rows where
    pending: "pending_body (en_target E) i e key (clock (en_ctx E 0) 1) s = Inr (s\<lparr>ps_records := rows\<rparr>)"
    and rows: "list_all projection_check rows" by blast
  from delivered [OF assms(4) honest] obtain w where w: "tg_write g i (pe_identity e) (envelope_dict e) (ps_target s) = (Inr (), w)"
    and read: "fst (tg_read g i w) = Inr (Some (read_document e))" by blast
  let ?t = "s\<lparr>ps_records := rows, ps_target := w\<rparr>" and ?now = "clock (en_ctx E 1) 1"
  let ?f = "\<lambda>r. r\<lparr>pr_status := Succeeded_projection, pr_projected_at := Some ?now, pr_last_error := None\<rparr>"
  have checked: "\<forall>x\<in>set (ps_records ?t). projection_check x" using rows by (simp add: list_all_iff)
  have "projection_check x \<Longrightarrow> projection_check (?f x)" for x by (simp add: projection_check_def)
  from update_recorded [OF checked, of ?f key, OF this] obtain rows' where
    settled: "update_projection key ?f ?t = Inr (?t\<lparr>ps_records := rows'\<rparr>)" by blast
  from calm have quiet: "en_meanwhile E n u = u" for n u by (simp add: undisturbed_def)
  have guards: "begin_guard (en_ctx E 0) (ps_db s) = Inr ()" "begin_guard (en_ctx E 1) (ps_db s) = Inr ()"
    using free by (simp_all add: writable_def)
  have intended: "write_transaction (en_ctx E 0) (pending_body (en_target E) i e key (clock (en_ctx E 0) 1)) s
      = (Inr (), s\<lparr>ps_records := rows\<rparr>)"
    unfolding write_transaction_def guards from_store_def sum.case bnd_simps pending ..
  have written: "write_target E i e (s\<lparr>ps_records := rows\<rparr>) = (Inr (), ?t)"
    by (simp add: write_target_def assms(1) w)
  have finished: "write_transaction (en_ctx E 1) (succeeded_body key ?now) ?t = (Inr (), ?t\<lparr>ps_records := rows'\<rparr>)"
    by (simp only: write_transaction_def projection_state.simps guards from_store_def sum.case bnd_simps succeeded_body_def settled)
      (simp add: guards)
  have "project_execution E i s = (Inr e, ?t\<lparr>ps_records := rows'\<rparr>)"
    unfolding project_execution_def settle_projection_def
    by (simp only: assms(5) sum.case key quiet intended prod.case written finished)
  then show ?thesis using read by simp
qed

lemma reconciles:
  assumes "en_target E = g" and "sha (en_ctx E 0) = hash" and "projectable E i s" and "ready (ps_target s)"
  shows "\<exists>report s'. reconcile_projection E i s = (Inr report, s') \<and> agreed report \<and> ps_db s' = ps_db s"
proof -
  from assms(3) obtain e where e: "build_projection (en_ctx E 0) i (ps_db s) = Inr e"
    unfolding projectable_def by (auto split: option.splits sum.splits)
  have honest: "honest_envelope hash i e" using built_honest [OF e] assms(2) by simp
  from assms(3) have calm: "en_meanwhile E n t = t" for n t by (simp add: projectable_def undisturbed_def)
  from compared [OF honest assms(4)] obtain report where
    first: "compare_projection hash g i e (ps_target s) = (Inr report, ps_target s)"
    and "dr_classification report = NO_DRIFT \<longrightarrow> agreed report" by blast
  have now: "compare_now E i s = (Inr report, s)" by (simp add: compare_now_def e assms(1,2) first)
  show ?thesis
  proof (cases "dr_classification report = NO_DRIFT")
    case True
    with now \<open>dr_classification report = NO_DRIFT \<longrightarrow> agreed report\<close> show ?thesis by (simp add: reconcile_projection_def)
  next
    case False
    from projects [OF assms e] obtain s' where s': "project_execution E i s = (Inr e, s')" "ps_db s' = ps_db s"
      "fst (tg_read g i (ps_target s')) = Inr (Some (read_document e))" by blast
    from compared_agrees [OF honest s'(3)] obtain again where
      "compare_projection hash g i e (ps_target s') = (Inr again, ps_target s')" "agreed again" by blast
    then have "compare_now E i s' = (Inr again, s')" by (simp add: compare_now_def s'(2) e assms(1,2))
    with False now s' \<open>agreed again\<close> show ?thesis by (simp add: reconcile_projection_def calm)
  qed
qed

end

section \<open>The in-memory target\<close>

definition memory_ready :: "memory \<Rightarrow> bool" where
  "memory_ready w \<longleftrightarrow> my_available w \<and> my_fail_writes w \<le> 0 \<and> \<not> my_lose_response_once w
     \<and> (\<forall>(i, identity, kvs)\<in>set (my_values w). plain (JObj kvs))"

lemma map_of_dict_set: "map_of (dict_set k v d) k' = (if k' = k then Some v else map_of d k')"
  by (induction d) auto

interpretation memory_channel: projection_channel hash "memory_target hash ref" memory_ready for hash ref
proof
  fix i w
  show "snd (tg_read (memory_target hash ref) i w) = w" by (simp add: memory_target_def memory_read_def)
  assume ready: "memory_ready w"
  show "\<exists>x. fst (tg_read (memory_target hash ref) i w) = Inr x \<and> (\<forall>kvs. x = Some kvs \<longrightarrow> plain (JObj kvs))"
  proof (cases "map_of (my_values w) i")
    case None
    with ready show ?thesis by (simp add: memory_target_def memory_read_def memory_ready_def)
  next
    case (Some v)
    then obtain identity kvs where v: "v = (identity, kvs)" by (cases v)
    with Some ready have "plain (JObj kvs)" by (fastforce simp: memory_ready_def dest: map_of_SomeD)
    with Some v ready show ?thesis
      by (simp add: memory_target_def memory_read_def memory_ready_def reparsed_plain plain_members del: plain.simps)
  qed
  fix e
  assume honest: "honest_envelope hash i e"
  note kept = document_reparsed [OF honest]
  define same where "same = (case map_of (my_values w) i of None \<Rightarrow> False | Some (known, stored) \<Rightarrow>
      known = pe_identity e \<and> canonical_json (json_to_py (JObj stored)) = canonical_json (json_to_py (JObj (kept_document e))))"
  define w' where "w' = (let w1 = w\<lparr>my_write_count := my_write_count w + 1\<rparr> in
      if same then w1 else w1\<lparr>my_values := dict_set i (pe_identity e, kept_document e) (my_values w1)\<rparr>)"
  have "memory_write hash i (pe_identity e) (envelope_dict e) w = (Inr (), w')"
    using ready by (simp add: memory_write_def memory_ready_def document_checked [OF honest] Let_def w'_def same_def)
  moreover have "fst (memory_read i w') = Inr (Some (read_document e))"
  proof (cases same)
    case True
    then obtain known stored where stored: "map_of (my_values w) i = Some (known, stored)"
      "canonical_json (json_to_py (JObj stored)) = canonical_json (json_to_py (JObj (kept_document e)))"
      unfolding same_def by (auto split: option.splits)
    then have "reparsed stored = Inr (read_document e)" using kept(1) by (simp add: reparsed_def)
    with True stored ready show ?thesis by (simp add: memory_read_def memory_ready_def w'_def Let_def)
  next
    case False
    with ready kept(1) show ?thesis by (simp add: memory_read_def memory_ready_def w'_def Let_def map_of_dict_set)
  qed
  ultimately show "\<exists>w'. tg_write (memory_target hash ref) i (pe_identity e) (envelope_dict e) w = (Inr (), w')
      \<and> fst (tg_read (memory_target hash ref) i w') = Inr (Some (read_document e))"
    by (simp add: memory_target_def)
qed

section \<open>Reconciliation\<close>

text \<open>
  A version of an execution is projected to a target with one content only: when the document has
  changed and the version has not, as after a heartbeat, the log refuses the new projection.
\<close>

theorem version_projected_once:
  assumes "build_projection (en_ctx E 0) i (ps_db s) = Inr e" and "find_execution i (ps_db s) = Some r"
    and "projection_key (sha (en_ctx E 0)) (en_target E) (pe_identity e) = Inr key"
    and "undisturbed E" and "writable E (ps_db s)" and "manifest_of i (ps_db s) = Some m" and "0 < ex_state_version r"
    and "x \<in> set (ps_records s)" and "pr_execution_id x = i" and "pr_target_type x = tg_type (en_target E)"
    and "pr_target_ref x = tg_ref (en_target E)" and "pr_version x = ex_state_version r"
    and "\<forall>y\<in>set (ps_records s). pr_idempotency_key y \<noteq> key"
  shows "project_execution E i s = (Inl (Store_failure (IntegrityError ''UNIQUE projection_record'')), s)"
proof -
  from assms(4) have quiet: "en_meanwhile E n u = u" for n u by (simp add: undisturbed_def)
  have version: "envelope_version e = ex_state_version r" by (rule built_version [OF assms(1,2)])
  from assms(3,4) have length: "sql_length key = 64" by (auto simp: projection_key_eq undisturbed_def)
  have "find (\<lambda>y. pr_idempotency_key y = key) (ps_records s) = None" using assms(13) by (auto simp: find_eq_None)
  then have "pending_body (en_target E) i e key now s = Inl (Store_failure (IntegrityError ''UNIQUE projection_record''))" for now
    using assms(4,6-12) length version
    by (auto simp: pending_body_def manifest_id_of_def insert_projection_def projection_check_def undisturbed_def from_store_def)
  moreover have "begin_guard (en_ctx E 0) (ps_db s) = Inr ()" using assms(5) by (simp add: writable_def)
  ultimately have "write_transaction (en_ctx E 0) (pending_body (en_target E) i e key (clock (en_ctx E 0) 1)) s
      = (Inl (Store_failure (IntegrityError ''UNIQUE projection_record'')), s)"
    by (simp add: write_transaction_def from_store_def)
  then show ?thesis unfolding project_execution_def by (simp only: assms(1,3) sum.case quiet prod.case)
qed

definition demo_manifest_row :: manifest_row where
  "demo_manifest_row = \<lparr>em_id = ''manifest-1'', em_execution_id = ''x1'', em_slice_id = ''s1'',
     em_contract_fingerprint = demo_key 1, em_authority_fingerprint = demo_key 2, em_base_commit = demo_commit,
     em_result_commit = demo_commit, em_maker_attempt_id = ''m1'', em_verification_id = ''v1'',
     em_evaluator_attempt_id = ''e1'', em_evaluation_id = ''r1'', em_approval_refs_json = ''[]'',
     em_context_fingerprints_json = ''[]'', em_transition_evidence_json = ''[]'', em_canonical_json = ''{}'',
     em_created_at = iso_text 0, em_manifest_sha256 = demo_key 9\<rparr>"

definition demo_projecting :: "memory projection_state" where
  "demo_projecting = \<lparr>ps_db = demo_db ACCEPTED 4\<lparr>manifests := [demo_manifest_row]\<rparr>, ps_records = [],
     ps_target = \<lparr>my_values = [], my_available = True, my_fail_writes = 0, my_lose_response_once = False, my_write_count = 0\<rparr>\<rparr>"

definition demo_channel :: "memory projection_env" where
  "demo_channel = \<lparr>en_ctx = (\<lambda>_. demo_ctx 5), en_target = memory_target (sha (demo_ctx 5)) ''memory://shadow'',
     en_meanwhile = (\<lambda>_ s. s)\<rparr>"

lemma demo_projectable: "projectable demo_channel ''x1'' demo_projecting"
proof -
  have found: "find_execution ''x1'' (ps_db demo_projecting) = Some (demo_row ACCEPTED 4)"
    using demo_found [of ACCEPTED 4] by (simp add: demo_projecting_def find_execution_def)
  have calm: "undisturbed demo_channel"
    by (simp add: undisturbed_def demo_channel_def memory_target_def demo_ctx_def)
  have free: "writable demo_channel (ps_db demo_projecting)"
    by (simp add: writable_def demo_channel_def begin_guard_def demo_ctx_def)
  have "manifest_of ''x1'' (ps_db demo_projecting) \<noteq> None"
    by (simp add: manifest_of_def demo_projecting_def demo_manifest_row_def)
  moreover have "ps_records demo_projecting = []" by (simp add: demo_projecting_def)
  moreover have "0 < ex_state_version (demo_row ACCEPTED 4)" by (simp add: demo_row_def)
  ultimately show ?thesis
    using calm free found unfolding projectable_def built_projection projection_key_eq
    by (simp add: logged_under_def Let_def)
qed

text \<open>
  C35. A projection to the in-memory target (\<open>InMemoryProjectionTarget\<close>) is repaired by one call, as
  long as nobody else acts on the store or on the target during it: when the store may be written, the
  execution has its manifest and a positive version, the log holds no other content under that version, and
  the target is available and injects no failure, a reconciliation returns, whatever documents the target
  held before, and finds no drift; the store is as it was.
\<close>

theorem reconciliation_repairs_target:
  assumes "en_target E = memory_target (sha (en_ctx E 0)) ref" and "projectable E i s" and "memory_ready (ps_target s)"
  shows "\<exists>report s'. reconcile_projection E i s = (Inr report, s') \<and> dr_classification report = NO_DRIFT
    \<and> \<not> dr_blocks_cutover report \<and> ps_db s' = ps_db s"
  using memory_channel.reconciles [OF assms(1) refl assms(2,3)] unfolding agreed_def by blast

theorem reconciliation_repairs_target_witness:
  "\<exists>report s'. reconcile_projection demo_channel ''x1'' demo_projecting = (Inr report, s')
    \<and> dr_classification report = NO_DRIFT \<and> \<not> dr_blocks_cutover report \<and> ps_db s' = ps_db demo_projecting"
proof (rule reconciliation_repairs_target)
  show "en_target demo_channel = memory_target (sha (en_ctx demo_channel 0)) ''memory://shadow''"
    by (simp add: demo_channel_def)
  show "projectable demo_channel ''x1'' demo_projecting" by (rule demo_projectable)
  show "memory_ready (ps_target demo_projecting)" by (simp add: memory_ready_def demo_projecting_def)
qed

end
