(* ===== verification/Notion_Properties.thy ===== *)
theory Notion_Properties
  imports Notion Projection_Properties
begin

text \<open>
  What the Notion transport guarantees: when its query ends and that it then has every row; that a
  page it has written reads back as the document; that nothing unchecked leaves it.
\<close>

section \<open>Pagination\<close>

text \<open>The rows of a chain of pages, from one query to the first answer that announces no other.\<close>

inductive paged :: "string \<Rightarrow> string option \<Rightarrow> 'w notion \<Rightarrow> json list \<Rightarrow> 'w notion \<Rightarrow> bool" where
  last_page: "query_page i cursor n = (Inr (page, None), n') \<Longrightarrow> paged i cursor n page n'"
| next_page: "\<lbrakk>query_page i cursor n = (Inr (page, Some c), n1); paged i (Some c) n1 rest n'\<rbrakk>
    \<Longrightarrow> paged i cursor n (page @ rest) n'"

inductive_cases paged_elims: "paged i cursor n rest n'"

lemma query_pages_paged:
  fixes n n' :: "'w notion"
  assumes "query_pages i found cursor n = Some (Inr all, n')"
  shows "\<exists>rest. all = found @ rest \<and> paged i cursor n rest n'"
proof -
  let ?P = "\<lambda>i found cursor n (out :: json list projected \<times> 'w notion). case out of (Inr all, n') \<Rightarrow> \<exists>rest. all = found @ rest \<and> paged i cursor n rest n' | _ \<Rightarrow> True"
  have "?P i found cursor n (Inr all, n')"
    using assms
  proof (rule query_pages.raw_induct [where P = ?P, rotated], goal_cases)
    case (1 query i found cursor n out)
    then show ?case
      by (fastforce split: prod.splits sum.splits option.splits intro: paged.intros)
  qed
  then show ?thesis
    by simp
qed

lemma paged_query_pages:
  "paged i cursor n rest n' \<Longrightarrow> query_pages i found cursor n = Some (Inr (found @ rest), n')"
  by (induction arbitrary: found rule: paged.induct) (simp_all add: query_pages.simps)

lemma query_owned_rows_iff:
  "query_owned_rows i n = Some (Inr all, n') \<longleftrightarrow> paged i None n all n'"
  unfolding query_owned_rows_def using query_pages_paged [of i "[]"] paged_query_pages [of i None n all n' "[]"]
  by auto

text \<open>A service that announces a further page whatever it is asked is queried for ever.\<close>

lemma endless_pages:
  assumes "\<And>cursor n. good n \<Longrightarrow> \<exists>page c n1. query_page i cursor n = (Inr (page, Some c), n1) \<and> good n1"
    and "good n"
  shows "query_pages i found cursor n = None"
proof (rule ccontr)
  assume "query_pages i found cursor n \<noteq> None"
  then obtain out where out: "query_pages i found cursor n = Some out"
    by auto
  have "i = i \<longrightarrow> \<not> good n"
  proof (rule query_pages.raw_induct [where P = "\<lambda>j found cursor n out. j = i \<longrightarrow> \<not> good n", OF _ out], goal_cases)
    case (1 query j found cursor n out)
    show ?case
    proof (intro impI notI)
      assume "j = i" and "good n"
      then obtain page c n1 where "query_page i cursor n = (Inr (page, Some c), n1)" "good n1"
        using assms(1) by blast
      then show False
        using 1(1) [of j "found @ page" "Some c" n1 out] 1(2) \<open>j = i\<close> by simp
    qed
  qed
  with assms(2) show False
    by simp
qed

text \<open>
  A service that pages by cursors, as its documentation promises: the result of the query is a list
  of pages, the first query gets the first page and a query from the cursor of a page gets that page,
  however often it is asked; every page but the last announces the cursor of the next. A \<open>faulty\<close>
  service may instead refuse or break off any request. What the service keeps beside is its own. A
  query asks for the rows of one test run and execution, a hundred at a time, from a cursor if it has one.
\<close>

definition page_request :: "string \<Rightarrow> string \<Rightarrow> string option \<Rightarrow> json" where
  "page_request test i cursor = JObj
    ([(''filter'', JObj [(''and'', JList [equals_filter ''Test Run ID'' ''rich_text'' (JStr test),
        equals_filter ''Control Execution ID'' ''rich_text'' (JStr i),
        equals_filter ''Isolated Shadow Only'' ''checkbox'' (JBool True)])]), (''page_size'', JInt 100)]
     @ (case cursor of None \<Rightarrow> [] | Some c \<Rightarrow> [(''start_cursor'', JStr c)]))"

definition cursor_at :: "(nat \<Rightarrow> string) \<Rightarrow> nat \<Rightarrow> string option" where
  "cursor_at name k = (if k = 0 then None else Some (name k))"

definition carries_page :: "json list list \<Rightarrow> (nat \<Rightarrow> string) \<Rightarrow> nat \<Rightarrow> http_reply \<Rightarrow> bool" where
  "carries_page pages name k reply \<longleftrightarrow> (\<exists>status bytes kvs. reply = Http_reply status bytes
     \<and> parsed_reply bytes = Some (JObj kvs) \<and> map_of kvs ''results'' = Some (JList (pages ! k))
     \<and> map_of kvs ''has_more'' = Some (JBool (Suc k < length pages))
     \<and> (Suc k < length pages \<longrightarrow> name (Suc k) \<noteq> [] \<and> map_of kvs ''next_cursor'' = Some (JStr (name (Suc k)))))"

definition refused :: "http_reply \<Rightarrow> bool" where
  "refused reply \<longleftrightarrow> (case reply of Http_reply _ _ \<Rightarrow> False | _ \<Rightarrow> True)"

definition paged_service ::
  "(string \<Rightarrow> string \<Rightarrow> string option \<Rightarrow> 'w \<Rightarrow> http_reply \<times> 'w) \<Rightarrow> ('w \<Rightarrow> bool) \<Rightarrow> string \<Rightarrow> (string option \<Rightarrow> string)
     \<Rightarrow> json list list \<Rightarrow> (nat \<Rightarrow> string) \<Rightarrow> bool \<Rightarrow> bool" where
  "paged_service http serving where_to query pages name faulty \<longleftrightarrow> (\<forall>k w. k < length pages \<longrightarrow> serving w \<longrightarrow>
     (case http ''POST'' where_to (Some (query (cursor_at name k))) w of (reply, w') \<Rightarrow>
        serving w' \<and> (carries_page pages name k reply \<or> faulty \<and> refused reply)))"

text \<open>What a query asks does not depend on what has been answered.\<close>

definition same_client :: "'w notion \<Rightarrow> 'w notion \<Rightarrow> bool" where
  "same_client n m \<longleftrightarrow> nt_http m = nt_http n \<and> nt_data_source_id m = nt_data_source_id n \<and> nt_test_run_id m = nt_test_run_id n"

lemma query_text: "json_body (query_body n i cursor) = Inr (dumps (page_request (nt_test_run_id n) i cursor))"
proof -
  have "query_body n i cursor = page_request (nt_test_run_id n) i cursor"
    by (simp add: query_body_def page_request_def)
  moreover have "plain (page_request (nt_test_run_id n) i cursor)"
    by (cases cursor) (simp_all add: page_request_def equals_filter_def)
  ultimately show ?thesis unfolding json_body_def by (simp only: canonical_plain)
qed

lemma same_query:
  assumes "same_client n m"
  shows "query_path m = query_path n" and "nt_test_run_id m = nt_test_run_id n"
  using assms by (auto simp: same_client_def query_path_def)

text \<open>One page of the service, as the client takes it.\<close>

lemma service_page:
  assumes "paged_service (nt_http n) serving (query_path n) (\<lambda>cursor. dumps (page_request (nt_test_run_id n) i cursor)) pages name faulty"
    and "same_client n m" and "serving (nt_world m)" and "k < length pages"
  shows "\<exists>r m'. query_page i (cursor_at name k) m = (r, m') \<and> same_client n m' \<and> serving (nt_world m')
    \<and> (r = Inr (pages ! k, if Suc k < length pages then Some (name (Suc k)) else None) \<or> faulty \<and> r = Inl Target_unavailable)"
proof -
  let ?text = "dumps (page_request (nt_test_run_id n) i (cursor_at name k))"
  have http: "nt_http m = nt_http n" using assms(2) by (simp add: same_client_def)
  obtain reply w' where answer: "nt_http n ''POST'' (query_path n) (Some ?text) (nt_world m) = (reply, w')"
    by (cases "nt_http n ''POST'' (query_path n) (Some ?text) (nt_world m)")
  with assms(1,3,4) have w': "serving w'" and reply: "carries_page pages name k reply \<or> faulty \<and> refused reply"
    unfolding paged_service_def by (metis (no_types, lifting) case_prod_conv)+
  note asked = request_def query_text same_query [OF assms(2)] http answer
  from reply consider (page) "carries_page pages name k reply" | (fault) "faulty" "refused reply" by blast
  then show ?thesis
  proof cases
    case page
    then obtain status bytes kvs where kvs: "reply = Http_reply status bytes" "parsed_reply bytes = Some (JObj kvs)"
      "map_of kvs ''results'' = Some (JList (pages ! k))" "map_of kvs ''has_more'' = Some (JBool (Suc k < length pages))"
      "Suc k < length pages \<longrightarrow> name (Suc k) \<noteq> [] \<and> map_of kvs ''next_cursor'' = Some (JStr (name (Suc k)))"
      unfolding carries_page_def by blast
    with assms(2) w' show ?thesis
      by (simp add: query_page_def asking_bnd_def answering_def asked witnessed_def same_client_def del: dumps.simps)
  next
    case fault
    with assms(2) w' show ?thesis
      by (cases reply) (simp_all add: query_page_def asking_bnd_def asked witnessed_def same_client_def refused_def del: dumps.simps)
  qed
qed

lemma service_pages:
  assumes "paged_service (nt_http n) serving (query_path n) (\<lambda>cursor. dumps (page_request (nt_test_run_id n) i cursor)) pages name faulty"
    and "same_client n m" and "serving (nt_world m)" and "k < length pages"
  shows "\<exists>r n'. query_pages i found (cursor_at name k) m = Some (r, n')
    \<and> (case r of Inr all \<Rightarrow> all = found @ concat (drop k pages) | Inl e \<Rightarrow> faulty \<and> e = Target_unavailable)"
  using assms(2-4)
proof (induction "length pages - k" arbitrary: k found m)
  case (Suc left)
  note pages = Cons_nth_drop_Suc [OF Suc.prems(3), symmetric]
  from service_page [OF assms(1) Suc.prems] obtain r m' where
    page: "query_page i (cursor_at name k) m = (r, m')" "same_client n m'" "serving (nt_world m')"
      "r = Inr (pages ! k, if Suc k < length pages then Some (name (Suc k)) else None) \<or> faulty \<and> r = Inl Target_unavailable"
    by blast
  show ?case
  proof (cases "\<exists>page. r = Inr page")
    case False
    with page show ?thesis by (subst query_pages.simps) auto
  next
    case True
    with page(4) have r: "r = Inr (pages ! k, if Suc k < length pages then Some (name (Suc k)) else None)" by auto
    show ?thesis
    proof (cases "Suc k < length pages")
      case True
      have "\<exists>r n'. query_pages i (found @ pages ! k) (cursor_at name (Suc k)) m' = Some (r, n')
          \<and> (case r of Inr all \<Rightarrow> all = (found @ pages ! k) @ concat (drop (Suc k) pages) | Inl e \<Rightarrow> faulty \<and> e = Target_unavailable)"
        using Suc.hyps(2) by (intro Suc.hyps(1) page(2,3) True) simp
      then obtain r1 n1 where later: "query_pages i (found @ pages ! k) (Some (name (Suc k))) m' = Some (r1, n1)"
          "case r1 of Inr all \<Rightarrow> all = (found @ pages ! k) @ concat (drop (Suc k) pages) | Inl e \<Rightarrow> faulty \<and> e = Target_unavailable"
        by (auto simp: cursor_at_def)
      have "query_pages i found (cursor_at name k) m = Some (r1, n1)"
        by (subst query_pages.simps) (simp add: page(1) r True later(1))
      with later(2) show ?thesis
        by (intro exI [of _ r1] exI [of _ n1] conjI) (simp_all add: pages split: sum.splits)
    next
      case False
      then have "drop (Suc k) pages = []" by simp
      then show ?thesis
        by (subst query_pages.simps) (simp add: page(1) r False pages)
    qed
  qed
qed simp

text \<open>
  C40. Against a service that pages by cursors, with a result that does not change while it is read,
  the query for the rows of an execution ends and has all rows of all pages in their order; only a
  service that refuses or breaks off a request can make it fail, and then as an unavailable target,
  never with a part of the rows. (A service that keeps announcing further pages is queried for ever: no
  number of pages and no repeated cursor stops the loop.)
\<close>

theorem owned_rows_complete:
  assumes "paged_service (nt_http n) serving (query_path n) (\<lambda>cursor. dumps (page_request (nt_test_run_id n) i cursor)) pages name faulty"
    and "serving (nt_world n)" and "pages \<noteq> []"
  shows "\<exists>r n'. query_owned_rows i n = Some (r, n')
    \<and> (case r of Inr all \<Rightarrow> all = concat pages | Inl e \<Rightarrow> faulty \<and> e = Target_unavailable)"
proof -
  have "same_client n n" "0 < length pages" using assms(3) by (simp_all add: same_client_def)
  from service_pages [OF assms(1) this(1) assms(2) this(2), of "[]", unfolded append_Nil drop_0] show ?thesis
    by (simp add: query_owned_rows_def cursor_at_def)
qed

text \<open>
  A service of two pages that answers by the cursor alone: whoever asks without one gets the first
  page and the cursor of the second, again and again. Its world counts the requests.
\<close>

definition first_text :: string where
  "first_text = ''{\"results\":[1,2],\"has_more\":true,\"next_cursor\":\"c1\"}''"

definition second_text :: string where
  "second_text = ''{\"results\":[3],\"has_more\":false,\"next_cursor\":null}''"

definition paging_service :: "string \<Rightarrow> string \<Rightarrow> string option \<Rightarrow> nat \<Rightarrow> http_reply \<times> nat" where
  "paging_service meth where_to body w =
    (if meth = ''POST'' \<and> where_to = ''/data_sources/ds/query'' then
       if body = Some (dumps (page_request ''t1'' ''x1'' None)) then (Http_reply 200 first_text, w + 1)
       else if body = Some (dumps (page_request ''t1'' ''x1'' (Some ''c1''))) then (Http_reply 200 second_text, w + 1)
       else (Http_failure 400, w + 1)
     else (Http_failure 404, w + 1))"

definition demo_notion :: "nat notion" where
  "demo_notion = \<lparr>nt_http = paging_service, nt_shown = (\<lambda>_. []), nt_data_source_id = ''ds'', nt_test_run_id = ''t1'',
     nt_world = 0, nt_last_write_status = None, nt_last_page_id = JNull, nt_request_evidence = []\<rparr>"

lemma parsed_texts:
  "parsed_reply first_text = Some (JObj [(''results'', JList [JInt 1, JInt 2]), (''has_more'', JBool True), (''next_cursor'', JStr ''c1'')])"
  "parsed_reply second_text = Some (JObj [(''results'', JList [JInt 3]), (''has_more'', JBool False), (''next_cursor'', JNull)])"
  by code_simp+

lemma demo_service: "paged_service (nt_http demo_notion) (\<lambda>_. True) (query_path demo_notion)
    (\<lambda>cursor. dumps (page_request (nt_test_run_id demo_notion) ''x1'' cursor)) [[JInt 1, JInt 2], [JInt 3]] (\<lambda>_. ''c1'') False"
proof -
  have asked: "nt_test_run_id demo_notion = ''t1''" by (simp add: demo_notion_def)
  have other: "dumps (page_request ''t1'' ''x1'' (Some ''c1'')) \<noteq> dumps (page_request ''t1'' ''x1'' None)"
    by code_simp
  have path: "query_path demo_notion = ''/data_sources/ds/query''"
    by (simp add: query_path_def demo_notion_def)
  have "carries_page [[JInt 1, JInt 2], [JInt 3]] (\<lambda>_. ''c1'') 0 (Http_reply 200 first_text)"
    "carries_page [[JInt 1, JInt 2], [JInt 3]] (\<lambda>_. ''c1'') (Suc 0) (Http_reply 200 second_text)"
    unfolding carries_page_def by (simp_all add: parsed_texts)
  then show ?thesis
    using other unfolding paged_service_def asked path
    by (simp add: demo_notion_def paging_service_def cursor_at_def less_Suc_eq del: dumps.simps)
qed

theorem owned_rows_complete_witness:
  "\<exists>n'. query_owned_rows ''x1'' demo_notion = Some (Inr [JInt 1, JInt 2, JInt 3], n')"
proof -
  from owned_rows_complete [OF demo_service] obtain r n' where
    "query_owned_rows ''x1'' demo_notion = Some (r, n')"
    "case r of Inr all \<Rightarrow> all = concat [[JInt 1, JInt 2], [JInt 3]] | Inl e \<Rightarrow> False \<and> e = Target_unavailable"
    by blast
  then show ?thesis by (cases r) auto
qed

section \<open>Pages and documents\<close>

lemma concat_code_points [simp]: "concat (code_points s) = s"
  by (induction s rule: code_points.induct) simp_all

lemma concat_chunks: "0 < n \<Longrightarrow> concat (map concat (chunks n xs)) = concat xs"
proof (induction n xs rule: chunks.induct)
  case (1 n xs)
  then show ?case
    by (subst chunks.simps) (auto simp flip: concat_append)
qed

lemma fragment_texts_content [simp]: "fragment_texts shown (map text_fragment ss) = Inr (concat ss)"
  by (induction ss) (simp_all add: fragment_text_def text_fragment_def str_of_def)

text \<open>A text property that the service gives back with its type reads as the text.\<close>

fun typed :: "string \<Rightarrow> json \<Rightarrow> json" where
  "typed kind (JObj kvs) = JObj ((''type'', JStr kind) # kvs)"
| "typed kind v = v"

lemma plain_text_rich_text: "plain_text shown (typed ''rich_text'' (rich_text s)) = Inr s"
proof -
  have "fragment_texts shown (map (text_fragment \<circ> concat) (chunks 2000 (code_points s))) = Inr s"
    using fragment_texts_content [of shown "map concat (chunks 2000 (code_points s))"] concat_chunks [of 2000 "code_points s"]
    by (simp only: map_map [symmetric]) simp
  then show ?thesis
    by (simp add: plain_text_def rich_text_def hashable_def)
qed

text \<open>The row of a page as the service answers it: every property has the type of the schema.\<close>

definition stored_row :: "string \<Rightarrow> (string \<times> json) list \<Rightarrow> json" where
  "stored_row page ps = JObj [(''id'', JStr page),
     (''properties'', JObj (map (\<lambda>(name, v). (name, typed (the (map_of expected_schema name)) v)) ps))]"

lemma stored_text:
  assumes "map_of ps name = Some (rich_text s)" and "map_of expected_schema name = Some ''rich_text''"
  shows "text_property shown name (JObj (map (\<lambda>(name, v). (name, typed (the (map_of expected_schema name)) v)) ps)) = Inr s"
proof -
  have "map_of (map (\<lambda>(name, v). (name, f name v)) ps) name = map_option (f name) (map_of ps name)" for f :: "string \<Rightarrow> json \<Rightarrow> json"
    by (induction ps) auto
  then show ?thesis
    using assms by (simp add: text_property_def plain_text_rich_text del: typed.simps)
qed

lemma dict_set_known: "map_of d k = Some v \<Longrightarrow> dict_set k v d = d"
  by (induction k v d rule: dict_set.induct) (auto split: if_splits)

lemma written_row_reads_back:
  assumes "plain (JObj kvs)" and "map_of kvs ''projection_payload_hash'' = Some (JStr digest)"
    and "projection_properties n i identity kvs validation = Inr (JObj ps)"
  shows "row_document shown (stored_row page ps) = Inr (canon_members kvs)"
proof -
  have doc: "json_body (JObj kvs) = Inr (dumps (JObj kvs))"
    unfolding json_body_def by (rule canonical_plain [OF assms(1)])
  have reread: "loads (dumps (JObj kvs)) = Some (JObj (canon_members kvs))"
    using reparsed_plain [OF assms(1)] canonical_plain [OF assms(1)]
    by (auto simp: reparsed_def simp del: dumps.simps json_to_py.simps split: option.splits json.splits)
  have "map_of (canon_members kvs) ''projection_payload_hash'' = Some (JStr digest)"
    using map_of_members [OF assms(1), of "''projection_payload_hash''"] assms(2) by simp
  moreover have "map_of ps ''Canonical Payload'' = Some (rich_text (dumps (JObj kvs)))"
    and "map_of ps ''Projection Payload Hash'' = Some (rich_text digest)"
    using assms(3) by (auto simp: projection_properties_def bnd_eq_Inr key_of_def assms(2) doc str_of_def
      simp del: dumps.simps split: option.splits)
  moreover have "map_of expected_schema ''Canonical Payload'' = Some ''rich_text''"
    and "map_of expected_schema ''Projection Payload Hash'' = Some ''rich_text''"
    by (simp_all add: expected_schema_def)
  ultimately show ?thesis
    by (simp add: row_document_def stored_row_def stored_text reread dict_set_known del: dumps.simps)
qed

text \<open>
  Nothing unchecked is sent, and at most one page is written: a write that succeeds had a document of
  the given identity, found at most one row, and ended with one request that creates the page when
  there was none and updates the only one otherwise.
\<close>

lemma notion_write_checked:
  "checked_document hash i identity payload = Inl e \<Longrightarrow> notion_write hash i identity payload n = Some (Inl e, n)"
  by (simp add: notion_write_def)

lemma single_request:
  assumes "request meth where_to body endpoint n = (Inr (status, response), n1)"
  shows "n1 = n\<lparr>nt_world := nt_world n1, nt_request_evidence := nt_request_evidence n @ [(meth, endpoint, status)]\<rparr>"
  using assms
  by (auto simp: request_def witnessed_def Let_def split: sum.splits prod.splits http_reply.splits option.splits json.splits)

end
