(* ===== verification/Migrations.thy ===== *)
theory Migrations
  imports Thin_Schema
begin

text \<open>
  The migration runner (\<open>src/adcp/store/migrations.py\<close>): which migrations are pending, their
  application in one transaction, the validation of the resulting schema against the fingerprints
  of a fresh one, the backups and their pruning. The schema the migrations leave is what the
  \<open>Schema\<close> theories model; here their texts are data and SQLite is a parameter.
\<close>

section \<open>SQLite\<close>

text \<open>
  What the runner asks of a database: the user objects of \<open>sqlite_schema\<close>, the rows of
  \<open>schema_migration\<close> in the order of their versions, the execution of one statement, the insertion
  of a history row, the two integrity pragmas, a fresh database in memory, and whether a text is a
  complete statement.
\<close>

record 'd sqlite =
  q_objects :: "'d \<Rightarrow> (string \<times> string \<times> string option) list"
  q_history :: "'d \<Rightarrow> (int \<times> string \<times> string) list"
  q_execute :: "string \<Rightarrow> 'd \<Rightarrow> 'd result"
  q_record :: "int \<Rightarrow> string \<Rightarrow> string \<Rightarrow> int \<Rightarrow> 'd \<Rightarrow> 'd result"
  q_complete :: "string \<Rightarrow> bool"
  q_integrity :: "'d \<Rightarrow> string list"
  q_foreign_keys_broken :: "'d \<Rightarrow> bool"
  q_memory :: 'd

section \<open>Migrations\<close>

record migration =
  mg_version :: int
  mg_name :: string
  mg_sql :: string
  mg_checksum :: string

definition canonical_sql_bytes :: "string \<Rightarrow> string" where
  "canonical_sql_bytes sql = strip (unix_lines sql) @ [CHR 0x0A]"

definition migration_checksum :: "(string \<Rightarrow> string) \<Rightarrow> string \<Rightarrow> string" where
  "migration_checksum hash sql = hash (canonical_sql_bytes sql)"

definition migration_names :: "string list" where
  "migration_names = [''0001_mvp_a_control_store'', ''0002_slice_control_state'', ''0003_authority_transition_control'',
     ''0004_deferred_preexecution_binding'', ''0005_prebound_release_invariant'', ''0006_global_production_writer_lease'',
     ''0007_evaluator_artifact_seal'', ''0008_typed_postgres_operation_receipt_event'',
     ''0009_uncommitted_candidate_review'', ''0010_typed_postgres_operation_receipt_provision_principal'']"

text \<open>\<open>MIGRATIONS\<close>, over the texts of the module; the text of version \<open>v\<close> is \<open>sqls ! (v - 1)\<close>.\<close>

definition registered_migrations :: "(string \<Rightarrow> string) \<Rightarrow> string list \<Rightarrow> migration list" where
  "registered_migrations hash sqls = map (\<lambda>(v, name, sql). \<lparr>mg_version = v, mg_name = name, mg_sql = sql,
     mg_checksum = migration_checksum hash sql\<rparr>) (zip [1..10] (zip migration_names sqls))"

definition schema_version :: int where
  "schema_version = 7"

definition pending_migrations :: "int \<Rightarrow> int \<Rightarrow> migration list \<Rightarrow> migration list result" where
  "pending_migrations current target migrations =
    (if target < 0 then Inl (StoreError ''MIGRATION_TARGET_VERSION_INVALID'')
     else if target \<noteq> 0 \<and> target \<notin> set (map mg_version migrations) then Inl (StoreError ''MIGRATION_TARGET_VERSION_UNREGISTERED'')
     else if target < current then Inl (StoreError ''FAIL_CLOSED_TARGET_VERSION_OVERSHOOT'')
     else Inr (filter (\<lambda>m. current < mg_version m \<and> mg_version m \<le> target) migrations))"

text \<open>\<open>splitlines(keepends=True)\<close> of a text whose only line ends are LF.\<close>

fun kept_lines :: "string \<Rightarrow> string list" where
  "kept_lines [] = []"
| "kept_lines (c # s) =
    (if c = CHR 0x0A then [c] # kept_lines s
     else (case kept_lines s of [] \<Rightarrow> [[c]] | l # ls \<Rightarrow> (c # l) # ls))"

fun execute_lines :: "'d sqlite \<Rightarrow> string \<Rightarrow> string list \<Rightarrow> 'd \<Rightarrow> 'd result" where
  "execute_lines q statement [] d =
     (if strip statement \<noteq> [] then Inl (StoreError ''MIGRATION_INVALID_SQL'') else Inr d)"
| "execute_lines q statement (l # ls) d =
     (if q_complete q (statement @ l) then bnd (q_execute q (statement @ l) d) (execute_lines q [] ls)
      else execute_lines q (statement @ l) ls d)"

definition execute_statements :: "'d sqlite \<Rightarrow> string \<Rightarrow> 'd \<Rightarrow> 'd result" where
  "execute_statements q sql = execute_lines q [] (kept_lines (canonical_sql_bytes sql))"

definition schema_migration_sql :: string where
  "schema_migration_sql = CHR 0x0A # ''CREATE TABLE schema_migration ('' @ CHR 0x0A #
     ''    version INTEGER PRIMARY KEY CHECK (version > 0),'' @ CHR 0x0A #
     ''    name TEXT NOT NULL UNIQUE CHECK (length(name) > 0),'' @ CHR 0x0A #
     ''    checksum TEXT NOT NULL CHECK (length(checksum) = 64),'' @ CHR 0x0A #
     ''    applied_at TEXT NOT NULL CHECK (length(applied_at) > 0)'' @ CHR 0x0A # '');'' @ [CHR 0x0A]"

section \<open>Validation of a schema\<close>

text \<open>One object's fingerprint; every object must have its text.\<close>

definition object_fingerprints ::
  "(string \<Rightarrow> string) \<Rightarrow> (string \<times> string \<times> string option) list \<Rightarrow> ((string \<times> string) \<times> string) list result" where
  "object_fingerprints hash objects =
    (if list_ex (\<lambda>(_, _, sql). sql = None) objects then Inl (StoreError ''MIGRATION_SCHEMA_INVALID'')
     else Inr (map (\<lambda>(kind, name, sql). ((kind, name), schema_object_fingerprint hash (the sql))) objects))"

fun execute_all :: "'d sqlite \<Rightarrow> string list \<Rightarrow> 'd \<Rightarrow> 'd result" where
  "execute_all q [] d = Inr d"
| "execute_all q (sql # sqls) d = bnd (execute_statements q sql d) (execute_all q sqls)"

definition expected_schema_object_fingerprints ::
  "(string \<Rightarrow> string) \<Rightarrow> 'd sqlite \<Rightarrow> migration list \<Rightarrow> int \<Rightarrow> ((string \<times> string) \<times> string) list result" where
  "expected_schema_object_fingerprints hash q migrations target =
    bnd (pending_migrations 0 target migrations) (\<lambda>selected.
    bnd (q_execute q schema_migration_sql (q_memory q)) (\<lambda>d0.
    bnd (execute_all q (map mg_sql selected) d0) (\<lambda>d.
    object_fingerprints hash (q_objects q d))))"

definition validate_schema_at ::
  "(string \<Rightarrow> string) \<Rightarrow> 'd sqlite \<Rightarrow> migration list \<Rightarrow> int \<Rightarrow> 'd \<Rightarrow> unit result" where
  "validate_schema_at hash q migrations target d =
    bnd (expected_schema_object_fingerprints hash q migrations target) (\<lambda>expected.
    bnd (object_fingerprints hash (q_objects q d)) (\<lambda>actual.
    if \<not> same_dict actual expected then Inl (StoreError ''MIGRATION_SCHEMA_INVALID'')
    else if q_integrity q d \<noteq> [''ok''] then Inl (StoreError ''MIGRATION_INTEGRITY_FAILED'')
    else if q_foreign_keys_broken q d then Inl (StoreError ''MIGRATION_FOREIGN_KEY_FAILED'') else Inr ()))"

definition migration_row :: "migration \<Rightarrow> int \<times> string \<times> string" where
  "migration_row m = (mg_version m, mg_name m, mg_checksum m)"

definition named_of :: "string \<Rightarrow> ((string \<times> string) \<times> string) list \<Rightarrow> string list" where
  "named_of kind fingerprints = map (snd \<circ> fst) (filter (\<lambda>((k, _), _). k = kind) fingerprints)"

text \<open>\<open>schema_profile_identity\<close>: the identity the thin client's contract freezes.\<close>

definition schema_profile_identity ::
  "(string \<Rightarrow> string) \<Rightarrow> 'd sqlite \<Rightarrow> migration list \<Rightarrow> int \<Rightarrow> 'd \<Rightarrow> string result" where
  "schema_profile_identity hash q migrations target d =
    bnd (validate_schema_at hash q migrations target d) (\<lambda>_.
    bnd (pending_migrations 0 target migrations) (\<lambda>selected.
    if q_history q d \<noteq> map migration_row selected then Inl (StoreError ''MIGRATION_CHECKSUM_MISMATCH'')
    else bnd (expected_schema_object_fingerprints hash q migrations target) (\<lambda>fingerprints.
      Inr (canonical_identity hash (JObj (profile_payload \<lparr>sp_schema_version = target, sp_profile_identity = [],
        sp_migration_history = q_history q d, sp_expected_tables = sort (named_of ''table'' fingerprints),
        sp_expected_indexes = sort (named_of ''index'' fingerprints), sp_expected_triggers = sort (named_of ''trigger'' fingerprints),
        sp_expected_object_fingerprints = sort_key (\<lambda>(kind, name, digest). kind)
          (sort_key (\<lambda>(kind, name, digest). name) (map (\<lambda>((kind, name), digest). (kind, name, digest)) fingerprints))\<rparr>))))))"

section \<open>Backups\<close>

text \<open>The directory of backups, by the names of its files; a backup is a copy made through SQLite.\<close>

definition backup_stamp :: "int \<Rightarrow> string" where
  "backup_stamp now = (let day = now div 86400000000; us = now mod 86400000000; (y, m, d) = civil_date day in
     pad 4 y @ pad 2 m @ pad 2 d @ ''T'' @ pad 2 (us div 3600000000) @ pad 2 (us div 60000000 mod 60)
       @ pad 2 (us div 1000000 mod 60) @ pad 6 (us mod 1000000) @ ''Z'')"

definition backup_name :: "int \<Rightarrow> string \<Rightarrow> int \<Rightarrow> string" where
  "backup_name current checksum now =
    ''control.sqlite3.v'' @ int_text current @ ''.'' @ backup_stamp now @ ''.'' @ take 12 checksum @ ''.bak''"

record 'd migrating =
  mi_db :: 'd
  mi_backups :: "string list"

definition backup :: "'d sqlite \<Rightarrow> int \<Rightarrow> string \<Rightarrow> int \<Rightarrow> 'd migrating \<Rightarrow> (string \<times> 'd migrating) result" where
  "backup q current checksum now s = (let name = backup_name current checksum now in
     if q_integrity q (mi_db s) \<noteq> [''ok''] then Inl (StoreError ''MIGRATION_BACKUP_INVALID'')
     else Inr (name, s\<lparr>mi_backups := name # removeAll name (mi_backups s)\<rparr>))"

definition is_backup :: "string \<Rightarrow> bool" where
  "is_backup name \<longleftrightarrow> take 17 name = ''control.sqlite3.v'' \<and> drop (length name - 4) name = ''.bak'' \<and> 21 \<le> length name"

definition prune_backups :: "string list \<Rightarrow> string list" where
  "prune_backups files = (let old = drop 5 (rev (sort (filter is_backup files))) in
     filter (\<lambda>name. name \<notin> set old) files)"

section \<open>The runner\<close>

record migration_result =
  mr_previous_version :: int
  mr_version :: int
  mr_applied :: bool
  mr_backup :: "string option"

text \<open>The recognition of a database: its history must be a prefix of the registered one.\<close>

definition recognised_history ::
  "migration list \<Rightarrow> (int \<times> string \<times> string) list \<Rightarrow> int result" where
  "recognised_history migrations rows =
    (if rows \<noteq> [] \<and> Max (set (map mg_version migrations)) < fst (last rows) then Inl (StoreError ''MIGRATION_VERSION_AHEAD'')
     else if map fst rows \<noteq> [1..int (length rows)] then Inl (StoreError ''MIGRATION_CHECKSUM_MISMATCH'')
     else if list_ex (\<lambda>(v, name, checksum). case find (\<lambda>m. mg_version m = v) migrations of
           None \<Rightarrow> True | Some m \<Rightarrow> name \<noteq> mg_name m \<or> checksum \<noteq> mg_checksum m) rows
     then Inl (StoreError ''MIGRATION_CHECKSUM_MISMATCH'')
     else Inr (if rows = [] then 0 else fst (last rows)))"

text \<open>One migration of the transaction: its statements, then its row.\<close>

fun apply_migrations ::
  "(string \<Rightarrow> string) \<Rightarrow> 'd sqlite \<Rightarrow> (int \<Rightarrow> string) \<Rightarrow> int \<Rightarrow> migration list \<Rightarrow> 'd \<Rightarrow> 'd result" where
  "apply_migrations hash q sql_of now [] d = Inr d"
| "apply_migrations hash q sql_of now (m # ms) d =
     bnd (execute_statements q (sql_of (mg_version m)) d) (\<lambda>d1.
     bnd (q_record q (mg_version m) (mg_name m) (migration_checksum hash (sql_of (mg_version m))) now d1)
       (apply_migrations hash q sql_of now ms))"

definition migration_body ::
  "(string \<Rightarrow> string) \<Rightarrow> 'd sqlite \<Rightarrow> migration list \<Rightarrow> (int \<Rightarrow> string) \<Rightarrow> int \<Rightarrow> migration list \<Rightarrow> int \<Rightarrow> 'd \<Rightarrow> 'd result" where
  "migration_body hash q migrations sql_of now selected target d =
    bnd (apply_migrations hash q sql_of now selected d) (\<lambda>d1.
    if q_history q d1 = [] \<or> fst (last (q_history q d1)) \<noteq> target then Inl (StoreError ''FAIL_CLOSED_TARGET_VERSION_OVERSHOOT'')
    else bnd (validate_schema_at hash q migrations target d1) (\<lambda>_. Inr d1))"

definition has_table :: "string \<Rightarrow> (string \<times> string \<times> string option) list \<Rightarrow> bool" where
  "has_table name objects \<longleftrightarrow> list_ex (\<lambda>(kind, n, _). kind = ''table'' \<and> n = name) objects"

definition only_bootstrap :: "(string \<times> string \<times> string option) list \<Rightarrow> bool" where
  "only_bootstrap objects \<longleftrightarrow> set (map (\<lambda>(kind, name, _). (kind, name)) objects) = {(''table'', ''schema_migration'')}"

text \<open>From a recognised database of version \<open>current\<close>; \<open>fresh\<close> is \<open>bootstrap_created\<close>.\<close>

definition migrate_from ::
  "(string \<Rightarrow> string) \<Rightarrow> 'd sqlite \<Rightarrow> migration list \<Rightarrow> (int \<Rightarrow> string) \<Rightarrow> bool \<Rightarrow> int \<Rightarrow> int \<Rightarrow> bool \<Rightarrow> int
     \<Rightarrow> 'd migrating \<Rightarrow> migration_result result \<times> 'd migrating" where
  "migrate_from hash q migrations sql_of backups now target fresh current s =
    (case pending_migrations current target migrations of
       Inl e \<Rightarrow> (Inl e, s)
     | Inr selected \<Rightarrow>
       if current = target then
         (bnd (validate_schema_at hash q migrations target (mi_db s)) (\<lambda>_. Inr
            \<lparr>mr_previous_version = current, mr_version = current, mr_applied = False, mr_backup = None\<rparr>), s)
       else if current = 0 \<and> \<not> only_bootstrap (q_objects q (mi_db s)) then (Inl (StoreError ''UNRECOGNIZED_DATABASE''), s)
       else (case selected of
         [] \<Rightarrow> (Inl (StoreError ''MIGRATION_TARGET_VERSION_UNREACHABLE''), s)
       | m # _ \<Rightarrow>
         (case (if \<not> fresh \<and> backups
                then bnd (backup q current (migration_checksum hash (sql_of (mg_version m))) now s) (\<lambda>(name, s1). Inr (Some name, s1))
                else Inr (None, s)) of
            Inl e \<Rightarrow> (Inl e, s)
          | Inr (made, s1) \<Rightarrow>
            (case migration_body hash q migrations sql_of now selected target (mi_db s1) of
               Inl e \<Rightarrow> (Inl e, s1)
             | Inr d \<Rightarrow> (Inr \<lparr>mr_previous_version = current, mr_version = target, mr_applied = True, mr_backup = made\<rparr>,
                 s1\<lparr>mi_db := d, mi_backups := (if backups then prune_backups (mi_backups s1) else mi_backups s1)\<rparr>)))))"

definition migrate ::
  "(string \<Rightarrow> string) \<Rightarrow> 'd sqlite \<Rightarrow> migration list \<Rightarrow> (int \<Rightarrow> string) \<Rightarrow> bool \<Rightarrow> int \<Rightarrow> int
     \<Rightarrow> 'd migrating \<Rightarrow> migration_result result \<times> 'd migrating" where
  "migrate hash q migrations sql_of backups now target s =
    (let objects = q_objects q (mi_db s); fresh = (objects = []) in
     case (if fresh then q_execute q schema_migration_sql (mi_db s)
           else if \<not> has_table ''schema_migration'' objects then Inl (StoreError ''UNRECOGNIZED_DATABASE'')
           else Inr (mi_db s)) of
       Inl e \<Rightarrow> (Inl e, s)
     | Inr d0 \<Rightarrow> let s0 = s\<lparr>mi_db := d0\<rparr> in
         (case recognised_history migrations (q_history q d0) of
            Inl e \<Rightarrow> (Inl e, s0)
          | Inr current \<Rightarrow> migrate_from hash q migrations sql_of backups now target fresh current s0))"

definition migrate_to_v7 ::
  "(string \<Rightarrow> string) \<Rightarrow> 'd sqlite \<Rightarrow> migration list \<Rightarrow> (int \<Rightarrow> string) \<Rightarrow> bool \<Rightarrow> int
     \<Rightarrow> 'd migrating \<Rightarrow> migration_result result \<times> 'd migrating" where
  "migrate_to_v7 hash q migrations sql_of backups now = migrate hash q migrations sql_of backups now 7"

end
