(* ===== verification/Migrations_Properties.thy ===== *)
theory Migrations_Properties
  imports Migrations "HOL-Library.Multiset"
begin

text \<open>
  What a migration guarantees: a database that the runner leaves carries exactly the registered
  history up to its target and has the objects of a fresh schema; a failed run leaves the database
  as it was, or bootstrapped; a second run changes nothing.
\<close>

section \<open>Numbered registries\<close>

definition numbered :: "migration list \<Rightarrow> bool" where
  "numbered ms \<longleftrightarrow> map mg_version ms = [1..int (length ms)]"

lemma length_registered [simp]:
  "length (registered_migrations hash sqls) = min 10 (length sqls)"
  by (simp add: registered_migrations_def migration_names_def)

lemma upto_snoc: "[1..int (Suc n)] = [1..int n] @ [int (Suc n)]"
  using upto_rec2 [of 1 "int (Suc n)"] by simp

lemma take_upto_int: "take k [1..int n] = [1..int (min k n)]"
proof (induction n)
  case (Suc n)
  show ?case
  proof (cases "k \<le> n")
    case True
    then show ?thesis
      by (simp only: upto_snoc) (simp add: Suc.IH min_def)
  next
    case False
    then have k: "min k (Suc n) = Suc n" by simp
    have "take k [1..int (Suc n)] = [1..int (Suc n)]"
      using False by (intro take_all) (simp del: of_nat_Suc)
    then show ?thesis
      by (simp only: k)
  qed
qed simp

lemma length_upto_int [simp]: "length [1..int n] = n"
  by simp

lemma map_fst_zip_take: "map fst (zip xs ys) = take (length ys) xs"
  by (induction xs arbitrary: ys) (auto split: list.splits simp: zip_Cons1 take_Cons')

lemma numbered_registered: "numbered (registered_migrations hash sqls)"
proof -
  have "map mg_version (registered_migrations hash sqls) = map fst (zip [1..10] (zip migration_names sqls))"
    by (simp add: registered_migrations_def comp_def case_prod_beta)
  also have "\<dots> = take (min 10 (length sqls)) [1..int 10]"
    by (simp add: map_fst_zip_take migration_names_def numeral_eq_Suc)
  also have "\<dots> = [1..int (min 10 (length sqls))]"
    by (simp only: take_upto_int) (simp add: min_def)
  finally show ?thesis
    by (simp add: numbered_def)
qed

lemma numbered_snoc:
  assumes "numbered (ms @ [m])"
  shows "numbered ms" and "mg_version m = int (Suc (length ms))"
  using assms by (simp_all add: numbered_def upto_snoc del: of_nat_Suc)

lemma numbered_nth:
  assumes "numbered ms" and "k < length ms"
  shows "mg_version (ms ! k) = int (Suc k)"
proof -
  have "map mg_version ms ! k = [1..int (length ms)] ! k"
    using assms by (simp add: numbered_def)
  then show ?thesis
    using assms(2) by (simp add: nth_upto)
qed

lemma pending_slice:
  assumes "numbered ms"
  shows "filter (\<lambda>m. int k < mg_version m \<and> mg_version m \<le> int t) ms = drop k (take t ms)"
  using assms
proof (induction ms rule: rev_induct)
  case (snoc m ms)
  note IH = snoc.IH [OF numbered_snoc(1) [OF snoc.prems]] and v = numbered_snoc(2) [OF snoc.prems]
  show ?case
    by (cases "t \<le> length ms"; cases "k \<le> length ms") (auto simp: IH v)
qed simp

lemma find_numbered:
  assumes "numbered ms" and "find (\<lambda>m. mg_version m = int (Suc k)) ms = Some m"
  shows "k < length ms \<and> m = ms ! k"
proof -
  obtain i where i: "i < length ms" "mg_version (ms ! i) = int (Suc k)" "m = ms ! i"
    using assms(2) by (auto simp: find_Some_iff)
  moreover have "i = k"
    using numbered_nth [OF assms(1) i(1)] i(2) by simp
  ultimately show ?thesis
    by simp
qed

lemma recognised_prefix:
  assumes "numbered ms" and "recognised_history ms rows = Inr current"
  shows "rows = map migration_row (take (length rows) ms)" and "current = int (length rows)"
    and "length rows \<le> length ms"
proof -
  have versions: "map fst rows = [1..int (length rows)]"
    and known: "\<And>v name digest. (v, name, digest) \<in> set rows \<Longrightarrow>
      \<exists>m. find (\<lambda>m. mg_version m = v) ms = Some m \<and> name = mg_name m \<and> digest = mg_checksum m"
    and cur: "current = (if rows = [] then 0 else fst (last rows))"
    by (use assms(2) in \<open>(auto simp: recognised_history_def list_ex_iff split: if_splits option.splits)[1]\<close>,
        use assms(2) in \<open>fastforce simp: recognised_history_def list_ex_iff split: if_splits option.splits\<close>,
        use assms(2) in \<open>auto simp: recognised_history_def split: if_splits\<close>)
  have row: "k < length ms \<and> rows ! k = migration_row (ms ! k)" if k: "k < length rows" for k
  proof -
    obtain v name digest where r: "rows ! k = (v, name, digest)"
      by (cases "rows ! k") auto
    have "map fst rows ! k = int (Suc k)"
      using k by (simp add: versions nth_upto)
    then have "v = int (Suc k)"
      using k r by simp
    then obtain m where m: "find (\<lambda>m. mg_version m = int (Suc k)) ms = Some m" "name = mg_name m" "digest = mg_checksum m"
      using known [of v name digest] k r by (metis nth_mem)
    then have "k < length ms" "m = ms ! k"
      using find_numbered [OF assms(1) m(1)] by auto
    then show ?thesis
      using numbered_nth [OF assms(1)] r m \<open>v = int (Suc k)\<close> by (simp add: migration_row_def)
  qed
  show len: "length rows \<le> length ms"
    using row [of "length rows - 1"] by (cases rows) auto
  show "rows = map migration_row (take (length rows) ms)"
    by (rule nth_equalityI) (use row len in \<open>auto simp: min_def\<close>)
  show "current = int (length rows)"
  proof (cases "rows = []")
    case False
    then have "fst (last rows) = map fst rows ! (length rows - 1)"
      by (simp add: last_conv_nth)
    also have "\<dots> = int (length rows)"
      using False by (cases "length rows") (simp_all only: versions, simp_all add: nth_upto del: of_nat_Suc)
    finally show ?thesis
      using False cur by simp
  qed (simp add: cur)
qed

lemma recognised_registered:
  assumes "numbered ms" and "k \<le> length ms"
  shows "recognised_history ms (map migration_row (take k ms)) = Inr (int k)"
proof -
  have versions: "map mg_version (take k ms) = [1..int k]"
    using assms by (simp add: numbered_def take_map [symmetric] take_upto_int min_absorb1)
  have found: "find (\<lambda>n. mg_version n = mg_version m) ms = Some m" if "m \<in> set (take k ms)" for m
  proof -
    have "distinct (map mg_version ms)"
      using assms(1) by (simp add: numbered_def)
    moreover have "m \<in> set ms"
      using that by (meson in_set_takeD)
    ultimately show ?thesis
      by (induction ms) (auto simp: rev_image_eqI)
  qed
  have ahead: "fst (last (map migration_row (take k ms))) \<le> Max (set (map mg_version ms))" if "take k ms \<noteq> []"
  proof -
    have "last (take k ms) \<in> set ms"
      using that by (meson in_set_takeD last_in_set)
    then show ?thesis
      using that by (simp add: last_map migration_row_def)
  qed
  have final: "fst (last (map migration_row (take k ms))) = int k" if "take k ms \<noteq> []"
  proof -
    have "0 < k" "ms \<noteq> []" using that by auto
    then have "last (take k ms) = ms ! (k - 1)"
      using assms(2) that by (simp add: last_conv_nth min_absorb2)
    then show ?thesis
      using that numbered_nth [OF assms(1), of "k - 1"] assms(2) \<open>0 < k\<close>
      by (simp add: last_map migration_row_def)
  qed
  define rows where "rows = map migration_row (take k ms)"
  have "\<not> (rows \<noteq> [] \<and> Max (set (map mg_version ms)) < fst (last rows))"
    using ahead by (auto simp: rows_def not_less)
  moreover have "\<not> map fst rows \<noteq> [1..int (length rows)]"
    using versions assms(2) by (simp add: rows_def comp_def migration_row_def min_absorb2)
  moreover have "\<not> list_ex (\<lambda>(v, name, digest). case find (\<lambda>m. mg_version m = v) ms of None \<Rightarrow> True
      | Some m \<Rightarrow> name \<noteq> mg_name m \<or> digest \<noteq> mg_checksum m) rows"
    using found by (auto simp: list_ex_iff migration_row_def rows_def)
  moreover have "(if rows = [] then 0 else fst (last rows)) = int k"
    using final assms(2) by (auto simp: rows_def)
  ultimately show ?thesis
    unfolding recognised_history_def rows_def [symmetric] by (simp only: if_False simp_thms)
qed

section \<open>The transaction\<close>

text \<open>
  What the runner relies on: no registered text touches \<open>schema_migration\<close>; a row of a higher version
  comes last in the order of the versions; a bootstrapped database has the table, and it is empty; a
  database without the table has no rows.
\<close>

definition engine_laws :: "'d sqlite \<Rightarrow> string list \<Rightarrow> bool" where
  "engine_laws q sqls \<longleftrightarrow>
    (\<forall>sql d d'. sql \<in> set sqls \<longrightarrow> execute_statements q sql d = Inr d' \<longrightarrow> q_history q d' = q_history q d)
  \<and> (\<forall>v name digest now d d'. q_record q v name digest now d = Inr d' \<longrightarrow> (\<forall>row\<in>set (q_history q d). fst row < v)
      \<longrightarrow> q_history q d' = q_history q d @ [(v, name, digest)])
  \<and> (\<forall>d d'. q_execute q schema_migration_sql d = Inr d' \<longrightarrow> q_objects q d = []
      \<longrightarrow> q_history q d' = [] \<and> has_table ''schema_migration'' (q_objects q d'))
  \<and> (\<forall>d. q_history q d \<noteq> [] \<longrightarrow> has_table ''schema_migration'' (q_objects q d))"

lemma engine_laws_script:
  "\<lbrakk>engine_laws q sqls; sql \<in> set sqls; execute_statements q sql d = Inr d'\<rbrakk> \<Longrightarrow> q_history q d' = q_history q d"
  unfolding engine_laws_def by blast

lemma engine_laws_record:
  "\<lbrakk>engine_laws q sqls; q_record q v name digest now d = Inr d'; \<forall>row\<in>set (q_history q d). fst row < v\<rbrakk>
    \<Longrightarrow> q_history q d' = q_history q d @ [(v, name, digest)]"
  unfolding engine_laws_def by blast

lemma engine_laws_bootstrap:
  assumes "engine_laws q sqls" and "q_execute q schema_migration_sql d = Inr d'" and "q_objects q d = []"
  shows "q_history q d' = []" and "has_table ''schema_migration'' (q_objects q d')"
  using assms unfolding engine_laws_def by blast+

lemma engine_laws_table:
  "\<lbrakk>engine_laws q sqls; q_history q d \<noteq> []\<rbrakk> \<Longrightarrow> has_table ''schema_migration'' (q_objects q d)"
  unfolding engine_laws_def by blast

text \<open>The text a version has by default.\<close>

definition registered_sql :: "string list \<Rightarrow> int \<Rightarrow> string" where
  "registered_sql sqls v = sqls ! nat (v - 1)"

lemma registered_nth:
  assumes "k < length sqls" and "k < 10"
  shows "registered_migrations hash sqls ! k = \<lparr>mg_version = int (Suc k), mg_name = migration_names ! k,
    mg_sql = sqls ! k, mg_checksum = migration_checksum hash (sqls ! k)\<rparr>"
  using assms by (simp add: registered_migrations_def migration_names_def nth_upto)

lemma registered_member:
  assumes "m \<in> set (registered_migrations hash sqls)"
  shows "registered_sql sqls (mg_version m) \<in> set sqls"
    and "mg_checksum m = migration_checksum hash (registered_sql sqls (mg_version m))"
proof -
  obtain k where k: "k < min 10 (length sqls)" "m = registered_migrations hash sqls ! k"
    using assms by (auto simp: in_set_conv_nth)
  then have m: "m = \<lparr>mg_version = int (Suc k), mg_name = migration_names ! k, mg_sql = sqls ! k,
      mg_checksum = migration_checksum hash (sqls ! k)\<rparr>"
    by (simp add: registered_nth)
  show "registered_sql sqls (mg_version m) \<in> set sqls"
    using k(1) by (simp add: m registered_sql_def)
  show "mg_checksum m = migration_checksum hash (registered_sql sqls (mg_version m))"
    by (simp add: m registered_sql_def)
qed

lemma applied_history:
  assumes laws: "engine_laws q sqls"
    and "apply_migrations hash q (registered_sql sqls) now sel d = Inr d'"
    and "\<forall>m\<in>set sel. m \<in> set (registered_migrations hash sqls)"
    and "sorted_wrt (<) (map mg_version sel)"
    and "\<forall>row\<in>set (q_history q d). \<forall>m\<in>set sel. fst row < mg_version m"
  shows "q_history q d' = q_history q d @ map migration_row sel"
  using assms(2-)
proof (induction sel arbitrary: d)
  case (Cons m ms)
  note member = registered_member [of m hash sqls]
  obtain d1 d2 where run: "execute_statements q (registered_sql sqls (mg_version m)) d = Inr d1"
    "q_record q (mg_version m) (mg_name m) (migration_checksum hash (registered_sql sqls (mg_version m))) now d1 = Inr d2"
    "apply_migrations hash q (registered_sql sqls) now ms d2 = Inr d'"
    using Cons.prems(1) by (auto simp: bnd_eq_Inr)
  have h1: "q_history q d1 = q_history q d"
    using engine_laws_script [OF laws _ run(1)] member Cons.prems(2) by simp
  have h2: "q_history q d2 = q_history q d @ [migration_row m]"
    using engine_laws_record [OF laws run(2)] h1 member Cons.prems by (simp add: migration_row_def)
  show ?case
    using Cons.IH [OF run(3)] Cons.prems h2 by (auto simp: migration_row_def)
qed simp

lemma registered_slice:
  assumes "k \<le> t" and "t \<le> length ms" and "numbered ms"
  shows "sorted_wrt (<) (map mg_version (drop k (take t ms)))"
    and "\<forall>row\<in>set (map migration_row (take k ms)). \<forall>m\<in>set (drop k (take t ms)). fst row < mg_version m"
    and "take k ms @ drop k (take t ms) = take t ms"
proof -
  have "sorted_wrt (<) (map mg_version (take t ms))"
    using assms by (simp add: numbered_def take_map [symmetric] take_upto_int)
  moreover show whole: "take k ms @ drop k (take t ms) = take t ms"
    using assms(1) by (metis append_take_drop_id min.absorb1 take_take)
  ultimately have "sorted_wrt (<) (map mg_version (take k ms) @ map mg_version (drop k (take t ms)))"
    by (metis map_append)
  then show "sorted_wrt (<) (map mg_version (drop k (take t ms)))"
    and "\<forall>row\<in>set (map migration_row (take k ms)). \<forall>m\<in>set (drop k (take t ms)). fst row < mg_version m"
    by (auto simp: sorted_wrt_append migration_row_def)
qed

text \<open>A transaction that commits: the history of the target, the objects of a fresh schema.\<close>

lemma migration_body_effect:
  assumes laws: "engine_laws q sqls" and "k \<le> t" and "t \<le> min 10 (length sqls)"
    and ms: "ms = registered_migrations hash sqls"
    and before: "q_history q d = map migration_row (take k ms)"
    and run: "migration_body hash q ms (registered_sql sqls) now (drop k (take t ms)) (int t) d = Inr d'"
  shows "q_history q d' = map migration_row (take t ms)"
    and "validate_schema_at hash q ms (int t) d' = Inr ()"
proof -
  have body: "apply_migrations hash q (registered_sql sqls) now (drop k (take t ms)) d = Inr d'"
    and valid: "validate_schema_at hash q ms (int t) d' = Inr ()"
    using run by (auto simp: migration_body_def bnd_eq_Inr split: if_splits)
  have num: "numbered ms" and len: "t \<le> length ms"
    using assms(3) by (simp_all add: ms numbered_registered)
  note slice = registered_slice [OF assms(2) len num]
  have "\<forall>m\<in>set (drop k (take t ms)). m \<in> set (registered_migrations hash sqls)"
    unfolding ms by (meson in_set_dropD in_set_takeD)
  then have "q_history q d' = map migration_row (take k ms @ drop k (take t ms))"
    using applied_history [OF laws body] slice(1,2) by (simp add: before)
  then show "q_history q d' = map migration_row (take t ms)"
    by (simp only: slice(3))
  show "validate_schema_at hash q ms (int t) d' = Inr ()"
    by (rule valid)
qed

section \<open>The runner\<close>

lemma migrate_from_cases:
  assumes "migrate_from hash q ms sql_of backups now target fresh current s = (Inr res, s')"
    and "pending_migrations current target ms = Inr selected"
  obtains (unchanged) "current = target" and "s' = s"
      and "res = \<lparr>mr_previous_version = current, mr_version = current, mr_applied = False, mr_backup = None\<rparr>"
      and "validate_schema_at hash q ms target (mi_db s) = Inr ()"
  | (applied) made where "current \<noteq> target"
      and "res = \<lparr>mr_previous_version = current, mr_version = target, mr_applied = True, mr_backup = made\<rparr>"
      and "made \<noteq> None \<longleftrightarrow> backups \<and> \<not> fresh"
      and "migration_body hash q ms sql_of now selected target (mi_db s) = Inr (mi_db s')"
proof (cases "current = target")
  case True
  then show thesis
    using assms unchanged by (auto simp: migrate_from_def bnd_eq_Inr)
next
  case False
  then show thesis
    using assms applied
    by (auto simp: migrate_from_def backup_def Let_def split: if_splits list.splits sum.splits)
qed

lemma migrate_from_success:
  assumes laws: "engine_laws q sqls" and ms: "ms = registered_migrations hash sqls"
    and len: "length sqls = 10" and k: "k \<le> 10"
    and before: "q_history q (mi_db s) = map migration_row (take k ms)"
    and run: "migrate_from hash q ms (registered_sql sqls) backups now target fresh (int k) s = (Inr res, s')"
  shows "mr_version res = target" and "mr_previous_version res = int k" and "int k \<le> target" and "target \<le> 10"
    and "q_history q (mi_db s') = map migration_row (take (nat target) ms)"
    and "validate_schema_at hash q ms target (mi_db s') = Inr ()"
    and "int k = target \<Longrightarrow> s' = s"
    and "mr_backup res \<noteq> None \<longleftrightarrow> int k < target \<and> backups \<and> \<not> fresh"
proof -
  have num: "numbered ms" and registered: "length ms = 10"
    by (simp_all add: ms numbered_registered len)
  obtain selected where selected: "pending_migrations (int k) target ms = Inr selected"
    using run by (auto simp: migrate_from_def split: sum.splits)
  have "set (map mg_version ms) = {1..10}"
    using num by (simp add: numbered_def registered flip: set_map)
  then have bounds: "int k \<le> target" "target \<le> 10"
    and filtered: "selected = filter (\<lambda>m. int k < mg_version m \<and> mg_version m \<le> target) ms"
    using selected by (auto simp: pending_migrations_def split: if_splits)
  define t where "t = nat target"
  have t: "target = int t" and kt: "k \<le> t" and t10: "t \<le> 10"
    using bounds by (simp_all add: t_def)
  have sel: "selected = drop k (take t ms)"
    using pending_slice [OF num, of k t] by (simp add: filtered t)
  show "int k \<le> target" and "target \<le> 10"
    by (rule bounds)+
  have "mr_version res = target \<and> mr_previous_version res = int k
    \<and> q_history q (mi_db s') = map migration_row (take (nat target) ms)
    \<and> validate_schema_at hash q ms target (mi_db s') = Inr () \<and> (int k = target \<longrightarrow> s' = s)
    \<and> (mr_backup res \<noteq> None \<longleftrightarrow> int k < target \<and> backups \<and> \<not> fresh)"
    using run selected
  proof (cases rule: migrate_from_cases)
    case unchanged
    then show ?thesis by (simp add: before t)
  next
    case (applied made)
    then have body: "migration_body hash q ms (registered_sql sqls) now (drop k (take t ms)) (int t) (mi_db s) = Inr (mi_db s')"
      by (simp only: sel t)
    have "t \<le> min 10 (length sqls)"
      using t10 by (simp add: len)
    note effect = migration_body_effect [OF laws kt this ms before body]
    then show ?thesis
      using applied(1-3) bounds by (auto simp: t)
  qed
  then show "mr_version res = target" and "mr_previous_version res = int k"
    and "q_history q (mi_db s') = map migration_row (take (nat target) ms)"
    and "validate_schema_at hash q ms target (mi_db s') = Inr ()"
    and "int k = target \<Longrightarrow> s' = s"
    and "mr_backup res \<noteq> None \<longleftrightarrow> int k < target \<and> backups \<and> \<not> fresh"
    by blast+
qed

lemma migrate_from_failure:
  "migrate_from hash q ms sql_of backups now target fresh current s = (Inl e, s') \<Longrightarrow> mi_db s' = mi_db s"
  by (auto simp: migrate_from_def backup_def Let_def bnd_def split: if_splits list.splits sum.splits)

lemma migrate_from_settled:
  assumes "numbered ms" and "k \<le> length ms" and "validate_schema_at hash q ms (int k) (mi_db s) = Inr ()"
  shows "migrate_from hash q ms sql_of backups now (int k) fresh (int k) s =
    (Inr \<lparr>mr_previous_version = int k, mr_version = int k, mr_applied = False, mr_backup = None\<rparr>, s)"
proof -
  have "int k = 0 \<or> int k \<in> set (map mg_version ms)"
    using assms(1,2) by (auto simp: numbered_def simp flip: set_map)
  then show ?thesis
    using assms(3) by (auto simp: migrate_from_def pending_migrations_def)
qed

lemma migrate_start:
  assumes laws: "engine_laws q sqls" and ms: "ms = registered_migrations hash sqls"
    and run: "migrate hash q ms sql_of backups now target s = (Inr res, s')"
  obtains d k where "k \<le> length ms" and "q_history q d = map migration_row (take k ms)"
    and "has_table ''schema_migration'' (q_objects q d)"
    and "d = mi_db s \<or> q_objects q (mi_db s) = [] \<and> k = 0"
    and "migrate_from hash q ms sql_of backups now target (q_objects q (mi_db s) = []) (int k) (s\<lparr>mi_db := d\<rparr>) = (Inr res, s')"
proof -
  have num: "numbered ms"
    by (simp add: ms numbered_registered)
  obtain d current where d: "(if q_objects q (mi_db s) = [] then q_execute q schema_migration_sql (mi_db s)
      else if \<not> has_table ''schema_migration'' (q_objects q (mi_db s)) then Inl (StoreError ''UNRECOGNIZED_DATABASE'')
      else Inr (mi_db s)) = Inr d"
    and current: "recognised_history ms (q_history q d) = Inr current"
    and rest: "migrate_from hash q ms sql_of backups now target (q_objects q (mi_db s) = []) current (s\<lparr>mi_db := d\<rparr>) = (Inr res, s')"
    using run unfolding migrate_def Let_def by (auto split: sum.splits)
  note prefix = recognised_prefix [OF num current]
  have table: "has_table ''schema_migration'' (q_objects q d)" and origin: "d = mi_db s \<or> q_objects q (mi_db s) = [] \<and> length (q_history q d) = 0"
    using d engine_laws_bootstrap [OF laws] by (auto split: if_splits)
  show thesis
    using that [OF prefix(3) prefix(1) table origin] rest prefix(2) by simp
qed

text \<open>
  C39. For the registered migration texts (no overriding text of a caller): a migration that returns leaves a database of exactly the requested version: its history is the
  registered one up to the target, its objects are those of a fresh schema of that version, and its
  history before was a prefix of the registered one; a backup was made first exactly when there was
  a database to change and a place for backups. Running it again reports the same version and
  changes nothing. A run that fails leaves the database as it was, or, when it had no objects, with the
  bootstrapped history table at most.
\<close>

theorem migration_reaches_target:
  assumes "ms = registered_migrations hash sqls" and "engine_laws q sqls" and "length sqls = 10"
    and "migrate hash q ms (registered_sql sqls) backups now target s = (r, s')"
  shows "case r of
      Inl _ \<Rightarrow> mi_db s' = mi_db s
        \<or> q_objects q (mi_db s) = [] \<and> q_execute q schema_migration_sql (mi_db s) = Inr (mi_db s')
    | Inr res \<Rightarrow> mr_version res = target \<and> mr_previous_version res \<le> target
        \<and> (q_objects q (mi_db s) \<noteq> [] \<longrightarrow> q_history q (mi_db s) = map migration_row (take (nat (mr_previous_version res)) ms))
        \<and> q_history q (mi_db s') = map migration_row (take (nat target) ms)
        \<and> validate_schema_at hash q ms target (mi_db s') = Inr ()
        \<and> (mr_backup res \<noteq> None \<longleftrightarrow> mr_previous_version res < target \<and> backups \<and> q_objects q (mi_db s) \<noteq> [])
        \<and> migrate hash q ms (registered_sql sqls) backups later target s' =
            (Inr \<lparr>mr_previous_version = target, mr_version = target, mr_applied = False, mr_backup = None\<rparr>, s')"
proof (cases r)
  case (Inl e)
  then show ?thesis
    using assms(4) unfolding migrate_def Let_def
    by (auto split: sum.splits if_splits dest!: migrate_from_failure)
next
  case (Inr res)
  have num: "numbered ms" and len: "length ms = 10"
    by (simp_all add: assms(1) numbered_registered assms(3))
  obtain d k where k: "k \<le> length ms" and before: "q_history q d = map migration_row (take k ms)"
    and table: "has_table ''schema_migration'' (q_objects q d)"
    and origin: "d = mi_db s \<or> q_objects q (mi_db s) = [] \<and> k = 0"
    and rest: "migrate_from hash q ms (registered_sql sqls) backups now target (q_objects q (mi_db s) = []) (int k) (s\<lparr>mi_db := d\<rparr>) = (Inr res, s')"
    by (rule migrate_start [OF assms(2) assms(1) assms(4) [unfolded Inr]])
  note effect = migrate_from_success [OF assms(2) assms(1) assms(3) k [unfolded len] _ rest, simplified, OF before]
  have t: "target = int (nat target)" "nat target \<le> length ms"
    using effect(3,4) by (simp_all add: len)
  have tabled: "has_table ''schema_migration'' (q_objects q (mi_db s'))"
  proof (cases "int k = target")
    case True
    then show ?thesis using effect(7) table by simp
  next
    case False
    then have "q_history q (mi_db s') \<noteq> []"
      using effect(3,5) t len by auto
    then show ?thesis
      by (rule engine_laws_table [OF assms(2)])
  qed
  have "recognised_history ms (q_history q (mi_db s')) = Inr target"
    using recognised_registered [OF num t(2)] effect(5) t(1) by simp
  moreover have "migrate_from hash q ms (registered_sql sqls) backups later target False target s' =
      (Inr \<lparr>mr_previous_version = target, mr_version = target, mr_applied = False, mr_backup = None\<rparr>, s')"
    using migrate_from_settled [OF num t(2), of hash q s'] effect(6) t(1) by simp
  moreover have "q_objects q (mi_db s') \<noteq> []"
    using tabled by (auto simp: has_table_def)
  ultimately have "migrate hash q ms (registered_sql sqls) backups later target s' =
      (Inr \<lparr>mr_previous_version = target, mr_version = target, mr_applied = False, mr_backup = None\<rparr>, s')"
    using tabled by (simp add: migrate_def)
  then show ?thesis
    using effect origin before by (auto simp: Inr)
qed

section \<open>Backups\<close>

text \<open>At most five backups are kept, and nothing but backups is removed.\<close>

lemma length_filter_notin_drop:
  assumes "distinct xs" shows "length (filter (\<lambda>x. x \<notin> set (drop n xs)) xs) \<le> n"
proof -
  have "filter (\<lambda>x. x \<notin> set (drop n xs)) (take n xs @ drop n xs) = take n xs"
    using assms by (subst filter_append) (metis append_Nil2 append_take_drop_id distinct_append
        disjoint_iff filter_True filter_False)
  then show ?thesis
    by simp
qed

lemma pruned_backups:
  assumes "distinct files"
  shows "length (filter is_backup (prune_backups files)) \<le> 5"
    and "filter (Not \<circ> is_backup) (prune_backups files) = filter (Not \<circ> is_backup) files"
proof -
  define named where "named = rev (sort (filter is_backup files))"
  have "distinct named" and names: "set named = set (filter is_backup files)"
    using assms by (simp_all add: named_def)
  have "filter is_backup (prune_backups files) = filter (\<lambda>name. name \<notin> set (drop 5 named)) (filter is_backup files)"
    by (simp add: prune_backups_def named_def conj_commute)
  moreover have "mset (filter is_backup files) = mset named"
    by (simp add: named_def)
  ultimately have "length (filter is_backup (prune_backups files)) = length (filter (\<lambda>name. name \<notin> set (drop 5 named)) named)"
    by (metis mset_filter size_mset)
  then show "length (filter is_backup (prune_backups files)) \<le> 5"
    using length_filter_notin_drop [OF \<open>distinct named\<close>, of 5] by simp
  have "is_backup name" if "name \<in> set (drop 5 named)" for name
    using that names by (auto dest: in_set_dropD)
  then show "filter (Not \<circ> is_backup) (prune_backups files) = filter (Not \<circ> is_backup) files"
    unfolding prune_backups_def Let_def named_def [symmetric] filter_filter by - (rule filter_cong, auto)
qed

text \<open>
  The order is that of the names, which begin with the version: with five backups of a higher version
  the backup just made is the one that goes.
\<close>

lemma new_backup_pruned:
  defines "kept \<equiv> map (\<lambda>k. backup_name 6 ''0'' k) [1, 2, 3, 4, 5]"
  shows "prune_backups (backup_name 5 ''0'' 9 # kept) = kept"
  unfolding kept_def by code_simp

section \<open>A concrete engine\<close>

text \<open>A database of objects and rows, whose statements are the texts up to a semicolon.\<close>

type_synonym demo_database = "(string \<times> string \<times> string option) list \<times> (int \<times> string \<times> string) list"

definition demo_execute :: "string \<Rightarrow> demo_database \<Rightarrow> demo_database result" where
  "demo_execute sql d =
    (if sql \<noteq> schema_migration_sql then Inr (fst d @ [(''table'', CHR ''t'' # sql, Some sql)], snd d)
     else if has_table ''schema_migration'' (fst d) then Inl (StoreError ''sqlite3.OperationalError'')
     else Inr (fst d @ [(''table'', ''schema_migration'', Some sql)], []))"

definition demo_record :: "int \<Rightarrow> string \<Rightarrow> string \<Rightarrow> int \<Rightarrow> demo_database \<Rightarrow> demo_database result" where
  "demo_record v name digest now d =
    (if has_table ''schema_migration'' (fst d) then Inr (fst d, insort_key fst (v, name, digest) (snd d))
     else Inl (StoreError ''sqlite3.OperationalError''))"

definition demo_engine :: "demo_database sqlite" where
  "demo_engine = \<lparr>q_objects = fst,
     q_history = (\<lambda>d. if has_table ''schema_migration'' (fst d) then snd d else []),
     q_execute = demo_execute, q_record = demo_record, q_complete = (\<lambda>s. CHR '';'' \<in> set s),
     q_integrity = (\<lambda>d. [''ok'']), q_foreign_keys_broken = (\<lambda>d. False), q_memory = ([], [])\<rparr>"

definition demo_sqls :: "string list" where
  "demo_sqls = [''A;'', ''B;'', ''C;'', ''D;'', ''E;'', ''F;'', ''G;'', ''H;'', ''I;'', ''J;'']"

lemma demo_script:
  assumes "sql \<in> set demo_sqls"
  shows "execute_statements demo_engine sql d = Inr (fst d @ [(''table'', CHR ''t'' # sql @ [CHR 0x0A], Some (sql @ [CHR 0x0A]))], snd d)"
  using assms by (auto simp: demo_sqls_def execute_statements_def canonical_sql_bytes_def strip_def
    demo_engine_def demo_execute_def schema_migration_sql_def ascii_space_def)

lemma insort_above:
  "\<forall>row\<in>set rows. fst row < v \<Longrightarrow> insort_key fst (v, x) rows = rows @ [(v::int, x)]"
  by (induction rows) auto

lemma demo_laws: "engine_laws demo_engine demo_sqls"
proof -
  have "q_history demo_engine d' = q_history demo_engine d"
    if "sql \<in> set demo_sqls" and "execute_statements demo_engine sql d = Inr d'" for sql d d'
  proof -
    have "d' = (fst d @ [(''table'', CHR ''t'' # sql @ [CHR 0x0A], Some (sql @ [CHR 0x0A]))], snd d)"
      using that by (simp add: demo_script)
    then show ?thesis
      by (auto simp: demo_engine_def has_table_def)
  qed
  moreover have "q_history demo_engine d' = q_history demo_engine d @ [(v, name, digest)]"
    if "q_record demo_engine v name digest now d = Inr d'" and "\<forall>row\<in>set (q_history demo_engine d). fst row < v"
    for v name digest now d d'
    using that by (auto simp: demo_engine_def demo_record_def split: if_splits) (rule insort_above, force)
  moreover have "q_history demo_engine d' = [] \<and> has_table ''schema_migration'' (q_objects demo_engine d')"
    if "q_execute demo_engine schema_migration_sql d = Inr d'" for d d'
    using that by (auto simp: demo_engine_def demo_execute_def has_table_def split: if_splits)
  moreover have "q_history demo_engine d \<noteq> [] \<Longrightarrow> has_table ''schema_migration'' (q_objects demo_engine d)" for d
    by (auto simp: demo_engine_def split: if_splits)
  ultimately show ?thesis
    unfolding engine_laws_def by blast
qed

text \<open>A database of version 1.\<close>

definition demo_first :: demo_database where
  "demo_first = ([(''table'', ''schema_migration'', Some schema_migration_sql),
    (''table'', CHR ''t'' # ''A;'' @ [CHR 0x0A], Some (''A;'' @ [CHR 0x0A]))],
    [(1, ''0001_mvp_a_control_store'', ''A;'' @ [CHR 0x0A])])"

definition demo_migration :: "migration_result result \<times> demo_database migrating" where
  "demo_migration = migrate id demo_engine (registered_migrations id demo_sqls) (registered_sql demo_sqls) True 0 2
    \<lparr>mi_db = demo_first, mi_backups = []\<rparr>"

definition demo_result :: migration_result where
  "demo_result = \<lparr>mr_previous_version = 1, mr_version = 2, mr_applied = True,
    mr_backup = Some (''control.sqlite3.v1.19700101T000000000000Z.B;'' @ CHR 0x0A # ''.bak'')\<rparr>"

definition demo_second :: "demo_database migrating" where
  "demo_second = \<lparr>mi_db = (fst demo_first @ [(''table'', CHR ''t'' # ''B;'' @ [CHR 0x0A], Some (''B;'' @ [CHR 0x0A]))],
     snd demo_first @ [(2, ''0002_slice_control_state'', ''B;'' @ [CHR 0x0A])]),
    mi_backups = [''control.sqlite3.v1.19700101T000000000000Z.B;'' @ CHR 0x0A # ''.bak'']\<rparr>"

lemma demo_run: "demo_migration = (Inr demo_result, demo_second)"
  by code_simp

theorem migration_reaches_target_witness:
  "demo_migration = (Inr demo_result, demo_second)
   \<and> q_history demo_engine (mi_db demo_second) = map migration_row (take 2 (registered_migrations id demo_sqls))
   \<and> migrate id demo_engine (registered_migrations id demo_sqls) (registered_sql demo_sqls) True 5 2 demo_second
      = (Inr \<lparr>mr_previous_version = 2, mr_version = 2, mr_applied = False, mr_backup = None\<rparr>, demo_second)"
proof -
  have "length demo_sqls = 10"
    by (simp add: demo_sqls_def)
  from migration_reaches_target [OF refl demo_laws this demo_run [unfolded demo_migration_def], where later = 5]
  show ?thesis
    by (simp add: demo_run)
qed

end
