(* ===== verification/Production_Control.thy ===== *)
theory Production_Control
  imports Runs
begin

text \<open>
  Production control (\<open>src/adcp/production_control.py\<close>): one lease of the global production writer
  around a mutation, with a heartbeat in the background, and the controlled deployment that checks
  its authority before and after every irreversible effect.
\<close>

section \<open>Failures, authorities and the plant\<close>

text \<open>
  \<open>ProductionControlError code\<close>, \<open>DeploymentAuthorityLost\<close> with its evidence and its cause, an error of
  the store, and any other exception by its name. The values of effects and readbacks are the
  deployment's own.
\<close>

record 'v effect_evidence =
  ee_step :: string
  ee_operation_id :: string
  ee_effect_result :: 'v
  ee_readback :: 'v

datatype 'v control_failure =
    Control_error string
  | Authority_lost "'v effect_evidence list" "'v control_failure"
  | Store_failed store_error
  | Other_exception string

text \<open>What a mutation derives its right from; a composite has only the first two.\<close>

datatype basic_authority = Git_source string string bool | Thin_runtime string string

datatype production_authority =
    Basic_authority basic_authority
  | Composite_authority "basic_authority list"
  | Worker_authority

definition composite_authority :: "basic_authority list \<Rightarrow> 'v control_failure + production_authority" where
  "composite_authority validators =
    (if validators = [] then Inl (Control_error ''PRODUCTION_MUTATION_AUTHORITY_INVALID'') else Inr (Composite_authority validators))"

text \<open>What \<open>authorize_new_mutation\<close> of the thin client answers.\<close>

datatype thin_answer = Thin_match | Thin_mismatch | Thin_identity_error string | Thin_unavailable

text \<open>
  The plant: at each tick, the environment the store sees, what happens just before (a call of another
  client; an attempt of the heartbeat thread, perhaps failing to open the store), the monotonic clock,
  and the answers of Git, of \<open>Path.resolve\<close>, of the thin client and of the worker's authority.
\<close>

datatype move = Elsewhere ctx call | Beat ctx "store_error option"

record 'v plant =
  pl_julian :: "int \<Rightarrow> int"
  pl_sha :: "string \<Rightarrow> string"
  pl_ctx :: "nat \<Rightarrow> ctx"
  pl_moves :: "nat \<Rightarrow> move list"
  pl_monotonic :: "nat \<Rightarrow> int"
  pl_git :: "nat \<Rightarrow> string \<Rightarrow> string list \<Rightarrow> int \<times> string"
  pl_resolve :: "nat \<Rightarrow> string \<Rightarrow> string option"
  pl_thin :: "nat \<Rightarrow> string \<Rightarrow> string \<Rightarrow> thin_answer"
  pl_worker :: "nat \<Rightarrow> 'v control_failure option"

definition plant_ctx :: "'v plant \<Rightarrow> ctx \<Rightarrow> ctx" where
  "plant_ctx E c = c\<lparr>sha := pl_sha E, julian := pl_julian E\<rparr>"

section \<open>Source and runtime authority\<close>

text \<open>\<open>subprocess.run(..., check=True)\<close>.\<close>

definition checked_git :: "'v plant \<Rightarrow> nat \<Rightarrow> string \<Rightarrow> string list \<Rightarrow> 'v control_failure + string" where
  "checked_git E n source args = (let (code, out) = pl_git E n source args in
     if code \<noteq> 0 then Inl (Other_exception ''CalledProcessError'') else Inr (strip out))"

definition resolved :: "'v plant \<Rightarrow> nat \<Rightarrow> string \<Rightarrow> 'v control_failure + string" where
  "resolved E n p = of_option (Other_exception ''FileNotFoundError'') (pl_resolve E n p)"

definition assert_git_source_binding :: "'v plant \<Rightarrow> nat \<Rightarrow> string \<Rightarrow> string \<Rightarrow> bool \<Rightarrow> 'v control_failure + unit" where
  "assert_git_source_binding E n root expected_head require_clean =
    (if length expected_head \<noteq> 40 \<or> \<not> is_lower_hex expected_head
     then Inl (Control_error ''SOURCE_AUTHORITY_EXPECTED_HEAD_INVALID'')
     else bnd (resolved E n root) (\<lambda>source.
       let (code, out) = pl_git E n source [''rev-parse'', ''--show-toplevel''] in
       bnd (if code \<noteq> 0 then Inr False else bnd (resolved E n (strip out)) (\<lambda>toplevel. Inr (toplevel = source))) (\<lambda>at_root.
       if \<not> at_root then Inl (Control_error ''SOURCE_AUTHORITY_ROOT_MISMATCH'')
       else bnd (checked_git E n source [''rev-parse'', ''HEAD'']) (\<lambda>head.
       if head \<noteq> expected_head then Inl (Control_error ''SOURCE_AUTHORITY_HEAD_MISMATCH'')
       else if \<not> require_clean then Inr ()
       else bnd (checked_git E n source [''status'', ''--porcelain=v1'', ''--untracked-files=all'']) (\<lambda>dirty.
       if dirty \<noteq> [] then Inl (Control_error ''SOURCE_AUTHORITY_DIRTY'') else Inr ())))))"

fun revalidate_basic :: "'v plant \<Rightarrow> nat \<Rightarrow> basic_authority \<Rightarrow> 'v control_failure + unit" where
  "revalidate_basic E n (Git_source root head clean) = assert_git_source_binding E n root head clean"
| "revalidate_basic E n (Thin_runtime runtime authorized) = (case pl_thin E n runtime authorized of
     Thin_unavailable \<Rightarrow> Inl (Control_error ''RUNTIME_AUTHORITY_CLIENT_UNAVAILABLE'')
   | Thin_identity_error code \<Rightarrow> Inl (Control_error code)
   | Thin_mismatch \<Rightarrow> Inl (Control_error ''RUNTIME_IDENTITY_MISMATCH'')
   | Thin_match \<Rightarrow> Inr ())"

fun revalidate_all :: "'v plant \<Rightarrow> nat \<Rightarrow> basic_authority list \<Rightarrow> 'v control_failure + unit" where
  "revalidate_all E n [] = Inr ()"
| "revalidate_all E n (a # as) = bnd (revalidate_basic E n a) (\<lambda>_. revalidate_all E n as)"

fun revalidate_authority :: "'v plant \<Rightarrow> nat \<Rightarrow> production_authority \<Rightarrow> 'v control_failure + unit" where
  "revalidate_authority E n (Basic_authority a) = revalidate_basic E n a"
| "revalidate_authority E n (Composite_authority as) = revalidate_all E n as"
| "revalidate_authority E n Worker_authority = (case pl_worker E n of Some e \<Rightarrow> Inl e | None \<Rightarrow> Inr ())"

section \<open>The lease and its holder\<close>

text \<open>\<open>GlobalProductionControlLease\<close>: what it is constructed with.\<close>

record control_lease =
  cl_change_id :: string
  cl_unit_id :: string
  cl_writer_class :: string
  cl_owner_session_role :: string
  cl_operation_class :: string
  cl_target :: string
  cl_authority :: production_authority
  cl_decision :: "string option"
  cl_repository_or_runtime :: string
  cl_track :: string
  cl_ttl_seconds :: int
  cl_heartbeat_seconds :: int
  cl_start_heartbeat :: bool
  cl_bounded_wait :: bool
  cl_attempt_id :: string
  cl_acquire_key :: string
  cl_release_key :: string

definition owner_id :: "control_lease \<Rightarrow> string" where
  "owner_id L = cl_writer_class L @ '':'' @ cl_attempt_id L"

definition default_lease_ttl :: int where
  "default_lease_ttl = 60"

definition default_heartbeat_seconds :: int where
  "default_heartbeat_seconds = 15"

definition deployment_class :: string where
  "deployment_class = ''W08_CONTROLLED_PRODUCTION_DEPLOYMENT''"

text \<open>
  What happened, in order: an assertion of the lease that passed, with the row and the instant it was
  compared with; one that failed; an attempt to acquire; an effect, a readback, the persisted result.
\<close>

datatype control_deed =
    Confirmed writer_row int
  | Refused
  | Attempted
  | Effected nat
  | Observed nat
  | Persisted

record 'w control_machine =
  cm_db :: db
  cm_world :: 'w
  cm_tick :: nat
  cm_token :: "int option"
  cm_guarded :: bool
  cm_beating :: bool
  cm_beat_error :: "store_error option"
  cm_trace :: "control_deed list"

type_synonym ('w, 'v, 'a) controlling = "'w control_machine \<Rightarrow> ('v control_failure + 'a) \<times> 'w control_machine"

definition ctl_bnd :: "('w, 'v, 'a) controlling \<Rightarrow> ('a \<Rightarrow> ('w, 'v, 'b) controlling) \<Rightarrow> ('w, 'v, 'b) controlling" where
  "ctl_bnd m f s = (case m s of (Inl e, s1) \<Rightarrow> (Inl e, s1) | (Inr x, s1) \<Rightarrow> f x s1)"

definition ctl_reply :: "'v control_failure + 'a \<Rightarrow> ('w, 'v, 'a) controlling" where
  "ctl_reply r s = (r, s)"

definition note_deed :: "control_deed \<Rightarrow> 'w control_machine \<Rightarrow> 'w control_machine" where
  "note_deed x s = s\<lparr>cm_trace := cm_trace s @ [x]\<rparr>"

text \<open>
  Just before an access: the calls of others, and the heartbeats of the running thread, which stops at
  its first error and keeps it.
\<close>

fun plant_moved :: "'v plant \<Rightarrow> control_lease \<Rightarrow> move \<Rightarrow> 'w control_machine \<Rightarrow> 'w control_machine" where
  "plant_moved E L (Elsewhere c k) s = s\<lparr>cm_db := perform (plant_ctx E c) k (cm_db s)\<rparr>"
| "plant_moved E L (Beat c unopened) s =
    (if \<not> cm_beating s then s
     else (case (unopened, cm_token s) of
         (Some e, _) \<Rightarrow> s\<lparr>cm_beating := False, cm_beat_error := Some e\<rparr>
       | (None, None) \<Rightarrow> s
       | (None, Some token) \<Rightarrow>
           (case heartbeat_global_writer (plant_ctx E c) (owner_id L) token (cl_ttl_seconds L) (cm_db s) of
              (Inl e, d) \<Rightarrow> s\<lparr>cm_db := d, cm_beating := False, cm_beat_error := Some e\<rparr>
            | (Inr _, d) \<Rightarrow> s\<lparr>cm_db := d\<rparr>)))"

definition pause :: "'v plant \<Rightarrow> control_lease \<Rightarrow> 'w control_machine \<Rightarrow> 'w control_machine" where
  "pause E L s = (fold (plant_moved E L) (pl_moves E (cm_tick s)) s)\<lparr>cm_tick := cm_tick s + 1\<rparr>"

text \<open>An access of the holder to the store.\<close>

definition at_store ::
  "'v plant \<Rightarrow> control_lease \<Rightarrow> (ctx \<Rightarrow> db \<Rightarrow> 'a result \<times> db) \<Rightarrow> ('w, 'v, 'a) controlling" where
  "at_store E L f s = (let s1 = pause E L s; (r, d) = f (plant_ctx E (pl_ctx E (cm_tick s))) (cm_db s1) in
     (case r of Inl e \<Rightarrow> Inl (Store_failed e) | Inr x \<Rightarrow> Inr x, s1\<lparr>cm_db := d\<rparr>))"

section \<open>Assertions\<close>

definition require_token :: "('w, 'v, int) controlling" where
  "require_token s = (of_option (Control_error ''GLOBAL_PRODUCTION_NOT_ACQUIRED'') (cm_token s), s)"

text \<open>The store's own assertion, noted in the trace.\<close>

definition confirm :: "'v plant \<Rightarrow> control_lease \<Rightarrow> int \<Rightarrow> ('w, 'v, unit) controlling" where
  "confirm E L token s =
    (let c = plant_ctx E (pl_ctx E (cm_tick s)) in
     case at_store E L (\<lambda>c d. (assert_current_writer c 0 (owner_id L) token d, d)) s of
       (Inl e, s1) \<Rightarrow> (Inl e, note_deed Refused s1)
     | (Inr r, s1) \<Rightarrow> (Inr (), note_deed (Confirmed r (clock c 0)) s1))"

text \<open>\<open>except StoreError as error: raise ProductionControlError(error.code)\<close>.\<close>

fun as_control_error :: "'v control_failure \<Rightarrow> 'v control_failure" where
  "as_control_error (Store_failed (StoreError code)) = Control_error code"
| "as_control_error e = e"

definition assert_current :: "'v plant \<Rightarrow> control_lease \<Rightarrow> ('w, 'v, unit) controlling" where
  "assert_current E L s0 =
    (let s = pause E L s0 in
     if cm_beat_error s \<noteq> None then (Inl (Control_error ''GLOBAL_PRODUCTION_HEARTBEAT_FAILED''), note_deed Refused s)
     else (case revalidate_authority E (cm_tick s) (cl_authority L) of
         Inl e \<Rightarrow> (Inl e, note_deed Refused s)
       | Inr _ \<Rightarrow> (case require_token s of
           (Inl e, s1) \<Rightarrow> (Inl e, note_deed Refused s1)
         | (Inr token, s1) \<Rightarrow> (case confirm E L token s1 of
             (Inl e, s2) \<Rightarrow> (Inl (as_control_error e), s2) | (Inr x, s2) \<Rightarrow> (Inr x, s2)))))"

text \<open>\<open>revalidate_current_controlled_deployment_lease\<close>, over the lease of the running deployment.\<close>

definition revalidate_current_lease :: "'v plant \<Rightarrow> control_lease option \<Rightarrow> ('w, 'v, unit) controlling" where
  "revalidate_current_lease E active = (case active of
     None \<Rightarrow> ctl_reply (Inl (Control_error ''CONTROLLED_DEPLOYMENT_REVALIDATION_OUTSIDE_ACTIVE_LEASE''))
   | Some L \<Rightarrow> assert_current E L)"

section \<open>Acquisition\<close>

definition lease_context :: "control_lease \<Rightarrow> writer_context" where
  "lease_context L = \<lparr>wc_owner_id = Some (owner_id L), wc_owner_execution_id = Some (cl_attempt_id L),
     wc_change_id = Some (cl_change_id L), wc_slice_id = Some (cl_unit_id L),
     wc_writer_class = Some (cl_writer_class L), wc_owner_session_role = Some (cl_owner_session_role L),
     wc_track = Some (cl_track L), wc_repository_or_runtime = Some (cl_repository_or_runtime L),
     wc_operation_class = Some (cl_operation_class L), wc_target = Some (cl_target L)\<rparr>"

definition writer_request :: "control_lease \<Rightarrow> acquire_request" where
  "writer_request L = \<lparr>aq_operation_key = cl_acquire_key L, aq_context = lease_context L,
     aq_ttl_seconds = cl_ttl_seconds L, aq_control_decision_ref = cl_decision L\<rparr>"

definition acquire_once :: "'v plant \<Rightarrow> control_lease \<Rightarrow> ('w, 'v, writer_row) controlling" where
  "acquire_once E L s = at_store E L (\<lambda>c. acquire_global_writer c (writer_request L)) (note_deed Attempted s)"

definition monotonic :: "'v plant \<Rightarrow> control_lease \<Rightarrow> ('w, 'v, int) controlling" where
  "monotonic E L s = (Inr (pl_monotonic E (cm_tick s)), pause E L s)"

definition acquire_max_attempts :: nat where
  "acquire_max_attempts = 61"

definition wait_timeout :: "'v control_failure" where
  "wait_timeout = Control_error ''W08_ACQUIRE_WAIT_TIMEOUT''"

definition revalidated :: "'v plant \<Rightarrow> control_lease \<Rightarrow> ('w, 'v, unit) controlling" where
  "revalidated E L s = (revalidate_authority E (cm_tick s) (cl_authority L), s)"

text \<open>After \<open>GLOBAL_PRODUCTION_WRITER_HELD\<close>: the deadline is read before the sleep and after it.\<close>

definition waited :: "'v plant \<Rightarrow> control_lease \<Rightarrow> int \<Rightarrow> bool \<Rightarrow> ('w, 'v, 'a) controlling \<Rightarrow> ('w, 'v, 'a) controlling" where
  "waited E L deadline final retry =
    ctl_bnd (monotonic E L) (\<lambda>now.
    if final \<or> deadline \<le> now then ctl_reply (Inl wait_timeout)
    else ctl_bnd (monotonic E L) (\<lambda>after_sleep.
      if deadline \<le> after_sleep then ctl_reply (Inl wait_timeout)
      else ctl_bnd (revalidated E L) (\<lambda>_. retry)))"

definition acquire_or :: "'v plant \<Rightarrow> control_lease \<Rightarrow> ('w, 'v, writer_row) controlling \<Rightarrow> ('w, 'v, writer_row) controlling" where
  "acquire_or E L retry s = (let (r, s1) = acquire_once E L s in
     if r = Inl (Store_failed (StoreError ''GLOBAL_PRODUCTION_WRITER_HELD'')) then retry s1 else (r, s1))"

definition before_deadline :: "'v plant \<Rightarrow> control_lease \<Rightarrow> int \<Rightarrow> ('w, 'v, unit) controlling" where
  "before_deadline E L deadline = ctl_bnd (monotonic E L) (\<lambda>now. ctl_reply (if deadline \<le> now then Inl wait_timeout else Inr ()))"

text \<open>
  The loop of \<open>_acquire_with_optional_wait\<close>, with the attempts that are left; \<open>again\<close> is whether one was
  made. The ceiling on attempts makes the last one fail without another wait.
\<close>

fun acquire_waiting :: "'v plant \<Rightarrow> control_lease \<Rightarrow> int \<Rightarrow> bool \<Rightarrow> nat \<Rightarrow> ('w, 'v, writer_row) controlling" where
  "acquire_waiting E L deadline again 0 = ctl_reply (Inl wait_timeout)"
| "acquire_waiting E L deadline again (Suc left) =
    ctl_bnd (if again then before_deadline E L deadline else ctl_reply (Inr ())) (\<lambda>_.
      acquire_or E L (waited E L deadline (left = 0) (acquire_waiting E L deadline True left)))"

definition acquire_with_optional_wait :: "'v plant \<Rightarrow> control_lease \<Rightarrow> ('w, 'v, writer_row) controlling" where
  "acquire_with_optional_wait E L =
    (if \<not> cl_bounded_wait L then acquire_once E L
     else ctl_bnd (monotonic E L) (\<lambda>now. acquire_waiting E L (now + seconds 30) False acquire_max_attempts))"

section \<open>Entering and leaving\<close>

definition release_of :: "control_lease \<Rightarrow> int \<Rightarrow> string \<Rightarrow> release_request" where
  "release_of L token reason = \<lparr>rq_operation_key = cl_release_key L, rq_owner_id = owner_id L,
     rq_fencing_token = token, rq_reason = reason, rq_control_decision_ref = cl_decision L\<rparr>"

text \<open>\<open>ordinary_global_writer_authority\<close>: only one binding of a store at a time.\<close>

definition enter_guard :: "'v plant \<Rightarrow> control_lease \<Rightarrow> ('w, 'v, unit) controlling" where
  "enter_guard E L s =
    ctl_bnd require_token (\<lambda>token s1.
      if cm_guarded s1 then (Inl (Store_failed (StoreError ''GLOBAL_PRODUCTION_WRITER_NESTED_AUTHORITY_FORBIDDEN'')), s1)
      else ctl_bnd (confirm E L token) (\<lambda>_ s2. (Inr (), s2\<lparr>cm_guarded := True\<rparr>)) s1) s"

definition entering :: "'v plant \<Rightarrow> control_lease \<Rightarrow> ('w, 'v, unit) controlling" where
  "entering E L =
    ctl_bnd (acquire_with_optional_wait E L) (\<lambda>row s1.
      ctl_bnd (assert_current E L) (\<lambda>_.
      ctl_bnd (enter_guard E L) (\<lambda>_ s2. (Inr (), s2\<lparr>cm_beating := cl_start_heartbeat L\<rparr>)))
        (s1\<lparr>cm_token := Some (gw_fencing_token row)\<rparr>))"

definition enter_lease :: "'v plant \<Rightarrow> control_lease \<Rightarrow> ('w, 'v, unit) controlling" where
  "enter_lease E L s =
    (case revalidate_authority E (cm_tick s) (cl_authority L) of
       Inl e \<Rightarrow> (Inl e, s)
     | Inr _ \<Rightarrow> (case entering E L s of
         (Inr x, s1) \<Rightarrow> (Inr x, s1)
       | (Inl e, s1) \<Rightarrow> (case cm_token s1 of
           None \<Rightarrow> (Inl e, s1)
         | Some token \<Rightarrow> (Inl e, snd (at_store E L (\<lambda>c. release_global_writer c
             (release_of L token ''GLOBAL_PRODUCTION_POST_ACQUIRE_REVALIDATION_FAILED'')) s1)))))"

definition exit_lease :: "'v plant \<Rightarrow> control_lease \<Rightarrow> bool \<Rightarrow> ('w, 'v, unit) controlling" where
  "exit_lease E L failed s =
    (let s1 = s\<lparr>cm_beating := False, cm_guarded := False\<rparr> in
     case cm_token s1 of
       None \<Rightarrow> (Inr (), s1)
     | Some token \<Rightarrow>
         (case at_store E L (\<lambda>c. release_global_writer c (release_of L token ''GLOBAL_PRODUCTION_WRITER_RELEASED'')) s1 of
            (Inl _, s2) \<Rightarrow> (if failed then Inr () else Inl (Control_error ''GLOBAL_PRODUCTION_RELEASE_FAILED''), s2)
          | (Inr _, s2) \<Rightarrow> (Inr (), s2)))"

text \<open>\<open>with GlobalProductionControlLease(...) as lease\<close>: a lease object starts without token and heartbeat.\<close>

definition under_lease :: "'v plant \<Rightarrow> control_lease \<Rightarrow> ('w, 'v, 'a) controlling \<Rightarrow> ('w, 'v, 'a) controlling" where
  "under_lease E L block s =
    ctl_bnd (enter_lease E L) (\<lambda>_ s1.
      (case block s1 of
         (Inl e, s2) \<Rightarrow> (Inl e, snd (exit_lease E L True s2))
       | (Inr x, s2) \<Rightarrow> ctl_bnd (exit_lease E L False) (\<lambda>_. ctl_reply (Inr x)) s2))
      (s\<lparr>cm_token := None, cm_beating := False, cm_beat_error := None\<rparr>)"

section \<open>Construction\<close>

definition lease_identity :: "control_lease \<Rightarrow> pyval" where
  "lease_identity L = json_to_py (JObj
    [(''change_id'', JStr (cl_change_id L)), (''unit_id'', JStr (cl_unit_id L)), (''attempt_id'', JStr (cl_attempt_id L)),
     (''writer_class'', JStr (cl_writer_class L)), (''operation_class'', JStr (cl_operation_class L)),
     (''target'', JStr (cl_target L))])"

text \<open>\<open>schema\<close> is the highest version of \<open>schema_migration\<close>, if it can be read.\<close>

definition make_lease :: "'v plant \<Rightarrow> int option \<Rightarrow> control_lease \<Rightarrow> 'v control_failure + control_lease" where
  "make_lease E schema L =
    (if cl_unit_id L = [] then Inl (Control_error ''GLOBAL_PRODUCTION_UNIT_ID_REQUIRED'')
     else if cl_heartbeat_seconds L \<le> 0 \<or> 20 < cl_heartbeat_seconds L \<or> cl_ttl_seconds L \<le> cl_heartbeat_seconds L
     then Inl (Control_error ''GLOBAL_PRODUCTION_HEARTBEAT_POLICY_INVALID'')
     else if cl_bounded_wait L \<and> cl_writer_class L \<noteq> deployment_class
     then Inl (Control_error ''W08_ACQUIRE_WAIT_SCOPE_INVALID'')
     else if (case schema of None \<Rightarrow> True | Some v \<Rightarrow> v \<le> 0)
     then Inl (Control_error ''GLOBAL_PRODUCTION_STORE_SCHEMA_UNREADABLE'')
     else (case bnd (operation_key (pl_sha E) ''global-production-control-acquire'' (lease_identity L)) (\<lambda>acquire.
                bnd (operation_key (pl_sha E) ''global-production-control-release'' (lease_identity L)) (\<lambda>release.
                Inr (L\<lparr>cl_acquire_key := acquire, cl_release_key := release\<rparr>))) of
             Inl e \<Rightarrow> Inl (Store_failed e) | Inr L' \<Rightarrow> Inr L'))"

section \<open>Controlled deployments\<close>

text \<open>
  A step of a deployment acts on the world and may make calls of the store, which then carry the
  lease's authority; it answers a value or fails.
\<close>

type_synonym ('w, 'v, 'a) callback = "'w \<Rightarrow> db \<Rightarrow> ('v control_failure + 'a) \<times> 'w \<times> (ctx \<times> call) list"

record ('w, 'v) deployment_step =
  ds_name :: string
  ds_effect :: "('w, 'v, 'v) callback"
  ds_readback :: "'v \<Rightarrow> ('w, 'v, 'v) callback"

definition bound_ctx :: "'v plant \<Rightarrow> control_lease \<Rightarrow> 'w control_machine \<Rightarrow> ctx \<Rightarrow> ctx" where
  "bound_ctx E L s c = (plant_ctx E c)\<lparr>guard_required := True,
     bound_authority := map_option (Pair (owner_id L)) (cm_token s)\<rparr>"

definition called_back ::
  "'v plant \<Rightarrow> control_lease \<Rightarrow> control_deed \<Rightarrow> ('w, 'v, 'a) callback \<Rightarrow> ('w, 'v, 'a) controlling" where
  "called_back E L deed f s0 = (let s = pause E L s0; (r, w, calls) = f (cm_world s) (cm_db s) in
     (r, note_deed deed (s\<lparr>cm_world := w, cm_db := fold (\<lambda>(c, k). perform (bound_ctx E L s c) k) calls (cm_db s)\<rparr>)))"

definition step_key :: "'v plant \<Rightarrow> string \<Rightarrow> nat \<Rightarrow> string \<Rightarrow> 'v control_failure + string" where
  "step_key E deployment_id index name =
    (case operation_key (pl_sha E) ''controlled-production-deployment-step''
        (json_to_py (JObj [(''deployment_id'', JStr deployment_id), (''index'', JInt (int index)), (''step'', JStr name)])) of
       Inl e \<Rightarrow> Inl (Store_failed e) | Inr key \<Rightarrow> Inr key)"

text \<open>An assertion after something irreversible: its failure carries the evidence.\<close>

definition assert_or_lost :: "'v plant \<Rightarrow> control_lease \<Rightarrow> 'v effect_evidence list \<Rightarrow> ('w, 'v, unit) controlling" where
  "assert_or_lost E L evidence s = (case assert_current E L s of
     (Inl e, s1) \<Rightarrow> (Inl (Authority_lost evidence e), s1) | (Inr x, s1) \<Rightarrow> (Inr x, s1))"

definition deployment_step ::
  "'v plant \<Rightarrow> control_lease \<Rightarrow> nat \<Rightarrow> ('w, 'v) deployment_step \<Rightarrow> 'v effect_evidence list
     \<Rightarrow> ('w, 'v, 'v effect_evidence list) controlling" where
  "deployment_step E L index step evidence =
    ctl_bnd (ctl_reply (step_key E (cl_unit_id L) index (ds_name step))) (\<lambda>operation_id.
    ctl_bnd (assert_current E L) (\<lambda>_.
    ctl_bnd (called_back E L (Effected index) (ds_effect step)) (\<lambda>result.
    ctl_bnd (called_back E L (Observed index) (ds_readback step result)) (\<lambda>observed.
    let evidence' = evidence @ [\<lparr>ee_step = ds_name step, ee_operation_id = operation_id,
          ee_effect_result = result, ee_readback = observed\<rparr>] in
    ctl_bnd (assert_or_lost E L evidence') (\<lambda>_. ctl_reply (Inr evidence'))))))"

fun deployment_steps ::
  "'v plant \<Rightarrow> control_lease \<Rightarrow> nat \<Rightarrow> ('w, 'v) deployment_step list \<Rightarrow> 'v effect_evidence list
     \<Rightarrow> ('w, 'v, 'v effect_evidence list) controlling" where
  "deployment_steps E L index [] evidence = ctl_reply (Inr evidence)"
| "deployment_steps E L index (x # xs) evidence =
     ctl_bnd (deployment_step E L index x evidence) (deployment_steps E L (Suc index) xs)"

definition deployment_block ::
  "'v plant \<Rightarrow> control_lease \<Rightarrow> ('w, 'v) deployment_step list \<Rightarrow> ('v effect_evidence list \<Rightarrow> ('w, 'v, unit) callback)
     \<Rightarrow> ('w, 'v, 'v effect_evidence list) controlling" where
  "deployment_block E L steps persist_result =
    ctl_bnd (deployment_steps E L 0 steps []) (\<lambda>evidence.
    ctl_bnd (assert_current E L) (\<lambda>_.
    ctl_bnd (called_back E L Persisted (persist_result evidence)) (\<lambda>_.
    ctl_bnd (assert_or_lost E L evidence) (\<lambda>_. ctl_reply (Inr evidence)))))"

text \<open>\<open>_prior_controlled_deployment_acquire\<close>.\<close>

definition prior_acquire :: "string \<Rightarrow> string \<Rightarrow> db \<Rightarrow> writer_event_row option" where
  "prior_acquire change_id deployment_id d = find (\<lambda>e. ge_event_type e \<in> {ACQUIRE, EXPIRED_TAKEOVER}
     \<and> wc_change_id (ge_new e) = Some change_id \<and> wc_slice_id (ge_new e) = Some deployment_id
     \<and> wc_writer_class (ge_new e) = Some deployment_class) (rev (writer_events d))"

text \<open>The arguments of a deployment; \<open>dp_attempt_id\<close> is the new identifier of the lease.\<close>

record ('w, 'v) deployment =
  dp_change_id :: string
  dp_deployment_id :: string
  dp_authority :: production_authority
  dp_steps :: "('w, 'v) deployment_step list"
  dp_persist_result :: "'v effect_evidence list \<Rightarrow> ('w, 'v, unit) callback"
  dp_decision :: "string option"
  dp_start_heartbeat :: bool
  dp_bounded_wait :: bool
  dp_attempt_id :: string

definition deployment_lease :: "('w, 'v) deployment \<Rightarrow> control_lease" where
  "deployment_lease p = \<lparr>cl_change_id = dp_change_id p, cl_unit_id = dp_deployment_id p,
     cl_writer_class = deployment_class, cl_owner_session_role = ''GPT_REMOTE_CONTROLLED_DEPLOYMENT'',
     cl_operation_class = ''CONTROLLED_PRODUCTION_DEPLOYMENT'', cl_target = ''GLOBAL_PRODUCTION'',
     cl_authority = dp_authority p, cl_decision = dp_decision p, cl_repository_or_runtime = ''ADCP_CONTROL'',
     cl_track = ''CONTROL'', cl_ttl_seconds = default_lease_ttl, cl_heartbeat_seconds = default_heartbeat_seconds,
     cl_start_heartbeat = dp_start_heartbeat p, cl_bounded_wait = dp_bounded_wait p, cl_attempt_id = dp_attempt_id p,
     cl_acquire_key = [], cl_release_key = []\<rparr>"

definition run_controlled_deployment ::
  "'v plant \<Rightarrow> int option \<Rightarrow> ('w, 'v) deployment \<Rightarrow> ('w, 'v, 'v effect_evidence list) controlling" where
  "run_controlled_deployment E schema p =
    ctl_bnd (at_store E (deployment_lease p) (\<lambda>c d. (Inr (prior_acquire (dp_change_id p) (dp_deployment_id p) d), d))) (\<lambda>prior.
    if prior \<noteq> None then ctl_reply (Inl (Control_error ''CONTROLLED_DEPLOYMENT_RECONCILIATION_REQUIRED''))
    else ctl_bnd (ctl_reply (make_lease E schema (deployment_lease p))) (\<lambda>L.
      under_lease E L (deployment_block E L (dp_steps p) (dp_persist_result p))))"

section \<open>Ordinary mutations\<close>

record ('w, 'v) ordinary_mutation =
  om_change_id :: string
  om_unit_id :: string
  om_operation_class :: string
  om_authority :: production_authority
  om_mutation :: "('w, 'v, 'v) callback"
  om_decision :: "string option"
  om_start_heartbeat :: bool
  om_attempt_id :: string

definition mutation_lease :: "('w, 'v) ordinary_mutation \<Rightarrow> control_lease" where
  "mutation_lease p = \<lparr>cl_change_id = om_change_id p, cl_unit_id = om_unit_id p,
     cl_writer_class = ''W09_ORDINARY_PRODUCTION_CONTROL'', cl_owner_session_role = ''ADCP_PRODUCTION_CONTROL'',
     cl_operation_class = om_operation_class p, cl_target = ''PRODUCTION_DCS'', cl_authority = om_authority p,
     cl_decision = om_decision p, cl_repository_or_runtime = ''ADCP_CONTROL'', cl_track = ''CONTROL'',
     cl_ttl_seconds = default_lease_ttl, cl_heartbeat_seconds = default_heartbeat_seconds,
     cl_start_heartbeat = om_start_heartbeat p, cl_bounded_wait = False, cl_attempt_id = om_attempt_id p,
     cl_acquire_key = [], cl_release_key = []\<rparr>"

definition run_ordinary_mutation ::
  "'v plant \<Rightarrow> int option \<Rightarrow> ('w, 'v) ordinary_mutation \<Rightarrow> ('w, 'v, 'v) controlling" where
  "run_ordinary_mutation E schema p =
    ctl_bnd (ctl_reply (make_lease E schema (mutation_lease p))) (\<lambda>L.
      under_lease E L (ctl_bnd (assert_current E L) (\<lambda>_. called_back E L (Effected 0) (om_mutation p))))"

end
