(* ===== verification/Production_Properties.thy ===== *)
theory Production_Properties
  imports Production_Control Scenario
begin

text \<open>
  What a controlled deployment guarantees: it keeps to a protocol in which every effect follows a
  confirmation of its lease and every refusal ends it, and one identity is deployed at most once.
\<close>

section \<open>Protocols\<close>

text \<open>The deeds without their particulars; attempts to acquire leave no mark.\<close>

datatype shape = Confirm | Refuse | Effect nat | Observe nat | Persist

fun shape_of :: "control_deed \<Rightarrow> shape list" where
  "shape_of (Confirmed r t) = [Confirm]"
| "shape_of Refused = [Refuse]"
| "shape_of Attempted = []"
| "shape_of (Effected i) = [Effect i]"
| "shape_of (Observed i) = [Observe i]"
| "shape_of Persisted = [Persist]"

definition shapes :: "control_deed list \<Rightarrow> shape list" where
  "shapes xs = concat (map shape_of xs)"

lemma shapes_simps [simp]: "shapes [] = []" "shapes (x # xs) = shape_of x @ shapes xs" "shapes (xs @ ys) = shapes xs @ shapes ys"
  by (simp_all add: shapes_def)

text \<open>Whole, when it succeeded; otherwise up to some point, perhaps with a refusal in place of a confirmation.\<close>

definition kept_to :: "shape list \<Rightarrow> bool \<Rightarrow> shape list \<Rightarrow> bool" where
  "kept_to P ok xs \<longleftrightarrow> (if ok then xs = P
     else (\<exists>before rest. P = before @ rest \<and> (xs = before \<or> xs = before @ [Refuse] \<and> (\<exists>more. rest = Confirm # more))))"

lemma kept_to_first:
  assumes "kept_to P False xs" shows "kept_to (P @ Q) False xs"
proof -
  obtain before rest where P: "P = before @ rest" and xs: "xs = before \<or> xs = before @ [Refuse] \<and> (\<exists>more. rest = Confirm # more)"
    using assms by (auto simp: kept_to_def)
  show ?thesis
    unfolding kept_to_def using P xs
    by (simp only: if_False) (intro exI [of _ before] exI [of _ "rest @ Q"], auto)
qed

lemma kept_to_then:
  assumes "kept_to Q ok xs" shows "kept_to (P @ Q) ok (P @ xs)"
proof (cases ok)
  case False
  then obtain before rest where "Q = before @ rest" "xs = before \<or> xs = before @ [Refuse] \<and> (\<exists>more. rest = Confirm # more)"
    using assms by (auto simp: kept_to_def)
  then show ?thesis
    unfolding kept_to_def using False
    by (simp only: if_False) (intro exI [of _ "P @ before"] exI [of _ rest], auto)
qed (use assms in \<open>simp add: kept_to_def\<close>)

lemma kept_to_refused: "kept_to (Confirm # P) False [Refuse]"
  unfolding kept_to_def by (simp only: if_False) (intro exI [of _ "[]"] exI [of _ "Confirm # P"], simp)

lemma kept_to_whole: "kept_to P ok P"
  unfolding kept_to_def by auto

lemma kept_to_weaker: "\<lbrakk>kept_to P a xs; b \<longrightarrow> a\<rbrakk> \<Longrightarrow> kept_to P b xs"
  by (cases a; cases b) (auto simp: kept_to_def)

text \<open>
  An action under the token \<open>tok\<close> that keeps to a protocol: it adds deeds to the trace, keeps the token,
  and every confirmation is one of a live lease of this owner under this token.
\<close>

fun genuine :: "'v plant \<Rightarrow> control_lease \<Rightarrow> int \<Rightarrow> control_deed \<Rightarrow> bool" where
  "genuine E L tok (Confirmed r t) \<longleftrightarrow> gw_state r = HELD \<and> wc_owner_id (gw_context r) = Some (owner_id L)
     \<and> gw_fencing_token r = tok \<and> (\<exists>x. gw_expires_at r = Some x \<and> pl_julian E t < pl_julian E x)"
| "genuine E L tok _ \<longleftrightarrow> True"

definition advanced :: "'v plant \<Rightarrow> control_lease \<Rightarrow> int \<Rightarrow> shape list \<Rightarrow> bool \<Rightarrow> 'w control_machine \<Rightarrow> 'w control_machine \<Rightarrow> bool" where
  "advanced E L tok P ok s s' \<longleftrightarrow> cm_token s' = Some tok \<and> (\<exists>new. cm_trace s' = cm_trace s @ new
     \<and> kept_to P ok (shapes new) \<and> Attempted \<notin> set new \<and> list_all (genuine E L tok) new)"

definition keeps_to :: "'v plant \<Rightarrow> control_lease \<Rightarrow> int \<Rightarrow> ('w, 'v, 'a) controlling \<Rightarrow> shape list \<Rightarrow> bool" where
  "keeps_to E L tok m P \<longleftrightarrow> (\<forall>s r s'. cm_token s = Some tok \<longrightarrow> m s = (r, s') \<longrightarrow> advanced E L tok P (\<exists>x. r = Inr x) s s')"

lemma keeps_toI:
  "(\<And>s r s'. cm_token s = Some tok \<Longrightarrow> m s = (r, s') \<Longrightarrow> advanced E L tok P (\<exists>x. r = Inr x) s s') \<Longrightarrow> keeps_to E L tok m P"
  by (auto simp: keeps_to_def)

lemma keeps_toD:
  "\<lbrakk>keeps_to E L tok m P; cm_token s = Some tok; m s = (r, s')\<rbrakk> \<Longrightarrow> advanced E L tok P (\<exists>x. r = Inr x) s s'"
  by (auto simp: keeps_to_def)

lemma advanced_one:
  assumes "cm_token s' = Some tok" and "cm_trace s' = cm_trace s @ [x]" and "genuine E L tok x"
    and "x \<noteq> Attempted" and "kept_to P ok (shape_of x)"
  shows "advanced E L tok P ok s s'"
  using assms unfolding advanced_def by (intro conjI exI [of _ "[x]"]) simp_all

lemma advanced_none: "\<lbrakk>cm_token s' = Some tok; cm_trace s' = cm_trace s\<rbrakk> \<Longrightarrow> advanced E L tok [] ok s s'"
  unfolding advanced_def by (intro conjI exI [of _ "[]"]) (simp_all add: kept_to_whole)

lemma advanced_first: "advanced E L tok P False s s' \<Longrightarrow> advanced E L tok (P @ Q) False s s'"
  unfolding advanced_def using kept_to_first by blast

lemma advanced_stopped: "\<lbrakk>cm_token s' = Some tok; cm_trace s' = cm_trace s\<rbrakk> \<Longrightarrow> advanced E L tok P False s s'"
  unfolding advanced_def by (intro conjI exI [of _ "[]"]) (simp_all add: kept_to_def)

lemma advanced_then:
  assumes "advanced E L tok P True s s1" and "advanced E L tok Q ok s1 s'"
  shows "advanced E L tok (P @ Q) ok s s'"
proof -
  from assms(1) obtain new where new: "cm_trace s1 = cm_trace s @ new" "shapes new = P" "Attempted \<notin> set new"
      "list_all (genuine E L tok) new"
    unfolding advanced_def kept_to_def by auto
  from assms(2) obtain more where more: "cm_token s' = Some tok" "cm_trace s' = cm_trace s1 @ more"
      "kept_to Q ok (shapes more)" "Attempted \<notin> set more" "list_all (genuine E L tok) more"
    unfolding advanced_def by auto
  from new more kept_to_then [OF more(3), of P] show ?thesis
    unfolding advanced_def by (intro conjI exI [of _ "new @ more"]) simp_all
qed

lemma keeps_to_bnd:
  assumes "keeps_to E L tok m P" and "\<And>x. keeps_to E L tok (f x) Q"
  shows "keeps_to E L tok (ctl_bnd m f) (P @ Q)"
proof (rule keeps_toI)
  fix s r s'
  assume tok: "cm_token s = Some tok" and run: "ctl_bnd m f s = (r, s')"
  obtain a s1 where m: "m s = (a, s1)" by (cases "m s")
  note first = keeps_toD [OF assms(1) tok m]
  show "advanced E L tok (P @ Q) (\<exists>x. r = Inr x) s s'"
  proof (cases a)
    case (Inl e)
    then have "r = Inl e" "s' = s1" using run m by (auto simp: ctl_bnd_def)
    then show ?thesis using first Inl by (simp add: advanced_first)
  next
    case (Inr x)
    then have "f x s1 = (r, s')" using run m by (auto simp: ctl_bnd_def)
    moreover have "cm_token s1 = Some tok" using first by (simp add: advanced_def)
    ultimately have "advanced E L tok Q (\<exists>x. r = Inr x) s1 s'" by (intro keeps_toD [OF assms(2)])
    then show ?thesis using first Inr by (auto intro: advanced_then)
  qed
qed

lemma keeps_to_reply: "keeps_to E L tok (ctl_reply r) []"
  by (rule keeps_toI) (auto simp: ctl_reply_def intro: advanced_none)

lemma moved_keeps:
  "cm_token (plant_moved E L x s) = cm_token s" "cm_trace (plant_moved E L x s) = cm_trace s" "cm_world (plant_moved E L x s) = cm_world s"
  "cm_guarded (plant_moved E L x s) = cm_guarded s"
  by (cases x; auto split: option.splits sum.splits prod.splits)+

lemma pause_keeps [simp]:
  "cm_token (pause E L s) = cm_token s" "cm_trace (pause E L s) = cm_trace s" "cm_world (pause E L s) = cm_world s"
  "cm_guarded (pause E L s) = cm_guarded s"
proof -
  have "cm_token (fold (plant_moved E L) xs s) = cm_token s \<and> cm_trace (fold (plant_moved E L) xs s) = cm_trace s
    \<and> cm_world (fold (plant_moved E L) xs s) = cm_world s \<and> cm_guarded (fold (plant_moved E L) xs s) = cm_guarded s" for xs
    by (induction xs arbitrary: s) (simp_all add: moved_keeps)
  then show "cm_token (pause E L s) = cm_token s" "cm_trace (pause E L s) = cm_trace s" "cm_world (pause E L s) = cm_world s"
    "cm_guarded (pause E L s) = cm_guarded s"
    by (simp_all add: pause_def)
qed

lemma at_store_keeps:
  assumes "at_store E L f s = (r, s')"
  shows "cm_token s' = cm_token s" and "cm_trace s' = cm_trace s" and "cm_world s' = cm_world s"
    and "cm_guarded s' = cm_guarded s"
  using assms by (auto simp: at_store_def Let_def split: prod.splits)

lemma snd_at_store: "cm_trace (snd (at_store E L f s)) = cm_trace s" "cm_world (snd (at_store E L f s)) = cm_world s"
  using at_store_keeps(2,3) [of E L f s "fst (at_store E L f s)" "snd (at_store E L f s)"] by simp_all

lemma confirm_keeps_to: "keeps_to E L tok (confirm E L tok) [Confirm]"
proof (rule keeps_toI)
  fix s :: "'b control_machine" and r s'
  assume tok: "cm_token s = Some tok" and run: "confirm E L tok s = (r, s')"
  obtain a s1 where access: "at_store E L (\<lambda>c d. (assert_current_writer c 0 (owner_id L) tok d, d)) s = (a, s1)"
    by (cases "at_store E L (\<lambda>c d. (assert_current_writer c 0 (owner_id L) tok d, d)) s")
  note kept = at_store_keeps [OF access]
  show "advanced E L tok [Confirm] (\<exists>x. r = Inr x) s s'"
  proof (cases a)
    case (Inl e)
    then have "r = Inl e" "s' = note_deed Refused s1" using run access by (simp_all add: confirm_def Let_def)
    then show ?thesis using kept tok
      by (intro advanced_one [where x = Refused]) (simp_all add: note_deed_def kept_to_refused)
  next
    case (Inr w)
    let ?x = "Confirmed w (clock (plant_ctx E (pl_ctx E (cm_tick s))) 0)"
    have "r = Inr ()" "s' = note_deed ?x s1"
      using run access Inr by (simp_all add: confirm_def Let_def)
    moreover have "genuine E L tok ?x"
      using access Inr by (auto simp: at_store_def Let_def assert_current_writer_def success plant_ctx_def split: sum.splits if_splits)
    ultimately show ?thesis using kept tok
      by (intro advanced_one [where x = ?x]) (simp_all add: note_deed_def kept_to_whole)
  qed
qed

lemma assert_keeps_to: "keeps_to E L tok (assert_current E L) [Confirm]"
proof (rule keeps_toI)
  fix s :: "'b control_machine" and r s'
  assume tok: "cm_token s = Some tok" and run: "assert_current E L s = (r, s')"
  let ?s = "pause E L s"
  have refused: "advanced E L tok [Confirm] False s (note_deed Refused ?s)"
    using tok by (intro advanced_one [where x = Refused]) (simp_all add: note_deed_def kept_to_refused)
  obtain a s2 where confirmed: "confirm E L tok ?s = (a, s2)" by (cases "confirm E L tok ?s")
  have confirmed_advance: "advanced E L tok [Confirm] (\<exists>x. a = Inr x) s s2"
    using keeps_toD [OF confirm_keeps_to _ confirmed] tok by (simp add: advanced_def)
  have r: "r = fst (assert_current E L s)" and s': "s' = snd (assert_current E L s)"
    by (simp_all add: run)
  have "(\<exists>e. r = Inl e) \<and> s' = note_deed Refused ?s \<or> (\<exists>x. r = Inr x) = (\<exists>x. a = Inr x) \<and> s' = s2"
  proof (cases "cm_beat_error ?s")
    case None
    then show ?thesis
      unfolding r s' using confirmed tok
      by (cases "revalidate_authority E (cm_tick ?s) (cl_authority L)"; cases a)
        (simp_all add: assert_current_def Let_def require_token_def of_option_def)
  qed (simp add: r s' assert_current_def Let_def)
  then show "advanced E L tok [Confirm] (\<exists>x. r = Inr x) s s'"
    using refused confirmed_advance by auto
qed

lemma lost_keeps_to: "keeps_to E L tok (assert_or_lost E L evidence) [Confirm]"
proof (rule keeps_toI)
  fix s :: "'b control_machine" and r s'
  assume tok: "cm_token s = Some tok" and run: "assert_or_lost E L evidence s = (r, s')"
  obtain a s1 where a: "assert_current E L s = (a, s1)" by (cases "assert_current E L s")
  from keeps_toD [OF assert_keeps_to tok a] run a show "advanced E L tok [Confirm] (\<exists>x. r = Inr x) s s'"
    by (auto simp: assert_or_lost_def split: sum.splits)
qed

lemma called_keeps_to:
  assumes "shape_of deed = [m]" and "genuine E L tok deed"
  shows "keeps_to E L tok (called_back E L deed f) [m]"
proof (rule keeps_toI)
  fix s :: "'b control_machine" and r s'
  assume tok: "cm_token s = Some tok" and run: "called_back E L deed f s = (r, s')"
  then show "advanced E L tok [m] (\<exists>x. r = Inr x) s s'"
    using assms by (intro advanced_one [where x = deed])
      (auto simp: called_back_def Let_def note_deed_def kept_to_whole split: prod.splits)
qed

text \<open>The protocol of a step and of a deployment of \<open>n\<close> steps.\<close>

definition step_protocol :: "nat \<Rightarrow> shape list" where
  "step_protocol i = [Confirm, Effect i, Observe i, Confirm]"

definition block_protocol :: "nat \<Rightarrow> shape list" where
  "block_protocol n = concat (map step_protocol [0..<n]) @ [Confirm, Persist, Confirm]"

lemma step_keeps_to: "keeps_to E L tok (deployment_step E L i x evidence) (step_protocol i)"
proof -
  have "keeps_to E L tok (deployment_step E L i x evidence) ([] @ [Confirm] @ [Effect i] @ [Observe i] @ [Confirm] @ [])"
    unfolding deployment_step_def Let_def
    by (intro keeps_to_bnd keeps_to_reply assert_keeps_to called_keeps_to lost_keeps_to) simp_all
  then show ?thesis by (simp add: step_protocol_def)
qed

lemma steps_keep_to:
  "keeps_to E L tok (deployment_steps E L i xs evidence) (concat (map step_protocol [i..<i + length xs]))"
proof (induction xs arbitrary: i evidence)
  case Nil
  show ?case by (simp add: keeps_to_reply)
next
  case (Cons x xs)
  have "keeps_to E L tok (deployment_steps E L i (x # xs) evidence)
      (step_protocol i @ concat (map step_protocol [Suc i..<Suc i + length xs]))"
    by (simp only: deployment_steps.simps) (intro keeps_to_bnd step_keeps_to Cons.IH)
  moreover have "[i..<i + length (x # xs)] = i # [Suc i..<Suc i + length xs]"
    using upt_conv_Cons [of i "i + length (x # xs)"] by (simp del: upt_Suc)
  ultimately show ?case by (simp only: list.map concat.simps)
qed

lemma block_keeps_to: "keeps_to E L tok (deployment_block E L steps persist) (block_protocol (length steps))"
proof -
  have "keeps_to E L tok (deployment_block E L steps persist)
      (concat (map step_protocol [0..<0 + length steps]) @ [Confirm] @ [Persist] @ [Confirm] @ [])"
    unfolding deployment_block_def
    by (intro keeps_to_bnd keeps_to_reply assert_keeps_to called_keeps_to lost_keeps_to steps_keep_to) simp_all
  then show ?thesis by (simp add: block_protocol_def)
qed

section \<open>The whole deployment\<close>

text \<open>Waiting for the lease only leaves attempts behind, and changes nothing else of the holder.\<close>

definition waits :: "nat \<Rightarrow> ('w, 'v, 'a) controlling \<Rightarrow> bool" where
  "waits n m \<longleftrightarrow> (\<forall>s r s'. m s = (r, s') \<longrightarrow> cm_token s' = cm_token s \<and> cm_world s' = cm_world s
     \<and> (\<exists>k\<le>n. cm_trace s' = cm_trace s @ replicate k Attempted))"

lemma waitsI:
  "(\<And>s r s'. m s = (r, s') \<Longrightarrow> cm_token s' = cm_token s \<and> cm_world s' = cm_world s
     \<and> (\<exists>k\<le>n. cm_trace s' = cm_trace s @ replicate k Attempted)) \<Longrightarrow> waits n m"
  by (auto simp: waits_def)

lemma waitsD:
  "\<lbrakk>waits n m; m s = (r, s')\<rbrakk> \<Longrightarrow> cm_token s' = cm_token s \<and> cm_world s' = cm_world s
     \<and> (\<exists>k\<le>n. cm_trace s' = cm_trace s @ replicate k Attempted)"
  by (auto simp: waits_def)

lemma waits_bnd:
  assumes "waits n m" and "\<And>x. waits k (f x)"
  shows "waits (n + k) (ctl_bnd m f)"
proof (rule waitsI)
  fix s r s'
  assume run: "ctl_bnd m f s = (r, s')"
  obtain a s1 where m: "m s = (a, s1)" by (cases "m s")
  note first = waitsD [OF assms(1) m]
  show "cm_token s' = cm_token s \<and> cm_world s' = cm_world s \<and> (\<exists>i\<le>n + k. cm_trace s' = cm_trace s @ replicate i Attempted)"
  proof (cases a)
    case (Inl e)
    then show ?thesis using first run m by (auto simp: ctl_bnd_def intro: trans_le_add1)
  next
    case (Inr x)
    then have "f x s1 = (r, s')" using run m by (simp add: ctl_bnd_def)
    from waitsD [OF assms(2) this] first show ?thesis
      by (auto simp flip: replicate_add intro: add_mono)
  qed
qed

lemma waits_more: "waits n m \<Longrightarrow> n \<le> k \<Longrightarrow> waits k m"
  by (fastforce simp: waits_def)

lemma waits_reply: "waits 0 (ctl_reply r)"
  by (rule waitsI) (simp add: ctl_reply_def)

lemma waits_monotonic: "waits 0 (monotonic E L)"
  by (rule waitsI) (auto simp: monotonic_def)

lemma waits_acquire_once: "waits 1 (acquire_once E L :: ('w, 'v, writer_row) controlling)"
proof (rule waitsI)
  fix s :: "'w control_machine" and r s'
  assume "acquire_once E L s = (r, s')"
  then have "at_store E L (\<lambda>c. acquire_global_writer c (writer_request L)) (note_deed Attempted s) = (r, s')"
    by (simp add: acquire_once_def)
  from at_store_keeps [OF this] show "cm_token s' = cm_token s \<and> cm_world s' = cm_world s
      \<and> (\<exists>k\<le>1. cm_trace s' = cm_trace s @ replicate k Attempted)"
    by (auto simp: note_deed_def intro!: exI [of _ "Suc 0"])
qed

lemma waits_first: "waits 0 m \<Longrightarrow> (\<And>x. waits n (f x)) \<Longrightarrow> waits n (ctl_bnd m f)"
  using waits_bnd [of 0 m n f] by simp

lemma waits_if: "waits n a \<Longrightarrow> waits n b \<Longrightarrow> waits n (if p then a else b)"
  by simp

lemma waits_revalidated: "waits 0 (revalidated E L)"
  by (rule waitsI) (auto simp: revalidated_def)

lemma waits_reply_any: "waits n (ctl_reply r)"
  by (rule waits_more [OF waits_reply]) simp

lemma waits_waited: "waits n retry \<Longrightarrow> waits n (waited E L deadline final retry)"
  unfolding waited_def by (intro waits_first waits_monotonic waits_if waits_reply_any waits_revalidated)

lemma waits_acquire_or:
  assumes "waits n retry" shows "waits (Suc n) (acquire_or E L retry)"
proof (rule waitsI)
  fix s r s'
  assume run: "acquire_or E L retry s = (r, s')"
  obtain a s1 where a: "acquire_once E L s = (a, s1)" by (cases "acquire_once E L s")
  have "acquire_or E L retry s = (a, s1) \<or> acquire_or E L retry s = retry s1"
    by (simp add: acquire_or_def a)
  then have "(r, s') = (a, s1) \<or> retry s1 = (r, s')"
    using run by auto
  then show "cm_token s' = cm_token s \<and> cm_world s' = cm_world s \<and> (\<exists>k\<le>Suc n. cm_trace s' = cm_trace s @ replicate k Attempted)"
  proof
    assume "(r, s') = (a, s1)"
    then show ?thesis using waitsD [OF waits_acquire_once a] by (auto intro: le_trans)
  next
    assume "retry s1 = (r, s')"
    from waitsD [OF waits_acquire_once a] waitsD [OF assms this] obtain i k where
        "cm_token s' = cm_token s" "cm_world s' = cm_world s" "i \<le> 1" "k \<le> n"
        "cm_trace s' = cm_trace s @ replicate (i + k) Attempted"
      by (auto simp flip: replicate_add)
    then show ?thesis
      by (intro conjI exI [of _ "i + k"]) simp_all
  qed
qed

lemma waits_acquire_waiting: "waits left (acquire_waiting E L deadline again left)"
proof (induction left arbitrary: again)
  case 0
  show ?case by (simp add: waits_reply)
next
  case (Suc left)
  have "waits 0 (before_deadline E L deadline)"
    unfolding before_deadline_def by (intro waits_first waits_monotonic waits_reply)
  then show ?case
    unfolding acquire_waiting.simps
    by (intro waits_first waits_if waits_reply waits_acquire_or waits_waited Suc.IH)
qed

lemma waits_acquire: "waits acquire_max_attempts (acquire_with_optional_wait E L)"
  unfolding acquire_with_optional_wait_def
  by (intro waits_if waits_first waits_monotonic waits_acquire_waiting waits_more [OF waits_acquire_once])
    (simp add: acquire_max_attempts_def)

lemma guard_keeps_to: "keeps_to E L tok (enter_guard E L) [Confirm]"
proof (rule keeps_toI)
  fix s :: "'b control_machine" and r s'
  assume tok: "cm_token s = Some tok" and run: "enter_guard E L s = (r, s')"
  show "advanced E L tok [Confirm] (\<exists>x. r = Inr x) s s'"
  proof (cases "cm_guarded s")
    case True
    then have "r = Inl (Store_failed (StoreError ''GLOBAL_PRODUCTION_WRITER_NESTED_AUTHORITY_FORBIDDEN''))" "s' = s"
      using run tok by (simp_all add: enter_guard_def ctl_bnd_def require_token_def of_option_def)
    then show ?thesis
      using tok by (simp add: advanced_stopped)
  next
    case False
    have "keeps_to E L tok (\<lambda>s2. (Inr (), s2\<lparr>cm_guarded := True\<rparr>)) []"
      by (rule keeps_toI) (auto intro: advanced_none)
    then have keeps: "keeps_to E L tok (ctl_bnd (confirm E L tok) (\<lambda>_ s2. (Inr (), s2\<lparr>cm_guarded := True\<rparr>))) ([Confirm] @ [])"
      by (intro keeps_to_bnd confirm_keeps_to)
    have "ctl_bnd (confirm E L tok) (\<lambda>_ s2. (Inr (), s2\<lparr>cm_guarded := True\<rparr>)) s = (r, s')"
      using run tok False by (simp add: enter_guard_def ctl_bnd_def require_token_def of_option_def)
    from keeps_toD [OF keeps tok this] show ?thesis by simp
  qed
qed

text \<open>Attempts first, then a protocol under the token that was acquired.\<close>

definition performed_under ::
  "'v plant \<Rightarrow> control_lease \<Rightarrow> shape list \<Rightarrow> bool \<Rightarrow> 'w control_machine \<Rightarrow> 'w control_machine \<Rightarrow> bool" where
  "performed_under E L P ok s s' \<longleftrightarrow> (\<exists>tok k new. cm_trace s' = cm_trace s @ replicate k Attempted @ new
     \<and> k \<le> acquire_max_attempts \<and> kept_to P ok (shapes new) \<and> Attempted \<notin> set new \<and> list_all (genuine E L tok) new)"

lemma performed_under_attempts:
  "\<lbrakk>cm_trace s' = cm_trace s @ replicate k Attempted; k \<le> acquire_max_attempts\<rbrakk> \<Longrightarrow> performed_under E L P False s s'"
  unfolding performed_under_def
  by (intro exI [of _ k] exI [of _ "[]"] exI conjI) (simp_all add: kept_to_def)

lemma performed_under_none: "cm_trace s' = cm_trace s \<Longrightarrow> performed_under E L P False s s'"
  by (rule performed_under_attempts [where k = 0]) simp_all

lemma entering_protocol:
  assumes "entering E L s = (r, s')"
  shows "performed_under E L [Confirm, Confirm] (\<exists>x. r = Inr x) s s'"
    and "r = Inr () \<Longrightarrow> \<exists>tok k new. cm_trace s' = cm_trace s @ replicate k Attempted @ new \<and> k \<le> acquire_max_attempts
      \<and> shapes new = [Confirm, Confirm] \<and> Attempted \<notin> set new \<and> list_all (genuine E L tok) new \<and> cm_token s' = Some tok"
proof -
  obtain a s1 where a: "acquire_with_optional_wait E L s = (a, s1)" by (cases "acquire_with_optional_wait E L s")
  from waitsD [OF waits_acquire a] obtain k where k: "k \<le> acquire_max_attempts" "cm_trace s1 = cm_trace s @ replicate k Attempted"
    by blast
  have "performed_under E L [Confirm, Confirm] (\<exists>x. r = Inr x) s s' \<and> (r = Inr () \<longrightarrow> (\<exists>tok k new. cm_trace s' = cm_trace s @ replicate k Attempted @ new \<and> k \<le> acquire_max_attempts
      \<and> shapes new = [Confirm, Confirm] \<and> Attempted \<notin> set new \<and> list_all (genuine E L tok) new \<and> cm_token s' = Some tok))"
  proof (cases a)
    case (Inl e)
    then have "r = Inl e" "s' = s1" using assms a by (simp_all add: entering_def ctl_bnd_def)
    then show ?thesis
      using k by (simp add: performed_under_attempts)
  next
    case (Inr row)
    let ?tok = "gw_fencing_token row"
    have "keeps_to E L ?tok (\<lambda>s2. (Inr (), s2\<lparr>cm_beating := cl_start_heartbeat L\<rparr>)) []"
      by (rule keeps_toI) (auto intro: advanced_none)
    then have keeps: "keeps_to E L ?tok (ctl_bnd (assert_current E L) (\<lambda>_.
        ctl_bnd (enter_guard E L) (\<lambda>_ s2. (Inr (), s2\<lparr>cm_beating := cl_start_heartbeat L\<rparr>)))) ([Confirm] @ [Confirm] @ [])"
      by (intro keeps_to_bnd assert_keeps_to guard_keeps_to)
    have "ctl_bnd (assert_current E L) (\<lambda>_.
        ctl_bnd (enter_guard E L) (\<lambda>_ s2. (Inr (), s2\<lparr>cm_beating := cl_start_heartbeat L\<rparr>))) (s1\<lparr>cm_token := Some ?tok\<rparr>) = (r, s')"
      using assms a Inr by (simp add: entering_def ctl_bnd_def)
    from keeps_toD [OF keeps _ this] have "advanced E L ?tok [Confirm, Confirm] (\<exists>x. r = Inr x) (s1\<lparr>cm_token := Some ?tok\<rparr>) s'"
      by simp
    then obtain new where "cm_token s' = Some ?tok" "cm_trace s' = cm_trace s1 @ new"
        "kept_to [Confirm, Confirm] (\<exists>x. r = Inr x) (shapes new)" "Attempted \<notin> set new" "list_all (genuine E L ?tok) new"
      unfolding advanced_def by auto
    then show ?thesis
      using k unfolding performed_under_def
      by (intro conjI impI exI [of _ ?tok] exI [of _ k] exI [of _ new]) (auto simp: kept_to_def)
  qed
  then show "performed_under E L [Confirm, Confirm] (\<exists>x. r = Inr x) s s'"
    and "r = Inr () \<Longrightarrow> \<exists>tok k new. cm_trace s' = cm_trace s @ replicate k Attempted @ new \<and> k \<le> acquire_max_attempts
      \<and> shapes new = [Confirm, Confirm] \<and> Attempted \<notin> set new \<and> list_all (genuine E L tok) new \<and> cm_token s' = Some tok"
    by blast+
qed

lemma exit_trace: "cm_trace (snd (exit_lease E L failed s)) = cm_trace s"
proof (cases "cm_token s")
  case (Some token)
  let ?f = "\<lambda>c. release_global_writer c (release_of L token ''GLOBAL_PRODUCTION_WRITER_RELEASED'')"
  obtain r s' where r: "at_store E L ?f (s\<lparr>cm_beating := False, cm_guarded := False\<rparr>) = (r, s')"
    by (cases "at_store E L ?f (s\<lparr>cm_beating := False, cm_guarded := False\<rparr>)")
  then show ?thesis
    using at_store_keeps(2) [OF r] Some by (auto simp: exit_lease_def Let_def split: sum.splits)
qed (simp add: exit_lease_def)

lemma under_lease_protocol:
  assumes block: "\<And>tok. keeps_to E L tok block P" and run: "under_lease E L block s = (r, s')"
  shows "performed_under E L ([Confirm, Confirm] @ P) (\<exists>x. r = Inr x) s s'"
proof -
  define s0 where "s0 = s\<lparr>cm_token := None, cm_beating := False, cm_beat_error := None\<rparr>"
  obtain a s1 where a: "enter_lease E L s0 = (a, s1)" by (cases "enter_lease E L s0")
  obtain b s2 where b: "entering E L s0 = (b, s2)" by (cases "entering E L s0")
  note entered = entering_protocol [OF b]
  show ?thesis
  proof (cases a)
    case (Inl e)
    then have r: "r = Inl e" "s' = s1" using run a by (simp_all add: under_lease_def ctl_bnd_def s0_def)
    have "cm_trace s1 = cm_trace s0 \<or> (\<exists>e. b = Inl e) \<and> cm_trace s1 = cm_trace s2"
      using a b Inl by (auto simp: enter_lease_def snd_at_store split: sum.splits option.splits)
    then show ?thesis
    proof
      assume "cm_trace s1 = cm_trace s0"
      then show ?thesis using r by (simp add: performed_under_none s0_def)
    next
      assume "(\<exists>e. b = Inl e) \<and> cm_trace s1 = cm_trace s2"
      then obtain tok k new where "cm_trace s' = cm_trace s @ replicate k Attempted @ new" "k \<le> acquire_max_attempts"
          "kept_to [Confirm, Confirm] False (shapes new)" "Attempted \<notin> set new" "list_all (genuine E L tok) new"
        using entered(1) r unfolding performed_under_def by (auto simp: s0_def)
      then show ?thesis
        using r kept_to_first [of "[Confirm, Confirm]" "shapes new" P] unfolding performed_under_def
        by (intro exI [of _ tok] exI [of _ k] exI [of _ new] conjI) simp_all
    qed
  next
    case (Inr u)
    then have "b = Inr ()" "s1 = s2"
      using a b by (auto simp: enter_lease_def split: sum.splits option.splits)
    with entered(2) obtain tok k new where new: "cm_trace s1 = cm_trace s0 @ replicate k Attempted @ new" "k \<le> acquire_max_attempts"
        "shapes new = [Confirm, Confirm]" "Attempted \<notin> set new" "list_all (genuine E L tok) new" "cm_token s1 = Some tok"
      by blast
    obtain x s3 where x: "block s1 = (x, s3)" by (cases "block s1")
    from keeps_toD [OF block new(6) x] obtain more where more: "cm_trace s3 = cm_trace s1 @ more"
        "kept_to P (\<exists>y. x = Inr y) (shapes more)" "Attempted \<notin> set more" "list_all (genuine E L tok) more"
      unfolding advanced_def by auto
    have "cm_trace s' = cm_trace s3" and "(\<exists>y. x = Inr y) \<or> \<not> (\<exists>y. r = Inr y)"
      using run a x Inr exit_trace [of E L True s3] exit_trace [of E L False s3]
      by (auto simp: under_lease_def ctl_bnd_def ctl_reply_def s0_def split: sum.splits prod.splits)
    moreover have "kept_to P (\<exists>y. r = Inr y) (shapes more)"
      by (rule kept_to_weaker [OF more(2)]) (use calculation(2) in auto)
    ultimately show ?thesis
      using new more kept_to_then [of P _ "shapes more" "[Confirm, Confirm]"] unfolding performed_under_def
      by (intro exI [of _ tok] exI [of _ k] exI [of _ "new @ more"] conjI) (simp_all add: s0_def)
  qed
qed

lemma steps_named:
  assumes "deployment_steps E L i xs evidence s = (Inr evidence', s')"
  shows "map ee_step evidence' = map ee_step evidence @ map ds_name xs"
  using assms
proof (induction xs arbitrary: i evidence s)
  case (Cons x xs)
  then obtain mid s1 where "deployment_step E L i x evidence s = (Inr mid, s1)"
      "deployment_steps E L (Suc i) xs mid s1 = (Inr evidence', s')"
    by (auto simp: ctl_bnd_def split: prod.splits sum.splits)
  moreover from this(1) have "map ee_step mid = map ee_step evidence @ [ds_name x]"
    by (auto simp: deployment_step_def ctl_bnd_def ctl_reply_def Let_def split: prod.splits sum.splits)
  ultimately show ?case
    using Cons.IH by simp
qed (simp add: ctl_reply_def)

lemma under_lease_Inr: "under_lease E L block s = (Inr x, s') \<Longrightarrow> \<exists>s1 s2. block s1 = (Inr x, s2)"
  by (auto simp: under_lease_def ctl_bnd_def ctl_reply_def split: prod.splits sum.splits)

lemma block_named:
  "deployment_block E L steps persist s = (Inr evidence, s') \<Longrightarrow> map ee_step evidence = map ds_name steps"
  by (auto simp: deployment_block_def ctl_bnd_def ctl_reply_def split: prod.splits sum.splits dest!: steps_named)

lemma make_lease_owner: "make_lease E schema L = Inr L' \<Longrightarrow> owner_id L' = owner_id L"
  by (auto simp: make_lease_def owner_id_def bnd_def split: if_splits option.splits sum.splits)

lemma genuine_owner: "owner_id L' = owner_id L \<Longrightarrow> genuine E L' tok = genuine E L tok"
proof
  fix x
  assume "owner_id L' = owner_id L"
  then show "genuine E L' tok x = genuine E L tok x"
    by (cases x) simp_all
qed

text \<open>
  C36. Whatever the plant, the other clients and the heartbeat do, a controlled deployment keeps to its
  protocol: at most 61 attempts to acquire, then two confirmations, then for each step a confirmation, the
  effect, its readback and another confirmation, and a confirmation before and after the result is
  persisted. It stops at the first refusal or failure and then does nothing further. Every confirmation is
  one of a live lease that this deployment holds under its one token. A success has the evidence of all
  steps in their order.
\<close>

theorem deployment_follows_protocol:
  "case run_controlled_deployment E schema p s of (r, s') \<Rightarrow>
     (\<exists>tok k new. cm_trace s' = cm_trace s @ replicate k Attempted @ new \<and> k \<le> 61 \<and> Attempted \<notin> set new
       \<and> kept_to ([Confirm, Confirm] @ block_protocol (length (dp_steps p))) (\<exists>evidence. r = Inr evidence) (shapes new)
       \<and> list_all (genuine E (deployment_lease p) tok) new)
     \<and> (case r of Inl _ \<Rightarrow> True | Inr evidence \<Rightarrow> map ee_step evidence = map ds_name (dp_steps p))"
proof (cases "run_controlled_deployment E schema p s")
  case (Pair r s')
  let ?P = "[Confirm, Confirm] @ block_protocol (length (dp_steps p))"
  let ?read = "\<lambda>c d. (Inr (prior_acquire (dp_change_id p) (dp_deployment_id p) d), d)"
  obtain a s1 where a: "at_store E (deployment_lease p) ?read s = (a, s1)"
    by (cases "at_store E (deployment_lease p) ?read s")
  have trace: "cm_trace s1 = cm_trace s"
    by (rule at_store_keeps(2) [OF a])
  have run: "(\<exists>e. r = Inl e) \<and> s' = s1 \<or> (\<exists>L. make_lease E schema (deployment_lease p) = Inr L
      \<and> under_lease E L (deployment_block E L (dp_steps p) (dp_persist_result p)) s1 = (r, s'))"
    using Pair a by (auto simp: run_controlled_deployment_def ctl_bnd_def ctl_reply_def split: sum.splits if_splits)
  have "performed_under E (deployment_lease p) ?P (\<exists>evidence. r = Inr evidence) s s'
    \<and> (case r of Inl _ \<Rightarrow> True | Inr evidence \<Rightarrow> map ee_step evidence = map ds_name (dp_steps p))"
    using run
  proof
    assume "(\<exists>e. r = Inl e) \<and> s' = s1"
    then show ?thesis
      using trace by (auto simp: performed_under_none)
  next
    assume "\<exists>L. make_lease E schema (deployment_lease p) = Inr L
      \<and> under_lease E L (deployment_block E L (dp_steps p) (dp_persist_result p)) s1 = (r, s')"
    then obtain L where L: "make_lease E schema (deployment_lease p) = Inr L"
      "under_lease E L (deployment_block E L (dp_steps p) (dp_persist_result p)) s1 = (r, s')" by blast
    have "performed_under E L ?P (\<exists>evidence. r = Inr evidence) s1 s'"
      by (rule under_lease_protocol [OF block_keeps_to L(2)])
    then have "performed_under E (deployment_lease p) ?P (\<exists>evidence. r = Inr evidence) s s'"
      by (simp add: performed_under_def trace genuine_owner [OF make_lease_owner [OF L(1)]])
    moreover have "case r of Inl _ \<Rightarrow> True | Inr evidence \<Rightarrow> map ee_step evidence = map ds_name (dp_steps p)"
      using L(2) by (auto split: sum.splits dest!: under_lease_Inr block_named)
    ultimately show ?thesis ..
  qed
  then show ?thesis
    unfolding Pair performed_under_def acquire_max_attempts_def by (simp, blast)
qed

section \<open>One deployment per identity\<close>

text \<open>Every action moves the database by calls of the store.\<close>

abbreviation evolved :: "'v plant \<Rightarrow> db \<Rightarrow> db \<Rightarrow> bool" where
  "evolved E \<equiv> (performed (pl_julian E))\<^sup>*\<^sup>*"

definition evolves :: "'v plant \<Rightarrow> ('w, 'v, 'a) controlling \<Rightarrow> bool" where
  "evolves E m \<longleftrightarrow> (\<forall>s r s'. m s = (r, s') \<longrightarrow> evolved E (cm_db s) (cm_db s'))"

lemma evolvesD: "\<lbrakk>evolves E m; m s = (r, s')\<rbrakk> \<Longrightarrow> evolved E (cm_db s) (cm_db s')"
  by (auto simp: evolves_def)

lemma evolved_call: "julian c = pl_julian E \<Longrightarrow> evolved E d (perform c k d)"
  by (rule r_into_rtranclp) (auto simp: performed_def)

lemma julian_plant [simp]: "julian (plant_ctx E c) = pl_julian E"
  by (simp add: plant_ctx_def)

lemma moved_evolved: "evolved E (cm_db s) (cm_db (plant_moved E L x s))"
proof (cases x)
  case (Elsewhere c k)
  then show ?thesis by (simp add: evolved_call)
next
  case (Beat c unopened)
  have "evolved E (cm_db s) (snd (heartbeat_global_writer (plant_ctx E c) owner token ttl (cm_db s)))" for owner token ttl
    using evolved_call [of "plant_ctx E c" E "cm_db s" "HeartbeatWriter owner token ttl"] by simp
  then show ?thesis
    using Beat by (auto split: option.splits sum.splits prod.splits) (metis snd_conv)+
qed

lemma pause_evolved: "evolved E (cm_db s) (cm_db (pause E L s))"
proof -
  have "evolved E (cm_db s) (cm_db (fold (plant_moved E L) xs s))" for xs
    by (induction xs arbitrary: s) (auto intro: rtranclp_trans [OF moved_evolved])
  then show ?thesis by (simp add: pause_def)
qed

lemma evolves_bnd: "evolves E m \<Longrightarrow> (\<And>x. evolves E (f x)) \<Longrightarrow> evolves E (ctl_bnd m f)"
  unfolding evolves_def ctl_bnd_def by (fastforce split: prod.splits sum.splits intro: rtranclp_trans)

lemma evolves_reply: "evolves E (ctl_reply r)"
  by (simp add: evolves_def ctl_reply_def)

lemma evolves_if: "evolves E a \<Longrightarrow> evolves E b \<Longrightarrow> evolves E (if p then a else b)"
  by simp

lemma evolves_store:
  assumes "\<And>c d. julian c = pl_julian E \<Longrightarrow> evolved E d (snd (f c d))"
  shows "evolves E (at_store E L f)"
  unfolding evolves_def
proof (intro allI impI)
  fix s r s'
  assume "at_store E L f s = (r, s')"
  then have db: "cm_db s' = snd (f (plant_ctx E (pl_ctx E (cm_tick s))) (cm_db (pause E L s)))"
    by (auto simp: at_store_def Let_def split: prod.splits)
  show "evolved E (cm_db s) (cm_db s')"
    unfolding db by (rule rtranclp_trans [OF pause_evolved assms]) simp
qed

lemma evolves_readonly: "(\<And>c d. snd (f c d) = d) \<Longrightarrow> evolves E (at_store E L f)"
  by (rule evolves_store) simp

lemma evolves_acquire_once: "evolves E (acquire_once E L)"
proof -
  have "evolves E (at_store E L (\<lambda>c. acquire_global_writer c (writer_request L)))"
    by (rule evolves_store) (use evolved_call [where k = "AcquireWriter (writer_request L)"] in simp)
  then show ?thesis
    unfolding evolves_def acquire_once_def by (fastforce simp: note_deed_def)
qed

lemma evolves_release: "evolves E (at_store E L (\<lambda>c. release_global_writer c q))"
  by (rule evolves_store) (use evolved_call [where k = "ReleaseWriter q"] in simp)

lemma evolves_monotonic: "evolves E (monotonic E L)"
  by (auto simp: evolves_def monotonic_def pause_evolved)

lemma evolves_confirm: "evolves E (confirm E L tok)"
proof -
  have "evolves E (at_store E L (\<lambda>c d. (assert_current_writer c 0 (owner_id L) tok d, d)))"
    by (rule evolves_readonly) simp
  then show ?thesis
    unfolding evolves_def confirm_def Let_def by (auto simp: note_deed_def split: prod.splits sum.splits)
qed

lemma evolves_assert: "evolves E (assert_current E L)"
  unfolding evolves_def
proof (intro allI impI)
  fix s r s'
  assume run: "assert_current E L s = (r, s')"
  have "cm_db s' = cm_db (pause E L s) \<or> (\<exists>tok. s' = snd (confirm E L tok (pause E L s)))"
    using run by (auto simp: assert_current_def Let_def note_deed_def require_token_def split: if_splits sum.splits prod.splits)
      (metis snd_conv)+
  moreover have "evolved E (cm_db (pause E L s)) (cm_db (snd (confirm E L tok (pause E L s))))" for tok
    using evolvesD [OF evolves_confirm] by (metis prod.collapse)
  ultimately show "evolved E (cm_db s) (cm_db s')"
    using rtranclp_trans [OF pause_evolved] pause_evolved by fastforce
qed

lemma evolves_lost: "evolves E (assert_or_lost E L evidence)"
  using evolves_assert [of E L] unfolding evolves_def assert_or_lost_def
  by (auto split: prod.splits sum.splits)

lemma evolved_calls:
  assumes "\<And>c. julian (bound c) = pl_julian E"
  shows "evolved E d (fold (\<lambda>(c, k). perform (bound c) k) calls d)"
proof (induction calls arbitrary: d)
  case (Cons ck calls)
  obtain c k where ck: "ck = (c, k)" by (cases ck)
  show ?case
    using rtranclp_trans [OF evolved_call [OF assms, where d = d and k = k] Cons.IH] by (simp add: ck)
qed simp

lemma evolves_called: "evolves E (called_back E L deed f)"
  unfolding evolves_def
proof (intro allI impI)
  fix s r s'
  assume "called_back E L deed f s = (r, s')"
  then obtain calls where db: "cm_db s' = fold (\<lambda>(c, k). perform (bound_ctx E L (pause E L s) c) k) calls (cm_db (pause E L s))"
    by (auto simp: called_back_def Let_def note_deed_def split: prod.splits)
  show "evolved E (cm_db s) (cm_db s')"
    unfolding db by (rule rtranclp_trans [OF pause_evolved evolved_calls]) (simp add: bound_ctx_def plant_ctx_def)
qed

lemma evolves_step: "evolves E (deployment_step E L i x evidence)"
  unfolding deployment_step_def Let_def
  by (intro evolves_bnd evolves_reply evolves_assert evolves_called evolves_lost)

lemma evolves_steps: "evolves E (deployment_steps E L i xs evidence)"
  by (induction xs arbitrary: i evidence) (auto intro!: evolves_bnd evolves_reply evolves_step)

lemma evolves_block: "evolves E (deployment_block E L steps persist)"
  unfolding deployment_block_def
  by (intro evolves_bnd evolves_reply evolves_assert evolves_called evolves_lost evolves_steps)

lemma evolves_acquire_or: "evolves E retry \<Longrightarrow> evolves E (acquire_or E L retry)"
  using evolves_acquire_once [of E L] unfolding evolves_def acquire_or_def Let_def
  by (fastforce split: prod.splits if_splits intro: rtranclp_trans)

lemma evolves_revalidated: "evolves E (revalidated E L)"
  by (auto simp: evolves_def revalidated_def)

lemma evolves_waited: "evolves E retry \<Longrightarrow> evolves E (waited E L deadline final retry)"
  unfolding waited_def
  by (intro evolves_bnd evolves_monotonic evolves_if evolves_reply evolves_revalidated)

lemma evolves_acquire_waiting: "evolves E (acquire_waiting E L deadline again left)"
proof (induction left arbitrary: again)
  case (Suc left)
  show ?case
    unfolding acquire_waiting.simps before_deadline_def
    by (intro evolves_bnd evolves_if evolves_reply evolves_monotonic evolves_acquire_or evolves_waited Suc.IH)
qed (simp add: evolves_reply)

lemma evolves_acquire: "evolves E (acquire_with_optional_wait E L)"
  unfolding acquire_with_optional_wait_def
  by (intro evolves_if evolves_bnd evolves_monotonic evolves_acquire_waiting evolves_acquire_once)

lemma evolves_guard: "evolves E (enter_guard E L)"
  unfolding evolves_def enter_guard_def ctl_bnd_def require_token_def
  by (auto split: prod.splits sum.splits if_splits dest!: evolvesD [OF evolves_confirm])

text \<open>What an acquisition leaves: an event of this very context in the log.\<close>

lemma acquired_event:
  assumes "acquire_global_writer c q d = (Inr r, d')" and "writer_explained (julian c) (writer_view d')"
  shows "\<exists>e\<in>set (writer_events d'). ge_event_type e \<in> {ACQUIRE, EXPIRED_TAKEOVER} \<and> ge_new e = aq_context q"
proof -
  obtain token replayed where body: "acquire_body c q d = Inr ((token, replayed), d')"
    and read: "bnd (assert_current_writer c 2 (the (wc_owner_id (aq_context q))) token d') (\<lambda>r.
        if \<not> replayed \<and> gw_context r \<noteq> aq_context q then Inl (StoreError ''CONTROL_STORE_ERROR'') else Inr r) = Inr r"
    using assms(1) unfolding acquire_global_writer_def
    by (auto simp: precheck_def reading_def transaction_unchecked_def success split: sum.splits prod.splits)
  have row: "writer d' = Some r" "gw_state r = HELD" "\<not> replayed \<Longrightarrow> gw_context r = aq_context q"
    using read by (auto simp: bnd_eq_Inr assert_current_writer_def success split: if_splits)
  moreover have "gw_context r = aq_context q"
    using acquire_body_replay [of c q d token d'] body row by (cases replayed) auto
  moreover have "lease_of r = log_lease (writer_events d')"
    using assms(2) row(1) by (simp add: writer_view_def)
  ultimately show ?thesis
    by (auto simp: lease_of_def log_lease_def after_event_def split: if_splits intro!: bexI [of _ "last (writer_events d')"])
qed

definition acquired :: "'v plant \<Rightarrow> control_lease \<Rightarrow> ('w, 'v, writer_row) controlling \<Rightarrow> bool" where
  "acquired E L m \<longleftrightarrow> (\<forall>s row s'. m s = (Inr row, s') \<longrightarrow>
     (\<exists>c d. julian c = pl_julian E \<and> acquire_global_writer c (writer_request L) d = (Inr row, cm_db s')))"

lemma acquired_once: "acquired E L (acquire_once E L)"
  unfolding acquired_def acquire_once_def at_store_def Let_def
  by (auto split: prod.splits sum.splits) (metis julian_plant)

lemma acquired_bnd: "(\<And>x. acquired E L (f x)) \<Longrightarrow> acquired E L (ctl_bnd m f)"
  by (auto simp: acquired_def ctl_bnd_def split: prod.splits sum.splits)

lemma acquired_fails: "acquired E L (ctl_reply (Inl e))"
  by (simp add: acquired_def ctl_reply_def)

lemma acquired_if: "acquired E L a \<Longrightarrow> acquired E L b \<Longrightarrow> acquired E L (if p then a else b)"
  by simp

lemma acquired_or:
  assumes "acquired E L retry" shows "acquired E L (acquire_or E L retry)"
  unfolding acquired_def
proof (intro allI impI)
  fix s row s'
  assume run: "acquire_or E L retry s = (Inr row, s')"
  obtain a s1 where a: "acquire_once E L s = (a, s1)" by (cases "acquire_once E L s")
  from run a have "acquire_once E L s = (Inr row, s') \<or> retry s1 = (Inr row, s')"
    by (auto simp: acquire_or_def split: if_splits)
  then show "\<exists>c d. julian c = pl_julian E \<and> acquire_global_writer c (writer_request L) d = (Inr row, cm_db s')"
    using assms acquired_once unfolding acquired_def by blast
qed

lemma acquired_waiting: "acquired E L (acquire_waiting E L deadline again left)"
proof (induction left arbitrary: again)
  case (Suc left)
  show ?case
    unfolding acquire_waiting.simps waited_def
    by (intro acquired_bnd acquired_or acquired_if acquired_fails Suc.IH)
qed (simp add: acquired_fails)

lemma acquired_with_wait: "acquired E L (acquire_with_optional_wait E L)"
  unfolding acquire_with_optional_wait_def
  by (intro acquired_if acquired_bnd acquired_waiting acquired_once)

lemma evolves_exit: "evolves E (exit_lease E L failed)"
  unfolding evolves_def exit_lease_def Let_def
  by (auto split: option.splits prod.splits sum.splits dest!: evolvesD [OF evolves_release])

text \<open>An event of the log stays in it.\<close>

lemma event_stays:
  assumes "evolved E d d'" and "e \<in> set (writer_events d)"
  shows "e \<in> set (writer_events d')"
proof -
  have "e \<in> set (snd v')" if "(writer_step (pl_julian E))\<^sup>*\<^sup>* v v'" "e \<in> set (snd v)" for v v'
    using that by (induction rule: rtranclp_induct) (auto elim: writer_stepE)
  from this [OF writer_system.run_simulated [OF assms(1)]] assms(2) show ?thesis
    by (simp add: writer_view_def)
qed

lemma make_lease_context:
  "make_lease E schema L = Inr L' \<Longrightarrow> aq_context (writer_request L') = lease_context L"
  by (auto simp: make_lease_def writer_request_def lease_context_def owner_id_def bnd_def split: if_splits option.splits sum.splits)

lemma prior_found:
  assumes "e \<in> set (writer_events d)" and "ge_event_type e \<in> {ACQUIRE, EXPIRED_TAKEOVER}"
    and "ge_new e = lease_context (deployment_lease p)"
  shows "prior_acquire (dp_change_id p) (dp_deployment_id p) d \<noteq> None"
proof
  assume "prior_acquire (dp_change_id p) (dp_deployment_id p) d = None"
  then have "\<not> (ge_event_type e \<in> {ACQUIRE, EXPIRED_TAKEOVER} \<and> wc_change_id (ge_new e) = Some (dp_change_id p)
      \<and> wc_slice_id (ge_new e) = Some (dp_deployment_id p) \<and> wc_writer_class (ge_new e) = Some deployment_class)"
    using assms(1) unfolding prior_acquire_def find_None_iff by auto
  then show False
    using assms(2,3) by (simp add: lease_context_def deployment_lease_def)
qed

text \<open>An effect was only made inside the lease, so after an acquisition.\<close>

lemma effects_inside:
  assumes "under_lease E L block s = (r, s')" and "evolves E block"
    and "Effected i \<in> set (drop (length (cm_trace s)) (cm_trace s'))"
  shows "\<exists>c d row d'. julian c = pl_julian E \<and> acquire_global_writer c (writer_request L) d = (Inr row, d')
    \<and> evolved E (cm_db s) d' \<and> evolved E d' (cm_db s')"
proof -
  define s0 where "s0 = s\<lparr>cm_token := None, cm_beating := False, cm_beat_error := None\<rparr>"
  obtain a s1 where a: "enter_lease E L s0 = (a, s1)" by (cases "enter_lease E L s0")
  obtain b s2 where b: "entering E L s0 = (b, s2)" by (cases "entering E L s0")
  obtain w s3 where w: "acquire_with_optional_wait E L s0 = (w, s3)" by (cases "acquire_with_optional_wait E L s0")
  show ?thesis
  proof (cases a)
    case (Inl e)
    then have "s' = s1" using assms(1) a by (simp add: under_lease_def ctl_bnd_def s0_def)
    moreover have "cm_trace s1 = cm_trace s0 \<or> (\<exists>e. b = Inl e) \<and> cm_trace s1 = cm_trace s2"
      using a b Inl by (auto simp: enter_lease_def snd_at_store split: sum.splits option.splits)
    ultimately obtain tok k new where "cm_trace s' = cm_trace s0 @ replicate k Attempted @ new"
        "kept_to [Confirm, Confirm] False (shapes new)"
      using entering_protocol(1) [OF b] performed_under_none [of s1 s0 E L "[Confirm, Confirm]"]
      unfolding performed_under_def by fastforce
    moreover from this(2) have "Effect i \<notin> set (shapes new)"
      by (auto simp: kept_to_def append_eq_Cons_conv Cons_eq_append_conv)
    moreover have "Effected i \<in> set new \<Longrightarrow> Effect i \<in> set (shapes new)"
      by (force simp: shapes_def)
    ultimately have False
      using assms(3) by (auto simp: s0_def)
    then show ?thesis ..
  next
    case (Inr u)
    then have entered: "b = Inr ()" "s1 = s2"
      using a b by (auto simp: enter_lease_def split: sum.splits option.splits)
    then obtain row where row: "w = Inr row"
      using b w by (auto simp: entering_def ctl_bnd_def split: sum.splits)
    obtain c d where acquired: "julian c = pl_julian E" "acquire_global_writer c (writer_request L) d = (Inr row, cm_db s3)"
      using acquired_with_wait [of E L] w row unfolding acquired_def by blast
    have after: "evolves E (ctl_bnd (assert_current E L) (\<lambda>_. ctl_bnd (enter_guard E L)
        (\<lambda>_ s2. (Inr (), s2\<lparr>cm_beating := cl_start_heartbeat L\<rparr>))))"
      by (intro evolves_bnd evolves_assert evolves_guard) (simp add: evolves_def)
    have "evolved E (cm_db s3) (cm_db s1)"
      using evolvesD [OF after, of "s3\<lparr>cm_token := Some (gw_fencing_token row)\<rparr>" b s2] b w row entered
      by (simp add: entering_def ctl_bnd_def)
    moreover have "evolved E (cm_db s1) (cm_db s')"
    proof -
      obtain x s4 where x: "block s1 = (x, s4)" by (cases "block s1")
      have "\<exists>failed. s' = snd (exit_lease E L failed s4)"
        using assms(1) a Inr x
        by (auto simp: under_lease_def ctl_bnd_def ctl_reply_def s0_def split: sum.splits prod.splits) (metis snd_conv)+
      then obtain failed where "exit_lease E L failed s4 = (fst (exit_lease E L failed s4), s')"
        by (metis prod.collapse)
      from evolvesD [OF evolves_exit this] evolvesD [OF assms(2) x] show ?thesis
        by (rule rtranclp_trans [rotated])
    qed
    moreover have "evolved E (cm_db s) (cm_db s3)"
      using evolvesD [OF evolves_acquire w] by (simp add: s0_def)
    ultimately show ?thesis
      using acquired by (meson rtranclp_trans)
  qed
qed

text \<open>
  C37. One identity is deployed at most once: after a deployment that made an effect, whatever the other
  clients do in between, another one under the same change and deployment identifiers stops before its
  lease, at the demand for a reconciliation, and touches neither the world nor the protocol.
\<close>

theorem deployment_once:
  assumes "run_controlled_deployment E schema p s = (r, s1)" and "cm_db s = run (pl_julian E) calls initial_db"
    and "Effected i \<in> set (drop (length (cm_trace s)) (cm_trace s1))"
    and "pl_julian F = pl_julian E" and "cm_db s2 = run (pl_julian E) later (cm_db s1)"
    and "dp_change_id p' = dp_change_id p" and "dp_deployment_id p' = dp_deployment_id p"
  shows "\<exists>s3. run_controlled_deployment F schema' p' s2
      = (Inl (Control_error ''CONTROLLED_DEPLOYMENT_RECONCILIATION_REQUIRED''), s3)
    \<and> cm_world s3 = cm_world s2 \<and> cm_trace s3 = cm_trace s2"
proof -
  let ?read = "\<lambda>c d. (Inr (prior_acquire (dp_change_id p) (dp_deployment_id p) d), d)"
  obtain a s0 where a: "at_store E (deployment_lease p) ?read s = (a, s0)"
    by (cases "at_store E (deployment_lease p) ?read s")
  have start: "cm_trace s0 = cm_trace s" "evolved E (cm_db s) (cm_db s0)"
    using at_store_keeps(2) [OF a] evolvesD [OF evolves_readonly a] by simp_all
  have "s1 = s0 \<or> (\<exists>L. make_lease E schema (deployment_lease p) = Inr L
      \<and> under_lease E L (deployment_block E L (dp_steps p) (dp_persist_result p)) s0 = (r, s1))"
    using assms(1) a by (auto simp: run_controlled_deployment_def ctl_bnd_def ctl_reply_def split: sum.splits if_splits)
  then obtain L where L: "make_lease E schema (deployment_lease p) = Inr L"
      "under_lease E L (deployment_block E L (dp_steps p) (dp_persist_result p)) s0 = (r, s1)"
    using assms(3) start(1) by auto
  obtain c d row d' where acq: "julian c = pl_julian E" "acquire_global_writer c (writer_request L) d = (Inr row, d')"
      "evolved E (cm_db s0) d'" "evolved E d' (cm_db s1)"
    using effects_inside [OF L(2) evolves_block assms(3) [folded start(1)]] by blast
  have "evolved E initial_db d'"
    using run_performed [of "pl_julian E" initial_db calls] assms(2) start(2) acq(3) by (metis rtranclp_trans)
  then have "writer_explained (pl_julian E) (writer_view d')"
    using writer_system.run_keeps initial_ok(3) by blast
  then obtain e where e: "e \<in> set (writer_events d')" "ge_event_type e \<in> {ACQUIRE, EXPIRED_TAKEOVER}"
      "ge_new e = lease_context (deployment_lease p)"
    using acquired_event [OF acq(2)] acq(1) make_lease_context [OF L(1)] by auto
  obtain b s3 where b: "at_store F (deployment_lease p') ?read s2 = (b, s3)"
    by (cases "at_store F (deployment_lease p') ?read s2")
  have "evolved F (cm_db s2) (cm_db (pause F (deployment_lease p') s2))"
    by (rule pause_evolved)
  then have "evolved E d' (cm_db (pause F (deployment_lease p') s2))"
    using acq(4) run_performed [of "pl_julian E" "cm_db s1" later] assms(4,5) by (metis rtranclp_trans)
  from prior_found [OF event_stays [OF this e(1)] e(2,3)] obtain x where "b = Inr (Some x)"
    using b by (auto simp: at_store_def Let_def)
  then show ?thesis
    using b at_store_keeps(2,3) [OF b] assms(6,7) by (simp add: run_controlled_deployment_def ctl_bnd_def ctl_reply_def)
qed

text \<open>A plant in which everything is in order, and a deployment of one step.\<close>

definition tiny_sha :: "string \<Rightarrow> string" where
  "tiny_sha s = replicate 64 (if length s \<le> 29 then CHR ''0'' else if s ! 29 = CHR ''a'' then CHR ''a'' else CHR ''b'')"

definition tiny_plant :: "nat plant" where
  "tiny_plant = \<lparr>pl_julian = (\<lambda>t. t), pl_sha = tiny_sha,
     pl_ctx = (\<lambda>n. (demo_ctx n)\<lparr>uuid := (\<lambda>k. [CHR ''u'', char_of n])\<rparr>), pl_moves = (\<lambda>_. []),
     pl_monotonic = (\<lambda>n. int n), pl_git = (\<lambda>_ _ _. (0, ''/r'')), pl_resolve = (\<lambda>_ p. Some p),
     pl_thin = (\<lambda>_ _ _. Thin_match), pl_worker = (\<lambda>_. None)\<rparr>"

definition tiny_step :: "(nat list, nat) deployment_step" where
  "tiny_step = \<lparr>ds_name = ''s'', ds_effect = (\<lambda>w d. (Inr 7, 7 # w, [])), ds_readback = (\<lambda>v w d. (Inr v, w, []))\<rparr>"

definition tiny_deployment :: "(nat list, nat) deployment" where
  "tiny_deployment = \<lparr>dp_change_id = ''c'', dp_deployment_id = ''d'',
     dp_authority = Basic_authority (Thin_runtime ''x'' ''y''), dp_steps = [tiny_step],
     dp_persist_result = (\<lambda>_ w d. (Inr (), w, [])), dp_decision = None, dp_start_heartbeat = False,
     dp_bounded_wait = False, dp_attempt_id = ''t''\<rparr>"

definition tiny_machine :: "nat list control_machine" where
  "tiny_machine = \<lparr>cm_db = initial_db, cm_world = [], cm_tick = 0, cm_token = None, cm_guarded = False,
     cm_beating = False, cm_beat_error = None, cm_trace = []\<rparr>"

lemma tiny_effect:
  "Effected 0 \<in> set (cm_trace (snd (run_controlled_deployment tiny_plant (Some 10) tiny_deployment tiny_machine)))"
  by code_simp

theorem deployment_once_witness:
  "\<exists>r s1 s3. run_controlled_deployment tiny_plant (Some 10) tiny_deployment tiny_machine = (r, s1)
    \<and> Effected 0 \<in> set (cm_trace s1)
    \<and> run_controlled_deployment tiny_plant (Some 10) tiny_deployment s1
        = (Inl (Control_error ''CONTROLLED_DEPLOYMENT_RECONCILIATION_REQUIRED''), s3) \<and> cm_world s3 = cm_world s1"
proof (cases "run_controlled_deployment tiny_plant (Some 10) tiny_deployment tiny_machine")
  case (Pair r s1)
  have effect: "Effected 0 \<in> set (drop (length (cm_trace tiny_machine)) (cm_trace s1))"
    using tiny_effect by (simp add: Pair) (simp add: tiny_machine_def)
  have db: "cm_db tiny_machine = run (pl_julian tiny_plant) [] initial_db"
    by (simp add: tiny_machine_def)
  have same: "cm_db s1 = run (pl_julian tiny_plant) [] (cm_db s1)"
    by simp
  from deployment_once [OF Pair db effect refl same refl refl, of "Some 10"] effect show ?thesis
    using Pair by (auto simp: tiny_machine_def)
qed

end
