(* ===== verification/Cutover.thy ===== *)
theory Cutover
  imports Worktrees Migrations Lifecycle Slice_Control
begin

text \<open>
  The preparation of the cutover (\<open>src/adcp/cutover.py\<close>): the manifest of the five slices to migrate,
  the read-only inspection of their Git bindings, the rules that say which slice may be seeded, the
  rehearsal that seeds an isolated control store, and the documents projected from its state.
\<close>

section \<open>Errors and the host\<close>

text \<open>\<open>CutoverError\<close> with its code and detail, or any other exception.\<close>

datatype cutover_failure = Cutover string string | Cut_raised store_error

definition raised :: "'a result \<Rightarrow> cutover_failure + 'a" where
  "raised r = (case r of Inl e \<Rightarrow> Inl (Cut_raised e) | Inr x \<Rightarrow> Inr x)"

text \<open>\<open>except StoreError as error: raise CutoverError(label, error.code)\<close>.\<close>

definition caught :: "string \<Rightarrow> 'a result \<Rightarrow> cutover_failure + 'a" where
  "caught label r = (case r of Inl (StoreError code) \<Rightarrow> Inl (Cutover label code)
     | Inl e \<Rightarrow> Inl (Cut_raised e) | Inr x \<Rightarrow> Inr x)"

text \<open>
  \<open>ch_resolve\<close> is \<open>Path.resolve\<close> with its \<open>strict\<close> flag; \<open>ch_git\<close> answers the commands of an inspection
  in the order they are given; \<open>ch_opening\<close> is what making the parent directory and opening a store at a
  path raise, for the first and the second time.
\<close>

record cut_host =
  ch_sha :: "string \<Rightarrow> string"
  ch_world :: os_world
  ch_resolve :: "bool \<Rightarrow> string \<Rightarrow> string result"
  ch_git :: "nat \<Rightarrow> string \<Rightarrow> string list \<Rightarrow> (int \<times> string \<times> string) result"
  ch_opening :: "nat \<Rightarrow> string \<Rightarrow> unit result"

definition expanded :: "cut_host \<Rightarrow> bool \<Rightarrow> string \<Rightarrow> string result" where
  "expanded h strict p = bnd (expanduser (ch_world h) (path_of p)) (\<lambda>x. ch_resolve h strict (path_text x))"

definition hashed :: "cut_host \<Rightarrow> json \<Rightarrow> string" where
  "hashed h j = ch_sha h (dumps j)"

section \<open>The manifest\<close>

definition cp_slice_id :: string where
  "cp_slice_id = ''CP-01A-2''"

definition unbound :: string where
  "unbound = ''UNBOUND''"

definition none_text :: string where
  "none_text = ''NONE''"

definition unresolved_base :: string where
  "unresolved_base = ''RESOLVE_AT_CODEX_PREFLIGHT''"

datatype migration_class = Migrate_ready | Defer_binding | Defer_prerequisite

fun migration_class_text :: "migration_class \<Rightarrow> string" where
  "migration_class_text Migrate_ready = ''MIGRATE_AS_READY_CURRENT_STATE''"
| "migration_class_text Defer_binding = ''DEFER_SEED_UNTIL_BRANCH_BASE_PREFLIGHT''"
| "migration_class_text Defer_prerequisite = ''DEFER_SEED_UNTIL_PREREQUISITE''"

datatype seed_eligibility = Seed_eligible | Seed_defer_binding | Seed_defer_prerequisite

fun eligibility_text :: "seed_eligibility \<Rightarrow> string" where
  "eligibility_text Seed_eligible = ''ELIGIBLE_FOR_REHEARSAL_SEED''"
| "eligibility_text Seed_defer_binding = ''INELIGIBLE_UNTIL_BRANCH_AND_BASE_PREFLIGHT''"
| "eligibility_text Seed_defer_prerequisite = ''INELIGIBLE_UNTIL_PREREQUISITES''"

text \<open>\<open>MigrationClass(value)\<close> and \<open>SeedEligibility(value)\<close>; \<open>None\<close> is \<open>ValueError\<close>.\<close>

definition migration_class_of :: "string \<Rightarrow> migration_class option" where
  "migration_class_of s = find (\<lambda>m. migration_class_text m = s) [Migrate_ready, Defer_binding, Defer_prerequisite]"

definition eligibility_of :: "string \<Rightarrow> seed_eligibility option" where
  "eligibility_of s = find (\<lambda>m. eligibility_text m = s) [Seed_eligible, Seed_defer_binding, Seed_defer_prerequisite]"

record migration_slice =
  ms_slice_id :: string
  ms_registry_stage :: string
  ms_registry_status :: string
  ms_logical_source_root :: string
  ms_repository_toplevel :: string
  ms_execution_worktree :: string
  ms_branch :: string
  ms_base_commit :: string
  ms_implementation_result_commit :: string
  ms_current_branch_head :: string
  ms_execution_packet_url :: string
  ms_contract_url :: string
  ms_migration_class :: string
  ms_seed_eligibility :: string
  ms_seed_defer_reason :: string
  ms_snapshot_fingerprint :: string

text \<open>\<open>_ENTRY_FIELDS\<close> with the entry's values.\<close>

definition entry_fields :: "migration_slice \<Rightarrow> (string \<times> string) list" where
  "entry_fields s =
    [(''slice_id'', ms_slice_id s), (''registry_stage'', ms_registry_stage s),
     (''registry_status'', ms_registry_status s), (''logical_source_root'', ms_logical_source_root s),
     (''repository_toplevel'', ms_repository_toplevel s), (''execution_worktree'', ms_execution_worktree s),
     (''branch'', ms_branch s), (''base_commit'', ms_base_commit s),
     (''implementation_result_commit'', ms_implementation_result_commit s),
     (''current_branch_head'', ms_current_branch_head s), (''execution_packet_url'', ms_execution_packet_url s),
     (''contract_url'', ms_contract_url s), (''migration_class'', ms_migration_class s),
     (''seed_eligibility'', ms_seed_eligibility s), (''seed_defer_reason'', ms_seed_defer_reason s)]"

definition entry_texts_json :: "(string \<times> string) list \<Rightarrow> (string \<times> json) list" where
  "entry_texts_json = map (\<lambda>(k, v). (k, JStr v))"

definition semantic_dict :: "migration_slice \<Rightarrow> (string \<times> json) list" where
  "semantic_dict s = entry_texts_json (entry_fields s)"

definition computed_fingerprint :: "(string \<Rightarrow> string) \<Rightarrow> migration_slice \<Rightarrow> string" where
  "computed_fingerprint hash s = hash (dumps (JObj (semantic_dict s)))"

definition entry_dict :: "migration_slice \<Rightarrow> (string \<times> json) list" where
  "entry_dict s = semantic_dict s @ [(''snapshot_fingerprint'', JStr (ms_snapshot_fingerprint s))]"

definition finalized :: "(string \<Rightarrow> string) \<Rightarrow> migration_slice \<Rightarrow> migration_slice" where
  "finalized hash s = s\<lparr>ms_snapshot_fingerprint := computed_fingerprint hash s\<rparr>"

definition unresolved_field :: "migration_slice \<Rightarrow> string option" where
  "unresolved_field s = map_option fst (find (\<lambda>(_, v). v \<in> {none_text, unbound, unresolved_base})
     [(''execution_worktree'', ms_execution_worktree s), (''branch'', ms_branch s),
      (''base_commit'', ms_base_commit s), (''current_branch_head'', ms_current_branch_head s)])"

definition validate_slice :: "(string \<Rightarrow> string) \<Rightarrow> migration_slice \<Rightarrow> cutover_failure + unit" where
  "validate_slice hash s =
    (if [] \<in> set (map snd (entry_fields s)) then Inl (Cutover ''MANIFEST_FIELD_REQUIRED'' (ms_slice_id s))
     else if ms_snapshot_fingerprint s \<noteq> computed_fingerprint hash s
       then Inl (Cutover ''SNAPSHOT_FINGERPRINT_MISMATCH'' (ms_slice_id s))
     else if migration_class_of (ms_migration_class s) = None \<or> eligibility_of (ms_seed_eligibility s) = None
       then Inl (Cutover ''MANIFEST_ENUM_INVALID'' (ms_slice_id s))
     else if ms_implementation_result_commit s = ms_current_branch_head s \<and> ms_slice_id s = cp_slice_id
       then Inl (Cutover ''COMMIT_ROLES_COLLAPSED'' (ms_slice_id s))
     else if ms_seed_eligibility s = eligibility_text Seed_eligible
       then (case unresolved_field s of
           Some k \<Rightarrow> Inl (Cutover ''IMMUTABLE_BINDING_UNRESOLVED'' (ms_slice_id s @ '':'' @ k))
         | None \<Rightarrow> Inr ())
     else Inr ())"

text \<open>
  \<open>from_dict\<close> on any document: \<open>set(value)\<close> of a text is its characters and of a list its items,
  which must be json_hashable; a list of exactly the field names fails on \<open>value[field]\<close>.
\<close>

definition slice_fields :: "string set" where
  "slice_fields = {''slice_id'', ''registry_stage'', ''registry_status'', ''logical_source_root'',
     ''repository_toplevel'', ''execution_worktree'', ''branch'', ''base_commit'', ''implementation_result_commit'',
     ''current_branch_head'', ''execution_packet_url'', ''contract_url'', ''migration_class'', ''seed_eligibility'',
     ''seed_defer_reason'', ''snapshot_fingerprint''}"

fun json_hashable :: "json \<Rightarrow> bool" where
  "json_hashable (JList _) = False"
| "json_hashable (JObj _) = False"
| "json_hashable _ = True"

definition entry_text :: "(string \<times> json) list \<Rightarrow> string \<Rightarrow> string" where
  "entry_text kvs k = (case map_of kvs k of Some (JStr s) \<Rightarrow> s | _ \<Rightarrow> [])"

definition slice_of :: "(string \<times> json) list \<Rightarrow> migration_slice" where
  "slice_of kvs = (let t = entry_text kvs in
    \<lparr>ms_slice_id = t ''slice_id'', ms_registry_stage = t ''registry_stage'', ms_registry_status = t ''registry_status'',
     ms_logical_source_root = t ''logical_source_root'', ms_repository_toplevel = t ''repository_toplevel'',
     ms_execution_worktree = t ''execution_worktree'', ms_branch = t ''branch'', ms_base_commit = t ''base_commit'',
     ms_implementation_result_commit = t ''implementation_result_commit'',
     ms_current_branch_head = t ''current_branch_head'', ms_execution_packet_url = t ''execution_packet_url'',
     ms_contract_url = t ''contract_url'', ms_migration_class = t ''migration_class'',
     ms_seed_eligibility = t ''seed_eligibility'', ms_seed_defer_reason = t ''seed_defer_reason'',
     ms_snapshot_fingerprint = t ''snapshot_fingerprint''\<rparr>)"

fun is_text :: "json \<Rightarrow> bool" where
  "is_text (JStr _) = True"
| "is_text _ = False"

fun slice_from_dict :: "(string \<Rightarrow> string) \<Rightarrow> json \<Rightarrow> cutover_failure + migration_slice" where
  "slice_from_dict hash (JObj kvs) =
     (if set (map fst kvs) \<noteq> slice_fields \<or> \<not> list_all is_text (map snd kvs)
      then Inl (Cutover ''MANIFEST_SHAPE_INVALID'' [])
      else bnd (validate_slice hash (slice_of kvs)) (\<lambda>_. Inr (slice_of kvs)))"
| "slice_from_dict hash (JStr _) = Inl (Cutover ''MANIFEST_SHAPE_INVALID'' [])"
| "slice_from_dict hash (JList xs) =
     (if list_all json_hashable xs \<and> set xs \<noteq> JStr ` slice_fields then Inl (Cutover ''MANIFEST_SHAPE_INVALID'' [])
      else Inl (Cut_raised (PythonError ''TypeError'')))"
| "slice_from_dict hash _ = Inl (Cut_raised (PythonError ''TypeError''))"

text \<open>The version is whatever the document had under its key.\<close>

record migration_manifest =
  mm_slices :: "migration_slice list"
  mm_version :: json

fun validate_slices :: "(string \<Rightarrow> string) \<Rightarrow> migration_slice list \<Rightarrow> cutover_failure + unit" where
  "validate_slices hash [] = Inr ()"
| "validate_slices hash (s # ss) = bnd (validate_slice hash s) (\<lambda>_. validate_slices hash ss)"

definition validate_manifest :: "(string \<Rightarrow> string) \<Rightarrow> migration_manifest \<Rightarrow> cutover_failure + unit" where
  "validate_manifest hash m =
    (if \<not> json_eq (mm_version m) (JInt 1) then Inl (Cutover ''MANIFEST_VERSION_UNSUPPORTED'' [])
     else if length (mm_slices m) \<noteq> 5
       then Inl (Cutover ''MANIFEST_SLICE_COUNT_INVALID'' (nat_text (length (mm_slices m))))
     else if \<not> distinct (map ms_slice_id (mm_slices m)) then Inl (Cutover ''MANIFEST_DUPLICATE_SLICE'' [])
     else validate_slices hash (mm_slices m))"

definition cutover_payload :: "migration_manifest \<Rightarrow> json" where
  "cutover_payload m = JObj [(''manifest_version'', mm_version m),
     (''slices'', JList (map (JObj \<circ> entry_dict) (mm_slices m)))]"

definition canonical_payload :: "(string \<Rightarrow> string) \<Rightarrow> migration_manifest \<Rightarrow> cutover_failure + string" where
  "canonical_payload hash m =
    bnd (validate_manifest hash m) (\<lambda>_. raised (canonical_json (json_to_py (cutover_payload m))))"

definition manifest_fingerprint :: "(string \<Rightarrow> string) \<Rightarrow> migration_manifest \<Rightarrow> string result" where
  "manifest_fingerprint hash m = canonical_sha256 hash (json_to_py (cutover_payload m))"

definition manifest_slice :: "migration_manifest \<Rightarrow> string \<Rightarrow> cutover_failure + migration_slice" where
  "manifest_slice m i = of_option (Cutover ''MANIFEST_SLICE_MISSING'' i)
     (find (\<lambda>s. ms_slice_id s = i) (mm_slices m))"

fun slices_from :: "(string \<Rightarrow> string) \<Rightarrow> json list \<Rightarrow> cutover_failure + migration_slice list" where
  "slices_from hash [] = Inr []"
| "slices_from hash (j # js) =
     bnd (slice_from_dict hash j) (\<lambda>s. bnd (slices_from hash js) (\<lambda>ss. Inr (s # ss)))"

definition manifest_from_json :: "(string \<Rightarrow> string) \<Rightarrow> string \<Rightarrow> cutover_failure + migration_manifest" where
  "manifest_from_json hash payload = (case loads payload of
     None \<Rightarrow> Inl (Cutover ''MANIFEST_JSON_INVALID'' [])
   | Some (JObj kvs) \<Rightarrow>
       (if set (map fst kvs) \<noteq> {''manifest_version'', ''slices''} then Inl (Cutover ''MANIFEST_SHAPE_INVALID'' [])
        else (case map_of kvs ''slices'' of
            Some (JList xs) \<Rightarrow>
              bnd (slices_from hash xs) (\<lambda>ss.
                let m = \<lparr>mm_slices = ss, mm_version = the (map_of kvs ''manifest_version'')\<rparr>
                in bnd (validate_manifest hash m) (\<lambda>_. Inr m))
          | _ \<Rightarrow> Inl (Cutover ''MANIFEST_SHAPE_INVALID'' [])))
   | Some _ \<Rightarrow> Inl (Cutover ''MANIFEST_SHAPE_INVALID'' []))"

section \<open>Git bindings and eligibility\<close>

record git_binding =
  gb_execution_worktree :: string
  gb_repository_toplevel :: string
  gb_branch :: string
  gb_head :: string
  gb_clean :: bool
  gb_base_commit_exists :: bool
  gb_result_commit_exists :: bool
  gb_result_reachable :: bool

text \<open>\<open>_git\<close>: the exit code, the output and the error output of one command.\<close>

definition git_raw :: "cut_host \<Rightarrow> nat \<Rightarrow> string \<Rightarrow> string list \<Rightarrow> cutover_failure + int \<times> string \<times> string" where
  "git_raw h n p args = raised (ch_git h n p args)"

definition git_output :: "cut_host \<Rightarrow> nat \<Rightarrow> string \<Rightarrow> string list \<Rightarrow> cutover_failure + string" where
  "git_output h n p args = bnd (git_raw h n p args) (\<lambda>(code, out, err).
     if code \<noteq> 0 then Inl (Cutover ''GIT_BINDING_INSPECTION_FAILED'' (strip err)) else Inr out)"

definition git_path :: "cut_host \<Rightarrow> nat \<Rightarrow> string \<Rightarrow> string list \<Rightarrow> cutover_failure + string" where
  "git_path h n p args = bnd (git_output h n p args) (\<lambda>out. raised (ch_resolve h False (path_text (path_of (strip out)))))"

definition inspect_git_binding :: "cut_host \<Rightarrow> migration_slice \<Rightarrow> cutover_failure + git_binding" where
  "inspect_git_binding h s =
    bnd (raised (expanded h True (ms_execution_worktree s))) (\<lambda>worktree.
    bnd (raised (expanded h True (ms_repository_toplevel s))) (\<lambda>repository.
    bnd (git_path h 0 worktree [''rev-parse'', ''--show-toplevel'']) (\<lambda>observed_top.
    bnd (git_output h 1 worktree [''symbolic-ref'', ''--short'', ''-q'', ''HEAD'']) (\<lambda>branch.
    bnd (git_output h 2 worktree [''rev-parse'', ''HEAD'']) (\<lambda>head.
    bnd (git_output h 3 worktree [''status'', ''--porcelain'', ''--untracked-files=all'']) (\<lambda>status.
    bnd (git_path h 4 worktree [''rev-parse'', ''--path-format=absolute'', ''--git-common-dir'']) (\<lambda>worktree_common.
    bnd (git_path h 5 repository [''rev-parse'', ''--path-format=absolute'', ''--git-common-dir'']) (\<lambda>repository_common.
    bnd (git_raw h 6 worktree [''cat-file'', ''-e'', ms_base_commit s @ ''^{commit}'']) (\<lambda>(base_code, _).
    bnd (git_raw h 7 worktree [''cat-file'', ''-e'', ms_implementation_result_commit s @ ''^{commit}'']) (\<lambda>(result_code, _).
    bnd (if result_code = 0
         then bnd (git_raw h 8 worktree [''merge-base'', ''--is-ancestor'', ms_implementation_result_commit s,
                ms_current_branch_head s]) (\<lambda>(code, _). Inr (code = 0))
         else Inr False) (\<lambda>reachable.
    Inr \<lparr>gb_execution_worktree = worktree,
      gb_repository_toplevel = (if worktree_common = repository_common then repository else observed_top),
      gb_branch = strip branch, gb_head = strip head, gb_clean = (status = []),
      gb_base_commit_exists = (base_code = 0), gb_result_commit_exists = (result_code = 0),
      gb_result_reachable = reachable\<rparr>)))))))))))"

definition expected_binding :: "cut_host \<Rightarrow> migration_slice \<Rightarrow> git_binding result" where
  "expected_binding h s =
    bnd (expanded h False (ms_execution_worktree s)) (\<lambda>worktree.
    bnd (expanded h False (ms_repository_toplevel s)) (\<lambda>repository.
    Inr \<lparr>gb_execution_worktree = worktree, gb_repository_toplevel = repository, gb_branch = ms_branch s,
      gb_head = ms_current_branch_head s, gb_clean = True, gb_base_commit_exists = True,
      gb_result_commit_exists = True, gb_result_reachable = True\<rparr>))"

definition classify_seed_eligibility ::
  "cut_host \<Rightarrow> migration_slice \<Rightarrow> git_binding option \<Rightarrow> cutover_failure + seed_eligibility \<times> string" where
  "classify_seed_eligibility h s binding =
    bnd (validate_slice (ch_sha h) s) (\<lambda>_.
    if ms_migration_class s = migration_class_text Defer_binding then Inr (Seed_defer_binding, ms_seed_defer_reason s)
    else if ms_migration_class s = migration_class_text Defer_prerequisite
      then Inr (Seed_defer_prerequisite, ms_seed_defer_reason s)
    else if ms_migration_class s \<noteq> migration_class_text Migrate_ready \<or> ms_slice_id s \<noteq> cp_slice_id
      then Inl (Cutover ''SEED_CLASSIFICATION_UNSUPPORTED'' (ms_slice_id s))
    else (case binding of
        None \<Rightarrow> Inr (Seed_defer_binding, ''BINDING_EVIDENCE_REQUIRED'')
      | Some b \<Rightarrow> bnd (raised (expected_binding h s)) (\<lambda>expected.
          if b \<noteq> expected then Inr (Seed_defer_binding, ''IMMUTABLE_BINDING_DRIFT'')
          else Inr (Seed_eligible, none_text))))"

section \<open>The frozen manifest\<close>

definition source_root :: string where
  "source_root = ''/Users/kate/PropertyAI/openclaw-workspace''"

definition cp_entry :: migration_slice where
  "cp_entry = \<lparr>ms_slice_id = cp_slice_id, ms_registry_stage = ''S6_EVIDENCE'', ms_registry_status = ''READY_FOR_CODEX'',
     ms_logical_source_root = ''/Users/kate/PropertyAI/openclaw-workspace/propertyai_core'',
     ms_repository_toplevel = ''/Users/kate/PropertyAI/openclaw-workspace'',
     ms_execution_worktree = ''/Users/kate/PropertyAI/worktrees/cp-01a-2'',
     ms_branch = ''cp-01a-2-cleaner-application-commands'',
     ms_base_commit = ''7bf113f1938fc91d3bb9321e32b25514a47b211f'',
     ms_implementation_result_commit = ''c5793b7f7ec975f581355ea8ed53a36451b55807'',
     ms_current_branch_head = ''3d8491a6ce1a39c23dca0206e11d00c180276afd'',
     ms_execution_packet_url = ''packet://openclaw/cp-01a-2'', ms_contract_url = ''contract://openclaw/cp-01a-2'',
     ms_migration_class = migration_class_text Migrate_ready, ms_seed_eligibility = eligibility_text Seed_eligible,
     ms_seed_defer_reason = none_text, ms_snapshot_fingerprint = []\<rparr>"

definition briefing_entry :: migration_slice where
  "briefing_entry = \<lparr>ms_slice_id = ''OPENCLAW.PHASE1.OPS_BRIEFING'', ms_registry_stage = ''S4_EXECUTION_FROZEN'',
     ms_registry_status = ''READY_FOR_CODEX'', ms_logical_source_root = source_root,
     ms_repository_toplevel = source_root, ms_execution_worktree = unbound, ms_branch = ''phase-1-ops-briefing'',
     ms_base_commit = unresolved_base, ms_implementation_result_commit = none_text, ms_current_branch_head = unbound,
     ms_execution_packet_url = ''packet://openclaw/phase1/ops-briefing'', ms_contract_url = none_text,
     ms_migration_class = migration_class_text Defer_binding, ms_seed_eligibility = eligibility_text Seed_defer_binding,
     ms_seed_defer_reason = ''IMMUTABLE_EXECUTION_BINDING_NOT_YET_RESOLVED'', ms_snapshot_fingerprint = []\<rparr>"

definition phase_two_entry :: "string \<Rightarrow> string \<Rightarrow> migration_slice" where
  "phase_two_entry i branch = \<lparr>ms_slice_id = i, ms_registry_stage = ''S1_LOGICAL_CONTRACT'',
     ms_registry_status = ''WAITING_USER'', ms_logical_source_root = source_root, ms_repository_toplevel = source_root,
     ms_execution_worktree = unbound, ms_branch = branch, ms_base_commit = none_text,
     ms_implementation_result_commit = none_text, ms_current_branch_head = unbound,
     ms_execution_packet_url = none_text, ms_contract_url = ''contract://openclaw/phase2'',
     ms_migration_class = migration_class_text Defer_prerequisite,
     ms_seed_eligibility = eligibility_text Seed_defer_prerequisite,
     ms_seed_defer_reason = ''UPSTREAM_OR_USER_PREREQUISITE_UNRESOLVED'', ms_snapshot_fingerprint = []\<rparr>"

definition frozen_entries :: "migration_slice list" where
  "frozen_entries = [cp_entry, briefing_entry,
     phase_two_entry ''OPENCLAW.PHASE2A.PHOTO_REVIEW'' ''phase-2a-photo-review'',
     phase_two_entry ''OPENCLAW.PHASE2B.INCIDENT_DIAGNOSIS'' ''phase-2b-incident-diagnosis'',
     phase_two_entry ''OPENCLAW.PHASE2C.WEB_RESEARCH'' ''phase-2c-web-research'']"

definition frozen_cut1_manifest :: "(string \<Rightarrow> string) \<Rightarrow> cutover_failure + migration_manifest" where
  "frozen_cut1_manifest hash =
    (let m = \<lparr>mm_slices = map (finalized hash) frozen_entries, mm_version = JInt 1\<rparr>
     in bnd (validate_manifest hash m) (\<lambda>_. Inr m))"

section \<open>Seeding an isolated store\<close>

text \<open>A computation over the isolated store: what it returns or raises, and the store it leaves.\<close>

type_synonym 'a seeding = "db \<Rightarrow> (cutover_failure + 'a) \<times> db"

definition seed_bnd :: "'a seeding \<Rightarrow> ('a \<Rightarrow> 'b seeding) \<Rightarrow> 'b seeding" where
  "seed_bnd m k d = (case m d of (Inl e, d') \<Rightarrow> (Inl e, d') | (Inr x, d') \<Rightarrow> k x d')"

definition seed_reply :: "cutover_failure + 'a \<Rightarrow> 'a seeding" where
  "seed_reply r d = (r, d)"

definition seed_store :: "string \<Rightarrow> (db \<Rightarrow> 'a result \<times> db) \<Rightarrow> 'a seeding" where
  "seed_store label op d = (let (r, d') = op d in (caught label r, d'))"

definition default_runtime_root :: string where
  "default_runtime_root = ''/Users/kate/DKATE/adcp-runtime''"

definition isolated_store_path :: "cut_host \<Rightarrow> string \<Rightarrow> cutover_failure + string" where
  "isolated_store_path h p =
    bnd (raised (expanduser (ch_world h) (path_of p))) (\<lambda>supplied.
    if \<not> is_absolute supplied then Inl (Cutover ''EXPLICIT_ABSOLUTE_ISOLATED_STORE_REQUIRED'' [])
    else bnd (raised (ch_resolve h False (path_text supplied))) (\<lambda>resolved.
    bnd (raised (ch_resolve h False default_runtime_root)) (\<lambda>operational.
    if inside resolved operational then Inl (Cutover ''OPERATIONAL_STORE_FORBIDDEN'' []) else Inr resolved)))"

record seed_result =
  sd_execution_id :: string
  sd_manifest_fingerprint :: string
  sd_entry_fingerprint :: string
  sd_state :: exec_state
  sd_state_version :: int
  sd_result_commit :: "string option"
  sd_authority_mode :: string
  sd_replayed :: bool

definition cut2_execution_id :: string where
  "cut2_execution_id = ''cut2-rehearsal-cp-01a-2''"

definition cp_importer :: string where
  "cp_importer = ''cut1-isolated-importer''"

definition transitional :: string where
  "transitional = ''TRANSITIONAL_AUTHORITY''"

definition seed_label :: string where
  "seed_label = ''ISOLATED_SEED_FAILED''"

definition seed_key :: "cut_host \<Rightarrow> string \<Rightarrow> migration_slice \<Rightarrow> string result" where
  "seed_key h kind s = operation_key (ch_sha h) kind (PDict [(PStr ''entry_fingerprint'', PStr (ms_snapshot_fingerprint s))])"

definition contract_fingerprint :: "cut_host \<Rightarrow> migration_slice \<Rightarrow> string" where
  "contract_fingerprint h s = hashed h (JObj [(''contract_url'', JStr (ms_contract_url s))])"

definition seed_matches :: "cut_host \<Rightarrow> migration_slice \<Rightarrow> string \<Rightarrow> execution_row \<Rightarrow> bool" where
  "seed_matches h s root r \<longleftrightarrow> ex_slice_id r = ms_slice_id s \<and> ex_source_root r = root \<and> ex_branch r = ms_branch s
     \<and> ex_base_commit r = ms_base_commit s \<and> ex_result_commit r = Some (ms_implementation_result_commit s)
     \<and> ex_contract_fingerprint r = contract_fingerprint h s
     \<and> ex_authority_fingerprint r = ms_snapshot_fingerprint s"

definition cp_create :: "cut_host \<Rightarrow> migration_slice \<Rightarrow> execution_create" where
  "cp_create h s = \<lparr>xc_execution_id = cut2_execution_id, xc_slice_id = ms_slice_id s, xc_risk_level = NORMAL,
     xc_environment = TEST, xc_contract_fingerprint = contract_fingerprint h s,
     xc_authority_fingerprint = ms_snapshot_fingerprint s, xc_source_root = ms_repository_toplevel s,
     xc_branch = ms_branch s, xc_base_commit = ms_base_commit s, xc_current_actor_role = CONTROLLER\<rparr>"

text \<open>The four operations of a first seed, each at a clock of its own.\<close>

definition seed_new :: "cut_host \<Rightarrow> (nat \<Rightarrow> ctx) \<Rightarrow> migration_slice \<Rightarrow> execution_row seeding" where
  "seed_new h cs s =
    seed_bnd (seed_reply (raised (seed_key h ''cut1-isolated-seed'' s))) (\<lambda>key.
    seed_bnd (seed_store seed_label (create_execution (cs 0) (cp_create h s) key)) (\<lambda>created.
    seed_bnd (seed_reply (raised (seed_key h ''cut1-isolated-seed-lease'' s))) (\<lambda>lease_key.
    seed_bnd (seed_store seed_label (acquire_lease (cs 1) \<lparr>lq_execution_id = cut2_execution_id,
        lq_expected_version = ex_state_version created, lq_operation_key = lease_key, lq_owner = cp_importer,
        lq_ttl_seconds = 60\<rparr>)) (\<lambda>leased.
    seed_bnd (seed_reply (raised (seed_key h ''cut1-isolated-seed-result'' s))) (\<lambda>result_key.
    seed_bnd (seed_store seed_label (register_result_commit (cs 2) \<lparr>cq_execution_id = cut2_execution_id,
        cq_expected_version = ex_state_version leased, cq_operation_key = result_key,
        cq_result_commit = ms_implementation_result_commit s, cq_owner = cp_importer,
        cq_generation = ex_lease_generation leased, cq_actor_role = CONTROLLER, cq_actor_id = cp_importer\<rparr>)) (\<lambda>registered.
    seed_bnd (seed_reply (raised (seed_key h ''cut1-isolated-seed-release'' s))) (\<lambda>release_key.
    seed_store seed_label (release_lease (cs 3) \<lparr>uq_execution_id = cut2_execution_id,
        uq_expected_version = ex_state_version registered, uq_operation_key = release_key, uq_owner = cp_importer,
        uq_generation = ex_lease_generation registered\<rparr>))))))))"

definition seed_or_replay :: "cut_host \<Rightarrow> (nat \<Rightarrow> ctx) \<Rightarrow> migration_slice \<Rightarrow> (execution_row \<times> bool) seeding" where
  "seed_or_replay h cs s d =
    (let existing = find_execution cut2_execution_id d in
     seed_bnd (seed_reply (raised (ch_resolve h True (path_text (path_of (ms_repository_toplevel s)))))) (\<lambda>root.
     case existing of
       Some r \<Rightarrow> seed_reply (if \<not> seed_matches h s root r then Inl (Cutover ''SEED_FINGERPRINT_CONFLICT'' cut2_execution_id)
         else Inr (r, True))
     | None \<Rightarrow> seed_bnd (seed_new h cs s) (\<lambda>r. seed_reply (Inr (r, False)))) d)"

definition seed_isolated_cp ::
  "cut_host \<Rightarrow> (nat \<Rightarrow> ctx) \<Rightarrow> string \<Rightarrow> migration_manifest \<Rightarrow> git_binding \<Rightarrow> seed_result seeding" where
  "seed_isolated_cp h cs p m binding =
    seed_bnd (seed_reply (
      bnd (isolated_store_path h p) (\<lambda>path.
      bnd (validate_manifest (ch_sha h) m) (\<lambda>_.
      bnd (manifest_slice m cp_slice_id) (\<lambda>s.
      bnd (classify_seed_eligibility h s (Some binding)) (\<lambda>(eligibility, reason).
      if eligibility \<noteq> Seed_eligible then Inl (Cutover ''SEED_INELIGIBLE'' reason)
      else bnd (raised (ch_opening h 0 path)) (\<lambda>_. Inr s))))))) (\<lambda>s.
    seed_bnd (seed_or_replay h cs s) (\<lambda>(r, replayed).
    seed_reply (bnd (raised (manifest_fingerprint (ch_sha h) m)) (\<lambda>digest.
      Inr \<lparr>sd_execution_id = cut2_execution_id, sd_manifest_fingerprint = digest,
        sd_entry_fingerprint = ms_snapshot_fingerprint s, sd_state = ex_state r,
        sd_state_version = ex_state_version r, sd_result_commit = ex_result_commit r,
        sd_authority_mode = transitional, sd_replayed = replayed\<rparr>))))"

section \<open>The control state of a slice\<close>

definition nullable_manifest_value :: "string \<Rightarrow> string option" where
  "nullable_manifest_value v = (if v \<in> {none_text, unbound, unresolved_base} then None else Some v)"

text \<open>The class, the eligibility, the reason and the execution of the target.\<close>

definition target_disposition ::
  "migration_slice \<Rightarrow> string option \<Rightarrow> cutover_failure + string \<times> string \<times> string option \<times> string option" where
  "target_disposition s active =
    (if ms_migration_class s = migration_class_text Migrate_ready then
       (if active \<in> {None, Some []} then Inl (Cutover ''ACTIVE_EXECUTION_REQUIRED'' (ms_slice_id s))
        else Inr (''MIGRATE_AS_READY_CURRENT_STATE'', ''ELIGIBLE_BOUND'', None, active))
     else if ms_migration_class s = migration_class_text Defer_binding
       then Inr (''DEFER_BINDING'', ''INELIGIBLE_UNTIL_PREFLIGHT'', Some (ms_seed_defer_reason s), None)
     else if ms_migration_class s = migration_class_text Defer_prerequisite
       then Inr (''DEFER_PREREQUISITE'', ''INELIGIBLE_UNTIL_PREREQUISITE'', Some (ms_seed_defer_reason s), None)
     else Inl (Cutover ''CONTROL_STATE_MIGRATION_CLASS_INVALID'' (ms_slice_id s)))"

definition target_toplevel :: "cut_host \<Rightarrow> migration_slice \<Rightarrow> string option result" where
  "target_toplevel h s = (case nullable_manifest_value (ms_repository_toplevel s) of
     None \<Rightarrow> Inr None | Some p \<Rightarrow> bnd (expanded h False p) (\<lambda>x. Inr (Some x)))"

definition control_state_fingerprint :: "cut_host \<Rightarrow> slice_target \<Rightarrow> string" where
  "control_state_fingerprint h t = hashed h (JObj (slice_semantics_json t))"

definition control_state_target ::
  "cut_host \<Rightarrow> migration_slice \<Rightarrow> string option \<Rightarrow> cutover_failure + slice_target" where
  "control_state_target h s active =
    bnd (validate_slice (ch_sha h) s) (\<lambda>_.
    bnd (target_disposition s active) (\<lambda>(class, eligibility, reason, execution).
    bnd (raised (target_toplevel h s)) (\<lambda>toplevel.
    let commit = (\<lambda>v. if class = ''MIGRATE_AS_READY_CURRENT_STATE'' then nullable_manifest_value v else None);
        t = \<lparr>sl_id = ms_slice_id s, sl_stage = ms_registry_stage s, sl_status = ms_registry_status s,
          sl_migration_class = class, sl_execution_eligibility = eligibility, sl_defer_reason = reason,
          sl_logical_source_root = ms_logical_source_root s, sl_repository_toplevel = toplevel,
          sl_branch = nullable_manifest_value (ms_branch s), sl_base_commit = commit (ms_base_commit s),
          sl_implementation_result_commit = commit (ms_implementation_result_commit s),
          sl_current_branch_head = commit (ms_current_branch_head s), sl_active_execution_id = execution,
          sl_authority_fingerprint = []\<rparr>
    in Inr (t\<lparr>sl_authority_fingerprint := control_state_fingerprint h t\<rparr>))))"

text \<open>The snapshot of the control states: every field but the times, in the order of the slices.\<close>

definition snapshot_row :: "slice_row \<Rightarrow> json" where
  "snapshot_row r = JObj (slice_semantics_json (sc_fields r)
     @ [(''authority_fingerprint'', JStr (sl_authority_fingerprint (sc_fields r))),
        (''state_version'', JInt (sc_state_version r))])"

definition control_snapshot_payload :: "slice_row list \<Rightarrow> (string \<times> json) list" where
  "control_snapshot_payload rows =
    [(''snapshot_version'', JInt 2), (''authority_mode'', JStr transitional),
     (''slice_control_states'', JList (map snapshot_row (sort_key sc_id rows)))]"

definition control_snapshot_fingerprint :: "cut_host \<Rightarrow> slice_row list \<Rightarrow> string" where
  "control_snapshot_fingerprint h rows = hashed h (JObj (control_snapshot_payload rows))"

definition control_snapshot_material :: "cut_host \<Rightarrow> slice_row list \<Rightarrow> json" where
  "control_snapshot_material h rows = JObj (control_snapshot_payload rows
     @ [(''snapshot_fingerprint'', JStr (control_snapshot_fingerprint h rows))])"

section \<open>The rehearsal\<close>

definition rehearsal_label :: string where
  "rehearsal_label = ''E1_ISOLATED_REHEARSAL_FAILED''"

definition rehearsal_key :: "cut_host \<Rightarrow> slice_target \<Rightarrow> string result" where
  "rehearsal_key h t = operation_key (ch_sha h) ''cut3-e1-control-state-seed''
     (PDict [(PStr ''slice_id'', PStr (sl_id t)), (PStr ''authority_fingerprint'', PStr (sl_authority_fingerprint t))])"

definition rehearsal_request :: "slice_target \<Rightarrow> int \<Rightarrow> string \<Rightarrow> string \<Rightarrow> slice_request" where
  "rehearsal_request t expected key digest =
    \<lparr>sq_target = t, sq_expected_version = expected, sq_operation_key = key,
     sq_reason_code = ''CUT3_E1_ISOLATED_RECONCILE'',
     sq_metadata = PDict [(PStr ''manifest_fingerprint'', PStr digest)],
     sq_required_mode = None, sq_expected_generation = None, sq_insert_only = False\<rparr>"

definition present_version :: "string \<Rightarrow> db \<Rightarrow> int" where
  "present_version i d = (case find_slice i d of None \<Rightarrow> -1 | Some r \<Rightarrow> sc_state_version r)"

text \<open>One slice of the loop: its target, its key and its reconciliation; whether it was a replay.\<close>

definition rehearse_slice ::
  "cut_host \<Rightarrow> ctx \<Rightarrow> migration_manifest \<Rightarrow> string \<Rightarrow> migration_slice \<Rightarrow> bool seeding" where
  "rehearse_slice h c m execution s d =
    seed_bnd (seed_reply (control_state_target h s (if ms_slice_id s = cp_slice_id then Some execution else None))) (\<lambda>t.
    seed_bnd (seed_reply (raised (rehearsal_key h t))) (\<lambda>key.
    seed_bnd (seed_reply (raised (manifest_fingerprint (ch_sha h) m))) (\<lambda>digest.
    seed_bnd (seed_store rehearsal_label (reconcile_slice_control_state c
        (rehearsal_request t (present_version (ms_slice_id s) d) key digest))) (\<lambda>(_, same).
    seed_reply (Inr same))))) d"

fun rehearse_slices ::
  "cut_host \<Rightarrow> (nat \<Rightarrow> ctx) \<Rightarrow> nat \<Rightarrow> migration_manifest \<Rightarrow> string \<Rightarrow> migration_slice list \<Rightarrow> bool seeding" where
  "rehearse_slices h cs n m execution [] = seed_reply (Inr True)"
| "rehearse_slices h cs n m execution (s # ss) =
     seed_bnd (rehearse_slice h (cs n) m execution s) (\<lambda>same.
     seed_bnd (rehearse_slices h cs (Suc n) m execution ss) (\<lambda>rest. seed_reply (Inr (same \<and> rest))))"

definition rollback_fingerprint :: "cut_host \<Rightarrow> string" where
  "rollback_fingerprint h = hashed h (JObj [(''snapshot_version'', JInt 2), (''authority_mode'', JStr transitional),
     (''authority_generation'', JInt 0), (''slice_control_states'', JList [])])"

record rehearsal_result =
  rr_store_path :: string
  rr_execution_id :: string
  rr_slice_rows :: "slice_row list"
  rr_slice_snapshot :: string
  rr_rollback_snapshot :: string
  rr_authority_generation :: int
  rr_authority_mode :: authority_mode
  rr_replayed :: bool

definition rehearse_authority :: "cut_host \<Rightarrow> ctx \<Rightarrow> string \<Rightarrow> (authority_row \<times> bool) seeding" where
  "rehearse_authority h c snapshot =
    seed_bnd (seed_store rehearsal_label (\<lambda>d. (get_authority d, d))) (\<lambda>a.
    seed_store rehearsal_label (reconcile_transitional_authority c (au_generation a) snapshot (rollback_fingerprint h)))"

definition seed_isolated_five_slice_control_state ::
  "cut_host \<Rightarrow> (nat \<Rightarrow> ctx) \<Rightarrow> string \<Rightarrow> migration_manifest \<Rightarrow> git_binding \<Rightarrow> rehearsal_result seeding" where
  "seed_isolated_five_slice_control_state h cs p m binding =
    seed_bnd (seed_reply (isolated_store_path h p)) (\<lambda>path.
    seed_bnd (seed_isolated_cp h cs path m binding) (\<lambda>seed.
    seed_bnd (seed_reply (raised (ch_opening h 1 path))) (\<lambda>_.
    seed_bnd (rehearse_slices h cs 4 m (sd_execution_id seed) (mm_slices m)) (\<lambda>same d.
    let rows = sort_key sc_id (slices d) in
    if length rows \<noteq> 5 then (Inl (Cutover ''CONTROL_STATE_SLICE_COUNT_INVALID'' (nat_text (length rows))), d)
    else seed_bnd (rehearse_authority h (cs 9) (control_snapshot_fingerprint h rows)) (\<lambda>(a, authority_same).
      seed_reply (Inr \<lparr>rr_store_path = path, rr_execution_id = sd_execution_id seed, rr_slice_rows = rows,
        rr_slice_snapshot = control_snapshot_fingerprint h rows, rr_rollback_snapshot = rollback_fingerprint h,
        rr_authority_generation = au_generation a, rr_authority_mode = au_mode a,
        rr_replayed = (sd_replayed seed \<and> same \<and> authority_same)\<rparr>)) d))))"

section \<open>The documents\<close>

definition slice_actions :: "string \<Rightarrow> (string \<times> string) option" where
  "slice_actions = map_of
    [(cp_slice_id, ''D4=1 approved; S6-C1 Controlled Notion Validation ready'',
        ''Run the accepted S6-C1 packet; retain Transitional Authority''),
     (''OPENCLAW.PHASE1.OPS_BRIEFING'', ''Execution packet v1.2 frozen'',
        ''Resolve branch and Base Commit in Maker preflight before seed''),
     (''OPENCLAW.PHASE2A.PHOTO_REVIEW'', ''Logical contract awaiting prerequisites'',
        ''Complete Phase 1 acceptance and user decisions''),
     (''OPENCLAW.PHASE2B.INCIDENT_DIAGNOSIS'', ''Logical contract awaiting prerequisites'',
        ''Resolve Phase 1 logging and recovery ownership''),
     (''OPENCLAW.PHASE2C.WEB_RESEARCH'', ''Logical contract awaiting prerequisites'',
        ''Resolve sandbox, cookie, and Research Inbox prerequisites'')]"

definition projection_matches :: "migration_slice \<Rightarrow> execution_row \<Rightarrow> bool" where
  "projection_matches s r \<longleftrightarrow> ex_slice_id r = ms_slice_id s \<and> ex_base_commit r = ms_base_commit s
     \<and> ex_result_commit r = Some (ms_implementation_result_commit s) \<and> ex_branch r = ms_branch s
     \<and> ex_authority_fingerprint r = ms_snapshot_fingerprint s"

definition registry_payload :: "migration_slice \<Rightarrow> execution_row option \<Rightarrow> string \<Rightarrow> string \<Rightarrow> (string \<times> json) list" where
  "registry_payload s execution current following =
    [(''slice_id'', JStr (ms_slice_id s)),
     (''semantic_view'', JObj [(''Stage'', JStr (ms_registry_stage s)), (''Status'', JStr (ms_registry_status s)),
        (''Base Commit'', JStr (ms_base_commit s)), (''Result Commit'', JStr (ms_implementation_result_commit s)),
        (''Current Action'', JStr current), (''Next Action'', JStr following)]),
     (''metadata'', JObj [(''control_execution_id'', json_opt (map_option ex_id execution)),
        (''projection_version'', JInt 1), (''projection_status'', JStr ''ISOLATED_COMPARISON_ONLY''),
        (''implementation_result_commit'', JStr (ms_implementation_result_commit s)),
        (''current_branch_head'', JStr (ms_current_branch_head s)),
        (''snapshot_fingerprint'', JStr (ms_snapshot_fingerprint s))])]"

text \<open>A view: the slice it shows, and its document with the fingerprint of the rest.\<close>

definition sealed_document :: "cut_host \<Rightarrow> string \<Rightarrow> (string \<times> json) list \<Rightarrow> json" where
  "sealed_document h name payload = JObj (payload @ [(name, JStr (hashed h (JObj payload)))])"

definition registry_projection ::
  "cut_host \<Rightarrow> migration_slice \<Rightarrow> execution_row option \<Rightarrow> cutover_failure + string \<times> json" where
  "registry_projection h s execution =
    bnd (validate_slice (ch_sha h) s) (\<lambda>_.
    bnd (if ms_seed_eligibility s = eligibility_text Seed_eligible then
           (case execution of None \<Rightarrow> Inl (Cutover ''SEEDED_EXECUTION_REQUIRED'' (ms_slice_id s))
             | Some r \<Rightarrow> if \<not> projection_matches s r then Inl (Cutover ''PROJECTION_BINDING_MISMATCH'' (ms_slice_id s))
                 else Inr ())
         else Inr ()) (\<lambda>_.
    case slice_actions (ms_slice_id s) of
      None \<Rightarrow> Inl (Cut_raised (PythonError ''KeyError''))
    | Some (current, following) \<Rightarrow> Inr (ms_slice_id s,
        sealed_document h ''projection_fingerprint'' (registry_payload s execution current following))))"

definition handoff_projection ::
  "cut_host \<Rightarrow> migration_manifest \<Rightarrow> (string \<times> json) list \<Rightarrow> cutover_failure + json" where
  "handoff_projection h m views =
    bnd (validate_manifest (ch_sha h) m) (\<lambda>_.
    bnd (raised (manifest_fingerprint (ch_sha h) m)) (\<lambda>digest.
    Inr (sealed_document h ''projection_fingerprint''
      [(''handoff_projection_version'', JInt 1), (''current_role'', JStr ''TRANSITIONAL_HUMAN_CONTROL_VIEW''),
       (''development_control_store_authority'', JStr ''NO''), (''authority_mode'', JStr transitional),
       (''manifest_fingerprint'', JStr digest),
       (''slices'', JList (map snd (sort_key fst views)))])))"

definition logical_execution :: "execution_row \<Rightarrow> json" where
  "logical_execution r = JObj
    [(''execution_id'', JStr (ex_id r)), (''slice_id'', JStr (ex_slice_id r)),
     (''risk_level'', JStr (risk_value (ex_risk_level r))),
     (''environment'', JStr (environment_value (ex_environment r))), (''state'', JStr (state_value (ex_state r))),
     (''state_version'', JInt (ex_state_version r)), (''contract_fingerprint'', JStr (ex_contract_fingerprint r)),
     (''authority_fingerprint'', JStr (ex_authority_fingerprint r)), (''source_root'', JStr (ex_source_root r)),
     (''branch'', JStr (ex_branch r)), (''base_commit'', JStr (ex_base_commit r)),
     (''result_commit'', json_opt (ex_result_commit r)),
     (''current_actor_role'', JStr (role_value (ex_current_actor_role r)))]"

definition slice_disposition_json :: "migration_slice \<Rightarrow> json" where
  "slice_disposition_json s = JObj [(''slice_id'', JStr (ms_slice_id s)),
     (''migration_class'', JStr (ms_migration_class s)), (''seed_eligibility'', JStr (ms_seed_eligibility s)),
     (''seed_defer_reason'', JStr (ms_seed_defer_reason s))]"

definition snapshot_restore_material ::
  "cut_host \<Rightarrow> string \<Rightarrow> migration_manifest \<Rightarrow> execution_row list \<Rightarrow> cutover_failure + json" where
  "snapshot_restore_material h p m rows =
    bnd (isolated_store_path h p) (\<lambda>path.
    bnd (validate_manifest (ch_sha h) m) (\<lambda>_.
    bnd (canonical_payload (ch_sha h) m) (\<lambda>payload.
    bnd (raised (manifest_fingerprint (ch_sha h) m)) (\<lambda>digest.
    Inr (sealed_document h ''snapshot_fingerprint''
      [(''snapshot_version'', JInt 1), (''purpose'', JStr ''CUT1_TEST_ISOLATED_PRE_CUTOVER''),
       (''accepted_adcp_repository_baseline'', JStr ''23423df894bc8a2a3d952def0664b0b9a639c4b4''),
       (''authority_mode'', JStr transitional), (''sqlite_schema_version'', JInt schema_version),
       (''manifest_canonical_payload'', JStr payload), (''manifest_fingerprint'', JStr digest),
       (''slice_dispositions'', JList (map slice_disposition_json (mm_slices m))),
       (''isolated_store_path'', JStr path),
       (''isolated_store_identity'', JStr (hashed h (JObj [(''isolated_store_path'', JStr path)]))),
       (''restore_inputs'', JObj [(''slice_executions'', JList (map logical_execution (sort_key ex_id rows)))])])))))"

end
