(* ===== verification/Cutover_Properties.thy ===== *)
theory Cutover_Properties
  imports Cutover Scenario
begin

text \<open>
  What the cutover rehearsal promises: a rehearsal of a fresh isolated store can be repeated without
  effect, nothing is written without a verified binding, and a manifest reads back from its text.
\<close>

section \<open>Computations over the isolated store\<close>

named_theorems seeds \<open>what a successful seeding computation has done\<close>

lemma raised_Inr [seeds]: "raised r = Inr x \<longleftrightarrow> r = Inr x"
  by (cases r) (auto simp: raised_def)

lemma caught_Inr [seeds]: "caught label r = Inr x \<longleftrightarrow> r = Inr x"
  by (auto simp: caught_def split: sum.splits store_error.splits)

lemma seed_bnd_Inr [seeds]:
  "seed_bnd m k d = (Inr y, d') \<longleftrightarrow> (\<exists>x d1. m d = (Inr x, d1) \<and> k x d1 = (Inr y, d'))"
  by (auto simp: seed_bnd_def split: prod.splits sum.splits)

lemma seed_bnd_does: "m d = (Inr x, d1) \<Longrightarrow> seed_bnd m k d = k x d1"
  by (simp add: seed_bnd_def)

lemma seed_reply_Inr [seeds]: "seed_reply r d = (Inr x, d') \<longleftrightarrow> r = Inr x \<and> d' = d"
  by (auto simp: seed_reply_def)

lemma seed_store_Inr [seeds]: "seed_store label op d = (Inr x, d') \<longleftrightarrow> op d = (Inr x, d')"
  by (auto simp: seed_store_def caught_Inr split: prod.splits)

lemma reply_does [simp]: "seed_bnd (seed_reply (Inr x)) k d = k x d"
  by (simp add: seed_bnd_def seed_reply_def)

lemma raised_Inr_simp [simp]: "raised (Inr x) = Inr x"
  by (simp add: raised_def)

lemma call_done:
  assumes "precheck m (\<lambda>x d. reading (g x) (transaction c (b x) d)) d = (Inr r, d')"
  obtains x a where "m = Inr x" "b x d = Inr (a, d')" "g x a d' = Inr r"
proof -
  from assms have f: "fst (precheck m (\<lambda>x d. reading (g x) (transaction c (b x) d)) d) = Inr r"
    and s: "snd (precheck m (\<lambda>x d. reading (g x) (transaction c (b x) d)) d) = d'" by simp_all
  from f obtain x where x: "m = Inr x" "fst (reading (g x) (transaction c (b x) d)) = Inr r"
    by (auto simp: fst_precheck)
  from x(2) obtain a where a: "fst (transaction c (b x) d) = Inr a" "g x a (snd (transaction c (b x) d)) = Inr r"
    by (auto simp: fst_reading)
  from s x(1) have "snd (transaction c (b x) d) = d'" by (simp add: precheck_def)
  with a fst_transaction [OF a(1)] x(1) show thesis by (intro that [of x a]) auto
qed

lemma call_does:
  "m = Inr x \<Longrightarrow> \<not> guard_required c \<Longrightarrow> b x d = Inr (a, d') \<Longrightarrow> g x a d' = Inr r
    \<Longrightarrow> precheck m (\<lambda>x d. reading (g x) (transaction c (b x) d)) d = (Inr r, d')"
  by (simp add: precheck_def reading_def transaction_def transaction_unchecked_def begin_guard_def)

section \<open>A first seed\<close>

text \<open>What a seed leaves as it was, and what the log of a young execution may hold.\<close>

definition beside_executions :: "db \<Rightarrow> slice_row list \<times> slice_event_row list \<times> authority_row option" where
  "beside_executions d = (slices d, slice_events d, authority d)"

definition log_of_types :: "event_type set \<Rightarrow> db \<Rightarrow> bool" where
  "log_of_types T d \<longleftrightarrow> (\<forall>e\<in>set (events d). ev_event_type e \<in> T)"

lemma young_log: "log_of_types T d \<Longrightarrow> type \<notin> T \<Longrightarrow> existing_event i key type payload d = Inr x \<Longrightarrow> x = None"
  by (cases x) (auto simp: log_of_types_def dest!: existing_event_Some)

lemma logged: "insert_event c n e d = Inr d' \<Longrightarrow> log_of_types T d \<Longrightarrow> log_of_types (insert (ev_event_type e) T) d'
    \<and> beside_executions d' = beside_executions d \<and> executions d' = executions d"
  by (drule insert_event_Inr(1)) (auto simp: log_of_types_def beside_executions_def)

lemma created_alone:
  assumes "create_execution c x key d = (Inr r, d')" and "executions d = []" and "log_of_types {} d"
  shows "\<exists>root. canonical_source_root c (xc_source_root x) = Inr root \<and> r = created_execution x key root (clock c 1)
    \<and> executions d' = [r] \<and> log_of_types {EXECUTION_CREATED} d' \<and> beside_executions d' = beside_executions d"
proof -
  from assms(1) [unfolded create_execution_def] obtain root i where
      root: "canonical_source_root c (xc_source_root x) = Inr root"
    and body: "create_execution_body c x key root d = Inr (i, d')" and get: "get_execution i d' = Inr r"
    by (rule call_done) (auto simp: success)
  let ?r = "created_execution x key root (clock c 1)"
  from body assms(2) obtain d1 where ins: "insert_execution ?r d = Inr d1" and i: "i = xc_execution_id x"
    and ev: "insert_event c 0 (created_event x key (dumps (create_request_json x root)) (clock c 1)) d1 = Inr d'"
    by (auto simp: create_execution_body_def Let_def success)
  from insert_execution_Inr(2) [OF ins] have d1: "d1 = d\<lparr>executions := executions d @ [?r]\<rparr>" by simp
  with assms have "log_of_types {} d1" "beside_executions d1 = beside_executions d" "executions d1 = [?r]"
    by (simp_all add: log_of_types_def beside_executions_def)
  with logged [OF ev] have after: "executions d' = [?r]" "log_of_types {EXECUTION_CREATED} d'"
      "beside_executions d' = beside_executions d"
    by (auto simp: created_event_def)
  with get i have "r = ?r"
    by (simp add: get_execution_def find_execution_def created_execution_def)
  with after root show ?thesis by blast
qed

text \<open>The three later operations change the one row in a known way.\<close>

lemma alone_updated:
  assumes "update_at_version i v f d = Inr (d', n)" "executions d = [r]" "ex_id r = i" "ex_state_version r = v"
  shows "executions d' = [f r] \<and> (log_of_types T d' = log_of_types T d) \<and> beside_executions d' = beside_executions d"
proof -
  from update_executions_Inr [OF assms(1) [unfolded update_at_version_def]] assms(2-4)
  have "d' = d\<lparr>executions := [f r]\<rparr>" by (simp add: update_where_def)
  then show ?thesis by (simp add: log_of_types_def beside_executions_def)
qed

lemma alone_found: "executions d = [r] \<Longrightarrow> find_execution i d = Some x \<longleftrightarrow> ex_id r = i \<and> x = r"
  by (auto simp: find_execution_def)

lemma alone_got: "executions d = [r] \<Longrightarrow> get_execution i d = Inr x \<longleftrightarrow> ex_id r = i \<and> x = r"
  by (auto simp: get_execution_def find_execution_def success)

lemma leased_alone:
  assumes "acquire_lease c q d = (Inr r', d')" and "executions d = [r]" and "log_of_types T d" "LEASE_ACQUIRED \<notin> T"
  shows "\<exists>e t. r' = r\<lparr>ex_lease_owner := Some (lq_owner q), ex_lease_generation := ex_lease_generation r + 1,
      ex_lease_expires_at := Some e, ex_state_version := ex_state_version r + 1, ex_updated_at := t\<rparr>
    \<and> executions d' = [r'] \<and> log_of_types (insert LEASE_ACQUIRED T) d' \<and> beside_executions d' = beside_executions d"
proof -
  from assms(1) [unfolded acquire_lease_def] have body: "acquire_lease_body c q d = Inr ((), d')"
    and get: "get_execution (lq_execution_id q) d' = Inr r'"
    by (auto elim!: call_done)
  note none = young_log [OF assms(3-4)]
  from body obtain x where x: "existing_event (lq_execution_id q) (lq_operation_key q) LEASE_ACQUIRED
      (dumps (lease_request_json q)) d = Inr x"
    by (auto simp: acquire_lease_body_def Let_def success)
  note none = none [OF x]
  from body assms(2) obtain d1 where r: "ex_id r = lq_execution_id q" "ex_state_version r = lq_expected_version q"
    and cas: "cas_execution (lq_execution_id q) (lq_expected_version q) (\<lambda>x. x\<lparr>ex_lease_owner := Some (lq_owner q),
        ex_lease_generation := ex_lease_generation r + 1,
        ex_lease_expires_at := Some (clock c 1 + seconds (lq_ttl_seconds q)), ex_state_version := ex_state_version x + 1,
        ex_updated_at := clock c 1\<rparr>) d = Inr d1"
    and ev: "insert_event c 0 (event_from LEASE_ACQUIRED r (lq_operation_key q) (ex_state r) CONTROLLER
        (lq_owner q) (ex_lease_generation r + 1) ''LEASE_ACQUIRED'' None (dumps (lease_request_json q)) (clock c 1)) d1 = Inr d'"
    by (auto simp: acquire_lease_body_def Let_def success x none alone_found)
  from cas_execution_Inr [OF cas] obtain n where n: "update_at_version (lq_execution_id q) (lq_expected_version q)
      (\<lambda>x. x\<lparr>ex_lease_owner := Some (lq_owner q),
        ex_lease_generation := ex_lease_generation r + 1,
        ex_lease_expires_at := Some (clock c 1 + seconds (lq_ttl_seconds q)), ex_state_version := ex_state_version x + 1,
        ex_updated_at := clock c 1\<rparr>) d = Inr (d1, n)" by blast
  note d1 = alone_updated [OF n assms(2) r]
  with assms(3) have "log_of_types T d1" by blast
  note d2 = logged [OF ev this]
  from d1 d2 get show ?thesis
    by (fastforce simp: alone_got event_from_def)
qed

lemma registered_alone:
  assumes "register_result_commit c q d = (Inr r', d')" and "executions d = [r]" and "log_of_types T d"
    "RESULT_COMMIT_REGISTERED \<notin> T"
  shows "\<exists>t. r' = r\<lparr>ex_result_commit := Some (cq_result_commit q), ex_state_version := ex_state_version r + 1,
      ex_updated_at := t\<rparr>
    \<and> executions d' = [r'] \<and> log_of_types (insert RESULT_COMMIT_REGISTERED T) d' \<and> beside_executions d' = beside_executions d"
proof -
  from assms(1) [unfolded register_result_commit_def] have body: "register_result_body c q d = Inr ((), d')"
    and get: "get_execution (cq_execution_id q) d' = Inr r'"
    by (auto elim!: call_done)
  from body obtain x where x: "existing_event (cq_execution_id q) (cq_operation_key q) RESULT_COMMIT_REGISTERED
      (dumps (result_request_json q)) d = Inr x"
    by (auto simp: register_result_body_def Let_def success)
  note none = young_log [OF assms(3-4) x]
  from body assms(2) obtain d1 n where r: "ex_id r = cq_execution_id q" "ex_state_version r = cq_expected_version q"
    and upd: "update_at_version (cq_execution_id q) (cq_expected_version q)
        (\<lambda>x. x\<lparr>ex_result_commit := Some (cq_result_commit q), ex_state_version := ex_state_version x + 1,
               ex_updated_at := clock c 1\<rparr>) d = Inr (d1, n)"
    and ev: "insert_event c 0 (event_from RESULT_COMMIT_REGISTERED r (cq_operation_key q) (ex_state r)
        (cq_actor_role q) (cq_actor_id q) (cq_generation q) ''RESULT_COMMIT_REGISTERED'' None
        (dumps (result_request_json q)) (clock c 1)) d1 = Inr d'"
    by (auto simp: register_result_body_def Let_def success x none alone_found)
  note d1 = alone_updated [OF upd assms(2) r]
  with assms(3) have "log_of_types T d1" by blast
  note d2 = logged [OF ev this]
  from d1 d2 get show ?thesis
    by (fastforce simp: alone_got event_from_def)
qed

lemma released_alone:
  assumes "release_lease c q d = (Inr r', d')" and "executions d = [r]" and "log_of_types T d" "LEASE_RELEASED \<notin> T"
  shows "\<exists>t. r' = r\<lparr>ex_lease_owner := None, ex_lease_expires_at := None, ex_state_version := ex_state_version r + 1,
      ex_updated_at := t\<rparr> \<and> executions d' = [r'] \<and> beside_executions d' = beside_executions d"
proof -
  from assms(1) [unfolded release_lease_def] have body: "release_lease_body c q d = Inr ((), d')"
    and get: "get_execution (uq_execution_id q) d' = Inr r'"
    by (auto elim!: call_done)
  from body obtain x where x: "existing_event (uq_execution_id q) (uq_operation_key q) LEASE_RELEASED
      (dumps (unlease_request_json q)) d = Inr x"
    by (auto simp: release_lease_body_def Let_def success)
  note none = young_log [OF assms(3-4) x]
  from body assms(2) obtain d1 n where r: "ex_id r = uq_execution_id q" "ex_state_version r = uq_expected_version q"
    and upd: "update_at_version (uq_execution_id q) (uq_expected_version q)
        (\<lambda>x. x\<lparr>ex_lease_owner := None, ex_lease_expires_at := None, ex_state_version := ex_state_version x + 1,
               ex_updated_at := clock c 1\<rparr>) d = Inr (d1, n)"
    and ev: "insert_event c 0 (event_from LEASE_RELEASED r (uq_operation_key q) (ex_state r) CONTROLLER
        (uq_owner q) (uq_generation q) ''LEASE_RELEASED'' None (dumps (unlease_request_json q)) (clock c 1)) d1 = Inr d'"
    by (auto simp: release_lease_body_def Let_def success x none alone_found)
  note d1 = alone_updated [OF upd assms(2) r]
  with assms(3) have "log_of_types T d1" by blast
  note d2 = logged [OF ev this]
  from d1 d2 get show ?thesis
    by (fastforce simp: alone_got event_from_def)
qed

text \<open>
  A first seed leaves one execution: READY, at version 3, with its result commit and no lease.
\<close>

lemma seed_new_done:
  assumes "seed_new h cs s d = (Inr r, d')" and "executions d = []" "log_of_types {} d"
  shows "\<exists>root. canonical_source_root (cs 0) (ms_repository_toplevel s) = Inr root \<and> seed_matches h s root r
    \<and> ex_state r = READY \<and> ex_state_version r = 3 \<and> ex_lease_owner r = None \<and> ex_id r = cut2_execution_id
    \<and> executions d' = [r] \<and> beside_executions d' = beside_executions d"
proof -
  from assms(1) obtain key lease_key result_key release_key r1 r2 r3 d1 d2 d3 where
      c: "create_execution (cs 0) (cp_create h s) key d = (Inr r1, d1)"
    and l: "acquire_lease (cs 1) \<lparr>lq_execution_id = cut2_execution_id, lq_expected_version = ex_state_version r1,
        lq_operation_key = lease_key, lq_owner = cp_importer, lq_ttl_seconds = 60\<rparr> d1 = (Inr r2, d2)"
    and g: "register_result_commit (cs 2) \<lparr>cq_execution_id = cut2_execution_id, cq_expected_version = ex_state_version r2,
        cq_operation_key = result_key, cq_result_commit = ms_implementation_result_commit s, cq_owner = cp_importer,
        cq_generation = ex_lease_generation r2, cq_actor_role = CONTROLLER, cq_actor_id = cp_importer\<rparr> d2 = (Inr r3, d3)"
    and u: "release_lease (cs 3) \<lparr>uq_execution_id = cut2_execution_id, uq_expected_version = ex_state_version r3,
        uq_operation_key = release_key, uq_owner = cp_importer, uq_generation = ex_lease_generation r3\<rparr> d3 = (Inr r, d')"
    by (auto simp: seed_new_def seeds)
  from created_alone [OF c assms(2-3)] obtain root where
      root: "canonical_source_root (cs 0) (xc_source_root (cp_create h s)) = Inr root"
    and r1: "r1 = created_execution (cp_create h s) key root (clock (cs 0) 1)" "executions d1 = [r1]"
      "log_of_types {EXECUTION_CREATED} d1" "beside_executions d1 = beside_executions d" by blast
  note a = leased_alone [OF l r1(2-3)]
  from a obtain e t where r2: "r2 = r1\<lparr>ex_lease_owner := Some cp_importer, ex_lease_generation := ex_lease_generation r1 + 1,
      ex_lease_expires_at := Some e, ex_state_version := ex_state_version r1 + 1, ex_updated_at := t\<rparr>"
      "executions d2 = [r2]" "log_of_types {LEASE_ACQUIRED, EXECUTION_CREATED} d2" "beside_executions d2 = beside_executions d1"
    by auto
  from registered_alone [OF g r2(2-3)] obtain t' where r3: "r3 = r2\<lparr>ex_result_commit := Some (ms_implementation_result_commit s),
      ex_state_version := ex_state_version r2 + 1, ex_updated_at := t'\<rparr>" "executions d3 = [r3]"
      "log_of_types {RESULT_COMMIT_REGISTERED, LEASE_ACQUIRED, EXECUTION_CREATED} d3" "beside_executions d3 = beside_executions d2"
    by auto
  from released_alone [OF u r3(2-3)] obtain t'' where "r = r3\<lparr>ex_lease_owner := None, ex_lease_expires_at := None,
      ex_state_version := ex_state_version r3 + 1, ex_updated_at := t''\<rparr>" "executions d' = [r]"
      "beside_executions d' = beside_executions d3"
    by auto
  with root r1 r2 r3 show ?thesis
    by (intro exI [of _ root]) (simp add: cp_create_def created_execution_def seed_matches_def)
qed

section \<open>The slices of a rehearsal\<close>

definition rehearsed_target :: "cut_host \<Rightarrow> string \<Rightarrow> migration_slice \<Rightarrow> cutover_failure + slice_target" where
  "rehearsed_target h execution s =
    control_state_target h s (if ms_slice_id s = cp_slice_id then Some execution else None)"

text \<open>A slice is settled when its row is its target and its event is the one of its key.\<close>

definition slice_settled :: "cut_host \<Rightarrow> ctx \<Rightarrow> migration_manifest \<Rightarrow> string \<Rightarrow> migration_slice \<Rightarrow> db \<Rightarrow> bool" where
  "slice_settled h c m execution s d \<longleftrightarrow> (\<exists>t key digest payload r e.
     rehearsed_target h execution s = Inr t \<and> rehearsal_key h t = Inr key
     \<and> manifest_fingerprint (ch_sha h) m = Inr digest
     \<and> slice_request_payload c (rehearsal_request t (-1) key digest) = Inr payload
     \<and> find_slice (ms_slice_id s) d = Some r \<and> sc_fields r = t \<and> 0 \<le> sc_state_version r
     \<and> find (\<lambda>e. se_operation_key e = key) (slice_events d) = Some e
     \<and> se_slice_id e = ms_slice_id s \<and> se_metadata_json e = payload)"

lemma rehearsed_id: "rehearsed_target h execution s = Inr t \<Longrightarrow> sl_id t = ms_slice_id s"
  by (auto simp: rehearsed_target_def control_state_target_def Let_def success)

lemma rehearsal_request_simps [simp]:
  "sq_target (rehearsal_request t v key digest) = t" "sq_operation_key (rehearsal_request t v key digest) = key"
  "sq_expected_version (rehearsal_request t v key digest) = v" "sq_insert_only (rehearsal_request t v key digest) = False"
  "sq_required_mode (rehearsal_request t v key digest) = None"
  by (simp_all add: rehearsal_request_def)

text \<open>The payload depends on the environment only by its hash and not on the version.\<close>

lemma rehearsal_payload_moves:
  "slice_request_payload c (rehearsal_request t v key digest) = Inr payload \<Longrightarrow> sha c' = sha c \<Longrightarrow> -1 \<le> w
    \<Longrightarrow> slice_request_payload c' (rehearsal_request t w key digest) = Inr payload"
  by (auto simp: slice_request_payload_def rehearsal_request_def validate_slice_target_def
      control_state_authority_fingerprint_def success)

lemma rehearse_slice_new:
  assumes ran: "rehearse_slice h c m execution s d = (Inr same, d')" and "find_slice (ms_slice_id s) d = None"
  shows "slice_settled h c m execution s d' \<and> executions d' = executions d \<and> authority d' = authority d
    \<and> (\<exists>r e. slices d' = slices d @ [r] \<and> sc_id r = ms_slice_id s \<and> slice_events d' = slice_events d @ [e]
        \<and> rehearsed_target h execution s = Inr (sc_fields r))"
proof -
  have v: "present_version (ms_slice_id s) d = -1" using assms(2) by (simp add: present_version_def)
  from ran v obtain t key digest r where t: "rehearsed_target h execution s = Inr t"
    and key: "rehearsal_key h t = Inr key" and digest: "manifest_fingerprint (ch_sha h) m = Inr digest"
    and call: "reconcile_slice_control_state c (rehearsal_request t (-1) key digest) d = (Inr (r, same), d')"
    by (auto simp: rehearse_slice_def rehearsed_target_def seeds split: prod.splits)
  note id = rehearsed_id [OF t]
  let ?q = "rehearsal_request t (-1) key digest"
  from call [unfolded reconcile_slice_control_state_def] obtain payload where
      payload: "slice_request_payload c ?q = Inr payload" and body: "reconcile_slice_body c ?q payload d = Inr (same, d')"
    by (rule call_done) (auto simp: success)
  from assms(2) id have unknown: "find_slice (sl_id t) d = None" by simp
  then have "get_slice (sl_id t) d \<noteq> Inr x" for x by (simp add: get_slice_def)
  with body unknown obtain d1 where
      fresh: "find (\<lambda>e. se_operation_key e = key) (slice_events d) = None"
    and ev: "insert_slice_event (slice_event_new ?q payload (-1) (clock c 1)) d = Inr d1"
    and ins: "insert_slice \<lparr>sc_fields = t, sc_state_version = 0, sc_created_at = clock c 1, sc_updated_at = clock c 1\<rparr> d1 = Inr d'"
    by (auto simp: reconcile_slice_body_def Let_def slice_authority_guard_def success
        split: option.splits if_splits)
  let ?r = "\<lparr>sc_fields = t, sc_state_version = 0, sc_created_at = clock c 1, sc_updated_at = clock c 1\<rparr>"
  from insert_slice_event_Inr [OF ev] insert_slice_Inr [OF ins]
  have d': "d' = d\<lparr>slice_events := slice_events d @ [slice_event_new ?q payload (-1) (clock c 1)],
      slices := slices d @ [?r]\<rparr>" by simp
  have "find_slice (ms_slice_id s) d' = Some ?r"
    using unknown id unfolding d' find_slice_def by (simp add: find_append)
  moreover have "find (\<lambda>e. se_operation_key e = key) (slice_events d') = Some (slice_event_new ?q payload (-1) (clock c 1))"
    using fresh unfolding d' by (simp add: find_append slice_event_new_def)
  ultimately have "slice_settled h c m execution s d'"
    unfolding slice_settled_def using t key digest payload id
    by (fastforce simp: slice_event_new_def)
  with d' t id show ?thesis by auto
qed

lemma settled_stays:
  "slice_settled h c m execution s d \<Longrightarrow> slices d' = slices d @ rs \<Longrightarrow> slice_events d' = slice_events d @ es
    \<Longrightarrow> slice_settled h c m execution s d'"
  unfolding slice_settled_def find_slice_def by (fastforce simp: find_append)

lemma settled_environment: "slice_settled h c m execution s d \<Longrightarrow> sha c' = sha c \<Longrightarrow> slice_settled h c' m execution s d"
  unfolding slice_settled_def by (blast intro: rehearsal_payload_moves)

lemma rehearse_settled:
  assumes "slice_settled h c m execution s d" and "\<not> guard_required c"
  shows "rehearse_slice h c m execution s d = (Inr True, d)"
proof -
  from assms(1) obtain t key digest payload r e where s: "rehearsed_target h execution s = Inr t"
      "rehearsal_key h t = Inr key" "manifest_fingerprint (ch_sha h) m = Inr digest"
      "slice_request_payload c (rehearsal_request t (-1) key digest) = Inr payload"
      "find_slice (ms_slice_id s) d = Some r" "sc_fields r = t" "0 \<le> sc_state_version r"
      "find (\<lambda>e. se_operation_key e = key) (slice_events d) = Some e"
      "se_slice_id e = ms_slice_id s" "se_metadata_json e = payload"
    unfolding slice_settled_def by blast
  note id = rehearsed_id [OF s(1)]
  let ?q = "rehearsal_request t (present_version (ms_slice_id s) d) key digest"
  have "slice_request_payload c ?q = Inr payload"
    using rehearsal_payload_moves [OF s(4) refl] s(5,7) by (simp add: present_version_def)
  moreover have "reconcile_slice_body c ?q payload d = Inr (True, d)"
    using s id by (simp add: reconcile_slice_body_def Let_def slice_authority_guard_def get_slice_def)
  moreover have "get_slice (sl_id t) d = Inr r" using s(5) id by (simp add: get_slice_def)
  ultimately have "reconcile_slice_control_state c ?q d = (Inr (r, True), d)"
    unfolding reconcile_slice_control_state_def using assms(2) by (intro call_does) simp_all
  then show ?thesis
    using s(1-3) by (simp add: rehearse_slice_def rehearsed_target_def seed_bnd_does seed_store_Inr seed_reply_def)
qed

lemma rehearse_slices_new:
  assumes "rehearse_slices h cs n m execution ss d = (Inr same, d')" and "distinct (map ms_slice_id ss)"
    and "\<forall>s\<in>set ss. find_slice (ms_slice_id s) d = None" and "\<And>k. sha (cs k) = ch_sha h"
  shows "(\<forall>s\<in>set ss. slice_settled h (cs 0) m execution s d') \<and> executions d' = executions d \<and> authority d' = authority d
    \<and> (\<exists>rs es. slices d' = slices d @ rs \<and> slice_events d' = slice_events d @ es
        \<and> map (rehearsed_target h execution) ss = map (Inr \<circ> sc_fields) rs)"
  using assms(1-3)
proof (induction ss arbitrary: n d same)
  case (Cons s ss)
  from Cons.prems(1) obtain same1 rest d1 where one: "rehearse_slice h (cs n) m execution s d = (Inr same1, d1)"
    and others: "rehearse_slices h cs (Suc n) m execution ss d1 = (Inr rest, d')"
    by (auto simp: seeds)
  from Cons.prems(3) have "find_slice (ms_slice_id s) d = None" by simp
  from rehearse_slice_new [OF one this] obtain r e where d1: "slice_settled h (cs n) m execution s d1"
      "executions d1 = executions d" "authority d1 = authority d" "slices d1 = slices d @ [r]" "sc_id r = ms_slice_id s"
      "slice_events d1 = slice_events d @ [e]" "rehearsed_target h execution s = Inr (sc_fields r)" by blast
  have "\<forall>x\<in>set ss. find_slice (ms_slice_id x) d1 = None"
    using Cons.prems(2-3) d1(4,5) by (auto simp: find_slice_def find_append)
  from Cons.IH [OF others _ this] Cons.prems(2) obtain rs es where rest: "\<forall>x\<in>set ss. slice_settled h (cs 0) m execution x d'"
      "executions d' = executions d1" "authority d' = authority d1" "slices d' = slices d1 @ rs"
      "slice_events d' = slice_events d1 @ es" "map (rehearsed_target h execution) ss = map (Inr \<circ> sc_fields) rs" by auto
  have "slice_settled h (cs 0) m execution s d1" using settled_environment [OF d1(1)] assms(4) by simp
  from settled_stays [OF this rest(4,5)] rest(1) have "\<forall>x\<in>set (s # ss). slice_settled h (cs 0) m execution x d'" by simp
  moreover have "slices d' = slices d @ r # rs" "slice_events d' = slice_events d @ e # es"
    using rest(4,5) d1(4,6) by simp_all
  ultimately show ?case using rest(2,3,6) d1(2,3,7) by fastforce
qed (simp add: seeds)

lemma rehearse_slices_settled:
  "\<forall>s\<in>set ss. slice_settled h c m execution s d \<Longrightarrow> \<forall>k. sha (cs k) = sha c \<and> \<not> guard_required (cs k)
    \<Longrightarrow> rehearse_slices h cs n m execution ss d = (Inr True, d)"
proof (induction ss arbitrary: n)
  case (Cons s ss)
  then have "rehearse_slice h (cs n) m execution s d = (Inr True, d)"
    by (intro rehearse_settled) (auto intro: settled_environment)
  with Cons show ?case by (simp add: seed_bnd_does seed_reply_def)
qed (simp add: seed_reply_def)

section \<open>The authority\<close>

lemma rehearse_authority_done:
  assumes "rehearse_authority h c snapshot d = (Inr (a, same), d')"
  shows "authority d' = Some a \<and> au_mode a = TRANSITIONAL_AUTHORITY \<and> au_slice_snapshot a = snapshot
    \<and> au_rollback_snapshot a = rollback_fingerprint h \<and> sha_ok snapshot \<and> sha_ok (rollback_fingerprint h)
    \<and> executions d' = executions d \<and> slices d' = slices d \<and> slice_events d' = slice_events d"
proof -
  from assms obtain a0 where get: "get_authority d = Inr a0"
    and call: "reconcile_transitional_authority c (au_generation a0) snapshot (rollback_fingerprint h) d = (Inr (a, same), d')"
    by (auto simp: rehearse_authority_def seeds)
  from call [unfolded reconcile_transitional_authority_def] have
      ok: "sha_ok snapshot" "sha_ok (rollback_fingerprint h)"
    and body: "reconcile_authority_body c (au_generation a0) snapshot (rollback_fingerprint h) d = Inr (same, d')"
    and after: "get_authority d' = Inr a"
    by (auto elim!: call_done simp: success)
  from body get after ok show ?thesis
    by (auto simp: reconcile_authority_body_def Let_def get_authority_def update_authority_def success
        split: option.splits if_splits prod.splits)
qed

lemma rehearse_authority_again:
  assumes "authority d = Some a" "au_mode a = TRANSITIONAL_AUTHORITY" "au_slice_snapshot a = snapshot"
    "au_rollback_snapshot a = rollback_fingerprint h" "sha_ok snapshot" "sha_ok (rollback_fingerprint h)"
    and "\<not> guard_required c"
  shows "rehearse_authority h c snapshot d = (Inr (a, True), d)"
proof -
  have get: "get_authority d = Inr a" using assms(1) by (simp add: get_authority_def)
  have "reconcile_authority_body c (au_generation a) snapshot (rollback_fingerprint h) d = Inr (True, d)"
    using assms get by (simp add: reconcile_authority_body_def Let_def)
  with get have "reconcile_transitional_authority c (au_generation a) snapshot (rollback_fingerprint h) d = (Inr (a, True), d)"
    unfolding reconcile_transitional_authority_def using assms(5-7)
    by (intro call_does) (simp_all add: require_sha256_def)
  with get show ?thesis
    by (simp add: rehearse_authority_def seed_bnd_def seed_store_Inr seed_store_def caught_def)
qed

section \<open>The rehearsal as a whole\<close>

lemma classified_slice: "seed_isolated_cp h cs p m binding d = (Inr x, d') \<Longrightarrow>
    \<exists>path s. isolated_store_path h p = Inr path \<and> validate_manifest (ch_sha h) m = Inr ()
      \<and> manifest_slice m cp_slice_id = Inr s \<and> (\<exists>reason. classify_seed_eligibility h s (Some binding) = Inr (Seed_eligible, reason))
      \<and> ch_opening h 0 path = Inr ()
      \<and> (\<exists>r replayed digest. seed_or_replay h cs s d = (Inr (r, replayed), d') \<and> manifest_fingerprint (ch_sha h) m = Inr digest
        \<and> x = \<lparr>sd_execution_id = cut2_execution_id, sd_manifest_fingerprint = digest,
        sd_entry_fingerprint = ms_snapshot_fingerprint s, sd_state = ex_state r,
        sd_state_version = ex_state_version r, sd_result_commit = ex_result_commit r,
        sd_authority_mode = transitional, sd_replayed = replayed\<rparr>)"
  by (auto simp: seed_isolated_cp_def seeds success split: prod.splits)

lemma seed_again:
  assumes ran: "seed_isolated_cp h cs p m binding d = (Inr x, d')" and fresh: "executions d = []" "log_of_types {} d"
    and roots: "\<And>q root. canonical_source_root (cs 0) q = Inr root \<Longrightarrow> ch_resolve h True (path_text (path_of q)) = Inr root"
  shows "executions d2 = executions d' \<Longrightarrow> seed_isolated_cp h cs' p m binding d2 = (Inr (x\<lparr>sd_replayed := True\<rparr>), d2)"
    and "beside_executions d' = beside_executions d" and "\<not> sd_replayed x" "sd_execution_id x = cut2_execution_id"
    and "\<exists>r. executions d' = [r] \<and> ex_id r = cut2_execution_id \<and> ex_state r = READY \<and> ex_lease_owner r = None"
proof -
  from classified_slice [OF ran] obtain path s reason r replayed digest where c: "isolated_store_path h p = Inr path"
      "validate_manifest (ch_sha h) m = Inr ()" "manifest_slice m cp_slice_id = Inr s"
      "classify_seed_eligibility h s (Some binding) = Inr (Seed_eligible, reason)" "ch_opening h 0 path = Inr ()"
      "manifest_fingerprint (ch_sha h) m = Inr digest"
    and r: "seed_or_replay h cs s d = (Inr (r, replayed), d')"
    and x: "x = \<lparr>sd_execution_id = cut2_execution_id, sd_manifest_fingerprint = digest,
        sd_entry_fingerprint = ms_snapshot_fingerprint s, sd_state = ex_state r,
        sd_state_version = ex_state_version r, sd_result_commit = ex_result_commit r,
        sd_authority_mode = transitional, sd_replayed = replayed\<rparr>" by blast
  from r fresh(1) have new: "seed_new h cs s d = (Inr r, d')" and replayed: "\<not> replayed"
    by (auto simp: seed_or_replay_def Let_def find_execution_def seeds)
  from seed_new_done [OF new fresh] obtain root where root: "canonical_source_root (cs 0) (ms_repository_toplevel s) = Inr root"
    and d': "seed_matches h s root r" "ex_id r = cut2_execution_id" "executions d' = [r]" "ex_state r = READY" "ex_lease_owner r = None"
      "beside_executions d' = beside_executions d" by blast
  show "seed_isolated_cp h cs' p m binding d2 = (Inr (x\<lparr>sd_replayed := True\<rparr>), d2)" if e: "executions d2 = executions d'"
  proof -
    from e d' roots [OF root] have "seed_or_replay h cs' s d2 = (Inr (r, True), d2)"
      by (simp add: seed_or_replay_def Let_def find_execution_def) (simp add: seed_reply_def)
    then show ?thesis
      using c x by (simp add: seed_isolated_cp_def seed_bnd_does) (simp add: seed_reply_def)
  qed
  show "beside_executions d' = beside_executions d" "\<not> sd_replayed x" "sd_execution_id x = cut2_execution_id"
      "\<exists>r. executions d' = [r] \<and> ex_id r = cut2_execution_id \<and> ex_state r = READY \<and> ex_lease_owner r = None"
    using d' x replayed by auto
qed

text \<open>
  C38. A rehearsal that succeeds on a fresh isolated store leaves one seeded execution, READY and without
  a lease, and of each slice of the manifest the row of its control target; and it can be repeated: with
  the same manifest, binding and host it succeeds again at any later times, reports a replay with
  the same rows, snapshots and authority, and changes nothing.
\<close>

theorem rehearsal_repeats:
  assumes ran: "seed_isolated_five_slice_control_state h cs p m binding d = (Inr x, d')"
    and fresh: "executions d = []" "events d = []" "slices d = []"
    and environment: "\<And>k. sha (cs k) = ch_sha h \<and> sha (cs' k) = ch_sha h \<and> \<not> guard_required (cs' k)"
    and roots: "\<And>q root. canonical_source_root (cs 0) q = Inr root \<Longrightarrow> ch_resolve h True (path_text (path_of q)) = Inr root"
  shows "seed_isolated_five_slice_control_state h cs' p m binding d' = (Inr (x\<lparr>rr_replayed := True\<rparr>), d')
    \<and> (\<exists>r. executions d' = [r] \<and> ex_id r = cut2_execution_id \<and> ex_state r = READY \<and> ex_lease_owner r = None)
    \<and> map (rehearsed_target h cut2_execution_id) (mm_slices m) = map (Inr \<circ> sc_fields) (slices d')
    \<and> rr_slice_rows x = sort_key sc_id (slices d')"
proof -
  have quiet: "log_of_types {} d" using fresh(2) by (simp add: log_of_types_def)
  from ran obtain path seed d1 d2 same a authority_same rows where p: "isolated_store_path h p = Inr path"
    and seed: "seed_isolated_cp h cs path m binding d = (Inr seed, d1)" and opened: "ch_opening h 1 path = Inr ()"
    and slices: "rehearse_slices h cs 4 m (sd_execution_id seed) (mm_slices m) d1 = (Inr same, d2)"
    and rows: "rows = sort_key sc_id (slices d2)" "length rows = 5"
    and auth: "rehearse_authority h (cs 9) (control_snapshot_fingerprint h rows) d2 = (Inr (a, authority_same), d')"
    and x: "x = \<lparr>rr_store_path = path, rr_execution_id = sd_execution_id seed, rr_slice_rows = rows,
        rr_slice_snapshot = control_snapshot_fingerprint h rows, rr_rollback_snapshot = rollback_fingerprint h,
        rr_authority_generation = au_generation a, rr_authority_mode = au_mode a,
        rr_replayed = (sd_replayed seed \<and> same \<and> authority_same)\<rparr>"
    by (auto simp: seed_isolated_five_slice_control_state_def seeds Let_def split: if_splits prod.splits)
  note again = seed_again [OF seed fresh(1) quiet roots]
  from again(2) fresh(3) have none: "slices d1 = []" by (simp add: beside_executions_def)
  from classified_slice [OF seed] have "distinct (map ms_slice_id (mm_slices m))"
    by (auto simp: validate_manifest_def split: if_splits)
  from rehearse_slices_new [OF slices this] none environment
  obtain rs where found: "\<forall>s\<in>set (mm_slices m). slice_settled h (cs 0) m (sd_execution_id seed) s d2"
      "executions d2 = executions d1" "slices d2 = slices d1 @ rs"
      "map (rehearsed_target h (sd_execution_id seed)) (mm_slices m) = map (Inr \<circ> sc_fields) rs"
    by (auto simp: find_slice_def)
  note finished = found(1,2) found(4) [folded found(3) [unfolded none append_Nil]]
  note after = rehearse_authority_done [OF auth]
  have same_executions: "executions d' = executions d1" using finished(2) after by simp
  from finished(1) after have "\<forall>s\<in>set (mm_slices m). slice_settled h (cs 0) m (sd_execution_id seed) s d'"
    by (auto intro: settled_stays [where rs = "[]" and es = "[]"])
  then have "rehearse_slices h cs' 4 m (sd_execution_id seed) (mm_slices m) d' = (Inr True, d')"
    using environment by (intro rehearse_slices_settled [where c = "cs 0"]) auto
  moreover have "rehearse_authority h (cs' 9) (control_snapshot_fingerprint h rows) d' = (Inr (a, True), d')"
    using after environment by (intro rehearse_authority_again) simp_all
  moreover have "seed_isolated_cp h cs' path m binding d' = (Inr (seed\<lparr>sd_replayed := True\<rparr>), d')"
    by (rule again(1) [OF _ same_executions])
  ultimately have "seed_isolated_five_slice_control_state h cs' p m binding d' = (Inr (x\<lparr>rr_replayed := True\<rparr>), d')"
    using p opened after rows x
    by (simp add: seed_isolated_five_slice_control_state_def seed_bnd_does Let_def) (simp add: seed_reply_def)
  moreover have "map (rehearsed_target h cut2_execution_id) (mm_slices m) = map (Inr \<circ> sc_fields) (slices d')"
    using finished(3) again(4) after by simp
  moreover have "rr_slice_rows x = sort_key sc_id (slices d')" using rows x after by simp
  ultimately show ?thesis using again(5) finished(2) after by auto
qed

section \<open>When a seed may write\<close>

text \<open>
  A seed that changes the store was given an absolute path outside the operational root, a valid manifest
  whose CP slice is ready, and a binding that is exactly the expected one.
\<close>

lemma seed_writes_only_bound:
  assumes "seed_isolated_cp h cs p m binding d = (r, d')" and "d' \<noteq> d"
  shows "\<exists>path s. isolated_store_path h p = Inr path \<and> validate_manifest (ch_sha h) m = Inr ()
    \<and> manifest_slice m cp_slice_id = Inr s \<and> ms_migration_class s = migration_class_text Migrate_ready
    \<and> expected_binding h s = Inr binding \<and> find_execution cut2_execution_id d = None"
proof -
  from assms obtain path s where s: "isolated_store_path h p = Inr path" "validate_manifest (ch_sha h) m = Inr ()"
      "manifest_slice m cp_slice_id = Inr s" "\<exists>reason. classify_seed_eligibility h s (Some binding) = Inr (Seed_eligible, reason)"
    and "snd (seed_or_replay h cs s d) \<noteq> d"
    by (auto simp: seed_isolated_cp_def seed_bnd_def seed_reply_def bnd_def split: sum.splits prod.splits if_splits)
  moreover from this(5) have "find_execution cut2_execution_id d = None"
    by (auto simp: seed_or_replay_def Let_def seed_bnd_def seed_reply_def split: option.splits sum.splits prod.splits)
  moreover from s(4) have "ms_migration_class s = migration_class_text Migrate_ready" "expected_binding h s = Inr binding"
    by (auto simp: classify_seed_eligibility_def success seeds split: if_splits)
  ultimately show ?thesis by blast
qed

text \<open>
  A seed that was cut off after the execution was created is not taken up again: every later seed reports a
  conflict, although each of its operations could be repeated under its key.
\<close>

lemma interrupted_seed_conflicts:
  assumes "find_execution cut2_execution_id d = Some r" and "ex_result_commit r = None"
  shows "\<not> (\<exists>x. fst (seed_isolated_cp h cs p m binding d) = Inr x) \<and> snd (seed_isolated_cp h cs p m binding d) = d"
  using assms by (auto simp: seed_isolated_cp_def seed_or_replay_def Let_def seed_matches_def seed_bnd_def seed_reply_def
      split: sum.splits prod.splits)

section \<open>The manifest as a text\<close>

lemma plain_entry_dict: "plain (JObj (entry_dict s))"
  by (simp add: entry_dict_def semantic_dict_def entry_texts_json_def entry_fields_def)

lemma entry_member: "map_of (map canon_member (sort_key fst (entry_dict s))) k = map_option canon (map_of (entry_dict s) k)"
proof -
  have "map_of (sort_key fst (entry_dict s)) = map_of (entry_dict s)"
    using plain_entry_dict [of s] by (intro map_of_sort_key) simp
  then show ?thesis by (simp add: map_of_canon_member)
qed

lemma slice_of_dict: "slice_of (map canon_member (sort_key fst (entry_dict s))) = s"
  by (simp add: slice_of_def Let_def entry_text_def entry_member) (simp add: entry_dict_def semantic_dict_def entry_texts_json_def entry_fields_def)

lemma slice_reads_back: "validate_slice hash s = Inr () \<Longrightarrow> slice_from_dict hash (canon (JObj (entry_dict s))) = Inr s"
proof -
  assume "validate_slice hash s = Inr ()"
  moreover have "set (map fst (map canon_member (sort_key fst (entry_dict s)))) = slice_fields"
    by (simp add: canon_member_def image_image)
      (simp add: entry_dict_def semantic_dict_def entry_texts_json_def entry_fields_def slice_fields_def insert_commute)
  moreover have "list_all is_text (map snd (map canon_member (sort_key fst (entry_dict s))))"
    by (simp add: canon_member_def list_all_iff) (simp add: entry_dict_def semantic_dict_def entry_texts_json_def entry_fields_def)
  ultimately show ?thesis
    unfolding canon_JObj by (simp add: slice_of_dict del: map_map list_all_iff)
qed

lemma slices_read_back: "validate_slices hash ss = Inr () \<Longrightarrow> slices_from hash (map (canon \<circ> (JObj \<circ> entry_dict)) ss) = Inr ss"
proof (induction ss)
  case (Cons s ss)
  from Cons.prems have "validate_slice hash s = Inr ()" "validate_slices hash ss = Inr ()" by (auto simp: success)
  with Cons.IH slice_reads_back [of hash s] show ?case by (simp del: canon.simps)
qed simp

text \<open>A version that equals one is one, true, or a float that has no canonical text.\<close>

lemma version_one: "json_eq v (JInt 1) \<Longrightarrow> canon v = v \<and> (plain v \<or> json_to_py v = PFloat)"
  by (cases v) (auto simp: json_eq_def)

lemma cutover_manifest_round_trip:
  assumes "canonical_payload hash m = Inr t"
  shows "manifest_from_json hash t = Inr m"
proof -
  from assms have valid: "validate_manifest hash m = Inr ()" and t: "canonical_json (json_to_py (cutover_payload m)) = Inr t"
    by (auto simp: canonical_payload_def success seeds)
  from valid have v: "json_eq (mm_version m) (JInt 1)" and slices: "validate_slices hash (mm_slices m) = Inr ()"
    by (auto simp: validate_manifest_def split: if_splits)
  from t have "json_to_py (mm_version m) \<noteq> PFloat"
    by (auto simp: canonical_json_def cutover_payload_def success)
  with version_one [OF v] have version: "canon (mm_version m) = mm_version m" "plain (mm_version m)" by auto
  then have plain: "plain (cutover_payload m)"
    using plain_entry_dict by (auto simp: cutover_payload_def list_all_iff)
  from canonical_json_json_to_py [OF this] t have "t = dumps (cutover_payload m)" by simp
  with loads_dumps [OF plain] have "loads t = Some (canon (cutover_payload m))" by simp
  moreover have "canon (cutover_payload m) = JObj [(''manifest_version'', mm_version m),
      (''slices'', JList (map (canon \<circ> (JObj \<circ> entry_dict)) (mm_slices m)))]"
    by (simp add: cutover_payload_def canon_JObj [of "[_, _]"] canon_member_def version del: canon.simps(2))
  ultimately show ?thesis
    using slices_read_back [OF slices] valid by (cases m) (simp add: manifest_from_json_def Let_def)
qed

section \<open>The rehearsal at a concrete input\<close>

text \<open>
  The hash of the demo tells documents from operation keys and keys by their kinds: that is all the
  rehearsal needs, and no document has to be printed.
\<close>

definition cut_key_text :: "string \<Rightarrow> string" where
  "cut_key_text i = ''v1|cut3-e1-control-state-seed|''
     @ dumps (JObj [(''slice_id'', JStr i), (''authority_fingerprint'', JStr (demo_key 0))])"

definition cut_hash :: "string \<Rightarrow> string" where
  "cut_hash t = (if take 7 t = ''v1|cut1'' then demo_key (length (takeWhile (\<lambda>c. c \<noteq> CHR ''|'') (drop 7 t)))
     else demo_key (case find (\<lambda>(i, _). t = cut_key_text i)
         [(''CP-01A-2'', 30), (''P1'', 31), (''P2'', 32), (''P3'', 33), (''P4'', 34)] of
       None \<Rightarrow> 0 | Some (_, n) \<Rightarrow> n))"

lemma cut_key_text_inject [simp]: "cut_key_text i = cut_key_text j \<longleftrightarrow> i = j"
proof -
  have "canon (JObj [(''slice_id'', JStr i), (''authority_fingerprint'', JStr (demo_key 0))])
      = canon (JObj [(''slice_id'', JStr j), (''authority_fingerprint'', JStr (demo_key 0))]) \<longleftrightarrow> i = j"
    by (auto simp: canon_member_def)
  then show ?thesis
    by (auto simp: cut_key_text_def simp del: dumps.simps dest!: dumps_injective [rotated 2])
qed

lemma cut_hash_document [simp]: "cut_hash (dumps (JObj kvs)) = demo_key 0"
  by (simp add: cut_hash_def cut_key_text_def)

definition cut_ctx :: "nat \<Rightarrow> ctx" where
  "cut_ctx n = (demo_ctx n)\<lparr>sha := cut_hash, resolve := (\<lambda>p. Inr (path_text (path_of p)))\<rparr>"

definition cut_demo_host :: cut_host where
  "cut_demo_host = \<lparr>ch_sha = cut_hash, ch_world = demo_world, ch_resolve = (\<lambda>_ p. Inr p),
     ch_git = (\<lambda>_ _ _. Inr (1, [], [])), ch_opening = (\<lambda>_ _. Inr ())\<rparr>"

definition cut_deferred :: "string \<Rightarrow> migration_slice" where
  "cut_deferred i = \<lparr>ms_slice_id = i, ms_registry_stage = ''S1'', ms_registry_status = ''WAITING'',
     ms_logical_source_root = ''/repo'', ms_repository_toplevel = ''/repo'', ms_execution_worktree = unbound,
     ms_branch = ''later'', ms_base_commit = none_text, ms_implementation_result_commit = none_text,
     ms_current_branch_head = unbound, ms_execution_packet_url = ''packet'', ms_contract_url = ''contract'',
     ms_migration_class = migration_class_text Defer_prerequisite,
     ms_seed_eligibility = eligibility_text Seed_defer_prerequisite, ms_seed_defer_reason = ''USER'',
     ms_snapshot_fingerprint = demo_key 0\<rparr>"

definition cut_ready :: migration_slice where
  "cut_ready = (cut_deferred cp_slice_id)\<lparr>ms_execution_worktree := ''/work'', ms_branch := ''cp'',
     ms_base_commit := demo_commit, ms_implementation_result_commit := demo_commit,
     ms_current_branch_head := ''3d8491a6ce1a39c23dca0206e11d00c180276afd'',
     ms_migration_class := migration_class_text Migrate_ready, ms_seed_eligibility := eligibility_text Seed_eligible,
     ms_seed_defer_reason := none_text\<rparr>"

definition cut_demo_manifest :: migration_manifest where
  "cut_demo_manifest = \<lparr>mm_slices = [cut_ready, cut_deferred ''P1'', cut_deferred ''P2'', cut_deferred ''P3'', cut_deferred ''P4''],
     mm_version = JInt 1\<rparr>"

definition cut_demo_binding :: git_binding where
  "cut_demo_binding = \<lparr>gb_execution_worktree = ''/work'', gb_repository_toplevel = ''/repo'', gb_branch = ''cp'',
     gb_head = ''3d8491a6ce1a39c23dca0206e11d00c180276afd'', gb_clean = True, gb_base_commit_exists = True,
     gb_result_commit_exists = True, gb_result_reachable = True\<rparr>"

lemmas cut_demo_defs = cut_ready_def cut_deferred_def cut_demo_manifest_def cut_demo_binding_def cut_demo_host_def

lemma cut_texts [simp]: "demo_commit \<noteq> []" "demo_commit \<noteq> ''NONE''" "demo_commit \<noteq> ''UNBOUND''"
  "demo_commit \<noteq> ''RESOLVE_AT_CODEX_PREFLIGHT''" "demo_commit \<noteq> ''3d8491a6ce1a39c23dca0206e11d00c180276afd''"
  "length (''3d8491a6ce1a39c23dca0206e11d00c180276afd'') = 40" "is_lower_hex ''3d8491a6ce1a39c23dca0206e11d00c180276afd''"
  by code_simp+

lemmas cut_commit [simp] = cut_texts(1) [symmetric]

lemma cut_ids [simp]: "ms_slice_id cut_ready = cp_slice_id" "ms_slice_id (cut_deferred i) = i"
  by (simp_all add: cut_ready_def cut_deferred_def)

lemmas cut_texts_defs = none_text_def unbound_def unresolved_base_def cp_slice_id_def migration_class_of_def
  eligibility_of_def

lemma cut_ready_valid [simp]: "validate_slice cut_hash cut_ready = Inr ()"
  by (simp add: validate_slice_def cut_demo_defs entry_fields_def computed_fingerprint_def del: dumps.simps)
    (simp add: cut_texts_defs unresolved_field_def)

lemma cut_deferred_valid [simp]: "i \<notin> {[], cp_slice_id} \<Longrightarrow> validate_slice cut_hash (cut_deferred i) = Inr ()"
  by (simp add: validate_slice_def cut_demo_defs entry_fields_def computed_fingerprint_def del: dumps.simps)
    (auto simp: cut_texts_defs)

lemma cut_manifest_valid: "validate_manifest cut_hash cut_demo_manifest = Inr ()"
  by (simp add: validate_manifest_def cut_demo_manifest_def cp_slice_id_def)

lemma cut_manifest_fingerprint: "manifest_fingerprint cut_hash m = Inr (demo_key 0)"
  if "mm_version m = JInt 1" for m
proof -
  have "plain (JObj (entry_dict s))" for s
    by (simp add: entry_dict_def semantic_dict_def entry_texts_json_def entry_fields_def)
  then have "plain (cutover_payload m)" using that by (auto simp: cutover_payload_def list_all_iff)
  from canonical_json_json_to_py [OF this] show ?thesis
    by (simp add: manifest_fingerprint_def canonical_sha256_def) (simp add: cutover_payload_def del: dumps.simps)
qed

lemma cut_classified:
  "classify_seed_eligibility cut_demo_host cut_ready (Some cut_demo_binding) = Inr (Seed_eligible, none_text)"
proof -
  have "expected_binding cut_demo_host cut_ready = Inr cut_demo_binding" by code_simp
  then show ?thesis
    by (simp add: classify_seed_eligibility_def cut_demo_host_def) (simp add: cut_ready_def cut_deferred_def)
qed

text \<open>The operation keys.\<close>

lemma cut_seed_keys [simp]:
  "seed_key cut_demo_host ''cut1-isolated-seed'' s = Inr (demo_key 14)"
  "seed_key cut_demo_host ''cut1-isolated-seed-lease'' s = Inr (demo_key 20)"
  "seed_key cut_demo_host ''cut1-isolated-seed-result'' s = Inr (demo_key 21)"
  "seed_key cut_demo_host ''cut1-isolated-seed-release'' s = Inr (demo_key 22)"
  by (simp_all add: seed_key_def operation_key_def canonical_json_def cut_demo_host_def cut_hash_def
      numeral_eq_Suc del: dumps.simps)

lemma cut_rehearsal_key: "sl_authority_fingerprint t = demo_key 0 \<Longrightarrow>
    rehearsal_key cut_demo_host t = Inr (cut_hash (cut_key_text (sl_id t)))"
  by (simp add: rehearsal_key_def operation_key_def canonical_json_def cut_demo_host_def cut_key_text_def del: dumps.simps)

lemma cut_rehearsal_hashes [simp]: "cut_hash (cut_key_text ''CP-01A-2'') = demo_key 30"
  "cut_hash (cut_key_text ''P1'') = demo_key 31" "cut_hash (cut_key_text ''P2'') = demo_key 32"
  "cut_hash (cut_key_text ''P3'') = demo_key 33" "cut_hash (cut_key_text ''P4'') = demo_key 34"
proof -
  have "take 7 (cut_key_text i) \<noteq> ''v1|cut1''" for i by (simp add: cut_key_text_def)
  then show "cut_hash (cut_key_text ''CP-01A-2'') = demo_key 30"
    "cut_hash (cut_key_text ''P1'') = demo_key 31" "cut_hash (cut_key_text ''P2'') = demo_key 32"
    "cut_hash (cut_key_text ''P3'') = demo_key 33" "cut_hash (cut_key_text ''P4'') = demo_key 34"
    by (simp_all add: cut_hash_def)
qed

lemma cut_environment [simp]: "clock (cut_ctx n) k = seconds (int n)" "sha (cut_ctx n) = cut_hash"
    "begin_guard (cut_ctx n) d = Inr ()" "\<not> guard_required (cut_ctx n)"
    "uuid (cut_ctx n) k = ''event-'' @ replicate n (CHR ''n'') @ replicate k (CHR ''k'')"
    "canonical_source_root (cut_ctx n) ''/repo'' = Inr ''/repo''"
  by (simp_all add: cut_ctx_def demo_ctx_def begin_guard_def) (code_simp)

lemmas cut_operations = create_execution_def create_execution_body_def acquire_lease_def acquire_lease_body_def
  acquire_lease_validate_def register_result_commit_def register_result_body_def release_lease_def release_lease_body_def

lemmas cut_transaction = precheck_def reading_def transaction_def transaction_unchecked_def

definition cut_row :: execution_row where
  "cut_row = created_execution (cp_create cut_demo_host cut_ready) (demo_key 14) ''/repo'' (seconds 0)"

definition cut_leased :: execution_row where
  "cut_leased = cut_row\<lparr>ex_lease_owner := Some cp_importer, ex_lease_generation := 1,
     ex_lease_expires_at := Some (seconds 61), ex_state_version := 1, ex_updated_at := seconds 1\<rparr>"

lemma cut_row_simps [simp]: "ex_id cut_row = cut2_execution_id" "ex_state_version cut_row = 0" "ex_state cut_row = READY"
    "ex_lease_owner cut_row = None" "ex_lease_generation cut_row = 0" "ex_lease_expires_at cut_row = None"
  by (simp_all add: cut_row_def created_execution_def cp_create_def)

lemma cut_names [simp]: "cut2_execution_id \<noteq> []" "[] \<noteq> cut2_execution_id" "cp_importer \<noteq> []"
  by (simp_all add: cut2_execution_id_def cp_importer_def)

lemma initial_simps [simp]: "executions initial_db = []" "events initial_db = []" "slices initial_db = []"
    "slice_events initial_db = []" "authority initial_db = Some initial_authority"
  by (simp_all add: initial_db_def)

definition cut_done :: execution_row where
  "cut_done = cut_row\<lparr>ex_result_commit := Some demo_commit, ex_lease_generation := 1, ex_state_version := 3,
     ex_updated_at := seconds 3\<rparr>"

lemma cut_row_check: "execution_check cut_row"
  by (simp add: cut_row_def created_execution_def cp_create_def execution_check_def contract_fingerprint_def hashed_def
      cut_demo_defs cp_execution_id_def cp_slice_id_def max_auto_reworks.simps del: dumps.simps)

text \<open>The store after an operation of the seed: one row, and a log of which the keys and versions are known.\<close>

definition cut_stage :: "execution_row \<Rightarrow> (nat \<times> int \<times> string) list \<Rightarrow> db \<Rightarrow> bool" where
  "cut_stage r log d \<longleftrightarrow> (\<exists>es. d = initial_db\<lparr>executions := [r], events := es\<rparr>
     \<and> map (\<lambda>e. (ev_operation_key e, ev_to_version e, ev_event_id e)) es = map (\<lambda>(n, v, i). (demo_key n, v, i)) log)"

lemma cut_staged [simp]: "cut_stage r log (initial_db\<lparr>executions := [r], events := es\<rparr>) \<longleftrightarrow>
    map (\<lambda>e. (ev_operation_key e, ev_to_version e, ev_event_id e)) es = map (\<lambda>(n, v, i). (demo_key n, v, i)) log"
proof
  assume "cut_stage r log (initial_db\<lparr>executions := [r], events := es\<rparr>)"
  then obtain es' where e: "initial_db\<lparr>executions := [r], events := es\<rparr> = initial_db\<lparr>executions := [r], events := es'\<rparr>"
    and m: "map (\<lambda>e. (ev_operation_key e, ev_to_version e, ev_event_id e)) es' = map (\<lambda>(n, v, i). (demo_key n, v, i)) log"
    unfolding cut_stage_def by blast
  from arg_cong [OF e, of events] have "es = es'" by simp
  with m show "map (\<lambda>e. (ev_operation_key e, ev_to_version e, ev_event_id e)) es = map (\<lambda>(n, v, i). (demo_key n, v, i)) log"
    by simp
qed (auto simp: cut_stage_def)

lemma cut_created: "\<exists>d. create_execution (cut_ctx 0) (cp_create cut_demo_host cut_ready) (demo_key 14) initial_db
    = (Inr cut_row, d) \<and> cut_stage cut_row [(14, 0, ''event-'')] d"
proof -
  have valid: "validate_execution_create (cp_create cut_demo_host cut_ready) = Inr ()"
    by (simp add: validate_execution_create_def cp_create_def contract_fingerprint_def hashed_def cut_demo_defs
        cp_slice_id_def require_sha256_def require_commit_def del: dumps.simps)
  have root: "xc_source_root (cp_create cut_demo_host cut_ready) = ''/repo''" "xc_execution_id (cp_create cut_demo_host cut_ready) = cut2_execution_id"
    by (simp_all add: cp_create_def cut_demo_defs)
  let ?x = "cp_create cut_demo_host cut_ready"
  have "insert_execution cut_row initial_db = Inr (initial_db\<lparr>executions := [cut_row]\<rparr>)"
    using cut_row_check by (simp add: insert_execution_def open_keys_def)
  then show ?thesis
    using valid root
    by (simp add: create_execution_def create_execution_body_def cut_transaction Let_def require_sha256_def
        cut_row_def [symmetric] insert_event_def insert_event_row_def event_check_def
        created_event_def find_execution_def get_execution_def)
qed

lemmas cut_mutation = cut_transaction Let_def require_sha256_def require_commit_def existing_event_def get_execution_def
  find_execution_def insert_event_def insert_event_row_def event_from_def event_check_def demo_key_inject

lemma cut_lease_taken:
  assumes "cut_stage cut_row [(14, 0, ''event-'')] d1"
  shows "\<exists>d2. acquire_lease (cut_ctx 1) \<lparr>lq_execution_id = cut2_execution_id, lq_expected_version = 0,
      lq_operation_key = demo_key 20, lq_owner = cp_importer, lq_ttl_seconds = 60\<rparr> d1 = (Inr cut_leased, d2)
    \<and> cut_stage cut_leased [(14, 0, ''event-''), (20, 1, ''event-n'')] d2"
proof -
  from assms obtain e where d1: "d1 = initial_db\<lparr>executions := [cut_row], events := [e]\<rparr>"
    and e: "ev_operation_key e = demo_key 14" "ev_to_version e = 0" "ev_event_id e = ''event-''"
    by (auto simp: cut_stage_def)
  have check: "execution_check cut_leased"
    using cut_row_check by (simp add: execution_check_def cut_leased_def)
  have "cas_execution cut2_execution_id 0 (\<lambda>x. x\<lparr>ex_lease_owner := Some cp_importer, ex_lease_generation := 1,
        ex_lease_expires_at := Some (seconds 61), ex_state_version := ex_state_version x + 1, ex_updated_at := seconds 1\<rparr>) d1
      = Inr (d1\<lparr>executions := [cut_leased]\<rparr>)"
    using d1 check by (subst single_cas [where r = cut_row]) (simp_all add: cut_leased_def)
  moreover have "seconds 1 + seconds 60 = seconds 61" by (simp add: seconds_def)
  ultimately show ?thesis
    using d1 e
    by (simp add: acquire_lease_def acquire_lease_body_def acquire_lease_validate_def cut_mutation
        min_lease_ttl_def max_lease_ttl_def terminal_states_def cut_leased_def One_nat_def)
qed

lemma single_update:
  assumes "executions d = [r]" and "ex_id r = i" and "ex_state_version r = v" and "execution_check (f r)"
  shows "update_at_version i v f d = Inr (d\<lparr>executions := [f r]\<rparr>, Suc 0)"
  using assms by (simp add: update_at_version_def update_executions_def update_where_def row_count_def open_keys_def Let_def)

definition cut_registered :: execution_row where
  "cut_registered = cut_leased\<lparr>ex_result_commit := Some demo_commit, ex_state_version := 2, ex_updated_at := seconds 2\<rparr>"

lemma cut_leased_simps [simp]: "ex_id cut_leased = cut2_execution_id" "ex_state_version cut_leased = 1"
    "ex_lease_generation cut_leased = 1" "ex_id cut_registered = cut2_execution_id" "ex_state_version cut_registered = 2"
    "ex_lease_generation cut_registered = 1"
    "fence_held cut_leased cp_importer 1 (seconds 2)" "fence_held cut_registered cp_importer 1 (seconds 3)"
  by (simp_all add: cut_leased_def cut_registered_def fence_held_def seconds_def)

lemma cut_fence: "fence_held r owner generation t \<Longrightarrow> require_fence r owner generation t = Inr ()"
  by (simp add: success)

lemma cut_result_registered:
  assumes "cut_stage cut_leased [(14, 0, ''event-''), (20, 1, ''event-n'')] d2"
  shows "\<exists>d3. register_result_commit (cut_ctx 2) \<lparr>cq_execution_id = cut2_execution_id, cq_expected_version = 1,
      cq_operation_key = demo_key 21, cq_result_commit = demo_commit, cq_owner = cp_importer,
      cq_generation = 1, cq_actor_role = CONTROLLER, cq_actor_id = cp_importer\<rparr> d2 = (Inr cut_registered, d3)
    \<and> cut_stage cut_registered [(14, 0, ''event-''), (20, 1, ''event-n''), (21, 2, ''event-nn'')] d3"
proof -
  from assms obtain es where d2: "d2 = initial_db\<lparr>executions := [cut_leased], events := es\<rparr>"
    and es: "map (\<lambda>e. (ev_operation_key e, ev_to_version e, ev_event_id e)) es
      = [(demo_key 14, 0, ''event-''), (demo_key 20, 1, ''event-n'')]"
    by (auto simp: cut_stage_def)
  have check: "execution_check cut_registered"
    using cut_row_check by (simp add: execution_check_def cut_leased_def cut_registered_def)
  have "update_at_version cut2_execution_id 1 (\<lambda>x. x\<lparr>ex_result_commit := Some demo_commit,
        ex_state_version := ex_state_version x + 1, ex_updated_at := seconds 2\<rparr>) d2
      = Inr (d2\<lparr>executions := [cut_registered]\<rparr>, Suc 0)"
    using d2 check by (subst single_update [where r = cut_leased]) (simp_all add: cut_registered_def)
  with d2 es show ?thesis
    by (auto simp: map_eq_Cons_conv register_result_commit_def register_result_body_def cut_mutation cut_fence numeral_2_eq_2)
qed

lemma cut_lease_released:
  assumes "cut_stage cut_registered [(14, 0, ''event-''), (20, 1, ''event-n''), (21, 2, ''event-nn'')] d3"
  shows "\<exists>d4. release_lease (cut_ctx 3) \<lparr>uq_execution_id = cut2_execution_id, uq_expected_version = 2,
      uq_operation_key = demo_key 22, uq_owner = cp_importer, uq_generation = 1\<rparr> d3 = (Inr cut_done, d4)
    \<and> cut_stage cut_done [(14, 0, ''event-''), (20, 1, ''event-n''), (21, 2, ''event-nn''), (22, 3, ''event-nnn'')] d4"
proof -
  from assms obtain es where d3: "d3 = initial_db\<lparr>executions := [cut_registered], events := es\<rparr>"
    and es: "map (\<lambda>e. (ev_operation_key e, ev_to_version e, ev_event_id e)) es
      = [(demo_key 14, 0, ''event-''), (demo_key 20, 1, ''event-n''), (demo_key 21, 2, ''event-nn'')]"
    by (auto simp: cut_stage_def)
  have settles: "cut_registered\<lparr>ex_lease_owner := None, ex_lease_expires_at := None, ex_state_version := 3, ex_updated_at := seconds 3\<rparr> = cut_done"
    by (simp add: cut_registered_def cut_leased_def cut_done_def cut_row_def created_execution_def)
  have check: "execution_check cut_done" and id: "ex_id cut_done = cut2_execution_id"
    using cut_row_check by (simp_all add: execution_check_def cut_done_def)
  have "update_at_version cut2_execution_id 2 (\<lambda>x. x\<lparr>ex_lease_owner := None, ex_lease_expires_at := None,
        ex_state_version := ex_state_version x + 1, ex_updated_at := seconds 3\<rparr>) d3
      = Inr (d3\<lparr>executions := [cut_done]\<rparr>, Suc 0)"
    using d3 check settles by (subst single_update [where r = cut_registered]) simp_all
  with d3 es id show ?thesis
    by (auto simp: map_eq_Cons_conv release_lease_def release_lease_body_def cut_mutation cut_fence numeral_3_eq_3)
qed

lemma cut_seeded: "\<exists>d es. seed_new cut_demo_host cut_ctx cut_ready initial_db = (Inr cut_done, d)
    \<and> d = initial_db\<lparr>executions := [cut_done], events := es\<rparr>"
proof -
  obtain d1 where 1: "create_execution (cut_ctx 0) (cp_create cut_demo_host cut_ready) (demo_key 14) initial_db = (Inr cut_row, d1)"
    "cut_stage cut_row [(14, 0, ''event-'')] d1" using cut_created by blast
  from cut_lease_taken [OF 1(2)] obtain d2 where 2: "acquire_lease (cut_ctx 1) \<lparr>lq_execution_id = cut2_execution_id,
      lq_expected_version = 0, lq_operation_key = demo_key 20, lq_owner = cp_importer, lq_ttl_seconds = 60\<rparr> d1 = (Inr cut_leased, d2)"
    "cut_stage cut_leased [(14, 0, ''event-''), (20, 1, ''event-n'')] d2" by blast
  from cut_result_registered [OF 2(2)] obtain d3 where 3: "register_result_commit (cut_ctx 2) \<lparr>cq_execution_id = cut2_execution_id,
      cq_expected_version = 1, cq_operation_key = demo_key 21, cq_result_commit = demo_commit, cq_owner = cp_importer,
      cq_generation = 1, cq_actor_role = CONTROLLER, cq_actor_id = cp_importer\<rparr> d2 = (Inr cut_registered, d3)"
    "cut_stage cut_registered [(14, 0, ''event-''), (20, 1, ''event-n''), (21, 2, ''event-nn'')] d3" by blast
  from cut_lease_released [OF 3(2)] obtain d4 where 4: "release_lease (cut_ctx 3) \<lparr>uq_execution_id = cut2_execution_id,
      uq_expected_version = 2, uq_operation_key = demo_key 22, uq_owner = cp_importer, uq_generation = 1\<rparr> d3 = (Inr cut_done, d4)"
    "cut_stage cut_done [(14, 0, ''event-''), (20, 1, ''event-n''), (21, 2, ''event-nn''), (22, 3, ''event-nnn'')] d4" by blast
  have "ms_implementation_result_commit cut_ready = demo_commit" by (simp add: cut_ready_def)
  with 1(1) 2(1) 3(1) 4 show ?thesis
    by (auto simp: seed_new_def seed_bnd_def seed_store_def caught_def seed_reply_def cut_stage_def)
qed

text \<open>The control targets, and the store in the middle of the loop.\<close>

definition cut_target :: "string \<Rightarrow> slice_target" where
  "cut_target i = \<lparr>sl_id = i, sl_stage = ''S1'', sl_status = ''WAITING'', sl_migration_class = ''DEFER_PREREQUISITE'',
     sl_execution_eligibility = ''INELIGIBLE_UNTIL_PREREQUISITE'', sl_defer_reason = Some ''USER'',
     sl_logical_source_root = ''/repo'', sl_repository_toplevel = Some ''/repo'', sl_branch = Some ''later'',
     sl_base_commit = None, sl_implementation_result_commit = None, sl_current_branch_head = None,
     sl_active_execution_id = None, sl_authority_fingerprint = demo_key 0\<rparr>"

definition cut_ready_target :: slice_target where
  "cut_ready_target = (cut_target ''CP-01A-2'')\<lparr>sl_migration_class := ''MIGRATE_AS_READY_CURRENT_STATE'',
     sl_execution_eligibility := ''ELIGIBLE_BOUND'', sl_defer_reason := None, sl_branch := Some ''cp'',
     sl_base_commit := Some demo_commit, sl_implementation_result_commit := Some demo_commit,
     sl_current_branch_head := Some ''3d8491a6ce1a39c23dca0206e11d00c180276afd'',
     sl_active_execution_id := Some cut2_execution_id\<rparr>"

lemma cut_expanded: "expanded cut_demo_host False ''/repo'' = Inr ''/repo''"
  by code_simp

lemma cut_rehearsed:
  "rehearsed_target cut_demo_host cut2_execution_id cut_ready = Inr cut_ready_target"
  "i \<notin> {[], cp_slice_id} \<Longrightarrow> rehearsed_target cut_demo_host cut2_execution_id (cut_deferred i) = Inr (cut_target i)"
proof -
  have host: "ch_sha cut_demo_host = cut_hash" by (simp add: cut_demo_host_def)
  show "rehearsed_target cut_demo_host cut2_execution_id cut_ready = Inr cut_ready_target"
    by (simp add: rehearsed_target_def control_state_target_def host target_disposition_def target_toplevel_def
        control_state_fingerprint_def hashed_def Let_def del: dumps.simps)
      (simp add: cut_ready_def cut_deferred_def cut_expanded nullable_manifest_value_def none_text_def unbound_def
        unresolved_base_def cut_ready_target_def cut_target_def cp_slice_id_def)
  assume "i \<notin> {[], cp_slice_id}"
  then show "rehearsed_target cut_demo_host cut2_execution_id (cut_deferred i) = Inr (cut_target i)"
    by (simp add: rehearsed_target_def control_state_target_def host target_disposition_def target_toplevel_def
        control_state_fingerprint_def hashed_def Let_def del: dumps.simps)
      (simp add: cut_deferred_def cut_expanded nullable_manifest_value_def none_text_def unbound_def
        unresolved_base_def cut_target_def)
qed

lemma rehearsal_payload_plain:
  assumes "validate_slice_target c t = Inr ()" and "sha_ok key"
  shows "\<exists>payload. slice_request_payload c (rehearsal_request t (-1) key digest) = Inr payload \<and> payload \<noteq> []"
proof -
  have "json_to_py (JObj [(''reason_code'', JStr ''CUT3_E1_ISOLATED_RECONCILE''), (''target'', slice_json t),
      (''metadata'', JObj [(''manifest_fingerprint'', JStr digest)])])
    = PDict [(PStr ''reason_code'', PStr ''CUT3_E1_ISOLATED_RECONCILE''), (PStr ''target'', json_to_py (slice_json t)),
      (PStr ''metadata'', PDict [(PStr ''manifest_fingerprint'', PStr digest)])]" by simp
  moreover have "plain (JObj [(''reason_code'', JStr ''CUT3_E1_ISOLATED_RECONCILE''), (''target'', slice_json t),
      (''metadata'', JObj [(''manifest_fingerprint'', JStr digest)])])"
    by (simp add: slice_json_def slice_semantics_json_def)
  ultimately show ?thesis
    using assms canonical_json_json_to_py
    by (fastforce simp: slice_request_payload_def rehearsal_request_def require_sha256_def simp del: json_to_py.simps)
qed

lemma rehearse_slice_inserts:
  assumes t: "rehearsed_target h execution s = Inr t" "rehearsal_key h t = Inr key" "manifest_fingerprint (ch_sha h) m = Inr digest"
    and ok: "validate_slice_target c t = Inr ()" "sha_ok key" "\<not> guard_required c"
    and new: "\<forall>r\<in>set (slices d). sc_id r \<noteq> sl_id t" "\<forall>e\<in>set (slice_events d). se_operation_key e \<noteq> key \<and> se_slice_id e \<noteq> sl_id t"
    and row: "slice_execution_binding_ok t d" "sl_execution_eligibility t \<noteq> ''ELIGIBLE_PREEXECUTION_BOUND''"
      "slice_columns_check t" "slice_disposition_check t"
  shows "\<exists>r e. rehearse_slice h c m execution s d
      = (Inr False, d\<lparr>slices := slices d @ [r], slice_events := slice_events d @ [e]\<rparr>)
    \<and> sc_id r = sl_id t \<and> se_operation_key e = key \<and> se_slice_id e = sl_id t"
proof -
  note id = rehearsed_id [OF t(1)]
  from rehearsal_payload_plain [OF ok(1,2)] obtain payload where
      p: "slice_request_payload c (rehearsal_request t (-1) key digest) = Inr payload" "payload \<noteq> []" by blast
  let ?q = "rehearsal_request t (-1) key digest"
  let ?e = "slice_event_new ?q payload (-1) (clock c 1)"
  let ?r = "\<lparr>sc_fields = t, sc_state_version = 0, sc_created_at = clock c 1, sc_updated_at = clock c 1\<rparr>"
  from new have absent: "find_slice (sl_id t) d = None" "find (\<lambda>e. se_operation_key e = key) (slice_events d) = None"
    by (auto simp: find_slice_def find_eq_None)
  have "insert_slice_event ?e d = Inr (d\<lparr>slice_events := slice_events d @ [?e]\<rparr>)"
    using new ok(2) p(2) by (auto simp: insert_slice_event_def slice_event_monotonic_def slice_event_check_def
        slice_event_new_def rehearsal_request_def)
  moreover have "insert_slice ?r (d\<lparr>slice_events := slice_events d @ [?e]\<rparr>)
      = Inr (d\<lparr>slice_events := slice_events d @ [?e], slices := slices d @ [?r]\<rparr>)"
    using new row by (auto simp: insert_slice_def slice_check_def slice_execution_binding_ok_def preexecution_context_ok_def
        slice_event_new_def split: option.splits)
  ultimately have "reconcile_slice_body c ?q payload d
      = Inr (False, d\<lparr>slice_events := slice_events d @ [?e], slices := slices d @ [?r]\<rparr>)"
    using absent by (simp add: reconcile_slice_body_def Let_def slice_authority_guard_def)
  then have "reconcile_slice_control_state c ?q d
      = (Inr (?r, False), d\<lparr>slice_events := slice_events d @ [?e], slices := slices d @ [?r]\<rparr>)"
    unfolding reconcile_slice_control_state_def using p(1) ok(3) absent
    by (intro call_does) (simp_all add: get_slice_def find_slice_def find_append)
  moreover have "present_version (ms_slice_id s) d = -1" using absent id by (simp add: present_version_def)
  ultimately have "rehearse_slice h c m execution s d
      = (Inr False, d\<lparr>slice_events := slice_events d @ [?e], slices := slices d @ [?r]\<rparr>)"
    using t by (simp add: rehearse_slice_def rehearsed_target_def seed_bnd_does seed_store_Inr)
      (simp add: seed_reply_def seed_bnd_def seed_store_def caught_def)
  then show ?thesis by (intro exI [of _ ?r] exI [of _ ?e]) (simp add: slice_event_new_def)
qed

lemma cut_targets_ok:
  "validate_slice_target (cut_ctx n) cut_ready_target = Inr ()"
  "slice_columns_check cut_ready_target" "slice_disposition_check cut_ready_target"
  "i \<noteq> [] \<Longrightarrow> validate_slice_target (cut_ctx n) (cut_target i) = Inr ()"
  "i \<noteq> [] \<Longrightarrow> slice_columns_check (cut_target i)" "slice_disposition_check (cut_target i)"
  by (auto simp: validate_slice_target_def cut_ready_target_def cut_target_def opt_commit_def require_commit_def
      require_sha256_def control_state_authority_fingerprint_def slice_disposition_def Let_def slice_columns_check_def
      slice_disposition_check_def simp del: dumps.simps)

definition cut_filled :: "(string \<times> nat) list \<Rightarrow> db \<Rightarrow> bool" where
  "cut_filled log d \<longleftrightarrow> executions d = [cut_done] \<and> authority d = Some initial_authority
     \<and> map sc_id (slices d) = map fst log
     \<and> map (\<lambda>e. (se_slice_id e, se_operation_key e)) (slice_events d) = map (\<lambda>(i, n). (i, demo_key n)) log"

lemma cut_filled_step:
  assumes "cut_filled log d" and t: "rehearsed_target cut_demo_host cut2_execution_id s = Inr t" "sl_authority_fingerprint t = demo_key 0"
    and key: "cut_hash (cut_key_text (sl_id t)) = demo_key n" "n < 256" and new: "sl_id t \<notin> fst ` set log" "n \<notin> snd ` set log"
      "\<forall>x\<in>snd ` set log. x < 256"
    and ok: "validate_slice_target (cut_ctx k) t = Inr ()" "slice_columns_check t" "slice_disposition_check t"
      "sl_execution_eligibility t \<noteq> ''ELIGIBLE_PREEXECUTION_BOUND''" "slice_execution_binding_ok t d"
  shows "\<exists>d'. rehearse_slice cut_demo_host (cut_ctx k) cut_demo_manifest cut2_execution_id s d = (Inr False, d')
    \<and> cut_filled (log @ [(sl_id t, n)]) d'"
proof -
  from assms(1) have "map sc_id (slices d) = map fst log"
    and events: "map (\<lambda>e. (se_slice_id e, se_operation_key e)) (slice_events d) = map (\<lambda>(i, n). (i, demo_key n)) log"
    by (auto simp: cut_filled_def)
  from arg_cong [OF this(1), of set] new(1) have slices: "\<forall>r\<in>set (slices d). sc_id r \<noteq> sl_id t"
    by (metis image_eqI set_map)
  have "se_operation_key e \<noteq> demo_key n \<and> se_slice_id e \<noteq> sl_id t" if "e \<in> set (slice_events d)" for e
  proof -
    from that arg_cong [OF events, of set] have "(se_slice_id e, se_operation_key e) \<in> (\<lambda>(i, n). (i, demo_key n)) ` set log"
      by (metis (mono_tags, lifting) image_eqI set_map)
    with new key(2) show ?thesis by (force simp: demo_key_inject)
  qed
  then have events_new: "\<forall>e\<in>set (slice_events d). se_operation_key e \<noteq> demo_key n \<and> se_slice_id e \<noteq> sl_id t" by blast
  have "manifest_fingerprint (ch_sha cut_demo_host) cut_demo_manifest = Inr (demo_key 0)"
    by (simp add: cut_demo_host_def cut_manifest_fingerprint cut_demo_manifest_def)
  from rehearse_slice_inserts [OF t(1) _ this ok(1) _ _ slices events_new ok(5,4,2,3)] cut_rehearsal_key [OF t(2)] key
  obtain r e where "rehearse_slice cut_demo_host (cut_ctx k) cut_demo_manifest cut2_execution_id s d
      = (Inr False, d\<lparr>slices := slices d @ [r], slice_events := slice_events d @ [e]\<rparr>)"
    "sc_id r = sl_id t" "se_operation_key e = demo_key n" "se_slice_id e = sl_id t" by auto
  moreover from this(2-4) assms(1) have "cut_filled (log @ [(sl_id t, n)])
      (d\<lparr>slices := slices d @ [r], slice_events := slice_events d @ [e]\<rparr>)"
    by (simp add: cut_filled_def)
  ultimately show ?thesis by blast
qed

lemma cut_filled_deferred:
  assumes "cut_filled log d" and "i \<notin> {[], cp_slice_id}" and "cut_hash (cut_key_text i) = demo_key n" "n < 256"
    and "i \<notin> fst ` set log" "n \<notin> snd ` set log" "\<forall>x\<in>snd ` set log. x < 256"
  shows "\<exists>d'. rehearse_slice cut_demo_host (cut_ctx k) cut_demo_manifest cut2_execution_id (cut_deferred i) d = (Inr False, d')
    \<and> cut_filled (log @ [(i, n)]) d'"
proof -
  have id: "sl_id (cut_target i) = i" by (simp add: cut_target_def)
  from assms(2) have "i \<noteq> []" by simp
  with cut_filled_step [OF assms(1) cut_rehearsed(2) [OF assms(2)], of n k] cut_targets_ok(4-6) assms show ?thesis
    by (simp add: id) (simp add: cut_target_def slice_execution_binding_ok_def)
qed

lemma cut_demo_slices: "mm_slices cut_demo_manifest
    = [cut_ready, cut_deferred ''P1'', cut_deferred ''P2'', cut_deferred ''P3'', cut_deferred ''P4'']"
  by (simp add: cut_demo_manifest_def)

lemma cut_slices: "executions d = [cut_done] \<Longrightarrow> slices d = [] \<Longrightarrow> slice_events d = [] \<Longrightarrow> authority d = Some initial_authority
    \<Longrightarrow> \<exists>d'. rehearse_slices cut_demo_host cut_ctx 4 cut_demo_manifest cut2_execution_id (mm_slices cut_demo_manifest) d = (Inr False, d')
      \<and> cut_filled [(''CP-01A-2'', 30), (''P1'', 31), (''P2'', 32), (''P3'', 33), (''P4'', 34)] d'"
proof -
  assume "executions d = [cut_done]" "slices d = []" "slice_events d = []" "authority d = Some initial_authority"
  then have start: "cut_filled [] d" by (simp add: cut_filled_def)
  have binding: "slice_execution_binding_ok cut_ready_target d"
    using \<open>executions d = [cut_done]\<close>
    by (simp add: slice_execution_binding_ok_def cut_ready_target_def cut_target_def cut_done_def cut_row_def
        created_execution_def cp_create_def cut_ready_def cut_deferred_def cp_slice_id_def)
  have id: "sl_id cut_ready_target = ''CP-01A-2''" "sl_authority_fingerprint cut_ready_target = demo_key 0"
      "sl_execution_eligibility cut_ready_target \<noteq> ''ELIGIBLE_PREEXECUTION_BOUND''"
    by (simp_all add: cut_ready_target_def cut_target_def)
  from cut_filled_step [OF start cut_rehearsed(1) id(2), where n = 30] cut_targets_ok(1-3) id binding
  obtain d1 where 1: "rehearse_slice cut_demo_host (cut_ctx 4) cut_demo_manifest cut2_execution_id cut_ready d = (Inr False, d1)"
    "cut_filled [(''CP-01A-2'', 30)] d1" by auto
  from cut_filled_deferred [OF 1(2), of "''P1''" 31 5] obtain d2 where
    2: "rehearse_slice cut_demo_host (cut_ctx 5) cut_demo_manifest cut2_execution_id (cut_deferred ''P1'') d1 = (Inr False, d2)"
    "cut_filled [(''CP-01A-2'', 30), (''P1'', 31)] d2" by (auto simp: cp_slice_id_def)
  from cut_filled_deferred [OF 2(2), of "''P2''" 32 6] obtain d3 where
    3: "rehearse_slice cut_demo_host (cut_ctx 6) cut_demo_manifest cut2_execution_id (cut_deferred ''P2'') d2 = (Inr False, d3)"
    "cut_filled [(''CP-01A-2'', 30), (''P1'', 31), (''P2'', 32)] d3" by (auto simp: cp_slice_id_def)
  from cut_filled_deferred [OF 3(2), of "''P3''" 33 7] obtain d4 where
    4: "rehearse_slice cut_demo_host (cut_ctx 7) cut_demo_manifest cut2_execution_id (cut_deferred ''P3'') d3 = (Inr False, d4)"
    "cut_filled [(''CP-01A-2'', 30), (''P1'', 31), (''P2'', 32), (''P3'', 33)] d4" by (auto simp: cp_slice_id_def)
  from cut_filled_deferred [OF 4(2), of "''P4''" 34 8] obtain d5 where
    5: "rehearse_slice cut_demo_host (cut_ctx 8) cut_demo_manifest cut2_execution_id (cut_deferred ''P4'') d4 = (Inr False, d5)"
    "cut_filled [(''CP-01A-2'', 30), (''P1'', 31), (''P2'', 32), (''P3'', 33), (''P4'', 34)] d5" by (auto simp: cp_slice_id_def)
  from 1(1) 2(1) 3(1) 4(1) 5 show ?thesis
    by (simp add: cut_demo_slices seed_bnd_def seed_reply_def)
qed

lemma cut_authority:
  assumes "authority d = Some initial_authority"
  shows "\<exists>a d'. rehearse_authority cut_demo_host (cut_ctx n) (demo_key 0) d = (Inr (a, False), d')"
proof -
  have rollback: "rollback_fingerprint cut_demo_host = demo_key 0"
    by (simp add: rollback_fingerprint_def hashed_def cut_demo_host_def del: dumps.simps)
  have "au_slice_snapshot initial_authority \<noteq> demo_key 0" by code_simp
  then have "\<exists>d' a. reconcile_authority_body (cut_ctx n) 0 (demo_key 0) (demo_key 0) d = Inr (False, d')
      \<and> authority d' = Some a"
    using assms by (simp add: reconcile_authority_body_def Let_def get_authority_def update_authority_def
        authority_update_ok_def authority_check_def) (simp add: initial_authority_def)
  then obtain d' a where body: "reconcile_authority_body (cut_ctx n) 0 (demo_key 0) (demo_key 0) d = Inr (False, d')"
    and "get_authority d' = Inr a" by (auto simp: get_authority_def)
  with body have "reconcile_transitional_authority (cut_ctx n) 0 (demo_key 0) (demo_key 0) d = (Inr (a, False), d')"
    unfolding reconcile_transitional_authority_def by (intro call_does [where a = False]) (simp_all add: require_sha256_def)
  moreover have "get_authority d = Inr initial_authority" "au_generation initial_authority = 0"
    using assms by (simp_all add: get_authority_def initial_authority_def)
  ultimately show ?thesis
    by (simp add: rehearse_authority_def seed_bnd_def seed_store_def caught_def rollback)
qed

lemma cut_path: "isolated_store_path cut_demo_host ''/tmp/rehearsal.sqlite3'' = Inr ''/tmp/rehearsal.sqlite3''"
  by code_simp

lemma cut_demo_succeeds: "\<exists>x d'. seed_isolated_five_slice_control_state cut_demo_host cut_ctx ''/tmp/rehearsal.sqlite3''
    cut_demo_manifest cut_demo_binding initial_db = (Inr x, d')"
proof -
  have host: "ch_sha cut_demo_host = cut_hash" "ch_opening cut_demo_host n p = Inr ()" for n p
    by (simp_all add: cut_demo_host_def)
  obtain d1 es where seeded: "seed_new cut_demo_host cut_ctx cut_ready initial_db = (Inr cut_done, d1)"
    and d1: "d1 = initial_db\<lparr>executions := [cut_done], events := es\<rparr>"
    using cut_seeded by blast
  have root: "ch_resolve cut_demo_host True (path_text (path_of (ms_repository_toplevel cut_ready))) = Inr ''/repo''"
    by code_simp
  have "seed_or_replay cut_demo_host cut_ctx cut_ready initial_db = (Inr (cut_done, False), d1)"
    using seeded by (simp add: seed_or_replay_def Let_def root find_execution_def) (simp add: seed_bnd_def seed_reply_def)
  moreover have "manifest_slice cut_demo_manifest cp_slice_id = Inr cut_ready"
    by (simp add: manifest_slice_def cut_demo_slices)
  ultimately have "\<exists>seed. seed_isolated_cp cut_demo_host cut_ctx ''/tmp/rehearsal.sqlite3'' cut_demo_manifest cut_demo_binding
      initial_db = (Inr seed, d1) \<and> sd_execution_id seed = cut2_execution_id"
    using cut_path cut_manifest_valid cut_classified
    by (simp add: seed_isolated_cp_def host) (simp add: seed_bnd_def seed_reply_def cut_manifest_fingerprint cut_demo_manifest_def)
  then obtain seed where seed: "seed_isolated_cp cut_demo_host cut_ctx ''/tmp/rehearsal.sqlite3'' cut_demo_manifest
      cut_demo_binding initial_db = (Inr seed, d1)" "sd_execution_id seed = cut2_execution_id" by blast
  from d1 obtain d2 where slices: "rehearse_slices cut_demo_host cut_ctx 4 cut_demo_manifest cut2_execution_id
      (mm_slices cut_demo_manifest) d1 = (Inr False, d2)"
    "cut_filled [(''CP-01A-2'', 30), (''P1'', 31), (''P2'', 32), (''P3'', 33), (''P4'', 34)] d2"
    using cut_slices [of d1] by auto
  from slices(2) have five: "length (slices d2) = 5" and "authority d2 = Some initial_authority"
    by (auto simp: cut_filled_def dest: arg_cong [where f = length])
  from cut_authority [OF this(2)] obtain a d3 where
      a: "rehearse_authority cut_demo_host (cut_ctx 9) (demo_key 0) d2 = (Inr (a, False), d3)" by blast
  have "control_snapshot_fingerprint cut_demo_host rows = demo_key 0" for rows
    by (simp add: control_snapshot_fingerprint_def hashed_def host del: dumps.simps)
  with seed slices(1) five a show ?thesis
    by (simp add: seed_isolated_five_slice_control_state_def cut_path host seed_bnd_does Let_def)
      (simp add: seed_bnd_def seed_reply_def)
qed

theorem rehearsal_repeats_witness:
  "\<exists>x d'. seed_isolated_five_slice_control_state cut_demo_host cut_ctx ''/tmp/rehearsal.sqlite3'' cut_demo_manifest
       cut_demo_binding initial_db = (Inr x, d') \<and> length (slices d') = 5
     \<and> seed_isolated_five_slice_control_state cut_demo_host (\<lambda>n. cut_ctx (n + 100)) ''/tmp/rehearsal.sqlite3''
       cut_demo_manifest cut_demo_binding d' = (Inr (x\<lparr>rr_replayed := True\<rparr>), d')"
proof -
  obtain x d' where ran: "seed_isolated_five_slice_control_state cut_demo_host cut_ctx ''/tmp/rehearsal.sqlite3''
      cut_demo_manifest cut_demo_binding initial_db = (Inr x, d')"
    using cut_demo_succeeds by blast
  have roots: "canonical_source_root (cut_ctx 0) q = Inr root \<Longrightarrow>
      ch_resolve cut_demo_host True (path_text (path_of q)) = Inr root" for q root
    by (auto simp: canonical_source_root_def cut_ctx_def demo_ctx_def cut_demo_host_def success split: if_splits)
  have hash: "ch_sha cut_demo_host = cut_hash" by (simp add: cut_demo_host_def)
  from rehearsal_repeats [OF ran _ _ _ _ roots, where cs' = "\<lambda>n. cut_ctx (n + 100)"]
  have "seed_isolated_five_slice_control_state cut_demo_host (\<lambda>n. cut_ctx (n + 100)) ''/tmp/rehearsal.sqlite3''
      cut_demo_manifest cut_demo_binding d' = (Inr (x\<lparr>rr_replayed := True\<rparr>), d')"
    and rows: "map (rehearsed_target cut_demo_host cut2_execution_id) (mm_slices cut_demo_manifest) = map (Inr \<circ> sc_fields) (slices d')"
    by (simp_all add: hash)
  with arg_cong [OF rows, of length] ran show ?thesis by (auto simp: cut_demo_slices)
qed

end
