(* ===== verification/Spec2Isabelle.thy ===== *)
theory Spec2Isabelle
  imports Rework_Properties Acceptance_Properties Candidate_Properties Document_Properties Closure_Laws Commit_Properties Thin_Properties Notion_Properties Migrations_Properties Production_Properties Cutover_Properties
begin

text \<open>
  The ADCP controller: a control store, its controller and what surrounds them.

  The program keeps the state of software changes made by agents. An \<open>execution\<close> takes one slice of
  work through planning, the Maker, verification, evaluation and acceptance; a \<open>slice\<close> says which work is
  registered and which execution carries it; one \<open>authority\<close> row says which registry is canonical; one
  global \<open>writer\<close> lease serialises production changes. All of it is one SQLite database with schema-level
  checks, written by \<open>ControlStore\<close> (\<open>src/adcp/store/sqlite.py\<close>) in \<open>BEGIN IMMEDIATE\<close> transactions. The
  controller (\<open>src/adcp/controller.py\<close>) drives Git worktrees and agents and records every step in the
  store; after a crash, \<open>src/adcp/recovery.py\<close> settles what stored evidence decides. A thin client
  (\<open>packages/adcp-global-writer-client\<close>) speaks the writer's protocol to the same database, and a
  projection shows the state in Notion without ever being read back.

  Theories and the code they model.

    \<^item> \<open>Prelude\<close>: results as sums, \<open>bnd\<close>, tables as lists of rows in insertion order, and the interfaces:
      \<open>append_table\<close> and \<open>guarded_table\<close> (what a lookup returns after a write), \<open>kept_by\<close> and
      \<open>grows_along\<close> (invariants and measures of a step relation), \<open>refines\<close> (a system whose steps are
      steps of an abstract machine).
    \<^item> \<open>Canonical\<close>, \<open>Canonical_Laws\<close> (\<open>canonical.py\<close>), \<open>Domain\<close> (\<open>domain.py\<close>), \<open>Python_Text\<close> (what the code
      uses of \<open>json\<close>, \<open>str\<close> and \<open>float\<close>).
    \<^item> \<open>Rows\<close>, \<open>Schema_Core\<close>, \<open>Schema_Control\<close>, \<open>Schema_Writer\<close>, \<open>Candidate_Schema\<close>: the tables of schema
      version 10 (\<open>store/migrations.py\<close>) with the CHECKs, keys, foreign keys and triggers as the guards of the
      statements that can violate them. \<open>Migrations\<close>: the runner that applies the texts.
    \<^item> \<open>Store\<close> (transactions, getters, fences), \<open>Global_Writer\<close>, \<open>Leases\<close>, \<open>Lifecycle\<close>, \<open>Authority\<close>,
      \<open>Slice_Control\<close>, \<open>Deferred\<close>, \<open>Evidence\<close>, \<open>High_Rework\<close>, \<open>Acceptance\<close>, \<open>Evaluator_Seals\<close>, \<open>Candidate\<close>,
      \<open>Receipts\<close>: the operations of \<open>ControlStore\<close>. An operation maps its environment (clock, hash, ids), its
      arguments and the database to a result and a database; its name is the method's, \<open>X_validate\<close> is what it
      checks before its transaction, \<open>X_body\<close> the transaction.
    \<^item> \<open>Artifact_Seal\<close> (\<open>artifact_seal.py\<close>), \<open>Evaluation\<close> (\<open>evaluator.py\<close>), \<open>Verifier\<close> (\<open>verifier.py\<close>,
      \<open>capsule.py\<close>, \<open>evidence.py\<close>).
    \<^item> \<open>Controller_Machine\<close>, \<open>Worktrees\<close>, \<open>Controller\<close>, \<open>Controller_Work\<close>, \<open>Controller_Evaluation\<close>,
      \<open>Controller_Candidate\<close>, \<open>Controller_Closure\<close> (\<open>controller.py\<close>) and \<open>Recovery\<close> (\<open>recovery.py\<close>): actions on
      a machine of database, memory and trace. Between two accesses of the store any other client may act; Git,
      files and processes answer as the host likes at each tick.
    \<^item> \<open>Thin_Schema\<close>, \<open>Thin_Client\<close>: the thin client. \<open>Projection\<close>, \<open>Notion\<close>: the projection service, its
      in-memory target and its Notion transport.
    \<^item> \<open>Production_Control\<close> (\<open>production_control.py\<close>): the holder of the writer lease with its heartbeat, the
      bounded wait for the lease (61 attempts) and the controlled deployment, over a world in which other
      clients of the store, Git and the clock act between its steps.
    \<^item> \<open>Cutover\<close> (\<open>cutover.py\<close>): the migration manifest, the eligibility of its slices, the seed of an isolated store
      by four store operations, the rehearsal of five slices, and the documents projected from it.

  What the lemmas show.

    \<^item> Abstract machines. \<open>Execution_Laws\<close>, \<open>Slice_Laws\<close>, \<open>Global_Writer_Laws\<close>, \<open>Authority\<close>, \<open>Approval_Laws\<close>
      and \<open>Closure_Laws\<close> state what the store promises of each kind of state as a step relation with an
      invariant: the log explains the row. \<open>Frames\<close>, \<open>Candidate_Frames\<close> and \<open>Execution_Refinement\<close> show that
      every operation is, on each view, no step or some steps of its machine; \<open>Store_System\<close> makes all
      operations calls of one system and \<open>Runs\<close> interprets \<open>refines\<close> for each view, which gives C1 to C9, C14 and
      C15 for every interleaving of calls; the steps of an execution are taken under the closures on record, which only
      grow (\<open>recorded_steps\<close>). \<open>Fencing\<close> and \<open>Atomicity\<close> give C10 to C13.
    \<^item> Single operations: \<open>Operation_Properties\<close>, \<open>Lease_Properties\<close>, \<open>Rework_Properties\<close>,
      \<open>Acceptance_Properties\<close>, \<open>Candidate_Properties\<close>, \<open>Artifact_Properties\<close> and \<open>Document_Properties\<close> say what a
      success has checked and done and what is refused, each instantiated at the concrete state of \<open>Scenario\<close>
      or \<open>Candidate_Scenario\<close>.
    \<^item> Composition: \<open>Controller_Laws\<close> proves once, for every policy that allows the reading commands
      (\<open>reader\<close>) and the calls of a recovery (\<open>recoverer\<close>), what each operation may do; \<open>Session_Properties\<close> gets
      from it that the controller refines the store. \<open>Commit_Properties\<close> follows a candidate's bytes from the
      worktree to the commit. \<open>Thin_Properties\<close> proves the thin client equal to the store's protocol.
      \<open>Projection_Properties\<close> proves repair of a target over the interface \<open>projection_channel\<close>;
      \<open>Notion_Properties\<close> that the paginated query ends with all rows of a service that pages by cursors and that a
      written page reads back;
      \<open>Migrations_Properties\<close> that a migration reaches its target and repeats without effect;
      \<open>Production_Properties\<close> that a deployment follows its protocol and is not repeated;
      \<open>Cutover_Properties\<close> that a rehearsal can be repeated without effect, writes only under a verified binding, and
      that a manifest reads back from its text.

  Parameters and bounds. SHA-256, new identifiers, the clock (one instant per reading, so two readings of one
  operation may differ), SQLite's \<open>julianday\<close>, the answers of Git, of the operating system, of the agents and of
  the HTTP service, the generated contract of the thin client and the texts of the migrations are arguments. What
  a theorem needs of them is a hypothesis in its statement. The parser of JSON runs on fuel, the length of the
  text and one more, which every value consumes at least once (\<open>loads_dumps\<close>). The loops of the worktree and
  session code are recursions on the lists they walk. The Notion query is a partial function: \<open>None\<close> is a query
  that never ends.

  Conventions. Python strings are their UTF-8 bytes; where the code counts characters, so does the model
  (\<open>sql_length\<close>, \<open>code_points\<close>). Instants are microseconds. Python integers are \<open>int\<close>; a Boolean where the code
  accepts an \<open>int\<close> is written out. An error carries the code of the exception and not its detail text.

  Not modelled.

    \<^item> SQLite outside its statements: lock waiting and busy errors, connection flags, journal modes, file layout
      of \<open>RuntimePaths\<close>; and the fault injection hooks of the tests. Where \<open>ORDER BY requested_at\<close> leaves ties open
      the first row is taken.
    \<^item> The operating system calls behind Git, the agents (\<open>runner.py\<close>, except the environment the evaluator
      gets) and the evaluator process (\<open>evaluator.py\<close> from line 727 on, except its Git fingerprint and its two
      invocations): they are the host's answers. \<open>WorktreeOrchestrator.record_disposition\<close> and \<open>remove\<close>, which an
      operator runs by hand.
    \<^item> Corners of Python's texts: \<open>str.strip\<close> and \<open>splitlines\<close> beyond white space as in \<open>Python_Text\<close>, the ASCII
      escapes of \<open>json.dumps\<close> in the contract identities of the thin client (their texts are ASCII), and the
      order in which a command result reports a constant like NaN or a later syntax error.
    \<^item> The operational programs bound to one host: the production surfaces, schema 10 tooling, adoption of DCS
      versions, PostgreSQL and Flyway drivers, cleaner cutover, migration orchestration, readiness and attestation,
      the command line and the build tools. They drive launchd, file modes, remote workers and packages; what they
      leave in the store goes through the operations above.
\<close>

section \<open>Runs of the whole store\<close>

text \<open>
  C1. In every state the store can reach, the transition log explains each execution. It starts with
  the creation and leads step by step, with contiguous versions and lease generations that rise only on
  acquisitions, to the execution's state, resume state, result commit, rework count, version and lease
  generation (\<open>explains\<close>, \<open>linked\<close>, \<open>edge\<close>). The events of a lease leave the state, resume state,
  commit and count; a registered result sets the commit that its request names; every other event
  is a move that \<open>validate_transition\<close> allows, out of \<open>BLOCKED\<close> only to the stored resume state or to
  \<open>CANCELLED\<close>, with the resume state its request names; a rework is counted exactly when its event
  carries a rework request. The one exception is the source's own: the closure of a candidate leads
  from \<open>WAITING_APPROVAL\<close> to \<open>VERIFYING\<close>, which is not in the table; it happens only while there is no
  result commit, sets the commit, and its event names a closure that is on record. An execution that
  does not exist has no log.
\<close>

theorem run_log_explains_execution:
  "case find_execution i (run j calls initial_db) of
     None \<Rightarrow> events_of i (run j calls initial_db) = []
   | Some r \<Rightarrow> ex_id r = i \<and> execution_check r \<and> explains (set (candidate_closures (run j calls initial_db))) (events_of i (run j calls initial_db)) r"
proof -
  let ?d = "run j calls initial_db"
  have "exec_ok (set (candidate_closures ?d)) (exec_view ?d)"
    by (rule exec_kept.kept_star [OF run_recorded initial_ok(1)])
  from exec_okD [OF this [unfolded exec_view_def], of i] show ?thesis
    by (simp add: events_of_def log_of_def split: option.split)
qed

text \<open>
  C2. In every reachable state, slice identifiers are unique, each slice satisfies the schema's
  dispositions, and its events count its versions from the registration to the present one
  without a gap; no event belongs to an unknown slice.
\<close>

theorem run_slice_log_counts: "slice_ok (slice_view (run j calls initial_db))"
  by (rule slice_system.run_keeps [OF run_performed initial_ok(2)])

text \<open>
  C3. In every reachable state, the global writer row is valid and its log is a chain of
  acquisitions, takeovers, releases and revocations, each starting from the lease the previous
  one left, that ends in the present lease.
\<close>

theorem run_writer_log_explains: "writer_explained j (writer_view (run j calls initial_db))"
  by (rule writer_system.run_keeps [OF run_performed initial_ok(3)])

text \<open>
  C4. In every reachable state the control authority is present and valid, switches and
  rollbacks alternate in its log with rising generations, and the log's last event left the mode
  it is in.
\<close>

theorem run_authority_log_explains: "authority_explained (authority_view (run j calls initial_db))"
  by (rule authority_system.run_keeps [OF run_performed initial_ok(4)])

text \<open>
  C5. In every reachable state the receipts form a valid log: one receipt per operation and
  phase, and a final receipt only after the prepared one of the same request, artifact, change
  and writer token.
\<close>

theorem run_receipts_ok: "receipt_log_ok (receipts (run j calls initial_db))"
  by (rule receipt_system.kept_star [OF run_performed initial_ok(5)])

text \<open>
  C7. No call rewrites history: from any state, the transition, slice, writer and authority logs
  and the receipts are extended at the end only.
\<close>

theorem run_extends_logs:
  "extends (events d) (events (run j calls d)) \<and>
   extends (slice_events d) (slice_events (run j calls d)) \<and>
   extends (writer_events d) (writer_events (run j calls d)) \<and>
   extends (authority_events d) (authority_events (run j calls d)) \<and>
   extends (receipts d) (receipts (run j calls d))"
  using extends_star [where log = snd, OF step_extends(1) run_exec [where d = d and j = j and calls = calls]]
    extends_star [where log = snd, OF step_extends(2) run_slices [where d = d and j = j and calls = calls]]
    extends_star [where log = snd, OF step_extends(3) run_writer [where d = d and j = j and calls = calls]]
    extends_star [where log = snd, OF step_extends(4) run_authority [where d = d and j = j and calls = calls]]
    extends_star [where log = receipts, OF performed_receipts run_performed [where d = d and j = j and calls = calls]]
  by (simp add: exec_view_def slice_view_def writer_view_def authority_view_def)

text \<open>
  C8. What identifies an execution (slice, risk, environment, fingerprints, source root, branch,
  base commit, rework limit, creation) never changes, and its state version, lease generation
  and rework count never fall.
\<close>

theorem run_keeps_identity:
  assumes "find_execution i d = Some r"
  shows "\<exists>r'. find_execution i (run j calls d) = Some r' \<and> same_identity r r'
    \<and> ex_state_version r \<le> ex_state_version r' \<and> ex_lease_generation r \<le> ex_lease_generation r'
    \<and> ex_maker_rework_count r \<le> ex_maker_rework_count r'"
proof (rule row_of_run [OF _ assms])
  fix m es m' es'
  assume "(exec_step UNIV)\<^sup>*\<^sup>* (m, es) (m', es')" "m i = Some r" "ex_id r = i"
  from identity_along [OF this] generation_along [OF this]
  show "\<exists>r'. m' i = Some r' \<and> ex_id r' = i \<and> same_identity r r' \<and> ex_state_version r \<le> ex_state_version r'
      \<and> ex_lease_generation r \<le> ex_lease_generation r' \<and> ex_maker_rework_count r \<le> ex_maker_rework_count r'"
    by auto
qed

theorem run_keeps_identity_witness:
  "\<exists>r'. find_execution ''x1'' (run id [(demo_ctx 3, Transition (demo_transition 5 1 VERIFYING))] (demo_db MAKER_RUNNING 1)) = Some r'
    \<and> same_identity (demo_row MAKER_RUNNING 1) r'
    \<and> 1 \<le> ex_state_version r' \<and> 1 \<le> ex_lease_generation r' \<and> 0 \<le> ex_maker_rework_count r'"
  using run_keeps_identity [OF demo_found, of id "[(demo_ctx 3, Transition (demo_transition 5 1 VERIFYING))]" MAKER_RUNNING 1]
  by (simp add: demo_row_def created_execution_def)

text \<open>
  C9. \<open>ACCEPTED\<close>, \<open>CANCELLED\<close> and \<open>DESIGN_ESCALATION\<close> are final: whatever is called afterwards,
  the execution stays in its terminal state.
\<close>

theorem run_terminal_final:
  assumes "find_execution i d = Some r" and "ex_state r \<in> terminal_states"
  shows "map_option ex_state (find_execution i (run j calls d)) = Some (ex_state r)"
proof -
  have "\<exists>r'. find_execution i (run j calls d) = Some r' \<and> ex_state r' = ex_state r"
    by (rule row_of_run [OF _ assms(1)]) (rule terminal_along [OF _ _ _ assms(2)])
  then show ?thesis by auto
qed

theorem run_terminal_final_witness:
  "map_option ex_state (find_execution ''x1''
     (run id [(demo_ctx 3, Transition (demo_transition 5 1 MAKER_RUNNING))] (demo_db CANCELLED 1))) = Some CANCELLED"
  using run_terminal_final [OF demo_found, of CANCELLED 1 id "[(demo_ctx 3, Transition (demo_transition 5 1 MAKER_RUNNING))]"]
  by (simp add: terminal_states_def)

section \<open>Fencing\<close>

text \<open>
  C11. A call that presents a lease generation that has been overtaken changes nothing, however much
  later it arrives and whatever ran in between: once an execution's lease has been acquired
  again, its former holder can no longer renew, release, transition, register, approve, rework,
  accept, finalise, seal, complete an attempt, or write anything under a candidate fence. This holds
  of every way to present a generation: the arguments of the call, its candidate write fence, and
  the optional lease of a completion.
\<close>

theorem overtaken_lease_changes_nothing:
  assumes "find_execution i d = Some r" and "g < ex_lease_generation r" and "(i, g) \<in> set (leases_of_call (run j calls d) k)"
  shows "perform c k (run j calls d) = run j calls d"
proof (rule ccontr)
  assume changed: "perform c k (run j calls d) \<noteq> run j calls d"
  from fenced_call [OF this assms(3)] obtain r1 where
    "find_execution i (run j calls d) = Some r1" "ex_lease_generation r1 = g" by auto
  with run_generation [OF assms(1), of j calls] assms(2) show False by auto
qed

theorem overtaken_lease_changes_nothing_witness:
  "perform (demo_ctx 9) (Transition (demo_transition 5 1 VERIFYING \<lparr>tq_generation := 0\<rparr>))
     (run id [(demo_ctx 3, Heartbeat ''x1'' 1 ''controller-1'' 1 60)] (demo_db MAKER_RUNNING 1))
   = run id [(demo_ctx 3, Heartbeat ''x1'' 1 ''controller-1'' 1 60)] (demo_db MAKER_RUNNING 1)"
  by (rule overtaken_lease_changes_nothing [OF demo_found, where g = 0]) (simp_all add: demo_transition_def)

text \<open>
  C12. In a store that requires the global writer, an ordinary call bound to a fencing token that
  has been overtaken changes nothing, however much later it arrives.
\<close>

theorem overtaken_writer_changes_nothing:
  assumes "t < view_token (writer_view d)" and "guard_required c" and "bound_authority c = Some (owner, t)"
    and "ordinary k"
  shows "perform c k (run j calls d) = run j calls d"
proof (rule ccontr)
  assume "perform c k (run j calls d) \<noteq> run j calls d"
  from perform_cases(2) [OF this assms(4)] have "view_token (writer_view (run j calls d)) = t"
    using guard_token assms(2,3) by blast
  with run_token [of d j calls] assms(1) show False by simp
qed

theorem overtaken_writer_changes_nothing_witness:
  "perform (demo_ctx 9\<lparr>guard_required := True, bound_authority := Some (''w'', 4)\<rparr>)
     (CreateExecution demo_create (demo_key 3)) (run id [] (initial_db\<lparr>writer := Some (freed_at 5 0)\<rparr>))
   = run id [] (initial_db\<lparr>writer := Some (freed_at 5 0)\<rparr>)"
  by (rule overtaken_writer_changes_nothing) (simp_all add: writer_view_def freed_at_def)

text \<open>
  C13. A candidate fence taken under an authority generation that has been overtaken is refused
  in every later state, whichever execution it names.
\<close>

theorem overtaken_authority_fence_refused:
  assumes "authority d = Some a" and "cf_authority_generation f < au_generation a"
  shows "\<exists>e. require_candidate_fence c n i f check (run j calls d) = Inl e"
proof (cases "require_candidate_fence c n i f check (run j calls d)")
  case (Inr r)
  from require_candidate_fence_Inr(5) [OF this] obtain b where
    b: "authority (run j calls d) = Some b" "au_generation b = cf_authority_generation f" by auto
  have "view_generation (authority_view d) \<le> view_generation (authority_view (run j calls d))"
    by (rule authority_generation.grows_star [OF run_authority])
  with assms b show ?thesis by (simp add: authority_view_def)
qed simp

theorem overtaken_authority_fence_refused_witness:
  "\<exists>e. require_candidate_fence (demo_ctx 3) 1 ''x1'' \<lparr>cf_execution_id = ''x1'', cf_expected_version = 1,
       cf_owner = ''controller-1'', cf_generation = 1, cf_authority_generation = 2,
       cf_contract_fingerprint = demo_key 1, cf_authority_fingerprint = demo_key 2\<rparr> True
     (run id [] (demo_db VERIFYING 1\<lparr>authority := Some (initial_authority\<lparr>au_generation := 3\<rparr>)\<rparr>)) = Inl e"
  by (rule overtaken_authority_fence_refused [where a = "initial_authority\<lparr>au_generation := 3\<rparr>"]) simp_all

section \<open>Approvals and slices along runs\<close>

text \<open>
  C14. An approval keeps its identity, is resolved at most once and consumed at most once, and is
  only ever consumed when approved: what has been decided or consumed is never undone.
\<close>

theorem run_approval_final:
  assumes "find_approval a d = Some p"
  shows "\<exists>p'. find_approval a (run j calls d) = Some p' \<and> approval_later p p'"
  using approval_along [OF run_approvals, of d a p j calls] assms by (simp add: approval_view_def)

theorem run_approval_final_witness:
  "\<exists>p'. find_approval ''a1'' (run id [(demo_ctx 5, ResolveApproval ''a1'' ''x1'' ''ref'' False None)]
       (demo_db VERIFYING 1\<lparr>approvals := [demo_approval]\<rparr>)) = Some p' \<and> approval_later demo_approval p'"
  by (rule run_approval_final) (simp add: find_approval_def demo_approval_def)

text \<open>
  C15. From any state, a slice stays registered, its version never falls, and the execution it is bound to stays its active execution unless a
  \<open>PREEXECUTION_RELEASE\<close> of that slice has been logged since.
\<close>

theorem run_keeps_slice_binding:
  assumes "r \<in> set (slices d)"
  shows "\<exists>r'\<in>set (slices (run j calls d)). \<exists>since. slice_events (run j calls d) = slice_events d @ since
    \<and> binding_later r r' since"
  using binding_along [OF run_slices [unfolded slice_view_def, of d] assms] by (simp add: slice_view_def)

theorem run_keeps_slice_binding_witness:
  "\<exists>r'\<in>set (slices (run id [(demo_ctx 5, ReconcileAuthority 0 (demo_key 8) (demo_key 9))]
        (initial_db\<lparr>slices := [demo_slice]\<rparr>))).
     \<exists>since. slice_events (run id [(demo_ctx 5, ReconcileAuthority 0 (demo_key 8) (demo_key 9))]
        (initial_db\<lparr>slices := [demo_slice]\<rparr>)) = slice_events (initial_db\<lparr>slices := [demo_slice]\<rparr>) @ since
     \<and> binding_later demo_slice r' since"
  by (rule run_keeps_slice_binding) simp

text \<open>
  C6. In every reachable state each closure of a candidate is sound: it rests on a bound approval
  and a passing evaluation of exactly its execution, candidate and content, its approval is a
  development acceptance that was approved and that the closure itself used up, and no two
  closures share an identifier, an execution, a candidate, an approval, an evaluation or a commit.
\<close>

theorem run_closures_sound: "closures_sound (closure_view (run j calls initial_db))"
  by (rule closure_system.run_keeps [OF run_performed]) (simp add: closure_view_def initial_db_def)

section \<open>Refused calls\<close>

text \<open>
  C10. A call that reports an error has left no trace: whatever is asked of the store, except of
  the global writer lease itself, the answer is a failure only if the database is untouched.
\<close>

theorem failed_call_leaves_no_trace:
  assumes "ordinary k" and "failed c k d"
  shows "perform c k d = d"
  by (rule failed_without_trace [OF assms])

theorem failed_call_leaves_no_trace_witness:
  "failed (demo_ctx 9) (Transition (demo_transition 5 2 VERIFYING)) (demo_db MAKER_RUNNING 1)
   \<and> perform (demo_ctx 9) (Transition (demo_transition 5 2 VERIFYING)) (demo_db MAKER_RUNNING 1) = demo_db MAKER_RUNNING 1"
proof -
  have "failed (demo_ctx 9) (Transition (demo_transition 5 2 VERIFYING)) (demo_db MAKER_RUNNING 1)" by code_simp
  from failed_call_leaves_no_trace [OF _ this] this show ?thesis by simp
qed

end
